(* ===== verification/Prelude.thy ===== *)
theory Prelude
  imports Main
begin

text \<open>
  Shared vocabulary of the development: text, time, dictionaries, results and the lemmas
  about them that every component uses.

  \<^item> Text is \<open>string\<close>, one \<open>char\<close> per code point; code points above 255 are outside the model.
  \<^item> A Python \<open>dict\<close> is an insertion-ordered association list (\<open>('k, 'v) dict\<close>) with
    \<open>dget\<close>, \<open>dset\<close> and \<open>dpop\<close>, so that iteration order is the order the code sees; equality of
    dictionaries is \<open>dict_eq\<close>, which ignores order as Python's \<open>==\<close> does.
  \<^item> A function that may raise returns \<open>exc + 'a\<close>; \<open>Inl\<close> is the raised exception.
  \<^item> A point in time is an \<open>int\<close> (microseconds); comparison and addition of seconds are all
    the code uses of it.
\<close>

named_theorems py_simps "unfoldings of the Python-level helpers"

type_synonym time = int

abbreviation seconds :: "int \<Rightarrow> time" where
  "seconds n \<equiv> n * 1000000"

subsection \<open>Results\<close>

definition bindE :: "'e + 'a \<Rightarrow> ('a \<Rightarrow> 'e + 'b) \<Rightarrow> 'e + 'b" where
  "bindE r f = (case r of Inl e \<Rightarrow> Inl e | Inr x \<Rightarrow> f x)"

lemma bindE_simps [simp]:
  "bindE (Inl e) f = Inl e"
  "bindE (Inr x) f = f x"
  by (simp_all add: bindE_def)

lemma bindE_Inr_iff:
  "bindE r f = Inr y \<longleftrightarrow> (\<exists>x. r = Inr x \<and> f x = Inr y)"
  by (cases r) auto

lemma bindE_Inl_iff:
  "bindE r f = Inl e \<longleftrightarrow> r = Inl e \<or> (\<exists>x. r = Inr x \<and> f x = Inl e)"
  by (cases r) auto

text \<open>\<open>require c e\<close> is the code's \<open>if not c: raise e\<close>.\<close>

definition require :: "bool \<Rightarrow> 'e \<Rightarrow> 'e + unit" where
  "require c e = (if c then Inr () else Inl e)"

lemma require_simps [simp]:
  "require c e = Inr u \<longleftrightarrow> c"
  "require c e = Inl e' \<longleftrightarrow> \<not> c \<and> e' = e"
  "require True e = Inr ()"
  "require False e = Inl e"
  by (auto simp: require_def)

text \<open>A \<open>for\<close> loop whose body only raises.\<close>

fun each :: "('a \<Rightarrow> 'e + unit) \<Rightarrow> 'a list \<Rightarrow> 'e + unit" where
  "each f [] = Inr ()"
| "each f (x # xs) = bindE (f x) (\<lambda>_. each f xs)"

lemma each_Inr_iff [simp]: "each f xs = Inr u \<longleftrightarrow> (\<forall>x \<in> set xs. f x = Inr ())"
  by (induction xs) (auto simp: bindE_Inr_iff)

lemma each_Inl: "each f xs = Inl e \<Longrightarrow> \<exists>x \<in> set xs. f x = Inl e"
  by (induction xs) (auto simp: bindE_Inl_iff)

definition of_option :: "'e \<Rightarrow> 'a option \<Rightarrow> 'e + 'a" where
  "of_option e r = (case r of None \<Rightarrow> Inl e | Some x \<Rightarrow> Inr x)"

lemma of_option_simps [simp]:
  "of_option e (Some x) = Inr x"
  "of_option e None = Inl e"
  "of_option e r = Inr x \<longleftrightarrow> r = Some x"
  "of_option e r = Inl e' \<longleftrightarrow> r = None \<and> e' = e"
  by (auto simp: of_option_def split: option.splits)

subsection \<open>Dictionaries\<close>

type_synonym ('k, 'v) dict = "('k \<times> 'v) list"

abbreviation dget :: "('k, 'v) dict \<Rightarrow> 'k \<Rightarrow> 'v option" where
  "dget d \<equiv> map_of d"

abbreviation dkeys :: "('k, 'v) dict \<Rightarrow> 'k list" where
  "dkeys d \<equiv> List.map fst d"

abbreviation dvalues :: "('k, 'v) dict \<Rightarrow> 'v list" where
  "dvalues d \<equiv> List.map snd d"

fun dset :: "'k \<Rightarrow> 'v \<Rightarrow> ('k, 'v) dict \<Rightarrow> ('k, 'v) dict" where
  "dset k v [] = [(k, v)]"
| "dset k v ((k', v') # d) = (if k' = k then (k, v) # d else (k', v') # dset k v d)"

definition dpop :: "'k \<Rightarrow> ('k, 'v) dict \<Rightarrow> ('k, 'v) dict" where
  "dpop k d = filter (\<lambda>p. fst p \<noteq> k) d"

abbreviation dwf :: "('k, 'v) dict \<Rightarrow> bool" where
  "dwf d \<equiv> distinct (dkeys d)"

lemma dget_dset: "dget (dset k v d) = (dget d)(k := Some v)"
  by (induction k v d rule: dset.induct) (auto simp: fun_eq_iff)

lemma dget_dset_apply [simp]: "dget (dset k v d) x = (if x = k then Some v else dget d x)"
  by (simp add: dget_dset)

lemma fst_set_dset [simp]: "fst ` set (dset k v d) = insert k (fst ` set d)"
  by (induction k v d rule: dset.induct) auto

lemma dwf_dset [simp]: "dwf d \<Longrightarrow> dwf (dset k v d)"
  by (induction k v d rule: dset.induct) auto

lemma dget_dpop: "dget (dpop k d) = (dget d)(k := None)"
  by (induction d) (auto simp: dpop_def fun_eq_iff)

lemma dget_dpop_apply [simp]: "dget (dpop k d) x = (if x = k then None else dget d x)"
  by (simp add: dget_dpop)

lemma fst_set_dpop [simp]: "fst ` set (dpop k d) = fst ` set d - {k}"
  by (induction d) (auto simp: dpop_def)

lemma dwf_dpop [simp]: "dwf d \<Longrightarrow> dwf (dpop k d)"
  by (simp add: dpop_def distinct_map_filter)

lemma dset_same: "dwf d \<Longrightarrow> dget d k = Some v \<Longrightarrow> dset k v d = d"
  by (induction k v d rule: dset.induct) auto

lemma dset_noop_keys: "k \<in> set (dkeys d) \<Longrightarrow> dkeys (dset k v d) = dkeys d"
  by (induction k v d rule: dset.induct) auto

lemma in_set_dset:
  "dwf d \<Longrightarrow> p \<in> set (dset k v d) \<longleftrightarrow> p = (k, v) \<or> (p \<in> set d \<and> fst p \<noteq> k)"
  by (induction k v d rule: dset.induct) force+

lemma in_set_dpop [simp]: "p \<in> set (dpop k d) \<longleftrightarrow> p \<in> set d \<and> fst p \<noteq> k"
  by (simp add: dpop_def)

lemma find_dvalues:
  "(\<And>k v. (k, v) \<in> set d \<Longrightarrow> h (f v) = k) \<Longrightarrow>
   find (\<lambda>x. h x = m) (List.map f (dvalues d)) = map_option f (dget d m)"
proof (induction d)
  case (Cons p d)
  obtain k v where p: "p = (k, v)" by (cases p)
  have "h (f v) = k" using Cons.prems by (simp add: p)
  moreover have "find (\<lambda>x. h x = m) (List.map f (dvalues d)) = map_option f (dget d m)"
    using Cons.prems by (intro Cons.IH) simp
  ultimately show ?case by (simp add: p)
qed simp

lemma map_of_filter_key: "map_of (filter (\<lambda>p. fst p = k) d) k = map_of d k"
  by (induction d) auto

text \<open>\<open>dict(sorted(d.items()))\<close> is the same mapping.\<close>

lemma dget_sort_key [simp]:
  fixes d :: "('k :: linorder, 'v) dict"
  shows "dget (sort_key fst d) = dget d"
proof
  fix k
  show "dget (sort_key fst d) k = dget d k"
    using map_of_filter_key [of k "sort_key fst d"] map_of_filter_key [of k d]
      sort_key_stable [of fst k d] by simp
qed

text \<open>Python's \<open>==\<close> on dictionaries: the same keys with the same values, in any order.\<close>

definition dict_eq :: "('k, 'v) dict \<Rightarrow> ('k, 'v) dict \<Rightarrow> bool" where
  "dict_eq a b \<longleftrightarrow> list_all (\<lambda>k. dget a k = dget b k) (dkeys a @ dkeys b)"

lemma dict_eq_iff: "dict_eq a b \<longleftrightarrow> dget a = dget b"
proof
  assume "dict_eq a b"
  then have eq: "\<forall>k \<in> set (dkeys a) \<union> set (dkeys b). dget a k = dget b k"
    by (simp add: dict_eq_def list_all_iff ball_Un)
  show "dget a = dget b"
  proof
    fix k
    show "dget a k = dget b k"
    proof (cases "k \<in> set (dkeys a) \<union> set (dkeys b)")
      case True
      then show ?thesis using eq by blast
    next
      case False
      then show ?thesis by (metis Un_iff map_of_eq_None_iff set_map)
    qed
  qed
qed (auto simp: dict_eq_def list_all_iff)

lemma dict_eq_refl [simp]: "dict_eq a a"
  by (simp add: dict_eq_iff)

lemma dict_eq_sym: "dict_eq a b \<Longrightarrow> dict_eq b a"
  by (simp add: dict_eq_iff)

lemma dict_eq_trans: "dict_eq a b \<Longrightarrow> dict_eq b c \<Longrightarrow> dict_eq a c"
  by (simp add: dict_eq_iff)

text \<open>
  The interface of a keyed store, as the components that keep one use it: \<open>lkp\<close> reads a key,
  \<open>ups\<close> inserts or replaces, \<open>del\<close> removes, \<open>ok\<close> is the store's representation invariant.
\<close>

locale keyed_store =
  fixes lkp :: "'s \<Rightarrow> 'k \<Rightarrow> 'v option"
    and ups :: "'k \<Rightarrow> 'v \<Rightarrow> 's \<Rightarrow> 's"
    and del :: "'k \<Rightarrow> 's \<Rightarrow> 's"
    and ok :: "'s \<Rightarrow> bool"
  assumes lkp_ups: "ok s \<Longrightarrow> lkp (ups k v s) k' = (if k' = k then Some v else lkp s k')"
    and lkp_del: "ok s \<Longrightarrow> lkp (del k s) k' = (if k' = k then None else lkp s k')"
    and ok_ups: "ok s \<Longrightarrow> ok (ups k v s)"
    and ok_del: "ok s \<Longrightarrow> ok (del k s)"
begin

lemma read_your_write: "ok s \<Longrightarrow> lkp (ups k v s) k = Some v"
  by (simp add: lkp_ups)

lemma write_frame: "ok s \<Longrightarrow> k' \<noteq> k \<Longrightarrow> lkp (ups k v s) k' = lkp s k'"
  by (simp add: lkp_ups)

lemma last_write_wins: "ok s \<Longrightarrow> lkp (ups k w (ups k v s)) = lkp (ups k w s)"
  by (auto simp: fun_eq_iff lkp_ups ok_ups)

lemma writes_commute:
  "ok s \<Longrightarrow> k \<noteq> k' \<Longrightarrow> lkp (ups k v (ups k' v' s)) = lkp (ups k' v' (ups k v s))"
  by (auto simp: fun_eq_iff lkp_ups ok_ups)

lemma delete_idempotent: "ok s \<Longrightarrow> lkp (del k (del k s)) = lkp (del k s)"
  by (auto simp: fun_eq_iff lkp_del ok_del)

lemma delete_fresh: "ok s \<Longrightarrow> lkp s k = None \<Longrightarrow> lkp (del k s) = lkp s"
  by (auto simp: fun_eq_iff lkp_del)

lemma delete_after_write: "ok s \<Longrightarrow> lkp (del k (ups k v s)) = lkp (del k s)"
  by (auto simp: fun_eq_iff lkp_ups lkp_del ok_ups)

end

interpretation dict_store: keyed_store dget dset dpop dwf
  by unfold_locales (auto simp: dwf_dset dwf_dpop)

subsection \<open>Text\<close>

text \<open>
  \<open>str.isspace\<close>, \<open>str.strip\<close> and \<open>str.lower\<close> on code points below 256. Lower-casing maps A-Z
  and the Latin-1 capitals (192 to 222 without the multiplication sign 215).
\<close>

definition py_isspace :: "char \<Rightarrow> bool" where
  "py_isspace c = (let n = of_char c :: nat in
     (9 \<le> n \<and> n \<le> 13) \<or> (28 \<le> n \<and> n \<le> 32) \<or> n = 133 \<or> n = 160)"

definition py_strip :: "string \<Rightarrow> string" where
  "py_strip s = rev (dropWhile py_isspace (rev (dropWhile py_isspace s)))"

definition py_lower_char :: "char \<Rightarrow> char" where
  "py_lower_char c = (let n = of_char c :: nat in
     if (65 \<le> n \<and> n \<le> 90) \<or> (192 \<le> n \<and> n \<le> 222 \<and> n \<noteq> 215) then char_of (n + 32) else c)"

definition py_lower :: "string \<Rightarrow> string" where
  "py_lower s = List.map py_lower_char s"

text \<open>\<open>blank s\<close> is the code's recurring test \<open>not s or not s.strip()\<close>.\<close>

definition blank :: "string \<Rightarrow> bool" where
  "blank s \<longleftrightarrow> s = [] \<or> py_strip s = []"

lemma py_strip_Nil_iff: "py_strip s = [] \<longleftrightarrow> list_all py_isspace s"
proof
  assume "py_strip s = []"
  then have "\<forall>c \<in> set (dropWhile py_isspace s). py_isspace c"
    by (simp add: py_strip_def dropWhile_eq_Nil_conv)
  then have "dropWhile py_isspace s = []"
    by (metis hd_dropWhile hd_in_set)
  then show "list_all py_isspace s"
    by (simp add: dropWhile_eq_Nil_conv list_all_iff)
next
  assume "list_all py_isspace s"
  then have "dropWhile py_isspace s = []"
    by (simp add: dropWhile_eq_Nil_conv list_all_iff)
  then show "py_strip s = []" unfolding py_strip_def by (metis dropWhile.simps(1) rev.simps(1))
qed

lemma blank_iff: "blank s \<longleftrightarrow> list_all py_isspace s"
  by (auto simp: blank_def py_strip_Nil_iff)

lemma py_isspace_space [simp]: "py_isspace (CHR '' '')"
  by (simp add: py_isspace_def)

text \<open>\<open>sep.join(parts)\<close> and \<open>text.split(sep)\<close> for a one-character separator.\<close>

fun join :: "string \<Rightarrow> string list \<Rightarrow> string" where
  "join sep [] = []"
| "join sep [x] = x"
| "join sep (x # y # xs) = x @ sep @ join sep (y # xs)"

fun split_acc :: "char \<Rightarrow> string \<Rightarrow> string \<Rightarrow> string list" where
  "split_acc c acc [] = [rev acc]"
| "split_acc c acc (x # xs) =
     (if x = c then rev acc # split_acc c [] xs else split_acc c (x # acc) xs)"

definition split :: "char \<Rightarrow> string \<Rightarrow> string list" where
  "split c s = split_acc c [] s"

lemma split_acc_no_sep: "c \<notin> set p \<Longrightarrow> split_acc c acc p = [rev acc @ p]"
  by (induction p arbitrary: acc) auto

lemma split_acc_append:
  "c \<notin> set p \<Longrightarrow> split_acc c acc (p @ c # s) = (rev acc @ p) # split_acc c [] s"
  by (induction p arbitrary: acc) auto

lemma split_no_sep: "c \<notin> set p \<Longrightarrow> split c p = [p]"
  by (simp add: split_def split_acc_no_sep)

lemma split_cons: "c \<notin> set p \<Longrightarrow> split c (p @ c # s) = p # split c s"
  by (simp add: split_def split_acc_append)

lemma split_join:
  "parts \<noteq> [] \<Longrightarrow> \<forall>p \<in> set parts. c \<notin> set p \<Longrightarrow> split c (join [c] parts) = parts"
  by (induction "[c]" parts rule: join.induct) (auto simp: split_cons split_no_sep)

lemma split_nonempty [simp]: "split c s \<noteq> []"
proof -
  have "split_acc c acc s \<noteq> []" for acc
    by (induction s arbitrary: acc) auto
  then show ?thesis by (simp add: split_def)
qed

lemma set_join: "set (join sep parts) \<subseteq> set sep \<union> (\<Union>p \<in> set parts. set p)"
  by (induction sep parts rule: join.induct) auto

end
