(* ===== verification/PyIp.thy ===== *)
theory PyIp
  imports Prelude
begin

text \<open>
  The part of Python's standard module \<open>ipaddress\<close> (Python 3.12) that the program uses:
  \<open>ip_address\<close>, \<open>ip_network\<close>, \<open>int(a)\<close>, \<open>str(a)\<close>, \<open>a in net\<close>, and the network and
  broadcast address of a network, for both address families. A failing constructor
  (\<open>ValueError\<close>) is \<open>None\<close>. The lemmas show that \<open>str\<close> and \<open>ip_address\<close> are inverse on every
  IPv4 address and every IPv6 address without a scope id.
\<close>

subsection \<open>Numerals\<close>

function digits :: "nat \<Rightarrow> nat \<Rightarrow> nat list" where
  "digits b n = (if b < 2 \<or> n < b then [n] else digits b (n div b) @ [n mod b])"
  by pat_completeness auto
termination
  by (relation "measure snd") auto

declare digits.simps [simp del]

definition digit_char :: "nat \<Rightarrow> char" where
  "digit_char d = ''0123456789abcdef'' ! d"

text \<open>\<open>str(n)\<close> of a natural number and \<open>'%x' % n\<close>.\<close>

definition str_nat :: "nat \<Rightarrow> string" where
  "str_nat n = List.map digit_char (digits 10 n)"

definition hex_nat :: "nat \<Rightarrow> string" where
  "hex_nat n = List.map digit_char (digits 16 n)"

definition str_int :: "int \<Rightarrow> string" where
  "str_int i = (if i < 0 then CHR ''-'' # str_nat (nat (- i)) else str_nat (nat i))"

definition dec_digit :: "char \<Rightarrow> nat option" where
  "dec_digit c = (let n = of_char c :: nat in if 48 \<le> n \<and> n \<le> 57 then Some (n - 48) else None)"

definition hex_digit :: "char \<Rightarrow> nat option" where
  "hex_digit c = (let n = of_char c :: nat in
     if 48 \<le> n \<and> n \<le> 57 then Some (n - 48)
     else if 97 \<le> n \<and> n \<le> 102 then Some (n - 87)
     else if 65 \<le> n \<and> n \<le> 70 then Some (n - 55) else None)"

abbreviation is_digit :: "char \<Rightarrow> bool" where
  "is_digit c \<equiv> dec_digit c \<noteq> None"

fun num_val :: "(char \<Rightarrow> nat option) \<Rightarrow> nat \<Rightarrow> nat \<Rightarrow> string \<Rightarrow> nat option" where
  "num_val dg b acc [] = Some acc"
| "num_val dg b acc (c # cs) =
     (case dg c of None \<Rightarrow> None | Some d \<Rightarrow> num_val dg b (b * acc + d) cs)"

subsection \<open>Addresses\<close>

text \<open>The value of an \<open>IPv4Address\<close> and of an \<open>IPv6Address\<close> with its scope id.\<close>

datatype ip = V4 nat | V6 nat "string option"

fun ip_int :: "ip \<Rightarrow> nat" where
  "ip_int (V4 n) = n"
| "ip_int (V6 n _) = n"

fun same_family :: "ip \<Rightarrow> ip \<Rightarrow> bool" where
  "same_family (V4 _) (V4 _) = True"
| "same_family (V6 _ _) (V6 _ _) = True"
| "same_family _ _ = False"

definition parse_octet :: "string \<Rightarrow> nat option" where
  "parse_octet s =
     (if s = [] \<or> \<not> list_all is_digit s \<or> 3 < length s then None
      else if s \<noteq> ''0'' \<and> hd s = CHR ''0'' then None
      else case num_val dec_digit 10 0 s of
             None \<Rightarrow> None
           | Some n \<Rightarrow> if 255 < n then None else Some n)"

definition parse_v4 :: "string \<Rightarrow> nat option" where
  "parse_v4 s =
     (if CHR ''/'' \<in> set s then None
      else case List.map parse_octet (split (CHR ''.'') s) of
             [Some a, Some b, Some c, Some d] \<Rightarrow> Some (((a * 256 + b) * 256 + c) * 256 + d)
           | _ \<Rightarrow> None)"

definition parse_hextet :: "string \<Rightarrow> nat option" where
  "parse_hextet s = (if s = [] \<or> 4 < length s then None else num_val hex_digit 16 0 s)"

fun hextets_val :: "nat \<Rightarrow> string list \<Rightarrow> nat option" where
  "hextets_val acc [] = Some acc"
| "hextets_val acc (p # ps) =
     (case parse_hextet p of None \<Rightarrow> None | Some h \<Rightarrow> hextets_val (acc * 65536 + h) ps)"

text \<open>The indices \<open>1 .. len - 2\<close> that hold an empty part: where \<open>::\<close> was written.\<close>

fun gaps :: "nat \<Rightarrow> string list \<Rightarrow> nat list" where
  "gaps i (p # q # ps) = (if p = [] then i # gaps (Suc i) (q # ps) else gaps (Suc i) (q # ps))"
| "gaps i _ = []"

definition v6_groups :: "string list \<Rightarrow> nat option" where
  "v6_groups parts =
     (let n = length parts in
      case gaps 1 (tl parts) of
        [] \<Rightarrow> if n \<noteq> 8 \<or> hd parts = [] \<or> last parts = [] then None else hextets_val 0 parts
      | [k] \<Rightarrow>
          if hd parts = [] \<and> k \<noteq> 1 then None
          else if last parts = [] \<and> n - k - 1 \<noteq> 1 then None
          else let hi = (if hd parts = [] then 0 else k);
                   lo = (if last parts = [] then 0 else n - k - 1)
               in if 7 < hi + lo then None
                  else case hextets_val 0 (take hi parts) of
                         None \<Rightarrow> None
                       | Some v \<Rightarrow> hextets_val (v * 65536 ^ (8 - (hi + lo))) (drop (n - lo) parts)
      | _ \<Rightarrow> None)"

definition parse_v6_int :: "string \<Rightarrow> nat option" where
  "parse_v6_int s =
     (let parts = split (CHR '':'') s in
      if length parts < 3 then None
      else case (if CHR ''.'' \<in> set (last parts)
                 then case parse_v4 (last parts) of
                        None \<Rightarrow> None
                      | Some q \<Rightarrow> Some (butlast parts @ [hex_nat (q div 65536), hex_nat (q mod 65536)])
                 else Some parts) of
             None \<Rightarrow> None
           | Some ps \<Rightarrow> if 9 < length ps then None else v6_groups ps)"

definition split_scope :: "string \<Rightarrow> (string \<times> string option) option" where
  "split_scope s =
     (let a = takeWhile (\<lambda>c. c \<noteq> CHR ''%'') s; r = dropWhile (\<lambda>c. c \<noteq> CHR ''%'') s in
      case r of
        [] \<Rightarrow> Some (a, None)
      | _ # sc \<Rightarrow> if sc = [] \<or> CHR ''%'' \<in> set sc then None else Some (a, Some sc))"

definition parse_v6 :: "string \<Rightarrow> (nat \<times> string option) option" where
  "parse_v6 s =
     (if CHR ''/'' \<in> set s then None
      else case split_scope s of
             None \<Rightarrow> None
           | Some (a, sc) \<Rightarrow> (case parse_v6_int a of None \<Rightarrow> None | Some n \<Rightarrow> Some (n, sc)))"

definition ip_address :: "string \<Rightarrow> ip option" where
  "ip_address s =
     (case parse_v4 s of
        Some n \<Rightarrow> Some (V4 n)
      | None \<Rightarrow> (case parse_v6 s of Some (n, sc) \<Rightarrow> Some (V6 n sc) | None \<Rightarrow> None))"

subsection \<open>Text of an address\<close>

definition v4_octets :: "nat \<Rightarrow> nat list" where
  "v4_octets n = [n div 16777216, n div 65536 mod 256, n div 256 mod 256, n mod 256]"

definition v6_hextets :: "nat \<Rightarrow> nat list" where
  "v6_hextets n = List.map (\<lambda>i. n div 65536 ^ i mod 65536) [7, 6, 5, 4, 3, 2, 1, 0]"

text \<open>The longest run of \<open>'0'\<close> groups, the leftmost among equals, as (start, length).\<close>

fun zero_run :: "string list \<Rightarrow> nat \<Rightarrow> nat \<times> nat \<Rightarrow> nat \<times> nat \<Rightarrow> nat \<times> nat" where
  "zero_run [] i best cur = best"
| "zero_run (h # hs) i best cur =
     (if h = ''0'' then
        let cur' = (if snd cur = 0 then (i, 1) else (fst cur, Suc (snd cur)))
        in zero_run hs (Suc i) (if snd best < snd cur' then cur' else best) cur'
      else zero_run hs (Suc i) best (0, 0))"

definition compress_hextets :: "string list \<Rightarrow> string list" where
  "compress_hextets hs =
     (let (s, l) = zero_run hs 0 (0, 0) (0, 0) in
      if l \<le> 1 then hs
      else (if s = 0 then [[]] else []) @ take s hs @ [[]] @ drop (s + l) hs
           @ (if s + l = length hs then [[]] else []))"

fun str_ip :: "ip \<Rightarrow> string" where
  "str_ip (V4 n) = join ''.'' (List.map str_nat (v4_octets n))"
| "str_ip (V6 n sc) =
     join '':'' (compress_hextets (List.map hex_nat (v6_hextets n)))
     @ (case sc of None \<Rightarrow> [] | Some z \<Rightarrow> CHR ''%'' # z)"

fun ip_wf :: "ip \<Rightarrow> bool" where
  "ip_wf (V4 n) \<longleftrightarrow> n < 4294967296"
| "ip_wf (V6 n sc) \<longleftrightarrow> n < 340282366920938463463374607431768211456 \<and> sc = None"

subsection \<open>Networks\<close>

text \<open>\<open>network_address\<close> and \<open>prefixlen\<close>.\<close>

datatype ipnet = IpNet (nw_addr: ip) (nw_plen: nat)

fun ip_bits :: "ip \<Rightarrow> nat" where
  "ip_bits (V4 _) = 32"
| "ip_bits (V6 _ _) = 128"

definition host_count :: "ipnet \<Rightarrow> nat" where
  "host_count net = 2 ^ (ip_bits (nw_addr net) - nw_plen net)"

definition prefix_of_text :: "nat \<Rightarrow> string \<Rightarrow> nat option" where
  "prefix_of_text mx s =
     (if s = [] \<or> \<not> list_all is_digit s then None
      else case num_val dec_digit 10 0 s of
             None \<Rightarrow> None
           | Some p \<Rightarrow> if mx < p then None else Some p)"

text \<open>A dotted-quad netmask, or a host mask, that is a prefix.\<close>

definition prefix_of_mask :: "nat \<Rightarrow> nat option" where
  "prefix_of_mask m = List.find (\<lambda>p. m = 4294967296 - 2 ^ (32 - p)) [0..<33]"

definition v4_prefix :: "string \<Rightarrow> nat option" where
  "v4_prefix s =
     (case prefix_of_text 32 s of
        Some p \<Rightarrow> Some p
      | None \<Rightarrow>
          (case List.map parse_octet (split (CHR ''.'') s) of
             [Some a, Some b, Some c, Some d] \<Rightarrow>
               (let m = ((a * 256 + b) * 256 + c) * 256 + d in
                case prefix_of_mask m of
                  Some p \<Rightarrow> Some p
                | None \<Rightarrow> prefix_of_mask (4294967295 - m))
           | _ \<Rightarrow> None))"

text \<open>\<open>_BaseNetwork.__init__\<close>: host bits are an error when \<open>strict\<close>, cleared otherwise.\<close>

definition mk_net :: "bool \<Rightarrow> ip \<Rightarrow> nat \<Rightarrow> ipnet option" where
  "mk_net strict a p =
     (let h = 2 ^ (ip_bits a - p); n = ip_int a in
      if n mod h = 0 then Some (IpNet a p)
      else if strict then None
      else Some (IpNet (case a of V4 _ \<Rightarrow> V4 (n - n mod h) | V6 _ _ \<Rightarrow> V6 (n - n mod h) None) p))"

definition ip_network :: "string \<Rightarrow> bool \<Rightarrow> ipnet option" where
  "ip_network s strict =
     (let parts = split (CHR ''/'') s in
      if 2 < length parts then None
      else case (parse_v4 (hd parts),
                 if length parts = 1 then Some 32 else v4_prefix (parts ! 1)) of
             (Some n, Some p) \<Rightarrow> mk_net strict (V4 n) p
           | _ \<Rightarrow>
             (case (parse_v6 (hd parts),
                    if length parts = 1 then Some 128 else prefix_of_text 128 (parts ! 1)) of
                (Some (n, sc), Some p) \<Rightarrow> mk_net strict (V6 n sc) p
              | _ \<Rightarrow> None))"

definition in_net :: "ip \<Rightarrow> ipnet \<Rightarrow> bool" where
  "in_net a net \<longleftrightarrow>
     same_family a (nw_addr net) \<and>
     ip_int a - ip_int a mod host_count net = ip_int (nw_addr net)"

fun with_int :: "ip \<Rightarrow> nat \<Rightarrow> ip" where
  "with_int (V4 _) n = V4 n"
| "with_int (V6 _ _) n = V6 n None"

definition broadcast :: "ipnet \<Rightarrow> ip" where
  "broadcast net = with_int (nw_addr net) (ip_int (nw_addr net) + host_count net - 1)"

subsection \<open>Round trips\<close>

lemma digits_less: "n < b \<Longrightarrow> digits b n = [n]"
  by (simp add: digits.simps)

lemma digits_step: "2 \<le> b \<Longrightarrow> b \<le> n \<Longrightarrow> digits b n = digits b (n div b) @ [n mod b]"
  by (subst digits.simps) auto

lemma digits_bound: "2 \<le> b \<Longrightarrow> d \<in> set (digits b n) \<Longrightarrow> d < b"
proof (induction b n rule: digits.induct)
  case (1 b n)
  then show ?case
    by (cases "n < b") (auto simp: digits_less digits_step)
qed

lemma digits_nonempty [simp]: "digits b n \<noteq> []"
  by (subst digits.simps) simp

lemma length_digits: "2 \<le> b \<Longrightarrow> n < b ^ Suc k \<Longrightarrow> length (digits b n) \<le> Suc k"
proof (induction k arbitrary: n)
  case 0
  then show ?case by (simp add: digits_less)
next
  case (Suc k)
  show ?case
  proof (cases "n < b")
    case True
    then show ?thesis by (simp add: digits_less)
  next
    case False
    have "n div b < b ^ Suc k"
      using Suc.prems by (simp add: less_mult_imp_div_less mult.commute)
    then have "length (digits b (n div b)) \<le> Suc k" using Suc by blast
    then show ?thesis using False Suc.prems by (simp add: digits_step)
  qed
qed

lemma hd_digits: "2 \<le> b \<Longrightarrow> 0 < n \<Longrightarrow> hd (digits b n) \<noteq> 0"
proof (induction b n rule: digits.induct)
  case (1 b n)
  show ?case
  proof (cases "n < b")
    case True
    then show ?thesis using 1 by (simp add: digits_less)
  next
    case False
    then have "0 < n div b" using 1 by (simp add: div_greater_zero_iff)
    then show ?thesis using 1 False by (simp add: digits_step)
  qed
qed

lemma num_val_append:
  "num_val dg b acc (xs @ ys) =
     (case num_val dg b acc xs of None \<Rightarrow> None | Some a \<Rightarrow> num_val dg b a ys)"
  by (induction xs arbitrary: acc) (auto split: option.splits)

lemma num_val_digits:
  assumes b: "2 \<le> b" and dg: "\<And>d. d < b \<Longrightarrow> dg (digit_char d) = Some d"
  shows "num_val dg b 0 (List.map digit_char (digits b n)) = Some n"
  using b dg
proof (induction b n rule: digits.induct)
  case (1 b n)
  show ?case
  proof (cases "n < b")
    case True
    then show ?thesis using 1 by (simp add: digits_less)
  next
    case False
    then show ?thesis using 1
      by (simp add: digits_step num_val_append)
  qed
qed

lemma less_16: "d < 16 \<Longrightarrow> d \<in> {0, 1, 2, 3, 4, 5, 6, 7, 8, 9, 10, 11, 12, 13, 14, 15 :: nat}"
  by (simp only: insert_iff empty_iff) presburger

lemma digit_char_less_16: "d < 16 \<Longrightarrow> hex_digit (digit_char d) = Some d"
  by (drule less_16) (auto simp: hex_digit_def digit_char_def)

lemma digit_char_less_10: "d < 10 \<Longrightarrow> dec_digit (digit_char d) = Some d"
  using less_16 [of d] by (auto simp: dec_digit_def digit_char_def)

lemma digit_char_0: "digit_char 0 = CHR ''0''"
  by (simp add: digit_char_def)

lemma digit_char_zero: "d < 16 \<Longrightarrow> digit_char d = CHR ''0'' \<longleftrightarrow> d = 0"
  using digit_char_less_16 [of d] digit_char_less_16 [of 0] digit_char_0 by auto

lemma num_val_str_nat: "num_val dec_digit 10 0 (str_nat n) = Some n"
  unfolding str_nat_def by (rule num_val_digits) (auto simp: digit_char_less_10)

lemma num_val_hex_nat: "num_val hex_digit 16 0 (hex_nat n) = Some n"
  unfolding hex_nat_def by (rule num_val_digits) (auto simp: digit_char_less_16)

lemma str_nat_digits: "list_all is_digit (str_nat n)"
  by (auto simp: str_nat_def list_all_iff dest!: digits_bound [rotated] simp: digit_char_less_10)

lemma str_nat_inj: "str_nat m = str_nat n \<Longrightarrow> m = n"
  by (metis num_val_str_nat option.inject)

lemma str_nat_nonempty [simp]: "str_nat n \<noteq> []"
  by (simp add: str_nat_def)

lemma hex_nat_nonempty [simp]: "hex_nat n \<noteq> []"
  by (simp add: hex_nat_def)

lemma dot_not_digit [simp]: "dec_digit (CHR ''.'') = None" "dec_digit (CHR ''/'') = None"
    "dec_digit (CHR '':'') = None"
  by (simp_all add: dec_digit_def)

lemma not_hex [simp]: "hex_digit (CHR ''.'') = None" "hex_digit (CHR ''/'') = None"
    "hex_digit (CHR '':'') = None" "hex_digit (CHR ''%'') = None"
  by (simp_all add: hex_digit_def)

lemma str_nat_chars: "dec_digit c = None \<Longrightarrow> c \<notin> set (str_nat n)"
  using str_nat_digits [of n] by (auto simp: list_all_iff)

lemma hex_nat_chars: "hex_digit c = None \<Longrightarrow> c \<notin> set (hex_nat n)"
proof
  assume c: "hex_digit c = None" "c \<in> set (hex_nat n)"
  then obtain d where "d \<in> set (digits 16 n)" "c = digit_char d"
    by (auto simp: hex_nat_def)
  then have "hex_digit c = Some d"
    using digits_bound [of 16 d n] by (simp add: digit_char_less_16)
  with c show False by simp
qed

lemma parse_octet_str_nat: "n < 256 \<Longrightarrow> parse_octet (str_nat n) = Some n"
proof -
  assume n: "n < 256"
  have len: "length (str_nat n) \<le> 3"
    using length_digits [of 10 n 2] n by (simp add: str_nat_def)
  have "hd (str_nat n) = CHR ''0'' \<longrightarrow> str_nat n = ''0''"
  proof (cases "n = 0")
    case True
    then show ?thesis by (simp add: str_nat_def digits_less digit_char_0)
  next
    case False
    then have "hd (digits 10 n) \<noteq> 0" by (simp add: hd_digits)
    moreover have "hd (digits 10 n) < 10"
      by (rule digits_bound [of 10 _ n]) (auto simp: hd_in_set)
    ultimately show ?thesis
      by (simp add: str_nat_def hd_map digit_char_zero)
  qed
  then show ?thesis using len n str_nat_digits [of n]
    by (auto simp: parse_octet_def num_val_str_nat)
qed

lemma parse_hextet_hex_nat: "n < 65536 \<Longrightarrow> parse_hextet (hex_nat n) = Some n"
  using length_digits [of 16 n 3] num_val_hex_nat [of n]
  by (auto simp: parse_hextet_def hex_nat_def)

lemma v4_octets_value:
  "((n div 16777216 * 256 + n div 65536 mod 256) * 256 + n div 256 mod 256) * 256 + n mod 256 = (n::nat)"
proof -
  have a: "n div 16777216 = n div 65536 div 256" "n div 65536 = n div 256 div 256"
    using div_mult2_eq [of n 65536 256] div_mult2_eq [of n 256 256] by simp_all
  have m: "x div 256 * 256 + x mod 256 = x" for x :: nat by simp
  show ?thesis unfolding a by (simp only: m)
qed

lemma parse_v4_str:
  assumes n: "n < 4294967296"
  shows "parse_v4 (str_ip (V4 n)) = Some n"
proof -
  let ?ps = "List.map str_nat (v4_octets n)"
  have sp: "split (CHR ''.'') (join ''.'' ?ps) = ?ps"
    by (rule split_join) (auto simp: v4_octets_def str_nat_chars)
  have sl: "CHR ''/'' \<notin> set (join ''.'' ?ps)"
    using set_join [of "''.''" ?ps] by (auto simp: str_nat_chars)
  have "List.map parse_octet ?ps = List.map Some (v4_octets n)"
    using n by (auto simp: v4_octets_def parse_octet_str_nat)
  then have "List.map parse_octet (split (CHR ''.'') (str_ip (V4 n)))
      = [Some (n div 16777216), Some (n div 65536 mod 256), Some (n div 256 mod 256), Some (n mod 256)]"
    by (simp add: sp del: join.simps split_nonempty) (simp add: v4_octets_def)
  then show ?thesis using sl v4_octets_value [of n]
    by (simp add: parse_v4_def)
qed


lemma filter_upt_single:
  assumes "a \<le> k" "k < b" "P k" "\<And>i. a \<le> i \<Longrightarrow> i < b \<Longrightarrow> i \<noteq> k \<Longrightarrow> \<not> P i"
  shows "filter P [a..<b] = [k]"
proof -
  have "[a..<b] = [a..<k] @ k # [Suc k..<b]"
    using upt_add_eq_append [of a k "b - k"] assms(1,2) by (simp add: upt_conv_Cons)
  moreover have "filter P [a..<k] = []" and "filter P [Suc k..<b] = []"
    using assms by (auto simp: filter_empty_conv)
  ultimately show ?thesis using assms(3) by simp
qed

lemma zero_run_invariant:
  assumes "hs0 = pre @ hs" "i = length pre"
    and "fst best + snd best \<le> i"
    and "\<forall>j. fst best \<le> j \<and> j < fst best + snd best \<longrightarrow> hs0 ! j = ''0''"
    and "snd cur > 0 \<longrightarrow> fst cur + snd cur = i \<and> (\<forall>j. fst cur \<le> j \<and> j < i \<longrightarrow> hs0 ! j = ''0'')"
    and "zero_run hs i best cur = (s, l)"
  shows "s + l \<le> length hs0 \<and> (\<forall>j. s \<le> j \<and> j < s + l \<longrightarrow> hs0 ! j = ''0'')"
  using assms
proof (induction hs i best cur arbitrary: pre rule: zero_run.induct)
  case (1 i best cur)
  then show ?case by simp
next
  case (2 h hs i best cur)
  have nth: "hs0 ! i = h" and pre: "hs0 = (pre @ [h]) @ hs" "Suc i = length (pre @ [h])"
    using "2.prems"(1,2) by (simp_all add: nth_append)
  show ?case
  proof (cases "h = ''0''")
    case True
    define cur' where "cur' = (if snd cur = 0 then (i, 1) else (fst cur, Suc (snd cur)))"
    have cur': "fst cur' + snd cur' = Suc i" "\<forall>j. fst cur' \<le> j \<and> j < Suc i \<longrightarrow> hs0 ! j = ''0''"
      using "2.prems"(5) True nth by (auto simp: cur'_def less_Suc_eq)
    have run: "zero_run hs (Suc i) (if snd best < snd cur' then cur' else best) cur' = (s, l)"
      using "2.prems"(6) True by (simp only: zero_run.simps cur'_def Let_def if_True simp_thms)
    show ?thesis
      by (rule "2.IH"(1) [OF True cur'_def pre _ _ _ run]) (use "2.prems"(3,4) cur' in auto)
  next
    case False
    show ?thesis
      by (rule "2.IH"(2) [OF False pre]) (use "2.prems" False in auto)
  qed
qed

lemma zero_run_zeros:
  assumes "zero_run hs 0 (0, 0) (0, 0) = (s, l)"
  shows "s + l \<le> length hs" and "\<And>j. s \<le> j \<Longrightarrow> j < s + l \<Longrightarrow> hs ! j = ''0''"
  using zero_run_invariant [of hs "[]" hs 0 "(0, 0)" "(0, 0)" s l] assms by auto

definition groups_val :: "nat \<Rightarrow> nat list \<Rightarrow> nat" where
  "groups_val acc gs = foldl (\<lambda>a g. a * 65536 + g) acc gs"

lemma groups_val_simps [simp]:
  "groups_val acc [] = acc"
  "groups_val acc (g # gs) = groups_val (acc * 65536 + g) gs"
  by (simp_all add: groups_val_def)

lemma groups_val_append: "groups_val acc (xs @ ys) = groups_val (groups_val acc xs) ys"
  by (simp add: groups_val_def)

lemma groups_val_zeros: "\<forall>g \<in> set gs. g = 0 \<Longrightarrow> groups_val acc gs = acc * 65536 ^ length gs"
  by (induction gs arbitrary: acc) auto

lemma hextets_val_hex:
  "\<forall>g \<in> set gs. g < 65536 \<Longrightarrow> hextets_val acc (List.map hex_nat gs) = Some (groups_val acc gs)"
  by (induction gs arbitrary: acc) (auto simp: parse_hextet_hex_nat)

lemma hex_nat_zero: "hex_nat g = ''0'' \<longleftrightarrow> g = 0"
proof
  assume "hex_nat g = ''0''"
  then have "Some g = num_val hex_digit 16 0 ''0''" by (metis num_val_hex_nat)
  then show "g = 0" by (simp add: hex_digit_def)
qed (simp add: hex_nat_def digits_less digit_char_0)

lemma gaps_filter: "gaps i ps = filter (\<lambda>j. ps ! (j - i) = []) [i..<i + (length ps - 1)]"
proof (induction i ps rule: gaps.induct)
  case (1 i p q ps)
  have "filter (\<lambda>j. (p # q # ps) ! (j - i) = []) [Suc i..<Suc i + length ps]
      = filter (\<lambda>j. (q # ps) ! (j - Suc i) = []) [Suc i..<Suc i + length ps]"
    by (rule filter_cong) (auto simp: nth_Cons' Suc_diff_le)
  then show ?case using 1 by (cases "p = []") (simp_all add: upt_conv_Cons del: upt_Suc)
qed auto

lemma gaps_tl:
  "2 \<le> length ps \<Longrightarrow> gaps 1 (tl ps) = filter (\<lambda>j. ps ! j = []) [1..<length ps - 1]"
proof -
  assume "2 \<le> length ps"
  then obtain p q qs' where "ps = p # q # qs'" by (cases ps; cases "tl ps") auto
  then obtain p qs where ps: "ps = p # qs" "qs \<noteq> []" by blast
  have "filter (\<lambda>j. qs ! (j - 1) = []) [1..<length qs] = filter (\<lambda>j. ps ! j = []) [1..<length qs]"
    by (rule filter_cong) (auto simp: ps)
  then show ?thesis using ps by (simp add: gaps_filter)
qed

lemma v6_groups_full:
  "length hs = 8 \<Longrightarrow> [] \<notin> set hs \<Longrightarrow> v6_groups hs = hextets_val 0 hs"
proof -
  assume hs: "length hs = 8" "[] \<notin> set hs"
  have "filter (\<lambda>i. hs ! i = []) [1..<length hs - 1] = []"
  proof -
    have "hs ! i \<noteq> []" if "i < 8" for i using hs nth_mem [of i hs] that by metis
    then show ?thesis using hs(1) by (simp add: filter_empty_conv)
  qed
  moreover have "hd hs \<noteq> []" "last hs \<noteq> []"
    using hs by (metis hd_in_set last_in_set length_0_conv zero_neq_numeral)+
  ultimately show ?thesis using hs gaps_tl [of hs] by (simp add: v6_groups_def)
qed

lemma v6_groups_gap:
  assumes ne: "[] \<notin> set A" "[] \<notin> set B" and len: "length A + length B < 8"
    and parts: "parts = (if A = [] then [[]] else []) @ A @ [[]] @ B @ (if B = [] then [[]] else [])"
  shows "v6_groups parts =
    (case hextets_val 0 A of None \<Rightarrow> None
     | Some v \<Rightarrow> hextets_val (v * 65536 ^ (8 - (length A + length B))) B)"
proof -
  define k where "k = (if A = [] then 1 else length A)"
  have "filter (\<lambda>i. parts ! i = []) [1..<length parts - 1] = [k]"
  proof (rule filter_upt_single)
    show "1 \<le> k" by (simp add: k_def Suc_le_eq)
    show "k < length parts - 1" by (simp add: k_def parts)
    show "parts ! k = []" by (simp add: k_def parts nth_append)
  next
    fix i assume i: "1 \<le> i" "i < length parts - 1" "i \<noteq> k"
    have "parts ! i \<in> set A \<union> set B"
    proof (cases "i < k")
      case True
      then show ?thesis using i by (auto simp: k_def parts nth_append split: if_splits)
    next
      case False
      then have "parts ! i = B ! (i - Suc k)" "i - Suc k < length B"
        using i by (auto simp: k_def parts nth_append nth_Cons' split: if_splits)
      then show ?thesis by simp
    qed
    then show "parts ! i \<noteq> []" using ne by auto
  qed
  then have "gaps 1 (tl parts) = [k]" by (subst gaps_tl) (auto simp: parts Suc_le_eq)
  moreover have "hd parts = [] \<longleftrightarrow> A = []"
    using ne by (cases A) (auto simp: parts)
  moreover have "last parts = [] \<longleftrightarrow> B = []"
    using ne by (cases B rule: rev_cases) (auto simp: parts)
  ultimately show ?thesis using len
    by (cases "A = []"; cases "B = []")
      (auto simp: v6_groups_def k_def parts Let_def Suc_diff_le split: option.split)
qed

lemma compress_hextets_gap:
  assumes gs: "length gs = 8" "\<forall>g \<in> set gs. g < 65536"
  shows "v6_groups (compress_hextets (List.map hex_nat gs)) = Some (groups_val 0 gs)"
proof -
  let ?hs = "List.map hex_nat gs"
  obtain s l where run: "zero_run ?hs 0 (0, 0) (0, 0) = (s, l)" by fastforce
  have ne: "[] \<notin> set ?hs" by (auto dest: sym)
  show ?thesis
  proof (cases "l \<le> 1")
    case True
    then show ?thesis using run ne gs
      by (simp add: compress_hextets_def v6_groups_full hextets_val_hex)
  next
    case False
    let ?A = "take s gs" and ?Z = "take l (drop s gs)" and ?B = "drop (s + l) gs"
    have sl: "s + l \<le> 8" using zero_run_zeros(1) [OF run] gs by simp
    have split: "gs = ?A @ ?Z @ ?B" by (simp add: add.commute flip: drop_drop)
    have "\<forall>g \<in> set ?Z. g = 0"
    proof
      fix g assume "g \<in> set ?Z"
      then obtain j where "j < l" "s + j < length gs" "g = gs ! (s + j)"
        by (auto simp: in_set_conv_nth)
      then show "g = 0" using zero_run_zeros(2) [OF run, of "s + j"]
        by (simp add: hex_nat_zero)
    qed
    then have Z: "groups_val v ?Z = v * 65536 ^ l" for v
      using sl gs by (simp add: groups_val_zeros)
    have val: "groups_val 0 gs = groups_val (groups_val 0 ?A * 65536 ^ l) ?B"
      by (subst split) (simp add: groups_val_append Z)
    have c: "compress_hextets ?hs =
        (if List.map hex_nat ?A = [] then [[]] else []) @ List.map hex_nat ?A @ [[]]
        @ List.map hex_nat ?B @ (if List.map hex_nat ?B = [] then [[]] else [])"
      using False run sl gs by (auto simp: compress_hextets_def take_map drop_map)
    have lens: "8 - (length (List.map hex_nat ?A) + length (List.map hex_nat ?B)) = l"
      and len: "length (List.map hex_nat ?A) + length (List.map hex_nat ?B) < 8"
      using sl gs False by simp_all
    have nes: "[] \<notin> set (List.map hex_nat ?A)" "[] \<notin> set (List.map hex_nat ?B)"
      by (auto dest: sym)
    have "v6_groups (compress_hextets ?hs) =
        (case hextets_val 0 (List.map hex_nat ?A) of None \<Rightarrow> None
         | Some v \<Rightarrow> hextets_val (v * 65536 ^ l) (List.map hex_nat ?B))"
      using v6_groups_gap [OF nes len c] by (simp only: lens)
    also have "\<dots> = Some (groups_val (groups_val 0 ?A * 65536 ^ l) ?B)"
      using gs by (subst hextets_val_hex, fastforce dest: in_set_takeD)
        (simp, subst hextets_val_hex, fastforce dest: in_set_dropD, simp)
    finally show ?thesis by (simp add: val)
  qed
qed

lemma v6_hextets_value:
  assumes "n < 340282366920938463463374607431768211456"
  shows "groups_val 0 (v6_hextets n) = n"
proof -
  define x where "x i = n div 65536 ^ i" for i
  have step: "x (Suc i) * 65536 + x i mod 65536 = x i" for i
    unfolding x_def by (metis div_mult2_eq div_mult_mod_eq power_Suc2)
  have steps: "x 7 * 65536 + x 6 mod 65536 = x 6" "x 6 * 65536 + x 5 mod 65536 = x 5"
    "x 5 * 65536 + x 4 mod 65536 = x 4" "x 4 * 65536 + x 3 mod 65536 = x 3"
    "x 3 * 65536 + x 2 mod 65536 = x 2" "x 2 * 65536 + x 1 mod 65536 = x 1"
    "x 1 * 65536 + x 0 mod 65536 = x 0"
    using step [of 6] step [of 5] step [of 4] step [of 3] step [of 2] step [of 1] step [of 0]
    by (simp_all add: numeral_2_eq_2 [symmetric])
  have "x 7 < 65536"
    using assms by (simp add: x_def less_mult_imp_div_less)
  then have top: "0 * 65536 + x 7 mod 65536 = x 7" by simp
  have "groups_val 0 (v6_hextets n) = x 0"
    by (simp only: v6_hextets_def list.map groups_val_simps x_def [symmetric] top steps)
  then show ?thesis by (simp add: x_def)
qed


lemma set_compress_hextets: "set (compress_hextets hs) \<subseteq> insert [] (set hs)"
  by (auto simp: compress_hextets_def split: prod.splits if_splits
      dest: in_set_takeD in_set_dropD)

lemma compress_hextets_length:
  assumes "length hs = 8" "[] \<notin> set hs"
  shows "3 \<le> length (compress_hextets hs)" "length (compress_hextets hs) \<le> 9"
proof -
  obtain s l where run: "zero_run hs 0 (0, 0) (0, 0) = (s, l)" by fastforce
  have "s + l \<le> 8" using zero_run_zeros(1) [OF run] assms by simp
  then show "3 \<le> length (compress_hextets hs)" "length (compress_hextets hs) \<le> 9"
    using assms run by (auto simp: compress_hextets_def)
qed

lemma parse_v4_colon: "CHR '':'' \<in> set s \<Longrightarrow> CHR ''.'' \<notin> set s \<Longrightarrow> parse_v4 s = None"
  by (simp add: parse_v4_def split_no_sep split: option.split)

lemma split_scope_none: "CHR ''%'' \<notin> set s \<Longrightarrow> split_scope s = Some (s, None)"
proof -
  assume "CHR ''%'' \<notin> set s"
  then have "takeWhile (\<lambda>c. c \<noteq> CHR ''%'') s = s" "dropWhile (\<lambda>c. c \<noteq> CHR ''%'') s = []"
    by (auto simp: takeWhile_eq_all_conv dropWhile_eq_Nil_conv)
  then show ?thesis by (simp only: split_scope_def Let_def list.case)
qed

lemma hex_nat_image [simp]: "[] \<notin> hex_nat ` X"
  by (auto dest: sym)

text \<open>A joined list of at least two parts holds the separator.\<close>

lemma sep_in_join: "2 \<le> length ps \<Longrightarrow> c \<in> set (join [c] ps)"
  by (cases ps; cases "tl ps") auto

theorem ip_address_str_ip: "ip_wf a \<Longrightarrow> ip_address (str_ip a) = Some a"
proof (induction a)
  case (V4 n)
  then show ?case by (simp add: ip_address_def parse_v4_str del: str_ip.simps)
next
  case (V6 n sc)
  let ?gs = "v6_hextets n" and ?ps = "compress_hextets (List.map hex_nat (v6_hextets n))"
  let ?t = "join '':'' ?ps"
  have n: "n < 340282366920938463463374607431768211456" and sc: "sc = None" using V6 by simp_all
  have gs: "length ?gs = 8" "\<forall>g \<in> set ?gs. g < 65536" by (auto simp: v6_hextets_def)
  have len: "3 \<le> length ?ps" "length ?ps \<le> 9"
    using compress_hextets_length [of "List.map hex_nat ?gs"] gs by auto
  have chars: "c \<notin> set p" if "p \<in> set ?ps" "hex_digit c = None" for p c
    using set_compress_hextets [of "List.map hex_nat ?gs"] that by (auto simp: hex_nat_chars)
  have nt: "c \<notin> set ?t" if "hex_digit c = None" "c \<noteq> CHR '':''" for c
    using set_join [of "'':''" ?ps] chars that by fastforce
  have nonempty: "?ps \<noteq> []" using len by auto
  have sp: "split (CHR '':'') ?t = ?ps"
    using nonempty chars by (intro split_join) auto
  have "CHR ''.'' \<notin> set (last ?ps)" using nonempty by (intro chars) auto
  then have "parse_v6_int ?t = Some n"
    using len gs by (simp add: parse_v6_int_def sp compress_hextets_gap v6_hextets_value [OF n])
  moreover have "split_scope ?t = Some (?t, None)"
    using nt [of "CHR ''%''"] by (intro split_scope_none) simp
  ultimately have "parse_v6 ?t = Some (n, None)"
    using nt [of "CHR ''/''"] by (simp add: parse_v6_def)
  moreover have "parse_v4 ?t = None"
    using nt [of "CHR ''.''"] len by (intro parse_v4_colon sep_in_join) auto
  ultimately show ?case by (simp add: ip_address_def sc)
qed

lemma str_ip_inj: "ip_wf a \<Longrightarrow> ip_wf b \<Longrightarrow> str_ip a = str_ip b \<Longrightarrow> a = b"
  by (metis ip_address_str_ip option.inject)

text \<open>The equations that evaluate a literal address.\<close>

lemmas ip_evals =
  ip_address_def parse_v4_def split_def parse_octet_def dec_digit_def list_all_iff
  parse_v6_def split_scope_def parse_v6_int_def v6_groups_def parse_hextet_def hex_digit_def
  hex_nat_def digits_step digits_less digit_char_def

end
