(* ===== verification/Errors.thy ===== *)
theory Errors
  imports Prelude
begin

text \<open>
  The exceptions of the controller's core (\<open>core/value_objects/errors.py\<close>) and of the agent's
  core (\<open>netos_agent/core/value_objects/errors.py\<close>). A raised domain error is its class and its
  \<open>code\<close> (the class attribute unless the raise overrides it); the message text is not modelled.
  \<open>PyError\<close> is an exception of Python itself that the code lets escape.
\<close>

datatype err_class =
    ValidationError
  | NotFoundError
  | ConflictError
  | InvalidStateTransition
  | UnauthorizedError
  | ForbiddenError
  | RateLimitedError
  | AgentTransportError

fun class_code :: "err_class \<Rightarrow> string" where
  "class_code ValidationError = ''validation_error''"
| "class_code NotFoundError = ''not_found''"
| "class_code ConflictError = ''conflict''"
| "class_code InvalidStateTransition = ''invalid_state_transition''"
| "class_code UnauthorizedError = ''unauthorized''"
| "class_code ForbiddenError = ''forbidden''"
| "class_code RateLimitedError = ''rate_limited''"
| "class_code AgentTransportError = ''agent_transport_error''"

datatype py_error = PyValueError | PyKeyError | PyIndexError | PyAssertionError

datatype exc = DomainError (exc_class: err_class) (exc_code: string) | PyError py_error

definition mk_error :: "err_class \<Rightarrow> exc" where
  "mk_error c = DomainError c (class_code c)"

abbreviation err_validation :: exc where
  "err_validation \<equiv> mk_error ValidationError"

abbreviation err_not_found :: exc where
  "err_not_found \<equiv> mk_error NotFoundError"

abbreviation err_conflict :: exc where
  "err_conflict \<equiv> mk_error ConflictError"

abbreviation err_state :: exc where
  "err_state \<equiv> mk_error InvalidStateTransition"

lemma mk_error_inject [simp]: "mk_error c = mk_error d \<longleftrightarrow> c = d"
  by (auto simp: mk_error_def)

lemma mk_error_simps [simp]:
  "mk_error c \<noteq> PyError e" "PyError e \<noteq> mk_error c"
  "exc_class (mk_error c) = c" "exc_code (mk_error c) = class_code c"
  by (simp_all add: mk_error_def)

text \<open>Whether \<open>except DomainError\<close> catches the exception.\<close>

fun is_domain :: "exc \<Rightarrow> bool" where
  "is_domain (DomainError _ _) = True"
| "is_domain (PyError _) = False"

lemma is_domain_mk_error [simp]: "is_domain (mk_error c)"
  by (simp add: mk_error_def)

subsection \<open>Agent errors\<close>

datatype agent_error =
    AgentValidationError
  | AgentNotFoundError
  | OvsdbError

fun agent_code :: "agent_error \<Rightarrow> string" where
  "agent_code AgentValidationError = ''validation_error''"
| "agent_code AgentNotFoundError = ''not_found''"
| "agent_code OvsdbError = ''ovsdb_error''"

text \<open>No two classes share a code, so a client can dispatch on the code alone.\<close>

lemma class_code_inj: "class_code c = class_code d \<Longrightarrow> c = d"
  by (cases c; cases d) simp_all

lemma agent_code_inj: "agent_code c = agent_code d \<Longrightarrow> c = d"
  by (cases c; cases d) simp_all

end
