(* ===== verification/Ipam_Values.thy ===== *)
theory Ipam_Values
  imports PyIp Errors
begin

text \<open>
  IPAM value objects (\<open>core/value_objects/ipam.py\<close>): the closed address range \<open>IpRange\<close>, the
  owner reference and the allocation kind. A range keeps its bounds as text, as the code does.
  Ranges exist only through the validating constructor (\<open>mk_ip_range\<close>), so a bound that does not
  parse cannot occur; the operations answer \<open>False\<close> (or no address) there.

  The lemmas give the ranges their meaning as sets of (family, value) pairs: \<open>contains\<close> is
  membership and \<open>overlaps\<close> is a non-empty intersection.
\<close>

record ip_range =
  rng_start :: string
  rng_end :: string

definition ip_range_check :: "ip_range \<Rightarrow> exc + unit" where
  "ip_range_check r =
     (case (ip_address (rng_start r), ip_address (rng_end r)) of
        (Some s, Some e) \<Rightarrow>
          bindE (require (same_family s e) err_validation) (\<lambda>_.
          require (ip_int s \<le> ip_int e) err_validation)
      | _ \<Rightarrow> Inl err_validation)"

definition mk_ip_range :: "string \<Rightarrow> string \<Rightarrow> exc + ip_range" where
  "mk_ip_range s e =
     (let r = \<lparr>rng_start = s, rng_end = e\<rparr> in bindE (ip_range_check r) (\<lambda>_. Inr r))"

definition rng_contains :: "ip_range \<Rightarrow> string \<Rightarrow> bool" where
  "rng_contains r addr =
     (case ip_address addr of
        None \<Rightarrow> False
      | Some t \<Rightarrow>
          (case (ip_address (rng_start r), ip_address (rng_end r)) of
             (Some s, Some e) \<Rightarrow> same_family s t \<and> ip_int s \<le> ip_int t \<and> ip_int t \<le> ip_int e
           | _ \<Rightarrow> False))"

definition rng_overlaps :: "ip_range \<Rightarrow> ip_range \<Rightarrow> bool" where
  "rng_overlaps a b =
     (case (ip_address (rng_start a), ip_address (rng_end a),
            ip_address (rng_start b), ip_address (rng_end b)) of
        (Some as, Some ae, Some bs, Some be) \<Rightarrow>
          same_family as bs \<and> ip_int as \<le> ip_int be \<and> ip_int bs \<le> ip_int ae
      | _ \<Rightarrow> False)"

definition rng_iter :: "ip_range \<Rightarrow> string list" where
  "rng_iter r =
     (case (ip_address (rng_start r), ip_address (rng_end r)) of
        (Some s, Some e) \<Rightarrow>
          List.map (\<lambda>i. str_ip (with_int s i)) [ip_int s..<Suc (ip_int e)]
      | _ \<Rightarrow> [])"

record owner_ref =
  own_type :: string
  own_id :: string

datatype alloc_kind = DYNAMIC | RESERVATION

subsection \<open>Meaning of ranges\<close>

lemma same_family_sym: "same_family a b \<longleftrightarrow> same_family b a"
  by (cases a; cases b) simp_all

lemma same_family_refl [simp]: "same_family a a"
  by (cases a) simp_all

lemma same_family_trans: "same_family a b \<Longrightarrow> same_family b c \<Longrightarrow> same_family a c"
  by (cases a; cases b; cases c) simp_all

fun is_v4 :: "ip \<Rightarrow> bool" where
  "is_v4 (V4 _) = True"
| "is_v4 (V6 _ _) = False"

lemma same_family_is_v4: "same_family a b \<longleftrightarrow> is_v4 a = is_v4 b"
  by (cases a; cases b) simp_all

lemma with_int_simps [simp]:
  "ip_int (with_int a n) = n" "is_v4 (with_int a n) = is_v4 a"
  by (cases a; simp)+

definition rng_wf :: "ip_range \<Rightarrow> bool" where
  "rng_wf r \<longleftrightarrow> ip_range_check r = Inr ()"

lemma rng_wf_iff:
  "rng_wf r \<longleftrightarrow> (\<exists>s e. ip_address (rng_start r) = Some s \<and> ip_address (rng_end r) = Some e \<and>
     is_v4 s = is_v4 e \<and> ip_int s \<le> ip_int e)"
  by (auto simp: rng_wf_def ip_range_check_def bindE_Inr_iff same_family_is_v4 split: option.splits)

lemma mk_ip_range_wf: "mk_ip_range s e = Inr r \<Longrightarrow> rng_wf r \<and> rng_start r = s \<and> rng_end r = e"
  by (auto simp: mk_ip_range_def rng_wf_def Let_def bindE_Inr_iff)

text \<open>The set of addresses a range stands for, as (is IPv4, value).\<close>

definition rng_set :: "ip_range \<Rightarrow> (bool \<times> nat) set" where
  "rng_set r =
     (case (ip_address (rng_start r), ip_address (rng_end r)) of
        (Some s, Some e) \<Rightarrow> {(is_v4 s, n) | n. ip_int s \<le> n \<and> n \<le> ip_int e}
      | _ \<Rightarrow> {})"

lemma rng_contains_iff:
  "rng_contains r addr \<longleftrightarrow> (\<exists>t. ip_address addr = Some t \<and> (is_v4 t, ip_int t) \<in> rng_set r)"
  by (auto simp: rng_contains_def rng_set_def same_family_is_v4 split: option.splits)

text \<open>
  overlaps decides exactly whether two valid ranges share an address: it is true if and only
  if some address value of the same family lies in both.
\<close>

lemma rng_overlaps_iff:
  assumes "rng_wf a" and "rng_wf b"
  shows "rng_overlaps a b \<longleftrightarrow> rng_set a \<inter> rng_set b \<noteq> {}"
proof -
  obtain as ae bs be where p: "ip_address (rng_start a) = Some as" "ip_address (rng_end a) = Some ae"
      "ip_address (rng_start b) = Some bs" "ip_address (rng_end b) = Some be"
    and o: "ip_int as \<le> ip_int ae" "ip_int bs \<le> ip_int be"
    using assms by (auto simp: rng_wf_iff)
  have "rng_overlaps a b \<Longrightarrow> (is_v4 as, max (ip_int as) (ip_int bs)) \<in> rng_set a \<inter> rng_set b"
    using p o by (auto simp: rng_overlaps_def rng_set_def same_family_is_v4)
  moreover have "rng_set a \<inter> rng_set b \<noteq> {} \<Longrightarrow> rng_overlaps a b"
    using p o by (auto simp: rng_overlaps_def rng_set_def same_family_is_v4)
  ultimately show ?thesis by blast
qed

lemma rng_overlaps_iff_witness:
  "rng_set \<lparr>rng_start = ''10.0.0.1'', rng_end = ''10.0.0.9''\<rparr>
     \<inter> rng_set \<lparr>rng_start = ''10.0.0.9'', rng_end = ''10.0.0.20''\<rparr> \<noteq> {}"
  by (rule rng_overlaps_iff [THEN iffD1])
    (simp_all add: rng_wf_def ip_range_check_def rng_overlaps_def ip_evals)

lemma rng_iter_contains:
  assumes "rng_wf r" "x \<in> set (rng_iter r)" "\<And>n. n \<le> ip_int e \<Longrightarrow> ip_wf (with_int s n)"
    and "ip_address (rng_start r) = Some s" "ip_address (rng_end r) = Some e"
  shows "rng_contains r x"
proof -
  obtain n where n: "ip_int s \<le> n" "n \<le> ip_int e" "x = str_ip (with_int s n)"
    using assms by (auto simp: rng_iter_def simp del: upt_Suc)
  then have "ip_address x = Some (with_int s n)"
    using assms(3) by (simp add: ip_address_str_ip)
  then show ?thesis
    using n assms(4,5) by (simp add: rng_contains_iff rng_set_def)
qed

end
