(* ===== verification/Edge_Services.thy ===== *)
theory Edge_Services
  imports PyIp Errors
begin

text \<open>
  The controller's edge-service intent (\<open>core/value_objects/edge_services.py\<close>): DHCP, source NAT
  and the firewall policy of a network, each with the validation its constructor runs.
\<close>

record dhcp_spec =
  dhcp_range_start :: string
  dhcp_range_end :: string
  dhcp_lease_time :: int
  dhcp_domain_name :: "string option"

definition dhcp_spec_check :: "dhcp_spec \<Rightarrow> exc + unit" where
  "dhcp_spec_check d =
     (case (ip_address (dhcp_range_start d), ip_address (dhcp_range_end d)) of
        (Some s, Some e) \<Rightarrow>
          bindE (require (same_family s e) err_validation) (\<lambda>_.
          bindE (require (ip_int s \<le> ip_int e) err_validation) (\<lambda>_.
          require (60 \<le> dhcp_lease_time d) err_validation))
      | _ \<Rightarrow> Inl err_validation)"

record nat_spec =
  nat_egress :: string

definition nat_spec_check :: "nat_spec \<Rightarrow> exc + unit" where
  "nat_spec_check n =
     require (nat_egress n \<noteq> [] \<and> CHR '' '' \<notin> set (nat_egress n)) err_validation"

datatype fw_action = FW_ACCEPT | FW_DROP

fun fw_action_value :: "fw_action \<Rightarrow> string" where
  "fw_action_value FW_ACCEPT = ''accept''"
| "fw_action_value FW_DROP = ''drop''"

datatype fw_proto = PROTO_ANY | PROTO_TCP | PROTO_UDP | PROTO_ICMP

fun fw_proto_value :: "fw_proto \<Rightarrow> string" where
  "fw_proto_value PROTO_ANY = ''any''"
| "fw_proto_value PROTO_TCP = ''tcp''"
| "fw_proto_value PROTO_UDP = ''udp''"
| "fw_proto_value PROTO_ICMP = ''icmp''"

record fw_rule =
  fr_action :: fw_action
  fr_proto :: fw_proto
  fr_source :: "string option"
  fr_destination :: "string option"
  fr_port_start :: "int option"
  fr_port_end :: "int option"

text \<open>\<open>x or d\<close> for an optional integer: the default replaces \<open>None\<close> and \<open>0\<close>.\<close>

definition int_or :: "int option \<Rightarrow> int \<Rightarrow> int" where
  "int_or x d = (case x of None \<Rightarrow> d | Some v \<Rightarrow> if v = 0 then d else v)"

definition cidr_ok :: "string option \<Rightarrow> exc + unit" where
  "cidr_ok c = (case c of None \<Rightarrow> Inr ()
     | Some v \<Rightarrow> require (ip_network v False \<noteq> None) err_validation)"

definition fw_rule_check :: "fw_rule \<Rightarrow> exc + unit" where
  "fw_rule_check r =
     bindE (each cidr_ok [fr_source r, fr_destination r]) (\<lambda>_.
     if fr_proto r = PROTO_ICMP \<and> (fr_port_start r \<noteq> None \<or> fr_port_end r \<noteq> None)
     then Inl err_validation
     else if fr_port_start r \<noteq> None \<or> fr_port_end r \<noteq> None then
       let s = int_or (fr_port_start r) 0; e = int_or (fr_port_end r) s in
       bindE (require (1 \<le> s \<and> s \<le> 65535 \<and> 1 \<le> e \<and> e \<le> 65535) err_validation) (\<lambda>_.
       require (s \<le> e) err_validation)
     else Inr ())"

record fw_policy =
  fp_default :: fw_action
  fp_rules :: "fw_rule list"

lemma fw_values_inject [simp]:
  "fw_action_value a = fw_action_value b \<longleftrightarrow> a = b"
  "fw_proto_value p = fw_proto_value q \<longleftrightarrow> p = q"
  by (cases a; cases b; simp) (cases p; cases q; simp)

text \<open>
  What the constructor checks of the ports of a firewall rule: an ICMP rule names none; a rule that
  names an end port names a start port, and 1 <= start <= end <= 65535, but for an end port of 0,
  which the code's "or" reads as absent and lets through (the agent's request models refuse it).
\<close>

lemma fw_rule_ports:
  assumes "fw_rule_check r = Inr ()"
  shows "(fr_proto r = PROTO_ICMP \<longrightarrow> fr_port_start r = None \<and> fr_port_end r = None) \<and>
    (fr_port_start r \<noteq> None \<or> fr_port_end r \<noteq> None \<longrightarrow>
      (\<exists>s. fr_port_start r = Some s \<and> 1 \<le> s \<and> s \<le> 65535 \<and>
        (fr_port_end r \<in> {None, Some 0} \<or> (\<exists>e. fr_port_end r = Some e \<and> s \<le> e \<and> e \<le> 65535))))"
  using assms
  by (auto simp: fw_rule_check_def bindE_Inr_iff Let_def int_or_def split: if_splits option.splits)

lemma fw_rule_ports_witness:
  "\<exists>s. fr_port_start \<lparr>fr_action = FW_ACCEPT, fr_proto = PROTO_TCP, fr_source = None,
         fr_destination = None, fr_port_start = Some 80, fr_port_end = Some 443\<rparr> = Some s \<and> 1 \<le> s"
  using fw_rule_ports [of "\<lparr>fr_action = FW_ACCEPT, fr_proto = PROTO_TCP, fr_source = None,
         fr_destination = None, fr_port_start = Some 80, fr_port_end = Some 443\<rparr>"]
  by (simp add: fw_rule_check_def cidr_ok_def Let_def int_or_def require_def)

end
