(* ===== verification/Enums.thy ===== *)
theory Enums
  imports Prelude
begin

text \<open>
  The enumerations of \<open>core/value_objects/enums.py\<close> that the modelled components use, with the
  text each member stands for (\<open>.value\<close> of a \<open>StrEnum\<close>).
\<close>

datatype network_type = FLAT | VLAN | VXLAN

fun network_type_value :: "network_type \<Rightarrow> string" where
  "network_type_value FLAT = ''flat''"
| "network_type_value VLAN = ''vlan''"
| "network_type_value VXLAN = ''vxlan''"

datatype node_status = PENDING | ONLINE | STALE | OFFLINE | DRAINING

datatype op_status =
    ACCEPTED | PLANNING | RUNNING | VERIFYING | SUCCEEDED | FAILED | CANCELLED | ROLLED_BACK

definition is_terminal :: "op_status \<Rightarrow> bool" where
  "is_terminal s \<longleftrightarrow> s \<in> {SUCCEEDED, FAILED, CANCELLED, ROLLED_BACK}"

datatype op_kind =
    NETWORK_CREATE | NETWORK_UPDATE | NETWORK_DELETE | NETWORK_APPLY
  | NODE_ENROLL | NODE_REMOVE | DRIFT_SCAN

fun op_kind_value :: "op_kind \<Rightarrow> string" where
  "op_kind_value NETWORK_CREATE = ''network.create''"
| "op_kind_value NETWORK_UPDATE = ''network.update''"
| "op_kind_value NETWORK_DELETE = ''network.delete''"
| "op_kind_value NETWORK_APPLY = ''network.apply''"
| "op_kind_value NODE_ENROLL = ''node.enroll''"
| "op_kind_value NODE_REMOVE = ''node.remove''"
| "op_kind_value DRIFT_SCAN = ''drift.scan''"

lemma network_type_value_inject [simp]:
  "network_type_value a = network_type_value b \<longleftrightarrow> a = b"
  by (cases a; cases b) simp_all

end
