(* ===== verification/Json.thy ===== *)
theory Json
  imports PyIp
begin

text \<open>
  Values of \<open>dict[str, Any]\<close> fields (payloads, details, canonical forms) as JSON trees, and the
  \<open>repr\<close> of a string, which the code's messages use (\<open>f"{name!r}"\<close>).
\<close>

datatype json =
    JNull
  | JBool bool
  | JInt int
  | JStr string
  | JList "json list"
  | JObj "(string \<times> json) list"

type_synonym payload = "(string, json) dict"

fun jopt :: "('a \<Rightarrow> json) \<Rightarrow> 'a option \<Rightarrow> json" where
  "jopt f None = JNull"
| "jopt f (Some x) = f x"

lemma jopt_inject:
  assumes "\<And>x y. f x = f y \<longleftrightarrow> x = y" "\<And>x. f x \<noteq> JNull"
  shows "jopt f a = jopt f b \<longleftrightarrow> a = b"
  using assms assms(2)[symmetric] by (cases a; cases b) auto

definition hex2 :: "nat \<Rightarrow> string" where
  "hex2 n = [digit_char (n div 16 mod 16), digit_char (n mod 16)]"

definition repr_char :: "char \<Rightarrow> char \<Rightarrow> string" where
  "repr_char q c = (let n = of_char c :: nat in
     if c = q \<or> n = 92 then [char_of (92 :: nat), c]
     else if n = 9 then [char_of (92 :: nat), CHR ''t'']
     else if n = 10 then [char_of (92 :: nat), CHR ''n'']
     else if n = 13 then [char_of (92 :: nat), CHR ''r'']
     else if n < 32 \<or> (127 \<le> n \<and> n \<le> 160) \<or> n = 173 then [char_of (92 :: nat), CHR ''x''] @ hex2 n
     else [c])"

definition py_repr :: "string \<Rightarrow> string" where
  "py_repr s = (let q = (if CHR 0x27 \<in> set s \<and> CHR 0x22 \<notin> set s then CHR 0x22 else CHR 0x27)
     in [q] @ concat (List.map (repr_char q) s) @ [q])"

text \<open>
  Reading JSON objects. \<open>None\<close> stands for the exceptions Python raises on a value of an unexpected
  shape. \<open>or_empty\<close> readers are the code's \<open>d.get(key) or <empty>\<close>: a missing key, null and an
  empty container all read as empty.
\<close>

fun jfield :: "string \<Rightarrow> json \<Rightarrow> json option" where
  "jfield k (JObj kvs) = map_of kvs k"
| "jfield k _ = None"

fun as_str :: "json \<Rightarrow> string option" where
  "as_str (JStr s) = Some s"
| "as_str _ = None"

fun as_int :: "json \<Rightarrow> int option" where
  "as_int (JInt i) = Some i"
| "as_int _ = None"

fun as_list :: "json \<Rightarrow> json list option" where
  "as_list (JList xs) = Some xs"
| "as_list _ = None"

definition jsdict :: "(string, string) dict \<Rightarrow> json" where
  "jsdict d = JObj (List.map (\<lambda>(k, v). (k, JStr v)) d)"

fun as_sdict :: "json \<Rightarrow> (string, string) dict option" where
  "as_sdict (JObj kvs) = those (List.map (\<lambda>(k, v). map_option (Pair k) (as_str v)) kvs)"
| "as_sdict _ = None"

definition str_or :: "string \<Rightarrow> string \<Rightarrow> json \<Rightarrow> string option" where
  "str_or dflt k d = (case jfield k d of
     None \<Rightarrow> Some dflt
   | Some JNull \<Rightarrow> Some dflt
   | Some v \<Rightarrow> map_option (\<lambda>s. if s = [] then dflt else s) (as_str v))"

definition sdict_or_empty :: "string \<Rightarrow> json \<Rightarrow> (string, string) dict option" where
  "sdict_or_empty k d = (case jfield k d of
     None \<Rightarrow> Some [] | Some JNull \<Rightarrow> Some [] | Some v \<Rightarrow> as_sdict v)"

definition list_or_empty :: "string \<Rightarrow> json \<Rightarrow> json list option" where
  "list_or_empty k d = (case jfield k d of
     None \<Rightarrow> Some [] | Some JNull \<Rightarrow> Some [] | Some v \<Rightarrow> as_list v)"

definition opt_int_field :: "string \<Rightarrow> json \<Rightarrow> int option option" where
  "opt_int_field k d = (case jfield k d of
     None \<Rightarrow> Some None | Some JNull \<Rightarrow> Some None | Some v \<Rightarrow> map_option Some (as_int v))"

lemma those_map_Some: "(\<And>x. x \<in> set xs \<Longrightarrow> f x = Some (g x)) \<Longrightarrow> those (List.map f xs) = Some (List.map g xs)"
  by (induction xs) auto

lemma as_sdict_jsdict [simp]: "as_sdict (jsdict d) = Some d"
  by (induction d) (auto simp: jsdict_def)

lemma those_roundtrip:
  "(\<And>x. x \<in> set xs \<Longrightarrow> f (g x) = Some x) \<Longrightarrow> those (List.map f (List.map g xs)) = Some xs"
  by (induction xs) auto

lemma as_int_list [simp]: "those (List.map (as_int \<circ> JInt) xs) = Some xs"
  by (induction xs) auto

lemma jsdict_not_null [simp]: "jsdict d \<noteq> JNull"
  by (simp add: jsdict_def)

text \<open>A dictionary rebuilt from a list of values, each under the key it carries.\<close>

definition keyed_by :: "('v \<Rightarrow> 'k) \<Rightarrow> 'v list \<Rightarrow> ('k, 'v) dict" where
  "keyed_by key vs = fold (\<lambda>v d. dset (key v) v d) vs []"

lemma keyed_by_acc:
  "distinct (dkeys acc @ List.map key vs) \<Longrightarrow>
   fold (\<lambda>v d. dset (key v) v d) vs acc = acc @ List.map (\<lambda>v. (key v, v)) vs"
proof (induction vs arbitrary: acc)
  case (Cons v vs)
  have "dset k x acc' = acc' @ [(k, x)]" if "k \<notin> set (dkeys acc')" for k :: 'a and x :: 'b and acc'
    using that by (induction k x acc' rule: dset.induct) auto
  then show ?case using Cons by simp
qed simp

lemma keyed_by_dvalues:
  assumes "dwf d" "\<forall>(k, v) \<in> set d. key v = k"
  shows "keyed_by key (dvalues d) = d"
proof -
  have keys: "List.map key (dvalues d) = dkeys d" using assms(2) by auto
  have "distinct (dkeys [] @ List.map key (dvalues d))" unfolding keys using assms(1) by simp
  then have "keyed_by key (dvalues d) = [] @ List.map (\<lambda>v. (key v, v)) (dvalues d)"
    unfolding keyed_by_def by (rule keyed_by_acc)
  also have "\<dots> = d" using assms(2) by (induction d) auto
  finally show ?thesis .
qed

lemma opt_int_field_jopt [simp]:
  "jfield k d = Some (jopt JInt t) \<Longrightarrow> opt_int_field k d = Some t"
  by (cases t) (simp_all add: opt_int_field_def)

lemma sdict_field [simp]: "jfield k d = Some (jsdict x) \<Longrightarrow> sdict_or_empty k d = Some x"
  using as_sdict_jsdict [of x] jsdict_not_null [of x]
  by (cases "jsdict x") (simp_all add: sdict_or_empty_def)

text \<open>
  What Python makes of a JSON value where the code asks for a text: \<open>str(v)\<close> and \<open>v or default\<close>.
\<close>

fun json_repr :: "json \<Rightarrow> string" where
  "json_repr JNull = ''None''"
| "json_repr (JBool b) = (if b then ''True'' else ''False'')"
| "json_repr (JInt i) = str_int i"
| "json_repr (JStr s) = py_repr s"
| "json_repr (JList xs) = ''['' @ join '', '' (List.map json_repr xs) @ '']''"
| "json_repr (JObj kvs) = [CHR 0x7B] @ join '', ''
     (List.map (\<lambda>(k, v). py_repr k @ '': '' @ v) (List.map (\<lambda>(k, v). (k, json_repr v)) kvs)) @ [CHR 0x7D]"

text \<open>\<open>str(v)\<close>, and \<open>str(v or d)\<close>.\<close>

definition json_str :: "json \<Rightarrow> string" where
  "json_str v = (case v of JStr s \<Rightarrow> s | _ \<Rightarrow> json_repr v)"

definition falsy :: "json \<Rightarrow> bool" where
  "falsy v \<longleftrightarrow> v = JNull \<or> v = JBool False \<or> v = JInt 0 \<or> v = JStr [] \<or> v = JList [] \<or> v = JObj []"

definition str_or_default :: "json \<Rightarrow> string \<Rightarrow> string" where
  "str_or_default v d = (if falsy v then d else json_str v)"

end
