(* ===== verification/Network.thy ===== *)
theory Network
  imports Ipam_Values Edge_Services Enums Json "HOL-Library.Char_ord" "HOL-Library.List_Lexorder"
    "HOL-Library.Multiset"
begin

text \<open>
  The \<open>Subnet\<close> and \<open>Network\<close> aggregates (\<open>core/entities/network.py\<close>): construction with its
  validation, the intent counter, node membership, and the canonical form whose SHA-256 is the
  \<open>spec_hash\<close>. \<open>digest\<close> stands for \<open>sha256(json.dumps(canonical, sort_keys=True))\<close>; a theorem
  that needs it to tell canonical forms apart says so.
\<close>

subsection \<open>Subnet\<close>

record subnet =
  sub_id :: string
  sub_cidr :: string
  sub_gateway :: "string option"
  sub_dns_servers :: "string list"
  sub_pools :: "ip_range list"
  sub_reserved :: "ip_range list"
  sub_dhcp :: "dhcp_spec option"
  sub_dns_zone :: "string option"

definition require_inside_cidr :: "ipnet \<Rightarrow> ip_range \<Rightarrow> exc + unit" where
  "require_inside_cidr net r =
     (case (ip_address (rng_start r), ip_address (rng_end r)) of
        (Some s, Some e) \<Rightarrow> require (in_net s net \<and> in_net e net) err_validation
      | _ \<Rightarrow> Inl (PyError PyValueError))"

fun pools_disjoint :: "ip_range list \<Rightarrow> exc + unit" where
  "pools_disjoint [] = Inr ()"
| "pools_disjoint (a # ps) =
     bindE (each (\<lambda>b. require (\<not> rng_overlaps a b) err_validation) ps) (\<lambda>_. pools_disjoint ps)"

definition subnet_check :: "subnet \<Rightarrow> exc + unit" where
  "subnet_check s =
     bindE (of_option err_validation (ip_network (sub_cidr s) True)) (\<lambda>net.
     bindE (case sub_gateway s of
              None \<Rightarrow> Inr ()
            | Some g \<Rightarrow> bindE (of_option err_validation (ip_address g)) (\<lambda>gw.
                require (in_net gw net) err_validation)) (\<lambda>_.
     bindE (each (\<lambda>d. require (ip_address d \<noteq> None) err_validation) (sub_dns_servers s)) (\<lambda>_.
     bindE (each (require_inside_cidr net) (sub_pools s)) (\<lambda>_.
     bindE (each (require_inside_cidr net) (sub_reserved s)) (\<lambda>_.
     bindE (pools_disjoint (sub_pools s)) (\<lambda>_.
     (case sub_gateway s of
        None \<Rightarrow> Inr ()
      | Some g \<Rightarrow> each (\<lambda>p. require (\<not> rng_contains p g) err_validation) (sub_pools s))))))))"

definition mk_subnet :: "subnet \<Rightarrow> exc + subnet" where
  "mk_subnet s = bindE (subnet_check s) (\<lambda>_. Inr s)"

subsection \<open>Network\<close>

record network =
  net_id :: string
  net_name :: string
  net_type :: network_type
  net_created_at :: time
  net_updated_at :: time
  net_mtu :: int
  net_vlan_id :: "int option"
  net_vni :: "int option"
  net_subnet :: "subnet option"
  net_intent_version :: int
  net_labels :: "(string, string) dict"
  net_node_ids :: "string list"
  net_nat :: "nat_spec option"
  net_firewall :: "fw_policy option"
  net_spec_hash :: string
  net_project_id :: "string option"

definition network_validate :: "network \<Rightarrow> exc + unit" where
  "network_validate n =
     bindE (require (\<not> blank (net_name n)) err_validation) (\<lambda>_.
     bindE (require (576 \<le> net_mtu n \<and> net_mtu n \<le> 9216) err_validation) (\<lambda>_.
     bindE (case net_type n of
              FLAT \<Rightarrow> require (net_vlan_id n = None \<and> net_vni n = None) err_validation
            | VLAN \<Rightarrow>
                (case net_vlan_id n of
                   None \<Rightarrow> Inl err_validation
                 | Some v \<Rightarrow> bindE (require (net_vni n = None) err_validation) (\<lambda>_.
                     require (1 \<le> v \<and> v \<le> 4094) err_validation))
            | VXLAN \<Rightarrow>
                (case net_vni n of
                   None \<Rightarrow> Inl err_validation
                 | Some v \<Rightarrow> bindE (require (net_vlan_id n = None) err_validation) (\<lambda>_.
                     require (1 \<le> v \<and> v \<le> 16777215) err_validation))) (\<lambda>_.
     require (distinct (net_node_ids n)) err_validation)))"

definition subnet_to_canonical :: "subnet option \<Rightarrow> json" where
  "subnet_to_canonical s = jopt (\<lambda>s. JObj
     [(''cidr'', JStr (sub_cidr s)),
      (''gateway'', jopt JStr (sub_gateway s)),
      (''dns_zone'', jopt JStr (sub_dns_zone s)),
      (''dhcp'', jopt (\<lambda>d. JObj
         [(''range_start'', JStr (dhcp_range_start d)),
          (''range_end'', JStr (dhcp_range_end d)),
          (''lease_time_seconds'', JInt (dhcp_lease_time d)),
          (''domain_name'', jopt JStr (dhcp_domain_name d))]) (sub_dhcp s))]) s"

definition firewall_to_canonical :: "fw_policy option \<Rightarrow> json" where
  "firewall_to_canonical f = jopt (\<lambda>f. JObj
     [(''default_action'', JStr (fw_action_value (fp_default f))),
      (''rules'', JList (List.map (\<lambda>r. JObj
         [(''action'', JStr (fw_action_value (fr_action r))),
          (''proto'', JStr (fw_proto_value (fr_proto r))),
          (''source_cidr'', jopt JStr (fr_source r)),
          (''destination_cidr'', jopt JStr (fr_destination r)),
          (''destination_port_start'', jopt JInt (fr_port_start r)),
          (''destination_port_end'', jopt JInt (fr_port_end r))]) (fp_rules f)))]) f"

definition network_canonical :: "network \<Rightarrow> json" where
  "network_canonical n = JObj
     [(''name'', JStr (net_name n)),
      (''type'', JStr (network_type_value (net_type n))),
      (''mtu'', JInt (net_mtu n)),
      (''vlan_id'', jopt JInt (net_vlan_id n)),
      (''vni'', jopt JInt (net_vni n)),
      (''subnet'', subnet_to_canonical (net_subnet n)),
      (''labels'', JObj (List.map (\<lambda>(k, v). (k, JStr v)) (sort_key fst (net_labels n)))),
      (''node_ids'', JList (List.map JStr (sort (net_node_ids n)))),
      (''nat'', jopt (\<lambda>x. JObj [(''egress_interface'', JStr (nat_egress x))]) (net_nat n)),
      (''firewall_policy'', firewall_to_canonical (net_firewall n)),
      (''project_id'', jopt JStr (net_project_id n))]"

definition compute_spec_hash :: "(json \<Rightarrow> string) \<Rightarrow> network \<Rightarrow> string" where
  "compute_spec_hash digest n = digest (network_canonical n)"

definition mk_network :: "(json \<Rightarrow> string) \<Rightarrow> network \<Rightarrow> exc + network" where
  "mk_network digest n =
     bindE (network_validate n) (\<lambda>_.
     Inr (if net_spec_hash n = [] then n\<lparr>net_spec_hash := compute_spec_hash digest n\<rparr> else n))"

definition bump_intent :: "(json \<Rightarrow> string) \<Rightarrow> time \<Rightarrow> network \<Rightarrow> network" where
  "bump_intent digest now n =
     (let n' = n\<lparr>net_intent_version := net_intent_version n + 1, net_updated_at := now\<rparr>
      in n'\<lparr>net_spec_hash := compute_spec_hash digest n'\<rparr>)"

definition set_nodes :: "(json \<Rightarrow> string) \<Rightarrow> string list \<Rightarrow> time \<Rightarrow> network \<Rightarrow> exc + network" where
  "set_nodes digest ids now n =
     (if \<not> distinct ids then Inl err_validation
      else Inr (bump_intent digest now (n\<lparr>net_node_ids := ids\<rparr>)))"

subsection \<open>Well-formedness\<close>

definition subnet_wf :: "subnet \<Rightarrow> bool" where
  "subnet_wf s \<longleftrightarrow> subnet_check s = Inr () \<and>
     (\<forall>r \<in> set (sub_pools s) \<union> set (sub_reserved s). rng_wf r)"

definition network_wf :: "(json \<Rightarrow> string) \<Rightarrow> network \<Rightarrow> bool" where
  "network_wf digest n \<longleftrightarrow>
     network_validate n = Inr () \<and> net_spec_hash n = compute_spec_hash digest n"

lemma pools_disjoint_iff:
  "pools_disjoint ps = Inr u \<longleftrightarrow>
     (\<forall>i j. i < j \<longrightarrow> j < length ps \<longrightarrow> \<not> rng_overlaps (ps ! i) (ps ! j))"
proof (induction ps)
  case (Cons a ps)
  have "(\<forall>i j. i < j \<longrightarrow> j < length (a # ps) \<longrightarrow> \<not> rng_overlaps ((a # ps) ! i) ((a # ps) ! j)) \<longleftrightarrow>
    (\<forall>j. j < length ps \<longrightarrow> \<not> rng_overlaps a (ps ! j)) \<and>
    (\<forall>i j. i < j \<longrightarrow> j < length ps \<longrightarrow> \<not> rng_overlaps (ps ! i) (ps ! j))" (is "?l \<longleftrightarrow> ?r")
  proof
    assume ?l
    then show ?r
      by (metis Suc_less_eq length_Cons nth_Cons_0 nth_Cons_Suc zero_less_Suc)
  next
    assume r: ?r
    show ?l
    proof (intro allI impI)
      fix i j assume "i < j" "j < length (a # ps)"
      then show "\<not> rng_overlaps ((a # ps) ! i) ((a # ps) ! j)"
        using r by (cases j; cases i) auto
    qed
  qed
  then show ?case using Cons
    by (auto simp: bindE_Inr_iff all_set_conv_all_nth)
qed simp

lemma subnet_check_facts:
  assumes "subnet_check s = Inr ()"
  obtains net where "ip_network (sub_cidr s) True = Some net"
    "\<And>g. sub_gateway s = Some g \<Longrightarrow> \<exists>a. ip_address g = Some a \<and> in_net a net"
    "\<forall>d \<in> set (sub_dns_servers s). ip_address d \<noteq> None"
    "\<forall>r \<in> set (sub_pools s) \<union> set (sub_reserved s). require_inside_cidr net r = Inr ()"
    "pools_disjoint (sub_pools s) = Inr ()"
    "\<And>g p. sub_gateway s = Some g \<Longrightarrow> p \<in> set (sub_pools s) \<Longrightarrow> \<not> rng_contains p g"
proof -
  obtain net where "ip_network (sub_cidr s) True = Some net"
    using assms by (auto simp: subnet_check_def bindE_Inr_iff)
  then show ?thesis
    using assms that [of net]
    by (fastforce simp: subnet_check_def bindE_Inr_iff split: option.splits)
qed

lemma mk_subnet_check: "mk_subnet s = Inr s' \<longleftrightarrow> s' = s \<and> subnet_check s = Inr ()"
  by (auto simp: mk_subnet_def bindE_Inr_iff)

lemma network_validate_frame [simp]:
  "network_validate (n\<lparr>net_intent_version := v\<rparr>) = network_validate n"
  "network_validate (n\<lparr>net_updated_at := t\<rparr>) = network_validate n"
  "network_validate (n\<lparr>net_spec_hash := h\<rparr>) = network_validate n"
  "network_validate (n\<lparr>net_subnet := s\<rparr>) = network_validate n"
  "network_validate (n\<lparr>net_labels := l\<rparr>) = network_validate n"
  by (simp_all add: network_validate_def cong: network_type.case_cong option.case_cong)

lemma network_canonical_frame [simp]:
  "network_canonical (n\<lparr>net_intent_version := v\<rparr>) = network_canonical n"
  "network_canonical (n\<lparr>net_updated_at := t\<rparr>) = network_canonical n"
  "network_canonical (n\<lparr>net_created_at := t\<rparr>) = network_canonical n"
  "network_canonical (n\<lparr>net_spec_hash := h\<rparr>) = network_canonical n"
  by (simp_all add: network_canonical_def)

subsection \<open>Networks as intervals\<close>

definition net_aligned :: "ipnet \<Rightarrow> bool" where
  "net_aligned net \<longleftrightarrow> ip_int (nw_addr net) mod host_count net = 0"

lemma mk_net_aligned: "mk_net strict a p = Some net \<Longrightarrow> net_aligned net"
  by (cases a)
    (auto simp: mk_net_def net_aligned_def host_count_def Let_def split: if_splits)

lemma ip_network_aligned: "ip_network c strict = Some net \<Longrightarrow> net_aligned net"
  by (auto simp: ip_network_def Let_def mk_net_aligned split: if_splits option.splits)

lemma host_count_pos [simp]: "0 < host_count net"
  by (simp add: host_count_def)

lemma in_net_interval:
  assumes "net_aligned net"
  shows "in_net a net \<longleftrightarrow> is_v4 a = is_v4 (nw_addr net) \<and>
    ip_int (nw_addr net) \<le> ip_int a \<and> ip_int a < ip_int (nw_addr net) + host_count net"
proof -
  define h b n where defs: "h = host_count net" "b = ip_int (nw_addr net)" "n = ip_int a"
  have h: "0 < h" and al: "b mod h = 0" using assms by (simp_all add: defs net_aligned_def)
  have "n - n mod h = b \<longleftrightarrow> b \<le> n \<and> n < b + h"
  proof
    assume "n - n mod h = b"
    then show "b \<le> n \<and> n < b + h" using h mod_less_divisor [of h n] mod_less_eq_dividend [of n h]
      by linarith
  next
    assume r: "b \<le> n \<and> n < b + h"
    then obtain k where k: "n = b + k" "k < h" by (metis le_iff_add nat_add_left_cancel_less)
    then have "n mod h = k" using al by (metis mod_add_left_eq add_0 mod_less)
    then show "n - n mod h = b" using k by simp
  qed
  then show ?thesis by (simp add: in_net_def same_family_is_v4 defs)
qed

lemma range_inside_net:
  assumes "net_aligned net" "require_inside_cidr net r = Inr ()" "p \<in> rng_set r"
  shows "fst p = is_v4 (nw_addr net)" "ip_int (nw_addr net) \<le> snd p"
    "snd p < ip_int (nw_addr net) + host_count net"
  using assms
  by (auto simp: require_inside_cidr_def rng_set_def in_net_interval split: option.splits)

text \<open>
  A subnet that its constructor accepts is sound: its address pools are pairwise disjoint as
  sets of addresses, every pool and reserved range lies inside the CIDR block, and the gateway is
  inside the block but in no pool.
\<close>

lemma subnet_pools_sound:
  assumes wf: "subnet_wf s" and net: "ip_network (sub_cidr s) True = Some net"
  shows "(\<forall>i j. i < j \<longrightarrow> j < length (sub_pools s) \<longrightarrow>
        rng_set (sub_pools s ! i) \<inter> rng_set (sub_pools s ! j) = {}) \<and>
    (\<forall>r \<in> set (sub_pools s) \<union> set (sub_reserved s). \<forall>p \<in> rng_set r.
        fst p = is_v4 (nw_addr net) \<and> ip_int (nw_addr net) \<le> snd p \<and>
        snd p < ip_int (nw_addr net) + host_count net) \<and>
    (\<forall>g. sub_gateway s = Some g \<longrightarrow>
        (\<exists>a. ip_address g = Some a \<and> in_net a net \<and>
             (\<forall>r \<in> set (sub_pools s). (is_v4 a, ip_int a) \<notin> rng_set r)))"
proof -
  have chk: "subnet_check s = Inr ()"
    and rw: "\<forall>r \<in> set (sub_pools s) \<union> set (sub_reserved s). rng_wf r"
    using wf by (simp_all add: subnet_wf_def)
  from chk obtain net' where n': "ip_network (sub_cidr s) True = Some net'"
    and gw: "\<And>g. sub_gateway s = Some g \<Longrightarrow> \<exists>a. ip_address g = Some a \<and> in_net a net'"
    and ins: "\<forall>r \<in> set (sub_pools s) \<union> set (sub_reserved s). require_inside_cidr net' r = Inr ()"
    and dis: "pools_disjoint (sub_pools s) = Inr ()"
    and gp: "\<And>g p. sub_gateway s = Some g \<Longrightarrow> p \<in> set (sub_pools s) \<Longrightarrow> \<not> rng_contains p g"
    by (rule subnet_check_facts) blast
  have [simp]: "net' = net" using net n' by simp
  have al: "net_aligned net" using net by (rule ip_network_aligned)
  have "rng_set (sub_pools s ! i) \<inter> rng_set (sub_pools s ! j) = {}"
    if "i < j" "j < length (sub_pools s)" for i j
    using dis that rw rng_overlaps_iff [of "sub_pools s ! i" "sub_pools s ! j"]
    by (auto simp: pools_disjoint_iff)
  moreover have "(is_v4 a, ip_int a) \<notin> rng_set r"
    if "sub_gateway s = Some g" "ip_address g = Some a" "r \<in> set (sub_pools s)" for g a r
    using gp [OF that(1,3)] that(2) by (auto simp: rng_contains_iff)
  moreover have inside: "require_inside_cidr net r = Inr ()"
    if "r \<in> set (sub_pools s) \<union> set (sub_reserved s)" for r
    using ins that by simp
  moreover have "\<forall>r \<in> set (sub_pools s) \<union> set (sub_reserved s). \<forall>p \<in> rng_set r.
        fst p = is_v4 (nw_addr net) \<and> ip_int (nw_addr net) \<le> snd p \<and>
        snd p < ip_int (nw_addr net) + host_count net"
    by (intro ballI conjI) (rule range_inside_net [OF al inside], assumption+)+
  moreover have "\<exists>a. ip_address g = Some a \<and> in_net a net" if "sub_gateway s = Some g" for g
    using gw [OF that] by simp
  ultimately show ?thesis by meson
qed

definition example_subnet :: subnet where
  "example_subnet = \<lparr>sub_id = ''sub_1'', sub_cidr = ''10.0.0.0/24'', sub_gateway = Some ''10.0.0.1'',
     sub_dns_servers = [''1.1.1.1''],
     sub_pools = [\<lparr>rng_start = ''10.0.0.10'', rng_end = ''10.0.0.12''\<rparr>,
                  \<lparr>rng_start = ''10.0.0.20'', rng_end = ''10.0.0.30''\<rparr>],
     sub_reserved = [\<lparr>rng_start = ''10.0.0.11'', rng_end = ''10.0.0.11''\<rparr>],
     sub_dhcp = None, sub_dns_zone = None\<rparr>"

lemmas net_evals = ip_evals ip_network_def prefix_of_text_def v4_prefix_def mk_net_def

lemma example_net: "ip_network ''10.0.0.0/24'' True = Some (IpNet (V4 167772160) 24)"
  by (simp add: net_evals)

lemma example_addrs:
  "ip_address ''10.0.0.1'' = Some (V4 167772161)" "ip_address ''10.0.0.10'' = Some (V4 167772170)"
  "ip_address ''10.0.0.11'' = Some (V4 167772171)" "ip_address ''10.0.0.12'' = Some (V4 167772172)"
  "ip_address ''10.0.0.20'' = Some (V4 167772180)" "ip_address ''10.0.0.30'' = Some (V4 167772190)"
  "ip_address ''1.1.1.1'' = Some (V4 16843009)"
  by (simp_all add: ip_evals)

lemma example_subnet_wf: "subnet_wf example_subnet"
  by (simp add: subnet_wf_def subnet_check_def example_subnet_def example_net example_addrs
      in_net_def host_count_def require_inside_cidr_def rng_overlaps_def rng_contains_def
      rng_wf_def ip_range_check_def)

lemma subnet_pools_sound_witness:
  "rng_set (sub_pools example_subnet ! 0) \<inter> rng_set (sub_pools example_subnet ! 1) = {}"
  using subnet_pools_sound [OF example_subnet_wf, of "IpNet (V4 167772160) 24",
      THEN conjunct1, THEN spec [of _ 0], THEN spec [of _ 1]]
  by (simp add: example_subnet_def example_net)

subsection \<open>Intent\<close>

lemma bump_intent_hash: "net_spec_hash (bump_intent d now n) = compute_spec_hash d (bump_intent d now n)"
  by (simp add: bump_intent_def compute_spec_hash_def Let_def)

lemma bump_intent_validate [simp]: "network_validate (bump_intent d now n) = network_validate n"
  by (simp add: bump_intent_def Let_def)

lemma bump_intent_wf: "network_validate n = Inr () \<Longrightarrow> network_wf d (bump_intent d now n)"
  by (simp add: network_wf_def bump_intent_hash)

lemma mk_network_wf:
  "net_spec_hash n = [] \<Longrightarrow> mk_network d n = Inr n' \<Longrightarrow> network_wf d n'"
  by (auto simp: mk_network_def bindE_Inr_iff network_wf_def compute_spec_hash_def)

lemma network_validate_nodes:
  "network_validate n = Inr () \<Longrightarrow>
     network_validate (n\<lparr>net_node_ids := ids\<rparr>) = Inr () \<longleftrightarrow> distinct ids"
  by (auto simp: network_validate_def bindE_Inr_iff cong: network_type.case_cong option.case_cong)

text \<open>
  Replacing a network's node membership keeps the aggregate valid and its revision honest:
  on success the new members are exactly the requested ones, the intent version grows by one, the
  spec hash is the hash of the new spec, and duplicates are refused without any change.
\<close>

lemma set_nodes_correct:
  assumes "network_validate n = Inr ()"
  shows "set_nodes d ids now n =
     (if distinct ids then Inr (bump_intent d now (n\<lparr>net_node_ids := ids\<rparr>)) else Inl err_validation) \<and>
   (\<forall>n'. set_nodes d ids now n = Inr n' \<longrightarrow>
      network_wf d n' \<and> net_node_ids n' = ids \<and>
      net_intent_version n' = net_intent_version n + 1 \<and> net_updated_at n' = now)"
proof -
  have "network_wf d n' \<and> net_node_ids n' = ids \<and>
      net_intent_version n' = net_intent_version n + 1 \<and> net_updated_at n' = now"
    if "set_nodes d ids now n = Inr n'" for n'
    using that assms network_validate_nodes [OF assms, of ids]
    by (auto simp: set_nodes_def bump_intent_wf split: if_splits)
      (simp_all add: bump_intent_def Let_def)
  then show ?thesis by (simp add: set_nodes_def)
qed

definition example_network :: network where
  "example_network = \<lparr>net_id = ''net_1'', net_name = ''prod'', net_type = VXLAN, net_created_at = 0,
     net_updated_at = 0, net_mtu = 1450, net_vlan_id = None, net_vni = Some 100,
     net_subnet = Some example_subnet, net_intent_version = 1, net_labels = [],
     net_node_ids = [''node_a00001'', ''node_b00002''], net_nat = None, net_firewall = None,
     net_spec_hash = [], net_project_id = None\<rparr>"

lemma example_network_validate: "network_validate example_network = Inr ()"
  by (simp add: network_validate_def example_network_def blank_iff py_isspace_def)

lemma set_nodes_correct_witness:
  "\<exists>n'. set_nodes (\<lambda>_. ''h'') [''node_a00001''] 7 example_network = Inr n' \<and>
     network_wf (\<lambda>_. ''h'') n' \<and> net_intent_version n' = 2"
  using set_nodes_correct [OF example_network_validate, of "\<lambda>_. ''h''" "[''node_a00001'']" 7]
  by (simp add: example_network_def)

subsection \<open>The spec hash\<close>

lemma sort_key_dict:
  assumes "dict_eq a b" "dwf a" "dwf b"
  shows "sort_key fst a = sort_key fst b"
proof -
  have "set a = set b"
    using assms by (metis dict_eq_iff map_of_inject_set)
  then have "mset a = mset b"
    using assms(2,3) by (simp add: distinct_map set_eq_iff_mset_eq_distinct)
  moreover have "inj_on fst (set a)" using assms(2) by (simp add: distinct_map)
  ultimately show ?thesis
    using sort_key_inj_key_eq [of a "sort_key fst b" fst] by simp
qed

text \<open>
  C36. The spec hash depends on the intent alone: two networks that agree on the hashed fields, with
  labels equal as dictionaries and the same members in any order, hash alike, whatever their
  ids, timestamps and intent versions.
\<close>

theorem spec_hash_canonical:
  assumes "net_name m = net_name n" "net_type m = net_type n" "net_mtu m = net_mtu n"
    "net_vlan_id m = net_vlan_id n" "net_vni m = net_vni n" "net_nat m = net_nat n"
    "net_firewall m = net_firewall n" "net_project_id m = net_project_id n"
    "subnet_to_canonical (net_subnet m) = subnet_to_canonical (net_subnet n)"
    and "dict_eq (net_labels m) (net_labels n)" "dwf (net_labels m)" "dwf (net_labels n)"
    and "mset (net_node_ids m) = mset (net_node_ids n)"
  shows "compute_spec_hash d m = compute_spec_hash d n"
proof -
  have "sort (net_node_ids m) = sort (net_node_ids n)"
    using assms(13) by (metis mset_sort properties_for_sort sorted_sort)
  then show ?thesis
    using assms(1-9) sort_key_dict [OF assms(10-12)]
    by (simp add: compute_spec_hash_def network_canonical_def)
qed

theorem spec_hash_canonical_witness:
  "\<forall>d. compute_spec_hash d (example_network\<lparr>net_labels := [(''a'', ''1''), (''b'', ''2'')],
      net_intent_version := 5\<rparr>) =
   compute_spec_hash d (example_network\<lparr>net_labels := [(''b'', ''2''), (''a'', ''1'')],
      net_node_ids := [''node_b00002'', ''node_a00001'']\<rparr>)"
  by (rule allI, rule spec_hash_canonical) (simp_all add: example_network_def dict_eq_def)

lemma nat_egress_inject [simp]: "nat_egress (x :: nat_spec) = nat_egress y \<longleftrightarrow> x = y"
  by (cases x; cases y) simp

lemma JStr_inj [simp]: "inj JStr"
  by (simp add: inj_def)

text \<open>
  The spec hash is sharp on the fields it covers: unless the digest collides on the two
  canonical forms, equal hashes mean the same name, type, MTU, VLAN and VNI, NAT, project, firewall and canonical subnet,
  equal labels and the same multiset of members.
\<close>

lemma spec_hash_sharp:
  assumes no_collision: "network_canonical m \<noteq> network_canonical n \<longrightarrow>
      d (network_canonical m) \<noteq> d (network_canonical n)"
    and eq: "compute_spec_hash d m = compute_spec_hash d n"
  shows "net_name m = net_name n \<and> net_type m = net_type n \<and> net_mtu m = net_mtu n \<and>
    net_vlan_id m = net_vlan_id n \<and> net_vni m = net_vni n \<and> net_nat m = net_nat n \<and>
    net_project_id m = net_project_id n \<and>
    firewall_to_canonical (net_firewall m) = firewall_to_canonical (net_firewall n) \<and>
    subnet_to_canonical (net_subnet m) = subnet_to_canonical (net_subnet n) \<and>
    mset (net_labels m) = mset (net_labels n) \<and>
    mset (net_node_ids m) = mset (net_node_ids n)"
proof -
  have can: "network_canonical m = network_canonical n"
    using eq no_collision by (auto simp: compute_spec_hash_def)
  have "inj (\<lambda>(k, v). (k :: string, JStr v))" by (auto simp: inj_def)
  then have lab: "sort_key fst (net_labels m) = sort_key fst (net_labels n)"
    using can by (auto simp: network_canonical_def dest!: map_injective)
  have ids: "sort (net_node_ids m) = sort (net_node_ids n)"
    using can by (auto simp: network_canonical_def dest!: map_injective)
  have opts: "net_vlan_id m = net_vlan_id n" "net_vni m = net_vni n" "net_nat m = net_nat n"
    "net_project_id m = net_project_id n"
    using can by (auto simp: network_canonical_def jopt_inject)
  show ?thesis
    using can opts lab ids
    by (simp add: network_canonical_def) (metis mset_sort)
qed


lemma spec_hash_sharp_witness:
  "net_name (bump_intent (\<lambda>_. ''h'') 3 example_network) = ''prod'' \<and>
   mset (net_node_ids (bump_intent (\<lambda>_. ''h'') 3 example_network)) = {#''node_a00001'', ''node_b00002''#}"
  using spec_hash_sharp [of "bump_intent (\<lambda>_. ''h'') 3 example_network" example_network "\<lambda>_. ''h''"]
  by (simp add: bump_intent_def compute_spec_hash_def Let_def)
    (simp add: example_network_def)

text \<open>
  The spec hash does not cover everything the plan depends on: DNS servers, allocation pools
  and reserved ranges may change without changing the hash, although the module says it is taken
  over the whole spec but timestamps and the intent version.
\<close>

lemma spec_hash_ignores_dns_and_pools:
  assumes "net_subnet n = Some s"
  shows "compute_spec_hash d (n\<lparr>net_subnet := Some (s\<lparr>sub_dns_servers := ds, sub_pools := ps,
           sub_reserved := rs\<rparr>)\<rparr>) = compute_spec_hash d n"
  using assms by (simp add: compute_spec_hash_def network_canonical_def subnet_to_canonical_def)

lemma spec_hash_ignores_dns_and_pools_witness:
  "\<forall>d. compute_spec_hash d (example_network\<lparr>net_subnet := Some (example_subnet\<lparr>
      sub_dns_servers := [''9.9.9.9''], sub_pools := [], sub_reserved := []\<rparr>)\<rparr>)
   = compute_spec_hash d example_network"
  by (rule allI, rule spec_hash_ignores_dns_and_pools) (simp add: example_network_def)

end
