(* ===== verification/Node.thy ===== *)
theory Node
  imports PyIp Errors Enums
begin

text \<open>
  The \<open>Node\<close> aggregate (\<open>core/entities/node.py\<close>) with its capabilities
  (\<open>core/value_objects/capabilities.py\<close>) and the status readers see
  (\<open>core/services/node_status.py\<close>). A method returns the updated record; one that raises leaves
  the node unchanged. An age of at least \<open>n\<close> seconds is compared in microseconds, which is exact
  for every age below the 53 bits of the float the code divides into.
\<close>

record node_capabilities =
  cap_ovs_version :: "string option"
  cap_kernel :: "string option"
  cap_interfaces :: "string list"
  cap_features :: "string list"

definition cap_supports :: "node_capabilities \<Rightarrow> string \<Rightarrow> bool" where
  "cap_supports c f \<longleftrightarrow> f \<in> set (cap_features c)"

record node =
  nd_id :: string
  nd_name :: string
  nd_mgmt_ip :: string
  nd_created_at :: time
  nd_updated_at :: time
  nd_status :: node_status
  nd_roles :: "string list"
  nd_labels :: "(string, string) dict"
  nd_agent_version :: "string option"
  nd_last_seen_at :: "time option"
  nd_capabilities :: "node_capabilities option"
  nd_tls_thumbprint :: "string option"
  nd_project_id :: "string option"
  nd_maintenance :: bool
  nd_maintenance_at :: "time option"

definition normalize_thumbprint :: "string \<Rightarrow> exc + string" where
  "normalize_thumbprint value =
     (let tp = py_lower (py_strip value)
      in if length tp \<noteq> 64 \<or> \<not> list_all (\<lambda>c. c \<in> set ''0123456789abcdef'') tp
         then Inl err_validation else Inr tp)"

text \<open>The optional argument: \<open>f v if v is not None else None\<close>.\<close>

definition opt_thumbprint :: "string option \<Rightarrow> exc + string option" where
  "opt_thumbprint v = (case v of None \<Rightarrow> Inr None
     | Some t \<Rightarrow> bindE (normalize_thumbprint t) (\<lambda>t'. Inr (Some t')))"

definition mk_node :: "node \<Rightarrow> exc + node" where
  "mk_node n =
     bindE (require (\<not> blank (nd_name n)) err_validation) (\<lambda>_.
     bindE (require (ip_address (nd_mgmt_ip n) \<noteq> None) err_validation) (\<lambda>_.
     bindE (opt_thumbprint (nd_tls_thumbprint n)) (\<lambda>tp.
     Inr (n\<lparr>nd_tls_thumbprint := tp\<rparr>))))"

text \<open>\<open>if v is not None: self.f = v\<close>\<close>

definition or_keep :: "'a option \<Rightarrow> 'a option \<Rightarrow> 'a option" where
  "or_keep new old = (case new of None \<Rightarrow> old | Some _ \<Rightarrow> new)"

definition enroll ::
  "time \<Rightarrow> string option \<Rightarrow> node_capabilities option \<Rightarrow> string option \<Rightarrow> node \<Rightarrow> exc + node" where
  "enroll now ver caps tp n =
     bindE (require (nd_status n = PENDING) err_validation) (\<lambda>_.
     bindE (opt_thumbprint tp) (\<lambda>tp'.
     Inr (n\<lparr>nd_status := ONLINE, nd_last_seen_at := Some now, nd_updated_at := now,
            nd_agent_version := or_keep ver (nd_agent_version n),
            nd_capabilities := or_keep caps (nd_capabilities n),
            nd_tls_thumbprint := or_keep tp' (nd_tls_thumbprint n)\<rparr>)))"

definition record_heartbeat ::
  "time \<Rightarrow> string option \<Rightarrow> node_capabilities option \<Rightarrow> node \<Rightarrow> exc + node" where
  "record_heartbeat now ver caps n =
     bindE (require (nd_status n \<noteq> PENDING) err_validation) (\<lambda>_.
     let n' = n\<lparr>nd_last_seen_at := Some now, nd_updated_at := now,
                nd_agent_version := or_keep ver (nd_agent_version n),
                nd_capabilities := or_keep caps (nd_capabilities n)\<rparr>
     in Inr (if nd_status n' \<in> {STALE, OFFLINE} then n'\<lparr>nd_status := ONLINE\<rparr> else n'))"

definition mark_drain :: "time \<Rightarrow> node \<Rightarrow> node" where
  "mark_drain now n = n\<lparr>nd_status := DRAINING, nd_updated_at := now\<rparr>"

definition enter_maintenance :: "time \<Rightarrow> node \<Rightarrow> node" where
  "enter_maintenance now n =
     n\<lparr>nd_maintenance := True, nd_maintenance_at := Some now, nd_updated_at := now\<rparr>"

definition exit_maintenance :: "time \<Rightarrow> node \<Rightarrow> node" where
  "exit_maintenance now n =
     n\<lparr>nd_maintenance := False, nd_maintenance_at := None, nd_updated_at := now\<rparr>"

definition derived_status :: "time \<Rightarrow> int \<Rightarrow> int \<Rightarrow> node \<Rightarrow> node_status" where
  "derived_status now stale_after offline_after n =
     (if nd_status n \<in> {PENDING, DRAINING} then nd_status n
      else case nd_last_seen_at n of
        None \<Rightarrow> nd_status n
      | Some seen \<Rightarrow>
          let age = now - seen in
          if age \<ge> seconds offline_after then OFFLINE
          else if age \<ge> seconds stale_after then STALE
          else ONLINE)"

definition apply_derived_status :: "time \<Rightarrow> int \<Rightarrow> int \<Rightarrow> node \<Rightarrow> node" where
  "apply_derived_status now stale_after offline_after n =
     n\<lparr>nd_status := derived_status now stale_after offline_after n\<rparr>"

subsection \<open>The invariant of a node\<close>

definition thumbprint_ok :: "string \<Rightarrow> bool" where
  "thumbprint_ok tp \<longleftrightarrow> length tp = 64 \<and> list_all (\<lambda>c. c \<in> set ''0123456789abcdef'') tp"

definition node_wf :: "node \<Rightarrow> bool" where
  "node_wf n \<longleftrightarrow>
     \<not> blank (nd_name n) \<and> ip_address (nd_mgmt_ip n) \<noteq> None \<and>
     (case nd_tls_thumbprint n of None \<Rightarrow> True | Some tp \<Rightarrow> thumbprint_ok tp) \<and>
     (nd_status n = PENDING \<longrightarrow> nd_last_seen_at n = None) \<and>
     (nd_status n \<in> {ONLINE, STALE, OFFLINE} \<longrightarrow> nd_last_seen_at n \<noteq> None) \<and>
     (nd_maintenance n \<longleftrightarrow> nd_maintenance_at n \<noteq> None)"

datatype node_event =
    Enroll time "string option" "node_capabilities option" "string option"
  | Heartbeat time "string option" "node_capabilities option"
  | Drain time
  | EnterMaintenance time
  | ExitMaintenance time
  | Derive time int int

text \<open>One call on the node; a raise leaves it as it was.\<close>

definition or_same :: "'a \<Rightarrow> 'e + 'a \<Rightarrow> 'a" where
  "or_same x r = (case r of Inl _ \<Rightarrow> x | Inr y \<Rightarrow> y)"

fun node_do :: "node_event \<Rightarrow> node \<Rightarrow> node" where
  "node_do (Enroll t v c tp) n = or_same n (enroll t v c tp n)"
| "node_do (Heartbeat t v c) n = or_same n (record_heartbeat t v c n)"
| "node_do (Drain t) n = mark_drain t n"
| "node_do (EnterMaintenance t) n = enter_maintenance t n"
| "node_do (ExitMaintenance t) n = exit_maintenance t n"
| "node_do (Derive t s off) n = apply_derived_status t s off n"

lemma normalize_thumbprint_ok: "normalize_thumbprint v = Inr tp \<Longrightarrow> thumbprint_ok tp"
  by (auto simp: normalize_thumbprint_def thumbprint_ok_def Let_def split: if_splits)

lemma opt_thumbprint_ok: "opt_thumbprint v = Inr (Some tp) \<Longrightarrow> thumbprint_ok tp"
  by (auto simp: opt_thumbprint_def bindE_Inr_iff normalize_thumbprint_ok split: option.splits)

lemma opt_thumbprint_wf:
  "opt_thumbprint v = Inr w \<Longrightarrow> (case w of None \<Rightarrow> True | Some tp \<Rightarrow> thumbprint_ok tp)"
  by (cases w) (auto simp: opt_thumbprint_ok)

lemma enroll_wf: "node_wf n \<Longrightarrow> enroll t v c tp n = Inr n' \<Longrightarrow> node_wf n'"
  by (auto simp: enroll_def bindE_Inr_iff node_wf_def or_keep_def opt_thumbprint_ok
      split: option.splits)

lemma heartbeat_wf: "node_wf n \<Longrightarrow> record_heartbeat t v c n = Inr n' \<Longrightarrow> node_wf n'"
  by (auto simp: record_heartbeat_def bindE_Inr_iff node_wf_def Let_def split: if_splits)

lemma derived_wf: "node_wf n \<Longrightarrow> node_wf (apply_derived_status t s off n)"
  by (auto simp: apply_derived_status_def derived_status_def node_wf_def Let_def
      split: option.splits if_splits)

lemma node_do_wf: "node_wf n \<Longrightarrow> node_wf (node_do e n)"
proof (cases e)
  case (Enroll t v c tp)
  assume "node_wf n"
  then show ?thesis
    using enroll_wf Enroll by (auto simp: or_same_def split: sum.split)
next
  case (Heartbeat t v c)
  assume "node_wf n"
  then show ?thesis
    using heartbeat_wf Heartbeat by (auto simp: or_same_def split: sum.split)
next
  case (Derive t s off)
  assume "node_wf n"
  then show ?thesis by (simp add: Derive derived_wf)
qed (simp_all add: node_wf_def mark_drain_def enter_maintenance_def exit_maintenance_def)

lemma node_run_wf: "node_wf n \<Longrightarrow> node_wf (fold node_do es n)"
  by (induction es arbitrary: n) (auto simp: node_do_wf)

definition fresh_node :: "node \<Rightarrow> bool" where
  "fresh_node n \<longleftrightarrow> nd_status n = PENDING \<and> nd_last_seen_at n = None \<and> \<not> nd_maintenance n \<and>
     nd_maintenance_at n = None"

lemma mk_node_wf: "mk_node n = Inr n' \<Longrightarrow> fresh_node n \<Longrightarrow> node_wf n'"
  by (auto simp: mk_node_def bindE_Inr_iff node_wf_def fresh_node_def dest: opt_thumbprint_wf)

lemma or_same_drain: "nd_status n = DRAINING \<Longrightarrow> nd_status (node_do e n) = DRAINING"
  by (cases e) (auto simp: enroll_def record_heartbeat_def mark_drain_def enter_maintenance_def
      exit_maintenance_def apply_derived_status_def derived_status_def or_same_def Let_def)

lemma drain_run: "nd_status n = DRAINING \<Longrightarrow> nd_status (fold node_do es n) = DRAINING"
  by (induction es arbitrary: n) (auto simp: or_same_drain)

fun staleness :: "node_status \<Rightarrow> nat" where
  "staleness OFFLINE = 2"
| "staleness STALE = 1"
| "staleness _ = 0"

definition example_node :: node where
  "example_node = \<lparr>nd_id = ''node_a'', nd_name = ''edge'', nd_mgmt_ip = ''10.0.0.1'',
     nd_created_at = 0, nd_updated_at = 0, nd_status = PENDING, nd_roles = [], nd_labels = [],
     nd_agent_version = None, nd_last_seen_at = None, nd_capabilities = None,
     nd_tls_thumbprint = None, nd_project_id = None, nd_maintenance = False,
     nd_maintenance_at = None\<rparr>"

lemma example_node_addr: "ip_address ''10.0.0.1'' \<noteq> None"
  by (simp add: ip_evals)

lemma example_mk_node: "mk_node example_node = Inr example_node"
  using example_node_addr
  by (simp add: mk_node_def example_node_def opt_thumbprint_def blank_iff py_isspace_def Let_def)

lemma example_fresh: "fresh_node example_node"
  by (simp add: fresh_node_def example_node_def)

text \<open>
  A node that its constructor accepted keeps its invariant through every sequence of
  enrolments, heartbeats, drains, maintenance switches and status derivations, whether the calls
  succeed or raise: a pinned thumbprint is always 64 lower-case hex digits, a pending node has
  never been seen, an online, stale or offline one has, and maintenance is dated.
\<close>

lemma node_invariant:
  assumes "mk_node n0 = Inr n" "fresh_node n0"
  shows "node_wf (fold node_do es n)"
  using node_run_wf mk_node_wf assms by blast

lemma node_invariant_witness:
  "node_wf (fold node_do [Enroll 5 None None (Some (replicate 64 (CHR ''A''))), Heartbeat 9 None None]
     example_node)"
  by (rule node_invariant [OF example_mk_node example_fresh])

text \<open>
  Draining is final: once a node is marked for drain, no later sequence of calls, heartbeats
  included, brings it back to another status.
\<close>

lemma drain_is_final:
  "nd_status (fold node_do es (mark_drain t n)) = DRAINING \<and>
   derived_status now s off (fold node_do es (mark_drain t n)) = DRAINING"
  using drain_run [of "mark_drain t n" es] by (simp add: mark_drain_def derived_status_def)

text \<open>
  A heartbeat never admits a pending node: it raises a validation error and only enrolment
  leaves the pending state; on every other node it succeeds, and right after it a node that is
  not draining derives as online for as long as its age stays under both thresholds.
\<close>

lemma heartbeat_recovers:
  "(case record_heartbeat t v c (n :: node) of
      Inl e \<Rightarrow> nd_status n = PENDING \<and> e = err_validation
    | Inr n' \<Rightarrow> nd_status n \<noteq> PENDING \<and> nd_last_seen_at n' = Some t \<and>
        (\<forall>now s off. nd_status n \<noteq> DRAINING \<and> now < t + seconds s \<and> now < t + seconds off \<longrightarrow>
           derived_status now s off n' = ONLINE))"
  by (auto simp: record_heartbeat_def derived_status_def Let_def require_def)

lemma heartbeat_recovers_witness:
  "\<exists>n'. record_heartbeat 7 None None (mark_drain 3 example_node) = Inr n' \<and>
     nd_last_seen_at n' = Some 7"
  using heartbeat_recovers [where t = 7 and v = None and c = None and n = "mark_drain 3 example_node"]
  by (auto simp: mark_drain_def example_node_def split: sum.splits)

text \<open>
  Without a new heartbeat the derived status only ages: reading the same node later, under
  the same thresholds, never shows a fresher status than reading it earlier.
\<close>

lemma derived_status_ages:
  assumes "now \<le> now'" "nd_last_seen_at n \<noteq> None"
  shows "staleness (derived_status now s off n) \<le> staleness (derived_status now' s off n)"
  using assms by (auto simp: derived_status_def Let_def)

lemma derived_status_ages_witness:
  "derived_status 200000000 60 300 (or_same example_node (enroll 5 None None None example_node)) = STALE \<and>
   staleness STALE \<le> staleness (derived_status 400000000 60 300
      (or_same example_node (enroll 5 None None None example_node)))"
  using derived_status_ages [where now = 200000000 and now' = 400000000 and s = 60 and off = 300
      and n = "or_same example_node (enroll 5 None None None example_node)"]
  by (simp add: derived_status_def enroll_def example_node_def opt_thumbprint_def or_same_def)

end
