(* ===== verification/Agent_Port.thy ===== *)
theory Agent_Port
  imports Network Node
begin

text \<open>
  The southbound contract as the controller sees it (\<open>ports/agent.py\<close>): the plan steps, the
  per-step results, the view of a node's switch that an agent returns, and the controller's own
  copy of that view (\<open>core/entities/observed_state.py\<close>) with the projection that
  \<open>core/use_cases/reconcile.py\<close> applies to it.
\<close>

type_synonym sdict = "(string, string) dict"

subsection \<open>Plan steps\<close>

record dhcp_scope =
  ds_scope_id :: string
  ds_cidr :: string
  ds_range_start :: string
  ds_range_end :: string
  ds_gateway :: "string option"
  ds_dns_servers :: "string list"
  ds_lease_time :: int
  ds_domain_name :: "string option"

record dns_record =
  dr_name :: string
  dr_type :: string
  dr_value :: string
  dr_ttl :: int

record dns_zone =
  dz_zone :: string
  dz_records :: "dns_record list"
  dz_soa_email :: string

record nat_rule =
  nr_rule_id :: string
  nr_source_cidr :: string
  nr_egress :: string

record fw_rule_wire =
  fw_action_text :: string
  fw_proto_text :: string
  fw_source :: "string option"
  fw_destination :: "string option"
  fw_port_start :: "int option"
  fw_port_end :: "int option"

record fw_policy_step =
  fs_policy_id :: string
  fs_default_action :: string
  fs_rules :: "fw_rule_wire list"

datatype plan_step =
    EnsureBridgeStep string string sdict
  | DeleteBridgeStep string
  | EnsurePortStep string string string sdict "int option" "int list" sdict
  | DeletePortStep string string
  | EnsureVxlanPortStep string string int string "string option" int "int option" sdict
  | EnsureDhcpScopeStep dhcp_scope
  | DeleteDhcpScopeStep string
  | EnsureDnsZoneStep dns_zone
  | DeleteDnsZoneStep string
  | EnsureNatRuleStep nat_rule
  | DeleteNatRuleStep string
  | EnsureFirewallPolicyStep fw_policy_step
  | DeleteFirewallPolicyStep string

fun step_action :: "plan_step \<Rightarrow> string" where
  "step_action (EnsureBridgeStep _ _ _) = ''ensure_bridge''"
| "step_action (DeleteBridgeStep _) = ''delete_bridge''"
| "step_action (EnsurePortStep _ _ _ _ _ _ _) = ''ensure_port''"
| "step_action (DeletePortStep _ _) = ''delete_port''"
| "step_action (EnsureVxlanPortStep _ _ _ _ _ _ _ _) = ''ensure_vxlan_port''"
| "step_action (EnsureDhcpScopeStep _) = ''ensure_dhcp_scope''"
| "step_action (DeleteDhcpScopeStep _) = ''delete_dhcp_scope''"
| "step_action (EnsureDnsZoneStep _) = ''ensure_dns_zone''"
| "step_action (DeleteDnsZoneStep _) = ''delete_dns_zone''"
| "step_action (EnsureNatRuleStep _) = ''ensure_nat_rule''"
| "step_action (DeleteNatRuleStep _) = ''delete_nat_rule''"
| "step_action (EnsureFirewallPolicyStep _) = ''ensure_firewall_policy''"
| "step_action (DeleteFirewallPolicyStep _) = ''delete_firewall_policy''"

record plan =
  pl_id :: string
  pl_steps :: "plan_step list"

record step_result =
  sr_action :: string
  sr_ok :: bool
  sr_changed :: bool
  sr_code :: "string option"

record plan_result =
  pr_plan_id :: string
  pr_ok :: bool
  pr_steps :: "step_result list"

text \<open>
  The loop both executors of a plan run (\<open>FakeAgent.apply_plan\<close> and the agent's \<open>ApplyPlan\<close>): one
  result per step in order, a failed step reports its code and does not stop the later ones, and
  the plan is ok when no step failed. The result's message is not modelled.
\<close>

fun exec_steps ::
  "('a \<Rightarrow> string) \<Rightarrow> ('e \<Rightarrow> string) \<Rightarrow> ('a \<Rightarrow> 's \<Rightarrow> 'e + 's \<times> bool) \<Rightarrow> 'a list \<Rightarrow> 's
     \<Rightarrow> 's \<times> bool \<times> step_result list" where
  "exec_steps act code f [] s = (s, True, [])"
| "exec_steps act code f (x # xs) s =
     (case f x s of
        Inl e \<Rightarrow>
          (let (s', _, rs) = exec_steps act code f xs s
           in (s', False, \<lparr>sr_action = act x, sr_ok = False, sr_changed = False,
                          sr_code = Some (code e)\<rparr> # rs))
      | Inr (s1, ch) \<Rightarrow>
          (let (s', okay, rs) = exec_steps act code f xs s1
           in (s', okay, \<lparr>sr_action = act x, sr_ok = True, sr_changed = ch,
                         sr_code = None\<rparr> # rs)))"

lemma exec_steps_ok: "fst (snd (exec_steps act code f xs s)) \<longleftrightarrow>
    (\<forall>r \<in> set (snd (snd (exec_steps act code f xs s))). sr_ok r)"
  by (induction xs arbitrary: s) (simp_all add: Let_def split_beta split: sum.split)

lemma exec_steps_actions:
  "List.map sr_action (snd (snd (exec_steps act code f xs s))) = List.map act xs"
  by (induction xs arbitrary: s) (simp_all add: Let_def split_beta split: sum.split)

subsection \<open>Switch views\<close>

record iface_view =
  iv_name :: string
  iv_type :: string
  iv_options :: sdict
  iv_admin_state :: string

record port_view =
  pv_name :: string
  pv_interfaces :: "iface_view list"
  pv_tag :: "int option"
  pv_trunks :: "int list"
  pv_ids :: sdict

record bridge_view =
  bv_name :: string
  bv_datapath :: string
  bv_ports :: "port_view list"
  bv_ids :: sdict

record state_view =
  sv_ovs_version :: "string option"
  sv_bridges :: "bridge_view list"
  sv_state_hash :: string

subsection \<open>Observed state\<close>

record obs_iface =
  oi_name :: string
  oi_type :: string
  oi_options :: sdict

record obs_port =
  opt_name :: string
  opt_interfaces :: "obs_iface list"
  opt_tag :: "int option"
  opt_trunks :: "int list"
  opt_ids :: sdict

record obs_bridge =
  ob_name :: string
  ob_datapath :: string
  ob_ports :: "obs_port list"
  ob_ids :: sdict

record observed_state =
  os_node_id :: string
  os_observed_at :: time
  os_state_hash :: string
  os_bridges :: "obs_bridge list"

definition find_bridge :: "string \<Rightarrow> obs_bridge list \<Rightarrow> obs_bridge option" where
  "find_bridge name bs = find (\<lambda>b. ob_name b = name) bs"

definition port_view_to_observed :: "port_view \<Rightarrow> obs_port" where
  "port_view_to_observed p =
     \<lparr>opt_name = pv_name p,
      opt_interfaces = List.map (\<lambda>i. \<lparr>oi_name = iv_name i, oi_type = iv_type i,
                                      oi_options = iv_options i\<rparr>) (pv_interfaces p),
      opt_tag = pv_tag p, opt_trunks = pv_trunks p, opt_ids = pv_ids p\<rparr>"

definition bridge_view_to_observed :: "bridge_view \<Rightarrow> obs_bridge" where
  "bridge_view_to_observed b =
     \<lparr>ob_name = bv_name b, ob_datapath = bv_datapath b,
      ob_ports = List.map port_view_to_observed (bv_ports b), ob_ids = bv_ids b\<rparr>"

definition state_view_to_observed :: "string \<Rightarrow> state_view \<Rightarrow> time \<Rightarrow> observed_state" where
  "state_view_to_observed node_id view at =
     \<lparr>os_node_id = node_id, os_observed_at = at, os_state_hash = sv_state_hash view,
      os_bridges = List.map bridge_view_to_observed (sv_bridges view)\<rparr>"

end
