(* ===== verification/Diff_Engine.thy ===== *)
theory Diff_Engine
  imports Agent_Port
begin

text \<open>
  The diff engine (\<open>core/services/diff_engine.py\<close>): the steps that bring one node's switch into
  line with a network, and the compliance test built on it. The abstract reading of compliance,
  \<open>compliant\<close>, says what an observed switch must contain; a theorem shows that the engine's
  test decides it.
\<close>

definition owner_label :: string where "owner_label = ''sdn-controller''"
definition owner_key :: string where "owner_key = ''owner''"
definition network_key :: string where "network_key = ''network_id''"

record node_address =
  na_node_id :: string
  na_mgmt_ip :: string

definition bridge_name :: "network \<Rightarrow> string" where
  "bridge_name n = ''br-'' @ net_name n"

definition vxlan_port_name :: "int \<Rightarrow> node_address \<Rightarrow> string" where
  "vxlan_port_name vni remote =
     ''vx-'' @ str_int vni @ ''-'' @
     drop (length (na_node_id remote) - 6) (na_node_id remote)"

definition dhcp_scope_id :: "network \<Rightarrow> string" where
  "dhcp_scope_id n = ''scope-'' @ net_id n"

definition nat_rule_id :: "network \<Rightarrow> string" where
  "nat_rule_id n = ''nat-'' @ net_id n"

definition firewall_policy_id :: "network \<Rightarrow> string" where
  "firewall_policy_id n = ''policy-'' @ net_id n"

definition is_edge_node :: "network \<Rightarrow> string \<Rightarrow> bool" where
  "is_edge_node n local \<longleftrightarrow> net_node_ids n \<noteq> [] \<and> net_node_ids n ! 0 = local"

definition desired_ids :: "network \<Rightarrow> sdict" where
  "desired_ids n = [(owner_key, owner_label), (network_key, net_id n)]"

definition bridge_changed :: "string \<Rightarrow> sdict \<Rightarrow> obs_bridge \<Rightarrow> bool" where
  "bridge_changed dp ids b \<longleftrightarrow> ob_datapath b \<noteq> dp \<or> \<not> dict_eq (ob_ids b) ids"

definition find_port :: "string \<Rightarrow> obs_bridge option \<Rightarrow> obs_port option" where
  "find_port name b = (case b of None \<Rightarrow> None
     | Some b \<Rightarrow> find (\<lambda>p. opt_name p = name) (ob_ports b))"

definition vxlan_options :: "network \<Rightarrow> node_address \<Rightarrow> sdict" where
  "vxlan_options n peer =
     [(''dst_port'', ''4789''),
      (''key'', (case net_vni n of None \<Rightarrow> ''None'' | Some v \<Rightarrow> str_int v)),
      (''remote_ip'', na_mgmt_ip peer),
      (''mtu_request'', str_int (net_mtu n))]"

definition vxlan_port_changed :: "sdict \<Rightarrow> sdict \<Rightarrow> obs_port \<Rightarrow> bool" where
  "vxlan_port_changed options ids p \<longleftrightarrow>
     (if \<not> dict_eq (opt_ids p) ids then True
      else case opt_interfaces p of
        [] \<Rightarrow> True
      | i # _ \<Rightarrow> oi_type i \<noteq> ''vxlan'' \<or>
          list_ex (\<lambda>(k, v). dget (oi_options i) k \<noteq> Some v) options)"

definition cleanup_for_network :: "network \<Rightarrow> obs_bridge list \<Rightarrow> plan_step list" where
  "cleanup_for_network n bridges =
     List.map (\<lambda>b. DeleteBridgeStep (ob_name b))
       (filter (\<lambda>b. dget (ob_ids b) network_key = Some (net_id n)) bridges)"

definition edge_service_steps :: "network \<Rightarrow> plan_step list" where
  "edge_service_steps n =
     (case net_subnet n of None \<Rightarrow> [] | Some s \<Rightarrow>
        (case sub_dhcp s of None \<Rightarrow> [] | Some d \<Rightarrow>
           [EnsureDhcpScopeStep
              \<lparr>ds_scope_id = dhcp_scope_id n, ds_cidr = sub_cidr s,
               ds_range_start = dhcp_range_start d, ds_range_end = dhcp_range_end d,
               ds_gateway = sub_gateway s, ds_dns_servers = sub_dns_servers s,
               ds_lease_time = dhcp_lease_time d, ds_domain_name = dhcp_domain_name d\<rparr>])) @
     (case net_subnet n of None \<Rightarrow> [] | Some s \<Rightarrow>
        (case sub_dns_zone s of None \<Rightarrow> [] | Some z \<Rightarrow>
           if z = [] then []
           else [EnsureDnsZoneStep \<lparr>dz_zone = z, dz_records = [],
                                    dz_soa_email = ''hostmaster.invalid.''\<rparr>])) @
     (case (net_nat n, net_subnet n) of
        (Some t, Some s) \<Rightarrow>
          [EnsureNatRuleStep \<lparr>nr_rule_id = nat_rule_id n, nr_source_cidr = sub_cidr s,
                              nr_egress = nat_egress t\<rparr>]
      | _ \<Rightarrow> []) @
     (case net_firewall n of None \<Rightarrow> [] | Some f \<Rightarrow>
        [EnsureFirewallPolicyStep
           \<lparr>fs_policy_id = firewall_policy_id n,
            fs_default_action = fw_action_value (fp_default f),
            fs_rules = List.map (\<lambda>r.
              \<lparr>fw_action_text = fw_action_value (fr_action r),
               fw_proto_text = fw_proto_value (fr_proto r), fw_source = fr_source r,
               fw_destination = fr_destination r, fw_port_start = fr_port_start r,
               fw_port_end = fr_port_end r\<rparr>) (fp_rules f)\<rparr>])"

definition vxlan_step :: "network \<Rightarrow> int \<Rightarrow> node_address \<Rightarrow> plan_step" where
  "vxlan_step n vni peer =
     EnsureVxlanPortStep (bridge_name n) (vxlan_port_name vni peer) vni (na_mgmt_ip peer)
       None 4789 (Some (net_mtu n)) (desired_ids n)"

text \<open>The body of the loop over peers, for one peer.\<close>

definition peer_steps ::
  "network \<Rightarrow> string \<Rightarrow> int \<Rightarrow> obs_bridge option \<Rightarrow> node_address \<Rightarrow> plan_step list" where
  "peer_steps n local vni observed_bridge peer =
     (if na_node_id peer = local then []
      else case find_port (vxlan_port_name vni peer) observed_bridge of
        None \<Rightarrow> [vxlan_step n vni peer]
      | Some p \<Rightarrow>
          if vxlan_port_changed (vxlan_options n peer) (desired_ids n) p
          then [vxlan_step n vni peer] else [])"

definition diff_for_node ::
  "network \<Rightarrow> string \<Rightarrow> node_address list \<Rightarrow> obs_bridge list \<Rightarrow> plan_step list" where
  "diff_for_node n local peers bridges =
     (if local \<notin> set (net_node_ids n) then cleanup_for_network n bridges
      else
        let br = bridge_name n; observed_bridge = find_bridge br bridges in
        (case observed_bridge of
           None \<Rightarrow> [EnsureBridgeStep br ''system'' (desired_ids n)]
         | Some b \<Rightarrow>
             if bridge_changed ''system'' (desired_ids n) b
             then [EnsureBridgeStep br ''system'' (desired_ids n)] else []) @
        (case net_vni n of
           Some vni \<Rightarrow>
             if net_type n = VXLAN
             then concat (List.map (peer_steps n local vni observed_bridge) peers) else []
         | None \<Rightarrow> []) @
        List.map (\<lambda>b. DeleteBridgeStep (ob_name b))
          (filter (\<lambda>b. dget (ob_ids b) network_key = Some (net_id n) \<and> ob_name b \<noteq> br) bridges) @
        (if is_edge_node n local then edge_service_steps n else []))"

fun is_edge_step :: "plan_step \<Rightarrow> bool" where
  "is_edge_step (EnsureDhcpScopeStep _) = True"
| "is_edge_step (EnsureDnsZoneStep _) = True"
| "is_edge_step (EnsureNatRuleStep _) = True"
| "is_edge_step (EnsureFirewallPolicyStep _) = True"
| "is_edge_step _ = False"

definition is_in_compliance ::
  "network \<Rightarrow> string \<Rightarrow> node_address list \<Rightarrow> obs_bridge list \<Rightarrow> bool" where
  "is_in_compliance n local peers bridges =
     list_all is_edge_step (diff_for_node n local peers bridges)"

subsection \<open>What compliance means\<close>

text \<open>
  \<open>port_fits n peer p\<close>: the port carries the network's tag and its first interface is a VXLAN
  tunnel to the peer with the options the network asks for (further options are allowed).
\<close>

definition port_fits :: "network \<Rightarrow> node_address \<Rightarrow> obs_port \<Rightarrow> bool" where
  "port_fits n peer p \<longleftrightarrow>
     dget (opt_ids p) = dget (desired_ids n) \<and>
     (\<exists>i rest. opt_interfaces p = i # rest \<and> oi_type i = ''vxlan'' \<and>
        (\<forall>k v. (k, v) \<in> set (vxlan_options n peer) \<longrightarrow> dget (oi_options i) k = Some v))"

definition bridge_fits :: "network \<Rightarrow> string \<Rightarrow> node_address list \<Rightarrow> obs_bridge \<Rightarrow> bool" where
  "bridge_fits n local peers b \<longleftrightarrow>
     ob_datapath b = ''system'' \<and> dget (ob_ids b) = dget (desired_ids n) \<and>
     (\<forall>vni peer. net_type n = VXLAN \<and> net_vni n = Some vni \<and> peer \<in> set peers \<and>
        na_node_id peer \<noteq> local \<longrightarrow>
        (\<exists>p. find_port (vxlan_port_name vni peer) (Some b) = Some p \<and> port_fits n peer p))"

definition compliant :: "network \<Rightarrow> string \<Rightarrow> node_address list \<Rightarrow> obs_bridge list \<Rightarrow> bool" where
  "compliant n local peers bridges \<longleftrightarrow>
     (\<forall>b \<in> set bridges. dget (ob_ids b) network_key = Some (net_id n) \<longrightarrow>
        local \<in> set (net_node_ids n) \<and> ob_name b = bridge_name n) \<and>
     (local \<in> set (net_node_ids n) \<longrightarrow>
        (\<exists>b. find_bridge (bridge_name n) bridges = Some b \<and> bridge_fits n local peers b))"

lemma vxlan_port_changed_iff:
  "vxlan_port_changed (vxlan_options n peer) (desired_ids n) p \<longleftrightarrow> \<not> port_fits n peer p"
  by (cases "opt_interfaces p")
    (auto simp: vxlan_port_changed_def port_fits_def dict_eq_iff list_ex_iff Bex_def split_paired_Ex)

lemma bridge_changed_iff:
  "bridge_changed ''system'' (desired_ids n) b \<longleftrightarrow>
     \<not> (ob_datapath b = ''system'' \<and> dget (ob_ids b) = dget (desired_ids n))"
  by (auto simp: bridge_changed_def dict_eq_iff)

lemma peer_steps_edge:
  "list_all is_edge_step (peer_steps n local vni b peer) \<longleftrightarrow>
     na_node_id peer = local \<or>
     (\<exists>p. find_port (vxlan_port_name vni peer) b = Some p \<and> port_fits n peer p)"
  by (auto simp: peer_steps_def vxlan_port_changed_iff vxlan_step_def split: option.splits)

lemma list_all_concat_map:
  "list_all P (concat (List.map f xs)) \<longleftrightarrow> (\<forall>x \<in> set xs. list_all P (f x))"
  by (induction xs) auto

lemma edge_service_steps_edge: "list_all is_edge_step (edge_service_steps n)"
  by (auto simp: edge_service_steps_def split: option.splits)

lemma sweep_edge:
  "list_all is_edge_step (List.map (\<lambda>b. DeleteBridgeStep (ob_name b)) (filter P bs)) \<longleftrightarrow>
     (\<forall>b \<in> set bs. \<not> P b)"
  by (induction bs) auto

lemma is_in_compliance_iff: "is_in_compliance n local peers bs \<longleftrightarrow> compliant n local peers bs"
proof (cases "local \<in> set (net_node_ids n)")
  case False
  then show ?thesis
    by (simp add: is_in_compliance_def diff_for_node_def cleanup_for_network_def sweep_edge
        compliant_def)
next
  case True
  show ?thesis
  proof (cases "find_bridge (bridge_name n) bs")
    case None
    with True show ?thesis
      by (simp add: is_in_compliance_def diff_for_node_def Let_def compliant_def)
  next
    case (Some b)
    have "is_in_compliance n local peers bs \<longleftrightarrow>
        (\<not> bridge_changed ''system'' (desired_ids n) b) \<and>
        (\<forall>vni. net_vni n = Some vni \<and> net_type n = VXLAN \<longrightarrow>
           (\<forall>peer \<in> set peers. list_all is_edge_step (peer_steps n local vni (Some b) peer))) \<and>
        (\<forall>b \<in> set bs. \<not> (dget (ob_ids b) network_key = Some (net_id n) \<and> ob_name b \<noteq> bridge_name n))"
      using True Some
      by (cases "net_vni n") (simp_all add: is_in_compliance_def diff_for_node_def Let_def
          edge_service_steps_edge list_all_concat_map sweep_edge)
    then show ?thesis
      using True Some
      by (auto simp: compliant_def bridge_fits_def bridge_changed_iff peer_steps_edge)
  qed
qed

text \<open>
  C30. The compliance test decides compliance: it accepts an observed switch exactly when, on a
  member node, the network's bridge is there with the system datapath and exactly the
  controller's tags, every tunnel to another member is present on it with the tag, the VXLAN
  type and the network's options, and no other bridge carries the network's tag; on a node that
  is not a member, exactly when no bridge carries the tag.
\<close>

theorem compliance_decides:
  "is_in_compliance n local peers bridges = compliant n local peers bridges"
  by (rule is_in_compliance_iff)

text \<open>
  A switch that already complies gets no structural step: its diff is exactly the network's
  edge-service steps on the edge node and empty on every other node.
\<close>

lemma compliant_diff:
  assumes "compliant n local peers bridges"
  shows "diff_for_node n local peers bridges =
    (if is_edge_node n local then edge_service_steps n else [])"
proof -
  have edge_member: "is_edge_node n local \<Longrightarrow> local \<in> set (net_node_ids n)"
    by (auto simp: is_edge_node_def)
  have no_sweep: "filter (\<lambda>b. dget (ob_ids b) network_key = Some (net_id n) \<and>
      ob_name b \<noteq> bridge_name n) bridges = []"
    using assms by (auto simp: compliant_def filter_empty_conv)
  show ?thesis
  proof (cases "local \<in> set (net_node_ids n)")
    case False
    then show ?thesis
      using assms edge_member
      by (auto simp: compliant_def diff_for_node_def cleanup_for_network_def filter_empty_conv)
  next
    case True
    then obtain b where b: "find_bridge (bridge_name n) bridges = Some b"
      and fits: "bridge_fits n local peers b"
      using assms by (auto simp: compliant_def)
    have "peer_steps n local vni (Some b) peer = []"
      if "net_type n = VXLAN" "net_vni n = Some vni" "peer \<in> set peers" for vni peer
      using fits that by (auto simp: bridge_fits_def peer_steps_def vxlan_port_changed_iff)
    moreover have "\<not> bridge_changed ''system'' (desired_ids n) b"
      using fits by (simp add: bridge_changed_iff bridge_fits_def)
    ultimately show ?thesis
      using True b no_sweep by (auto simp: diff_for_node_def Let_def split: option.splits)
  qed
qed

definition compliant_bridge :: obs_bridge where
  "compliant_bridge = \<lparr>ob_name = bridge_name example_network, ob_datapath = ''system'',
     ob_ports = [], ob_ids = desired_ids example_network\<rparr>"

lemma example_compliant: "compliant example_network ''node_a00001'' [] [compliant_bridge]"
  by (simp add: compliant_def compliant_bridge_def example_network_def find_bridge_def
      bridge_fits_def bridge_name_def)

lemma compliant_diff_witness:
  "diff_for_node example_network ''node_a00001'' [] [compliant_bridge] =
     edge_service_steps example_network"
  using compliant_diff [OF example_compliant] by (simp add: is_edge_node_def example_network_def)

text \<open>
  Steps for a node that left the network only ever remove bridges that carry the network's
  own tag: no other object of the node is named by the plan.
\<close>

lemma cleanup_only_owned:
  assumes "local \<notin> set (net_node_ids n)" "st \<in> set (diff_for_node n local peers bridges)"
  shows "\<exists>b \<in> set bridges. st = DeleteBridgeStep (ob_name b) \<and>
    dget (ob_ids b) network_key = Some (net_id n)"
  using assms by (auto simp: diff_for_node_def cleanup_for_network_def)

definition example_owned :: obs_bridge where
  "example_owned = \<lparr>ob_name = ''br-old'', ob_datapath = ''system'', ob_ports = [],
     ob_ids = [(''network_id'', net_id example_network)]\<rparr>"

lemma example_left: "''node_zzzzzz'' \<notin> set (net_node_ids example_network)"
  by (simp add: example_network_def)

lemma cleanup_only_owned_witness:
  "\<exists>b \<in> set [example_owned]. DeleteBridgeStep ''br-old'' = DeleteBridgeStep (ob_name b) \<and>
    dget (ob_ids b) network_key = Some (net_id example_network)"
  by (rule cleanup_only_owned [OF example_left, where peers = "[]"])
    (simp add: diff_for_node_def example_left cleanup_for_network_def example_owned_def network_key_def)

end
