(* ===== verification/Ids.thy ===== *)
theory Ids
  imports Prelude
begin

text \<open>
  Typed identifiers (\<open>core/value_objects/ids.py\<close>). Every id is \<open>prefix_<hex>\<close>, where the hex
  part is \<open>uuid.uuid4().hex\<close>; the random value is an argument here. The lemmas show that ids of
  different kinds never coincide, whatever the random parts, and that ids of one kind coincide
  only when the random parts do.
\<close>

datatype id_kind =
    NodeId | NetworkId | SubnetId | OperationId | EnrollmentTokenId | IpAllocationId
  | ServiceAccountId | ServiceTokenId | AuditEventId | NodeSnapshotId | OutboxEventId
  | WebhookSubscriptionId | ProjectId
  | LogicalPortId | SecurityGroupId | AddressPoolId | ServiceObjectId | QosPolicyId
  | SecurityPolicyId | TrunkPortId
  | RouterId | FloatingIpId | BgpPeerId
  | ProjectQuotaId | ResourceSnapshotId | RetentionPolicyId | GatewayBondId | LoadBalancerId
  | LbPoolId | LbMemberId | LbListenerId | HealthMonitorId
  | ApplyScheduleId | MirrorSessionId | VpnTunnelId | VpnPeerId

fun prefix_of :: "id_kind \<Rightarrow> string" where
  "prefix_of NodeId = ''node''"
| "prefix_of NetworkId = ''net''"
| "prefix_of SubnetId = ''sub''"
| "prefix_of OperationId = ''op''"
| "prefix_of EnrollmentTokenId = ''enroll''"
| "prefix_of IpAllocationId = ''ipa''"
| "prefix_of ServiceAccountId = ''sa''"
| "prefix_of ServiceTokenId = ''tok''"
| "prefix_of AuditEventId = ''audit''"
| "prefix_of NodeSnapshotId = ''snap''"
| "prefix_of OutboxEventId = ''outbox''"
| "prefix_of WebhookSubscriptionId = ''whsub''"
| "prefix_of ProjectId = ''proj''"
| "prefix_of LogicalPortId = ''lport''"
| "prefix_of SecurityGroupId = ''sg''"
| "prefix_of AddressPoolId = ''apool''"
| "prefix_of ServiceObjectId = ''svcobj''"
| "prefix_of QosPolicyId = ''qos''"
| "prefix_of SecurityPolicyId = ''spol''"
| "prefix_of TrunkPortId = ''tport''"
| "prefix_of RouterId = ''rtr''"
| "prefix_of FloatingIpId = ''fip''"
| "prefix_of BgpPeerId = ''bgpp''"
| "prefix_of ProjectQuotaId = ''pquota''"
| "prefix_of ResourceSnapshotId = ''rsnap''"
| "prefix_of RetentionPolicyId = ''ret''"
| "prefix_of GatewayBondId = ''gbond''"
| "prefix_of LoadBalancerId = ''lb''"
| "prefix_of LbPoolId = ''lbpool''"
| "prefix_of LbMemberId = ''lbm''"
| "prefix_of LbListenerId = ''lblis''"
| "prefix_of HealthMonitorId = ''hm''"
| "prefix_of ApplyScheduleId = ''sched''"
| "prefix_of MirrorSessionId = ''mirror''"
| "prefix_of VpnTunnelId = ''vpnt''"
| "prefix_of VpnPeerId = ''vpnp''"

text \<open>\<open>_new_id\<close>, with the fresh \<open>uuid4().hex\<close> as an argument.\<close>

definition new_id :: "string \<Rightarrow> string \<Rightarrow> string" where
  "new_id prefix uuid_hex = prefix @ ''_'' @ uuid_hex"

text \<open>The methods of \<open>UuidIdFactory\<close>, one per kind.\<close>

definition factory_id :: "id_kind \<Rightarrow> string \<Rightarrow> string" where
  "factory_id k uuid_hex = new_id (prefix_of k) uuid_hex"

definition id_kinds :: "id_kind list" where
  "id_kinds = [NodeId, NetworkId, SubnetId, OperationId, EnrollmentTokenId, IpAllocationId,
     ServiceAccountId, ServiceTokenId, AuditEventId, NodeSnapshotId, OutboxEventId,
     WebhookSubscriptionId, ProjectId, LogicalPortId, SecurityGroupId, AddressPoolId,
     ServiceObjectId, QosPolicyId, SecurityPolicyId, TrunkPortId, RouterId, FloatingIpId,
     BgpPeerId, ProjectQuotaId, ResourceSnapshotId, RetentionPolicyId, GatewayBondId,
     LoadBalancerId, LbPoolId, LbMemberId, LbListenerId, HealthMonitorId, ApplyScheduleId,
     MirrorSessionId, VpnTunnelId, VpnPeerId]"

lemma id_kinds_complete: "k \<in> set id_kinds"
  by (cases k) (simp_all add: id_kinds_def)

lemma prefixes_distinct: "distinct (List.map prefix_of id_kinds)"
  by (simp add: id_kinds_def)

lemma prefix_of_inj: "prefix_of k = prefix_of k' \<Longrightarrow> k = k'"
  using prefixes_distinct id_kinds_complete by (auto simp: distinct_map dest: inj_onD)

lemma prefix_no_underscore: "CHR ''_'' \<notin> set (prefix_of k)"
  by (cases k) simp_all

lemma new_id_split:
  "CHR ''_'' \<notin> set p \<Longrightarrow> takeWhile (\<lambda>c. c \<noteq> CHR ''_'') (new_id p u) = p
     \<and> dropWhile (\<lambda>c. c \<noteq> CHR ''_'') (new_id p u) = CHR ''_'' # u"
  by (induction p) (auto simp: new_id_def)

text \<open>
  Identifiers are self-describing: two generated ids are equal only if they are of the same
  kind and come from the same random value; an id of one resource is never an id of another.
\<close>

lemma factory_id_inject:
  "factory_id k u = factory_id k' u' \<longleftrightarrow> k = k' \<and> u = u'"
proof
  assume eq: "factory_id k u = factory_id k' u'"
  have "prefix_of k = prefix_of k'"
    using eq new_id_split [OF prefix_no_underscore [of k], of u]
      new_id_split [OF prefix_no_underscore [of k'], of u']
    unfolding factory_id_def by metis
  then have "k = k'" by (rule prefix_of_inj)
  then show "k = k' \<and> u = u'"
    using eq by (simp add: factory_id_def new_id_def)
qed simp

end
