(* ===== verification/Planner.thy ===== *)
theory Planner
  imports Diff_Engine Ids
begin

text \<open>
  The planner (\<open>core/services/planner.py\<close>): one plan per member node whose diff is not empty, in
  the order of the network's members. \<open>fresh k\<close> is the k-th operation id the id factory hands
  out. A node without an observed state is planned for as if its switch were empty.
\<close>

record per_node_plan =
  pn_node_id :: string
  pn_plan :: plan

definition empty_observed :: "string \<Rightarrow> observed_state" where
  "empty_observed nid =
     \<lparr>os_node_id = nid, os_observed_at = 0, os_state_hash = [], os_bridges = []\<rparr>"

definition network_peers :: "network \<Rightarrow> (string, node) dict \<Rightarrow> node_address list" where
  "network_peers n nodes =
     concat (List.map (\<lambda>nid. case dget nodes nid of None \<Rightarrow> []
        | Some nd \<Rightarrow> [\<lparr>na_node_id = nid, na_mgmt_ip = nd_mgmt_ip nd\<rparr>]) (net_node_ids n))"

fun plan_nodes ::
  "network \<Rightarrow> node_address list \<Rightarrow> (string, node) dict \<Rightarrow> (string, observed_state) dict
     \<Rightarrow> (nat \<Rightarrow> string) \<Rightarrow> nat \<Rightarrow> string list \<Rightarrow> per_node_plan list" where
  "plan_nodes n peers nodes obs fresh k [] = []"
| "plan_nodes n peers nodes obs fresh k (nid # nids) =
     (if dget nodes nid = None then plan_nodes n peers nodes obs fresh k nids
      else
        let observed = (case dget obs nid of None \<Rightarrow> empty_observed nid | Some s \<Rightarrow> s);
            steps = diff_for_node n nid peers (os_bridges observed)
        in if steps = [] then plan_nodes n peers nodes obs fresh k nids
           else \<lparr>pn_node_id = nid, pn_plan = \<lparr>pl_id = fresh k, pl_steps = steps\<rparr>\<rparr> #
                plan_nodes n peers nodes obs fresh (k + 1) nids)"

definition plan_for_network ::
  "network \<Rightarrow> (string, node) dict \<Rightarrow> (string, observed_state) dict \<Rightarrow> (nat \<Rightarrow> string) \<Rightarrow> nat
     \<Rightarrow> per_node_plan list" where
  "plan_for_network n nodes obs fresh k =
     plan_nodes n (network_peers n nodes) nodes obs fresh k (net_node_ids n)"

definition observed_bridges :: "(string, observed_state) dict \<Rightarrow> string \<Rightarrow> obs_bridge list" where
  "observed_bridges obs nid = (case dget obs nid of None \<Rightarrow> [] | Some s \<Rightarrow> os_bridges s)"

lemma plan_nodes_content:
  "List.map (\<lambda>p. (pn_node_id p, pl_steps (pn_plan p))) (plan_nodes n peers nodes obs fresh k nids) =
   filter (\<lambda>p. snd p \<noteq> [])
     (List.map (\<lambda>nid. (nid, diff_for_node n nid peers (observed_bridges obs nid)))
       (filter (\<lambda>nid. dget nodes nid \<noteq> None) nids))"
  by (induction nids arbitrary: k)
    (auto simp: Let_def observed_bridges_def empty_observed_def split: option.splits)

lemma plan_nodes_ids:
  "List.map (\<lambda>p. pl_id (pn_plan p)) (plan_nodes n peers nodes obs fresh k nids) =
   List.map fresh [k..<k + length (plan_nodes n peers nodes obs fresh k nids)]"
  by (induction nids arbitrary: k)
    (auto simp: Let_def upt_conv_Cons simp del: upt_Suc)

text \<open>
  The plans of a network are exactly the non-empty diffs of its known members, in member
  order, each against its own observed state (an empty switch when none was saved), and the plan
  ids are the id factory's next ids in order. In particular no plan is ever made for a node that
  is not a member, so a node dropped from the network keeps the bridge it was given.
\<close>

lemma planner_plans_members:
  "List.map (\<lambda>p. (pn_node_id p, pl_steps (pn_plan p))) (plan_for_network n nodes obs fresh k) =
     filter (\<lambda>p. snd p \<noteq> [])
       (List.map (\<lambda>nid. (nid, diff_for_node n nid (network_peers n nodes) (observed_bridges obs nid)))
         (filter (\<lambda>nid. dget nodes nid \<noteq> None) (net_node_ids n))) \<and>
   List.map (\<lambda>p. pl_id (pn_plan p)) (plan_for_network n nodes obs fresh k) =
     List.map fresh [k..<k + length (plan_for_network n nodes obs fresh k)] \<and>
   pn_node_id ` set (plan_for_network n nodes obs fresh k) \<subseteq> set (net_node_ids n)"
proof -
  have "pn_node_id ` set (plan_for_network n nodes obs fresh k) =
      fst ` set (List.map (\<lambda>p. (pn_node_id p, pl_steps (pn_plan p))) (plan_for_network n nodes obs fresh k))"
    by force
  then show ?thesis
    unfolding plan_for_network_def plan_nodes_content by (auto simp: plan_nodes_ids)
qed

end
