(* ===== verification/Switch.thy ===== *)
theory Switch
  imports Planner
begin

text \<open>
  The abstract switch: what a node's OVS promises to the controller, as finite maps, and the
  convergence of the diff engine against it. An executor of plan steps that refines the abstract
  switch (\<open>ovs_backend\<close>) inherits convergence, the frame of untouched objects and the safety of
  applying a plan twice. The two executors of the program are shown to be such backends in
  \<open>Fake_Agent\<close> and \<open>Fake_Ovsdb\<close>.
\<close>

record ab_port =
  abp_tag :: "int option"
  abp_trunks :: "int list"
  abp_ids :: "string \<rightharpoonup> string"
  abp_ifaces :: "(string \<times> string \<times> (string \<rightharpoonup> string)) list"

record ab_bridge =
  abb_datapath :: string
  abb_ids :: "string \<rightharpoonup> string"
  abb_ports :: "string \<rightharpoonup> ab_port"

type_synonym switch = "string \<rightharpoonup> ab_bridge"

text \<open>The option dictionary of a VXLAN port step, as both executors build it.\<close>

definition vxlan_step_options ::
  "int \<Rightarrow> string \<Rightarrow> string option \<Rightarrow> int \<Rightarrow> int option \<Rightarrow> sdict" where
  "vxlan_step_options vni remote_ip local_ip dst_port mtu =
     (let o1 = [(''key'', str_int vni), (''remote_ip'', remote_ip), (''dst_port'', str_int dst_port)];
          o2 = (case local_ip of None \<Rightarrow> o1 | Some l \<Rightarrow> dset ''local_ip'' l o1)
      in (case mtu of None \<Rightarrow> o2 | Some m \<Rightarrow> dset ''mtu_request'' (str_int m) o2))"

definition ab_mk_port ::
  "string \<Rightarrow> string \<Rightarrow> sdict \<Rightarrow> int option \<Rightarrow> int list \<Rightarrow> sdict \<Rightarrow> ab_port" where
  "ab_mk_port name ty opts tag trunks ids =
     \<lparr>abp_tag = tag, abp_trunks = sort trunks, abp_ids = dget ids,
      abp_ifaces = [(name, ty, dget opts)]\<rparr>"

definition sw_put_port :: "string \<Rightarrow> string \<Rightarrow> ab_port \<Rightarrow> switch \<Rightarrow> switch option" where
  "sw_put_port br name p sw =
     map_option (\<lambda>b. sw(br \<mapsto> b\<lparr>abb_ports := (abb_ports b)(name \<mapsto> p)\<rparr>)) (sw br)"

fun sw_step :: "plan_step \<Rightarrow> switch \<Rightarrow> switch option" where
  "sw_step (EnsureBridgeStep name dp ids) sw =
     Some (sw(name \<mapsto> \<lparr>abb_datapath = dp, abb_ids = dget ids,
       abb_ports = (case sw name of None \<Rightarrow> Map.empty | Some b \<Rightarrow> abb_ports b)\<rparr>))"
| "sw_step (DeleteBridgeStep name) sw = Some (sw(name := None))"
| "sw_step (EnsurePortStep br name ty opts tag trunks ids) sw =
     sw_put_port br name (ab_mk_port name ty opts tag trunks ids) sw"
| "sw_step (DeletePortStep br name) sw =
     map_option (\<lambda>b. sw(br \<mapsto> b\<lparr>abb_ports := (abb_ports b)(name := None)\<rparr>)) (sw br)"
| "sw_step (EnsureVxlanPortStep br name vni rip lip dport mtu ids) sw =
     sw_put_port br name
       (ab_mk_port name ''vxlan'' (vxlan_step_options vni rip lip dport mtu) None [] ids) sw"
| "sw_step _ sw = Some sw"

fun sw_exec :: "plan_step list \<Rightarrow> switch \<Rightarrow> switch option" where
  "sw_exec [] sw = Some sw"
| "sw_exec (st # sts) sw = Option.bind (sw_step st sw) (sw_exec sts)"

lemma sw_exec_append: "sw_exec (xs @ ys) sw = Option.bind (sw_exec xs sw) (sw_exec ys)"
  by (induction xs arbitrary: sw) (auto split: Option.bind_split)

text \<open>The abstract switch an observation describes.\<close>

definition ab_port_of :: "obs_port \<Rightarrow> ab_port" where
  "ab_port_of p = \<lparr>abp_tag = opt_tag p, abp_trunks = opt_trunks p, abp_ids = dget (opt_ids p),
     abp_ifaces = List.map (\<lambda>i. (oi_name i, oi_type i, dget (oi_options i))) (opt_interfaces p)\<rparr>"

definition ab_bridge_of :: "obs_bridge \<Rightarrow> ab_bridge" where
  "ab_bridge_of b = \<lparr>abb_datapath = ob_datapath b, abb_ids = dget (ob_ids b),
     abb_ports = (\<lambda>name. map_option ab_port_of (find_port name (Some b)))\<rparr>"

definition switch_of :: "obs_bridge list \<Rightarrow> switch" where
  "switch_of bs name = map_option ab_bridge_of (find_bridge name bs)"

subsection \<open>Compliance of an abstract switch\<close>

definition ab_fits :: "network \<Rightarrow> node_address \<Rightarrow> ab_port \<Rightarrow> bool" where
  "ab_fits n peer p \<longleftrightarrow> abp_ids p = dget (desired_ids n) \<and>
     (\<exists>name opts rest. abp_ifaces p = (name, ''vxlan'', opts) # rest \<and>
        (\<forall>k v. (k, v) \<in> set (vxlan_options n peer) \<longrightarrow> opts k = Some v))"

definition has_tunnel :: "network \<Rightarrow> int \<Rightarrow> ab_bridge \<Rightarrow> node_address \<Rightarrow> bool" where
  "has_tunnel n vni b peer \<longleftrightarrow>
     (\<exists>p. abb_ports b (vxlan_port_name vni peer) = Some p \<and> ab_fits n peer p)"

definition sw_compliant :: "network \<Rightarrow> string \<Rightarrow> node_address list \<Rightarrow> switch \<Rightarrow> bool" where
  "sw_compliant n local peers sw \<longleftrightarrow>
     (\<forall>m b. sw m = Some b \<and> abb_ids b network_key = Some (net_id n) \<longrightarrow>
        local \<in> set (net_node_ids n) \<and> m = bridge_name n) \<and>
     (local \<in> set (net_node_ids n) \<longrightarrow>
        (\<exists>b. sw (bridge_name n) = Some b \<and> abb_datapath b = ''system'' \<and>
           abb_ids b = dget (desired_ids n) \<and>
           (\<forall>vni peer. net_type n = VXLAN \<and> net_vni n = Some vni \<and> peer \<in> set peers \<and>
              na_node_id peer \<noteq> local \<longrightarrow> has_tunnel n vni b peer)))"

lemma ex_map_option:
  "(\<exists>y. map_option g r = Some y \<and> Q y) \<longleftrightarrow> (\<exists>x. r = Some x \<and> Q (g x))"
  by (cases r) auto

lemma port_fits_ab: "port_fits n peer p \<longleftrightarrow> ab_fits n peer (ab_port_of p)"
  by (auto simp: port_fits_def ab_fits_def ab_port_of_def)

lemma find_bridge_Some:
  "find_bridge m bs = Some b \<Longrightarrow> b \<in> set bs \<and> ob_name b = m"
  by (auto simp: find_bridge_def find_Some_iff)

lemma find_bridge_mem:
  "distinct (List.map ob_name bs) \<Longrightarrow> b \<in> set bs \<Longrightarrow> find_bridge (ob_name b) bs = Some b"
  by (induction bs) (auto simp: find_bridge_def rev_image_eqI)

lemma compliant_switch:
  assumes "distinct (List.map ob_name bs)"
  shows "compliant n local peers bs \<longleftrightarrow> sw_compliant n local peers (switch_of bs)"
proof -
  have sweep: "(\<forall>b \<in> set bs. dget (ob_ids b) network_key = Some (net_id n) \<longrightarrow> P (ob_name b)) \<longleftrightarrow>
      (\<forall>m b. switch_of bs m = Some b \<and> abb_ids b network_key = Some (net_id n) \<longrightarrow> P m)" for P
    using find_bridge_mem [OF assms] find_bridge_Some
    by (fastforce simp: switch_of_def ab_bridge_of_def)
  have fits: "bridge_fits n local peers b \<longleftrightarrow>
      abb_datapath (ab_bridge_of b) = ''system'' \<and> abb_ids (ab_bridge_of b) = dget (desired_ids n) \<and>
      (\<forall>vni peer. net_type n = VXLAN \<and> net_vni n = Some vni \<and> peer \<in> set peers \<and>
         na_node_id peer \<noteq> local \<longrightarrow> has_tunnel n vni (ab_bridge_of b) peer)" for b
    by (simp add: bridge_fits_def ab_bridge_of_def has_tunnel_def port_fits_ab ex_map_option
        del: map_option_eq_Some)
  have bridge: "(\<exists>b. find_bridge m bs = Some b \<and> Q (ab_bridge_of b)) \<longleftrightarrow>
      (\<exists>b. switch_of bs m = Some b \<and> Q b)" for m Q
    by (simp add: switch_of_def ex_map_option del: map_option_eq_Some)
  show ?thesis
    unfolding compliant_def sw_compliant_def fits
    using sweep [of "\<lambda>m. local \<in> set (net_node_ids n) \<and> m = bridge_name n"]
      bridge [of "bridge_name n" "\<lambda>b. abb_datapath b = ''system'' \<and> abb_ids b = dget (desired_ids n) \<and>
        (\<forall>vni peer. net_type n = VXLAN \<and> net_vni n = Some vni \<and> peer \<in> set peers \<and>
           na_node_id peer \<noteq> local \<longrightarrow> has_tunnel n vni b peer)"]
    by simp
qed

subsection \<open>Convergence\<close>

text \<open>
  Port names abbreviate a peer to the last six characters of its id; convergence needs that two
  peers with one port name are reached at one address.
\<close>

definition names_unambiguous :: "network \<Rightarrow> string \<Rightarrow> node_address list \<Rightarrow> bool" where
  "names_unambiguous n local peers \<longleftrightarrow>
     (\<forall>vni. net_vni n = Some vni \<longrightarrow>
        (\<forall>p \<in> set peers. \<forall>q \<in> set peers. na_node_id p \<noteq> local \<and> na_node_id q \<noteq> local \<and>
           vxlan_port_name vni p = vxlan_port_name vni q \<longrightarrow> na_mgmt_ip p = na_mgmt_ip q))"

definition tunnel_port :: "network \<Rightarrow> int \<Rightarrow> node_address \<Rightarrow> ab_port" where
  "tunnel_port n vni peer =
     ab_mk_port (vxlan_port_name vni peer) ''vxlan''
       (vxlan_step_options vni (na_mgmt_ip peer) None 4789 (Some (net_mtu n))) None [] (desired_ids n)"

lemma str_4789: "str_int 4789 = ''4789''"
  by (simp add: str_int_def str_nat_def digits_step digits_less digit_char_def)

lemma tunnel_port_fits: "net_vni n = Some vni \<Longrightarrow> ab_fits n peer (tunnel_port n vni peer)"
  by (simp add: ab_fits_def tunnel_port_def ab_mk_port_def vxlan_options_def
      vxlan_step_options_def Let_def str_4789)

lemma fits_same_address:
  "na_mgmt_ip p = na_mgmt_ip q \<Longrightarrow> ab_fits n p r \<longleftrightarrow> ab_fits n q r"
  by (simp add: ab_fits_def vxlan_options_def)

lemma tunnel_port_same:
  "na_mgmt_ip p = na_mgmt_ip q \<Longrightarrow> vxlan_port_name vni p = vxlan_port_name vni q \<Longrightarrow>
   tunnel_port n vni p = tunnel_port n vni q"
  by (simp add: tunnel_port_def)

lemma sw_vxlan_step:
  "sw (bridge_name n) = Some b \<Longrightarrow>
   sw_step (vxlan_step n vni peer) sw =
     Some (sw(bridge_name n \<mapsto>
       b\<lparr>abb_ports := (abb_ports b)(vxlan_port_name vni peer \<mapsto> tunnel_port n vni peer)\<rparr>))"
  by (simp add: vxlan_step_def sw_put_port_def tunnel_port_def)

text \<open>
  Adding tunnels one after another: the bridge keeps everything but the tunnels, a tunnel that
  fits keeps fitting, and every peer that got a step has exactly its tunnel.
\<close>

lemma sw_add_tunnels:
  assumes vni: "net_vni n = Some vni" and unamb: "names_unambiguous n local peers"
    and qs: "set qs \<subseteq> {p \<in> set peers. na_node_id p \<noteq> local}" and b: "sw (bridge_name n) = Some b"
  shows "\<exists>b'. sw_exec (List.map (vxlan_step n vni) qs) sw = Some (sw(bridge_name n \<mapsto> b')) \<and>
     abb_datapath b' = abb_datapath b \<and> abb_ids b' = abb_ids b \<and>
     (\<forall>p \<in> set peers. na_node_id p \<noteq> local \<longrightarrow> has_tunnel n vni b p \<longrightarrow> has_tunnel n vni b' p) \<and>
     (\<forall>p \<in> set peers. na_node_id p \<noteq> local \<longrightarrow>
        p \<in> set qs \<or> abb_ports b (vxlan_port_name vni p) = Some (tunnel_port n vni p) \<longrightarrow>
        abb_ports b' (vxlan_port_name vni p) = Some (tunnel_port n vni p)) \<and>
     (\<forall>name. name \<notin> vxlan_port_name vni ` set qs \<longrightarrow> abb_ports b' name = abb_ports b name)"
  using qs b
proof (induction qs arbitrary: sw b)
  case Nil
  then show ?case by (intro exI [of _ b]) (simp add: fun_upd_idem)
next
  case (Cons q qs)
  define b1 where "b1 = b\<lparr>abb_ports := (abb_ports b)(vxlan_port_name vni q \<mapsto> tunnel_port n vni q)\<rparr>"
  define sw1 where "sw1 = sw(bridge_name n \<mapsto> b1)"
  have q: "q \<in> set peers" "na_node_id q \<noteq> local" using Cons.prems(1) by auto
  have step: "sw_step (vxlan_step n vni q) sw = Some sw1"
    using Cons.prems(2) by (simp add: sw_vxlan_step sw1_def b1_def)
  have same: "na_mgmt_ip p = na_mgmt_ip q"
    if "p \<in> set peers" "na_node_id p \<noteq> local" "vxlan_port_name vni p = vxlan_port_name vni q" for p
    using unamb [unfolded names_unambiguous_def] vni that q by blast
  have keep: "has_tunnel n vni b1 p" if "p \<in> set peers" "na_node_id p \<noteq> local" "has_tunnel n vni b p" for p
  proof (cases "vxlan_port_name vni p = vxlan_port_name vni q")
    case True
    then have "na_mgmt_ip p = na_mgmt_ip q" by (rule same [OF that(1,2)])
    then have "ab_fits n p (tunnel_port n vni q)"
      using fits_same_address tunnel_port_fits [OF vni] by blast
    then show ?thesis using True by (simp add: has_tunnel_def b1_def)
  next
    case False
    then show ?thesis using that(3) by (simp add: has_tunnel_def b1_def)
  qed
  have exact: "abb_ports b1 (vxlan_port_name vni p) = Some (tunnel_port n vni p)"
    if "p \<in> set peers" "na_node_id p \<noteq> local"
      "p = q \<or> abb_ports b (vxlan_port_name vni p) = Some (tunnel_port n vni p)" for p
  proof (cases "vxlan_port_name vni p = vxlan_port_name vni q")
    case True
    then have "tunnel_port n vni p = tunnel_port n vni q"
      by (intro tunnel_port_same same [OF that(1,2)])
    then show ?thesis using True by (simp add: b1_def)
  next
    case False
    then show ?thesis using that(3) by (auto simp: b1_def)
  qed
  have "set qs \<subseteq> {p \<in> set peers. na_node_id p \<noteq> local}" "sw1 (bridge_name n) = Some b1"
    using Cons.prems(1) by (auto simp: sw1_def)
  from Cons.IH [of sw1 b1, OF this] obtain b' where
    b': "sw_exec (List.map (vxlan_step n vni) qs) sw1 = Some (sw1(bridge_name n \<mapsto> b'))"
      "abb_datapath b' = abb_datapath b1" "abb_ids b' = abb_ids b1"
      "\<forall>p \<in> set peers. na_node_id p \<noteq> local \<longrightarrow> has_tunnel n vni b1 p \<longrightarrow> has_tunnel n vni b' p"
      "\<forall>p \<in> set peers. na_node_id p \<noteq> local \<longrightarrow>
        p \<in> set qs \<or> abb_ports b1 (vxlan_port_name vni p) = Some (tunnel_port n vni p) \<longrightarrow>
        abb_ports b' (vxlan_port_name vni p) = Some (tunnel_port n vni p)"
      "\<forall>name. name \<notin> vxlan_port_name vni ` set qs \<longrightarrow> abb_ports b' name = abb_ports b1 name"
    by blast
  show ?case
  proof (intro exI [of _ b'] conjI)
    show "sw_exec (List.map (vxlan_step n vni) (q # qs)) sw = Some (sw(bridge_name n \<mapsto> b'))"
      using b'(1) step by (simp add: sw1_def)
    show "\<forall>p \<in> set peers. na_node_id p \<noteq> local \<longrightarrow> has_tunnel n vni b p \<longrightarrow> has_tunnel n vni b' p"
      using keep b'(4) by blast
    show "\<forall>p \<in> set peers. na_node_id p \<noteq> local \<longrightarrow>
        p \<in> set (q # qs) \<or> abb_ports b (vxlan_port_name vni p) = Some (tunnel_port n vni p) \<longrightarrow>
        abb_ports b' (vxlan_port_name vni p) = Some (tunnel_port n vni p)"
      using exact b'(5) by auto
    show "\<forall>name. name \<notin> vxlan_port_name vni ` set (q # qs) \<longrightarrow> abb_ports b' name = abb_ports b name"
      using b'(6) by (simp add: b1_def)
  qed (use b'(2,3) in \<open>simp_all add: b1_def\<close>)
qed

text \<open>The steps a diff contains for the peers are the tunnels of the peers that need one.\<close>

definition needs_tunnel ::
  "network \<Rightarrow> string \<Rightarrow> int \<Rightarrow> obs_bridge option \<Rightarrow> node_address \<Rightarrow> bool" where
  "needs_tunnel n local vni b p \<longleftrightarrow> na_node_id p \<noteq> local \<and>
     (case find_port (vxlan_port_name vni p) b of None \<Rightarrow> True
      | Some q \<Rightarrow> \<not> port_fits n p q)"

lemma peer_steps_needs:
  "peer_steps n local vni b p = (if needs_tunnel n local vni b p then [vxlan_step n vni p] else [])"
  by (simp add: peer_steps_def needs_tunnel_def vxlan_port_changed_iff split: option.split)

lemma all_peer_steps:
  "concat (List.map (peer_steps n local vni b) ps) =
     List.map (vxlan_step n vni) (filter (needs_tunnel n local vni b) ps)"
  by (induction ps) (simp_all add: peer_steps_needs)

lemma sw_exec_deletes:
  "sw_exec (List.map (\<lambda>b. DeleteBridgeStep (ob_name b)) bs) sw =
     Some (\<lambda>m. if m \<in> ob_name ` set bs then None else sw m)"
  by (induction bs arbitrary: sw) (auto simp: fun_eq_iff)

lemma sw_exec_edge: "list_all is_edge_step sts \<Longrightarrow> sw_exec sts sw = Some sw"
proof (induction sts)
  case (Cons st sts)
  then show ?case by (cases st) simp_all
qed simp

text \<open>The part of a member's diff that builds the bridge and its tunnels.\<close>

definition build_steps :: "network \<Rightarrow> string \<Rightarrow> node_address list \<Rightarrow> obs_bridge list \<Rightarrow> plan_step list" where
  "build_steps n local peers bs =
     (let ob = find_bridge (bridge_name n) bs in
      (case ob of
         None \<Rightarrow> [EnsureBridgeStep (bridge_name n) ''system'' (desired_ids n)]
       | Some b \<Rightarrow> if bridge_changed ''system'' (desired_ids n) b
           then [EnsureBridgeStep (bridge_name n) ''system'' (desired_ids n)] else []) @
      (case net_vni n of
         Some vni \<Rightarrow> if net_type n = VXLAN
           then List.map (vxlan_step n vni) (filter (needs_tunnel n local vni ob) peers) else []
       | None \<Rightarrow> []))"

definition orphans :: "network \<Rightarrow> obs_bridge list \<Rightarrow> obs_bridge list" where
  "orphans n bs =
     filter (\<lambda>b. dget (ob_ids b) network_key = Some (net_id n) \<and> ob_name b \<noteq> bridge_name n) bs"

lemma diff_member:
  "local \<in> set (net_node_ids n) \<Longrightarrow> diff_for_node n local peers bs =
     build_steps n local peers bs @ List.map (\<lambda>b. DeleteBridgeStep (ob_name b)) (orphans n bs) @
     (if is_edge_node n local then edge_service_steps n else [])"
  by (cases "net_vni n")
    (simp_all add: diff_for_node_def build_steps_def orphans_def Let_def all_peer_steps)

definition tunnel_names :: "network \<Rightarrow> string \<Rightarrow> node_address list \<Rightarrow> string set" where
  "tunnel_names n local peers =
     {vxlan_port_name vni p | vni p. net_vni n = Some vni \<and> p \<in> set peers \<and> na_node_id p \<noteq> local}"

lemma ensured_bridge:
  "\<exists>b. sw_exec (case find_bridge (bridge_name n) bs of
         None \<Rightarrow> [EnsureBridgeStep (bridge_name n) ''system'' (desired_ids n)]
       | Some b \<Rightarrow> if bridge_changed ''system'' (desired_ids n) b
           then [EnsureBridgeStep (bridge_name n) ''system'' (desired_ids n)] else [])
       (switch_of bs) = Some ((switch_of bs)(bridge_name n \<mapsto> b)) \<and>
     abb_datapath b = ''system'' \<and> abb_ids b = dget (desired_ids n) \<and>
     abb_ports b = (\<lambda>name. map_option ab_port_of (find_port name (find_bridge (bridge_name n) bs)))"
proof (cases "find_bridge (bridge_name n) bs")
  case None
  then show ?thesis
    by (intro exI [of _ "\<lparr>abb_datapath = ''system'', abb_ids = dget (desired_ids n),
        abb_ports = Map.empty\<rparr>"]) (simp add: switch_of_def find_port_def)
next
  case (Some b)
  then show ?thesis
  proof (cases "bridge_changed ''system'' (desired_ids n) b")
    case True
    then show ?thesis
      using Some by (intro exI [of _ "\<lparr>abb_datapath = ''system'', abb_ids = dget (desired_ids n),
        abb_ports = abb_ports (ab_bridge_of b)\<rparr>"]) (simp add: switch_of_def ab_bridge_of_def)
  next
    case False
    then show ?thesis
      using Some by (intro exI [of _ "ab_bridge_of b"])
        (simp add: switch_of_def ab_bridge_of_def bridge_changed_iff fun_eq_iff)
  qed
qed

lemma has_tunnel_observed:
  assumes "net_vni n = Some vni" "na_node_id p \<noteq> local"
    and "abb_ports b = (\<lambda>name. map_option ab_port_of (find_port name ob))"
    and "\<not> needs_tunnel n local vni ob p"
  shows "has_tunnel n vni b p"
  using assms by (auto simp: needs_tunnel_def has_tunnel_def port_fits_ab split: option.splits)

lemma noop_ensure_bridge:
  "sw (bridge_name n) = Some b \<Longrightarrow> abb_datapath b = ''system'' \<Longrightarrow> abb_ids b = dget (desired_ids n) \<Longrightarrow>
   sw_step (EnsureBridgeStep (bridge_name n) ''system'' (desired_ids n)) sw = Some sw"
  by (cases b) (simp add: fun_upd_idem)

lemma noop_vxlan:
  "sw (bridge_name n) = Some b \<Longrightarrow>
   abb_ports b (vxlan_port_name vni p) = Some (tunnel_port n vni p) \<Longrightarrow>
   sw_step (vxlan_step n vni p) sw = Some sw"
  by (cases b) (simp add: sw_vxlan_step fun_upd_idem)

lemma build_converges:
  assumes unamb: "names_unambiguous n local peers"
  shows "\<exists>b. sw_exec (build_steps n local peers bs) (switch_of bs) =
       Some ((switch_of bs)(bridge_name n \<mapsto> b)) \<and>
     abb_datapath b = ''system'' \<and> abb_ids b = dget (desired_ids n) \<and>
     (\<forall>vni p. net_type n = VXLAN \<and> net_vni n = Some vni \<and> p \<in> set peers \<and> na_node_id p \<noteq> local \<longrightarrow>
        has_tunnel n vni b p) \<and>
     (\<forall>name. name \<notin> tunnel_names n local peers \<longrightarrow>
        abb_ports b name = map_option ab_port_of (find_port name (find_bridge (bridge_name n) bs))) \<and>
     (\<forall>sw. sw (bridge_name n) = Some b \<longrightarrow>
        (\<forall>st \<in> set (build_steps n local peers bs). sw_step st sw = Some sw))"
proof -
  let ?ob = "find_bridge (bridge_name n) bs"
  let ?A = "case ?ob of None \<Rightarrow> [EnsureBridgeStep (bridge_name n) ''system'' (desired_ids n)]
       | Some b \<Rightarrow> if bridge_changed ''system'' (desired_ids n) b
           then [EnsureBridgeStep (bridge_name n) ''system'' (desired_ids n)] else []"
  obtain b0 where A: "sw_exec ?A (switch_of bs) = Some ((switch_of bs)(bridge_name n \<mapsto> b0))"
    and b0: "abb_datapath b0 = ''system''" "abb_ids b0 = dget (desired_ids n)"
      "abb_ports b0 = (\<lambda>name. map_option ab_port_of (find_port name ?ob))"
    using ensured_bridge by metis
  have A_set: "set ?A \<subseteq> {EnsureBridgeStep (bridge_name n) ''system'' (desired_ids n)}"
    by (auto split: option.splits)
  show ?thesis
  proof (cases "net_type n = VXLAN \<and> net_vni n \<noteq> None")
    case False
    then have "build_steps n local peers bs = ?A"
      by (cases "net_vni n") (auto simp: build_steps_def Let_def)
    then show ?thesis
      using A b0 A_set False noop_ensure_bridge [of _ n b0] by (intro exI [of _ b0]) fastforce
  next
    case True
    then obtain vni where vni: "net_vni n = Some vni" and ty: "net_type n = VXLAN" by auto
    let ?qs = "filter (needs_tunnel n local vni ?ob) peers"
    have build: "build_steps n local peers bs = ?A @ List.map (vxlan_step n vni) ?qs"
      by (simp add: build_steps_def Let_def vni ty)
    have qs: "set ?qs \<subseteq> {p \<in> set peers. na_node_id p \<noteq> local}"
      by (auto simp: needs_tunnel_def)
    obtain b where b: "sw_exec (List.map (vxlan_step n vni) ?qs) ((switch_of bs)(bridge_name n \<mapsto> b0)) =
        Some ((switch_of bs)(bridge_name n \<mapsto> b))"
      and same: "abb_datapath b = abb_datapath b0" "abb_ids b = abb_ids b0"
      and keep: "\<forall>p \<in> set peers. na_node_id p \<noteq> local \<longrightarrow> has_tunnel n vni b0 p \<longrightarrow> has_tunnel n vni b p"
      and exact: "\<forall>p \<in> set ?qs. abb_ports b (vxlan_port_name vni p) = Some (tunnel_port n vni p)"
      and frame: "\<forall>name. name \<notin> vxlan_port_name vni ` set ?qs \<longrightarrow> abb_ports b name = abb_ports b0 name"
      using sw_add_tunnels [OF vni unamb qs, of "(switch_of bs)(bridge_name n \<mapsto> b0)" b0] qs
      by (auto simp: subset_iff)
    have tunnels: "has_tunnel n vni b p" if "p \<in> set peers" "na_node_id p \<noteq> local" for p
    proof (cases "needs_tunnel n local vni ?ob p")
      case True
      then show ?thesis
        using exact that tunnel_port_fits [OF vni] by (auto simp: has_tunnel_def)
    next
      case False
      then show ?thesis using keep that has_tunnel_observed [OF vni _ b0(3)] by blast
    qed
    have names: "vxlan_port_name vni ` set ?qs \<subseteq> tunnel_names n local peers"
      using qs vni by (auto simp: tunnel_names_def)
    show ?thesis
    proof (intro exI [of _ b] conjI)
      show "sw_exec (build_steps n local peers bs) (switch_of bs) =
          Some ((switch_of bs)(bridge_name n \<mapsto> b))"
        using A b by (simp add: build sw_exec_append)
      show "\<forall>vni p. net_type n = VXLAN \<and> net_vni n = Some vni \<and> p \<in> set peers \<and>
          na_node_id p \<noteq> local \<longrightarrow> has_tunnel n vni b p"
        using tunnels vni by auto
      show "\<forall>name. name \<notin> tunnel_names n local peers \<longrightarrow>
          abb_ports b name = map_option ab_port_of (find_port name ?ob)"
        using frame names b0(3) by (metis subsetD)
      show "\<forall>sw. sw (bridge_name n) = Some b \<longrightarrow>
          (\<forall>st \<in> set (build_steps n local peers bs). sw_step st sw = Some sw)"
        using A_set noop_ensure_bridge [of _ n b] noop_vxlan [of _ n b vni] same b0 exact
        unfolding build by auto
    qed (simp_all add: same b0)
  qed
qed

lemma switch_of_tagged:
  "distinct (List.map ob_name bs) \<Longrightarrow>
   m \<in> ob_name ` set (filter (\<lambda>b. dget (ob_ids b) k = Some v \<and> P (ob_name b)) bs) \<longleftrightarrow>
     P m \<and> (\<exists>b. switch_of bs m = Some b \<and> abb_ids b k = Some v)"
  (is "?d \<Longrightarrow> ?l \<longleftrightarrow> ?r")
proof -
  assume dist: ?d
  show ?thesis
  proof
    assume ?l
    then obtain b where b: "b \<in> set bs" "ob_name b = m" "dget (ob_ids b) k = Some v" "P m" by auto
    then have "find_bridge m bs = Some b" using find_bridge_mem [OF dist] by blast
    then show ?r using b by (simp add: switch_of_def ab_bridge_of_def)
  next
    assume ?r
    then obtain b where "find_bridge m bs = Some b" "dget (ob_ids b) k = Some v" "P m"
      by (auto simp: switch_of_def ab_bridge_of_def)
    then show ?l using find_bridge_Some [of m bs b] by (auto intro!: image_eqI [of _ _ b])
  qed
qed

text \<open>
  Running a diff on the abstract switch: it succeeds, ends compliant, leaves every bridge without
  the network's tag and every foreign port of the network's bridge as it was, and running any of
  its steps again changes nothing.
\<close>

definition keeps_foreign ::
  "network \<Rightarrow> string \<Rightarrow> node_address list \<Rightarrow> switch \<Rightarrow> switch \<Rightarrow> bool" where
  "keeps_foreign n local peers sw sw' \<longleftrightarrow>
     (\<forall>m b. sw m = Some b \<and> abb_ids b network_key \<noteq> Some (net_id n) \<and> m \<noteq> bridge_name n \<longrightarrow>
        sw' m = Some b) \<and>
     (\<forall>b name p. sw (bridge_name n) = Some b \<and> local \<in> set (net_node_ids n) \<and>
        abb_ports b name = Some p \<and> name \<notin> tunnel_names n local peers \<longrightarrow>
        (\<exists>b'. sw' (bridge_name n) = Some b' \<and> abb_ports b' name = Some p))"

lemma diff_converges:
  assumes unamb: "names_unambiguous n local peers" and dist: "distinct (List.map ob_name bs)"
  shows "\<exists>sw. sw_exec (diff_for_node n local peers bs) (switch_of bs) = Some sw \<and>
     sw_compliant n local peers sw \<and> keeps_foreign n local peers (switch_of bs) sw \<and>
     (\<forall>st \<in> set (diff_for_node n local peers bs). sw_step st sw = Some sw)"
proof (cases "local \<in> set (net_node_ids n)")
  case False
  let ?del = "ob_name ` set (filter (\<lambda>b. dget (ob_ids b) network_key = Some (net_id n)) bs)"
  let ?sw = "\<lambda>m. if m \<in> ?del then None else switch_of bs m"
  have del: "m \<in> ?del \<longleftrightarrow> (\<exists>b. switch_of bs m = Some b \<and> abb_ids b network_key = Some (net_id n))" for m
    using switch_of_tagged [OF dist, where P = "\<lambda>_. True"] by simp
  have diff: "diff_for_node n local peers bs = List.map (\<lambda>b. DeleteBridgeStep (ob_name b))
      (filter (\<lambda>b. dget (ob_ids b) network_key = Some (net_id n)) bs)"
    using False by (simp add: diff_for_node_def cleanup_for_network_def)
  have "sw_compliant n local peers ?sw" "keeps_foreign n local peers (switch_of bs) ?sw"
    using False del by (auto simp: sw_compliant_def keeps_foreign_def)
  moreover have "\<forall>st \<in> set (diff_for_node n local peers bs). sw_step st ?sw = Some ?sw"
    by (auto simp: diff fun_eq_iff)
  ultimately show ?thesis unfolding diff sw_exec_deletes by blast
next
  case True
  obtain b where b: "sw_exec (build_steps n local peers bs) (switch_of bs) =
       Some ((switch_of bs)(bridge_name n \<mapsto> b))"
    and fits: "abb_datapath b = ''system''" "abb_ids b = dget (desired_ids n)"
      "\<forall>vni p. net_type n = VXLAN \<and> net_vni n = Some vni \<and> p \<in> set peers \<and> na_node_id p \<noteq> local \<longrightarrow>
        has_tunnel n vni b p"
    and frame: "\<forall>name. name \<notin> tunnel_names n local peers \<longrightarrow>
        abb_ports b name = map_option ab_port_of (find_port name (find_bridge (bridge_name n) bs))"
    and noop: "\<forall>sw. sw (bridge_name n) = Some b \<longrightarrow>
        (\<forall>st \<in> set (build_steps n local peers bs). sw_step st sw = Some sw)"
    using build_converges [OF unamb, of bs] by blast
  let ?del = "ob_name ` set (orphans n bs)"
  let ?sw = "\<lambda>m. if m \<in> ?del then None else ((switch_of bs)(bridge_name n \<mapsto> b)) m"
  let ?E = "if is_edge_node n local then edge_service_steps n else []"
  have del: "m \<in> ?del \<longleftrightarrow> m \<noteq> bridge_name n \<and>
      (\<exists>b. switch_of bs m = Some b \<and> abb_ids b network_key = Some (net_id n))" for m
    unfolding orphans_def
    using switch_of_tagged [OF dist, where P = "\<lambda>x. x \<noteq> bridge_name n"] by simp
  have at: "?sw (bridge_name n) = Some b" using del [of "bridge_name n"] by simp
  have E: "list_all is_edge_step ?E" by (simp add: edge_service_steps_edge)
  have "sw_exec (diff_for_node n local peers bs) (switch_of bs) = Some ?sw"
    unfolding diff_member [OF True] by (simp only: sw_exec_append b bind.bind_lunit sw_exec_deletes
        sw_exec_edge [OF E])
  moreover have "sw_compliant n local peers ?sw"
    using True at fits del unfolding sw_compliant_def by (auto split: if_splits)
  moreover have "keeps_foreign n local peers (switch_of bs) ?sw"
  proof -
    have "?sw m = Some b1" if "switch_of bs m = Some b1" "abb_ids b1 network_key \<noteq> Some (net_id n)"
      "m \<noteq> bridge_name n" for m b1
      using that del [of m] by auto
    moreover have "abb_ports b name = Some p" if "switch_of bs (bridge_name n) = Some b1"
      "abb_ports b1 name = Some p" "name \<notin> tunnel_names n local peers" for b1 name p
      using that frame by (auto simp: switch_of_def ab_bridge_of_def)
    ultimately show ?thesis unfolding keeps_foreign_def at by simp
  qed
  moreover have "sw_step st ?sw = Some ?sw" if "st \<in> set (diff_for_node n local peers bs)" for st
  proof -
    from that consider "st \<in> set (build_steps n local peers bs)"
      | m where "m \<in> ?del" "st = DeleteBridgeStep m" | "st \<in> set ?E"
      unfolding diff_member [OF True] by auto
    then show ?thesis
    proof cases
      case 1
      then show ?thesis by (rule noop [rule_format, of ?sw, OF at])
    next
      case 2
      then show ?thesis by (auto simp: fun_eq_iff)
    next
      case 3
      then have "is_edge_step st" using E by (auto simp: list_all_iff)
      then show ?thesis by (cases st) simp_all
    qed
  qed
  ultimately show ?thesis by blast
qed

subsection \<open>Executors of plan steps\<close>

fun touches_switch :: "plan_step \<Rightarrow> bool" where
  "touches_switch (EnsureBridgeStep _ _ _) = True"
| "touches_switch (DeleteBridgeStep _) = True"
| "touches_switch (EnsurePortStep _ _ _ _ _ _ _) = True"
| "touches_switch (DeletePortStep _ _) = True"
| "touches_switch (EnsureVxlanPortStep _ _ _ _ _ _ _ _) = True"
| "touches_switch _ = False"

text \<open>
  An executor takes its own steps (\<open>'a\<close>), each of which means a plan step of the controller.
\<close>

locale ovs_backend =
  fixes observe :: "'s \<Rightarrow> obs_bridge list"
    and ok :: "'s \<Rightarrow> bool"
    and meaning :: "'a \<Rightarrow> plan_step"
    and do_step :: "'a \<Rightarrow> 's \<Rightarrow> 'e + 's \<times> bool"
  assumes names: "ok s \<Longrightarrow> distinct (List.map ob_name (observe s))"
    and step_ok: "ok s \<Longrightarrow> do_step x s = Inr (s', ch) \<Longrightarrow> ok s'"
    and step_refines: "ok s \<Longrightarrow> do_step x s = Inr (s', ch) \<Longrightarrow>
      sw_step (meaning x) (switch_of (observe s)) = Some (switch_of (observe s'))"
    and step_changed: "ok s \<Longrightarrow> do_step x s = Inr (s', ch) \<Longrightarrow> touches_switch (meaning x) \<Longrightarrow>
      ch \<longleftrightarrow> switch_of (observe s') \<noteq> switch_of (observe s)"
    and step_fails: "ok s \<Longrightarrow> do_step x s = Inl e \<Longrightarrow>
      sw_step (meaning x) (switch_of (observe s)) = None"
begin

lemma exec_refines:
  assumes "ok s" "sw_exec (List.map meaning xs) (switch_of (observe s)) = Some sw"
    and "exec_steps act code do_step xs s = (s', okay, rs)"
  shows "okay \<and> ok s' \<and> switch_of (observe s') = sw"
  using assms
proof (induction xs arbitrary: s okay rs)
  case (Cons x xs)
  then obtain sw1 where sw1: "sw_step (meaning x) (switch_of (observe s)) = Some sw1"
      "sw_exec (List.map meaning xs) sw1 = Some sw"
    by (auto simp: bind_eq_Some_conv)
  then obtain s1 ch where s1: "do_step x s = Inr (s1, ch)"
    using step_fails [OF Cons.prems(1)] by (cases "do_step x s") auto
  moreover have "sw1 = switch_of (observe s1)"
    using step_refines [OF Cons.prems(1) s1] sw1 by simp
  ultimately show ?case
    using Cons.IH [of s1] Cons.prems(3) sw1(2) step_ok [OF Cons.prems(1) s1]
    by (auto split: prod.splits)
qed simp

lemma exec_ok: "ok s \<Longrightarrow> ok (fst (exec_steps act code do_step xs s))"
proof (induction xs arbitrary: s)
  case (Cons x xs)
  then show ?case using step_ok by (auto simp: Let_def split_beta split: sum.split)
qed simp

lemma exec_noop:
  assumes "ok s"
    and "\<forall>x \<in> set xs. sw_step (meaning x) (switch_of (observe s)) = Some (switch_of (observe s))"
    and "exec_steps act code do_step xs s = (s', okay, rs)"
  shows "okay \<and> ok s' \<and> switch_of (observe s') = switch_of (observe s) \<and>
    list_all2 (\<lambda>x r. sr_ok r \<and> (touches_switch (meaning x) \<longrightarrow> \<not> sr_changed r)) xs rs"
  using assms
proof (induction xs arbitrary: s okay rs)
  case (Cons x xs)
  then obtain s1 ch where s1: "do_step x s = Inr (s1, ch)"
    using step_fails [OF Cons.prems(1)] by (cases "do_step x s") auto
  have same: "switch_of (observe s1) = switch_of (observe s)"
    using step_refines [OF Cons.prems(1) s1] Cons.prems(2) by simp
  then have "touches_switch (meaning x) \<longrightarrow> \<not> ch"
    using step_changed [OF Cons.prems(1) s1] by simp
  then show ?case
    using Cons.IH [of s1] Cons.prems(2,3) same step_ok [OF Cons.prems(1) s1] s1
    by (auto split: prod.splits)
qed simp

lemma converges:
  assumes "ok s" "names_unambiguous n local peers"
    and "List.map meaning xs = diff_for_node n local peers (observe s)"
    and "exec_steps act code do_step xs s = (s', okay, rs)"
  shows "okay \<and> ok s' \<and> is_in_compliance n local peers (observe s') \<and>
    keeps_foreign n local peers (switch_of (observe s)) (switch_of (observe s'))"
  using diff_converges [OF assms(2) names [OF assms(1)]] exec_refines [OF assms(1) _ assms(4)]
  by (auto simp: is_in_compliance_iff compliant_switch names assms(3))

lemma retry_is_noop:
  assumes "ok s" "names_unambiguous n local peers"
    and "List.map meaning xs = diff_for_node n local peers (observe s)"
    and "exec_steps act code do_step xs s = (s', okay, rs)"
    and "exec_steps act code do_step xs s' = (s'', okay', rs')"
  shows "okay' \<and> switch_of (observe s'') = switch_of (observe s') \<and>
    list_all2 (\<lambda>x r. sr_ok r \<and> (touches_switch (meaning x) \<longrightarrow> \<not> sr_changed r)) xs rs'"
proof -
  obtain sw where sw: "sw_exec (List.map meaning xs) (switch_of (observe s)) = Some sw"
    and noop: "\<forall>x \<in> set xs. sw_step (meaning x) sw = Some sw"
    using diff_converges [OF assms(2) names [OF assms(1)]] unfolding assms(3) [symmetric] by auto
  have "ok s' \<and> switch_of (observe s') = sw" using exec_refines [OF assms(1) sw assms(4)] by blast
  then show ?thesis using exec_noop [OF _ _ assms(5)] noop by blast
qed

end

lemma fits_remote_ip:
  "port_fits n p x \<Longrightarrow>
   dget (oi_options (hd (opt_interfaces x))) ''remote_ip'' = Some (na_mgmt_ip p)"
  unfolding port_fits_def vxlan_options_def by force

text \<open>
  C38. Two peers whose node ids end in the same six characters but that have different addresses
  cannot both be served: their tunnels share one port name, so no observed switch whatever is
  compliant, and every apply of such a network fails its verification.
\<close>

theorem short_name_collision:
  assumes "net_type n = VXLAN" "net_vni n = Some vni" "local \<in> set (net_node_ids n)"
    and "p \<in> set peers" "q \<in> set peers" "na_node_id p \<noteq> local" "na_node_id q \<noteq> local"
    and "vxlan_port_name vni p = vxlan_port_name vni q" "na_mgmt_ip p \<noteq> na_mgmt_ip q"
  shows "\<not> is_in_compliance n local peers bridges"
proof
  assume "is_in_compliance n local peers bridges"
  then obtain b where fits: "bridge_fits n local peers b"
    using assms(3) by (auto simp: is_in_compliance_iff compliant_def)
  have "\<exists>x. find_port (vxlan_port_name vni p) (Some b) = Some x \<and> port_fits n r x"
    if "r \<in> {p, q}" for r
    using fits that assms(1,2,4-8) unfolding bridge_fits_def by auto
  from this [of p] this [of q] obtain x where "port_fits n p x" "port_fits n q x" by auto
  then show False using fits_remote_ip [of n p x] fits_remote_ip [of n q x] assms(9) by simp
qed

definition peer_a :: node_address where
  "peer_a = \<lparr>na_node_id = ''node_1aaaaaa'', na_mgmt_ip = ''10.0.0.1''\<rparr>"

definition peer_b :: node_address where
  "peer_b = \<lparr>na_node_id = ''node_2aaaaaa'', na_mgmt_ip = ''10.0.0.2''\<rparr>"

theorem short_name_collision_witness:
  "\<not> is_in_compliance example_network ''node_a00001'' [peer_a, peer_b] []"
  by (rule short_name_collision [where vni = 100 and p = peer_a and q = peer_b])
    (simp_all add: example_network_def peer_a_def peer_b_def vxlan_port_name_def)

end
