(* ===== verification/Agent_Plan.thy ===== *)
theory Agent_Plan
  imports Diff_Engine "HOL-Library.Monad_Syntax"
begin

text \<open>
  The agent's side of the plan contract. Its value objects with the validation their constructors
  run (\<open>netos_agent/core/value_objects/edge_services.py\<close>, \<open>plan.py\<close>), the JSON the controller
  sends (\<open>_step_to_wire\<close> in \<open>adapters/netos_agent/client.py\<close>) and the agent's reading of it (the
  request models of \<open>netos_agent/adapters/http_api/schemas.py\<close>): a missing field takes its
  default, a field of another type, outside its bounds or unknown is refused. A coercion between
  JSON types that the models' library would still accept is not modelled; the client sends none.
\<close>

subsection \<open>Edge-service specs of the agent\<close>

definition ag_dhcp_check :: "dhcp_scope \<Rightarrow> agent_error + unit" where
  "ag_dhcp_check d =
     bindE (of_option AgentValidationError (ip_network (ds_cidr d) True)) (\<lambda>net.
     bindE (of_option AgentValidationError (ip_address (ds_range_start d))) (\<lambda>s.
     bindE (of_option AgentValidationError (ip_address (ds_range_end d))) (\<lambda>e.
     bindE (require (in_net s net \<and> in_net e net) AgentValidationError) (\<lambda>_.
     bindE (require (ip_int s \<le> ip_int e) AgentValidationError) (\<lambda>_.
     bindE (case ds_gateway d of None \<Rightarrow> Inr ()
            | Some g \<Rightarrow> bindE (of_option AgentValidationError (ip_address g)) (\<lambda>gw.
                require (in_net gw net) AgentValidationError)) (\<lambda>_.
     bindE (each (\<lambda>srv. require (ip_address srv \<noteq> None) AgentValidationError) (ds_dns_servers d)) (\<lambda>_.
     require (60 \<le> ds_lease_time d) AgentValidationError)))))))"

definition ag_dns_record_check :: "dns_record \<Rightarrow> agent_error + unit" where
  "ag_dns_record_check r =
     bindE (require (dr_type r \<in> {''A'', ''AAAA'', ''CNAME''}) AgentValidationError) (\<lambda>_.
     bindE (require (dr_name r \<noteq> [] \<and> CHR ''/'' \<notin> set (dr_name r) \<and> CHR 0x0A \<notin> set (dr_name r))
       AgentValidationError) (\<lambda>_.
     require (dr_type r \<in> {''A'', ''AAAA''} \<longrightarrow> ip_address (dr_value r) \<noteq> None) AgentValidationError))"

definition ends_with :: "string \<Rightarrow> string \<Rightarrow> bool" where
  "ends_with s suf \<longleftrightarrow> length suf \<le> length s \<and> drop (length s - length suf) s = suf"

definition ag_dns_zone_check :: "dns_zone \<Rightarrow> agent_error + unit" where
  "ag_dns_zone_check z =
     require (dz_zone z \<noteq> [] \<and> \<not> ends_with (dz_zone z) ''..'' \<and> CHR '' '' \<notin> set (dz_zone z))
       AgentValidationError"

definition ag_nat_check :: "nat_rule \<Rightarrow> agent_error + unit" where
  "ag_nat_check r =
     bindE (require (ip_network (nr_source_cidr r) True \<noteq> None) AgentValidationError) (\<lambda>_.
     require (nr_egress r \<noteq> [] \<and> CHR '' '' \<notin> set (nr_egress r)) AgentValidationError)"

record ag_fw_policy =
  afp_policy_id :: string
  afp_default :: fw_action
  afp_rules :: "fw_rule list"

definition ag_cidr_ok :: "string option \<Rightarrow> agent_error + unit" where
  "ag_cidr_ok c = (case c of None \<Rightarrow> Inr ()
     | Some v \<Rightarrow> require (ip_network v False \<noteq> None) AgentValidationError)"

definition ag_fw_rule_check :: "fw_rule \<Rightarrow> agent_error + unit" where
  "ag_fw_rule_check r =
     bindE (each ag_cidr_ok [fr_source r, fr_destination r]) (\<lambda>_.
     if fr_proto r = PROTO_ICMP \<and> (fr_port_start r \<noteq> None \<or> fr_port_end r \<noteq> None)
     then Inl AgentValidationError
     else if fr_port_start r \<noteq> None \<or> fr_port_end r \<noteq> None then
       let s = int_or (fr_port_start r) 0; e = int_or (fr_port_end r) s in
       bindE (require (1 \<le> s \<and> s \<le> 65535 \<and> 1 \<le> e \<and> e \<le> 65535) AgentValidationError) (\<lambda>_.
       require (s \<le> e) AgentValidationError)
     else Inr ())"

definition ag_fw_policy_check :: "ag_fw_policy \<Rightarrow> agent_error + unit" where
  "ag_fw_policy_check p =
     require (afp_policy_id p \<noteq> [] \<and> CHR '' '' \<notin> set (afp_policy_id p)) AgentValidationError"

datatype agent_step =
    AgEnsureBridge string string sdict
  | AgDeleteBridge string
  | AgEnsurePort string string string sdict "int option" "int list" sdict
  | AgDeletePort string string
  | AgEnsureVxlanPort string string int string "string option" int "int option" sdict
  | AgEnsureDhcpScope dhcp_scope
  | AgDeleteDhcpScope string
  | AgEnsureDnsZone dns_zone
  | AgDeleteDnsZone string
  | AgEnsureNatRule nat_rule
  | AgDeleteNatRule string
  | AgEnsureFirewallPolicy ag_fw_policy
  | AgDeleteFirewallPolicy string

fun ag_step_action :: "agent_step \<Rightarrow> string" where
  "ag_step_action (AgEnsureBridge _ _ _) = ''ensure_bridge''"
| "ag_step_action (AgDeleteBridge _) = ''delete_bridge''"
| "ag_step_action (AgEnsurePort _ _ _ _ _ _ _) = ''ensure_port''"
| "ag_step_action (AgDeletePort _ _) = ''delete_port''"
| "ag_step_action (AgEnsureVxlanPort _ _ _ _ _ _ _ _) = ''ensure_vxlan_port''"
| "ag_step_action (AgEnsureDhcpScope _) = ''ensure_dhcp_scope''"
| "ag_step_action (AgDeleteDhcpScope _) = ''delete_dhcp_scope''"
| "ag_step_action (AgEnsureDnsZone _) = ''ensure_dns_zone''"
| "ag_step_action (AgDeleteDnsZone _) = ''delete_dns_zone''"
| "ag_step_action (AgEnsureNatRule _) = ''ensure_nat_rule''"
| "ag_step_action (AgDeleteNatRule _) = ''delete_nat_rule''"
| "ag_step_action (AgEnsureFirewallPolicy _) = ''ensure_firewall_policy''"
| "ag_step_action (AgDeleteFirewallPolicy _) = ''delete_firewall_policy''"

subsection \<open>What the controller sends\<close>

definition opt_field :: "string \<Rightarrow> ('a \<Rightarrow> json) \<Rightarrow> 'a option \<Rightarrow> (string \<times> json) list" where
  "opt_field k f v = (case v of None \<Rightarrow> [] | Some x \<Rightarrow> [(k, f x)])"

fun step_to_wire :: "plan_step \<Rightarrow> json" where
  "step_to_wire (EnsureBridgeStep name dp ids) = JObj
     [(''action'', JStr ''ensure_bridge''), (''name'', JStr name), (''datapath_type'', JStr dp),
      (''external_ids'', jsdict ids)]"
| "step_to_wire (DeleteBridgeStep name) = JObj
     [(''action'', JStr ''delete_bridge''), (''name'', JStr name)]"
| "step_to_wire (EnsurePortStep bridge name ty options tag trunks ids) = JObj
     ([(''action'', JStr ''ensure_port''), (''bridge'', JStr bridge), (''name'', JStr name),
       (''type'', JStr ty), (''options'', jsdict options), (''trunks'', JList (List.map JInt trunks)),
       (''external_ids'', jsdict ids)] @ opt_field ''tag'' JInt tag)"
| "step_to_wire (DeletePortStep bridge name) = JObj
     [(''action'', JStr ''delete_port''), (''bridge'', JStr bridge), (''name'', JStr name)]"
| "step_to_wire (EnsureVxlanPortStep bridge name vni remote_ip local_ip dst_port mtu ids) = JObj
     ([(''action'', JStr ''ensure_vxlan_port''), (''bridge'', JStr bridge), (''name'', JStr name),
       (''vni'', JInt vni), (''remote_ip'', JStr remote_ip), (''dst_port'', JInt dst_port),
       (''external_ids'', jsdict ids)] @
      opt_field ''local_ip'' JStr local_ip @ opt_field ''mtu'' JInt mtu)"
| "step_to_wire (EnsureDhcpScopeStep d) = JObj
     [(''action'', JStr ''ensure_dhcp_scope''),
      (''spec'', JObj
        [(''scope_id'', JStr (ds_scope_id d)), (''cidr'', JStr (ds_cidr d)),
         (''range_start'', JStr (ds_range_start d)), (''range_end'', JStr (ds_range_end d)),
         (''gateway'', jopt JStr (ds_gateway d)),
         (''dns_servers'', JList (List.map JStr (ds_dns_servers d))),
         (''lease_time_seconds'', JInt (ds_lease_time d)),
         (''domain_name'', jopt JStr (ds_domain_name d))])]"
| "step_to_wire (DeleteDhcpScopeStep k) = JObj
     [(''action'', JStr ''delete_dhcp_scope''), (''scope_id'', JStr k)]"
| "step_to_wire (EnsureDnsZoneStep z) = JObj
     [(''action'', JStr ''ensure_dns_zone''),
      (''spec'', JObj
        [(''zone'', JStr (dz_zone z)), (''soa_email'', JStr (dz_soa_email z)),
         (''records'', JList (List.map (\<lambda>r. JObj
            [(''name'', JStr (dr_name r)), (''type'', JStr (dr_type r)), (''value'', JStr (dr_value r)),
             (''ttl_seconds'', JInt (dr_ttl r))]) (dz_records z)))])]"
| "step_to_wire (DeleteDnsZoneStep k) = JObj
     [(''action'', JStr ''delete_dns_zone''), (''zone'', JStr k)]"
| "step_to_wire (EnsureNatRuleStep r) = JObj
     [(''action'', JStr ''ensure_nat_rule''),
      (''spec'', JObj
        [(''rule_id'', JStr (nr_rule_id r)), (''source_cidr'', JStr (nr_source_cidr r)),
         (''egress_interface'', JStr (nr_egress r))])]"
| "step_to_wire (DeleteNatRuleStep k) = JObj
     [(''action'', JStr ''delete_nat_rule''), (''rule_id'', JStr k)]"
| "step_to_wire (EnsureFirewallPolicyStep p) = JObj
     [(''action'', JStr ''ensure_firewall_policy''),
      (''spec'', JObj
        [(''policy_id'', JStr (fs_policy_id p)), (''default_action'', JStr (fs_default_action p)),
         (''rules'', JList (List.map (\<lambda>r. JObj
            [(''action'', JStr (fw_action_text r)), (''proto'', JStr (fw_proto_text r)),
             (''source_cidr'', jopt JStr (fw_source r)),
             (''destination_cidr'', jopt JStr (fw_destination r)),
             (''destination_port_start'', jopt JInt (fw_port_start r)),
             (''destination_port_end'', jopt JInt (fw_port_end r))]) (fs_rules p)))])]"
| "step_to_wire (DeleteFirewallPolicyStep k) = JObj
     [(''action'', JStr ''delete_firewall_policy''), (''policy_id'', JStr k)]"

subsection \<open>What the agent accepts\<close>

definition only_keys :: "string list \<Rightarrow> json \<Rightarrow> bool" where
  "only_keys ks j = (case j of JObj kvs \<Rightarrow> list_all (\<lambda>(k, _). k \<in> set ks) kvs | _ \<Rightarrow> False)"

definition strict_obj :: "string list \<Rightarrow> json \<Rightarrow> unit option" where
  "strict_obj ks j = (if only_keys ks j then Some () else None)"

definition rd :: "(json \<Rightarrow> 'a option) \<Rightarrow> string \<Rightarrow> json \<Rightarrow> 'a option" where
  "rd f k j = Option.bind (jfield k j) f"

definition rd_default :: "(json \<Rightarrow> 'a option) \<Rightarrow> 'a \<Rightarrow> string \<Rightarrow> json \<Rightarrow> 'a option" where
  "rd_default f dflt k j = (case jfield k j of None \<Rightarrow> Some dflt | Some v \<Rightarrow> f v)"

fun v_str :: "json \<Rightarrow> string option" where
  "v_str (JStr s) = Some s"
| "v_str _ = None"

fun v_text :: "nat option \<Rightarrow> json \<Rightarrow> string option" where
  "v_text hi (JStr s) = (if 1 \<le> length s \<and> (case hi of None \<Rightarrow> True | Some h \<Rightarrow> length s \<le> h)
     then Some s else None)"
| "v_text hi _ = None"

fun v_literal :: "string list \<Rightarrow> json \<Rightarrow> string option" where
  "v_literal ls (JStr s) = (if s \<in> set ls then Some s else None)"
| "v_literal ls _ = None"

fun v_int :: "json \<Rightarrow> int option" where
  "v_int (JInt i) = Some i"
| "v_int _ = None"

fun v_range :: "int \<Rightarrow> int \<Rightarrow> json \<Rightarrow> int option" where
  "v_range lo hi (JInt i) = (if lo \<le> i \<and> i \<le> hi then Some i else None)"
| "v_range lo hi _ = None"

fun v_opt :: "(json \<Rightarrow> 'a option) \<Rightarrow> json \<Rightarrow> 'a option option" where
  "v_opt f JNull = Some None"
| "v_opt f j = map_option Some (f j)"

fun v_list :: "(json \<Rightarrow> 'a option) \<Rightarrow> json \<Rightarrow> 'a list option" where
  "v_list f (JList xs) = those (List.map f xs)"
| "v_list f _ = None"

text \<open>
  The request models have the fields of the controller's steps, so a parsed step is represented
  by the step constructor with the same fields.
\<close>

definition in_dhcp_scope :: "json \<Rightarrow> dhcp_scope option" where
  "in_dhcp_scope j = do {
     strict_obj [''scope_id'', ''cidr'', ''range_start'', ''range_end'', ''gateway'', ''dns_servers'',
       ''lease_time_seconds'', ''domain_name''] j;
     scope_id \<leftarrow> rd (v_text (Some 128)) ''scope_id'' j;
     cidr \<leftarrow> rd (v_text None) ''cidr'' j;
     start \<leftarrow> rd (v_text None) ''range_start'' j;
     finish \<leftarrow> rd (v_text None) ''range_end'' j;
     gateway \<leftarrow> rd_default (v_opt v_str) None ''gateway'' j;
     dns \<leftarrow> rd_default (v_list v_str) [] ''dns_servers'' j;
     lease \<leftarrow> rd_default (v_range 60 86400) 3600 ''lease_time_seconds'' j;
     domain \<leftarrow> rd_default (v_opt v_str) None ''domain_name'' j;
     Some \<lparr>ds_scope_id = scope_id, ds_cidr = cidr, ds_range_start = start, ds_range_end = finish,
           ds_gateway = gateway, ds_dns_servers = dns, ds_lease_time = lease,
           ds_domain_name = domain\<rparr> }"

definition in_dns_record :: "json \<Rightarrow> dns_record option" where
  "in_dns_record j = do {
     strict_obj [''name'', ''type'', ''value'', ''ttl_seconds''] j;
     name \<leftarrow> rd (v_text None) ''name'' j;
     ty \<leftarrow> rd (v_literal [''A'', ''AAAA'', ''CNAME'']) ''type'' j;
     val \<leftarrow> rd (v_text None) ''value'' j;
     ttl \<leftarrow> rd_default (v_range 1 86400) 300 ''ttl_seconds'' j;
     Some \<lparr>dr_name = name, dr_type = ty, dr_value = val, dr_ttl = ttl\<rparr> }"

definition in_dns_zone :: "json \<Rightarrow> dns_zone option" where
  "in_dns_zone j = do {
     strict_obj [''zone'', ''records'', ''soa_email''] j;
     zone \<leftarrow> rd (v_text None) ''zone'' j;
     records \<leftarrow> rd_default (v_list in_dns_record) [] ''records'' j;
     soa \<leftarrow> rd_default v_str ''hostmaster.invalid.'' ''soa_email'' j;
     Some \<lparr>dz_zone = zone, dz_records = records, dz_soa_email = soa\<rparr> }"

definition in_nat_rule :: "json \<Rightarrow> nat_rule option" where
  "in_nat_rule j = do {
     strict_obj [''rule_id'', ''source_cidr'', ''egress_interface''] j;
     rule_id \<leftarrow> rd (v_text (Some 128)) ''rule_id'' j;
     source \<leftarrow> rd (v_text None) ''source_cidr'' j;
     egress \<leftarrow> rd (v_text (Some 64)) ''egress_interface'' j;
     Some \<lparr>nr_rule_id = rule_id, nr_source_cidr = source, nr_egress = egress\<rparr> }"

definition in_fw_rule :: "json \<Rightarrow> fw_rule_wire option" where
  "in_fw_rule j = do {
     strict_obj [''action'', ''proto'', ''source_cidr'', ''destination_cidr'', ''destination_port_start'',
       ''destination_port_end''] j;
     action \<leftarrow> rd_default (v_literal [''accept'', ''drop'']) ''accept'' ''action'' j;
     proto \<leftarrow> rd_default (v_literal [''any'', ''tcp'', ''udp'', ''icmp'']) ''any'' ''proto'' j;
     source \<leftarrow> rd_default (v_opt v_str) None ''source_cidr'' j;
     dest \<leftarrow> rd_default (v_opt v_str) None ''destination_cidr'' j;
     pstart \<leftarrow> rd_default (v_opt (v_range 1 65535)) None ''destination_port_start'' j;
     pend \<leftarrow> rd_default (v_opt (v_range 1 65535)) None ''destination_port_end'' j;
     Some \<lparr>fw_action_text = action, fw_proto_text = proto, fw_source = source,
           fw_destination = dest, fw_port_start = pstart, fw_port_end = pend\<rparr> }"

definition in_fw_policy :: "json \<Rightarrow> fw_policy_step option" where
  "in_fw_policy j = do {
     strict_obj [''policy_id'', ''default_action'', ''rules''] j;
     policy_id \<leftarrow> rd (v_text (Some 128)) ''policy_id'' j;
     default_action \<leftarrow> rd_default (v_literal [''accept'', ''drop'']) ''drop'' ''default_action'' j;
     rules \<leftarrow> rd_default (v_list in_fw_rule) [] ''rules'' j;
     Some \<lparr>fs_policy_id = policy_id, fs_default_action = default_action, fs_rules = rules\<rparr> }"

definition in_step :: "json \<Rightarrow> plan_step option" where
  "in_step j = do {
     action \<leftarrow> rd v_str ''action'' j;
     if action = ''ensure_bridge'' then do {
       strict_obj [''action'', ''name'', ''datapath_type'', ''external_ids''] j;
       name \<leftarrow> rd (v_text None) ''name'' j;
       dp \<leftarrow> rd_default v_str ''system'' ''datapath_type'' j;
       ids \<leftarrow> rd_default as_sdict [] ''external_ids'' j;
       Some (EnsureBridgeStep name dp ids) }
     else if action = ''delete_bridge'' then do {
       strict_obj [''action'', ''name''] j;
       name \<leftarrow> rd (v_text None) ''name'' j;
       Some (DeleteBridgeStep name) }
     else if action = ''ensure_port'' then do {
       strict_obj [''action'', ''bridge'', ''name'', ''type'', ''options'', ''tag'', ''trunks'',
         ''external_ids''] j;
       bridge \<leftarrow> rd (v_text None) ''bridge'' j;
       name \<leftarrow> rd (v_text None) ''name'' j;
       ty \<leftarrow> rd_default v_str ''internal'' ''type'' j;
       options \<leftarrow> rd_default as_sdict [] ''options'' j;
       tag \<leftarrow> rd_default (v_opt (v_range 1 4094)) None ''tag'' j;
       trunks \<leftarrow> rd_default (v_list v_int) [] ''trunks'' j;
       ids \<leftarrow> rd_default as_sdict [] ''external_ids'' j;
       Some (EnsurePortStep bridge name ty options tag trunks ids) }
     else if action = ''delete_port'' then do {
       strict_obj [''action'', ''bridge'', ''name''] j;
       bridge \<leftarrow> rd (v_text None) ''bridge'' j;
       name \<leftarrow> rd (v_text None) ''name'' j;
       Some (DeletePortStep bridge name) }
     else if action = ''ensure_vxlan_port'' then do {
       strict_obj [''action'', ''bridge'', ''name'', ''vni'', ''remote_ip'', ''local_ip'', ''dst_port'',
         ''mtu'', ''external_ids''] j;
       bridge \<leftarrow> rd (v_text None) ''bridge'' j;
       name \<leftarrow> rd (v_text None) ''name'' j;
       vni \<leftarrow> rd (v_range 1 16777215) ''vni'' j;
       remote_ip \<leftarrow> rd (v_text None) ''remote_ip'' j;
       local_ip \<leftarrow> rd_default (v_opt v_str) None ''local_ip'' j;
       dst_port \<leftarrow> rd_default (v_range 1 65535) 4789 ''dst_port'' j;
       mtu \<leftarrow> rd_default (v_opt (v_range 576 9216)) None ''mtu'' j;
       ids \<leftarrow> rd_default as_sdict [] ''external_ids'' j;
       Some (EnsureVxlanPortStep bridge name vni remote_ip local_ip dst_port mtu ids) }
     else if action = ''ensure_dhcp_scope'' then do {
       strict_obj [''action'', ''spec''] j;
       spec \<leftarrow> rd in_dhcp_scope ''spec'' j;
       Some (EnsureDhcpScopeStep spec) }
     else if action = ''delete_dhcp_scope'' then do {
       strict_obj [''action'', ''scope_id''] j;
       k \<leftarrow> rd (v_text None) ''scope_id'' j;
       Some (DeleteDhcpScopeStep k) }
     else if action = ''ensure_dns_zone'' then do {
       strict_obj [''action'', ''spec''] j;
       spec \<leftarrow> rd in_dns_zone ''spec'' j;
       Some (EnsureDnsZoneStep spec) }
     else if action = ''delete_dns_zone'' then do {
       strict_obj [''action'', ''zone''] j;
       k \<leftarrow> rd (v_text None) ''zone'' j;
       Some (DeleteDnsZoneStep k) }
     else if action = ''ensure_nat_rule'' then do {
       strict_obj [''action'', ''spec''] j;
       spec \<leftarrow> rd in_nat_rule ''spec'' j;
       Some (EnsureNatRuleStep spec) }
     else if action = ''delete_nat_rule'' then do {
       strict_obj [''action'', ''rule_id''] j;
       k \<leftarrow> rd (v_text None) ''rule_id'' j;
       Some (DeleteNatRuleStep k) }
     else if action = ''ensure_firewall_policy'' then do {
       strict_obj [''action'', ''spec''] j;
       spec \<leftarrow> rd in_fw_policy ''spec'' j;
       Some (EnsureFirewallPolicyStep spec) }
     else if action = ''delete_firewall_policy'' then do {
       strict_obj [''action'', ''policy_id''] j;
       k \<leftarrow> rd (v_text None) ''policy_id'' j;
       Some (DeleteFirewallPolicyStep k) }
     else None }"

subsection \<open>To the agent's value objects\<close>

definition fw_action_of :: "string \<Rightarrow> fw_action option" where
  "fw_action_of s = find (\<lambda>a. fw_action_value a = s) [FW_ACCEPT, FW_DROP]"

definition fw_proto_of :: "string \<Rightarrow> fw_proto option" where
  "fw_proto_of s = find (\<lambda>a. fw_proto_value a = s) [PROTO_ANY, PROTO_TCP, PROTO_UDP, PROTO_ICMP]"

datatype wire_error = Unprocessable | Raised agent_error

definition raised :: "agent_error + 'a \<Rightarrow> wire_error + 'a" where
  "raised r = (case r of Inl e \<Rightarrow> Inl (Raised e) | Inr x \<Rightarrow> Inr x)"

definition fw_rule_to_domain :: "fw_rule_wire \<Rightarrow> wire_error + fw_rule" where
  "fw_rule_to_domain r =
     bindE (of_option Unprocessable (fw_action_of (fw_action_text r))) (\<lambda>a.
     bindE (of_option Unprocessable (fw_proto_of (fw_proto_text r))) (\<lambda>p.
     let rule = \<lparr>fr_action = a, fr_proto = p, fr_source = fw_source r,
                 fr_destination = fw_destination r, fr_port_start = fw_port_start r,
                 fr_port_end = fw_port_end r\<rparr>
     in bindE (raised (ag_fw_rule_check rule)) (\<lambda>_. Inr rule)))"

fun mapE :: "('a \<Rightarrow> 'e + 'b) \<Rightarrow> 'a list \<Rightarrow> 'e + 'b list" where
  "mapE f [] = Inr []"
| "mapE f (x # xs) = bindE (f x) (\<lambda>y. bindE (mapE f xs) (\<lambda>ys. Inr (y # ys)))"

definition fw_policy_to_domain :: "fw_policy_step \<Rightarrow> wire_error + ag_fw_policy" where
  "fw_policy_to_domain p =
     bindE (of_option Unprocessable (fw_action_of (fs_default_action p))) (\<lambda>a.
     bindE (mapE fw_rule_to_domain (fs_rules p)) (\<lambda>rules.
     let pol = \<lparr>afp_policy_id = fs_policy_id p, afp_default = a, afp_rules = rules\<rparr>
     in bindE (raised (ag_fw_policy_check pol)) (\<lambda>_. Inr pol)))"

fun step_to_domain :: "plan_step \<Rightarrow> wire_error + agent_step" where
  "step_to_domain (EnsureBridgeStep name dp ids) = Inr (AgEnsureBridge name dp ids)"
| "step_to_domain (DeleteBridgeStep name) = Inr (AgDeleteBridge name)"
| "step_to_domain (EnsurePortStep bridge name ty options tag trunks ids) =
     Inr (AgEnsurePort bridge name ty options tag trunks ids)"
| "step_to_domain (DeletePortStep bridge name) = Inr (AgDeletePort bridge name)"
| "step_to_domain (EnsureVxlanPortStep bridge name vni remote_ip local_ip dst_port mtu ids) =
     Inr (AgEnsureVxlanPort bridge name vni remote_ip local_ip dst_port mtu ids)"
| "step_to_domain (EnsureDhcpScopeStep d) =
     bindE (raised (ag_dhcp_check d)) (\<lambda>_. Inr (AgEnsureDhcpScope d))"
| "step_to_domain (DeleteDhcpScopeStep k) = Inr (AgDeleteDhcpScope k)"
| "step_to_domain (EnsureDnsZoneStep z) =
     bindE (raised (each ag_dns_record_check (dz_records z))) (\<lambda>_.
     bindE (raised (ag_dns_zone_check z)) (\<lambda>_. Inr (AgEnsureDnsZone z)))"
| "step_to_domain (DeleteDnsZoneStep k) = Inr (AgDeleteDnsZone k)"
| "step_to_domain (EnsureNatRuleStep r) =
     bindE (raised (ag_nat_check r)) (\<lambda>_. Inr (AgEnsureNatRule r))"
| "step_to_domain (DeleteNatRuleStep k) = Inr (AgDeleteNatRule k)"
| "step_to_domain (EnsureFirewallPolicyStep p) =
     bindE (fw_policy_to_domain p) (\<lambda>q. Inr (AgEnsureFirewallPolicy q))"
| "step_to_domain (DeleteFirewallPolicyStep k) = Inr (AgDeleteFirewallPolicy k)"

text \<open>One step as the agent receives it, and the whole request (\<open>PlanApplyRequest\<close>).\<close>

definition receive_step :: "json \<Rightarrow> wire_error + agent_step" where
  "receive_step j = bindE (of_option Unprocessable (in_step j)) step_to_domain"

definition plan_to_wire :: "plan \<Rightarrow> json" where
  "plan_to_wire p = JObj [(''plan_id'', JStr (pl_id p)), (''steps'', JList (List.map step_to_wire (pl_steps p)))]"

definition receive_plan :: "json \<Rightarrow> wire_error + string \<times> agent_step list" where
  "receive_plan j =
     bindE (of_option Unprocessable (do {
       strict_obj [''plan_id'', ''steps''] j;
       pid \<leftarrow> rd (v_text (Some 128)) ''plan_id'' j;
       steps \<leftarrow> rd (v_list in_step) ''steps'' j;
       if steps = [] then None else Some (pid, steps) })) (\<lambda>(pid, steps).
     bindE (mapE step_to_domain steps) (\<lambda>ags. Inr (pid, ags)))"

subsection \<open>Round trip\<close>

text \<open>The field constraints of the request models, on the controller's step.\<close>

definition text_ok :: "nat option \<Rightarrow> string \<Rightarrow> bool" where
  "text_ok hi s \<longleftrightarrow> 1 \<le> length s \<and> (case hi of None \<Rightarrow> True | Some h \<Rightarrow> length s \<le> h)"

definition opt_in :: "int \<Rightarrow> int \<Rightarrow> int option \<Rightarrow> bool" where
  "opt_in lo hi v \<longleftrightarrow> (case v of None \<Rightarrow> True | Some i \<Rightarrow> lo \<le> i \<and> i \<le> hi)"

definition dns_record_fields :: "dns_record \<Rightarrow> bool" where
  "dns_record_fields r \<longleftrightarrow> dr_name r \<noteq> [] \<and> dr_type r \<in> {''A'', ''AAAA'', ''CNAME''} \<and>
     dr_value r \<noteq> [] \<and> 1 \<le> dr_ttl r \<and> dr_ttl r \<le> 86400"

definition fw_rule_fields :: "fw_rule_wire \<Rightarrow> bool" where
  "fw_rule_fields r \<longleftrightarrow> fw_action_text r \<in> {''accept'', ''drop''} \<and>
     fw_proto_text r \<in> {''any'', ''tcp'', ''udp'', ''icmp''} \<and>
     opt_in 1 65535 (fw_port_start r) \<and> opt_in 1 65535 (fw_port_end r)"

fun fields_ok :: "plan_step \<Rightarrow> bool" where
  "fields_ok (EnsureBridgeStep name dp ids) \<longleftrightarrow> name \<noteq> []"
| "fields_ok (DeleteBridgeStep name) \<longleftrightarrow> name \<noteq> []"
| "fields_ok (EnsurePortStep bridge name ty options tag trunks ids) \<longleftrightarrow>
     bridge \<noteq> [] \<and> name \<noteq> [] \<and> opt_in 1 4094 tag"
| "fields_ok (DeletePortStep bridge name) \<longleftrightarrow> bridge \<noteq> [] \<and> name \<noteq> []"
| "fields_ok (EnsureVxlanPortStep bridge name vni remote_ip local_ip dst_port mtu ids) \<longleftrightarrow>
     bridge \<noteq> [] \<and> name \<noteq> [] \<and> 1 \<le> vni \<and> vni \<le> 16777215 \<and> remote_ip \<noteq> [] \<and>
     1 \<le> dst_port \<and> dst_port \<le> 65535 \<and> opt_in 576 9216 mtu"
| "fields_ok (EnsureDhcpScopeStep d) \<longleftrightarrow>
     text_ok (Some 128) (ds_scope_id d) \<and> ds_cidr d \<noteq> [] \<and> ds_range_start d \<noteq> [] \<and>
     ds_range_end d \<noteq> [] \<and> 60 \<le> ds_lease_time d \<and> ds_lease_time d \<le> 86400"
| "fields_ok (EnsureDnsZoneStep z) \<longleftrightarrow> dz_zone z \<noteq> [] \<and> list_all dns_record_fields (dz_records z)"
| "fields_ok (EnsureNatRuleStep r) \<longleftrightarrow>
     text_ok (Some 128) (nr_rule_id r) \<and> nr_source_cidr r \<noteq> [] \<and> text_ok (Some 64) (nr_egress r)"
| "fields_ok (EnsureFirewallPolicyStep p) \<longleftrightarrow>
     text_ok (Some 128) (fs_policy_id p) \<and> fs_default_action p \<in> {''accept'', ''drop''} \<and>
     list_all fw_rule_fields (fs_rules p)"
| "fields_ok (DeleteDhcpScopeStep k) \<longleftrightarrow> k \<noteq> []"
| "fields_ok (DeleteDnsZoneStep k) \<longleftrightarrow> k \<noteq> []"
| "fields_ok (DeleteNatRuleStep k) \<longleftrightarrow> k \<noteq> []"
| "fields_ok (DeleteFirewallPolicyStep k) \<longleftrightarrow> k \<noteq> []"

lemma v_opt_jopt_str [simp]: "v_opt v_str (jopt JStr x) = Some x"
  by (cases x) simp_all

lemma v_opt_jopt_range [simp]:
  "v_opt (v_range lo hi) (jopt JInt x) = (if opt_in lo hi x then Some x else None)"
  by (cases x) (simp_all add: opt_in_def)

lemma v_opt_range [simp]:
  "v_opt (v_range lo hi) (JInt i) = (if lo \<le> i \<and> i \<le> hi then Some (Some i) else None)"
  by simp

lemma v_text_eq: "v_text hi (JStr s) = (if text_ok hi s then Some s else None)"
  by (simp add: text_ok_def)

lemma text_ok_None [simp]: "text_ok None s \<longleftrightarrow> s \<noteq> []"
  by (cases s) (simp_all add: text_ok_def)

lemma v_list_roundtrip:
  assumes "\<And>x. f (g x) = (if P x then Some x else None)"
  shows "v_list f (JList (List.map g xs)) = (if list_all P xs then Some xs else None)"
  using assms by (induction xs) (simp_all add: list_all_iff)

lemma v_list_str [simp]: "v_list v_str (JList (List.map JStr xs)) = Some xs"
  using v_list_roundtrip [of v_str JStr "\<lambda>_. True"] by (simp add: list_all_iff)

lemma v_list_int [simp]: "v_list v_int (JList (List.map JInt xs)) = Some xs"
  using v_list_roundtrip [of v_int JInt "\<lambda>_. True"] by (simp add: list_all_iff)

lemmas wire_simps =
  rd_def rd_default_def strict_obj_def only_keys_def opt_field_def v_text_eq

lemma in_dns_record_roundtrip:
  "in_dns_record (JObj [(''name'', JStr (dr_name r)), (''type'', JStr (dr_type r)),
      (''value'', JStr (dr_value r)), (''ttl_seconds'', JInt (dr_ttl r))]) =
   (if dns_record_fields r then Some r else None)"
  by (cases r) (simp add: in_dns_record_def wire_simps dns_record_fields_def del: v_text.simps)

lemma in_fw_rule_roundtrip:
  "in_fw_rule (JObj [(''action'', JStr (fw_action_text r)), (''proto'', JStr (fw_proto_text r)),
      (''source_cidr'', jopt JStr (fw_source r)), (''destination_cidr'', jopt JStr (fw_destination r)),
      (''destination_port_start'', jopt JInt (fw_port_start r)),
      (''destination_port_end'', jopt JInt (fw_port_end r))]) =
   (if fw_rule_fields r then Some r else None)"
  by (cases r) (simp add: in_fw_rule_def wire_simps fw_rule_fields_def del: v_text.simps)

lemmas v_list_records = v_list_roundtrip [OF in_dns_record_roundtrip]
lemmas v_list_rules = v_list_roundtrip [OF in_fw_rule_roundtrip]

lemma in_step_roundtrip: "in_step (step_to_wire st) = (if fields_ok st then Some st else None)"
proof (cases st)
  case (EnsurePortStep bridge name ty options tag trunks ids)
  then show ?thesis
    by (cases tag) (simp_all add: in_step_def wire_simps opt_in_def del: v_text.simps v_list.simps)
next
  case (EnsureVxlanPortStep bridge name vni remote_ip local_ip dst_port mtu ids)
  then show ?thesis
    by (cases local_ip; cases mtu)
      (simp_all add: in_step_def wire_simps opt_in_def del: v_text.simps v_list.simps)
next
  case (EnsureDhcpScopeStep d)
  then show ?thesis
    by (cases d) (simp add: in_step_def in_dhcp_scope_def wire_simps del: v_text.simps v_list.simps)
next
  case (EnsureDnsZoneStep z)
  then show ?thesis
    by (cases z) (simp add: in_step_def in_dns_zone_def wire_simps v_list_records
        del: v_text.simps v_list.simps)
next
  case (EnsureNatRuleStep r)
  then show ?thesis
    by (cases r) (simp add: in_step_def in_nat_rule_def wire_simps del: v_text.simps v_list.simps)
next
  case (EnsureFirewallPolicyStep p)
  then show ?thesis
    by (cases p) (simp add: in_step_def in_fw_policy_def wire_simps v_list_rules
        del: v_text.simps v_list.simps)
qed (simp_all add: in_step_def wire_simps del: v_text.simps v_list.simps)

lemma plan_roundtrip:
  "receive_plan (plan_to_wire p) =
     (if text_ok (Some 128) (pl_id p) \<and> pl_steps p \<noteq> [] \<and> list_all fields_ok (pl_steps p)
      then bindE (mapE step_to_domain (pl_steps p)) (\<lambda>ags. Inr (pl_id p, ags))
      else Inl Unprocessable)"
  by (simp add: receive_plan_def plan_to_wire_def wire_simps
      v_list_roundtrip [of in_step step_to_wire fields_ok, OF in_step_roundtrip]
      del: v_text.simps v_list.simps)

text \<open>
  C33. The two sides of the wire agree: what the agent reads from a plan that the controller
  serialised is exactly the plan's steps turned into the agent's value objects, in order, with
  no field lost or renamed; the request is refused as a whole exactly when the plan is empty,
  its id is not 1 to 128 characters, or a step breaks a field bound of the request models.
\<close>

theorem plan_wire_roundtrip:
  "receive_plan (plan_to_wire p) =
     (if text_ok (Some 128) (pl_id p) \<and> pl_steps p \<noteq> [] \<and> list_all fields_ok (pl_steps p)
      then bindE (mapE step_to_domain (pl_steps p)) (\<lambda>ags. Inr (pl_id p, ags))
      else Inl Unprocessable)"
  by (rule plan_roundtrip)

lemma vxlan_name_nonempty: "vxlan_port_name vni p \<noteq> []"
  by (simp add: vxlan_port_name_def)

lemma peer_steps_fields:
  "1 \<le> vni \<Longrightarrow> vni \<le> 16777215 \<Longrightarrow> 576 \<le> net_mtu n \<Longrightarrow> net_mtu n \<le> 9216 \<Longrightarrow> na_mgmt_ip p \<noteq> [] \<Longrightarrow>
   st \<in> set (peer_steps n local vni b p) \<Longrightarrow> fields_ok st"
  by (auto simp: peer_steps_def vxlan_step_def bridge_name_def vxlan_name_nonempty opt_in_def
      split: if_splits option.splits)

lemma network_validate_bounds:
  "network_validate n = Inr () \<Longrightarrow> 576 \<le> net_mtu n \<and> net_mtu n \<le> 9216 \<and>
   (\<forall>vni. net_type n = VXLAN \<and> net_vni n = Some vni \<longrightarrow> 1 \<le> vni \<and> vni \<le> 16777215)"
  by (auto simp: network_validate_def bindE_Inr_iff split: network_type.splits option.splits)

text \<open>
  The switch part of a plan always passes the agent's schema: for a validated network, peers
  with an address and observed bridges with a name, every bridge and tunnel step of the diff
  satisfies the field bounds of the request models.
\<close>

lemma switch_steps_accepted:
  assumes "network_validate n = Inr ()" "\<forall>p \<in> set peers. na_mgmt_ip p \<noteq> []"
    and "\<forall>b \<in> set bridges. ob_name b \<noteq> []"
    and "st \<in> set (diff_for_node n local peers bridges)" "\<not> is_edge_step st"
  shows "receive_step (step_to_wire st) = step_to_domain st"
proof -
  have "fields_ok st"
  proof -
    have edge: "st \<notin> set (edge_service_steps n)"
      using assms(5) edge_service_steps_edge [of n] by (auto simp: list_all_iff)
    then have "(\<exists>b \<in> set bridges. st = DeleteBridgeStep (ob_name b)) \<or>
        st = EnsureBridgeStep (bridge_name n) ''system'' (desired_ids n) \<or>
        (\<exists>vni p. net_type n = VXLAN \<and> net_vni n = Some vni \<and> p \<in> set peers \<and>
          st \<in> set (peer_steps n local vni (find_bridge (bridge_name n) bridges) p))"
      using assms(4) by (auto simp: diff_for_node_def cleanup_for_network_def Let_def
          split: if_splits option.splits)
    moreover have "fields_ok st" if "net_type n = VXLAN" "net_vni n = Some vni" "p \<in> set peers"
      "st \<in> set (peer_steps n local vni ob p)" for vni p ob
      using peer_steps_fields [OF _ _ _ _ _ that(4)] that(1-3) assms(2)
        network_validate_bounds [OF assms(1)] by auto
    ultimately show ?thesis using assms(3) by (auto simp: bridge_name_def)
  qed
  then show ?thesis by (simp add: receive_step_def in_step_roundtrip)
qed

lemma switch_steps_accepted_witness:
  "receive_step (step_to_wire (EnsureBridgeStep ''br-prod'' ''system'' (desired_ids example_network))) =
     Inr (AgEnsureBridge ''br-prod'' ''system'' (desired_ids example_network))"
  using switch_steps_accepted [OF example_network_validate, of "[]" "[]"
      "EnsureBridgeStep ''br-prod'' ''system'' (desired_ids example_network)" "''node_a00001''"]
  by (simp add: diff_for_node_def find_bridge_def Let_def bridge_name_def example_network_def)

lemma mapE_Inl: "x \<in> set xs \<Longrightarrow> f x = Inl e \<Longrightarrow> \<exists>e'. mapE f xs = Inl e'"
proof (induction xs)
  case (Cons y ys)
  then show ?case by (cases "f y"; cases "mapE f ys") auto
qed simp

lemma edge_dhcp_step:
  assumes "is_edge_node n local" "net_subnet n = Some s" "sub_dhcp s = Some d"
  shows "\<exists>spec. EnsureDhcpScopeStep spec \<in> set (diff_for_node n local peers bridges) \<and>
    ds_lease_time spec = dhcp_lease_time d \<and> ds_range_start spec = dhcp_range_start d \<and>
    ds_cidr spec = sub_cidr s"
proof -
  have "local \<in> set (net_node_ids n)" using assms(1) by (auto simp: is_edge_node_def)
  then show ?thesis
    using assms
    by (intro exI [of _ "\<lparr>ds_scope_id = dhcp_scope_id n, ds_cidr = sub_cidr s,
        ds_range_start = dhcp_range_start d, ds_range_end = dhcp_range_end d,
        ds_gateway = sub_gateway s, ds_dns_servers = sub_dns_servers s,
        ds_lease_time = dhcp_lease_time d, ds_domain_name = dhcp_domain_name d\<rparr>"])
      (simp add: diff_for_node_def Let_def edge_service_steps_def)
qed

text \<open>
  C39. A DHCP intent the controller accepts can be refused by every agent: if the lease is longer
  than a day, or the range starts outside the subnet, which the controller's own checks of the
  intent and of the subnet do not look at, the edge node's whole plan is refused, its bridge and
  tunnel steps with it.
\<close>

theorem dhcp_intent_refused:
  assumes "is_edge_node n local" "net_subnet n = Some s" "sub_dhcp s = Some d"
    and "dhcp_lease_time d > 86400 \<or>
      (\<exists>net a. ip_network (sub_cidr s) True = Some net \<and> ip_address (dhcp_range_start d) = Some a \<and>
        \<not> in_net a net)"
  shows "\<exists>e. receive_plan (plan_to_wire \<lparr>pl_id = pid, pl_steps = diff_for_node n local peers bridges\<rparr>) = Inl e"
proof -
  obtain spec where spec: "EnsureDhcpScopeStep spec \<in> set (diff_for_node n local peers bridges)"
      "ds_lease_time spec = dhcp_lease_time d" "ds_range_start spec = dhcp_range_start d"
      "ds_cidr spec = sub_cidr s"
    using edge_dhcp_step [OF assms(1-3)] by blast
  have "\<not> fields_ok (EnsureDhcpScopeStep spec) \<or> (\<exists>e. step_to_domain (EnsureDhcpScopeStep spec) = Inl e)"
  proof (cases "dhcp_lease_time d > 86400")
    case True
    then show ?thesis using spec by simp
  next
    case False
    then have "ag_dhcp_check spec \<noteq> Inr ()"
      using assms(4) spec by (auto simp: ag_dhcp_check_def bindE_Inr_iff)
    then show ?thesis
      by (cases "ag_dhcp_check spec") (auto simp: raised_def)
  qed
  then show ?thesis
  proof
    assume "\<not> fields_ok (EnsureDhcpScopeStep spec)"
    then have "\<not> list_all fields_ok (diff_for_node n local peers bridges)"
      using spec(1) unfolding list_all_iff by blast
    then show ?thesis by (simp add: plan_roundtrip)
  next
    assume "\<exists>e. step_to_domain (EnsureDhcpScopeStep spec) = Inl e"
    then obtain e where "step_to_domain (EnsureDhcpScopeStep spec) = Inl e" ..
    from mapE_Inl [of _ _ step_to_domain, OF spec(1) this]
    obtain e' where "mapE step_to_domain (diff_for_node n local peers bridges) = Inl e'" ..
    then show ?thesis by (simp add: plan_roundtrip)
  qed
qed

lemma subnet_check_dhcp: "subnet_check (s\<lparr>sub_dhcp := d\<rparr>) = subnet_check s"
  by (cases "sub_gateway s") (simp_all add: subnet_check_def)

definition long_lease :: dhcp_spec where
  "long_lease = \<lparr>dhcp_range_start = ''10.0.0.10'', dhcp_range_end = ''10.0.0.20'',
     dhcp_lease_time = 604800, dhcp_domain_name = None\<rparr>"

theorem dhcp_intent_refused_witness:
  "dhcp_spec_check long_lease = Inr () \<and>
   subnet_check (example_subnet\<lparr>sub_dhcp := Some long_lease\<rparr>) = Inr () \<and>
   (\<exists>e. receive_plan (plan_to_wire \<lparr>pl_id = ''op_1'', pl_steps = diff_for_node
      (example_network\<lparr>net_subnet := Some (example_subnet\<lparr>sub_dhcp := Some long_lease\<rparr>)\<rparr>)
      ''node_a00001'' [] []\<rparr>) = Inl e)"
proof (intro conjI)
  show "dhcp_spec_check long_lease = Inr ()"
    by (simp add: dhcp_spec_check_def long_lease_def example_addrs)
  show "subnet_check (example_subnet\<lparr>sub_dhcp := Some long_lease\<rparr>) = Inr ()"
    using example_subnet_wf by (simp add: subnet_wf_def subnet_check_dhcp)
  show "\<exists>e. receive_plan (plan_to_wire \<lparr>pl_id = ''op_1'', pl_steps = diff_for_node
      (example_network\<lparr>net_subnet := Some (example_subnet\<lparr>sub_dhcp := Some long_lease\<rparr>)\<rparr>)
      ''node_a00001'' [] []\<rparr>) = Inl e"
    by (rule dhcp_intent_refused [where s = "example_subnet\<lparr>sub_dhcp := Some long_lease\<rparr>" and d = long_lease])
      (simp_all add: is_edge_node_def example_network_def long_lease_def)
qed

end
