(* ===== verification/Fake_Ovsdb.thy ===== *)
theory Fake_Ovsdb
  imports Switch Agent_Plan
begin

text \<open>
  The agent: its in-memory switch (\<open>netos_agent/adapters/ovsdb_fake/adapter.py\<close>), its in-memory
  DHCP, DNS and firewall services, and the use case that runs a plan on them
  (\<open>netos_agent/core/use_cases/apply_plan.py\<close>). The view a controller gets of the switch has the
  fields of the agent's \<open>BridgeState\<close>, \<open>PortState\<close> and \<open>InterfaceState\<close>, which both HTTP models
  copy one by one. The agent is a second \<open>ovs_backend\<close>.
\<close>

subsection \<open>The switch\<close>

record om_iface =
  omi_name :: string
  omi_type :: string
  omi_options :: sdict

record om_port =
  omp_name :: string
  omp_tag :: "int option"
  omp_trunks :: "int list"
  omp_ids :: sdict
  omp_ifaces :: "(string, om_iface) dict"

record om_bridge =
  omb_name :: string
  omb_datapath :: string
  omb_ports :: "(string, om_port) dict"
  omb_ids :: sdict

record fake_ovsdb =
  fo_version :: string
  fo_bridges :: "(string, om_bridge) dict"

definition fo_require_bridge :: "fake_ovsdb \<Rightarrow> string \<Rightarrow> agent_error + om_bridge" where
  "fo_require_bridge o1 name = of_option AgentNotFoundError (dget (fo_bridges o1) name)"

definition fo_ensure_bridge ::
  "string \<Rightarrow> string \<Rightarrow> sdict \<Rightarrow> fake_ovsdb \<Rightarrow> fake_ovsdb \<times> bool" where
  "fo_ensure_bridge name dp external_ids s =
     (let ids = sort_key fst external_ids in
      case dget (fo_bridges s) name of
        None \<Rightarrow> (s\<lparr>fo_bridges := dset name \<lparr>omb_name = name, omb_datapath = dp, omb_ports = [],
                                            omb_ids = sort_key fst ids\<rparr> (fo_bridges s)\<rparr>, True)
      | Some b \<Rightarrow>
          let (b1, ch1) = (if omb_datapath b \<noteq> dp then (b\<lparr>omb_datapath := dp\<rparr>, True) else (b, False));
              (b2, ch2) = (if \<not> dict_eq (omb_ids b1) ids then (b1\<lparr>omb_ids := ids\<rparr>, True) else (b1, ch1))
          in (s\<lparr>fo_bridges := dset name b2 (fo_bridges s)\<rparr>, ch2))"

definition fo_delete_bridge :: "string \<Rightarrow> fake_ovsdb \<Rightarrow> fake_ovsdb \<times> bool" where
  "fo_delete_bridge name s =
     (s\<lparr>fo_bridges := dpop name (fo_bridges s)\<rparr>, dget (fo_bridges s) name \<noteq> None)"

definition ports_equal :: "om_port \<Rightarrow> om_port \<Rightarrow> bool" where
  "ports_equal a b \<longleftrightarrow>
     omp_tag a = omp_tag b \<and> omp_trunks a = omp_trunks b \<and> dict_eq (omp_ids a) (omp_ids b) \<and>
     set (dkeys (omp_ifaces a)) = set (dkeys (omp_ifaces b)) \<and>
     list_all (\<lambda>(k, ai). case dget (omp_ifaces b) k of
        None \<Rightarrow> False
      | Some bi \<Rightarrow> omi_type ai = omi_type bi \<and> dict_eq (omi_options ai) (omi_options bi))
       (omp_ifaces a)"

definition fo_ensure_port ::
  "string \<Rightarrow> string \<Rightarrow> string \<Rightarrow> sdict \<Rightarrow> int option \<Rightarrow> int list \<Rightarrow> sdict \<Rightarrow> fake_ovsdb
     \<Rightarrow> agent_error + fake_ovsdb \<times> bool" where
  "fo_ensure_port bridge name ty options tag trunks external_ids s =
     bindE (fo_require_bridge s bridge) (\<lambda>br.
     let new = \<lparr>omp_name = name, omp_tag = tag, omp_trunks = sort trunks,
                omp_ids = sort_key fst (sort_key fst external_ids),
                omp_ifaces = [(name, \<lparr>omi_name = name, omi_type = ty,
                                      omi_options = sort_key fst options\<rparr>)]\<rparr>;
         put = s\<lparr>fo_bridges := dset bridge (br\<lparr>omb_ports := dset name new (omb_ports br)\<rparr>)
                   (fo_bridges s)\<rparr>
     in case dget (omb_ports br) name of
          None \<Rightarrow> Inr (put, True)
        | Some existing \<Rightarrow> if ports_equal existing new then Inr (s, False) else Inr (put, True))"

definition fo_delete_port :: "string \<Rightarrow> string \<Rightarrow> fake_ovsdb \<Rightarrow> agent_error + fake_ovsdb \<times> bool" where
  "fo_delete_port bridge name s =
     bindE (fo_require_bridge s bridge) (\<lambda>br.
     Inr (s\<lparr>fo_bridges := dset bridge (br\<lparr>omb_ports := dpop name (omb_ports br)\<rparr>) (fo_bridges s)\<rparr>,
          dget (omb_ports br) name \<noteq> None))"

definition fo_ensure_vxlan_port ::
  "string \<Rightarrow> string \<Rightarrow> int \<Rightarrow> string \<Rightarrow> string option \<Rightarrow> int \<Rightarrow> int option \<Rightarrow> sdict \<Rightarrow> fake_ovsdb
     \<Rightarrow> agent_error + fake_ovsdb \<times> bool" where
  "fo_ensure_vxlan_port bridge name vni remote_ip local_ip dst_port mtu external_ids s =
     fo_ensure_port bridge name ''vxlan'' (vxlan_step_options vni remote_ip local_ip dst_port mtu)
       None [] external_ids s"

definition om_port_state :: "om_port \<Rightarrow> port_view" where
  "om_port_state p =
     \<lparr>pv_name = omp_name p,
      pv_interfaces = List.map (\<lambda>i. \<lparr>iv_name = omi_name i, iv_type = omi_type i,
        iv_options = omi_options i, iv_admin_state = ''up''\<rparr>) (dvalues (omp_ifaces p)),
      pv_tag = omp_tag p, pv_trunks = sort (omp_trunks p), pv_ids = omp_ids p\<rparr>"

definition om_bridge_state :: "om_bridge \<Rightarrow> bridge_view" where
  "om_bridge_state b =
     \<lparr>bv_name = omb_name b, bv_datapath = omb_datapath b,
      bv_ports = List.map om_port_state (dvalues (omb_ports b)), bv_ids = omb_ids b\<rparr>"

definition fo_get_state :: "fake_ovsdb \<Rightarrow> bridge_view list" where
  "fo_get_state s = List.map om_bridge_state (dvalues (fo_bridges s))"

subsection \<open>Edge services\<close>

text \<open>
  \<open>FakeDhcp\<close>, \<open>FakeDns\<close> and \<open>FakeFirewall\<close> keep their specs in dictionaries: applying a spec
  that is already stored changes nothing, deleting pops.
\<close>

definition idem_put :: "'k \<Rightarrow> 'v \<Rightarrow> ('k, 'v) dict \<Rightarrow> ('k, 'v) dict \<times> bool" where
  "idem_put k v d = (if dget d k = Some v then (d, False) else (dset k v d, True))"

definition idem_del :: "'k \<Rightarrow> ('k, 'v) dict \<Rightarrow> ('k, 'v) dict \<times> bool" where
  "idem_del k d = (dpop k d, dget d k \<noteq> None)"

definition dhcp_apply :: "dhcp_scope \<Rightarrow> (string, dhcp_scope) dict \<Rightarrow> (string, dhcp_scope) dict \<times> bool" where
  "dhcp_apply scope scopes = idem_put (ds_scope_id scope) scope scopes"

definition dns_apply :: "dns_zone \<Rightarrow> (string, dns_zone) dict \<Rightarrow> (string, dns_zone) dict \<times> bool" where
  "dns_apply zone zones = idem_put (dz_zone zone) zone zones"

definition nat_apply :: "nat_rule \<Rightarrow> (string, nat_rule) dict \<Rightarrow> (string, nat_rule) dict \<times> bool" where
  "nat_apply rule rules = idem_put (nr_rule_id rule) rule rules"

definition policy_apply ::
  "ag_fw_policy \<Rightarrow> (string, ag_fw_policy) dict \<Rightarrow> (string, ag_fw_policy) dict \<times> bool" where
  "policy_apply p ps = idem_put (afp_policy_id p) p ps"

definition resolve_check :: "(string, dns_zone) dict \<Rightarrow> string \<Rightarrow> string \<Rightarrow> string option" where
  "resolve_check zones zone name =
     (case dget zones zone of None \<Rightarrow> None
      | Some spec \<Rightarrow> map_option dr_value
          (find (\<lambda>r. dr_name r = name \<and> dr_type r \<in> {''A'', ''AAAA''}) (dz_records spec)))"

subsection \<open>Applying a plan\<close>

record agent_state =
  ast_ovsdb :: fake_ovsdb
  ast_dhcp :: "(string, dhcp_scope) dict"
  ast_dns :: "(string, dns_zone) dict"
  ast_nat :: "(string, nat_rule) dict"
  ast_policies :: "(string, ag_fw_policy) dict"

definition on_ovsdb ::
  "(fake_ovsdb \<Rightarrow> agent_error + fake_ovsdb \<times> bool) \<Rightarrow> agent_state \<Rightarrow> agent_error + agent_state \<times> bool" where
  "on_ovsdb f s = bindE (f (ast_ovsdb s)) (\<lambda>(o', ch). Inr (s\<lparr>ast_ovsdb := o'\<rparr>, ch))"

fun ag_apply_step :: "agent_step \<Rightarrow> agent_state \<Rightarrow> agent_error + agent_state \<times> bool" where
  "ag_apply_step (AgEnsureBridge name dp ids) s = on_ovsdb (\<lambda>o'. Inr (fo_ensure_bridge name dp ids o')) s"
| "ag_apply_step (AgDeleteBridge name) s = on_ovsdb (\<lambda>o'. Inr (fo_delete_bridge name o')) s"
| "ag_apply_step (AgEnsurePort bridge name ty options tag trunks ids) s =
     on_ovsdb (fo_ensure_port bridge name ty options tag trunks ids) s"
| "ag_apply_step (AgDeletePort bridge name) s = on_ovsdb (fo_delete_port bridge name) s"
| "ag_apply_step (AgEnsureVxlanPort bridge name vni remote_ip local_ip dst_port mtu ids) s =
     on_ovsdb (fo_ensure_vxlan_port bridge name vni remote_ip local_ip dst_port mtu ids) s"
| "ag_apply_step (AgEnsureDhcpScope d) s =
     (let (x, ch) = dhcp_apply d (ast_dhcp s) in Inr (s\<lparr>ast_dhcp := x\<rparr>, ch))"
| "ag_apply_step (AgDeleteDhcpScope k) s =
     (let (x, ch) = idem_del k (ast_dhcp s) in Inr (s\<lparr>ast_dhcp := x\<rparr>, ch))"
| "ag_apply_step (AgEnsureDnsZone z) s =
     (let (x, ch) = dns_apply z (ast_dns s) in Inr (s\<lparr>ast_dns := x\<rparr>, ch))"
| "ag_apply_step (AgDeleteDnsZone k) s =
     (let (x, ch) = idem_del k (ast_dns s) in Inr (s\<lparr>ast_dns := x\<rparr>, ch))"
| "ag_apply_step (AgEnsureNatRule r) s =
     (let (x, ch) = nat_apply r (ast_nat s) in Inr (s\<lparr>ast_nat := x\<rparr>, ch))"
| "ag_apply_step (AgDeleteNatRule k) s =
     (let (x, ch) = idem_del k (ast_nat s) in Inr (s\<lparr>ast_nat := x\<rparr>, ch))"
| "ag_apply_step (AgEnsureFirewallPolicy p) s =
     (let (x, ch) = policy_apply p (ast_policies s) in Inr (s\<lparr>ast_policies := x\<rparr>, ch))"
| "ag_apply_step (AgDeleteFirewallPolicy k) s =
     (let (x, ch) = idem_del k (ast_policies s) in Inr (s\<lparr>ast_policies := x\<rparr>, ch))"

definition apply_plan :: "string \<Rightarrow> agent_step list \<Rightarrow> agent_state \<Rightarrow> agent_state \<times> plan_result" where
  "apply_plan pid steps s =
     (case exec_steps ag_step_action agent_code ag_apply_step steps s of
        (s', okay, rs) \<Rightarrow> (s', \<lparr>pr_plan_id = pid, pr_ok = okay, pr_steps = rs\<rparr>))"

subsection \<open>Dumps\<close>

definition om_iface_to_dict :: "om_iface \<Rightarrow> json" where
  "om_iface_to_dict i = JObj
     [(''name'', JStr (omi_name i)), (''type'', JStr (omi_type i)), (''options'', jsdict (omi_options i))]"

definition om_port_to_dict :: "om_port \<Rightarrow> json" where
  "om_port_to_dict p = JObj
     [(''name'', JStr (omp_name p)), (''tag'', jopt JInt (omp_tag p)),
      (''trunks'', JList (List.map JInt (omp_trunks p))), (''external_ids'', jsdict (omp_ids p)),
      (''interfaces'', JList (List.map om_iface_to_dict (dvalues (omp_ifaces p))))]"

definition om_bridge_to_dict :: "om_bridge \<Rightarrow> json" where
  "om_bridge_to_dict b = JObj
     [(''name'', JStr (omb_name b)), (''datapath_type'', JStr (omb_datapath b)),
      (''external_ids'', jsdict (omb_ids b)),
      (''ports'', JList (List.map om_port_to_dict (dvalues (omb_ports b))))]"

definition fo_dump :: "fake_ovsdb \<Rightarrow> json" where
  "fo_dump s = JObj
     [(''ovs_version'', JStr (fo_version s)),
      (''bridges'', JList (List.map om_bridge_to_dict (dvalues (fo_bridges s))))]"

text \<open>\<open>str(d.get(key, default))\<close>: only a missing key takes the default.\<close>

definition str_default :: "string \<Rightarrow> string \<Rightarrow> json \<Rightarrow> string option" where
  "str_default dflt k d = (case jfield k d of None \<Rightarrow> Some dflt | Some v \<Rightarrow> as_str v)"

definition om_iface_from_dict :: "json \<Rightarrow> om_iface option" where
  "om_iface_from_dict d = do {
     name \<leftarrow> Option.bind (jfield ''name'' d) as_str;
     ty \<leftarrow> str_default ''internal'' ''type'' d;
     options \<leftarrow> sdict_or_empty ''options'' d;
     Some \<lparr>omi_name = name, omi_type = ty, omi_options = options\<rparr> }"

definition om_port_from_dict :: "json \<Rightarrow> om_port option" where
  "om_port_from_dict d = do {
     name \<leftarrow> Option.bind (jfield ''name'' d) as_str;
     ifaces \<leftarrow> Option.bind (list_or_empty ''interfaces'' d) (\<lambda>l. those (List.map om_iface_from_dict l));
     tag \<leftarrow> opt_int_field ''tag'' d;
     trunks \<leftarrow> Option.bind (list_or_empty ''trunks'' d) (\<lambda>l. those (List.map as_int l));
     ids \<leftarrow> sdict_or_empty ''external_ids'' d;
     Some \<lparr>omp_name = name, omp_tag = tag, omp_trunks = trunks, omp_ids = sort_key fst ids,
           omp_ifaces = keyed_by omi_name ifaces\<rparr> }"

definition om_bridge_from_dict :: "json \<Rightarrow> om_bridge option" where
  "om_bridge_from_dict d = do {
     name \<leftarrow> Option.bind (jfield ''name'' d) as_str;
     dp \<leftarrow> str_default ''system'' ''datapath_type'' d;
     ports \<leftarrow> Option.bind (list_or_empty ''ports'' d) (\<lambda>l. those (List.map om_port_from_dict l));
     ids \<leftarrow> sdict_or_empty ''external_ids'' d;
     Some \<lparr>omb_name = name, omb_datapath = dp, omb_ports = keyed_by omp_name ports,
           omb_ids = sort_key fst ids\<rparr> }"

definition fo_restore :: "json \<Rightarrow> fake_ovsdb \<Rightarrow> fake_ovsdb option" where
  "fo_restore payload s = do {
     version \<leftarrow> str_or (fo_version s) ''ovs_version'' payload;
     bridges \<leftarrow> Option.bind (rd_default as_list [] ''bridges'' payload)
       (\<lambda>l. those (List.map om_bridge_from_dict l));
     Some (s\<lparr>fo_version := version, fo_bridges := keyed_by omb_name bridges\<rparr>) }"

subsection \<open>The agent is a switch backend\<close>

fun plan_step_of :: "agent_step \<Rightarrow> plan_step" where
  "plan_step_of (AgEnsureBridge name dp ids) = EnsureBridgeStep name dp ids"
| "plan_step_of (AgDeleteBridge name) = DeleteBridgeStep name"
| "plan_step_of (AgEnsurePort bridge name ty options tag trunks ids) =
     EnsurePortStep bridge name ty options tag trunks ids"
| "plan_step_of (AgDeletePort bridge name) = DeletePortStep bridge name"
| "plan_step_of (AgEnsureVxlanPort bridge name vni remote_ip local_ip dst_port mtu ids) =
     EnsureVxlanPortStep bridge name vni remote_ip local_ip dst_port mtu ids"
| "plan_step_of (AgEnsureDhcpScope d) = EnsureDhcpScopeStep d"
| "plan_step_of (AgDeleteDhcpScope k) = DeleteDhcpScopeStep k"
| "plan_step_of (AgEnsureDnsZone z) = EnsureDnsZoneStep z"
| "plan_step_of (AgDeleteDnsZone k) = DeleteDnsZoneStep k"
| "plan_step_of (AgEnsureNatRule r) = EnsureNatRuleStep r"
| "plan_step_of (AgDeleteNatRule k) = DeleteNatRuleStep k"
| "plan_step_of (AgEnsureFirewallPolicy p) = EnsureFirewallPolicyStep
     \<lparr>fs_policy_id = afp_policy_id p, fs_default_action = fw_action_value (afp_default p),
      fs_rules = List.map (\<lambda>r. \<lparr>fw_action_text = fw_action_value (fr_action r),
        fw_proto_text = fw_proto_value (fr_proto r), fw_source = fr_source r,
        fw_destination = fr_destination r, fw_port_start = fr_port_start r,
        fw_port_end = fr_port_end r\<rparr>) (afp_rules p)\<rparr>"
| "plan_step_of (AgDeleteFirewallPolicy k) = DeleteFirewallPolicyStep k"

lemma fw_action_of_Some: "fw_action_of s = Some a \<Longrightarrow> fw_action_value a = s"
  by (auto simp: fw_action_of_def split: if_splits)

lemma fw_proto_of_Some: "fw_proto_of s = Some a \<Longrightarrow> fw_proto_value a = s"
  by (auto simp: fw_proto_of_def split: if_splits)

lemma raised_Inr [simp]: "raised r = Inr x \<longleftrightarrow> r = Inr x"
  by (cases r) (simp_all add: raised_def)

lemma fw_rules_back:
  "mapE fw_rule_to_domain rs = Inr qs \<Longrightarrow>
   List.map (\<lambda>r. \<lparr>fw_action_text = fw_action_value (fr_action r),
     fw_proto_text = fw_proto_value (fr_proto r), fw_source = fr_source r,
     fw_destination = fr_destination r, fw_port_start = fr_port_start r,
     fw_port_end = fr_port_end r\<rparr>) qs = rs"
  by (induction rs arbitrary: qs)
    (auto simp: bindE_Inr_iff fw_rule_to_domain_def Let_def dest!: fw_action_of_Some fw_proto_of_Some)

lemma step_to_domain_back: "step_to_domain st = Inr a \<Longrightarrow> plan_step_of a = st"
  by (cases st) (auto simp: bindE_Inr_iff fw_policy_to_domain_def Let_def
      dest!: fw_rules_back fw_action_of_Some)

lemma steps_to_domain_back: "mapE step_to_domain sts = Inr ags \<Longrightarrow> List.map plan_step_of ags = sts"
  by (induction sts arbitrary: ags) (auto simp: bindE_Inr_iff step_to_domain_back)

definition ag_observe :: "agent_state \<Rightarrow> obs_bridge list" where
  "ag_observe s = List.map bridge_view_to_observed (fo_get_state (ast_ovsdb s))"

definition omp_ok :: "om_port \<Rightarrow> bool" where
  "omp_ok p \<longleftrightarrow> sorted (omp_trunks p) \<and> sort_key fst (omp_ids p) = omp_ids p \<and> dwf (omp_ifaces p) \<and>
     (\<forall>(k, i) \<in> set (omp_ifaces p). omi_name i = k)"

definition omb_ok :: "om_bridge \<Rightarrow> bool" where
  "omb_ok b \<longleftrightarrow> sort_key fst (omb_ids b) = omb_ids b \<and> dwf (omb_ports b) \<and>
     (\<forall>(k, p) \<in> set (omb_ports b). omp_name p = k \<and> omp_ok p)"

definition fo_ok :: "fake_ovsdb \<Rightarrow> bool" where
  "fo_ok s \<longleftrightarrow> dwf (fo_bridges s) \<and> (\<forall>(k, b) \<in> set (fo_bridges s). omb_name b = k \<and> omb_ok b)"

definition ab_of_omp :: "om_port \<Rightarrow> ab_port" where
  "ab_of_omp p = \<lparr>abp_tag = omp_tag p, abp_trunks = sort (omp_trunks p), abp_ids = dget (omp_ids p),
     abp_ifaces = List.map (\<lambda>i. (omi_name i, omi_type i, dget (omi_options i))) (dvalues (omp_ifaces p))\<rparr>"

definition ab_of_omb :: "om_bridge \<Rightarrow> ab_bridge" where
  "ab_of_omb b = \<lparr>abb_datapath = omb_datapath b, abb_ids = dget (omb_ids b),
     abb_ports = (\<lambda>name. map_option ab_of_omp (dget (omb_ports b) name))\<rparr>"

definition fo_switch :: "fake_ovsdb \<Rightarrow> switch" where
  "fo_switch s m = map_option ab_of_omb (dget (fo_bridges s) m)"

lemma fo_ok_bridge:
  "fo_ok s \<Longrightarrow> dget (fo_bridges s) m = Some b \<Longrightarrow> omb_name b = m \<and> omb_ok b"
  by (auto simp: fo_ok_def dest!: map_of_SomeD)

lemma omb_ok_port: "omb_ok b \<Longrightarrow> dget (omb_ports b) m = Some p \<Longrightarrow> omp_name p = m \<and> omp_ok p"
  by (auto simp: omb_ok_def dest!: map_of_SomeD)

lemma fo_ok_put:
  "fo_ok s \<Longrightarrow> omb_name b = m \<Longrightarrow> omb_ok b \<Longrightarrow> fo_ok (s\<lparr>fo_bridges := dset m b (fo_bridges s)\<rparr>)"
  by (auto simp: fo_ok_def in_set_dset)

lemma fo_ok_pop: "fo_ok s \<Longrightarrow> fo_ok (s\<lparr>fo_bridges := dpop m (fo_bridges s)\<rparr>)"
  by (auto simp: fo_ok_def)

lemma omb_ok_put:
  "omb_ok b \<Longrightarrow> omp_name p = m \<Longrightarrow> omp_ok p \<Longrightarrow> omb_ok (b\<lparr>omb_ports := dset m p (omb_ports b)\<rparr>)"
  by (auto simp: omb_ok_def in_set_dset)

lemma omb_ok_pop: "omb_ok b \<Longrightarrow> omb_ok (b\<lparr>omb_ports := dpop m (omb_ports b)\<rparr>)"
  by (auto simp: omb_ok_def)

lemma ab_of_om_bridge:
  assumes "omb_ok b"
  shows "ab_bridge_of (bridge_view_to_observed (om_bridge_state b)) = ab_of_omb b"
proof -
  have "find (\<lambda>p. opt_name p = name)
      (List.map (\<lambda>p. port_view_to_observed (om_port_state p)) (dvalues (omb_ports b))) =
      map_option (\<lambda>p. port_view_to_observed (om_port_state p)) (dget (omb_ports b) name)" for name
    using assms by (intro find_dvalues)
      (auto simp: omb_ok_def port_view_to_observed_def om_port_state_def)
  moreover have "ab_port_of (port_view_to_observed (om_port_state p)) = ab_of_omp p" for p
    by (simp add: ab_port_of_def ab_of_omp_def port_view_to_observed_def om_port_state_def comp_def)
  ultimately show ?thesis
    by (simp add: ab_bridge_of_def ab_of_omb_def bridge_view_to_observed_def om_bridge_state_def
        find_port_def comp_def option.map_comp)
qed

lemma ag_switch:
  assumes "fo_ok (ast_ovsdb s)"
  shows "switch_of (ag_observe s) = fo_switch (ast_ovsdb s)"
proof
  fix m
  have "find_bridge m (ag_observe s) =
      map_option (\<lambda>b. bridge_view_to_observed (om_bridge_state b)) (dget (fo_bridges (ast_ovsdb s)) m)"
    unfolding find_bridge_def ag_observe_def fo_get_state_def List.map.comp comp_def
    using assms find_dvalues [of "fo_bridges (ast_ovsdb s)" ob_name
        "\<lambda>b. bridge_view_to_observed (om_bridge_state b)" m]
    by (auto simp: fo_ok_def bridge_view_to_observed_def om_bridge_state_def comp_def)
  then show "switch_of (ag_observe s) m = fo_switch (ast_ovsdb s) m"
    using fo_ok_bridge [OF assms, of m]
    by (cases "dget (fo_bridges (ast_ovsdb s)) m")
      (simp_all add: switch_of_def fo_switch_def ab_of_om_bridge)
qed

lemma ag_names: "fo_ok (ast_ovsdb s) \<Longrightarrow> distinct (List.map ob_name (ag_observe s))"
proof -
  assume ok: "fo_ok (ast_ovsdb s)"
  have "List.map ob_name (ag_observe s) = dkeys (fo_bridges (ast_ovsdb s))"
    using ok by (auto simp: ag_observe_def fo_get_state_def fo_ok_def bridge_view_to_observed_def
        om_bridge_state_def)
  then show ?thesis using ok by (simp add: fo_ok_def)
qed

lemma fo_switch_put:
  "fo_switch (s\<lparr>fo_bridges := dset m b (fo_bridges s)\<rparr>) = (fo_switch s)(m \<mapsto> ab_of_omb b)"
  by (simp add: fo_switch_def fun_eq_iff)

lemma fo_switch_pop:
  "fo_switch (s\<lparr>fo_bridges := dpop m (fo_bridges s)\<rparr>) = (fo_switch s)(m := None)"
  by (simp add: fo_switch_def fun_eq_iff)

definition fo_refines :: "plan_step \<Rightarrow> fake_ovsdb \<Rightarrow> fake_ovsdb \<Rightarrow> bool \<Rightarrow> bool" where
  "fo_refines st s s' ch \<longleftrightarrow> fo_ok s' \<and> sw_step st (fo_switch s) = Some (fo_switch s') \<and>
     (ch \<longleftrightarrow> fo_switch s' \<noteq> fo_switch s)"

lemma sort_key_idem [simp]:
  fixes d :: "(string, 'v) dict"
  shows "sort_key fst (sort_key fst d) = sort_key fst d"
  by (simp add: sort_key_id_if_sorted)

lemma fo_ensure_bridge_refines:
  assumes ok: "fo_ok s" and "fo_ensure_bridge name dp ids s = (s', ch)"
  shows "fo_refines (EnsureBridgeStep name dp ids) s s' ch"
proof (cases "dget (fo_bridges s) name")
  case None
  define b where "b = \<lparr>omb_name = name, omb_datapath = dp, omb_ports = [], omb_ids = sort_key fst ids\<rparr>"
  have b: "omb_name b = name" "omb_ok b" by (simp_all add: b_def omb_ok_def)
  have "ab_of_omb b = \<lparr>abb_datapath = dp, abb_ids = dget ids, abb_ports = Map.empty\<rparr>"
    by (simp add: b_def ab_of_omb_def)
  moreover have "s' = s\<lparr>fo_bridges := dset name b (fo_bridges s)\<rparr>" ch
    using assms(2) None by (simp_all add: fo_ensure_bridge_def b_def)
  moreover have "fo_switch s name = None" using None by (simp add: fo_switch_def)
  ultimately show ?thesis
    using fo_ok_put [OF ok b] by (simp add: fo_refines_def fo_switch_put fun_upd_idem_iff)
next
  case (Some b)
  then have b: "omb_name b = name" "omb_ok b" using fo_ok_bridge [OF ok] by auto
  define b' where "b' = b\<lparr>omb_datapath := dp, omb_ids := (if dict_eq (omb_ids b) (sort_key fst ids)
      then omb_ids b else sort_key fst ids)\<rparr>"
  have s': "s' = s\<lparr>fo_bridges := dset name b' (fo_bridges s)\<rparr>"
    and ch: "ch \<longleftrightarrow> omb_datapath b \<noteq> dp \<or> \<not> dict_eq (omb_ids b) (sort_key fst ids)"
    using assms(2) Some by (auto simp: fo_ensure_bridge_def b'_def Let_def split: if_splits)
  have b'ok: "omb_name b' = name" "omb_ok b'" using b by (auto simp: b'_def omb_ok_def)
  have ab: "ab_of_omb b' = \<lparr>abb_datapath = dp, abb_ids = dget ids, abb_ports = abb_ports (ab_of_omb b)\<rparr>"
    by (auto simp: b'_def ab_of_omb_def dict_eq_iff)
  have "ab_of_omb b' = ab_of_omb b \<longleftrightarrow> \<not> ch"
    by (auto simp: ab ch dict_eq_iff) (auto simp: ab_of_omb_def)
  moreover have "fo_switch s name = Some (ab_of_omb b)" using Some by (simp add: fo_switch_def)
  ultimately show ?thesis
    using fo_ok_put [OF ok b'ok] ab
    by (simp add: fo_refines_def s' fo_switch_put fun_upd_idem_iff) auto
qed

lemma distinct_set_singleton:
  assumes "distinct xs" "set xs = {x}"
  shows "xs = [x]"
proof -
  have "length xs = 1" using assms distinct_card [of xs] by simp
  then show ?thesis using assms(2) by (cases xs) simp_all
qed

lemma ports_equal_iff:
  assumes "omp_ok a" "omp_name a = name"
    and "b = \<lparr>omp_name = name, omp_tag = tag, omp_trunks = sort trunks, omp_ids = ids,
           omp_ifaces = [(name, \<lparr>omi_name = name, omi_type = ty, omi_options = opts\<rparr>)]\<rparr>"
  shows "ports_equal a b \<longleftrightarrow> ab_of_omp a = ab_of_omp b"
proof
  assume eq: "ports_equal a b"
  have "dkeys (omp_ifaces a) = [name]"
    using eq assms by (intro distinct_set_singleton) (simp_all add: ports_equal_def omp_ok_def)
  then obtain i where i: "omp_ifaces a = [(name, i)]" by auto
  then have "omi_name i = name" using assms(1) by (simp add: omp_ok_def)
  then show "ab_of_omp a = ab_of_omp b"
    using eq assms i by (simp add: ports_equal_def ab_of_omp_def omp_ok_def dict_eq_iff sorted_sort_id)
next
  assume eq: "ab_of_omp a = ab_of_omp b"
  then obtain k i where i: "omp_ifaces a = [(k, i)]"
    using assms(3) by (auto simp: ab_of_omp_def map_eq_Cons_conv)
  moreover have "k = name" using assms i eq by (auto simp: omp_ok_def ab_of_omp_def)
  ultimately show "ports_equal a b"
    using assms eq by (simp add: ports_equal_def ab_of_omp_def omp_ok_def dict_eq_iff sorted_sort_id)
qed

lemma fo_ensure_port_refines:
  assumes ok: "fo_ok s" and run: "fo_ensure_port br name ty opts tag trunks ids s = Inr (s', ch)"
  shows "fo_ok s' \<and> sw_put_port br name (ab_mk_port name ty opts tag trunks ids) (fo_switch s) =
      Some (fo_switch s') \<and> (ch \<longleftrightarrow> fo_switch s' \<noteq> fo_switch s)"
proof -
  obtain b where b: "dget (fo_bridges s) br = Some b"
    using run by (auto simp: fo_ensure_port_def bindE_Inr_iff fo_require_bridge_def)
  have bok: "omb_name b = br" "omb_ok b" using fo_ok_bridge [OF ok b] by auto
  define new where "new = \<lparr>omp_name = name, omp_tag = tag, omp_trunks = sort trunks,
      omp_ids = sort_key fst ids,
      omp_ifaces = [(name, \<lparr>omi_name = name, omi_type = ty, omi_options = sort_key fst opts\<rparr>)]\<rparr>"
  define b' where "b' = b\<lparr>omb_ports := dset name new (omb_ports b)\<rparr>"
  let ?put = "s\<lparr>fo_bridges := dset br b' (fo_bridges s)\<rparr>"
  have new_ok: "omp_name new = name" "omp_ok new" by (simp_all add: new_def omp_ok_def)
  have b'ok: "omb_name b' = br" "omb_ok b'"
    using bok omb_ok_put [OF _ new_ok] by (simp_all add: b'_def)
  have new: "ab_of_omp new = ab_mk_port name ty opts tag trunks ids"
    by (simp add: ab_of_omp_def ab_mk_port_def new_def sorted_sort_id)
  have ab: "ab_of_omb b' = (ab_of_omb b)\<lparr>abb_ports := (abb_ports (ab_of_omb b))(name \<mapsto> ab_of_omp new)\<rparr>"
    by (auto simp: b'_def ab_of_omb_def)
  have at: "fo_switch s br = Some (ab_of_omb b)" using b by (simp add: fo_switch_def)
  let ?same = "\<exists>old. dget (omb_ports b) name = Some old \<and> ab_of_omp old = ab_of_omp new"
  have same: "?same \<longleftrightarrow> ab_of_omb b' = ab_of_omb b"
    by (cases "ab_of_omb b") (auto simp: ab fun_upd_idem_iff, auto simp: ab_of_omb_def)
  have cases: "(s', ch) = (if ?same then (s, False) else (?put, True))"
  proof -
    have "ports_equal old new \<longleftrightarrow> ab_of_omp old = ab_of_omp new"
      if "dget (omb_ports b) name = Some old" for old
      using omb_ok_port [OF bok(2) that] ports_equal_iff [OF _ _ new_def] by blast
    then show ?thesis
      using run b by (cases "dget (omb_ports b) name")
        (auto simp: fo_ensure_port_def fo_require_bridge_def b'_def Let_def simp flip: new_def
          split: if_splits)
  qed
  show ?thesis
  proof (cases ?same)
    case True
    then have "(s', ch) = (s, False)" using cases by (simp only: if_True)
    moreover have "ab_of_omb b' = ab_of_omb b" using same True by blast
    ultimately have "ab_of_omb b' = ab_of_omb b" "s' = s" "\<not> ch" by simp_all
    then show ?thesis using at ok ab new by (simp add: sw_put_port_def fun_upd_idem_iff)
  next
    case False
    then have "(s', ch) = (?put, True)" using cases by (simp only: if_False)
    moreover have "ab_of_omb b' \<noteq> ab_of_omb b" using same False by blast
    ultimately have "ab_of_omb b' \<noteq> ab_of_omb b" "s' = ?put" ch by simp_all
    then show ?thesis
      using at fo_ok_put [OF ok b'ok] ab new
      by (simp add: sw_put_port_def fo_switch_put fun_upd_idem_iff)
  qed
qed

lemma fo_delete_port_refines:
  assumes ok: "fo_ok s" and run: "fo_delete_port br name s = Inr (s', ch)"
  shows "fo_refines (DeletePortStep br name) s s' ch"
proof -
  obtain b where b: "dget (fo_bridges s) br = Some b"
    and s': "s' = s\<lparr>fo_bridges := dset br (b\<lparr>omb_ports := dpop name (omb_ports b)\<rparr>) (fo_bridges s)\<rparr>"
    and ch: "ch \<longleftrightarrow> dget (omb_ports b) name \<noteq> None"
    using run by (auto simp: fo_delete_port_def bindE_Inr_iff fo_require_bridge_def)
  have bok: "omb_name b = br" "omb_ok b" using fo_ok_bridge [OF ok b] by auto
  let ?b = "b\<lparr>omb_ports := dpop name (omb_ports b)\<rparr>"
  have ab: "ab_of_omb ?b = (ab_of_omb b)\<lparr>abb_ports := (abb_ports (ab_of_omb b))(name := None)\<rparr>"
    by (auto simp: ab_of_omb_def)
  have "ab_of_omb ?b = ab_of_omb b \<longleftrightarrow> \<not> ch"
    by (cases "ab_of_omb b") (auto simp: ab fun_upd_idem_iff ch, auto simp: ab_of_omb_def)
  moreover have "fo_switch s br = Some (ab_of_omb b)" using b by (simp add: fo_switch_def)
  ultimately show ?thesis
    using fo_ok_put [OF ok _ omb_ok_pop [OF bok(2)]] bok ab
    by (simp add: fo_refines_def s' fo_switch_put fun_upd_idem_iff) metis
qed

lemma fo_ensure_port_Inl:
  "fo_ensure_port br name ty opts tag trunks ids s = Inl e \<longleftrightarrow>
     e = AgentNotFoundError \<and> dget (fo_bridges s) br = None"
  by (cases "dget (fo_bridges s) br")
    (auto simp: fo_ensure_port_def fo_require_bridge_def Let_def split: option.split)

lemma ag_edge_step:
  "\<not> touches_switch (plan_step_of a) \<Longrightarrow> ag_apply_step a s = Inr (s', ch) \<Longrightarrow>
   ast_ovsdb s' = ast_ovsdb s \<and> sw_step (plan_step_of a) sw = Some sw"
  by (cases a) (auto split: prod.splits)

lemma ag_step_refines:
  assumes ok: "fo_ok (ast_ovsdb s)" and run: "ag_apply_step a s = Inr (s', ch)"
  shows "fo_ok (ast_ovsdb s') \<and>
    sw_step (plan_step_of a) (fo_switch (ast_ovsdb s)) = Some (fo_switch (ast_ovsdb s')) \<and>
    (touches_switch (plan_step_of a) \<longrightarrow>
      (ch \<longleftrightarrow> fo_switch (ast_ovsdb s') \<noteq> fo_switch (ast_ovsdb s)))"
proof (cases "touches_switch (plan_step_of a)")
  case False
  then show ?thesis using ag_edge_step [OF False run] ok by auto
next
  case True
  have "fo_refines (plan_step_of a) (ast_ovsdb s) (ast_ovsdb s') ch"
  proof (cases a)
    case (AgEnsureBridge name dp ids)
    then show ?thesis
      using run fo_ensure_bridge_refines [OF ok, of name dp ids]
      by (auto simp: on_ovsdb_def split: prod.splits)
  next
    case (AgDeleteBridge name)
    then show ?thesis
      using run fo_ok_pop [OF ok, of name]
      by (auto simp: on_ovsdb_def fo_refines_def fo_delete_bridge_def fo_switch_pop fo_switch_def
          fun_upd_idem_iff)
  next
    case (AgEnsurePort br name ty opts tag trunks ids)
    then show ?thesis
      using run fo_ensure_port_refines [OF ok, of br name ty opts tag trunks ids]
      by (auto simp: on_ovsdb_def bindE_Inr_iff fo_refines_def)
  next
    case (AgEnsureVxlanPort br name vni rip lip dport mtu ids)
    then show ?thesis
      using run fo_ensure_port_refines [OF ok, of br name "''vxlan''"
          "vxlan_step_options vni rip lip dport mtu" None "[]" ids]
      by (auto simp: on_ovsdb_def bindE_Inr_iff fo_refines_def fo_ensure_vxlan_port_def)
  next
    case (AgDeletePort br name)
    then show ?thesis
      using run fo_delete_port_refines [OF ok, of br name]
      by (auto simp: on_ovsdb_def bindE_Inr_iff)
  qed (use True in simp_all)
  then show ?thesis by (simp add: fo_refines_def)
qed

lemma ag_step_fails:
  "ag_apply_step a s = Inl e \<Longrightarrow> sw_step (plan_step_of a) (fo_switch (ast_ovsdb s)) = None"
  by (cases a) (auto simp: on_ovsdb_def bindE_Inl_iff bindE_Inr_iff fo_ensure_port_Inl
      fo_ensure_vxlan_port_def fo_delete_port_def fo_require_bridge_def sw_put_port_def fo_switch_def
      split: prod.splits)

interpretation agent: ovs_backend ag_observe "\<lambda>s. fo_ok (ast_ovsdb s)" plan_step_of ag_apply_step
proof unfold_locales
  fix s x s' ch
  assume ok: "fo_ok (ast_ovsdb s)" and run: "ag_apply_step x s = Inr (s', ch)"
  show "fo_ok (ast_ovsdb s')" using ag_step_refines [OF ok run] by simp
  then show "sw_step (plan_step_of x) (switch_of (ag_observe s)) = Some (switch_of (ag_observe s'))"
    using ag_step_refines [OF ok run] ok by (simp add: ag_switch)
  assume "touches_switch (plan_step_of x)"
  then show "ch \<longleftrightarrow> switch_of (ag_observe s') \<noteq> switch_of (ag_observe s)"
    using ag_step_refines [OF ok run] ok by (simp add: ag_switch)
qed (simp_all add: ag_names ag_switch ag_step_fails)

lemma exec_agent_actions:
  "List.map sr_action (pr_steps (snd (apply_plan pid ags s))) = List.map ag_step_action ags"
  using exec_steps_actions [of ag_step_action agent_code ag_apply_step ags s]
  by (auto simp: apply_plan_def split: prod.splits)

lemma plan_step_action: "step_action (plan_step_of a) = ag_step_action a"
  by (cases a) simp_all

text \<open>
  C29. End to end: the controller diffs a node against what its agent reports, sends the plan as
  JSON, the agent reads it and runs it on its in-memory switch. If the tunnel names tell the peers
  apart and the agent accepts the request, every step succeeds
  and is reported in the order it was planned, the node then passes the controller's compliance
  test, and bridges and ports of others are left as they were.
\<close>

theorem controller_agent_convergence:
  assumes "fo_ok (ast_ovsdb s)" "names_unambiguous n nid peers"
    and "receive_plan (plan_to_wire
      \<lparr>pl_id = pid, pl_steps = diff_for_node n nid peers (ag_observe s)\<rparr>) = Inr (pid', ags)"
    and "apply_plan pid' ags s = (s', r)"
  shows "pr_plan_id r = pid \<and> pr_ok r \<and> fo_ok (ast_ovsdb s') \<and>
    List.map sr_action (pr_steps r) = List.map step_action (diff_for_node n nid peers (ag_observe s)) \<and>
    is_in_compliance n nid peers (ag_observe s') \<and>
    keeps_foreign n nid peers (switch_of (ag_observe s)) (switch_of (ag_observe s'))"
proof -
  have ags: "mapE step_to_domain (diff_for_node n nid peers (ag_observe s)) = Inr ags" "pid' = pid"
    using assms(3) by (auto simp: plan_roundtrip bindE_Inr_iff split: if_splits)
  then have meaning: "List.map plan_step_of ags = diff_for_node n nid peers (ag_observe s)"
    by (intro steps_to_domain_back)
  obtain okay rs where run: "exec_steps ag_step_action agent_code ag_apply_step ags s = (s', okay, rs)"
      and r: "r = \<lparr>pr_plan_id = pid, pr_ok = okay, pr_steps = rs\<rparr>"
    using assms(4) ags(2) by (auto simp: apply_plan_def split: prod.splits)
  have "List.map sr_action rs = List.map step_action (diff_for_node n nid peers (ag_observe s))"
    using exec_steps_actions [of ag_step_action agent_code ag_apply_step ags s] run
    by (simp flip: meaning add: plan_step_action comp_def)
  then show ?thesis
    using agent.converges [OF assms(1,2) meaning run] r by simp
qed

definition fresh_agent_state :: agent_state where
  "fresh_agent_state = \<lparr>ast_ovsdb = \<lparr>fo_version = ''fake-3.2.0'', fo_bridges = []\<rparr>, ast_dhcp = [],
     ast_dns = [], ast_nat = [], ast_policies = []\<rparr>"

definition flat_network :: network where
  "flat_network = example_network\<lparr>net_type := FLAT, net_vni := None, net_subnet := None\<rparr>"

theorem controller_agent_convergence_witness:
  "is_in_compliance flat_network ''node_a00001'' []
     (ag_observe (fst (apply_plan ''op_1''
       [AgEnsureBridge ''br-prod'' ''system'' (desired_ids flat_network)] fresh_agent_state)))"
proof -
  have ok: "fo_ok (ast_ovsdb fresh_agent_state)"
    by (simp add: fo_ok_def fresh_agent_state_def)
  have un: "names_unambiguous flat_network ''node_a00001'' []"
    by (simp add: names_unambiguous_def)
  have "diff_for_node flat_network ''node_a00001'' [] (ag_observe fresh_agent_state) =
      [EnsureBridgeStep ''br-prod'' ''system'' (desired_ids flat_network)]"
    by (simp add: diff_for_node_def flat_network_def example_network_def ag_observe_def fo_get_state_def
        fresh_agent_state_def find_bridge_def bridge_name_def is_edge_node_def edge_service_steps_def
        desired_ids_def Let_def)
  then have wire: "receive_plan (plan_to_wire \<lparr>pl_id = ''op_1'', pl_steps =
      diff_for_node flat_network ''node_a00001'' [] (ag_observe fresh_agent_state)\<rparr>) =
      Inr (''op_1'', [AgEnsureBridge ''br-prod'' ''system'' (desired_ids flat_network)])"
    by (simp add: plan_roundtrip text_ok_def)
  show ?thesis
    using controller_agent_convergence [OF ok un wire surjective_pairing] by simp
qed

text \<open>
  The plan that the controller diffed against the state of the agent, and that the agent ran, can be
  run again: if the tunnel names tell the peers apart, every step succeeds, no step on the switch
  reports a change, and the switch stays as it was. (Of an arbitrary plan that is false.)
\<close>

lemma agent_retry:
  assumes "fo_ok (ast_ovsdb s)" "names_unambiguous n nid peers"
    and "List.map plan_step_of ags = diff_for_node n nid peers (ag_observe s)"
    and "apply_plan pid ags s = (s', r)" "apply_plan pid ags s' = (s'', r')"
  shows "pr_ok r' \<and> switch_of (ag_observe s'') = switch_of (ag_observe s') \<and>
    list_all2 (\<lambda>x y. sr_ok y \<and> (touches_switch (plan_step_of x) \<longrightarrow> \<not> sr_changed y)) ags (pr_steps r')"
proof -
  obtain okay rs where run: "exec_steps ag_step_action agent_code ag_apply_step ags s = (s', okay, rs)"
    using assms(4) by (auto simp: apply_plan_def split: prod.splits)
  obtain okay' rs' where run': "exec_steps ag_step_action agent_code ag_apply_step ags s' = (s'', okay', rs')"
      and r': "r' = \<lparr>pr_plan_id = pid, pr_ok = okay', pr_steps = rs'\<rparr>"
    using assms(5) by (auto simp: apply_plan_def split: prod.splits)
  show ?thesis using agent.retry_is_noop [OF assms(1-3) run run'] r' by simp
qed

lemma agent_retry_witness:
  "pr_ok (snd (apply_plan ''op_1'' [AgEnsureBridge ''br-prod'' ''system'' (desired_ids flat_network)]
     (fst (apply_plan ''op_1'' [AgEnsureBridge ''br-prod'' ''system'' (desired_ids flat_network)]
       fresh_agent_state))))"
proof -
  have ok: "fo_ok (ast_ovsdb fresh_agent_state)"
    by (simp add: fo_ok_def fresh_agent_state_def)
  have un: "names_unambiguous flat_network ''node_a00001'' []"
    by (simp add: names_unambiguous_def)
  have diff: "List.map plan_step_of [AgEnsureBridge ''br-prod'' ''system'' (desired_ids flat_network)] =
      diff_for_node flat_network ''node_a00001'' [] (ag_observe fresh_agent_state)"
    by (simp add: diff_for_node_def flat_network_def example_network_def ag_observe_def fo_get_state_def
        fresh_agent_state_def find_bridge_def bridge_name_def is_edge_node_def edge_service_steps_def
        desired_ids_def Let_def)
  show ?thesis using agent_retry [OF ok un diff surjective_pairing surjective_pairing] by simp
qed

subsection \<open>Restoring a dump\<close>

lemma om_iface_roundtrip: "om_iface_from_dict (om_iface_to_dict i) = Some i"
  by (cases i) (simp add: om_iface_from_dict_def om_iface_to_dict_def str_default_def)

lemma om_port_roundtrip:
  assumes "omp_ok p"
  shows "om_port_from_dict (om_port_to_dict p) = Some p"
proof -
  have "those (List.map om_iface_from_dict (List.map om_iface_to_dict (dvalues (omp_ifaces p)))) =
      Some (dvalues (omp_ifaces p))"
    by (intro those_roundtrip om_iface_roundtrip)
  moreover have "keyed_by omi_name (dvalues (omp_ifaces p)) = omp_ifaces p"
    using assms by (intro keyed_by_dvalues) (auto simp: omp_ok_def)
  moreover have "opt_int_field ''tag'' (om_port_to_dict p) = Some (omp_tag p)"
    by (rule opt_int_field_jopt) (simp add: om_port_to_dict_def)
  moreover have "sdict_or_empty ''external_ids'' (om_port_to_dict p) = Some (omp_ids p)"
    by (rule sdict_field) (simp add: om_port_to_dict_def)
  ultimately show ?thesis
    using assms unfolding om_port_from_dict_def
    by (cases p) (simp add: om_port_to_dict_def list_or_empty_def omp_ok_def)
qed

lemma om_bridge_roundtrip:
  assumes "omb_ok b"
  shows "om_bridge_from_dict (om_bridge_to_dict b) = Some b"
proof -
  have "those (List.map om_port_from_dict (List.map om_port_to_dict (dvalues (omb_ports b)))) =
      Some (dvalues (omb_ports b))"
    using assms by (intro those_roundtrip om_port_roundtrip) (auto simp: omb_ok_def)
  moreover have "keyed_by omp_name (dvalues (omb_ports b)) = omb_ports b"
    using assms by (intro keyed_by_dvalues) (auto simp: omb_ok_def)
  moreover have "sdict_or_empty ''external_ids'' (om_bridge_to_dict b) = Some (omb_ids b)"
    by (rule sdict_field) (simp add: om_bridge_to_dict_def)
  ultimately show ?thesis
    using assms unfolding om_bridge_from_dict_def
    by (cases b) (simp add: om_bridge_to_dict_def list_or_empty_def omb_ok_def str_default_def)
qed

text \<open>
  C37. A dump of the agent's switch restores it exactly: whatever the switch has become since,
  reading the dump back gives the very state it was taken from, bridges, ports, tags, options
  and version.
\<close>

theorem ovsdb_restore_dump:
  assumes "fo_ok s" "fo_version s \<noteq> []"
  shows "fo_restore (fo_dump s) t = Some s"
proof -
  have "those (List.map om_bridge_from_dict (List.map om_bridge_to_dict (dvalues (fo_bridges s)))) =
      Some (dvalues (fo_bridges s))"
    using assms by (intro those_roundtrip om_bridge_roundtrip) (auto simp: fo_ok_def)
  moreover have "keyed_by omb_name (dvalues (fo_bridges s)) = fo_bridges s"
    using assms by (intro keyed_by_dvalues) (auto simp: fo_ok_def)
  ultimately show ?thesis
    using assms(2) by (cases s; cases t) (simp add: fo_restore_def fo_dump_def str_or_def rd_default_def)
qed

theorem ovsdb_restore_dump_witness:
  "fo_restore (fo_dump (ast_ovsdb fresh_agent_state)) \<lparr>fo_version = ''x'', fo_bridges = []\<rparr> =
     Some (ast_ovsdb fresh_agent_state)"
  by (rule ovsdb_restore_dump) (simp_all add: fo_ok_def fresh_agent_state_def)

end
