(* ===== verification/Use_Case.thy ===== *)
theory Use_Case
  imports Errors Ids Json
begin

text \<open>
  How a use case runs. Its \<open>execute\<close> method reads and writes repositories, draws ids, reads the
  clock and may raise at any point; what it wrote before the raise stays written. An action is
  therefore a function from the state to the raised error or the result, with the new state.
  The clock and the id factory are the environment \<open>env\<close>: the k-th reading of the clock and the
  k-th \<open>uuid4().hex\<close>.

  \<open>spec P m Q E\<close> is the Hoare triple of an action: from a state with P it either returns a value
  and state with Q or raises an error in a state with E. The rules below cover each construct, so
  that a use case is proved by following its text.
\<close>

type_synonym ('s, 'e, 'a) act = "'s \<Rightarrow> ('e + 'a) \<times> 's"

record env =
  e_now :: "nat \<Rightarrow> time"
  e_rnd :: "nat \<Rightarrow> string"

definition returnM :: "'a \<Rightarrow> ('s, 'e, 'a) act" where
  "returnM x = (\<lambda>s. (Inr x, s))"

definition raiseM :: "'e \<Rightarrow> ('s, 'e, 'a) act" where
  "raiseM e = (\<lambda>s. (Inl e, s))"

definition bindM :: "('s, 'e, 'a) act \<Rightarrow> ('a \<Rightarrow> ('s, 'e, 'b) act) \<Rightarrow> ('s, 'e, 'b) act" where
  "bindM m f = (\<lambda>s. case m s of (Inl e, s') \<Rightarrow> (Inl e, s') | (Inr x, s') \<Rightarrow> f x s')"

definition getM :: "('s \<Rightarrow> 'a) \<Rightarrow> ('s, 'e, 'a) act" where
  "getM f = (\<lambda>s. (Inr (f s), s))"

definition modifyM :: "('s \<Rightarrow> 's) \<Rightarrow> ('s, 'e, unit) act" where
  "modifyM f = (\<lambda>s. (Inr (), f s))"

definition liftM :: "'e + 'a \<Rightarrow> ('s, 'e, 'a) act" where
  "liftM r = (\<lambda>s. (r, s))"

text \<open>\<open>require c e\<close> as an action: \<open>if not c: raise e\<close>.\<close>

abbreviation guardM :: "bool \<Rightarrow> 'e \<Rightarrow> ('s, 'e, unit) act" where
  "guardM c e \<equiv> liftM (require c e)"

text \<open>An action on one part of the state, and one whose errors are of another type.\<close>

definition zoomM :: "('s \<Rightarrow> 't) \<Rightarrow> ('t \<Rightarrow> 's \<Rightarrow> 's) \<Rightarrow> ('t, 'e, 'a) act \<Rightarrow> ('s, 'e, 'a) act" where
  "zoomM get put m = (\<lambda>s. case m (get s) of (r, t) \<Rightarrow> (r, put t s))"

definition mapErrM :: "('e \<Rightarrow> 'f) \<Rightarrow> ('s, 'e, 'a) act \<Rightarrow> ('s, 'f, 'a) act" where
  "mapErrM g m = (\<lambda>s. case m s of (Inl e, s') \<Rightarrow> (Inl (g e), s') | (Inr x, s') \<Rightarrow> (Inr x, s'))"

text \<open>\<open>try: m finally: c\<close>, for a clean-up that cannot raise.\<close>

definition finallyM :: "('s, 'e, 'a) act \<Rightarrow> ('s \<Rightarrow> 's) \<Rightarrow> ('s, 'e, 'a) act" where
  "finallyM m c = (\<lambda>s. case m s of (r, s') \<Rightarrow> (r, c s'))"

text \<open>A \<open>for\<close> loop over a list.\<close>

fun forM :: "'a list \<Rightarrow> ('a \<Rightarrow> ('s, 'e, unit) act) \<Rightarrow> ('s, 'e, unit) act" where
  "forM [] f = returnM ()"
| "forM (x # xs) f = bindM (f x) (\<lambda>_. forM xs f)"

subsection \<open>Running\<close>

lemma runM_simps [simp]:
  "returnM x s = (Inr x, s)"
  "raiseM e s = (Inl e, s)"
  "getM f s = (Inr (f s), s)"
  "modifyM g s = (Inr (), g s)"
  "liftM r s = (r, s)"
  by (simp_all add: returnM_def raiseM_def getM_def modifyM_def liftM_def)

lemma bindM_run: "bindM m f s = (case m s of (Inl e, s') \<Rightarrow> (Inl e, s') | (Inr x, s') \<Rightarrow> f x s')"
  by (simp add: bindM_def)

lemma bindM_return [simp]: "bindM (returnM x) f s = f x s"
  by (simp add: bindM_def)

lemma bindM_raise [simp]: "bindM (raiseM e) f s = (Inl e, s)"
  by (simp add: bindM_def)

lemma bindM_get [simp]: "bindM (getM g) f s = f (g s) s"
  by (simp add: bindM_def)

lemma bindM_modify [simp]: "bindM (modifyM h) f s = f () (h s)"
  by (simp add: bindM_def)

lemma bindM_lift_simps [simp]:
  "bindM (liftM (Inr x)) f s = f x s"
  "bindM (liftM (Inl e)) f s = (Inl e, s)"
  by (simp_all add: bindM_def)

lemma bindM_assoc: "bindM (bindM m f) g = bindM m (\<lambda>x. bindM (f x) g)"
  by (auto simp: bindM_def fun_eq_iff split: prod.splits sum.splits)

lemma bindM_Inr_iff:
  "bindM m f s = (Inr y, s2) \<longleftrightarrow> (\<exists>x s1. m s = (Inr x, s1) \<and> f x s1 = (Inr y, s2))"
  by (auto simp: bindM_def split: prod.splits sum.splits)

lemma bindM_Inl_iff:
  "bindM m f s = (Inl e, s2) \<longleftrightarrow>
     m s = (Inl e, s2) \<or> (\<exists>x s1. m s = (Inr x, s1) \<and> f x s1 = (Inl e, s2))"
  by (auto simp: bindM_def split: prod.splits sum.splits)

lemma bindM_guard:
  "bindM (guardM c e) f s = (if c then f () s else (Inl e, s))"
  by (simp add: bindM_def require_def)

lemma bindM_lift: "bindM (liftM r) f s = (case r of Inl e \<Rightarrow> (Inl e, s) | Inr x \<Rightarrow> f x s)"
  by (simp add: bindM_def)

lemma zoomM_run: "zoomM get put m s = (fst (m (get s)), put (snd (m (get s))) s)"
  by (simp add: zoomM_def split_beta)

lemma finallyM_run: "finallyM m c s = (fst (m s), c (snd (m s)))"
  by (simp add: finallyM_def split_beta)

subsection \<open>Triples\<close>

definition spec ::
  "('s \<Rightarrow> bool) \<Rightarrow> ('s, 'e, 'a) act \<Rightarrow> ('a \<Rightarrow> 's \<Rightarrow> bool) \<Rightarrow> ('e \<Rightarrow> 's \<Rightarrow> bool) \<Rightarrow> bool" where
  "spec P m Q E \<longleftrightarrow>
     (\<forall>s. P s \<longrightarrow> (case m s of (Inl e, s') \<Rightarrow> E e s' | (Inr x, s') \<Rightarrow> Q x s'))"

lemma specI:
  "(\<And>s e s'. P s \<Longrightarrow> m s = (Inl e, s') \<Longrightarrow> E e s') \<Longrightarrow>
   (\<And>s x s'. P s \<Longrightarrow> m s = (Inr x, s') \<Longrightarrow> Q x s') \<Longrightarrow> spec P m Q E"
  by (auto simp: spec_def split: prod.splits sum.splits)

lemma spec_Inr: "spec P m Q E \<Longrightarrow> P s \<Longrightarrow> m s = (Inr x, s') \<Longrightarrow> Q x s'"
  by (fastforce simp: spec_def)

lemma spec_Inl: "spec P m Q E \<Longrightarrow> P s \<Longrightarrow> m s = (Inl e, s') \<Longrightarrow> E e s'"
  by (fastforce simp: spec_def)

lemma spec_return: "(\<And>s. P s \<Longrightarrow> Q x s) \<Longrightarrow> spec P (returnM x) Q E"
  by (simp add: spec_def)

lemma spec_raise: "(\<And>s. P s \<Longrightarrow> E e s) \<Longrightarrow> spec P (raiseM e) Q E"
  by (simp add: spec_def)

lemma spec_get: "(\<And>s. P s \<Longrightarrow> Q (f s) s) \<Longrightarrow> spec P (getM f) Q E"
  by (simp add: spec_def)

lemma spec_modify: "(\<And>s. P s \<Longrightarrow> Q () (f s)) \<Longrightarrow> spec P (modifyM f) Q E"
  by (simp add: spec_def)

lemma spec_lift:
  "(\<And>s x. P s \<Longrightarrow> r = Inr x \<Longrightarrow> Q x s) \<Longrightarrow> (\<And>s e. P s \<Longrightarrow> r = Inl e \<Longrightarrow> E e s) \<Longrightarrow>
   spec P (liftM r) Q E"
  by (auto simp: spec_def split: sum.split)

lemma spec_bind:
  assumes "spec P m R E" "\<And>x. spec (R x) (f x) Q E"
  shows "spec P (bindM m f) Q E"
  unfolding spec_def
proof (intro allI impI)
  fix s assume P: "P s"
  show "case bindM m f s of (Inl e, s') \<Rightarrow> E e s' | (Inr x, s') \<Rightarrow> Q x s'"
  proof (cases "m s")
    case (Pair r s1)
    show ?thesis
    proof (cases r)
      case (Inl e)
      then show ?thesis using spec_Inl [OF assms(1) P] Pair by (simp add: bindM_def)
    next
      case (Inr x)
      then have "R x s1" using spec_Inr [OF assms(1) P] Pair by simp
      then show ?thesis using assms(2) [of x] Pair Inr by (simp add: bindM_def spec_def)
    qed
  qed
qed

lemma spec_conseq:
  "spec P m Q E \<Longrightarrow> (\<And>s. P' s \<Longrightarrow> P s) \<Longrightarrow> (\<And>x s. Q x s \<Longrightarrow> Q' x s) \<Longrightarrow>
   (\<And>e s. E e s \<Longrightarrow> E' e s) \<Longrightarrow> spec P' m Q' E'"
  by (fastforce simp: spec_def split: prod.splits sum.splits)

lemma spec_if:
  "(c \<Longrightarrow> spec P m Q E) \<Longrightarrow> (\<not> c \<Longrightarrow> spec P m' Q E) \<Longrightarrow> spec P (if c then m else m') Q E"
  by simp

lemma spec_pre: "(\<And>s. P s \<Longrightarrow> spec ((=) s) m Q E) \<Longrightarrow> spec P m Q E"
  by (simp add: spec_def)

lemma spec_zoom:
  "(\<And>s. P s \<Longrightarrow> spec ((=) (get s)) m (\<lambda>x t. Q x (put t s)) (\<lambda>e t. E e (put t s))) \<Longrightarrow>
   spec P (zoomM get put m) Q E"
  by (fastforce simp: spec_def zoomM_def split: prod.splits sum.splits)

lemma spec_mapErr: "spec P m Q (\<lambda>e. E (g e)) \<Longrightarrow> spec P (mapErrM g m) Q E"
  by (fastforce simp: spec_def mapErrM_def split: prod.splits sum.splits)

lemma spec_any: "spec P m Q E \<Longrightarrow> P s \<Longrightarrow>
    (case m s of (Inl e, s') \<Rightarrow> E e s' | (Inr x, s') \<Rightarrow> Q x s')"
  by (simp add: spec_def)

text \<open>An action that keeps an invariant, whether it returns or raises.\<close>

abbreviation keeps :: "('s \<Rightarrow> bool) \<Rightarrow> ('s, 'e, 'a) act \<Rightarrow> bool" where
  "keeps I m \<equiv> spec I m (\<lambda>_. I) (\<lambda>_. I)"

lemma keeps_bind: "keeps I m \<Longrightarrow> (\<And>x. keeps I (f x)) \<Longrightarrow> keeps I (bindM m f)"
  by (rule spec_bind)

lemma keeps_simps [simp, intro]:
  "keeps I (returnM x)" "keeps I (raiseM e)" "keeps I (getM g)" "keeps I (liftM r)"
  by (auto simp: spec_def split: sum.split)

lemma keeps_modify: "(\<And>s. I s \<Longrightarrow> I (h s)) \<Longrightarrow> keeps I (modifyM h)"
  by (simp add: spec_def)

lemma keeps_for: "(\<And>x. x \<in> set xs \<Longrightarrow> keeps I (f x)) \<Longrightarrow> keeps I (forM xs f)"
  by (induction xs) (auto intro: keeps_bind)

lemma keeps_state: "keeps I m \<Longrightarrow> I s \<Longrightarrow> I (snd (m s))"
  by (cases "m s"; cases "fst (m s)") (auto dest: spec_Inl spec_Inr)

end
