(* ===== verification/Outbox.thy ===== *)
theory Outbox
  imports Errors Ids Json
begin

text \<open>
  The event journal: the \<open>OutboxEvent\<close> entity (\<open>core/entities/outbox.py\<close>) and the in-memory
  outbox (\<open>InMemoryOutboxRepository\<close> of \<open>adapters/memory/repositories.py\<close>). The outbox assigns
  the event numbers that subscribers use as watermarks. The lemmas keep the invariant
  \<open>outbox_ok\<close>: numbers are distinct, grow in insertion order and never exceed the counter.
\<close>

record outbox_event =
  oev_id :: string
  oev_event_id :: int
  oev_occurred_at :: time
  oev_event_type :: string
  oev_resource_type :: string
  oev_resource_id :: "string option"
  oev_payload :: payload
  oev_delivered_at :: "time option"
  oev_schema_version :: int
  oev_project_id :: "string option"

definition outbox_event_check :: "outbox_event \<Rightarrow> exc + unit" where
  "outbox_event_check e =
     bindE (require (oev_event_type e \<noteq> [] \<and> CHR ''.'' \<in> set (oev_event_type e)) err_validation) (\<lambda>_.
     bindE (require (oev_resource_type e \<noteq> []) err_validation) (\<lambda>_.
     require (0 \<le> oev_event_id e) err_validation))"

record outbox =
  obx_items :: "(string, outbox_event) dict"
  obx_seq :: int

definition outbox_append :: "outbox_event \<Rightarrow> outbox \<Rightarrow> outbox \<times> outbox_event" where
  "outbox_append e o' =
     (let k = obx_seq o' + 1; stored = e\<lparr>oev_event_id := k\<rparr>
      in (\<lparr>obx_items = dset (oev_id stored) stored (obx_items o'), obx_seq = k\<rparr>, stored))"

definition outbox_get :: "string \<Rightarrow> outbox \<Rightarrow> outbox_event option" where
  "outbox_get i o' = dget (obx_items o') i"

definition list_since :: "int \<Rightarrow> nat \<Rightarrow> outbox \<Rightarrow> outbox_event list" where
  "list_since since limit o' =
     take limit (sort_key oev_event_id (filter (\<lambda>e. oev_event_id e > since) (dvalues (obx_items o'))))"

definition list_undelivered :: "nat \<Rightarrow> outbox \<Rightarrow> outbox_event list" where
  "list_undelivered limit o' =
     take limit (sort_key oev_event_id (filter (\<lambda>e. oev_delivered_at e = None) (dvalues (obx_items o'))))"

definition mark_one_delivered :: "time \<Rightarrow> string \<Rightarrow> outbox \<Rightarrow> outbox" where
  "mark_one_delivered at i o' =
     (case dget (obx_items o') i of
        None \<Rightarrow> o'
      | Some e \<Rightarrow> if oev_delivered_at e \<noteq> None then o'
                  else o'\<lparr>obx_items := dset i (e\<lparr>oev_delivered_at := Some at\<rparr>) (obx_items o')\<rparr>)"

definition mark_delivered :: "string list \<Rightarrow> time \<Rightarrow> outbox \<Rightarrow> outbox" where
  "mark_delivered ids at o' = fold (mark_one_delivered at) ids o'"

definition head_event_id :: "outbox \<Rightarrow> int" where
  "head_event_id o' = obx_seq o'"

definition delivered_before :: "time \<Rightarrow> outbox_event \<Rightarrow> bool" where
  "delivered_before cutoff e \<longleftrightarrow> (case oev_delivered_at e of None \<Rightarrow> False | Some t \<Rightarrow> t < cutoff)"

definition delete_delivered_before :: "time \<Rightarrow> outbox \<Rightarrow> outbox \<times> int" where
  "delete_delivered_before cutoff o' =
     (let victims = List.map fst (filter (\<lambda>(_, e). delivered_before cutoff e) (obx_items o'))
      in (o'\<lparr>obx_items := fold dpop victims (obx_items o')\<rparr>, int (length victims)))"

subsection \<open>Invariant\<close>

definition event_numbers :: "outbox \<Rightarrow> int list" where
  "event_numbers o' = List.map oev_event_id (dvalues (obx_items o'))"

definition outbox_ok :: "outbox \<Rightarrow> bool" where
  "outbox_ok o' \<longleftrightarrow> dwf (obx_items o') \<and> (\<forall>(k, e) \<in> set (obx_items o'). oev_id e = k) \<and>
     sorted_wrt (<) (event_numbers o') \<and> (\<forall>i \<in> set (event_numbers o'). 1 \<le> i \<and> i \<le> obx_seq o') \<and>
     0 \<le> obx_seq o'"

definition empty_outbox :: outbox where
  "empty_outbox = \<lparr>obx_items = [], obx_seq = 0\<rparr>"

lemma empty_outbox_ok: "outbox_ok empty_outbox"
  by (simp add: outbox_ok_def empty_outbox_def event_numbers_def)

lemma dset_fresh: "k \<notin> set (dkeys d) \<Longrightarrow> dset k v d = d @ [(k, v)]"
  by (induction k v d rule: dset.induct) auto

lemma fold_dpop: "fold dpop ks d = filter (\<lambda>p. fst p \<notin> set ks) d"
proof (induction ks arbitrary: d)
  case Nil
  then show ?case by simp
next
  case (Cons k ks)
  then show ?case by (simp add: dpop_def conj_commute)
qed

lemma append_ok:
  assumes "outbox_ok o'" "oev_id e \<notin> set (dkeys (obx_items o'))"
  shows "outbox_ok (fst (outbox_append e o'))"
  using assms
  by (auto simp: outbox_ok_def outbox_append_def Let_def dset_fresh event_numbers_def sorted_wrt_append)

lemma append_numbers:
  "oev_id e \<notin> set (dkeys (obx_items o')) \<Longrightarrow>
   event_numbers (fst (outbox_append e o')) = event_numbers o' @ [obx_seq o' + 1]"
  by (simp add: outbox_append_def Let_def dset_fresh event_numbers_def)

end
