(* ===== verification/Operation.thy ===== *)
theory Operation
  imports Errors Enums Json
begin

text \<open>
  The \<open>Operation\<close> aggregate (\<open>core/entities/operation.py\<close>): the status machine every mutating
  call is tracked by, with its append-only event log. \<open>accept\<close> builds one, \<open>transition_to\<close> and
  \<open>log_event\<close> (the method \<open>log\<close>) extend it; a raised exception leaves the object unchanged.
\<close>

record resource_ref =
  ref_type :: string
  ref_id :: string

record op_error =
  oe_code :: string
  oe_message :: string
  oe_details :: payload

record op_event =
  ev_sequence :: nat
  ev_at :: time
  ev_status :: op_status
  ev_message :: string
  ev_payload :: payload

record operation =
  op_id :: string
  op_kind :: op_kind
  op_resource :: resource_ref
  op_created_at :: time
  op_updated_at :: time
  op_status :: op_status
  op_created_by :: "string option"
  op_events :: "op_event list"
  op_error :: "op_error option"

fun allowed_transitions :: "op_status \<Rightarrow> op_status set" where
  "allowed_transitions ACCEPTED = {PLANNING, CANCELLED, FAILED}"
| "allowed_transitions PLANNING = {RUNNING, CANCELLED, FAILED}"
| "allowed_transitions RUNNING = {VERIFYING, CANCELLED, FAILED, ROLLED_BACK}"
| "allowed_transitions VERIFYING = {SUCCEEDED, FAILED, ROLLED_BACK}"
| "allowed_transitions SUCCEEDED = {}"
| "allowed_transitions FAILED = {}"
| "allowed_transitions CANCELLED = {}"
| "allowed_transitions ROLLED_BACK = {}"

definition accept ::
  "string \<Rightarrow> op_kind \<Rightarrow> resource_ref \<Rightarrow> time \<Rightarrow> string option \<Rightarrow> string \<Rightarrow> operation" where
  "accept oid kind res now by msg =
     \<lparr>op_id = oid, op_kind = kind, op_resource = res, op_created_at = now, op_updated_at = now,
      op_status = ACCEPTED, op_created_by = by,
      op_events = [\<lparr>ev_sequence = 1, ev_at = now, ev_status = ACCEPTED, ev_message = msg,
                    ev_payload = []\<rparr>],
      op_error = None\<rparr>"

definition transition_to ::
  "op_status \<Rightarrow> time \<Rightarrow> string \<Rightarrow> payload option \<Rightarrow> op_error option \<Rightarrow> operation
     \<Rightarrow> exc + operation" where
  "transition_to new now msg payload err op =
     (if new \<notin> allowed_transitions (op_status op) then Inl err_state
      else if err \<noteq> None \<and> new \<notin> {FAILED, ROLLED_BACK} then Inl err_state
      else Inr (op\<lparr>op_status := new, op_updated_at := now,
                  op_error := (if err \<noteq> None then err else op_error op),
                  op_events := op_events op @
                    [\<lparr>ev_sequence = length (op_events op) + 1, ev_at = now, ev_status = new,
                      ev_message = msg, ev_payload = (case payload of None \<Rightarrow> [] | Some p \<Rightarrow> p)\<rparr>]\<rparr>))"

definition log_event :: "time \<Rightarrow> string \<Rightarrow> payload option \<Rightarrow> operation \<Rightarrow> operation" where
  "log_event now msg payload op =
     op\<lparr>op_updated_at := now,
        op_events := op_events op @
          [\<lparr>ev_sequence = length (op_events op) + 1, ev_at = now, ev_status = op_status op,
            ev_message = msg, ev_payload = (case payload of None \<Rightarrow> [] | Some p \<Rightarrow> p)\<rparr>]\<rparr>"

subsection \<open>Abstract status machine\<close>

text \<open>
  What an operation promises to the systems that poll it, as a relation between statuses: a step
  is an allowed transition or no change (a progress entry).
\<close>

inductive status_step :: "op_status \<Rightarrow> op_status \<Rightarrow> bool" where
  move: "t \<in> allowed_transitions s \<Longrightarrow> status_step s t"
| stay: "status_step s s"

inductive_simps status_step_iff: "status_step s t"

text \<open>Distance to the end of the longest path of transitions.\<close>

fun status_rank :: "op_status \<Rightarrow> nat" where
  "status_rank ACCEPTED = 4"
| "status_rank PLANNING = 3"
| "status_rank RUNNING = 2"
| "status_rank VERIFYING = 1"
| "status_rank _ = 0"

lemma transition_rank: "t \<in> allowed_transitions s \<Longrightarrow> status_rank t < status_rank s"
  by (cases s) auto

lemma terminal_no_transition: "is_terminal s \<longleftrightarrow> allowed_transitions s = {}"
  by (cases s) (auto simp: is_terminal_def)

fun steps_ok :: "op_status list \<Rightarrow> bool" where
  "steps_ok (s # t # ss) \<longleftrightarrow> status_step s t \<and> steps_ok (t # ss)"
| "steps_ok _ \<longleftrightarrow> True"

lemma steps_ok_snoc: "steps_ok (ss @ [s]) \<Longrightarrow> status_step s t \<Longrightarrow> steps_ok (ss @ [s, t])"
  by (induction ss rule: steps_ok.induct) auto

definition status_trace :: "operation \<Rightarrow> op_status list" where
  "status_trace op = List.map ev_status (op_events op)"

text \<open>
  The invariant of the aggregate: the log starts with \<open>accepted\<close>, its sequence numbers count
  1, 2, 3, ..., its statuses follow the status machine and end in the current status, \<open>updated_at\<close>
  is the time of the last entry, and an error is recorded only for failed or rolled back
  operations.
\<close>

definition op_wf :: "operation \<Rightarrow> bool" where
  "op_wf op \<longleftrightarrow>
     op_events op \<noteq> [] \<and>
     List.map ev_sequence (op_events op) = [1..<Suc (length (op_events op))] \<and>
     hd (status_trace op) = ACCEPTED \<and>
     steps_ok (status_trace op) \<and>
     last (status_trace op) = op_status op \<and>
     ev_at (last (op_events op)) = op_updated_at op \<and>
     (op_error op \<noteq> None \<longrightarrow> op_status op \<in> {FAILED, ROLLED_BACK})"

lemma op_wf_append:
  assumes "op_wf op" "status_step (op_status op) (ev_status e)"
    and "ev_sequence e = length (op_events op) + 1"
    and "err \<noteq> None \<longrightarrow> ev_status e \<in> {FAILED, ROLLED_BACK}"
  shows "op_wf (op\<lparr>op_status := ev_status e, op_updated_at := ev_at e, op_error := err,
                  op_events := op_events op @ [e]\<rparr>)"
proof -
  obtain ss where ss: "status_trace op = ss @ [op_status op]"
    using assms(1) by (metis op_wf_def append_butlast_last_id status_trace_def map_is_Nil_conv)
  then have "steps_ok (ss @ [op_status op, ev_status e])"
    using assms(1,2) by (intro steps_ok_snoc) (simp_all add: op_wf_def)
  moreover have "List.map ev_status (op_events op) = ss @ [op_status op]"
    using ss by (simp add: status_trace_def)
  ultimately show ?thesis
    using assms by (auto simp: op_wf_def status_trace_def hd_append)
qed

lemma accept_wf [simp]: "op_wf (accept oid kind res now by msg)"
  by (simp add: accept_def op_wf_def status_trace_def)

lemma log_event_wf: "op_wf op \<Longrightarrow> op_wf (log_event now msg p op)"
  using op_wf_append [of op "\<lparr>ev_sequence = length (op_events op) + 1, ev_at = now,
      ev_status = op_status op, ev_message = msg, ev_payload = (case p of None \<Rightarrow> [] | Some q \<Rightarrow> q)\<rparr>"
      "op_error op"]
  by (simp add: log_event_def status_step.stay op_wf_def)

lemma transition_to_cases:
  assumes "transition_to new now msg p err op = Inr op'"
  obtains "new \<in> allowed_transitions (op_status op)" "err \<noteq> None \<longrightarrow> new \<in> {FAILED, ROLLED_BACK}"
    "op' = op\<lparr>op_status := new, op_updated_at := now,
        op_error := (if err \<noteq> None then err else op_error op),
        op_events := op_events op @
          [\<lparr>ev_sequence = length (op_events op) + 1, ev_at = now, ev_status = new,
            ev_message = msg, ev_payload = (case p of None \<Rightarrow> [] | Some q \<Rightarrow> q)\<rparr>]\<rparr>"
  using assms by (auto simp: transition_to_def split: if_splits)

lemma live_no_error: "op_wf op \<Longrightarrow> \<not> is_terminal (op_status op) \<Longrightarrow> op_error op = None"
  by (auto simp: op_wf_def is_terminal_def)

lemma transition_to_wf:
  assumes wf: "op_wf op" and tr: "transition_to new now msg p err op = Inr op'"
  shows "op_wf op'"
proof -
  from tr show ?thesis
  proof (rule transition_to_cases)
    assume new: "new \<in> allowed_transitions (op_status op)"
      and err: "err \<noteq> None \<longrightarrow> new \<in> {FAILED, ROLLED_BACK}"
      and op': "op' = op\<lparr>op_status := new, op_updated_at := now,
        op_error := (if err \<noteq> None then err else op_error op),
        op_events := op_events op @
          [\<lparr>ev_sequence = length (op_events op) + 1, ev_at = now, ev_status = new,
            ev_message = msg, ev_payload = (case p of None \<Rightarrow> [] | Some q \<Rightarrow> q)\<rparr>]\<rparr>"
    have "op_error op = None"
      using new wf by (intro live_no_error) (auto simp: terminal_no_transition)
    then have keep: "(if err \<noteq> None then err else op_error op) = err" by simp
    show ?thesis unfolding op' keep
      using op_wf_append [OF wf, of "\<lparr>ev_sequence = length (op_events op) + 1, ev_at = now,
          ev_status = new, ev_message = msg,
          ev_payload = (case p of None \<Rightarrow> [] | Some q \<Rightarrow> q)\<rparr>" err]
        new err
      by (simp add: status_step.move)
  qed
qed

subsection \<open>Operations the program can build\<close>

inductive op_reach :: "operation \<Rightarrow> bool" where
  accepted: "op_reach (accept oid kind res now by msg)"
| moved: "op_reach op \<Longrightarrow> transition_to new now msg p err op = Inr op' \<Longrightarrow> op_reach op'"
| logged: "op_reach op \<Longrightarrow> op_reach (log_event now msg p op)"

lemma op_reach_wf: "op_reach op \<Longrightarrow> op_wf op"
  by (induction rule: op_reach.induct) (auto intro: transition_to_wf log_event_wf)

text \<open>
  C35. Every operation the program can build keeps its audit trail consistent: the event log
  begins with accepted, is numbered 1, 2, 3, ... without gaps, moves only along allowed
  transitions, ends in the current status with updated_at its time, and carries an error only
  when failed or rolled back.
\<close>

theorem operation_audit_trail:
  assumes "op_reach op"
  shows "op_wf op"
  using assms by (rule op_reach_wf)

theorem operation_audit_trail_witness:
  "op_wf (log_event 7 ''m'' None (accept ''op_1'' NETWORK_APPLY \<lparr>ref_type = ''network'', ref_id = ''n''\<rparr> 5 None ''x''))"
  by (rule operation_audit_trail) (intro op_reach.logged op_reach.accepted)

text \<open>
  A terminal operation is frozen: no transition out of a terminal status succeeds, whatever
  the arguments; every attempt raises InvalidStateTransition.
\<close>

lemma terminal_absorbing:
  assumes "is_terminal (op_status op)"
  shows "transition_to new now msg p err op = Inl err_state"
  using assms by (simp add: transition_to_def terminal_no_transition)

lemma terminal_absorbing_witness:
  "transition_to RUNNING 9 ''m'' None None
     ((accept ''op_1'' NETWORK_APPLY \<lparr>ref_type = ''network'', ref_id = ''n''\<rparr> 5 None ''x'')
        \<lparr>op_status := SUCCEEDED\<rparr>) = Inl err_state"
  by (rule terminal_absorbing) (simp add: is_terminal_def)

fun changes :: "op_status list \<Rightarrow> nat" where
  "changes (s # t # ss) = (if s = t then 0 else 1) + changes (t # ss)"
| "changes _ = 0"

lemma changes_rank: "steps_ok (s # ss) \<Longrightarrow> changes (s # ss) + status_rank (last (s # ss)) \<le> status_rank s"
proof (induction ss arbitrary: s)
  case (Cons t ss)
  then have "changes (t # ss) + status_rank (last (t # ss)) \<le> status_rank t" by simp
  moreover have "s = t \<or> status_rank t < status_rank s"
    using Cons.prems by (auto simp: status_step_iff dest: transition_rank)
  ultimately show ?case by auto
qed simp

text \<open>
  An operation changes status at most four times in its life, however many progress
  entries it logs, so it cannot cycle.
\<close>

lemma operation_bounded_life:
  assumes "op_reach op"
  shows "changes (status_trace op) \<le> 4"
proof -
  have wf: "op_wf op" using assms by (rule op_reach_wf)
  then obtain ss where "status_trace op = ACCEPTED # ss"
    by (metis op_wf_def list.collapse map_is_Nil_conv status_trace_def)
  then show ?thesis using wf changes_rank [of ACCEPTED ss] by (simp add: op_wf_def)
qed

lemma operation_bounded_life_witness:
  "changes (status_trace (accept ''op_1'' NODE_ENROLL \<lparr>ref_type = ''node'', ref_id = ''n''\<rparr> 5 None ''x'')) \<le> 4"
  by (rule operation_bounded_life) (rule op_reach.accepted)

end
