(* ===== verification/Ip_Allocator.thy ===== *)
theory Ip_Allocator
  imports Network
begin

text \<open>
  The address allocator (\<open>core/services/ip_allocator.py\<close>). \<open>next_available_ip\<close> walks the candidate
  addresses of a subnet (its pools in order, or the whole block when it has none) and returns the
  first whose value is not in use; \<open>is_address_assignable\<close> is the policy check for a caller-chosen
  address. The generator \<open>_iter_candidates\<close> is the list of the addresses it yields.
\<close>

subsection \<open>Bounds of parsed addresses\<close>

lemma num_val_bound:
  assumes "num_val dg b acc cs = Some v" "\<And>c d. dg c = Some d \<Longrightarrow> d < b"
  shows "v < Suc acc * b ^ length cs"
  using assms(1)
proof (induction cs arbitrary: acc)
  case (Cons c cs)
  then obtain d where d: "dg c = Some d" "num_val dg b (b * acc + d) cs = Some v"
    by (auto split: option.splits)
  have "v < Suc (b * acc + d) * b ^ length cs" using d(2) by (rule Cons.IH)
  also have "\<dots> \<le> (Suc acc * b) * b ^ length cs"
    using assms(2) [OF d(1)] by (intro mult_le_mono1) simp
  finally show ?case by (simp only: length_Cons power_Suc mult.assoc)
qed simp

lemma hex_digit_bound: "hex_digit c = Some d \<Longrightarrow> d < 16"
  by (auto simp: hex_digit_def Let_def split: if_splits)

lemma parse_octet_bound: "parse_octet s = Some n \<Longrightarrow> n < 256"
  by (auto simp: parse_octet_def split: if_splits option.splits)

lemma parse_v4_bound: "parse_v4 s = Some n \<Longrightarrow> n < 4294967296"
proof -
  assume "parse_v4 s = Some n"
  then obtain a b c d where o: "List.map parse_octet (split (CHR ''.'') s) = [Some a, Some b, Some c, Some d]"
    and n: "n = ((a * 256 + b) * 256 + c) * 256 + d"
    by (auto simp: parse_v4_def split: if_splits list.splits option.splits)
  then have "Some a \<in> parse_octet ` set (split (CHR ''.'') s)" "Some b \<in> parse_octet ` set (split (CHR ''.'') s)"
    "Some c \<in> parse_octet ` set (split (CHR ''.'') s)" "Some d \<in> parse_octet ` set (split (CHR ''.'') s)"
    by (simp_all flip: set_map)
  then have "a < 256" "b < 256" "c < 256" "d < 256"
    by (metis (no_types, lifting) imageE parse_octet_bound)+
  then have "n \<le> ((255 * 256 + 255) * 256 + 255) * 256 + 255"
    unfolding n by (intro add_mono mult_le_mono1) simp_all
  then show ?thesis by simp
qed

lemma parse_hextet_bound: "parse_hextet s = Some n \<Longrightarrow> n < 65536"
proof -
  assume p: "parse_hextet s = Some n"
  then have nv: "num_val hex_digit 16 0 s = Some n" and "length s \<le> 4"
    by (simp_all add: parse_hextet_def split: if_splits)
  moreover have "n < Suc 0 * 16 ^ length s"
    using num_val_bound [OF nv] hex_digit_bound by blast
  moreover have "(16 :: nat) ^ length s \<le> 16 ^ 4"
    using \<open>length s \<le> 4\<close> by (intro power_increasing) auto
  ultimately show ?thesis by simp
qed

lemma hextets_val_bound: "hextets_val acc ps = Some v \<Longrightarrow> v < Suc acc * 65536 ^ length ps"
proof (induction ps arbitrary: acc)
  case (Cons p ps)
  then obtain h where h: "parse_hextet p = Some h" "hextets_val (acc * 65536 + h) ps = Some v"
    by (auto split: option.splits)
  have "v < Suc (acc * 65536 + h) * 65536 ^ length ps" using h(2) by (rule Cons.IH)
  also have "\<dots> \<le> (Suc acc * 65536) * 65536 ^ length ps"
    using parse_hextet_bound [OF h(1)] by (intro mult_le_mono1) simp
  finally show ?case by (simp only: length_Cons power_Suc mult.assoc)
qed simp

lemma v6_groups_bound:
  assumes "v6_groups ps = Some v"
  shows "v < 65536 ^ 8"
proof -
  have "(length ps = 8 \<and> hextets_val 0 ps = Some v) \<or>
    (\<exists>hi lo w. hi + lo \<le> 7 \<and> hextets_val 0 (take hi ps) = Some w \<and>
        hextets_val (w * 65536 ^ (8 - (hi + lo))) (drop (length ps - lo) ps) = Some v)"
  proof (cases "gaps 1 (tl ps)")
    case Nil
    then show ?thesis using assms by (simp add: v6_groups_def Let_def split: if_splits)
  next
    case (Cons k ks)
    define hi where "hi = (if hd ps = [] then 0 else k)"
    define lo where "lo = (if last ps = [] then 0 else length ps - k - 1)"
    have "ks = []" using assms Cons by (cases ks) (auto simp: v6_groups_def Let_def)
    then have "\<not> 7 < hi + lo \<and> (\<exists>w. hextets_val 0 (take hi ps) = Some w \<and>
        hextets_val (w * 65536 ^ (8 - (hi + lo))) (drop (length ps - lo) ps) = Some v)"
      using assms Cons
      by (auto simp: v6_groups_def Let_def hi_def lo_def split: if_splits option.splits)
    then show ?thesis by (auto simp: not_less)
  qed
  then consider "length ps = 8" "hextets_val 0 ps = Some v"
    | hi lo w where "hi + lo \<le> 7" "hextets_val 0 (take hi ps) = Some w"
        "hextets_val (w * 65536 ^ (8 - (hi + lo))) (drop (length ps - lo) ps) = Some v"
    by blast
  then show ?thesis
  proof cases
    case 1
    then show ?thesis using hextets_val_bound [of 0 ps v] by simp
  next
    case 2
    have "w < 65536 ^ length (take hi ps)" using hextets_val_bound [OF 2(2)] by simp
    also have "\<dots> \<le> 65536 ^ hi" by (intro power_increasing) auto
    finally have w: "Suc w \<le> 65536 ^ hi" by simp
    let ?k = "8 - (hi + lo)"
    have "v < Suc (w * 65536 ^ ?k) * 65536 ^ length (drop (length ps - lo) ps)"
      using hextets_val_bound [OF 2(3)] .
    also have "\<dots> \<le> (Suc w * 65536 ^ ?k) * 65536 ^ lo"
      by (intro mult_le_mono power_increasing) auto
    also have "\<dots> \<le> (65536 ^ hi * 65536 ^ ?k) * 65536 ^ lo"
      using w by (intro mult_le_mono1) simp
    also have "\<dots> = 65536 ^ (hi + ?k + lo)" by (simp add: power_add)
    also have "hi + ?k + lo = 8" using 2(1) by simp
    finally show ?thesis .
  qed
qed

lemma ip_address_bound: "ip_address s = Some a \<Longrightarrow> ip_int a < 2 ^ ip_bits a"
proof -
  assume "ip_address s = Some a"
  then consider n where "a = V4 n" "parse_v4 s = Some n"
    | n sc where "a = V6 n sc" "parse_v6 s = Some (n, sc)"
    by (auto simp: ip_address_def split: option.splits)
  then show ?thesis
  proof cases
    case 1
    then show ?thesis using parse_v4_bound by simp
  next
    case 2
    then have "n < 65536 ^ 8"
      by (auto simp: parse_v6_def parse_v6_int_def Let_def dest!: v6_groups_bound
          split: if_splits option.splits)
    then show ?thesis using 2 by simp
  qed
qed

lemma prefix_of_text_bound: "prefix_of_text mx s = Some p \<Longrightarrow> p \<le> mx"
  by (auto simp: prefix_of_text_def split: if_splits option.splits)

lemma prefix_of_mask_bound: "prefix_of_mask m = Some p \<Longrightarrow> p \<le> 32"
  by (auto simp: prefix_of_mask_def find_Some_iff simp del: upt_Suc)

lemma v4_prefix_bound: "v4_prefix s = Some p \<Longrightarrow> p \<le> 32"
  by (auto simp: v4_prefix_def Let_def dest: prefix_of_text_bound prefix_of_mask_bound
      split: option.splits list.splits)

lemma mk_net_facts:
  assumes "mk_net strict a p = Some net" "ip_int a < 2 ^ ip_bits a" "p \<le> ip_bits a"
  shows "nw_plen net \<le> ip_bits (nw_addr net)" "ip_int (nw_addr net) < 2 ^ ip_bits (nw_addr net)"
  using assms by (cases a; auto simp: mk_net_def Let_def split: if_splits)+

lemma ip_network_facts:
  assumes "ip_network c strict = Some net"
  shows "nw_plen net \<le> ip_bits (nw_addr net) \<and> ip_int (nw_addr net) < 2 ^ ip_bits (nw_addr net)"
proof -
  have v6: "n < 340282366920938463463374607431768211456" if "parse_v6 t = Some (n, sc)" for t n sc
    using that
    by (auto simp: parse_v6_def parse_v6_int_def Let_def dest!: v6_groups_bound
        split: if_splits option.splits)
  consider a p t where "mk_net strict (V4 a) p = Some net" "parse_v4 t = Some a"
      "p = 32 \<or> (\<exists>m. v4_prefix m = Some p)"
    | a sc p t where "mk_net strict (V6 a sc) p = Some net" "parse_v6 t = Some (a, sc)"
      "p = 128 \<or> (\<exists>m. prefix_of_text 128 m = Some p)"
    using assms unfolding ip_network_def Let_def
    by (auto split: if_splits option.splits; blast)
  then show ?thesis
  proof cases
    case 1
    then have "a < 2 ^ ip_bits (V4 a)" "p \<le> ip_bits (V4 a)"
      by (auto dest: parse_v4_bound v4_prefix_bound)
    then show ?thesis using mk_net_facts [OF 1(1)] by simp
  next
    case 2
    then have "ip_int (V6 a sc) < 2 ^ ip_bits (V6 a sc)" "p \<le> ip_bits (V6 a sc)"
      by (auto dest: v6 prefix_of_text_bound)
    then show ?thesis using mk_net_facts [OF 2(1)] by simp
  qed
qed

text \<open>The last address of a network is still an address of its family.\<close>

lemma net_top:
  assumes "ip_network c strict = Some net"
  shows "ip_int (nw_addr net) + host_count net \<le> 2 ^ ip_bits (nw_addr net)"
proof -
  let ?b = "ip_int (nw_addr net)" and ?h = "host_count net" and ?w = "ip_bits (nw_addr net)"
  have le: "nw_plen net \<le> ?w" and lt: "?b < 2 ^ ?w" using ip_network_facts [OF assms] by simp_all
  obtain k where k: "?b = k * ?h"
    using ip_network_aligned [OF assms] by (metis net_aligned_def mod_0_imp_dvd dvd_def mult.commute)
  have m: "(2 :: nat) ^ ?w = 2 ^ nw_plen net * ?h"
    using le by (simp add: host_count_def flip: power_add)
  have "k < 2 ^ nw_plen net" using lt by (simp add: k m)
  then have "Suc k * ?h \<le> 2 ^ nw_plen net * ?h" by (intro mult_le_mono1) simp
  then show ?thesis by (simp add: k m)
qed

lemma in_net_wf:
  assumes "ip_network c strict = Some net"
    and "ip_int (nw_addr net) \<le> n" "n < ip_int (nw_addr net) + host_count net"
  shows "ip_wf (with_int (nw_addr net) n)"
proof -
  have "n < 2 ^ ip_bits (nw_addr net)" using assms net_top [OF assms(1)] by linarith
  then show ?thesis by (cases "nw_addr net") simp_all
qed

subsection \<open>The allocator\<close>

definition ip_add :: "ip \<Rightarrow> exc + ip" where
  "ip_add a = (if ip_int a + 1 < 2 ^ ip_bits a then Inr (with_int a (ip_int a + 1))
               else Inl (PyError PyValueError))"

definition ip_sub1 :: "ip \<Rightarrow> exc + ip" where
  "ip_sub1 a = (if 0 < ip_int a then Inr (with_int a (ip_int a - 1))
                else Inl (PyError PyValueError))"

text \<open>The pools of a subnet, or the block without its two boundary addresses.\<close>

definition effective_pools :: "subnet \<Rightarrow> ipnet \<Rightarrow> exc + ip_range list" where
  "effective_pools s net =
     (if sub_pools s \<noteq> [] then Inr (sub_pools s)
      else bindE (ip_add (nw_addr net)) (\<lambda>lo.
           bindE (ip_sub1 (broadcast net)) (\<lambda>hi.
           bindE (mk_ip_range (str_ip lo) (str_ip hi)) (\<lambda>r. Inr [r]))))"

definition candidate_ok :: "subnet \<Rightarrow> ipnet \<Rightarrow> nat option \<Rightarrow> ip \<Rightarrow> bool" where
  "candidate_ok s net gw a \<longleftrightarrow>
     in_net a net \<and> a \<noteq> nw_addr net \<and> a \<noteq> broadcast net \<and> gw \<noteq> Some (ip_int a) \<and>
     \<not> list_ex (\<lambda>r. rng_contains r (str_ip a)) (sub_reserved s)"

definition pool_values :: "ip_range \<Rightarrow> nat list" where
  "pool_values r =
     (case (ip_address (rng_start r), ip_address (rng_end r)) of
        (Some a, Some b) \<Rightarrow> [ip_int a..<Suc (ip_int b)]
      | _ \<Rightarrow> [])"

definition iter_candidates :: "subnet \<Rightarrow> exc + ip list" where
  "iter_candidates s =
     bindE (of_option (PyError PyValueError) (ip_network (sub_cidr s) True)) (\<lambda>net.
     bindE (effective_pools s net) (\<lambda>pools.
     bindE (case sub_gateway s of
              None \<Rightarrow> Inr None
            | Some g \<Rightarrow> bindE (of_option (PyError PyValueError) (ip_address g)) (\<lambda>a. Inr (Some (ip_int a))))
       (\<lambda>gw. Inr (filter (candidate_ok s net gw)
          (List.map (with_int (nw_addr net)) (concat (List.map pool_values pools)))))))"

definition taken_ints :: "string list \<Rightarrow> nat list" where
  "taken_ints in_use = List.map ip_int (List.map_filter ip_address in_use)"

definition next_available_ip :: "subnet \<Rightarrow> string list \<Rightarrow> exc + string" where
  "next_available_ip s in_use =
     (let taken = taken_ints in_use in
      bindE (iter_candidates s) (\<lambda>cs.
      case List.find (\<lambda>a. ip_int a \<notin> set taken) cs of
        Some a \<Rightarrow> Inr (str_ip a)
      | None \<Rightarrow> Inl err_conflict))"

definition is_address_assignable :: "subnet \<Rightarrow> string \<Rightarrow> exc + unit" where
  "is_address_assignable s addr =
     bindE (of_option err_validation (ip_address addr)) (\<lambda>target.
     bindE (of_option (PyError PyValueError) (ip_network (sub_cidr s) True)) (\<lambda>net.
     bindE (require (in_net target net) err_validation) (\<lambda>_.
     bindE (case sub_gateway s of
              None \<Rightarrow> Inr ()
            | Some g \<Rightarrow> bindE (of_option (PyError PyValueError) (ip_address g)) (\<lambda>gw.
                require (gw \<noteq> target) err_conflict)) (\<lambda>_.
     bindE (each (\<lambda>r. require (\<not> rng_contains r addr) err_conflict) (sub_reserved s)) (\<lambda>_.
     require (sub_pools s = [] \<or> list_ex (\<lambda>p. rng_contains p addr) (sub_pools s)) err_conflict)))))"

subsection \<open>What the allocator promises\<close>

text \<open>The gateway's value, and the address values a subnet may hand out.\<close>

definition gateway_int :: "subnet \<Rightarrow> nat option" where
  "gateway_int s = Option.bind (sub_gateway s) (\<lambda>g. map_option ip_int (ip_address g))"

definition usable :: "subnet \<Rightarrow> ipnet \<Rightarrow> nat \<Rightarrow> bool" where
  "usable s net n \<longleftrightarrow>
     ip_int (nw_addr net) < n \<and> n + 1 < ip_int (nw_addr net) + host_count net \<and>
     gateway_int s \<noteq> Some n \<and>
     (\<forall>r \<in> set (sub_reserved s). (is_v4 (nw_addr net), n) \<notin> rng_set r) \<and>
     (sub_pools s = [] \<or> (\<exists>p \<in> set (sub_pools s). (is_v4 (nw_addr net), n) \<in> rng_set p))"

lemma with_int_inject [simp]: "with_int a m = with_int a n \<longleftrightarrow> m = n"
  by (cases a) auto

lemma with_int_self: "ip_wf a \<Longrightarrow> with_int a (ip_int a) = a"
  by (cases a) auto

lemma candidate_ok_usable:
  assumes net: "ip_network (sub_cidr s) True = Some net" and wf: "ip_wf (nw_addr net)"
    and gw: "gw = gateway_int s"
    and pools: "sub_pools s = [] \<or> (\<exists>p \<in> set (sub_pools s). (is_v4 (nw_addr net), n) \<in> rng_set p)"
  shows "candidate_ok s net gw (with_int (nw_addr net) n) \<longleftrightarrow> usable s net n"
proof -
  let ?a = "with_int (nw_addr net) n" and ?b = "ip_int (nw_addr net)" and ?h = "host_count net"
  have al: "net_aligned net" using net by (rule ip_network_aligned)
  have inn: "in_net ?a net \<longleftrightarrow> ?b \<le> n \<and> n < ?b + ?h"
    using in_net_interval [OF al, of ?a] by simp
  have ne1: "?a \<noteq> nw_addr net \<longleftrightarrow> n \<noteq> ?b"
    using with_int_self [OF wf] by (metis with_int_inject)
  have ne2: "?a \<noteq> broadcast net \<longleftrightarrow> n \<noteq> ?b + ?h - 1"
    by (simp add: broadcast_def)
  have cont: "rng_contains r (str_ip ?a) \<longleftrightarrow> (is_v4 (nw_addr net), n) \<in> rng_set r"
    if "?b \<le> n" "n < ?b + ?h" for r
    using in_net_wf [OF net that] by (simp add: rng_contains_iff ip_address_str_ip)
  show ?thesis
    unfolding candidate_ok_def usable_def inn ne1 ne2 gw
    using pools cont by (auto simp: list_ex_iff)
qed

lemma subnet_wf_net: "subnet_wf s \<Longrightarrow> \<exists>net. ip_network (sub_cidr s) True = Some net"
  by (auto simp: subnet_wf_def elim!: subnet_check_facts)

lemma subnet_wf_gateway:
  "subnet_wf s \<Longrightarrow> sub_gateway s = Some g \<Longrightarrow> \<exists>a. ip_address g = Some a"
  by (auto simp: subnet_wf_def elim!: subnet_check_facts)

lemma pool_values_set:
  "n \<in> set (pool_values r) \<longleftrightarrow> (\<exists>f. (f, n) \<in> rng_set r)"
  by (auto simp: pool_values_def rng_set_def split: option.splits)

lemma subnet_wf_pool_family:
  assumes "subnet_wf s" "ip_network (sub_cidr s) True = Some net" "p \<in> set (sub_pools s)"
    "(f, n) \<in> rng_set p"
  shows "f = is_v4 (nw_addr net)"
proof -
  have "subnet_check s = Inr ()" using assms(1) by (simp add: subnet_wf_def)
  then have "require_inside_cidr net p = Inr ()"
    using assms(2,3) by (elim subnet_check_facts) auto
  then show ?thesis
    using range_inside_net(1) [OF ip_network_aligned [OF assms(2)] _ assms(4)] by simp
qed

text \<open>The one range the allocator walks when the subnet has no pools.\<close>

lemma default_pool:
  assumes net: "ip_network (sub_cidr s) True = Some net"
    and none: "sub_pools s = []" and ps: "effective_pools s net = Inr ps"
  shows "concat (List.map pool_values ps) =
     [Suc (ip_int (nw_addr net))..<ip_int (nw_addr net) + host_count net - 1]"
    and "3 \<le> host_count net"
proof -
  let ?b = "ip_int (nw_addr net)" and ?h = "host_count net"
  obtain lo hi r where lo: "ip_add (nw_addr net) = Inr lo" and hi: "ip_sub1 (broadcast net) = Inr hi"
    and r: "mk_ip_range (str_ip lo) (str_ip hi) = Inr r" and p: "ps = [r]"
    using none ps by (auto simp: effective_pools_def bindE_Inr_iff)
  have lo': "lo = with_int (nw_addr net) (?b + 1)" "?b + 1 < 2 ^ ip_bits (nw_addr net)"
    using lo by (auto simp: ip_add_def split: if_splits)
  have wi: "with_int (with_int a m) n = with_int a n" for a m n by (cases a) simp_all
  have hi': "hi = with_int (nw_addr net) (?b + ?h - 2)" "0 < ?b + ?h - 1"
    using hi by (auto simp: ip_sub1_def broadcast_def wi diff_diff_eq split: if_splits)
  have wf: "ip_wf (with_int (nw_addr net) n)" if "n < 2 ^ ip_bits (nw_addr net)" for n
    using that by (cases "nw_addr net") simp_all
  have top: "?b + ?h \<le> 2 ^ ip_bits (nw_addr net)" using net by (rule net_top)
  have pa: "ip_address (str_ip lo) = Some lo" "ip_address (str_ip hi) = Some hi"
    using lo' hi' top by (auto intro!: ip_address_str_ip wf)
  have rw: "rng_wf r" "rng_start r = str_ip lo" "rng_end r = str_ip hi"
    using mk_ip_range_wf [OF r] by simp_all
  then have "ip_int lo \<le> ip_int hi" using pa by (auto simp: rng_wf_iff)
  then show "3 \<le> ?h" using lo' hi' by simp
  then have "Suc (?b + ?h - 2) = ?b + ?h - 1" by simp
  then show "concat (List.map pool_values ps) = [Suc ?b..<?b + ?h - 1]"
    using p pa rw lo' hi' by (simp add: pool_values_def)
qed

lemma iter_candidates_values:
  assumes wf: "subnet_wf s" and net: "ip_network (sub_cidr s) True = Some net"
    and nw: "ip_wf (nw_addr net)" and cs: "iter_candidates s = Inr cs"
  shows "\<exists>ps. effective_pools s net = Inr ps \<and>
     cs = List.map (with_int (nw_addr net))
            (filter (usable s net) (concat (List.map pool_values ps)))"
proof -
  have "(case sub_gateway s of None \<Rightarrow> Inr None
     | Some g \<Rightarrow> bindE (of_option (PyError PyValueError) (ip_address g)) (\<lambda>a. Inr (Some (ip_int a))))
     = Inr (gateway_int s)"
    using subnet_wf_gateway [OF wf] by (auto simp: gateway_int_def split: option.splits)
  then obtain ps where ps: "effective_pools s net = Inr ps"
    and c: "cs = filter (candidate_ok s net (gateway_int s))
          (List.map (with_int (nw_addr net)) (concat (List.map pool_values ps)))"
    using cs net by (auto simp: iter_candidates_def bindE_Inr_iff)
  have "filter (candidate_ok s net (gateway_int s) \<circ> with_int (nw_addr net))
      (concat (List.map pool_values ps)) = filter (usable s net) (concat (List.map pool_values ps))"
  proof (rule filter_cong [OF refl])
    fix n assume n: "n \<in> set (concat (List.map pool_values ps))"
    have "sub_pools s = [] \<or> (\<exists>p \<in> set (sub_pools s). (is_v4 (nw_addr net), n) \<in> rng_set p)"
    proof (cases "sub_pools s = []")
      case False
      then have "ps = sub_pools s" using ps by (simp add: effective_pools_def)
      then obtain p f where "p \<in> set (sub_pools s)" "(f, n) \<in> rng_set p"
        using n by (auto simp: pool_values_set)
      then show ?thesis using subnet_wf_pool_family [OF wf net] by blast
    qed simp
    then show "(candidate_ok s net (gateway_int s) \<circ> with_int (nw_addr net)) n = usable s net n"
      by (simp add: candidate_ok_usable [OF net nw refl])
  qed
  then show ?thesis using ps c by (simp add: filter_map)
qed

lemma usable_candidate:
  assumes wf: "subnet_wf s" and net: "ip_network (sub_cidr s) True = Some net"
    and ps: "effective_pools s net = Inr ps" and u: "usable s net n"
  shows "n \<in> set (concat (List.map pool_values ps))"
proof (cases "sub_pools s = []")
  case True
  show ?thesis using u unfolding default_pool(1) [OF net True ps] by (auto simp: usable_def less_diff_conv)
next
  case False
  then have "ps = sub_pools s" using ps by (simp add: effective_pools_def)
  then show ?thesis using u False by (auto simp: usable_def pool_values_set)
qed

lemma taken_ints_set: "set (taken_ints used) = {ip_int b | u b. u \<in> set used \<and> ip_address u = Some b}"
  by (force simp: taken_ints_def map_filter_def)

lemma find_first:
  "List.find P xs = Some x \<Longrightarrow> \<exists>ys zs. xs = ys @ x # zs \<and> P x \<and> (\<forall>y \<in> set ys. \<not> P y)"
  by (induction xs) (force split: if_splits intro: exI [of _ "_ # _"] exI [of _ "[]"])+

text \<open>
  C31. Whatever the allocator hands out is a free, policy-conforming address: it parses, lies strictly
  inside the block, is not the gateway, lies in no reserved range and in some pool (when
  there are pools), equals no address in use (in any spelling), and would pass the reservation
  check.
\<close>

theorem next_available_ip_sound:
  assumes wf: "subnet_wf s" and net: "ip_network (sub_cidr s) True = Some net"
    and nw: "ip_wf (nw_addr net)" and res: "next_available_ip s used = Inr x"
  shows "\<exists>a. ip_address x = Some a \<and> is_v4 a = is_v4 (nw_addr net) \<and> usable s net (ip_int a) \<and>
     ip_int a \<notin> set (taken_ints used) \<and> is_address_assignable s x = Inr ()"
proof -
  obtain cs a where cs: "iter_candidates s = Inr cs"
    and f: "List.find (\<lambda>a. ip_int a \<notin> set (taken_ints used)) cs = Some a" and x: "x = str_ip a"
    using res by (auto simp: next_available_ip_def Let_def bindE_Inr_iff split: option.splits)
  have a: "a \<in> set cs" "ip_int a \<notin> set (taken_ints used)"
    using f by (auto simp: find_Some_iff)
  obtain n where n: "a = with_int (nw_addr net) n" "usable s net n"
    using iter_candidates_values [OF wf net nw cs] a(1) by auto
  have ia: "ip_int a = n" "is_v4 a = is_v4 (nw_addr net)" using n by simp_all
  have bounds: "ip_int (nw_addr net) \<le> n" "n < ip_int (nw_addr net) + host_count net"
    using n(2) by (auto simp: usable_def)
  have px: "ip_address x = Some a"
    using in_net_wf [OF net bounds] n(1) x by (simp add: ip_address_str_ip)
  have inn: "in_net a net" using in_net_interval [OF ip_network_aligned [OF net], of a] bounds ia by simp
  have gw: "gw \<noteq> a" if "sub_gateway s = Some g" "ip_address g = Some gw" for g gw
    using n(2) that ia by (auto simp: usable_def gateway_int_def)
  have "is_address_assignable s x = Inr ()"
    using px inn gw n(2) ia subnet_wf_gateway [OF wf]
    by (auto simp: is_address_assignable_def net bindE_Inr_iff usable_def rng_contains_iff list_ex_iff
        split: option.splits)
  then show ?thesis using px ia n(2) a(2) by auto
qed

text \<open>
  The allocator reports exhaustion only when it is true: a conflict means that every usable
  address value of the subnet is in use.
\<close>

lemma next_available_ip_complete:
  assumes wf: "subnet_wf s" and net: "ip_network (sub_cidr s) True = Some net"
    and nw: "ip_wf (nw_addr net)" and res: "next_available_ip s used = Inl err_conflict"
    and u: "usable s net n"
  shows "n \<in> set (taken_ints used)"
proof -
  have "iter_candidates s \<noteq> Inl err_conflict"
    by (auto simp: iter_candidates_def effective_pools_def bindE_Inl_iff ip_add_def ip_sub1_def
        mk_ip_range_def ip_range_check_def Let_def split: option.splits if_splits)
  then obtain cs where cs: "iter_candidates s = Inr cs"
    and f: "List.find (\<lambda>a. ip_int a \<notin> set (taken_ints used)) cs = None"
    using res by (auto simp: next_available_ip_def Let_def bindE_Inl_iff split: option.splits)
  obtain ps where ps: "effective_pools s net = Inr ps"
    and c: "cs = List.map (with_int (nw_addr net)) (filter (usable s net) (concat (List.map pool_values ps)))"
    using iter_candidates_values [OF wf net nw cs] by auto
  have "with_int (nw_addr net) n \<in> set cs"
    using usable_candidate [OF wf net ps u] u by (auto simp: c)
  then show ?thesis using f by (auto simp: find_None_iff)
qed

text \<open>
  In a subnet without pools the allocator returns the lowest free address: every smaller
  usable address value is in use.
\<close>

lemma next_available_ip_lowest:
  assumes wf: "subnet_wf s" and net: "ip_network (sub_cidr s) True = Some net"
    and nw: "ip_wf (nw_addr net)" and none: "sub_pools s = []"
    and res: "next_available_ip s used = Inr x"
    and a: "ip_address x = Some a" and m: "m < ip_int a" "usable s net m"
  shows "m \<in> set (taken_ints used)"
proof -
  obtain cs b where cs: "iter_candidates s = Inr cs"
    and f: "List.find (\<lambda>a. ip_int a \<notin> set (taken_ints used)) cs = Some b" and x: "x = str_ip b"
    using res by (auto simp: next_available_ip_def Let_def bindE_Inr_iff split: option.splits)
  obtain ps where ps: "effective_pools s net = Inr ps"
    and c: "cs = List.map (with_int (nw_addr net)) (filter (usable s net) (concat (List.map pool_values ps)))"
    using iter_candidates_values [OF wf net nw cs] by auto
  have srt: "sorted (List.map ip_int cs)"
    unfolding c default_pool(1) [OF net none ps]
    by (simp add: comp_def sorted_filter [where f = "\<lambda>x. x", simplified] del: upt_Suc)
  from find_first [OF f] obtain ys zs where split: "cs = ys @ b # zs"
    and ys: "\<forall>y \<in> set ys. ip_int y \<in> set (taken_ints used)" by auto
  have "b \<in> set cs" using split by simp
  then obtain n where n: "b = with_int (nw_addr net) n" "usable s net n" by (auto simp: c)
  have "ip_address x = Some b"
    using in_net_wf [OF net, of n] n x by (auto simp: ip_address_str_ip usable_def)
  then have ab: "a = b" using a by simp
  have "with_int (nw_addr net) m \<in> set cs"
    using usable_candidate [OF wf net ps m(2)] m(2) by (auto simp: c)
  moreover have "with_int (nw_addr net) m \<noteq> b" using m(1) ab by auto
  moreover have "ip_int b \<le> ip_int z" if "z \<in> set zs" for z
    using srt that by (auto simp: split sorted_append)
  ultimately have "with_int (nw_addr net) m \<in> set ys"
    using m(1) ab by (fastforce simp: split)
  then show ?thesis using ys by fastforce
qed

text \<open>
  A block too small for two boundary addresses (IPv4 /31 and /32, IPv6 /127 and /128) and
  without pools has no candidate range: the allocator raises a validation error or a \<open>ValueError\<close>, never
  the conflict that its documentation gives for a subnet without free addresses.
\<close>

lemma tiny_subnet_error:
  assumes net: "ip_network (sub_cidr s) True = Some net" and tiny: "host_count net \<le> 2"
    and none: "sub_pools s = []"
  shows "next_available_ip s used \<in> {Inl err_validation, Inl (PyError PyValueError)}"
proof -
  have "effective_pools s net \<noteq> Inr ps" for ps
    using default_pool(2) [OF net none] tiny by force
  then obtain e where e: "effective_pools s net = Inl e"
    by (cases "effective_pools s net") auto
  moreover have "e \<in> {err_validation, PyError PyValueError}"
    using e by (auto simp: effective_pools_def bindE_Inl_iff ip_add_def ip_sub1_def mk_ip_range_def
        ip_range_check_def Let_def split: if_splits option.splits)
  ultimately show ?thesis
    by (auto simp: next_available_ip_def iter_candidates_def net)
qed

subsection \<open>Examples\<close>

definition bare_subnet :: "string \<Rightarrow> subnet" where
  "bare_subnet cidr = \<lparr>sub_id = ''sub_2'', sub_cidr = cidr, sub_gateway = None,
     sub_dns_servers = [], sub_pools = [], sub_reserved = [], sub_dhcp = None, sub_dns_zone = None\<rparr>"

definition pool_subnet :: subnet where
  "pool_subnet = example_subnet\<lparr>sub_pools := [\<lparr>rng_start = ''10.0.0.10'', rng_end = ''10.0.0.12''\<rparr>]\<rparr>"

lemmas alloc_evals = next_available_ip_def iter_candidates_def effective_pools_def pool_values_def
  candidate_ok_def in_net_def host_count_def broadcast_def taken_ints_def map_filter_def
  rng_contains_def

lemma example_strs:
  "str_ip (V4 167772170) = ''10.0.0.10''" "str_ip (V4 167772171) = ''10.0.0.11''"
  "str_ip (V4 167772172) = ''10.0.0.12''"
  by (simp_all add: v4_octets_def str_nat_def digits_step digits_less digit_char_def)

lemma pool_subnet_wf: "subnet_wf pool_subnet"
  by (simp add: subnet_wf_def subnet_check_def pool_subnet_def example_subnet_def example_net
      example_addrs in_net_def host_count_def require_inside_cidr_def rng_overlaps_def
      rng_contains_def rng_wf_def ip_range_check_def)

lemma pool_subnet_net: "ip_network (sub_cidr pool_subnet) True = Some (IpNet (V4 167772160) 24)"
  by (simp add: pool_subnet_def example_subnet_def example_net)

lemma pool_subnet_alloc:
  "next_available_ip pool_subnet [''10.0.0.10''] = Inr ''10.0.0.12''"
  "next_available_ip pool_subnet [''10.0.0.10'', ''10.0.0.12''] = Inl err_conflict"
  by (simp_all add: alloc_evals pool_subnet_def example_subnet_def example_net example_addrs
      example_strs del: str_ip.simps)

theorem next_available_ip_sound_witness:
  "is_address_assignable pool_subnet ''10.0.0.12'' = Inr ()"
  using next_available_ip_sound [OF pool_subnet_wf pool_subnet_net _ pool_subnet_alloc(1)] by auto

lemma next_available_ip_complete_witness:
  "167772172 \<in> set (taken_ints [''10.0.0.10'', ''10.0.0.12''])"
  by (rule next_available_ip_complete [OF pool_subnet_wf pool_subnet_net _ pool_subnet_alloc(2)])
    (simp_all add: usable_def pool_subnet_def example_subnet_def gateway_int_def rng_set_def
      example_addrs host_count_def)

lemma bare_net: "ip_network ''10.0.0.8/29'' True = Some (IpNet (V4 167772168) 29)"
  by (simp add: net_evals)

lemma bare_subnet_wf: "subnet_wf (bare_subnet ''10.0.0.8/29'')"
  by (simp add: subnet_wf_def subnet_check_def bare_subnet_def bare_net)

lemma bare_alloc:
  "next_available_ip (bare_subnet ''10.0.0.8/29'') [''10.0.0.9'', ''10.0.0.10''] = Inr ''10.0.0.11''"
  by (simp add: alloc_evals bare_subnet_def bare_net ip_add_def ip_sub1_def mk_ip_range_def
      ip_range_check_def ip_address_str_ip example_strs example_addrs ip_evals
      v4_octets_def str_nat_def)

lemma next_available_ip_lowest_witness:
  "167772170 \<in> set (taken_ints [''10.0.0.9'', ''10.0.0.10''])"
  by (rule next_available_ip_lowest [OF bare_subnet_wf _ _ _ bare_alloc, of "IpNet (V4 167772168) 29" "V4 167772171"])
    (simp_all add: bare_subnet_def bare_net usable_def gateway_int_def example_addrs host_count_def)

lemma tiny_subnet_error_witness:
  "next_available_ip (bare_subnet ''10.0.0.8/32'') [] \<in> {Inl err_validation, Inl (PyError PyValueError)}"
  by (rule tiny_subnet_error [of _ "IpNet (V4 167772168) 32"])
    (simp_all add: bare_subnet_def net_evals host_count_def)

end
