(* ===== verification/Locks.thy ===== *)
theory Locks
  imports Errors
begin

text \<open>
  The lock store that keeps two applies of one network apart (\<open>ports/locks.py\<close>), as the interface
  \<open>lock_store\<close>, and its two implementations of \<open>adapters/locks.py\<close>: the in-memory dictionary and
  the SQL table \<open>operation_locks\<close>. A table is the list of its rows; \<open>DELETE ... WHERE\<close> filters it
  and \<open>INSERT\<close> fails when the primary key \<open>key\<close> is taken. Both read the clock once per call.
\<close>

subsection \<open>Interface\<close>

text \<open>
  \<open>owner_at s k t\<close> is who holds \<open>k\<close> at time \<open>t\<close>. The laws are the port's contract: an attempt
  succeeds exactly when nobody else holds the key, a successful one makes the caller the holder
  until its time runs out (a holder that asks again keeps its old deadline), a failed one changes
  nothing, and a release only ever removes the caller's own lock.
\<close>

locale lock_store =
  fixes try_lock :: "time \<Rightarrow> string \<Rightarrow> string \<Rightarrow> int \<Rightarrow> 's \<Rightarrow> 's \<times> bool"
    and release :: "string \<Rightarrow> string \<Rightarrow> 's \<Rightarrow> 's"
    and owner_at :: "'s \<Rightarrow> string \<Rightarrow> time \<Rightarrow> string option"
    and ok :: "'s \<Rightarrow> bool"
  assumes try_ok: "ok s \<Longrightarrow> ok (fst (try_lock now k own ttl s))"
    and rel_ok: "ok s \<Longrightarrow> ok (release k own s)"
    and try_result: "ok s \<Longrightarrow> snd (try_lock now k own ttl s) \<longleftrightarrow> owner_at s k now \<in> {None, Some own}"
    and try_takes: "ok s \<Longrightarrow> owner_at s k now = None \<Longrightarrow>
      owner_at (fst (try_lock now k own ttl s)) k t = (if t < now + seconds ttl then Some own else None)"
    and try_keeps: "ok s \<Longrightarrow> owner_at s k now \<noteq> None \<Longrightarrow>
      owner_at (fst (try_lock now k own ttl s)) k t = owner_at s k t"
    and try_frame: "ok s \<Longrightarrow> k' \<noteq> k \<Longrightarrow>
      owner_at (fst (try_lock now k own ttl s)) k' t = owner_at s k' t"
    and rel_own: "ok s \<Longrightarrow> owner_at s k t = Some own \<Longrightarrow> owner_at (release k own s) k t' = None"
    and rel_frame: "ok s \<Longrightarrow> owner_at s k' t = Some own' \<Longrightarrow> k' \<noteq> k \<or> own' \<noteq> own \<Longrightarrow>
      owner_at (release k own s) k' t = Some own'"
    and rel_mono: "ok s \<Longrightarrow> owner_at s k' t = None \<Longrightarrow> owner_at (release k own s) k' t = None"
begin

lemma excluded: "ok s \<Longrightarrow> owner_at s k now = Some a \<Longrightarrow> b \<noteq> a \<Longrightarrow> \<not> snd (try_lock now k b ttl s)"
  by (simp add: try_result)

lemma winner_excludes:
  assumes "ok s" "snd (try_lock now k a ttl s)" "owner_at s k now = None" "now \<le> t" "t < now + seconds ttl"
    and "b \<noteq> a"
  shows "\<not> snd (try_lock t k b ttl' (fst (try_lock now k a ttl s)))"
  using assms by (intro excluded) (simp_all add: try_ok try_takes)

lemma others_release_harmless:
  "ok s \<Longrightarrow> owner_at s k t = Some a \<Longrightarrow> b \<noteq> a \<Longrightarrow> owner_at (release k b s) k t = Some a"
  by (simp add: rel_frame)

lemma expired_is_free:
  assumes "ok s" "owner_at s k now = None" "now + seconds ttl \<le> t"
  shows "snd (try_lock t k b ttl' (fst (try_lock now k a ttl s)))"
  using assms by (simp add: try_result try_ok try_takes)

lemma released_is_free:
  "ok s \<Longrightarrow> owner_at s k t = Some a \<Longrightarrow> snd (try_lock t' k b ttl (release k a s))"
  by (simp add: try_result rel_ok rel_own)

end

subsection \<open>In-memory store\<close>

type_synonym held = "(string, string \<times> time) dict"

definition mem_try_lock :: "time \<Rightarrow> string \<Rightarrow> string \<Rightarrow> int \<Rightarrow> held \<Rightarrow> held \<times> bool" where
  "mem_try_lock now k own ttl s =
     (case dget s k of
        Some (holder, expires) \<Rightarrow>
          if expires > now then (s, holder = own) else (dset k (own, now + seconds ttl) s, True)
      | None \<Rightarrow> (dset k (own, now + seconds ttl) s, True))"

definition mem_release :: "string \<Rightarrow> string \<Rightarrow> held \<Rightarrow> held" where
  "mem_release k own s =
     (case dget s k of None \<Rightarrow> s
      | Some (holder, _) \<Rightarrow> if holder \<noteq> own then s else dpop k s)"

definition mem_current_owner :: "held \<Rightarrow> string \<Rightarrow> time \<Rightarrow> string option" where
  "mem_current_owner s k now =
     (case dget s k of None \<Rightarrow> None
      | Some (holder, expires) \<Rightarrow> if expires \<le> now then None else Some holder)"

interpretation mem: lock_store mem_try_lock mem_release mem_current_owner "\<lambda>_. True"
  by unfold_locales
    (auto simp: mem_try_lock_def mem_release_def mem_current_owner_def split: option.splits if_splits)

subsection \<open>SQL store\<close>

record lock_row =
  lr_key :: string
  lr_owner :: string
  lr_expires_at :: time

type_synonym lock_table = "lock_row list"

definition sql_insert :: "lock_row \<Rightarrow> lock_table \<Rightarrow> lock_table option" where
  "sql_insert r tab = (if list_ex (\<lambda>x. lr_key x = lr_key r) tab then None else Some (tab @ [r]))"

definition sql_get :: "lock_table \<Rightarrow> string \<Rightarrow> lock_row option" where
  "sql_get tab k = find (\<lambda>r. lr_key r = k) tab"

text \<open>
  When the insert hits the primary key, the session is rolled back: the delete before it is undone
  as well. It removed nothing then, since a row of the key survived it.
\<close>

definition sql_try_lock :: "time \<Rightarrow> string \<Rightarrow> string \<Rightarrow> int \<Rightarrow> lock_table \<Rightarrow> lock_table \<times> bool" where
  "sql_try_lock now k own ttl tab =
     (let cleaned = filter (\<lambda>r. \<not> (lr_key r = k \<and> lr_expires_at r \<le> now)) tab in
      case sql_insert \<lparr>lr_key = k, lr_owner = own, lr_expires_at = now + seconds ttl\<rparr> cleaned of
        Some tab' \<Rightarrow> (tab', True)
      | None \<Rightarrow> (tab, (case sql_get tab k of None \<Rightarrow> False | Some r \<Rightarrow> lr_owner r = own)))"

definition sql_release :: "string \<Rightarrow> string \<Rightarrow> lock_table \<Rightarrow> lock_table" where
  "sql_release k own tab = filter (\<lambda>r. \<not> (lr_key r = k \<and> lr_owner r = own)) tab"

definition sql_current_owner :: "lock_table \<Rightarrow> string \<Rightarrow> time \<Rightarrow> string option" where
  "sql_current_owner tab k now =
     map_option lr_owner (find (\<lambda>r. lr_key r = k \<and> lr_expires_at r > now) tab)"

definition lock_table_ok :: "lock_table \<Rightarrow> bool" where
  "lock_table_ok tab \<longleftrightarrow> distinct (List.map lr_key tab)"

text \<open>The table as the dictionary it stores.\<close>

definition held_of :: "lock_table \<Rightarrow> held" where
  "held_of tab = List.map (\<lambda>r. (lr_key r, (lr_owner r, lr_expires_at r))) tab"

lemma sql_get_simps [simp]:
  "sql_get [] k = None"
  "sql_get (r # tab) k = (if lr_key r = k then Some r else sql_get tab k)"
  by (simp_all add: sql_get_def)

lemma sql_get_key: "sql_get tab k = Some r \<Longrightarrow> lr_key r = k"
  by (induction tab) (auto split: if_splits)

lemma sql_get_None: "sql_get tab k = None \<longleftrightarrow> k \<notin> lr_key ` set tab"
  by (induction tab) auto

lemma dget_held_of: "dget (held_of tab) k = map_option (\<lambda>r. (lr_owner r, lr_expires_at r)) (sql_get tab k)"
  by (induction tab) (auto simp: held_of_def)

lemma sql_get_filter:
  "lock_table_ok tab \<Longrightarrow> sql_get (filter P tab) k =
     (case sql_get tab k of None \<Rightarrow> None | Some r \<Rightarrow> if P r then Some r else None)"
proof (induction tab)
  case (Cons r tab)
  have "sql_get tab (lr_key r) = None"
    using Cons.prems by (simp add: lock_table_ok_def sql_get_None)
  moreover have "lock_table_ok tab" using Cons.prems by (simp add: lock_table_ok_def)
  ultimately show ?case using Cons.IH by (cases "lr_key r = k") auto
qed simp

lemma sql_find_None: "sql_get tab k = None \<Longrightarrow> find (\<lambda>r. lr_key r = k \<and> Q r) tab = None"
  by (induction tab) (auto split: if_splits)

lemma sql_owner_find:
  "lock_table_ok tab \<Longrightarrow> sql_current_owner tab k now = mem_current_owner (held_of tab) k now"
proof (induction tab)
  case (Cons r tab)
  have "sql_get tab (lr_key r) = None" "lock_table_ok tab"
    using Cons.prems by (simp_all add: lock_table_ok_def sql_get_None)
  then show ?case
    using Cons.IH sql_find_None [of tab k "\<lambda>r. lr_expires_at r > now"]
    by (cases "lr_key r = k")
      (auto simp: sql_current_owner_def mem_current_owner_def dget_held_of)
qed (simp add: sql_current_owner_def mem_current_owner_def held_of_def)

lemma sql_get_append: "sql_get (tab @ [r]) k =
    (case sql_get tab k of None \<Rightarrow> if lr_key r = k then Some r else None | Some x \<Rightarrow> Some x)"
  by (induction tab) auto

lemma sql_insert_cases:
  "sql_insert r tab = (if sql_get tab (lr_key r) = None then Some (tab @ [r]) else None)"
  by (auto simp: sql_insert_def sql_get_None list_ex_iff image_iff) metis+

lemma sql_cleaned:
  assumes "lock_table_ok tab"
  shows "sql_get (filter (\<lambda>r. \<not> (lr_key r = k \<and> lr_expires_at r \<le> now)) tab) k' =
    (case sql_get tab k' of None \<Rightarrow> None
     | Some r \<Rightarrow> if k' = k \<and> lr_expires_at r \<le> now then None else Some r)"
  using sql_get_key [of tab k'] by (auto simp: sql_get_filter [OF assms] split: option.splits)

lemma sql_try_refines:
  assumes "lock_table_ok tab"
  shows "lock_table_ok (fst (sql_try_lock now k own ttl tab)) \<and>
    snd (sql_try_lock now k own ttl tab) = snd (mem_try_lock now k own ttl (held_of tab)) \<and>
    dget (held_of (fst (sql_try_lock now k own ttl tab))) =
      dget (fst (mem_try_lock now k own ttl (held_of tab)))"
proof -
  let ?c = "filter (\<lambda>r. \<not> (lr_key r = k \<and> lr_expires_at r \<le> now)) tab"
  let ?r = "\<lparr>lr_key = k, lr_owner = own, lr_expires_at = now + seconds ttl\<rparr>"
  note at = sql_cleaned [OF assms, of k now]
  have okc: "lock_table_ok ?c" using assms by (simp add: lock_table_ok_def distinct_map_filter)
  show ?thesis
  proof (cases "sql_get ?c k")
    case (Some r)
    then have "sql_get tab k = Some r" "\<not> lr_expires_at r \<le> now"
      using at [of k] by (auto split: option.splits if_splits)
    then show ?thesis
      using Some assms by (simp add: sql_try_lock_def mem_try_lock_def dget_held_of sql_insert_cases)
  next
    case None
    have free: "sql_get tab k = None \<or> (\<exists>r. sql_get tab k = Some r \<and> lr_expires_at r \<le> now)"
      using None at [of k] by (auto split: option.splits if_splits)
    have "lock_table_ok (?c @ [?r])"
      using okc None by (simp add: lock_table_ok_def sql_get_None image_iff)
    moreover have "dget (held_of (?c @ [?r])) k' = dget (dset k (own, now + seconds ttl) (held_of tab)) k'" for k'
      using None at [of k'] by (auto simp: dget_held_of sql_get_append split: option.splits)
    moreover have "sql_try_lock now k own ttl tab = (?c @ [?r], True)"
      using None by (simp add: sql_try_lock_def sql_insert_cases Let_def)
    moreover have "mem_try_lock now k own ttl (held_of tab) = (dset k (own, now + seconds ttl) (held_of tab), True)"
      using free by (auto simp: mem_try_lock_def dget_held_of)
    ultimately show ?thesis by (simp add: fun_eq_iff)
  qed
qed

lemma sql_release_refines:
  assumes "lock_table_ok tab"
  shows "lock_table_ok (sql_release k own tab) \<and>
    dget (held_of (sql_release k own tab)) = dget (mem_release k own (held_of tab))"
proof -
  have "lock_table_ok (sql_release k own tab)"
    using assms by (simp add: sql_release_def lock_table_ok_def distinct_map_filter)
  moreover have "dget (held_of (sql_release k own tab)) k' = dget (mem_release k own (held_of tab)) k'" for k'
    using sql_get_filter [OF assms, of "\<lambda>r. \<not> (lr_key r = k \<and> lr_owner r = own)" k']
      sql_get_key [of tab k']
    by (cases "k' = k") (auto simp: sql_release_def mem_release_def dget_held_of split: option.splits)
  ultimately show ?thesis by (simp add: fun_eq_iff)
qed

lemma mem_owner_cong: "dget a = dget b \<Longrightarrow> mem_current_owner a k t = mem_current_owner b k t"
  by (simp add: mem_current_owner_def)

interpretation sql: lock_store sql_try_lock sql_release sql_current_owner lock_table_ok
proof unfold_locales
  fix s now k own ttl
  assume ok: "lock_table_ok s"
  note r = sql_try_refines [OF ok, of now k own ttl]
  have o1: "sql_current_owner s k' t = mem_current_owner (held_of s) k' t" for k' t
    by (rule sql_owner_find [OF ok])
  have o2: "sql_current_owner (fst (sql_try_lock now k own ttl s)) k' t =
      mem_current_owner (fst (mem_try_lock now k own ttl (held_of s))) k' t" for k' t
    using r sql_owner_find [of "fst (sql_try_lock now k own ttl s)" k' t] mem_owner_cong by metis
  show "lock_table_ok (fst (sql_try_lock now k own ttl s))" using r by simp
  show "snd (sql_try_lock now k own ttl s) \<longleftrightarrow> sql_current_owner s k now \<in> {None, Some own}"
    using r mem.try_result by (simp add: o1)
  show "sql_current_owner (fst (sql_try_lock now k own ttl s)) k t =
      (if t < now + seconds ttl then Some own else None)"
    if "sql_current_owner s k now = None" for t
    using that mem.try_takes [of "held_of s" k now own ttl t] unfolding o1 o2 by simp
  show "sql_current_owner (fst (sql_try_lock now k own ttl s)) k t = sql_current_owner s k t"
    if "sql_current_owner s k now \<noteq> None" for t
    using that mem.try_keeps unfolding o1 o2 by simp
  show "sql_current_owner (fst (sql_try_lock now k own ttl s)) k' t = sql_current_owner s k' t"
    if "k' \<noteq> k" for k' t
    using that mem.try_frame unfolding o1 o2 by simp
next
  fix s k own
  assume ok: "lock_table_ok s"
  note r = sql_release_refines [OF ok, of k own]
  have o1: "sql_current_owner s k' t = mem_current_owner (held_of s) k' t" for k' t
    by (rule sql_owner_find [OF ok])
  have o2: "sql_current_owner (sql_release k own s) k' t =
      mem_current_owner (mem_release k own (held_of s)) k' t" for k' t
    using r sql_owner_find [of "sql_release k own s" k' t] mem_owner_cong by metis
  show "lock_table_ok (sql_release k own s)" using r by simp
  show "sql_current_owner (sql_release k own s) k t' = None"
    if "sql_current_owner s k t = Some own" for t t'
    using that mem.rel_own unfolding o1 o2 by simp
  show "sql_current_owner (sql_release k own s) k' t = Some own'"
    if "sql_current_owner s k' t = Some own'" "k' \<noteq> k \<or> own' \<noteq> own" for k' t own'
    using that mem.rel_frame unfolding o1 o2 by simp
  show "sql_current_owner (sql_release k own s) k' t = None"
    if "sql_current_owner s k' t = None" for k' t
    using that mem.rel_mono unfolding o1 o2 by simp
qed

subsection \<open>Properties\<close>

datatype lock_call = TryLock time string string int | Release string string

text \<open>A sequence of calls on each store, with the answers of the attempts.\<close>

fun mem_run :: "lock_call list \<Rightarrow> held \<Rightarrow> held \<times> bool list" where
  "mem_run [] s = (s, [])"
| "mem_run (TryLock t k own ttl # cs) s =
     (let (s1, got) = mem_try_lock t k own ttl s; (s2, rs) = mem_run cs s1 in (s2, got # rs))"
| "mem_run (Release k own # cs) s = mem_run cs (mem_release k own s)"

fun sql_run :: "lock_call list \<Rightarrow> lock_table \<Rightarrow> lock_table \<times> bool list" where
  "sql_run [] s = (s, [])"
| "sql_run (TryLock t k own ttl # cs) s =
     (let (s1, got) = sql_try_lock t k own ttl s; (s2, rs) = sql_run cs s1 in (s2, got # rs))"
| "sql_run (Release k own # cs) s = sql_run cs (sql_release k own s)"

lemma mem_try_cong:
  "dget a = dget b \<Longrightarrow> snd (mem_try_lock t k own ttl a) = snd (mem_try_lock t k own ttl b) \<and>
   dget (fst (mem_try_lock t k own ttl a)) = dget (fst (mem_try_lock t k own ttl b))"
  by (auto simp: mem_try_lock_def fun_eq_iff split: option.splits)

lemma mem_release_cong: "dget a = dget b \<Longrightarrow> dget (mem_release k own a) = dget (mem_release k own b)"
  by (auto simp: mem_release_def fun_eq_iff split: option.splits)

lemma runs_agree:
  "lock_table_ok tab \<Longrightarrow> dget (held_of tab) = dget s \<Longrightarrow>
   snd (sql_run cs tab) = snd (mem_run cs s) \<and> lock_table_ok (fst (sql_run cs tab)) \<and>
   dget (held_of (fst (sql_run cs tab))) = dget (fst (mem_run cs s))"
proof (induction cs arbitrary: tab s)
  case (Cons c cs)
  show ?case
  proof (cases c)
    case (TryLock t k own ttl)
    have "dget (held_of (fst (sql_try_lock t k own ttl tab))) = dget (fst (mem_try_lock t k own ttl s))"
      "snd (sql_try_lock t k own ttl tab) = snd (mem_try_lock t k own ttl s)"
      using sql_try_refines [OF Cons.prems(1), of t k own ttl]
        mem_try_cong [OF Cons.prems(2), of t k own ttl] by simp_all
    then show ?thesis
      using Cons.IH [of "fst (sql_try_lock t k own ttl tab)" "fst (mem_try_lock t k own ttl s)"]
        sql_try_refines [OF Cons.prems(1), of t k own ttl]
      by (simp add: TryLock Let_def split_beta)
  next
    case (Release k own)
    then show ?thesis
      using Cons.IH [of "sql_release k own tab" "mem_release k own s"]
        sql_release_refines [OF Cons.prems(1), of k own] mem_release_cong [OF Cons.prems(2), of k own]
      by simp
  qed
qed simp

text \<open>
  C32. The two lock stores are interchangeable: started empty, the SQL store answers every sequence
  of attempts and releases, by any owners at any times, exactly as the in-memory store does, and
  afterwards names the same holder of every key at every time.
\<close>

theorem lock_stores_agree:
  "snd (sql_run cs []) = snd (mem_run cs []) \<and>
   sql_current_owner (fst (sql_run cs [])) k now = mem_current_owner (fst (mem_run cs [])) k now"
proof -
  have "lock_table_ok []" "dget (held_of []) = dget []"
    by (simp_all add: lock_table_ok_def held_of_def)
  from runs_agree [OF this, of cs] show ?thesis
    using sql_owner_find [of "fst (sql_run cs [])" k now] mem_owner_cong by metis
qed

text \<open>Calls before the deadline that are not the holder's release.\<close>

fun foreign_calls :: "string \<Rightarrow> string \<Rightarrow> time \<Rightarrow> time \<Rightarrow> lock_call list \<Rightarrow> bool" where
  "foreign_calls k a lo hi [] \<longleftrightarrow> True"
| "foreign_calls k a lo hi (TryLock t k' b ttl # cs) \<longleftrightarrow> lo \<le> t \<and> t < hi \<and> foreign_calls k a lo hi cs"
| "foreign_calls k a lo hi (Release k' b # cs) \<longleftrightarrow> (k' = k \<longrightarrow> b \<noteq> a) \<and> foreign_calls k a lo hi cs"

lemma held_through:
  "(\<forall>t. lo \<le> t \<and> t < hi \<longrightarrow> mem_current_owner s k t = Some a) \<Longrightarrow> foreign_calls k a lo hi cs \<Longrightarrow>
   lo \<le> t \<Longrightarrow> t < hi \<Longrightarrow> mem_current_owner (fst (mem_run cs s)) k t = Some a"
proof (induction cs arbitrary: s)
  case (Cons c cs)
  show ?case
  proof (cases c)
    case (TryLock t' k' b ttl)
    then have "\<forall>t. lo \<le> t \<and> t < hi \<longrightarrow> mem_current_owner (fst (mem_try_lock t' k' b ttl s)) k t = Some a"
      using Cons.prems mem.try_keeps [where s = s and k = k and now = t' and own = b and ttl = ttl]
        mem.try_frame [where s = s and k = k' and k' = k and now = t' and own = b and ttl = ttl]
      by (cases "k' = k") auto
    then show ?thesis
      using Cons.IH Cons.prems TryLock by (simp add: Let_def split_beta)
  next
    case (Release k' b)
    then have "\<forall>t. lo \<le> t \<and> t < hi \<longrightarrow> mem_current_owner (mem_release k' b s) k t = Some a"
      using Cons.prems mem.rel_frame by auto
    then show ?thesis using Cons.IH Cons.prems Release by simp
  qed
qed simp

text \<open>
  C34. A taken lock excludes everybody else until it is released by its holder or its time runs
  out: between the taking and the deadline no other owner's attempt succeeds, whatever attempts
  of others and releases under other names happen in between.
\<close>

theorem lock_mutual_exclusion:
  assumes "mem_current_owner s k t0 = None" "foreign_calls k a t0 (t0 + seconds ttl) cs"
    and "t0 \<le> t" "t < t0 + seconds ttl" "b \<noteq> a"
  shows "\<not> snd (mem_try_lock t k b ttl' (fst (mem_run cs (fst (mem_try_lock t0 k a ttl s)))))"
proof -
  have "\<forall>t. t0 \<le> t \<and> t < t0 + seconds ttl \<longrightarrow>
      mem_current_owner (fst (mem_try_lock t0 k a ttl s)) k t = Some a"
    using mem.try_takes [OF TrueI assms(1)] by simp
  from held_through [OF this assms(2-4)] show ?thesis
    using mem.excluded [OF TrueI _ assms(5)] by blast
qed

theorem lock_mutual_exclusion_witness:
  "\<not> snd (mem_try_lock 20 ''k'' ''op_b'' 300
      (fst (mem_run [TryLock 10 ''k'' ''op_b'' 300, Release ''k'' ''op_b'']
        (fst (mem_try_lock 0 ''k'' ''op_a'' 300 [])))))"
  by (rule lock_mutual_exclusion) (simp_all add: mem_current_owner_def)

end
