(* ===== verification/World.thy ===== *)
theory World
  imports Use_Case Outbox Operation Node Ip_Allocator Agent_Port Locks
begin

text \<open>
  The state a controller's use cases share, and the in-memory repositories they reach it through
  (\<open>adapters/memory/repositories.py\<close>): nodes, networks, operations, observed states, IP
  allocations and enrolment tokens, each an insertion-ordered dictionary keyed by id, the lock
  store and the event outbox, with the number of clock readings and id draws so far and the state
  of the agents. Repositories copy what they store and return, so values model them.
\<close>

subsection \<open>Entities\<close>

record ip_allocation =
  ipa_id :: string
  ipa_subnet_id :: string
  ipa_address :: string
  ipa_owner :: owner_ref
  ipa_kind :: alloc_kind
  ipa_allocated_at :: time
  ipa_label :: "string option"

definition ip_allocation_check :: "ip_allocation \<Rightarrow> exc + unit" where
  "ip_allocation_check a =
     bindE (require (ip_address (ipa_address a) \<noteq> None) err_validation) (\<lambda>_.
     require (own_type (ipa_owner a) \<noteq> [] \<and> own_id (ipa_owner a) \<noteq> []) err_validation)"

text \<open>The hash function of tokens (\<open>hashlib.sha256\<close>) is the parameter \<open>h\<close>.\<close>

record enrollment_token =
  etk_id :: string
  etk_node_id :: string
  etk_token_hash :: string
  etk_issued_at :: time
  etk_expires_at :: time
  etk_used_at :: "time option"
  etk_issued_by :: "string option"

definition issue_token ::
  "(string \<Rightarrow> string) \<Rightarrow> string \<Rightarrow> string \<Rightarrow> string \<Rightarrow> time \<Rightarrow> time \<Rightarrow> string option
     \<Rightarrow> exc + enrollment_token" where
  "issue_token h tid nid plaintext now ttl by =
     bindE (require (\<not> ttl \<le> 0) err_validation) (\<lambda>_.
     Inr \<lparr>etk_id = tid, etk_node_id = nid, etk_token_hash = h plaintext, etk_issued_at = now,
          etk_expires_at = now + ttl, etk_used_at = None, etk_issued_by = by\<rparr>)"

definition token_is_expired :: "time \<Rightarrow> enrollment_token \<Rightarrow> bool" where
  "token_is_expired now t \<longleftrightarrow> now \<ge> etk_expires_at t"

definition consume_token :: "time \<Rightarrow> enrollment_token \<Rightarrow> exc + enrollment_token" where
  "consume_token now t =
     bindE (require (etk_used_at t = None) err_conflict) (\<lambda>_.
     bindE (require (\<not> token_is_expired now t) err_conflict) (\<lambda>_.
     Inr (t\<lparr>etk_used_at := Some now\<rparr>)))"

subsection \<open>Repositories\<close>

definition node_by_name :: "string \<Rightarrow> (string, node) dict \<Rightarrow> node option" where
  "node_by_name name d = find (\<lambda>n. nd_name n = name) (dvalues d)"

definition node_save :: "node \<Rightarrow> (string, node) dict \<Rightarrow> (string, node) dict" where
  "node_save n d = dset (nd_id n) n d"

definition network_by_name :: "string \<Rightarrow> (string, network) dict \<Rightarrow> network option" where
  "network_by_name name d = find (\<lambda>n. net_name n = name) (dvalues d)"

definition network_by_subnet :: "string \<Rightarrow> (string, network) dict \<Rightarrow> network option" where
  "network_by_subnet sid d =
     find (\<lambda>n. case net_subnet n of None \<Rightarrow> False | Some s \<Rightarrow> sub_id s = sid) (dvalues d)"

definition network_save :: "network \<Rightarrow> (string, network) dict \<Rightarrow> (string, network) dict" where
  "network_save n d = dset (net_id n) n d"

definition operation_save :: "operation \<Rightarrow> (string, operation) dict \<Rightarrow> (string, operation) dict" where
  "operation_save o' d = dset (op_id o') o' d"

text \<open>\<open>sorted(..., reverse=True)\<close> keeps the order of equal keys, so it is a stable sort by the
  negated key.\<close>

definition operation_list :: "nat \<Rightarrow> (string, operation) dict \<Rightarrow> operation list" where
  "operation_list limit d = take limit (sort_key (\<lambda>o'. - op_created_at o') (dvalues d))"

definition operation_update_status ::
  "string \<Rightarrow> op_status \<Rightarrow> op_event \<Rightarrow> (string, operation) dict
     \<Rightarrow> exc + (string, operation) dict" where
  "operation_update_status oid st ev d =
     (case dget d oid of
        None \<Rightarrow> Inl err_not_found
      | Some o' \<Rightarrow> Inr (dset oid (o'\<lparr>op_status := st, op_updated_at := ev_at ev,
                                    op_events := op_events o' @ [ev]\<rparr>) d))"

definition delete_terminal_before ::
  "time \<Rightarrow> (string, operation) dict \<Rightarrow> (string, operation) dict \<times> int" where
  "delete_terminal_before cutoff d =
     (let victims = List.map fst (filter (\<lambda>(_, o').
            op_status o' \<in> {SUCCEEDED, FAILED, CANCELLED, ROLLED_BACK} \<and> op_updated_at o' < cutoff) d)
      in (fold dpop victims d, int (length victims)))"

definition observed_save ::
  "observed_state \<Rightarrow> (string, observed_state) dict \<Rightarrow> (string, observed_state) dict" where
  "observed_save s d = dset (os_node_id s) s d"

definition alloc_by_address ::
  "string \<Rightarrow> string \<Rightarrow> (string, ip_allocation) dict \<Rightarrow> ip_allocation option" where
  "alloc_by_address sid addr d =
     find (\<lambda>a. ipa_subnet_id a = sid \<and> ipa_address a = addr) (dvalues d)"

definition allocs_for_subnet :: "string \<Rightarrow> (string, ip_allocation) dict \<Rightarrow> ip_allocation list" where
  "allocs_for_subnet sid d = filter (\<lambda>a. ipa_subnet_id a = sid) (dvalues d)"

definition allocs_for_owner :: "owner_ref \<Rightarrow> (string, ip_allocation) dict \<Rightarrow> ip_allocation list" where
  "allocs_for_owner own d = filter (\<lambda>a. ipa_owner a = own) (dvalues d)"

definition alloc_save :: "ip_allocation \<Rightarrow> (string, ip_allocation) dict \<Rightarrow> (string, ip_allocation) dict" where
  "alloc_save a d = dset (ipa_id a) a d"

definition token_by_hash :: "string \<Rightarrow> (string, enrollment_token) dict \<Rightarrow> enrollment_token option" where
  "token_by_hash h d = find (\<lambda>t. etk_token_hash t = h) (dvalues d)"

definition tokens_for_node :: "string \<Rightarrow> (string, enrollment_token) dict \<Rightarrow> enrollment_token list" where
  "tokens_for_node nid d = filter (\<lambda>t. etk_node_id t = nid) (dvalues d)"

definition token_save ::
  "enrollment_token \<Rightarrow> (string, enrollment_token) dict \<Rightarrow> (string, enrollment_token) dict" where
  "token_save t d = dset (etk_id t) t d"

definition delete_tokens_for_node ::
  "string \<Rightarrow> (string, enrollment_token) dict \<Rightarrow> (string, enrollment_token) dict" where
  "delete_tokens_for_node nid d = fold dpop (List.map etk_id (tokens_for_node nid d)) d"

subsection \<open>State\<close>

record 'ag world =
  w_nodes :: "(string, node) dict"
  w_networks :: "(string, network) dict"
  w_operations :: "(string, operation) dict"
  w_observed :: "(string, observed_state) dict"
  w_allocations :: "(string, ip_allocation) dict"
  w_tokens :: "(string, enrollment_token) dict"
  w_locks :: held
  w_outbox :: outbox
  w_clock :: nat
  w_ids :: nat
  w_agent :: 'ag

definition nowM :: "env \<Rightarrow> ('ag world, 'e, time) act" where
  "nowM env = (\<lambda>w. (Inr (e_now env (w_clock w)), w\<lparr>w_clock := w_clock w + 1\<rparr>))"

definition freshM :: "env \<Rightarrow> id_kind \<Rightarrow> ('ag world, 'e, string) act" where
  "freshM env k = (\<lambda>w. (Inr (factory_id k (e_rnd env (w_ids w))), w\<lparr>w_ids := w_ids w + 1\<rparr>))"

text \<open>\<open>EventPublisher.publish\<close>: the id is drawn and the clock read before the event is checked.\<close>

definition publish ::
  "env \<Rightarrow> string \<Rightarrow> string \<Rightarrow> string option \<Rightarrow> payload \<Rightarrow> string option
     \<Rightarrow> ('ag world, exc, outbox_event) act" where
  "publish env event_type resource_type resource_id payload project =
     bindM (freshM env OutboxEventId) (\<lambda>i.
     bindM (nowM env) (\<lambda>now.
     let e = \<lparr>oev_id = i, oev_event_id = 0, oev_occurred_at = now, oev_event_type = event_type,
              oev_resource_type = resource_type, oev_resource_id = resource_id,
              oev_payload = payload, oev_delivered_at = None, oev_schema_version = 2,
              oev_project_id = project\<rparr>
     in bindM (liftM (outbox_event_check e)) (\<lambda>_.
        (\<lambda>w. (Inr (snd (outbox_append e (w_outbox w))),
              w\<lparr>w_outbox := fst (outbox_append e (w_outbox w))\<rparr>)))))"

text \<open>A record accepted and run through the machine in one call, as the CRUD use cases do it.\<close>

fun advance :: "env \<Rightarrow> (op_status \<times> string) list \<Rightarrow> operation \<Rightarrow> ('ag world, exc, operation) act" where
  "advance env [] op = returnM op"
| "advance env ((st, msg) # rest) op =
     bindM (nowM env) (\<lambda>now.
     bindM (liftM (transition_to st now msg None None op)) (\<lambda>op'. advance env rest op'))"

declare advance.simps [simp del]

abbreviation done_in :: "string \<Rightarrow> string \<Rightarrow> string \<Rightarrow> string \<Rightarrow> (op_status \<times> string) list" where
  "done_in a b c d \<equiv> [(PLANNING, a), (RUNNING, b), (VERIFYING, c), (SUCCEEDED, d)]"


subsection \<open>What publishing and advancing do\<close>

definition event_of ::
  "env \<Rightarrow> 'ag world \<Rightarrow> string \<Rightarrow> string \<Rightarrow> string option \<Rightarrow> payload \<Rightarrow> string option \<Rightarrow> outbox_event" where
  "event_of env w event_type resource_type resource_id payload project =
     \<lparr>oev_id = factory_id OutboxEventId (e_rnd env (w_ids w)), oev_event_id = 0,
      oev_occurred_at = e_now env (w_clock w), oev_event_type = event_type,
      oev_resource_type = resource_type, oev_resource_id = resource_id, oev_payload = payload,
      oev_delivered_at = None, oev_schema_version = 2, oev_project_id = project\<rparr>"

definition published :: "outbox_event \<Rightarrow> 'ag world \<Rightarrow> 'ag world" where
  "published e w = w\<lparr>w_ids := w_ids w + 1, w_clock := w_clock w + 1,
                     w_outbox := fst (outbox_append e (w_outbox w))\<rparr>"

lemma publish_run:
  assumes "CHR ''.'' \<in> set et" "rt \<noteq> []"
  shows "publish env et rt rid pl pr w =
    (Inr (snd (outbox_append (event_of env w et rt rid pl pr) (w_outbox w))),
     published (event_of env w et rt rid pl pr) w)"
proof -
  have "et \<noteq> []" using assms(1) by auto
  then show ?thesis
    using assms by (simp add: publish_def bindM_run freshM_def nowM_def Let_def outbox_event_check_def
        event_of_def published_def)
qed

lemma publish_cases:
  "publish env et rt rid pl pr w =
     (if CHR ''.'' \<in> set et \<and> rt \<noteq> [] then
        (Inr (snd (outbox_append (event_of env w et rt rid pl pr) (w_outbox w))),
         published (event_of env w et rt rid pl pr) w)
      else (Inl err_validation, w\<lparr>w_ids := w_ids w + 1, w_clock := w_clock w + 1\<rparr>))"
  using publish_run [of et rt env rid pl pr w]
  by (auto simp: publish_def bindM_run freshM_def nowM_def Let_def outbox_event_check_def bindE_def
      require_def)

lemma published_simps [simp]:
  "w_nodes (published e w) = w_nodes w" "w_networks (published e w) = w_networks w"
  "w_operations (published e w) = w_operations w" "w_observed (published e w) = w_observed w"
  "w_allocations (published e w) = w_allocations w" "w_tokens (published e w) = w_tokens w"
  "w_locks (published e w) = w_locks w" "w_agent (published e w) = w_agent w"
  "w_ids (published e w) = w_ids w + 1" "w_clock (published e w) = w_clock w + 1"
  "w_outbox (published e w) = fst (outbox_append e (w_outbox w))"
  by (simp_all add: published_def)

lemma advance_all:
  "\<exists>op'. advance env (done_in a b c d) (accept oid kind res now by msg) w =
     (Inr op', w\<lparr>w_clock := w_clock w + 4\<rparr>) \<and>
     op_status op' = SUCCEEDED \<and> op_id op' = oid \<and> op_kind op' = kind \<and> op_resource op' = res \<and>
     op_reach op'"
proof -
  let ?t = "\<lambda>k. e_now env (w_clock w + k)"
  let ?o0 = "accept oid kind res now by msg"
  have step: "\<exists>o'. transition_to st t m None None op = Inr o' \<and> op_status o' = st \<and> op_id o' = op_id op \<and>
      op_kind o' = op_kind op \<and> op_resource o' = op_resource op \<and> op_reach o'"
    if "st \<in> allowed_transitions (op_status op)" "op_reach op" for st t m op
  proof -
    have "transition_to st t m None None op \<noteq> Inl e" for e
      using that by (simp add: transition_to_def)
    then obtain o' where o': "transition_to st t m None None op = Inr o'"
      by (cases "transition_to st t m None None op") blast+
    then show ?thesis
      using op_reach.moved [OF that(2) o'] by (auto elim: transition_to_cases)
  qed
  have "op_reach ?o0" by (rule op_reach.accepted)
  then obtain o1 where o1: "transition_to PLANNING (?t 0) a None None ?o0 = Inr o1"
      "op_status o1 = PLANNING" "op_id o1 = oid" "op_kind o1 = kind" "op_resource o1 = res" "op_reach o1"
    using step [of PLANNING ?o0] by (auto simp: accept_def)
  then obtain o2 where o2: "transition_to RUNNING (?t 1) b None None o1 = Inr o2"
      "op_status o2 = RUNNING" "op_id o2 = oid" "op_kind o2 = kind" "op_resource o2 = res" "op_reach o2"
    using step [of RUNNING o1] by auto
  then obtain o3 where o3: "transition_to VERIFYING (?t 2) c None None o2 = Inr o3"
      "op_status o3 = VERIFYING" "op_id o3 = oid" "op_kind o3 = kind" "op_resource o3 = res" "op_reach o3"
    using step [of VERIFYING o2] by auto
  then obtain o4 where o4: "transition_to SUCCEEDED (?t 3) d None None o3 = Inr o4"
      "op_status o4 = SUCCEEDED" "op_id o4 = oid" "op_kind o4 = kind" "op_resource o4 = res" "op_reach o4"
    using step [of SUCCEEDED o3] by auto
  show ?thesis
    using o1(1) o2(1) o3(1) o4 by (simp add: advance.simps bindM_run nowM_def numeral_eq_Suc)
qed


subsection \<open>Calls that only read\<close>

text \<open>
  \<open>quiet w0 w\<close>: since w0 nothing but the clock was read and ids drawn. A use case reads, draws and
  checks first and writes last, so a call that raises before its writes is quiet.
\<close>

definition quiet :: "'ag world \<Rightarrow> 'ag world \<Rightarrow> bool" where
  "quiet w0 w \<longleftrightarrow> w_nodes w = w_nodes w0 \<and> w_networks w = w_networks w0 \<and>
     w_operations w = w_operations w0 \<and> w_observed w = w_observed w0 \<and>
     w_allocations w = w_allocations w0 \<and> w_tokens w = w_tokens w0 \<and> w_locks w = w_locks w0 \<and>
     w_outbox w = w_outbox w0 \<and> w_agent w = w_agent w0 \<and> w_ids w0 \<le> w_ids w"

lemma quiet_refl [simp]: "quiet w w"
  by (simp add: quiet_def)

lemma quiet_clock: "quiet w0 w \<Longrightarrow> quiet w0 (w\<lparr>w_clock := c\<rparr>)"
  by (simp add: quiet_def)

lemma quiet_ids: "quiet w0 w \<Longrightarrow> w_ids w \<le> i \<Longrightarrow> quiet w0 (w\<lparr>w_ids := i\<rparr>)"
  by (simp add: quiet_def)

lemma quiet_now: "spec (quiet w0) (nowM env) (\<lambda>_. quiet w0) E"
  by (auto simp: spec_def nowM_def intro: quiet_clock)

text \<open>A drawn id is one of the factory's, and later than every id drawn before.\<close>

definition drawn :: "env \<Rightarrow> nat \<Rightarrow> id_kind \<Rightarrow> string \<Rightarrow> bool" where
  "drawn env k kind s \<longleftrightarrow> (\<exists>i < k. s = factory_id kind (e_rnd env i))"

lemma drawn_mono: "drawn env k kind s \<Longrightarrow> k \<le> k' \<Longrightarrow> drawn env k' kind s"
proof -
  assume "drawn env k kind s" and le: "k \<le> k'"
  then obtain i where "i < k" "s = factory_id kind (e_rnd env i)" by (auto simp: drawn_def)
  with le have "i < k'" "s = factory_id kind (e_rnd env i)" by simp_all
  then show "drawn env k' kind s" unfolding drawn_def by blast
qed

lemma fresh_not_drawn:
  "inj (e_rnd env) \<Longrightarrow> k \<le> i \<Longrightarrow> \<not> drawn env k kind' (factory_id kind (e_rnd env i))"
  by (auto simp: drawn_def factory_id_inject dest: injD)

definition new_draw :: "env \<Rightarrow> id_kind \<Rightarrow> 'ag world \<Rightarrow> 'ag world \<Rightarrow> string \<Rightarrow> bool" where
  "new_draw env kind w0 w x \<longleftrightarrow>
     (\<exists>i. w_ids w0 \<le> i \<and> i < w_ids w \<and> x = factory_id kind (e_rnd env i))"

lemma quiet_fresh:
  "spec (quiet w0) (freshM env kind) (\<lambda>x w. quiet w0 w \<and> new_draw env kind w0 w x) E"
  by (auto simp: spec_def freshM_def new_draw_def quiet_def)

lemma new_draw_drawn: "new_draw env kind w0 w x \<Longrightarrow> drawn env (w_ids w) kind x"
  by (auto simp: new_draw_def drawn_def)

lemma new_draw_fresh:
  "inj (e_rnd env) \<Longrightarrow> new_draw env kind w0 w x \<Longrightarrow> \<not> drawn env (w_ids w0) kind' x"
  by (auto simp: new_draw_def fresh_not_drawn)

lemma quiet_get: "spec (quiet w0) (getM f) (\<lambda>x w. quiet w0 w \<and> x = f w) E"
  by (simp add: spec_def)

lemma quiet_lift: "spec (quiet w0) (liftM r) (\<lambda>x w. quiet w0 w \<and> r = Inr x) (\<lambda>_. quiet w0)"
  by (simp add: spec_def split: sum.split)

lemma quiet_simps:
  assumes "quiet w0 w"
  shows "w_nodes w = w_nodes w0" "w_networks w = w_networks w0" "w_operations w = w_operations w0"
    "w_observed w = w_observed w0" "w_allocations w = w_allocations w0" "w_tokens w = w_tokens w0"
    "w_locks w = w_locks w0" "w_outbox w = w_outbox w0" "w_agent w = w_agent w0" "w_ids w0 \<le> w_ids w"
  using assms by (auto simp: quiet_def)


lemma bindM_now: "bindM (nowM env) f w = f (e_now env (w_clock w)) (w\<lparr>w_clock := w_clock w + 1\<rparr>)"
  by (simp add: bindM_run nowM_def)

lemma bindM_fresh:
  "bindM (freshM env k) f w = f (factory_id k (e_rnd env (w_ids w))) (w\<lparr>w_ids := w_ids w + 1\<rparr>)"
  by (simp add: bindM_run freshM_def)

text \<open>Case analysis on the steps of a call; \<open>run_simps\<close> unfolds the primitive ones.\<close>

lemmas run_simps = bindM_Inl_iff bindM_Inr_iff nowM_def freshM_def Let_def bindM_guard

lemma advance_cases:
  assumes "advance env (done_in a b c d) (accept oid kind res now by msg) w = (r, w')"
  obtains op where "r = Inr op" "w' = w\<lparr>w_clock := w_clock w + 4\<rparr>" "op_status op = SUCCEEDED"
    "op_id op = oid" "op_kind op = kind" "op_resource op = res" "op_reach op"
  using assms advance_all [of env a b c d oid kind res now "by" msg w] by auto

lemma drawn_last: "i < k \<Longrightarrow> drawn env k kind (factory_id kind (e_rnd env i))"
  by (auto simp: drawn_def)

end
