(* ===== verification/Fake_Agent.thy ===== *)
theory Fake_Agent
  imports Switch
begin

text \<open>
  The controller's in-process agent (\<open>adapters/netos_agent/fake.py\<close>): a switch and its edge
  services per node, the executor of plan steps, and snapshots as JSON dumps. The \<open>_hash\<close> of a
  dump is the parameter \<open>digest\<close>. The executor is an \<open>ovs_backend\<close>, so plans computed by the diff
  engine converge on it.
\<close>

subsection \<open>State\<close>

record fa_port =
  fap_name :: string
  fap_type :: string
  fap_options :: sdict
  fap_tag :: "int option"
  fap_trunks :: "int list"
  fap_ids :: sdict

record fa_bridge =
  fab_name :: string
  fab_datapath :: string
  fab_ports :: "(string, fa_port) dict"
  fab_ids :: sdict

record node_state =
  nst_bridges :: "(string, fa_bridge) dict"
  nst_dhcp_scopes :: "(string, dhcp_scope) dict"
  nst_dns_zones :: "(string, dns_zone) dict"
  nst_nat_rules :: "(string, nat_rule) dict"
  nst_firewall_policies :: "(string, fw_policy_step) dict"

definition empty_node_state :: node_state where
  "empty_node_state = \<lparr>nst_bridges = [], nst_dhcp_scopes = [], nst_dns_zones = [],
     nst_nat_rules = [], nst_firewall_policies = []\<rparr>"

subsection \<open>Steps\<close>

definition fa_require_bridge :: "node_state \<Rightarrow> string \<Rightarrow> exc + fa_bridge" where
  "fa_require_bridge s name = of_option err_not_found (dget (nst_bridges s) name)"

definition fa_ensure_bridge ::
  "string \<Rightarrow> string \<Rightarrow> sdict \<Rightarrow> node_state \<Rightarrow> node_state \<times> bool" where
  "fa_ensure_bridge name dp ids s =
     (case dget (nst_bridges s) name of
        None \<Rightarrow> (s\<lparr>nst_bridges := dset name \<lparr>fab_name = name, fab_datapath = dp, fab_ports = [],
                                             fab_ids = sort_key fst ids\<rparr> (nst_bridges s)\<rparr>, True)
      | Some b \<Rightarrow>
          let (b1, ch1) = (if fab_datapath b \<noteq> dp then (b\<lparr>fab_datapath := dp\<rparr>, True) else (b, False));
              ids_sorted = sort_key fst ids;
              (b2, ch2) = (if \<not> dict_eq (fab_ids b1) ids_sorted
                           then (b1\<lparr>fab_ids := ids_sorted\<rparr>, True) else (b1, ch1))
          in (s\<lparr>nst_bridges := dset name b2 (nst_bridges s)\<rparr>, ch2))"

definition fa_ensure_port ::
  "string \<Rightarrow> string \<Rightarrow> string \<Rightarrow> sdict \<Rightarrow> int option \<Rightarrow> int list \<Rightarrow> sdict \<Rightarrow> node_state
     \<Rightarrow> exc + node_state \<times> bool" where
  "fa_ensure_port bridge name ty options tag trunks ids s =
     bindE (fa_require_bridge s bridge) (\<lambda>br.
     let new = \<lparr>fap_name = name, fap_type = ty, fap_options = sort_key fst options, fap_tag = tag,
                fap_trunks = sort trunks, fap_ids = sort_key fst ids\<rparr>;
         put = s\<lparr>nst_bridges := dset bridge (br\<lparr>fab_ports := dset name new (fab_ports br)\<rparr>)
                   (nst_bridges s)\<rparr>
     in case dget (fab_ports br) name of
          None \<Rightarrow> Inr (put, True)
        | Some old \<Rightarrow>
            if fap_type old = fap_type new \<and> dict_eq (fap_options old) (fap_options new) \<and>
               fap_tag old = fap_tag new \<and> fap_trunks old = fap_trunks new \<and>
               dict_eq (fap_ids old) (fap_ids new)
            then Inr (s, False) else Inr (put, True))"

fun fa_apply_step :: "plan_step \<Rightarrow> node_state \<Rightarrow> exc + node_state \<times> bool" where
  "fa_apply_step (EnsureBridgeStep name dp ids) s = Inr (fa_ensure_bridge name dp ids s)"
| "fa_apply_step (DeleteBridgeStep name) s =
     Inr (s\<lparr>nst_bridges := dpop name (nst_bridges s)\<rparr>, dget (nst_bridges s) name \<noteq> None)"
| "fa_apply_step (EnsurePortStep bridge name ty options tag trunks ids) s =
     fa_ensure_port bridge name ty options tag trunks ids s"
| "fa_apply_step (DeletePortStep bridge name) s =
     bindE (fa_require_bridge s bridge) (\<lambda>br.
     Inr (s\<lparr>nst_bridges := dset bridge (br\<lparr>fab_ports := dpop name (fab_ports br)\<rparr>) (nst_bridges s)\<rparr>,
          dget (fab_ports br) name \<noteq> None))"
| "fa_apply_step (EnsureVxlanPortStep bridge name vni remote_ip local_ip dst_port mtu ids) s =
     fa_ensure_port bridge name ''vxlan'' (vxlan_step_options vni remote_ip local_ip dst_port mtu)
       None [] ids s"
| "fa_apply_step (EnsureDhcpScopeStep spec) s =
     (if dget (nst_dhcp_scopes s) (ds_scope_id spec) = Some spec then Inr (s, False)
      else Inr (s\<lparr>nst_dhcp_scopes := dset (ds_scope_id spec) spec (nst_dhcp_scopes s)\<rparr>, True))"
| "fa_apply_step (DeleteDhcpScopeStep k) s =
     Inr (s\<lparr>nst_dhcp_scopes := dpop k (nst_dhcp_scopes s)\<rparr>, dget (nst_dhcp_scopes s) k \<noteq> None)"
| "fa_apply_step (EnsureDnsZoneStep spec) s =
     (if dget (nst_dns_zones s) (dz_zone spec) = Some spec then Inr (s, False)
      else Inr (s\<lparr>nst_dns_zones := dset (dz_zone spec) spec (nst_dns_zones s)\<rparr>, True))"
| "fa_apply_step (DeleteDnsZoneStep k) s =
     Inr (s\<lparr>nst_dns_zones := dpop k (nst_dns_zones s)\<rparr>, dget (nst_dns_zones s) k \<noteq> None)"
| "fa_apply_step (EnsureNatRuleStep spec) s =
     (if dget (nst_nat_rules s) (nr_rule_id spec) = Some spec then Inr (s, False)
      else Inr (s\<lparr>nst_nat_rules := dset (nr_rule_id spec) spec (nst_nat_rules s)\<rparr>, True))"
| "fa_apply_step (DeleteNatRuleStep k) s =
     Inr (s\<lparr>nst_nat_rules := dpop k (nst_nat_rules s)\<rparr>, dget (nst_nat_rules s) k \<noteq> None)"
| "fa_apply_step (EnsureFirewallPolicyStep spec) s =
     (if dget (nst_firewall_policies s) (fs_policy_id spec) = Some spec then Inr (s, False)
      else Inr (s\<lparr>nst_firewall_policies := dset (fs_policy_id spec) spec (nst_firewall_policies s)\<rparr>,
                True))"
| "fa_apply_step (DeleteFirewallPolicyStep k) s =
     Inr (s\<lparr>nst_firewall_policies := dpop k (nst_firewall_policies s)\<rparr>,
          dget (nst_firewall_policies s) k \<noteq> None)"

subsection \<open>View\<close>

definition fa_port_to_view :: "fa_port \<Rightarrow> port_view" where
  "fa_port_to_view p =
     \<lparr>pv_name = fap_name p,
      pv_interfaces = [\<lparr>iv_name = fap_name p, iv_type = fap_type p, iv_options = fap_options p,
                        iv_admin_state = ''up''\<rparr>],
      pv_tag = fap_tag p, pv_trunks = fap_trunks p, pv_ids = fap_ids p\<rparr>"

definition fa_bridge_to_view :: "fa_bridge \<Rightarrow> bridge_view" where
  "fa_bridge_to_view b =
     \<lparr>bv_name = fab_name b, bv_datapath = fab_datapath b,
      bv_ports = List.map fa_port_to_view (dvalues (fab_ports b)), bv_ids = fab_ids b\<rparr>"

subsection \<open>Dumps\<close>

definition fa_port_to_dict :: "fa_port \<Rightarrow> json" where
  "fa_port_to_dict p = JObj
     [(''name'', JStr (fap_name p)), (''type'', JStr (fap_type p)),
      (''options'', jsdict (fap_options p)), (''tag'', jopt JInt (fap_tag p)),
      (''trunks'', JList (List.map JInt (fap_trunks p))), (''external_ids'', jsdict (fap_ids p))]"

definition fa_bridge_to_dict :: "fa_bridge \<Rightarrow> json" where
  "fa_bridge_to_dict b = JObj
     [(''name'', JStr (fab_name b)), (''datapath_type'', JStr (fab_datapath b)),
      (''external_ids'', jsdict (fab_ids b)),
      (''ports'', JList (List.map fa_port_to_dict (dvalues (fab_ports b))))]"

definition fa_dump :: "node_state \<Rightarrow> json" where
  "fa_dump s = JObj [(''bridges'', JList (List.map fa_bridge_to_dict (dvalues (nst_bridges s))))]"

definition fa_port_from_dict :: "json \<Rightarrow> fa_port option" where
  "fa_port_from_dict d =
     Option.bind (Option.bind (jfield ''name'' d) as_str) (\<lambda>name.
     Option.bind (str_or ''internal'' ''type'' d) (\<lambda>ty.
     Option.bind (sdict_or_empty ''options'' d) (\<lambda>options.
     Option.bind (opt_int_field ''tag'' d) (\<lambda>tag.
     Option.bind (Option.bind (list_or_empty ''trunks'' d) (\<lambda>l. those (List.map as_int l))) (\<lambda>trunks.
     Option.bind (sdict_or_empty ''external_ids'' d) (\<lambda>ids.
     Some \<lparr>fap_name = name, fap_type = ty, fap_options = options, fap_tag = tag,
           fap_trunks = trunks, fap_ids = ids\<rparr>))))))"

definition fa_bridge_from_dict :: "json \<Rightarrow> fa_bridge option" where
  "fa_bridge_from_dict d =
     Option.bind (Option.bind (jfield ''name'' d) as_str) (\<lambda>name.
     Option.bind (str_or ''system'' ''datapath_type'' d) (\<lambda>dp.
     Option.bind (sdict_or_empty ''external_ids'' d) (\<lambda>ids.
     Option.bind (Option.bind (list_or_empty ''ports'' d)
       (\<lambda>l. those (List.map fa_port_from_dict l))) (\<lambda>ports.
     Some \<lparr>fab_name = name, fab_datapath = dp, fab_ports = keyed_by fap_name ports,
           fab_ids = ids\<rparr>))))"

definition fa_load :: "json \<Rightarrow> node_state option" where
  "fa_load payload =
     Option.bind (Option.bind (list_or_empty ''bridges'' payload)
       (\<lambda>l. those (List.map fa_bridge_from_dict l))) (\<lambda>bridges.
     Some (empty_node_state\<lparr>nst_bridges := keyed_by fab_name bridges\<rparr>))"

subsection \<open>The agent\<close>

record fa_snapshot =
  fsn_id :: string
  fsn_node_id :: string
  fsn_created_at :: time
  fsn_payload :: json
  fsn_state_hash :: string
  fsn_label :: "string option"

record fake_agent =
  fag_ovs_version :: string
  fag_by_node :: "(string, node_state) dict"
  fag_snapshots :: "(string, fa_snapshot) dict"
  fag_next_snap :: int

definition fa_node :: "fake_agent \<Rightarrow> string \<Rightarrow> node_state" where
  "fa_node a nid = (case dget (fag_by_node a) nid of None \<Rightarrow> empty_node_state | Some s \<Rightarrow> s)"

definition fa_get_state :: "(json \<Rightarrow> string) \<Rightarrow> fake_agent \<Rightarrow> string \<Rightarrow> state_view" where
  "fa_get_state digest a nid =
     (let s = fa_node a nid in
      \<lparr>sv_ovs_version = Some (fag_ovs_version a),
       sv_bridges = List.map fa_bridge_to_view (dvalues (nst_bridges s)),
       sv_state_hash = digest (fa_dump s)\<rparr>)"

definition fa_get_capabilities :: "fake_agent \<Rightarrow> string \<Rightarrow> node_capabilities" where
  "fa_get_capabilities a nid =
     (let ports = concat (List.map (\<lambda>b. dvalues (fab_ports b)) (dvalues (nst_bridges (fa_node a nid)))) in
      \<lparr>cap_ovs_version = Some (fag_ovs_version a), cap_kernel = None,
       cap_interfaces = List.map fap_name
         (filter (\<lambda>p. fap_type p \<in> {''system'', ''internal''}) ports),
       cap_features = (if list_ex (\<lambda>p. fap_type p = ''vxlan'') ports then [''vxlan''] else [])\<rparr>)"

definition fa_apply_plan :: "string \<Rightarrow> plan \<Rightarrow> fake_agent \<Rightarrow> fake_agent \<times> plan_result" where
  "fa_apply_plan nid p a =
     (case exec_steps step_action exc_code fa_apply_step (pl_steps p) (fa_node a nid) of
        (s, okay, rs) \<Rightarrow>
          (a\<lparr>fag_by_node := dset nid s (fag_by_node a)\<rparr>,
           \<lparr>pr_plan_id = pl_id p, pr_ok = okay, pr_steps = rs\<rparr>))"

definition fa_take_snapshot ::
  "(json \<Rightarrow> string) \<Rightarrow> time \<Rightarrow> string \<Rightarrow> string option \<Rightarrow> fake_agent \<Rightarrow> fake_agent \<times> fa_snapshot" where
  "fa_take_snapshot digest now nid label a =
     (let k = fag_next_snap a + 1;
          payload = fa_dump (fa_node a nid);
          snap = \<lparr>fsn_id = ''snap_'' @ str_int k, fsn_node_id = nid, fsn_created_at = now,
                  fsn_payload = payload, fsn_state_hash = digest payload, fsn_label = label\<rparr>
      in (a\<lparr>fag_next_snap := k, fag_snapshots := dset (fsn_id snap) snap (fag_snapshots a)\<rparr>, snap))"

definition fa_restore :: "string \<Rightarrow> string \<Rightarrow> fake_agent \<Rightarrow> exc + fake_agent \<times> fa_snapshot" where
  "fa_restore nid snap_id a =
     (case dget (fag_snapshots a) snap_id of
        None \<Rightarrow> Inl err_not_found
      | Some snap \<Rightarrow>
          if fsn_node_id snap \<noteq> nid then Inl err_not_found
          else bindE (of_option (PyError PyValueError) (fa_load (fsn_payload snap))) (\<lambda>s.
            Inr (a\<lparr>fag_by_node := dset nid s (fag_by_node a)\<rparr>, snap)))"

subsection \<open>The executor is a switch backend\<close>

definition fa_observe :: "node_state \<Rightarrow> obs_bridge list" where
  "fa_observe s = List.map (\<lambda>b. bridge_view_to_observed (fa_bridge_to_view b)) (dvalues (nst_bridges s))"

definition fab_ok :: "fa_bridge \<Rightarrow> bool" where
  "fab_ok b \<longleftrightarrow> dwf (fab_ports b) \<and> (\<forall>(k, p) \<in> set (fab_ports b). fap_name p = k)"

definition fa_ok :: "node_state \<Rightarrow> bool" where
  "fa_ok s \<longleftrightarrow> dwf (nst_bridges s) \<and> (\<forall>(k, b) \<in> set (nst_bridges s). fab_name b = k \<and> fab_ok b)"

definition ab_of_fap :: "fa_port \<Rightarrow> ab_port" where
  "ab_of_fap p = \<lparr>abp_tag = fap_tag p, abp_trunks = fap_trunks p, abp_ids = dget (fap_ids p),
     abp_ifaces = [(fap_name p, fap_type p, dget (fap_options p))]\<rparr>"

definition ab_of_fab :: "fa_bridge \<Rightarrow> ab_bridge" where
  "ab_of_fab b = \<lparr>abb_datapath = fab_datapath b, abb_ids = dget (fab_ids b),
     abb_ports = (\<lambda>name. map_option ab_of_fap (dget (fab_ports b) name))\<rparr>"

lemma fa_ok_bridge:
  "fa_ok s \<Longrightarrow> dget (nst_bridges s) m = Some b \<Longrightarrow> fab_name b = m \<and> fab_ok b"
  by (auto simp: fa_ok_def dest!: map_of_SomeD)

lemma fa_ok_put:
  "fa_ok s \<Longrightarrow> fab_name b = m \<Longrightarrow> fab_ok b \<Longrightarrow> fa_ok (s\<lparr>nst_bridges := dset m b (nst_bridges s)\<rparr>)"
  by (auto simp: fa_ok_def in_set_dset)

lemma fa_ok_pop: "fa_ok s \<Longrightarrow> fa_ok (s\<lparr>nst_bridges := dpop m (nst_bridges s)\<rparr>)"
  by (auto simp: fa_ok_def)

lemma fab_ok_put: "fab_ok b \<Longrightarrow> fap_name p = m \<Longrightarrow> fab_ok (b\<lparr>fab_ports := dset m p (fab_ports b)\<rparr>)"
  by (auto simp: fab_ok_def in_set_dset)

lemma fab_ok_pop: "fab_ok b \<Longrightarrow> fab_ok (b\<lparr>fab_ports := dpop m (fab_ports b)\<rparr>)"
  by (auto simp: fab_ok_def)

lemma ab_of_fa_bridge:
  assumes "fab_ok b"
  shows "ab_bridge_of (bridge_view_to_observed (fa_bridge_to_view b)) = ab_of_fab b"
proof -
  have "find (\<lambda>p. opt_name p = name)
      (List.map (\<lambda>p. port_view_to_observed (fa_port_to_view p)) (dvalues (fab_ports b))) =
      map_option (\<lambda>p. port_view_to_observed (fa_port_to_view p)) (dget (fab_ports b) name)" for name
    using assms by (intro find_dvalues)
      (auto simp: fab_ok_def port_view_to_observed_def fa_port_to_view_def)
  then show ?thesis
    by (simp add: ab_bridge_of_def ab_of_fab_def bridge_view_to_observed_def fa_bridge_to_view_def
        find_port_def comp_def option.map_comp ab_port_of_def ab_of_fap_def [abs_def]
        port_view_to_observed_def fa_port_to_view_def)
qed

lemma fa_switch:
  assumes "fa_ok s"
  shows "switch_of (fa_observe s) = (\<lambda>m. map_option ab_of_fab (dget (nst_bridges s) m))"
proof
  fix m
  have "find_bridge m (fa_observe s) =
      map_option (\<lambda>b. bridge_view_to_observed (fa_bridge_to_view b)) (dget (nst_bridges s) m)"
    unfolding find_bridge_def fa_observe_def
    using assms by (intro find_dvalues)
      (auto simp: fa_ok_def bridge_view_to_observed_def fa_bridge_to_view_def)
  then show "switch_of (fa_observe s) m = map_option ab_of_fab (dget (nst_bridges s) m)"
    using fa_ok_bridge [OF assms, of m]
    by (cases "dget (nst_bridges s) m") (simp_all add: switch_of_def ab_of_fa_bridge)
qed

lemma fa_names: "fa_ok s \<Longrightarrow> distinct (List.map ob_name (fa_observe s))"
proof -
  assume ok: "fa_ok s"
  have "List.map ob_name (fa_observe s) = dkeys (nst_bridges s)"
    using ok by (auto simp: fa_observe_def fa_ok_def bridge_view_to_observed_def fa_bridge_to_view_def)
  then show ?thesis using ok by (simp add: fa_ok_def)
qed

lemma fa_switch_put:
  "fa_ok s \<Longrightarrow> fab_name b = m \<Longrightarrow> fab_ok b \<Longrightarrow>
   switch_of (fa_observe (s\<lparr>nst_bridges := dset m b (nst_bridges s)\<rparr>)) =
     (switch_of (fa_observe s))(m \<mapsto> ab_of_fab b)"
  by (simp add: fa_switch fa_ok_put fun_eq_iff)

lemma fa_switch_pop:
  "fa_ok s \<Longrightarrow> switch_of (fa_observe (s\<lparr>nst_bridges := dpop m (nst_bridges s)\<rparr>)) =
     (switch_of (fa_observe s))(m := None)"
  by (simp add: fa_switch fa_ok_pop fun_eq_iff)

definition refines_step :: "plan_step \<Rightarrow> node_state \<Rightarrow> node_state \<Rightarrow> bool \<Rightarrow> bool" where
  "refines_step st s s' ch \<longleftrightarrow> fa_ok s' \<and>
     sw_step st (switch_of (fa_observe s)) = Some (switch_of (fa_observe s')) \<and>
     (touches_switch st \<longrightarrow> (ch \<longleftrightarrow> switch_of (fa_observe s') \<noteq> switch_of (fa_observe s)))"

lemma fa_ensure_bridge_refines:
  assumes ok: "fa_ok s" and "fa_ensure_bridge name dp ids s = (s', ch)"
  shows "refines_step (EnsureBridgeStep name dp ids) s s' ch"
proof (cases "dget (nst_bridges s) name")
  case None
  define b where "b = \<lparr>fab_name = name, fab_datapath = dp, fab_ports = [], fab_ids = sort_key fst ids\<rparr>"
  have b: "fab_name b = name" "fab_ok b" by (simp_all add: b_def fab_ok_def)
  have "ab_of_fab b = \<lparr>abb_datapath = dp, abb_ids = dget ids, abb_ports = Map.empty\<rparr>"
    by (simp add: b_def ab_of_fab_def)
  moreover have "s' = s\<lparr>nst_bridges := dset name b (nst_bridges s)\<rparr>" ch
    using assms(2) None by (simp_all add: fa_ensure_bridge_def b_def)
  ultimately show ?thesis
    using None fa_ok_put [OF ok b] fa_switch_put [OF ok b]
    by (simp add: refines_step_def fa_switch [OF ok] fun_upd_idem_iff)
next
  case (Some b)
  then have b: "fab_name b = name" "fab_ok b" using fa_ok_bridge [OF ok] by auto
  define b' where "b' = b\<lparr>fab_datapath := dp, fab_ids := (if dict_eq (fab_ids b) (sort_key fst ids)
      then fab_ids b else sort_key fst ids)\<rparr>"
  have s': "s' = s\<lparr>nst_bridges := dset name b' (nst_bridges s)\<rparr>"
    and ch: "ch \<longleftrightarrow> fab_datapath b \<noteq> dp \<or> \<not> dict_eq (fab_ids b) (sort_key fst ids)"
    using assms(2) Some by (auto simp: fa_ensure_bridge_def b'_def Let_def split: if_splits)
  have b'ok: "fab_name b' = name" "fab_ok b'" using b by (auto simp: b'_def fab_ok_def)
  have ab: "ab_of_fab b' = \<lparr>abb_datapath = dp, abb_ids = dget ids, abb_ports = abb_ports (ab_of_fab b)\<rparr>"
    by (auto simp: b'_def ab_of_fab_def dict_eq_iff)
  have "ab_of_fab b' = ab_of_fab b \<longleftrightarrow> \<not> ch"
    by (auto simp: ab ch dict_eq_iff) (auto simp: ab_of_fab_def)
  then show ?thesis
    using Some fa_ok_put [OF ok b'ok] fa_switch_put [OF ok b'ok] ab
    by (simp add: refines_step_def s' fa_switch [OF ok] fun_upd_idem_iff) auto
qed

lemma fa_ensure_port_refines:
  assumes ok: "fa_ok s" and run: "fa_ensure_port br name ty opts tag trunks ids s = Inr (s', ch)"
  shows "fa_ok s' \<and> sw_put_port br name (ab_mk_port name ty opts tag trunks ids)
      (switch_of (fa_observe s)) = Some (switch_of (fa_observe s')) \<and>
    (ch \<longleftrightarrow> switch_of (fa_observe s') \<noteq> switch_of (fa_observe s))"
proof -
  obtain b where b: "dget (nst_bridges s) br = Some b"
    using run by (auto simp: fa_ensure_port_def bindE_Inr_iff fa_require_bridge_def)
  have bok: "fab_name b = br" "fab_ok b" using fa_ok_bridge [OF ok b] by auto
  define new where "new = \<lparr>fap_name = name, fap_type = ty, fap_options = sort_key fst opts,
      fap_tag = tag, fap_trunks = sort trunks, fap_ids = sort_key fst ids\<rparr>"
  define b' where "b' = b\<lparr>fab_ports := dset name new (fab_ports b)\<rparr>"
  let ?put = "s\<lparr>nst_bridges := dset br b' (nst_bridges s)\<rparr>"
  have b'ok: "fab_name b' = br" "fab_ok b'"
    using bok fab_ok_put [of b new name] by (simp_all add: b'_def new_def)
  have new: "ab_of_fap new = ab_mk_port name ty opts tag trunks ids"
    by (simp add: ab_of_fap_def ab_mk_port_def new_def)
  have ab: "ab_of_fab b' = (ab_of_fab b)\<lparr>abb_ports := (abb_ports (ab_of_fab b))(name \<mapsto> ab_of_fap new)\<rparr>"
    by (auto simp: b'_def ab_of_fab_def)
  let ?same = "\<exists>old. dget (fab_ports b) name = Some old \<and> ab_of_fap old = ab_of_fap new"
  have same: "?same \<longleftrightarrow> ab_of_fab b' = ab_of_fab b"
    by (cases "ab_of_fab b") (auto simp: ab fun_upd_idem_iff, auto simp: ab_of_fab_def)
  have cases: "(s', ch) = (if ?same then (s, False) else (?put, True))"
  proof -
    have "ab_of_fap old = ab_of_fap new \<longleftrightarrow> fap_type old = fap_type new \<and>
        dict_eq (fap_options old) (fap_options new) \<and> fap_tag old = fap_tag new \<and>
        fap_trunks old = fap_trunks new \<and> dict_eq (fap_ids old) (fap_ids new)"
      if "dget (fab_ports b) name = Some old" for old
    proof -
      have "fap_name old = name"
        using that bok by (auto simp: fab_ok_def dest!: map_of_SomeD)
      then show ?thesis by (auto simp: ab_of_fap_def new_def dict_eq_iff)
    qed
    then show ?thesis
      using run b by (cases "dget (fab_ports b) name")
        (auto simp: fa_ensure_port_def fa_require_bridge_def b'_def Let_def simp flip: new_def
          split: if_splits)
  qed
  show ?thesis
  proof (cases ?same)
    case True
    then have "(s', ch) = (s, False)" using cases by (simp only: if_True)
    moreover have "ab_of_fab b' = ab_of_fab b" using same True by blast
    ultimately have "ab_of_fab b' = ab_of_fab b" "s' = s" "\<not> ch" by simp_all
    then show ?thesis
      using b ok ab new by (simp add: sw_put_port_def fa_switch fun_upd_idem_iff)
  next
    case False
    then have "(s', ch) = (?put, True)" using cases by (simp only: if_False)
    moreover have "ab_of_fab b' \<noteq> ab_of_fab b" using same False by blast
    ultimately have "ab_of_fab b' \<noteq> ab_of_fab b" "s' = ?put" ch by simp_all
    then show ?thesis
      using b fa_ok_put [OF ok b'ok] fa_switch_put [OF ok b'ok] ab new
      by (simp add: sw_put_port_def fa_switch [OF ok] fun_upd_idem_iff)
  qed
qed

lemma fa_edge_refines:
  "fa_ok s \<Longrightarrow> \<not> touches_switch st \<Longrightarrow> fa_apply_step st s = Inr (s', ch) \<Longrightarrow> refines_step st s s' ch"
  by (cases st) (auto simp: refines_step_def fa_ok_def fa_observe_def split: if_splits)

lemma fa_step_refines:
  assumes ok: "fa_ok s" and run: "fa_apply_step st s = Inr (s', ch)"
  shows "refines_step st s s' ch"
proof (cases st)
  case (EnsureBridgeStep name dp ids)
  then show ?thesis using fa_ensure_bridge_refines [OF ok] run by simp
next
  case (DeleteBridgeStep name)
  then show ?thesis
    using run fa_ok_pop [OF ok] by (auto simp: refines_step_def fa_switch_pop [OF ok] fa_switch [OF ok]
        fun_upd_idem_iff)
next
  case (EnsurePortStep br name ty opts tag trunks ids)
  then show ?thesis using fa_ensure_port_refines [OF ok] run by (simp add: refines_step_def)
next
  case (EnsureVxlanPortStep br name vni rip lip dport mtu ids)
  then show ?thesis using fa_ensure_port_refines [OF ok] run by (simp add: refines_step_def)
next
  case (DeletePortStep br name)
  then obtain b where b: "dget (nst_bridges s) br = Some b"
    and s': "s' = s\<lparr>nst_bridges := dset br (b\<lparr>fab_ports := dpop name (fab_ports b)\<rparr>) (nst_bridges s)\<rparr>"
    and ch: "ch \<longleftrightarrow> dget (fab_ports b) name \<noteq> None"
    using run by (auto simp: bindE_Inr_iff fa_require_bridge_def)
  have bok: "fab_name b = br" "fab_ok b" using fa_ok_bridge [OF ok b] by auto
  let ?b = "b\<lparr>fab_ports := dpop name (fab_ports b)\<rparr>"
  have ab: "ab_of_fab ?b = (ab_of_fab b)\<lparr>abb_ports := (abb_ports (ab_of_fab b))(name := None)\<rparr>"
    by (auto simp: ab_of_fab_def)
  have "ab_of_fab ?b = ab_of_fab b \<longleftrightarrow> \<not> ch"
    by (cases "ab_of_fab b") (auto simp: ab fun_upd_idem_iff ch, auto simp: ab_of_fab_def)
  then show ?thesis
    using b fa_ok_put [OF ok _ fab_ok_pop [OF bok(2)]] fa_switch_put [OF ok _ fab_ok_pop [OF bok(2)]] bok ab
    by (simp add: refines_step_def DeletePortStep s' fa_switch [OF ok] fun_upd_idem_iff) metis
qed (use fa_edge_refines [OF ok _ run] in simp_all)

lemma fa_ensure_port_Inl:
  "fa_ensure_port br name ty opts tag trunks ids s = Inl e \<longleftrightarrow>
     e = err_not_found \<and> dget (nst_bridges s) br = None"
  by (cases "dget (nst_bridges s) br")
    (auto simp: fa_ensure_port_def fa_require_bridge_def Let_def split: option.split)

lemma fa_step_fails:
  assumes "fa_ok s" "fa_apply_step st s = Inl e"
  shows "e = err_not_found \<and> sw_step st (switch_of (fa_observe s)) = None"
  using assms(2)
  by (cases st) (auto simp: bindE_Inl_iff fa_ensure_port_Inl fa_require_bridge_def sw_put_port_def
      fa_switch [OF assms(1)] split: if_splits)

interpretation fake_agent: ovs_backend fa_observe fa_ok "\<lambda>st. st" fa_apply_step
proof unfold_locales
  fix s st s' ch
  assume ok: "fa_ok s" and run: "fa_apply_step st s = Inr (s', ch)"
  show "fa_ok s'" "sw_step st (switch_of (fa_observe s)) = Some (switch_of (fa_observe s'))"
    using fa_step_refines [OF ok run] by (simp_all add: refines_step_def)
  assume "touches_switch st"
  then show "ch \<longleftrightarrow> switch_of (fa_observe s') \<noteq> switch_of (fa_observe s)"
    using fa_step_refines [OF ok run] by (simp add: refines_step_def)
qed (simp_all add: fa_names fa_step_fails)

subsection \<open>Convergence\<close>

lemma fa_get_state_observed:
  "os_bridges (state_view_to_observed nid (fa_get_state digest a nid) t) = fa_observe (fa_node a nid)"
  by (simp add: state_view_to_observed_def fa_get_state_def fa_observe_def comp_def Let_def)

definition agent_bridges :: "fake_agent \<Rightarrow> string \<Rightarrow> obs_bridge list" where
  "agent_bridges a nid =
     os_bridges (state_view_to_observed nid (fa_get_state (\<lambda>_. []) a nid) 0)"

lemma agent_bridges_observe: "agent_bridges a nid = fa_observe (fa_node a nid)"
  by (simp add: agent_bridges_def fa_get_state_observed)

definition fa_agent_ok :: "fake_agent \<Rightarrow> bool" where
  "fa_agent_ok a \<longleftrightarrow> (\<forall>nid. fa_ok (fa_node a nid))"

lemma fa_empty_ok: "fa_ok empty_node_state"
  by (simp add: fa_ok_def empty_node_state_def)

lemma fa_node_put [simp]:
  "fa_node (a\<lparr>fag_by_node := dset nid s d\<rparr>) m = (if m = nid then s else fa_node (a\<lparr>fag_by_node := d\<rparr>) m)"
  by (simp add: fa_node_def)

lemma fa_node_same [simp]: "fa_node (a\<lparr>fag_by_node := fag_by_node a\<rparr>) m = fa_node a m"
  by (simp add: fa_node_def)

text \<open>
  Applying a node's diff to the in-process agent converges: every step succeeds, the node then passes the compliance test, bridges and ports that the network does not own are
  left as they were, and no other node changes. Port names must tell the peers apart.
\<close>

lemma fa_plan_converges:
  assumes "fa_agent_ok a" "names_unambiguous n nid peers"
    and "fa_apply_plan nid \<lparr>pl_id = pid, pl_steps = diff_for_node n nid peers (agent_bridges a nid)\<rparr> a
      = (a', r)"
  shows "pr_ok r \<and> fa_agent_ok a' \<and> is_in_compliance n nid peers (agent_bridges a' nid) \<and>
    keeps_foreign n nid peers (switch_of (agent_bridges a nid)) (switch_of (agent_bridges a' nid)) \<and>
    (\<forall>m. m \<noteq> nid \<longrightarrow> fa_node a' m = fa_node a m)"
proof -
  obtain s okay rs where run: "exec_steps step_action exc_code fa_apply_step
      (diff_for_node n nid peers (fa_observe (fa_node a nid))) (fa_node a nid) = (s, okay, rs)"
    by (metis prod_cases3)
  have "fa_ok (fa_node a nid)" using assms(1) by (simp add: fa_agent_ok_def)
  from fake_agent.converges [OF this assms(2) _ run] show ?thesis
    using assms(1,3) run by (auto simp: fa_apply_plan_def agent_bridges_observe fa_agent_ok_def)
qed

definition fresh_agent :: fake_agent where
  "fresh_agent = \<lparr>fag_ovs_version = ''fake-3.2.0'', fag_by_node = [], fag_snapshots = [],
     fag_next_snap = 0\<rparr>"

lemma fresh_agent_ok: "fa_agent_ok fresh_agent"
  by (simp add: fa_agent_ok_def fresh_agent_def fa_node_def fa_empty_ok)

lemma example_unambiguous: "names_unambiguous example_network ''node_a00001'' [peer_b]"
  by (simp add: names_unambiguous_def)

subsection \<open>Snapshots\<close>

definition fap_named :: "fa_port \<Rightarrow> bool" where
  "fap_named p \<longleftrightarrow> fap_type p \<noteq> []"

definition fab_named :: "fa_bridge \<Rightarrow> bool" where
  "fab_named b \<longleftrightarrow> fab_datapath b \<noteq> [] \<and> (\<forall>p \<in> set (dvalues (fab_ports b)). fap_named p)"

lemma fa_port_roundtrip: "fap_named p \<Longrightarrow> fa_port_from_dict (fa_port_to_dict p) = Some p"
  by (cases p) (simp add: fa_port_from_dict_def fa_port_to_dict_def str_or_def list_or_empty_def
      fap_named_def opt_int_field_jopt [where t = "fap_tag p"])

lemma fa_bridge_roundtrip:
  assumes "fab_ok b" "fab_named b"
  shows "fa_bridge_from_dict (fa_bridge_to_dict b) = Some b"
proof -
  have "those (List.map fa_port_from_dict (List.map fa_port_to_dict (dvalues (fab_ports b)))) =
      Some (dvalues (fab_ports b))"
    using assms(2) by (intro those_roundtrip fa_port_roundtrip) (auto simp: fab_named_def)
  moreover have "keyed_by fap_name (dvalues (fab_ports b)) = fab_ports b"
    using assms(1) by (intro keyed_by_dvalues) (auto simp: fab_ok_def)
  ultimately show ?thesis
    using assms(2) by (cases b) (simp add: fa_bridge_from_dict_def fa_bridge_to_dict_def str_or_def
        list_or_empty_def fab_named_def)
qed

definition fa_named :: "node_state \<Rightarrow> bool" where
  "fa_named s \<longleftrightarrow> (\<forall>b \<in> set (dvalues (nst_bridges s)). fab_named b)"

lemma fa_roundtrip:
  assumes "fa_ok s" "fa_named s"
  shows "fa_load (fa_dump s) = Some (empty_node_state\<lparr>nst_bridges := nst_bridges s\<rparr>)"
proof -
  have "\<forall>b \<in> set (dvalues (nst_bridges s)). fab_ok b"
    using assms(1) by (auto simp: fa_ok_def)
  then have "those (List.map fa_bridge_from_dict (List.map fa_bridge_to_dict (dvalues (nst_bridges s)))) =
      Some (dvalues (nst_bridges s))"
    using assms(2) by (intro those_roundtrip fa_bridge_roundtrip) (auto simp: fa_named_def)
  moreover have "keyed_by fab_name (dvalues (nst_bridges s)) = nst_bridges s"
    using assms(1) by (intro keyed_by_dvalues) (auto simp: fa_ok_def)
  ultimately show ?thesis
    by (simp add: fa_load_def fa_dump_def list_or_empty_def)
qed

text \<open>
  A snapshot brings the switch back exactly: whatever plan was applied since, restoring a
  node's snapshot on the in-process agent makes its bridges what they were when it was taken.
  The edge services are not part of the snapshot: a restore empties the node's DHCP, DNS, NAT
  and firewall state. Types and datapath names must not be empty text, which a dump reads back
  as the default.
\<close>

lemma fake_agent_restore:
  assumes "fa_agent_ok a" "fa_named (fa_node a nid)"
    and "fa_take_snapshot digest now nid label a = (a1, snap)"
    and "fa_apply_plan nid' p a1 = (a2, r)"
  shows "\<exists>a3. fa_restore nid (fsn_id snap) a2 = Inr (a3, snap) \<and>
    fa_node a3 nid = empty_node_state\<lparr>nst_bridges := nst_bridges (fa_node a nid)\<rparr> \<and>
    agent_bridges a3 nid = agent_bridges a nid"
proof -
  have "fa_ok (fa_node a nid)" using assms(1) by (simp add: fa_agent_ok_def)
  then have load: "fa_load (fa_dump (fa_node a nid)) =
      Some (empty_node_state\<lparr>nst_bridges := nst_bridges (fa_node a nid)\<rparr>)"
    using fa_roundtrip assms(2) by blast
  have "dget (fag_snapshots a2) (fsn_id snap) = Some snap" "fsn_node_id snap = nid"
      "fsn_payload snap = fa_dump (fa_node a nid)"
    using assms(3,4) by (auto simp: fa_take_snapshot_def fa_apply_plan_def Let_def split: prod.splits)
  then show ?thesis
    using load by (simp add: fa_restore_def agent_bridges_observe fa_observe_def empty_node_state_def)
qed

lemma fake_agent_restore_witness:
  "\<exists>a3. fa_restore ''node_a00001'' ''snap_1''
      (fst (fa_apply_plan ''node_a00001'' \<lparr>pl_id = ''op_1'', pl_steps = [DeleteBridgeStep ''br-x'']\<rparr>
        (fst (fa_take_snapshot (\<lambda>_. ''h'') 5 ''node_a00001'' None fresh_agent)))) =
      Inr (a3, snd (fa_take_snapshot (\<lambda>_. ''h'') 5 ''node_a00001'' None fresh_agent))"
proof -
  have "fa_named (fa_node fresh_agent ''node_a00001'')"
    by (simp add: fa_named_def fresh_agent_def fa_node_def empty_node_state_def)
  moreover have "fsn_id (snd (fa_take_snapshot (\<lambda>_. ''h'') 5 ''node_a00001'' None fresh_agent)) = ''snap_1''"
    by (simp add: fa_take_snapshot_def Let_def fresh_agent_def str_int_def str_nat_def digits_less digit_char_def)
  ultimately show ?thesis
    using fake_agent_restore [OF fresh_agent_ok _ surjective_pairing surjective_pairing,
        of "''node_a00001''" "\<lambda>_. ''h''" 5 None "''node_a00001''"
          "\<lparr>pl_id = ''op_1'', pl_steps = [DeleteBridgeStep ''br-x'']\<rparr>"]
    by auto
qed

end
