(* ===== verification/Reconcile.thy ===== *)
theory Reconcile
  imports World Planner Fake_Agent
begin

text \<open>
  \<open>ApplyNetwork\<close> (\<open>core/use_cases/reconcile.py\<close>): lock the network, observe its members, plan,
  run the plans on the agents one after the other, observe again and verify, and record how it
  went in one operation. The agent is a pair of actions on its own state; each may raise, and the
  theorems of the first part hold for whatever it does. The span of the tracer and log lines are
  not modelled, nor are the messages of step results.
\<close>

subsection \<open>Raised errors\<close>

text \<open>
  What the use case reads of an exception: its class and code, its message (\<open>str\<close>) and the
  dictionary that may be its second argument.
\<close>

record raised =
  ra_exc :: exc
  ra_message :: string
  ra_details :: "payload option"

definition raised_of :: "exc \<Rightarrow> string \<Rightarrow> raised" where
  "raised_of e msg = \<lparr>ra_exc = e, ra_message = msg, ra_details = None\<rparr>"

definition step_details :: "step_result \<Rightarrow> json" where
  "step_details r = JObj (case sr_code r of None \<Rightarrow> [] | Some c \<Rightarrow> [(''code'', JStr c)])"

definition apply_failed :: "string \<Rightarrow> step_result list \<Rightarrow> raised" where
  "apply_failed nid steps =
     (let failed = filter (\<lambda>s. \<not> sr_ok s) steps in
      \<lparr>ra_exc = DomainError ValidationError ''apply_failed'',
       ra_message = ''agent '' @ nid @ '' failed '' @ str_nat (length failed) @ ''/'' @
         str_nat (length steps) @ '' step(s)'',
       ra_details = Some [(''node_id'', JStr nid),
         (''failed_steps'', JList (List.map (\<lambda>s. JObj
            [(''action'', JStr (sr_action s)), (''details'', step_details s)]) failed))]\<rparr>)"

definition verify_failed :: "string \<Rightarrow> raised" where
  "verify_failed nid =
     \<lparr>ra_exc = DomainError ValidationError ''verify_failed'',
      ra_message = ''verification failed for node '' @ nid @ '': observed state still drifts'',
      ra_details = Some [(''node_id'', JStr nid)]\<rparr>"

definition wrap_unexpected :: "raised \<Rightarrow> raised" where
  "wrap_unexpected e =
     \<lparr>ra_exc = DomainError ValidationError ''internal_error'',
      ra_message = (if ra_message e = [] then ''unexpected error during apply'' else ra_message e),
      ra_details = None\<rparr>"

definition apply_already_running :: "string \<Rightarrow> string option \<Rightarrow> raised" where
  "apply_already_running nid holder =
     \<lparr>ra_exc = DomainError ConflictError ''apply_already_running'',
      ra_message = ''apply for network '' @ nid @ '' is already running'' @
        (case holder of None \<Rightarrow> [] | Some h \<Rightarrow> '' (operation '' @ h @ '')''),
      ra_details = Some [(''holder_operation_id'', jopt JStr holder)]\<rparr>"

subsection \<open>The agent and the running operation\<close>

record 'ag agent_ops =
  ago_get_state :: "string \<Rightarrow> ('ag, raised, state_view) act"
  ago_apply_plan :: "string \<Rightarrow> plan \<Rightarrow> ('ag, raised, plan_result) act"

type_synonym 'ag run = "'ag world \<times> operation"

definition onW :: "('ag world, 'e, 'a) act \<Rightarrow> ('ag run, 'e, 'a) act" where
  "onW = zoomM fst (\<lambda>w (_, op). (w, op))"

definition onAgent :: "('ag, 'e, 'a) act \<Rightarrow> ('ag run, 'e, 'a) act" where
  "onAgent m = onW (zoomM w_agent (\<lambda>a w. w\<lparr>w_agent := a\<rparr>) m)"

definition move :: "env \<Rightarrow> op_status \<Rightarrow> string \<Rightarrow> op_error option \<Rightarrow> ('ag run, raised, unit) act" where
  "move env st msg err =
     bindM (onW (nowM env)) (\<lambda>now. \<lambda>(w, op).
       case transition_to st now msg None err op of
         Inl e \<Rightarrow> (Inl (raised_of e []), (w, op))
       | Inr op' \<Rightarrow> (Inr (), (w, op')))"

definition log_progress :: "env \<Rightarrow> string \<Rightarrow> payload \<Rightarrow> ('ag run, raised, unit) act" where
  "log_progress env msg payload =
     bindM (onW (nowM env)) (\<lambda>now. modifyM (\<lambda>(w, op). (w, log_event now msg (Some payload) op)))"

definition missing_member :: "network \<Rightarrow> string \<Rightarrow> raised" where
  "missing_member n nid = raised_of err_not_found
     (''network '' @ net_id n @ '' references missing node '' @ nid)"

definition require_member :: "network \<Rightarrow> string \<Rightarrow> ('ag run, raised, node) act" where
  "require_member n nid =
     bindM (getM (\<lambda>(w, _). dget (w_nodes w) nid)) (\<lambda>r.
     case r of Some nd \<Rightarrow> returnM nd
     | None \<Rightarrow> raiseM (missing_member n nid))"

definition observe :: "env \<Rightarrow> 'ag agent_ops \<Rightarrow> string \<Rightarrow> ('ag run, raised, observed_state) act" where
  "observe env ag nid =
     bindM (onAgent (ago_get_state ag nid)) (\<lambda>view.
     bindM (onW (nowM env)) (\<lambda>now.
     let obs = state_view_to_observed nid view now in
     bindM (onW (modifyM (\<lambda>w. w\<lparr>w_observed := observed_save obs (w_observed w)\<rparr>))) (\<lambda>_.
     returnM obs)))"

subsection \<open>Phases\<close>

fun observe_members ::
  "env \<Rightarrow> 'ag agent_ops \<Rightarrow> network \<Rightarrow> string list \<Rightarrow> (string, node) dict
     \<Rightarrow> (string, observed_state) dict
     \<Rightarrow> ('ag run, raised, (string, node) dict \<times> (string, observed_state) dict) act" where
  "observe_members env ag n [] nodes obs = returnM (nodes, obs)"
| "observe_members env ag n (nid # nids) nodes obs =
     bindM (require_member n nid) (\<lambda>nd.
     bindM (observe env ag nid) (\<lambda>s.
     observe_members env ag n nids (dset nid nd nodes) (dset nid s obs)))"

definition step_count :: "per_node_plan list \<Rightarrow> nat" where
  "step_count plans = sum_list (List.map (\<lambda>p. length (pl_steps (pn_plan p))) plans)"

definition planM ::
  "env \<Rightarrow> network \<Rightarrow> (string, node) dict \<Rightarrow> (string, observed_state) dict
     \<Rightarrow> ('ag run, raised, per_node_plan list) act" where
  "planM env n nodes obs = onW (\<lambda>w.
     let plans = plan_for_network n nodes obs (\<lambda>k. factory_id OperationId (e_rnd env k)) (w_ids w)
     in (Inr plans, w\<lparr>w_ids := w_ids w + length plans\<rparr>))"

definition plan_phase :: "env \<Rightarrow> 'ag agent_ops \<Rightarrow> network \<Rightarrow> ('ag run, raised, per_node_plan list) act" where
  "plan_phase env ag n =
     bindM (move env PLANNING ''observing target nodes and computing diff'' None) (\<lambda>_.
     if net_node_ids n = [] then returnM []
     else
       bindM (observe_members env ag n (net_node_ids n) [] []) (\<lambda>(nodes, obs).
       bindM (planM env n nodes obs) (\<lambda>plans.
       bindM (log_progress env (''planned '' @ str_nat (step_count plans) @ '' step(s) across '' @
                str_nat (length plans) @ '' node(s)'')
              [(''node_plans'', JList (List.map (\<lambda>p. JObj
                  [(''node_id'', JStr (pn_node_id p)), (''plan_id'', JStr (pl_id (pn_plan p))),
                   (''step_count'', JInt (int (length (pl_steps (pn_plan p)))))]) plans))])
         (\<lambda>_. returnM plans))))"

definition run_node :: "env \<Rightarrow> 'ag agent_ops \<Rightarrow> per_node_plan \<Rightarrow> ('ag run, raised, unit) act" where
  "run_node env ag p =
     bindM (onAgent (ago_apply_plan ag (pn_node_id p) (pn_plan p))) (\<lambda>r.
     bindM (log_progress env
        (''node '' @ pn_node_id p @ '': '' @ (if pr_ok r then ''ok'' else ''failed'') @ '' ('' @
         str_nat (length (filter sr_changed (pr_steps r))) @ '' changed, '' @
         str_nat (length (filter (\<lambda>s. \<not> sr_ok s) (pr_steps r))) @ '' failed)'')
        [(''node_id'', JStr (pn_node_id p)), (''plan_id'', JStr (pr_plan_id r)),
         (''ok'', JBool (pr_ok r)),
         (''steps'', JList (List.map (\<lambda>s. JObj
            [(''action'', JStr (sr_action s)), (''ok'', JBool (sr_ok s)),
             (''changed'', JBool (sr_changed s)), (''details'', step_details s)]) (pr_steps r)))])
     (\<lambda>_. if pr_ok r then returnM () else raiseM (apply_failed (pn_node_id p) (pr_steps r))))"

definition run_phase :: "env \<Rightarrow> 'ag agent_ops \<Rightarrow> per_node_plan list \<Rightarrow> ('ag run, raised, unit) act" where
  "run_phase env ag plans =
     bindM (move env RUNNING ''applying per-node plans'' None) (\<lambda>_. forM plans (run_node env ag))"

fun verify_peers :: "network \<Rightarrow> string list \<Rightarrow> ('ag run, raised, node_address list) act" where
  "verify_peers n [] = returnM []"
| "verify_peers n (nid # nids) =
     bindM (require_member n nid) (\<lambda>nd.
     bindM (verify_peers n nids) (\<lambda>peers.
     returnM (\<lparr>na_node_id = nid, na_mgmt_ip = nd_mgmt_ip nd\<rparr> # peers)))"

definition verify_node ::
  "env \<Rightarrow> 'ag agent_ops \<Rightarrow> network \<Rightarrow> node_address list \<Rightarrow> per_node_plan \<Rightarrow> ('ag run, raised, unit) act" where
  "verify_node env ag n peers p =
     bindM (observe env ag (pn_node_id p)) (\<lambda>s.
     if is_in_compliance n (pn_node_id p) peers (os_bridges s) then returnM ()
     else raiseM (verify_failed (pn_node_id p)))"

definition verify_phase ::
  "env \<Rightarrow> 'ag agent_ops \<Rightarrow> network \<Rightarrow> per_node_plan list \<Rightarrow> ('ag run, raised, unit) act" where
  "verify_phase env ag n plans =
     bindM (move env VERIFYING ''re-observing nodes to confirm convergence'' None) (\<lambda>_.
     bindM (verify_peers n (net_node_ids n)) (\<lambda>peers.
     forM plans (verify_node env ag n peers)))"

definition phases :: "env \<Rightarrow> 'ag agent_ops \<Rightarrow> network \<Rightarrow> ('ag run, raised, per_node_plan list) act" where
  "phases env ag n =
     bindM (plan_phase env ag n) (\<lambda>plans.
     bindM (run_phase env ag plans) (\<lambda>_.
     bindM (verify_phase env ag n plans) (\<lambda>_. returnM plans)))"

subsection \<open>The use case\<close>

definition fail_op :: "env \<Rightarrow> raised \<Rightarrow> ('ag run, raised, unit) act" where
  "fail_op env e =
     move env FAILED (ra_message e)
       (Some \<lparr>oe_code = (case ra_exc e of DomainError _ c \<Rightarrow> c | PyError _ \<Rightarrow> []),
              oe_message = ra_message e,
              oe_details = (case ra_details e of None \<Rightarrow> [] | Some d \<Rightarrow> d)\<rparr>)"

definition save_op :: "('ag run, raised, unit) act" where
  "save_op = modifyM (\<lambda>(w, op). (w\<lparr>w_operations := operation_save op (w_operations w)\<rparr>, op))"

definition publish_apply_result :: "env \<Rightarrow> network \<Rightarrow> bool \<Rightarrow> nat \<Rightarrow> ('ag run, raised, unit) act" where
  "publish_apply_result env n okay plan_count =
     bindM (getM snd) (\<lambda>op.
     bindM (onW (mapErrM (\<lambda>e. raised_of e [])
       (publish env (if okay then ''network.applied'' else ''network.apply_failed'') ''network''
          (Some (net_id n))
          [(''name'', JStr (net_name n)), (''intent_version'', JInt (net_intent_version n)),
           (''spec_hash'', JStr (net_spec_hash n)), (''operation_id'', JStr (op_id op)),
           (''node_count'', JInt (int plan_count)), (''ok'', JBool okay)] None))) (\<lambda>_. returnM ()))"

text \<open>How a run ends: recorded, saved, published, and handed to the caller or re-raised.\<close>

definition conclude ::
  "env \<Rightarrow> network \<Rightarrow> raised + per_node_plan list \<Rightarrow> ('ag run, raised, network \<times> operation) act" where
  "conclude env n r =
     (case r of
        Inl e \<Rightarrow>
          bindM (fail_op env (if is_domain (ra_exc e) then e else wrap_unexpected e)) (\<lambda>_.
          bindM save_op (\<lambda>_.
          bindM (publish_apply_result env n False 0) (\<lambda>_.
          if is_domain (ra_exc e) then getM (\<lambda>(_, op). (n, op)) else raiseM e)))
      | Inr plans \<Rightarrow>
          bindM (move env SUCCEEDED (''network '' @ py_repr (net_name n) @ '' converged on '' @
                   str_nat (length plans) @ '' node(s)'') None) (\<lambda>_.
          bindM save_op (\<lambda>_.
          bindM (publish_apply_result env n True (length plans)) (\<lambda>_.
          getM (\<lambda>(_, op). (n, op))))))"

definition apply_body :: "env \<Rightarrow> 'ag agent_ops \<Rightarrow> network \<Rightarrow> ('ag run, raised, network \<times> operation) act" where
  "apply_body env ag n = (\<lambda>s. case phases env ag n s of (r, s') \<Rightarrow> conclude env n r s')"

definition lock_key :: "string \<Rightarrow> string" where
  "lock_key nid = ''network:apply:'' @ nid"

definition start_operation :: "network \<Rightarrow> string \<Rightarrow> string option \<Rightarrow> string \<Rightarrow> time \<Rightarrow> operation" where
  "start_operation n nid by oid now =
     accept oid NETWORK_APPLY \<lparr>ref_type = ''network'', ref_id = nid\<rparr> now by
       (''apply network '' @ py_repr (net_name n) @ '' (intent_version='' @
        str_int (net_intent_version n) @ '')'')"

definition try_lockM :: "env \<Rightarrow> string \<Rightarrow> string \<Rightarrow> int \<Rightarrow> ('ag world, 'e, bool) act" where
  "try_lockM env key own ttl =
     bindM (nowM env) (\<lambda>now. zoomM w_locks (\<lambda>l w. w\<lparr>w_locks := l\<rparr>)
       (\<lambda>l. case mem_try_lock now key own ttl l of (l', okay) \<Rightarrow> (Inr okay, l')))"

definition locked_apply ::
  "env \<Rightarrow> 'ag agent_ops \<Rightarrow> network \<Rightarrow> string \<Rightarrow> string option \<Rightarrow> string
     \<Rightarrow> ('ag world, raised, network \<times> operation) act" where
  "locked_apply env ag n nid by oid =
     bindM (nowM env) (\<lambda>now. finallyM
       (\<lambda>w. case apply_body env ag n (w, start_operation n nid by oid now) of (r, (w', _)) \<Rightarrow> (r, w'))
       (\<lambda>w. w\<lparr>w_locks := mem_release (lock_key nid) oid (w_locks w)\<rparr>))"

definition apply_network ::
  "env \<Rightarrow> 'ag agent_ops \<Rightarrow> string \<Rightarrow> string option \<Rightarrow> ('ag world, raised, network \<times> operation) act" where
  "apply_network env ag nid by =
     bindM (getM (\<lambda>w. dget (w_networks w) nid)) (\<lambda>r.
     case r of
       None \<Rightarrow> raiseM (raised_of err_not_found (''network '' @ nid @ '' not found''))
     | Some n \<Rightarrow>
         bindM (freshM env OperationId) (\<lambda>oid.
         bindM (try_lockM env (lock_key nid) oid 300) (\<lambda>acquired.
         if \<not> acquired then
           bindM (nowM env) (\<lambda>now.
           bindM (getM (\<lambda>w. mem_current_owner (w_locks w) (lock_key nid) now)) (\<lambda>holder.
           raiseM (apply_already_running nid holder)))
         else locked_apply env ag n nid by oid)))"


subsection \<open>Any agent: what a run keeps\<close>

text \<open>The stores a run of the phases never writes.\<close>

definition same_stores :: "'ag world \<Rightarrow> 'ag world \<Rightarrow> bool" where
  "same_stores w0 w \<longleftrightarrow>
     w_nodes w = w_nodes w0 \<and> w_networks w = w_networks w0 \<and> w_operations w = w_operations w0 \<and>
     w_allocations w = w_allocations w0 \<and> w_tokens w = w_tokens w0 \<and> w_locks w = w_locks w0 \<and>
     w_outbox w = w_outbox w0"

definition running ::
  "'ag world \<Rightarrow> string \<Rightarrow> op_status \<Rightarrow> ((string, observed_state) dict \<Rightarrow> bool) \<Rightarrow> 'ag run \<Rightarrow> bool" where
  "running w0 oid st O' = (\<lambda>(w, op). same_stores w0 w \<and> op_wf op \<and> op_id op = oid \<and>
     op_status op = st \<and> O' (w_observed w))"

definition stopped :: "'ag world \<Rightarrow> string \<Rightarrow> 'ag run \<Rightarrow> bool" where
  "stopped w0 oid = (\<lambda>(w, op). same_stores w0 w \<and> op_wf op \<and> op_id op = oid \<and>
     op_status op \<in> {PLANNING, RUNNING, VERIFYING})"

lemma same_stores_simps [simp]:
  "same_stores w w"
  "same_stores w0 (w\<lparr>w_clock := c\<rparr>) = same_stores w0 w"
  "same_stores w0 (w\<lparr>w_ids := i\<rparr>) = same_stores w0 w"
  "same_stores w0 (w\<lparr>w_agent := a\<rparr>) = same_stores w0 w"
  "same_stores w0 (w\<lparr>w_observed := d\<rparr>) = same_stores w0 w"
  by (simp_all add: same_stores_def)

lemma running_stopped:
  "running w0 oid st O' s \<Longrightarrow> st \<in> {PLANNING, RUNNING, VERIFYING} \<Longrightarrow> stopped w0 oid s"
  by (auto simp: running_def stopped_def)

lemma transition_moves:
  assumes "st \<in> allowed_transitions (op_status op)" "err \<noteq> None \<longrightarrow> st \<in> {FAILED, ROLLED_BACK}"
  obtains op' where "transition_to st now msg p err op = Inr op'" "op_status op' = st"
    "op_id op' = op_id op" "op_error op' = (if err \<noteq> None then err else op_error op)"
    "op_wf op \<longrightarrow> op_wf op'"
proof -
  have "transition_to st now msg p err op \<noteq> Inl e" for e
    using assms by (auto simp: transition_to_def)
  then obtain op' where op': "transition_to st now msg p err op = Inr op'"
    by (cases "transition_to st now msg p err op") blast+
  moreover have "op_status op' = st" "op_id op' = op_id op"
      "op_error op' = (if err \<noteq> None then err else op_error op)"
    using op' by (rule transition_to_cases, simp)+
  moreover have "op_wf op \<longrightarrow> op_wf op'" using op' transition_to_wf by blast
  ultimately show ?thesis by (rule that)
qed

lemma move_run:
  assumes "st \<in> allowed_transitions (op_status op)" "err \<noteq> None \<longrightarrow> st \<in> {FAILED, ROLLED_BACK}"
  obtains op' where "move env st msg err (w, op) = (Inr (), (w\<lparr>w_clock := w_clock w + 1\<rparr>, op'))"
    "op_status op' = st" "op_id op' = op_id op"
    "op_error op' = (if err \<noteq> None then err else op_error op)" "op_wf op \<longrightarrow> op_wf op'"
proof -
  obtain op' where "transition_to st (e_now env (w_clock w)) msg None err op = Inr op'"
      "op_status op' = st" "op_id op' = op_id op"
      "op_error op' = (if err \<noteq> None then err else op_error op)" "op_wf op \<longrightarrow> op_wf op'"
    using transition_moves [OF assms, of "e_now env (w_clock w)" msg None] by blast
  then show ?thesis
    by (intro that [of op']) (simp_all add: move_def bindM_run onW_def zoomM_def nowM_def)
qed

lemma move_spec:
  assumes "st' \<in> allowed_transitions st"
  shows "spec (running w0 oid st O') (move env st' msg None) (\<lambda>_. running w0 oid st' O') E"
proof (rule spec_pre)
  fix s assume s: "running w0 oid st O' s"
  obtain w op where wop: "s = (w, op)" by (cases s)
  have "st' \<in> allowed_transitions (op_status op)" using s assms by (simp add: running_def wop)
  then obtain op' where "move env st' msg None (w, op) = (Inr (), (w\<lparr>w_clock := w_clock w + 1\<rparr>, op'))"
      "op_status op' = st'" "op_id op' = op_id op" "op_wf op \<longrightarrow> op_wf op'"
    using move_run [of st' op None env msg w] by auto
  then show "spec ((=) s) (move env st' msg None) (\<lambda>_. running w0 oid st' O') E"
    using s by (simp add: spec_def wop running_def)
qed

lemma log_spec:
  "spec (running w0 oid st O') (log_progress env msg p) (\<lambda>_. running w0 oid st O') E"
  by (auto simp: spec_def log_progress_def running_def bindM_run onW_def zoomM_def nowM_def
      log_event_wf) (simp_all add: log_event_def)

lemma agent_spec:
  assumes "st \<in> {PLANNING, RUNNING, VERIFYING}"
  shows "spec (running w0 oid st O') (onAgent m) (\<lambda>_. running w0 oid st O') (\<lambda>_. stopped w0 oid)"
proof (rule specI)
  fix s e s' assume "running w0 oid st O' s" "onAgent m s = (Inl e, s')"
  then show "stopped w0 oid s'"
    using assms by (cases s) (auto simp: onAgent_def onW_def zoomM_run running_def stopped_def)
next
  fix s x s' assume "running w0 oid st O' s" "onAgent m s = (Inr x, s')"
  then show "running w0 oid st O' s'"
    by (cases s) (auto simp: onAgent_def onW_def zoomM_run running_def)
qed

lemma require_member_run:
  "require_member n nid (w, op) = (case dget (w_nodes w) nid of
     Some nd \<Rightarrow> (Inr nd, (w, op)) | None \<Rightarrow> (Inl (missing_member n nid), (w, op)))"
  by (simp add: require_member_def split: option.split)

lemma require_member_spec:
  assumes "st \<in> {PLANNING, RUNNING, VERIFYING}"
  shows "spec (running w0 oid st O') (require_member n nid)
    (\<lambda>nd s. dget (w_nodes w0) nid = Some nd \<and> running w0 oid st O' s) (\<lambda>_. stopped w0 oid)"
proof (rule spec_pre)
  fix s assume s: "running w0 oid st O' s"
  obtain w op where wop: "s = (w, op)" by (cases s)
  have "w_nodes w = w_nodes w0" using s by (simp add: running_def same_stores_def wop)
  then show "spec ((=) s) (require_member n nid)
      (\<lambda>nd s. dget (w_nodes w0) nid = Some nd \<and> running w0 oid st O' s) (\<lambda>_. stopped w0 oid)"
    using s running_stopped [OF s assms] unfolding wop
    by (simp add: spec_def require_member_run split: option.split)
qed

lemma observe_spec:
  assumes "st \<in> {PLANNING, RUNNING, VERIFYING}"
  shows "spec (running w0 oid st O') (observe env ag nid)
    (\<lambda>s. running w0 oid st (\<lambda>d. \<exists>d0. O' d0 \<and> d = dset nid s d0)) (\<lambda>_. stopped w0 oid)"
  unfolding observe_def
proof (rule spec_bind [OF agent_spec [OF assms]])
  fix view
  show "spec (running w0 oid st O')
      (bindM (onW (nowM env)) (\<lambda>now. let obs = state_view_to_observed nid view now in
         bindM (onW (modifyM (\<lambda>w. w\<lparr>w_observed := observed_save obs (w_observed w)\<rparr>))) (\<lambda>_. returnM obs)))
      (\<lambda>s. running w0 oid st (\<lambda>d. \<exists>d0. O' d0 \<and> d = dset nid s d0)) (\<lambda>_. stopped w0 oid)"
    by (auto simp: spec_def bindM_run onW_def zoomM_def nowM_def running_def observed_save_def
        state_view_to_observed_def Let_def)
qed


text \<open>What planning knows of the members it has visited.\<close>

definition visited ::
  "'ag world \<Rightarrow> string set \<Rightarrow> (string, node) dict \<Rightarrow> (string, observed_state) dict
     \<Rightarrow> (string, observed_state) dict \<Rightarrow> bool" where
  "visited w0 D nodes obs d \<longleftrightarrow>
     (\<forall>m \<in> D. dget nodes m = dget (w_nodes w0) m \<and> dget nodes m \<noteq> None \<and>
        dget obs m \<noteq> None \<and> dget d m = dget obs m)"

lemma visited_insert:
  "visited w0 D nodes obs d \<Longrightarrow> dget (w_nodes w0) nid = Some nd \<Longrightarrow>
   visited w0 (insert nid D) (dset nid nd nodes) (dset nid s obs) (dset nid s d)"
  unfolding visited_def by (metis dget_dset_apply insertE option.distinct(1))

lemma spec_running_conseq:
  "spec P m Q E \<Longrightarrow> (\<And>s. P' s \<Longrightarrow> P s) \<Longrightarrow> (\<And>x s. Q x s \<Longrightarrow> Q' x s) \<Longrightarrow> spec P' m Q' E"
  by (rule spec_conseq [where P = P and Q = Q and E = E]) blast+

lemma spec_assume: "(C \<Longrightarrow> spec P m Q E) \<Longrightarrow> spec (\<lambda>s. C \<and> P s) m Q E"
  by (simp add: spec_def)

lemma observe_members_spec:
  "spec (running w0 oid PLANNING (visited w0 D nodes obs)) (observe_members env ag n nids nodes obs)
    (\<lambda>(nodes', obs') s. running w0 oid PLANNING (visited w0 (D \<union> set nids) nodes' obs') s)
    (\<lambda>_. stopped w0 oid)"
proof (induction nids arbitrary: nodes obs D)
  case Nil
  show ?case by (simp add: spec_def)
next
  case (Cons nid nids)
  let ?P = "running w0 oid PLANNING (visited w0 D nodes obs)"
  show ?case unfolding observe_members.simps
  proof (rule spec_bind [OF require_member_spec], simp, rule spec_assume)
    fix nd assume nd: "dget (w_nodes w0) nid = Some nd"
    show "spec ?P (bindM (observe env ag nid) (\<lambda>s. observe_members env ag n nids (dset nid nd nodes) (dset nid s obs)))
        (\<lambda>(nodes', obs'). running w0 oid PLANNING (visited w0 (D \<union> set (nid # nids)) nodes' obs'))
        (\<lambda>_. stopped w0 oid)"
    proof (rule spec_bind [OF observe_spec], simp)
      fix x
      show "spec (running w0 oid PLANNING (\<lambda>d. \<exists>d0. visited w0 D nodes obs d0 \<and> d = dset nid x d0))
          (observe_members env ag n nids (dset nid nd nodes) (dset nid x obs))
          (\<lambda>(nodes', obs'). running w0 oid PLANNING (visited w0 (D \<union> set (nid # nids)) nodes' obs'))
          (\<lambda>_. stopped w0 oid)"
        using Cons.IH [of "insert nid D" "dset nid nd nodes" "dset nid x obs"]
        by (rule spec_running_conseq) (auto simp: running_def nd visited_insert)
    qed
  qed
qed

text \<open>The node addresses of the members, as both planning and verification compute them.\<close>

lemma network_peers_cong:
  assumes "\<forall>m \<in> set (net_node_ids n). dget nodes m = dget nodes' m"
  shows "network_peers n nodes = network_peers n nodes'"
proof -
  have "List.map (\<lambda>nid. case dget nodes nid of None \<Rightarrow> []
        | Some nd \<Rightarrow> [\<lparr>na_node_id = nid, na_mgmt_ip = nd_mgmt_ip nd\<rparr>]) (net_node_ids n) =
      List.map (\<lambda>nid. case dget nodes' nid of None \<Rightarrow> []
        | Some nd \<Rightarrow> [\<lparr>na_node_id = nid, na_mgmt_ip = nd_mgmt_ip nd\<rparr>]) (net_node_ids n)"
    using assms by (intro map_cong) auto
  then show ?thesis by (simp only: network_peers_def)
qed

definition members_known :: "'ag world \<Rightarrow> network \<Rightarrow> bool" where
  "members_known w n \<longleftrightarrow> (\<forall>m \<in> set (net_node_ids n). dget (w_nodes w) m \<noteq> None)"

text \<open>The saved observation of a member passes the compliance test.\<close>

definition saved_compliant :: "network \<Rightarrow> node_address list \<Rightarrow> (string, observed_state) dict \<Rightarrow> string \<Rightarrow> bool" where
  "saved_compliant n peers d nid \<longleftrightarrow>
     (\<exists>s. dget d nid = Some s \<and> is_in_compliance n nid peers (os_bridges s))"

lemma plans_cover:
  assumes "nid \<in> set (net_node_ids n)" "dget nodes nid \<noteq> None"
    and "nid \<notin> pn_node_id ` set (plan_for_network n nodes obs fresh k)"
  shows "diff_for_node n nid (network_peers n nodes) (observed_bridges obs nid) = []"
proof (rule ccontr)
  assume nonempty: "diff_for_node n nid (network_peers n nodes) (observed_bridges obs nid) \<noteq> []"
  let ?d = "diff_for_node n nid (network_peers n nodes) (observed_bridges obs nid)"
  have "(nid, ?d) \<in> set (List.map (\<lambda>p. (pn_node_id p, pl_steps (pn_plan p))) (plan_for_network n nodes obs fresh k))"
    unfolding plan_for_network_def plan_nodes_content using assms nonempty by auto
  then show False using assms(3) by auto
qed

lemma unplanned_compliant:
  assumes "visited w0 (set (net_node_ids n)) nodes obs d" "nid \<in> set (net_node_ids n)"
    and "nid \<notin> pn_node_id ` set (plan_for_network n nodes obs fresh k)"
  shows "saved_compliant n (network_peers n (w_nodes w0)) d nid"
proof -
  have m: "dget nodes nid \<noteq> None" "dget obs nid \<noteq> None" "dget d nid = dget obs nid"
    using assms(1,2) unfolding visited_def by blast+
  have "network_peers n nodes = network_peers n (w_nodes w0)"
    using assms(1) by (intro network_peers_cong) (simp add: visited_def)
  then have "diff_for_node n nid (network_peers n (w_nodes w0)) (observed_bridges obs nid) = []"
    using plans_cover [OF assms(2) m(1) assms(3)] by simp
  then show ?thesis
    using m by (auto simp: saved_compliant_def is_in_compliance_def observed_bridges_def)
qed


lemma planM_spec:
  "spec (running w0 oid PLANNING (visited w0 (set (net_node_ids n)) nodes obs)) (planM env n nodes obs)
    (\<lambda>plans. running w0 oid PLANNING (\<lambda>d. \<forall>nid \<in> set (net_node_ids n) - pn_node_id ` set plans.
        saved_compliant n (network_peers n (w_nodes w0)) d nid)) E"
  by (auto simp: spec_def planM_def onW_def zoomM_def running_def Let_def
      intro: unplanned_compliant split: prod.split)

text \<open>After planning, whoever got no plan was observed compliant.\<close>

abbreviation rest_compliant ::
  "'ag world \<Rightarrow> network \<Rightarrow> per_node_plan list \<Rightarrow> (string, observed_state) dict \<Rightarrow> bool" where
  "rest_compliant w0 n plans d \<equiv> \<forall>nid \<in> set (net_node_ids n) - pn_node_id ` set plans.
     saved_compliant n (network_peers n (w_nodes w0)) d nid"

lemma observe_all_spec:
  "spec (running w0 oid PLANNING (\<lambda>_. True)) (observe_members env ag n (net_node_ids n) [] [])
    (\<lambda>x. running w0 oid PLANNING (visited w0 (set (net_node_ids n)) (fst x) (snd x)))
    (\<lambda>_. stopped w0 oid)"
  by (rule spec_running_conseq [OF observe_members_spec [where D = "{}" and nodes = "[]" and obs = "[]"]])
    (simp_all only: Un_empty_left split_beta, simp add: running_def visited_def split_beta)

lemma plan_phase_spec:
  "spec (running w0 oid ACCEPTED (\<lambda>_. True)) (plan_phase env ag n)
    (\<lambda>plans. running w0 oid PLANNING (rest_compliant w0 n plans)) (\<lambda>_. stopped w0 oid)"
  unfolding plan_phase_def
proof (rule spec_bind [OF move_spec], simp)
  fix u :: unit
  let ?P = "running w0 oid PLANNING (\<lambda>_. True)"
  let ?Q = "\<lambda>plans. running w0 oid PLANNING (rest_compliant w0 n plans)"
  have some: "spec ?P (bindM (observe_members env ag n (net_node_ids n) [] []) (\<lambda>x.
       bindM (planM env n (fst x) (snd x)) (\<lambda>plans.
       bindM (log_progress env (msg plans) (pay plans)) (\<lambda>_. returnM plans))))
     ?Q (\<lambda>_. stopped w0 oid)" for msg pay
    by (intro spec_bind [OF observe_all_spec] spec_bind [OF planM_spec] spec_bind [OF log_spec] spec_return)
  have none: "spec ?P (returnM []) ?Q (\<lambda>_. stopped w0 oid)" if "net_node_ids n = []"
    by (rule spec_return) (simp add: that running_def split_beta)
  show "spec ?P (if net_node_ids n = [] then returnM [] else
       bindM (observe_members env ag n (net_node_ids n) [] []) (\<lambda>(nodes, obs).
       bindM (planM env n nodes obs) (\<lambda>plans.
       bindM (log_progress env (''planned '' @ str_nat (step_count plans) @ '' step(s) across '' @
                str_nat (length plans) @ '' node(s)'')
              [(''node_plans'', JList (List.map (\<lambda>p. JObj
                  [(''node_id'', JStr (pn_node_id p)), (''plan_id'', JStr (pl_id (pn_plan p))),
                   (''step_count'', JInt (int (length (pl_steps (pn_plan p)))))]) plans))])
         (\<lambda>_. returnM plans)))) ?Q (\<lambda>_. stopped w0 oid)"
    unfolding split_beta by (intro spec_if none some)
qed

lemma run_node_spec:
  "spec (running w0 oid RUNNING O') (run_node env ag p) (\<lambda>_. running w0 oid RUNNING O') (\<lambda>_. stopped w0 oid)"
  unfolding run_node_def
proof (intro spec_bind [OF agent_spec] spec_bind [OF log_spec], simp)
  fix r
  show "spec (running w0 oid RUNNING O') (if pr_ok r then returnM () else raiseM (apply_failed (pn_node_id p) (pr_steps r)))
      (\<lambda>_. running w0 oid RUNNING O') (\<lambda>_. stopped w0 oid)"
    by (cases "pr_ok r") (simp_all add: spec_def running_stopped)
qed

lemma for_spec:
  "(\<And>x. x \<in> set xs \<Longrightarrow> spec I (f x) (\<lambda>_. I) E) \<Longrightarrow> spec I (forM xs f) (\<lambda>_. I) E"
  by (induction xs) (auto intro: spec_bind spec_return)

lemma run_phase_spec:
  "spec (running w0 oid PLANNING O') (run_phase env ag plans) (\<lambda>_. running w0 oid RUNNING O') (\<lambda>_. stopped w0 oid)"
  unfolding run_phase_def
  by (intro spec_bind [OF move_spec] for_spec run_node_spec) simp


lemma verify_peers_spec:
  "spec (running w0 oid VERIFYING O') (verify_peers n nids)
    (\<lambda>peers s. peers = concat (List.map (\<lambda>nid. case dget (w_nodes w0) nid of None \<Rightarrow> []
        | Some nd \<Rightarrow> [\<lparr>na_node_id = nid, na_mgmt_ip = nd_mgmt_ip nd\<rparr>]) nids) \<and>
      running w0 oid VERIFYING O' s) (\<lambda>_. stopped w0 oid)"
proof (induction nids)
  case Nil
  show ?case by (simp add: spec_def)
next
  case (Cons nid nids)
  show ?case unfolding verify_peers.simps
    by (intro spec_bind [OF require_member_spec] spec_assume) (simp,
        rule spec_bind [OF Cons.IH], rule spec_assume, rule spec_return, simp)
qed

lemma verify_node_spec:
  "spec (running w0 oid VERIFYING O') (verify_node env ag n peers p)
    (\<lambda>_. running w0 oid VERIFYING (\<lambda>d. \<exists>d0 s. O' d0 \<and> d = dset (pn_node_id p) s d0 \<and>
        is_in_compliance n (pn_node_id p) peers (os_bridges s))) (\<lambda>_. stopped w0 oid)"
  unfolding verify_node_def
proof (rule spec_bind [OF observe_spec], simp, rule spec_if)
  fix s :: observed_state assume "is_in_compliance n (pn_node_id p) peers (os_bridges s)"
  then show "spec (running w0 oid VERIFYING (\<lambda>d. \<exists>d0. O' d0 \<and> d = dset (pn_node_id p) s d0)) (returnM ())
      (\<lambda>_. running w0 oid VERIFYING (\<lambda>d. \<exists>d0 s. O' d0 \<and> d = dset (pn_node_id p) s d0 \<and>
        is_in_compliance n (pn_node_id p) peers (os_bridges s))) (\<lambda>_. stopped w0 oid)"
    by (intro spec_return) (auto simp: running_def)
next
  fix s :: observed_state
  show "spec (running w0 oid VERIFYING (\<lambda>d. \<exists>d0. O' d0 \<and> d = dset (pn_node_id p) s d0))
      (raiseM (verify_failed (pn_node_id p)))
      (\<lambda>_. running w0 oid VERIFYING (\<lambda>d. \<exists>d0 s. O' d0 \<and> d = dset (pn_node_id p) s d0 \<and>
        is_in_compliance n (pn_node_id p) peers (os_bridges s))) (\<lambda>_. stopped w0 oid)"
    by (rule spec_raise) (erule running_stopped, simp)
qed

lemma verify_nodes_spec:
  "spec (running w0 oid VERIFYING (\<lambda>d. \<forall>nid \<in> A - pn_node_id ` set plans. saved_compliant n peers d nid))
    (forM plans (verify_node env ag n peers))
    (\<lambda>_. running w0 oid VERIFYING (\<lambda>d. \<forall>nid \<in> A. saved_compliant n peers d nid)) (\<lambda>_. stopped w0 oid)"
proof (induction plans)
  case Nil
  show ?case by (simp add: spec_def)
next
  case (Cons p plans)
  have "spec (running w0 oid VERIFYING (\<lambda>d. \<forall>nid \<in> A - pn_node_id ` set (p # plans). saved_compliant n peers d nid))
      (verify_node env ag n peers p)
      (\<lambda>_. running w0 oid VERIFYING (\<lambda>d. \<forall>nid \<in> A - pn_node_id ` set plans. saved_compliant n peers d nid))
      (\<lambda>_. stopped w0 oid)"
    by (rule spec_running_conseq [OF verify_node_spec]) (auto simp: running_def saved_compliant_def)
  then show ?case unfolding forM.simps by (rule spec_bind) (rule Cons.IH)
qed

lemma verify_phase_spec:
  "spec (running w0 oid RUNNING (rest_compliant w0 n plans)) (verify_phase env ag n plans)
    (\<lambda>_. running w0 oid VERIFYING (\<lambda>d. \<forall>nid \<in> set (net_node_ids n).
        saved_compliant n (network_peers n (w_nodes w0)) d nid)) (\<lambda>_. stopped w0 oid)"
  unfolding verify_phase_def
  by (intro spec_bind [OF move_spec] spec_bind [OF verify_peers_spec] spec_assume)
    (simp_all add: verify_nodes_spec flip: network_peers_def)

lemma phases_spec:
  "spec (running w0 oid ACCEPTED (\<lambda>_. True)) (phases env ag n)
    (\<lambda>_. running w0 oid VERIFYING (\<lambda>d. \<forall>nid \<in> set (net_node_ids n).
        saved_compliant n (network_peers n (w_nodes w0)) d nid)) (\<lambda>_. stopped w0 oid)"
  unfolding phases_def
  by (intro spec_bind [OF plan_phase_spec] spec_bind [OF run_phase_spec] spec_bind [OF verify_phase_spec]
      spec_return)


subsection \<open>Any agent: how a run ends\<close>

definition apply_event :: "env \<Rightarrow> 'ag world \<Rightarrow> network \<Rightarrow> string \<Rightarrow> bool \<Rightarrow> nat \<Rightarrow> outbox_event" where
  "apply_event env w n oid okay plan_count =
     event_of env w (if okay then ''network.applied'' else ''network.apply_failed'') ''network''
       (Some (net_id n))
       [(''name'', JStr (net_name n)), (''intent_version'', JInt (net_intent_version n)),
        (''spec_hash'', JStr (net_spec_hash n)), (''operation_id'', JStr oid),
        (''node_count'', JInt (int plan_count)), (''ok'', JBool okay)] None"

lemma publish_apply_run:
  "publish_apply_result env n okay k (w, op) =
     (Inr (), (published (apply_event env w n (op_id op) okay k) w, op))"
  by (simp add: publish_apply_result_def bindM_run onW_def zoomM_def mapErrM_def publish_run
      apply_event_def)

text \<open>The world after the operation of a run was saved and its event published.\<close>

definition recorded :: "env \<Rightarrow> network \<Rightarrow> bool \<Rightarrow> nat \<Rightarrow> operation \<Rightarrow> 'ag world \<Rightarrow> 'ag world" where
  "recorded env n okay k op w =
     (let w1 = w\<lparr>w_clock := w_clock w + 1, w_operations := operation_save op (w_operations w)\<rparr>
      in published (apply_event env w1 n (op_id op) okay k) w1)"

lemma conclude_ok:
  assumes "op_status op = VERIFYING"
  obtains op' where
    "conclude env n (Inr plans) (w, op) = (Inr (n, op'), (recorded env n True (length plans) op' w, op'))"
    "op_status op' = SUCCEEDED" "op_id op' = op_id op" "op_wf op \<longrightarrow> op_wf op'"
proof -
  have allowed: "SUCCEEDED \<in> allowed_transitions (op_status op)" using assms by simp
  obtain op' where "move env SUCCEEDED (''network '' @ py_repr (net_name n) @ '' converged on '' @
      str_nat (length plans) @ '' node(s)'') None (w, op) = (Inr (), (w\<lparr>w_clock := w_clock w + 1\<rparr>, op'))"
      "op_status op' = SUCCEEDED" "op_id op' = op_id op" "op_wf op \<longrightarrow> op_wf op'"
    by (rule move_run [OF allowed]) simp_all
  then show ?thesis
    by (intro that [of op']) (simp_all add: conclude_def bindM_run save_op_def publish_apply_run
        recorded_def Let_def)
qed

definition failure_of :: "raised \<Rightarrow> op_error" where
  "failure_of e = (let e' = (if is_domain (ra_exc e) then e else wrap_unexpected e) in
     \<lparr>oe_code = (case ra_exc e' of DomainError _ c \<Rightarrow> c | PyError _ \<Rightarrow> []),
      oe_message = ra_message e',
      oe_details = (case ra_details e' of None \<Rightarrow> [] | Some d \<Rightarrow> d)\<rparr>)"

lemma conclude_fail:
  assumes "op_status op \<in> {PLANNING, RUNNING, VERIFYING}"
  obtains op' where
    "conclude env n (Inl e) (w, op) =
       (if is_domain (ra_exc e) then Inr (n, op') else Inl e, (recorded env n False 0 op' w, op'))"
    "op_status op' = FAILED" "op_id op' = op_id op" "op_error op' = Some (failure_of e)"
    "op_wf op \<longrightarrow> op_wf op'"
proof -
  let ?e = "if is_domain (ra_exc e) then e else wrap_unexpected e"
  have allowed: "FAILED \<in> allowed_transitions (op_status op)" using assms by auto
  obtain op' where op': "move env FAILED (ra_message ?e) (Some (failure_of e)) (w, op) =
      (Inr (), (w\<lparr>w_clock := w_clock w + 1\<rparr>, op'))"
      "op_status op' = FAILED" "op_id op' = op_id op" "op_error op' = Some (failure_of e)"
      "op_wf op \<longrightarrow> op_wf op'"
    by (rule move_run [OF allowed, of "Some (failure_of e)"]) simp_all
  have "fail_op env ?e = move env FAILED (ra_message ?e) (Some (failure_of e))"
    by (simp add: fail_op_def failure_of_def Let_def)
  then have "fail_op env ?e (w, op) = (Inr (), (w\<lparr>w_clock := w_clock w + 1\<rparr>, op'))"
    using op'(1) by (rule ssubst [OF arg_cong [where f = "\<lambda>m. m (w, op)"]])
  then have "conclude env n (Inl e) (w, op) =
      (if is_domain (ra_exc e) then Inr (n, op') else Inl e, (recorded env n False 0 op' w, op'))"
    by (cases "is_domain (ra_exc e)")
      (simp_all add: conclude_def bindM_run save_op_def publish_apply_run recorded_def Let_def)
  then show ?thesis using op'(2-) by (rule that)
qed

text \<open>Ids are only ever drawn.\<close>

abbreviation ids_from :: "nat \<Rightarrow> 'ag run \<Rightarrow> bool" where
  "ids_from k \<equiv> \<lambda>s. k \<le> w_ids (fst s)"

lemma ids_move: "keeps (ids_from k) (move env st msg err)"
  by (auto simp: spec_def move_def onW_def zoomM_def bindM_run nowM_def split: sum.splits prod.splits)

lemma ids_log: "keeps (ids_from k) (log_progress env msg pl)"
  by (auto simp: spec_def log_progress_def onW_def zoomM_def bindM_run nowM_def)

lemma ids_agent: "keeps (ids_from k) (onAgent m)"
  by (auto simp: spec_def onAgent_def onW_def zoomM_def split: sum.splits prod.splits)

lemma ids_require: "keeps (ids_from k) (require_member n nid)"
  unfolding require_member_def by (rule keeps_bind) (auto split: option.split)

lemma ids_observe: "keeps (ids_from k) (observe env ag nid)"
  unfolding observe_def
  by (rule keeps_bind [OF ids_agent])
    (auto simp: spec_def onW_def zoomM_def bindM_run nowM_def Let_def)

lemma ids_observe_members: "keeps (ids_from k) (observe_members env ag n nids nodes obs)"
  by (induction nids arbitrary: nodes obs) (auto intro!: keeps_bind ids_require ids_observe)

lemma ids_planM: "keeps (ids_from k) (planM env n nodes obs)"
  by (auto simp: spec_def planM_def onW_def zoomM_def Let_def)

lemma ids_verify_peers: "keeps (ids_from k) (verify_peers n nids)"
proof (induction nids)
  case (Cons i nids)
  show ?case unfolding verify_peers.simps by (intro keeps_bind ids_require Cons.IH keeps_simps)
qed (simp add: spec_def)

lemma ids_phases: "keeps (ids_from k) (phases env ag n)"
proof -
  have plan: "keeps (ids_from k) (plan_phase env ag n)"
    unfolding plan_phase_def split_beta
    by (intro keeps_bind ids_move spec_if keeps_simps ids_observe_members ids_planM ids_log)
  have node: "keeps (ids_from k) (run_node env ag p)" for p
    unfolding run_node_def by (intro keeps_bind ids_agent ids_log spec_if keeps_simps)
  have verify: "keeps (ids_from k) (verify_node env ag n peers p)" for peers p
    unfolding verify_node_def by (intro keeps_bind ids_observe spec_if keeps_simps)
  show ?thesis
    unfolding phases_def run_phase_def verify_phase_def
    by (intro keeps_bind plan node verify ids_move keeps_for ids_verify_peers keeps_simps)
qed

lemma phases_ids: "phases env ag n (w, op) = (pr, (wr, opr)) \<Longrightarrow> w_ids w \<le> w_ids wr"
  using keeps_state [OF ids_phases [of "w_ids w" env ag n], of "(w, op)"] by simp

text \<open>What every run of the locked part leaves behind, whatever the agent does.\<close>

definition run_outcome ::
  "env \<Rightarrow> network \<Rightarrow> string \<Rightarrow> 'ag world \<Rightarrow> raised + network \<times> operation \<Rightarrow> 'ag world \<Rightarrow> bool" where
  "run_outcome env n oid w0 r w \<longleftrightarrow> (\<exists>wr op okay k.
     same_stores w0 wr \<and> w_ids w0 \<le> w_ids wr \<and> op_wf op \<and> op_id op = oid \<and>
     w = recorded env n okay k op wr \<and>
     (if okay then r = Inr (n, op) \<and> op_status op = SUCCEEDED \<and>
        (\<forall>nid \<in> set (net_node_ids n). saved_compliant n (network_peers n (w_nodes w0)) (w_observed w) nid)
      else op_status op = FAILED \<and> op_error op \<noteq> None \<and>
        (r = Inr (n, op) \<or> (\<exists>e. r = Inl e \<and> \<not> is_domain (ra_exc e)))))"

lemma recorded_simps [simp]:
  "w_observed (recorded env n okay k op w) = w_observed w"
  "w_nodes (recorded env n okay k op w) = w_nodes w"
  "w_networks (recorded env n okay k op w) = w_networks w"
  "w_allocations (recorded env n okay k op w) = w_allocations w"
  "w_tokens (recorded env n okay k op w) = w_tokens w"
  "w_locks (recorded env n okay k op w) = w_locks w"
  "w_agent (recorded env n okay k op w) = w_agent w"
  "w_operations (recorded env n okay k op w) = operation_save op (w_operations w)"
  by (simp_all add: recorded_def Let_def)

lemma apply_body_outcome:
  assumes run: "apply_body env ag n (w0, start_operation n nid by oid now) = (r, (w, op))"
  shows "run_outcome env n oid w0 r w"
proof -
  let ?s0 = "(w0, start_operation n nid by oid now)"
  have start: "running w0 oid ACCEPTED (\<lambda>_. True) ?s0"
    by (simp add: running_def start_operation_def) (simp add: accept_def)
  obtain pr wr opr where ph: "phases env ag n ?s0 = (pr, (wr, opr))" by (metis prod_cases3)
  then have body: "conclude env n pr (wr, opr) = (r, (w, op))"
    using run by (simp add: apply_body_def)
  have ids: "w_ids w0 \<le> w_ids wr" using phases_ids [OF ph] .
  show ?thesis
  proof (cases pr)
    case (Inr plans)
    then have v: "running w0 oid VERIFYING (\<lambda>d. \<forall>nid \<in> set (net_node_ids n).
        saved_compliant n (network_peers n (w_nodes w0)) d nid) (wr, opr)"
      using spec_Inr [OF phases_spec start] ph by simp
    then obtain op' where "conclude env n (Inr plans) (wr, opr) =
        (Inr (n, op'), (recorded env n True (length plans) op' wr, op'))"
        "op_status op' = SUCCEEDED" "op_id op' = op_id opr" "op_wf opr \<longrightarrow> op_wf op'"
      using conclude_ok [of opr env n plans wr] by (auto simp: running_def)
    then have "same_stores w0 wr \<and> w_ids w0 \<le> w_ids wr \<and> op_wf op' \<and> op_id op' = oid \<and>
        w = recorded env n True (length plans) op' wr \<and> r = Inr (n, op') \<and> op_status op' = SUCCEEDED \<and>
        (\<forall>nid \<in> set (net_node_ids n). saved_compliant n (network_peers n (w_nodes w0)) (w_observed w) nid)"
      using v body Inr ids by (auto simp: running_def)
    then show ?thesis unfolding run_outcome_def
      by (intro exI [of _ wr] exI [of _ op'] exI [of _ True] exI [of _ "length plans"])
        (simp only: if_True, blast)
  next
    case (Inl e)
    then have st: "stopped w0 oid (wr, opr)"
      using spec_Inl [OF phases_spec start] ph by simp
    then obtain op' where "conclude env n (Inl e) (wr, opr) =
        (if is_domain (ra_exc e) then Inr (n, op') else Inl e, (recorded env n False 0 op' wr, op'))"
        "op_status op' = FAILED" "op_id op' = op_id opr" "op_error op' = Some (failure_of e)"
        "op_wf opr \<longrightarrow> op_wf op'"
      using conclude_fail [of opr env n e wr] by (auto simp: stopped_def)
    then have "same_stores w0 wr \<and> w_ids w0 \<le> w_ids wr \<and> op_wf op' \<and> op_id op' = oid \<and>
        w = recorded env n False 0 op' wr \<and> op_status op' = FAILED \<and> op_error op' \<noteq> None \<and>
        (r = Inr (n, op') \<or> (\<exists>e. r = Inl e \<and> \<not> is_domain (ra_exc e)))"
      using st body Inl ids by (auto simp: stopped_def split: if_splits)
    then show ?thesis unfolding run_outcome_def
      by (intro exI [of _ wr] exI [of _ op'] exI [of _ False] exI [of _ "0 :: nat"]) simp
  qed
qed


lemma locked_apply_outcome:
  assumes "locked_apply env ag n nid by oid w0 = (r, w)"
  shows "\<exists>w'. run_outcome env n oid (w0\<lparr>w_clock := w_clock w0 + 1\<rparr>) r w' \<and>
    w = w'\<lparr>w_locks := mem_release (lock_key nid) oid (w_locks w')\<rparr>"
proof -
  let ?now = "e_now env (w_clock w0)" and ?w0 = "w0\<lparr>w_clock := w_clock w0 + 1\<rparr>"
  obtain br w' op where body: "apply_body env ag n (?w0, start_operation n nid by oid ?now) = (br, (w', op))"
    by (metis prod_cases3)
  have "r = br" "w = w'\<lparr>w_locks := mem_release (lock_key nid) oid (w_locks w')\<rparr>"
    using assms body by (simp_all add: locked_apply_def bindM_run nowM_def finallyM_run)
  then show ?thesis using apply_body_outcome [OF body] by blast
qed

text \<open>The state in which a successful attempt to lock leaves the controller.\<close>

definition oid_of :: "env \<Rightarrow> 'ag world \<Rightarrow> string" where
  "oid_of env w = factory_id OperationId (e_rnd env (w_ids w))"

definition try_of :: "env \<Rightarrow> string \<Rightarrow> 'ag world \<Rightarrow> held \<times> bool" where
  "try_of env nid w = mem_try_lock (e_now env (w_clock w)) (lock_key nid) (oid_of env w) 300 (w_locks w)"

definition attempted :: "env \<Rightarrow> string \<Rightarrow> 'ag world \<Rightarrow> 'ag world" where
  "attempted env nid w = w\<lparr>w_ids := w_ids w + 1, w_clock := w_clock w + 1, w_locks := fst (try_of env nid w)\<rparr>"

lemma apply_network_run:
  "apply_network env ag nid by w =
     (case dget (w_networks w) nid of
        None \<Rightarrow> (Inl (raised_of err_not_found (''network '' @ nid @ '' not found'')), w)
      | Some n \<Rightarrow>
          if snd (try_of env nid w) then locked_apply env ag n nid by (oid_of env w) (attempted env nid w)
          else (Inl (apply_already_running nid
                  (mem_current_owner (fst (try_of env nid w)) (lock_key nid) (e_now env (w_clock w + 1)))),
                (attempted env nid w)\<lparr>w_clock := w_clock w + 2\<rparr>))"
  by (simp add: apply_network_def bindM_run freshM_def nowM_def try_lockM_def zoomM_def split_beta
      oid_of_def try_of_def attempted_def Let_def split: option.split)

text \<open>A controller with two nodes and a network over them, and agents that cannot be reached.\<close>

definition example_world :: "'ag \<Rightarrow> 'ag world" where
  "example_world a =
     \<lparr>w_nodes = [(''node_a00001'', example_node\<lparr>nd_id := ''node_a00001''\<rparr>),
                 (''node_b00002'', example_node\<lparr>nd_id := ''node_b00002'', nd_mgmt_ip := ''10.0.0.2''\<rparr>)],
      w_networks = [(''net_1'', example_network)], w_operations = [], w_observed = [],
      w_allocations = [], w_tokens = [], w_locks = [], w_outbox = empty_outbox,
      w_clock = 0, w_ids = 0, w_agent = a\<rparr>"

definition example_env :: env where
  "example_env = \<lparr>e_now = (\<lambda>k. int k), e_rnd = (\<lambda>k. replicate k CHR ''0'')\<rparr>"

definition dead_ops :: "'ag agent_ops" where
  "dead_ops =
     \<lparr>ago_get_state = (\<lambda>nid. raiseM (raised_of (mk_error AgentTransportError) ''agent unreachable'')),
      ago_apply_plan = (\<lambda>nid p. raiseM (raised_of (mk_error AgentTransportError) ''agent unreachable''))\<rparr>"

lemma example_try: "snd (try_of example_env ''net_1'' (example_world a))"
  by (simp add: try_of_def mem_try_lock_def example_world_def)

lemma example_stored: "dget (w_networks (example_world a)) ''net_1'' = Some example_network"
  by (simp add: example_world_def)

text \<open>
  C2. A finished apply tells the truth about the switches, whatever the agents do: when
  ApplyNetwork returns a succeeded operation, the last state the controller observed of every
  member passes the compliance test of the network it applied. Every other run that got the lock
  ends in a failed operation with an error; a run that lets an exception escape is one of those,
  and what escapes is not a domain error.
\<close>

theorem apply_network_truthful:
  assumes "apply_network env ag nid by w = (r, w')" "dget (w_networks w) nid = Some n"
    and "snd (try_of env nid w)"
  shows "\<exists>op. dget (w_operations w') (oid_of env w) = Some op \<and> op_wf op \<and> op_id op = oid_of env w \<and>
    (op_status op = SUCCEEDED \<and> r = Inr (n, op) \<and>
       (\<forall>m \<in> set (net_node_ids n). saved_compliant n (network_peers n (w_nodes w)) (w_observed w') m) \<or>
     op_status op = FAILED \<and> op_error op \<noteq> None \<and>
       (r = Inr (n, op) \<or> (\<exists>e. r = Inl e \<and> \<not> is_domain (ra_exc e))))"
proof -
  let ?w0 = "(attempted env nid w)\<lparr>w_clock := w_clock (attempted env nid w) + 1\<rparr>"
  have "locked_apply env ag n nid by (oid_of env w) (attempted env nid w) = (r, w')"
    using assms by (simp add: apply_network_run)
  then obtain w1 where out: "run_outcome env n (oid_of env w) ?w0 r w1"
      and w': "w' = w1\<lparr>w_locks := mem_release (lock_key nid) (oid_of env w) (w_locks w1)\<rparr>"
    using locked_apply_outcome by blast
  have peers: "w_nodes ?w0 = w_nodes w" by (simp add: attempted_def)
  obtain wr op okay k where *: "op_wf op" "op_id op = oid_of env w" "w1 = recorded env n okay k op wr"
      "if okay then r = Inr (n, op) \<and> op_status op = SUCCEEDED \<and>
          (\<forall>m \<in> set (net_node_ids n). saved_compliant n (network_peers n (w_nodes ?w0)) (w_observed w1) m)
        else op_status op = FAILED \<and> op_error op \<noteq> None \<and>
          (r = Inr (n, op) \<or> (\<exists>e. r = Inl e \<and> \<not> is_domain (ra_exc e)))"
    using out unfolding run_outcome_def by blast
  have "dget (w_operations w') (oid_of env w) = Some op"
    using * w' by (simp add: operation_save_def)
  then show ?thesis
    using * w' unfolding peers by (intro exI [of _ op]) (cases okay, simp_all)
qed

theorem apply_network_truthful_witness:
  "\<exists>op. dget (w_operations (snd (apply_network example_env dead_ops ''net_1'' None (example_world ()))))
      (oid_of example_env (example_world ())) = Some op \<and> is_terminal (op_status op)"
proof -
  obtain r w' where run: "apply_network example_env dead_ops ''net_1'' None (example_world ()) = (r, w')"
    by fastforce
  show ?thesis
    using apply_network_truthful [OF run example_stored example_try] run by (auto simp: is_terminal_def)
qed

lemma try_outcome:
  "snd (try_of env nid w) \<Longrightarrow> \<exists>e. dget (fst (try_of env nid w)) (lock_key nid) = Some (oid_of env w, e)"
  "\<not> snd (try_of env nid w) \<Longrightarrow> fst (try_of env nid w) = w_locks w"
  "k \<noteq> lock_key nid \<Longrightarrow> dget (fst (try_of env nid w)) k = dget (w_locks w) k"
  by (auto simp: try_of_def mem_try_lock_def split: option.splits if_splits)

lemma release_held:
  "dget l k = Some (own, e) \<Longrightarrow> mem_release k own l = dpop k l"
  by (simp add: mem_release_def)

text \<open>
  C3. The lock of a network is never leaked and never stolen: a run that got it releases it again
  on every path, also when an exception escapes; a run that did not get it raises the conflict
  apply_already_running and changes nothing but the counters of the clock and the id factory. No
  run touches the lock of another network.
\<close>

theorem apply_network_lock:
  assumes "apply_network env ag nid by w = (r, w')" "dget (w_networks w) nid = Some n"
  shows "(if snd (try_of env nid w) then dget (w_locks w') (lock_key nid) = None
     else (\<exists>h. r = Inl (apply_already_running nid h)) \<and>
       w' = w\<lparr>w_ids := w_ids w + 1, w_clock := w_clock w + 2\<rparr>) \<and>
    (\<forall>k. k \<noteq> lock_key nid \<longrightarrow> dget (w_locks w') k = dget (w_locks w) k)"
proof (cases "snd (try_of env nid w)")
  case False
  then show ?thesis
    using assms try_outcome(2) [OF False] by (auto simp: apply_network_run attempted_def)
next
  case True
  let ?w0 = "(attempted env nid w)\<lparr>w_clock := w_clock (attempted env nid w) + 1\<rparr>"
  have "locked_apply env ag n nid by (oid_of env w) (attempted env nid w) = (r, w')"
    using assms True by (simp add: apply_network_run)
  then obtain w1 where out: "run_outcome env n (oid_of env w) ?w0 r w1"
      and w': "w' = w1\<lparr>w_locks := mem_release (lock_key nid) (oid_of env w) (w_locks w1)\<rparr>"
    using locked_apply_outcome by blast
  have locks: "w_locks w1 = fst (try_of env nid w)"
    using out by (auto simp: run_outcome_def same_stores_def attempted_def)
  obtain e where "dget (w_locks w1) (lock_key nid) = Some (oid_of env w, e)"
    using try_outcome(1) [OF True] locks by auto
  then have "w_locks w' = dpop (lock_key nid) (fst (try_of env nid w))"
    using w' locks by (simp add: release_held)
  then show ?thesis using True by (auto simp: try_outcome(3))
qed

theorem apply_network_lock_witness:
  "dget (w_locks (snd (apply_network example_env dead_ops ''net_1'' None (example_world ()))))
     (lock_key ''net_1'') = None"
proof -
  obtain r w' where run: "apply_network example_env dead_ops ''net_1'' None (example_world ()) = (r, w')"
    by fastforce
  show ?thesis
    using apply_network_lock [OF run example_stored] run example_try [of "()"] by simp
qed

end
