(* ===== verification/Convergence.thy ===== *)
theory Convergence
  imports Reconcile
begin

text \<open>
  The second half of the contract of \<open>ApplyNetwork\<close>: with agents that carry out their plans, an
  apply converges. \<open>southbound\<close> states what the use case needs of an agent; its lemmas follow the
  phases once, and the in-process agent (\<open>adapters/netos_agent/fake.py\<close>) provides it.
\<close>

subsection \<open>What an apply needs of the agents\<close>

locale southbound =
  fixes ag :: "'ag agent_ops"
    and good :: "'ag \<Rightarrow> bool"
    and bridges :: "'ag \<Rightarrow> string \<Rightarrow> obs_bridge list"
  assumes observes: "good a \<Longrightarrow> \<exists>v. ago_get_state ag nid a = (Inr v, a) \<and>
      List.map bridge_view_to_observed (sv_bridges v) = bridges a nid"
    and applies: "good a \<Longrightarrow> names_unambiguous n nid peers \<Longrightarrow>
      pl_steps p = diff_for_node n nid peers (bridges a nid) \<Longrightarrow>
      \<exists>r a'. ago_apply_plan ag nid p a = (Inr r, a') \<and> pr_ok r \<and> good a' \<and>
        is_in_compliance n nid peers (bridges a' nid) \<and>
        keeps_foreign n nid peers (switch_of (bridges a nid)) (switch_of (bridges a' nid)) \<and>
        (\<forall>m. m \<noteq> nid \<longrightarrow> bridges a' m = bridges a m)"
begin

definition at_phase ::
  "'ag world \<Rightarrow> string \<Rightarrow> op_status \<Rightarrow> (string \<Rightarrow> obs_bridge list) \<Rightarrow> 'ag run \<Rightarrow> bool" where
  "at_phase w0 oid st S = (\<lambda>(w, op). same_stores w0 w \<and> op_wf op \<and> op_id op = oid \<and>
     op_status op = st \<and> good (w_agent w) \<and> bridges (w_agent w) = S)"

lemma move_at:
  assumes "st' \<in> allowed_transitions st"
  shows "spec (at_phase w0 oid st S) (move env st' msg None) (\<lambda>_. at_phase w0 oid st' S) (\<lambda>_ _. False)"
proof (rule spec_pre)
  fix s assume s: "at_phase w0 oid st S s"
  obtain w op where wop: "s = (w, op)" by (cases s)
  have allowed: "st' \<in> allowed_transitions (op_status op)" using s assms by (simp add: at_phase_def wop)
  obtain op' where "move env st' msg None (w, op) = (Inr (), (w\<lparr>w_clock := w_clock w + 1\<rparr>, op'))"
      "op_status op' = st'" "op_id op' = op_id op" "op_wf op \<longrightarrow> op_wf op'"
    by (rule move_run [OF allowed, of None]) simp_all
  then show "spec ((=) s) (move env st' msg None) (\<lambda>_. at_phase w0 oid st' S) (\<lambda>_ _. False)"
    using s by (simp add: spec_def wop at_phase_def)
qed

lemma log_at:
  "spec (at_phase w0 oid st S) (log_progress env msg p) (\<lambda>_. at_phase w0 oid st S) (\<lambda>_ _. False)"
  by (auto simp: spec_def log_progress_def at_phase_def bindM_run onW_def zoomM_def nowM_def
      log_event_wf) (simp_all add: log_event_def)

lemma member_at:
  assumes "dget (w_nodes w0) nid = Some nd"
  shows "spec (at_phase w0 oid st S) (require_member n nid) (\<lambda>x s. x = nd \<and> at_phase w0 oid st S s) (\<lambda>_ _. False)"
  using assms by (auto simp: spec_def require_member_run at_phase_def same_stores_def)

lemma observe_at:
  "spec (at_phase w0 oid st S) (observe env ag nid)
     (\<lambda>x s. os_bridges x = S nid \<and> at_phase w0 oid st S s) (\<lambda>_ _. False)"
proof (rule spec_pre)
  fix s assume s: "at_phase w0 oid st S s"
  obtain w op where wop: "s = (w, op)" by (cases s)
  then obtain v where "ago_get_state ag nid (w_agent w) = (Inr v, w_agent w)"
      "List.map bridge_view_to_observed (sv_bridges v) = S nid"
    using s observes [of "w_agent w" nid] by (auto simp: at_phase_def)
  then show "spec ((=) s) (observe env ag nid) (\<lambda>x s. os_bridges x = S nid \<and> at_phase w0 oid st S s) (\<lambda>_ _. False)"
    using s unfolding wop
    by (simp add: spec_def observe_def bindM_run onAgent_def onW_def zoomM_def nowM_def Let_def
        state_view_to_observed_def at_phase_def)
qed

definition seen :: "'ag world \<Rightarrow> (string \<Rightarrow> obs_bridge list) \<Rightarrow> string set \<Rightarrow> (string, node) dict
     \<Rightarrow> (string, observed_state) dict \<Rightarrow> bool" where
  "seen w0 S D nodes obs \<longleftrightarrow> (\<forall>m \<in> D. dget nodes m = dget (w_nodes w0) m \<and> dget nodes m \<noteq> None \<and>
     (\<exists>s. dget obs m = Some s \<and> os_bridges s = S m))"

lemma observe_members_at:
  assumes "\<forall>m \<in> set nids. dget (w_nodes w0) m \<noteq> None" "seen w0 S D nodes obs"
  shows "spec (at_phase w0 oid PLANNING S) (observe_members env ag n nids nodes obs)
    (\<lambda>x s. seen w0 S (D \<union> set nids) (fst x) (snd x) \<and> at_phase w0 oid PLANNING S s) (\<lambda>_ _. False)"
  using assms
proof (induction nids arbitrary: nodes obs D)
  case Nil
  then show ?case by (simp add: spec_def)
next
  case (Cons nid nids)
  then obtain nd where nd: "dget (w_nodes w0) nid = Some nd" by auto
  show ?case unfolding observe_members.simps
  proof (rule spec_bind [OF member_at [OF nd]], rule spec_assume)
    fix x assume x: "x = nd"
    show "spec (at_phase w0 oid PLANNING S)
        (bindM (observe env ag nid) (\<lambda>s. observe_members env ag n nids (dset nid x nodes) (dset nid s obs)))
        (\<lambda>x s. seen w0 S (D \<union> set (nid # nids)) (fst x) (snd x) \<and> at_phase w0 oid PLANNING S s) (\<lambda>_ _. False)"
    proof (rule spec_bind [OF observe_at], rule spec_assume)
      fix y :: observed_state assume y: "os_bridges y = S nid"
      have "seen w0 S (insert nid D) (dset nid nd nodes) (dset nid y obs)"
        using Cons.prems(2) nd y unfolding seen_def
        by (metis dget_dset_apply insertE option.distinct(1))
      then show "spec (at_phase w0 oid PLANNING S) (observe_members env ag n nids (dset nid x nodes) (dset nid y obs))
          (\<lambda>x s. seen w0 S (D \<union> set (nid # nids)) (fst x) (snd x) \<and> at_phase w0 oid PLANNING S s) (\<lambda>_ _. False)"
        using Cons.IH [of "insert nid D"] Cons.prems(1) x by simp
    qed
  qed
qed

text \<open>The plans are the diffs against the state S, for distinct members.\<close>

definition plans_for ::
  "network \<Rightarrow> node_address list \<Rightarrow> (string \<Rightarrow> obs_bridge list) \<Rightarrow> per_node_plan list \<Rightarrow> bool" where
  "plans_for n peers S plans \<longleftrightarrow>
     (\<forall>p \<in> set plans. pl_steps (pn_plan p) = diff_for_node n (pn_node_id p) peers (S (pn_node_id p))) \<and>
     distinct (List.map pn_node_id plans) \<and> pn_node_id ` set plans \<subseteq> set (net_node_ids n) \<and>
     (\<forall>m \<in> set (net_node_ids n) - pn_node_id ` set plans. diff_for_node n m peers (S m) = [])"

lemma plans_for_planned:
  assumes sn: "seen w0 S (set (net_node_ids n)) nodes obs" and dist: "distinct (net_node_ids n)"
  shows "plans_for n (network_peers n (w_nodes w0)) S (plan_for_network n nodes obs fresh k)"
proof -
  let ?plans = "plan_for_network n nodes obs fresh k" and ?peers = "network_peers n (w_nodes w0)"
  have peers: "network_peers n nodes = ?peers"
    using sn by (intro network_peers_cong) (auto simp: seen_def)
  have mem: "dget nodes m \<noteq> None \<and> (\<exists>s. dget obs m = Some s \<and> os_bridges s = S m)"
    if "m \<in> set (net_node_ids n)" for m
    using sn that unfolding seen_def by blast
  have obs: "observed_bridges obs m = S m" "dget nodes m \<noteq> None" if "m \<in> set (net_node_ids n)" for m
    using mem [OF that] by (auto simp: observed_bridges_def)
  let ?c = "filter (\<lambda>p. snd p \<noteq> []) (List.map (\<lambda>nid. (nid, diff_for_node n nid ?peers (S nid))) (net_node_ids n))"
  have "filter (\<lambda>nid. dget nodes nid \<noteq> None) (net_node_ids n) = net_node_ids n"
    using obs(2) by (simp add: filter_id_conv)
  then have content: "List.map (\<lambda>p. (pn_node_id p, pl_steps (pn_plan p))) ?plans = ?c"
    unfolding plan_for_network_def plan_nodes_content peers
    by (intro arg_cong [where f = "filter _"]) (auto simp: obs(1))
  have "pl_steps (pn_plan p) = diff_for_node n (pn_node_id p) ?peers (S (pn_node_id p)) \<and>
      pn_node_id p \<in> set (net_node_ids n)" if "p \<in> set ?plans" for p
  proof -
    have "(pn_node_id p, pl_steps (pn_plan p)) \<in> set (List.map (\<lambda>p. (pn_node_id p, pl_steps (pn_plan p))) ?plans)"
      using that by auto
    then show ?thesis unfolding content by auto
  qed
  moreover have "List.map pn_node_id ?plans = List.map fst ?c"
    by (simp flip: content add: comp_def)
  then have "distinct (List.map pn_node_id ?plans)"
    using dist by (simp add: distinct_map_filter comp_def)
  moreover have "diff_for_node n m ?peers (S m) = []"
    if "m \<in> set (net_node_ids n) - pn_node_id ` set ?plans" for m
    using plans_cover [of m n nodes obs fresh k] that obs peers by auto
  ultimately show ?thesis by (auto simp: plans_for_def)
qed


lemma planM_at:
  assumes "seen w0 S (set (net_node_ids n)) nodes obs" "distinct (net_node_ids n)"
  shows "spec (at_phase w0 oid PLANNING S) (planM env n nodes obs)
    (\<lambda>plans s. plans_for n (network_peers n (w_nodes w0)) S plans \<and> at_phase w0 oid PLANNING S s) (\<lambda>_ _. False)"
  using plans_for_planned [OF assms]
  by (auto simp: spec_def planM_def onW_def zoomM_def at_phase_def Let_def split: prod.split)

lemma plan_phase_at:
  assumes "members_known w0 n" "distinct (net_node_ids n)"
  shows "spec (at_phase w0 oid ACCEPTED S) (plan_phase env ag n)
    (\<lambda>plans s. plans_for n (network_peers n (w_nodes w0)) S plans \<and> at_phase w0 oid PLANNING S s) (\<lambda>_ _. False)"
  unfolding plan_phase_def
proof (rule spec_bind [OF move_at], simp)
  let ?P = "at_phase w0 oid PLANNING S"
  let ?Q = "\<lambda>plans s. plans_for n (network_peers n (w_nodes w0)) S plans \<and> ?P s"
  have obs: "spec ?P (observe_members env ag n (net_node_ids n) [] [])
      (\<lambda>x s. seen w0 S (set (net_node_ids n)) (fst x) (snd x) \<and> ?P s) (\<lambda>_ _. False)"
    using observe_members_at [of "net_node_ids n" w0 S "{}" "[]" "[]"] assms(1)
    by (simp add: members_known_def seen_def)
  have some: "spec ?P (bindM (observe_members env ag n (net_node_ids n) [] []) (\<lambda>x.
       bindM (planM env n (fst x) (snd x)) (\<lambda>plans.
       bindM (log_progress env (msg plans) (pay plans)) (\<lambda>_. returnM plans)))) ?Q (\<lambda>_ _. False)" for msg pay
  proof (rule spec_bind [OF obs], rule spec_assume)
    fix x :: "(string, node) dict \<times> (string, observed_state) dict"
    assume x: "seen w0 S (set (net_node_ids n)) (fst x) (snd x)"
    show "spec ?P (bindM (planM env n (fst x) (snd x)) (\<lambda>plans.
       bindM (log_progress env (msg plans) (pay plans)) (\<lambda>_. returnM plans))) ?Q (\<lambda>_ _. False)"
      by (intro spec_bind [OF planM_at [OF x assms(2)]] spec_assume spec_bind [OF log_at] spec_return) simp
  qed
  have none: "spec ?P (returnM []) ?Q (\<lambda>_ _. False)" if "net_node_ids n = []"
    by (rule spec_return) (simp add: that plans_for_def)
  show "spec ?P (if net_node_ids n = [] then returnM [] else
       bindM (observe_members env ag n (net_node_ids n) [] []) (\<lambda>(nodes, obs).
       bindM (planM env n nodes obs) (\<lambda>plans.
       bindM (log_progress env (''planned '' @ str_nat (step_count plans) @ '' step(s) across '' @
                str_nat (length plans) @ '' node(s)'')
              [(''node_plans'', JList (List.map (\<lambda>p. JObj
                  [(''node_id'', JStr (pn_node_id p)), (''plan_id'', JStr (pl_id (pn_plan p))),
                   (''step_count'', JInt (int (length (pl_steps (pn_plan p)))))]) plans))])
         (\<lambda>_. returnM plans)))) ?Q (\<lambda>_ _. False)"
    unfolding split_beta by (intro spec_if none some)
qed

text \<open>What applying the plans of the set D of nodes makes of the switches.\<close>

definition achieved ::
  "network \<Rightarrow> node_address list \<Rightarrow> string set \<Rightarrow> (string \<Rightarrow> obs_bridge list) \<Rightarrow> (string \<Rightarrow> obs_bridge list) \<Rightarrow> bool" where
  "achieved n peers D S S' \<longleftrightarrow>
     (\<forall>m \<in> D. is_in_compliance n m peers (S' m) \<and> keeps_foreign n m peers (switch_of (S m)) (switch_of (S' m))) \<and>
     (\<forall>m. m \<notin> D \<longrightarrow> S' m = S m)"

lemma achieved_trans:
  assumes "x \<notin> D" "achieved n peers {x} S S1" "achieved n peers D S1 S2"
  shows "achieved n peers (insert x D) S S2"
  unfolding achieved_def
proof (intro conjI ballI allI impI)
  fix m assume m: "m \<in> insert x D"
  have "is_in_compliance n m peers (S2 m) \<and> keeps_foreign n m peers (switch_of (S m)) (switch_of (S2 m))"
  proof (cases "m = x")
    case True
    then have "S2 m = S1 m" using assms(1,3) by (simp add: achieved_def)
    then show ?thesis using assms(2) True by (simp add: achieved_def)
  next
    case False
    then have "S1 m = S m" "m \<in> D" using assms(2) m by (simp_all add: achieved_def)
    then show ?thesis using assms(3) unfolding achieved_def by metis
  qed
  then show "is_in_compliance n m peers (S2 m)" "keeps_foreign n m peers (switch_of (S m)) (switch_of (S2 m))"
    by simp_all
next
  fix m assume "m \<notin> insert x D"
  then show "S2 m = S m" using assms(2,3) by (simp add: achieved_def)
qed

lemma run_node_at:
  assumes "names_unambiguous n (pn_node_id p) peers"
    and "pl_steps (pn_plan p) = diff_for_node n (pn_node_id p) peers (S (pn_node_id p))"
  shows "spec (at_phase w0 oid RUNNING S) (run_node env ag p)
    (\<lambda>_ s. \<exists>S'. achieved n peers {pn_node_id p} S S' \<and> at_phase w0 oid RUNNING S' s) (\<lambda>_ _. False)"
proof (rule spec_pre)
  fix s assume s: "at_phase w0 oid RUNNING S s"
  obtain w op where wop: "s = (w, op)" by (cases s)
  have "good (w_agent w)" "bridges (w_agent w) = S" using s by (simp_all add: at_phase_def wop)
  then obtain r a' where r: "ago_apply_plan ag (pn_node_id p) (pn_plan p) (w_agent w) = (Inr r, a')" "pr_ok r"
      "good a'" "is_in_compliance n (pn_node_id p) peers (bridges a' (pn_node_id p))"
      "keeps_foreign n (pn_node_id p) peers (switch_of (S (pn_node_id p))) (switch_of (bridges a' (pn_node_id p)))"
      "\<forall>m. m \<noteq> pn_node_id p \<longrightarrow> bridges a' m = S m"
    using applies [of "w_agent w" n "pn_node_id p" peers "pn_plan p"] assms by auto
  have "achieved n peers {pn_node_id p} S (bridges a')" using r by (simp add: achieved_def)
  then show "spec ((=) s) (run_node env ag p)
      (\<lambda>_ s. \<exists>S'. achieved n peers {pn_node_id p} S S' \<and> at_phase w0 oid RUNNING S' s) (\<lambda>_ _. False)"
    using s r(1-3) unfolding wop
    by (simp add: spec_def run_node_def bindM_run onAgent_def onW_def zoomM_def nowM_def log_progress_def
        at_phase_def log_event_wf) (auto simp: log_event_def)
qed

lemma run_nodes_at:
  assumes "\<forall>p \<in> set plans. names_unambiguous n (pn_node_id p) peers"
    and "\<forall>p \<in> set plans. pl_steps (pn_plan p) = diff_for_node n (pn_node_id p) peers (S (pn_node_id p))"
    and "distinct (List.map pn_node_id plans)"
  shows "spec (at_phase w0 oid RUNNING S) (forM plans (run_node env ag))
    (\<lambda>_ s. \<exists>S'. achieved n peers (pn_node_id ` set plans) S S' \<and> at_phase w0 oid RUNNING S' s) (\<lambda>_ _. False)"
  using assms
proof (induction plans arbitrary: S)
  case Nil
  then show ?case by (auto simp: spec_def achieved_def intro!: exI [of _ S])
next
  case (Cons p plans)
  show ?case unfolding forM.simps
  proof (rule spec_bind [OF run_node_at [where n = n and peers = peers]])
    show "spec (\<lambda>s. \<exists>S'. achieved n peers {pn_node_id p} S S' \<and> at_phase w0 oid RUNNING S' s)
        (forM plans (run_node env ag))
        (\<lambda>_ s. \<exists>S'. achieved n peers (pn_node_id ` set (p # plans)) S S' \<and> at_phase w0 oid RUNNING S' s)
        (\<lambda>_ _. False)"
    proof (rule spec_pre)
      fix s assume "\<exists>S'. achieved n peers {pn_node_id p} S S' \<and> at_phase w0 oid RUNNING S' s"
      then obtain S1 where S1: "achieved n peers {pn_node_id p} S S1" "at_phase w0 oid RUNNING S1 s" by blast
      have "\<forall>q \<in> set plans. pl_steps (pn_plan q) = diff_for_node n (pn_node_id q) peers (S1 (pn_node_id q))"
      proof
        fix q assume q: "q \<in> set plans"
        then have "pn_node_id q \<noteq> pn_node_id p"
          using Cons.prems(3) imageI [OF q, of pn_node_id] by (metis distinct.simps(2) list.set_map list.simps(9))
        then have "S1 (pn_node_id q) = S (pn_node_id q)" using S1(1) by (simp add: achieved_def)
        then show "pl_steps (pn_plan q) = diff_for_node n (pn_node_id q) peers (S1 (pn_node_id q))"
          using Cons.prems(2) q by simp
      qed
      then have "spec (at_phase w0 oid RUNNING S1) (forM plans (run_node env ag))
          (\<lambda>_ s. \<exists>S'. achieved n peers (pn_node_id ` set plans) S1 S' \<and> at_phase w0 oid RUNNING S' s) (\<lambda>_ _. False)"
        using Cons.IH Cons.prems(1,3) by simp
      then show "spec ((=) s) (forM plans (run_node env ag))
          (\<lambda>_ s. \<exists>S'. achieved n peers (pn_node_id ` set (p # plans)) S S' \<and> at_phase w0 oid RUNNING S' s)
          (\<lambda>_ _. False)"
      proof (rule spec_running_conseq)
        fix t assume "s = t" then show "at_phase w0 oid RUNNING S1 t" using S1 by simp
      next
        fix t assume "\<exists>S'. achieved n peers (pn_node_id ` set plans) S1 S' \<and> at_phase w0 oid RUNNING S' t"
        then obtain S2 where S2: "achieved n peers (pn_node_id ` set plans) S1 S2" "at_phase w0 oid RUNNING S2 t"
          by blast
        have "pn_node_id p \<notin> pn_node_id ` set plans" using Cons.prems(3) by simp
        from achieved_trans [OF this S1(1) S2(1)]
        have "achieved n peers (pn_node_id ` set (p # plans)) S S2" by simp
        then show "\<exists>S'. achieved n peers (pn_node_id ` set (p # plans)) S S' \<and> at_phase w0 oid RUNNING S' t"
          using S2(2) by blast
      qed
    qed
  qed (use Cons.prems in simp_all)
qed


lemma verify_peers_at:
  assumes "\<forall>m \<in> set nids. dget (w_nodes w0) m \<noteq> None"
  shows "spec (at_phase w0 oid VERIFYING S) (verify_peers n nids)
    (\<lambda>peers s. peers = concat (List.map (\<lambda>nid. case dget (w_nodes w0) nid of None \<Rightarrow> []
        | Some nd \<Rightarrow> [\<lparr>na_node_id = nid, na_mgmt_ip = nd_mgmt_ip nd\<rparr>]) nids) \<and>
      at_phase w0 oid VERIFYING S s) (\<lambda>_ _. False)"
  using assms
proof (induction nids)
  case Nil
  show ?case by (simp add: spec_def)
next
  case (Cons nid nids)
  then obtain nd where nd: "dget (w_nodes w0) nid = Some nd" by auto
  have IH: "spec (at_phase w0 oid VERIFYING S) (verify_peers n nids)
    (\<lambda>peers s. peers = concat (List.map (\<lambda>nid. case dget (w_nodes w0) nid of None \<Rightarrow> []
        | Some nd \<Rightarrow> [\<lparr>na_node_id = nid, na_mgmt_ip = nd_mgmt_ip nd\<rparr>]) nids) \<and>
      at_phase w0 oid VERIFYING S s) (\<lambda>_ _. False)"
    using Cons by simp
  show ?case unfolding verify_peers.simps
    by (rule spec_bind [OF member_at [OF nd]], rule spec_assume,
        rule spec_bind [OF IH], rule spec_assume, rule spec_return, simp add: nd)
qed

lemma verify_nodes_at:
  assumes "\<forall>p \<in> set plans. is_in_compliance n (pn_node_id p) peers (S (pn_node_id p))"
  shows "spec (at_phase w0 oid VERIFYING S) (forM plans (verify_node env ag n peers))
    (\<lambda>_. at_phase w0 oid VERIFYING S) (\<lambda>_ _. False)"
proof (rule for_spec)
  fix p assume p: "p \<in> set plans"
  show "spec (at_phase w0 oid VERIFYING S) (verify_node env ag n peers p)
      (\<lambda>_. at_phase w0 oid VERIFYING S) (\<lambda>_ _. False)"
    unfolding verify_node_def
    by (rule spec_bind [OF observe_at], rule spec_assume, rule spec_if, rule spec_return)
      (use assms p in auto)
qed

lemma phases_converge:
  assumes known: "members_known w0 n" and dist: "distinct (net_node_ids n)"
    and unamb: "\<forall>m \<in> set (net_node_ids n). names_unambiguous n m (network_peers n (w_nodes w0))"
  shows "spec (at_phase w0 oid ACCEPTED S) (phases env ag n)
    (\<lambda>_ s. \<exists>S'. (\<forall>m \<in> set (net_node_ids n). is_in_compliance n m (network_peers n (w_nodes w0)) (S' m) \<and>
        keeps_foreign n m (network_peers n (w_nodes w0)) (switch_of (S m)) (switch_of (S' m))) \<and>
      (\<forall>m. m \<notin> set (net_node_ids n) \<longrightarrow> S' m = S m) \<and> at_phase w0 oid VERIFYING S' s) (\<lambda>_ _. False)"
  unfolding phases_def
proof (rule spec_bind [OF plan_phase_at [OF known dist]], rule spec_assume)
  fix plans assume pf: "plans_for n (network_peers n (w_nodes w0)) S plans"
  let ?peers = "network_peers n (w_nodes w0)" and ?D = "pn_node_id ` set plans"
  let ?Q = "\<lambda>s. \<exists>S'. (\<forall>m \<in> set (net_node_ids n). is_in_compliance n m ?peers (S' m) \<and>
        keeps_foreign n m ?peers (switch_of (S m)) (switch_of (S' m))) \<and>
      (\<forall>m. m \<notin> set (net_node_ids n) \<longrightarrow> S' m = S m) \<and> at_phase w0 oid VERIFYING S' s"
  have sub: "?D \<subseteq> set (net_node_ids n)" using pf by (simp add: plans_for_def)
  have run: "spec (at_phase w0 oid PLANNING S) (run_phase env ag plans)
      (\<lambda>_ s. \<exists>S'. achieved n ?peers ?D S S' \<and> at_phase w0 oid RUNNING S' s) (\<lambda>_ _. False)"
    unfolding run_phase_def
    by (rule spec_bind [OF move_at], simp, rule run_nodes_at)
      (use pf unamb sub in \<open>auto simp: plans_for_def\<close>)
  have result: "(\<forall>m \<in> set (net_node_ids n). is_in_compliance n m ?peers (S' m) \<and>
        keeps_foreign n m ?peers (switch_of (S m)) (switch_of (S' m))) \<and>
      (\<forall>m. m \<notin> set (net_node_ids n) \<longrightarrow> S' m = S m)" if ach: "achieved n ?peers ?D S S'" for S'
  proof (intro conjI ballI allI impI)
    fix m assume m: "m \<in> set (net_node_ids n)"
    have "is_in_compliance n m ?peers (S' m) \<and> keeps_foreign n m ?peers (switch_of (S m)) (switch_of (S' m))"
    proof (cases "m \<in> ?D")
      case True
      then show ?thesis using ach unfolding achieved_def by blast
    next
      case False
      then have "S' m = S m" "diff_for_node n m ?peers (S m) = []"
        using ach pf m unfolding achieved_def plans_for_def by blast+
      then show ?thesis by (simp add: is_in_compliance_def keeps_foreign_def)
    qed
    then show "is_in_compliance n m ?peers (S' m)"
      "keeps_foreign n m ?peers (switch_of (S m)) (switch_of (S' m))" by simp_all
  next
    fix m assume "m \<notin> set (net_node_ids n)"
    then show "S' m = S m" using ach sub unfolding achieved_def by blast
  qed
  have verify: "spec (\<lambda>s. \<exists>S'. achieved n ?peers ?D S S' \<and> at_phase w0 oid RUNNING S' s)
      (verify_phase env ag n plans) (\<lambda>_. ?Q) (\<lambda>_ _. False)"
  proof (rule spec_pre)
    fix s assume "\<exists>S'. achieved n ?peers ?D S S' \<and> at_phase w0 oid RUNNING S' s"
    then obtain S' where S': "achieved n ?peers ?D S S'" "at_phase w0 oid RUNNING S' s" by blast
    have comp: "\<forall>p \<in> set plans. is_in_compliance n (pn_node_id p) ?peers (S' (pn_node_id p))"
      using S'(1) by (simp add: achieved_def)
    have "spec (at_phase w0 oid RUNNING S') (verify_phase env ag n plans)
        (\<lambda>_. at_phase w0 oid VERIFYING S') (\<lambda>_ _. False)"
      unfolding verify_phase_def
      by (rule spec_bind [OF move_at], simp, rule spec_bind [OF verify_peers_at], 
          use known in \<open>simp add: members_known_def\<close>, rule spec_assume,
          simp only: network_peers_def [symmetric], rule verify_nodes_at [OF comp])
    then show "spec ((=) s) (verify_phase env ag n plans) (\<lambda>_. ?Q) (\<lambda>_ _. False)"
      by (rule spec_running_conseq) (use S' result [OF S'(1)] in blast)+
  qed
  show "spec (at_phase w0 oid PLANNING S)
      (bindM (run_phase env ag plans) (\<lambda>_. bindM (verify_phase env ag n plans) (\<lambda>_. returnM plans)))
      (\<lambda>_. ?Q) (\<lambda>_ _. False)"
    by (intro spec_bind [OF run] spec_bind [OF verify] spec_return)
qed


text \<open>The whole use case, run on a stored network whose lock is free.\<close>

lemma apply_converges:
  assumes stored: "dget (w_networks w) nid = Some n" and lock: "snd (try_of env nid w)"
    and known: "members_known w n" and dist: "distinct (net_node_ids n)"
    and unamb: "\<forall>m \<in> set (net_node_ids n). names_unambiguous n m (network_peers n (w_nodes w))"
    and good: "good (w_agent w)"
  shows "\<exists>op w'. apply_network env ag nid by w = (Inr (n, op), w') \<and> op_status op = SUCCEEDED \<and>
    (\<forall>m \<in> set (net_node_ids n).
       is_in_compliance n m (network_peers n (w_nodes w)) (bridges (w_agent w') m) \<and>
       keeps_foreign n m (network_peers n (w_nodes w)) (switch_of (bridges (w_agent w) m))
         (switch_of (bridges (w_agent w') m))) \<and>
    (\<forall>m. m \<notin> set (net_node_ids n) \<longrightarrow> bridges (w_agent w') m = bridges (w_agent w) m)"
proof -
  let ?oid = "oid_of env w" and ?w1 = "attempted env nid w"
  let ?w0 = "?w1\<lparr>w_clock := w_clock ?w1 + 1\<rparr>" and ?now = "e_now env (w_clock ?w1)"
  let ?op = "start_operation n nid by ?oid ?now" and ?S = "bridges (w_agent w)"
  have nodes: "w_nodes ?w0 = w_nodes w" by (simp add: attempted_def)
  have start: "at_phase ?w0 ?oid ACCEPTED ?S (?w0, ?op)"
    using good by (simp add: at_phase_def start_operation_def attempted_def) (simp add: accept_def)
  have known': "members_known ?w0 n" using known unfolding members_known_def nodes .
  have unamb': "\<forall>m \<in> set (net_node_ids n). names_unambiguous n m (network_peers n (w_nodes ?w0))"
    unfolding nodes by (rule unamb)
  have res: "case phases env ag n (?w0, ?op) of (Inl e, s') \<Rightarrow> False | (Inr x, s') \<Rightarrow>
      \<exists>S'. (\<forall>m \<in> set (net_node_ids n). is_in_compliance n m (network_peers n (w_nodes w)) (S' m) \<and>
        keeps_foreign n m (network_peers n (w_nodes w)) (switch_of (?S m)) (switch_of (S' m))) \<and>
      (\<forall>m. m \<notin> set (net_node_ids n) \<longrightarrow> S' m = ?S m) \<and> at_phase ?w0 ?oid VERIFYING S' s'"
    using spec_any [OF phases_converge [OF known' dist unamb'] start, of env] unfolding nodes .
  obtain pr wr opr where ph: "phases env ag n (?w0, ?op) = (pr, (wr, opr))" by (metis prod_cases3)
  then obtain plans where pr: "pr = Inr plans" using res by (cases pr) auto
  then obtain S' where S': "\<forall>m \<in> set (net_node_ids n). is_in_compliance n m (network_peers n (w_nodes w)) (S' m) \<and>
        keeps_foreign n m (network_peers n (w_nodes w)) (switch_of (?S m)) (switch_of (S' m))"
      "\<forall>m. m \<notin> set (net_node_ids n) \<longrightarrow> S' m = ?S m" "at_phase ?w0 ?oid VERIFYING S' (wr, opr)"
    using res ph by auto
  have verifying: "op_status opr = VERIFYING" and "bridges (w_agent wr) = S'"
    using S'(3) by (simp_all add: at_phase_def)
  obtain op' where "conclude env n (Inr plans) (wr, opr) =
      (Inr (n, op'), (recorded env n True (length plans) op' wr, op'))" "op_status op' = SUCCEEDED"
    by (rule conclude_ok [OF verifying, of env n plans wr]) blast
  then have "apply_network env ag nid by w = (Inr (n, op'),
      (recorded env n True (length plans) op' wr)\<lparr>w_locks := mem_release (lock_key nid) ?oid (w_locks wr)\<rparr>)"
    using stored lock ph pr by (simp add: apply_network_run locked_apply_def bindM_run nowM_def
        finallyM_run apply_body_def)
  then show ?thesis
    using S'(1,2) \<open>bridges (w_agent wr) = S'\<close> \<open>op_status op' = SUCCEEDED\<close> by auto
qed

end

subsection \<open>The in-process agent\<close>

definition fake_ops :: "(json \<Rightarrow> string) \<Rightarrow> fake_agent agent_ops" where
  "fake_ops digest =
     \<lparr>ago_get_state = (\<lambda>nid a. (Inr (fa_get_state digest a nid), a)),
      ago_apply_plan = (\<lambda>nid p a. case fa_apply_plan nid p a of (a', r) \<Rightarrow> (Inr r, a'))\<rparr>"

interpretation in_process: southbound "fake_ops digest" fa_agent_ok agent_bridges for digest
proof unfold_locales
  fix a nid assume "fa_agent_ok a"
  then show "\<exists>v. ago_get_state (fake_ops digest) nid a = (Inr v, a) \<and>
      List.map bridge_view_to_observed (sv_bridges v) = agent_bridges a nid"
    by (simp add: fake_ops_def agent_bridges_def state_view_to_observed_def fa_get_state_def Let_def)
next
  fix a n nid peers and p :: plan
  assume ok: "fa_agent_ok a" and unamb: "names_unambiguous n nid peers"
    and steps: "pl_steps p = diff_for_node n nid peers (agent_bridges a nid)"
  obtain a' r where run: "fa_apply_plan nid p a = (a', r)" by (cases "fa_apply_plan nid p a")
  have p: "p = \<lparr>pl_id = pl_id p, pl_steps = diff_for_node n nid peers (agent_bridges a nid)\<rparr>"
    using steps by (cases p) simp
  have "fa_apply_plan nid \<lparr>pl_id = pl_id p, pl_steps = diff_for_node n nid peers (agent_bridges a nid)\<rparr> a = (a', r)"
    using run p by simp
  from fa_plan_converges [OF ok unamb this] run
  show "\<exists>r a'. ago_apply_plan (fake_ops digest) nid p a = (Inr r, a') \<and> pr_ok r \<and> fa_agent_ok a' \<and>
      is_in_compliance n nid peers (agent_bridges a' nid) \<and>
      keeps_foreign n nid peers (switch_of (agent_bridges a nid)) (switch_of (agent_bridges a' nid)) \<and>
      (\<forall>m. m \<noteq> nid \<longrightarrow> agent_bridges a' m = agent_bridges a m)"
    by (intro exI [of _ r] exI [of _ a']) (auto simp: fake_ops_def agent_bridges_observe)
qed

text \<open>
  C1. An apply converges: with the in-process agents, applying a stored network whose members
  are all known nodes, whose lock is free and whose tunnel names tell the peers apart succeeds;
  afterwards every member's switch passes the compliance test, bridges and ports the network does
  not own are as before, and no switch of another node has changed.
\<close>

theorem apply_network_converges:
  assumes "dget (w_networks w) nid = Some n" "snd (try_of env nid w)" "members_known w n"
    and "distinct (net_node_ids n)" "fa_agent_ok (w_agent w)"
    and "\<forall>m \<in> set (net_node_ids n). names_unambiguous n m (network_peers n (w_nodes w))"
  shows "\<exists>op w'. apply_network env (fake_ops digest) nid by w = (Inr (n, op), w') \<and>
    op_status op = SUCCEEDED \<and>
    (\<forall>m \<in> set (net_node_ids n).
       is_in_compliance n m (network_peers n (w_nodes w)) (agent_bridges (w_agent w') m) \<and>
       keeps_foreign n m (network_peers n (w_nodes w)) (switch_of (agent_bridges (w_agent w) m))
         (switch_of (agent_bridges (w_agent w') m))) \<and>
    (\<forall>m. m \<notin> set (net_node_ids n) \<longrightarrow> agent_bridges (w_agent w') m = agent_bridges (w_agent w) m)"
  by (rule in_process.apply_converges [OF assms(1-4) assms(6) assms(5)])


lemma example_peers: "network_peers example_network (w_nodes (example_world a)) =
    [\<lparr>na_node_id = ''node_a00001'', na_mgmt_ip = ''10.0.0.1''\<rparr>,
     \<lparr>na_node_id = ''node_b00002'', na_mgmt_ip = ''10.0.0.2''\<rparr>]"
  by (simp add: network_peers_def example_network_def example_world_def example_node_def)

theorem apply_network_converges_witness:
  "\<exists>op w'. apply_network example_env (fake_ops (\<lambda>_. ''h'')) ''net_1'' None (example_world fresh_agent) =
     (Inr (example_network, op), w') \<and> op_status op = SUCCEEDED"
proof -
  have "\<forall>m \<in> set (net_node_ids example_network). names_unambiguous example_network m
      (network_peers example_network (w_nodes (example_world fresh_agent)))"
    unfolding example_peers by (simp add: names_unambiguous_def example_network_def)
  then show ?thesis
    using apply_network_converges [of "example_world fresh_agent" "''net_1''" example_network example_env "\<lambda>_. ''h''" None]
      fresh_agent_ok
    by (force simp: example_world_def try_of_def mem_try_lock_def members_known_def example_network_def)
qed

end
