(* ===== verification/Ip_Text.thy ===== *)
theory Ip_Text
  imports Ip_Allocator
begin

text \<open>
  Python accepts exactly one text for an IPv4 address: octets are plain decimals without leading
  zeros, so two texts that parse to the same IPv4 address are equal. IPv6 has no such property
  (upper case, leading zeros, \<open>::\<close>), which is why comparing texts is not comparing addresses there.
\<close>

lemma dec_digit_code: "dec_digit c = Some d \<Longrightarrow> (of_char c :: nat) = d + 48 \<and> d < 10"
  by (auto simp: dec_digit_def Let_def split: if_splits)

lemma dec_digit_char: "dec_digit c = Some d \<Longrightarrow> digit_char d = c \<and> d < 10"
proof -
  assume c: "dec_digit c = Some d"
  then have "(of_char (digit_char d) :: nat) = of_char c"
    using dec_digit_code [OF c] dec_digit_code [OF digit_char_less_10, of d] by simp
  then have "digit_char d = c" by (metis char_of_char)
  then show ?thesis using dec_digit_code [OF c] by simp
qed

lemma low_digit:
  fixes k b d :: nat
  assumes "d < b"
  shows "(k * b + d) mod b = d" "(k * b + d) div b = k"
  using assms by simp_all

lemma short_list: "length s \<le> 3 \<Longrightarrow> s \<noteq> [] \<Longrightarrow>
    (\<exists>a. s = [a]) \<or> (\<exists>a b. s = [a, b]) \<or> (\<exists>a b c. s = [a, b, c])"
  by (cases s; cases "tl s"; cases "tl (tl s)"; cases "tl (tl (tl s))") auto

lemma parse_octet_text: "parse_octet s = Some n \<Longrightarrow> s = str_nat n"
proof -
  assume s: "parse_octet s = Some n"
  then have len: "length s \<le> 3" "s \<noteq> []" and dig: "list_all is_digit s"
    and zero: "s = ''0'' \<or> hd s \<noteq> CHR ''0''" and val: "num_val dec_digit 10 0 s = Some n"
    by (auto simp: parse_octet_def split: if_splits option.splits)
  have pos: "0 < d" if "dec_digit c = Some d" "c \<noteq> CHR ''0''" for c d
    using dec_digit_char [OF that(1)] that(2) digit_char_0 by (cases d) auto
  from short_list [OF len] show ?thesis
  proof (elim disjE exE)
    fix a assume "s = [a]"
    then show ?thesis using dig val dec_digit_char [of a]
      by (auto simp: str_nat_def digits_less)
  next
    fix a b assume sab: "s = [a, b]"
    then obtain x y where xy: "dec_digit a = Some x" "dec_digit b = Some y" using dig by auto
    then have "0 < x" using zero sab pos [of a x] by auto
    moreover have n: "n = 10 * x + y" using val sab xy by simp
    ultimately have "digits 10 n = [x, y]"
      using dec_digit_char [OF xy(1)] dec_digit_char [OF xy(2)] by (simp add: digits_step digits_less)
    then show ?thesis
      using sab dec_digit_char [OF xy(1)] dec_digit_char [OF xy(2)] by (simp add: str_nat_def)
  next
    fix a b c assume sabc: "s = [a, b, c]"
    then obtain x y z where xyz: "dec_digit a = Some x" "dec_digit b = Some y" "dec_digit c = Some z"
      using dig by auto
    then have "0 < x" using zero sabc pos [of a x] by auto
    then have n: "n = 10 * (10 * x + y) + z" "0 < x"
      using val sabc xyz by simp_all
    have small: "x < 10" "y < 10" "z < 10"
      using dec_digit_char [OF xyz(1)] dec_digit_char [OF xyz(2)] dec_digit_char [OF xyz(3)] by auto
    have "n = (x * 10 + y) * 10 + z" using n(1) by simp
    then have nd: "n div 10 = x * 10 + y" "n mod 10 = z"
      using low_digit [OF small(3), of "x * 10 + y"] by (simp_all only:)
    have "digits 10 n = digits 10 (x * 10 + y) @ [z]"
      using n by (simp add: digits_step flip: nd)
    also have "digits 10 (x * 10 + y) = [x, y]"
      using small n(2) low_digit [OF small(2), of x] by (simp add: digits_step digits_less)
    finally have "digits 10 n = [x, y, z]" by simp
    then show ?thesis
      using sabc dec_digit_char [OF xyz(1)] dec_digit_char [OF xyz(2)] dec_digit_char [OF xyz(3)]
      by (simp add: str_nat_def)
  qed
qed

lemma join_cons: "xs \<noteq> [] \<Longrightarrow> join sep (x # xs) = x @ sep @ join sep xs"
  by (cases xs) auto

lemma join_split_acc: "join [c] (split_acc c acc s) = rev acc @ s"
proof (induction s arbitrary: acc)
  case (Cons x s)
  have "split_acc c [] s \<noteq> []" using split_nonempty [of c s] by (simp add: split_def)
  then show ?case using Cons by (simp add: join_cons)
qed simp

lemma join_split: "join [c] (split c s) = s"
  by (simp add: split_def join_split_acc)

lemma parse_v4_text: "parse_v4 s = Some n \<Longrightarrow> s = str_ip (V4 n)"
proof -
  assume "parse_v4 s = Some n"
  then obtain a b c d where abcd: "List.map parse_octet (split (CHR ''.'') s) = [Some a, Some b, Some c, Some d]"
      "n = ((a * 256 + b) * 256 + c) * 256 + d"
    by (auto simp: parse_v4_def split: if_splits list.splits option.splits)
  then obtain p q r t where parts: "split (CHR ''.'') s = [p, q, r, t]"
      "parse_octet p = Some a" "parse_octet q = Some b" "parse_octet r = Some c" "parse_octet t = Some d"
    by (auto simp: map_eq_Cons_conv)
  have bounds: "a < 256" "b < 256" "c < 256" "d < 256"
    using parts(2-5) by (auto dest: parse_octet_bound)
  have "v4_octets n = [a, b, c, d]"
  proof -
    have low: "n mod 256 = d" "n div 256 = (a * 256 + b) * 256 + c"
      unfolding abcd(2) using low_digit [OF bounds(4)] by blast+
    then have mid: "n div 256 mod 256 = c" "n div 256 div 256 = a * 256 + b"
      unfolding low(2) using low_digit [OF bounds(3)] by blast+
    then have high: "n div 256 div 256 mod 256 = b" "n div 256 div 256 div 256 = a"
      unfolding mid(2) using low_digit [OF bounds(2)] by blast+
    have "n div 65536 = n div 256 div 256" "n div 16777216 = n div 256 div 256 div 256"
      by (simp_all flip: div_mult2_eq)
    then show ?thesis using low mid high by (simp add: v4_octets_def)
  qed
  then have "str_ip (V4 n) = join ''.'' [p, q, r, t]"
    using parts(2-5) parse_octet_text by simp
  then show ?thesis using join_split [of "CHR ''.''" s] parts(1) by simp
qed

lemma ip_address_v4_text: "ip_address s = Some (V4 n) \<Longrightarrow> s = str_ip (V4 n)"
  by (auto simp: ip_address_def split: option.splits dest: parse_v4_text)

lemma ip_address_v4_inject:
  "ip_address s = Some a \<Longrightarrow> ip_address t = Some a \<Longrightarrow> is_v4 a \<Longrightarrow> s = t"
  by (cases a) (auto dest: ip_address_v4_text)

end
