(* ===== verification/Network_Use_Cases.thy ===== *)
theory Network_Use_Cases
  imports World Ip_Text
begin

text \<open>
  The desired-state calls on networks (\<open>core/use_cases/networks.py\<close>): create, partial update,
  node assignment and the two reads. Each write call runs through one operation that is accepted
  and completed in the call, saves the network and the operation and publishes an event. The
  constructors of command values (NAT and firewall specs) have validated them already.
\<close>

subsection \<open>Commands\<close>

record subnet_spec =
  ss_cidr :: string
  ss_gateway :: "string option"

record create_network_cmd =
  cn_name :: string
  cn_type :: network_type
  cn_mtu :: int
  cn_vlan_id :: "int option"
  cn_vni :: "int option"
  cn_project_id :: "string option"
  cn_subnet :: "subnet_spec option"
  cn_labels :: "(string, string) dict"
  cn_node_ids :: "string list"
  cn_created_by :: "string option"

record update_network_cmd =
  un_mtu :: "int option"
  un_subnet :: "subnet_spec option"
  un_labels :: "(string, string) dict option"
  un_nat :: "nat_spec option"
  un_firewall :: "fw_policy option"
  un_updated_by :: "string option"

record assign_nodes_cmd =
  an_node_ids :: "string list"
  an_updated_by :: "string option"

definition bare_subnet_of :: "string \<Rightarrow> subnet_spec \<Rightarrow> subnet" where
  "bare_subnet_of sid c =
     \<lparr>sub_id = sid, sub_cidr = ss_cidr c, sub_gateway = ss_gateway c, sub_dns_servers = [],
      sub_pools = [], sub_reserved = [], sub_dhcp = None, sub_dns_zone = None\<rparr>"

subsection \<open>Create\<close>

definition name_taken :: "string \<Rightarrow> string option \<Rightarrow> network list \<Rightarrow> bool" where
  "name_taken name project ns \<longleftrightarrow>
     filter (\<lambda>n. net_name n = name \<and> net_project_id n = project) ns \<noteq> []"

definition new_subnet :: "env \<Rightarrow> subnet_spec option \<Rightarrow> ('ag world, exc, subnet option) act" where
  "new_subnet env c = (case c of None \<Rightarrow> returnM None
     | Some c \<Rightarrow> bindM (freshM env SubnetId) (\<lambda>sid.
         bindM (liftM (mk_subnet (bare_subnet_of sid c))) (\<lambda>s. returnM (Some s))))"

definition commit_network ::
  "env \<Rightarrow> network \<Rightarrow> operation \<Rightarrow> (string \<times> payload) option
     \<Rightarrow> ('ag world, exc, network \<times> operation) act" where
  "commit_network env n op ev =
     bindM (modifyM (\<lambda>w. w\<lparr>w_networks := network_save n (w_networks w)\<rparr>)) (\<lambda>_.
     bindM (modifyM (\<lambda>w. w\<lparr>w_operations := operation_save op (w_operations w)\<rparr>)) (\<lambda>_.
     bindM (case ev of None \<Rightarrow> returnM ()
            | Some (et, pl) \<Rightarrow>
                bindM (publish env et ''network'' (Some (net_id n)) pl (net_project_id n)) (\<lambda>_. returnM ()))
     (\<lambda>_. returnM (n, op))))"

definition create_network ::
  "env \<Rightarrow> (json \<Rightarrow> string) \<Rightarrow> create_network_cmd \<Rightarrow> ('ag world, exc, network \<times> operation) act" where
  "create_network env digest cmd =
     bindM (guardM (\<not> blank (cn_name cmd)) err_validation) (\<lambda>_.
     let name = py_strip (cn_name cmd) in
     bindM (getM (\<lambda>w. dvalues (w_networks w))) (\<lambda>all.
     bindM (guardM (\<not> name_taken name (cn_project_id cmd) all) err_conflict) (\<lambda>_.
     bindM (nowM env) (\<lambda>now.
     bindM (freshM env NetworkId) (\<lambda>nid.
     bindM (new_subnet env (cn_subnet cmd)) (\<lambda>sub.
     bindM (liftM (mk_network digest
       \<lparr>net_id = nid, net_name = name, net_type = cn_type cmd, net_created_at = now,
        net_updated_at = now, net_mtu = cn_mtu cmd, net_vlan_id = cn_vlan_id cmd,
        net_vni = cn_vni cmd, net_subnet = sub, net_intent_version = 1, net_labels = cn_labels cmd,
        net_node_ids = cn_node_ids cmd, net_nat = None, net_firewall = None, net_spec_hash = [],
        net_project_id = cn_project_id cmd\<rparr>)) (\<lambda>n.
     bindM (freshM env OperationId) (\<lambda>oid.
     bindM (advance env (done_in ''store desired state'' ''persisting network record''
              ''verifying persisted record'' ''network created'')
       (accept oid NETWORK_CREATE \<lparr>ref_type = ''network'', ref_id = nid\<rparr> now (cn_created_by cmd)
          (''create network '' @ py_repr (net_name n)))) (\<lambda>op.
     commit_network env n op (Some (''network.created'',
       [(''name'', JStr (net_name n)), (''type'', JStr (network_type_value (net_type n))),
        (''intent_version'', JInt (net_intent_version n)), (''spec_hash'', JStr (net_spec_hash n)),
        (''node_ids'', JList (List.map JStr (net_node_ids n)))])))))))))))"

subsection \<open>Update\<close>

text \<open>\<open>_apply_update\<close>: each given field that differs is replaced; the network as it stands after
  each field is threaded through, with whether anything changed.\<close>

definition update_mtu :: "update_network_cmd \<Rightarrow> network \<times> bool \<Rightarrow> network \<times> bool" where
  "update_mtu cmd = (\<lambda>(n, ch). case un_mtu cmd of None \<Rightarrow> (n, ch)
     | Some m \<Rightarrow> if m \<noteq> net_mtu n then (n\<lparr>net_mtu := m\<rparr>, True) else (n, ch))"

definition update_subnet ::
  "env \<Rightarrow> update_network_cmd \<Rightarrow> network \<times> bool \<Rightarrow> ('ag world, exc, network \<times> bool) act" where
  "update_subnet env cmd = (\<lambda>(n, ch). case un_subnet cmd of None \<Rightarrow> returnM (n, ch)
     | Some c \<Rightarrow>
         bindM (case net_subnet n of Some s \<Rightarrow> returnM (sub_id s) | None \<Rightarrow> freshM env SubnetId) (\<lambda>sid.
         bindM (liftM (mk_subnet (bare_subnet_of sid c))) (\<lambda>new.
         returnM (case net_subnet n of
             None \<Rightarrow> (n\<lparr>net_subnet := Some new\<rparr>, True)
           | Some old \<Rightarrow>
               if sub_cidr old \<noteq> sub_cidr new \<or> sub_gateway old \<noteq> sub_gateway new
               then (n\<lparr>net_subnet := Some new\<rparr>, True) else (n, ch)))))"

definition update_labels :: "update_network_cmd \<Rightarrow> network \<times> bool \<Rightarrow> network \<times> bool" where
  "update_labels cmd = (\<lambda>(n, ch). case un_labels cmd of None \<Rightarrow> (n, ch)
     | Some l \<Rightarrow> if \<not> dict_eq l (net_labels n) then (n\<lparr>net_labels := l\<rparr>, True) else (n, ch))"

definition update_nat :: "update_network_cmd \<Rightarrow> network \<times> bool \<Rightarrow> network \<times> bool" where
  "update_nat cmd = (\<lambda>(n, ch). case un_nat cmd of None \<Rightarrow> (n, ch)
     | Some x \<Rightarrow> if Some x \<noteq> net_nat n then (n\<lparr>net_nat := Some x\<rparr>, True) else (n, ch))"

definition update_firewall :: "update_network_cmd \<Rightarrow> network \<times> bool \<Rightarrow> network \<times> bool" where
  "update_firewall cmd = (\<lambda>(n, ch). case un_firewall cmd of None \<Rightarrow> (n, ch)
     | Some f \<Rightarrow> if Some f \<noteq> net_firewall n then (n\<lparr>net_firewall := Some f\<rparr>, True) else (n, ch))"

definition apply_update ::
  "env \<Rightarrow> update_network_cmd \<Rightarrow> network \<Rightarrow> ('ag world, exc, network \<times> bool) act" where
  "apply_update env cmd n =
     bindM (update_subnet env cmd (update_mtu cmd (n, False))) (\<lambda>r.
     let (n', ch) = update_firewall cmd (update_nat cmd (update_labels cmd r)) in
     bindM (if ch then liftM (network_validate n') else returnM ()) (\<lambda>_. returnM (n', ch)))"

definition find_network :: "string \<Rightarrow> ('ag world, exc, network) act" where
  "find_network nid = bindM (getM (\<lambda>w. dget (w_networks w) nid)) (\<lambda>r. liftM (of_option err_not_found r))"

definition update_outcome :: "bool \<Rightarrow> network \<Rightarrow> string" where
  "update_outcome changed n =
     (if changed then ''network updated (intent_version='' @ str_int (net_intent_version n) @ '')''
      else ''network unchanged (no-op)'')"

definition update_event :: "bool \<Rightarrow> network \<Rightarrow> (string \<times> payload) option" where
  "update_event changed n = (if changed then Some (''network.updated'',
     [(''name'', JStr (net_name n)), (''intent_version'', JInt (net_intent_version n)),
      (''spec_hash'', JStr (net_spec_hash n))]) else None)"

definition update_accepted ::
  "string \<Rightarrow> string \<Rightarrow> time \<Rightarrow> string option \<Rightarrow> network \<Rightarrow> operation" where
  "update_accepted oid nid now by n0 =
     accept oid NETWORK_UPDATE \<lparr>ref_type = ''network'', ref_id = nid\<rparr> now by
       (''update network '' @ py_repr (net_name n0))"

definition update_network ::
  "env \<Rightarrow> (json \<Rightarrow> string) \<Rightarrow> string \<Rightarrow> update_network_cmd
     \<Rightarrow> ('ag world, exc, network \<times> operation) act" where
  "update_network env digest nid cmd =
     bindM (find_network nid) (\<lambda>n0.
     bindM (nowM env) (\<lambda>now.
     bindM (freshM env OperationId) (\<lambda>oid.
     bindM (apply_update env cmd n0) (\<lambda>(n1, changed).
     let n = (if changed then bump_intent digest now n1 else n1) in
     bindM (advance env (done_in ''validating update'' ''persisting update''
              ''verifying persisted record'' (update_outcome changed n))
       (update_accepted oid nid now (un_updated_by cmd) n0)) (\<lambda>op.
     commit_network env n op (update_event changed n))))))"

subsection \<open>Assign nodes\<close>

definition require_node :: "string \<Rightarrow> ('ag world, exc, unit) act" where
  "require_node nid = bindM (getM (\<lambda>w. dget (w_nodes w) nid)) (\<lambda>r. guardM (r \<noteq> None) err_not_found)"

definition py_repr_list :: "string list \<Rightarrow> string" where
  "py_repr_list xs = ''['' @ join '', '' (List.map py_repr xs) @ '']''"

definition assign_event :: "bool \<Rightarrow> network \<Rightarrow> (string \<times> payload) option" where
  "assign_event same n = (if same then None else Some (''network.nodes_assigned'',
     [(''name'', JStr (net_name n)), (''intent_version'', JInt (net_intent_version n)),
      (''node_ids'', JList (List.map JStr (net_node_ids n)))]))"

definition assign_outcome :: "bool \<Rightarrow> string" where
  "assign_outcome same = (if \<not> same then ''membership updated'' else ''membership unchanged'')"

definition assign_accepted ::
  "string \<Rightarrow> string \<Rightarrow> time \<Rightarrow> assign_nodes_cmd \<Rightarrow> network \<Rightarrow> operation" where
  "assign_accepted oid nid now cmd n0 =
     accept oid NETWORK_UPDATE \<lparr>ref_type = ''network'', ref_id = nid\<rparr> now (an_updated_by cmd)
       (''assign nodes to network '' @ py_repr (net_name n0) @ '': '' @ py_repr_list (an_node_ids cmd))"

definition assign_nodes ::
  "env \<Rightarrow> (json \<Rightarrow> string) \<Rightarrow> string \<Rightarrow> assign_nodes_cmd
     \<Rightarrow> ('ag world, exc, network \<times> operation) act" where
  "assign_nodes env digest nid cmd =
     bindM (find_network nid) (\<lambda>n0.
     bindM (forM (an_node_ids cmd) require_node) (\<lambda>_.
     bindM (nowM env) (\<lambda>now.
     bindM (freshM env OperationId) (\<lambda>oid.
     let same = net_node_ids n0 = an_node_ids cmd in
     bindM (if same then returnM n0 else liftM (set_nodes digest (an_node_ids cmd) now n0)) (\<lambda>n.
     bindM (advance env (done_in ''validating node membership'' ''persisting node membership''
              ''verifying persisted record'' (assign_outcome same))
       (assign_accepted oid nid now cmd n0)) (\<lambda>op.
     commit_network env n op (assign_event same n)))))))"

subsection \<open>Reads\<close>

definition list_networks :: "string option \<Rightarrow> ('ag world, exc, network list) act" where
  "list_networks project = getM (\<lambda>w. case project of None \<Rightarrow> dvalues (w_networks w)
     | Some p \<Rightarrow> filter (\<lambda>n. net_project_id n = Some p) (dvalues (w_networks w)))"

definition get_network :: "string \<Rightarrow> ('ag world, exc, network) act" where
  "get_network nid = find_network nid"


subsection \<open>What the calls do to the stores\<close>

text \<open>The state after a network call has committed.\<close>

definition committed ::
  "env \<Rightarrow> network \<Rightarrow> operation \<Rightarrow> (string \<times> payload) option \<Rightarrow> 'ag world \<Rightarrow> 'ag world" where
  "committed env n op ev w =
     (let w1 = w\<lparr>w_networks := network_save n (w_networks w),
                 w_operations := operation_save op (w_operations w)\<rparr>
      in case ev of None \<Rightarrow> w1
         | Some (et, pl) \<Rightarrow>
             published (event_of env w1 et ''network'' (Some (net_id n)) pl (net_project_id n)) w1)"

definition named_event :: "(string \<times> payload) option \<Rightarrow> bool" where
  "named_event ev \<longleftrightarrow> (case ev of None \<Rightarrow> True | Some (et, _) \<Rightarrow> CHR ''.'' \<in> set et)"

lemma commit_network_run:
  assumes "named_event ev"
  shows "commit_network env n op ev w = (Inr (n, op), committed env n op ev w)"
  using assms by (cases ev) (auto simp: named_event_def commit_network_def committed_def Let_def
      bindM_run publish_run)

lemma commit_some [simp]:
  "CHR ''.'' \<in> set et \<Longrightarrow>
   commit_network env n op (Some (et, pl)) w = (Inr (n, op), committed env n op (Some (et, pl)) w)"
  by (rule commit_network_run) (simp add: named_event_def)

lemma commit_none [simp]: "commit_network env n op None w = (Inr (n, op), committed env n op None w)"
  by (rule commit_network_run) (simp add: named_event_def)

text \<open>A write call that committed: the network n and its operation were written, after reading only.\<close>

definition wrote ::
  "env \<Rightarrow> 'ag world \<Rightarrow> op_kind \<Rightarrow> network \<Rightarrow> operation \<Rightarrow> 'ag world \<Rightarrow> bool" where
  "wrote env w0 kind n op w \<longleftrightarrow> (\<exists>ev w1. quiet w0 w1 \<and> w = committed env n op ev w1 \<and>
     op_reach op \<and> op_status op = SUCCEEDED \<and> op_kind op = kind \<and> drawn env (w_ids w1) OperationId (op_id op) \<and>
     op_resource op = \<lparr>ref_type = ''network'', ref_id = net_id n\<rparr>)"

lemma wroteI:
  "quiet w0 w1 \<Longrightarrow> op_reach op \<Longrightarrow> op_status op = SUCCEEDED \<Longrightarrow> op_kind op = kind \<Longrightarrow>
   op_id op = factory_id OperationId (e_rnd env i) \<Longrightarrow> i < w_ids w1 \<Longrightarrow>
   op_resource op = \<lparr>ref_type = ''network'', ref_id = net_id n\<rparr> \<Longrightarrow>
   wrote env w0 kind n op (committed env n op ev w1)"
  unfolding wrote_def using drawn_last by fastforce

lemma mk_network_frame:
  "mk_network d m = Inr n \<Longrightarrow> net_id n = net_id m \<and> net_name n = net_name m \<and>
     net_project_id n = net_project_id m \<and> net_subnet n = net_subnet m"
  by (auto simp: mk_network_def bindE_Inr_iff)

lemma new_subnet_cases:
  assumes "new_subnet env c w = (r, w')"
  obtains (none) "c = None" "r = Inr None" "w' = w"
  | (refused) e where "r = Inl e" "w' = w\<lparr>w_ids := w_ids w + 1\<rparr>"
  | (made) x where "r = Inr (Some x)" "w' = w\<lparr>w_ids := w_ids w + 1\<rparr>" "subnet_check x = Inr ()"
      "sub_id x = factory_id SubnetId (e_rnd env (w_ids w))" "sub_pools x = []" "sub_reserved x = []"
  using assms
  by (auto simp: new_subnet_def bindM_run freshM_def mk_subnet_def bindE_def bare_subnet_of_def
      split: option.splits sum.splits)

lemma create_refused: "create_network env digest cmd w = (Inl e, w') \<Longrightarrow> quiet w w'"
  by (auto simp: create_network_def run_simps quiet_def split: if_splits
      elim!: advance_cases new_subnet_cases)

lemma create_wrote:
  "create_network env digest cmd w = (Inr (n, op), w') \<Longrightarrow> wrote env w NETWORK_CREATE n op w'"
  by (auto simp: create_network_def run_simps quiet_def split: if_splits
      elim!: advance_cases new_subnet_cases intro!: wroteI dest!: mk_network_frame)

lemma create_network_result:
  assumes "create_network env digest cmd w = (Inr (n, op), w')"
  shows "network_wf digest n \<and> net_id n = factory_id NetworkId (e_rnd env (w_ids w)) \<and>
    \<not> name_taken (net_name n) (net_project_id n) (dvalues (w_networks w)) \<and>
    (\<forall>x. net_subnet n = Some x \<longrightarrow> subnet_check x = Inr () \<and> sub_pools x = [] \<and> sub_reserved x = [] \<and>
       sub_id x = factory_id SubnetId (e_rnd env (w_ids w + 1)))"
  using assms
  by (auto simp: create_network_def run_simps split: if_splits
      elim!: advance_cases new_subnet_cases dest: mk_network_frame mk_network_wf [rotated])


lemma committed_ids: "w_ids w \<le> w_ids (committed env n op ev w)"
  by (auto simp: committed_def Let_def split: option.split)

lemma create_network_ids:
  "create_network env digest cmd w = (Inr (n, op), w') \<Longrightarrow> w_ids w + 1 < w_ids w'"
  by (auto simp: create_network_def run_simps split: if_splits
      elim!: advance_cases new_subnet_cases intro!: less_le_trans [OF _ committed_ids])

text \<open>The subnet a network has after an update, given the one it had.\<close>

definition subnet_step :: "env \<Rightarrow> nat \<Rightarrow> nat \<Rightarrow> subnet option \<Rightarrow> subnet option \<Rightarrow> bool" where
  "subnet_step env k k' old new \<longleftrightarrow> new = old \<or>
     (\<exists>x. new = Some x \<and> subnet_check x = Inr () \<and> sub_pools x = [] \<and> sub_reserved x = [] \<and>
        (case old of Some s \<Rightarrow> sub_id x = sub_id s
         | None \<Rightarrow> sub_id x = factory_id SubnetId (e_rnd env k) \<and> k < k'))"

lemma subnet_step_mono: "subnet_step env k k1 old new \<Longrightarrow> k1 \<le> k2 \<Longrightarrow> subnet_step env k k2 old new"
  by (auto simp: subnet_step_def split: option.splits)

definition same_identity :: "network \<Rightarrow> network \<Rightarrow> bool" where
  "same_identity a b \<longleftrightarrow> net_id a = net_id b \<and> net_name a = net_name b \<and> net_project_id a = net_project_id b"

definition update_ok :: "network \<Rightarrow> network \<times> bool \<Rightarrow> bool" where
  "update_ok n = (\<lambda>(n', ch). same_identity n' n \<and> (\<not> ch \<longrightarrow> n' = n))"

lemma update_mtu_ok: "update_ok n r \<Longrightarrow> update_ok n (update_mtu cmd r) \<and> net_subnet (fst (update_mtu cmd r)) = net_subnet (fst r)"
  by (auto simp: update_ok_def update_mtu_def same_identity_def split: option.split prod.splits)

lemma update_labels_ok: "update_ok n r \<Longrightarrow> update_ok n (update_labels cmd r) \<and> net_subnet (fst (update_labels cmd r)) = net_subnet (fst r)"
  by (auto simp: update_ok_def update_labels_def same_identity_def split: option.split prod.splits)

lemma update_nat_ok: "update_ok n r \<Longrightarrow> update_ok n (update_nat cmd r) \<and> net_subnet (fst (update_nat cmd r)) = net_subnet (fst r)"
  by (auto simp: update_ok_def update_nat_def same_identity_def split: option.split prod.splits)

lemma update_firewall_ok: "update_ok n r \<Longrightarrow> update_ok n (update_firewall cmd r) \<and> net_subnet (fst (update_firewall cmd r)) = net_subnet (fst r)"
  by (auto simp: update_ok_def update_firewall_def same_identity_def split: option.split prod.splits)

lemma update_subnet_ok:
  assumes "update_subnet env cmd r w = (Inr r', w')" "update_ok n r"
  shows "update_ok n r' \<and> subnet_step env (w_ids w) (w_ids w') (net_subnet (fst r)) (net_subnet (fst r')) \<and> quiet w w'"
proof (cases "un_subnet cmd")
  case None
  then show ?thesis
    using assms by (cases r) (auto simp: update_subnet_def subnet_step_def)
next
  case (Some c)
  show ?thesis
  proof (cases "net_subnet (fst r)")
    case None
    then show ?thesis
      using assms Some by (cases r) (auto simp: update_subnet_def subnet_step_def run_simps quiet_def
          mk_subnet_def bindE_Inr_iff update_ok_def same_identity_def bare_subnet_of_def split: if_splits)
  next
    case (Some s)
    then show ?thesis
      using assms \<open>un_subnet cmd = Some c\<close> by (cases r) (auto simp: update_subnet_def subnet_step_def run_simps
          quiet_def mk_subnet_def bindE_Inr_iff update_ok_def same_identity_def bare_subnet_of_def split: if_splits)
  qed
qed

lemma update_subnet_refused: "update_subnet env cmd r w = (Inl e, w') \<Longrightarrow> quiet w w'"
  by (cases r; cases "un_subnet cmd"; cases "net_subnet (fst r)")
    (auto simp: update_subnet_def run_simps quiet_def)

definition settle :: "update_network_cmd \<Rightarrow> network \<times> bool \<Rightarrow> network \<times> bool" where
  "settle cmd r = update_firewall cmd (update_nat cmd (update_labels cmd r))"

lemma settle_ok: "update_ok n r \<Longrightarrow> update_ok n (settle cmd r) \<and> net_subnet (fst (settle cmd r)) = net_subnet (fst r)"
  using update_labels_ok [of n r cmd] update_nat_ok [of n "update_labels cmd r" cmd]
    update_firewall_ok [of n "update_nat cmd (update_labels cmd r)" cmd]
  by (simp add: settle_def)

lemma apply_update_run:
  "apply_update env cmd n w = (case update_subnet env cmd (update_mtu cmd (n, False)) w of
     (Inl e, w') \<Rightarrow> (Inl e, w')
   | (Inr r, w') \<Rightarrow>
       if snd (settle cmd r)
       then (case network_validate (fst (settle cmd r)) of Inl e \<Rightarrow> (Inl e, w') | Inr _ \<Rightarrow> (Inr (settle cmd r), w'))
       else (Inr (settle cmd r), w'))"
  by (simp add: apply_update_def bindM_run settle_def split_beta Let_def split: sum.split)

lemma apply_update_result:
  assumes "apply_update env cmd n w = (Inr (n', ch), w')"
  shows "quiet w w' \<and> update_ok n (n', ch) \<and> (ch \<longrightarrow> network_validate n' = Inr ()) \<and>
    subnet_step env (w_ids w) (w_ids w') (net_subnet n) (net_subnet n') \<and>
    (un_subnet cmd = None \<longrightarrow> net_subnet n' = net_subnet n)"
proof -
  have start: "update_ok n (update_mtu cmd (n, False))" "net_subnet (fst (update_mtu cmd (n, False))) = net_subnet n"
    using update_mtu_ok [of n "(n, False)" cmd] by (simp_all add: update_ok_def same_identity_def)
  obtain r w1 where r: "update_subnet env cmd (update_mtu cmd (n, False)) w = (Inr r, w1)"
    using assms by (cases "update_subnet env cmd (update_mtu cmd (n, False)) w"; cases "fst (update_subnet env cmd (update_mtu cmd (n, False)) w)")
      (simp_all add: apply_update_run)
  then have res: "settle cmd r = (n', ch)" "w' = w1" "ch \<longrightarrow> network_validate n' = Inr ()"
    using assms by (auto simp: apply_update_run split: if_splits sum.splits)
  have sub: "update_ok n r" "subnet_step env (w_ids w) (w_ids w1) (net_subnet n) (net_subnet (fst r))" "quiet w w1"
    using update_subnet_ok [OF r start(1)] start(2) by simp_all
  have "net_subnet (fst r) = net_subnet n" if "un_subnet cmd = None"
    using r start(2) that
    by (cases "update_mtu cmd (n, False)") (auto simp: update_subnet_def)
  then show ?thesis using settle_ok [OF sub(1), of cmd] res sub by auto
qed

lemma apply_update_refused:
  assumes "apply_update env cmd n w = (Inl e, w')"
  shows "quiet w w'"
proof -
  let ?r0 = "update_mtu cmd (n, False)"
  have start: "update_ok n ?r0"
    using update_mtu_ok [of n "(n, False)" cmd] by (simp add: update_ok_def same_identity_def)
  obtain r w1 where run: "update_subnet env cmd ?r0 w = (r, w1)" by fastforce
  show ?thesis
  proof (cases r)
    case (Inl e')
    then show ?thesis
      using assms run update_subnet_refused [of env cmd ?r0 w e' w1] by (simp add: apply_update_run)
  next
    case (Inr r')
    then have "quiet w w1" using update_subnet_ok [OF _ start] run by blast
    moreover have "w' = w1" using assms run Inr by (auto simp: apply_update_run split: if_splits sum.splits)
    ultimately show ?thesis by simp
  qed
qed

lemma quiet_trans: "quiet a b \<Longrightarrow> quiet b c \<Longrightarrow> quiet a c"
  by (simp add: quiet_def)


lemma quiet_drawn: "quiet w0 w \<Longrightarrow> drawn env (w_ids w0) kind x \<Longrightarrow> drawn env (w_ids w) kind x"
  by (simp add: quiet_def drawn_mono)

lemma bump_intent_frame [simp]:
  "net_id (bump_intent d now n) = net_id n" "net_name (bump_intent d now n) = net_name n"
  "net_project_id (bump_intent d now n) = net_project_id n" "net_subnet (bump_intent d now n) = net_subnet n"
  by (simp_all add: bump_intent_def Let_def)

lemma find_network_run:
  "find_network nid w = (case dget (w_networks w) nid of Some n \<Rightarrow> (Inr n, w) | None \<Rightarrow> (Inl err_not_found, w))"
  by (simp add: find_network_def bindM_run split: option.split)

lemma update_event_named: "named_event (update_event ch n)"
  by (simp add: update_event_def named_event_def)

lemma assign_event_named: "named_event (assign_event same n)"
  by (simp add: assign_event_def named_event_def)

text \<open>The common tail of the write calls never raises.\<close>

lemma tail_run:
  assumes "named_event ev"
  shows "\<exists>op. bindM (advance env (done_in a b c d) (accept oid kind res now by msg))
      (\<lambda>op. commit_network env n op ev) w =
      (Inr (n, op), committed env n op ev (w\<lparr>w_clock := w_clock w + 4\<rparr>)) \<and>
    op_status op = SUCCEEDED \<and> op_id op = oid \<and> op_kind op = kind \<and> op_resource op = res \<and> op_reach op"
proof -
  obtain op where "advance env (done_in a b c d) (accept oid kind res now by msg) w =
      (Inr op, w\<lparr>w_clock := w_clock w + 4\<rparr>)" "op_status op = SUCCEEDED" "op_id op = oid"
      "op_kind op = kind" "op_resource op = res" "op_reach op"
    using advance_all [of env a b c d oid kind res now "by" msg w] by blast
  then show ?thesis
    by (intro exI [of _ op]) (simp add: bindM_run commit_network_run [OF assms])
qed

lemma tail_wrote:
  assumes "named_event ev"
    and "quiet w0 w" "i < w_ids w" "oid = factory_id OperationId (e_rnd env i)"
    and "res = \<lparr>ref_type = ''network'', ref_id = net_id n\<rparr>"
  shows "\<exists>op w'. bindM (advance env (done_in a b c d) (accept oid kind res now by msg))
      (\<lambda>op. commit_network env n op ev) w = (Inr (n, op), w') \<and> wrote env w0 kind n op w'"
proof -
  obtain op where op: "bindM (advance env (done_in a b c d) (accept oid kind res now by msg))
      (\<lambda>op. commit_network env n op ev) w =
      (Inr (n, op), committed env n op ev (w\<lparr>w_clock := w_clock w + 4\<rparr>))"
    "op_status op = SUCCEEDED" "op_id op = oid" "op_kind op = kind" "op_resource op = res" "op_reach op"
    using tail_run [OF assms(1)] by blast
  have "wrote env w0 kind n op (committed env n op ev (w\<lparr>w_clock := w_clock w + 4\<rparr>))"
    using op(2-) assms(2-) by (intro wroteI [where i = i]) (simp_all add: quiet_clock)
  then show ?thesis using op(1) by blast
qed

lemma tail_refused:
  assumes "named_event ev"
    and "bindM (advance env (done_in a b c d) (accept oid kind res now by msg))
      (\<lambda>op. commit_network env n op ev) w = (Inl e, w')"
  shows "Q"
  using tail_run [OF assms(1), of env a b c d oid kind res now "by" msg n w] assms(2) by auto

lemma tail_wroteD:
  assumes "bindM (advance env (done_in a b c d) (accept oid kind res now by msg))
      (\<lambda>op. commit_network env n op ev) w = (Inr (n', op), w')"
    and "named_event ev" "quiet w0 w" "i < w_ids w" "oid = factory_id OperationId (e_rnd env i)"
    and "res = \<lparr>ref_type = ''network'', ref_id = net_id n\<rparr>"
  shows "n' = n \<and> wrote env w0 kind n op w'"
  using tail_wrote [OF assms(2-6), of a b c d kind now "by" msg] assms(1) by auto

lemma tail_ids:
  assumes "bindM (advance env (done_in a b c d) (accept oid kind res now by msg))
      (\<lambda>op. commit_network env n op ev) w = (r, w')" "named_event ev"
  shows "w_ids w \<le> w_ids w'"
proof -
  obtain op where "bindM (advance env (done_in a b c d) (accept oid kind res now by msg))
      (\<lambda>op. commit_network env n op ev) w =
      (Inr (n, op), committed env n op ev (w\<lparr>w_clock := w_clock w + 4\<rparr>))"
    using tail_run [OF assms(2)] by blast
  then show ?thesis using assms(1) committed_ids [of "w\<lparr>w_clock := w_clock w + 4\<rparr>" env n op ev] by auto
qed

abbreviation after_draw :: "'ag world \<Rightarrow> 'ag world" where
  "after_draw w \<equiv> w\<lparr>w_clock := w_clock w + 1, w_ids := w_ids w + 1\<rparr>"

lemma update_refused:
  assumes "update_network env digest nid cmd w = (Inl e, w')"
  shows "quiet w w'"
proof (cases "dget (w_networks w) nid")
  case None
  then show ?thesis using assms by (simp add: update_network_def bindM_run find_network_run)
next
  case (Some n0)
  obtain r w1 where run: "apply_update env cmd n0 (after_draw w) = (r, w1)" by fastforce
  have q: "quiet w (after_draw w)" by (simp add: quiet_def)
  show ?thesis
  proof (cases r)
    case (Inl e')
    have "w' = w1"
      using assms run Inl Some by (simp add: update_network_def bindM_run find_network_run nowM_def freshM_def)
    then show ?thesis
      using apply_update_refused [of env cmd n0 "after_draw w" e' w1] run Inl quiet_trans [OF q] by simp
  next
    case (Inr x)
    let ?n = "if snd x then bump_intent digest (e_now env (w_clock w)) (fst x) else fst x"
    have "bindM (advance env (done_in ''validating update'' ''persisting update''
          ''verifying persisted record'' (update_outcome (snd x) ?n))
        (update_accepted (factory_id OperationId (e_rnd env (w_ids w))) nid (e_now env (w_clock w)) (un_updated_by cmd) n0))
        (\<lambda>op. commit_network env ?n op (update_event (snd x) ?n)) w1 = (Inl e, w')"
      using assms run Inr Some
      by (simp add: update_network_def bindM_run find_network_run nowM_def freshM_def split_beta Let_def)
    then show ?thesis unfolding update_accepted_def by (rule tail_refused [OF update_event_named])
  qed
qed

text \<open>A committed update keeps the identity of the network and yields a well-formed one.\<close>

lemma update_result:
  assumes run: "update_network env digest nid cmd w = (Inr (n, op), w')"
    and key: "\<And>x. dget (w_networks w) nid = Some x \<Longrightarrow> net_id x = nid \<and> network_wf digest x"
  shows "\<exists>n0. dget (w_networks w) nid = Some n0 \<and> wrote env w NETWORK_UPDATE n op w' \<and>
    same_identity n n0 \<and> network_wf digest n \<and>
    subnet_step env (w_ids w + 1) (w_ids w') (net_subnet n0) (net_subnet n) \<and>
    (un_subnet cmd = None \<longrightarrow> net_subnet n = net_subnet n0)"
proof -
  obtain n0 where n0: "dget (w_networks w) nid = Some n0"
    using run by (cases "dget (w_networks w) nid")
      (simp_all add: update_network_def bindM_run find_network_run)
  obtain r w1 where up: "apply_update env cmd n0 (after_draw w) = (r, w1)" by fastforce
  then obtain n1 ch where r: "r = Inr (n1, ch)"
    using run n0 by (cases r) (auto simp: update_network_def bindM_run find_network_run nowM_def freshM_def)
  from apply_update_result [OF up [unfolded r]] have ok: "quiet (after_draw w) w1" "update_ok n0 (n1, ch)"
      "ch \<longrightarrow> network_validate n1 = Inr ()" "subnet_step env (w_ids w + 1) (w_ids w1) (net_subnet n0) (net_subnet n1)"
      "un_subnet cmd = None \<longrightarrow> net_subnet n1 = net_subnet n0"
    by simp_all
  define n' where "n' = (if ch then bump_intent digest (e_now env (w_clock w)) n1 else n1)"
  have ident: "same_identity n' n0" "net_subnet n' = net_subnet n1"
    using ok(2) by (auto simp: n'_def update_ok_def same_identity_def)
  have wf: "network_wf digest n'"
    using ok(2,3) key [OF n0] by (auto simp: n'_def update_ok_def bump_intent_wf)
  have q: "w_ids w < w_ids w1" "quiet w w1" using ok(1) by (simp_all add: quiet_def)
  have nid: "net_id n' = nid" using ident(1) key [OF n0] by (simp add: same_identity_def)
  have fin: "bindM (advance env (done_in ''validating update'' ''persisting update''
          ''verifying persisted record'' (update_outcome ch n'))
        (update_accepted (factory_id OperationId (e_rnd env (w_ids w))) nid (e_now env (w_clock w)) (un_updated_by cmd) n0))
        (\<lambda>op. commit_network env n' op (update_event ch n')) w1 = (Inr (n, op), w')"
    using run up r n0
    by (simp add: update_network_def bindM_run find_network_run nowM_def freshM_def Let_def flip: n'_def)
  from tail_wroteD [OF fin [unfolded update_accepted_def] update_event_named q(2) q(1) refl]
  have res: "n = n'" "wrote env w NETWORK_UPDATE n op w'" by (simp_all add: nid)
  have "w_ids w1 \<le> w_ids w'" using tail_ids [OF fin [unfolded update_accepted_def] update_event_named] .
  then have "subnet_step env (w_ids w + 1) (w_ids w') (net_subnet n0) (net_subnet n1)"
    using ok(4) subnet_step_mono by blast
  then show ?thesis using n0 ident wf res ok(5) by auto
qed


lemma set_nodes_frame:
  "set_nodes digest ids now n = Inr n' \<Longrightarrow> network_wf digest n \<Longrightarrow>
   same_identity n' n \<and> net_subnet n' = net_subnet n \<and> network_wf digest n'"
  by (auto simp: set_nodes_def same_identity_def split: if_splits intro: bump_intent_wf)
    (simp add: network_wf_def bump_intent_hash network_validate_nodes)

definition nodes_known :: "'ag world \<Rightarrow> string list \<Rightarrow> bool" where
  "nodes_known w ids \<longleftrightarrow> (\<forall>i \<in> set ids. dget (w_nodes w) i \<noteq> None)"

lemma require_nodes_run:
  "forM ids require_node w = (if nodes_known w ids then Inr () else Inl err_not_found, w)"
  by (induction ids) (auto simp: require_node_def bindM_run require_def nodes_known_def)

lemma bindM_require_nodes:
  "bindM (forM ids require_node) f w =
     (if nodes_known w ids then f () w else (Inl err_not_found, w))"
  by (simp add: bindM_run require_nodes_run)

definition assigned :: "(json \<Rightarrow> string) \<Rightarrow> assign_nodes_cmd \<Rightarrow> time \<Rightarrow> network \<Rightarrow> exc + network" where
  "assigned digest cmd now n =
     (if net_node_ids n = an_node_ids cmd then Inr n else set_nodes digest (an_node_ids cmd) now n)"

lemma assigned_ok:
  assumes "assigned digest cmd now n0 = Inr n'" "network_wf digest n0"
  shows "same_identity n' n0 \<and> net_subnet n' = net_subnet n0 \<and> network_wf digest n' \<and>
    net_node_ids n' = an_node_ids cmd"
proof (cases "net_node_ids n0 = an_node_ids cmd")
  case True
  then show ?thesis using assms by (simp add: assigned_def same_identity_def)
next
  case False
  then have set: "set_nodes digest (an_node_ids cmd) now n0 = Inr n'"
    using assms(1) by (simp add: assigned_def)
  then have "net_node_ids n' = an_node_ids cmd"
    by (auto simp: set_nodes_def bump_intent_def Let_def split: if_splits)
  then show ?thesis using set_nodes_frame [OF set assms(2)] by simp
qed

definition assign_finish ::
  "env \<Rightarrow> string \<Rightarrow> assign_nodes_cmd \<Rightarrow> network \<Rightarrow> network \<Rightarrow> 'ag world
     \<Rightarrow> (exc + network \<times> operation) \<times> 'ag world" where
  "assign_finish env nid cmd n0 n w =
     bindM (advance env (done_in ''validating node membership'' ''persisting node membership''
        ''verifying persisted record'' (assign_outcome (net_node_ids n0 = an_node_ids cmd)))
       (assign_accepted (factory_id OperationId (e_rnd env (w_ids w))) nid (e_now env (w_clock w)) cmd n0)) (\<lambda>op.
     commit_network env n op (assign_event (net_node_ids n0 = an_node_ids cmd) n)) (after_draw w)"

lemma assign_finish_refused: "assign_finish env nid cmd n0 n w = (Inl e, w') \<Longrightarrow> Q"
  unfolding assign_finish_def assign_accepted_def by (rule tail_refused [OF assign_event_named])

lemma assign_finish_wrote:
  assumes "assign_finish env nid cmd n0 n w = (Inr (n', op), w')" "net_id n = nid"
  shows "n' = n \<and> wrote env w NETWORK_UPDATE n op w'"
  using assms(1) unfolding assign_finish_def assign_accepted_def
  by (rule tail_wroteD [OF _ assign_event_named, where i = "w_ids w"]) (simp_all add: quiet_def assms(2))

lemma assign_run:
  "assign_nodes env digest nid cmd w =
    (case dget (w_networks w) nid of None \<Rightarrow> (Inl err_not_found, w) | Some n0 \<Rightarrow>
       if \<not> nodes_known w (an_node_ids cmd) then (Inl err_not_found, w)
       else (case assigned digest cmd (e_now env (w_clock w)) n0 of
          Inl e \<Rightarrow> (Inl e, after_draw w) | Inr n \<Rightarrow> assign_finish env nid cmd n0 n w))"
  by (simp add: assign_nodes_def find_network_run bindM_run [of "find_network _"]
      bindM_require_nodes bindM_now bindM_fresh bindM_lift Let_def assigned_def assign_finish_def
      split: option.split sum.split)

lemma assign_refused: "assign_nodes env digest nid cmd w = (Inl e, w') \<Longrightarrow> quiet w w'"
  by (auto simp: assign_run quiet_def split: option.splits if_splits sum.splits
      elim: assign_finish_refused)

lemma assign_result:
  assumes run: "assign_nodes env digest nid cmd w = (Inr (n, op), w')"
    and key: "\<And>x. dget (w_networks w) nid = Some x \<Longrightarrow> net_id x = nid \<and> network_wf digest x"
  shows "\<exists>n0. dget (w_networks w) nid = Some n0 \<and> wrote env w NETWORK_UPDATE n op w' \<and>
    same_identity n n0 \<and> network_wf digest n \<and> net_subnet n = net_subnet n0 \<and>
    nodes_known w (an_node_ids cmd) \<and> net_node_ids n = an_node_ids cmd"
proof -
  obtain n0 where n0: "dget (w_networks w) nid = Some n0"
    using run by (cases "dget (w_networks w) nid") (simp_all add: assign_run)
  have nodes: "nodes_known w (an_node_ids cmd)"
    using run n0 by (cases "nodes_known w (an_node_ids cmd)") (simp_all add: assign_run)
  obtain n' where n': "assigned digest cmd (e_now env (w_clock w)) n0 = Inr n'"
    using run n0 nodes
    by (cases "assigned digest cmd (e_now env (w_clock w)) n0") (simp_all add: assign_run)
  have fin: "assign_finish env nid cmd n0 n' w = (Inr (n, op), w')"
    using run n0 nodes n' by (simp add: assign_run)
  have ok: "same_identity n' n0" "net_subnet n' = net_subnet n0" "network_wf digest n'"
      "net_node_ids n' = an_node_ids cmd"
    using assigned_ok [OF n'] key [OF n0] by simp_all
  have "net_id n' = nid" using ok(1) key [OF n0] by (simp add: same_identity_def)
  from assign_finish_wrote [OF fin this] show ?thesis using n0 nodes ok by auto
qed

end
