(* ===== verification/Ipam_Use_Cases.thy ===== *)
theory Ipam_Use_Cases
  imports Network_Use_Cases
begin

text \<open>
  The IPAM calls (\<open>core/use_cases/ipam.py\<close>): replace a network's subnet, allocate, reserve and
  release addresses, and the reads. The lemmas say what each call leaves in the stores; what all
  calls together keep true is in \<open>System\<close>.
\<close>

record upsert_subnet_cmd =
  us_cidr :: string
  us_gateway :: "string option"
  us_dns_servers :: "string list"
  us_pools :: "ip_range list"
  us_reserved :: "ip_range list"
  us_dhcp :: "dhcp_spec option"
  us_dns_zone :: "string option"

record reserve_ip_cmd =
  ri_address :: string
  ri_owner :: owner_ref
  ri_label :: "string option"

record allocate_ip_cmd =
  al_owner :: owner_ref
  al_label :: "string option"

definition resolve_subnet :: "string \<Rightarrow> ('ag world, exc, subnet) act" where
  "resolve_subnet sid = bindM (getM (\<lambda>w. network_by_subnet sid (w_networks w))) (\<lambda>r.
     liftM (of_option err_not_found (Option.bind r net_subnet)))"

definition upserted :: "string \<Rightarrow> upsert_subnet_cmd \<Rightarrow> subnet" where
  "upserted sid cmd =
     \<lparr>sub_id = sid, sub_cidr = us_cidr cmd, sub_gateway = us_gateway cmd,
      sub_dns_servers = us_dns_servers cmd, sub_pools = us_pools cmd,
      sub_reserved = us_reserved cmd, sub_dhcp = us_dhcp cmd, sub_dns_zone = us_dns_zone cmd\<rparr>"

text \<open>The check that no existing allocation falls outside the new block.\<close>

definition not_stranded :: "ipnet \<Rightarrow> ip_allocation \<Rightarrow> exc + unit" where
  "not_stranded net a =
     bindE (of_option (PyError PyValueError) (ip_address (ipa_address a))) (\<lambda>x.
     require (in_net x net) err_conflict)"

definition fits_allocations :: "subnet \<Rightarrow> ip_allocation list \<Rightarrow> exc + unit" where
  "fits_allocations s existing =
     bindE (of_option (PyError PyValueError) (ip_network (sub_cidr s) True)) (\<lambda>net.
     each (not_stranded net) existing)"

definition upsert_subnet ::
  "env \<Rightarrow> (json \<Rightarrow> string) \<Rightarrow> string \<Rightarrow> upsert_subnet_cmd \<Rightarrow> ('ag world, exc, network) act" where
  "upsert_subnet env digest nid cmd =
     bindM (find_network nid) (\<lambda>n.
     bindM (case net_subnet n of Some s \<Rightarrow> returnM (sub_id s) | None \<Rightarrow> freshM env SubnetId) (\<lambda>sid.
     bindM (liftM (mk_subnet (upserted sid cmd))) (\<lambda>s.
     bindM (case net_subnet n of None \<Rightarrow> returnM ()
            | Some old \<Rightarrow>
                bindM (getM (\<lambda>w. allocs_for_subnet (sub_id old) (w_allocations w)))
                  (\<lambda>existing. liftM (fits_allocations s existing))) (\<lambda>_.
     bindM (nowM env) (\<lambda>now.
     let n' = bump_intent digest now (n\<lparr>net_subnet := Some s\<rparr>) in
     bindM (modifyM (\<lambda>w. w\<lparr>w_networks := network_save n' (w_networks w)\<rparr>)) (\<lambda>_. returnM n'))))))"

definition save_allocation :: "ip_allocation \<Rightarrow> ('ag world, exc, ip_allocation) act" where
  "save_allocation a =
     bindM (liftM (ip_allocation_check a)) (\<lambda>_.
     bindM (modifyM (\<lambda>w. w\<lparr>w_allocations := alloc_save a (w_allocations w)\<rparr>)) (\<lambda>_. returnM a))"

definition allocate_ip :: "env \<Rightarrow> string \<Rightarrow> allocate_ip_cmd \<Rightarrow> ('ag world, exc, ip_allocation) act" where
  "allocate_ip env sid cmd =
     bindM (resolve_subnet sid) (\<lambda>s.
     bindM (getM (\<lambda>w. allocs_for_subnet sid (w_allocations w))) (\<lambda>existing.
     bindM (liftM (next_available_ip s (List.map ipa_address existing))) (\<lambda>addr.
     bindM (freshM env IpAllocationId) (\<lambda>aid.
     bindM (nowM env) (\<lambda>now.
     save_allocation
       \<lparr>ipa_id = aid, ipa_subnet_id = sid, ipa_address = addr, ipa_owner = al_owner cmd,
        ipa_kind = DYNAMIC, ipa_allocated_at = now, ipa_label = al_label cmd\<rparr>)))))"

definition reserve_ip :: "env \<Rightarrow> string \<Rightarrow> reserve_ip_cmd \<Rightarrow> ('ag world, exc, ip_allocation) act" where
  "reserve_ip env sid cmd =
     bindM (resolve_subnet sid) (\<lambda>s.
     bindM (liftM (is_address_assignable s (ri_address cmd))) (\<lambda>_.
     bindM (getM (\<lambda>w. alloc_by_address sid (ri_address cmd) (w_allocations w))) (\<lambda>clash.
     bindM (guardM (clash = None) err_conflict) (\<lambda>_.
     bindM (freshM env IpAllocationId) (\<lambda>aid.
     bindM (nowM env) (\<lambda>now.
     save_allocation
       \<lparr>ipa_id = aid, ipa_subnet_id = sid, ipa_address = ri_address cmd, ipa_owner = ri_owner cmd,
        ipa_kind = RESERVATION, ipa_allocated_at = now, ipa_label = ri_label cmd\<rparr>))))))"

definition release_ip :: "string \<Rightarrow> ('ag world, exc, unit) act" where
  "release_ip aid = modifyM (\<lambda>w. w\<lparr>w_allocations := dpop aid (w_allocations w)\<rparr>)"

definition list_allocations :: "string \<Rightarrow> ('ag world, exc, ip_allocation list) act" where
  "list_allocations sid =
     bindM (resolve_subnet sid) (\<lambda>_. getM (\<lambda>w. allocs_for_subnet sid (w_allocations w)))"

definition get_allocation :: "string \<Rightarrow> ('ag world, exc, ip_allocation) act" where
  "get_allocation aid = bindM (getM (\<lambda>w. dget (w_allocations w) aid)) (\<lambda>r.
     liftM (of_option err_not_found r))"

definition list_subnets :: "('ag world, exc, (network \<times> subnet) list) act" where
  "list_subnets = getM (\<lambda>w. List.map_filter (\<lambda>n. map_option (Pair n) (net_subnet n)) (dvalues (w_networks w)))"

definition get_subnet :: "string \<Rightarrow> ('ag world, exc, network \<times> subnet) act" where
  "get_subnet sid = bindM (getM (\<lambda>w. network_by_subnet sid (w_networks w))) (\<lambda>r.
     case r of None \<Rightarrow> raiseM err_not_found
     | Some n \<Rightarrow> (case net_subnet n of None \<Rightarrow> raiseM err_not_found | Some s \<Rightarrow> returnM (n, s)))"

subsection \<open>What the calls do\<close>

text \<open>An address as a value: two texts of one address have one value.\<close>

definition alloc_value :: "ip_allocation \<Rightarrow> ip option" where
  "alloc_value a = ip_address (ipa_address a)"

lemma network_by_subnet_Some:
  "network_by_subnet sid d = Some n \<Longrightarrow> n \<in> set (dvalues d) \<and> (\<exists>s. net_subnet n = Some s \<and> sub_id s = sid)"
  by (auto simp: network_by_subnet_def find_Some_iff split: option.splits)

lemma resolve_run:
  "resolve_subnet sid w = (case Option.bind (network_by_subnet sid (w_networks w)) net_subnet of
     Some s \<Rightarrow> (Inr s, w) | None \<Rightarrow> (Inl err_not_found, w))"
  by (simp add: resolve_subnet_def split: option.split)

lemma candidate_facts:
  assumes "next_available_ip s used = Inr x"
  obtains net a where "ip_network (sub_cidr s) True = Some net" "ip_address x = Some a" "in_net a net"
    "ip_int a \<notin> set (taken_ints used)"
proof -
  obtain cs a where cs: "iter_candidates s = Inr cs"
    and f: "List.find (\<lambda>a. ip_int a \<notin> set (taken_ints used)) cs = Some a" and x: "x = str_ip a"
    using assms by (auto simp: next_available_ip_def Let_def bindE_Inr_iff split: option.splits)
  obtain net where net: "ip_network (sub_cidr s) True = Some net"
    using cs by (auto simp: iter_candidates_def bindE_Inr_iff)
  have a: "a \<in> set cs" "ip_int a \<notin> set (taken_ints used)" using f by (auto simp: find_Some_iff)
  obtain n gw where n: "a = with_int (nw_addr net) n" "candidate_ok s net gw a"
    using cs a(1) net by (auto simp: iter_candidates_def bindE_Inr_iff)
  then have inn: "in_net a net" by (simp add: candidate_ok_def)
  have "ip_int (nw_addr net) \<le> n" "n < ip_int (nw_addr net) + host_count net"
    using inn in_net_interval [OF ip_network_aligned [OF net], of a] n(1) by simp_all
  then have "ip_wf a" using in_net_wf [OF net] n(1) by simp
  then show ?thesis using that net inn a(2) by (simp add: x ip_address_str_ip)
qed

lemma assignable_facts:
  assumes "is_address_assignable s x = Inr ()"
  obtains net a where "ip_network (sub_cidr s) True = Some net" "ip_address x = Some a" "in_net a net"
  using assms by (auto simp: is_address_assignable_def bindE_Inr_iff)

text \<open>A saved allocation: new id, valid, its address inside the block of its subnet.\<close>

definition new_allocation :: "env \<Rightarrow> 'ag world \<Rightarrow> string \<Rightarrow> ip_allocation \<Rightarrow> 'ag world \<Rightarrow> bool" where
  "new_allocation env w0 sid a w \<longleftrightarrow> (\<exists>w1 s net x. quiet w0 w1 \<and>
     w = w1\<lparr>w_allocations := alloc_save a (w_allocations w1)\<rparr> \<and>
     ipa_id a = factory_id IpAllocationId (e_rnd env (w_ids w0)) \<and> w_ids w0 < w_ids w1 \<and>
     ipa_subnet_id a = sid \<and> ip_allocation_check a = Inr () \<and>
     Option.bind (network_by_subnet sid (w_networks w0)) net_subnet = Some s \<and>
     ip_network (sub_cidr s) True = Some net \<and> alloc_value a = Some x \<and> in_net x net)"

lemma ipam_refused:
  "allocate_ip env sid acmd w = (Inl e, w') \<Longrightarrow> quiet w w'"
  "reserve_ip env sid rcmd w = (Inl e, w') \<Longrightarrow> quiet w w'"
  by (auto simp: allocate_ip_def reserve_ip_def save_allocation_def run_simps resolve_run quiet_def
      split: option.splits if_splits)

lemma allocate_result:
  assumes "allocate_ip env sid cmd w = (Inr a, w')"
  shows "new_allocation env w sid a w' \<and>
    (\<exists>x. alloc_value a = Some x \<and>
       (\<forall>b \<in> set (allocs_for_subnet sid (w_allocations w)). \<forall>y. alloc_value b = Some y \<longrightarrow> ip_int y \<noteq> ip_int x))"
proof -
  obtain s where s: "Option.bind (network_by_subnet sid (w_networks w)) net_subnet = Some s"
    using assms by (auto simp: allocate_ip_def bindM_run resolve_run split: option.splits)
  obtain addr where addr: "next_available_ip s (List.map ipa_address (allocs_for_subnet sid (w_allocations w))) = Inr addr"
    using assms s by (auto simp: allocate_ip_def run_simps resolve_run)
  from candidate_facts [OF addr] obtain net x where x: "ip_network (sub_cidr s) True = Some net"
      "ip_address addr = Some x" "in_net x net"
      "ip_int x \<notin> set (taken_ints (List.map ipa_address (allocs_for_subnet sid (w_allocations w))))" .
  have a: "a = \<lparr>ipa_id = factory_id IpAllocationId (e_rnd env (w_ids w)), ipa_subnet_id = sid,
        ipa_address = addr, ipa_owner = al_owner cmd, ipa_kind = DYNAMIC,
        ipa_allocated_at = e_now env (w_clock w), ipa_label = al_label cmd\<rparr>"
      "w' = (after_draw w)\<lparr>w_allocations := alloc_save a (w_allocations w)\<rparr>" "ip_allocation_check a = Inr ()"
    using assms s addr by (auto simp: allocate_ip_def run_simps resolve_run save_allocation_def)
  have "alloc_value a = Some x" using x(2) by (simp add: a(1) alloc_value_def)
  moreover have "new_allocation env w sid a w'"
    unfolding new_allocation_def using a s x \<open>alloc_value a = Some x\<close>
    by (intro exI [of _ "after_draw w"] exI [of _ s] exI [of _ net] exI [of _ x]) (simp add: quiet_def)
  moreover have "ip_int y \<noteq> ip_int x"
    if "b \<in> set (allocs_for_subnet sid (w_allocations w))" "alloc_value b = Some y" for b y
    using x(4) that by (auto simp: taken_ints_set alloc_value_def)
  ultimately show ?thesis by blast
qed

lemma reserve_result:
  assumes "reserve_ip env sid cmd w = (Inr a, w')"
  shows "new_allocation env w sid a w' \<and>
    (\<forall>b \<in> set (allocs_for_subnet sid (w_allocations w)). ipa_address b \<noteq> ipa_address a)"
proof -
  obtain s where s: "Option.bind (network_by_subnet sid (w_networks w)) net_subnet = Some s"
    using assms by (auto simp: reserve_ip_def bindM_run resolve_run split: option.splits)
  have ok: "is_address_assignable s (ri_address cmd) = Inr ()"
    and clash: "alloc_by_address sid (ri_address cmd) (w_allocations w) = None"
    using assms s by (auto simp: reserve_ip_def run_simps resolve_run split: if_splits)
  from assignable_facts [OF ok] obtain net x where x: "ip_network (sub_cidr s) True = Some net"
      "ip_address (ri_address cmd) = Some x" "in_net x net" .
  have a: "a = \<lparr>ipa_id = factory_id IpAllocationId (e_rnd env (w_ids w)), ipa_subnet_id = sid,
        ipa_address = ri_address cmd, ipa_owner = ri_owner cmd, ipa_kind = RESERVATION,
        ipa_allocated_at = e_now env (w_clock w), ipa_label = ri_label cmd\<rparr>"
      "w' = (after_draw w)\<lparr>w_allocations := alloc_save a (w_allocations w)\<rparr>" "ip_allocation_check a = Inr ()"
    using assms s ok clash by (auto simp: reserve_ip_def run_simps resolve_run save_allocation_def)
  have "new_allocation env w sid a w'"
    unfolding new_allocation_def using a s x
    by (intro exI [of _ "after_draw w"] exI [of _ s] exI [of _ net] exI [of _ x])
      (simp add: quiet_def alloc_value_def)
  moreover have "ipa_address b \<noteq> ipa_address a" if "b \<in> set (allocs_for_subnet sid (w_allocations w))" for b
    using clash that by (auto simp: alloc_by_address_def find_None_iff allocs_for_subnet_def a(1))
  ultimately show ?thesis by blast
qed


lemma network_validate_subnet [simp]: "network_validate (n\<lparr>net_subnet := s\<rparr>) = network_validate n"
  by (simp add: network_validate_def cong: network_type.case_cong option.case_cong)

lemma upsert_run:
  "upsert_subnet env digest nid cmd w = (case dget (w_networks w) nid of
     None \<Rightarrow> (Inl err_not_found, w)
   | Some n \<Rightarrow>
       let sid = (case net_subnet n of Some s \<Rightarrow> sub_id s | None \<Rightarrow> factory_id SubnetId (e_rnd env (w_ids w)));
           w1 = (case net_subnet n of Some _ \<Rightarrow> w | None \<Rightarrow> w\<lparr>w_ids := w_ids w + 1\<rparr>);
           n' = bump_intent digest (e_now env (w_clock w)) (n\<lparr>net_subnet := Some (upserted sid cmd)\<rparr>)
       in (case bindE (subnet_check (upserted sid cmd)) (\<lambda>_.
              case net_subnet n of None \<Rightarrow> Inr ()
              | Some old \<Rightarrow> fits_allocations (upserted sid cmd) (allocs_for_subnet (sub_id old) (w_allocations w))) of
             Inl e \<Rightarrow> (Inl e, w1)
           | Inr _ \<Rightarrow> (Inr n', w1\<lparr>w_clock := w_clock w + 1, w_networks := network_save n' (w_networks w)\<rparr>)))"
proof (cases "dget (w_networks w) nid")
  case None
  then show ?thesis by (simp add: upsert_subnet_def bindM_run find_network_run)
next
  case (Some n)
  show ?thesis
  proof (cases "net_subnet n")
    case None
    then show ?thesis using \<open>dget (w_networks w) nid = Some n\<close>
      by (cases "subnet_check (upserted (factory_id SubnetId (e_rnd env (w_ids w))) cmd)")
        (simp_all add: upsert_subnet_def bindM_run find_network_run mk_subnet_def Let_def nowM_def freshM_def)
  next
    case (Some old)
    then show ?thesis using \<open>dget (w_networks w) nid = Some n\<close>
      by (cases "subnet_check (upserted (sub_id old) cmd)";
          cases "fits_allocations (upserted (sub_id old) cmd) (allocs_for_subnet (sub_id old) (w_allocations w))")
        (simp_all add: upsert_subnet_def bindM_run find_network_run mk_subnet_def Let_def nowM_def freshM_def)
  qed
qed

lemma upsert_refused: "upsert_subnet env digest nid cmd w = (Inl e, w') \<Longrightarrow> quiet w w'"
  by (auto simp: upsert_run Let_def quiet_def split: option.splits sum.splits)

lemma fits_allocations_ok:
  assumes "fits_allocations s as = Inr ()" "ip_network (sub_cidr s) True = Some net" "a \<in> set as"
  shows "\<exists>x. alloc_value a = Some x \<and> in_net x net"
proof -
  have "not_stranded net a = Inr ()"
    using assms by (simp add: fits_allocations_def each_Inr_iff)
  then show ?thesis by (auto simp: not_stranded_def alloc_value_def bindE_Inr_iff)
qed

lemma bindE_both:
  fixes a b :: "exc + unit"
  shows "bindE a (\<lambda>_. b) = Inr () \<Longrightarrow> a = Inr () \<and> b = Inr ()"
  by (auto simp: bindE_Inr_iff)

lemma upsert_result:
  assumes run: "upsert_subnet env digest nid cmd w = (Inr n', w')"
    and wf: "\<And>x. dget (w_networks w) nid = Some x \<Longrightarrow> network_wf digest x"
  shows "\<exists>n0 s w1 net. dget (w_networks w) nid = Some n0 \<and> quiet w w1 \<and>
    w' = w1\<lparr>w_networks := network_save n' (w_networks w1)\<rparr> \<and>
    same_identity n' n0 \<and> network_wf digest n' \<and> net_subnet n' = Some s \<and> subnet_check s = Inr () \<and>
    (case net_subnet n0 of
       None \<Rightarrow> sub_id s = factory_id SubnetId (e_rnd env (w_ids w)) \<and> w_ids w < w_ids w1
     | Some old \<Rightarrow> sub_id s = sub_id old) \<and>
    ip_network (sub_cidr s) True = Some net \<and>
    (\<forall>old. net_subnet n0 = Some old \<longrightarrow> (\<forall>a \<in> set (allocs_for_subnet (sub_id old) (w_allocations w)).
       \<exists>x. alloc_value a = Some x \<and> in_net x net))"
proof -
  obtain n0 where n0: "dget (w_networks w) nid = Some n0"
    using run by (cases "dget (w_networks w) nid") (simp_all add: upsert_subnet_def bindM_run find_network_run)
  let ?sid = "case net_subnet n0 of Some s \<Rightarrow> sub_id s | None \<Rightarrow> factory_id SubnetId (e_rnd env (w_ids w))"
  let ?sub = "upserted ?sid cmd" and ?as = "\<lambda>old. allocs_for_subnet (sub_id old) (w_allocations w)"
  let ?w1 = "case net_subnet n0 of Some _ \<Rightarrow> w | None \<Rightarrow> w\<lparr>w_ids := w_ids w + 1\<rparr>"
  have valid: "network_validate n0 = Inr ()" using wf [OF n0] by (simp add: network_wf_def)
  have ok: "bindE (subnet_check ?sub) (\<lambda>_. case net_subnet n0 of None \<Rightarrow> Inr ()
      | Some old \<Rightarrow> fits_allocations ?sub (?as old)) = Inr ()" (is "?chk = _")
    using run n0 by (cases ?chk) (simp_all add: upsert_run Let_def)
  have n': "n' = bump_intent digest (e_now env (w_clock w)) (n0\<lparr>net_subnet := Some ?sub\<rparr>)"
    and w': "w' = ?w1\<lparr>w_clock := w_clock w + 1, w_networks := network_save n' (w_networks w)\<rparr>"
  proof -
    let ?N = "bump_intent digest (e_now env (w_clock w)) (n0\<lparr>net_subnet := Some ?sub\<rparr>)"
    have "upsert_subnet env digest nid cmd w =
        (Inr ?N, ?w1\<lparr>w_clock := w_clock w + 1, w_networks := network_save ?N (w_networks w)\<rparr>)"
      using n0 ok by (simp add: upsert_run Let_def)
    from trans [OF sym [OF run] this]
    have N: "n' = ?N" and W: "w' = ?w1\<lparr>w_clock := w_clock w + 1, w_networks := network_save ?N (w_networks w)\<rparr>"
      by blast+
    show "n' = ?N" by (rule N)
    show "w' = ?w1\<lparr>w_clock := w_clock w + 1, w_networks := network_save n' (w_networks w)\<rparr>" unfolding N by (rule W)
  qed
  have chk: "subnet_check ?sub = Inr ()" by (rule conjunct1 [OF bindE_both [OF ok]])
  from chk obtain net where net: "ip_network (sub_cidr ?sub) True = Some net"
    by (rule subnet_check_facts)
  have fits: "\<exists>x. alloc_value a = Some x \<and> in_net x net"
    if old: "net_subnet n0 = Some old" and a: "a \<in> set (?as old)" for old a
  proof -
    have "fits_allocations ?sub (?as old) = Inr ()"
      using conjunct2 [OF bindE_both [OF ok]] by (simp only: old option.case)
    then show ?thesis using net a by (rule fits_allocations_ok)
  qed
  let ?w2 = "?w1\<lparr>w_clock := w_clock w + 1\<rparr>"
  have "quiet w ?w2" by (simp add: quiet_def split: option.split)
  moreover have "w' = ?w2\<lparr>w_networks := network_save n' (w_networks ?w2)\<rparr>"
    unfolding w' by (simp split: option.split)
  moreover have "same_identity n' n0" "net_subnet n' = Some ?sub" by (simp_all add: n' same_identity_def)
  moreover have "network_wf digest n'" unfolding n' using valid by (intro bump_intent_wf) simp
  moreover have "case net_subnet n0 of
       None \<Rightarrow> sub_id ?sub = factory_id SubnetId (e_rnd env (w_ids w)) \<and> w_ids w < w_ids ?w2
     | Some old \<Rightarrow> sub_id ?sub = sub_id old"
    by (simp add: upserted_def split: option.split)
  ultimately show ?thesis using n0 chk net fits by blast
qed

end
