(* ===== verification/Node_Use_Cases.thy ===== *)
theory Node_Use_Cases
  imports World
begin

text \<open>
  The calls on nodes (\<open>core/use_cases/nodes.py\<close>: register, remove and the reads that apply the
  derived status) and on their enrolment (\<open>core/use_cases/enrollment.py\<close>: issue a token, enrol an
  agent with it, record a heartbeat). The random token text (\<open>TokenFactory\<close>) and the hash of a
  token (SHA-256) are parameters.
\<close>

definition node_status_value :: "node_status \<Rightarrow> string" where
  "node_status_value s = (case s of PENDING \<Rightarrow> ''pending'' | ONLINE \<Rightarrow> ''online'' | STALE \<Rightarrow> ''stale''
     | OFFLINE \<Rightarrow> ''offline'' | DRAINING \<Rightarrow> ''draining'')"

subsection \<open>Register and remove\<close>

record register_node_cmd =
  rn_name :: string
  rn_mgmt_ip :: string
  rn_roles :: "string list"
  rn_labels :: "(string, string) dict"
  rn_created_by :: "string option"

definition registered :: "string \<Rightarrow> time \<Rightarrow> register_node_cmd \<Rightarrow> node" where
  "registered nid now cmd =
     \<lparr>nd_id = nid, nd_name = rn_name cmd, nd_mgmt_ip = rn_mgmt_ip cmd, nd_created_at = now,
      nd_updated_at = now, nd_status = PENDING, nd_roles = rn_roles cmd, nd_labels = rn_labels cmd,
      nd_agent_version = None, nd_last_seen_at = None, nd_capabilities = None,
      nd_tls_thumbprint = None, nd_project_id = None, nd_maintenance = False, nd_maintenance_at = None\<rparr>"

definition store_operation :: "operation \<Rightarrow> ('ag world, exc, unit) act" where
  "store_operation op = modifyM (\<lambda>w. w\<lparr>w_operations := operation_save op (w_operations w)\<rparr>)"

definition publish_node :: "env \<Rightarrow> string \<Rightarrow> string \<Rightarrow> payload \<Rightarrow> ('ag world, exc, unit) act" where
  "publish_node env event_type nid payload =
     bindM (publish env event_type ''node'' (Some nid) payload None) (\<lambda>_. returnM ())"

definition register_node :: "env \<Rightarrow> register_node_cmd \<Rightarrow> ('ag world, exc, node \<times> operation) act" where
  "register_node env cmd =
     bindM (getM (\<lambda>w. node_by_name (rn_name cmd) (w_nodes w))) (\<lambda>existing.
     bindM (guardM (existing = None) err_conflict) (\<lambda>_.
     bindM (nowM env) (\<lambda>now.
     bindM (freshM env NodeId) (\<lambda>nid.
     bindM (liftM (mk_node (registered nid now cmd))) (\<lambda>n.
     bindM (freshM env OperationId) (\<lambda>oid.
     bindM (advance env (done_in ''validating node intent'' ''persisting node record''
              ''verifying persisted record'' ''node registered (pending agent enrolment)'')
       (accept oid NODE_ENROLL \<lparr>ref_type = ''node'', ref_id = nid\<rparr> now (rn_created_by cmd)
          (''register node '' @ py_repr (rn_name cmd)))) (\<lambda>op.
     bindM (modifyM (\<lambda>w. w\<lparr>w_nodes := node_save n (w_nodes w)\<rparr>)) (\<lambda>_.
     bindM (store_operation op) (\<lambda>_.
     bindM (publish_node env ''node.registered'' (nd_id n)
       [(''name'', JStr (nd_name n)), (''mgmt_ip'', JStr (nd_mgmt_ip n)),
        (''status'', JStr (node_status_value (nd_status n)))]) (\<lambda>_.
     returnM (n, op)))))))))))"

definition find_node :: "string \<Rightarrow> ('ag world, exc, node) act" where
  "find_node nid = bindM (getM (\<lambda>w. dget (w_nodes w) nid)) (\<lambda>r. liftM (of_option err_not_found r))"

definition remove_node :: "env \<Rightarrow> string \<Rightarrow> string option \<Rightarrow> ('ag world, exc, operation) act" where
  "remove_node env nid by =
     bindM (find_node nid) (\<lambda>n.
     bindM (nowM env) (\<lambda>now.
     bindM (freshM env OperationId) (\<lambda>oid.
     bindM (advance env (done_in ''preparing node removal'' ''deleting node record''
              ''verifying deletion'' ''node removed'')
       (accept oid NODE_REMOVE \<lparr>ref_type = ''node'', ref_id = nid\<rparr> now by
          (''remove node '' @ py_repr (nd_name n)))) (\<lambda>op.
     bindM (modifyM (\<lambda>w. w\<lparr>w_nodes := dpop nid (w_nodes w)\<rparr>)) (\<lambda>_.
     bindM (store_operation op) (\<lambda>_.
     bindM (publish_node env ''node.removed'' nid [(''name'', JStr (nd_name n))]) (\<lambda>_.
     returnM op)))))))"

subsection \<open>Reads\<close>

definition list_nodes :: "env \<Rightarrow> int \<Rightarrow> int \<Rightarrow> ('ag world, exc, node list) act" where
  "list_nodes env stale offline =
     bindM (nowM env) (\<lambda>now.
     getM (\<lambda>w. List.map (apply_derived_status now stale offline) (dvalues (w_nodes w))))"

definition get_node :: "env \<Rightarrow> int \<Rightarrow> int \<Rightarrow> string \<Rightarrow> ('ag world, exc, node) act" where
  "get_node env stale offline nid =
     bindM (find_node nid) (\<lambda>n.
     bindM (nowM env) (\<lambda>now. returnM (apply_derived_status now stale offline n)))"

subsection \<open>Enrolment\<close>

definition issue_enrollment_token ::
  "env \<Rightarrow> (string \<Rightarrow> string) \<Rightarrow> string \<Rightarrow> int \<Rightarrow> string \<Rightarrow> string option
     \<Rightarrow> ('ag world, exc, enrollment_token \<times> string) act" where
  "issue_enrollment_token env h plaintext ttl nid by =
     bindM (find_node nid) (\<lambda>n.
     bindM (guardM (nd_status n = PENDING) err_conflict) (\<lambda>_.
     bindM (freshM env EnrollmentTokenId) (\<lambda>tid.
     bindM (nowM env) (\<lambda>now.
     bindM (liftM (issue_token h tid nid plaintext now (seconds ttl) by)) (\<lambda>t.
     bindM (modifyM (\<lambda>w. w\<lparr>w_tokens := token_save t (w_tokens w)\<rparr>)) (\<lambda>_.
     returnM (t, plaintext)))))))"

record enroll_agent_cmd =
  ea_plaintext :: string
  ea_agent_version :: "string option"
  ea_capabilities :: "node_capabilities option"
  ea_tls_thumbprint :: "string option"

definition enroll_agent ::
  "env \<Rightarrow> (string \<Rightarrow> string) \<Rightarrow> enroll_agent_cmd \<Rightarrow> ('ag world, exc, node) act" where
  "enroll_agent env h cmd =
     bindM (guardM (\<not> blank (ea_plaintext cmd)) err_validation) (\<lambda>_.
     bindM (getM (\<lambda>w. token_by_hash (h (ea_plaintext cmd)) (w_tokens w))) (\<lambda>r.
     bindM (liftM (of_option err_not_found r)) (\<lambda>t.
     bindM (nowM env) (\<lambda>now.
     bindM (liftM (consume_token now t)) (\<lambda>t'.
     bindM (getM (\<lambda>w. dget (w_nodes w) (etk_node_id t'))) (\<lambda>nr.
     case nr of
       None \<Rightarrow>
         bindM (modifyM (\<lambda>w. w\<lparr>w_tokens := delete_tokens_for_node (etk_node_id t') (w_tokens w)\<rparr>)) (\<lambda>_.
         raiseM err_not_found)
     | Some n0 \<Rightarrow>
         bindM (liftM (enroll now (ea_agent_version cmd) (ea_capabilities cmd) (ea_tls_thumbprint cmd) n0)) (\<lambda>n.
         bindM (modifyM (\<lambda>w. w\<lparr>w_tokens := token_save t' (w_tokens w)\<rparr>)) (\<lambda>_.
         bindM (modifyM (\<lambda>w. w\<lparr>w_nodes := node_save n (w_nodes w)\<rparr>)) (\<lambda>_.
         bindM (publish_node env ''node.enrolled'' (nd_id n)
           [(''name'', JStr (nd_name n)), (''mgmt_ip'', JStr (nd_mgmt_ip n)),
            (''agent_version'', jopt JStr (nd_agent_version n)),
            (''status'', JStr (node_status_value (nd_status n)))]) (\<lambda>_.
         returnM n))))))))))"

record heartbeat_cmd =
  hb_node_id :: string
  hb_agent_version :: "string option"
  hb_capabilities :: "node_capabilities option"

definition record_heartbeat_call :: "env \<Rightarrow> heartbeat_cmd \<Rightarrow> ('ag world, exc, node) act" where
  "record_heartbeat_call env cmd =
     bindM (find_node (hb_node_id cmd)) (\<lambda>n0.
     bindM (nowM env) (\<lambda>now.
     bindM (liftM (record_heartbeat now (hb_agent_version cmd) (hb_capabilities cmd) n0)) (\<lambda>n.
     bindM (modifyM (\<lambda>w. w\<lparr>w_nodes := node_save n (w_nodes w)\<rparr>)) (\<lambda>_. returnM n))))"

subsection \<open>What the calls do\<close>

lemma find_node_run:
  "find_node nid w = (case dget (w_nodes w) nid of Some n \<Rightarrow> (Inr n, w) | None \<Rightarrow> (Inl err_not_found, w))"
  by (simp add: find_node_def split: option.split)

definition noted :: "env \<Rightarrow> string \<Rightarrow> string \<Rightarrow> payload \<Rightarrow> 'ag world \<Rightarrow> 'ag world" where
  "noted env et nid pl w = published (event_of env w et ''node'' (Some nid) pl None) w"

lemma bindM_publish_node [simp]:
  "CHR ''.'' \<in> set et \<Longrightarrow> bindM (publish_node env et nid pl) f w = f () (noted env et nid pl w)"
  by (simp add: publish_node_def bindM_run publish_run noted_def)

lemma bindM_store_operation [simp]:
  "bindM (store_operation op) f w = f () (w\<lparr>w_operations := operation_save op (w_operations w)\<rparr>)"
  by (simp add: store_operation_def)

lemma register_refused: "register_node env cmd w = (Inl e, w') \<Longrightarrow> quiet w w'"
  by (auto simp: register_node_def run_simps quiet_def split: if_splits elim!: advance_cases)

lemma remove_refused: "remove_node env nid by w = (Inl e, w') \<Longrightarrow> quiet w w'"
  by (auto simp: remove_node_def run_simps find_node_run quiet_def split: option.splits elim!: advance_cases)

lemma issue_refused: "issue_enrollment_token env h p ttl nid by w = (Inl e, w') \<Longrightarrow> quiet w w'"
  by (auto simp: issue_enrollment_token_def run_simps find_node_run quiet_def split: option.splits if_splits)

lemma heartbeat_refused: "record_heartbeat_call env cmd w = (Inl e, w') \<Longrightarrow> quiet w w'"
  by (auto simp: record_heartbeat_call_def run_simps find_node_run quiet_def split: option.splits)

text \<open>What a call that returned has written: nodes, tokens, at most one operation and one event.\<close>

definition node_wrote ::
  "env \<Rightarrow> 'ag world \<Rightarrow> (string, node) dict \<Rightarrow> (string, enrollment_token) dict \<Rightarrow> operation option
     \<Rightarrow> 'ag world \<Rightarrow> bool" where
  "node_wrote env w0 nds toks op w \<longleftrightarrow> (\<exists>w1 et nid pl. quiet w0 w1 \<and>
     w = noted env et nid pl (w1\<lparr>w_nodes := nds, w_tokens := toks,
           w_operations := (case op of None \<Rightarrow> w_operations w0 | Some o' \<Rightarrow> operation_save o' (w_operations w0))\<rparr>) \<and>
     (case op of None \<Rightarrow> True | Some o' \<Rightarrow> op_reach o' \<and> op_status o' = SUCCEEDED))"

lemma node_wroteI:
  "quiet w0 w1 \<Longrightarrow> op_reach o' \<Longrightarrow> op_status o' = SUCCEEDED \<Longrightarrow>
   w_tokens w1 = toks \<Longrightarrow>
   node_wrote env w0 nds toks (Some o') (noted env et nid pl
     (w1\<lparr>w_nodes := nds, w_operations := operation_save o' (w_operations w1)\<rparr>))"
  unfolding node_wrote_def
  by (rule exI [of _ w1], rule exI [of _ et], rule exI [of _ nid], rule exI [of _ pl])
    (cases w1, simp add: quiet_def)

lemma node_wroteI2:
  "quiet w0 w1 \<Longrightarrow>
   node_wrote env w0 nds toks None (noted env et nid pl (w1\<lparr>w_tokens := toks, w_nodes := nds\<rparr>))"
  unfolding node_wrote_def
  by (rule exI [of _ w1], rule exI [of _ et], rule exI [of _ nid], rule exI [of _ pl])
    (cases w1, simp add: quiet_def)

lemma register_result:
  assumes "register_node env cmd w = (Inr (n, op), w')"
  shows "node_wrote env w (node_save n (w_nodes w)) (w_tokens w) (Some op) w' \<and> w_ids w < w_ids w' \<and>
    mk_node (registered (factory_id NodeId (e_rnd env (w_ids w))) (e_now env (w_clock w)) cmd) = Inr n \<and>
    node_by_name (rn_name cmd) (w_nodes w) = None"
proof -
  have free: "node_by_name (rn_name cmd) (w_nodes w) = None"
    using assms by (cases "node_by_name (rn_name cmd) (w_nodes w)") (simp_all add: register_node_def bindM_guard)
  obtain m where m: "mk_node (registered (factory_id NodeId (e_rnd env (w_ids w))) (e_now env (w_clock w)) cmd) = Inr m"
    using assms free
    by (cases "mk_node (registered (factory_id NodeId (e_rnd env (w_ids w))) (e_now env (w_clock w)) cmd)")
      (simp_all add: register_node_def bindM_guard bindM_now bindM_fresh)
  let ?w1 = "w\<lparr>w_clock := w_clock w + 1, w_ids := w_ids w + 2\<rparr>"
  obtain o' where o': "advance env (done_in ''validating node intent'' ''persisting node record''
        ''verifying persisted record'' ''node registered (pending agent enrolment)'')
      (accept (factory_id OperationId (e_rnd env (Suc (w_ids w)))) NODE_ENROLL
         \<lparr>ref_type = ''node'', ref_id = factory_id NodeId (e_rnd env (w_ids w))\<rparr> (e_now env (w_clock w))
         (rn_created_by cmd) (''register node '' @ py_repr (rn_name cmd))) ?w1 =
      (Inr o', ?w1\<lparr>w_clock := w_clock ?w1 + 4\<rparr>)" "op_reach o'" "op_status o' = SUCCEEDED"
    using advance_all by blast
  have "n = m \<and> op = o' \<and> (\<exists>pl. w' = noted env ''node.registered'' (nd_id n) pl
      ((?w1\<lparr>w_clock := w_clock ?w1 + 4\<rparr>)\<lparr>w_nodes := node_save n (w_nodes w),
         w_operations := operation_save op (w_operations w)\<rparr>))"
    using assms free m o'(1)
    by (auto simp: register_node_def bindM_guard bindM_now bindM_fresh bindM_run [of "advance _ _ _"])
  then obtain pl where w': "n = m" "op = o'" "w' = noted env ''node.registered'' (nd_id n) pl
      ((?w1\<lparr>w_clock := w_clock ?w1 + 4\<rparr>)\<lparr>w_nodes := node_save n (w_nodes w),
         w_operations := operation_save op (w_operations (?w1\<lparr>w_clock := w_clock ?w1 + 4\<rparr>))\<rparr>)" by auto
  have "node_wrote env w (node_save n (w_nodes w)) (w_tokens w) (Some op) w'"
    unfolding w'(3) using o' w'(2) by (intro node_wroteI) (simp_all add: quiet_def)
  moreover have "w_ids w < w_ids w'" by (simp add: w'(3) noted_def)
  ultimately show ?thesis using free m w'(1) by simp
qed

lemma remove_result:
  assumes "remove_node env nid by w = (Inr op, w')"
  shows "node_wrote env w (dpop nid (w_nodes w)) (w_tokens w) (Some op) w' \<and> dget (w_nodes w) nid \<noteq> None"
proof -
  obtain n where n: "dget (w_nodes w) nid = Some n"
    using assms by (cases "dget (w_nodes w) nid") (simp_all add: remove_node_def bindM_run find_node_run)
  let ?w1 = "w\<lparr>w_clock := w_clock w + 1, w_ids := w_ids w + 1\<rparr>"
  obtain o' where o': "advance env (done_in ''preparing node removal'' ''deleting node record''
        ''verifying deletion'' ''node removed'')
      (accept (factory_id OperationId (e_rnd env (w_ids w))) NODE_REMOVE
         \<lparr>ref_type = ''node'', ref_id = nid\<rparr> (e_now env (w_clock w)) by
         (''remove node '' @ py_repr (nd_name n))) ?w1 =
      (Inr o', ?w1\<lparr>w_clock := w_clock ?w1 + 4\<rparr>)" "op_reach o'" "op_status o' = SUCCEEDED"
    using advance_all by blast
  have "op = o' \<and> (\<exists>pl. w' = noted env ''node.removed'' nid pl
      ((?w1\<lparr>w_clock := w_clock ?w1 + 4\<rparr>)\<lparr>w_nodes := dpop nid (w_nodes w),
         w_operations := operation_save op (w_operations w)\<rparr>))"
    using assms n o'(1)
    by (auto simp: remove_node_def bindM_run [of "find_node _"] find_node_run bindM_now bindM_fresh
        bindM_run [of "advance _ _ _"])
  then obtain pl where w': "op = o'" "w' = noted env ''node.removed'' nid pl
      ((?w1\<lparr>w_clock := w_clock ?w1 + 4\<rparr>)\<lparr>w_nodes := dpop nid (w_nodes w),
         w_operations := operation_save op (w_operations (?w1\<lparr>w_clock := w_clock ?w1 + 4\<rparr>))\<rparr>)" by auto
  have "node_wrote env w (dpop nid (w_nodes w)) (w_tokens w) (Some op) w'"
    unfolding w'(2) using o' w'(1) by (intro node_wroteI) (simp_all add: quiet_def)
  then show ?thesis using n by simp
qed

lemma issue_result:
  assumes "issue_enrollment_token env h p ttl nid by w = (Inr r, w')"
  shows "w' = w\<lparr>w_ids := w_ids w + 1, w_clock := w_clock w + 1, w_tokens := token_save (fst r) (w_tokens w)\<rparr> \<and>
    issue_token h (factory_id EnrollmentTokenId (e_rnd env (w_ids w))) nid p (e_now env (w_clock w))
      (seconds ttl) by = Inr (fst r)"
  using assms
  by (auto simp: issue_enrollment_token_def run_simps find_node_run split: option.splits if_splits)

text \<open>An enrolment that returned has used up a token that was found by the hash of the presented
  text, unused and unexpired, and enrolled its node.\<close>

lemma enroll_result:
  assumes "enroll_agent env h cmd w = (Inr n, w')"
  shows "\<exists>t t' n0. token_by_hash (h (ea_plaintext cmd)) (w_tokens w) = Some t \<and>
    consume_token (e_now env (w_clock w)) t = Inr t' \<and> dget (w_nodes w) (etk_node_id t) = Some n0 \<and>
    enroll (e_now env (w_clock w)) (ea_agent_version cmd) (ea_capabilities cmd) (ea_tls_thumbprint cmd) n0 = Inr n \<and>
    node_wrote env w (node_save n (w_nodes w)) (token_save t' (w_tokens w)) None w'"
proof -
  have nb: "\<not> blank (ea_plaintext cmd)"
    using assms by (cases "blank (ea_plaintext cmd)") (simp_all add: enroll_agent_def bindM_guard)
  obtain t where t: "token_by_hash (h (ea_plaintext cmd)) (w_tokens w) = Some t"
    using assms nb by (cases "token_by_hash (h (ea_plaintext cmd)) (w_tokens w)") (simp_all add: enroll_agent_def bindM_guard)
  let ?now = "e_now env (w_clock w)"
  obtain t' where t': "consume_token ?now t = Inr t'"
    using assms nb t by (cases "consume_token ?now t") (simp_all add: enroll_agent_def bindM_guard bindM_now)
  then have tn: "etk_node_id t' = etk_node_id t" by (auto simp: consume_token_def bindE_Inr_iff)
  obtain n0 where n0: "dget (w_nodes w) (etk_node_id t) = Some n0"
    using assms nb t t' tn by (cases "dget (w_nodes w) (etk_node_id t)") (simp_all add: enroll_agent_def bindM_guard bindM_now)
  obtain m where m: "enroll ?now (ea_agent_version cmd) (ea_capabilities cmd) (ea_tls_thumbprint cmd) n0 = Inr m"
    using assms nb t t' tn n0
    by (cases "enroll ?now (ea_agent_version cmd) (ea_capabilities cmd) (ea_tls_thumbprint cmd) n0")
      (simp_all add: enroll_agent_def bindM_guard bindM_now)
  have "n = m \<and> (\<exists>pl. w' = noted env ''node.enrolled'' (nd_id n) pl
      ((w\<lparr>w_clock := w_clock w + 1\<rparr>)\<lparr>w_tokens := token_save t' (w_tokens w), w_nodes := node_save n (w_nodes w)\<rparr>))"
    using assms nb t t' tn n0 m by (auto simp: enroll_agent_def bindM_guard bindM_now)
  then obtain pl where w': "n = m" "w' = noted env ''node.enrolled'' (nd_id n) pl
      ((w\<lparr>w_clock := w_clock w + 1\<rparr>)\<lparr>w_tokens := token_save t' (w_tokens w), w_nodes := node_save n (w_nodes w)\<rparr>)"
    by auto
  have "node_wrote env w (node_save n (w_nodes w)) (token_save t' (w_tokens w)) None w'"
    unfolding w'(2) by (intro node_wroteI2) (simp add: quiet_def)
  then show ?thesis using t t' n0 m w'(1) by blast
qed

text \<open>A refused enrolment writes nothing, but for one case: the token of a removed node is deleted.\<close>

lemma enroll_refused:
  assumes "enroll_agent env h cmd w = (Inl e, w')"
  shows "quiet w w' \<or> (\<exists>t. token_by_hash (h (ea_plaintext cmd)) (w_tokens w) = Some t \<and>
    dget (w_nodes w) (etk_node_id t) = None \<and>
    w' = w\<lparr>w_clock := w_clock w + 1, w_tokens := delete_tokens_for_node (etk_node_id t) (w_tokens w)\<rparr>)"
proof -
  show ?thesis
  proof (cases "blank (ea_plaintext cmd) \<or> token_by_hash (h (ea_plaintext cmd)) (w_tokens w) = None")
    case True
    then show ?thesis using assms by (auto simp: enroll_agent_def bindM_guard split: if_splits)
  next
    case False
    then obtain t where t: "\<not> blank (ea_plaintext cmd)" "token_by_hash (h (ea_plaintext cmd)) (w_tokens w) = Some t"
      by auto
    let ?now = "e_now env (w_clock w)"
    show ?thesis
    proof (cases "consume_token ?now t")
      case (Inl e')
      then show ?thesis using assms t by (simp add: enroll_agent_def bindM_guard bindM_now quiet_def) auto
    next
      case (Inr t')
      then have tn: "etk_node_id t' = etk_node_id t" by (auto simp: consume_token_def bindE_Inr_iff)
      show ?thesis
      proof (cases "dget (w_nodes w) (etk_node_id t)")
        case None
        then show ?thesis using assms t Inr tn by (simp add: enroll_agent_def bindM_guard bindM_now)
      next
        case (Some n0)
        then show ?thesis using assms t Inr tn
          by (cases "enroll ?now (ea_agent_version cmd) (ea_capabilities cmd) (ea_tls_thumbprint cmd) n0")
            (auto simp: enroll_agent_def bindM_guard bindM_now quiet_def)
      qed
    qed
  qed
qed

lemma heartbeat_result:
  assumes "record_heartbeat_call env cmd w = (Inr n, w')"
  shows "\<exists>n0 now c. dget (w_nodes w) (hb_node_id cmd) = Some n0 \<and>
    record_heartbeat now (hb_agent_version cmd) (hb_capabilities cmd) n0 = Inr n \<and>
    w' = w\<lparr>w_clock := c, w_nodes := node_save n (w_nodes w)\<rparr>"
  using assms
  by (auto simp: record_heartbeat_call_def run_simps find_node_run split: option.splits)

end
