(* ===== verification/Store_Invariants.thy ===== *)
theory Store_Invariants
  imports Ipam_Use_Cases Node_Use_Cases Reconcile
begin

text \<open>
  What is always true of the controller's stores, one predicate per store, and how each kind of
  write keeps it: inserting a record under a fresh id, replacing a record by one of the same
  identity, deleting, saving an operation and appending an event. \<open>System\<close> puts the calls
  together.
\<close>

text \<open>Two stored networks never share a name within a project, nor a subnet id.\<close>

definition networks_apart :: "network \<Rightarrow> network \<Rightarrow> bool" where
  "networks_apart n m \<longleftrightarrow> \<not> (net_name n = net_name m \<and> net_project_id n = net_project_id m) \<and>
     (\<forall>s t. net_subnet n = Some s \<longrightarrow> net_subnet m = Some t \<longrightarrow> sub_id s \<noteq> sub_id t)"

definition network_entry_ok :: "env \<Rightarrow> (json \<Rightarrow> string) \<Rightarrow> nat \<Rightarrow> string \<Rightarrow> network \<Rightarrow> bool" where
  "network_entry_ok env digest k i n \<longleftrightarrow> net_id n = i \<and> network_wf digest n \<and> drawn env k NetworkId i \<and>
     (\<forall>s. net_subnet n = Some s \<longrightarrow> subnet_check s = Inr () \<and> drawn env k SubnetId (sub_id s))"

definition networks_ok :: "env \<Rightarrow> (json \<Rightarrow> string) \<Rightarrow> nat \<Rightarrow> (string, network) dict \<Rightarrow> bool" where
  "networks_ok env digest k d \<longleftrightarrow> dwf d \<and>
     (\<forall>i n. dget d i = Some n \<longrightarrow> network_entry_ok env digest k i n) \<and>
     (\<forall>i j n m. dget d i = Some n \<longrightarrow> dget d j = Some m \<longrightarrow> i \<noteq> j \<longrightarrow> networks_apart n m)"

text \<open>Two allocations of one subnet never hold the same IPv4 address.\<close>

definition allocations_apart :: "ip_allocation \<Rightarrow> ip_allocation \<Rightarrow> bool" where
  "allocations_apart a b \<longleftrightarrow> (ipa_subnet_id a = ipa_subnet_id b \<longrightarrow>
     (\<forall>x. alloc_value a = Some x \<longrightarrow> alloc_value b = Some x \<longrightarrow> \<not> is_v4 x))"

definition allocation_entry_ok :: "env \<Rightarrow> nat \<Rightarrow> string \<Rightarrow> ip_allocation \<Rightarrow> bool" where
  "allocation_entry_ok env k i a \<longleftrightarrow> ipa_id a = i \<and> ip_allocation_check a = Inr () \<and>
     drawn env k IpAllocationId i \<and> drawn env k SubnetId (ipa_subnet_id a)"

definition allocations_ok :: "env \<Rightarrow> nat \<Rightarrow> (string, ip_allocation) dict \<Rightarrow> bool" where
  "allocations_ok env k d \<longleftrightarrow> dwf d \<and>
     (\<forall>i a. dget d i = Some a \<longrightarrow> allocation_entry_ok env k i a) \<and>
     (\<forall>i j a b. dget d i = Some a \<longrightarrow> dget d j = Some b \<longrightarrow> i \<noteq> j \<longrightarrow> allocations_apart a b)"

text \<open>Every allocation lies in the block of its subnet as stored now.\<close>

definition placed :: "ip_allocation \<Rightarrow> subnet \<Rightarrow> bool" where
  "placed a s \<longleftrightarrow> (\<exists>net x. ip_network (sub_cidr s) True = Some net \<and> alloc_value a = Some x \<and> in_net x net)"

definition allocations_placed :: "(string, network) dict \<Rightarrow> (string, ip_allocation) dict \<Rightarrow> bool" where
  "allocations_placed nets allocs \<longleftrightarrow> (\<forall>i a j n s. dget allocs i = Some a \<longrightarrow> dget nets j = Some n \<longrightarrow>
     net_subnet n = Some s \<longrightarrow> sub_id s = ipa_subnet_id a \<longrightarrow> placed a s)"

definition nodes_ok :: "env \<Rightarrow> nat \<Rightarrow> (string, node) dict \<Rightarrow> bool" where
  "nodes_ok env k d \<longleftrightarrow> dwf d \<and>
     (\<forall>i n. dget d i = Some n \<longrightarrow> nd_id n = i \<and> node_wf n \<and> drawn env k NodeId i) \<and>
     (\<forall>i j n m. dget d i = Some n \<longrightarrow> dget d j = Some m \<longrightarrow> i \<noteq> j \<longrightarrow> nd_name n \<noteq> nd_name m)"

definition tokens_ok :: "env \<Rightarrow> nat \<Rightarrow> (string, enrollment_token) dict \<Rightarrow> bool" where
  "tokens_ok env k d \<longleftrightarrow> dwf d \<and>
     (\<forall>i t. dget d i = Some t \<longrightarrow> etk_id t = i \<and> drawn env k EnrollmentTokenId i)"

definition books_ok :: "env \<Rightarrow> nat \<Rightarrow> (string, operation) dict \<Rightarrow> outbox \<Rightarrow> bool" where
  "books_ok env k ops obx \<longleftrightarrow> dwf ops \<and> (\<forall>i op. dget ops i = Some op \<longrightarrow> op_id op = i \<and> op_wf op) \<and>
     outbox_ok obx \<and> (\<forall>i \<in> set (dkeys (obx_items obx)). drawn env k OutboxEventId i)"

subsection \<open>Dictionaries\<close>

lemma dvalues_dget: "dwf d \<Longrightarrow> v \<in> set (dvalues d) \<longleftrightarrow> (\<exists>k. dget d k = Some v)"
  by (force simp: dest: map_of_SomeD)

lemma dget_in: "dget d k = Some v \<Longrightarrow> v \<in> set (dvalues d)"
  by (force dest: map_of_SomeD)

lemma not_key: "i \<notin> set (dkeys d) \<longleftrightarrow> dget d i = None"
  by (simp add: map_of_eq_None_iff)

text \<open>A fresh id is not a key of a store whose keys were all drawn.\<close>

lemma fresh_key:
  "inj (e_rnd env) \<Longrightarrow> k \<le> i \<Longrightarrow> (\<And>j v. dget d j = Some v \<Longrightarrow> drawn env k kind j) \<Longrightarrow>
   dget d (factory_id kind' (e_rnd env i)) = None"
  using fresh_not_drawn by (metis option.exhaust)

subsection \<open>Networks\<close>

lemma network_entry_mono: "network_entry_ok env digest k i n \<Longrightarrow> k \<le> k' \<Longrightarrow> network_entry_ok env digest k' i n"
  unfolding network_entry_ok_def using drawn_mono by blast

lemma networks_apart_sym: "networks_apart n m \<Longrightarrow> networks_apart m n"
  unfolding networks_apart_def by metis

lemma networks_ok_mono: "networks_ok env digest k d \<Longrightarrow> k \<le> k' \<Longrightarrow> networks_ok env digest k' d"
  unfolding networks_ok_def using network_entry_mono by blast

text \<open>The one lemma behind every write: the new record is fine and apart from all others.\<close>

lemma networks_ok_save:
  assumes ok: "networks_ok env digest k d" and le: "k \<le> k'"
    and new: "network_entry_ok env digest k' (net_id n) n"
    and others: "\<And>j m. dget d j = Some m \<Longrightarrow> j \<noteq> net_id n \<Longrightarrow> networks_apart n m"
  shows "networks_ok env digest k' (network_save n d)"
proof -
  have ok': "networks_ok env digest k' d" using networks_ok_mono [OF ok le] .
  show ?thesis
    unfolding networks_ok_def network_save_def
  proof (intro conjI allI impI)
    show "dwf (dset (net_id n) n d)" using ok' by (simp add: networks_ok_def)
    show "network_entry_ok env digest k' i m" if "dget (dset (net_id n) n d) i = Some m" for i m
      using that new ok' by (auto simp: networks_ok_def split: if_splits)
    show "networks_apart m m'"
      if "dget (dset (net_id n) n d) i = Some m" "dget (dset (net_id n) n d) j = Some m'" "i \<noteq> j" for i j m m'
      using that others [of i m] others [of j m'] ok' networks_apart_sym
      by (auto simp: networks_ok_def split: if_splits)
  qed
qed

lemma networks_apart_fresh_subnet:
  assumes "networks_ok env digest k d" "inj (e_rnd env)" "dget d j = Some m"
    and "net_name n \<noteq> net_name m \<or> net_project_id n \<noteq> net_project_id m"
    and "\<And>s. net_subnet n = Some s \<Longrightarrow> \<exists>i \<ge> k. sub_id s = factory_id SubnetId (e_rnd env i)"
  shows "networks_apart n m"
  unfolding networks_apart_def
proof (intro conjI allI impI)
  show "\<not> (net_name n = net_name m \<and> net_project_id n = net_project_id m)" using assms(4) by blast
  fix s t assume "net_subnet n = Some s" "net_subnet m = Some t"
  then obtain i where "k \<le> i" "sub_id s = factory_id SubnetId (e_rnd env i)" using assms(5) by blast
  moreover have "drawn env k SubnetId (sub_id t)"
    using assms(1,3) \<open>net_subnet m = Some t\<close> unfolding networks_ok_def network_entry_ok_def by blast
  ultimately show "sub_id s \<noteq> sub_id t" using fresh_not_drawn [OF assms(2)] by metis
qed

lemma name_taken_iff:
  "name_taken name p ns \<longleftrightarrow> (\<exists>n \<in> set ns. net_name n = name \<and> net_project_id n = p)"
  by (auto simp: name_taken_def filter_empty_conv)

text \<open>A new subnet id is fresh, a kept one is the old one.\<close>

definition subnet_kept_or_fresh :: "env \<Rightarrow> nat \<Rightarrow> nat \<Rightarrow> subnet option \<Rightarrow> subnet option \<Rightarrow> bool" where
  "subnet_kept_or_fresh env k k' old new \<longleftrightarrow> (\<forall>s. new = Some s \<longrightarrow> (\<exists>t. old = Some t \<and> sub_id s = sub_id t) \<or>
     (\<exists>i. k \<le> i \<and> i < k' \<and> sub_id s = factory_id SubnetId (e_rnd env i)))"

lemma networks_ok_replace:
  assumes ok: "networks_ok env digest k d" and le: "k \<le> k'" and inj: "inj (e_rnd env)"
    and old: "dget d i = Some n0" and ident: "same_identity n n0" and wf: "network_wf digest n"
    and check: "\<And>s. net_subnet n = Some s \<Longrightarrow> subnet_check s = Inr ()"
    and sub: "subnet_kept_or_fresh env k k' (net_subnet n0) (net_subnet n)"
  shows "networks_ok env digest k' (network_save n d)"
proof -
  have e0: "network_entry_ok env digest k i n0" using ok old by (simp add: networks_ok_def)
  have id: "net_id n = i" "net_name n = net_name n0" "net_project_id n = net_project_id n0"
    using ident e0 by (simp_all add: same_identity_def network_entry_ok_def)
  have drawn_sub: "drawn env k' SubnetId (sub_id s)" if "net_subnet n = Some s" for s
  proof -
    from sub that consider t where "net_subnet n0 = Some t" "sub_id s = sub_id t"
      | j where "j < k'" "sub_id s = factory_id SubnetId (e_rnd env j)"
      unfolding subnet_kept_or_fresh_def by blast
    then show ?thesis
      using e0 le by cases (auto simp: network_entry_ok_def drawn_last intro: drawn_mono)
  qed
  show ?thesis
  proof (rule networks_ok_save [OF ok le])
    show "network_entry_ok env digest k' (net_id n) n"
      using e0 wf check drawn_sub drawn_mono [OF _ le] by (simp add: network_entry_ok_def id)
    fix j m assume m: "dget d j = Some m" "j \<noteq> net_id n"
    then have apart: "networks_apart n0 m" using ok old by (simp add: networks_ok_def id)
    show "networks_apart n m"
      unfolding networks_apart_def
    proof (intro conjI allI impI)
      show "\<not> (net_name n = net_name m \<and> net_project_id n = net_project_id m)"
        using apart by (simp add: networks_apart_def id)
      fix s t assume st: "net_subnet n = Some s" "net_subnet m = Some t"
      have t: "drawn env k SubnetId (sub_id t)"
        using ok m(1) st(2) unfolding networks_ok_def network_entry_ok_def by blast
      from sub st(1) consider u where "net_subnet n0 = Some u" "sub_id s = sub_id u"
        | j where "k \<le> j" "sub_id s = factory_id SubnetId (e_rnd env j)"
        unfolding subnet_kept_or_fresh_def by blast
      then show "sub_id s \<noteq> sub_id t"
      proof cases
        case 1
        then show ?thesis using apart st(2) by (simp add: networks_apart_def)
      next
        case 2
        then show ?thesis using t fresh_not_drawn [OF inj] by metis
      qed
    qed
  qed
qed

lemma networks_ok_create:
  assumes ok: "networks_ok env digest k d" and inj: "inj (e_rnd env)" and i: "k \<le> i" "i < k'"
    and id: "net_id n = factory_id NetworkId (e_rnd env i)" and wf: "network_wf digest n"
    and name: "\<not> name_taken (net_name n) (net_project_id n) (dvalues d)"
    and sub: "\<And>s. net_subnet n = Some s \<Longrightarrow> subnet_check s = Inr () \<and>
      (\<exists>j. k \<le> j \<and> j < k' \<and> sub_id s = factory_id SubnetId (e_rnd env j))"
  shows "networks_ok env digest k' (network_save n d)"
proof (rule networks_ok_save [OF ok])
  show "k \<le> k'" using i by simp
  show "network_entry_ok env digest k' (net_id n) n"
    unfolding network_entry_ok_def using wf drawn_last [OF i(2)] sub drawn_last by (metis id)
  fix j m assume m: "dget d j = Some m"
  have "net_name n \<noteq> net_name m \<or> net_project_id n \<noteq> net_project_id m"
    using name dget_in [OF m] by (auto simp: name_taken_iff)
  then show "networks_apart n m"
    using sub by (intro networks_apart_fresh_subnet [OF ok inj m]) blast+
qed

subsection \<open>Allocations\<close>

lemma allocations_ok_mono: "allocations_ok env k d \<Longrightarrow> k \<le> k' \<Longrightarrow> allocations_ok env k' d"
  unfolding allocations_ok_def allocation_entry_ok_def using drawn_mono by blast

lemma allocations_apart_sym: "allocations_apart a b \<Longrightarrow> allocations_apart b a"
  unfolding allocations_apart_def by metis

lemma allocations_ok_save:
  assumes ok: "allocations_ok env k d" and le: "k \<le> k'"
    and new: "allocation_entry_ok env k' (ipa_id a) a"
    and others: "\<And>j b. dget d j = Some b \<Longrightarrow> j \<noteq> ipa_id a \<Longrightarrow> allocations_apart a b"
  shows "allocations_ok env k' (alloc_save a d)"
proof -
  have ok': "allocations_ok env k' d" using allocations_ok_mono [OF ok le] .
  show ?thesis
    unfolding allocations_ok_def alloc_save_def
  proof (intro conjI allI impI)
    show "dwf (dset (ipa_id a) a d)" using ok' by (simp add: allocations_ok_def)
    show "allocation_entry_ok env k' i b" if "dget (dset (ipa_id a) a d) i = Some b" for i b
      using that new ok' by (auto simp: allocations_ok_def split: if_splits)
    show "allocations_apart b c"
      if "dget (dset (ipa_id a) a d) i = Some b" "dget (dset (ipa_id a) a d) j = Some c" "i \<noteq> j" for i j b c
      using that others [of i b] others [of j c] ok' allocations_apart_sym
      by (auto simp: allocations_ok_def split: if_splits)
  qed
qed

lemma allocations_ok_release: "allocations_ok env k d \<Longrightarrow> allocations_ok env k (dpop i d)"
  by (auto simp: allocations_ok_def split: if_splits)

text \<open>The two ways the calls avoid a clash: by value (allocate) and by text (reserve).\<close>

lemma apart_by_value:
  assumes "alloc_value a = Some x"
    and "\<And>b y. b \<in> set (allocs_for_subnet (ipa_subnet_id a) d) \<Longrightarrow> alloc_value b = Some y \<Longrightarrow> ip_int y \<noteq> ip_int x"
    and "dget d j = Some b"
  shows "allocations_apart a b"
  using assms dget_in [OF assms(3)] by (fastforce simp: allocations_apart_def allocs_for_subnet_def)

lemma apart_by_text:
  assumes "\<And>b. b \<in> set (allocs_for_subnet (ipa_subnet_id a) d) \<Longrightarrow> ipa_address b \<noteq> ipa_address a"
    and "dget d j = Some b"
  shows "allocations_apart a b"
  unfolding allocations_apart_def
proof (intro impI allI notI)
  fix x assume "ipa_subnet_id a = ipa_subnet_id b" "alloc_value a = Some x" "alloc_value b = Some x" "is_v4 x"
  moreover from this have "ipa_address b = ipa_address a"
    unfolding alloc_value_def by (blast intro: ip_address_v4_inject)
  ultimately show False
    using assms(1) [of b] dget_in [OF assms(2)] by (simp add: allocs_for_subnet_def)
qed

lemma network_by_subnet_unique:
  assumes "networks_ok env digest k d" "Option.bind (network_by_subnet sid d) net_subnet = Some s"
  shows "sub_id s = sid \<and> drawn env k SubnetId sid \<and>
    (\<forall>j n t. dget d j = Some n \<longrightarrow> net_subnet n = Some t \<longrightarrow> sub_id t = sid \<longrightarrow> t = s)"
proof -
  obtain n where n: "network_by_subnet sid d = Some n" "net_subnet n = Some s"
    using assms(2) by (auto simp: bind_eq_Some_conv)
  from network_by_subnet_Some [OF n(1)] n(2) have "n \<in> set (dvalues d)" and sid: "sub_id s = sid" by auto
  moreover have dwf: "dwf d" using assms(1) by (simp add: networks_ok_def)
  ultimately obtain i where i: "dget d i = Some n" by (auto simp only: dvalues_dget)
  have "t = s" if "dget d j = Some m" "net_subnet m = Some t" "sub_id t = sid" for j m t
  proof (cases "i = j")
    case True
    then show ?thesis using that i n(2) by simp
  next
    case False
    then have "networks_apart n m" using assms(1) i that(1) unfolding networks_ok_def by blast
    then show ?thesis using n(2) that sid by (simp add: networks_apart_def)
  qed
  moreover have "drawn env k SubnetId sid"
    using assms(1) i n(2) sid unfolding networks_ok_def network_entry_ok_def by blast
  ultimately show ?thesis using sid by blast
qed

text \<open>A new allocation keeps the stores in order, provided it is apart from the old ones.\<close>

lemma new_allocation_ok:
  assumes new: "new_allocation env w sid a w'"
    and nets: "networks_ok env digest (w_ids w) (w_networks w)"
    and ok: "allocations_ok env (w_ids w) (w_allocations w)"
    and apart: "\<And>j b. dget (w_allocations w) j = Some b \<Longrightarrow> allocations_apart a b"
  shows "allocations_ok env (w_ids w') (w_allocations w')"
proof -
  from new obtain w1 s where q: "quiet w w1" and w': "w' = w1\<lparr>w_allocations := alloc_save a (w_allocations w1)\<rparr>"
      and id: "ipa_id a = factory_id IpAllocationId (e_rnd env (w_ids w))" "w_ids w < w_ids w1"
      and a: "ipa_subnet_id a = sid" "ip_allocation_check a = Inr ()"
      and s: "Option.bind (network_by_subnet sid (w_networks w)) net_subnet = Some s"
    unfolding new_allocation_def by blast
  have "drawn env (w_ids w) SubnetId sid" using network_by_subnet_unique [OF nets s] by blast
  then have "allocation_entry_ok env (w_ids w1) (ipa_id a) a"
    unfolding allocation_entry_ok_def using id a quiet_drawn [OF q] drawn_last by metis
  then have "allocations_ok env (w_ids w1) (alloc_save a (w_allocations w))"
    using id(2) apart by (intro allocations_ok_save [OF ok]) simp_all
  then show ?thesis using q by (simp add: w' quiet_def)
qed

lemma new_allocation_placed:
  assumes new: "new_allocation env w sid a w'"
    and nets: "networks_ok env digest (w_ids w) (w_networks w)"
    and ok: "allocations_placed (w_networks w) (w_allocations w)"
  shows "allocations_placed (w_networks w') (w_allocations w')"
proof -
  from new obtain w1 s where q: "quiet w w1" and w': "w' = w1\<lparr>w_allocations := alloc_save a (w_allocations w1)\<rparr>"
      and a: "ipa_subnet_id a = sid" and pl: "placed a s"
      and s: "Option.bind (network_by_subnet sid (w_networks w)) net_subnet = Some s"
    unfolding new_allocation_def placed_def by blast
  have eq: "w_networks w' = w_networks w" "w_allocations w' = dset (ipa_id a) a (w_allocations w)"
    using q by (simp_all add: w' quiet_def alloc_save_def)
  show ?thesis
    unfolding allocations_placed_def eq
  proof (intro allI impI)
    fix i b j n t
    assume b: "dget (dset (ipa_id a) a (w_allocations w)) i = Some b" and n: "dget (w_networks w) j = Some n"
      and t: "net_subnet n = Some t" "sub_id t = ipa_subnet_id b"
    show "placed b t"
    proof (cases "i = ipa_id a")
      case True
      then have "b = a" using b by simp
      then have "sub_id t = sid" using t(2) a by simp
      then have "t = s" using network_by_subnet_unique [OF nets s] n t(1) by blast
      then show ?thesis using pl \<open>b = a\<close> by simp
    next
      case False
      then show ?thesis using ok b n t unfolding allocations_placed_def by auto
    qed
  qed
qed

text \<open>Replacing a network keeps the allocations placed when its new block still holds them.\<close>

lemma placed_replace:
  assumes ok: "allocations_placed nets allocs" and id: "net_id n = i"
    and new: "\<And>s j a. net_subnet n = Some s \<Longrightarrow> dget allocs j = Some a \<Longrightarrow> ipa_subnet_id a = sub_id s \<Longrightarrow> placed a s"
  shows "allocations_placed (network_save n nets) allocs"
  unfolding allocations_placed_def network_save_def id
proof (intro allI impI)
  fix j a l m s
  assume a: "dget allocs j = Some a" and m: "dget (dset i n nets) l = Some m"
    and s: "net_subnet m = Some s" "sub_id s = ipa_subnet_id a"
  show "placed a s"
  proof (cases "l = i")
    case True
    then show ?thesis using new [of s j a] a m s by simp
  next
    case False
    then show ?thesis using ok a m s unfolding allocations_placed_def by auto
  qed
qed

lemma no_allocation_yet:
  "allocations_ok env k d \<Longrightarrow> inj (e_rnd env) \<Longrightarrow> k \<le> i \<Longrightarrow> dget d j = Some a \<Longrightarrow>
   ipa_subnet_id a \<noteq> factory_id SubnetId (e_rnd env i)"
  unfolding allocations_ok_def allocation_entry_ok_def using fresh_not_drawn by metis

subsection \<open>Nodes and tokens\<close>

lemma nodes_ok_mono: "nodes_ok env k d \<Longrightarrow> k \<le> k' \<Longrightarrow> nodes_ok env k' d"
  unfolding nodes_ok_def using drawn_mono by blast

lemma nodes_ok_save:
  assumes "nodes_ok env k d" "k \<le> k'" "node_wf n" "drawn env k' NodeId (nd_id n)"
    and "\<And>j m. dget d j = Some m \<Longrightarrow> j \<noteq> nd_id n \<Longrightarrow> nd_name n \<noteq> nd_name m"
  shows "nodes_ok env k' (node_save n d)"
proof -
  have ok: "nodes_ok env k' d" using nodes_ok_mono assms(1,2) by blast
  show ?thesis
    unfolding nodes_ok_def node_save_def
  proof (intro conjI allI impI)
    show "dwf (dset (nd_id n) n d)" using ok by (simp add: nodes_ok_def)
    fix i m assume m: "dget (dset (nd_id n) n d) i = Some m"
    show "nd_id m = i" "node_wf m" "drawn env k' NodeId i"
      using m ok assms(3,4) by (auto simp: nodes_ok_def split: if_splits)
    fix j m' assume m': "dget (dset (nd_id n) n d) j = Some m'" "i \<noteq> j"
    show "nd_name m \<noteq> nd_name m'"
    proof (cases "i = nd_id n")
      case True
      then show ?thesis using m m' assms(5) [of j m'] by simp
    next
      case i: False
      show ?thesis
      proof (cases "j = nd_id n")
        case True
        then show ?thesis using m m' i assms(5) [of i m] by simp
      next
        case False
        then show ?thesis using m m' i ok unfolding nodes_ok_def by simp
      qed
    qed
  qed
qed

lemma nodes_ok_replace:
  assumes "nodes_ok env k d" "dget d i = Some n0" "node_wf n" "nd_id n = nd_id n0" "nd_name n = nd_name n0"
  shows "nodes_ok env k (node_save n d)"
proof (rule nodes_ok_save [OF assms(1) order_refl assms(3)])
  have i: "nd_id n = i" "drawn env k NodeId i" using assms unfolding nodes_ok_def by auto
  then show "drawn env k NodeId (nd_id n)" by simp
  fix j m assume "dget d j = Some m" "j \<noteq> nd_id n"
  then show "nd_name n \<noteq> nd_name m" using assms(1,2,5) i(1) unfolding nodes_ok_def by metis
qed

lemma nodes_ok_remove: "nodes_ok env k d \<Longrightarrow> nodes_ok env k (dpop i d)"
  by (auto simp: nodes_ok_def split: if_splits)

lemma tokens_ok_mono: "tokens_ok env k d \<Longrightarrow> k \<le> k' \<Longrightarrow> tokens_ok env k' d"
  unfolding tokens_ok_def using drawn_mono by blast

lemma tokens_ok_save:
  assumes "tokens_ok env k d" "k \<le> k'" "drawn env k' EnrollmentTokenId (etk_id t)"
  shows "tokens_ok env k' (token_save t d)"
  using tokens_ok_mono [OF assms(1,2)] assms(3)
  by (auto simp: tokens_ok_def token_save_def split: if_splits)

lemma tokens_ok_fold_dpop: "tokens_ok env k d \<Longrightarrow> tokens_ok env k (fold dpop is d)"
proof (induction "is" arbitrary: d)
  case (Cons i "is")
  from Cons.prems have "tokens_ok env k (dpop i d)" unfolding tokens_ok_def by simp
  then show ?case using Cons.IH by simp
qed simp

subsection \<open>Operations and events\<close>

lemma books_ok_mono: "books_ok env k ops obx \<Longrightarrow> k \<le> k' \<Longrightarrow> books_ok env k' ops obx"
  unfolding books_ok_def using drawn_mono by blast

lemma books_ok_operation:
  "books_ok env k ops obx \<Longrightarrow> op_wf op \<Longrightarrow> books_ok env k (operation_save op ops) obx"
  by (auto simp: books_ok_def operation_save_def split: if_splits)

lemma books_ok_published:
  assumes "books_ok env (w_ids w) (w_operations w) (w_outbox w)" "inj (e_rnd env)"
  shows "books_ok env (w_ids (published (event_of env w et rt rid pl pr) w))
    (w_operations (published (event_of env w et rt rid pl pr) w))
    (w_outbox (published (event_of env w et rt rid pl pr) w))"
proof -
  let ?e = "event_of env w et rt rid pl pr"
  have id: "oev_id ?e = factory_id OutboxEventId (e_rnd env (w_ids w))" by (simp add: event_of_def)
  then have "oev_id ?e \<notin> set (dkeys (obx_items (w_outbox w)))"
    using assms fresh_not_drawn [OF assms(2) order_refl] unfolding books_ok_def by metis
  moreover have "drawn env (w_ids w + 1) OutboxEventId i" if "i \<in> set (dkeys (obx_items (w_outbox w)))" for i
    using assms(1) that drawn_mono [of env "w_ids w" OutboxEventId i "w_ids w + 1"]
    unfolding books_ok_def by auto
  ultimately show ?thesis
    using assms(1) append_ok [of "w_outbox w" ?e]
    by (auto simp: books_ok_def outbox_append_def Let_def id drawn_last)
qed

end
