(* ===== verification/System.thy ===== *)
theory System
  imports Store_Invariants
begin

text \<open>
  The controller as a whole: the thirteen calls of the network, IPAM, node, enrolment and apply use
  cases, as one type of requests, run one after the other over the shared state. The invariants here
  speak about every sequence of these calls, refused ones and applies against misbehaving agents
  included, from an empty controller on. One more call writes the same stores: the import of a bundle
  (\<open>Backup\<close>), which compares ids only. It is not among the calls here, since it keeps neither unique
  names nor distinct addresses and is not undone when it is refused (\<open>Backup\<close> proves that).
  They assume of the id factory only that it never returns the same random text twice.
\<close>

datatype api_call =
    Create_Network create_network_cmd
  | Update_Network string update_network_cmd
  | Assign_Nodes string assign_nodes_cmd
  | Upsert_Subnet string upsert_subnet_cmd
  | Allocate_Ip string allocate_ip_cmd
  | Reserve_Ip string reserve_ip_cmd
  | Release_Ip string
  | Register_Node register_node_cmd
  | Remove_Node string "string option"
  | Issue_Token string int string "string option"
  | Enroll_Agent enroll_agent_cmd
  | Heartbeat heartbeat_cmd
  | Apply_Network string "string option"

text \<open>What the application is built with: clock and ids, the two hash functions, the agent.\<close>

record 'ag wiring =
  wr_env :: env
  wr_digest :: "json \<Rightarrow> string"
  wr_hash :: "string \<Rightarrow> string"
  wr_agent :: "'ag agent_ops"

abbreviation voidM :: "('s, 'e, 'a) act \<Rightarrow> ('s, 'e, unit) act" where
  "voidM m \<equiv> bindM m (\<lambda>_. returnM ())"

fun run_call :: "'ag wiring \<Rightarrow> api_call \<Rightarrow> ('ag world, exc, unit) act" where
  "run_call c (Create_Network cmd) = voidM (create_network (wr_env c) (wr_digest c) cmd)"
| "run_call c (Update_Network i cmd) = voidM (update_network (wr_env c) (wr_digest c) i cmd)"
| "run_call c (Assign_Nodes i cmd) = voidM (assign_nodes (wr_env c) (wr_digest c) i cmd)"
| "run_call c (Upsert_Subnet i cmd) = voidM (upsert_subnet (wr_env c) (wr_digest c) i cmd)"
| "run_call c (Allocate_Ip i cmd) = voidM (allocate_ip (wr_env c) i cmd)"
| "run_call c (Reserve_Ip i cmd) = voidM (reserve_ip (wr_env c) i cmd)"
| "run_call c (Release_Ip i) = release_ip i"
| "run_call c (Register_Node cmd) = voidM (register_node (wr_env c) cmd)"
| "run_call c (Remove_Node i by) = voidM (remove_node (wr_env c) i by)"
| "run_call c (Issue_Token p ttl i by) = voidM (issue_enrollment_token (wr_env c) (wr_hash c) p ttl i by)"
| "run_call c (Enroll_Agent cmd) = voidM (enroll_agent (wr_env c) (wr_hash c) cmd)"
| "run_call c (Heartbeat cmd) = voidM (record_heartbeat_call (wr_env c) cmd)"
| "run_call c (Apply_Network i by) = voidM (mapErrM ra_exc (apply_network (wr_env c) (wr_agent c) i by))"

definition empty_world :: "'ag \<Rightarrow> 'ag world" where
  "empty_world a =
     \<lparr>w_nodes = [], w_networks = [], w_operations = [], w_observed = [], w_allocations = [],
      w_tokens = [], w_locks = [], w_outbox = empty_outbox, w_clock = 0, w_ids = 0, w_agent = a\<rparr>"

text \<open>The states calls allowed by P can lead to; \<open>any_call\<close> allows all of them.\<close>

inductive reachable :: "'ag wiring \<Rightarrow> (api_call \<Rightarrow> bool) \<Rightarrow> 'ag world \<Rightarrow> bool" for c P where
  start: "reachable c P (empty_world a)"
| call: "reachable c P w \<Longrightarrow> P call \<Longrightarrow> run_call c call w = (r, w') \<Longrightarrow> reachable c P w'"

abbreviation any_call :: "api_call \<Rightarrow> bool" where
  "any_call \<equiv> \<lambda>_. True"

lemma void_run:
  "voidM m w = (r, w') \<longleftrightarrow> (case m w of (Inl e, w1) \<Rightarrow> r = Inl e \<and> w' = w1 | (Inr x, w1) \<Rightarrow> r = Inr () \<and> w' = w1)"
  by (auto simp: bindM_run split: prod.split sum.split)

text \<open>The outcome of a call: refused with the error of the use case, or returned.\<close>

lemma void_cases:
  assumes "voidM m w = (r, w')"
  obtains (refused) e where "m w = (Inl e, w')" | (returned) x where "m w = (Inr x, w')"
  using assms by (auto simp: void_run split: prod.splits sum.splits)

subsection \<open>What an apply leaves in the stores\<close>

text \<open>Operations and events of a run: one terminal operation saved, one event published.\<close>

lemma apply_network_result:
  fixes w :: "'ag world"
  assumes "apply_network env ag nid by w = (r, w')"
  shows "w_nodes w' = w_nodes w \<and> w_networks w' = w_networks w \<and> w_allocations w' = w_allocations w \<and>
    w_tokens w' = w_tokens w \<and> w_ids w \<le> w_ids w' \<and>
    (w_operations w' = w_operations w \<and> w_outbox w' = w_outbox w \<or>
     (\<exists>op n okay k (wr :: 'ag world). op_wf op \<and> w_ids w \<le> w_ids wr \<and> w_operations wr = w_operations w \<and> w_outbox wr = w_outbox w \<and>
        w_operations w' = w_operations (recorded env n okay k op wr) \<and>
        w_outbox w' = w_outbox (recorded env n okay k op wr) \<and> w_ids w' = w_ids (recorded env n okay k op wr)))"
proof (cases "dget (w_networks w) nid")
  case None
  then show ?thesis using assms by (simp add: apply_network_run)
next
  case (Some n)
  show ?thesis
  proof (cases "snd (try_of env nid w)")
    case False
    then show ?thesis using assms Some by (auto simp: apply_network_run attempted_def)
  next
    case True
    let ?w0 = "(attempted env nid w)\<lparr>w_clock := w_clock (attempted env nid w) + 1\<rparr>"
    have "locked_apply env ag n nid by (oid_of env w) (attempted env nid w) = (r, w')"
      using assms Some True by (simp add: apply_network_run)
    then obtain w1 where out: "run_outcome env n (oid_of env w) ?w0 r w1"
        and w': "w' = w1\<lparr>w_locks := mem_release (lock_key nid) (oid_of env w) (w_locks w1)\<rparr>"
      using locked_apply_outcome by blast
    from out obtain wr op okay k where *: "same_stores ?w0 wr" "w_ids ?w0 \<le> w_ids wr" "op_wf op"
        "w1 = recorded env n okay k op wr"
      unfolding run_outcome_def by blast
    then have stores: "w_nodes wr = w_nodes w" "w_networks wr = w_networks w" "w_allocations wr = w_allocations w"
        "w_tokens wr = w_tokens w" "w_operations wr = w_operations w" "w_outbox wr = w_outbox w" "w_ids w \<le> w_ids wr"
      by (simp_all add: same_stores_def attempted_def)
    have rec: "w_operations w' = w_operations (recorded env n okay k op wr)"
        "w_outbox w' = w_outbox (recorded env n okay k op wr)" "w_ids w' = w_ids (recorded env n okay k op wr)"
        "w_ids wr \<le> w_ids (recorded env n okay k op wr)"
      using w' * by (simp_all add: recorded_def Let_def)
    have "w_nodes w' = w_nodes w \<and> w_networks w' = w_networks w \<and> w_allocations w' = w_allocations w \<and>
        w_tokens w' = w_tokens w \<and> w_ids w \<le> w_ids w'"
      using stores w' * rec(3,4) by simp
    then show ?thesis using rec(1-3) stores(5-7) *(3) by blast
  qed
qed

subsection \<open>The invariant\<close>

definition system_ok :: "'ag wiring \<Rightarrow> 'ag world \<Rightarrow> bool" where
  "system_ok c w \<longleftrightarrow> networks_ok (wr_env c) (wr_digest c) (w_ids w) (w_networks w) \<and>
     allocations_ok (wr_env c) (w_ids w) (w_allocations w) \<and> nodes_ok (wr_env c) (w_ids w) (w_nodes w) \<and>
     tokens_ok (wr_env c) (w_ids w) (w_tokens w) \<and>
     books_ok (wr_env c) (w_ids w) (w_operations w) (w_outbox w)"

lemma system_parts:
  assumes "system_ok c w"
  shows "networks_ok (wr_env c) (wr_digest c) (w_ids w) (w_networks w)"
    "allocations_ok (wr_env c) (w_ids w) (w_allocations w)" "nodes_ok (wr_env c) (w_ids w) (w_nodes w)"
    "tokens_ok (wr_env c) (w_ids w) (w_tokens w)"
    "books_ok (wr_env c) (w_ids w) (w_operations w) (w_outbox w)"
  using assms by (simp_all add: system_ok_def)

lemmas ok_mono = networks_ok_mono allocations_ok_mono nodes_ok_mono tokens_ok_mono books_ok_mono

lemma empty_ok: "system_ok c (empty_world a)"
  by (simp add: system_ok_def empty_world_def networks_ok_def allocations_ok_def nodes_ok_def tokens_ok_def
      books_ok_def empty_outbox_ok) (simp add: empty_outbox_def)

lemma quiet_ok: "system_ok c w \<Longrightarrow> quiet w w' \<Longrightarrow> system_ok c w'"
  unfolding system_ok_def quiet_def using ok_mono by metis

lemma committed_books:
  assumes "books_ok env (w_ids w) (w_operations w) (w_outbox w)" "inj (e_rnd env)" "op_wf op"
  shows "books_ok env (w_ids (committed env n op ev w)) (w_operations (committed env n op ev w))
    (w_outbox (committed env n op ev w))"
proof -
  let ?w1 = "w\<lparr>w_networks := network_save n (w_networks w), w_operations := operation_save op (w_operations w)\<rparr>"
  have b: "books_ok env (w_ids ?w1) (w_operations ?w1) (w_outbox ?w1)"
    using books_ok_operation [OF assms(1,3)] by simp
  show ?thesis
  proof (cases ev)
    case None
    then show ?thesis using b by (simp add: committed_def)
  next
    case (Some x)
    then show ?thesis
      using books_ok_published [OF b assms(2)] by (cases x) (simp add: committed_def Let_def)
  qed
qed

lemma committed_frame:
  "w_nodes (committed env n op ev w) = w_nodes w" "w_allocations (committed env n op ev w) = w_allocations w"
  "w_tokens (committed env n op ev w) = w_tokens w"
  "w_networks (committed env n op ev w) = network_save n (w_networks w)"
  "w_ids w \<le> w_ids (committed env n op ev w)"
  by (auto simp: committed_def Let_def split: option.split)

lemma wrote_frame:
  assumes "wrote env w kind n op w'"
  shows "w_nodes w' = w_nodes w" "w_allocations w' = w_allocations w" "w_tokens w' = w_tokens w"
    "w_networks w' = network_save n (w_networks w)" "w_ids w \<le> w_ids w'"
proof -
  obtain ev w1 where q: "quiet w w1" and w': "w' = committed env n op ev w1"
    using assms unfolding wrote_def by blast
  show "w_nodes w' = w_nodes w" "w_allocations w' = w_allocations w" "w_tokens w' = w_tokens w"
    "w_networks w' = network_save n (w_networks w)"
    using q by (simp_all add: w' committed_frame quiet_def)
  show "w_ids w \<le> w_ids w'"
    using q committed_frame(5) [of w1 env n op ev] by (simp add: w' quiet_def)
qed

lemma wrote_ok:
  assumes "wrote (wr_env c) w kind n op w'" "system_ok c w" "inj (e_rnd (wr_env c))"
    and "networks_ok (wr_env c) (wr_digest c) (w_ids w') (network_save n (w_networks w))"
  shows "system_ok c w'"
proof -
  obtain ev w1 where q: "quiet w w1" and w': "w' = committed (wr_env c) n op ev w1" and op: "op_reach op"
    using assms(1) unfolding wrote_def by blast
  have "system_ok c w1" using quiet_ok [OF assms(2) q] .
  then have "books_ok (wr_env c) (w_ids w') (w_operations w') (w_outbox w')"
    unfolding w' using assms(3) op_reach_wf [OF op] by (intro committed_books) (simp_all add: system_ok_def)
  then show ?thesis
    using assms(2,4) ok_mono [OF _ wrote_frame(5) [OF assms(1)]]
    by (simp add: system_ok_def wrote_frame [OF assms(1)])
qed

subsection \<open>Each call keeps it\<close>

lemma network_entry:
  "system_ok c w \<Longrightarrow> dget (w_networks w) i = Some n \<Longrightarrow> net_id n = i \<and> network_wf (wr_digest c) n"
  unfolding system_ok_def networks_ok_def network_entry_ok_def by blast

lemma create_ok:
  assumes ok: "system_ok c w" and inj: "inj (e_rnd (wr_env c))"
    and run: "create_network (wr_env c) (wr_digest c) cmd w = (Inr (n, op), w')"
  shows "system_ok c w'"
proof -
  have wr: "wrote (wr_env c) w NETWORK_CREATE n op w'" using create_wrote [OF run] .
  from create_network_ids [OF run] have ids: "w_ids w + 1 < w_ids w'"
    by simp
  from create_network_result [OF run] have n: "network_wf (wr_digest c) n"
      "net_id n = factory_id NetworkId (e_rnd (wr_env c) (w_ids w))"
      "\<not> name_taken (net_name n) (net_project_id n) (dvalues (w_networks w))"
      and sub: "\<And>x. net_subnet n = Some x \<Longrightarrow> subnet_check x = Inr () \<and>
        sub_id x = factory_id SubnetId (e_rnd (wr_env c) (w_ids w + 1))"
    by blast+
  have "networks_ok (wr_env c) (wr_digest c) (w_ids w') (network_save n (w_networks w))"
  proof (rule networks_ok_create [OF system_parts(1) [OF ok] inj order_refl _ n(2,1,3)])
    show "w_ids w < w_ids w'" using ids by simp
    fix s assume "net_subnet n = Some s"
    then show "subnet_check s = Inr () \<and> (\<exists>j\<ge>w_ids w. j < w_ids w' \<and> sub_id s = factory_id SubnetId (e_rnd (wr_env c) j))"
      using sub ids by (intro conjI exI [of _ "w_ids w + 1"]) simp_all
  qed
  then show ?thesis by (rule wrote_ok [OF wr ok inj])
qed

lemma replace_ok:
  assumes ok: "system_ok c w" and inj: "inj (e_rnd (wr_env c))"
    and wr: "wrote (wr_env c) w kind n op w'" and old: "dget (w_networks w) i = Some n0"
    and ident: "same_identity n n0" and wf: "network_wf (wr_digest c) n"
    and check: "\<And>s. net_subnet n = Some s \<Longrightarrow> net_subnet n \<noteq> net_subnet n0 \<Longrightarrow> subnet_check s = Inr ()"
    and sub: "subnet_kept_or_fresh (wr_env c) (w_ids w) (w_ids w') (net_subnet n0) (net_subnet n)"
  shows "system_ok c w'"
proof -
  have "networks_ok (wr_env c) (wr_digest c) (w_ids w') (network_save n (w_networks w))"
  proof (rule networks_ok_replace [OF system_parts(1) [OF ok] wrote_frame(5) [OF wr] inj old ident wf _ sub])
    fix s assume s: "net_subnet n = Some s"
    show "subnet_check s = Inr ()"
    proof (cases "net_subnet n = net_subnet n0")
      case True
      then show ?thesis
        using system_parts(1) [OF ok] old s unfolding networks_ok_def network_entry_ok_def by metis
    qed (rule check [OF s])
  qed
  then show ?thesis by (rule wrote_ok [OF wr ok inj])
qed

lemma update_ok_system:
  assumes ok: "system_ok c w" and inj: "inj (e_rnd (wr_env c))"
    and run: "update_network (wr_env c) (wr_digest c) i cmd w = (Inr (n, op), w')"
  shows "system_ok c w'"
proof -
  from update_result [OF run network_entry [OF ok]] obtain n0 where old: "dget (w_networks w) i = Some n0"
      and wr: "wrote (wr_env c) w NETWORK_UPDATE n op w'" and n: "same_identity n n0" "network_wf (wr_digest c) n"
      and st: "subnet_step (wr_env c) (w_ids w + 1) (w_ids w') (net_subnet n0) (net_subnet n)"
    by blast
  show ?thesis
  proof (rule replace_ok [OF ok inj wr old n])
    show "subnet_check s = Inr ()" if "net_subnet n = Some s" "net_subnet n \<noteq> net_subnet n0" for s
      using st that by (auto simp: subnet_step_def)
    show "subnet_kept_or_fresh (wr_env c) (w_ids w) (w_ids w') (net_subnet n0) (net_subnet n)"
      unfolding subnet_kept_or_fresh_def
    proof (intro allI impI)
      fix s assume s: "net_subnet n = Some s"
      show "(\<exists>t. net_subnet n0 = Some t \<and> sub_id s = sub_id t) \<or>
          (\<exists>j\<ge>w_ids w. j < w_ids w' \<and> sub_id s = factory_id SubnetId (e_rnd (wr_env c) j))"
      proof (cases "net_subnet n0")
        case None
        then have "sub_id s = factory_id SubnetId (e_rnd (wr_env c) (w_ids w + 1))" "w_ids w + 1 < w_ids w'"
          using st s by (auto simp: subnet_step_def)
        then show ?thesis by (intro disjI2 exI [of _ "w_ids w + 1"]) simp
      next
        case (Some t)
        then show ?thesis using st s by (auto simp: subnet_step_def)
      qed
    qed
  qed
qed

lemma assign_ok:
  assumes ok: "system_ok c w" and inj: "inj (e_rnd (wr_env c))"
    and run: "assign_nodes (wr_env c) (wr_digest c) i cmd w = (Inr (n, op), w')"
  shows "system_ok c w'"
proof -
  from assign_result [OF run network_entry [OF ok]] obtain n0 where old: "dget (w_networks w) i = Some n0"
      and wr: "wrote (wr_env c) w NETWORK_UPDATE n op w'" and n: "same_identity n n0" "network_wf (wr_digest c) n"
      and eq: "net_subnet n = net_subnet n0"
    by blast
  show ?thesis
    by (rule replace_ok [OF ok inj wr old n]) (simp_all add: eq subnet_kept_or_fresh_def)
qed

lemma upsert_ok:
  assumes ok: "system_ok c w" and inj: "inj (e_rnd (wr_env c))"
    and run: "upsert_subnet (wr_env c) (wr_digest c) i cmd w = (Inr n, w')"
  shows "system_ok c w'"
proof -
  have wf: "dget (w_networks w) i = Some x \<Longrightarrow> network_wf (wr_digest c) x" for x
    using network_entry [OF ok] by blast
  from upsert_result [OF run wf] obtain n0 s w1 where old: "dget (w_networks w) i = Some n0" and q: "quiet w w1"
      and w': "w' = w1\<lparr>w_networks := network_save n (w_networks w1)\<rparr>"
      and n: "same_identity n n0" "network_wf (wr_digest c) n" "net_subnet n = Some s" "subnet_check s = Inr ()"
      and sid: "case net_subnet n0 of
          None \<Rightarrow> sub_id s = factory_id SubnetId (e_rnd (wr_env c) (w_ids w)) \<and> w_ids w < w_ids w1
        | Some old \<Rightarrow> sub_id s = sub_id old"
    by metis
  have "networks_ok (wr_env c) (wr_digest c) (w_ids w1) (network_save n (w_networks w))"
  proof (rule networks_ok_replace [OF system_parts(1) [OF ok] _ inj old n(1,2)])
    show "w_ids w \<le> w_ids w1" using q by (simp add: quiet_def)
    show "subnet_check t = Inr ()" if "net_subnet n = Some t" for t using that n by simp
    show "subnet_kept_or_fresh (wr_env c) (w_ids w) (w_ids w1) (net_subnet n0) (net_subnet n)"
      using sid n(3) by (auto simp: subnet_kept_or_fresh_def split: option.splits)
  qed
  moreover have "system_ok c w1" using quiet_ok [OF ok q] .
  ultimately show ?thesis using q by (simp add: system_ok_def w' quiet_def)
qed

lemma allocation_kept:
  assumes ok: "system_ok c w" and new: "new_allocation (wr_env c) w sid a w'"
    and apart: "\<And>j b. dget (w_allocations w) j = Some b \<Longrightarrow> allocations_apart a b"
  shows "system_ok c w'"
proof -
  from new obtain w1 where q: "quiet w w1" and w': "w' = w1\<lparr>w_allocations := alloc_save a (w_allocations w1)\<rparr>"
    unfolding new_allocation_def by blast
  have "allocations_ok (wr_env c) (w_ids w') (w_allocations w')"
    using new_allocation_ok [OF new system_parts(1,2) [OF ok] apart] .
  moreover have "system_ok c w1" using quiet_ok [OF ok q] .
  ultimately show ?thesis by (simp add: system_ok_def w')
qed

lemma allocate_ok:
  assumes ok: "system_ok c w" and run: "allocate_ip (wr_env c) sid cmd w = (Inr a, w')"
  shows "system_ok c w'"
proof -
  from allocate_result [OF run] obtain x where new: "new_allocation (wr_env c) w sid a w'"
      and x: "alloc_value a = Some x" and free: "\<And>b y. b \<in> set (allocs_for_subnet sid (w_allocations w)) \<Longrightarrow>
        alloc_value b = Some y \<Longrightarrow> ip_int y \<noteq> ip_int x"
    by blast
  have "ipa_subnet_id a = sid" using new unfolding new_allocation_def by blast
  then show ?thesis
    using free by (intro allocation_kept [OF ok new] apart_by_value [OF x]) simp_all
qed

lemma reserve_ok:
  assumes ok: "system_ok c w" and run: "reserve_ip (wr_env c) sid cmd w = (Inr a, w')"
  shows "system_ok c w'"
proof -
  from reserve_result [OF run] have new: "new_allocation (wr_env c) w sid a w'"
      and free: "\<And>b. b \<in> set (allocs_for_subnet sid (w_allocations w)) \<Longrightarrow> ipa_address b \<noteq> ipa_address a"
    by blast+
  have "ipa_subnet_id a = sid" using new unfolding new_allocation_def by blast
  then show ?thesis
    using free by (intro allocation_kept [OF ok new] apart_by_text) simp_all
qed

text \<open>Node calls.\<close>

lemma noted_frame [simp]:
  "w_nodes (noted env et nid pl w) = w_nodes w" "w_networks (noted env et nid pl w) = w_networks w"
  "w_allocations (noted env et nid pl w) = w_allocations w" "w_tokens (noted env et nid pl w) = w_tokens w"
  "w_ids (noted env et nid pl w) = w_ids w + 1"
  by (simp_all add: noted_def)

lemma node_wrote_ok:
  assumes wr: "node_wrote (wr_env c) w nds toks op w'" and ok: "system_ok c w" and inj: "inj (e_rnd (wr_env c))"
    and nds: "nodes_ok (wr_env c) (w_ids w') nds" and toks: "tokens_ok (wr_env c) (w_ids w') toks"
  shows "system_ok c w'"
proof -
  let ?ops = "case op of None \<Rightarrow> w_operations w | Some o' \<Rightarrow> operation_save o' (w_operations w)"
  obtain w1 et nid pl where q: "quiet w w1"
      and w': "w' = noted (wr_env c) et nid pl (w1\<lparr>w_nodes := nds, w_tokens := toks, w_operations := ?ops\<rparr>)"
      and op: "case op of None \<Rightarrow> True | Some o' \<Rightarrow> op_reach o' \<and> op_status o' = SUCCEEDED"
    using wr unfolding node_wrote_def by blast
  have ok1: "system_ok c w1" using quiet_ok [OF ok q] .
  let ?w2 = "w1\<lparr>w_nodes := nds, w_tokens := toks, w_operations := ?ops\<rparr>"
  have "books_ok (wr_env c) (w_ids w1) ?ops (w_outbox w1)"
    using system_parts(5) [OF ok1] op q
    by (cases op) (simp_all add: quiet_def books_ok_operation op_reach_wf)
  then have "books_ok (wr_env c) (w_ids ?w2) (w_operations ?w2) (w_outbox ?w2)" by simp
  from books_ok_published [OF this inj]
  have "books_ok (wr_env c) (w_ids w') (w_operations w') (w_outbox w')"
    unfolding w' noted_def .
  moreover have "networks_ok (wr_env c) (wr_digest c) (w_ids w') (w_networks w')"
    "allocations_ok (wr_env c) (w_ids w') (w_allocations w')"
    using ok_mono(1) [OF system_parts(1) [OF ok1], of "w_ids w'"] ok_mono(2) [OF system_parts(2) [OF ok1], of "w_ids w'"]
    by (simp_all add: w')
  moreover have "w_nodes w' = nds" "w_tokens w' = toks" by (simp_all add: w')
  ultimately show ?thesis using nds toks by (simp add: system_ok_def)
qed

lemma node_wrote_ids:
  assumes "node_wrote env w nds toks op w'"
  shows "w_ids w \<le> w_ids w'"
proof -
  obtain w1 et nid pl where "quiet w w1" "w' = noted env et nid pl (w1\<lparr>w_nodes := nds, w_tokens := toks,
      w_operations := (case op of None \<Rightarrow> w_operations w | Some o' \<Rightarrow> operation_save o' (w_operations w))\<rparr>)"
    using assms unfolding node_wrote_def by blast
  then show ?thesis by (simp add: quiet_def)
qed

lemma mk_registered:
  assumes "mk_node (registered nid now cmd) = Inr n"
  shows "node_wf n \<and> nd_id n = nid \<and> nd_name n = rn_name cmd"
proof -
  have "fresh_node (registered nid now cmd)" by (simp add: fresh_node_def registered_def)
  then have "node_wf n" using assms mk_node_wf by blast
  moreover have "nd_id n = nid \<and> nd_name n = rn_name cmd"
    using assms by (auto simp: mk_node_def bindE_Inr_iff registered_def)
  ultimately show ?thesis by simp
qed

lemma register_ok:
  assumes ok: "system_ok c w" and inj: "inj (e_rnd (wr_env c))"
    and run: "register_node (wr_env c) cmd w = (Inr (n, op), w')"
  shows "system_ok c w'"
proof -
  from register_result [OF run] have wr: "node_wrote (wr_env c) w (node_save n (w_nodes w)) (w_tokens w) (Some op) w'"
      and ids: "w_ids w < w_ids w'"
      and mk: "mk_node (registered (factory_id NodeId (e_rnd (wr_env c) (w_ids w))) (e_now (wr_env c) (w_clock w)) cmd) = Inr n"
      and free: "node_by_name (rn_name cmd) (w_nodes w) = None"
    by blast+
  note n = mk_registered [OF mk]
  have "nodes_ok (wr_env c) (w_ids w') (node_save n (w_nodes w))"
  proof (rule nodes_ok_save [OF system_parts(3) [OF ok]])
    show "w_ids w \<le> w_ids w'" using ids by simp
    show "node_wf n" "drawn (wr_env c) (w_ids w') NodeId (nd_id n)" using n ids by (simp_all add: drawn_last)
    show "nd_name n \<noteq> nd_name m" if "dget (w_nodes w) j = Some m" for j m
      using free n dget_in [OF that] by (auto simp: node_by_name_def find_None_iff)
  qed
  then show ?thesis
    using tokens_ok_mono [OF system_parts(4) [OF ok]] ids by (intro node_wrote_ok [OF wr ok inj]) simp_all
qed

lemma remove_ok:
  assumes ok: "system_ok c w" and inj: "inj (e_rnd (wr_env c))"
    and run: "remove_node (wr_env c) nid by w = (Inr op, w')"
  shows "system_ok c w'"
proof -
  from remove_result [OF run] have wr: "node_wrote (wr_env c) w (dpop nid (w_nodes w)) (w_tokens w) (Some op) w'"
    by blast
  show ?thesis
    using nodes_ok_remove [OF nodes_ok_mono [OF system_parts(3) [OF ok] node_wrote_ids [OF wr]]]
      tokens_ok_mono [OF system_parts(4) [OF ok] node_wrote_ids [OF wr]]
    by (rule node_wrote_ok [OF wr ok inj])
qed

lemma issue_token_id: "issue_token h i nid p now ttl by = Inr t \<Longrightarrow> etk_id t = i"
  by (auto simp: issue_token_def bindE_Inr_iff)

lemma issue_ok:
  assumes ok: "system_ok c w" and run: "issue_enrollment_token (wr_env c) h p ttl nid by w = (Inr r, w')"
  shows "system_ok c w'"
proof -
  from issue_result [OF run] have w': "w' = w\<lparr>w_ids := w_ids w + 1, w_clock := w_clock w + 1,
        w_tokens := token_save (fst r) (w_tokens w)\<rparr>"
      and "issue_token h (factory_id EnrollmentTokenId (e_rnd (wr_env c) (w_ids w))) nid p
        (e_now (wr_env c) (w_clock w)) (seconds ttl) by = Inr (fst r)"
    by blast+
  then have "etk_id (fst r) = factory_id EnrollmentTokenId (e_rnd (wr_env c) (w_ids w))"
    by (metis issue_token_id)
  then have "tokens_ok (wr_env c) (w_ids w + 1) (token_save (fst r) (w_tokens w))"
    by (intro tokens_ok_save [OF system_parts(4) [OF ok]]) (simp_all add: drawn_last)
  moreover have "quiet w (w\<lparr>w_ids := w_ids w + 1, w_clock := w_clock w + 1\<rparr>)" by (simp add: quiet_def)
  from quiet_ok [OF ok this] have "system_ok c (w\<lparr>w_ids := w_ids w + 1, w_clock := w_clock w + 1\<rparr>)" .
  ultimately show ?thesis by (simp add: system_ok_def w')
qed

lemma enroll_frame: "enroll now ver caps tp n = Inr n' \<Longrightarrow> nd_id n' = nd_id n \<and> nd_name n' = nd_name n"
  by (auto simp: enroll_def bindE_Inr_iff)

lemma heartbeat_frame: "record_heartbeat now ver caps n = Inr n' \<Longrightarrow> nd_id n' = nd_id n \<and> nd_name n' = nd_name n"
  by (auto simp: record_heartbeat_def bindE_Inr_iff Let_def split: if_splits)

lemma stored_node: "system_ok c w \<Longrightarrow> dget (w_nodes w) i = Some n \<Longrightarrow> node_wf n"
  unfolding system_ok_def nodes_ok_def by blast

lemma token_by_hash_Some:
  assumes "tokens_ok env k d" "token_by_hash hh d = Some t"
  shows "dget d (etk_id t) = Some t \<and> etk_token_hash t = hh \<and> drawn env k EnrollmentTokenId (etk_id t)"
proof -
  have "t \<in> set (dvalues d)" "etk_token_hash t = hh"
    using assms(2) by (auto simp: token_by_hash_def find_Some_iff)
  moreover from this(1) obtain i where "dget d i = Some t"
    using assms(1) dvalues_dget [of d t] by (auto simp: tokens_ok_def)
  ultimately show ?thesis using assms(1) unfolding tokens_ok_def by metis
qed

lemma enroll_ok:
  assumes ok: "system_ok c w" and inj: "inj (e_rnd (wr_env c))"
    and run: "enroll_agent (wr_env c) h cmd w = (Inr n, w')"
  shows "system_ok c w'"
proof -
  from enroll_result [OF run] obtain t t' n0 where t: "token_by_hash (h (ea_plaintext cmd)) (w_tokens w) = Some t"
      "consume_token (e_now (wr_env c) (w_clock w)) t = Inr t'" and n0: "dget (w_nodes w) (etk_node_id t) = Some n0"
      and e: "enroll (e_now (wr_env c) (w_clock w)) (ea_agent_version cmd) (ea_capabilities cmd) (ea_tls_thumbprint cmd) n0 = Inr n"
      and wr: "node_wrote (wr_env c) w (node_save n (w_nodes w)) (token_save t' (w_tokens w)) None w'"
    by blast
  have "etk_id t' = etk_id t" using t(2) by (auto simp: consume_token_def bindE_Inr_iff)
  then have "drawn (wr_env c) (w_ids w) EnrollmentTokenId (etk_id t')"
    using token_by_hash_Some [OF system_parts(4) [OF ok] t(1)] by simp
  then have toks: "tokens_ok (wr_env c) (w_ids w) (token_save t' (w_tokens w))"
    by (intro tokens_ok_save [OF system_parts(4) [OF ok]]) simp_all
  have nds: "nodes_ok (wr_env c) (w_ids w) (node_save n (w_nodes w))"
    using enroll_frame [OF e] enroll_wf [OF stored_node [OF ok n0] e]
    by (intro nodes_ok_replace [OF system_parts(3) [OF ok] n0]) simp_all
  show ?thesis
    by (rule node_wrote_ok [OF wr ok inj nodes_ok_mono [OF nds] tokens_ok_mono [OF toks]])
      (rule node_wrote_ids [OF wr])+
qed

lemma enroll_refused_ok:
  assumes ok: "system_ok c w" and run: "enroll_agent (wr_env c) h cmd w = (Inl e, w')"
  shows "system_ok c w'"
  using enroll_refused [OF run]
proof
  assume "quiet w w'"
  then show ?thesis using quiet_ok [OF ok] by blast
next
  assume "\<exists>t. token_by_hash (h (ea_plaintext cmd)) (w_tokens w) = Some t \<and> dget (w_nodes w) (etk_node_id t) = None \<and>
    w' = w\<lparr>w_clock := w_clock w + 1, w_tokens := delete_tokens_for_node (etk_node_id t) (w_tokens w)\<rparr>"
  then obtain nid where "w' = w\<lparr>w_clock := w_clock w + 1, w_tokens := delete_tokens_for_node nid (w_tokens w)\<rparr>"
    by blast
  then show ?thesis
    using ok tokens_ok_fold_dpop [OF system_parts(4) [OF ok]]
    by (simp add: system_ok_def delete_tokens_for_node_def)
qed

lemma heartbeat_ok:
  assumes ok: "system_ok c w" and run: "record_heartbeat_call (wr_env c) cmd w = (Inr n, w')"
  shows "system_ok c w'"
proof -
  from heartbeat_result [OF run] obtain n0 now k where n0: "dget (w_nodes w) (hb_node_id cmd) = Some n0"
      and hb: "record_heartbeat now (hb_agent_version cmd) (hb_capabilities cmd) n0 = Inr n"
      and w': "w' = w\<lparr>w_clock := k, w_nodes := node_save n (w_nodes w)\<rparr>"
    by blast
  have "nodes_ok (wr_env c) (w_ids w) (node_save n (w_nodes w))"
    using heartbeat_frame [OF hb] heartbeat_wf [OF stored_node [OF ok n0] hb]
    by (intro nodes_ok_replace [OF system_parts(3) [OF ok] n0]) simp_all
  then show ?thesis using ok by (simp add: system_ok_def w')
qed

lemma apply_ok:
  fixes w :: "'ag world"
  assumes ok: "system_ok c w" and inj: "inj (e_rnd (wr_env c))"
    and run: "apply_network (wr_env c) ag i by w = (r, w')"
  shows "system_ok c w'"
proof -
  note res = apply_network_result [OF run]
  have "books_ok (wr_env c) (w_ids w') (w_operations w') (w_outbox w')"
  proof (cases "w_operations w' = w_operations w \<and> w_outbox w' = w_outbox w")
    case True
    then show ?thesis using books_ok_mono [OF system_parts(5) [OF ok]] res by simp
  next
    case False
    then obtain op n okay k and wr :: "'ag world" where *: "op_wf op" "w_ids w \<le> w_ids wr"
        "w_operations wr = w_operations w" "w_outbox wr = w_outbox w"
        "w_operations w' = w_operations (recorded (wr_env c) n okay k op wr)"
        "w_outbox w' = w_outbox (recorded (wr_env c) n okay k op wr)"
        "w_ids w' = w_ids (recorded (wr_env c) n okay k op wr)"
      using res by blast
    let ?w1 = "wr\<lparr>w_clock := w_clock wr + 1, w_operations := operation_save op (w_operations wr)\<rparr>"
    have "books_ok (wr_env c) (w_ids ?w1) (w_operations ?w1) (w_outbox ?w1)"
      using books_ok_operation [OF books_ok_mono [OF system_parts(5) [OF ok] *(2)] *(1)] *(3,4) by simp
    from books_ok_published [OF this inj] show ?thesis
      unfolding *(5,6,7) recorded_def apply_event_def Let_def .
  qed
  then show ?thesis
    using res ok networks_ok_mono [OF system_parts(1) [OF ok]]
      allocations_ok_mono [OF system_parts(2) [OF ok]] nodes_ok_mono [OF system_parts(3) [OF ok]]
      tokens_ok_mono [OF system_parts(4) [OF ok]]
    by (simp add: system_ok_def)
qed

lemma map_err_cases:
  assumes "mapErrM f m w = (r, w')"
  obtains r' where "m w = (r', w')"
  using assms by (auto simp: mapErrM_def split: prod.splits sum.splits)

lemma release_run: "release_ip i w = (Inr (), w\<lparr>w_allocations := dpop i (w_allocations w)\<rparr>)"
  by (simp add: release_ip_def)

lemma run_call_ok:
  assumes ok: "system_ok c w" and inj: "inj (e_rnd (wr_env c))" and run: "run_call c call w = (r, w')"
  shows "system_ok c w'"
proof (cases call)
  case (Create_Network cmd)
  then have "voidM (create_network (wr_env c) (wr_digest c) cmd) w = (r, w')" using run by simp
  then show ?thesis
    by (cases rule: void_cases) (auto intro: quiet_ok [OF ok] create_refused create_ok [OF ok inj])
next
  case (Update_Network i cmd)
  then have "voidM (update_network (wr_env c) (wr_digest c) i cmd) w = (r, w')" using run by simp
  then show ?thesis
    by (cases rule: void_cases) (auto intro: quiet_ok [OF ok] update_refused update_ok_system [OF ok inj])
next
  case (Assign_Nodes i cmd)
  then have "voidM (assign_nodes (wr_env c) (wr_digest c) i cmd) w = (r, w')" using run by simp
  then show ?thesis
    by (cases rule: void_cases) (auto intro: quiet_ok [OF ok] assign_refused assign_ok [OF ok inj])
next
  case (Upsert_Subnet i cmd)
  then have "voidM (upsert_subnet (wr_env c) (wr_digest c) i cmd) w = (r, w')" using run by simp
  then show ?thesis
    by (cases rule: void_cases) (auto intro: quiet_ok [OF ok] upsert_refused upsert_ok [OF ok inj])
next
  case (Allocate_Ip i cmd)
  then have "voidM (allocate_ip (wr_env c) i cmd) w = (r, w')" using run by simp
  then show ?thesis
    by (cases rule: void_cases) (auto intro: quiet_ok [OF ok] ipam_refused allocate_ok [OF ok])
next
  case (Reserve_Ip i cmd)
  then have "voidM (reserve_ip (wr_env c) i cmd) w = (r, w')" using run by simp
  then show ?thesis
    by (cases rule: void_cases) (auto intro: quiet_ok [OF ok] ipam_refused reserve_ok [OF ok])
next
  case (Release_Ip i)
  then have "w' = w\<lparr>w_allocations := dpop i (w_allocations w)\<rparr>" using run by (simp add: release_run)
  then show ?thesis using ok allocations_ok_release [OF system_parts(2) [OF ok]] by (simp add: system_ok_def)
next
  case (Register_Node cmd)
  then have "voidM (register_node (wr_env c) cmd) w = (r, w')" using run by simp
  then show ?thesis
    by (cases rule: void_cases) (auto intro: quiet_ok [OF ok] register_refused register_ok [OF ok inj])
next
  case (Remove_Node i "by")
  then have "voidM (remove_node (wr_env c) i by) w = (r, w')" using run by simp
  then show ?thesis
    by (cases rule: void_cases) (auto intro: quiet_ok [OF ok] remove_refused remove_ok [OF ok inj])
next
  case (Issue_Token p ttl i "by")
  then have "voidM (issue_enrollment_token (wr_env c) (wr_hash c) p ttl i by) w = (r, w')" using run by simp
  then show ?thesis
    by (cases rule: void_cases) (auto intro: quiet_ok [OF ok] issue_refused issue_ok [OF ok])
next
  case (Enroll_Agent cmd)
  then have "voidM (enroll_agent (wr_env c) (wr_hash c) cmd) w = (r, w')" using run by simp
  then show ?thesis
    by (cases rule: void_cases) (auto intro: enroll_refused_ok [OF ok] enroll_ok [OF ok inj])
next
  case (Heartbeat cmd)
  then have "voidM (record_heartbeat_call (wr_env c) cmd) w = (r, w')" using run by simp
  then show ?thesis
    by (cases rule: void_cases) (auto intro: quiet_ok [OF ok] heartbeat_refused heartbeat_ok [OF ok])
next
  case (Apply_Network i "by")
  then have "voidM (mapErrM ra_exc (apply_network (wr_env c) (wr_agent c) i by)) w = (r, w')" using run by simp
  then obtain r1 where "mapErrM ra_exc (apply_network (wr_env c) (wr_agent c) i by) w = (r1, w')"
    by (cases rule: void_cases) blast+
  then obtain r2 where "apply_network (wr_env c) (wr_agent c) i by w = (r2, w')"
    by (rule map_err_cases)
  then show ?thesis using apply_ok [OF ok inj] by blast
qed

lemma reachable_ok: "reachable c P w \<Longrightarrow> inj (e_rnd (wr_env c)) \<Longrightarrow> system_ok c w"
  by (induction rule: reachable.induct) (auto intro: empty_ok run_call_ok)

subsection \<open>Allocations stay inside their subnets\<close>

text \<open>The calls that never replace a subnet behind the back of the IPAM.\<close>

fun leaves_subnets :: "api_call \<Rightarrow> bool" where
  "leaves_subnets (Update_Network i cmd) = (un_subnet cmd = None)"
| "leaves_subnets _ = True"

lemma placed_keep:
  "allocations_placed (w_networks w) (w_allocations w) \<Longrightarrow> w_networks w' = w_networks w \<Longrightarrow>
   w_allocations w' = w_allocations w \<Longrightarrow> allocations_placed (w_networks w') (w_allocations w')"
  by simp

lemma placed_quiet:
  "allocations_placed (w_networks w) (w_allocations w) \<Longrightarrow> quiet w w' \<Longrightarrow>
   allocations_placed (w_networks w') (w_allocations w')"
  by (simp add: quiet_def)

lemma placed_create:
  assumes ok: "system_ok c w" and inj: "inj (e_rnd (wr_env c))"
    and pl: "allocations_placed (w_networks w) (w_allocations w)"
    and run: "create_network (wr_env c) (wr_digest c) cmd w = (Inr (n, op), w')"
  shows "allocations_placed (w_networks w') (w_allocations w')"
proof -
  note wr = wrote_frame [OF create_wrote [OF run]]
  have sub: "sub_id s = factory_id SubnetId (e_rnd (wr_env c) (w_ids w + 1))" if "net_subnet n = Some s" for s
    using create_network_result [OF run] that by blast
  have "allocations_placed (network_save n (w_networks w)) (w_allocations w)"
  proof (rule placed_replace [OF pl refl])
    fix s j a assume "net_subnet n = Some s" "dget (w_allocations w) j = Some a" "ipa_subnet_id a = sub_id s"
    then show "placed a s"
      using no_allocation_yet [OF system_parts(2) [OF ok] inj, of "w_ids w + 1"] sub by simp
  qed
  then show ?thesis by (simp add: wr)
qed

lemma placed_same_subnet:
  assumes ok: "system_ok c w" and pl: "allocations_placed (w_networks w) (w_allocations w)"
    and wr: "wrote (wr_env c) w kind n op w'"
    and old: "dget (w_networks w) i = Some n0" and eq: "net_subnet n = net_subnet n0"
  shows "allocations_placed (w_networks w') (w_allocations w')"
proof -
  have "allocations_placed (network_save n (w_networks w)) (w_allocations w)"
  proof (rule placed_replace [OF pl refl])
    fix s j a assume "net_subnet n = Some s" "dget (w_allocations w) j = Some a" "ipa_subnet_id a = sub_id s"
    then show "placed a s" using pl old eq unfolding allocations_placed_def by metis
  qed
  then show ?thesis by (simp add: wrote_frame [OF wr])
qed

lemma placed_upsert:
  assumes ok: "system_ok c w" and inj: "inj (e_rnd (wr_env c))"
    and pl: "allocations_placed (w_networks w) (w_allocations w)"
    and run: "upsert_subnet (wr_env c) (wr_digest c) i cmd w = (Inr n, w')"
  shows "allocations_placed (w_networks w') (w_allocations w')"
proof -
  have wf: "dget (w_networks w) i = Some x \<Longrightarrow> network_wf (wr_digest c) x" for x
    using network_entry [OF ok] by blast
  from upsert_result [OF run wf] obtain n0 s w1 net where old: "dget (w_networks w) i = Some n0" and q: "quiet w w1"
      and w': "w' = w1\<lparr>w_networks := network_save n (w_networks w1)\<rparr>" and sub: "net_subnet n = Some s"
      and sid: "case net_subnet n0 of
          None \<Rightarrow> sub_id s = factory_id SubnetId (e_rnd (wr_env c) (w_ids w)) \<and> w_ids w < w_ids w1
        | Some old \<Rightarrow> sub_id s = sub_id old"
      and net: "ip_network (sub_cidr s) True = Some net"
      and fits: "\<And>old a. net_subnet n0 = Some old \<Longrightarrow> a \<in> set (allocs_for_subnet (sub_id old) (w_allocations w)) \<Longrightarrow>
        \<exists>x. alloc_value a = Some x \<and> in_net x net"
    by metis
  have "allocations_placed (network_save n (w_networks w)) (w_allocations w)"
  proof (rule placed_replace [OF pl refl])
    fix t j a assume t: "net_subnet n = Some t" and a: "dget (w_allocations w) j = Some a" "ipa_subnet_id a = sub_id t"
    show "placed a t"
    proof (cases "net_subnet n0")
      case None
      then show ?thesis
        using no_allocation_yet [OF system_parts(2) [OF ok] inj order_refl a(1)] a(2) t sub sid by simp
    next
      case (Some o')
      then have "a \<in> set (allocs_for_subnet (sub_id o') (w_allocations w))"
        using a t sub sid dget_in [OF a(1)] by (simp add: allocs_for_subnet_def)
      then show ?thesis using fits Some net t sub unfolding placed_def by auto
    qed
  qed
  then show ?thesis using q by (simp add: w' quiet_def)
qed

lemma node_wrote_frame:
  assumes "node_wrote env w nds toks op w'"
  shows "w_networks w' = w_networks w \<and> w_allocations w' = w_allocations w"
proof -
  obtain w1 et nid pl where "quiet w w1" "w' = noted env et nid pl (w1\<lparr>w_nodes := nds, w_tokens := toks,
      w_operations := (case op of None \<Rightarrow> w_operations w | Some o' \<Rightarrow> operation_save o' (w_operations w))\<rparr>)"
    using assms unfolding node_wrote_def by blast
  then show ?thesis by (simp add: quiet_def)
qed

lemma run_call_placed:
  assumes ok: "system_ok c w" and inj: "inj (e_rnd (wr_env c))"
    and pl: "allocations_placed (w_networks w) (w_allocations w)"
    and P: "leaves_subnets call" and run: "run_call c call w = (r, w')"
  shows "allocations_placed (w_networks w') (w_allocations w')"
proof (cases call)
  case (Create_Network cmd)
  then have "voidM (create_network (wr_env c) (wr_digest c) cmd) w = (r, w')" using run by simp
  then show ?thesis
    by (cases rule: void_cases) (auto intro: placed_quiet [OF pl] create_refused placed_create [OF ok inj pl])
next
  case (Update_Network i cmd)
  then have "voidM (update_network (wr_env c) (wr_digest c) i cmd) w = (r, w')" using run by simp
  then show ?thesis
  proof (cases rule: void_cases)
    case (returned x)
    then have run': "update_network (wr_env c) (wr_digest c) i cmd w = (Inr (fst x, snd x), w')" by simp
    from update_result [OF run' network_entry [OF ok]] P Update_Network obtain n0 where
        "dget (w_networks w) i = Some n0" "wrote (wr_env c) w NETWORK_UPDATE (fst x) (snd x) w'"
        "net_subnet (fst x) = net_subnet n0"
      by auto
    then show ?thesis using placed_same_subnet [OF ok pl] by blast
  qed (auto intro: placed_quiet [OF pl] update_refused)
next
  case (Assign_Nodes i cmd)
  then have "voidM (assign_nodes (wr_env c) (wr_digest c) i cmd) w = (r, w')" using run by simp
  then show ?thesis
  proof (cases rule: void_cases)
    case (returned x)
    then have run': "assign_nodes (wr_env c) (wr_digest c) i cmd w = (Inr (fst x, snd x), w')" by simp
    from assign_result [OF run' network_entry [OF ok]] show ?thesis
      using placed_same_subnet [OF ok pl] by blast
  qed (auto intro: placed_quiet [OF pl] assign_refused)
next
  case (Upsert_Subnet i cmd)
  then have "voidM (upsert_subnet (wr_env c) (wr_digest c) i cmd) w = (r, w')" using run by simp
  then show ?thesis
    by (cases rule: void_cases) (auto intro: placed_quiet [OF pl] upsert_refused placed_upsert [OF ok inj pl])
next
  case (Allocate_Ip i cmd)
  then have "voidM (allocate_ip (wr_env c) i cmd) w = (r, w')" using run by simp
  then show ?thesis
  proof (cases rule: void_cases)
    case (returned x)
    from allocate_result [OF this] show ?thesis
      using new_allocation_placed [OF _ system_parts(1) [OF ok] pl] by blast
  qed (auto intro: placed_quiet [OF pl] ipam_refused)
next
  case (Reserve_Ip i cmd)
  then have "voidM (reserve_ip (wr_env c) i cmd) w = (r, w')" using run by simp
  then show ?thesis
  proof (cases rule: void_cases)
    case (returned x)
    from reserve_result [OF this] show ?thesis
      using new_allocation_placed [OF _ system_parts(1) [OF ok] pl] by blast
  qed (auto intro: placed_quiet [OF pl] ipam_refused)
next
  case (Release_Ip i)
  then have "w' = w\<lparr>w_allocations := dpop i (w_allocations w)\<rparr>" using run by (simp add: release_run)
  then show ?thesis using pl by (auto simp: allocations_placed_def split: if_splits)
next
  case (Register_Node cmd)
  then have "voidM (register_node (wr_env c) cmd) w = (r, w')" using run by simp
  then show ?thesis
  proof (cases rule: void_cases)
    case (returned x)
    then have "register_node (wr_env c) cmd w = (Inr (fst x, snd x), w')" by simp
    from register_result [OF this] have "w_networks w' = w_networks w \<and> w_allocations w' = w_allocations w"
      using node_wrote_frame by blast
    then show ?thesis using pl by simp
  qed (auto intro: placed_quiet [OF pl] register_refused)
next
  case (Remove_Node i "by")
  then have "voidM (remove_node (wr_env c) i by) w = (r, w')" using run by simp
  then show ?thesis
  proof (cases rule: void_cases)
    case (returned x)
    from remove_result [OF this] have "w_networks w' = w_networks w \<and> w_allocations w' = w_allocations w"
      using node_wrote_frame by blast
    then show ?thesis using pl by simp
  qed (auto intro: placed_quiet [OF pl] remove_refused)
next
  case (Issue_Token p ttl i "by")
  then have "voidM (issue_enrollment_token (wr_env c) (wr_hash c) p ttl i by) w = (r, w')" using run by simp
  then show ?thesis
  proof (cases rule: void_cases)
    case (returned x)
    from issue_result [OF this] show ?thesis using pl by simp
  qed (auto intro: placed_quiet [OF pl] issue_refused)
next
  case (Enroll_Agent cmd)
  then have "voidM (enroll_agent (wr_env c) (wr_hash c) cmd) w = (r, w')" using run by simp
  then show ?thesis
  proof (cases rule: void_cases)
    case (returned x)
    from enroll_result [OF this] have "w_networks w' = w_networks w \<and> w_allocations w' = w_allocations w"
      using node_wrote_frame by blast
    then show ?thesis using pl by simp
  next
    case (refused e)
    from enroll_refused [OF this] show ?thesis using placed_quiet [OF pl] pl by auto
  qed
next
  case (Heartbeat cmd)
  then have "voidM (record_heartbeat_call (wr_env c) cmd) w = (r, w')" using run by simp
  then show ?thesis
  proof (cases rule: void_cases)
    case (returned x)
    from heartbeat_result [OF this] show ?thesis using pl by auto
  qed (auto intro: placed_quiet [OF pl] heartbeat_refused)
next
  case (Apply_Network i "by")
  then have "voidM (mapErrM ra_exc (apply_network (wr_env c) (wr_agent c) i by)) w = (r, w')" using run by simp
  then obtain r1 where "mapErrM ra_exc (apply_network (wr_env c) (wr_agent c) i by) w = (r1, w')"
    by (cases rule: void_cases) blast+
  then obtain r2 where "apply_network (wr_env c) (wr_agent c) i by w = (r2, w')"
    by (rule map_err_cases)
  from apply_network_result [OF this] show ?thesis using pl by simp
qed

lemma reachable_placed:
  assumes "reachable c leaves_subnets w" "inj (e_rnd (wr_env c))"
  shows "allocations_placed (w_networks w) (w_allocations w)"
  using assms
proof (induction rule: reachable.induct)
  case (start a)
  then show ?case by (simp add: allocations_placed_def empty_world_def)
next
  case (call w call r w')
  then show ?case using run_call_placed reachable_ok by blast
qed

subsection \<open>Refused calls\<close>

text \<open>Enrolling deletes the token of a removed node before it raises, and an apply records its failure.\<close>

fun records_refusal :: "api_call \<Rightarrow> bool" where
  "records_refusal (Enroll_Agent _) = True"
| "records_refusal (Apply_Network _ _) = True"
| "records_refusal _ = False"

lemma void_refused: "voidM m w = (Inl e, w') \<longleftrightarrow> m w = (Inl e, w')"
  by (auto simp: void_run split: prod.splits sum.splits)

lemma refused_quiet:
  "run_call c call w = (Inl e, w') \<Longrightarrow> \<not> records_refusal call \<Longrightarrow> quiet w w'"
  by (cases call) (auto simp: void_refused release_run intro: create_refused update_refused assign_refused
      upsert_refused ipam_refused register_refused remove_refused issue_refused heartbeat_refused)

end
