(* ===== verification/System_Properties.thy ===== *)
theory System_Properties
  imports System
begin

text \<open>
  The properties of the controller as a whole. The concrete controller of the witnesses draws ids
  that differ in length and talks to agents that cannot be reached.
\<close>

definition example_wiring :: "unit wiring" where
  "example_wiring = \<lparr>wr_env = example_env, wr_digest = (\<lambda>_. ''h''), wr_hash = (\<lambda>s. s), wr_agent = dead_ops\<rparr>"

definition lan_cmd :: create_network_cmd where
  "lan_cmd = \<lparr>cn_name = ''lan'', cn_type = VXLAN, cn_mtu = 1450, cn_vlan_id = None, cn_vni = Some 100,
     cn_project_id = None, cn_subnet = Some \<lparr>ss_cidr = ''10.0.0.8/29'', ss_gateway = None\<rparr>,
     cn_labels = [], cn_node_ids = [], cn_created_by = None\<rparr>"

definition vm_cmd :: allocate_ip_cmd where
  "vm_cmd = \<lparr>al_owner = \<lparr>own_type = ''vm'', own_id = ''vm1''\<rparr>, al_label = None\<rparr>"

fun after_calls :: "'ag wiring \<Rightarrow> api_call list \<Rightarrow> 'ag world \<Rightarrow> 'ag world" where
  "after_calls c [] w = w"
| "after_calls c (call # calls) w = after_calls c calls (snd (run_call c call w))"

lemma reachable_calls:
  assumes "reachable c P w" "list_all P calls"
  shows "reachable c P (after_calls c calls w)"
  using assms
proof (induction calls arbitrary: w)
  case (Cons call calls)
  obtain r w' where run: "run_call c call w = (r, w')" by fastforce
  have "reachable c P w'" using reachable.call [OF Cons.prems(1) _ run] Cons.prems(2) by simp
  then show ?case using Cons run by simp
qed simp

definition lan_calls :: "api_call list" where
  "lan_calls = [Create_Network lan_cmd, Allocate_Ip ''sub_0'' vm_cmd, Allocate_Ip ''sub_0'' vm_cmd,
     Apply_Network ''net_'' None]"

definition lan_world :: "unit world" where
  "lan_world = after_calls example_wiring lan_calls (empty_world ())"

lemma lan_reachable: "reachable example_wiring leaves_subnets lan_world" "reachable example_wiring any_call lan_world"
  unfolding lan_world_def
  by (rule reachable_calls [OF reachable.start]; simp add: lan_calls_def)+

lemma example_inj: "inj (e_rnd (wr_env example_wiring))"
  by (rule inj_onI) (simp add: example_wiring_def example_env_def)

text \<open>
  C4. Whatever of the thirteen calls of \<open>api_call\<close> is made in whatever order, refused calls and failing
  applies included, the stores stay consistent (the bundle import is not one of these calls): every network is stored under its id, valid, with the hash of its current
  intent and a valid subnet; no two networks share a name within a project or a subnet id; every
  node keeps its invariant and its name is unique; every operation has a consistent audit trail;
  event numbers in the journal are distinct, increasing and bounded by the counter.
\<close>

theorem controller_invariant:
  assumes "reachable c any_call w" "inj (e_rnd (wr_env c))"
  shows "(\<forall>i n. dget (w_networks w) i = Some n \<longrightarrow> net_id n = i \<and> network_wf (wr_digest c) n \<and>
      (\<forall>s. net_subnet n = Some s \<longrightarrow> subnet_check s = Inr ())) \<and>
    (\<forall>i j n m. dget (w_networks w) i = Some n \<longrightarrow> dget (w_networks w) j = Some m \<longrightarrow> i \<noteq> j \<longrightarrow> networks_apart n m) \<and>
    (\<forall>i n. dget (w_nodes w) i = Some n \<longrightarrow> nd_id n = i \<and> node_wf n) \<and>
    (\<forall>i j n m. dget (w_nodes w) i = Some n \<longrightarrow> dget (w_nodes w) j = Some m \<longrightarrow> i \<noteq> j \<longrightarrow> nd_name n \<noteq> nd_name m) \<and>
    (\<forall>i op. dget (w_operations w) i = Some op \<longrightarrow> op_id op = i \<and> op_wf op) \<and>
    outbox_ok (w_outbox w)"
  using reachable_ok [OF assms]
  unfolding system_ok_def networks_ok_def network_entry_ok_def nodes_ok_def books_ok_def by blast

theorem controller_invariant_witness:
  "outbox_ok (w_outbox lan_world)"
  using controller_invariant [OF lan_reachable(2) example_inj] by blast

text \<open>
  C5. No address is handed out twice: in every state the calls of \<open>api_call\<close> can lead to (the bundle
  import is not one of them), two different
  allocations of one subnet never denote the same IPv4 address, however they were made
  (allocated or reserved) and whatever was released or changed in between.
\<close>

theorem no_double_allocation:
  assumes "reachable c any_call w" "inj (e_rnd (wr_env c))"
    and "dget (w_allocations w) i = Some a" "dget (w_allocations w) j = Some b" "i \<noteq> j"
    and "ipa_subnet_id a = ipa_subnet_id b" "alloc_value a = Some (V4 x)"
  shows "alloc_value b \<noteq> Some (V4 x)"
proof -
  have "allocations_apart a b"
    using reachable_ok [OF assms(1,2)] assms(3-5) unfolding system_ok_def allocations_ok_def by blast
  then show ?thesis using assms(6,7) by (auto simp: allocations_apart_def)
qed

text \<open>A run of the example: a network with a block of eight addresses and two allocations in it.\<close>

definition lan_subnet :: subnet where
  "lan_subnet = bare_subnet_of ''sub_0'' \<lparr>ss_cidr = ''10.0.0.8/29'', ss_gateway = None\<rparr>"

lemma lan_subnet_check: "subnet_check lan_subnet = Inr ()"
  by (simp add: subnet_check_def lan_subnet_def bare_subnet_of_def bare_net)

definition lan_network :: network where
  "lan_network = \<lparr>net_id = ''net_'', net_name = ''lan'', net_type = VXLAN, net_created_at = 0,
     net_updated_at = 0, net_mtu = 1450, net_vlan_id = None, net_vni = Some 100, net_subnet = Some lan_subnet,
     net_intent_version = 1, net_labels = [], net_node_ids = [], net_nat = None, net_firewall = None,
     net_spec_hash = ''h'', net_project_id = None\<rparr>"

lemma lan_mk:
  "mk_network (\<lambda>_. ''h'') (lan_network\<lparr>net_spec_hash := []\<rparr>) = Inr lan_network"
  by (simp add: mk_network_def network_validate_def blank_iff py_isspace_def lan_network_def
      compute_spec_hash_def)

lemma lan_ids:
  "factory_id NetworkId (e_rnd example_env 0) = ''net_''"
  "factory_id SubnetId (e_rnd example_env (Suc 0)) = ''sub_0''"
  by (simp_all add: factory_id_def new_id_def example_env_def)

lemma lan_created:
  obtains op ev w where "create_network example_env (\<lambda>_. ''h'') lan_cmd (empty_world ()) =
      (Inr (lan_network, op), committed example_env lan_network op ev w)"
    "w_networks w = []" "w_allocations w = []" "w_ids w = 3"
proof -
  let ?w = "(empty_world ())\<lparr>w_clock := 1, w_ids := 3\<rparr>"
  have strip: "\<not> blank (cn_name lan_cmd)" "py_strip (cn_name lan_cmd) = ''lan''"
    by (simp_all add: lan_cmd_def blank_iff py_isspace_def py_strip_def)
  have free: "\<not> name_taken ''lan'' (cn_project_id lan_cmd) (dvalues (w_networks (empty_world ())))"
    by (simp add: name_taken_def empty_world_def)
  have sub: "new_subnet example_env (cn_subnet lan_cmd) ((empty_world ())\<lparr>w_clock := 1, w_ids := 1\<rparr>) =
      (Inr (Some lan_subnet), (empty_world ())\<lparr>w_clock := 1, w_ids := 2\<rparr>)"
    using lan_subnet_check
    by (simp add: new_subnet_def lan_cmd_def bindM_fresh lan_ids mk_subnet_def flip: lan_subnet_def)
  have mk: "mk_network (\<lambda>_. ''h'') \<lparr>net_id = ''net_'', net_name = ''lan'', net_type = cn_type lan_cmd,
        net_created_at = e_now example_env 0,
        net_updated_at = e_now example_env 0, net_mtu = cn_mtu lan_cmd, net_vlan_id = cn_vlan_id lan_cmd,
        net_vni = cn_vni lan_cmd, net_subnet = Some lan_subnet, net_intent_version = 1, net_labels = cn_labels lan_cmd,
        net_node_ids = cn_node_ids lan_cmd, net_nat = None, net_firewall = None, net_spec_hash = [],
        net_project_id = cn_project_id lan_cmd\<rparr> = Inr lan_network"
    using lan_mk by (simp add: lan_network_def lan_cmd_def example_env_def)
  obtain op where op: "advance example_env (done_in ''store desired state'' ''persisting network record''
        ''verifying persisted record'' ''network created'')
      (accept (factory_id OperationId (e_rnd example_env 2)) NETWORK_CREATE \<lparr>ref_type = ''network'', ref_id = ''net_''\<rparr>
        (e_now example_env 0) (cn_created_by lan_cmd) (''create network '' @ py_repr (net_name lan_network))) ?w =
      (Inr op, ?w\<lparr>w_clock := w_clock ?w + 4\<rparr>)"
    using advance_all by blast
  have start: "w_clock (empty_world ()) = 0" "w_ids (empty_world ()) = 0" by (simp_all add: empty_world_def)
  show ?thesis
  proof (rule that)
    show "create_network example_env (\<lambda>_. ''h'') lan_cmd (empty_world ()) =
      (Inr (lan_network, op), committed example_env lan_network op (Some (''network.created'',
       [(''name'', JStr (net_name lan_network)), (''type'', JStr (network_type_value (net_type lan_network))),
        (''intent_version'', JInt (net_intent_version lan_network)), (''spec_hash'', JStr (net_spec_hash lan_network)),
        (''node_ids'', JList (List.map JStr (net_node_ids lan_network)))])) (?w\<lparr>w_clock := w_clock ?w + 4\<rparr>))"
      using strip free sub mk op
      by (simp add: create_network_def Let_def bindM_guard bindM_now bindM_fresh start lan_ids bindM_run [of "new_subnet _ _"]
          bindM_run [of "advance _ _ _"] numeral_eq_Suc)
  qed (simp_all add: empty_world_def)
qed

lemma lan_alloc:
  "next_available_ip lan_subnet [] = Inr ''10.0.0.9''"
  "next_available_ip lan_subnet [''10.0.0.9''] = Inr ''10.0.0.10''"
  by (simp_all add: alloc_evals lan_subnet_def bare_subnet_of_def bare_net ip_add_def ip_sub1_def mk_ip_range_def
      ip_range_check_def ip_address_str_ip example_strs example_addrs ip_evals
      v4_octets_def str_nat_def)

definition vm_alloc :: "nat \<Rightarrow> nat \<Rightarrow> string \<Rightarrow> ip_allocation" where
  "vm_alloc i t addr = \<lparr>ipa_id = factory_id IpAllocationId (e_rnd example_env i), ipa_subnet_id = ''sub_0'',
     ipa_address = addr, ipa_owner = \<lparr>own_type = ''vm'', own_id = ''vm1''\<rparr>, ipa_kind = DYNAMIC,
     ipa_allocated_at = e_now example_env t, ipa_label = None\<rparr>"

lemma vm_alloc_check:
  "ip_allocation_check (vm_alloc i t ''10.0.0.9'') = Inr ()" "ip_allocation_check (vm_alloc i t ''10.0.0.10'') = Inr ()"
  by (simp_all add: ip_allocation_check_def vm_alloc_def ip_evals)

lemma lan_resolve:
  "dvalues (w_networks w) = [lan_network] \<Longrightarrow> resolve_subnet ''sub_0'' w = (Inr lan_subnet, w)"
  by (simp add: resolve_run network_by_subnet_def lan_network_def lan_subnet_def bare_subnet_of_def)

lemma vm_allocate:
  assumes "dvalues (w_networks w) = [lan_network]"
    and "next_available_ip lan_subnet (List.map ipa_address (allocs_for_subnet ''sub_0'' (w_allocations w))) = Inr addr"
    and "ip_allocation_check (vm_alloc (w_ids w) (w_clock w) addr) = Inr ()"
  shows "allocate_ip example_env ''sub_0'' vm_cmd w = (Inr (vm_alloc (w_ids w) (w_clock w) addr),
    (after_draw w)\<lparr>w_allocations := alloc_save (vm_alloc (w_ids w) (w_clock w) addr) (w_allocations w)\<rparr>)"
  using assms
  by (simp add: allocate_ip_def bindM_run [of "resolve_subnet _"] lan_resolve bindM_now bindM_fresh
      save_allocation_def vm_cmd_def vm_alloc_def)

lemma lan_allocated:
  "\<exists>i j a b x. dget (w_allocations lan_world) i = Some a \<and> dget (w_allocations lan_world) j = Some b \<and> i \<noteq> j \<and>
     ipa_subnet_id a = ''sub_0'' \<and> ipa_subnet_id b = ''sub_0'' \<and> alloc_value a = Some (V4 x) \<and>
     dget (w_networks lan_world) ''net_'' = Some lan_network"
proof -
  obtain op ev w where cr: "create_network example_env (\<lambda>_. ''h'') lan_cmd (empty_world ()) =
      (Inr (lan_network, op), committed example_env lan_network op ev w)"
      "w_networks w = []" "w_allocations w = []" "w_ids w = 3"
    by (rule lan_created)
  define w1 where "w1 = committed example_env lan_network op ev w"
  have w1: "dvalues (w_networks w1) = [lan_network]" "w_allocations w1 = []"
    using cr(2-) by (simp_all add: w1_def committed_frame network_save_def)
  have n1: "dget (w_networks w1) ''net_'' = Some lan_network"
    using cr(2) by (simp add: w1_def committed_frame network_save_def lan_network_def)
  let ?a = "vm_alloc (w_ids w1) (w_clock w1) ''10.0.0.9''"
  define w2 where "w2 = (after_draw w1)\<lparr>w_allocations := alloc_save ?a []\<rparr>"
  have r1: "allocate_ip example_env ''sub_0'' vm_cmd w1 = (Inr ?a, w2)"
    using vm_allocate [OF w1(1), of "''10.0.0.9''"] w1(2) by (simp add: lan_alloc vm_alloc_check w2_def allocs_for_subnet_def)
  have w2: "dvalues (w_networks w2) = [lan_network]" "w_allocations w2 = [(ipa_id ?a, ?a)]" "w_ids w2 = w_ids w1 + 1"
    using w1 by (simp_all add: w2_def alloc_save_def)
  let ?b = "vm_alloc (w_ids w2) (w_clock w2) ''10.0.0.10''"
  define w3 where "w3 = (after_draw w2)\<lparr>w_allocations := alloc_save ?b [(ipa_id ?a, ?a)]\<rparr>"
  have "allocs_for_subnet ''sub_0'' (w_allocations w2) = [?a]" "ipa_address ?a = ''10.0.0.9''"
    by (simp_all add: w2 allocs_for_subnet_def) (simp_all add: vm_alloc_def)
  then have r2: "allocate_ip example_env ''sub_0'' vm_cmd w2 = (Inr ?b, w3)"
    using vm_allocate [OF w2(1), of "''10.0.0.10''"] w2(2) by (simp add: lan_alloc vm_alloc_check w3_def)
  have ne: "ipa_id ?a \<noteq> ipa_id ?b"
    by (simp add: vm_alloc_def factory_id_inject w2(3)) (simp add: example_env_def)
  have eq: "run_call example_wiring (Create_Network lan_cmd) (empty_world ()) = (Inr (), w1)"
    "run_call example_wiring (Allocate_Ip ''sub_0'' vm_cmd) w1 = (Inr (), w2)"
    "run_call example_wiring (Allocate_Ip ''sub_0'' vm_cmd) w2 = (Inr (), w3)"
    using cr(1) r1 r2 by (simp_all add: example_wiring_def bindM_run w1_def)
  obtain r w4 where r4: "run_call example_wiring (Apply_Network ''net_'' None) w3 = (r, w4)" by fastforce
  then have "w_allocations w4 = w_allocations w3 \<and> w_networks w4 = w_networks w3"
    using apply_network_result [of "wr_env example_wiring" "wr_agent example_wiring" "''net_''" None w3]
    by (auto simp: void_run mapErrM_def split: prod.splits sum.splits)
  moreover have "lan_world = w4" using eq r4 by (simp add: lan_world_def lan_calls_def)
  ultimately have "w_allocations lan_world = [(ipa_id ?a, ?a), (ipa_id ?b, ?b)]"
      "dget (w_networks lan_world) ''net_'' = Some lan_network"
    using ne n1 by (simp_all add: w3_def w2_def alloc_save_def)
  moreover have "alloc_value ?a = Some (V4 167772169)" by (simp add: alloc_value_def vm_alloc_def ip_evals)
  moreover have "ipa_subnet_id ?a = ''sub_0''" "ipa_subnet_id ?b = ''sub_0''" by (simp_all add: vm_alloc_def)
  ultimately have "dget (w_allocations lan_world) (ipa_id ?a) = Some ?a \<and>
      dget (w_allocations lan_world) (ipa_id ?b) = Some ?b \<and> ipa_id ?a \<noteq> ipa_id ?b \<and>
      ipa_subnet_id ?a = ''sub_0'' \<and> ipa_subnet_id ?b = ''sub_0'' \<and> alloc_value ?a = Some (V4 167772169) \<and>
      dget (w_networks lan_world) ''net_'' = Some lan_network"
    using ne by simp
  then show ?thesis by blast
qed

theorem no_double_allocation_witness:
  "\<exists>i j a b x. dget (w_allocations lan_world) i = Some a \<and> dget (w_allocations lan_world) j = Some b \<and>
     alloc_value a = Some (V4 x) \<and> alloc_value b \<noteq> Some (V4 x)"
proof -
  obtain i j a b x where *: "dget (w_allocations lan_world) i = Some a" "dget (w_allocations lan_world) j = Some b"
      "i \<noteq> j" "ipa_subnet_id a = ipa_subnet_id b" "alloc_value a = Some (V4 x)"
    using lan_allocated by metis
  have "alloc_value b \<noteq> Some (V4 x)" by (rule no_double_allocation [OF lan_reachable(2) example_inj *])
  then show ?thesis using * by blast
qed

text \<open>
  C6. Allocations stay inside their subnets: as long as no bundle is imported and no UpdateNetwork carries a subnet
  (the IPAM call UpsertSubnet may), every stored allocation lies in the block its subnet has now,
  through replacements of the block, releases and everything else.
\<close>

theorem allocations_stay_inside:
  assumes "reachable c leaves_subnets w" "inj (e_rnd (wr_env c))"
    and "dget (w_allocations w) i = Some a" "dget (w_networks w) j = Some n"
    and "net_subnet n = Some s" "sub_id s = ipa_subnet_id a"
  shows "\<exists>net x. ip_network (sub_cidr s) True = Some net \<and> ip_address (ipa_address a) = Some x \<and> in_net x net"
  using reachable_placed [OF assms(1,2)] assms(3-6)
  unfolding allocations_placed_def placed_def alloc_value_def by blast

theorem allocations_stay_inside_witness:
  "\<exists>i a net x. dget (w_allocations lan_world) i = Some a \<and> ip_network ''10.0.0.8/29'' True = Some net \<and>
     ip_address (ipa_address a) = Some x \<and> in_net x net"
proof -
  obtain i a where a: "dget (w_allocations lan_world) i = Some a" "ipa_subnet_id a = ''sub_0''"
      and n: "dget (w_networks lan_world) ''net_'' = Some lan_network"
    using lan_allocated by blast
  have "net_subnet lan_network = Some lan_subnet" "sub_id lan_subnet = ipa_subnet_id a"
      "sub_cidr lan_subnet = ''10.0.0.8/29''"
    by (simp_all add: lan_network_def lan_subnet_def bare_subnet_of_def a(2))
  then show ?thesis
    using allocations_stay_inside [OF lan_reachable(1) example_inj a(1) n, of lan_subnet] a(1) by auto
qed

text \<open>
  C14. A refused call writes nothing: when a call of \<open>api_call\<close> raises, every store, the locks, the event journal
  and the agents are exactly as before, and only the clock and the id factory have moved. The two
  exceptions are EnrollAgent, which deletes the tokens of a removed node before it raises, and
  ApplyNetwork, which records its failure. (The bundle import, which keeps what it stored before a
  conflict, is not a call of \<open>api_call\<close>.)
\<close>

theorem refused_call_writes_nothing:
  assumes "run_call c call w = (Inl e, w')" "\<not> records_refusal call"
  shows "w' = w\<lparr>w_clock := w_clock w', w_ids := w_ids w'\<rparr> \<and> w_ids w \<le> w_ids w'"
  using refused_quiet [OF assms] by (cases w, cases w') (simp add: quiet_def)

theorem refused_call_writes_nothing_witness:
  "\<exists>w'. run_call example_wiring (Allocate_Ip ''sub_9'' vm_cmd) (empty_world ()) = (Inl err_not_found, w') \<and>
     w_allocations w' = [] \<and> w_networks w' = []"
proof -
  have run: "run_call example_wiring (Allocate_Ip ''sub_9'' vm_cmd) (empty_world ()) = (Inl err_not_found, empty_world ())"
    by (simp add: allocate_ip_def bindM_run resolve_run network_by_subnet_def empty_world_def)
  show ?thesis
    using refused_call_writes_nothing [OF run] run by (simp add: empty_world_def)
qed

end
