(* ===== verification/Token_Safety.thy ===== *)
theory Token_Safety
  imports System_Properties
begin

text \<open>
  An enrolment token admits one agent: the life of a token through every sequence of calls. A
  token is found by the hash of its text, so the text itself is never stored.
\<close>

text \<open>The tokens with hash hh are all used.\<close>

definition spent :: "string \<Rightarrow> (string, enrollment_token) dict \<Rightarrow> bool" where
  "spent hh d \<longleftrightarrow> (\<forall>i t. dget d i = Some t \<longrightarrow> etk_token_hash t = hh \<longrightarrow> etk_used_at t \<noteq> None)"

fun issues_hash :: "(string \<Rightarrow> string) \<Rightarrow> string \<Rightarrow> api_call \<Rightarrow> bool" where
  "issues_hash h hh (Issue_Token p _ _ _) = (h p = hh)"
| "issues_hash h hh _ = False"

lemma spent_save: "spent hh d \<Longrightarrow> etk_token_hash t \<noteq> hh \<or> etk_used_at t \<noteq> None \<Longrightarrow> spent hh (token_save t d)"
  by (auto simp: spent_def token_save_def)

lemma spent_dpop: "spent hh d \<Longrightarrow> spent hh (fold dpop is d)"
proof (induction "is" arbitrary: d)
  case (Cons i "is")
  from Cons.prems have "spent hh (dpop i d)" by (simp add: spent_def)
  then show ?case using Cons.IH by simp
qed simp

lemma consumed_used: "consume_token now t = Inr t' \<Longrightarrow> etk_used_at t' \<noteq> None \<and> etk_id t' = etk_id t \<and>
    etk_token_hash t' = etk_token_hash t \<and> etk_used_at t = None"
  by (auto simp: consume_token_def bindE_Inr_iff)

lemma node_wrote_tokens:
  assumes "node_wrote env w nds toks op w'"
  shows "w_tokens w' = toks"
proof -
  obtain w1 et nid pl where "w' = noted env et nid pl (w1\<lparr>w_nodes := nds, w_tokens := toks,
      w_operations := (case op of None \<Rightarrow> w_operations w | Some o' \<Rightarrow> operation_save o' (w_operations w))\<rparr>)"
    using assms unfolding node_wrote_def by blast
  then show ?thesis by simp
qed

lemma quiet_tokens: "quiet w w' \<Longrightarrow> w_tokens w' = w_tokens w"
  by (simp add: quiet_def)

lemma new_allocation_tokens: "new_allocation env w sid a w' \<Longrightarrow> w_tokens w' = w_tokens w"
  by (auto simp: new_allocation_def quiet_def)

lemma upsert_tokens: "upsert_subnet env digest i cmd w = (Inr n, w') \<Longrightarrow> w_tokens w' = w_tokens w"
  by (auto simp: upsert_run Let_def split: option.splits sum.splits)

text \<open>The calls that do not deal with tokens leave the token store alone.\<close>

fun token_call :: "api_call \<Rightarrow> bool" where
  "token_call (Issue_Token _ _ _ _) = True"
| "token_call (Enroll_Agent _) = True"
| "token_call _ = False"

lemma update_tokens:
  assumes "system_ok c w" "update_network (wr_env c) (wr_digest c) i cmd w = (Inr x, w')"
  shows "w_tokens w' = w_tokens w"
proof -
  from assms(2) have "update_network (wr_env c) (wr_digest c) i cmd w = (Inr (fst x, snd x), w')" by simp
  from update_result [OF this network_entry [OF assms(1)]] show ?thesis using wrote_frame(3) by blast
qed

lemma assign_tokens:
  assumes "system_ok c w" "assign_nodes (wr_env c) (wr_digest c) i cmd w = (Inr x, w')"
  shows "w_tokens w' = w_tokens w"
proof -
  from assms(2) have "assign_nodes (wr_env c) (wr_digest c) i cmd w = (Inr (fst x, snd x), w')" by simp
  from assign_result [OF this network_entry [OF assms(1)]] show ?thesis using wrote_frame(3) by blast
qed

lemma create_tokens: "create_network env digest cmd w = (Inr x, w') \<Longrightarrow> w_tokens w' = w_tokens w"
  using create_wrote [of env digest cmd w "fst x" "snd x" w'] wrote_frame(3) by (metis prod.collapse)

lemma register_tokens: "register_node env cmd w = (Inr x, w') \<Longrightarrow> w_tokens w' = w_tokens w"
  using register_result [of env cmd w "fst x" "snd x" w'] node_wrote_tokens by (metis prod.collapse)

lemma tokens_untouched:
  assumes ok: "system_ok c w" and run: "run_call c call w = (r, w')" and no: "\<not> token_call call"
  shows "w_tokens w' = w_tokens w"
proof (cases r)
  case (Inl e)
  show ?thesis
  proof (cases "records_refusal call")
    case True
    then obtain i "by" where "call = Apply_Network i by" using no by (cases call) simp_all
    then have "voidM (mapErrM ra_exc (apply_network (wr_env c) (wr_agent c) i by)) w = (r, w')" using run by simp
    then obtain r2 where "apply_network (wr_env c) (wr_agent c) i by w = (r2, w')"
      by (metis void_cases map_err_cases)
    then show ?thesis using apply_network_result by blast
  next
    case False
    then show ?thesis using refused_quiet run Inl quiet_tokens by blast
  qed
next
  case (Inr u)
  show ?thesis
  proof (cases call)
    case (Apply_Network i "by")
    then have "voidM (mapErrM ra_exc (apply_network (wr_env c) (wr_agent c) i by)) w = (r, w')" using run by simp
    then obtain r2 where "apply_network (wr_env c) (wr_agent c) i by w = (r2, w')"
      by (metis void_cases map_err_cases)
    then show ?thesis using apply_network_result by blast
  qed (use run no Inr in \<open>auto simp: void_run release_run split: prod.splits sum.splits
      dest: create_tokens update_tokens [OF ok] assign_tokens [OF ok] upsert_tokens allocate_result reserve_result
        new_allocation_tokens register_tokens remove_result node_wrote_tokens heartbeat_result\<close>)
qed

lemma spent_enroll:
  assumes run: "enroll_agent env h cmd w = (r, w')" and sp: "spent hh (w_tokens w)"
  shows "spent hh (w_tokens w')"
proof (cases r)
  case (Inl e)
  from enroll_refused [OF run [unfolded Inl]] show ?thesis
    using sp spent_dpop [OF sp] quiet_tokens [of w w'] by (auto simp: delete_tokens_for_node_def)
next
  case (Inr n)
  from enroll_result [OF run [unfolded Inr]] obtain t t' where
      "consume_token (e_now env (w_clock w)) t = Inr t'" "w_tokens w' = token_save t' (w_tokens w)"
    using node_wrote_tokens by metis
  then show ?thesis using spent_save [OF sp] consumed_used by metis
qed

lemma spent_call:
  assumes ok: "system_ok c w" and run: "run_call c call w = (r, w')" and sp: "spent hh (w_tokens w)"
    and other: "\<not> issues_hash (wr_hash c) hh call"
  shows "spent hh (w_tokens w')"
proof (cases "token_call call")
  case False
  then show ?thesis using tokens_untouched [OF ok run] sp by simp
next
  case True
  then consider cmd where "call = Enroll_Agent cmd" | p ttl i "by" where "call = Issue_Token p ttl i by"
    by (cases call) simp_all
  then show ?thesis
  proof cases
    case 1
    then have "voidM (enroll_agent (wr_env c) (wr_hash c) cmd) w = (r, w')" using run by simp
    then show ?thesis by (cases rule: void_cases) (auto intro: spent_enroll [OF _ sp])
  next
    case 2
    then have "voidM (issue_enrollment_token (wr_env c) (wr_hash c) p ttl i by) w = (r, w')" using run by simp
    then show ?thesis
    proof (cases rule: void_cases)
      case (refused e)
      then show ?thesis using issue_refused quiet_tokens sp by metis
    next
      case (returned x)
      from issue_result [OF this] have "etk_token_hash (fst x) = wr_hash c p"
          "w_tokens w' = token_save (fst x) (w_tokens w)"
        by (auto simp: issue_token_def bindE_Inr_iff dest: arg_cong [of _ _ etk_token_hash])
      then show ?thesis using spent_save [OF sp] other 2 by simp
    qed
  qed
qed

lemma spent_calls:
  assumes "system_ok c w" "inj (e_rnd (wr_env c))" "spent hh (w_tokens w)"
    and "list_all (\<lambda>call. \<not> issues_hash (wr_hash c) hh call) calls"
  shows "spent hh (w_tokens (after_calls c calls w)) \<and> system_ok c (after_calls c calls w)"
  using assms
proof (induction calls arbitrary: w)
  case (Cons call calls)
  obtain r w' where run: "run_call c call w = (r, w')" by fastforce
  have "spent hh (w_tokens w')" using spent_call [OF Cons.prems(1) run Cons.prems(3)] Cons.prems(4) by simp
  then show ?case
    using Cons.IH [OF run_call_ok [OF Cons.prems(1,2) run] Cons.prems(2)] Cons.prems(4) run by simp
qed simp

lemma spent_refuses:
  assumes "spent (h (ea_plaintext cmd)) (w_tokens w)" "tokens_ok env k (w_tokens w)"
  shows "\<exists>e w'. enroll_agent env h cmd w = (Inl e, w') \<and> w_nodes w' = w_nodes w"
proof (cases "blank (ea_plaintext cmd) \<or> token_by_hash (h (ea_plaintext cmd)) (w_tokens w) = None")
  case True
  then show ?thesis by (auto simp: enroll_agent_def bindM_guard)
next
  case False
  then obtain t where t: "token_by_hash (h (ea_plaintext cmd)) (w_tokens w) = Some t" by auto
  then have "etk_used_at t \<noteq> None"
    using token_by_hash_Some [OF assms(2) t] assms(1) unfolding spent_def by blast
  then show ?thesis
    using False t by (auto simp: enroll_agent_def bindM_guard bindM_now consume_token_def require_def)
qed

text \<open>
  C7. An enrolment token admits one agent, once: after an enrolment with a token text returned,
  every later enrolment with the same text is refused and changes no node, whatever calls of \<open>api_call\<close> happen
  in between (node removals and token deletions included), provided no other token with that hash
  existed or is issued.
\<close>

theorem token_single_use:
  assumes "reachable c any_call w" "inj (e_rnd (wr_env c))"
    and "enroll_agent (wr_env c) (wr_hash c) cmd w = (Inr n, w1)"
    and "\<forall>i j t u. dget (w_tokens w) i = Some t \<longrightarrow> dget (w_tokens w) j = Some u \<longrightarrow>
       etk_token_hash t = wr_hash c (ea_plaintext cmd) \<longrightarrow> etk_token_hash u = wr_hash c (ea_plaintext cmd) \<longrightarrow> i = j"
    and "list_all (\<lambda>call. \<not> issues_hash (wr_hash c) (wr_hash c (ea_plaintext cmd)) call) calls"
    and "ea_plaintext cmd' = ea_plaintext cmd"
  shows "\<exists>e w3. enroll_agent (wr_env c) (wr_hash c) cmd' (after_calls c calls w1) = (Inl e, w3) \<and>
    w_nodes w3 = w_nodes (after_calls c calls w1)"
proof -
  let ?hh = "wr_hash c (ea_plaintext cmd)"
  have ok: "system_ok c w" using reachable_ok [OF assms(1,2)] .
  from enroll_result [OF assms(3)] obtain t t' where t: "token_by_hash ?hh (w_tokens w) = Some t"
      "consume_token (e_now (wr_env c) (w_clock w)) t = Inr t'" and w1: "w_tokens w1 = token_save t' (w_tokens w)"
    using node_wrote_tokens by metis
  have key: "dget (w_tokens w) (etk_id t) = Some t" "etk_token_hash t = ?hh"
    using token_by_hash_Some [OF system_parts(4) [OF ok] t(1)] by blast+
  have "spent ?hh (w_tokens w1)"
    unfolding spent_def w1 token_save_def
  proof (intro allI impI)
    fix i u assume u: "dget (dset (etk_id t') t' (w_tokens w)) i = Some u" "etk_token_hash u = ?hh"
    then show "etk_used_at u \<noteq> None"
      using consumed_used [OF t(2)] key assms(4) by (metis dget_dset_apply option.inject)
  qed
  then have "spent ?hh (w_tokens (after_calls c calls w1)) \<and> system_ok c (after_calls c calls w1)"
    using spent_calls [OF enroll_ok [OF ok assms(2,3)] assms(2) _ assms(5)] by blast
  then show ?thesis
    using spent_refuses [of "wr_hash c" cmd'] system_parts(4) assms(6) by metis
qed

text \<open>A concrete life of a token: a node is registered, gets a token and enrols with it.\<close>

definition edge_cmd :: register_node_cmd where
  "edge_cmd = \<lparr>rn_name = ''edge'', rn_mgmt_ip = ''10.0.0.1'', rn_roles = [], rn_labels = [], rn_created_by = None\<rparr>"

definition edge_node :: node where
  "edge_node = registered ''node_'' 0 edge_cmd"

definition enroll_cmd :: enroll_agent_cmd where
  "enroll_cmd = \<lparr>ea_plaintext = ''secret'', ea_agent_version = None, ea_capabilities = None, ea_tls_thumbprint = None\<rparr>"

lemma node_id_0: "factory_id NodeId (e_rnd example_env 0) = ''node_''"
  by (simp add: factory_id_def new_id_def example_env_def)

lemma edge_mk: "mk_node edge_node = Inr edge_node"
  using example_node_addr
  by (simp add: mk_node_def edge_node_def registered_def edge_cmd_def opt_thumbprint_def blank_iff py_isspace_def Let_def)

lemma edge_registered:
  obtains op w where "register_node example_env edge_cmd (empty_world ()) = (Inr (edge_node, op), w)"
    "w_nodes w = [(''node_'', edge_node)]" "w_tokens w = []" "w_clock w = 6"
proof -
  let ?w = "(empty_world ())\<lparr>w_clock := 1, w_ids := 2\<rparr>"
  have start: "w_clock (empty_world ()) = 0" "w_ids (empty_world ()) = 0" "e_now example_env 0 = 0"
    by (simp_all add: empty_world_def example_env_def)
  obtain op where op: "advance example_env (done_in ''validating node intent'' ''persisting node record''
              ''verifying persisted record'' ''node registered (pending agent enrolment)'')
       (accept (factory_id OperationId (e_rnd example_env 1)) NODE_ENROLL \<lparr>ref_type = ''node'', ref_id = ''node_''\<rparr> 0
          (rn_created_by edge_cmd) (''register node '' @ py_repr (rn_name edge_cmd))) ?w =
      (Inr op, ?w\<lparr>w_clock := w_clock ?w + 4\<rparr>)"
    using advance_all by blast
  have free: "node_by_name (rn_name edge_cmd) (w_nodes (empty_world ())) = None"
    by (simp add: empty_world_def node_by_name_def)
  define ev where "ev = [(''name'', JStr (nd_name edge_node)), (''mgmt_ip'', JStr (nd_mgmt_ip edge_node)),
        (''status'', JStr (node_status_value (nd_status edge_node)))]"
  show ?thesis
  proof (rule that)
    show "register_node example_env edge_cmd (empty_world ()) = (Inr (edge_node, op),
        noted example_env ''node.registered'' (nd_id edge_node) ev
          (?w\<lparr>w_clock := 5, w_nodes := node_save edge_node (w_nodes ?w), w_operations := operation_save op (w_operations ?w)\<rparr>))"
      using free op edge_mk
      by (simp add: register_node_def bindM_guard bindM_now bindM_fresh start node_id_0 ev_def
          bindM_run [of "advance _ _ _"] numeral_eq_Suc flip: edge_node_def)
  qed (simp_all add: empty_world_def node_save_def edge_node_def registered_def noted_def)
qed

definition edge_calls :: "api_call list" where
  "edge_calls = [Register_Node edge_cmd, Issue_Token ''secret'' 60 ''node_'' None]"

lemma edge_enrolled:
  obtains n w1 where
    "enroll_agent example_env (\<lambda>s. s) enroll_cmd (after_calls example_wiring edge_calls (empty_world ())) = (Inr n, w1)"
    "length (w_tokens (after_calls example_wiring edge_calls (empty_world ()))) = 1"
proof -
  obtain op w where reg: "register_node example_env edge_cmd (empty_world ()) = (Inr (edge_node, op), w)"
      "w_nodes w = [(''node_'', edge_node)]" "w_tokens w = []" "w_clock w = 6"
    by (rule edge_registered)
  let ?t = "\<lparr>etk_id = factory_id EnrollmentTokenId (e_rnd example_env (w_ids w)), etk_node_id = ''node_'',
      etk_token_hash = ''secret'', etk_issued_at = e_now example_env 6, etk_expires_at = e_now example_env 6 + seconds 60,
      etk_used_at = None, etk_issued_by = None\<rparr>"
  let ?w2 = "w\<lparr>w_ids := w_ids w + 1, w_clock := 7, w_tokens := [(etk_id ?t, ?t)]\<rparr>"
  have issue: "issue_enrollment_token example_env (\<lambda>s. s) ''secret'' 60 ''node_'' None w = (Inr (?t, ''secret''), ?w2)"
    using reg by (simp add: issue_enrollment_token_def bindM_run [of "find_node _"] find_node_run bindM_guard
        bindM_fresh bindM_now issue_token_def token_save_def edge_node_def registered_def)
  have w2: "after_calls example_wiring edge_calls (empty_world ()) = ?w2"
    using reg(1) issue by (simp add: edge_calls_def example_wiring_def bindM_run)
  have "\<exists>n w1. enroll_agent example_env (\<lambda>s. s) enroll_cmd ?w2 = (Inr n, w1)"
    using reg
    by (simp add: enroll_agent_def bindM_guard bindM_now enroll_cmd_def blank_iff py_isspace_def token_by_hash_def
        consume_token_def token_is_expired_def example_env_def edge_node_def registered_def enroll_def
        opt_thumbprint_def)
  then obtain n w1 where "enroll_agent example_env (\<lambda>s. s) enroll_cmd ?w2 = (Inr n, w1)" by blast
  then show ?thesis by (intro that) (simp_all add: w2)
qed

theorem token_single_use_witness:
  "\<exists>e w3. enroll_agent example_env (\<lambda>s. s) enroll_cmd (after_calls example_wiring [Remove_Node ''node_'' None]
     (snd (enroll_agent example_env (\<lambda>s. s) enroll_cmd (after_calls example_wiring edge_calls (empty_world ()))))) = (Inl e, w3)"
proof -
  have wiring: "wr_env example_wiring = example_env" "wr_hash example_wiring = (\<lambda>s. s)"
    by (simp_all add: example_wiring_def)
  have reach: "reachable example_wiring any_call (after_calls example_wiring edge_calls (empty_world ()))"
    by (rule reachable_calls [OF reachable.start]) (simp add: edge_calls_def)
  obtain n w1 where run: "enroll_agent example_env (\<lambda>s. s) enroll_cmd
        (after_calls example_wiring edge_calls (empty_world ())) = (Inr n, w1)"
      and one: "length (w_tokens (after_calls example_wiring edge_calls (empty_world ()))) = 1"
    by (rule edge_enrolled)
  from one obtain k v where "w_tokens (after_calls example_wiring edge_calls (empty_world ())) = [(k, v)]"
    by (metis One_nat_def length_0_conv length_Suc_conv surj_pair)
  then have "\<forall>i j t u. dget (w_tokens (after_calls example_wiring edge_calls (empty_world ()))) i = Some t \<longrightarrow>
      dget (w_tokens (after_calls example_wiring edge_calls (empty_world ()))) j = Some u \<longrightarrow>
      etk_token_hash t = wr_hash example_wiring (ea_plaintext enroll_cmd) \<longrightarrow>
      etk_token_hash u = wr_hash example_wiring (ea_plaintext enroll_cmd) \<longrightarrow> i = j"
    by (simp split: if_splits)
  from token_single_use [OF reach example_inj run [folded wiring] this, of "[Remove_Node ''node_'' None]" enroll_cmd]
  show ?thesis unfolding wiring run snd_conv by auto
qed

end
