(* ===== verification/N1_Entities.thy ===== *)
theory N1_Entities
  imports PyIp Errors Node
begin

text \<open>
  The entities of the port-level catalogue: \<open>LogicalPort\<close>, \<open>SecurityGroup\<close> and its members,
  \<open>AddressPool\<close>, \<open>ServiceObject\<close> and \<open>QosPolicy\<close> (\<open>core/entities/\<close>). \<open>mk_\<close> is the check of a
  constructor (\<open>__post_init__\<close>, with its normalisation); a method returns the updated record, or
  the error it raises. \<open>_valid\<close> is what every constructor and every method establishes; where
  \<open>update\<close> checks less than the constructor does, the difference is not part of it.
\<close>

definition max_name_len :: nat where
  "max_name_len = 255"

definition max_desc_len :: nat where
  "max_desc_len = 512"

text \<open>The checks of a name that every entity of the catalogue repeats.\<close>

definition name_check :: "string \<Rightarrow> exc + unit" where
  "name_check s =
     bindE (require (\<not> blank s) err_validation) (\<lambda>_. require (length s \<le> max_name_len) err_validation)"

definition new_name :: "string option \<Rightarrow> string \<Rightarrow> exc + string" where
  "new_name v old = (case v of None \<Rightarrow> Inr old
     | Some s \<Rightarrow> bindE (require (py_strip s \<noteq> []) err_validation) (\<lambda>_. Inr s))"

text \<open>\<open>dict(labels or {})\<close> and \<open>if v is not None: self.f = v\<close> for a field that is never \<open>None\<close>.\<close>

definition or_default :: "'a \<Rightarrow> 'a option \<Rightarrow> 'a" where
  "or_default d v = (case v of None \<Rightarrow> d | Some x \<Rightarrow> x)"

lemma or_default_simps [simp]: "or_default d None = d" "or_default d (Some x) = x"
  by (simp_all add: or_default_def)

lemma py_strip_Nil [simp]: "py_strip [] = []"
  by (simp add: py_strip_def)

lemma name_check_Inr [simp]: "name_check s = Inr u \<longleftrightarrow> \<not> blank s \<and> length s \<le> max_name_len"
  by (auto simp: name_check_def bindE_Inr_iff)

lemma new_name_nonblank: "\<not> blank old \<Longrightarrow> new_name v old = Inr s \<Longrightarrow> \<not> blank s"
  by (auto simp: new_name_def blank_def bindE_Inr_iff split: option.splits)

subsection \<open>Logical ports\<close>

datatype lport_status = LP_PENDING | LP_ACTIVE | LP_DETACHED

record logical_port =
  lp_id :: string
  lp_name :: string
  lp_node_id :: string
  lp_network_id :: string
  lp_created_at :: time
  lp_updated_at :: time
  lp_vif_id :: "string option"
  lp_mac_address :: "string option"
  lp_ip_address :: "string option"
  lp_status :: lport_status
  lp_project_id :: "string option"
  lp_labels :: "(string, string) dict"

text \<open>\<open>_MAC_RE\<close>: seventeen characters, hex digits with a colon at every third place.\<close>

definition mac_match :: "string \<Rightarrow> bool" where
  "mac_match s \<longleftrightarrow> length s = 17 \<and>
     list_all (\<lambda>i. if i mod 3 = 2 then s ! i = CHR '':'' else s ! i \<in> set ''0123456789abcdef'') [0..<17]"

definition mac_normal :: "string option \<Rightarrow> exc + string option" where
  "mac_normal v = (case v of None \<Rightarrow> Inr None
     | Some m \<Rightarrow> let mac = py_strip (py_lower m)
                 in bindE (require (mac_match mac) err_validation) (\<lambda>_. Inr (Some mac)))"

definition ip_text_check :: "string option \<Rightarrow> exc + unit" where
  "ip_text_check v = (case v of None \<Rightarrow> Inr () | Some a \<Rightarrow> require (ip_address a \<noteq> None) err_validation)"

definition mk_logical_port :: "logical_port \<Rightarrow> exc + logical_port" where
  "mk_logical_port p =
     bindE (name_check (lp_name p)) (\<lambda>_.
     bindE (mac_normal (lp_mac_address p)) (\<lambda>mac.
     bindE (ip_text_check (lp_ip_address p)) (\<lambda>_.
     Inr (p\<lparr>lp_mac_address := mac\<rparr>))))"

definition lp_attach :: "string option \<Rightarrow> time \<Rightarrow> logical_port \<Rightarrow> logical_port" where
  "lp_attach vif now p =
     p\<lparr>lp_status := LP_ACTIVE, lp_vif_id := or_keep vif (lp_vif_id p), lp_updated_at := now\<rparr>"

definition lp_detach :: "time \<Rightarrow> logical_port \<Rightarrow> logical_port" where
  "lp_detach now p = p\<lparr>lp_status := LP_DETACHED, lp_vif_id := None, lp_updated_at := now\<rparr>"

definition lp_update ::
  "string option \<Rightarrow> (string, string) dict option \<Rightarrow> time \<Rightarrow> logical_port \<Rightarrow> exc + logical_port" where
  "lp_update name labels now p =
     bindE (new_name name (lp_name p)) (\<lambda>nm.
     Inr (p\<lparr>lp_name := nm, lp_labels := or_default (lp_labels p) labels, lp_updated_at := now\<rparr>))"

definition lp_valid :: "logical_port \<Rightarrow> bool" where
  "lp_valid p \<longleftrightarrow> \<not> blank (lp_name p) \<and>
     (case lp_mac_address p of None \<Rightarrow> True | Some m \<Rightarrow> mac_match m) \<and>
     (case lp_ip_address p of None \<Rightarrow> True | Some a \<Rightarrow> ip_address a \<noteq> None) \<and>
     (lp_status p = LP_DETACHED \<longrightarrow> lp_vif_id p = None)"

lemma mk_logical_port_valid:
  "mk_logical_port p = Inr q \<Longrightarrow> lp_status p \<noteq> LP_DETACHED \<Longrightarrow> lp_valid q \<and> lp_id q = lp_id p"
  by (auto simp: mk_logical_port_def bindE_Inr_iff mac_normal_def ip_text_check_def lp_valid_def Let_def
      split: option.splits)

lemma lp_attach_valid: "lp_valid p \<Longrightarrow> lp_valid (lp_attach v now p) \<and> lp_id (lp_attach v now p) = lp_id p"
  by (simp add: lp_valid_def lp_attach_def)

lemma lp_detach_valid: "lp_valid p \<Longrightarrow> lp_valid (lp_detach now p) \<and> lp_id (lp_detach now p) = lp_id p"
  by (simp add: lp_valid_def lp_detach_def)

lemma lp_update_valid:
  "lp_valid p \<Longrightarrow> lp_update nm ls now p = Inr q \<Longrightarrow> lp_valid q \<and> lp_id q = lp_id p"
  by (auto simp: lp_update_def lp_valid_def bindE_Inr_iff dest: new_name_nonblank)

subsection \<open>Security groups\<close>

record security_group =
  sg_id :: string
  sg_name :: string
  sg_created_at :: time
  sg_updated_at :: time
  sg_description :: string
  sg_project_id :: "string option"
  sg_labels :: "(string, string) dict"

definition mk_security_group :: "security_group \<Rightarrow> exc + security_group" where
  "mk_security_group g =
     bindE (name_check (sg_name g)) (\<lambda>_.
     bindE (require (length (sg_description g) \<le> max_desc_len) err_validation) (\<lambda>_. Inr g))"

definition sg_update ::
  "string option \<Rightarrow> string option \<Rightarrow> (string, string) dict option \<Rightarrow> time \<Rightarrow> security_group
     \<Rightarrow> exc + security_group" where
  "sg_update name desc labels now g =
     bindE (case name of None \<Rightarrow> Inr (sg_name g)
            | Some s \<Rightarrow> bindE (require (py_strip s \<noteq> []) err_validation) (\<lambda>_.
                       bindE (require (length s \<le> max_name_len) err_validation) (\<lambda>_. Inr s))) (\<lambda>nm.
     bindE (case desc of None \<Rightarrow> Inr (sg_description g)
            | Some s \<Rightarrow> bindE (require (length s \<le> max_desc_len) err_validation) (\<lambda>_. Inr s)) (\<lambda>ds.
     Inr (g\<lparr>sg_name := nm, sg_description := ds, sg_labels := or_default (sg_labels g) labels,
            sg_updated_at := now\<rparr>)))"

definition sg_valid :: "security_group \<Rightarrow> bool" where
  "sg_valid g \<longleftrightarrow> mk_security_group g = Inr g"

lemma sg_valid_iff:
  "sg_valid g \<longleftrightarrow> \<not> blank (sg_name g) \<and> length (sg_name g) \<le> max_name_len \<and>
     length (sg_description g) \<le> max_desc_len"
  by (auto simp: sg_valid_def mk_security_group_def bindE_Inr_iff)

lemma mk_security_group_valid: "mk_security_group g = Inr h \<Longrightarrow> sg_valid h \<and> sg_id h = sg_id g"
  by (auto simp: sg_valid_iff mk_security_group_def bindE_Inr_iff)

lemma sg_update_valid:
  "sg_valid g \<Longrightarrow> sg_update nm ds ls now g = Inr h \<Longrightarrow> sg_valid h \<and> sg_id h = sg_id g"
  by (auto simp: sg_update_def sg_valid_iff bindE_Inr_iff blank_def split: option.splits)

record sg_member =
  sgm_sg_id :: string
  sgm_type :: string
  sgm_value :: string
  sgm_created_at :: time

definition member_types :: "string list" where
  "member_types = [''logical_port'', ''cidr'', ''address_pool'']"

definition mk_sg_member :: "sg_member \<Rightarrow> exc + sg_member" where
  "mk_sg_member m =
     bindE (require (sgm_type m \<in> set member_types) err_validation) (\<lambda>_.
     bindE (require (sgm_value m \<noteq> []) err_validation) (\<lambda>_. Inr m))"

abbreviation sgm_key :: "sg_member \<Rightarrow> string \<times> string \<times> string" where
  "sgm_key m \<equiv> (sgm_sg_id m, sgm_type m, sgm_value m)"

definition sgm_valid :: "sg_member \<Rightarrow> bool" where
  "sgm_valid m \<longleftrightarrow> mk_sg_member m = Inr m"

lemma mk_sg_member_valid: "mk_sg_member m = Inr n \<Longrightarrow> sgm_valid n \<and> n = m"
  by (auto simp: sgm_valid_def mk_sg_member_def bindE_Inr_iff)

subsection \<open>Address pools\<close>

record address_pool =
  ap_id :: string
  ap_name :: string
  ap_created_at :: time
  ap_updated_at :: time
  ap_description :: string
  ap_project_id :: "string option"
  ap_cidrs :: "string list"
  ap_labels :: "(string, string) dict"

definition cidrs_check :: "string list \<Rightarrow> exc + unit" where
  "cidrs_check cs = each (\<lambda>c. require (ip_network c False \<noteq> None) err_validation) cs"

definition mk_address_pool :: "address_pool \<Rightarrow> exc + address_pool" where
  "mk_address_pool p =
     bindE (name_check (ap_name p)) (\<lambda>_.
     bindE (require (length (ap_description p) \<le> max_desc_len) err_validation) (\<lambda>_.
     bindE (cidrs_check (ap_cidrs p)) (\<lambda>_. Inr p)))"

definition ap_update ::
  "string option \<Rightarrow> string option \<Rightarrow> string list option \<Rightarrow> (string, string) dict option \<Rightarrow> time
     \<Rightarrow> address_pool \<Rightarrow> exc + address_pool" where
  "ap_update name desc cidrs labels now p =
     bindE (new_name name (ap_name p)) (\<lambda>nm.
     bindE (case cidrs of None \<Rightarrow> Inr (ap_cidrs p)
            | Some cs \<Rightarrow> bindE (cidrs_check cs) (\<lambda>_. Inr cs)) (\<lambda>cs.
     Inr (p\<lparr>ap_name := nm, ap_description := or_default (ap_description p) desc, ap_cidrs := cs,
            ap_labels := or_default (ap_labels p) labels, ap_updated_at := now\<rparr>)))"

definition ap_valid :: "address_pool \<Rightarrow> bool" where
  "ap_valid p \<longleftrightarrow> \<not> blank (ap_name p) \<and> list_all (\<lambda>c. ip_network c False \<noteq> None) (ap_cidrs p)"

lemma mk_address_pool_valid: "mk_address_pool p = Inr q \<Longrightarrow> ap_valid q \<and> ap_id q = ap_id p"
  by (auto simp: mk_address_pool_def bindE_Inr_iff ap_valid_def cidrs_check_def list_all_iff)

lemma ap_update_valid:
  "ap_valid p \<Longrightarrow> ap_update nm ds cs ls now p = Inr q \<Longrightarrow> ap_valid q \<and> ap_id q = ap_id p"
  by (auto simp: ap_update_def ap_valid_def bindE_Inr_iff cidrs_check_def list_all_iff
      dest: new_name_nonblank split: option.splits)

subsection \<open>Service objects\<close>

record service_object =
  so_id :: string
  so_name :: string
  so_protocol :: string
  so_created_at :: time
  so_updated_at :: time
  so_description :: string
  so_project_id :: "string option"
  so_ports :: "string list"
  so_labels :: "(string, string) dict"

definition service_protocols :: "string list" where
  "service_protocols = [''tcp'', ''udp'', ''icmp'', ''any'']"

text \<open>
  \<open>^\d+(-\d+)?$\<close>: one run of digits or two joined by a dash; \<open>$\<close> also matches before a final
  newline. \<open>int\<close> strips the newline, and raises on more than 4300 digits.
\<close>

definition drop_newline :: "string \<Rightarrow> string" where
  "drop_newline s = (if s \<noteq> [] \<and> last s = CHR 0x0A then butlast s else s)"

definition port_spec_parts :: "string \<Rightarrow> string list option" where
  "port_spec_parts spec =
     (let parts = split (CHR ''-'') (drop_newline spec)
      in if length parts \<le> 2 \<and> list_all (\<lambda>p. p \<noteq> [] \<and> list_all is_digit p) parts then Some parts else None)"

definition port_int :: "string \<Rightarrow> exc + nat" where
  "port_int s = (if 4300 < length s then Inl (PyError PyValueError)
     else of_option (PyError PyValueError) (num_val dec_digit 10 0 s))"

definition port_spec_check :: "string \<Rightarrow> exc + unit" where
  "port_spec_check spec =
     bindE (of_option err_validation (port_spec_parts spec)) (\<lambda>parts.
     bindE (port_int (hd parts)) (\<lambda>lo.
     bindE (if length parts = 2 then port_int (parts ! 1) else Inr lo) (\<lambda>hi.
     bindE (require (\<not> (lo < 1 \<or> hi > 65535)) err_validation) (\<lambda>_.
     require (\<not> (length parts = 2 \<and> lo \<ge> hi)) err_validation))))"

definition port_specs_check :: "string list \<Rightarrow> string \<Rightarrow> exc + unit" where
  "port_specs_check ports protocol =
     bindE (require (\<not> (ports \<noteq> [] \<and> protocol \<in> {''icmp'', ''any''})) err_validation) (\<lambda>_.
     each port_spec_check ports)"

definition mk_service_object :: "service_object \<Rightarrow> exc + service_object" where
  "mk_service_object s =
     bindE (name_check (so_name s)) (\<lambda>_.
     bindE (require (length (so_description s) \<le> max_desc_len) err_validation) (\<lambda>_.
     bindE (require (so_protocol s \<in> set service_protocols) err_validation) (\<lambda>_.
     bindE (port_specs_check (so_ports s) (so_protocol s)) (\<lambda>_. Inr s))))"

definition so_update ::
  "string option \<Rightarrow> string option \<Rightarrow> string list option \<Rightarrow> (string, string) dict option \<Rightarrow> time
     \<Rightarrow> service_object \<Rightarrow> exc + service_object" where
  "so_update name desc ports labels now s =
     bindE (new_name name (so_name s)) (\<lambda>nm.
     bindE (case ports of None \<Rightarrow> Inr (so_ports s)
            | Some ps \<Rightarrow> bindE (port_specs_check ps (so_protocol s)) (\<lambda>_. Inr ps)) (\<lambda>ps.
     Inr (s\<lparr>so_name := nm, so_description := or_default (so_description s) desc, so_ports := ps,
            so_labels := or_default (so_labels s) labels, so_updated_at := now\<rparr>)))"

definition so_valid :: "service_object \<Rightarrow> bool" where
  "so_valid s \<longleftrightarrow> \<not> blank (so_name s) \<and> so_protocol s \<in> set service_protocols \<and>
     port_specs_check (so_ports s) (so_protocol s) = Inr ()"

lemma mk_service_object_valid: "mk_service_object s = Inr t \<Longrightarrow> so_valid t \<and> so_id t = so_id s"
  by (auto simp: mk_service_object_def bindE_Inr_iff so_valid_def)

lemma so_update_valid:
  "so_valid s \<Longrightarrow> so_update nm ds ps ls now s = Inr t \<Longrightarrow> so_valid t \<and> so_id t = so_id s"
  by (auto simp: so_update_def so_valid_def bindE_Inr_iff dest: new_name_nonblank split: option.splits)

subsection \<open>QoS policies\<close>

record qos_policy =
  qp_id :: string
  qp_name :: string
  qp_created_at :: time
  qp_updated_at :: time
  qp_description :: string
  qp_project_id :: "string option"
  qp_ingress_kbps :: "int option"
  qp_egress_kbps :: "int option"
  qp_burst_kb :: "int option"
  qp_dscp :: "int option"
  qp_labels :: "(string, string) dict"

definition rate_ok :: "int option \<Rightarrow> bool" where
  "rate_ok v \<longleftrightarrow> (case v of None \<Rightarrow> True | Some n \<Rightarrow> \<not> n \<le> 0)"

definition validate_rates :: "qos_policy \<Rightarrow> exc + unit" where
  "validate_rates q =
     bindE (each (\<lambda>v. require (rate_ok v) err_validation)
             [qp_ingress_kbps q, qp_egress_kbps q, qp_burst_kb q]) (\<lambda>_.
     require (case qp_dscp q of None \<Rightarrow> True | Some d \<Rightarrow> 0 \<le> d \<and> d \<le> 63) err_validation)"

definition mk_qos_policy :: "qos_policy \<Rightarrow> exc + qos_policy" where
  "mk_qos_policy q =
     bindE (name_check (qp_name q)) (\<lambda>_.
     bindE (require (length (qp_description q) \<le> max_desc_len) err_validation) (\<lambda>_.
     bindE (validate_rates q) (\<lambda>_. Inr q)))"

record qos_change =
  qc_name :: "string option"
  qc_description :: "string option"
  qc_ingress_kbps :: "int option"
  qc_egress_kbps :: "int option"
  qc_burst_kb :: "int option"
  qc_dscp :: "int option"
  qc_labels :: "(string, string) dict option"

definition qp_update :: "qos_change \<Rightarrow> time \<Rightarrow> qos_policy \<Rightarrow> exc + qos_policy" where
  "qp_update c now q =
     bindE (new_name (qc_name c) (qp_name q)) (\<lambda>nm.
     let q' = q\<lparr>qp_name := nm, qp_description := or_default (qp_description q) (qc_description c),
                qp_ingress_kbps := or_keep (qc_ingress_kbps c) (qp_ingress_kbps q),
                qp_egress_kbps := or_keep (qc_egress_kbps c) (qp_egress_kbps q),
                qp_burst_kb := or_keep (qc_burst_kb c) (qp_burst_kb q),
                qp_dscp := or_keep (qc_dscp c) (qp_dscp q),
                qp_labels := or_default (qp_labels q) (qc_labels c)\<rparr>
     in bindE (validate_rates q') (\<lambda>_. Inr (q'\<lparr>qp_updated_at := now\<rparr>)))"

definition qp_valid :: "qos_policy \<Rightarrow> bool" where
  "qp_valid q \<longleftrightarrow> \<not> blank (qp_name q) \<and> validate_rates q = Inr ()"

lemma mk_qos_policy_valid: "mk_qos_policy q = Inr r \<Longrightarrow> qp_valid r \<and> qp_id r = qp_id q"
  by (auto simp: mk_qos_policy_def bindE_Inr_iff qp_valid_def)

lemma qp_update_valid: "qp_valid q \<Longrightarrow> qp_update c now q = Inr r \<Longrightarrow> qp_valid r \<and> qp_id r = qp_id q"
  by (auto simp: qp_update_def qp_valid_def bindE_Inr_iff Let_def validate_rates_def dest: new_name_nonblank)

end
