(* ===== verification/N2_Entities.thy ===== *)
theory N2_Entities
  imports N1_Entities "HOL-Library.List_Lexorder" "HOL-Library.Char_ord"
begin

text \<open>
  Security policies with their ordered rules (\<open>core/entities/security_policy.py\<close>) and 802.1q trunk
  ports (\<open>core/entities/trunk_port.py\<close>). Rules are kept sorted by priority; \<open>sorted\<close> is stable, so
  rules of one priority keep the order they were added in.
\<close>

subsection \<open>Rules\<close>

record policy_rule =
  pr_id :: string
  pr_priority :: int
  pr_direction :: string
  pr_action :: string
  pr_source_type :: string
  pr_source_value :: string
  pr_dest_type :: string
  pr_dest_value :: string
  pr_service_id :: "string option"
  pr_enabled :: bool
  pr_comment :: string
  pr_packets :: int
  pr_bytes :: int

definition endpoint_types :: "string list" where
  "endpoint_types = [''security_group'', ''address_pool'', ''cidr'', ''any'']"

definition rule_directions :: "string list" where
  "rule_directions = [''ingress'', ''egress'', ''both'']"

definition rule_actions :: "string list" where
  "rule_actions = [''allow'', ''deny'']"

definition endpoint_check :: "string \<times> string \<Rightarrow> exc + unit" where
  "endpoint_check ep =
     require (\<not> (fst ep = ''cidr'' \<and> snd ep \<noteq> [] \<and> ip_network (snd ep) False = None)) err_validation"

definition rule_check :: "policy_rule \<Rightarrow> exc + unit" where
  "rule_check r =
     bindE (require (1 \<le> pr_priority r \<and> pr_priority r \<le> 65535) err_validation) (\<lambda>_.
     bindE (require (pr_direction r \<in> set rule_directions) err_validation) (\<lambda>_.
     bindE (require (pr_action r \<in> set rule_actions) err_validation) (\<lambda>_.
     bindE (require (pr_source_type r \<in> set endpoint_types) err_validation) (\<lambda>_.
     bindE (require (pr_dest_type r \<in> set endpoint_types) err_validation) (\<lambda>_.
     each endpoint_check [(pr_source_type r, pr_source_value r), (pr_dest_type r, pr_dest_value r)])))))"

text \<open>\<open>SecurityPolicyRule.new\<close>: the id is the first twelve hex digits of a random uuid.\<close>

record rule_args =
  ra_priority :: int
  ra_direction :: string
  ra_action :: string
  ra_source_type :: string
  ra_source_value :: string
  ra_dest_type :: string
  ra_dest_value :: string
  ra_service_id :: "string option"
  ra_enabled :: bool
  ra_comment :: string

definition new_rule :: "string \<Rightarrow> rule_args \<Rightarrow> exc + policy_rule" where
  "new_rule uuid_hex a =
     (let r = \<lparr>pr_id = take 12 uuid_hex, pr_priority = ra_priority a, pr_direction = ra_direction a,
               pr_action = ra_action a, pr_source_type = ra_source_type a,
               pr_source_value = ra_source_value a, pr_dest_type = ra_dest_type a,
               pr_dest_value = ra_dest_value a, pr_service_id = ra_service_id a,
               pr_enabled = ra_enabled a, pr_comment = ra_comment a, pr_packets = 0, pr_bytes = 0\<rparr>
      in bindE (rule_check r) (\<lambda>_. Inr r))"

subsection \<open>Policies\<close>

datatype policy_status = SP_DRAFT | SP_COMPILED | SP_APPLIED | SP_FAILED

record security_policy =
  sp_id :: string
  sp_name :: string
  sp_description :: string
  sp_project_id :: "string option"
  sp_labels :: "(string, string) dict"
  sp_rules :: "policy_rule list"
  sp_status :: policy_status
  sp_compiled_ruleset :: "string option"
  sp_compiled_at :: "time option"
  sp_applied_at :: "time option"
  sp_created_at :: time
  sp_updated_at :: time

definition sp_add_rule :: "policy_rule \<Rightarrow> time \<Rightarrow> security_policy \<Rightarrow> security_policy" where
  "sp_add_rule r now p =
     p\<lparr>sp_rules := sort_key pr_priority (sp_rules p @ [r]), sp_status := SP_DRAFT,
       sp_compiled_ruleset := None, sp_updated_at := now\<rparr>"

definition sp_remove_rule :: "string \<Rightarrow> time \<Rightarrow> security_policy \<Rightarrow> exc + security_policy" where
  "sp_remove_rule rid now p =
     (let rs = filter (\<lambda>r. pr_id r \<noteq> rid) (sp_rules p)
      in bindE (require (length rs \<noteq> length (sp_rules p)) err_validation) (\<lambda>_.
         Inr (p\<lparr>sp_rules := rs, sp_status := SP_DRAFT, sp_compiled_ruleset := None,
                sp_updated_at := now\<rparr>)))"

definition sp_mark_compiled :: "string \<Rightarrow> time \<Rightarrow> security_policy \<Rightarrow> security_policy" where
  "sp_mark_compiled ruleset now p =
     p\<lparr>sp_compiled_ruleset := Some ruleset, sp_compiled_at := Some now, sp_status := SP_COMPILED,
       sp_updated_at := now\<rparr>"

definition sp_mark_applied :: "time \<Rightarrow> security_policy \<Rightarrow> exc + security_policy" where
  "sp_mark_applied now p =
     bindE (require (sp_status p = SP_COMPILED) err_validation) (\<lambda>_.
     Inr (p\<lparr>sp_applied_at := Some now, sp_status := SP_APPLIED, sp_updated_at := now\<rparr>))"

definition sp_mark_failed :: "time \<Rightarrow> security_policy \<Rightarrow> security_policy" where
  "sp_mark_failed now p = p\<lparr>sp_status := SP_FAILED, sp_updated_at := now\<rparr>"

text \<open>The first rule with the id gets the counters.\<close>

fun count_rule :: "string \<Rightarrow> int \<Rightarrow> int \<Rightarrow> policy_rule list \<Rightarrow> policy_rule list option" where
  "count_rule rid pk by [] = None"
| "count_rule rid pk by (r # rs) =
     (if pr_id r = rid then Some (r\<lparr>pr_packets := pk, pr_bytes := by\<rparr> # rs)
      else map_option ((#) r) (count_rule rid pk by rs))"

definition sp_update_counters ::
  "string \<Rightarrow> int \<Rightarrow> int \<Rightarrow> security_policy \<Rightarrow> exc + security_policy" where
  "sp_update_counters rid pk by p =
     (case count_rule rid pk by (sp_rules p) of
        None \<Rightarrow> Inl err_validation
      | Some rs \<Rightarrow> Inr (p\<lparr>sp_rules := rs\<rparr>))"

text \<open>\<open>x is not None and x != self.x\<close>\<close>

definition differs :: "'a option \<Rightarrow> 'a \<Rightarrow> bool" where
  "differs v old \<longleftrightarrow> v \<noteq> None \<and> v \<noteq> Some old"

definition sp_update ::
  "string option \<Rightarrow> string option \<Rightarrow> (string, string) dict option \<Rightarrow> time \<Rightarrow> security_policy
     \<Rightarrow> security_policy" where
  "sp_update name desc labels now p =
     p\<lparr>sp_name := or_default (sp_name p) name, sp_description := or_default (sp_description p) desc,
       sp_labels := or_default (sp_labels p) labels,
       sp_updated_at := (if differs name (sp_name p) \<or> differs desc (sp_description p) \<or> labels \<noteq> None
                         then now else sp_updated_at p)\<rparr>"

text \<open>
  The invariant of a policy: its rules pass their constructor and are in priority order, and a
  policy that counts as compiled or applied carries the rule set it was compiled to.
\<close>

definition sp_valid :: "security_policy \<Rightarrow> bool" where
  "sp_valid p \<longleftrightarrow> list_all (\<lambda>r. rule_check r = Inr ()) (sp_rules p) \<and>
     sorted (List.map pr_priority (sp_rules p)) \<and>
     (sp_status p \<in> {SP_COMPILED, SP_APPLIED} \<longrightarrow> sp_compiled_ruleset p \<noteq> None)"

lemma new_rule_check: "new_rule u a = Inr r \<Longrightarrow> rule_check r = Inr ()"
  by (auto simp: new_rule_def Let_def bindE_Inr_iff)

lemma sp_add_rule_valid:
  "sp_valid p \<Longrightarrow> rule_check r = Inr () \<Longrightarrow> sp_valid (sp_add_rule r now p) \<and> sp_id (sp_add_rule r now p) = sp_id p"
  by (auto simp: sp_valid_def sp_add_rule_def list_all_iff)

lemma sp_remove_rule_valid:
  "sp_valid p \<Longrightarrow> sp_remove_rule i now p = Inr q \<Longrightarrow> sp_valid q \<and> sp_id q = sp_id p"
  by (auto simp: sp_valid_def sp_remove_rule_def Let_def bindE_Inr_iff list_all_iff sorted_filter)

lemma sp_mark_compiled_valid:
  "sp_valid p \<Longrightarrow> sp_valid (sp_mark_compiled rs now p) \<and> sp_id (sp_mark_compiled rs now p) = sp_id p"
  by (simp add: sp_valid_def sp_mark_compiled_def)

lemma sp_mark_applied_valid:
  "sp_valid p \<Longrightarrow> sp_mark_applied now p = Inr q \<Longrightarrow> sp_valid q \<and> sp_id q = sp_id p"
  by (auto simp: sp_valid_def sp_mark_applied_def bindE_Inr_iff)

lemma sp_update_valid: "sp_valid p \<Longrightarrow> sp_valid (sp_update nm ds ls now p) \<and> sp_id (sp_update nm ds ls now p) = sp_id p"
  by (simp add: sp_valid_def sp_update_def)

lemma count_rule_content:
  "count_rule i pk by rs = Some rs' \<Longrightarrow>
   List.map pr_priority rs' = List.map pr_priority rs \<and>
   (list_all (\<lambda>r. rule_check r = Inr ()) rs \<longrightarrow> list_all (\<lambda>r. rule_check r = Inr ()) rs')"
  by (induction i pk "by" rs arbitrary: rs' rule: count_rule.induct)
     (auto simp: rule_check_def bindE_Inr_iff split: if_splits)

lemma sp_update_counters_valid:
  "sp_valid p \<Longrightarrow> sp_update_counters i pk by p = Inr q \<Longrightarrow> sp_valid q \<and> sp_id q = sp_id p"
  using count_rule_content [of i pk "by" "sp_rules p"]
  by (auto simp: sp_valid_def sp_update_counters_def split: option.splits)

subsection \<open>Trunk ports\<close>

record trunk_port =
  tp_id :: string
  tp_name :: string
  tp_node_id :: string
  tp_vlan_ids :: "int list"
  tp_logical_port_id :: "string option"
  tp_native_vlan :: "int option"
  tp_project_id :: "string option"
  tp_labels :: "(string, string) dict"
  tp_created_at :: time
  tp_updated_at :: time

definition vlan_check :: "int \<Rightarrow> exc + unit" where
  "vlan_check v = require (1 \<le> v \<and> v \<le> 4094) err_validation"

text \<open>\<open>tuple(sorted(set(vlans)))\<close>\<close>

definition sorted_set :: "int list \<Rightarrow> int list" where
  "sorted_set vs = sort (remdups vs)"

definition native_check :: "int option \<Rightarrow> int list \<Rightarrow> exc + unit" where
  "native_check nv vlans = (case nv of None \<Rightarrow> Inr ()
     | Some v \<Rightarrow> bindE (vlan_check v) (\<lambda>_. require (v \<in> set vlans) err_validation))"

definition mk_trunk_port :: "trunk_port \<Rightarrow> exc + trunk_port" where
  "mk_trunk_port t =
     bindE (each vlan_check (tp_vlan_ids t)) (\<lambda>_.
     bindE (native_check (tp_native_vlan t) (tp_vlan_ids t)) (\<lambda>_.
     Inr (t\<lparr>tp_vlan_ids := sorted_set (tp_vlan_ids t)\<rparr>)))"

text \<open>\<open>native_vlan\<close> is \<open>None\<close> for the sentinel "not passed", \<open>Some None\<close> to clear the native VLAN.\<close>

definition tp_update ::
  "string option \<Rightarrow> int list option \<Rightarrow> int option option \<Rightarrow> (string, string) dict option \<Rightarrow> time
     \<Rightarrow> trunk_port \<Rightarrow> exc + trunk_port" where
  "tp_update name vlans native labels now t =
     bindE (case vlans of None \<Rightarrow> Inr (tp_vlan_ids t)
            | Some vs \<Rightarrow> bindE (each vlan_check vs) (\<lambda>_. Inr (sorted_set vs))) (\<lambda>eff.
     bindE (case native of None \<Rightarrow> Inr (tp_native_vlan t)
            | Some nv \<Rightarrow> bindE (native_check nv eff) (\<lambda>_. Inr nv)) (\<lambda>nv.
     Inr (t\<lparr>tp_name := or_default (tp_name t) name, tp_vlan_ids := eff, tp_native_vlan := nv,
            tp_labels := or_default (tp_labels t) labels, tp_updated_at := now\<rparr>)))"

definition tp_valid :: "trunk_port \<Rightarrow> bool" where
  "tp_valid t \<longleftrightarrow> list_all (\<lambda>v. 1 \<le> v \<and> v \<le> 4094) (tp_vlan_ids t) \<and>
     sorted (tp_vlan_ids t) \<and> distinct (tp_vlan_ids t) \<and>
     (case tp_native_vlan t of None \<Rightarrow> True | Some v \<Rightarrow> v \<in> set (tp_vlan_ids t))"

lemma sorted_set_facts [simp]:
  "set (sorted_set vs) = set vs" "sorted (sorted_set vs)" "distinct (sorted_set vs)"
  by (simp_all add: sorted_set_def)

lemma mk_trunk_port_valid: "mk_trunk_port t = Inr u \<Longrightarrow> tp_valid u \<and> tp_id u = tp_id t"
  by (auto simp: mk_trunk_port_def tp_valid_def bindE_Inr_iff vlan_check_def native_check_def
      list_all_iff split: option.splits)

text \<open>
  \<open>update\<close> keeps a trunk port valid when it passes the native VLAN as well, as the use case does.
\<close>

lemma tp_update_valid:
  "tp_valid t \<Longrightarrow> tp_update nm vs (Some nv) ls now t = Inr u \<Longrightarrow> tp_valid u \<and> tp_id u = tp_id t"
  by (auto simp: tp_update_def tp_valid_def bindE_Inr_iff vlan_check_def native_check_def
      list_all_iff split: option.splits)

end
