(* ===== verification/N3_Entities.thy ===== *)
theory N3_Entities
  imports N2_Entities
begin

text \<open>
  Routers with static routes and IPv6 settings (\<open>core/entities/router.py\<close>), floating addresses
  (\<open>floating_ip.py\<close>) and BGP peers (\<open>bgp_peer.py\<close>). \<open>internal_network_ids\<close> is a frozenset; its
  members are kept here without duplicates in insertion order, since every use of the set sorts
  it or asks for membership.
\<close>

subsection \<open>Routers\<close>

record static_route =
  srt_destination :: string
  srt_nexthop :: string

definition mk_static_route :: "string \<Rightarrow> string \<Rightarrow> exc + static_route" where
  "mk_static_route dst hop =
     bindE (require (ip_network dst False \<noteq> None) err_validation) (\<lambda>_.
     bindE (require (ip_address hop \<noteq> None) err_validation) (\<lambda>_.
     Inr \<lparr>srt_destination = dst, srt_nexthop = hop\<rparr>))"

datatype ipv6_mode = IPV6_OFF | IPV6_SLAAC | IPV6_STATEFUL | IPV6_STATELESS

record ipv6_config =
  v6_mode :: ipv6_mode
  v6_prefix :: string
  v6_stateful :: bool

definition is_v6 :: "ipnet \<Rightarrow> bool" where
  "is_v6 net \<longleftrightarrow> ip_bits (nw_addr net) = 128"

definition mk_ipv6_config :: "ipv6_config \<Rightarrow> exc + ipv6_config" where
  "mk_ipv6_config c =
     bindE (if v6_mode c \<noteq> IPV6_OFF \<and> v6_prefix c \<noteq> []
            then bindE (of_option err_validation (ip_network (v6_prefix c) False)) (\<lambda>net.
                 require (is_v6 net) err_validation)
            else Inr ()) (\<lambda>_. Inr c)"

datatype router_status = RT_BUILD | RT_ACTIVE | RT_ERROR | RT_DOWN
datatype ha_mode = HA_NONE | HA_VRRP

record router =
  rt_id :: string
  rt_name :: string
  rt_description :: string
  rt_project_id :: "string option"
  rt_external_network_id :: "string option"
  rt_internal_network_ids :: "string list"
  rt_static_routes :: "static_route list"
  rt_status :: router_status
  rt_admin_state_up :: bool
  rt_ha_mode :: ha_mode
  rt_vrrp_priority :: "int option"
  rt_vrrp_vrid :: "int option"
  rt_ipv6_config :: "ipv6_config option"
  rt_applied_config :: "string option"
  rt_applied_at :: "time option"
  rt_labels :: "(string, string) dict"
  rt_created_at :: time
  rt_updated_at :: time

definition opt_within :: "int \<Rightarrow> int \<Rightarrow> int option \<Rightarrow> bool" where
  "opt_within lo hi v \<longleftrightarrow> (case v of None \<Rightarrow> True | Some n \<Rightarrow> lo \<le> n \<and> n \<le> hi)"

definition validate_vrrp :: "router \<Rightarrow> exc + unit" where
  "validate_vrrp r =
     (if rt_ha_mode r = HA_VRRP then
        bindE (require (opt_within 1 255 (rt_vrrp_vrid r)) err_validation) (\<lambda>_.
        require (opt_within 1 254 (rt_vrrp_priority r)) err_validation)
      else Inr ())"

definition mk_router :: "router \<Rightarrow> exc + router" where
  "mk_router r = bindE (validate_vrrp r) (\<lambda>_. Inr r)"

definition rt_add_static_route :: "static_route \<Rightarrow> time \<Rightarrow> router \<Rightarrow> exc + router" where
  "rt_add_static_route sr now r =
     bindE (require (srt_destination sr \<notin> set (List.map srt_destination (rt_static_routes r)))
              err_validation) (\<lambda>_.
     Inr (r\<lparr>rt_static_routes := rt_static_routes r @ [sr], rt_applied_config := None,
            rt_updated_at := now\<rparr>))"

definition rt_remove_static_route :: "string \<Rightarrow> time \<Rightarrow> router \<Rightarrow> exc + router" where
  "rt_remove_static_route dst now r =
     (let rs = filter (\<lambda>sr. srt_destination sr \<noteq> dst) (rt_static_routes r)
      in bindE (require (length rs \<noteq> length (rt_static_routes r)) err_validation) (\<lambda>_.
         Inr (r\<lparr>rt_static_routes := rs, rt_applied_config := None, rt_updated_at := now\<rparr>)))"

definition rt_add_internal_network :: "string \<Rightarrow> time \<Rightarrow> router \<Rightarrow> router" where
  "rt_add_internal_network nid now r =
     r\<lparr>rt_internal_network_ids := (if nid \<in> set (rt_internal_network_ids r) then rt_internal_network_ids r
                                   else rt_internal_network_ids r @ [nid]),
       rt_applied_config := None, rt_updated_at := now\<rparr>"

definition rt_remove_internal_network :: "string \<Rightarrow> time \<Rightarrow> router \<Rightarrow> exc + router" where
  "rt_remove_internal_network nid now r =
     bindE (require (nid \<in> set (rt_internal_network_ids r)) err_validation) (\<lambda>_.
     Inr (r\<lparr>rt_internal_network_ids := filter (\<lambda>i. i \<noteq> nid) (rt_internal_network_ids r),
            rt_applied_config := None, rt_updated_at := now\<rparr>))"

definition rt_mark_active :: "string \<Rightarrow> time \<Rightarrow> router \<Rightarrow> router" where
  "rt_mark_active config now r =
     r\<lparr>rt_applied_config := Some config, rt_applied_at := Some now, rt_status := RT_ACTIVE,
       rt_updated_at := now\<rparr>"

definition rt_mark_error :: "time \<Rightarrow> router \<Rightarrow> router" where
  "rt_mark_error now r = r\<lparr>rt_status := RT_ERROR, rt_updated_at := now\<rparr>"

definition rt_set_admin_state :: "bool \<Rightarrow> time \<Rightarrow> router \<Rightarrow> router" where
  "rt_set_admin_state up now r =
     r\<lparr>rt_admin_state_up := up, rt_status := (if up then RT_ACTIVE else RT_DOWN), rt_updated_at := now\<rparr>"

text \<open>The arguments of \<open>update\<close>; those with the sentinel default are \<open>None\<close> when not passed.\<close>

record router_change =
  rc_name :: "string option"
  rc_description :: "string option"
  rc_external_network_id :: "string option option"
  rc_ha_mode :: "ha_mode option"
  rc_vrrp_priority :: "int option option"
  rc_vrrp_vrid :: "int option option"
  rc_ipv6_config :: "ipv6_config option option"
  rc_labels :: "(string, string) dict option"

definition topology_changed :: "router_change \<Rightarrow> bool" where
  "topology_changed c \<longleftrightarrow> rc_external_network_id c \<noteq> None \<or> rc_ha_mode c \<noteq> None \<or>
     rc_vrrp_priority c \<noteq> None \<or> rc_vrrp_vrid c \<noteq> None \<or> rc_ipv6_config c \<noteq> None"

definition rt_update :: "router_change \<Rightarrow> time \<Rightarrow> router \<Rightarrow> exc + router" where
  "rt_update c now r =
     (let r1 = r\<lparr>rt_name := or_default (rt_name r) (rc_name c),
                 rt_description := or_default (rt_description r) (rc_description c),
                 rt_external_network_id := or_default (rt_external_network_id r) (rc_external_network_id c),
                 rt_ha_mode := or_default (rt_ha_mode r) (rc_ha_mode c),
                 rt_vrrp_priority := or_default (rt_vrrp_priority r) (rc_vrrp_priority c),
                 rt_vrrp_vrid := or_default (rt_vrrp_vrid r) (rc_vrrp_vrid c),
                 rt_ipv6_config := or_default (rt_ipv6_config r) (rc_ipv6_config c),
                 rt_labels := or_default (rt_labels r) (rc_labels c)\<rparr>
      in if topology_changed c
         then let r2 = r1\<lparr>rt_applied_config := None\<rparr>
              in bindE (validate_vrrp r2) (\<lambda>_. Inr (r2\<lparr>rt_updated_at := now\<rparr>))
         else Inr (r1\<lparr>rt_updated_at := now\<rparr>))"

definition route_valid :: "static_route \<Rightarrow> bool" where
  "route_valid sr \<longleftrightarrow> ip_network (srt_destination sr) False \<noteq> None \<and> ip_address (srt_nexthop sr) \<noteq> None"

definition rt_valid :: "router \<Rightarrow> bool" where
  "rt_valid r \<longleftrightarrow> validate_vrrp r = Inr () \<and> list_all route_valid (rt_static_routes r) \<and>
     distinct (List.map srt_destination (rt_static_routes r)) \<and> distinct (rt_internal_network_ids r) \<and>
     (case rt_ipv6_config r of None \<Rightarrow> True | Some c \<Rightarrow> mk_ipv6_config c = Inr c)"

lemma mk_static_route_valid: "mk_static_route d h = Inr sr \<Longrightarrow> route_valid sr"
  by (auto simp: mk_static_route_def bindE_Inr_iff route_valid_def)

lemma mk_ipv6_config_same: "mk_ipv6_config c = Inr d \<Longrightarrow> d = c"
  by (auto simp: mk_ipv6_config_def bindE_Inr_iff split: if_splits)

lemma mk_router_valid:
  "mk_router r = Inr s \<Longrightarrow> rt_static_routes r = [] \<Longrightarrow> distinct (rt_internal_network_ids r) \<Longrightarrow>
   (case rt_ipv6_config r of None \<Rightarrow> True | Some c \<Rightarrow> mk_ipv6_config c = Inr c) \<Longrightarrow>
   rt_valid s \<and> rt_id s = rt_id r"
  by (auto simp: mk_router_def bindE_Inr_iff rt_valid_def)

lemma validate_vrrp_frame:
  "validate_vrrp (r\<lparr>rt_static_routes := a\<rparr>) = validate_vrrp r"
  "validate_vrrp (r\<lparr>rt_internal_network_ids := ns\<rparr>) = validate_vrrp r"
  "validate_vrrp (r\<lparr>rt_applied_config := b\<rparr>) = validate_vrrp r"
  "validate_vrrp (r\<lparr>rt_updated_at := t\<rparr>) = validate_vrrp r"
  by (simp_all add: validate_vrrp_def)

lemma rt_add_static_route_valid:
  "rt_valid r \<Longrightarrow> route_valid sr \<Longrightarrow> rt_add_static_route sr now r = Inr s \<Longrightarrow> rt_valid s \<and> rt_id s = rt_id r"
  by (auto simp: rt_add_static_route_def bindE_Inr_iff rt_valid_def validate_vrrp_frame)

lemma rt_remove_static_route_valid:
  "rt_valid r \<Longrightarrow> rt_remove_static_route d now r = Inr s \<Longrightarrow> rt_valid s \<and> rt_id s = rt_id r"
  by (auto simp: rt_remove_static_route_def Let_def bindE_Inr_iff rt_valid_def validate_vrrp_frame
      list_all_iff distinct_map_filter)

lemma rt_add_internal_network_valid:
  "rt_valid r \<Longrightarrow> rt_valid (rt_add_internal_network n now r) \<and> rt_id (rt_add_internal_network n now r) = rt_id r"
  by (simp add: rt_add_internal_network_def rt_valid_def validate_vrrp_frame)

lemma rt_remove_internal_network_valid:
  "rt_valid r \<Longrightarrow> rt_remove_internal_network n now r = Inr s \<Longrightarrow> rt_valid s \<and> rt_id s = rt_id r"
  by (auto simp: rt_remove_internal_network_def bindE_Inr_iff rt_valid_def validate_vrrp_frame)

lemma rt_mark_active_valid:
  "rt_valid r \<Longrightarrow> rt_valid (rt_mark_active c now r) \<and> rt_id (rt_mark_active c now r) = rt_id r"
  by (auto simp: rt_mark_active_def rt_valid_def validate_vrrp_def split: if_splits)

lemma rt_set_admin_state_valid:
  "rt_valid r \<Longrightarrow> rt_valid (rt_set_admin_state up now r) \<and> rt_id (rt_set_admin_state up now r) = rt_id r"
  by (auto simp: rt_set_admin_state_def rt_valid_def validate_vrrp_def split: if_splits)

lemma rt_update_valid:
  assumes "rt_valid r" "rt_update c now r = Inr s"
    and "\<And>x. rc_ipv6_config c = Some (Some x) \<Longrightarrow> mk_ipv6_config x = Inr x"
  shows "rt_valid s \<and> rt_id s = rt_id r"
proof -
  have ip: "case or_default (rt_ipv6_config r) (rc_ipv6_config c) of None \<Rightarrow> True
      | Some x \<Rightarrow> mk_ipv6_config x = Inr x"
  proof (cases "rc_ipv6_config c")
    case None
    then show ?thesis using assms(1) by (simp add: rt_valid_def)
  next
    case (Some v)
    then show ?thesis using assms(3) by (cases v) simp_all
  qed
  show ?thesis
  proof (cases "topology_changed c")
    case True
    then show ?thesis
      using assms(1,2) ip by (auto simp: rt_update_def Let_def bindE_Inr_iff rt_valid_def validate_vrrp_frame)
  next
    case False
    then have "rc_ha_mode c = None" "rc_vrrp_vrid c = None" "rc_vrrp_priority c = None"
      by (simp_all add: topology_changed_def)
    then show ?thesis
      using assms(1,2) ip False by (auto simp: rt_update_def Let_def rt_valid_def validate_vrrp_def)
  qed
qed

subsection \<open>Floating addresses\<close>

datatype fip_status = FIP_ACTIVE | FIP_DOWN | FIP_ERROR

record floating_ip =
  fip_id :: string
  fip_external_network_id :: string
  fip_address :: string
  fip_project_id :: "string option"
  fip_fixed_address :: "string option"
  fip_logical_port_id :: "string option"
  fip_router_id :: "string option"
  fip_status :: fip_status
  fip_labels :: "(string, string) dict"
  fip_created_at :: time
  fip_updated_at :: time

definition mk_floating_ip :: "floating_ip \<Rightarrow> exc + floating_ip" where
  "mk_floating_ip f =
     bindE (require (ip_address (fip_address f) \<noteq> None) err_validation) (\<lambda>_.
     bindE (ip_text_check (fip_fixed_address f)) (\<lambda>_. Inr f))"

definition fip_associate ::
  "string \<Rightarrow> string \<Rightarrow> string \<Rightarrow> time \<Rightarrow> floating_ip \<Rightarrow> exc + floating_ip" where
  "fip_associate port fixed router now f =
     bindE (require (ip_address fixed \<noteq> None) err_validation) (\<lambda>_.
     Inr (f\<lparr>fip_logical_port_id := Some port, fip_fixed_address := Some fixed,
            fip_router_id := Some router, fip_status := FIP_ACTIVE, fip_updated_at := now\<rparr>))"

definition fip_disassociate :: "time \<Rightarrow> floating_ip \<Rightarrow> floating_ip" where
  "fip_disassociate now f =
     f\<lparr>fip_logical_port_id := None, fip_fixed_address := None, fip_router_id := None,
       fip_status := FIP_DOWN, fip_updated_at := now\<rparr>"

definition fip_update_labels :: "(string, string) dict \<Rightarrow> time \<Rightarrow> floating_ip \<Rightarrow> floating_ip" where
  "fip_update_labels labels now f = f\<lparr>fip_labels := labels, fip_updated_at := now\<rparr>"

text \<open>A floating address is active exactly while it is bound to a port, an address and a router.\<close>

definition fip_valid :: "floating_ip \<Rightarrow> bool" where
  "fip_valid f \<longleftrightarrow> ip_address (fip_address f) \<noteq> None \<and>
     (case fip_fixed_address f of None \<Rightarrow> True | Some a \<Rightarrow> ip_address a \<noteq> None) \<and>
     (if fip_status f = FIP_ACTIVE
      then fip_logical_port_id f \<noteq> None \<and> fip_fixed_address f \<noteq> None \<and> fip_router_id f \<noteq> None
      else fip_logical_port_id f = None \<and> fip_fixed_address f = None \<and> fip_router_id f = None)"

lemma mk_floating_ip_valid:
  "mk_floating_ip f = Inr g \<Longrightarrow> fip_status f = FIP_DOWN \<Longrightarrow> fip_logical_port_id f = None \<Longrightarrow>
   fip_fixed_address f = None \<Longrightarrow> fip_router_id f = None \<Longrightarrow> fip_valid g \<and> fip_id g = fip_id f"
  by (auto simp: mk_floating_ip_def bindE_Inr_iff fip_valid_def)

lemma fip_associate_valid:
  "fip_valid f \<Longrightarrow> fip_associate p a r now f = Inr g \<Longrightarrow> fip_valid g \<and> fip_id g = fip_id f"
  by (auto simp: fip_associate_def bindE_Inr_iff fip_valid_def)

lemma fip_disassociate_valid:
  "fip_valid f \<Longrightarrow> fip_valid (fip_disassociate now f) \<and> fip_id (fip_disassociate now f) = fip_id f"
  by (simp add: fip_disassociate_def fip_valid_def)

subsection \<open>BGP peers\<close>

datatype bgp_state = BGP_IDLE | BGP_CONNECT | BGP_ACTIVE | BGP_OPENSENT | BGP_OPENCONFIRM | BGP_ESTABLISHED

record bgp_peer =
  bgp_id :: string
  bgp_router_id :: string
  bgp_peer_ip :: string
  bgp_peer_asn :: int
  bgp_local_asn :: int
  bgp_password :: string
  bgp_state :: bgp_state
  bgp_project_id :: "string option"
  bgp_labels :: "(string, string) dict"
  bgp_created_at :: time
  bgp_updated_at :: time

definition asn_check :: "int \<Rightarrow> exc + unit" where
  "asn_check a = require (1 \<le> a \<and> a \<le> 4294967295) err_validation"

definition mk_bgp_peer :: "bgp_peer \<Rightarrow> exc + bgp_peer" where
  "mk_bgp_peer p =
     bindE (require (ip_address (bgp_peer_ip p) \<noteq> None) err_validation) (\<lambda>_.
     bindE (asn_check (bgp_peer_asn p)) (\<lambda>_.
     bindE (asn_check (bgp_local_asn p)) (\<lambda>_. Inr p)))"

definition bgp_update_state :: "bgp_state \<Rightarrow> time \<Rightarrow> bgp_peer \<Rightarrow> bgp_peer" where
  "bgp_update_state s now p = p\<lparr>bgp_state := s, bgp_updated_at := now\<rparr>"

definition bgp_update ::
  "string option \<Rightarrow> (string, string) dict option \<Rightarrow> time \<Rightarrow> bgp_peer \<Rightarrow> bgp_peer" where
  "bgp_update password labels now p =
     p\<lparr>bgp_password := or_default (bgp_password p) password,
       bgp_labels := or_default (bgp_labels p) labels, bgp_updated_at := now\<rparr>"

definition bgp_valid :: "bgp_peer \<Rightarrow> bool" where
  "bgp_valid p \<longleftrightarrow> mk_bgp_peer p = Inr p"

lemma mk_bgp_peer_valid: "mk_bgp_peer p = Inr q \<Longrightarrow> bgp_valid q \<and> bgp_id q = bgp_id p"
  by (auto simp: mk_bgp_peer_def bindE_Inr_iff bgp_valid_def)

lemma bgp_update_state_valid:
  "bgp_valid p \<Longrightarrow> bgp_valid (bgp_update_state s now p) \<and> bgp_id (bgp_update_state s now p) = bgp_id p"
  by (auto simp: bgp_valid_def bgp_update_state_def mk_bgp_peer_def bindE_Inr_iff)

end
