(* ===== verification/N4_Entities.thy ===== *)
theory N4_Entities
  imports N3_Entities Json
begin

text \<open>
  The governance and load-balancing entities: project quotas (\<open>core/entities/project_quota.py\<close>)
  with \<open>QuotaService\<close>, resource snapshots, gateway bonds, retention policies, the load balancer with
  its listeners, pools and members (\<open>load_balancer.py\<close>) and health monitors; and the preflight
  checks of a router (\<open>services/preflight_checker.py\<close>). \<open>Enum(text)\<close> is the \<open>_of\<close> function of the
  enumeration, which raises \<open>ValueError\<close> on a text that is no member.
\<close>

definition enum_of :: "('a \<Rightarrow> string) \<Rightarrow> 'a list \<Rightarrow> string \<Rightarrow> exc + 'a" where
  "enum_of val members s = of_option (PyError PyValueError) (find (\<lambda>m. val m = s) members)"

text \<open>\<open>Enum(text) if text else None\<close>\<close>

definition opt_enum :: "(string \<Rightarrow> exc + 'a) \<Rightarrow> string option \<Rightarrow> exc + 'a option" where
  "opt_enum f v = (case v of None \<Rightarrow> Inr None
     | Some s \<Rightarrow> if s = [] then Inr None else bindE (f s) (\<lambda>x. Inr (Some x)))"

subsection \<open>Quotas\<close>

datatype quota_resource =
    Q_NETWORKS | Q_ROUTERS | Q_FLOATING_IPS | Q_LOGICAL_PORTS | Q_SECURITY_GROUPS
  | Q_LOAD_BALANCERS | Q_SNAPSHOTS

fun quota_value :: "quota_resource \<Rightarrow> string" where
  "quota_value Q_NETWORKS = ''networks''"
| "quota_value Q_ROUTERS = ''routers''"
| "quota_value Q_FLOATING_IPS = ''floating_ips''"
| "quota_value Q_LOGICAL_PORTS = ''logical_ports''"
| "quota_value Q_SECURITY_GROUPS = ''security_groups''"
| "quota_value Q_LOAD_BALANCERS = ''load_balancers''"
| "quota_value Q_SNAPSHOTS = ''snapshots''"

definition quota_resources :: "quota_resource list" where
  "quota_resources = [Q_NETWORKS, Q_ROUTERS, Q_FLOATING_IPS, Q_LOGICAL_PORTS, Q_SECURITY_GROUPS,
     Q_LOAD_BALANCERS, Q_SNAPSHOTS]"

record project_quota =
  pq_id :: string
  pq_project_id :: string
  pq_limits :: "(string, int option) dict"
  pq_created_at :: time
  pq_updated_at :: time

definition get_limit :: "quota_resource \<Rightarrow> project_quota \<Rightarrow> int option" where
  "get_limit r q = (case dget (pq_limits q) (quota_value r) of None \<Rightarrow> None | Some v \<Rightarrow> v)"

definition set_limit :: "quota_resource \<Rightarrow> int option \<Rightarrow> time \<Rightarrow> project_quota \<Rightarrow> exc + project_quota" where
  "set_limit r v now q =
     bindE (require (\<not> (case v of None \<Rightarrow> False | Some n \<Rightarrow> n < 0)) err_validation) (\<lambda>_.
     Inr (q\<lparr>pq_limits := dset (quota_value r) v (pq_limits q), pq_updated_at := now\<rparr>))"

definition remove_limit :: "quota_resource \<Rightarrow> time \<Rightarrow> project_quota \<Rightarrow> project_quota" where
  "remove_limit r now q = q\<lparr>pq_limits := dpop (quota_value r) (pq_limits q), pq_updated_at := now\<rparr>"

definition limit_ok :: "int option \<Rightarrow> bool" where
  "limit_ok v \<longleftrightarrow> (case v of None \<Rightarrow> True | Some n \<Rightarrow> 0 \<le> n)"

definition pq_valid :: "project_quota \<Rightarrow> bool" where
  "pq_valid q \<longleftrightarrow> dwf (pq_limits q) \<and> (\<forall>(k, v) \<in> set (pq_limits q). limit_ok v)"

lemma set_limit_valid:
  "pq_valid q \<Longrightarrow> set_limit r v now q = Inr q' \<Longrightarrow>
   pq_valid q' \<and> pq_id q' = pq_id q \<and> pq_project_id q' = pq_project_id q"
  by (cases v) (auto simp: set_limit_def pq_valid_def limit_ok_def bindE_Inr_iff in_set_dset)

lemma remove_limit_valid:
  "pq_valid q \<Longrightarrow> pq_valid (remove_limit r now q) \<and> pq_id (remove_limit r now q) = pq_id q \<and>
   pq_project_id (remove_limit r now q) = pq_project_id q"
  by (auto simp: remove_limit_def pq_valid_def)

text \<open>\<open>QuotaService.check\<close> for the quota \<open>get_by_project\<close> returned, and \<open>compute_violations\<close>.\<close>

definition quota_check ::
  "string option \<Rightarrow> quota_resource \<Rightarrow> int \<Rightarrow> (string \<Rightarrow> project_quota option) \<Rightarrow> exc + unit" where
  "quota_check project r current by_project =
     (case project of None \<Rightarrow> Inr ()
      | Some pid \<Rightarrow> (case by_project pid of None \<Rightarrow> Inr ()
         | Some q \<Rightarrow> (case get_limit r q of None \<Rightarrow> Inr ()
            | Some limit \<Rightarrow> require (\<not> current \<ge> limit) err_validation)))"

record quota_violation =
  qv_resource :: quota_resource
  qv_limit :: int
  qv_current :: int

definition usage_of :: "(string, int) dict \<Rightarrow> quota_resource \<Rightarrow> int" where
  "usage_of usage r = (case dget usage (quota_value r) of None \<Rightarrow> 0 | Some n \<Rightarrow> n)"

definition violation_of :: "project_quota \<Rightarrow> (string, int) dict \<Rightarrow> quota_resource \<Rightarrow> quota_violation option" where
  "violation_of q usage r =
     (case get_limit r q of None \<Rightarrow> None
      | Some limit \<Rightarrow> if usage_of usage r > limit
          then Some \<lparr>qv_resource = r, qv_limit = limit, qv_current = usage_of usage r\<rparr> else None)"

definition compute_violations :: "project_quota \<Rightarrow> (string, int) dict \<Rightarrow> quota_violation list" where
  "compute_violations q usage = List.map_filter (violation_of q usage) quota_resources"

lemma quota_resources_complete: "r \<in> set quota_resources"
  by (cases r) (simp_all add: quota_resources_def)

lemma quota_value_inject [simp]: "quota_value a = quota_value b \<longleftrightarrow> a = b"
  by (cases a; cases b) simp_all

subsection \<open>Snapshots\<close>

record resource_snapshot =
  rs_id :: string
  rs_project_id :: string
  rs_version :: int
  rs_label :: string
  rs_resource_types :: "string list"
  rs_payload :: payload
  rs_created_at :: time

fun json_count :: "json \<Rightarrow> int" where
  "json_count (JList xs) = int (length xs)"
| "json_count _ = 0"

definition resource_count :: "resource_snapshot \<Rightarrow> int" where
  "resource_count s = sum_list (List.map json_count (dvalues (rs_payload s)))"

subsection \<open>Bonds\<close>

datatype bond_mode = BOND_NONE | BOND_ACTIVE_BACKUP | BOND_LACP

fun bond_mode_value :: "bond_mode \<Rightarrow> string" where
  "bond_mode_value BOND_NONE = ''none''"
| "bond_mode_value BOND_ACTIVE_BACKUP = ''active_backup''"
| "bond_mode_value BOND_LACP = ''lacp''"

definition bond_mode_of :: "string \<Rightarrow> exc + bond_mode" where
  "bond_mode_of = enum_of bond_mode_value [BOND_NONE, BOND_ACTIVE_BACKUP, BOND_LACP]"

record gateway_bond =
  gb_id :: string
  gb_name :: string
  gb_node_id :: string
  gb_bond_name :: string
  gb_mode :: bond_mode
  gb_members :: "string list"
  gb_mtu :: int
  gb_project_id :: "string option"
  gb_applied_config :: "string option"
  gb_applied_at :: "time option"
  gb_labels :: "(string, string) dict"
  gb_created_at :: time
  gb_updated_at :: time

definition bond_mtu_check :: "int \<Rightarrow> exc + unit" where
  "bond_mtu_check m = require (500 \<le> m \<and> m \<le> 9000) err_validation"

definition mk_gateway_bond :: "gateway_bond \<Rightarrow> exc + gateway_bond" where
  "mk_gateway_bond b =
     bindE (require (gb_bond_name b \<noteq> []) err_validation) (\<lambda>_.
     bindE (bond_mtu_check (gb_mtu b)) (\<lambda>_. Inr b))"

definition gb_mark_applied :: "string \<Rightarrow> time \<Rightarrow> gateway_bond \<Rightarrow> gateway_bond" where
  "gb_mark_applied config now b =
     b\<lparr>gb_applied_config := Some config, gb_applied_at := Some now, gb_updated_at := now\<rparr>"

definition gb_update ::
  "string option \<Rightarrow> bond_mode option \<Rightarrow> string list option \<Rightarrow> int option
     \<Rightarrow> (string, string) dict option \<Rightarrow> time \<Rightarrow> gateway_bond \<Rightarrow> exc + gateway_bond" where
  "gb_update name mode members mtu labels now b =
     bindE (case mtu of None \<Rightarrow> Inr (gb_mtu b) | Some m \<Rightarrow> bindE (bond_mtu_check m) (\<lambda>_. Inr m)) (\<lambda>mtu'.
     Inr (b\<lparr>gb_name := or_default (gb_name b) name, gb_mode := or_default (gb_mode b) mode,
            gb_members := or_default (gb_members b) members, gb_mtu := mtu',
            gb_labels := or_default (gb_labels b) labels, gb_updated_at := now\<rparr>))"

definition gb_valid :: "gateway_bond \<Rightarrow> bool" where
  "gb_valid b \<longleftrightarrow> mk_gateway_bond b = Inr b"

lemma gb_valid_iff: "gb_valid b \<longleftrightarrow> gb_bond_name b \<noteq> [] \<and> 500 \<le> gb_mtu b \<and> gb_mtu b \<le> 9000"
  by (auto simp: gb_valid_def mk_gateway_bond_def bond_mtu_check_def bindE_Inr_iff)

lemma mk_gateway_bond_valid: "mk_gateway_bond b = Inr c \<Longrightarrow> gb_valid c \<and> gb_id c = gb_id b"
  by (auto simp: mk_gateway_bond_def gb_valid_def bindE_Inr_iff)

lemma gb_mark_applied_valid:
  "gb_valid b \<Longrightarrow> gb_valid (gb_mark_applied c now b) \<and> gb_id (gb_mark_applied c now b) = gb_id b"
  by (simp add: gb_valid_iff gb_mark_applied_def)

lemma gb_update_valid:
  "gb_valid b \<Longrightarrow> gb_update nm md ms mtu ls now b = Inr c \<Longrightarrow> gb_valid c \<and> gb_id c = gb_id b"
  by (auto simp: gb_valid_iff gb_update_def bond_mtu_check_def bindE_Inr_iff split: option.splits)

subsection \<open>Retention\<close>

datatype retention_scope = RS_AUDIT_EVENTS | RS_OPERATIONS | RS_OUTBOX_EVENTS | RS_SNAPSHOTS | RS_ALL

fun retention_value :: "retention_scope \<Rightarrow> string" where
  "retention_value RS_AUDIT_EVENTS = ''audit_events''"
| "retention_value RS_OPERATIONS = ''operations''"
| "retention_value RS_OUTBOX_EVENTS = ''outbox_events''"
| "retention_value RS_SNAPSHOTS = ''snapshots''"
| "retention_value RS_ALL = ''all''"

definition retention_of :: "string \<Rightarrow> exc + retention_scope" where
  "retention_of = enum_of retention_value
     [RS_AUDIT_EVENTS, RS_OPERATIONS, RS_OUTBOX_EVENTS, RS_SNAPSHOTS, RS_ALL]"

record retention_policy =
  rp_id :: string
  rp_scope :: retention_scope
  rp_days :: int
  rp_project_id :: "string option"
  rp_description :: string
  rp_created_at :: time
  rp_updated_at :: time

definition days_check :: "int \<Rightarrow> exc + unit" where
  "days_check d = require (\<not> (d \<noteq> 0 \<and> \<not> (1 \<le> d \<and> d \<le> 36500))) err_validation"

definition mk_retention_policy :: "retention_policy \<Rightarrow> exc + retention_policy" where
  "mk_retention_policy p = bindE (days_check (rp_days p)) (\<lambda>_. Inr p)"

definition rp_update :: "int \<Rightarrow> string option \<Rightarrow> time \<Rightarrow> retention_policy \<Rightarrow> exc + retention_policy" where
  "rp_update days desc now p =
     bindE (days_check days) (\<lambda>_.
     Inr (p\<lparr>rp_days := days, rp_description := or_default (rp_description p) desc, rp_updated_at := now\<rparr>))"

definition rp_valid :: "retention_policy \<Rightarrow> bool" where
  "rp_valid p \<longleftrightarrow> 0 \<le> rp_days p \<and> rp_days p \<le> 36500"

lemma mk_retention_policy_valid: "mk_retention_policy p = Inr q \<Longrightarrow> rp_valid q \<and> q = p"
  by (auto simp: mk_retention_policy_def days_check_def rp_valid_def bindE_Inr_iff)

lemma rp_update_valid:
  "rp_update d ds now p = Inr q \<Longrightarrow>
   rp_valid q \<and> rp_id q = rp_id p \<and> rp_scope q = rp_scope p \<and> rp_project_id q = rp_project_id p"
  by (auto simp: rp_update_def days_check_def rp_valid_def bindE_Inr_iff)

subsection \<open>Load balancers\<close>

datatype lb_algorithm = LB_ROUND_ROBIN | LB_LEAST_CONNECTIONS | LB_SOURCE_IP
datatype lb_protocol = LB_HTTP | LB_HTTPS | LB_TCP | LB_UDP
datatype lb_status = LB_BUILD | LB_ACTIVE | LB_DOWN | LB_ERROR
datatype session_persistence = PERSIST_NONE | PERSIST_SOURCE_IP | PERSIST_HTTP_COOKIE | PERSIST_APP_COOKIE

fun lb_algorithm_value :: "lb_algorithm \<Rightarrow> string" where
  "lb_algorithm_value LB_ROUND_ROBIN = ''round_robin''"
| "lb_algorithm_value LB_LEAST_CONNECTIONS = ''least_connections''"
| "lb_algorithm_value LB_SOURCE_IP = ''source_ip''"

fun lb_protocol_value :: "lb_protocol \<Rightarrow> string" where
  "lb_protocol_value LB_HTTP = ''http''"
| "lb_protocol_value LB_HTTPS = ''https''"
| "lb_protocol_value LB_TCP = ''tcp''"
| "lb_protocol_value LB_UDP = ''udp''"

fun persistence_value :: "session_persistence \<Rightarrow> string" where
  "persistence_value PERSIST_NONE = ''none''"
| "persistence_value PERSIST_SOURCE_IP = ''source_ip''"
| "persistence_value PERSIST_HTTP_COOKIE = ''http_cookie''"
| "persistence_value PERSIST_APP_COOKIE = ''app_cookie''"

definition lb_algorithm_of :: "string \<Rightarrow> exc + lb_algorithm" where
  "lb_algorithm_of = enum_of lb_algorithm_value [LB_ROUND_ROBIN, LB_LEAST_CONNECTIONS, LB_SOURCE_IP]"

definition lb_protocol_of :: "string \<Rightarrow> exc + lb_protocol" where
  "lb_protocol_of = enum_of lb_protocol_value [LB_HTTP, LB_HTTPS, LB_TCP, LB_UDP]"

definition persistence_of :: "string \<Rightarrow> exc + session_persistence" where
  "persistence_of = enum_of persistence_value
     [PERSIST_NONE, PERSIST_SOURCE_IP, PERSIST_HTTP_COOKIE, PERSIST_APP_COOKIE]"

record load_balancer =
  lb_id :: string
  lb_name :: string
  lb_vip_address :: string
  lb_vip_network_id :: string
  lb_project_id :: "string option"
  lb_router_id :: "string option"
  lb_description :: string
  lb_provider :: string
  lb_status :: lb_status
  lb_admin_state_up :: bool
  lb_applied_config :: "string option"
  lb_applied_at :: "time option"
  lb_labels :: "(string, string) dict"
  lb_created_at :: time
  lb_updated_at :: time

definition port_check :: "int \<Rightarrow> exc + unit" where
  "port_check p = require (1 \<le> p \<and> p \<le> 65535) err_validation"

definition mk_load_balancer :: "load_balancer \<Rightarrow> exc + load_balancer" where
  "mk_load_balancer l = bindE (require (ip_address (lb_vip_address l) \<noteq> None) err_validation) (\<lambda>_. Inr l)"

definition lb_mark_active :: "string \<Rightarrow> time \<Rightarrow> load_balancer \<Rightarrow> load_balancer" where
  "lb_mark_active config now l =
     l\<lparr>lb_applied_config := Some config, lb_applied_at := Some now, lb_status := LB_ACTIVE,
       lb_updated_at := now\<rparr>"

definition lb_mark_error :: "time \<Rightarrow> load_balancer \<Rightarrow> load_balancer" where
  "lb_mark_error now l = l\<lparr>lb_status := LB_ERROR, lb_updated_at := now\<rparr>"

definition lb_set_admin_state :: "bool \<Rightarrow> time \<Rightarrow> load_balancer \<Rightarrow> load_balancer" where
  "lb_set_admin_state up now l =
     l\<lparr>lb_admin_state_up := up, lb_status := (if up then LB_ACTIVE else LB_DOWN), lb_updated_at := now\<rparr>"

definition lb_update ::
  "string option \<Rightarrow> string option \<Rightarrow> (string, string) dict option \<Rightarrow> time \<Rightarrow> load_balancer \<Rightarrow> load_balancer" where
  "lb_update name desc labels now l =
     l\<lparr>lb_name := or_default (lb_name l) name, lb_description := or_default (lb_description l) desc,
       lb_labels := or_default (lb_labels l) labels, lb_updated_at := now\<rparr>"

definition lb_valid :: "load_balancer \<Rightarrow> bool" where
  "lb_valid l \<longleftrightarrow> mk_load_balancer l = Inr l"

record lb_listener =
  ll_id :: string
  ll_name :: string
  ll_lb_id :: string
  ll_protocol :: lb_protocol
  ll_port :: int
  ll_default_pool_id :: "string option"
  ll_description :: string
  ll_labels :: "(string, string) dict"
  ll_created_at :: time
  ll_updated_at :: time

definition mk_lb_listener :: "lb_listener \<Rightarrow> exc + lb_listener" where
  "mk_lb_listener l = bindE (port_check (ll_port l)) (\<lambda>_. Inr l)"

definition ll_update ::
  "string option \<Rightarrow> string option \<Rightarrow> string option \<Rightarrow> (string, string) dict option \<Rightarrow> time
     \<Rightarrow> lb_listener \<Rightarrow> lb_listener" where
  "ll_update name pool desc labels now l =
     l\<lparr>ll_name := or_default (ll_name l) name, ll_default_pool_id := or_keep pool (ll_default_pool_id l),
       ll_description := or_default (ll_description l) desc, ll_labels := or_default (ll_labels l) labels,
       ll_updated_at := now\<rparr>"

definition ll_valid :: "lb_listener \<Rightarrow> bool" where
  "ll_valid l \<longleftrightarrow> mk_lb_listener l = Inr l"

record lb_pool =
  lpl_id :: string
  lpl_name :: string
  lpl_lb_id :: string
  lpl_protocol :: lb_protocol
  lpl_algorithm :: lb_algorithm
  lpl_persistence :: session_persistence
  lpl_description :: string
  lpl_labels :: "(string, string) dict"
  lpl_created_at :: time
  lpl_updated_at :: time

definition lpl_update ::
  "string option \<Rightarrow> lb_algorithm option \<Rightarrow> session_persistence option \<Rightarrow> string option
     \<Rightarrow> (string, string) dict option \<Rightarrow> time \<Rightarrow> lb_pool \<Rightarrow> lb_pool" where
  "lpl_update name algo pers desc labels now p =
     p\<lparr>lpl_name := or_default (lpl_name p) name, lpl_algorithm := or_default (lpl_algorithm p) algo,
       lpl_persistence := or_default (lpl_persistence p) pers,
       lpl_description := or_default (lpl_description p) desc,
       lpl_labels := or_default (lpl_labels p) labels, lpl_updated_at := now\<rparr>"

record lb_member =
  lbm_id :: string
  lbm_pool_id :: string
  lbm_address :: string
  lbm_port :: int
  lbm_weight :: int
  lbm_admin_state_up :: bool
  lbm_created_at :: time
  lbm_updated_at :: time

definition weight_check :: "int \<Rightarrow> exc + unit" where
  "weight_check w = require (1 \<le> w \<and> w \<le> 256) err_validation"

definition mk_lb_member :: "lb_member \<Rightarrow> exc + lb_member" where
  "mk_lb_member m =
     bindE (require (ip_address (lbm_address m) \<noteq> None) err_validation) (\<lambda>_.
     bindE (port_check (lbm_port m)) (\<lambda>_.
     bindE (weight_check (lbm_weight m)) (\<lambda>_. Inr m)))"

definition lbm_update :: "int option \<Rightarrow> bool option \<Rightarrow> time \<Rightarrow> lb_member \<Rightarrow> exc + lb_member" where
  "lbm_update weight up now m =
     bindE (case weight of None \<Rightarrow> Inr (lbm_weight m) | Some w \<Rightarrow> bindE (weight_check w) (\<lambda>_. Inr w)) (\<lambda>w.
     Inr (m\<lparr>lbm_weight := w, lbm_admin_state_up := or_default (lbm_admin_state_up m) up,
            lbm_updated_at := now\<rparr>))"

definition lbm_valid :: "lb_member \<Rightarrow> bool" where
  "lbm_valid m \<longleftrightarrow> mk_lb_member m = Inr m"

lemma mk_load_balancer_valid: "mk_load_balancer l = Inr m \<Longrightarrow> lb_valid m \<and> lb_id m = lb_id l"
  by (auto simp: lb_valid_def mk_load_balancer_def bindE_Inr_iff)

lemma lb_mark_active_valid:
  "lb_valid l \<Longrightarrow> lb_valid (lb_mark_active c now l) \<and> lb_id (lb_mark_active c now l) = lb_id l"
  by (auto simp: lb_valid_def mk_load_balancer_def bindE_Inr_iff lb_mark_active_def)

lemma lb_set_admin_state_valid:
  "lb_valid l \<Longrightarrow> lb_valid (lb_set_admin_state up now l) \<and> lb_id (lb_set_admin_state up now l) = lb_id l"
  by (auto simp: lb_valid_def mk_load_balancer_def bindE_Inr_iff lb_set_admin_state_def)

lemma lb_update_valid:
  "lb_valid l \<Longrightarrow> lb_valid (lb_update nm ds ls now l) \<and> lb_id (lb_update nm ds ls now l) = lb_id l"
  by (auto simp: lb_valid_def mk_load_balancer_def bindE_Inr_iff lb_update_def)

lemma mk_lb_listener_valid: "mk_lb_listener l = Inr m \<Longrightarrow> ll_valid m \<and> ll_id m = ll_id l"
  by (auto simp: ll_valid_def mk_lb_listener_def bindE_Inr_iff)

lemma ll_update_valid:
  "ll_valid l \<Longrightarrow> ll_valid (ll_update nm p ds ls now l) \<and> ll_id (ll_update nm p ds ls now l) = ll_id l"
  by (auto simp: ll_valid_def mk_lb_listener_def bindE_Inr_iff ll_update_def)

lemma mk_lb_member_valid: "mk_lb_member m = Inr n \<Longrightarrow> lbm_valid n \<and> lbm_id n = lbm_id m"
  by (auto simp: lbm_valid_def mk_lb_member_def bindE_Inr_iff)

lemma lbm_update_valid:
  "lbm_valid m \<Longrightarrow> lbm_update w up now m = Inr n \<Longrightarrow> lbm_valid n \<and> lbm_id n = lbm_id m"
  by (auto simp: lbm_valid_def mk_lb_member_def weight_check_def lbm_update_def bindE_Inr_iff split: option.splits)

subsection \<open>Health monitors\<close>

datatype health_check = HC_HTTP | HC_HTTPS | HC_TCP | HC_PING

fun health_check_value :: "health_check \<Rightarrow> string" where
  "health_check_value HC_HTTP = ''http''"
| "health_check_value HC_HTTPS = ''https''"
| "health_check_value HC_TCP = ''tcp''"
| "health_check_value HC_PING = ''ping''"

definition health_check_of :: "string \<Rightarrow> exc + health_check" where
  "health_check_of = enum_of health_check_value [HC_HTTP, HC_HTTPS, HC_TCP, HC_PING]"

record health_monitor =
  hm_id :: string
  hm_pool_id :: string
  hm_check_type :: health_check
  hm_delay :: int
  hm_timeout :: int
  hm_max_retries :: int
  hm_url_path :: string
  hm_http_method :: string
  hm_expected_codes :: string
  hm_created_at :: time
  hm_updated_at :: time

definition http_methods :: "string list" where
  "http_methods = [''GET'', ''HEAD'', ''OPTIONS'']"

definition hm_check :: "health_monitor \<Rightarrow> exc + unit" where
  "hm_check h =
     bindE (require (\<not> hm_delay h < 1) err_validation) (\<lambda>_.
     bindE (require (\<not> hm_timeout h < 1) err_validation) (\<lambda>_.
     bindE (require (1 \<le> hm_max_retries h \<and> hm_max_retries h \<le> 10) err_validation) (\<lambda>_.
     require (hm_http_method h \<in> set http_methods) err_validation)))"

definition mk_health_monitor :: "health_monitor \<Rightarrow> exc + health_monitor" where
  "mk_health_monitor h = bindE (hm_check h) (\<lambda>_. Inr h)"

record monitor_change =
  mc_delay :: "int option"
  mc_timeout :: "int option"
  mc_max_retries :: "int option"
  mc_url_path :: "string option"
  mc_http_method :: "string option"
  mc_expected_codes :: "string option"

definition hm_update :: "monitor_change \<Rightarrow> time \<Rightarrow> health_monitor \<Rightarrow> exc + health_monitor" where
  "hm_update c now h =
     (let h' = h\<lparr>hm_delay := or_default (hm_delay h) (mc_delay c),
                 hm_timeout := or_default (hm_timeout h) (mc_timeout c),
                 hm_max_retries := or_default (hm_max_retries h) (mc_max_retries c),
                 hm_url_path := or_default (hm_url_path h) (mc_url_path c),
                 hm_http_method := or_default (hm_http_method h) (mc_http_method c),
                 hm_expected_codes := or_default (hm_expected_codes h) (mc_expected_codes c)\<rparr>
      in bindE (hm_check h') (\<lambda>_. Inr (h'\<lparr>hm_updated_at := now\<rparr>)))"

definition hm_valid :: "health_monitor \<Rightarrow> bool" where
  "hm_valid h \<longleftrightarrow> hm_check h = Inr ()"

lemma mk_health_monitor_valid: "mk_health_monitor h = Inr g \<Longrightarrow> hm_valid g \<and> g = h"
  by (auto simp: mk_health_monitor_def hm_valid_def bindE_Inr_iff)

lemma hm_update_valid:
  "hm_update c now h = Inr g \<Longrightarrow> hm_valid g \<and> hm_id g = hm_id h \<and> hm_pool_id g = hm_pool_id h"
  by (auto simp: hm_update_def hm_valid_def hm_check_def Let_def bindE_Inr_iff)

subsection \<open>Preflight checks\<close>

text \<open>Severity and code of an issue; the messages are not modelled.\<close>

datatype severity = Sev_error | Sev_warning

type_synonym preflight_issue = "severity \<times> string"

definition check_external_network :: "router \<Rightarrow> preflight_issue list" where
  "check_external_network r =
     (if rt_external_network_id r = None \<and> rt_static_routes r \<noteq> []
      then [(Sev_warning, ''NO_EXTERNAL_NETWORK'')] else [])"

fun check_routes :: "string list \<Rightarrow> static_route list \<Rightarrow> preflight_issue list" where
  "check_routes seen [] = []"
| "check_routes seen (sr # srs) =
     (if srt_destination sr \<in> set seen then [(Sev_error, ''DUPLICATE_ROUTE'')] else [])
     @ check_routes (srt_destination sr # seen) srs"

definition check_ha :: "router \<Rightarrow> preflight_issue list" where
  "check_ha r =
     (if rt_ha_mode r = HA_VRRP
      then (if rt_vrrp_priority r = None then [(Sev_error, ''VRRP_NO_PRIORITY'')] else [])
         @ (if rt_vrrp_vrid r = None then [(Sev_error, ''VRRP_NO_VRID'')] else [])
      else [])"

definition check_ipv6 :: "router \<Rightarrow> preflight_issue list" where
  "check_ipv6 r =
     (case rt_ipv6_config r of None \<Rightarrow> []
      | Some c \<Rightarrow> if v6_mode c = IPV6_OFF then []
                  else if v6_prefix c = [] then [(Sev_error, ''IPV6_NO_PREFIX'')] else [])"

definition check_admin_state :: "router \<Rightarrow> preflight_issue list" where
  "check_admin_state r = (if rt_admin_state_up r then [] else [(Sev_warning, ''ADMIN_DOWN'')])"

definition check_router :: "router \<Rightarrow> preflight_issue list" where
  "check_router r =
     check_external_network r @ check_routes [] (rt_static_routes r) @ check_ha r @ check_ipv6 r
     @ check_admin_state r"

lemma check_routes_distinct:
  "check_routes seen srs = [] \<longleftrightarrow>
     distinct (List.map srt_destination srs) \<and> set (List.map srt_destination srs) \<inter> set seen = {}"
  by (induction seen srs rule: check_routes.induct) auto

end
