(* ===== verification/Calendar.thy ===== *)
theory Calendar
  imports PyIp
begin

text \<open>
  The civil date and time of a point in time, as \<open>datetime\<close> objects in UTC carry them: a time is
  the number of microseconds since 1970-01-01, the date is that of the Gregorian calendar. The
  schedule matcher reads minute, hour, day, month and weekday; generated files carry
  \<open>isoformat()\<close>. Days are counted from 1 March of the year 0, in eras of 400 years.
\<close>

definition day_number :: "time \<Rightarrow> int" where
  "day_number t = t div 86400000000"

definition day_micros :: "time \<Rightarrow> int" where
  "day_micros t = t mod 86400000000"

definition minute_of :: "time \<Rightarrow> int" where
  "minute_of t = day_micros t div 60000000 mod 60"

definition hour_of :: "time \<Rightarrow> int" where
  "hour_of t = day_micros t div 3600000000"

definition second_of :: "time \<Rightarrow> int" where
  "second_of t = day_micros t div 1000000 mod 60"

definition micro_of :: "time \<Rightarrow> int" where
  "micro_of t = t mod 1000000"

text \<open>\<open>datetime.weekday()\<close>: Monday is 0, and 1970-01-01 was a Thursday.\<close>

definition weekday_of :: "time \<Rightarrow> int" where
  "weekday_of t = (day_number t + 3) mod 7"

definition day_of_era :: "int \<Rightarrow> int" where
  "day_of_era z = (z + 719468) mod 146097"

definition year_of_era :: "int \<Rightarrow> int" where
  "year_of_era doe = (doe - doe div 1460 + doe div 36524 - doe div 146096) div 365"

definition day_of_year :: "int \<Rightarrow> int" where
  "day_of_year doe = (let yoe = year_of_era doe in doe - (365 * yoe + yoe div 4 - yoe div 100))"

definition month_index :: "int \<Rightarrow> int" where
  "month_index doe = (5 * day_of_year doe + 2) div 153"

definition day_of :: "time \<Rightarrow> int" where
  "day_of t = (let doe = day_of_era (day_number t)
     in day_of_year doe - (153 * month_index doe + 2) div 5 + 1)"

definition month_of :: "time \<Rightarrow> int" where
  "month_of t = (let mp = month_index (day_of_era (day_number t)) in if mp < 10 then mp + 3 else mp - 9)"

definition year_of :: "time \<Rightarrow> int" where
  "year_of t = (let z = day_number t; y = year_of_era (day_of_era z) + (z + 719468) div 146097 * 400
     in if month_of t \<le> 2 then y + 1 else y)"

text \<open>\<open>isoformat()\<close> of an aware UTC time; the microseconds are left out when they are zero.\<close>

definition pad_int :: "nat \<Rightarrow> int \<Rightarrow> string" where
  "pad_int w i = (let s = str_nat (nat i) in replicate (w - length s) (CHR ''0'') @ s)"

definition isoformat :: "time \<Rightarrow> string" where
  "isoformat t =
     pad_int 4 (year_of t) @ ''-'' @ pad_int 2 (month_of t) @ ''-'' @ pad_int 2 (day_of t) @ ''T''
     @ pad_int 2 (hour_of t) @ '':'' @ pad_int 2 (minute_of t) @ '':'' @ pad_int 2 (second_of t)
     @ (if micro_of t = 0 then [] else ''.'' @ pad_int 6 (micro_of t)) @ ''+00:00''"

lemma isoformat_epoch: "isoformat 0 = ''1970-01-01T00:00:00+00:00''"
  by code_simp

end
