(* ===== verification/Cron.thy ===== *)
theory Cron
  imports Calendar Errors
begin

text \<open>
  The schedule matcher (\<open>core/services/cron_scheduler.py\<close>): five-field cron expressions, checked
  when a schedule is stored and evaluated on every tick. \<open>str.isdigit\<close> also accepts the
  superscripts 2, 3 and 1 of Latin-1, on which \<open>int\<close> raises; \<open>int\<close> raises on more than 4300 digits.
\<close>

text \<open>\<open>text.strip().split()\<close>: the maximal runs of characters that are not white space.\<close>

fun words_acc :: "string \<Rightarrow> string \<Rightarrow> string list" where
  "words_acc acc [] = (if acc = [] then [] else [rev acc])"
| "words_acc acc (c # cs) =
     (if py_isspace c then (if acc = [] then words_acc [] cs else rev acc # words_acc [] cs)
      else words_acc (c # acc) cs)"

definition words_of :: "string \<Rightarrow> string list" where
  "words_of s = words_acc [] (py_strip s)"

definition py_isdigit :: "string \<Rightarrow> bool" where
  "py_isdigit s \<longleftrightarrow> s \<noteq> [] \<and>
     list_all (\<lambda>c. is_digit c \<or> (of_char c :: nat) \<in> {178, 179, 185}) s"

definition py_int :: "string \<Rightarrow> exc + int" where
  "py_int s =
     (if s = [] \<or> 4300 < length s then Inl (PyError PyValueError)
      else case num_val dec_digit 10 0 s of None \<Rightarrow> Inl (PyError PyValueError) | Some n \<Rightarrow> Inr (int n))"

definition cron_step :: "string \<Rightarrow> int \<Rightarrow> int \<Rightarrow> exc + bool" where
  "cron_step step_str v lo =
     bindE (require (py_isdigit step_str) err_validation) (\<lambda>_.
     bindE (py_int step_str) (\<lambda>step.
     bindE (require (\<not> step \<le> 0) err_validation) (\<lambda>_.
     Inr ((v - lo) mod step = 0))))"

definition cron_range :: "string \<Rightarrow> string \<Rightarrow> int \<Rightarrow> int \<Rightarrow> int \<Rightarrow> exc + bool" where
  "cron_range a b v lo hi =
     bindE (require (py_isdigit a \<and> py_isdigit b) err_validation) (\<lambda>_.
     bindE (py_int a) (\<lambda>start.
     bindE (py_int b) (\<lambda>stop.
     bindE (require (lo \<le> start \<and> start \<le> hi \<and> lo \<le> stop \<and> stop \<le> hi) err_validation) (\<lambda>_.
     Inr (start \<le> v \<and> v \<le> stop)))))"

definition cron_value :: "string \<Rightarrow> int \<Rightarrow> int \<Rightarrow> int \<Rightarrow> exc + bool" where
  "cron_value s v lo hi =
     bindE (py_int s) (\<lambda>n.
     bindE (require (lo \<le> n \<and> n \<le> hi) err_validation) (\<lambda>_. Inr (n = v)))"

text \<open>\<open>field.split("-", 1)\<close>: the text before the first dash and all of the text after it.\<close>

definition before_dash :: "string \<Rightarrow> string" where
  "before_dash s = takeWhile (\<lambda>c. c \<noteq> CHR ''-'') s"

definition after_dash :: "string \<Rightarrow> string" where
  "after_dash s = drop 1 (dropWhile (\<lambda>c. c \<noteq> CHR ''-'') s)"

definition cron_matches :: "string \<Rightarrow> int \<Rightarrow> int \<Rightarrow> int \<Rightarrow> exc + bool" where
  "cron_matches field v lo hi =
     (if field = ''*'' then Inr True
      else if take 2 field = ''*/'' then cron_step (drop 2 field) v lo
      else if CHR ''-'' \<in> set field then cron_range (before_dash field) (after_dash field) v lo hi
      else if py_isdigit field then cron_value field v lo hi
      else Inl err_validation)"

text \<open>The \<open>and\<close> of \<open>is_due\<close> evaluates a field only while the ones before it matched.\<close>

fun all_match :: "(string \<times> int \<times> int \<times> int) list \<Rightarrow> exc + bool" where
  "all_match [] = Inr True"
| "all_match ((f, v, lo, hi) # fs) =
     bindE (cron_matches f v lo hi) (\<lambda>b. if b then all_match fs else Inr False)"

definition cron_values :: "time \<Rightarrow> (int \<times> int \<times> int) list" where
  "cron_values now =
     [(minute_of now, 0, 59), (hour_of now, 0, 23), (day_of now, 1, 31), (month_of now, 1, 12),
      ((weekday_of now + 1) mod 7, 0, 6)]"

definition is_due :: "string \<Rightarrow> time \<Rightarrow> exc + bool" where
  "is_due expr now =
     (let parts = words_of expr
      in bindE (require (length parts = 5) err_validation) (\<lambda>_. all_match (zip parts (cron_values now))))"

definition cron_ranges :: "(int \<times> int) list" where
  "cron_ranges = [(0, 59), (0, 23), (1, 31), (1, 12), (0, 6)]"

text \<open>\<open>except (ValueError, ValidationError)\<close> turns both into a \<open>ValidationError\<close>.\<close>

definition revalidate :: "exc + bool \<Rightarrow> exc + unit" where
  "revalidate r = (case r of Inr _ \<Rightarrow> Inr ()
     | Inl e \<Rightarrow> Inl (if e = PyError PyValueError \<or> e = err_validation then err_validation else e))"

definition cron_validate :: "string \<Rightarrow> exc + unit" where
  "cron_validate expr =
     (let parts = words_of expr
      in bindE (require (length parts = 5) err_validation) (\<lambda>_.
         each (\<lambda>(f, lo, hi). revalidate (cron_matches f lo lo hi)) (zip parts cron_ranges)))"

subsection \<open>A validated expression\<close>

text \<open>Whether a field raises does not depend on the value it is matched against.\<close>

lemma cron_matches_value:
  assumes "cron_matches f v lo hi = Inr b"
  shows "\<exists>c. cron_matches f w lo hi = Inr c"
  using assms
  by (auto simp: cron_matches_def cron_step_def cron_range_def cron_value_def bindE_Inr_iff
      split: if_splits)

lemma all_match_total:
  "\<forall>(f, v, lo, hi) \<in> set fs. \<exists>b. cron_matches f v lo hi = Inr b \<Longrightarrow> \<exists>b. all_match fs = Inr b"
  by (induction fs rule: all_match.induct) fastforce+

lemma revalidate_Inr [simp]: "revalidate r = Inr u \<longleftrightarrow> (\<exists>b. r = Inr b)"
  by (auto simp: revalidate_def split: sum.splits)

lemma py_int_error: "py_int s = Inl e \<Longrightarrow> e = PyError PyValueError"
  by (auto simp: py_int_def split: if_splits option.splits)

lemma cron_matches_error:
  "cron_matches f v lo hi = Inl e \<Longrightarrow> e = PyError PyValueError \<or> e = err_validation"
  unfolding cron_matches_def cron_step_def cron_range_def cron_value_def
  by (auto simp only: bindE_Inl_iff require_simps dest!: py_int_error split: if_splits)

lemma revalidate_cases: "revalidate (cron_matches f v lo hi) \<in> {Inr (), Inl err_validation}"
  using cron_matches_error [of f v lo hi] by (cases "cron_matches f v lo hi") (auto simp: revalidate_def)

text \<open>What a field means, for the forms the matcher knows.\<close>

lemma cron_star: "cron_matches ''*'' v lo hi = Inr True"
  by (simp add: cron_matches_def)

lemma py_int_str_nat: "length (str_nat n) \<le> 4300 \<Longrightarrow> py_int (str_nat n) = Inr (int n)"
  using num_val_str_nat [of n] str_nat_nonempty [of n] by (simp add: py_int_def)

lemma str_nat_isdigit: "py_isdigit (str_nat n)"
  using str_nat_digits [of n] by (auto simp: py_isdigit_def list_all_iff)

lemma str_nat_short: "n < 100 \<Longrightarrow> length (str_nat n) \<le> 2"
  using length_digits [of 10 n 1] by (simp add: str_nat_def)

lemma digit_cases:
  assumes "dec_digit c \<noteq> None"
  shows "c \<noteq> CHR ''-'' \<and> c \<noteq> CHR ''*'' \<and> \<not> py_isspace c"
  using assms by (auto simp: dec_digit_def py_isspace_def Let_def split: if_splits)

lemma str_nat_no: "c \<in> set (str_nat n) \<Longrightarrow> c \<noteq> CHR ''-'' \<and> c \<noteq> CHR ''*'' \<and> \<not> py_isspace c"
  using str_nat_digits [of n] digit_cases by (auto simp: list_all_iff)

lemma cron_number:
  assumes "n < 100"
  shows "cron_matches (str_nat n) v lo hi =
    (if lo \<le> int n \<and> int n \<le> hi then Inr (int n = v) else Inl err_validation)"
proof -
  obtain c cs where s: "str_nat n = c # cs"
    using str_nat_nonempty [of n] by (cases "str_nat n") auto
  have c: "c \<noteq> CHR ''*''" using str_nat_no [of c n] s by simp
  have "CHR ''-'' \<notin> set (str_nat n)" using str_nat_no [of "CHR ''-''" n] by blast
  moreover have "str_nat n \<noteq> ''*''" "take 2 (str_nat n) \<noteq> ''*/''"
    using c by (simp_all add: s numeral_eq_Suc)
  ultimately show ?thesis
    using str_nat_isdigit [of n] py_int_str_nat [of n] str_nat_short [OF assms]
    by (simp add: cron_matches_def cron_value_def require_def)
qed

text \<open>Splitting a text made of words without white space.\<close>

lemma words_acc_word:
  "\<forall>c \<in> set w. \<not> py_isspace c \<Longrightarrow> words_acc acc (w @ CHR '' '' # s) =
     (if rev acc @ w = [] then words_acc [] s else (rev acc @ w) # words_acc [] s)"
  by (induction w arbitrary: acc) auto

lemma py_strip_id:
  assumes "s \<noteq> []" "\<not> py_isspace (hd s)" "\<not> py_isspace (last s)"
  shows "py_strip s = s"
proof -
  have "dropWhile py_isspace s = s" using assms(1,2) by (cases s) auto
  moreover have "dropWhile py_isspace (rev s) = rev s"
  proof -
    obtain ys y where "s = ys @ [y]" using assms(1) by (cases s rule: rev_cases) simp_all
    then show ?thesis using assms(3) by simp
  qed
  ultimately show ?thesis by (simp add: py_strip_def)
qed

definition daily :: "nat \<Rightarrow> nat \<Rightarrow> string" where
  "daily m h = str_nat m @ CHR '' '' # str_nat h @ '' * * *''"

lemma words_daily: "words_of (daily m h) = [str_nat m, str_nat h, ''*'', ''*'', ''*'']"
proof -
  have "daily m h \<noteq> []" "last (daily m h) = CHR ''*''" "hd (daily m h) = hd (str_nat m)"
    using str_nat_nonempty [of m] by (simp_all add: daily_def)
  moreover have "\<not> py_isspace (hd (str_nat m))"
    using str_nat_no [of "hd (str_nat m)" m] str_nat_nonempty [of m] by simp
  moreover have "\<not> py_isspace (CHR ''*'')" by code_simp
  ultimately have strip: "py_strip (daily m h) = daily m h"
    by (intro py_strip_id) simp_all
  have tail: "words_acc [] ''* * *'' = [''*'', ''*'', ''*'']" by code_simp
  have "words_acc [] (daily m h) = str_nat m # words_acc [] (str_nat h @ CHR '' '' # ''* * *'')"
    using str_nat_no [of _ m] by (simp add: daily_def words_acc_word)
  also have "words_acc [] (str_nat h @ CHR '' '' # ''* * *'') = str_nat h # words_acc [] ''* * *''"
    using str_nat_no [of _ h] by (subst words_acc_word) auto
  finally show ?thesis using tail by (simp add: words_of_def strip)
qed

subsection \<open>Properties\<close>

text \<open>
  A stored schedule never breaks the tick: if \<open>validate\<close> accepted an expression, \<open>is_due\<close> decides
  at every time whether it fires and raises nothing. An expression it does not accept is refused
  with a \<open>ValidationError\<close>, never with the \<open>ValueError\<close> of \<open>int\<close>.
\<close>

lemma validated_schedule_decides:
  "(cron_validate expr = Inr () \<longrightarrow> (\<exists>b. is_due expr now = Inr b)) \<and>
   (cron_validate expr \<noteq> Inr () \<longrightarrow> cron_validate expr = Inl err_validation)"
proof (rule conjI)
  show "cron_validate expr = Inr () \<longrightarrow> (\<exists>b. is_due expr now = Inr b)"
  proof
    assume "cron_validate expr = Inr ()"
    then have len: "length (words_of expr) = 5"
      and ok: "\<forall>(f, lo, hi) \<in> set (zip (words_of expr) cron_ranges). \<exists>b. cron_matches f lo lo hi = Inr b"
      by (auto simp: cron_validate_def Let_def bindE_Inr_iff)
    then obtain a b c d e where w: "words_of expr = [a, b, c, d, e]"
      by (auto simp: numeral_eq_Suc length_Suc_conv)
    have "\<exists>b. all_match (zip (words_of expr) (cron_values now)) = Inr b"
      using ok cron_matches_value by (intro all_match_total) (fastforce simp: w cron_ranges_def cron_values_def)
    then show "\<exists>b. is_due expr now = Inr b" using len by (simp add: is_due_def Let_def)
  qed
next
  have fields: "e = err_validation"
    if each: "each (\<lambda>(f, lo, hi). revalidate (cron_matches f lo lo hi)) xs = Inl e" for xs e
  proof -
    obtain f lo hi where "revalidate (cron_matches f lo lo hi) = Inl e"
      using each_Inl [OF each] by auto
    then show ?thesis using revalidate_cases [of f lo lo hi] by auto
  qed
  show "cron_validate expr \<noteq> Inr () \<longrightarrow> cron_validate expr = Inl err_validation"
  proof (cases "cron_validate expr")
    case (Inl e)
    then have "e = err_validation"
      using fields by (simp only: cron_validate_def Let_def bindE_Inl_iff require_simps) blast
    then show ?thesis using Inl by simp
  qed simp
qed

text \<open>
  The daily schedule \<open>M H * * *\<close> means what it says: it is accepted exactly for a minute below 60
  and an hour below 24, and then fires exactly in the minute M of the hour H of every day.
\<close>

lemma daily_schedule_fires:
  assumes "m < 100" "h < 100"
  shows "(cron_validate (daily m h) = Inr () \<longleftrightarrow> m < 60 \<and> h < 24) \<and>
    (m < 60 \<and> h < 24 \<longrightarrow> is_due (daily m h) now = Inr (minute_of now = int m \<and> hour_of now = int h))"
  using assms
  by (auto simp: cron_validate_def is_due_def words_daily cron_ranges_def cron_values_def cron_number cron_star
      revalidate_def)

lemma daily_schedule_fires_witness:
  "is_due (daily 30 2) 9000000000 = Inr True"
  using daily_schedule_fires [of 30 2 9000000000]
  by (simp add: minute_of_def hour_of_def day_micros_def)

end
