(* ===== verification/N5_Entities.thy ===== *)
theory N5_Entities
  imports N4_Entities Cron
begin

text \<open>
  Apply schedules (\<open>core/entities/apply_schedule.py\<close>), traffic mirrors (\<open>mirror_session.py\<close>), VPN
  tunnels and their peers (\<open>vpn_tunnel.py\<close>).
\<close>

subsection \<open>Schedules\<close>

datatype schedule_status = SCHED_ACTIVE | SCHED_PAUSED | SCHED_ERROR
datatype schedule_target = TARGET_NETWORK | TARGET_ROUTER | TARGET_LOAD_BALANCER | TARGET_GATEWAY_BOND

fun target_value :: "schedule_target \<Rightarrow> string" where
  "target_value TARGET_NETWORK = ''network''"
| "target_value TARGET_ROUTER = ''router''"
| "target_value TARGET_LOAD_BALANCER = ''load_balancer''"
| "target_value TARGET_GATEWAY_BOND = ''gateway_bond''"

definition target_of :: "string \<Rightarrow> exc + schedule_target" where
  "target_of = enum_of target_value
     [TARGET_NETWORK, TARGET_ROUTER, TARGET_LOAD_BALANCER, TARGET_GATEWAY_BOND]"

record apply_schedule =
  sch_id :: string
  sch_name :: string
  sch_cron_expr :: string
  sch_target_type :: schedule_target
  sch_target_id :: string
  sch_enabled :: bool
  sch_project_id :: "string option"
  sch_last_run_at :: "time option"
  sch_last_run_status :: "string option"
  sch_status :: schedule_status
  sch_labels :: "(string, string) dict"
  sch_created_at :: time
  sch_updated_at :: time

definition mk_apply_schedule :: "apply_schedule \<Rightarrow> exc + apply_schedule" where
  "mk_apply_schedule s =
     bindE (require (length (words_of (sch_cron_expr s)) = 5) err_validation) (\<lambda>_. Inr s)"

definition sch_enable :: "time \<Rightarrow> apply_schedule \<Rightarrow> apply_schedule" where
  "sch_enable now s = s\<lparr>sch_enabled := True, sch_status := SCHED_ACTIVE, sch_updated_at := now\<rparr>"

definition sch_pause :: "time \<Rightarrow> apply_schedule \<Rightarrow> apply_schedule" where
  "sch_pause now s = s\<lparr>sch_enabled := False, sch_status := SCHED_PAUSED, sch_updated_at := now\<rparr>"

text \<open>\<open>error_msg or 'unknown'\<close>: neither \<open>None\<close> nor the empty text is reported.\<close>

definition record_run :: "bool \<Rightarrow> string option \<Rightarrow> time \<Rightarrow> apply_schedule \<Rightarrow> apply_schedule" where
  "record_run success msg now s =
     (if success
      then s\<lparr>sch_last_run_at := Some now, sch_last_run_status := Some ''ok'', sch_status := SCHED_ACTIVE,
             sch_updated_at := now\<rparr>
      else s\<lparr>sch_last_run_at := Some now,
             sch_last_run_status := Some (''error: '' @ (if or_default [] msg = [] then ''unknown''
                                                         else or_default [] msg)),
             sch_status := SCHED_ERROR, sch_updated_at := now\<rparr>)"

text \<open>What the use cases keep of a stored schedule: its expression passed \<open>validate\<close>.\<close>

definition sch_valid :: "apply_schedule \<Rightarrow> bool" where
  "sch_valid s \<longleftrightarrow> cron_validate (sch_cron_expr s) = Inr ()"

lemma sch_enable_valid: "sch_valid s \<Longrightarrow> sch_valid (sch_enable now s) \<and> sch_id (sch_enable now s) = sch_id s"
  by (simp add: sch_valid_def sch_enable_def)

lemma sch_pause_valid: "sch_valid s \<Longrightarrow> sch_valid (sch_pause now s) \<and> sch_id (sch_pause now s) = sch_id s"
  by (simp add: sch_valid_def sch_pause_def)

lemma record_run_valid:
  "sch_valid s \<Longrightarrow> sch_valid (record_run ok msg now s) \<and> sch_id (record_run ok msg now s) = sch_id s"
  by (simp add: sch_valid_def record_run_def)

subsection \<open>Mirrors\<close>

datatype mirror_direction = MIRROR_INGRESS | MIRROR_EGRESS | MIRROR_BOTH
datatype mirror_status = MIRROR_ACTIVE | MIRROR_INACTIVE | MIRROR_ERROR

fun mirror_value :: "mirror_direction \<Rightarrow> string" where
  "mirror_value MIRROR_INGRESS = ''ingress''"
| "mirror_value MIRROR_EGRESS = ''egress''"
| "mirror_value MIRROR_BOTH = ''both''"

definition mirror_of :: "string \<Rightarrow> exc + mirror_direction" where
  "mirror_of = enum_of mirror_value [MIRROR_INGRESS, MIRROR_EGRESS, MIRROR_BOTH]"

record mirror_session =
  ms_id :: string
  ms_name :: string
  ms_source_port_id :: string
  ms_direction :: mirror_direction
  ms_dest_port_id :: "string option"
  ms_dest_ip :: "string option"
  ms_filter_vlan :: "int option"
  ms_project_id :: "string option"
  ms_status :: mirror_status
  ms_applied_config :: "string option"
  ms_applied_at :: "time option"
  ms_labels :: "(string, string) dict"
  ms_created_at :: time
  ms_updated_at :: time

definition mk_mirror_session :: "mirror_session \<Rightarrow> exc + mirror_session" where
  "mk_mirror_session m =
     bindE (require (\<not> (ms_dest_port_id m = None \<and> ms_dest_ip m = None)) err_validation) (\<lambda>_.
     bindE (require (\<not> (ms_dest_port_id m \<noteq> None \<and> ms_dest_ip m \<noteq> None)) err_validation) (\<lambda>_.
     bindE (require (opt_within 1 4094 (ms_filter_vlan m)) err_validation) (\<lambda>_. Inr m)))"

definition ms_apply :: "string \<Rightarrow> time \<Rightarrow> mirror_session \<Rightarrow> mirror_session" where
  "ms_apply config now m =
     m\<lparr>ms_applied_config := Some config, ms_applied_at := Some now, ms_status := MIRROR_ACTIVE,
       ms_updated_at := now\<rparr>"

definition ms_valid :: "mirror_session \<Rightarrow> bool" where
  "ms_valid m \<longleftrightarrow> mk_mirror_session m = Inr m"

lemma mk_mirror_session_valid: "mk_mirror_session m = Inr n \<Longrightarrow> ms_valid n \<and> ms_id n = ms_id m"
  by (auto simp: ms_valid_def mk_mirror_session_def bindE_Inr_iff)

lemma ms_apply_valid: "ms_valid m \<Longrightarrow> ms_valid (ms_apply c now m) \<and> ms_id (ms_apply c now m) = ms_id m"
  by (auto simp: ms_valid_def mk_mirror_session_def bindE_Inr_iff ms_apply_def)

subsection \<open>VPN\<close>

datatype vpn_protocol = VPN_WIREGUARD | VPN_IPSEC
datatype vpn_status = VPN_BUILD | VPN_ACTIVE | VPN_DOWN | VPN_ERROR

fun vpn_value :: "vpn_protocol \<Rightarrow> string" where
  "vpn_value VPN_WIREGUARD = ''wireguard''"
| "vpn_value VPN_IPSEC = ''ipsec''"

definition vpn_of :: "string \<Rightarrow> exc + vpn_protocol" where
  "vpn_of = enum_of vpn_value [VPN_WIREGUARD, VPN_IPSEC]"

record vpn_tunnel =
  vt_id :: string
  vt_name :: string
  vt_protocol :: vpn_protocol
  vt_local_endpoint :: string
  vt_remote_endpoint :: string
  vt_local_public_key :: string
  vt_remote_public_key :: string
  vt_listen_port :: int
  vt_preshared_key :: "string option"
  vt_project_id :: "string option"
  vt_status :: vpn_status
  vt_applied_config :: "string option"
  vt_applied_at :: "time option"
  vt_labels :: "(string, string) dict"
  vt_created_at :: time
  vt_updated_at :: time

definition mk_vpn_tunnel :: "vpn_tunnel \<Rightarrow> exc + vpn_tunnel" where
  "mk_vpn_tunnel t = bindE (port_check (vt_listen_port t)) (\<lambda>_. Inr t)"

definition vt_apply :: "string \<Rightarrow> time \<Rightarrow> vpn_tunnel \<Rightarrow> vpn_tunnel" where
  "vt_apply config now t =
     t\<lparr>vt_applied_config := Some config, vt_applied_at := Some now, vt_status := VPN_ACTIVE,
       vt_updated_at := now\<rparr>"

definition vt_set_down :: "time \<Rightarrow> vpn_tunnel \<Rightarrow> vpn_tunnel" where
  "vt_set_down now t = t\<lparr>vt_status := VPN_DOWN, vt_updated_at := now\<rparr>"

record vpn_peer =
  vp_id :: string
  vp_tunnel_id :: string
  vp_public_key :: string
  vp_allowed_ips :: "string list"
  vp_endpoint :: "string option"
  vp_keepalive :: int
  vp_created_at :: time
  vp_updated_at :: time

definition mk_vpn_peer :: "vpn_peer \<Rightarrow> exc + vpn_peer" where
  "mk_vpn_peer p = bindE (require (\<not> vp_keepalive p < 0) err_validation) (\<lambda>_. Inr p)"

end
