(* ===== verification/Configurators.thy ===== *)
theory Configurators
  imports N5_Entities
begin

text \<open>
  The generators of configuration text (\<open>core/services/\<close>): the nftables compiler of security
  policies, and the router, BGP, keepalived, haproxy, netplan, mirror and VPN configurators. The
  text of a generated file is its UTF-8 bytes: \<open>utf8\<close> encodes a field,
    \<open>uni\<close> the constant words of
  the code that lie outside Latin-1, given by their code points.
\<close>

definition utf8_cp :: "nat \<Rightarrow> string" where
  "utf8_cp n =
     (if n < 128 then [char_of n]
      else if n < 2048 then [char_of (192 + n div 64), char_of (128 + n mod 64)]
      else [char_of (224 + n div 4096), char_of (128 + n div 64 mod 64), char_of (128 + n mod 64)])"

definition uni :: "nat list \<Rightarrow> string" where
  "uni cps = concat (List.map utf8_cp cps)"

definition utf8 :: "string \<Rightarrow> string" where
  "utf8 s = concat (List.map (\<lambda>c. utf8_cp (of_char c)) s)"

definition text_lines :: "string list \<Rightarrow> string" where
  "text_lines ls = join [CHR 0x0A] ls"

text \<open>\<open>s.replace(a, b)\<close> for single characters.\<close>

definition replace_char :: "char \<Rightarrow> char \<Rightarrow> string \<Rightarrow> string" where
  "replace_char a b s = List.map (\<lambda>c. if c = a then b else c) s"

text \<open>\<open>n or d\<close> for an optional integer.\<close>

definition int_or :: "int option \<Rightarrow> int \<Rightarrow> int" where
  "int_or v d = (case v of None \<Rightarrow> d | Some n \<Rightarrow> if n = 0 then d else n)"

definition nonempty :: "string option \<Rightarrow> bool" where
  "nonempty v \<longleftrightarrow> v \<noteq> None \<and> v \<noteq> Some []"

subsection \<open>Security policies to nftables\<close>

definition cidrs_for :: "string \<Rightarrow> string \<Rightarrow> (string,
  string list) dict \<Rightarrow> string list option" where
  "cidrs_for ty v resolved =
     (if ty = ''any'' then None
      else if ty = ''cidr'' then (if v = [] then None else Some [v])
      else dget resolved (ty @ '':'' @ v))"

definition one_or_set :: "string \<Rightarrow> string list \<Rightarrow> string" where
  "one_or_set key vs =
     (case vs of [v] \<Rightarrow> key @ '' '' @ utf8 v
      | _ \<Rightarrow> key @ '' { '' @ join '', '' (List.map utf8 vs) @ '' }'')"

definition listed :: "string list option \<Rightarrow> string list" where
  "listed v = or_default [] v"

definition nft_match ::
  "string list option \<Rightarrow> string list option \<Rightarrow> string option \<Rightarrow> string list option \<Rightarrow> string list" where
  "nft_match src dst proto dports =
     (if listed src \<noteq> [] \<or> listed dst \<noteq> [] then [''ip''] else [])
     @ (if listed src \<noteq> [] then [one_or_set ''saddr'' (listed src)] else [])
     @ (if listed dst \<noteq> [] then [one_or_set ''daddr'' (listed dst)] else [])
     @ (if nonempty proto \<and> proto \<noteq> Some ''any'' then [utf8 (or_default [] proto)] else [])
     @ (if listed dports \<noteq> [] \<and> proto \<in> {Some ''tcp'', Some ''udp''}
        then [one_or_set ''dport'' (listed dports)] else [])"

definition skipped_line :: "policy_rule \<Rightarrow> string \<Rightarrow> string \<Rightarrow> string \<Rightarrow> string" where
  "skipped_line r side ty v =
     ''        # '' @ uni [1055, 1056, 1054, 1055, 1059, 1065, 1045, 1053, 1054] @ '' rule_id=''
       @ utf8 (pr_id r) @ '': '' @ side @ '' '' @ utf8 ty @ '':'' @ utf8 v
     @ '' '' @ uni [1085, 1077, 32, 1088, 1072, 1079, 1088, 1077, 1096, 1105, 1085]"

definition unresolved :: "string \<Rightarrow> string list option \<Rightarrow> bool" where
  "unresolved ty cidrs \<longleftrightarrow> ty \<notin> {''any'', ''cidr''} \<and> cidrs = None"

definition compile_rule ::
  "policy_rule \<Rightarrow> (string, string list) dict \<Rightarrow> (string,
    string) dict \<Rightarrow> (string, string list) dict
     \<Rightarrow> string list" where
  "compile_rule r resolved protos ports =
     (let src = cidrs_for (pr_source_type r) (pr_source_value r) resolved;
          dst = cidrs_for (pr_dest_type r) (pr_dest_value r) resolved
      in if unresolved (pr_source_type r) src
         then [skipped_line r ''source'' (pr_source_type r) (pr_source_value r)]
         else if unresolved (pr_dest_type r) dst
         then [skipped_line r ''destination'' (pr_dest_type r) (pr_dest_value r)]
         else let sid = (if nonempty (pr_service_id r) then pr_service_id r else None);
                  proto = Option.bind sid (dget protos);
                  dports = Option.bind sid (dget ports)
              in [''        '' @ join '' '' (nft_match src dst proto dports) @ '' counter ''
                  @ (if pr_action r = ''allow'' then ''accept'' else ''drop'')
                  @ (if pr_comment r \<noteq> [] then ''  # '' @ utf8 (pr_comment r) else [])
                  @ ''  # rule_id='' @ utf8 (pr_id r)])"

definition chain_rules :: "string \<Rightarrow> policy_rule list \<Rightarrow> policy_rule list" where
  "chain_rules dir rs = filter (\<lambda>r. pr_enabled r \<and> pr_direction r \<in> {dir, ''both''}) rs"

definition compile_chain ::
  "security_policy \<Rightarrow> (string, string list) dict \<Rightarrow> (string,
    string) dict \<Rightarrow> (string, string list) dict
     \<Rightarrow> string \<times> string \<Rightarrow> string list" where
  "compile_chain p resolved protos ports chain =
     [''    chain '' @ snd chain @ '' {'',
      ''        type filter hook '' @ snd chain @ '' priority 0; policy drop;'']
     @ concat (List.map (\<lambda>r. compile_rule r resolved protos ports)
                 (sort_key pr_priority (chain_rules (fst chain) (sp_rules p))))
     @ [''    }'', []]"

definition compile_policy ::
  "security_policy \<Rightarrow> (string, string list) dict \<Rightarrow> (string,
    string) dict \<Rightarrow> (string, string list) dict
     \<Rightarrow> string" where
  "compile_policy p resolved protos ports =
     text_lines ([''#!/usr/sbin/nft -f'',
                  ''# SecurityPolicy: '' @ utf8 (sp_name p) @ '' ('' @ utf8 (sp_id p) @ '')'', [],
                  ''table inet '' @ utf8 (replace_char (CHR ''-'') (CHR ''_'') (sp_id p)) @ '' {'']
       @ concat (List.map (compile_chain p resolved protos ports)
                   [(''ingress'', ''input''), (''egress'', ''output'')])
       @ [''}''])"

subsection \<open>Routers\<close>

definition router_routes :: "router \<Rightarrow> string list" where
  "router_routes r =
     (if rt_static_routes r = [] then []
      else [''# --- '' @ uni [1057, 1090, 1072, 1090, 1080, 1095, 1077, 1089, 1082, 1080, 1077, 32, 1084, 1072,
        1088, 1096, 1088, 1091, 1090, 1099] @ '' ---'']
         @ List.map (\<lambda>sr. ''ip route replace '' @ utf8 (srt_destination sr) @ '' via ''
           @ utf8 (srt_nexthop sr))
             (rt_static_routes r)
         @ [[]])"

definition router_nat :: "router \<Rightarrow> string list" where
  "router_nat r =
     (if \<not> nonempty (rt_external_network_id r) then []
      else let ext = utf8 (or_default [] (rt_external_network_id r));
               table = ''sdn_nat_'' @ utf8 (replace_char (CHR ''-'') (CHR ''_'') (rt_id r))
           in [''# --- NAT / masquerade ('' @ uni [1074, 1085, 1077, 1096, 1085, 1103, 1103, 32, 1089, 1077,
             1090, 1100] @ '') ---'',
               ''nft add table inet '' @ table @ '' 2>/dev/null || true'',
               ''nft add chain inet '' @ table @ '' postrouting ''
                 @ [CHR 0x27] @ ''{ type nat hook postrouting priority 100; }'' @ [CHR 0x27]
                   @ '' 2>/dev/null || true'',
               ''# external_network_id='' @ ext @ '': masquerade '' @ uni [1085, 1072] @ '' uplink-''
                 @ uni [1080, 1085, 1090, 1077, 1088, 1092, 1077, 1081, 1089, 1077],
               ''nft add rule inet '' @ table @ '' postrouting oifname != lo masquerade'', []])"

definition router_ipv6 :: "router \<Rightarrow> string list" where
  "router_ipv6 r = (case rt_ipv6_config r of None \<Rightarrow> []
     | Some c \<Rightarrow> if v6_mode c = IPV6_OFF then []
       else [''# --- IPv6 / SLAAC ---'']
         @ (if v6_mode c = IPV6_SLAAC
            then [''# '' @ uni [1056, 1077, 1078, 1080, 1084] @ '': SLAAC (radvd)'']
               @ (if v6_prefix c \<noteq> []
                  then [''# '' @ uni [1055, 1088, 1077, 1092, 1080, 1082, 1089, 32, 1076, 1083, 1103]
                    @ '' Router Advertisement: '' @ utf8 (v6_prefix c)] else [])
               @ [''# '' @ uni [1047, 1072, 1087, 1080, 1089, 1100] @ '' /etc/radvd.conf '' @ uni [1075, 1077,
                 1085, 1077, 1088, 1080, 1088, 1091, 1077, 1090, 1089, 1103, 32, 1072, 1075, 1077, 1085, 1090,
                   1086, 1084, 32, 1087, 1086, 32, 1096, 1072, 1073, 1083, 1086, 1085, 1091],
                  ''# radvd_prefix='' @ (if v6_prefix c \<noteq> [] then utf8 (v6_prefix c) else ''auto'')]
            else [''# '' @ uni [1056, 1077, 1078, 1080, 1084] @ '': DHCPv6 ''
              @ (if v6_stateful c then ''stateful'' else ''stateless'')]
               @ (if v6_prefix c \<noteq> []
                  then [''# DHCPv6 prefix delegation: '' @ utf8 (v6_prefix c)] else []))
         @ [[]])"

definition router_bgp_peer :: "bgp_peer \<Rightarrow> string list" where
  "router_bgp_peer p =
     [''# BGP peer: '' @ utf8 (bgp_peer_ip p) @ '' AS'' @ str_int (bgp_peer_asn p),
      ''# local_asn='' @ str_int (bgp_local_asn p) @ '' peer_id='' @ utf8 (bgp_id p)]
     @ (if bgp_password p \<noteq> [] then [''# MD5 '' @ uni [1072, 1091, 1090, 1077, 1085, 1090, 1080, 1092,
       1080, 1082, 1072, 1094, 1080, 1103] @ '': '' @ uni [1074, 1082, 1083, 1102, 1095, 1077, 1085, 1072]] else [])"

definition router_bgp :: "bgp_peer list \<Rightarrow> string list" where
  "router_bgp peers =
     (if peers = [] then []
      else [''# --- BGP (bird) ---''] @ concat (List.map router_bgp_peer peers)
         @ [''# '' @ uni [1055, 1086, 1083, 1085, 1099, 1081] @ '' bird.conf '' @ uni [1075, 1077, 1085, 1077,
           1088, 1080, 1088, 1091, 1077, 1090, 1089, 1103] @ '' BgpConfigurator '' @ uni [1080, 32, 1087, 1077,
             1088, 1077, 1076, 1072, 1105, 1090, 1089, 1103, 32, 1072, 1075, 1077, 1085, 1090, 1091], []])"

definition router_ha :: "router \<Rightarrow> string list" where
  "router_ha r =
     (if rt_ha_mode r \<noteq> HA_VRRP then []
      else [''# --- HA / VRRP (keepalived) ---'',
            ''# vrrp_vrid='' @ str_int (int_or (rt_vrrp_vrid r) 1)
              @ '' vrrp_priority='' @ str_int (int_or (rt_vrrp_priority r) 100),
            ''# keepalived.conf '' @ uni [1075, 1077, 1085, 1077, 1088, 1080, 1088, 1091, 1077, 1090, 1089,
              1103] @ '' HaConfigurator '' @ uni [1080, 32, 1087, 1077, 1088, 1077, 1076, 1072, 1105, 1090,
                1089, 1103, 32, 1072, 1075, 1077, 1085, 1090, 1091], []])"

definition router_config :: "router \<Rightarrow> bgp_peer list \<Rightarrow> time \<Rightarrow> string" where
  "router_config r peers now =
     text_lines ([''#!/bin/sh'', ''# SDN Controller '' @ uni [8212, 32, 1082, 1086, 1085, 1092, 1080, 1075,
       1091, 1088, 1072, 1094, 1080, 1103, 32, 1084, 1072, 1088, 1096, 1088, 1091, 1090, 1080, 1079, 1072,
         1090, 1086, 1088, 1072],
                  ''# Router: '' @ utf8 (rt_name r) @ '' ('' @ utf8 (rt_id r) @ '')'',
                  ''# '' @ uni [1057, 1075, 1077, 1085, 1077, 1088, 1080, 1088, 1086, 1074, 1072, 1085, 1086]
                    @ '': '' @ isoformat now, ''set -e'', []]
       @ router_routes r @ router_nat r @ router_ipv6 r @ router_bgp peers @ router_ha r
       @ [''# --- '' @ uni [1050, 1086, 1085, 1077, 1094, 32, 1082, 1086, 1085, 1092, 1080, 1075, 1091, 1088,
         1072, 1094, 1080, 1080] @ '' ---''])"

definition bgp_peer_block :: "bgp_peer \<Rightarrow> string list" where
  "bgp_peer_block p =
     [''protocol bgp bgp_'' @ utf8 (replace_char (CHR ''-'') (CHR ''_'') (bgp_id p)) @ '' {'',
      ''    local as '' @ str_int (bgp_local_asn p) @ '';'',
      ''    neighbor '' @ utf8 (bgp_peer_ip p) @ '' as '' @ str_int (bgp_peer_asn p) @ '';'']
     @ (if bgp_password p \<noteq> [] then [''    password '' @ [CHR 0x22] @ utf8 (bgp_password p)
       @ [CHR 0x22] @ '';''] else [])
     @ [''    ipv4 {'', ''        import all;'', ''        export all;'', ''    };'', ''}'', []]"

definition bgp_config :: "router \<Rightarrow> bgp_peer list \<Rightarrow> string \<Rightarrow> time \<Rightarrow> string" where
  "bgp_config r peers router_id_ip now =
     text_lines ([''# SDN Controller '' @ uni [8212] @ '' bird2 '' @ uni [1082, 1086, 1085, 1092, 1080, 1075],
                  ''# Router: '' @ utf8 (rt_name r) @ '' ('' @ utf8 (rt_id r) @ '')'',
                  ''# '' @ uni [1057, 1075, 1077, 1085, 1077, 1088, 1080, 1088, 1086, 1074, 1072, 1085, 1086]
                    @ '': '' @ isoformat now, [],
                  ''router id '' @ utf8 router_id_ip @ '';'', [], ''log syslog all;'', [],
                  ''protocol device {}'', [],
                  ''protocol direct {'', ''    ipv4;'', ''    ipv6;'', ''}'', [],
                  ''protocol kernel {'', ''    ipv4 { export all; };'', ''    learn;'', ''}'', []]
       @ concat (List.map bgp_peer_block peers))"

definition ha_config :: "router \<Rightarrow> string \<Rightarrow> string \<Rightarrow> time \<Rightarrow> exc + string" where
  "ha_config r iface vip now =
     bindE (require (rt_ha_mode r = HA_VRRP) err_validation) (\<lambda>_.
     let vrid = int_or (rt_vrrp_vrid r) 1; prio = int_or (rt_vrrp_priority r) 100
     in Inr (text_lines
          [''# SDN Controller '' @ uni [8212] @ '' keepalived '' @ uni [1082, 1086, 1085, 1092, 1080, 1075],
           ''# Router: '' @ utf8 (rt_name r) @ '' ('' @ utf8 (rt_id r) @ '')'',
           ''# '' @ uni [1057, 1075, 1077, 1085, 1077, 1088, 1080, 1088, 1086, 1074, 1072, 1085, 1086]
             @ '': '' @ isoformat now, [],
           ''global_defs {'', ''    router_id '' @ utf8 (rt_id r), ''}'', [],
           ''vrrp_instance SDN_HA {'',
           ''    state '' @ (if prio \<ge> 100 then ''MASTER'' else ''BACKUP''),
           ''    interface '' @ utf8 iface,
           ''    virtual_router_id '' @ str_int vrid,
           ''    priority '' @ str_int prio,
           ''    advert_int 1'', ''    authentication {'', ''        auth_type PASS'',
           ''        auth_pass sdn'' @ pad_int 3 vrid, ''    }'',
           ''    virtual_ipaddress {'', ''        '' @ utf8 vip, ''    }'', ''}'']))"

subsection \<open>Load balancers and bonds\<close>

definition haproxy_head :: "load_balancer \<Rightarrow> time \<Rightarrow> string list" where
  "haproxy_head l now =
     [''# SDN Controller '' @ uni [8212] @ '' haproxy.cfg'',
      ''# lb='' @ utf8 (lb_id l) @ '' name='' @ utf8 (py_repr (lb_name l)) @ '' generated='' @ isoformat now, [],
      ''global'', ''    log /dev/log local0'', ''    maxconn 50000'', ''    user haproxy'',
      ''    group haproxy'', ''    daemon'', [],
      ''defaults'', ''    log     global'', ''    mode    http'', ''    option  httplog'',
      ''    option  dontlognull'', ''    timeout connect 5s'', ''    timeout client  50s'',
      ''    timeout server  50s'', []]"

definition frontend_lines :: "load_balancer \<Rightarrow> lb_listener \<Rightarrow> string list" where
  "frontend_lines l x =
     [''frontend '' @ utf8 (ll_id x),
      ''    bind '' @ utf8 (lb_vip_address l) @ '':'' @ str_int (ll_port x),
      ''    mode '' @ lb_protocol_value (ll_protocol x),
      ''    default_backend '' @ (if nonempty (ll_default_pool_id x)
                               then ''pool_'' @ utf8 (or_default [] (ll_default_pool_id x))
                               else ''default_backend''), []]"

fun balance_word :: "lb_algorithm \<Rightarrow> string" where
  "balance_word LB_ROUND_ROBIN = ''roundrobin''"
| "balance_word LB_LEAST_CONNECTIONS = ''leastconn''"
| "balance_word LB_SOURCE_IP = ''source''"

definition health_check_lines :: "health_monitor \<Rightarrow> string list" where
  "health_check_lines h =
     [''    option httpchk '' @ utf8 (hm_http_method h) @ '' '' @ utf8 (hm_url_path h),
      ''    timeout check '' @ str_int (hm_timeout h) @ ''s'']"

definition server_line :: "lb_member \<Rightarrow> string" where
  "server_line m =
     ''    server '' @ utf8 (lbm_id m) @ '' '' @ utf8 (lbm_address m) @ '':'' @ str_int (lbm_port m)
     @ '' weight '' @ str_int (lbm_weight m) @ (if lbm_admin_state_up m then [] else '' disabled'') @ '' check''"

definition backend_lines ::
  "(string, lb_member list) dict \<Rightarrow> (string,
    health_monitor) dict \<Rightarrow> lb_pool \<Rightarrow> string list" where
  "backend_lines members monitors p =
     [''backend pool_'' @ utf8 (lpl_id p), ''    mode '' @ lb_protocol_value (lpl_protocol p),
      ''    balance '' @ balance_word (lpl_algorithm p)]
     @ (if lpl_persistence p = PERSIST_SOURCE_IP
        then [''    stick-table type ip size 100k expire 30m'', ''    stick on src''] else [])
     @ (case dget monitors (lpl_id p) of None \<Rightarrow> [] | Some h \<Rightarrow> health_check_lines h)
     @ List.map server_line (or_default [] (dget members (lpl_id p)))
     @ [[]]"

definition lb_config ::
  "load_balancer \<Rightarrow> lb_listener list \<Rightarrow> lb_pool list \<Rightarrow> (string, lb_member list) dict
     \<Rightarrow> (string, health_monitor) dict \<Rightarrow> time \<Rightarrow> string" where
  "lb_config l listeners pools members monitors now =
     text_lines (haproxy_head l now @ concat (List.map (frontend_lines l) listeners)
       @ concat (List.map (backend_lines members monitors) pools))"

fun bond_word :: "bond_mode \<Rightarrow> string" where
  "bond_word BOND_ACTIVE_BACKUP = ''active-backup''"
| "bond_word BOND_LACP = ''802.3ad''"
| "bond_word BOND_NONE = ''active-backup''"

definition bond_config :: "gateway_bond \<Rightarrow> time \<Rightarrow> string" where
  "bond_config b now =
     concat (List.map (\<lambda>l. l @ [CHR 0x0A])
       [''# SDN Controller '' @ uni [8212] @ '' netplan bond config'',
        ''# bond='' @ utf8 (gb_id b) @ '' node='' @ utf8 (gb_node_id b) @ '' generated='' @ isoformat now,
        ''network:'', ''  version: 2'', ''  bonds:'', ''    '' @ utf8 (gb_bond_name b) @ '':'',
        ''      interfaces:'',
        text_lines (List.map (\<lambda>m. ''              - '' @ utf8 m) (gb_members b)),
        ''      parameters:'', ''        mode: '' @ bond_word (gb_mode b),
        ''        lacp-rate: fast'', ''        mii-monitor-interval: 100'',
        ''      mtu: '' @ str_int (gb_mtu b)])"

subsection \<open>Mirrors and VPN\<close>

definition select_args :: "mirror_direction \<Rightarrow> string \<Rightarrow> string list" where
  "select_args d port =
     (let u = ''$(ovs-vsctl get Port '' @ utf8 port @ '' _uuid)'';
          src = ''select-src-port='' @ u; dst = ''select-dst-port='' @ u
      in case d of MIRROR_INGRESS \<Rightarrow> [src] | MIRROR_EGRESS \<Rightarrow> [dst] | MIRROR_BOTH \<Rightarrow> [src, dst])"

definition mirror_lines :: "mirror_session \<Rightarrow> string list" where
  "mirror_lines m =
     [''ovs-vsctl '' @ [CHR 0x5C], ''    -- --id=@m create Mirror name='' @ utf8 (py_repr (ms_name m))
       @ '' '' @ [CHR 0x5C]]
     @ List.map (\<lambda>a. ''    '' @ a @ '' '' @ [CHR 0x5C]) (select_args (ms_direction m) (ms_source_port_id m))"

definition span_lines :: "mirror_session \<Rightarrow> string list" where
  "span_lines m =
     mirror_lines m
     @ (case ms_filter_vlan m of None \<Rightarrow> [] | Some v \<Rightarrow> [''    select-vlan=''
       @ str_int v @ '' '' @ [CHR 0x5C]])
     @ [''    output-port=$(ovs-vsctl get Port ''
        @ (case ms_dest_port_id m of None \<Rightarrow> ''None'' | Some p \<Rightarrow> utf8 p) @ '' _uuid)'']"

definition erspan_lines :: "mirror_session \<Rightarrow> string \<Rightarrow> string list" where
  "erspan_lines m ip =
     (let iface = ''erspan_'' @ utf8 (ms_id m)
      in [''# '' @ uni [1057, 1086, 1079, 1076, 1072, 1090, 1100] @ '' ERSPAN-'' @ uni [1080, 1085, 1090, 1077,
        1088, 1092, 1077, 1081, 1089], ''ovs-vsctl add-port br-int '' @ iface @ '' '' @ [CHR 0x5C],
          ''    -- set interface '' @ iface @ '' type=erspan '' @ [CHR 0x5C],
          ''    options:remote_ip='' @ utf8 ip
            @ (case ms_filter_vlan m of None \<Rightarrow> [] | Some v \<Rightarrow> '' options:erspan_vlan='' @ str_int v), [],
          ''# '' @ uni [1053, 1072, 1089, 1090, 1088, 1086, 1080, 1090, 1100, 32, 1079, 1077, 1088, 1082, 1072,
            1083, 1086]]
       @ mirror_lines m
       @ [''    output-port=$(ovs-vsctl get Port '' @ iface @ '' _uuid)''])"

definition mirror_config :: "mirror_session \<Rightarrow> string" where
  "mirror_config m =
     text_lines ([''# SDN Controller '' @ uni [8212] @ '' Mirror Session'',
                  ''# id='' @ utf8 (ms_id m) @ '' name='' @ utf8 (py_repr (ms_name m)),
                  ''# direction='' @ mirror_value (ms_direction m), []]
       @ (case ms_dest_ip m of Some ip \<Rightarrow> erspan_lines m ip | None \<Rightarrow> span_lines m))"

definition wireguard_peer :: "vpn_tunnel \<Rightarrow> vpn_peer \<Rightarrow> string list" where
  "wireguard_peer t p =
     [[], ''[Peer]'', ''PublicKey = '' @ utf8 (vp_public_key p)]
     @ (if nonempty (vp_endpoint p) then [''Endpoint = '' @ utf8 (or_default [] (vp_endpoint p))] else [])
     @ (if vp_allowed_ips p \<noteq> []
        then [''AllowedIPs = '' @ join '', '' (List.map utf8 (vp_allowed_ips p))]
        else [''AllowedIPs = 0.0.0.0/0''])
     @ (if nonempty (vt_preshared_key t)
        then [''PresharedKey = '' @ utf8 (or_default [] (vt_preshared_key t))] else [])
     @ (if vp_keepalive p > 0 then [''PersistentKeepalive = '' @ str_int (vp_keepalive p)] else [])"

definition wireguard_config :: "vpn_tunnel \<Rightarrow> vpn_peer list \<Rightarrow> string" where
  "wireguard_config t peers =
     text_lines ([''# SDN Controller '' @ uni [8212] @ '' WireGuard '' @ uni [1082, 1086, 1085, 1092, 1080, 1075],
                  ''# tunnel='' @ utf8 (vt_id t) @ '' name='' @ utf8 (py_repr (vt_name t)), [],
                  ''[Interface]'', ''# PrivateKey '' @ uni [1079, 1072, 1076, 1072, 1105, 1090, 1089, 1103, 32,
                    1086, 1087, 1077, 1088, 1072, 1090, 1086, 1088, 1086, 1084, 32, 1087, 1088, 1080, 32, 1076,
                      1077, 1087, 1083, 1086, 1077],
                  ''PrivateKey = <REPLACE_WITH_PRIVATE_KEY>'',
                  ''Address = '' @ utf8 (vt_local_endpoint t) @ ''/32'',
                  ''ListenPort = '' @ str_int (vt_listen_port t)]
       @ concat (List.map (wireguard_peer t) peers))"

definition ipsec_config :: "vpn_tunnel \<Rightarrow> string" where
  "ipsec_config t =
     (let le = utf8 (vt_local_endpoint t); re = utf8 (vt_remote_endpoint t)
      in text_lines
           [''# SDN Controller '' @ uni [8212] @ '' IPsec '' @ uni [1082, 1086, 1085, 1092, 1080, 1075]
             @ '' (Strongswan)'',
            ''# tunnel='' @ utf8 (vt_id t) @ '' name='' @ utf8 (py_repr (vt_name t)), [],
            ''config setup'', ''    charondebug='' @ [CHR 0x22] @ ''ike 2, knl 2, cfg 2'' @ [CHR 0x22], [],
            ''conn '' @ utf8 (py_lower (replace_char (CHR '' '') (CHR ''_'') (vt_name t))),
            ''    keyexchange=ikev2'', ''    authby=psk'', ''    left='' @ le, ''    leftid='' @ le,
            ''    right='' @ re, ''    rightid='' @ re, ''    auto=start'',
            ''    ike=aes256-sha256-modp2048!'', ''    esp=aes256-sha256!'', ''    dpdaction=restart'',
            ''    dpddelay=30s'']
         @ [CHR 0x0A, CHR 0x0A]
         @ text_lines
           [''# IPsec secrets (ipsec.secrets)'',
            le @ '' '' @ re @ '' : PSK '' @ [CHR 0x22]
              @ (if nonempty (vt_preshared_key t) then utf8 (or_default [] (vt_preshared_key t))
                 else ''<REPLACE_WITH_PSK>'') @ [CHR 0x22]])"

definition vpn_config :: "vpn_tunnel \<Rightarrow> vpn_peer list \<Rightarrow> string" where
  "vpn_config t peers =
     (case vt_protocol t of VPN_WIREGUARD \<Rightarrow> wireguard_config t peers | VPN_IPSEC \<Rightarrow> ipsec_config t)"

end
