(* ===== verification/Catalogue.thy ===== *)
theory Catalogue
  imports System Configurators
begin

text \<open>
  The repositories of the resource catalogue (\<open>adapters/memory/repositories.py\<close>): one
  insertion-ordered dictionary per kind of entity, keyed by id; security-group members are keyed by
  group, type and value. A use case of the catalogue runs on the shared world of the controller
  (clock, ids, nodes, networks, outbox) and on these stores. \<open>fetch\<close> is the code's
  \<open>x = await repo.get(i); if x is None: raise NotFoundError\<close>, \<open>keep\<close> is \<open>save\<close>, \<open>discard\<close> is \<open>delete\<close>
  and \<open>announce\<close> is \<open>events.publish\<close>.
\<close>

record catalogue =
  ct_ports :: "(string, logical_port) dict"
  ct_groups :: "(string, security_group) dict"
  ct_members :: "(string \<times> string \<times> string, sg_member) dict"
  ct_pools :: "(string, address_pool) dict"
  ct_services :: "(string, service_object) dict"
  ct_qos :: "(string, qos_policy) dict"
  ct_policies :: "(string, security_policy) dict"
  ct_trunks :: "(string, trunk_port) dict"
  ct_routers :: "(string, router) dict"
  ct_fips :: "(string, floating_ip) dict"
  ct_bgp :: "(string, bgp_peer) dict"
  ct_quotas :: "(string, project_quota) dict"
  ct_snapshots :: "(string, resource_snapshot) dict"
  ct_bonds :: "(string, gateway_bond) dict"
  ct_retention :: "(string, retention_policy) dict"
  ct_lbs :: "(string, load_balancer) dict"
  ct_listeners :: "(string, lb_listener) dict"
  ct_lb_pools :: "(string, lb_pool) dict"
  ct_lb_members :: "(string, lb_member) dict"
  ct_monitors :: "(string, health_monitor) dict"
  ct_schedules :: "(string, apply_schedule) dict"
  ct_mirrors :: "(string, mirror_session) dict"
  ct_tunnels :: "(string, vpn_tunnel) dict"
  ct_peers :: "(string, vpn_peer) dict"

type_synonym 'ag site = "'ag world \<times> catalogue"

type_synonym ('ag, 'a) site_act = "('ag site, exc, 'a) act"

definition empty_catalogue :: catalogue where
  "empty_catalogue =
     \<lparr>ct_ports = [], ct_groups = [], ct_members = [], ct_pools = [], ct_services = [], ct_qos = [],
      ct_policies = [], ct_trunks = [], ct_routers = [], ct_fips = [], ct_bgp = [], ct_quotas = [],
      ct_snapshots = [], ct_bonds = [], ct_retention = [], ct_lbs = [], ct_listeners = [],
      ct_lb_pools = [], ct_lb_members = [], ct_monitors = [], ct_schedules = [], ct_mirrors = [],
      ct_tunnels = [], ct_peers = []\<rparr>"

subsection \<open>Reads of the repositories\<close>

text \<open>\<open>if v is not None: items = [x for x in items if x.field == v]\<close>\<close>

definition only :: "'a option \<Rightarrow> ('v \<Rightarrow> 'a) \<Rightarrow> 'v list \<Rightarrow> 'v list" where
  "only v f xs = (case v of None \<Rightarrow> xs | Some a \<Rightarrow> filter (\<lambda>x. f x = a) xs)"

definition list_ports ::
  "string option \<Rightarrow> string option \<Rightarrow> string option \<Rightarrow> catalogue \<Rightarrow> logical_port list" where
  "list_ports node net project c =
     sort_key lp_created_at (only (map_option Some project) lp_project_id
       (only net lp_network_id (only node lp_node_id (dvalues (ct_ports c)))))"

definition delete_ports_for_node :: "string \<Rightarrow> (string, logical_port) dict \<Rightarrow> (string, logical_port) dict" where
  "delete_ports_for_node node d = filter (\<lambda>(_, p). lp_node_id p \<noteq> node) d"

definition list_groups :: "string option \<Rightarrow> catalogue \<Rightarrow> security_group list" where
  "list_groups project c =
     sort_key sg_name (only (map_option Some project) sg_project_id (dvalues (ct_groups c)))"

text \<open>\<open>items.sort(key=lambda m: (m.member_type, m.member_value))\<close>: two stable sorts, the minor key first.\<close>

definition list_members :: "string \<Rightarrow> catalogue \<Rightarrow> sg_member list" where
  "list_members gid c =
     sort_key sgm_type (sort_key sgm_value
       (List.map snd (filter (\<lambda>(k, _). fst k = gid) (ct_members c))))"

definition delete_members_for_group ::
  "string \<Rightarrow> (string \<times> string \<times> string, sg_member) dict
     \<Rightarrow> (string \<times> string \<times> string, sg_member) dict" where
  "delete_members_for_group gid d = filter (\<lambda>(k, _). fst k \<noteq> gid) d"

definition list_pools :: "string option \<Rightarrow> catalogue \<Rightarrow> address_pool list" where
  "list_pools project c =
     sort_key ap_name (only (map_option Some project) ap_project_id (dvalues (ct_pools c)))"

definition list_services :: "string option \<Rightarrow> catalogue \<Rightarrow> service_object list" where
  "list_services project c =
     sort_key so_name (only (map_option Some project) so_project_id (dvalues (ct_services c)))"

definition list_qos :: "string option \<Rightarrow> catalogue \<Rightarrow> qos_policy list" where
  "list_qos project c =
     sort_key qp_name (only (map_option Some project) qp_project_id (dvalues (ct_qos c)))"

definition list_policies :: "string option \<Rightarrow> catalogue \<Rightarrow> security_policy list" where
  "list_policies project c =
     sort_key sp_name (only (map_option Some project) sp_project_id (dvalues (ct_policies c)))"

definition list_trunks :: "string option \<Rightarrow> string option \<Rightarrow> catalogue \<Rightarrow> trunk_port list" where
  "list_trunks node project c =
     sort_key tp_name (only (map_option Some project) tp_project_id
       (only node tp_node_id (dvalues (ct_trunks c))))"

definition list_routers :: "string option \<Rightarrow> catalogue \<Rightarrow> router list" where
  "list_routers project c =
     sort_key rt_name (only (map_option Some project) rt_project_id (dvalues (ct_routers c)))"

definition list_fips :: "string option \<Rightarrow> string option \<Rightarrow> catalogue \<Rightarrow> floating_ip list" where
  "list_fips project router c =
     sort_key fip_address (only (map_option Some router) fip_router_id
       (only (map_option Some project) fip_project_id (dvalues (ct_fips c))))"

definition list_bgp :: "string option \<Rightarrow> string option \<Rightarrow> catalogue \<Rightarrow> bgp_peer list" where
  "list_bgp router project c =
     sort_key bgp_peer_ip (only (map_option Some project) bgp_project_id
       (only router bgp_router_id (dvalues (ct_bgp c))))"

definition quota_by_project :: "string \<Rightarrow> catalogue \<Rightarrow> project_quota option" where
  "quota_by_project project c = find (\<lambda>q. pq_project_id q = project) (dvalues (ct_quotas c))"

definition list_snapshots :: "string option \<Rightarrow> catalogue \<Rightarrow> resource_snapshot list" where
  "list_snapshots project c = sort_key rs_version (only project rs_project_id (dvalues (ct_snapshots c)))"

definition retention_by_scope :: "retention_scope \<Rightarrow> string option \<Rightarrow> catalogue \<Rightarrow> retention_policy option" where
  "retention_by_scope scope project c =
     find (\<lambda>p. rp_scope p = scope \<and> rp_project_id p = project) (dvalues (ct_retention c))"

definition list_retention :: "string option \<Rightarrow> catalogue \<Rightarrow> retention_policy list" where
  "list_retention project c =
     sort_key (\<lambda>p. retention_value (rp_scope p))
       (only (map_option Some project) rp_project_id (dvalues (ct_retention c)))"

definition list_bonds :: "string option \<Rightarrow> string option \<Rightarrow> catalogue \<Rightarrow> gateway_bond list" where
  "list_bonds node project c =
     sort_key gb_name (only (map_option Some project) gb_project_id
       (only node gb_node_id (dvalues (ct_bonds c))))"

definition list_lbs :: "string option \<Rightarrow> catalogue \<Rightarrow> load_balancer list" where
  "list_lbs project c =
     sort_key lb_name (only (map_option Some project) lb_project_id (dvalues (ct_lbs c)))"

definition list_listeners :: "string option \<Rightarrow> catalogue \<Rightarrow> lb_listener list" where
  "list_listeners lb c = sort_key ll_port (only lb ll_lb_id (dvalues (ct_listeners c)))"

definition list_lb_pools :: "string option \<Rightarrow> catalogue \<Rightarrow> lb_pool list" where
  "list_lb_pools lb c = sort_key lpl_name (only lb lpl_lb_id (dvalues (ct_lb_pools c)))"

definition list_lb_members :: "string option \<Rightarrow> catalogue \<Rightarrow> lb_member list" where
  "list_lb_members pool c = sort_key lbm_address (only pool lbm_pool_id (dvalues (ct_lb_members c)))"

definition monitor_by_pool :: "string \<Rightarrow> catalogue \<Rightarrow> health_monitor option" where
  "monitor_by_pool pool c = find (\<lambda>h. hm_pool_id h = pool) (dvalues (ct_monitors c))"

definition list_schedules :: "bool \<Rightarrow> string option \<Rightarrow> catalogue \<Rightarrow> apply_schedule list" where
  "list_schedules enabled_only project c =
     only (map_option Some project) sch_project_id
       (if enabled_only then filter sch_enabled (dvalues (ct_schedules c)) else dvalues (ct_schedules c))"

definition list_mirrors :: "string option \<Rightarrow> catalogue \<Rightarrow> mirror_session list" where
  "list_mirrors project c = only (map_option Some project) ms_project_id (dvalues (ct_mirrors c))"

definition list_tunnels :: "string option \<Rightarrow> catalogue \<Rightarrow> vpn_tunnel list" where
  "list_tunnels project c = only (map_option Some project) vt_project_id (dvalues (ct_tunnels c))"

definition list_peers :: "string option \<Rightarrow> catalogue \<Rightarrow> vpn_peer list" where
  "list_peers tunnel c = only tunnel vp_tunnel_id (dvalues (ct_peers c))"

lemma set_only: "x \<in> set (only v f xs) \<longleftrightarrow> x \<in> set xs \<and> (\<forall>a. v = Some a \<longrightarrow> f x = a)"
  by (auto simp: only_def split: option.split)

subsection \<open>The steps of a use case\<close>

definition on_world :: "('ag world, exc, 'a) act \<Rightarrow> ('ag, 'a) site_act" where
  "on_world m = zoomM fst (\<lambda>w s. (w, snd s)) m"

abbreviation nowS :: "env \<Rightarrow> ('ag, time) site_act" where
  "nowS env \<equiv> on_world (nowM env)"

abbreviation freshS :: "env \<Rightarrow> id_kind \<Rightarrow> ('ag, string) site_act" where
  "freshS env k \<equiv> on_world (freshM env k)"

definition announce ::
  "env \<Rightarrow> string \<Rightarrow> string \<Rightarrow> string \<Rightarrow> payload \<Rightarrow> string option \<Rightarrow> ('ag, unit) site_act" where
  "announce env et rt rid pl pr = on_world (voidM (publish env et rt (Some rid) pl pr))"

definition fetch :: "(catalogue \<Rightarrow> ('k, 'v) dict) \<Rightarrow> 'k \<Rightarrow> ('ag, 'v) site_act" where
  "fetch sel i = (\<lambda>s. (of_option err_not_found (dget (sel (snd s)) i), s))"

definition keep ::
  "((('k, 'v) dict \<Rightarrow> ('k, 'v) dict) \<Rightarrow> catalogue \<Rightarrow> catalogue) \<Rightarrow> 'k \<Rightarrow> 'v \<Rightarrow> ('ag, unit) site_act" where
  "keep upd k v = modifyM (\<lambda>s. (fst s, upd (dset k v) (snd s)))"

definition discard ::
  "((('k, 'v) dict \<Rightarrow> ('k, 'v) dict) \<Rightarrow> catalogue \<Rightarrow> catalogue) \<Rightarrow> 'k \<Rightarrow> ('ag, unit) site_act" where
  "discard upd k = modifyM (\<lambda>s. (fst s, upd (dpop k) (snd s)))"

text \<open>A read that lists or searches the stores.\<close>

definition readS :: "(catalogue \<Rightarrow> 'a) \<Rightarrow> ('ag, 'a) site_act" where
  "readS f = getM (\<lambda>s. f (snd s))"

text \<open>\<open>if await repo.get(i) is None: raise NotFoundError\<close> on a repository of the shared world.\<close>

definition require_in :: "('ag world \<Rightarrow> (string, 'v) dict) \<Rightarrow> string \<Rightarrow> ('ag, unit) site_act" where
  "require_in sel i = bindM (getM (\<lambda>s. dget (sel (fst s)) i)) (\<lambda>r. guardM (r \<noteq> None) err_not_found)"

end
