(* ===== verification/Catalogue_Invariants.thy ===== *)
theory Catalogue_Invariants
  imports Catalogue
begin

text \<open>
  What is always true of the catalogue: every entry stands under its own id, drawn from the id
  factory, and satisfies what its constructor checked; and the stores agree with each other
  (members belong to an existing group, peers to an existing tunnel, one quota per project, one
  retention policy per scope and project, one monitor per pool, versions of a project's snapshots
  distinct). \<open>safe c R ks m\<close> says that the action m keeps all of it, from a state whose catalogue
  satisfies R and in which the ids of ks are drawn; its rules follow the text of a use case.
\<close>

subsection \<open>The invariant\<close>

definition shelf_ok ::
  "env \<Rightarrow> nat \<Rightarrow> id_kind \<Rightarrow> ('v \<Rightarrow> string) \<Rightarrow> ('v \<Rightarrow> bool) \<Rightarrow> (string, 'v) dict \<Rightarrow> bool" where
  "shelf_ok env n kind ident valid d \<longleftrightarrow>
     dwf d \<and> (\<forall>k v. dget d k = Some v \<longrightarrow> ident v = k \<and> valid v \<and> drawn env n kind k)"

abbreviation anything :: "'v \<Rightarrow> bool" where
  "anything \<equiv> \<lambda>_. True"

definition members_ok :: "(string \<times> string \<times> string, sg_member) dict \<Rightarrow> bool" where
  "members_ok d \<longleftrightarrow> dwf d \<and> (\<forall>k m. dget d k = Some m \<longrightarrow> sgm_key m = k \<and> sgm_valid m)"

text \<open>
  A compiled or applied policy carries a rule set that was compiled from exactly the rules it has
  now; only the name in the comment line may be an older one, and the service objects may have
  changed since.
\<close>

definition policy_current :: "security_policy \<Rightarrow> bool" where
  "policy_current p \<longleftrightarrow> (sp_status p \<in> {SP_COMPILED, SP_APPLIED} \<longrightarrow>
     (\<exists>name protos ports. sp_compiled_ruleset p = Some (compile_policy (p\<lparr>sp_name := name\<rparr>) [] protos ports)))"

definition policy_ok :: "security_policy \<Rightarrow> bool" where
  "policy_ok p \<longleftrightarrow> sp_valid p \<and> policy_current p"

definition entries_ok :: "env \<Rightarrow> nat \<Rightarrow> catalogue \<Rightarrow> bool" where
  "entries_ok env n c \<longleftrightarrow>
     shelf_ok env n LogicalPortId lp_id lp_valid (ct_ports c) \<and>
     shelf_ok env n SecurityGroupId sg_id sg_valid (ct_groups c) \<and>
     members_ok (ct_members c) \<and>
     shelf_ok env n AddressPoolId ap_id ap_valid (ct_pools c) \<and>
     shelf_ok env n ServiceObjectId so_id so_valid (ct_services c) \<and>
     shelf_ok env n QosPolicyId qp_id qp_valid (ct_qos c) \<and>
     shelf_ok env n SecurityPolicyId sp_id policy_ok (ct_policies c) \<and>
     shelf_ok env n TrunkPortId tp_id tp_valid (ct_trunks c) \<and>
     shelf_ok env n RouterId rt_id rt_valid (ct_routers c) \<and>
     shelf_ok env n FloatingIpId fip_id fip_valid (ct_fips c) \<and>
     shelf_ok env n BgpPeerId bgp_id bgp_valid (ct_bgp c) \<and>
     shelf_ok env n ProjectQuotaId pq_id pq_valid (ct_quotas c) \<and>
     shelf_ok env n ResourceSnapshotId rs_id anything (ct_snapshots c) \<and>
     shelf_ok env n GatewayBondId gb_id gb_valid (ct_bonds c) \<and>
     shelf_ok env n RetentionPolicyId rp_id rp_valid (ct_retention c) \<and>
     shelf_ok env n LoadBalancerId lb_id lb_valid (ct_lbs c) \<and>
     shelf_ok env n LbListenerId ll_id ll_valid (ct_listeners c) \<and>
     shelf_ok env n LbPoolId lpl_id anything (ct_lb_pools c) \<and>
     shelf_ok env n LbMemberId lbm_id lbm_valid (ct_lb_members c) \<and>
     shelf_ok env n HealthMonitorId hm_id hm_valid (ct_monitors c) \<and>
     shelf_ok env n ApplyScheduleId sch_id sch_valid (ct_schedules c) \<and>
     shelf_ok env n MirrorSessionId ms_id ms_valid (ct_mirrors c) \<and>
     shelf_ok env n VpnTunnelId vt_id anything (ct_tunnels c) \<and>
     shelf_ok env n VpnPeerId vp_id anything (ct_peers c)"

text \<open>No two entries of a store share the key \<open>f\<close>.\<close>

definition unique_by :: "('v \<Rightarrow> 'k) \<Rightarrow> (string, 'v) dict \<Rightarrow> bool" where
  "unique_by f d \<longleftrightarrow> (\<forall>i j v w. dget d i = Some v \<longrightarrow> dget d j = Some w \<longrightarrow> f v = f w \<longrightarrow> i = j)"

definition members_linked ::
  "(string, security_group) dict \<Rightarrow> (string \<times> string \<times> string, sg_member) dict \<Rightarrow> bool" where
  "members_linked gs ms \<longleftrightarrow> (\<forall>k m. dget ms k = Some m \<longrightarrow> dget gs (sgm_sg_id m) \<noteq> None)"

definition peers_linked :: "(string, vpn_tunnel) dict \<Rightarrow> (string, vpn_peer) dict \<Rightarrow> bool" where
  "peers_linked ts ps \<longleftrightarrow> (\<forall>k p. dget ps k = Some p \<longrightarrow> dget ts (vp_tunnel_id p) \<noteq> None)"

abbreviation retention_key :: "retention_policy \<Rightarrow> retention_scope \<times> string option" where
  "retention_key p \<equiv> (rp_scope p, rp_project_id p)"

abbreviation snapshot_key :: "resource_snapshot \<Rightarrow> string \<times> int" where
  "snapshot_key x \<equiv> (rs_project_id x, rs_version x)"

abbreviation peer_key :: "vpn_peer \<Rightarrow> string \<times> string" where
  "peer_key p \<equiv> (vp_tunnel_id p, vp_public_key p)"

definition links_ok :: "catalogue \<Rightarrow> bool" where
  "links_ok c \<longleftrightarrow> members_linked (ct_groups c) (ct_members c) \<and>
     unique_by pq_project_id (ct_quotas c) \<and> unique_by retention_key (ct_retention c) \<and>
     unique_by hm_pool_id (ct_monitors c) \<and> unique_by snapshot_key (ct_snapshots c) \<and>
     unique_by peer_key (ct_peers c) \<and> peers_linked (ct_tunnels c) (ct_peers c)"

definition site_ok :: "'ag wiring \<Rightarrow> 'ag site \<Rightarrow> bool" where
  "site_ok c s \<longleftrightarrow> system_ok c (fst s) \<and> entries_ok (wr_env c) (w_ids (fst s)) (snd s) \<and> links_ok (snd s)"

definition known :: "'ag wiring \<Rightarrow> (id_kind \<times> string) set \<Rightarrow> 'ag site \<Rightarrow> bool" where
  "known c ks s \<longleftrightarrow> (\<forall>(kind, i) \<in> ks. drawn (wr_env c) (w_ids (fst s)) kind i)"

definition safe ::
  "'ag wiring \<Rightarrow> (catalogue \<Rightarrow> bool) \<Rightarrow> (id_kind \<times> string) set \<Rightarrow> ('ag, 'a) site_act \<Rightarrow> bool" where
  "safe c R ks m \<longleftrightarrow> (inj (e_rnd (wr_env c)) \<longrightarrow>
     spec (\<lambda>s. site_ok c s \<and> R (snd s) \<and> known c ks s) m (\<lambda>_. site_ok c) (\<lambda>_. site_ok c))"

lemma shelf_ok_mono: "shelf_ok env n kind ident valid d \<Longrightarrow> n \<le> n' \<Longrightarrow> shelf_ok env n' kind ident valid d"
  unfolding shelf_ok_def by (blast intro: drawn_mono)

lemma shelf_ok_keep:
  "shelf_ok env n kind ident valid d \<Longrightarrow> drawn env n kind k \<Longrightarrow> valid v \<Longrightarrow> ident v = k \<Longrightarrow>
   shelf_ok env n kind ident valid (dset k v d)"
  by (auto simp: shelf_ok_def)

lemma shelf_ok_discard:
  "shelf_ok env n kind ident valid d \<Longrightarrow> shelf_ok env n kind ident valid (dpop k d)"
  by (auto simp: shelf_ok_def split: if_splits)

lemma entries_ok_mono: "entries_ok env n d \<Longrightarrow> n \<le> n' \<Longrightarrow> entries_ok env n' d"
  unfolding entries_ok_def by (blast intro: shelf_ok_mono)

lemma known_mono: "known c ks s \<Longrightarrow> w_ids (fst s) \<le> w_ids (fst s') \<Longrightarrow> known c ks s'"
  by (auto simp: known_def intro: drawn_mono)

lemma site_ok_quiet: "site_ok c s \<Longrightarrow> quiet (fst s) w \<Longrightarrow> site_ok c (w, snd s)"
  using quiet_ok entries_ok_mono by (fastforce simp: site_ok_def quiet_def)

lemma system_ok_published:
  assumes "system_ok c w" "inj (e_rnd (wr_env c))"
  shows "system_ok c (published (event_of (wr_env c) w et rt rid pl pr) w)"
proof -
  let ?w = "published (event_of (wr_env c) w et rt rid pl pr) w"
  have "w_ids w \<le> w_ids ?w" by simp
  then show ?thesis
    using books_ok_published [OF system_parts(5) [OF assms(1)] assms(2)] ok_mono(1-4) system_parts(1-4) [OF assms(1)]
    unfolding system_ok_def by auto
qed

lemma site_ok_published:
  assumes "site_ok c s" "inj (e_rnd (wr_env c))"
  shows "site_ok c (published (event_of (wr_env c) (fst s) et rt rid pl pr) (fst s), snd s)"
  using assms system_ok_published [OF _ assms(2)] entries_ok_mono [OF _ le_SucI [OF order_refl]]
  by (auto simp: site_ok_def)

lemma safeI:
  "(\<And>s r s'. inj (e_rnd (wr_env c)) \<Longrightarrow> site_ok c s \<Longrightarrow> R (snd s) \<Longrightarrow> known c ks s \<Longrightarrow> m s = (r, s') \<Longrightarrow>
     site_ok c s') \<Longrightarrow> safe c R ks m"
  unfolding safe_def by (intro impI specI) blast+

lemma safeD:
  "safe c R ks m \<Longrightarrow> inj (e_rnd (wr_env c)) \<Longrightarrow> site_ok c s \<Longrightarrow> R (snd s) \<Longrightarrow> known c ks s \<Longrightarrow>
   m s = (r, s') \<Longrightarrow> site_ok c s'"
  by (cases r) (auto simp: safe_def dest: spec_Inl spec_Inr)

lemma safe_weaken: "safe c R ks m \<Longrightarrow> (\<And>d. R' d \<Longrightarrow> R d) \<Longrightarrow> ks \<subseteq> ks' \<Longrightarrow> safe c R' ks' m"
  unfolding safe_def known_def by (rule impI, drule mp, assumption, erule spec_conseq) auto

text \<open>A consequence of what is known of the catalogue may be used: without it there is no such state.\<close>

lemma safe_given: "(\<And>d. R d \<Longrightarrow> P) \<Longrightarrow> (P \<Longrightarrow> safe c R ks m) \<Longrightarrow> safe c R ks m"
  by (cases P) (auto simp: safe_def spec_def)

lemma safe_return: "safe c R ks (returnM x)"
  by (rule safeI) auto

text \<open>A step that changes nothing but the clock and the ids, and what follows it.\<close>

lemma safe_step:
  assumes "\<And>s. \<exists>x w. m s = (Inr x, (w, snd s)) \<and> quiet (fst s) w \<and> known c (K x) (w, snd s)"
    and "\<And>x. safe c R (K x \<union> ks) (f x)"
  shows "safe c R ks (bindM m f)"
proof (rule safeI)
  fix s r s'
  assume *: "inj (e_rnd (wr_env c))" "site_ok c s" "R (snd s)" "known c ks s" "bindM m f s = (r, s')"
  obtain x w where m: "m s = (Inr x, (w, snd s))" "quiet (fst s) w" "known c (K x) (w, snd s)"
    using assms(1) by blast
  have "site_ok c (w, snd s)" using *(2) m(2) by (rule site_ok_quiet)
  moreover have "known c (K x \<union> ks) (w, snd s)"
    using m(3) known_mono [OF *(4), of "(w, snd s)"] m(2) by (auto simp: known_def quiet_def)
  moreover have "f x (w, snd s) = (r, s')" using *(5) m(1) by (simp add: bindM_run)
  ultimately show "site_ok c s'" using safeD [OF assms(2) *(1)] *(3) by simp
qed

lemma on_world_run: "on_world m s = (fst (m (fst s)), (snd (m (fst s)), snd s))"
  by (simp add: on_world_def zoomM_run)

lemma safe_now: "(\<And>now. safe c R ks (f now)) \<Longrightarrow> safe c R ks (bindM (nowS env) f)"
  by (rule safe_step [where K = "\<lambda>_. {}"])
     (auto simp: on_world_run nowM_def known_def intro: quiet_clock)

lemma safe_fresh:
  "(\<And>i. safe c R (insert (kind, i) ks) (f i)) \<Longrightarrow> safe c R ks (bindM (freshS (wr_env c) kind) f)"
  by (rule safe_step [where K = "\<lambda>i. {(kind, i)}"])
     (auto simp: on_world_run freshM_def known_def drawn_last intro: quiet_ids)

lemma safe_read:
  assumes "\<And>x. safe c (\<lambda>d. R d \<and> x = g d) ks (f x)"
  shows "safe c R ks (bindM (readS g) f)"
  by (rule safeI) (use safeD [OF assms] in \<open>simp add: readS_def\<close>)

lemma safe_lift:
  assumes "\<And>x. r = Inr x \<Longrightarrow> safe c R ks (f x)"
  shows "safe c R ks (bindM (liftM r) f)"
  by (cases r) (auto intro!: safeI dest: safeD [OF assms])

lemma safe_require: "(\<And>u. safe c R ks (f u)) \<Longrightarrow> safe c R ks (bindM (require_in sel i) f)"
  by (rule safeI) (auto simp: require_in_def bindM_assoc bindM_guard dest: safeD split: if_splits)

text \<open>Publishing, as the last write and followed by the result. Event and resource types are constants.\<close>

lemma announce_run:
  assumes "CHR ''.'' \<in> set et" "rt \<noteq> []"
  shows "announce env et rt rid pl pr s =
    (Inr (), (published (event_of env (fst s) et rt (Some rid) pl pr) (fst s), snd s))"
  by (simp add: announce_def on_world_run bindM_run publish_run [OF assms])

lemma safe_announce:
  assumes "CHR ''.'' \<in> set et" "rt \<noteq> []"
  shows "safe c R ks (announce (wr_env c) et rt rid pl pr)"
  by (rule safeI) (auto simp: announce_run [OF assms] intro: site_ok_published)

lemma safe_announce_bind:
  assumes "CHR ''.'' \<in> set et" "rt \<noteq> []" "\<And>u. safe c (\<lambda>_. True) {} (f u)"
  shows "safe c R ks (bindM (announce (wr_env c) et rt rid pl pr) f)"
proof (rule safeI)
  fix s r s'
  assume *: "inj (e_rnd (wr_env c))" "site_ok c s" "R (snd s)" "known c ks s"
    "bindM (announce (wr_env c) et rt rid pl pr) f s = (r, s')"
  then show "site_ok c s'"
    using safeD [OF assms(3) *(1) site_ok_published [OF *(2,1)]]
    by (simp add: bindM_run announce_run [OF assms(1,2)] known_def)
qed

lemma safe_write:
  assumes "\<And>s. inj (e_rnd (wr_env c)) \<Longrightarrow> site_ok c s \<Longrightarrow> R (snd s) \<Longrightarrow> known c ks s \<Longrightarrow> site_ok c (h s)"
    and "\<And>u. safe c (\<lambda>_. True) {} (f u)"
  shows "safe c R ks (bindM (modifyM h) f)"
proof (rule safeI)
  fix s r s'
  assume *: "inj (e_rnd (wr_env c))" "site_ok c s" "R (snd s)" "known c ks s" "bindM (modifyM h) f s = (r, s')"
  then show "site_ok c s'"
    using safeD [OF assms(2) *(1) assms(1) [OF *(1-4)]] by (simp add: known_def)
qed

lemma safe_write_end:
  assumes "\<And>s. inj (e_rnd (wr_env c)) \<Longrightarrow> site_ok c s \<Longrightarrow> R (snd s) \<Longrightarrow> known c ks s \<Longrightarrow> site_ok c (h s)"
  shows "safe c R ks (modifyM h)"
  by (rule safeI) (auto intro!: assms)

subsection \<open>The steps on one store\<close>

text \<open>
  A store of the catalogue: how it is read and replaced in the record, and what its entries
  satisfy. \<open>free\<close> stores take no part in the links.
\<close>

locale shelf =
  fixes sel :: "catalogue \<Rightarrow> (string, 'v) dict"
    and upd :: "((string, 'v) dict \<Rightarrow> (string, 'v) dict) \<Rightarrow> catalogue \<Rightarrow> catalogue"
    and kind :: id_kind
    and ident :: "'v \<Rightarrow> string"
    and valid :: "'v \<Rightarrow> bool"
  assumes entries_sel: "entries_ok env n c \<Longrightarrow> shelf_ok env n kind ident valid (sel c)"
    and entries_upd: "entries_ok env n c \<Longrightarrow> shelf_ok env n kind ident valid (g (sel c)) \<Longrightarrow>
      entries_ok env n (upd g c)"
begin

lemma safe_fetch:
  assumes "\<And>v. valid v \<Longrightarrow> ident v = i \<Longrightarrow> safe c (\<lambda>d. R d \<and> dget (sel d) i = Some v) (insert (kind, i) ks) (f v)"
  shows "safe c R ks (bindM (fetch sel i) f)"
proof (rule safeI)
  fix s r s'
  assume *: "inj (e_rnd (wr_env c))" "site_ok c s" "R (snd s)" "known c ks s" "bindM (fetch sel i) f s = (r, s')"
  show "site_ok c s'"
  proof (cases "dget (sel (snd s)) i")
    case None
    then show ?thesis using *(2,5) by (simp add: fetch_def bindM_run)
  next
    case (Some v)
    have "shelf_ok (wr_env c) (w_ids (fst s)) kind ident valid (sel (snd s))"
      using *(2) entries_sel by (simp add: site_ok_def)
    then have v: "valid v" "ident v = i" "drawn (wr_env c) (w_ids (fst s)) kind i"
      using Some by (auto simp: shelf_ok_def)
    have "f v s = (r, s')" using *(5) Some by (simp add: fetch_def bindM_run)
    moreover have "known c (insert (kind, i) ks) s" using *(4) v(3) by (simp add: known_def)
    ultimately show ?thesis using safeD [OF assms [OF v(1,2)] *(1,2)] *(3) Some by simp
  qed
qed

text \<open>An entry found by a search, not by its id.\<close>

lemma stored_by:
  assumes "entries_ok env n d" "find P (dvalues (sel d)) = Some v"
  shows "dget (sel d) (ident v) = Some v"
proof -
  have ok: "shelf_ok env n kind ident valid (sel d)" using assms(1) by (rule entries_sel)
  have "v \<in> set (dvalues (sel d))" using assms(2) by (auto simp: find_Some_iff)
  then obtain k where "dget (sel d) k = Some v" using ok by (auto simp: shelf_ok_def dvalues_dget)
  then show ?thesis using ok by (auto simp: shelf_ok_def)
qed

lemma safe_stored:
  assumes "\<And>d env n. entries_ok env n d \<Longrightarrow> R d \<Longrightarrow> dget (sel d) k = Some v"
    and "valid v \<Longrightarrow> ident v = k \<Longrightarrow> safe c (\<lambda>d. R d \<and> dget (sel d) k = Some v) (insert (kind, k) ks) m"
  shows "safe c R ks m"
proof (rule safeI)
  fix s r s'
  assume *: "inj (e_rnd (wr_env c))" "site_ok c s" "R (snd s)" "known c ks s" "m s = (r, s')"
  have e: "entries_ok (wr_env c) (w_ids (fst s)) (snd s)" using *(2) by (simp add: site_ok_def)
  have v: "dget (sel (snd s)) k = Some v" using assms(1) [of _ _ "snd s", OF e *(3)] .
  then have "valid v" "ident v = k" "drawn (wr_env c) (w_ids (fst s)) kind k"
    using entries_sel [OF e] by (auto simp: shelf_ok_def)
  then show "site_ok c s'"
    using safeD [OF assms(2) *(1,2) _ _ *(5)] *(3,4) v by (simp add: known_def)
qed

lemma keep_ok:
  assumes "site_ok c s" "known c ks s" "(kind, k) \<in> ks" "valid v" "ident v = k"
    and "links_ok (upd (dset k v) (snd s))"
  shows "site_ok c (fst s, upd (dset k v) (snd s))"
proof -
  have e: "entries_ok (wr_env c) (w_ids (fst s)) (snd s)" "drawn (wr_env c) (w_ids (fst s)) kind k"
    using assms(1-3) by (auto simp: site_ok_def known_def)
  have "entries_ok (wr_env c) (w_ids (fst s)) (upd (dset k v) (snd s))"
    by (rule entries_upd [where g = "dset k v", OF e(1) shelf_ok_keep [OF entries_sel [OF e(1)] e(2) assms(4,5)]])
  then show ?thesis using assms(1,6) by (simp add: site_ok_def)
qed

lemma safe_keep_linked:
  assumes "(kind, k) \<in> ks" "valid v" "ident v = k"
    and "\<And>d env n. entries_ok env n d \<Longrightarrow> links_ok d \<Longrightarrow> R d \<Longrightarrow> links_ok (upd (dset k v) d)"
    and "\<And>u. safe c (\<lambda>_. True) {} (f u)"
  shows "safe c R ks (bindM (keep upd k v) f)"
  unfolding keep_def
  by (rule safe_write [OF _ assms(5)])
     (rule keep_ok [OF _ _ assms(1-3)], assumption, assumption, rule assms(4), auto simp: site_ok_def)

lemma discard_ok:
  assumes "site_ok c s" "links_ok (upd (dpop k) (snd s))"
  shows "site_ok c (fst s, upd (dpop k) (snd s))"
proof -
  have e: "entries_ok (wr_env c) (w_ids (fst s)) (snd s)" using assms(1) by (simp add: site_ok_def)
  have "entries_ok (wr_env c) (w_ids (fst s)) (upd (dpop k) (snd s))"
    by (rule entries_upd [where g = "dpop k", OF e shelf_ok_discard [OF entries_sel [OF e]]])
  then show ?thesis using assms by (simp add: site_ok_def)
qed

lemma safe_discard_linked:
  assumes "\<And>d env n. entries_ok env n d \<Longrightarrow> links_ok d \<Longrightarrow> R d \<Longrightarrow> links_ok (upd (dpop k) d)"
    and "\<And>u. safe c (\<lambda>_. True) {} (f u)"
  shows "safe c R ks (bindM (discard upd k) f)"
  unfolding discard_def
  by (rule safe_write [OF _ assms(2)]) (rule discard_ok, assumption, rule assms(1), auto simp: site_ok_def)

end

locale free_shelf = shelf +
  assumes links_upd: "links_ok (upd g c) = links_ok c"
begin

lemma safe_keep:
  assumes "(kind, k) \<in> ks" "valid v" "ident v = k" "\<And>u. safe c (\<lambda>_. True) {} (f u)"
  shows "safe c R ks (bindM (keep upd k v) f)"
  by (rule safe_keep_linked [OF assms(1-3) _ assms(4)]) (simp add: links_upd)

lemma safe_discard:
  assumes "\<And>u. safe c (\<lambda>_. True) {} (f u)"
  shows "safe c R ks (bindM (discard upd k) f)"
  by (rule safe_discard_linked [OF _ assms]) (simp add: links_upd)

end

interpretation ports: free_shelf ct_ports ct_ports_update LogicalPortId lp_id lp_valid
  by unfold_locales (simp_all add: entries_ok_def links_ok_def)

interpretation groups: shelf ct_groups ct_groups_update SecurityGroupId sg_id sg_valid
  by unfold_locales (simp_all add: entries_ok_def)

interpretation pools: free_shelf ct_pools ct_pools_update AddressPoolId ap_id ap_valid
  by unfold_locales (simp_all add: entries_ok_def links_ok_def)

interpretation services: free_shelf ct_services ct_services_update ServiceObjectId so_id so_valid
  by unfold_locales (simp_all add: entries_ok_def links_ok_def)

interpretation qos: free_shelf ct_qos ct_qos_update QosPolicyId qp_id qp_valid
  by unfold_locales (simp_all add: entries_ok_def links_ok_def)

interpretation policies: free_shelf ct_policies ct_policies_update SecurityPolicyId sp_id policy_ok
  by unfold_locales (simp_all add: entries_ok_def links_ok_def)

interpretation trunks: free_shelf ct_trunks ct_trunks_update TrunkPortId tp_id tp_valid
  by unfold_locales (simp_all add: entries_ok_def links_ok_def)

interpretation routers: free_shelf ct_routers ct_routers_update RouterId rt_id rt_valid
  by unfold_locales (simp_all add: entries_ok_def links_ok_def)

interpretation fips: free_shelf ct_fips ct_fips_update FloatingIpId fip_id fip_valid
  by unfold_locales (simp_all add: entries_ok_def links_ok_def)

interpretation bgp: free_shelf ct_bgp ct_bgp_update BgpPeerId bgp_id bgp_valid
  by unfold_locales (simp_all add: entries_ok_def links_ok_def)

interpretation quotas: shelf ct_quotas ct_quotas_update ProjectQuotaId pq_id pq_valid
  by unfold_locales (simp_all add: entries_ok_def)

interpretation snapshots: shelf ct_snapshots ct_snapshots_update ResourceSnapshotId rs_id anything
  by unfold_locales (simp_all add: entries_ok_def)

interpretation bonds: free_shelf ct_bonds ct_bonds_update GatewayBondId gb_id gb_valid
  by unfold_locales (simp_all add: entries_ok_def links_ok_def)

interpretation retention: shelf ct_retention ct_retention_update RetentionPolicyId rp_id rp_valid
  by unfold_locales (simp_all add: entries_ok_def)

interpretation lbs: free_shelf ct_lbs ct_lbs_update LoadBalancerId lb_id lb_valid
  by unfold_locales (simp_all add: entries_ok_def links_ok_def)

interpretation listeners: free_shelf ct_listeners ct_listeners_update LbListenerId ll_id ll_valid
  by unfold_locales (simp_all add: entries_ok_def links_ok_def)

interpretation lb_pools: free_shelf ct_lb_pools ct_lb_pools_update LbPoolId lpl_id anything
  by unfold_locales (simp_all add: entries_ok_def links_ok_def)

interpretation lb_members: free_shelf ct_lb_members ct_lb_members_update LbMemberId lbm_id lbm_valid
  by unfold_locales (simp_all add: entries_ok_def links_ok_def)

interpretation monitors: shelf ct_monitors ct_monitors_update HealthMonitorId hm_id hm_valid
  by unfold_locales (simp_all add: entries_ok_def)

interpretation schedules: free_shelf ct_schedules ct_schedules_update ApplyScheduleId sch_id sch_valid
  by unfold_locales (simp_all add: entries_ok_def links_ok_def)

interpretation mirrors: free_shelf ct_mirrors ct_mirrors_update MirrorSessionId ms_id ms_valid
  by unfold_locales (simp_all add: entries_ok_def links_ok_def)

interpretation tunnels: shelf ct_tunnels ct_tunnels_update VpnTunnelId vt_id anything
  by unfold_locales (simp_all add: entries_ok_def)

interpretation peers: shelf ct_peers ct_peers_update VpnPeerId vp_id anything
  by unfold_locales (simp_all add: entries_ok_def)


text \<open>The rules of all stores, for following the text of a use case.\<close>

lemmas safe_steps = safe_now safe_fresh safe_read safe_lift safe_require

lemmas safe_fetches =
  ports.safe_fetch groups.safe_fetch pools.safe_fetch services.safe_fetch qos.safe_fetch
  policies.safe_fetch trunks.safe_fetch routers.safe_fetch fips.safe_fetch bgp.safe_fetch
  quotas.safe_fetch snapshots.safe_fetch bonds.safe_fetch retention.safe_fetch lbs.safe_fetch
  listeners.safe_fetch lb_pools.safe_fetch lb_members.safe_fetch monitors.safe_fetch
  schedules.safe_fetch mirrors.safe_fetch tunnels.safe_fetch peers.safe_fetch

lemmas safe_keeps =
  ports.safe_keep pools.safe_keep services.safe_keep qos.safe_keep policies.safe_keep
  trunks.safe_keep routers.safe_keep fips.safe_keep bgp.safe_keep bonds.safe_keep lbs.safe_keep
  listeners.safe_keep lb_pools.safe_keep lb_members.safe_keep schedules.safe_keep
  mirrors.safe_keep

lemmas safe_discards =
  ports.safe_discard pools.safe_discard services.safe_discard qos.safe_discard
  policies.safe_discard trunks.safe_discard routers.safe_discard fips.safe_discard
  bgp.safe_discard bonds.safe_discard lbs.safe_discard listeners.safe_discard
  lb_pools.safe_discard lb_members.safe_discard schedules.safe_discard mirrors.safe_discard

end
