(* ===== verification/Catalogue_Links.thy ===== *)
theory Catalogue_Links
  imports Catalogue_Invariants
begin

text \<open>The writes that could break a link between stores, and the rules for the use cases that make them.\<close>

subsection \<open>Unique keys\<close>

lemma unique_by_keep:
  "unique_by f d \<Longrightarrow> (\<And>j w. dget d j = Some w \<Longrightarrow> f w = f v \<Longrightarrow> j = k) \<Longrightarrow> unique_by f (dset k v d)"
  unfolding unique_by_def by (auto split: if_splits)

lemma unique_by_discard: "unique_by f d \<Longrightarrow> unique_by f (dpop k d)"
  by (simp add: unique_by_def)

lemma unique_by_same:
  "unique_by f d \<Longrightarrow> dget d k = Some u \<Longrightarrow> f v = f u \<Longrightarrow> unique_by f (dset k v d)"
  by (rule unique_by_keep) (auto simp: unique_by_def)

lemma links_discard:
  "links_ok d \<Longrightarrow> links_ok (ct_quotas_update (dpop k) d)"
  "links_ok d \<Longrightarrow> links_ok (ct_retention_update (dpop k) d)"
  "links_ok d \<Longrightarrow> links_ok (ct_monitors_update (dpop k) d)"
  "links_ok d \<Longrightarrow> links_ok (ct_snapshots_update (dpop k) d)"
  "links_ok d \<Longrightarrow> links_ok (ct_peers_update (dpop k) d)"
  by (simp_all add: links_ok_def unique_by_discard peers_linked_def)

lemmas safe_linked_discards =
  quotas.safe_discard_linked [OF links_discard(1)] retention.safe_discard_linked [OF links_discard(2)]
  monitors.safe_discard_linked [OF links_discard(3)] snapshots.safe_discard_linked [OF links_discard(4)]
  peers.safe_discard_linked [OF links_discard(5)]

lemma links_quota:
  "links_ok d \<Longrightarrow> (\<And>j w. dget (ct_quotas d) j = Some w \<Longrightarrow> pq_project_id w = pq_project_id v \<Longrightarrow> j = k) \<Longrightarrow>
   links_ok (ct_quotas_update (dset k v) d)"
  by (simp add: links_ok_def unique_by_keep)

lemma links_retention:
  "links_ok d \<Longrightarrow> (\<And>j w. dget (ct_retention d) j = Some w \<Longrightarrow> retention_key w = retention_key v \<Longrightarrow> j = k) \<Longrightarrow>
   links_ok (ct_retention_update (dset k v) d)"
  using unique_by_keep [of "retention_key" "ct_retention d" v k] by (simp add: links_ok_def)

lemma links_monitor:
  "links_ok d \<Longrightarrow> (\<And>j w. dget (ct_monitors d) j = Some w \<Longrightarrow> hm_pool_id w = hm_pool_id v \<Longrightarrow> j = k) \<Longrightarrow>
   links_ok (ct_monitors_update (dset k v) d)"
  by (simp add: links_ok_def unique_by_keep)

lemma links_snapshot:
  "links_ok d \<Longrightarrow> (\<And>j w. dget (ct_snapshots d) j = Some w \<Longrightarrow> snapshot_key w = snapshot_key v \<Longrightarrow> j = k) \<Longrightarrow>
   links_ok (ct_snapshots_update (dset k v) d)"
  using unique_by_keep [of "snapshot_key" "ct_snapshots d" v k] by (simp add: links_ok_def)

lemma peers_linked_keep:
  "peers_linked ts ps \<Longrightarrow> dget ts (vp_tunnel_id v) \<noteq> None \<Longrightarrow> peers_linked ts (dset k v ps)"
  by (auto simp: peers_linked_def split: if_splits)

lemma links_peer:
  "links_ok d \<Longrightarrow> (\<And>j w. dget (ct_peers d) j = Some w \<Longrightarrow> peer_key w = peer_key v \<Longrightarrow> j = k) \<Longrightarrow>
   dget (ct_tunnels d) (vp_tunnel_id v) \<noteq> None \<Longrightarrow> links_ok (ct_peers_update (dset k v) d)"
  using unique_by_keep [of peer_key "ct_peers d" v k] by (simp add: links_ok_def peers_linked_keep)

text \<open>Replacing an entry by one of the same key, which needs nothing of the others.\<close>

lemma same_key:
  "links_ok d \<Longrightarrow> dget (ct_quotas d) k = Some u \<Longrightarrow> dget (ct_quotas d) j = Some w \<Longrightarrow>
   pq_project_id w = pq_project_id u \<Longrightarrow> j = k"
  "links_ok d \<Longrightarrow> dget (ct_retention d) k = Some u' \<Longrightarrow> dget (ct_retention d) j = Some w' \<Longrightarrow>
   retention_key w' = retention_key u' \<Longrightarrow> j = k"
  "links_ok d \<Longrightarrow> dget (ct_monitors d) k = Some h \<Longrightarrow> dget (ct_monitors d) j = Some h' \<Longrightarrow>
   hm_pool_id h' = hm_pool_id h \<Longrightarrow> j = k"
  "links_ok d \<Longrightarrow> dget (ct_peers d) k = Some p \<Longrightarrow> dget (ct_peers d) j = Some p' \<Longrightarrow>
   peer_key p' = peer_key p \<Longrightarrow> j = k"
  unfolding links_ok_def unique_by_def by blast+

subsection \<open>Parents\<close>

lemma dget_filter:
  "dget (filter (\<lambda>(k, _). P k) d) k = (if P k then dget d k else None)"
  by (induction d) auto

lemma links_parents:
  "links_ok d \<Longrightarrow> links_ok (ct_groups_update (dset k g) d)"
  "links_ok d \<Longrightarrow> links_ok (ct_tunnels_update (dset k t) d)"
  by (auto simp: links_ok_def members_linked_def peers_linked_def)

lemmas safe_keep_parents =
  groups.safe_keep_linked [OF _ _ _ links_parents(1)] tunnels.safe_keep_linked [OF _ _ _ links_parents(2)]

lemma member_kept:
  "members_ok ms \<Longrightarrow> sgm_valid m \<Longrightarrow> members_ok (dset (sgm_key m) m ms)"
  "members_linked gs ms \<Longrightarrow> dget gs (sgm_sg_id m) \<noteq> None \<Longrightarrow> members_linked gs (dset (sgm_key m) m ms)"
  by (auto simp: members_ok_def members_linked_def split: if_splits)

lemma safe_keep_member:
  assumes "sgm_valid m" "\<And>d. R d \<Longrightarrow> dget (ct_groups d) (sgm_sg_id m) \<noteq> None" "\<And>u. safe c (\<lambda>_. True) {} (f u)"
  shows "safe c R ks (bindM (keep ct_members_update (sgm_key m) m) f)"
  unfolding keep_def
  by (rule safe_write [OF _ assms(3)])
     (simp add: site_ok_def entries_ok_def links_ok_def member_kept assms(1,2) del: not_None_eq)

lemma member_dropped:
  "members_ok ms \<Longrightarrow> members_ok (dpop k ms)"
  "members_linked gs ms \<Longrightarrow> members_linked gs (dpop k ms)"
  by (auto simp: members_ok_def members_linked_def split: if_splits)

lemma safe_discard_member: "safe c R ks (discard ct_members_update k)"
  unfolding discard_def
  by (rule safe_write_end) (simp add: site_ok_def entries_ok_def links_ok_def member_dropped)

text \<open>Deleting a group with its members: the two writes together.\<close>

lemma modify_twice: "bindM (modifyM g) (\<lambda>_. bindM (modifyM h) f) = bindM (modifyM (\<lambda>s. h (g s))) f"
  by (simp add: fun_eq_iff)

lemma members_dropped:
  "members_ok ms \<Longrightarrow> members_ok (delete_members_for_group i ms)"
  "members_ok ms \<Longrightarrow> members_linked gs ms \<Longrightarrow> members_linked (dpop i gs) (delete_members_for_group i ms)"
  by (auto simp: members_ok_def members_linked_def delete_members_for_group_def dget_filter
      distinct_map_filter split: if_splits)

lemma safe_drop_group:
  assumes "\<And>u. safe c (\<lambda>_. True) {} (f u)"
  shows "safe c R ks (bindM (modifyM (\<lambda>s. (fst s, ct_members_update (delete_members_for_group i) (snd s))))
    (\<lambda>_. bindM (discard ct_groups_update i) f))"
  unfolding discard_def modify_twice
proof (rule safe_write [OF _ assms])
  fix s :: "'a site"
  assume "site_ok c s"
  then show "site_ok c (fst (fst s, ct_members_update (delete_members_for_group i) (snd s)),
      ct_groups_update (dpop i) (snd (fst s, ct_members_update (delete_members_for_group i) (snd s))))"
    by (simp add: site_ok_def entries_ok_def links_ok_def members_dropped shelf_ok_discard)
qed

text \<open>Deleting a tunnel after its peers.\<close>

lemma for_discard:
  "(forM xs (\<lambda>x. discard ct_peers_update (k x)) :: ('ag, unit) site_act) =
     modifyM (\<lambda>s. (fst s, ct_peers_update (fold dpop (List.map k xs)) (snd s)))"
proof (induction xs)
  case (Cons x xs)
  have step: "discard ct_peers_update (k x) s = (Inr (), (fst s, ct_peers_update (dpop (k x)) (snd s)))" for s :: "'ag site"
    by (simp add: discard_def)
  have "forM (x # xs) (\<lambda>x. discard ct_peers_update (k x)) s =
      (Inr (), (fst s, ct_peers_update (fold dpop (List.map k (x # xs))) (snd s)))" for s :: "'ag site"
    by (simp add: Cons.IH bindM_run step o_def)
  then show ?case by (simp add: fun_eq_iff)
qed (simp add: fun_eq_iff returnM_def modifyM_def)

lemma dget_fold_dpop: "dget (fold dpop ks d) k = (if k \<in> set ks then None else dget d k)"
  by (induction ks arbitrary: d) auto

lemma fold_dpop_keeps:
  "shelf_ok env n kind ident valid d \<Longrightarrow> shelf_ok env n kind ident valid (fold dpop ks d)"
  "unique_by f d \<Longrightarrow> unique_by f (fold dpop ks d)"
  by (induction ks arbitrary: d) (simp_all add: shelf_ok_discard unique_by_discard)

lemma safe_drop_tunnel:
  assumes "\<And>u. safe c (\<lambda>_. True) {} (f u)"
  shows "safe c (\<lambda>d. R d \<and> peers = list_peers (Some i) d) ks
    (bindM (forM peers (\<lambda>p. discard ct_peers_update (vp_id p))) (\<lambda>_. bindM (discard ct_tunnels_update i) f))"
  unfolding for_discard unfolding discard_def modify_twice
proof (rule safe_write [OF _ assms])
  fix s :: "'a site"
  assume s: "site_ok c s" "R (snd s) \<and> peers = list_peers (Some i) (snd s)"
  let ?ks = "List.map vp_id peers" and ?ps = "ct_peers (snd s)"
  have ps: "shelf_ok (wr_env c) (w_ids (fst s)) VpnPeerId vp_id anything ?ps"
    using s(1) by (simp add: site_ok_def entries_ok_def)
  have "peers_linked (dpop i (ct_tunnels (snd s))) (fold dpop ?ks ?ps)"
    unfolding peers_linked_def
  proof (intro allI impI)
    fix k p assume "dget (fold dpop ?ks ?ps) k = Some p"
    then have p: "k \<notin> set ?ks" "dget ?ps k = Some p" by (auto simp: dget_fold_dpop split: if_splits)
    then have "vp_id p = k" "p \<in> set (dvalues ?ps)" using ps dget_in [OF p(2)] by (auto simp: shelf_ok_def)
    then have "vp_tunnel_id p \<noteq> i"
      using p(1) s(2) unfolding list_peers_def by (metis (full_types) image_eqI image_set option.inject set_only)
    then show "dget (dpop i (ct_tunnels (snd s))) (vp_tunnel_id p) \<noteq> None"
      using s(1) p(2) by (auto simp: site_ok_def links_ok_def peers_linked_def)
  qed
  then show "site_ok c (fst (fst s, ct_peers_update (fold dpop ?ks) (snd s)),
      ct_tunnels_update (dpop i) (snd (fst s, ct_peers_update (fold dpop ?ks) (snd s))))"
    using s(1) by (simp add: site_ok_def entries_ok_def links_ok_def shelf_ok_discard fold_dpop_keeps)
qed

subsection \<open>Nodes of the shared world\<close>

lemma site_ok_node:
  assumes "site_ok c s" "dget (w_nodes (fst s)) i = Some n0" "node_wf n" "nd_id n = nd_id n0" "nd_name n = nd_name n0"
  shows "site_ok c ((fst s)\<lparr>w_nodes := node_save n (w_nodes (fst s))\<rparr>, snd s)"
  using assms nodes_ok_replace [OF _ assms(2-5)] by (simp add: site_ok_def system_ok_def)

lemma safe_node:
  assumes "\<And>now n. node_wf n \<Longrightarrow> node_wf (g now n) \<and> nd_id (g now n) = nd_id n \<and> nd_name (g now n) = nd_name n"
    and "\<And>n u. safe c (\<lambda>_. True) {} (f n u)"
  shows "safe c R ks (bindM (\<lambda>s. (of_option err_not_found (dget (w_nodes (fst s)) i), s)) (\<lambda>n.
    bindM (nowS env) (\<lambda>now. bindM (on_world (modifyM (\<lambda>w. w\<lparr>w_nodes := node_save (g now n) (w_nodes w)\<rparr>))) (f n))))"
proof (rule safeI)
  fix s :: "'a site" and r s'
  assume inj: "inj (e_rnd (wr_env c))" and ok: "site_ok c s" and run: "bindM (\<lambda>s. (of_option err_not_found (dget (w_nodes (fst s)) i), s)) (\<lambda>n.
    bindM (nowS env) (\<lambda>now. bindM (on_world (modifyM (\<lambda>w. w\<lparr>w_nodes := node_save (g now n) (w_nodes w)\<rparr>))) (f n))) s = (r, s')"
  show "site_ok c s'"
  proof (cases "dget (w_nodes (fst s)) i")
    case None
    then show ?thesis using run ok by (simp add: bindM_run)
  next
    case (Some n)
    let ?now = "e_now env (w_clock (fst s))" and ?w = "(fst s)\<lparr>w_clock := w_clock (fst s) + 1\<rparr>"
    have "node_wf n" using ok Some by (auto simp: site_ok_def system_ok_def nodes_ok_def)
    then have g: "node_wf (g ?now n)" "nd_id (g ?now n) = nd_id n" "nd_name (g ?now n) = nd_name n"
      using assms(1) by blast+
    have "site_ok c (?w, snd s)" using site_ok_quiet [OF ok quiet_clock [OF quiet_refl]] .
    from site_ok_node [OF this _ g] Some
    have "site_ok c (?w\<lparr>w_nodes := node_save (g ?now n) (w_nodes ?w)\<rparr>, snd s)" by simp
    moreover have "f n () (?w\<lparr>w_nodes := node_save (g ?now n) (w_nodes ?w)\<rparr>, snd s) = (r, s')"
      using run Some by (simp add: bindM_run on_world_run nowM_def)
    ultimately show ?thesis using safeD [OF assms(2) inj] by (simp add: known_def)
  qed
qed

end
