(* ===== verification/N1_Use_Cases.thy ===== *)
theory N1_Use_Cases
  imports Catalogue
begin

text \<open>
  The use cases of \<open>core/use_cases/n1.py\<close>: logical ports, security groups and their members,
  address pools, service objects, QoS policies and the maintenance mode of nodes. Each definition is
  one \<open>execute\<close>; its steps are those of the code in their order.
\<close>

subsection \<open>Logical ports\<close>

text \<open>\<open>_generate_mac\<close>, with the five bytes of \<open>secrets.token_bytes\<close> as an argument.\<close>

definition generate_mac :: "nat list \<Rightarrow> string" where
  "generate_mac raw = ''02:'' @ join '':'' (List.map hex2 raw)"

record create_port_cmd =
  cpt_name :: string
  cpt_node_id :: string
  cpt_network_id :: string
  cpt_project_id :: "string option"
  cpt_mac_address :: "string option"
  cpt_ip_address :: "string option"
  cpt_vif_id :: "string option"
  cpt_labels :: "(string, string) dict option"

definition create_logical_port ::
  "env \<Rightarrow> nat list \<Rightarrow> create_port_cmd \<Rightarrow> ('ag, logical_port) site_act" where
  "create_logical_port env raw cmd =
     bindM (require_in w_nodes (cpt_node_id cmd)) (\<lambda>_.
     bindM (require_in w_networks (cpt_network_id cmd)) (\<lambda>_.
     bindM (nowS env) (\<lambda>now.
     bindM (freshS env LogicalPortId) (\<lambda>i.
     bindM (liftM (mk_logical_port
       \<lparr>lp_id = i, lp_name = cpt_name cmd, lp_node_id = cpt_node_id cmd,
        lp_network_id = cpt_network_id cmd, lp_created_at = now, lp_updated_at = now,
        lp_vif_id = cpt_vif_id cmd,
        lp_mac_address = Some (if nonempty (cpt_mac_address cmd) then or_default [] (cpt_mac_address cmd)
                               else generate_mac raw),
        lp_ip_address = cpt_ip_address cmd, lp_status = LP_PENDING,
        lp_project_id = cpt_project_id cmd, lp_labels = or_default [] (cpt_labels cmd)\<rparr>)) (\<lambda>p.
     bindM (keep ct_ports_update (lp_id p) p) (\<lambda>_.
     bindM (announce env ''logical_port.created'' ''logical_port'' (lp_id p)
              [(''name'', JStr (lp_name p)), (''node_id'', JStr (lp_node_id p)),
               (''network_id'', JStr (lp_network_id p))] (lp_project_id p)) (\<lambda>_.
     returnM p)))))))"

definition get_logical_port :: "string \<Rightarrow> ('ag, logical_port) site_act" where
  "get_logical_port i = fetch ct_ports i"

definition list_logical_ports ::
  "string option \<Rightarrow> string option \<Rightarrow> string option \<Rightarrow> ('ag, logical_port list) site_act" where
  "list_logical_ports node net project = readS (list_ports node net project)"

definition update_logical_port ::
  "env \<Rightarrow> string \<Rightarrow> string option \<Rightarrow> (string, string) dict option \<Rightarrow> ('ag, logical_port) site_act" where
  "update_logical_port env i name labels =
     bindM (fetch ct_ports i) (\<lambda>p.
     bindM (nowS env) (\<lambda>now.
     bindM (liftM (lp_update name labels now p)) (\<lambda>q.
     bindM (keep ct_ports_update (lp_id q) q) (\<lambda>_.
     bindM (announce env ''logical_port.updated'' ''logical_port'' (lp_id q) [] (lp_project_id q)) (\<lambda>_.
     returnM q)))))"

definition attach_logical_port :: "env \<Rightarrow> string \<Rightarrow> string option \<Rightarrow> ('ag, logical_port) site_act" where
  "attach_logical_port env i vif =
     bindM (fetch ct_ports i) (\<lambda>p.
     bindM (nowS env) (\<lambda>now.
     bindM (liftM (Inr (lp_attach vif now p))) (\<lambda>q.
     bindM (keep ct_ports_update (lp_id q) q) (\<lambda>_.
     bindM (announce env ''logical_port.attached'' ''logical_port'' (lp_id q) [] (lp_project_id q)) (\<lambda>_.
     returnM q)))))"

definition detach_logical_port :: "env \<Rightarrow> string \<Rightarrow> ('ag, logical_port) site_act" where
  "detach_logical_port env i =
     bindM (fetch ct_ports i) (\<lambda>p.
     bindM (nowS env) (\<lambda>now.
     bindM (liftM (Inr (lp_detach now p))) (\<lambda>q.
     bindM (keep ct_ports_update (lp_id q) q) (\<lambda>_.
     bindM (announce env ''logical_port.detached'' ''logical_port'' (lp_id q) [] (lp_project_id q)) (\<lambda>_.
     returnM q)))))"

definition delete_logical_port :: "env \<Rightarrow> string \<Rightarrow> ('ag, unit) site_act" where
  "delete_logical_port env i =
     bindM (fetch ct_ports i) (\<lambda>p.
     bindM (discard ct_ports_update i) (\<lambda>_.
     announce env ''logical_port.deleted'' ''logical_port'' i [] (lp_project_id p)))"

subsection \<open>Security groups\<close>

record create_group_cmd =
  cgr_name :: string
  cgr_description :: string
  cgr_project_id :: "string option"
  cgr_labels :: "(string, string) dict option"

definition create_security_group :: "env \<Rightarrow> create_group_cmd \<Rightarrow> ('ag, security_group) site_act" where
  "create_security_group env cmd =
     bindM (nowS env) (\<lambda>now.
     bindM (freshS env SecurityGroupId) (\<lambda>i.
     bindM (liftM (mk_security_group
       \<lparr>sg_id = i, sg_name = cgr_name cmd, sg_created_at = now, sg_updated_at = now,
        sg_description = cgr_description cmd, sg_project_id = cgr_project_id cmd,
        sg_labels = or_default [] (cgr_labels cmd)\<rparr>)) (\<lambda>g.
     bindM (keep ct_groups_update (sg_id g) g) (\<lambda>_.
     bindM (announce env ''security_group.created'' ''security_group'' (sg_id g)
              [(''name'', JStr (sg_name g))] (sg_project_id g)) (\<lambda>_.
     returnM g)))))"

definition get_security_group :: "string \<Rightarrow> ('ag, security_group) site_act" where
  "get_security_group i = fetch ct_groups i"

definition list_security_groups :: "string option \<Rightarrow> ('ag, security_group list) site_act" where
  "list_security_groups project = readS (list_groups project)"

definition update_security_group ::
  "env \<Rightarrow> string \<Rightarrow> string option \<Rightarrow> string option \<Rightarrow> (string, string) dict option
     \<Rightarrow> ('ag, security_group) site_act" where
  "update_security_group env i name desc labels =
     bindM (fetch ct_groups i) (\<lambda>g.
     bindM (nowS env) (\<lambda>now.
     bindM (liftM (sg_update name desc labels now g)) (\<lambda>h.
     bindM (keep ct_groups_update (sg_id h) h) (\<lambda>_.
     bindM (announce env ''security_group.updated'' ''security_group'' (sg_id h) [] (sg_project_id h)) (\<lambda>_.
     returnM h)))))"

definition delete_security_group :: "env \<Rightarrow> string \<Rightarrow> ('ag, unit) site_act" where
  "delete_security_group env i =
     bindM (fetch ct_groups i) (\<lambda>g.
     bindM (modifyM (\<lambda>s. (fst s, ct_members_update (delete_members_for_group i) (snd s)))) (\<lambda>_.
     bindM (discard ct_groups_update i) (\<lambda>_.
     announce env ''security_group.deleted'' ''security_group'' i [] (sg_project_id g))))"

definition add_security_group_member ::
  "env \<Rightarrow> string \<Rightarrow> string \<Rightarrow> string \<Rightarrow> ('ag, sg_member) site_act" where
  "add_security_group_member env gid ty v =
     bindM (fetch ct_groups gid) (\<lambda>_.
     bindM (nowS env) (\<lambda>now.
     bindM (liftM (mk_sg_member \<lparr>sgm_sg_id = gid, sgm_type = ty, sgm_value = v, sgm_created_at = now\<rparr>)) (\<lambda>m.
     bindM (keep ct_members_update (sgm_key m) m) (\<lambda>_.
     returnM m))))"

definition remove_security_group_member :: "string \<Rightarrow> string \<Rightarrow> string \<Rightarrow> ('ag, unit) site_act" where
  "remove_security_group_member gid ty v =
     bindM (fetch ct_groups gid) (\<lambda>_. discard ct_members_update (gid, ty, v))"

definition list_security_group_members :: "string \<Rightarrow> ('ag, sg_member list) site_act" where
  "list_security_group_members gid = readS (list_members gid)"

subsection \<open>Address pools\<close>

record create_pool_cmd =
  cap_name :: string
  cap_description :: string
  cap_project_id :: "string option"
  cap_cidrs :: "string list"
  cap_labels :: "(string, string) dict option"

definition create_address_pool :: "env \<Rightarrow> create_pool_cmd \<Rightarrow> ('ag, address_pool) site_act" where
  "create_address_pool env cmd =
     bindM (nowS env) (\<lambda>now.
     bindM (freshS env AddressPoolId) (\<lambda>i.
     bindM (liftM (mk_address_pool
       \<lparr>ap_id = i, ap_name = cap_name cmd, ap_created_at = now, ap_updated_at = now,
        ap_description = cap_description cmd, ap_project_id = cap_project_id cmd,
        ap_cidrs = cap_cidrs cmd, ap_labels = or_default [] (cap_labels cmd)\<rparr>)) (\<lambda>p.
     bindM (keep ct_pools_update (ap_id p) p) (\<lambda>_.
     bindM (announce env ''address_pool.created'' ''address_pool'' (ap_id p)
              [(''name'', JStr (ap_name p))] (ap_project_id p)) (\<lambda>_.
     returnM p)))))"

definition get_address_pool :: "string \<Rightarrow> ('ag, address_pool) site_act" where
  "get_address_pool i = fetch ct_pools i"

definition list_address_pools :: "string option \<Rightarrow> ('ag, address_pool list) site_act" where
  "list_address_pools project = readS (list_pools project)"

definition update_address_pool ::
  "env \<Rightarrow> string \<Rightarrow> string option \<Rightarrow> string option \<Rightarrow> string list option
     \<Rightarrow> (string, string) dict option \<Rightarrow> ('ag, address_pool) site_act" where
  "update_address_pool env i name desc cidrs labels =
     bindM (fetch ct_pools i) (\<lambda>p.
     bindM (nowS env) (\<lambda>now.
     bindM (liftM (ap_update name desc cidrs labels now p)) (\<lambda>q.
     bindM (keep ct_pools_update (ap_id q) q) (\<lambda>_.
     bindM (announce env ''address_pool.updated'' ''address_pool'' (ap_id q) [] (ap_project_id q)) (\<lambda>_.
     returnM q)))))"

definition delete_address_pool :: "env \<Rightarrow> string \<Rightarrow> ('ag, unit) site_act" where
  "delete_address_pool env i =
     bindM (fetch ct_pools i) (\<lambda>p.
     bindM (discard ct_pools_update i) (\<lambda>_.
     announce env ''address_pool.deleted'' ''address_pool'' i [] (ap_project_id p)))"

subsection \<open>Service objects\<close>

record create_service_cmd =
  cso_name :: string
  cso_protocol :: string
  cso_description :: string
  cso_project_id :: "string option"
  cso_ports :: "string list"
  cso_labels :: "(string, string) dict option"

definition create_service_object :: "env \<Rightarrow> create_service_cmd \<Rightarrow> ('ag, service_object) site_act" where
  "create_service_object env cmd =
     bindM (nowS env) (\<lambda>now.
     bindM (freshS env ServiceObjectId) (\<lambda>i.
     bindM (liftM (mk_service_object
       \<lparr>so_id = i, so_name = cso_name cmd, so_protocol = cso_protocol cmd, so_created_at = now,
        so_updated_at = now, so_description = cso_description cmd, so_project_id = cso_project_id cmd,
        so_ports = cso_ports cmd, so_labels = or_default [] (cso_labels cmd)\<rparr>)) (\<lambda>x.
     bindM (keep ct_services_update (so_id x) x) (\<lambda>_.
     bindM (announce env ''service_object.created'' ''service_object'' (so_id x)
              [(''name'', JStr (so_name x)), (''protocol'', JStr (so_protocol x))] (so_project_id x)) (\<lambda>_.
     returnM x)))))"

definition get_service_object :: "string \<Rightarrow> ('ag, service_object) site_act" where
  "get_service_object i = fetch ct_services i"

definition list_service_objects :: "string option \<Rightarrow> ('ag, service_object list) site_act" where
  "list_service_objects project = readS (list_services project)"

definition update_service_object ::
  "env \<Rightarrow> string \<Rightarrow> string option \<Rightarrow> string option \<Rightarrow> string list option
     \<Rightarrow> (string, string) dict option \<Rightarrow> ('ag, service_object) site_act" where
  "update_service_object env i name desc ports labels =
     bindM (fetch ct_services i) (\<lambda>x.
     bindM (nowS env) (\<lambda>now.
     bindM (liftM (so_update name desc ports labels now x)) (\<lambda>y.
     bindM (keep ct_services_update (so_id y) y) (\<lambda>_.
     bindM (announce env ''service_object.updated'' ''service_object'' (so_id y) [] (so_project_id y)) (\<lambda>_.
     returnM y)))))"

definition delete_service_object :: "env \<Rightarrow> string \<Rightarrow> ('ag, unit) site_act" where
  "delete_service_object env i =
     bindM (fetch ct_services i) (\<lambda>x.
     bindM (discard ct_services_update i) (\<lambda>_.
     announce env ''service_object.deleted'' ''service_object'' i [] (so_project_id x)))"

subsection \<open>QoS policies\<close>

record create_qos_cmd =
  cqp_name :: string
  cqp_description :: string
  cqp_project_id :: "string option"
  cqp_ingress_kbps :: "int option"
  cqp_egress_kbps :: "int option"
  cqp_burst_kb :: "int option"
  cqp_dscp :: "int option"
  cqp_labels :: "(string, string) dict option"

definition create_qos_policy :: "env \<Rightarrow> create_qos_cmd \<Rightarrow> ('ag, qos_policy) site_act" where
  "create_qos_policy env cmd =
     bindM (nowS env) (\<lambda>now.
     bindM (freshS env QosPolicyId) (\<lambda>i.
     bindM (liftM (mk_qos_policy
       \<lparr>qp_id = i, qp_name = cqp_name cmd, qp_created_at = now, qp_updated_at = now,
        qp_description = cqp_description cmd, qp_project_id = cqp_project_id cmd,
        qp_ingress_kbps = cqp_ingress_kbps cmd, qp_egress_kbps = cqp_egress_kbps cmd,
        qp_burst_kb = cqp_burst_kb cmd, qp_dscp = cqp_dscp cmd,
        qp_labels = or_default [] (cqp_labels cmd)\<rparr>)) (\<lambda>q.
     bindM (keep ct_qos_update (qp_id q) q) (\<lambda>_.
     bindM (announce env ''qos_policy.created'' ''qos_policy'' (qp_id q)
              [(''name'', JStr (qp_name q))] (qp_project_id q)) (\<lambda>_.
     returnM q)))))"

definition get_qos_policy :: "string \<Rightarrow> ('ag, qos_policy) site_act" where
  "get_qos_policy i = fetch ct_qos i"

definition list_qos_policies :: "string option \<Rightarrow> ('ag, qos_policy list) site_act" where
  "list_qos_policies project = readS (list_qos project)"

definition update_qos_policy :: "env \<Rightarrow> string \<Rightarrow> qos_change \<Rightarrow> ('ag, qos_policy) site_act" where
  "update_qos_policy env i c =
     bindM (fetch ct_qos i) (\<lambda>q.
     bindM (nowS env) (\<lambda>now.
     bindM (liftM (qp_update c now q)) (\<lambda>r.
     bindM (keep ct_qos_update (qp_id r) r) (\<lambda>_.
     bindM (announce env ''qos_policy.updated'' ''qos_policy'' (qp_id r) [] (qp_project_id r)) (\<lambda>_.
     returnM r)))))"

definition delete_qos_policy :: "env \<Rightarrow> string \<Rightarrow> ('ag, unit) site_act" where
  "delete_qos_policy env i =
     bindM (fetch ct_qos i) (\<lambda>q.
     bindM (discard ct_qos_update i) (\<lambda>_.
     announce env ''qos_policy.deleted'' ''qos_policy'' i [] (qp_project_id q)))"

subsection \<open>Maintenance mode\<close>

definition fetch_node :: "string \<Rightarrow> ('ag, node) site_act" where
  "fetch_node i = (\<lambda>s. (of_option err_not_found (dget (w_nodes (fst s)) i), s))"

definition keep_node :: "node \<Rightarrow> ('ag, unit) site_act" where
  "keep_node n = on_world (modifyM (\<lambda>w. w\<lparr>w_nodes := node_save n (w_nodes w)\<rparr>))"

definition enter_maintenance_mode :: "env \<Rightarrow> string \<Rightarrow> ('ag, unit) site_act" where
  "enter_maintenance_mode env i =
     bindM (fetch_node i) (\<lambda>n.
     bindM (nowS env) (\<lambda>now.
     bindM (keep_node (enter_maintenance now n)) (\<lambda>_.
     announce env ''node.maintenance_entered'' ''node'' i [] (nd_project_id n))))"

definition exit_maintenance_mode :: "env \<Rightarrow> string \<Rightarrow> ('ag, unit) site_act" where
  "exit_maintenance_mode env i =
     bindM (fetch_node i) (\<lambda>n.
     bindM (nowS env) (\<lambda>now.
     bindM (keep_node (exit_maintenance now n)) (\<lambda>_.
     announce env ''node.maintenance_exited'' ''node'' i [] (nd_project_id n))))"

end
