(* ===== verification/N2_Use_Cases.thy ===== *)
theory N2_Use_Cases
  imports Catalogue
begin

text \<open>
  The use cases of \<open>core/use_cases/n2.py\<close>: security policies with their rules, compilation,
  application and counters, and trunk ports. The random uuid of a new rule is an argument.
\<close>

subsection \<open>Security policies\<close>

record create_policy_cmd =
  csp_name :: string
  csp_description :: string
  csp_project_id :: "string option"
  csp_labels :: "(string, string) dict option"

definition create_security_policy :: "env \<Rightarrow> create_policy_cmd \<Rightarrow> ('ag, security_policy) site_act" where
  "create_security_policy env cmd =
     bindM (nowS env) (\<lambda>now.
     bindM (freshS env SecurityPolicyId) (\<lambda>i.
     bindM (liftM (Inr
       \<lparr>sp_id = i, sp_name = csp_name cmd, sp_description = csp_description cmd,
        sp_project_id = csp_project_id cmd, sp_labels = or_default [] (csp_labels cmd), sp_rules = [],
        sp_status = SP_DRAFT, sp_compiled_ruleset = None, sp_compiled_at = None, sp_applied_at = None,
        sp_created_at = now, sp_updated_at = now\<rparr>)) (\<lambda>p.
     bindM (keep ct_policies_update (sp_id p) p) (\<lambda>_.
     bindM (announce env ''security_policy.created'' ''security_policy'' (sp_id p)
              [(''name'', JStr (sp_name p))] (sp_project_id p)) (\<lambda>_.
     returnM p)))))"

definition get_security_policy :: "string \<Rightarrow> ('ag, security_policy) site_act" where
  "get_security_policy i = fetch ct_policies i"

definition list_security_policies :: "string option \<Rightarrow> ('ag, security_policy list) site_act" where
  "list_security_policies project = readS (list_policies project)"

definition update_security_policy ::
  "env \<Rightarrow> string \<Rightarrow> string option \<Rightarrow> string option \<Rightarrow> (string, string) dict option
     \<Rightarrow> ('ag, security_policy) site_act" where
  "update_security_policy env i name desc labels =
     bindM (fetch ct_policies i) (\<lambda>p.
     bindM (nowS env) (\<lambda>now.
     bindM (liftM (Inr (sp_update name desc labels now p))) (\<lambda>q.
     bindM (keep ct_policies_update (sp_id q) q) (\<lambda>_.
     bindM (announce env ''security_policy.updated'' ''security_policy'' (sp_id q) [] (sp_project_id q)) (\<lambda>_.
     returnM q)))))"

definition delete_security_policy :: "env \<Rightarrow> string \<Rightarrow> ('ag, unit) site_act" where
  "delete_security_policy env i =
     bindM (fetch ct_policies i) (\<lambda>p.
     bindM (discard ct_policies_update i) (\<lambda>_.
     announce env ''security_policy.deleted'' ''security_policy'' i [] (sp_project_id p)))"

definition add_policy_rule ::
  "env \<Rightarrow> string \<Rightarrow> string \<Rightarrow> rule_args \<Rightarrow> ('ag, security_policy) site_act" where
  "add_policy_rule env uuid_hex i args =
     bindM (fetch ct_policies i) (\<lambda>p.
     bindM (liftM (new_rule uuid_hex args)) (\<lambda>r.
     bindM (nowS env) (\<lambda>now.
     bindM (liftM (Inr (sp_add_rule r now p))) (\<lambda>q.
     bindM (keep ct_policies_update (sp_id q) q) (\<lambda>_.
     bindM (announce env ''security_policy.rule_added'' ''security_policy'' (sp_id q)
              [(''rule_id'', JStr (pr_id r)), (''priority'', JInt (pr_priority r))] (sp_project_id q)) (\<lambda>_.
     returnM q))))))"

definition remove_policy_rule :: "env \<Rightarrow> string \<Rightarrow> string \<Rightarrow> ('ag, security_policy) site_act" where
  "remove_policy_rule env i rid =
     bindM (fetch ct_policies i) (\<lambda>p.
     bindM (nowS env) (\<lambda>now.
     bindM (liftM (sp_remove_rule rid now p)) (\<lambda>q.
     bindM (keep ct_policies_update (sp_id q) q) (\<lambda>_.
     bindM (announce env ''security_policy.rule_removed'' ''security_policy'' (sp_id q)
              [(''rule_id'', JStr rid)] (sp_project_id q)) (\<lambda>_.
     returnM q)))))"

text \<open>The loop over the distinct service objects the rules name; a missing object adds nothing.\<close>

definition service_ids :: "policy_rule list \<Rightarrow> string list" where
  "service_ids rs = remdups (List.map_filter pr_service_id rs)"

definition service_table :: "(service_object \<Rightarrow> 'b) \<Rightarrow> policy_rule list \<Rightarrow> catalogue \<Rightarrow> (string, 'b) dict" where
  "service_table f rs c =
     List.map_filter (\<lambda>i. map_option (\<lambda>x. (i, f x)) (dget (ct_services c) i)) (service_ids rs)"

definition compile_security_policy :: "env \<Rightarrow> string \<Rightarrow> ('ag, security_policy) site_act" where
  "compile_security_policy env i =
     bindM (fetch ct_policies i) (\<lambda>p.
     bindM (readS (service_table so_protocol (sp_rules p))) (\<lambda>protos.
     bindM (readS (service_table so_ports (sp_rules p))) (\<lambda>ports.
     bindM (nowS env) (\<lambda>now.
     bindM (liftM (Inr (sp_mark_compiled (compile_policy p [] protos ports) now p))) (\<lambda>q.
     bindM (keep ct_policies_update (sp_id q) q) (\<lambda>_.
     bindM (announce env ''security_policy.compiled'' ''security_policy'' (sp_id q) [] (sp_project_id q)) (\<lambda>_.
     returnM q)))))))"

definition apply_security_policy :: "env \<Rightarrow> string \<Rightarrow> ('ag, security_policy) site_act" where
  "apply_security_policy env i =
     bindM (fetch ct_policies i) (\<lambda>p.
     bindM (nowS env) (\<lambda>now.
     bindM (liftM (sp_mark_applied now p)) (\<lambda>q.
     bindM (keep ct_policies_update (sp_id q) q) (\<lambda>_.
     bindM (announce env ''security_policy.applied'' ''security_policy'' (sp_id q) [] (sp_project_id q)) (\<lambda>_.
     returnM q)))))"

definition update_rule_counters :: "string \<Rightarrow> string \<Rightarrow> int \<Rightarrow> int \<Rightarrow> ('ag, security_policy) site_act" where
  "update_rule_counters i rid packets bytes =
     bindM (fetch ct_policies i) (\<lambda>p.
     bindM (liftM (sp_update_counters rid packets bytes p)) (\<lambda>q.
     bindM (keep ct_policies_update (sp_id q) q) (\<lambda>_.
     returnM q)))"

subsection \<open>Trunk ports\<close>

record create_trunk_cmd =
  ctp_name :: string
  ctp_node_id :: string
  ctp_vlan_ids :: "int list"
  ctp_logical_port_id :: "string option"
  ctp_native_vlan :: "int option"
  ctp_project_id :: "string option"
  ctp_labels :: "(string, string) dict option"

definition create_trunk_port :: "env \<Rightarrow> create_trunk_cmd \<Rightarrow> ('ag, trunk_port) site_act" where
  "create_trunk_port env cmd =
     bindM (require_in w_nodes (ctp_node_id cmd)) (\<lambda>_.
     bindM (nowS env) (\<lambda>now.
     bindM (freshS env TrunkPortId) (\<lambda>i.
     bindM (liftM (mk_trunk_port
       \<lparr>tp_id = i, tp_name = ctp_name cmd, tp_node_id = ctp_node_id cmd, tp_vlan_ids = ctp_vlan_ids cmd,
        tp_logical_port_id = ctp_logical_port_id cmd, tp_native_vlan = ctp_native_vlan cmd,
        tp_project_id = ctp_project_id cmd, tp_labels = or_default [] (ctp_labels cmd),
        tp_created_at = now, tp_updated_at = now\<rparr>)) (\<lambda>t.
     bindM (keep ct_trunks_update (tp_id t) t) (\<lambda>_.
     bindM (announce env ''trunk_port.created'' ''trunk_port'' (tp_id t)
              [(''name'', JStr (tp_name t)), (''node_id'', JStr (tp_node_id t)),
               (''vlan_ids'', JList (List.map JInt (tp_vlan_ids t)))] (tp_project_id t)) (\<lambda>_.
     returnM t))))))"

definition get_trunk_port :: "string \<Rightarrow> ('ag, trunk_port) site_act" where
  "get_trunk_port i = fetch ct_trunks i"

definition list_trunk_ports :: "string option \<Rightarrow> string option \<Rightarrow> ('ag, trunk_port list) site_act" where
  "list_trunk_ports node project = readS (list_trunks node project)"

text \<open>\<open>native_vlan=cmd.native_vlan\<close> passes the native VLAN in every update.\<close>

definition update_trunk_port ::
  "env \<Rightarrow> string \<Rightarrow> string option \<Rightarrow> int list option \<Rightarrow> int option \<Rightarrow> (string, string) dict option
     \<Rightarrow> ('ag, trunk_port) site_act" where
  "update_trunk_port env i name vlans native labels =
     bindM (fetch ct_trunks i) (\<lambda>t.
     bindM (nowS env) (\<lambda>now.
     bindM (liftM (tp_update name vlans (Some native) labels now t)) (\<lambda>u.
     bindM (keep ct_trunks_update (tp_id u) u) (\<lambda>_.
     bindM (announce env ''trunk_port.updated'' ''trunk_port'' (tp_id u) [] (tp_project_id u)) (\<lambda>_.
     returnM u)))))"

definition delete_trunk_port :: "env \<Rightarrow> string \<Rightarrow> ('ag, unit) site_act" where
  "delete_trunk_port env i =
     bindM (fetch ct_trunks i) (\<lambda>t.
     bindM (discard ct_trunks_update i) (\<lambda>_.
     announce env ''trunk_port.deleted'' ''trunk_port'' i [] (tp_project_id t)))"

end
