(* ===== verification/N3_Use_Cases.thy ===== *)
theory N3_Use_Cases
  imports Catalogue
begin

text \<open>
  The use cases of \<open>core/use_cases/n3.py\<close>: routers with routes, attached networks, generated
  configuration and administrative state; floating addresses; BGP peers.
\<close>

fun ha_mode_value :: "ha_mode \<Rightarrow> string" where
  "ha_mode_value HA_NONE = ''none''"
| "ha_mode_value HA_VRRP = ''vrrp''"

definition ha_mode_of :: "string \<Rightarrow> exc + ha_mode" where
  "ha_mode_of = enum_of ha_mode_value [HA_NONE, HA_VRRP]"

fun ipv6_mode_value :: "ipv6_mode \<Rightarrow> string" where
  "ipv6_mode_value IPV6_OFF = ''off''"
| "ipv6_mode_value IPV6_SLAAC = ''slaac''"
| "ipv6_mode_value IPV6_STATEFUL = ''stateful''"
| "ipv6_mode_value IPV6_STATELESS = ''stateless''"

definition ipv6_mode_of :: "string \<Rightarrow> exc + ipv6_mode" where
  "ipv6_mode_of = enum_of ipv6_mode_value [IPV6_OFF, IPV6_SLAAC, IPV6_STATEFUL, IPV6_STATELESS]"

fun bgp_state_value :: "bgp_state \<Rightarrow> string" where
  "bgp_state_value BGP_IDLE = ''idle''"
| "bgp_state_value BGP_CONNECT = ''connect''"
| "bgp_state_value BGP_ACTIVE = ''active''"
| "bgp_state_value BGP_OPENSENT = ''opensent''"
| "bgp_state_value BGP_OPENCONFIRM = ''openconfirm''"
| "bgp_state_value BGP_ESTABLISHED = ''established''"

definition bgp_state_of :: "string \<Rightarrow> exc + bgp_state" where
  "bgp_state_of = enum_of bgp_state_value
     [BGP_IDLE, BGP_CONNECT, BGP_ACTIVE, BGP_OPENSENT, BGP_OPENCONFIRM, BGP_ESTABLISHED]"

subsection \<open>Routers\<close>

record create_router_cmd =
  crt_name :: string
  crt_description :: string
  crt_project_id :: "string option"
  crt_external_network_id :: "string option"
  crt_ha_mode :: string
  crt_vrrp_priority :: "int option"
  crt_vrrp_vrid :: "int option"
  crt_labels :: "(string, string) dict option"

definition create_router :: "env \<Rightarrow> create_router_cmd \<Rightarrow> ('ag, router) site_act" where
  "create_router env cmd =
     bindM (nowS env) (\<lambda>now.
     bindM (freshS env RouterId) (\<lambda>i.
     bindM (liftM (ha_mode_of (crt_ha_mode cmd))) (\<lambda>ha.
     bindM (liftM (mk_router
       \<lparr>rt_id = i, rt_name = crt_name cmd, rt_description = crt_description cmd,
        rt_project_id = crt_project_id cmd, rt_external_network_id = crt_external_network_id cmd,
        rt_internal_network_ids = [], rt_static_routes = [], rt_status = RT_BUILD,
        rt_admin_state_up = True, rt_ha_mode = ha, rt_vrrp_priority = crt_vrrp_priority cmd,
        rt_vrrp_vrid = crt_vrrp_vrid cmd, rt_ipv6_config = None, rt_applied_config = None,
        rt_applied_at = None, rt_labels = or_default [] (crt_labels cmd), rt_created_at = now,
        rt_updated_at = now\<rparr>)) (\<lambda>r.
     bindM (keep ct_routers_update (rt_id r) r) (\<lambda>_.
     bindM (announce env ''router.created'' ''router'' (rt_id r) [(''name'', JStr (rt_name r))]
              (rt_project_id r)) (\<lambda>_.
     returnM r))))))"

definition get_router :: "string \<Rightarrow> ('ag, router) site_act" where
  "get_router i = fetch ct_routers i"

definition list_routers_call :: "string option \<Rightarrow> ('ag, router list) site_act" where
  "list_routers_call project = readS (list_routers project)"

record update_router_cmd =
  urt_name :: "string option"
  urt_description :: "string option"
  urt_external_network_id :: "string option option"
  urt_ha_mode :: "string option"
  urt_vrrp_priority :: "int option option"
  urt_vrrp_vrid :: "int option option"
  urt_ipv6_mode :: "string option"
  urt_ipv6_prefix :: "string option"
  urt_ipv6_stateful :: "bool option"
  urt_labels :: "(string, string) dict option"

text \<open>The IPv6 settings of the command over those the router has; \<open>None\<close> when none is named.\<close>

definition merged_ipv6 :: "update_router_cmd \<Rightarrow> router \<Rightarrow> exc + ipv6_config option option" where
  "merged_ipv6 cmd r =
     (if urt_ipv6_mode cmd = None \<and> urt_ipv6_prefix cmd = None \<and> urt_ipv6_stateful cmd = None
      then Inr None
      else let base = or_default \<lparr>v6_mode = IPV6_OFF, v6_prefix = [], v6_stateful = False\<rparr> (rt_ipv6_config r)
           in bindE (opt_enum ipv6_mode_of (urt_ipv6_mode cmd)) (\<lambda>m.
              bindE (mk_ipv6_config \<lparr>v6_mode = or_default (v6_mode base) m,
                       v6_prefix = or_default (v6_prefix base) (urt_ipv6_prefix cmd),
                       v6_stateful = or_default (v6_stateful base) (urt_ipv6_stateful cmd)\<rparr>) (\<lambda>c.
              Inr (Some (Some c)))))"

definition update_router :: "env \<Rightarrow> string \<Rightarrow> update_router_cmd \<Rightarrow> ('ag, router) site_act" where
  "update_router env i cmd =
     bindM (fetch ct_routers i) (\<lambda>r.
     bindM (liftM (merged_ipv6 cmd r)) (\<lambda>v6.
     bindM (liftM (opt_enum ha_mode_of (urt_ha_mode cmd))) (\<lambda>ha.
     bindM (nowS env) (\<lambda>now.
     bindM (liftM (rt_update
       \<lparr>rc_name = urt_name cmd, rc_description = urt_description cmd,
        rc_external_network_id = urt_external_network_id cmd, rc_ha_mode = ha,
        rc_vrrp_priority = urt_vrrp_priority cmd, rc_vrrp_vrid = urt_vrrp_vrid cmd,
        rc_ipv6_config = v6, rc_labels = urt_labels cmd\<rparr> now r)) (\<lambda>q.
     bindM (keep ct_routers_update (rt_id q) q) (\<lambda>_.
     bindM (announce env ''router.updated'' ''router'' (rt_id q) [] (rt_project_id q)) (\<lambda>_.
     returnM q)))))))"

definition delete_router :: "env \<Rightarrow> string \<Rightarrow> ('ag, unit) site_act" where
  "delete_router env i =
     bindM (fetch ct_routers i) (\<lambda>r.
     bindM (discard ct_routers_update i) (\<lambda>_.
     announce env ''router.deleted'' ''router'' i [] (rt_project_id r)))"

definition add_static_route :: "env \<Rightarrow> string \<Rightarrow> string \<Rightarrow> string \<Rightarrow> ('ag, router) site_act" where
  "add_static_route env i dst hop =
     bindM (fetch ct_routers i) (\<lambda>r.
     bindM (liftM (mk_static_route dst hop)) (\<lambda>sr.
     bindM (nowS env) (\<lambda>now.
     bindM (liftM (rt_add_static_route sr now r)) (\<lambda>q.
     bindM (keep ct_routers_update (rt_id q) q) (\<lambda>_.
     bindM (announce env ''router.route_added'' ''router'' (rt_id q)
              [(''destination'', JStr dst), (''nexthop'', JStr hop)] (rt_project_id q)) (\<lambda>_.
     returnM q))))))"

definition remove_static_route :: "env \<Rightarrow> string \<Rightarrow> string \<Rightarrow> ('ag, router) site_act" where
  "remove_static_route env i dst =
     bindM (fetch ct_routers i) (\<lambda>r.
     bindM (nowS env) (\<lambda>now.
     bindM (liftM (rt_remove_static_route dst now r)) (\<lambda>q.
     bindM (keep ct_routers_update (rt_id q) q) (\<lambda>_.
     bindM (announce env ''router.route_removed'' ''router'' (rt_id q)
              [(''destination'', JStr dst)] (rt_project_id q)) (\<lambda>_.
     returnM q)))))"

definition add_internal_network :: "env \<Rightarrow> string \<Rightarrow> string \<Rightarrow> ('ag, router) site_act" where
  "add_internal_network env i nid =
     bindM (fetch ct_routers i) (\<lambda>r.
     bindM (nowS env) (\<lambda>now.
     bindM (liftM (Inr (rt_add_internal_network nid now r))) (\<lambda>q.
     bindM (keep ct_routers_update (rt_id q) q) (\<lambda>_.
     bindM (announce env ''router.network_added'' ''router'' (rt_id q)
              [(''network_id'', JStr nid)] (rt_project_id q)) (\<lambda>_.
     returnM q)))))"

definition remove_internal_network :: "env \<Rightarrow> string \<Rightarrow> string \<Rightarrow> ('ag, router) site_act" where
  "remove_internal_network env i nid =
     bindM (fetch ct_routers i) (\<lambda>r.
     bindM (nowS env) (\<lambda>now.
     bindM (liftM (rt_remove_internal_network nid now r)) (\<lambda>q.
     bindM (keep ct_routers_update (rt_id q) q) (\<lambda>_.
     bindM (announce env ''router.network_removed'' ''router'' (rt_id q)
              [(''network_id'', JStr nid)] (rt_project_id q)) (\<lambda>_.
     returnM q)))))"

definition apply_router :: "env \<Rightarrow> string \<Rightarrow> ('ag, router) site_act" where
  "apply_router env i =
     bindM (fetch ct_routers i) (\<lambda>r.
     bindM (readS (list_bgp (Some i) None)) (\<lambda>peers.
     bindM (nowS env) (\<lambda>now.
     bindM (liftM (Inr (rt_mark_active (router_config r peers now) now r))) (\<lambda>q.
     bindM (keep ct_routers_update (rt_id q) q) (\<lambda>_.
     bindM (announce env ''router.applied'' ''router'' (rt_id q) [] (rt_project_id q)) (\<lambda>_.
     returnM q))))))"

definition set_router_admin_state :: "env \<Rightarrow> string \<Rightarrow> bool \<Rightarrow> ('ag, router) site_act" where
  "set_router_admin_state env i up =
     bindM (fetch ct_routers i) (\<lambda>r.
     bindM (nowS env) (\<lambda>now.
     bindM (liftM (Inr (rt_set_admin_state up now r))) (\<lambda>q.
     bindM (keep ct_routers_update (rt_id q) q) (\<lambda>_.
     bindM (announce env ''router.admin_state_changed'' ''router'' (rt_id q)
              [(''admin_state_up'', JBool up)] (rt_project_id q)) (\<lambda>_.
     returnM q)))))"

subsection \<open>Floating addresses\<close>

record allocate_fip_cmd =
  afp_external_network_id :: string
  afp_address :: string
  afp_project_id :: "string option"
  afp_labels :: "(string, string) dict option"

definition allocate_floating_ip :: "env \<Rightarrow> allocate_fip_cmd \<Rightarrow> ('ag, floating_ip) site_act" where
  "allocate_floating_ip env cmd =
     bindM (nowS env) (\<lambda>now.
     bindM (freshS env FloatingIpId) (\<lambda>i.
     bindM (liftM (mk_floating_ip
       \<lparr>fip_id = i, fip_external_network_id = afp_external_network_id cmd, fip_address = afp_address cmd,
        fip_project_id = afp_project_id cmd, fip_fixed_address = None, fip_logical_port_id = None,
        fip_router_id = None, fip_status = FIP_DOWN, fip_labels = or_default [] (afp_labels cmd),
        fip_created_at = now, fip_updated_at = now\<rparr>)) (\<lambda>f.
     bindM (keep ct_fips_update (fip_id f) f) (\<lambda>_.
     bindM (announce env ''floating_ip.allocated'' ''floating_ip'' (fip_id f)
              [(''floating_ip_address'', JStr (fip_address f))] (fip_project_id f)) (\<lambda>_.
     returnM f)))))"

definition get_floating_ip :: "string \<Rightarrow> ('ag, floating_ip) site_act" where
  "get_floating_ip i = fetch ct_fips i"

definition list_floating_ips :: "string option \<Rightarrow> string option \<Rightarrow> ('ag, floating_ip list) site_act" where
  "list_floating_ips project router = readS (list_fips project router)"

definition associate_floating_ip ::
  "env \<Rightarrow> string \<Rightarrow> string \<Rightarrow> string \<Rightarrow> string \<Rightarrow> ('ag, floating_ip) site_act" where
  "associate_floating_ip env i port fixed router =
     bindM (fetch ct_fips i) (\<lambda>f.
     bindM (fetch ct_routers router) (\<lambda>_.
     bindM (nowS env) (\<lambda>now.
     bindM (liftM (fip_associate port fixed router now f)) (\<lambda>g.
     bindM (keep ct_fips_update (fip_id g) g) (\<lambda>_.
     bindM (announce env ''floating_ip.associated'' ''floating_ip'' (fip_id g)
              [(''floating_ip_address'', JStr (fip_address g)), (''fixed_ip_address'', JStr fixed)]
              (fip_project_id g)) (\<lambda>_.
     returnM g))))))"

definition disassociate_floating_ip :: "env \<Rightarrow> string \<Rightarrow> ('ag, floating_ip) site_act" where
  "disassociate_floating_ip env i =
     bindM (fetch ct_fips i) (\<lambda>f.
     bindM (guardM (fip_status f = FIP_ACTIVE) err_validation) (\<lambda>_.
     bindM (nowS env) (\<lambda>now.
     bindM (liftM (Inr (fip_disassociate now f))) (\<lambda>g.
     bindM (keep ct_fips_update (fip_id g) g) (\<lambda>_.
     bindM (announce env ''floating_ip.disassociated'' ''floating_ip'' (fip_id g) [] (fip_project_id g)) (\<lambda>_.
     returnM g))))))"

definition release_floating_ip :: "env \<Rightarrow> string \<Rightarrow> ('ag, unit) site_act" where
  "release_floating_ip env i =
     bindM (fetch ct_fips i) (\<lambda>f.
     bindM (discard ct_fips_update i) (\<lambda>_.
     announce env ''floating_ip.released'' ''floating_ip'' i [] (fip_project_id f)))"

subsection \<open>BGP peers\<close>

record create_bgp_cmd =
  cbg_router_id :: string
  cbg_peer_ip :: string
  cbg_peer_asn :: int
  cbg_local_asn :: int
  cbg_password :: string
  cbg_project_id :: "string option"
  cbg_labels :: "(string, string) dict option"

definition create_bgp_peer :: "env \<Rightarrow> create_bgp_cmd \<Rightarrow> ('ag, bgp_peer) site_act" where
  "create_bgp_peer env cmd =
     bindM (fetch ct_routers (cbg_router_id cmd)) (\<lambda>_.
     bindM (nowS env) (\<lambda>now.
     bindM (freshS env BgpPeerId) (\<lambda>i.
     bindM (liftM (mk_bgp_peer
       \<lparr>bgp_id = i, bgp_router_id = cbg_router_id cmd, bgp_peer_ip = cbg_peer_ip cmd,
        bgp_peer_asn = cbg_peer_asn cmd, bgp_local_asn = cbg_local_asn cmd,
        bgp_password = cbg_password cmd, bgp_state = BGP_IDLE, bgp_project_id = cbg_project_id cmd,
        bgp_labels = or_default [] (cbg_labels cmd), bgp_created_at = now, bgp_updated_at = now\<rparr>)) (\<lambda>p.
     bindM (keep ct_bgp_update (bgp_id p) p) (\<lambda>_.
     bindM (announce env ''bgp_peer.created'' ''bgp_peer'' (bgp_id p)
              [(''peer_ip'', JStr (bgp_peer_ip p)), (''peer_asn'', JInt (bgp_peer_asn p))]
              (bgp_project_id p)) (\<lambda>_.
     returnM p))))))"

definition get_bgp_peer :: "string \<Rightarrow> ('ag, bgp_peer) site_act" where
  "get_bgp_peer i = fetch ct_bgp i"

definition list_bgp_peers :: "string option \<Rightarrow> string option \<Rightarrow> ('ag, bgp_peer list) site_act" where
  "list_bgp_peers router project = readS (list_bgp router project)"

definition delete_bgp_peer :: "env \<Rightarrow> string \<Rightarrow> ('ag, unit) site_act" where
  "delete_bgp_peer env i =
     bindM (fetch ct_bgp i) (\<lambda>p.
     bindM (discard ct_bgp_update i) (\<lambda>_.
     announce env ''bgp_peer.deleted'' ''bgp_peer'' i [] (bgp_project_id p)))"

definition update_bgp_peer_state :: "env \<Rightarrow> string \<Rightarrow> string \<Rightarrow> ('ag, bgp_peer) site_act" where
  "update_bgp_peer_state env i state =
     bindM (fetch ct_bgp i) (\<lambda>p.
     bindM (liftM (bgp_state_of state)) (\<lambda>st.
     bindM (nowS env) (\<lambda>now.
     bindM (liftM (Inr (bgp_update_state st now p))) (\<lambda>q.
     bindM (keep ct_bgp_update (bgp_id q) q) (\<lambda>_.
     returnM q)))))"

end
