(* ===== verification/N4_Use_Cases.thy ===== *)
theory N4_Use_Cases
  imports N3_Use_Cases
begin

text \<open>
  The use cases of \<open>core/use_cases/n4.py\<close>: project quotas and usage, preflight checks, resource
  snapshots, gateway bonds, retention policies, load balancers with listeners, pools and members,
  and health monitors. \<open>Enum(text)\<close> raises after the id was drawn where the code evaluates it after
  the id.
\<close>

subsection \<open>Quotas and usage\<close>

definition quota_resource_of :: "string \<Rightarrow> exc + quota_resource" where
  "quota_resource_of = enum_of quota_value quota_resources"

definition set_project_quota :: "env \<Rightarrow> string \<Rightarrow> string \<Rightarrow> int option \<Rightarrow> ('ag, project_quota) site_act" where
  "set_project_quota env pid res limit =
     bindM (nowS env) (\<lambda>now.
     bindM (liftM (quota_resource_of res)) (\<lambda>r.
     bindM (readS (quota_by_project pid)) (\<lambda>found.
     bindM (case found of Some q \<Rightarrow> returnM q
            | None \<Rightarrow> bindM (freshS env ProjectQuotaId) (\<lambda>i. returnM
                \<lparr>pq_id = i, pq_project_id = pid, pq_limits = [], pq_created_at = now, pq_updated_at = now\<rparr>)) (\<lambda>q.
     bindM (liftM (case limit of None \<Rightarrow> Inr (remove_limit r now q) | Some n \<Rightarrow> set_limit r (Some n) now q)) (\<lambda>q'.
     bindM (keep ct_quotas_update (pq_id q') q') (\<lambda>_.
     bindM (announce env ''quota.updated'' ''project_quota'' (pq_id q')
              [(''resource'', JStr res), (''limit'', jopt JInt limit)] (Some pid)) (\<lambda>_.
     returnM q')))))))"

definition get_project_quota :: "string \<Rightarrow> ('ag, project_quota option) site_act" where
  "get_project_quota pid = readS (quota_by_project pid)"

definition delete_project_quota :: "env \<Rightarrow> string \<Rightarrow> ('ag, unit) site_act" where
  "delete_project_quota env pid =
     bindM (readS (quota_by_project pid)) (\<lambda>found.
     case found of None \<Rightarrow> returnM ()
     | Some q \<Rightarrow>
         bindM (discard ct_quotas_update (pq_id q)) (\<lambda>_.
         announce env ''quota.deleted'' ''project_quota'' (pq_id q) [] (Some pid)))"

record usage_report =
  ur_usage :: "(string, int) dict"
  ur_limits :: "(string, int option) dict"
  ur_violations :: "quota_violation list"

definition project_usage :: "string \<Rightarrow> catalogue \<Rightarrow> (string, int) dict" where
  "project_usage pid c =
     [(quota_value Q_ROUTERS, int (length (list_routers (Some pid) c))),
      (quota_value Q_LOAD_BALANCERS, int (length (list_lbs (Some pid) c)))]"

definition check_project_usage :: "string \<Rightarrow> ('ag, usage_report) site_act" where
  "check_project_usage pid =
     bindM (readS (quota_by_project pid)) (\<lambda>found.
     bindM (readS (project_usage pid)) (\<lambda>usage.
     returnM (case found of
         None \<Rightarrow> \<lparr>ur_usage = usage, ur_limits = [], ur_violations = []\<rparr>
       | Some q \<Rightarrow> \<lparr>ur_usage = usage, ur_limits = pq_limits q, ur_violations = compute_violations q usage\<rparr>)))"

subsection \<open>Preflight\<close>

definition run_preflight_router :: "string \<Rightarrow> ('ag, preflight_issue list) site_act" where
  "run_preflight_router i =
     bindM (fetch ct_routers i) (\<lambda>r.
     bindM (guardM (filter (\<lambda>x. fst x = Sev_error) (check_router r) = []) err_validation) (\<lambda>_.
     returnM (check_router r)))"

subsection \<open>Snapshots\<close>

record snapshot_cmd =
  snc_project_id :: string
  snc_label :: string
  snc_include_routers :: bool
  snc_include_networks :: bool
  snc_include_floating_ips :: bool

text \<open>\<open>max((s.version for s in existing), default=0) + 1\<close>\<close>

definition next_version :: "string \<Rightarrow> catalogue \<Rightarrow> int" where
  "next_version pid c =
     (case List.map rs_version (list_snapshots (Some pid) c) of [] \<Rightarrow> 0 | v # vs \<Rightarrow> foldl max v vs) + 1"

fun router_status_value :: "router_status \<Rightarrow> string" where
  "router_status_value RT_BUILD = ''build''"
| "router_status_value RT_ACTIVE = ''active''"
| "router_status_value RT_ERROR = ''error''"
| "router_status_value RT_DOWN = ''down''"

definition router_json :: "router \<Rightarrow> json" where
  "router_json r = JObj
     [(''id'', JStr (rt_id r)), (''name'', JStr (rt_name r)),
      (''status'', JStr (router_status_value (rt_status r))),
      (''external_network_id'', jopt JStr (rt_external_network_id r)),
      (''internal_network_ids'', JList (List.map JStr (rt_internal_network_ids r))),
      (''ha_mode'', JStr (ha_mode_value (rt_ha_mode r)))]"

definition take_resource_snapshot :: "env \<Rightarrow> snapshot_cmd \<Rightarrow> ('ag, resource_snapshot) site_act" where
  "take_resource_snapshot env cmd =
     bindM (nowS env) (\<lambda>now.
     bindM (readS (next_version (snc_project_id cmd))) (\<lambda>version.
     bindM (if snc_include_routers cmd
            then bindM (readS (list_routers (Some (snc_project_id cmd)))) (\<lambda>rs.
                 returnM ([''routers''], [(''routers'', JList (List.map router_json rs))]))
            else returnM ([], [])) (\<lambda>(types, payload).
     bindM (freshS env ResourceSnapshotId) (\<lambda>i.
     bindM (liftM (Inr
       \<lparr>rs_id = i, rs_project_id = snc_project_id cmd, rs_version = version, rs_label = snc_label cmd,
        rs_resource_types = types, rs_payload = payload, rs_created_at = now\<rparr>)) (\<lambda>x.
     bindM (keep ct_snapshots_update (rs_id x) x) (\<lambda>_.
     bindM (announce env ''snapshot.created'' ''resource_snapshot'' (rs_id x)
              [(''version'', JInt version), (''label'', JStr (snc_label cmd))]
              (Some (snc_project_id cmd))) (\<lambda>_.
     returnM x)))))))"

definition get_resource_snapshot :: "string \<Rightarrow> ('ag, resource_snapshot) site_act" where
  "get_resource_snapshot i = fetch ct_snapshots i"

definition list_resource_snapshots :: "string option \<Rightarrow> ('ag, resource_snapshot list) site_act" where
  "list_resource_snapshots project = readS (list_snapshots project)"

definition delete_resource_snapshot :: "env \<Rightarrow> string \<Rightarrow> ('ag, unit) site_act" where
  "delete_resource_snapshot env i =
     bindM (fetch ct_snapshots i) (\<lambda>x.
     bindM (discard ct_snapshots_update i) (\<lambda>_.
     announce env ''snapshot.deleted'' ''resource_snapshot'' i [] (Some (rs_project_id x))))"

subsection \<open>Gateway bonds\<close>

record create_bond_cmd =
  cgb_name :: string
  cgb_node_id :: string
  cgb_bond_name :: string
  cgb_mode :: string
  cgb_members :: "string list option"
  cgb_mtu :: int
  cgb_project_id :: "string option"
  cgb_labels :: "(string, string) dict option"

definition create_gateway_bond :: "env \<Rightarrow> create_bond_cmd \<Rightarrow> ('ag, gateway_bond) site_act" where
  "create_gateway_bond env cmd =
     bindM (nowS env) (\<lambda>now.
     bindM (freshS env GatewayBondId) (\<lambda>i.
     bindM (liftM (bond_mode_of (cgb_mode cmd))) (\<lambda>mode.
     bindM (liftM (mk_gateway_bond
       \<lparr>gb_id = i, gb_name = cgb_name cmd, gb_node_id = cgb_node_id cmd, gb_bond_name = cgb_bond_name cmd,
        gb_mode = mode, gb_members = or_default [] (cgb_members cmd), gb_mtu = cgb_mtu cmd,
        gb_project_id = cgb_project_id cmd, gb_applied_config = None, gb_applied_at = None,
        gb_labels = or_default [] (cgb_labels cmd), gb_created_at = now, gb_updated_at = now\<rparr>)) (\<lambda>b.
     bindM (keep ct_bonds_update (gb_id b) b) (\<lambda>_.
     bindM (announce env ''gateway_bond.created'' ''gateway_bond'' (gb_id b)
              [(''bond_name'', JStr (gb_bond_name b)), (''mode'', JStr (bond_mode_value (gb_mode b)))]
              (gb_project_id b)) (\<lambda>_.
     returnM b))))))"

definition get_gateway_bond :: "string \<Rightarrow> ('ag, gateway_bond) site_act" where
  "get_gateway_bond i = fetch ct_bonds i"

definition list_gateway_bonds :: "string option \<Rightarrow> string option \<Rightarrow> ('ag, gateway_bond list) site_act" where
  "list_gateway_bonds node project = readS (list_bonds node project)"

record update_bond_cmd =
  ugb_name :: "string option"
  ugb_mode :: "string option"
  ugb_members :: "string list option"
  ugb_mtu :: "int option"
  ugb_labels :: "(string, string) dict option"

definition update_gateway_bond :: "env \<Rightarrow> string \<Rightarrow> update_bond_cmd \<Rightarrow> ('ag, gateway_bond) site_act" where
  "update_gateway_bond env i cmd =
     bindM (fetch ct_bonds i) (\<lambda>b.
     bindM (liftM (opt_enum bond_mode_of (ugb_mode cmd))) (\<lambda>mode.
     bindM (nowS env) (\<lambda>now.
     bindM (liftM (gb_update (ugb_name cmd) mode (ugb_members cmd) (ugb_mtu cmd) (ugb_labels cmd) now b)) (\<lambda>c.
     bindM (keep ct_bonds_update (gb_id c) c) (\<lambda>_.
     bindM (announce env ''gateway_bond.updated'' ''gateway_bond'' (gb_id c) [] (gb_project_id c)) (\<lambda>_.
     returnM c))))))"

definition delete_gateway_bond :: "env \<Rightarrow> string \<Rightarrow> ('ag, unit) site_act" where
  "delete_gateway_bond env i =
     bindM (fetch ct_bonds i) (\<lambda>b.
     bindM (discard ct_bonds_update i) (\<lambda>_.
     announce env ''gateway_bond.deleted'' ''gateway_bond'' i [] (gb_project_id b)))"

definition apply_gateway_bond :: "env \<Rightarrow> string \<Rightarrow> ('ag, gateway_bond) site_act" where
  "apply_gateway_bond env i =
     bindM (fetch ct_bonds i) (\<lambda>b.
     bindM (nowS env) (\<lambda>now.
     bindM (liftM (Inr (gb_mark_applied (bond_config b now) now b))) (\<lambda>c.
     bindM (keep ct_bonds_update (gb_id c) c) (\<lambda>_.
     bindM (announce env ''gateway_bond.applied'' ''gateway_bond'' (gb_id c) [] (gb_project_id c)) (\<lambda>_.
     returnM c)))))"

subsection \<open>Retention policies\<close>

record retention_cmd =
  rtc_scope :: string
  rtc_days :: int
  rtc_project_id :: "string option"
  rtc_description :: string

definition set_retention_policy :: "env \<Rightarrow> retention_cmd \<Rightarrow> ('ag, retention_policy) site_act" where
  "set_retention_policy env cmd =
     bindM (nowS env) (\<lambda>now.
     bindM (liftM (retention_of (rtc_scope cmd))) (\<lambda>scope.
     bindM (readS (retention_by_scope scope (rtc_project_id cmd))) (\<lambda>found.
     case found of
       Some p \<Rightarrow>
         bindM (liftM (rp_update (rtc_days cmd)
             (if rtc_description cmd = [] then None else Some (rtc_description cmd)) now p)) (\<lambda>q.
         bindM (keep ct_retention_update (rp_id q) q) (\<lambda>_.
         bindM (announce env ''retention_policy.updated'' ''retention_policy'' (rp_id q) []
                  (rtc_project_id cmd)) (\<lambda>_.
         returnM q)))
     | None \<Rightarrow>
         bindM (freshS env RetentionPolicyId) (\<lambda>i.
         bindM (liftM (mk_retention_policy
           \<lparr>rp_id = i, rp_scope = scope, rp_days = rtc_days cmd, rp_project_id = rtc_project_id cmd,
            rp_description = rtc_description cmd, rp_created_at = now, rp_updated_at = now\<rparr>)) (\<lambda>q.
         bindM (keep ct_retention_update (rp_id q) q) (\<lambda>_.
         bindM (announce env ''retention_policy.created'' ''retention_policy'' (rp_id q) []
                  (rtc_project_id cmd)) (\<lambda>_.
         returnM q)))))))"

definition get_retention_policy :: "string \<Rightarrow> ('ag, retention_policy) site_act" where
  "get_retention_policy i = fetch ct_retention i"

definition list_retention_policies :: "string option \<Rightarrow> ('ag, retention_policy list) site_act" where
  "list_retention_policies project = readS (list_retention project)"

definition delete_retention_policy :: "env \<Rightarrow> string \<Rightarrow> ('ag, unit) site_act" where
  "delete_retention_policy env i =
     bindM (fetch ct_retention i) (\<lambda>p.
     bindM (discard ct_retention_update i) (\<lambda>_.
     announce env ''retention_policy.deleted'' ''retention_policy'' i [] (rp_project_id p)))"

subsection \<open>Load balancers\<close>

record create_lb_cmd =
  clb_name :: string
  clb_vip_address :: string
  clb_vip_network_id :: string
  clb_project_id :: "string option"
  clb_router_id :: "string option"
  clb_description :: string
  clb_provider :: string
  clb_labels :: "(string, string) dict option"

definition create_load_balancer :: "env \<Rightarrow> create_lb_cmd \<Rightarrow> ('ag, load_balancer) site_act" where
  "create_load_balancer env cmd =
     bindM (nowS env) (\<lambda>now.
     bindM (freshS env LoadBalancerId) (\<lambda>i.
     bindM (liftM (mk_load_balancer
       \<lparr>lb_id = i, lb_name = clb_name cmd, lb_vip_address = clb_vip_address cmd,
        lb_vip_network_id = clb_vip_network_id cmd, lb_project_id = clb_project_id cmd,
        lb_router_id = clb_router_id cmd, lb_description = clb_description cmd,
        lb_provider = clb_provider cmd, lb_status = LB_BUILD, lb_admin_state_up = True,
        lb_applied_config = None, lb_applied_at = None, lb_labels = or_default [] (clb_labels cmd),
        lb_created_at = now, lb_updated_at = now\<rparr>)) (\<lambda>l.
     bindM (keep ct_lbs_update (lb_id l) l) (\<lambda>_.
     bindM (announce env ''load_balancer.created'' ''load_balancer'' (lb_id l)
              [(''name'', JStr (lb_name l)), (''vip_address'', JStr (lb_vip_address l))]
              (lb_project_id l)) (\<lambda>_.
     returnM l)))))"

definition get_load_balancer :: "string \<Rightarrow> ('ag, load_balancer) site_act" where
  "get_load_balancer i = fetch ct_lbs i"

definition list_load_balancers :: "string option \<Rightarrow> ('ag, load_balancer list) site_act" where
  "list_load_balancers project = readS (list_lbs project)"

definition update_load_balancer ::
  "env \<Rightarrow> string \<Rightarrow> string option \<Rightarrow> string option \<Rightarrow> (string, string) dict option
     \<Rightarrow> ('ag, load_balancer) site_act" where
  "update_load_balancer env i name desc labels =
     bindM (fetch ct_lbs i) (\<lambda>l.
     bindM (nowS env) (\<lambda>now.
     bindM (liftM (Inr (lb_update name desc labels now l))) (\<lambda>m.
     bindM (keep ct_lbs_update (lb_id m) m) (\<lambda>_.
     bindM (announce env ''load_balancer.updated'' ''load_balancer'' (lb_id m) [] (lb_project_id m)) (\<lambda>_.
     returnM m)))))"

definition delete_load_balancer :: "env \<Rightarrow> string \<Rightarrow> ('ag, unit) site_act" where
  "delete_load_balancer env i =
     bindM (fetch ct_lbs i) (\<lambda>l.
     bindM (discard ct_lbs_update i) (\<lambda>_.
     announce env ''load_balancer.deleted'' ''load_balancer'' i [] (lb_project_id l)))"

definition members_map :: "lb_pool list \<Rightarrow> catalogue \<Rightarrow> (string, lb_member list) dict" where
  "members_map pools c = fold (\<lambda>p. dset (lpl_id p) (list_lb_members (Some (lpl_id p)) c)) pools []"

definition monitors_map :: "lb_pool list \<Rightarrow> catalogue \<Rightarrow> (string, health_monitor) dict" where
  "monitors_map pools c =
     fold (\<lambda>p d. case monitor_by_pool (lpl_id p) c of None \<Rightarrow> d | Some h \<Rightarrow> dset (lpl_id p) h d) pools []"

definition apply_load_balancer :: "env \<Rightarrow> string \<Rightarrow> ('ag, load_balancer) site_act" where
  "apply_load_balancer env i =
     bindM (fetch ct_lbs i) (\<lambda>l.
     bindM (readS (list_listeners (Some i))) (\<lambda>listeners.
     bindM (readS (list_lb_pools (Some i))) (\<lambda>pools.
     bindM (readS (members_map pools)) (\<lambda>members.
     bindM (readS (monitors_map pools)) (\<lambda>monitors.
     bindM (nowS env) (\<lambda>now.
     bindM (liftM (Inr (lb_mark_active (lb_config l listeners pools members monitors now) now l))) (\<lambda>m.
     bindM (keep ct_lbs_update (lb_id m) m) (\<lambda>_.
     bindM (announce env ''load_balancer.applied'' ''load_balancer'' (lb_id m) [] (lb_project_id m)) (\<lambda>_.
     returnM m)))))))))"

definition set_lb_admin_state :: "env \<Rightarrow> string \<Rightarrow> bool \<Rightarrow> ('ag, load_balancer) site_act" where
  "set_lb_admin_state env i up =
     bindM (fetch ct_lbs i) (\<lambda>l.
     bindM (nowS env) (\<lambda>now.
     bindM (liftM (Inr (lb_set_admin_state up now l))) (\<lambda>m.
     bindM (keep ct_lbs_update (lb_id m) m) (\<lambda>_.
     bindM (announce env ''load_balancer.admin_state_changed'' ''load_balancer'' (lb_id m)
              [(''admin_state_up'', JBool up)] (lb_project_id m)) (\<lambda>_.
     returnM m)))))"

subsection \<open>Listeners, pools and members\<close>

record create_listener_cmd =
  cll_name :: string
  cll_lb_id :: string
  cll_protocol :: string
  cll_port :: int
  cll_default_pool_id :: "string option"
  cll_description :: string
  cll_labels :: "(string, string) dict option"

definition create_lb_listener :: "env \<Rightarrow> create_listener_cmd \<Rightarrow> ('ag, lb_listener) site_act" where
  "create_lb_listener env cmd =
     bindM (fetch ct_lbs (cll_lb_id cmd)) (\<lambda>_.
     bindM (nowS env) (\<lambda>now.
     bindM (freshS env LbListenerId) (\<lambda>i.
     bindM (liftM (lb_protocol_of (cll_protocol cmd))) (\<lambda>proto.
     bindM (liftM (mk_lb_listener
       \<lparr>ll_id = i, ll_name = cll_name cmd, ll_lb_id = cll_lb_id cmd, ll_protocol = proto,
        ll_port = cll_port cmd, ll_default_pool_id = cll_default_pool_id cmd,
        ll_description = cll_description cmd, ll_labels = or_default [] (cll_labels cmd),
        ll_created_at = now, ll_updated_at = now\<rparr>)) (\<lambda>l.
     bindM (keep ct_listeners_update (ll_id l) l) (\<lambda>_.
     bindM (announce env ''lb_listener.created'' ''lb_listener'' (ll_id l) [] None) (\<lambda>_.
     returnM l)))))))"

definition get_lb_listener :: "string \<Rightarrow> ('ag, lb_listener) site_act" where
  "get_lb_listener i = fetch ct_listeners i"

definition list_lb_listeners :: "string option \<Rightarrow> ('ag, lb_listener list) site_act" where
  "list_lb_listeners lb = readS (list_listeners lb)"

definition update_lb_listener ::
  "env \<Rightarrow> string \<Rightarrow> string option \<Rightarrow> string option \<Rightarrow> string option \<Rightarrow> (string, string) dict option
     \<Rightarrow> ('ag, lb_listener) site_act" where
  "update_lb_listener env i name pool desc labels =
     bindM (fetch ct_listeners i) (\<lambda>l.
     bindM (nowS env) (\<lambda>now.
     bindM (liftM (Inr (ll_update name pool desc labels now l))) (\<lambda>m.
     bindM (keep ct_listeners_update (ll_id m) m) (\<lambda>_.
     bindM (announce env ''lb_listener.updated'' ''lb_listener'' (ll_id m) [] None) (\<lambda>_.
     returnM m)))))"

definition delete_lb_listener :: "env \<Rightarrow> string \<Rightarrow> ('ag, unit) site_act" where
  "delete_lb_listener env i =
     bindM (fetch ct_listeners i) (\<lambda>_.
     bindM (discard ct_listeners_update i) (\<lambda>_.
     announce env ''lb_listener.deleted'' ''lb_listener'' i [] None))"

record create_lb_pool_cmd =
  clp_name :: string
  clp_lb_id :: string
  clp_protocol :: string
  clp_algorithm :: string
  clp_persistence :: string
  clp_description :: string
  clp_labels :: "(string, string) dict option"

definition create_lb_pool :: "env \<Rightarrow> create_lb_pool_cmd \<Rightarrow> ('ag, lb_pool) site_act" where
  "create_lb_pool env cmd =
     bindM (fetch ct_lbs (clp_lb_id cmd)) (\<lambda>_.
     bindM (nowS env) (\<lambda>now.
     bindM (freshS env LbPoolId) (\<lambda>i.
     bindM (liftM (lb_protocol_of (clp_protocol cmd))) (\<lambda>proto.
     bindM (liftM (lb_algorithm_of (clp_algorithm cmd))) (\<lambda>algo.
     bindM (liftM (persistence_of (clp_persistence cmd))) (\<lambda>pers.
     bindM (liftM (Inr
       \<lparr>lpl_id = i, lpl_name = clp_name cmd, lpl_lb_id = clp_lb_id cmd, lpl_protocol = proto,
        lpl_algorithm = algo, lpl_persistence = pers, lpl_description = clp_description cmd,
        lpl_labels = or_default [] (clp_labels cmd), lpl_created_at = now, lpl_updated_at = now\<rparr>)) (\<lambda>p.
     bindM (keep ct_lb_pools_update (lpl_id p) p) (\<lambda>_.
     bindM (announce env ''lb_pool.created'' ''lb_pool'' (lpl_id p) [] None) (\<lambda>_.
     returnM p)))))))))"

definition get_lb_pool :: "string \<Rightarrow> ('ag, lb_pool) site_act" where
  "get_lb_pool i = fetch ct_lb_pools i"

definition list_lb_pools_call :: "string option \<Rightarrow> ('ag, lb_pool list) site_act" where
  "list_lb_pools_call lb = readS (list_lb_pools lb)"

record update_lb_pool_cmd =
  ulp_name :: "string option"
  ulp_algorithm :: "string option"
  ulp_persistence :: "string option"
  ulp_description :: "string option"
  ulp_labels :: "(string, string) dict option"

definition update_lb_pool :: "env \<Rightarrow> string \<Rightarrow> update_lb_pool_cmd \<Rightarrow> ('ag, lb_pool) site_act" where
  "update_lb_pool env i cmd =
     bindM (fetch ct_lb_pools i) (\<lambda>p.
     bindM (liftM (opt_enum lb_algorithm_of (ulp_algorithm cmd))) (\<lambda>algo.
     bindM (liftM (opt_enum persistence_of (ulp_persistence cmd))) (\<lambda>pers.
     bindM (nowS env) (\<lambda>now.
     bindM (liftM (Inr (lpl_update (ulp_name cmd) algo pers (ulp_description cmd) (ulp_labels cmd) now p))) (\<lambda>q.
     bindM (keep ct_lb_pools_update (lpl_id q) q) (\<lambda>_.
     bindM (announce env ''lb_pool.updated'' ''lb_pool'' (lpl_id q) [] None) (\<lambda>_.
     returnM q)))))))"

definition delete_lb_pool :: "env \<Rightarrow> string \<Rightarrow> ('ag, unit) site_act" where
  "delete_lb_pool env i =
     bindM (fetch ct_lb_pools i) (\<lambda>_.
     bindM (discard ct_lb_pools_update i) (\<lambda>_.
     announce env ''lb_pool.deleted'' ''lb_pool'' i [] None))"

definition add_lb_member ::
  "env \<Rightarrow> string \<Rightarrow> string \<Rightarrow> int \<Rightarrow> int \<Rightarrow> bool \<Rightarrow> ('ag, lb_member) site_act" where
  "add_lb_member env pool address port weight up =
     bindM (fetch ct_lb_pools pool) (\<lambda>_.
     bindM (nowS env) (\<lambda>now.
     bindM (freshS env LbMemberId) (\<lambda>i.
     bindM (liftM (mk_lb_member
       \<lparr>lbm_id = i, lbm_pool_id = pool, lbm_address = address, lbm_port = port, lbm_weight = weight,
        lbm_admin_state_up = up, lbm_created_at = now, lbm_updated_at = now\<rparr>)) (\<lambda>m.
     bindM (keep ct_lb_members_update (lbm_id m) m) (\<lambda>_.
     bindM (announce env ''lb_member.added'' ''lb_member'' (lbm_id m)
              [(''address'', JStr (lbm_address m)), (''port'', JInt (lbm_port m))] None) (\<lambda>_.
     returnM m))))))"

definition get_lb_member :: "string \<Rightarrow> ('ag, lb_member) site_act" where
  "get_lb_member i = fetch ct_lb_members i"

definition list_lb_members_call :: "string option \<Rightarrow> ('ag, lb_member list) site_act" where
  "list_lb_members_call pool = readS (list_lb_members pool)"

definition update_lb_member :: "env \<Rightarrow> string \<Rightarrow> int option \<Rightarrow> bool option \<Rightarrow> ('ag, lb_member) site_act" where
  "update_lb_member env i weight up =
     bindM (fetch ct_lb_members i) (\<lambda>m.
     bindM (nowS env) (\<lambda>now.
     bindM (liftM (lbm_update weight up now m)) (\<lambda>n.
     bindM (keep ct_lb_members_update (lbm_id n) n) (\<lambda>_.
     bindM (announce env ''lb_member.updated'' ''lb_member'' (lbm_id n) [] None) (\<lambda>_.
     returnM n)))))"

definition remove_lb_member :: "env \<Rightarrow> string \<Rightarrow> ('ag, unit) site_act" where
  "remove_lb_member env i =
     bindM (fetch ct_lb_members i) (\<lambda>_.
     bindM (discard ct_lb_members_update i) (\<lambda>_.
     announce env ''lb_member.removed'' ''lb_member'' i [] None))"

subsection \<open>Health monitors\<close>

record create_monitor_cmd =
  chm_pool_id :: string
  chm_check_type :: string
  chm_delay :: int
  chm_timeout :: int
  chm_max_retries :: int
  chm_url_path :: string
  chm_http_method :: string
  chm_expected_codes :: string

definition create_health_monitor :: "env \<Rightarrow> create_monitor_cmd \<Rightarrow> ('ag, health_monitor) site_act" where
  "create_health_monitor env cmd =
     bindM (fetch ct_lb_pools (chm_pool_id cmd)) (\<lambda>_.
     bindM (readS (monitor_by_pool (chm_pool_id cmd))) (\<lambda>found.
     bindM (guardM (found = None) err_validation) (\<lambda>_.
     bindM (nowS env) (\<lambda>now.
     bindM (freshS env HealthMonitorId) (\<lambda>i.
     bindM (liftM (health_check_of (chm_check_type cmd))) (\<lambda>ty.
     bindM (liftM (mk_health_monitor
       \<lparr>hm_id = i, hm_pool_id = chm_pool_id cmd, hm_check_type = ty, hm_delay = chm_delay cmd,
        hm_timeout = chm_timeout cmd, hm_max_retries = chm_max_retries cmd, hm_url_path = chm_url_path cmd,
        hm_http_method = chm_http_method cmd, hm_expected_codes = chm_expected_codes cmd,
        hm_created_at = now, hm_updated_at = now\<rparr>)) (\<lambda>h.
     bindM (keep ct_monitors_update (hm_id h) h) (\<lambda>_.
     bindM (announce env ''health_monitor.created'' ''health_monitor'' (hm_id h) [] None) (\<lambda>_.
     returnM h)))))))))"

definition get_health_monitor :: "string \<Rightarrow> ('ag, health_monitor) site_act" where
  "get_health_monitor i = fetch ct_monitors i"

definition update_health_monitor :: "env \<Rightarrow> string \<Rightarrow> monitor_change \<Rightarrow> ('ag, health_monitor) site_act" where
  "update_health_monitor env i c =
     bindM (fetch ct_monitors i) (\<lambda>h.
     bindM (nowS env) (\<lambda>now.
     bindM (liftM (hm_update c now h)) (\<lambda>g.
     bindM (keep ct_monitors_update (hm_id g) g) (\<lambda>_.
     bindM (announce env ''health_monitor.updated'' ''health_monitor'' (hm_id g) [] None) (\<lambda>_.
     returnM g)))))"

definition delete_health_monitor :: "env \<Rightarrow> string \<Rightarrow> ('ag, unit) site_act" where
  "delete_health_monitor env i =
     bindM (fetch ct_monitors i) (\<lambda>_.
     bindM (discard ct_monitors_update i) (\<lambda>_.
     announce env ''health_monitor.deleted'' ''health_monitor'' i [] None))"

end
