(* ===== verification/N5_Use_Cases.thy ===== *)
theory N5_Use_Cases
  imports N4_Use_Cases
begin

text \<open>
  The use cases of \<open>core/use_cases/n5.py\<close>: apply schedules with the tick that runs the due ones,
  traffic mirrors, VPN tunnels and their peers. The callbacks of the tick and the text of an
  exception are arguments.
\<close>

subsection \<open>Schedules\<close>

record create_schedule_cmd =
  cas_name :: string
  cas_cron_expr :: string
  cas_target_type :: string
  cas_target_id :: string
  cas_project_id :: "string option"
  cas_enabled :: bool
  cas_labels :: "(string, string) dict"

definition create_apply_schedule :: "env \<Rightarrow> create_schedule_cmd \<Rightarrow> ('ag, apply_schedule) site_act" where
  "create_apply_schedule env cmd =
     bindM (liftM (cron_validate (cas_cron_expr cmd))) (\<lambda>_.
     bindM (nowS env) (\<lambda>now.
     bindM (freshS env ApplyScheduleId) (\<lambda>i.
     bindM (liftM (target_of (cas_target_type cmd))) (\<lambda>target.
     bindM (liftM (mk_apply_schedule
       \<lparr>sch_id = i, sch_name = cas_name cmd, sch_cron_expr = cas_cron_expr cmd, sch_target_type = target,
        sch_target_id = cas_target_id cmd, sch_enabled = cas_enabled cmd,
        sch_project_id = cas_project_id cmd, sch_last_run_at = None, sch_last_run_status = None,
        sch_status = SCHED_ACTIVE, sch_labels = cas_labels cmd, sch_created_at = now,
        sch_updated_at = now\<rparr>)) (\<lambda>x.
     bindM (keep ct_schedules_update (sch_id x) x) (\<lambda>_.
     bindM (announce env ''schedule.created'' ''apply_schedule'' (sch_id x)
              [(''target_type'', JStr (cas_target_type cmd)), (''target_id'', JStr (cas_target_id cmd))]
              (cas_project_id cmd)) (\<lambda>_.
     returnM x)))))))"

definition get_apply_schedule :: "string \<Rightarrow> ('ag, apply_schedule) site_act" where
  "get_apply_schedule i = fetch ct_schedules i"

definition list_apply_schedules :: "bool \<Rightarrow> string option \<Rightarrow> ('ag, apply_schedule list) site_act" where
  "list_apply_schedules enabled_only project = readS (list_schedules enabled_only project)"

definition checked_expr :: "string option \<Rightarrow> string \<Rightarrow> exc + string" where
  "checked_expr v old = (case v of None \<Rightarrow> Inr old | Some e \<Rightarrow> bindE (cron_validate e) (\<lambda>_. Inr e))"

definition update_apply_schedule ::
  "env \<Rightarrow> string \<Rightarrow> string option \<Rightarrow> string option \<Rightarrow> (string, string) dict option
     \<Rightarrow> ('ag, apply_schedule) site_act" where
  "update_apply_schedule env i name expr labels =
     bindM (fetch ct_schedules i) (\<lambda>x.
     bindM (nowS env) (\<lambda>now.
     bindM (liftM (checked_expr expr (sch_cron_expr x))) (\<lambda>e.
     bindM (liftM (Inr (x\<lparr>sch_name := or_default (sch_name x) name, sch_cron_expr := e,
                          sch_labels := or_default (sch_labels x) labels, sch_updated_at := now\<rparr>))) (\<lambda>y.
     bindM (keep ct_schedules_update (sch_id y) y) (\<lambda>_.
     returnM y)))))"

definition delete_apply_schedule :: "env \<Rightarrow> string \<Rightarrow> ('ag, unit) site_act" where
  "delete_apply_schedule env i =
     bindM (fetch ct_schedules i) (\<lambda>x.
     bindM (discard ct_schedules_update i) (\<lambda>_.
     announce env ''schedule.deleted'' ''apply_schedule'' i [] (sch_project_id x)))"

definition toggle_apply_schedule :: "env \<Rightarrow> string \<Rightarrow> bool \<Rightarrow> ('ag, apply_schedule) site_act" where
  "toggle_apply_schedule env i enabled =
     bindM (fetch ct_schedules i) (\<lambda>x.
     bindM (nowS env) (\<lambda>now.
     bindM (liftM (Inr (if enabled then sch_enable now x else sch_pause now x))) (\<lambda>y.
     bindM (keep ct_schedules_update (sch_id y) y) (\<lambda>_.
     returnM y))))"

text \<open>\<open>try: await callback(target_id) except Exception as exc\<close>: the raised exception, if any.\<close>

definition attempt :: "('ag, unit) site_act \<Rightarrow> ('ag, exc option) site_act" where
  "attempt m = (\<lambda>s. case m s of (Inl e, s') \<Rightarrow> (Inr (Some e), s') | (Inr _, s') \<Rightarrow> (Inr None, s'))"

type_synonym 'ag callbacks = "schedule_target \<Rightarrow> (string \<Rightarrow> ('ag, unit) site_act) option"

definition run_callback :: "'ag callbacks \<Rightarrow> apply_schedule \<Rightarrow> ('ag, exc option) site_act" where
  "run_callback cbs x =
     (case cbs (sch_target_type x) of None \<Rightarrow> returnM None | Some f \<Rightarrow> attempt (f (sch_target_id x)))"

fun tick_loop ::
  "'ag callbacks \<Rightarrow> (exc \<Rightarrow> string) \<Rightarrow> time \<Rightarrow> apply_schedule list \<Rightarrow> nat \<Rightarrow> ('ag, nat) site_act" where
  "tick_loop cbs msg now [] fired = returnM fired"
| "tick_loop cbs msg now (x # xs) fired =
     bindM (liftM (is_due (sch_cron_expr x) now)) (\<lambda>due.
     if \<not> due then tick_loop cbs msg now xs fired
     else bindM (run_callback cbs x) (\<lambda>err.
          bindM (keep ct_schedules_update (sch_id x) (record_run (err = None) (map_option msg err) now x)) (\<lambda>_.
          tick_loop cbs msg now xs (Suc fired))))"

definition tick_scheduler :: "env \<Rightarrow> 'ag callbacks \<Rightarrow> (exc \<Rightarrow> string) \<Rightarrow> ('ag, nat) site_act" where
  "tick_scheduler env cbs msg =
     bindM (nowS env) (\<lambda>now.
     bindM (readS (list_schedules True None)) (\<lambda>enabled.
     tick_loop cbs msg now enabled 0))"

subsection \<open>Mirrors\<close>

record create_mirror_cmd =
  cms_name :: string
  cms_source_port_id :: string
  cms_direction :: string
  cms_dest_port_id :: "string option"
  cms_dest_ip :: "string option"
  cms_filter_vlan :: "int option"
  cms_project_id :: "string option"
  cms_labels :: "(string, string) dict"

definition create_mirror_session :: "env \<Rightarrow> create_mirror_cmd \<Rightarrow> ('ag, mirror_session) site_act" where
  "create_mirror_session env cmd =
     bindM (nowS env) (\<lambda>now.
     bindM (freshS env MirrorSessionId) (\<lambda>i.
     bindM (liftM (mirror_of (cms_direction cmd))) (\<lambda>dir.
     bindM (liftM (mk_mirror_session
       \<lparr>ms_id = i, ms_name = cms_name cmd, ms_source_port_id = cms_source_port_id cmd,
        ms_direction = dir,
        ms_dest_port_id = (if nonempty (cms_dest_port_id cmd) then cms_dest_port_id cmd else None),
        ms_dest_ip = cms_dest_ip cmd, ms_filter_vlan = cms_filter_vlan cmd,
        ms_project_id = cms_project_id cmd, ms_status = MIRROR_INACTIVE, ms_applied_config = None,
        ms_applied_at = None, ms_labels = cms_labels cmd, ms_created_at = now, ms_updated_at = now\<rparr>)) (\<lambda>m.
     bindM (keep ct_mirrors_update (ms_id m) m) (\<lambda>_.
     bindM (announce env ''mirror.created'' ''mirror_session'' (ms_id m)
              [(''direction'', JStr (cms_direction cmd))] (cms_project_id cmd)) (\<lambda>_.
     returnM m))))))"

definition get_mirror_session :: "string \<Rightarrow> ('ag, mirror_session) site_act" where
  "get_mirror_session i = fetch ct_mirrors i"

definition list_mirror_sessions :: "string option \<Rightarrow> ('ag, mirror_session list) site_act" where
  "list_mirror_sessions project = readS (list_mirrors project)"

definition delete_mirror_session :: "env \<Rightarrow> string \<Rightarrow> ('ag, unit) site_act" where
  "delete_mirror_session env i =
     bindM (fetch ct_mirrors i) (\<lambda>m.
     bindM (discard ct_mirrors_update i) (\<lambda>_.
     announce env ''mirror.deleted'' ''mirror_session'' i [] (ms_project_id m)))"

definition apply_mirror_session :: "env \<Rightarrow> string \<Rightarrow> ('ag, mirror_session) site_act" where
  "apply_mirror_session env i =
     bindM (fetch ct_mirrors i) (\<lambda>m.
     bindM (nowS env) (\<lambda>now.
     bindM (liftM (Inr (ms_apply (mirror_config m) now m))) (\<lambda>n.
     bindM (keep ct_mirrors_update (ms_id n) n) (\<lambda>_.
     bindM (announce env ''mirror.applied'' ''mirror_session'' (ms_id n) [] (ms_project_id n)) (\<lambda>_.
     returnM n)))))"

subsection \<open>VPN tunnels\<close>

record create_tunnel_cmd =
  cvt_name :: string
  cvt_protocol :: string
  cvt_local_endpoint :: string
  cvt_remote_endpoint :: string
  cvt_local_public_key :: string
  cvt_remote_public_key :: string
  cvt_listen_port :: int
  cvt_preshared_key :: "string option"
  cvt_project_id :: "string option"
  cvt_labels :: "(string, string) dict"

definition create_vpn_tunnel :: "env \<Rightarrow> create_tunnel_cmd \<Rightarrow> ('ag, vpn_tunnel) site_act" where
  "create_vpn_tunnel env cmd =
     bindM (nowS env) (\<lambda>now.
     bindM (freshS env VpnTunnelId) (\<lambda>i.
     bindM (liftM (vpn_of (cvt_protocol cmd))) (\<lambda>proto.
     bindM (liftM (mk_vpn_tunnel
       \<lparr>vt_id = i, vt_name = cvt_name cmd, vt_protocol = proto, vt_local_endpoint = cvt_local_endpoint cmd,
        vt_remote_endpoint = cvt_remote_endpoint cmd, vt_local_public_key = cvt_local_public_key cmd,
        vt_remote_public_key = cvt_remote_public_key cmd, vt_listen_port = cvt_listen_port cmd,
        vt_preshared_key = cvt_preshared_key cmd, vt_project_id = cvt_project_id cmd,
        vt_status = VPN_BUILD, vt_applied_config = None, vt_applied_at = None,
        vt_labels = cvt_labels cmd, vt_created_at = now, vt_updated_at = now\<rparr>)) (\<lambda>t.
     bindM (keep ct_tunnels_update (vt_id t) t) (\<lambda>_.
     bindM (announce env ''vpn_tunnel.created'' ''vpn_tunnel'' (vt_id t)
              [(''protocol'', JStr (cvt_protocol cmd))] (cvt_project_id cmd)) (\<lambda>_.
     returnM t))))))"

definition get_vpn_tunnel :: "string \<Rightarrow> ('ag, vpn_tunnel) site_act" where
  "get_vpn_tunnel i = fetch ct_tunnels i"

definition list_vpn_tunnels :: "string option \<Rightarrow> ('ag, vpn_tunnel list) site_act" where
  "list_vpn_tunnels project = readS (list_tunnels project)"

record update_tunnel_cmd =
  uvt_name :: "string option"
  uvt_remote_public_key :: "string option"
  uvt_preshared_key :: "string option"
  uvt_listen_port :: "int option"
  uvt_labels :: "(string, string) dict option"

text \<open>The fields are assigned as they come; the constructor's check is not run again.\<close>

definition vt_change :: "update_tunnel_cmd \<Rightarrow> time \<Rightarrow> vpn_tunnel \<Rightarrow> vpn_tunnel" where
  "vt_change cmd now t =
     t\<lparr>vt_name := or_default (vt_name t) (uvt_name cmd),
       vt_remote_public_key := or_default (vt_remote_public_key t) (uvt_remote_public_key cmd),
       vt_preshared_key := or_keep (uvt_preshared_key cmd) (vt_preshared_key t),
       vt_listen_port := or_default (vt_listen_port t) (uvt_listen_port cmd),
       vt_labels := or_default (vt_labels t) (uvt_labels cmd), vt_updated_at := now\<rparr>"

definition update_vpn_tunnel :: "env \<Rightarrow> string \<Rightarrow> update_tunnel_cmd \<Rightarrow> ('ag, vpn_tunnel) site_act" where
  "update_vpn_tunnel env i cmd =
     bindM (fetch ct_tunnels i) (\<lambda>t.
     bindM (nowS env) (\<lambda>now.
     bindM (liftM (Inr (vt_change cmd now t))) (\<lambda>u.
     bindM (keep ct_tunnels_update (vt_id u) u) (\<lambda>_.
     returnM u))))"

definition delete_vpn_tunnel :: "env \<Rightarrow> string \<Rightarrow> ('ag, unit) site_act" where
  "delete_vpn_tunnel env i =
     bindM (fetch ct_tunnels i) (\<lambda>t.
     bindM (readS (list_peers (Some i))) (\<lambda>peers.
     bindM (forM peers (\<lambda>p. discard ct_peers_update (vp_id p))) (\<lambda>_.
     bindM (discard ct_tunnels_update i) (\<lambda>_.
     announce env ''vpn_tunnel.deleted'' ''vpn_tunnel'' i [] (vt_project_id t)))))"

definition apply_vpn_tunnel :: "env \<Rightarrow> string \<Rightarrow> ('ag, vpn_tunnel) site_act" where
  "apply_vpn_tunnel env i =
     bindM (fetch ct_tunnels i) (\<lambda>t.
     bindM (readS (list_peers (Some i))) (\<lambda>peers.
     bindM (nowS env) (\<lambda>now.
     bindM (liftM (Inr (vt_apply (vpn_config t peers) now t))) (\<lambda>u.
     bindM (keep ct_tunnels_update (vt_id u) u) (\<lambda>_.
     bindM (announce env ''vpn_tunnel.applied'' ''vpn_tunnel'' (vt_id u)
              [(''protocol'', JStr (vpn_value (vt_protocol u)))] (vt_project_id u)) (\<lambda>_.
     returnM u))))))"

subsection \<open>VPN peers\<close>

record add_peer_cmd =
  avp_tunnel_id :: string
  avp_public_key :: string
  avp_allowed_ips :: "string list"
  avp_endpoint :: "string option"
  avp_keepalive :: int

definition add_vpn_peer :: "env \<Rightarrow> add_peer_cmd \<Rightarrow> ('ag, vpn_peer) site_act" where
  "add_vpn_peer env cmd =
     bindM (fetch ct_tunnels (avp_tunnel_id cmd)) (\<lambda>t.
     bindM (readS (list_peers (Some (avp_tunnel_id cmd)))) (\<lambda>existing.
     bindM (guardM (\<not> list_ex (\<lambda>p. vp_public_key p = avp_public_key cmd) existing) err_conflict) (\<lambda>_.
     bindM (nowS env) (\<lambda>now.
     bindM (freshS env VpnPeerId) (\<lambda>i.
     bindM (liftM (mk_vpn_peer
       \<lparr>vp_id = i, vp_tunnel_id = avp_tunnel_id cmd, vp_public_key = avp_public_key cmd,
        vp_allowed_ips = avp_allowed_ips cmd, vp_endpoint = avp_endpoint cmd,
        vp_keepalive = avp_keepalive cmd, vp_created_at = now, vp_updated_at = now\<rparr>)) (\<lambda>p.
     bindM (keep ct_peers_update (vp_id p) p) (\<lambda>_.
     bindM (announce env ''vpn_peer.added'' ''vpn_peer'' (vp_id p)
              [(''tunnel_id'', JStr (avp_tunnel_id cmd))] (vt_project_id t)) (\<lambda>_.
     returnM p))))))))"

definition get_vpn_peer :: "string \<Rightarrow> ('ag, vpn_peer) site_act" where
  "get_vpn_peer i = fetch ct_peers i"

definition list_vpn_peers :: "string option \<Rightarrow> ('ag, vpn_peer list) site_act" where
  "list_vpn_peers tunnel = readS (list_peers tunnel)"

definition vp_change :: "string list option \<Rightarrow> string option \<Rightarrow> int option \<Rightarrow> time \<Rightarrow> vpn_peer \<Rightarrow> vpn_peer" where
  "vp_change ips endpoint keepalive now p =
     p\<lparr>vp_allowed_ips := or_default (vp_allowed_ips p) ips, vp_endpoint := or_keep endpoint (vp_endpoint p),
       vp_keepalive := or_default (vp_keepalive p) keepalive, vp_updated_at := now\<rparr>"

definition update_vpn_peer ::
  "env \<Rightarrow> string \<Rightarrow> string list option \<Rightarrow> string option \<Rightarrow> int option \<Rightarrow> ('ag, vpn_peer) site_act" where
  "update_vpn_peer env i ips endpoint keepalive =
     bindM (fetch ct_peers i) (\<lambda>p.
     bindM (nowS env) (\<lambda>now.
     bindM (liftM (Inr (vp_change ips endpoint keepalive now p))) (\<lambda>q.
     bindM (keep ct_peers_update (vp_id q) q) (\<lambda>_.
     returnM q))))"

definition remove_vpn_peer :: "env \<Rightarrow> string \<Rightarrow> ('ag, unit) site_act" where
  "remove_vpn_peer env i =
     bindM (fetch ct_peers i) (\<lambda>p.
     bindM (discard ct_peers_update i) (\<lambda>_.
     announce env ''vpn_peer.removed'' ''vpn_peer'' i [(''tunnel_id'', JStr (vp_tunnel_id p))] None))"

end
