(* ===== verification/Catalogue_Safety.thy ===== *)
theory Catalogue_Safety
  imports Catalogue_Links N1_Use_Cases N2_Use_Cases N5_Use_Cases
begin

text \<open>Every use case of the catalogue keeps the invariant of \<open>Catalogue_Invariants\<close>.\<close>

lemma bind_lift_Inr [simp]: "bindM (liftM (Inr x)) f = f x"
  by (simp add: fun_eq_iff)

lemmas safe_rules = safe_steps safe_fetches safe_keeps safe_discards safe_announce_bind safe_announce safe_return

lemmas n1_entities = mk_logical_port_valid lp_update_valid mk_security_group_valid sg_update_valid
  mk_address_pool_valid ap_update_valid mk_service_object_valid so_update_valid
  mk_qos_policy_valid qp_update_valid

abbreviation safely :: "'ag wiring \<Rightarrow> ('ag, 'a) site_act \<Rightarrow> bool" where
  "safely c \<equiv> safe c (\<lambda>_. True) {}"

lemma safe_ports:
  "safely c (create_logical_port (wr_env c) raw pcmd)"
  "safely c (update_logical_port (wr_env c) i nm ls)"
  "safely c (attach_logical_port (wr_env c) i v)"
  "safely c (detach_logical_port (wr_env c) i)"
  "safely c (delete_logical_port (wr_env c) i)"
  unfolding create_logical_port_def update_logical_port_def attach_logical_port_def detach_logical_port_def
    delete_logical_port_def
  by (auto intro!: safe_rules simp: lp_attach_valid lp_detach_valid dest: n1_entities)


lemma safe_groups:
  "safely c (create_security_group (wr_env c) gcmd)"
  "safely c (update_security_group (wr_env c) i nm ds ls)"
  "safely c (remove_security_group_member i ty v)"
  "safely c (delete_security_group (wr_env c) i)"
  unfolding create_security_group_def update_security_group_def remove_security_group_member_def
    delete_security_group_def
  by (auto intro!: safe_rules safe_keep_parents safe_drop_group safe_discard_member dest: n1_entities)

lemma safe_add_member: "safely c (add_security_group_member (wr_env c) i ty v)"
  unfolding add_security_group_member_def
  by (auto intro!: safe_rules safe_keep_member dest!: mk_sg_member_valid)

lemma safe_pools:
  "safely c (create_address_pool (wr_env c) acmd)"
  "safely c (update_address_pool (wr_env c) i nm ds cs ls)"
  "safely c (delete_address_pool (wr_env c) i)"
  unfolding create_address_pool_def update_address_pool_def delete_address_pool_def
  by (auto intro!: safe_rules dest: n1_entities)

lemma safe_services:
  "safely c (create_service_object (wr_env c) ocmd)"
  "safely c (update_service_object (wr_env c) i nm ds ps ls)"
  "safely c (delete_service_object (wr_env c) i)"
  unfolding create_service_object_def update_service_object_def delete_service_object_def
  by (auto intro!: safe_rules dest: n1_entities)

lemma safe_qos:
  "safely c (create_qos_policy (wr_env c) qcmd)"
  "safely c (update_qos_policy (wr_env c) i qch)"
  "safely c (delete_qos_policy (wr_env c) i)"
  unfolding create_qos_policy_def update_qos_policy_def delete_qos_policy_def
  by (auto intro!: safe_rules dest: n1_entities)

subsection \<open>Policies and trunk ports\<close>

text \<open>Counters do not enter the compiled text.\<close>

definition rule_core :: "policy_rule \<Rightarrow> policy_rule" where
  "rule_core r = r\<lparr>pr_packets := 0, pr_bytes := 0\<rparr>"

lemma rule_core_fields:
  "pr_enabled (rule_core r) = pr_enabled r" "pr_direction (rule_core r) = pr_direction r"
  "pr_id (rule_core r) = pr_id r" "pr_action (rule_core r) = pr_action r"
  "pr_source_type (rule_core r) = pr_source_type r" "pr_source_value (rule_core r) = pr_source_value r"
  "pr_dest_type (rule_core r) = pr_dest_type r" "pr_dest_value (rule_core r) = pr_dest_value r"
  "pr_service_id (rule_core r) = pr_service_id r" "pr_comment (rule_core r) = pr_comment r"
  by (simp_all add: rule_core_def)

lemma rule_core_compile: "compile_rule (rule_core r) = compile_rule r"
  by (intro ext) (simp only: compile_rule_def skipped_line_def rule_core_fields)

lemma rule_core_eq:
  assumes "rule_core r = rule_core q"
  shows "compile_rule r = compile_rule q" "pr_enabled r = pr_enabled q" "pr_direction r = pr_direction q"
  using assms rule_core_fields(1,2) rule_core_compile by metis+

lemma chain_lines_core:
  "List.map rule_core rs = List.map rule_core qs \<Longrightarrow>
   List.map (\<lambda>r. compile_rule r a b e) (chain_rules dir rs) = List.map (\<lambda>r. compile_rule r a b e) (chain_rules dir qs)"
proof (induction rs arbitrary: qs)
  case (Cons r rs)
  then obtain q qs' where qs: "qs = q # qs'" "rule_core r = rule_core q" "List.map rule_core rs = List.map rule_core qs'"
    by (cases qs) auto
  show ?case
    using Cons.IH [OF qs(3)] rule_core_eq [OF qs(2)] by (simp add: qs(1) chain_rules_def)
qed simp

lemma sorted_chain: "sorted (List.map pr_priority rs) \<Longrightarrow> sort_key pr_priority (chain_rules dir rs) = chain_rules dir rs"
  unfolding chain_rules_def by (intro sort_key_id_if_sorted sorted_filter)

lemma compile_policy_core:
  assumes "List.map rule_core (sp_rules p) = List.map rule_core (sp_rules q)"
    "sorted (List.map pr_priority (sp_rules p))" "sorted (List.map pr_priority (sp_rules q))"
    "sp_name p = sp_name q" "sp_id p = sp_id q"
  shows "compile_policy p a b e = compile_policy q a b e"
proof -
  have "compile_chain p a b e ch = compile_chain q a b e ch" for ch
    using chain_lines_core [OF assms(1)] by (simp add: compile_chain_def sorted_chain assms(2,3))
  then show ?thesis by (simp add: compile_policy_def assms(4,5) ext)
qed

lemma count_rule_core: "count_rule i pk bt rs = Some rs' \<Longrightarrow> List.map rule_core rs' = List.map rule_core rs"
  by (induction i pk bt rs arbitrary: rs' rule: count_rule.induct) (auto simp: rule_core_def split: if_splits)

lemma policy_current_frame:
  assumes "policy_current p" "sp_valid p" "sp_valid q" "sp_status q = sp_status p"
    "sp_compiled_ruleset q = sp_compiled_ruleset p" "List.map rule_core (sp_rules q) = List.map rule_core (sp_rules p)"
    "sp_id q = sp_id p"
  shows "policy_current q"
proof -
  have "compile_policy (q\<lparr>sp_name := nm\<rparr>) a b e = compile_policy (p\<lparr>sp_name := nm\<rparr>) a b e" for nm a b e
    by (rule compile_policy_core) (use assms in \<open>simp_all add: sp_valid_def\<close>)
  then show ?thesis using assms(1,4,5) by (simp add: policy_current_def)
qed

lemma sp_draft_ok: "sp_rules p = [] \<Longrightarrow> sp_status p = SP_DRAFT \<Longrightarrow> policy_ok p"
  by (simp add: policy_ok_def policy_current_def sp_valid_def)

lemma policy_steps_ok:
  assumes "policy_ok p"
  shows "policy_ok (sp_update nm ds ls now p) \<and> sp_id (sp_update nm ds ls now p) = sp_id p"
    and "rule_check r = Inr () \<Longrightarrow> policy_ok (sp_add_rule r now p) \<and> sp_id (sp_add_rule r now p) = sp_id p"
    and "policy_ok (sp_mark_compiled (compile_policy p [] protos ports) now p) \<and>
      sp_id (sp_mark_compiled (compile_policy p [] protos ports) now p) = sp_id p"
    and "sp_remove_rule i now p = Inr q \<Longrightarrow> policy_ok q \<and> sp_id q = sp_id p"
    and "sp_mark_applied now p = Inr q \<Longrightarrow> policy_ok q \<and> sp_id q = sp_id p"
    and "sp_update_counters i pk bt p = Inr q \<Longrightarrow> policy_ok q \<and> sp_id q = sp_id p"
proof -
  have v: "sp_valid p" "policy_current p" using assms by (simp_all add: policy_ok_def)
  show "policy_ok (sp_update nm ds ls now p) \<and> sp_id (sp_update nm ds ls now p) = sp_id p"
    using sp_update_valid [OF v(1)] policy_current_frame [OF v(2,1), of "sp_update nm ds ls now p"]
    by (simp add: policy_ok_def sp_update_def)
  show "policy_ok (sp_add_rule r now p) \<and> sp_id (sp_add_rule r now p) = sp_id p" if "rule_check r = Inr ()"
    using sp_add_rule_valid [OF v(1) that] by (simp add: policy_ok_def policy_current_def sp_add_rule_def)
  show "policy_ok (sp_mark_compiled (compile_policy p [] protos ports) now p) \<and>
      sp_id (sp_mark_compiled (compile_policy p [] protos ports) now p) = sp_id p"
  proof -
    let ?q = "sp_mark_compiled (compile_policy p [] protos ports) now p"
    have q: "sp_valid ?q" "sp_id ?q = sp_id p" using sp_mark_compiled_valid [OF v(1)] by blast+
    have "compile_policy p [] protos ports = compile_policy (?q\<lparr>sp_name := sp_name p\<rparr>) [] protos ports"
      by (rule compile_policy_core) (use v(1) in \<open>simp_all add: sp_mark_compiled_def sp_valid_def\<close>)
    moreover have "sp_compiled_ruleset ?q = Some (compile_policy p [] protos ports)"
      by (simp add: sp_mark_compiled_def)
    ultimately have "policy_current ?q" unfolding policy_current_def by metis
    then show ?thesis using q by (simp add: policy_ok_def)
  qed
  show "policy_ok q \<and> sp_id q = sp_id p" if "sp_remove_rule i now p = Inr q"
    using sp_remove_rule_valid [OF v(1) that] that
    by (auto simp: policy_ok_def policy_current_def sp_remove_rule_def Let_def bindE_Inr_iff)
  show "policy_ok q \<and> sp_id q = sp_id p" if q: "sp_mark_applied now p = Inr q"
  proof -
    have q': "sp_valid q" "sp_id q = sp_id p" using sp_mark_applied_valid [OF v(1) q] by blast+
    have eq: "sp_rules q = sp_rules p" "sp_compiled_ruleset q = sp_compiled_ruleset p" "sp_status p = SP_COMPILED"
      using q by (auto simp: sp_mark_applied_def bindE_Inr_iff)
    obtain nm protos ports where c: "sp_compiled_ruleset p = Some (compile_policy (p\<lparr>sp_name := nm\<rparr>) [] protos ports)"
      using v(2) eq(3) by (auto simp: policy_current_def)
    have "compile_policy (p\<lparr>sp_name := nm\<rparr>) [] protos ports = compile_policy (q\<lparr>sp_name := nm\<rparr>) [] protos ports"
      by (rule compile_policy_core) (use v(1) q' eq in \<open>simp_all add: sp_valid_def\<close>)
    then have "policy_current q" using c eq(2) unfolding policy_current_def by metis
    then show ?thesis using q' by (simp add: policy_ok_def)
  qed
  show "policy_ok q \<and> sp_id q = sp_id p" if q: "sp_update_counters i pk bt p = Inr q"
  proof -
    have q': "sp_valid q" "sp_id q = sp_id p" using sp_update_counters_valid [OF v(1) q] by blast+
    have "sp_status q = sp_status p" "sp_compiled_ruleset q = sp_compiled_ruleset p"
      "List.map rule_core (sp_rules q) = List.map rule_core (sp_rules p)"
      using q by (auto simp: sp_update_counters_def count_rule_core split: option.splits)
    then have "policy_current q" using policy_current_frame [OF v(2,1) q'(1)] q'(2) by blast
    then show ?thesis using q' by (simp add: policy_ok_def)
  qed
qed

lemma safe_policies:
  "safely c (create_security_policy (wr_env c) scmd)"
  "safely c (update_security_policy (wr_env c) i nm ds ls)"
  "safely c (delete_security_policy (wr_env c) i)"
  "safely c (add_policy_rule (wr_env c) hex i args)"
  "safely c (remove_policy_rule (wr_env c) i rid)"
  "safely c (compile_security_policy (wr_env c) i)"
  "safely c (apply_security_policy (wr_env c) i)"
  "safely c (update_rule_counters i rid pk bt)"
  unfolding create_security_policy_def update_security_policy_def delete_security_policy_def
    add_policy_rule_def remove_policy_rule_def compile_security_policy_def apply_security_policy_def
    update_rule_counters_def
  by (auto intro!: safe_rules simp: sp_draft_ok policy_steps_ok(1-3) new_rule_check dest: policy_steps_ok(4-6))

lemmas n2_entities = mk_trunk_port_valid tp_update_valid

lemma safe_trunks:
  "safely c (create_trunk_port (wr_env c) tcmd)"
  "safely c (update_trunk_port (wr_env c) i nm vs nv ls)"
  "safely c (delete_trunk_port (wr_env c) i)"
  unfolding create_trunk_port_def update_trunk_port_def delete_trunk_port_def
  by (auto intro!: safe_rules dest: n2_entities)

subsection \<open>Routers, floating addresses, BGP\<close>

lemmas n3_entities = mk_static_route_valid rt_add_static_route_valid rt_remove_static_route_valid
  rt_remove_internal_network_valid mk_floating_ip_valid fip_associate_valid mk_bgp_peer_valid

lemma merged_ipv6_checked:
  "merged_ipv6 cmd r = Inr v \<Longrightarrow> v = Some (Some x) \<Longrightarrow> mk_ipv6_config x = Inr x"
  by (auto simp: merged_ipv6_def Let_def bindE_Inr_iff split: if_splits dest: mk_ipv6_config_same)

lemma safe_routers:
  "safely c (create_router (wr_env c) rcmd)"
  "safely c (delete_router (wr_env c) i)"
  "safely c (add_static_route (wr_env c) i dst hop)"
  "safely c (remove_static_route (wr_env c) i dst)"
  "safely c (add_internal_network (wr_env c) i nid)"
  "safely c (remove_internal_network (wr_env c) i nid)"
  "safely c (apply_router (wr_env c) i)"
  "safely c (set_router_admin_state (wr_env c) i up)"
  unfolding create_router_def delete_router_def add_static_route_def remove_static_route_def
    add_internal_network_def remove_internal_network_def apply_router_def set_router_admin_state_def
  by (auto intro!: safe_rules simp: rt_add_internal_network_valid rt_mark_active_valid
      rt_set_admin_state_valid dest: n3_entities mk_router_valid)

lemma rt_update_merged:
  "rt_valid r \<Longrightarrow> merged_ipv6 cmd r = Inr v \<Longrightarrow>
   rt_update \<lparr>rc_name = a1, rc_description = a2, rc_external_network_id = a3, rc_ha_mode = a4,
     rc_vrrp_priority = a5, rc_vrrp_vrid = a6, rc_ipv6_config = v, rc_labels = a7\<rparr> now r = Inr s \<Longrightarrow>
   rt_valid s \<and> rt_id s = rt_id r"
  by (erule rt_update_valid) (auto dest: merged_ipv6_checked)

lemma safe_update_router: "safely c (update_router (wr_env c) i ucmd)"
  unfolding update_router_def
  by (auto intro!: safe_rules dest: rt_update_merged)

lemma safe_fips:
  "safely c (allocate_floating_ip (wr_env c) fcmd)"
  "safely c (associate_floating_ip (wr_env c) i port fixed router)"
  "safely c (disassociate_floating_ip (wr_env c) i)"
  "safely c (release_floating_ip (wr_env c) i)"
  unfolding allocate_floating_ip_def associate_floating_ip_def disassociate_floating_ip_def
    release_floating_ip_def
  by (auto intro!: safe_rules simp: fip_disassociate_valid dest: n3_entities)

lemma safe_bgp:
  "safely c (create_bgp_peer (wr_env c) bcmd)"
  "safely c (delete_bgp_peer (wr_env c) i)"
  "safely c (update_bgp_peer_state (wr_env c) i st)"
  unfolding create_bgp_peer_def delete_bgp_peer_def update_bgp_peer_state_def
  by (auto intro!: safe_rules simp: bgp_update_state_valid dest: n3_entities)

subsection \<open>Quotas, snapshots, bonds, retention\<close>

lemma bind_return [simp]: "bindM (returnM x) f = f x"
  by (simp add: fun_eq_iff)

lemma quota_by_project_facts:
  "quota_by_project pid d = Some q \<Longrightarrow> pq_project_id q = pid"
  "quota_by_project pid d = None \<Longrightarrow> dget (ct_quotas d) j = Some w \<Longrightarrow> pq_project_id w \<noteq> pid"
  using dget_in [of "ct_quotas d" j w] by (auto simp: quota_by_project_def find_Some_iff find_None_iff)

lemma quota_stored:
  "entries_ok env n d \<Longrightarrow> True \<and> Some q = quota_by_project pid d \<Longrightarrow> dget (ct_quotas d) (pq_id q) = Some q"
  using quotas.stored_by unfolding quota_by_project_def by auto

lemma limit_change_valid:
  "(case limit of None \<Rightarrow> Inr (remove_limit r now q) | Some n \<Rightarrow> set_limit r (Some n) now q) = Inr q' \<Longrightarrow>
   pq_valid q \<Longrightarrow> pq_valid q' \<and> pq_id q' = pq_id q \<and> pq_project_id q' = pq_project_id q"
  using remove_limit_valid set_limit_valid by (auto split: option.splits)

lemma safe_set_quota: "safely c (set_project_quota (wr_env c) pid res limit)"
  unfolding set_project_quota_def
proof (intro safe_now safe_lift safe_read)
  fix now r found
  let ?tail = "\<lambda>q. bindM (liftM (case limit of None \<Rightarrow> Inr (remove_limit r now q) | Some n \<Rightarrow> set_limit r (Some n) now q)) (\<lambda>q'.
     bindM (keep ct_quotas_update (pq_id q') q') (\<lambda>_.
     bindM (announce (wr_env c) ''quota.updated'' ''project_quota'' (pq_id q')
              [(''resource'', JStr res), (''limit'', jopt JInt limit)] (Some pid)) (\<lambda>_. returnM q')))"
  have tail: "safe c R ks (?tail q)"
    if q: "pq_valid q" "pq_project_id q = pid" "(ProjectQuotaId, pq_id q) \<in> ks"
      and others: "\<And>d j w. links_ok d \<Longrightarrow> R d \<Longrightarrow> dget (ct_quotas d) j = Some w \<Longrightarrow> pq_project_id w = pid \<Longrightarrow> j = pq_id q"
    for R ks q
  proof (rule safe_lift)
    fix q' assume "(case limit of None \<Rightarrow> Inr (remove_limit r now q) | Some n \<Rightarrow> set_limit r (Some n) now q) = Inr q'"
    then have q': "pq_valid q'" "pq_id q' = pq_id q" "pq_project_id q' = pid"
      using limit_change_valid q(1,2) by blast+
    show "safe c R ks (bindM (keep ct_quotas_update (pq_id q') q') (\<lambda>_.
     bindM (announce (wr_env c) ''quota.updated'' ''project_quota'' (pq_id q')
              [(''resource'', JStr res), (''limit'', jopt JInt limit)] (Some pid)) (\<lambda>_. returnM q')))"
      by (rule quotas.safe_keep_linked)
        (use q q' others in \<open>auto intro!: links_quota safe_announce_bind safe_return\<close>)
  qed
  show "safe c (\<lambda>d. True \<and> found = quota_by_project pid d) {} (bindM (case found of Some q \<Rightarrow> returnM q
        | None \<Rightarrow> bindM (freshS (wr_env c) ProjectQuotaId) (\<lambda>i. returnM
            \<lparr>pq_id = i, pq_project_id = pid, pq_limits = [], pq_created_at = now, pq_updated_at = now\<rparr>)) ?tail)"
  proof (cases found)
    case None
    show ?thesis
      unfolding None option.case bindM_assoc bind_return
      by (intro safe_fresh tail) (auto simp: pq_valid_def dest: quota_by_project_facts(2) [OF sym])
  next
    case (Some q)
    show ?thesis
      unfolding Some option.case bind_return
    proof (rule quotas.safe_stored)
      show "dget (ct_quotas d) (pq_id q) = Some q"
        if "entries_ok env n d" "True \<and> Some q = quota_by_project pid d" for d env n
        using quota_stored that .
      assume valid: "pq_valid q"
      let ?R = "\<lambda>d. (True \<and> Some q = quota_by_project pid d) \<and> dget (ct_quotas d) (pq_id q) = Some q"
      show "safe c ?R {(ProjectQuotaId, pq_id q)} (?tail q)"
      proof (rule safe_given)
        show "pq_project_id q = pid" if "?R d" for d
          using that quota_by_project_facts(1) [of pid d q] by simp
        assume pid: "pq_project_id q = pid"
        show "safe c ?R {(ProjectQuotaId, pq_id q)} (?tail q)"
          by (rule tail [OF valid pid]) (use pid in \<open>auto dest: same_key(1)\<close>)
      qed
    qed
  qed
qed

lemma safe_delete_quota: "safely c (delete_project_quota (wr_env c) pid)"
  unfolding delete_project_quota_def
  by (auto intro!: safe_rules safe_linked_discards split: option.split)

lemma foldl_max_ge: "(v::int) \<le> foldl max v vs" "u \<in> set vs \<Longrightarrow> u \<le> foldl max v vs"
proof (induction vs arbitrary: v)
  case (Cons w ws)
  {
    case 1
    show ?case using Cons.IH(1) [of "max v w"] by simp
  next
    case 2
    then show ?case using Cons.IH(1) [of "max v w"] Cons.IH(2) [of "max v w"] by auto
  }
qed simp_all

lemma next_version_above:
  assumes "dget (ct_snapshots d) j = Some x" "rs_project_id x = pid"
  shows "rs_version x < next_version pid d"
proof -
  have "rs_version x \<in> set (List.map rs_version (list_snapshots (Some pid) d))"
    using assms dget_in [OF assms(1)] by (auto simp: list_snapshots_def set_only)
  then show ?thesis
    unfolding next_version_def using foldl_max_ge
    by (cases "List.map rs_version (list_snapshots (Some pid) d)") fastforce+
qed

lemma snapshot_fresh:
  "dget (ct_snapshots d) j = Some w \<Longrightarrow> snapshot_key w \<noteq> (pid, next_version pid d)"
  using next_version_above by fastforce

lemma safe_take_snapshot: "safely c (take_resource_snapshot (wr_env c) cmd)"
  unfolding take_resource_snapshot_def
  by (cases "snc_include_routers cmd")
    (auto simp: bindM_assoc intro!: safe_rules snapshots.safe_keep_linked links_snapshot
      dest: snapshot_fresh [of _ _ _ "snc_project_id cmd"])

lemma safe_delete_snapshot: "safely c (delete_resource_snapshot (wr_env c) i)"
  unfolding delete_resource_snapshot_def
  by (auto intro!: safe_rules safe_linked_discards)

lemmas n4_entities = mk_gateway_bond_valid gb_update_valid mk_load_balancer_valid mk_lb_listener_valid
  mk_lb_member_valid lbm_update_valid

lemma safe_bonds:
  "safely c (create_gateway_bond (wr_env c) gcmd)"
  "safely c (update_gateway_bond (wr_env c) i gucmd)"
  "safely c (delete_gateway_bond (wr_env c) i)"
  "safely c (apply_gateway_bond (wr_env c) i)"
  unfolding create_gateway_bond_def update_gateway_bond_def delete_gateway_bond_def apply_gateway_bond_def
  by (auto intro!: safe_rules simp: gb_mark_applied_valid dest: n4_entities)

lemma retention_facts:
  "retention_by_scope sc pid d = Some p \<Longrightarrow> retention_key p = (sc, pid)"
  "retention_by_scope sc pid d = None \<Longrightarrow> dget (ct_retention d) j = Some w \<Longrightarrow> retention_key w \<noteq> (sc, pid)"
  using dget_in [of "ct_retention d" j w]
  by (auto simp: retention_by_scope_def find_Some_iff find_None_iff)

lemma safe_retention_write:
  assumes "rp_valid q" "rp_id q = i" "(RetentionPolicyId, i) \<in> ks" "CHR ''.'' \<in> set et" "rt \<noteq> []"
    and "\<And>d j w. links_ok d \<Longrightarrow> R d \<Longrightarrow> dget (ct_retention d) j = Some w \<Longrightarrow> retention_key w = retention_key q \<Longrightarrow> j = i"
  shows "safe c R ks (bindM (keep ct_retention_update (rp_id q) q)
    (\<lambda>_. bindM (announce (wr_env c) et rt (rp_id q) pl pr) (\<lambda>_. returnM q)))"
  by (rule retention.safe_keep_linked)
    (use assms in \<open>auto intro!: links_retention safe_announce_bind safe_return\<close>)

lemma safe_set_retention: "safely c (set_retention_policy (wr_env c) cmd)"
  unfolding set_retention_policy_def
proof (intro safe_now safe_lift safe_read, goal_cases)
  case (1 now scope found)
  let ?R = "\<lambda>d. True \<and> found = retention_by_scope scope (rtc_project_id cmd) d"
  show ?case
  proof (cases found)
    case None
    show ?thesis
      unfolding None option.case
      by (intro safe_fresh safe_lift safe_retention_write)
        (auto dest!: mk_retention_policy_valid dest: retention_facts(2) [OF sym])
  next
    case (Some p)
    show ?thesis
      unfolding Some option.case
    proof (rule retention.safe_stored [where k = "rp_id p" and v = p], goal_cases)
      case (1 d env n)
      then show ?case using retention.stored_by unfolding retention_by_scope_def by auto
    next
      case 2
      show ?case
        by (intro safe_lift safe_retention_write) (auto dest!: rp_update_valid dest: same_key(2))
    qed
  qed
qed

lemma safe_delete_retention: "safely c (delete_retention_policy (wr_env c) i)"
  unfolding delete_retention_policy_def
  by (auto intro!: safe_rules safe_linked_discards)

subsection \<open>Load balancers\<close>

lemma safe_lbs:
  "safely c (create_load_balancer (wr_env c) lcmd)"
  "safely c (update_load_balancer (wr_env c) i nm ds ls)"
  "safely c (delete_load_balancer (wr_env c) i)"
  "safely c (apply_load_balancer (wr_env c) i)"
  "safely c (set_lb_admin_state (wr_env c) i up)"
  unfolding create_load_balancer_def update_load_balancer_def delete_load_balancer_def
    apply_load_balancer_def set_lb_admin_state_def
  by (auto intro!: safe_rules simp: lb_update_valid lb_mark_active_valid lb_set_admin_state_valid dest: n4_entities)

lemma safe_listeners:
  "safely c (create_lb_listener (wr_env c) llcmd)"
  "safely c (update_lb_listener (wr_env c) i nm pl ds ls)"
  "safely c (delete_lb_listener (wr_env c) i)"
  unfolding create_lb_listener_def update_lb_listener_def delete_lb_listener_def
  by (auto intro!: safe_rules simp: ll_update_valid dest: n4_entities)

lemma lpl_update_id: "lpl_id (lpl_update nm al pe ds ls now p) = lpl_id p"
  by (simp add: lpl_update_def)

lemma safe_lb_pools:
  "safely c (create_lb_pool (wr_env c) pcmd)"
  "safely c (update_lb_pool (wr_env c) i pucmd)"
  "safely c (delete_lb_pool (wr_env c) i)"
  unfolding create_lb_pool_def update_lb_pool_def delete_lb_pool_def
  by (auto intro!: safe_rules simp: lpl_update_id)

lemma safe_lb_members:
  "safely c (add_lb_member (wr_env c) pool address port weight up)"
  "safely c (update_lb_member (wr_env c) i w up')"
  "safely c (remove_lb_member (wr_env c) i)"
  unfolding add_lb_member_def update_lb_member_def remove_lb_member_def
  by (auto intro!: safe_rules dest: n4_entities)

lemma monitor_absent:
  "monitor_by_pool pool d = None \<Longrightarrow> dget (ct_monitors d) j = Some w \<Longrightarrow> hm_pool_id w \<noteq> pool"
  using dget_in [of "ct_monitors d" j w] by (auto simp: monitor_by_pool_def find_None_iff)

lemma safe_monitors:
  "safely c (create_health_monitor (wr_env c) mcmd)"
  "safely c (update_health_monitor (wr_env c) i ch)"
  "safely c (delete_health_monitor (wr_env c) i)"
  unfolding create_health_monitor_def update_health_monitor_def delete_health_monitor_def
  by (auto intro!: safe_rules safe_linked_discards monitors.safe_keep_linked links_monitor
      dest!: mk_health_monitor_valid hm_update_valid dest: monitor_absent same_key(3))

subsection \<open>Schedules, mirrors, VPN\<close>

lemma mk_apply_schedule_id: "mk_apply_schedule x = Inr y \<Longrightarrow> sch_id y = sch_id x \<and> sch_cron_expr y = sch_cron_expr x"
  by (auto simp: mk_apply_schedule_def bindE_Inr_iff)

lemma checked_expr_valid: "checked_expr v old = Inr e \<Longrightarrow> cron_validate old = Inr () \<Longrightarrow> cron_validate e = Inr ()"
  by (auto simp: checked_expr_def bindE_Inr_iff split: option.splits)

lemma safe_schedules:
  "safely c (create_apply_schedule (wr_env c) ascmd)"
  "safely c (update_apply_schedule (wr_env c) i nm ex ls)"
  "safely c (delete_apply_schedule (wr_env c) i)"
  "safely c (toggle_apply_schedule (wr_env c) i en)"
  unfolding create_apply_schedule_def update_apply_schedule_def delete_apply_schedule_def
    toggle_apply_schedule_def
  by (auto intro!: safe_rules simp: sch_enable_def sch_pause_def sch_valid_def
      dest: mk_apply_schedule_id checked_expr_valid)

lemma safe_mirrors:
  "safely c (create_mirror_session (wr_env c) mcmd)"
  "safely c (delete_mirror_session (wr_env c) i)"
  "safely c (apply_mirror_session (wr_env c) i)"
  unfolding create_mirror_session_def delete_mirror_session_def apply_mirror_session_def
  by (auto intro!: safe_rules simp: ms_apply_valid dest: mk_mirror_session_valid)

lemma tunnel_ids: "vt_id (vt_change cmd now t) = vt_id t" "vt_id (vt_apply cfg now t) = vt_id t"
    "mk_vpn_tunnel t = Inr u \<Longrightarrow> vt_id u = vt_id t"
  by (auto simp: vt_change_def vt_apply_def mk_vpn_tunnel_def bindE_Inr_iff)

lemma safe_tunnels:
  "safely c (create_vpn_tunnel (wr_env c) tcmd)"
  "safely c (update_vpn_tunnel (wr_env c) i tucmd)"
  "safely c (delete_vpn_tunnel (wr_env c) i)"
  "safely c (apply_vpn_tunnel (wr_env c) i)"
  unfolding create_vpn_tunnel_def update_vpn_tunnel_def delete_vpn_tunnel_def apply_vpn_tunnel_def
  by (auto intro!: safe_rules safe_keep_parents safe_drop_tunnel simp: tunnel_ids(1,2) dest!: tunnel_ids(3))

lemma mk_vpn_peer_same: "mk_vpn_peer p = Inr q \<Longrightarrow> q = p"
  by (auto simp: mk_vpn_peer_def bindE_Inr_iff)

lemma vp_change_frame:
  "vp_id (vp_change ips e k now p) = vp_id p" "vp_tunnel_id (vp_change ips e k now p) = vp_tunnel_id p"
  "vp_public_key (vp_change ips e k now p) = vp_public_key p"
  by (simp_all add: vp_change_def)

lemma peer_absent:
  "\<not> list_ex (\<lambda>p. vp_public_key p = key) (list_peers (Some t) d) \<Longrightarrow> dget (ct_peers d) j = Some w \<Longrightarrow>
   peer_key w \<noteq> (t, key)"
  using dget_in [of "ct_peers d" j w] by (auto simp: list_ex_iff list_peers_def set_only)

lemma peer_tunnel:
  "links_ok d \<Longrightarrow> dget (ct_peers d) k = Some p \<Longrightarrow> \<exists>t. dget (ct_tunnels d) (vp_tunnel_id p) = Some t"
  by (auto simp: links_ok_def peers_linked_def)

lemma safe_peers:
  "safely c (add_vpn_peer (wr_env c) pcmd)"
  "safely c (update_vpn_peer (wr_env c) i ips ep ka)"
  "safely c (remove_vpn_peer (wr_env c) i)"
  unfolding add_vpn_peer_def update_vpn_peer_def remove_vpn_peer_def
  by (auto intro!: safe_rules safe_linked_discards peers.safe_keep_linked links_peer simp: vp_change_frame
      dest!: mk_vpn_peer_same dest: peer_absent same_key(4) peer_tunnel)

subsection \<open>The tick\<close>

text \<open>Callbacks that keep the invariant and draw ids only forward.\<close>

definition good_callbacks :: "'ag wiring \<Rightarrow> 'ag callbacks \<Rightarrow> bool" where
  "good_callbacks c cbs \<longleftrightarrow> (\<forall>t f i s. cbs t = Some f \<longrightarrow> site_ok c s \<longrightarrow>
     site_ok c (snd (f i s)) \<and> w_ids (fst s) \<le> w_ids (fst (snd (f i s))))"

lemma run_callback_ok:
  assumes "good_callbacks c cbs" "site_ok c s" "run_callback cbs x s = (r, s')"
  shows "site_ok c s' \<and> w_ids (fst s) \<le> w_ids (fst s')"
proof (cases "cbs (sch_target_type x)")
  case None
  then show ?thesis using assms(2,3) by (simp add: run_callback_def)
next
  case (Some f)
  then have "s' = snd (f (sch_target_id x) s)"
    using assms(3) by (auto simp: run_callback_def attempt_def split: prod.splits sum.splits)
  then show ?thesis using assms(1,2) Some unfolding good_callbacks_def by blast
qed

lemma tick_loop_ok:
  assumes "good_callbacks c cbs"
  shows "site_ok c s \<Longrightarrow> (\<And>x. x \<in> set xs \<Longrightarrow> sch_valid x \<and> drawn (wr_env c) (w_ids (fst s)) ApplyScheduleId (sch_id x)) \<Longrightarrow>
    tick_loop cbs msg now xs k s = (r, s') \<Longrightarrow> site_ok c s'"
proof (induction xs arbitrary: k s)
  case (Cons x xs)
  show ?case
  proof (cases "is_due (sch_cron_expr x) now")
    case (Inl e)
    then show ?thesis using Cons.prems by simp
  next
    case (Inr due)
    show ?thesis
    proof (cases due)
      case False
      then show ?thesis using Cons.prems Inr by (auto intro: Cons.IH [of s])
    next
      case True
      obtain q s1 where q: "run_callback cbs x s = (q, s1)" by (cases "run_callback cbs x s")
      then have s1: "site_ok c s1" "w_ids (fst s) \<le> w_ids (fst s1)"
        using run_callback_ok [OF assms Cons.prems(1)] by blast+
      show ?thesis
      proof (cases q)
        case (Inl e)
        then show ?thesis using Cons.prems(3) s1(1) Inr True q by (simp add: bindM_run)
      next
        case q': (Inr err)
        let ?v = "record_run (err = None) (map_option msg err) now x"
        let ?s2 = "(fst s1, ct_schedules_update (dset (sch_id x) ?v) (snd s1))"
        have x: "sch_valid x" "drawn (wr_env c) (w_ids (fst s1)) ApplyScheduleId (sch_id x)"
          using Cons.prems(2) [of x] s1(2) drawn_mono by auto
        have "site_ok c ?s2"
          by (rule schedules.keep_ok [where ks = "{(ApplyScheduleId, sch_id x)}"])
            (use s1(1) x in \<open>auto simp: record_run_valid known_def links_ok_def site_ok_def\<close>)
        moreover have "tick_loop cbs msg now xs (Suc k) ?s2 = (r, s')"
          using Cons.prems(3) Inr True q q' by (simp add: bindM_run keep_def)
        ultimately show ?thesis
          using Cons.IH [of ?s2] Cons.prems(2) s1(2) drawn_mono by fastforce
      qed
    qed
  qed
qed simp

lemma tick_ok:
  assumes "good_callbacks c cbs" "site_ok c s" "tick_scheduler (wr_env c) cbs msg s = (r, s')"
  shows "site_ok c s'"
proof -
  let ?now = "e_now (wr_env c) (w_clock (fst s))" and ?s1 = "((fst s)\<lparr>w_clock := w_clock (fst s) + 1\<rparr>, snd s)"
  have s1: "site_ok c ?s1" using site_ok_quiet [OF assms(2) quiet_clock [OF quiet_refl]] .
  have run: "tick_loop cbs msg ?now (list_schedules True None (snd s)) 0 ?s1 = (r, s')"
    using assms(3) by (simp add: tick_scheduler_def bindM_run on_world_run nowM_def readS_def)
  have "sch_valid x \<and> drawn (wr_env c) (w_ids (fst ?s1)) ApplyScheduleId (sch_id x)"
    if x: "x \<in> set (list_schedules True None (snd s))" for x
  proof -
    have ok: "shelf_ok (wr_env c) (w_ids (fst s)) ApplyScheduleId sch_id sch_valid (ct_schedules (snd s))"
      using assms(2) by (simp add: site_ok_def entries_ok_def)
    have "x \<in> set (dvalues (ct_schedules (snd s)))" using x by (simp add: list_schedules_def only_def)
    then obtain k where "dget (ct_schedules (snd s)) k = Some x"
      using ok by (auto simp: shelf_ok_def dvalues_dget)
    then show ?thesis using ok by (auto simp: shelf_ok_def)
  qed
  then show ?thesis using tick_loop_ok [OF assms(1) s1 _ run] by blast
qed

lemma no_callbacks_good: "good_callbacks c (\<lambda>_. None)"
  by (simp add: good_callbacks_def)

subsection \<open>Maintenance of nodes\<close>

lemma maintenance_node:
  "node_wf n \<Longrightarrow> node_wf (enter_maintenance now n) \<and> nd_id (enter_maintenance now n) = nd_id n \<and>
     nd_name (enter_maintenance now n) = nd_name n"
  "node_wf n \<Longrightarrow> node_wf (exit_maintenance now n) \<and> nd_id (exit_maintenance now n) = nd_id n \<and>
     nd_name (exit_maintenance now n) = nd_name n"
  by (simp_all add: node_wf_def enter_maintenance_def exit_maintenance_def)

lemma safe_maintenance:
  "safely c (enter_maintenance_mode (wr_env c) i)"
  "safely c (exit_maintenance_mode (wr_env c) i)"
  unfolding enter_maintenance_mode_def exit_maintenance_mode_def fetch_node_def keep_node_def
  by (rule safe_node; auto simp: maintenance_node intro!: safe_announce)+

end
