(* ===== verification/Catalogue_Calls.thy ===== *)
theory Catalogue_Calls
  imports N1_Use_Cases N2_Use_Cases N5_Use_Cases
begin

text \<open>
  The calls that write the catalogue, one datatype per module of use cases, and the action each one
  runs (the reads of the catalogue return without changing anything). Random bytes and uuids are
  part of the call.
\<close>

datatype n1_call =
    Create_Logical_Port "nat list" create_port_cmd
  | Update_Logical_Port string "string option" "(string, string) dict option"
  | Attach_Logical_Port string "string option"
  | Detach_Logical_Port string
  | Delete_Logical_Port string
  | Create_Security_Group create_group_cmd
  | Update_Security_Group string "string option" "string option" "(string, string) dict option"
  | Delete_Security_Group string
  | Add_Security_Group_Member string string string
  | Remove_Security_Group_Member string string string
  | Create_Address_Pool create_pool_cmd
  | Update_Address_Pool string "string option" "string option" "string list option" "(string, string) dict option"
  | Delete_Address_Pool string
  | Create_Service_Object create_service_cmd
  | Update_Service_Object string "string option" "string option" "string list option" "(string, string) dict option"
  | Delete_Service_Object string
  | Create_Qos_Policy create_qos_cmd
  | Update_Qos_Policy string qos_change
  | Delete_Qos_Policy string
  | Enter_Maintenance_Mode string
  | Exit_Maintenance_Mode string

fun run_n1 :: "env \<Rightarrow> n1_call \<Rightarrow> ('ag, unit) site_act" where
  "run_n1 env (Create_Logical_Port raw cmd) = voidM (create_logical_port env raw cmd)"
| "run_n1 env (Update_Logical_Port i name labels) = voidM (update_logical_port env i name labels)"
| "run_n1 env (Attach_Logical_Port i vif) = voidM (attach_logical_port env i vif)"
| "run_n1 env (Detach_Logical_Port i) = voidM (detach_logical_port env i)"
| "run_n1 env (Delete_Logical_Port i) = voidM (delete_logical_port env i)"
| "run_n1 env (Create_Security_Group cmd) = voidM (create_security_group env cmd)"
| "run_n1 env (Update_Security_Group i name desc labels) = voidM (update_security_group env i name desc labels)"
| "run_n1 env (Delete_Security_Group i) = voidM (delete_security_group env i)"
| "run_n1 env (Add_Security_Group_Member i ty v) = voidM (add_security_group_member env i ty v)"
| "run_n1 env (Remove_Security_Group_Member i ty v) = voidM (remove_security_group_member i ty v)"
| "run_n1 env (Create_Address_Pool cmd) = voidM (create_address_pool env cmd)"
| "run_n1 env (Update_Address_Pool i name desc cidrs labels) = voidM (update_address_pool env i name desc cidrs labels)"
| "run_n1 env (Delete_Address_Pool i) = voidM (delete_address_pool env i)"
| "run_n1 env (Create_Service_Object cmd) = voidM (create_service_object env cmd)"
| "run_n1 env (Update_Service_Object i name desc ports labels) = voidM (update_service_object env i name desc ports labels)"
| "run_n1 env (Delete_Service_Object i) = voidM (delete_service_object env i)"
| "run_n1 env (Create_Qos_Policy cmd) = voidM (create_qos_policy env cmd)"
| "run_n1 env (Update_Qos_Policy i change) = voidM (update_qos_policy env i change)"
| "run_n1 env (Delete_Qos_Policy i) = voidM (delete_qos_policy env i)"
| "run_n1 env (Enter_Maintenance_Mode i) = voidM (enter_maintenance_mode env i)"
| "run_n1 env (Exit_Maintenance_Mode i) = voidM (exit_maintenance_mode env i)"

datatype n2_call =
    Create_Security_Policy create_policy_cmd
  | Update_Security_Policy string "string option" "string option" "(string, string) dict option"
  | Delete_Security_Policy string
  | Add_Policy_Rule string string rule_args
  | Remove_Policy_Rule string string
  | Compile_Security_Policy string
  | Apply_Security_Policy string
  | Update_Rule_Counters string string int int
  | Create_Trunk_Port create_trunk_cmd
  | Update_Trunk_Port string "string option" "int list option" "int option" "(string, string) dict option"
  | Delete_Trunk_Port string

fun run_n2 :: "env \<Rightarrow> n2_call \<Rightarrow> ('ag, unit) site_act" where
  "run_n2 env (Create_Security_Policy cmd) = voidM (create_security_policy env cmd)"
| "run_n2 env (Update_Security_Policy i name desc labels) = voidM (update_security_policy env i name desc labels)"
| "run_n2 env (Delete_Security_Policy i) = voidM (delete_security_policy env i)"
| "run_n2 env (Add_Policy_Rule hex i args) = voidM (add_policy_rule env hex i args)"
| "run_n2 env (Remove_Policy_Rule i rid) = voidM (remove_policy_rule env i rid)"
| "run_n2 env (Compile_Security_Policy i) = voidM (compile_security_policy env i)"
| "run_n2 env (Apply_Security_Policy i) = voidM (apply_security_policy env i)"
| "run_n2 env (Update_Rule_Counters i rid packets bytes) = voidM (update_rule_counters i rid packets bytes)"
| "run_n2 env (Create_Trunk_Port cmd) = voidM (create_trunk_port env cmd)"
| "run_n2 env (Update_Trunk_Port i name vlans native labels) = voidM (update_trunk_port env i name vlans native labels)"
| "run_n2 env (Delete_Trunk_Port i) = voidM (delete_trunk_port env i)"

datatype n3_call =
    Create_Router create_router_cmd
  | Update_Router string update_router_cmd
  | Delete_Router string
  | Add_Static_Route string string string
  | Remove_Static_Route string string
  | Add_Internal_Network string string
  | Remove_Internal_Network string string
  | Apply_Router string
  | Set_Router_Admin_State string bool
  | Allocate_Floating_Ip allocate_fip_cmd
  | Associate_Floating_Ip string string string string
  | Disassociate_Floating_Ip string
  | Release_Floating_Ip string
  | Create_Bgp_Peer create_bgp_cmd
  | Delete_Bgp_Peer string
  | Update_Bgp_Peer_State string string

fun run_n3 :: "env \<Rightarrow> n3_call \<Rightarrow> ('ag, unit) site_act" where
  "run_n3 env (Create_Router cmd) = voidM (create_router env cmd)"
| "run_n3 env (Update_Router i cmd) = voidM (update_router env i cmd)"
| "run_n3 env (Delete_Router i) = voidM (delete_router env i)"
| "run_n3 env (Add_Static_Route i dst hop) = voidM (add_static_route env i dst hop)"
| "run_n3 env (Remove_Static_Route i dst) = voidM (remove_static_route env i dst)"
| "run_n3 env (Add_Internal_Network i nid) = voidM (add_internal_network env i nid)"
| "run_n3 env (Remove_Internal_Network i nid) = voidM (remove_internal_network env i nid)"
| "run_n3 env (Apply_Router i) = voidM (apply_router env i)"
| "run_n3 env (Set_Router_Admin_State i up) = voidM (set_router_admin_state env i up)"
| "run_n3 env (Allocate_Floating_Ip cmd) = voidM (allocate_floating_ip env cmd)"
| "run_n3 env (Associate_Floating_Ip i port fixed router) = voidM (associate_floating_ip env i port fixed router)"
| "run_n3 env (Disassociate_Floating_Ip i) = voidM (disassociate_floating_ip env i)"
| "run_n3 env (Release_Floating_Ip i) = voidM (release_floating_ip env i)"
| "run_n3 env (Create_Bgp_Peer cmd) = voidM (create_bgp_peer env cmd)"
| "run_n3 env (Delete_Bgp_Peer i) = voidM (delete_bgp_peer env i)"
| "run_n3 env (Update_Bgp_Peer_State i st) = voidM (update_bgp_peer_state env i st)"

datatype n4_call =
    Set_Project_Quota string string "int option"
  | Delete_Project_Quota string
  | Take_Resource_Snapshot snapshot_cmd
  | Delete_Resource_Snapshot string
  | Create_Gateway_Bond create_bond_cmd
  | Update_Gateway_Bond string update_bond_cmd
  | Delete_Gateway_Bond string
  | Apply_Gateway_Bond string
  | Set_Retention_Policy retention_cmd
  | Delete_Retention_Policy string
  | Create_Load_Balancer create_lb_cmd
  | Update_Load_Balancer string "string option" "string option" "(string, string) dict option"
  | Delete_Load_Balancer string
  | Apply_Load_Balancer string
  | Set_Lb_Admin_State string bool
  | Create_Lb_Listener create_listener_cmd
  | Update_Lb_Listener string "string option" "string option" "string option" "(string, string) dict option"
  | Delete_Lb_Listener string
  | Create_Lb_Pool create_lb_pool_cmd
  | Update_Lb_Pool string update_lb_pool_cmd
  | Delete_Lb_Pool string
  | Add_Lb_Member string string int int bool
  | Update_Lb_Member string "int option" "bool option"
  | Remove_Lb_Member string
  | Create_Health_Monitor create_monitor_cmd
  | Update_Health_Monitor string monitor_change
  | Delete_Health_Monitor string

fun run_n4 :: "env \<Rightarrow> n4_call \<Rightarrow> ('ag, unit) site_act" where
  "run_n4 env (Set_Project_Quota pid res limit) = voidM (set_project_quota env pid res limit)"
| "run_n4 env (Delete_Project_Quota pid) = voidM (delete_project_quota env pid)"
| "run_n4 env (Take_Resource_Snapshot cmd) = voidM (take_resource_snapshot env cmd)"
| "run_n4 env (Delete_Resource_Snapshot i) = voidM (delete_resource_snapshot env i)"
| "run_n4 env (Create_Gateway_Bond cmd) = voidM (create_gateway_bond env cmd)"
| "run_n4 env (Update_Gateway_Bond i cmd) = voidM (update_gateway_bond env i cmd)"
| "run_n4 env (Delete_Gateway_Bond i) = voidM (delete_gateway_bond env i)"
| "run_n4 env (Apply_Gateway_Bond i) = voidM (apply_gateway_bond env i)"
| "run_n4 env (Set_Retention_Policy cmd) = voidM (set_retention_policy env cmd)"
| "run_n4 env (Delete_Retention_Policy i) = voidM (delete_retention_policy env i)"
| "run_n4 env (Create_Load_Balancer cmd) = voidM (create_load_balancer env cmd)"
| "run_n4 env (Update_Load_Balancer i name desc labels) = voidM (update_load_balancer env i name desc labels)"
| "run_n4 env (Delete_Load_Balancer i) = voidM (delete_load_balancer env i)"
| "run_n4 env (Apply_Load_Balancer i) = voidM (apply_load_balancer env i)"
| "run_n4 env (Set_Lb_Admin_State i up) = voidM (set_lb_admin_state env i up)"
| "run_n4 env (Create_Lb_Listener cmd) = voidM (create_lb_listener env cmd)"
| "run_n4 env (Update_Lb_Listener i name pool desc labels) = voidM (update_lb_listener env i name pool desc labels)"
| "run_n4 env (Delete_Lb_Listener i) = voidM (delete_lb_listener env i)"
| "run_n4 env (Create_Lb_Pool cmd) = voidM (create_lb_pool env cmd)"
| "run_n4 env (Update_Lb_Pool i cmd) = voidM (update_lb_pool env i cmd)"
| "run_n4 env (Delete_Lb_Pool i) = voidM (delete_lb_pool env i)"
| "run_n4 env (Add_Lb_Member pool address port weight up) = voidM (add_lb_member env pool address port weight up)"
| "run_n4 env (Update_Lb_Member i weight up) = voidM (update_lb_member env i weight up)"
| "run_n4 env (Remove_Lb_Member i) = voidM (remove_lb_member env i)"
| "run_n4 env (Create_Health_Monitor cmd) = voidM (create_health_monitor env cmd)"
| "run_n4 env (Update_Health_Monitor i change) = voidM (update_health_monitor env i change)"
| "run_n4 env (Delete_Health_Monitor i) = voidM (delete_health_monitor env i)"

datatype n5_call =
    Create_Apply_Schedule create_schedule_cmd
  | Update_Apply_Schedule string "string option" "string option" "(string, string) dict option"
  | Delete_Apply_Schedule string
  | Toggle_Apply_Schedule string bool
  | Create_Mirror_Session create_mirror_cmd
  | Delete_Mirror_Session string
  | Apply_Mirror_Session string
  | Create_Vpn_Tunnel create_tunnel_cmd
  | Update_Vpn_Tunnel string update_tunnel_cmd
  | Delete_Vpn_Tunnel string
  | Apply_Vpn_Tunnel string
  | Add_Vpn_Peer add_peer_cmd
  | Update_Vpn_Peer string "string list option" "string option" "int option"
  | Remove_Vpn_Peer string

fun run_n5 :: "env \<Rightarrow> n5_call \<Rightarrow> ('ag, unit) site_act" where
  "run_n5 env (Create_Apply_Schedule cmd) = voidM (create_apply_schedule env cmd)"
| "run_n5 env (Update_Apply_Schedule i name expr labels) = voidM (update_apply_schedule env i name expr labels)"
| "run_n5 env (Delete_Apply_Schedule i) = voidM (delete_apply_schedule env i)"
| "run_n5 env (Toggle_Apply_Schedule i enabled) = voidM (toggle_apply_schedule env i enabled)"
| "run_n5 env (Create_Mirror_Session cmd) = voidM (create_mirror_session env cmd)"
| "run_n5 env (Delete_Mirror_Session i) = voidM (delete_mirror_session env i)"
| "run_n5 env (Apply_Mirror_Session i) = voidM (apply_mirror_session env i)"
| "run_n5 env (Create_Vpn_Tunnel cmd) = voidM (create_vpn_tunnel env cmd)"
| "run_n5 env (Update_Vpn_Tunnel i cmd) = voidM (update_vpn_tunnel env i cmd)"
| "run_n5 env (Delete_Vpn_Tunnel i) = voidM (delete_vpn_tunnel env i)"
| "run_n5 env (Apply_Vpn_Tunnel i) = voidM (apply_vpn_tunnel env i)"
| "run_n5 env (Add_Vpn_Peer cmd) = voidM (add_vpn_peer env cmd)"
| "run_n5 env (Update_Vpn_Peer i ips endpoint keepalive) = voidM (update_vpn_peer env i ips endpoint keepalive)"
| "run_n5 env (Remove_Vpn_Peer i) = voidM (remove_vpn_peer env i)"

text \<open>
  All calls of the controller: those of \<open>System\<close> on the shared world, the catalogue, and the tick of
  the scheduler as the container wires it (\<open>container.py\<close>), without callbacks.
\<close>

datatype site_call =
    Core api_call
  | N1_Call n1_call
  | N2_Call n2_call
  | N3_Call n3_call
  | N4_Call n4_call
  | N5_Call n5_call
  | Tick

definition wired_callbacks :: "'ag callbacks" where
  "wired_callbacks = (\<lambda>_. None)"

fun run_site :: "'ag wiring \<Rightarrow> site_call \<Rightarrow> ('ag, unit) site_act" where
  "run_site c (Core call) = on_world (run_call c call)"
| "run_site c (N1_Call call) = run_n1 (wr_env c) call"
| "run_site c (N2_Call call) = run_n2 (wr_env c) call"
| "run_site c (N3_Call call) = run_n3 (wr_env c) call"
| "run_site c (N4_Call call) = run_n4 (wr_env c) call"
| "run_site c (N5_Call call) = run_n5 (wr_env c) call"
| "run_site c Tick = voidM (tick_scheduler (wr_env c) wired_callbacks (\<lambda>_. []))"

inductive site_reachable :: "'ag wiring \<Rightarrow> 'ag site \<Rightarrow> bool" for c where
  site_start: "site_reachable c (empty_world a, empty_catalogue)"
| site_call: "site_reachable c s \<Longrightarrow> run_site c call s = (r, s') \<Longrightarrow> site_reachable c s'"

end
