(* ===== verification/Catalogue_System.thy ===== *)
theory Catalogue_System
  imports Catalogue_Safety Catalogue_Calls System_Properties
begin

text \<open>
  The whole controller: the calls on the shared world and those on the catalogue, in any order. What
  \<open>Catalogue_Invariants\<close> says holds in every state they lead to.
\<close>

subsection \<open>Each call keeps the invariant\<close>

lemma safe_void: "safely c m \<Longrightarrow> safely c (voidM m)"
  by (rule safeI) (auto simp: bindM_run split: prod.splits sum.splits dest: safeD)

lemma bind_returnM [simp]: "bindM m returnM = m"
  by (auto simp: fun_eq_iff bindM_run split: prod.split sum.split)

lemma run_n1_safe: "safely c (run_n1 (wr_env c) call)"
  by (cases call) (simp_all add: safe_void safe_ports safe_groups safe_add_member safe_pools safe_services
      safe_qos safe_maintenance)

lemma run_n2_safe: "safely c (run_n2 (wr_env c) call)"
  by (cases call) (simp_all add: safe_void safe_policies safe_trunks)

lemma run_n3_safe: "safely c (run_n3 (wr_env c) call)"
  by (cases call) (simp_all add: safe_void safe_routers safe_update_router safe_fips safe_bgp)

lemma run_n4_safe: "safely c (run_n4 (wr_env c) call)"
  by (cases call) (simp_all add: safe_void safe_set_quota safe_delete_quota safe_take_snapshot
      safe_delete_snapshot safe_bonds safe_set_retention safe_delete_retention safe_lbs safe_listeners
      safe_lb_pools safe_lb_members safe_monitors)

lemma run_n5_safe: "safely c (run_n5 (wr_env c) call)"
  by (cases call) (simp_all add: safe_void safe_schedules safe_mirrors safe_tunnels safe_peers)

lemmas run_safe = run_n1_safe run_n2_safe run_n3_safe run_n4_safe run_n5_safe

text \<open>The calls of the shared world draw ids only forward, so the catalogue keeps its ids drawn.\<close>

lemma void_returned: "voidM m w = (r, w') \<Longrightarrow> \<forall>e. r \<noteq> Inl e \<Longrightarrow> \<exists>x. m w = (Inr x, w')"
  by (auto elim: void_cases simp: void_run split: prod.splits sum.splits)

lemma new_allocation_ids: "new_allocation env w sid a w' \<Longrightarrow> w_ids w \<le> w_ids w'"
  unfolding new_allocation_def quiet_def by auto

lemma run_call_ids:
  assumes ok: "system_ok c w" and run: "run_call c call w = (r, w')"
  shows "w_ids w \<le> w_ids w'"
proof (cases "\<exists>e. r = Inl e \<and> \<not> records_refusal call")
  case True
  then show ?thesis using refused_quiet [of c call w] run unfolding quiet_def by blast
next
  case False
  show ?thesis
  proof (cases call)
    case (Create_Network cmd)
    then obtain x where "create_network (wr_env c) (wr_digest c) cmd w = (Inr x, w')"
      using run False by (auto dest!: void_returned)
    then show ?thesis using wrote_frame(5) [OF create_wrote] by (cases x) blast
  next
    case (Update_Network i cmd)
    then obtain x where "update_network (wr_env c) (wr_digest c) i cmd w = (Inr x, w')"
      using run False by (auto dest!: void_returned)
    then show ?thesis
      using update_result [OF _ network_entry [OF ok]] wrote_frame(5) by (cases x) blast
  next
    case (Assign_Nodes i cmd)
    then obtain x where "assign_nodes (wr_env c) (wr_digest c) i cmd w = (Inr x, w')"
      using run False by (auto dest!: void_returned)
    then show ?thesis
      using assign_result [OF _ network_entry [OF ok]] wrote_frame(5) by (cases x) blast
  next
    case (Upsert_Subnet i cmd)
    then obtain n where n: "upsert_subnet (wr_env c) (wr_digest c) i cmd w = (Inr n, w')"
      using run False by (auto dest!: void_returned)
    have wf: "dget (w_networks w) i = Some x \<Longrightarrow> network_wf (wr_digest c) x" for x
      using network_entry [OF ok] by blast
    from upsert_result [OF n wf] obtain w1 where "quiet w w1" "w' = w1\<lparr>w_networks := network_save n (w_networks w1)\<rparr>"
      by metis
    then show ?thesis by (simp add: quiet_def)
  next
    case (Allocate_Ip i cmd)
    then obtain x where "allocate_ip (wr_env c) i cmd w = (Inr x, w')"
      using run False by (auto dest!: void_returned)
    then show ?thesis using allocate_result new_allocation_ids by blast
  next
    case (Reserve_Ip i cmd)
    then obtain x where "reserve_ip (wr_env c) i cmd w = (Inr x, w')"
      using run False by (auto dest!: void_returned)
    then show ?thesis using reserve_result new_allocation_ids by blast
  next
    case (Release_Ip i)
    then show ?thesis using run by (auto simp: release_run)
  next
    case (Register_Node cmd)
    then obtain x where "register_node (wr_env c) cmd w = (Inr x, w')"
      using run False by (auto dest!: void_returned)
    then show ?thesis using register_result node_wrote_ids by (cases x) blast
  next
    case (Remove_Node i "by")
    then obtain x where "remove_node (wr_env c) i by w = (Inr x, w')"
      using run False by (auto dest!: void_returned)
    then show ?thesis using remove_result node_wrote_ids by blast
  next
    case (Issue_Token p ttl i "by")
    then obtain x where "issue_enrollment_token (wr_env c) (wr_hash c) p ttl i by w = (Inr x, w')"
      using run False by (auto dest!: void_returned)
    from issue_result [OF this] show ?thesis by simp
  next
    case (Enroll_Agent cmd)
    then have "voidM (enroll_agent (wr_env c) (wr_hash c) cmd) w = (r, w')" using run by simp
    then show ?thesis
    proof (cases rule: void_cases)
      case (refused e)
      from enroll_refused [OF this] show ?thesis by (auto simp: quiet_def)
    next
      case (returned x)
      then show ?thesis using enroll_result node_wrote_ids by blast
    qed
  next
    case (Heartbeat cmd)
    then obtain x where "record_heartbeat_call (wr_env c) cmd w = (Inr x, w')"
      using run False by (auto dest!: void_returned)
    from heartbeat_result [OF this] show ?thesis by auto
  next
    case (Apply_Network i "by")
    then have "voidM (mapErrM ra_exc (apply_network (wr_env c) (wr_agent c) i by)) w = (r, w')" using run by simp
    then obtain r1 where "mapErrM ra_exc (apply_network (wr_env c) (wr_agent c) i by) w = (r1, w')"
      by (cases rule: void_cases) blast+
    then obtain r2 where "apply_network (wr_env c) (wr_agent c) i by w = (r2, w')"
      by (rule map_err_cases)
    from apply_network_result [OF this] show ?thesis by simp
  qed
qed

lemma run_site_ok:
  assumes ok: "site_ok c s" and inj: "inj (e_rnd (wr_env c))" and run: "run_site c call s = (r, s')"
  shows "site_ok c s'"
proof (cases call)
  case (Core core)
  obtain q w where q: "run_call c core (fst s) = (q, w)" by (cases "run_call c core (fst s)")
  then have s': "s' = (w, snd s)" using run Core by (simp add: on_world_run)
  have sys: "system_ok c (fst s)" using ok by (simp add: site_ok_def)
  show ?thesis
    using ok run_call_ok [OF sys inj q] entries_ok_mono [OF _ run_call_ids [OF sys q]]
    by (simp add: s' site_ok_def)
next
  case Tick
  then obtain q where "tick_scheduler (wr_env c) wired_callbacks (\<lambda>_. []) s = (q, s')"
    using run by (auto elim: void_cases)
  then show ?thesis using tick_ok [OF _ ok] no_callbacks_good unfolding wired_callbacks_def by blast
qed (use run safeD [OF run_safe(1) inj ok] safeD [OF run_safe(2) inj ok] safeD [OF run_safe(3) inj ok]
    safeD [OF run_safe(4) inj ok] safeD [OF run_safe(5) inj ok] in \<open>simp_all add: known_def\<close>)

lemma empty_site_ok: "site_ok c (empty_world a, empty_catalogue)"
  by (simp add: site_ok_def empty_ok entries_ok_def links_ok_def empty_catalogue_def shelf_ok_def members_ok_def
      members_linked_def peers_linked_def unique_by_def)

lemma site_reachable_ok: "site_reachable c s \<Longrightarrow> inj (e_rnd (wr_env c)) \<Longrightarrow> site_ok c s"
  by (induction rule: site_reachable.induct) (auto intro: empty_site_ok run_site_ok)

end
