(* ===== verification/Catalogue_Events.thy ===== *)
theory Catalogue_Events
  imports Catalogue_Calls
begin

text \<open>
  Refusals and events of the catalogue. A use case reads and checks first and writes last, so one
  that raises has written nothing; and one that returns has published a fixed number of events.
  \<open>tidy n m\<close> says both, \<open>writes n m\<close> is its form for the part that can no longer raise, and their
  rules follow the text of a use case.
\<close>

abbreviation journal :: "'ag site \<Rightarrow> int" where
  "journal s \<equiv> obx_seq (w_outbox (fst s))"

definition untouched :: "'ag site \<Rightarrow> 'ag site \<Rightarrow> bool" where
  "untouched s s' \<longleftrightarrow> quiet (fst s) (fst s') \<and> snd s' = snd s"

definition looks :: "('ag, 'a) site_act \<Rightarrow> bool" where
  "looks m \<longleftrightarrow> (\<forall>s. untouched s (snd (m s)))"

definition writes :: "int \<Rightarrow> ('ag, 'a) site_act \<Rightarrow> bool" where
  "writes n m \<longleftrightarrow> (\<forall>s. \<exists>x s'. m s = (Inr x, s') \<and> journal s' = journal s + n)"

definition tidy :: "int \<Rightarrow> ('ag, 'a) site_act \<Rightarrow> bool" where
  "tidy n m \<longleftrightarrow> (\<forall>s. case m s of (Inl e, s') \<Rightarrow> untouched s s' | (Inr x, s') \<Rightarrow> journal s' = journal s + n)"

lemma tidy_writes: "writes n m \<Longrightarrow> tidy n m"
  unfolding writes_def tidy_def
proof
  fix s assume "\<forall>s. \<exists>x s'. m s = (Inr x, s') \<and> journal s' = journal s + n"
  then obtain x s' where "m s = (Inr x, s')" "journal s' = journal s + n" by blast
  then show "case m s of (Inl e, s') \<Rightarrow> untouched s s' | (Inr x, s') \<Rightarrow> journal s' = journal s + n" by simp
qed

lemma tidy_look:
  assumes "looks m" "\<And>x. tidy n (f x)"
  shows "tidy n (bindM m f)"
  unfolding tidy_def
proof
  fix s
  obtain r s1 where m: "m s = (r, s1)" by (cases "m s")
  have u: "untouched s s1" using assms(1) m unfolding looks_def by (metis snd_conv)
  show "case bindM m f s of (Inl e, s') \<Rightarrow> untouched s s' | (Inr x, s') \<Rightarrow> journal s' = journal s + n"
  proof (cases r)
    case (Inl e)
    then show ?thesis using m u by (simp add: bindM_run)
  next
    case (Inr x)
    have "case f x s1 of (Inl e, s') \<Rightarrow> untouched s1 s' | (Inr x, s') \<Rightarrow> journal s' = journal s1 + n"
      using assms(2) [of x] unfolding tidy_def by (rule spec)
    then show ?thesis
      using m u Inr by (auto simp: bindM_run untouched_def quiet_trans quiet_def split: prod.splits sum.splits)
  qed
qed

lemma look_steps:
  "looks (fetch sel i)" "looks (nowS env)" "looks (freshS env k)" "looks (readS g)" "looks (liftM r)"
  "looks (require_in sel' i)" "looks (returnM x)" "looks (fetch_node i)"
  by (simp_all add: looks_def untouched_def fetch_def on_world_def zoomM_run nowM_def freshM_def readS_def
      require_in_def bindM_def quiet_def fetch_node_def require_def)

lemma looks_bind: "looks m \<Longrightarrow> (\<And>x. looks (f x)) \<Longrightarrow> looks (bindM m f)"
  unfolding looks_def untouched_def
  by (auto simp: bindM_run split: prod.split sum.split) (metis quiet_trans fst_conv snd_conv)+

lemma writes_return: "writes 0 (returnM x)"
  by (simp add: writes_def)

lemma announce_writes:
  "CHR ''.'' \<in> set et \<Longrightarrow> rt \<noteq> [] \<Longrightarrow> writes 1 (announce env et rt i pl pr)"
  by (simp add: writes_def announce_def on_world_def zoomM_run bindM_run publish_run outbox_append_def Let_def)

lemma writes_bind:
  assumes "writes n m" "\<And>x. writes k (f x)"
  shows "writes (n + k) (bindM m f)"
  unfolding writes_def
proof
  fix s
  obtain x s1 where m: "m s = (Inr x, s1)" "journal s1 = journal s + n" using assms(1) unfolding writes_def by blast
  obtain y s2 where "f x s1 = (Inr y, s2)" "journal s2 = journal s1 + k" using assms(2) unfolding writes_def by blast
  then show "\<exists>x s'. bindM m f s = (Inr x, s') \<and> journal s' = journal s + (n + k)"
    using m by (simp add: bindM_run)
qed

lemma writes_announced:
  "CHR ''.'' \<in> set et \<Longrightarrow> rt \<noteq> [] \<Longrightarrow> (\<And>u. writes 0 (f u)) \<Longrightarrow> writes 1 (bindM (announce env et rt i pl pr) f)"
  using writes_bind [of 1 _ 0 f, OF announce_writes] by simp

lemma store_writes:
  "writes 0 (keep upd k v)" "writes 0 (discard upd k)" "writes 0 (modifyM (\<lambda>s. (fst s, g s)))"
  "writes 0 (keep_node nd)"
  by (simp_all add: writes_def keep_def discard_def keep_node_def on_world_def zoomM_run)

lemma writes_stored:
  "(\<And>u. writes n (f u)) \<Longrightarrow> writes n (bindM (keep upd k v) f)"
  "(\<And>u. writes n (f u)) \<Longrightarrow> writes n (bindM (discard upd k) f)"
  "(\<And>u. writes n (f u)) \<Longrightarrow> writes n (bindM (modifyM (\<lambda>s. (fst s, g s))) f)"
  "(\<And>u. writes n (f u)) \<Longrightarrow> writes n (bindM (keep_node nd) f)"
  using writes_bind [of 0 _ n f, OF store_writes(1)] writes_bind [of 0 _ n f, OF store_writes(2)]
    writes_bind [of 0 _ n f, OF store_writes(3)] writes_bind [of 0 _ n f, OF store_writes(4)] by simp_all

lemma writes_for: "(\<And>x. x \<in> set xs \<Longrightarrow> writes 0 (f x)) \<Longrightarrow> writes 0 (forM xs f)"
proof (induction xs)
  case (Cons x xs)
  then show ?case using writes_bind [of 0 "f x" 0 "\<lambda>_. forM xs f"] by simp
qed (simp add: writes_return)

lemma writes_for_bind: "(\<And>x. writes 0 (f x)) \<Longrightarrow> (\<And>u. writes n (g u)) \<Longrightarrow> writes n (bindM (forM xs f) g)"
  using writes_bind [of 0 "forM xs f" n g] writes_for [of xs f] by simp

lemmas tidy_rules = tidy_look look_steps

lemmas write_rules = writes_stored writes_announced announce_writes writes_return store_writes(1,2) writes_for_bind

text \<open>Where the writes begin.\<close>

lemma tidy_stored:
  "(\<And>u. writes n (f u)) \<Longrightarrow> tidy n (bindM (keep upd k v) f)"
  "(\<And>u. writes n (f u)) \<Longrightarrow> tidy n (bindM (discard upd k) f)"
  "(\<And>u. writes n (f u)) \<Longrightarrow> tidy n (bindM (modifyM (\<lambda>s. (fst s, g s))) f)"
  "(\<And>u. writes n (f u)) \<Longrightarrow> tidy n (bindM (keep_node nd) f)"
  "(\<And>u. writes n (f u)) \<Longrightarrow> tidy n (bindM (forM xs (\<lambda>x. discard upd' (h x))) f)"
  "tidy 0 (discard upd'' k)"
  by (intro tidy_writes writes_stored store_writes writes_for_bind; assumption)+

lemma n1_tidy:
  "tidy 1 (create_logical_port env raw2 cmd2)"
  "tidy 1 (update_logical_port env i3 name3 labels3)"
  "tidy 1 (attach_logical_port env i4 vif4)"
  "tidy 1 (detach_logical_port env i5)"
  "tidy 1 (delete_logical_port env i6)"
  "tidy 1 (create_security_group env cmd7)"
  "tidy 1 (update_security_group env i8 name8 desc8 labels8)"
  "tidy 1 (delete_security_group env i9)"
  "tidy 0 (add_security_group_member env i10 ty10 v10)"
  "tidy 0 (remove_security_group_member i11 ty11 v11)"
  "tidy 1 (create_address_pool env cmd12)"
  "tidy 1 (update_address_pool env i13 name13 desc13 cidrs13 labels13)"
  "tidy 1 (delete_address_pool env i14)"
  "tidy 1 (create_service_object env cmd15)"
  "tidy 1 (update_service_object env i16 name16 desc16 ports16 labels16)"
  "tidy 1 (delete_service_object env i17)"
  "tidy 1 (create_qos_policy env cmd18)"
  "tidy 1 (update_qos_policy env i19 change19)"
  "tidy 1 (delete_qos_policy env i20)"
  "tidy 1 (enter_maintenance_mode env i21)"
  "tidy 1 (exit_maintenance_mode env i22)"
  unfolding create_logical_port_def update_logical_port_def attach_logical_port_def
    detach_logical_port_def delete_logical_port_def create_security_group_def
    update_security_group_def delete_security_group_def add_security_group_member_def
    remove_security_group_member_def create_address_pool_def update_address_pool_def
    delete_address_pool_def create_service_object_def update_service_object_def
    delete_service_object_def create_qos_policy_def update_qos_policy_def delete_qos_policy_def
    enter_maintenance_mode_def exit_maintenance_mode_def
  by (auto intro!: tidy_stored tidy_rules looks_bind write_rules split: option.split)

lemma n2_tidy:
  "tidy 1 (create_security_policy env cmd23)"
  "tidy 1 (update_security_policy env i24 name24 desc24 labels24)"
  "tidy 1 (delete_security_policy env i25)"
  "tidy 1 (add_policy_rule env hex26 i26 args26)"
  "tidy 1 (remove_policy_rule env i27 rid27)"
  "tidy 1 (compile_security_policy env i28)"
  "tidy 1 (apply_security_policy env i29)"
  "tidy 0 (update_rule_counters i30 rid30 packets30 bytes30)"
  "tidy 1 (create_trunk_port env cmd31)"
  "tidy 1 (update_trunk_port env i32 name32 vlans32 native32 labels32)"
  "tidy 1 (delete_trunk_port env i33)"
  unfolding create_security_policy_def update_security_policy_def delete_security_policy_def
    add_policy_rule_def remove_policy_rule_def compile_security_policy_def
    apply_security_policy_def update_rule_counters_def create_trunk_port_def
    update_trunk_port_def delete_trunk_port_def
  by (auto intro!: tidy_stored tidy_rules looks_bind write_rules split: option.split)

lemma n3_tidy:
  "tidy 1 (create_router env cmd34)"
  "tidy 1 (update_router env i35 cmd35)"
  "tidy 1 (delete_router env i36)"
  "tidy 1 (add_static_route env i37 dst37 hop37)"
  "tidy 1 (remove_static_route env i38 dst38)"
  "tidy 1 (add_internal_network env i39 nid39)"
  "tidy 1 (remove_internal_network env i40 nid40)"
  "tidy 1 (apply_router env i41)"
  "tidy 1 (set_router_admin_state env i42 up42)"
  "tidy 1 (allocate_floating_ip env cmd43)"
  "tidy 1 (associate_floating_ip env i44 port44 fixed44 router44)"
  "tidy 1 (disassociate_floating_ip env i45)"
  "tidy 1 (release_floating_ip env i46)"
  "tidy 1 (create_bgp_peer env cmd47)"
  "tidy 1 (delete_bgp_peer env i48)"
  "tidy 0 (update_bgp_peer_state env i49 st49)"
  unfolding create_router_def update_router_def delete_router_def add_static_route_def
    remove_static_route_def add_internal_network_def remove_internal_network_def
    apply_router_def set_router_admin_state_def allocate_floating_ip_def
    associate_floating_ip_def disassociate_floating_ip_def release_floating_ip_def
    create_bgp_peer_def delete_bgp_peer_def update_bgp_peer_state_def
  by (auto intro!: tidy_stored tidy_rules looks_bind write_rules split: option.split)

lemma n4_tidy:
  "tidy 1 (set_project_quota env pid50 res50 limit50)"
  "tidy 1 (take_resource_snapshot env cmd51)"
  "tidy 1 (delete_resource_snapshot env i52)"
  "tidy 1 (create_gateway_bond env cmd53)"
  "tidy 1 (update_gateway_bond env i54 cmd54)"
  "tidy 1 (delete_gateway_bond env i55)"
  "tidy 1 (apply_gateway_bond env i56)"
  "tidy 1 (set_retention_policy env cmd57)"
  "tidy 1 (delete_retention_policy env i58)"
  "tidy 1 (create_load_balancer env cmd59)"
  "tidy 1 (update_load_balancer env i60 name60 desc60 labels60)"
  "tidy 1 (delete_load_balancer env i61)"
  "tidy 1 (apply_load_balancer env i62)"
  "tidy 1 (set_lb_admin_state env i63 up63)"
  "tidy 1 (create_lb_listener env cmd64)"
  "tidy 1 (update_lb_listener env i65 name65 pool65 desc65 labels65)"
  "tidy 1 (delete_lb_listener env i66)"
  "tidy 1 (create_lb_pool env cmd67)"
  "tidy 1 (update_lb_pool env i68 cmd68)"
  "tidy 1 (delete_lb_pool env i69)"
  "tidy 1 (add_lb_member env pool70 address70 port70 weight70 up70)"
  "tidy 1 (update_lb_member env i71 weight71 up71)"
  "tidy 1 (remove_lb_member env i72)"
  "tidy 1 (create_health_monitor env cmd73)"
  "tidy 1 (update_health_monitor env i74 change74)"
  "tidy 1 (delete_health_monitor env i75)"
  unfolding set_project_quota_def take_resource_snapshot_def delete_resource_snapshot_def
    create_gateway_bond_def update_gateway_bond_def delete_gateway_bond_def
    apply_gateway_bond_def set_retention_policy_def delete_retention_policy_def
    create_load_balancer_def update_load_balancer_def delete_load_balancer_def
    apply_load_balancer_def set_lb_admin_state_def create_lb_listener_def update_lb_listener_def
    delete_lb_listener_def create_lb_pool_def update_lb_pool_def delete_lb_pool_def
    add_lb_member_def update_lb_member_def remove_lb_member_def create_health_monitor_def
    update_health_monitor_def delete_health_monitor_def
  by (auto intro!: tidy_stored tidy_rules looks_bind write_rules split: option.split)

lemma n5_tidy:
  "tidy 1 (create_apply_schedule env cmd76)"
  "tidy 0 (update_apply_schedule env i77 name77 expr77 labels77)"
  "tidy 1 (delete_apply_schedule env i78)"
  "tidy 0 (toggle_apply_schedule env i79 enabled79)"
  "tidy 1 (create_mirror_session env cmd80)"
  "tidy 1 (delete_mirror_session env i81)"
  "tidy 1 (apply_mirror_session env i82)"
  "tidy 1 (create_vpn_tunnel env cmd83)"
  "tidy 0 (update_vpn_tunnel env i84 cmd84)"
  "tidy 1 (delete_vpn_tunnel env i85)"
  "tidy 1 (apply_vpn_tunnel env i86)"
  "tidy 1 (add_vpn_peer env cmd87)"
  "tidy 0 (update_vpn_peer env i88 ips88 endpoint88 keepalive88)"
  "tidy 1 (remove_vpn_peer env i89)"
  unfolding create_apply_schedule_def update_apply_schedule_def delete_apply_schedule_def
    toggle_apply_schedule_def create_mirror_session_def delete_mirror_session_def
    apply_mirror_session_def create_vpn_tunnel_def update_vpn_tunnel_def delete_vpn_tunnel_def
    apply_vpn_tunnel_def add_vpn_peer_def update_vpn_peer_def remove_vpn_peer_def
  by (auto intro!: tidy_stored tidy_rules looks_bind write_rules split: option.split)

end
