(* ===== verification/Catalogue_Properties.thy ===== *)
theory Catalogue_Properties
  imports Catalogue_System Catalogue_Events
begin

text \<open>
  The properties of the resource catalogue: what holds after any sequence of calls, what a refused
  call and a successful one leave behind, what the tick of the scheduler does, and the behaviours
  of the code that its texts do not promise.
\<close>

fun after_site :: "'ag wiring \<Rightarrow> site_call list \<Rightarrow> 'ag site \<Rightarrow> 'ag site" where
  "after_site c [] s = s"
| "after_site c (call # calls) s = after_site c calls (snd (run_site c call s))"

lemma site_reachable_calls: "site_reachable c s \<Longrightarrow> site_reachable c (after_site c calls s)"
proof (induction calls arbitrary: s)
  case (Cons call calls)
  obtain r s' where "run_site c call s = (r, s')" by (cases "run_site c call s")
  then show ?case using Cons.IH [of s'] site_call [OF Cons.prems, of call r s'] by simp
qed simp

subsection \<open>A small site\<close>

definition web_policy_cmd :: create_policy_cmd where
  "web_policy_cmd = \<lparr>csp_name = ''web'', csp_description = [], csp_project_id = None, csp_labels = None\<rparr>"

definition web_calls :: "site_call list" where
  "web_calls = [N2_Call (Create_Security_Policy web_policy_cmd), N2_Call (Compile_Security_Policy ''spol_''),
     N2_Call (Apply_Security_Policy ''spol_'')]"

definition web_site :: "unit site" where
  "web_site = after_site example_wiring web_calls (empty_world (), empty_catalogue)"

lemma web_reachable: "site_reachable example_wiring web_site"
  unfolding web_site_def by (rule site_reachable_calls [OF site_start])

lemma wiring_env: "wr_env example_wiring = example_env"
  by (simp add: example_wiring_def)

lemma first_policy_id: "factory_id SecurityPolicyId (e_rnd example_env 0) = ''spol_''"
  by (simp add: factory_id_def new_id_def example_env_def)

lemma web_no_router: "ct_routers (snd web_site) = []" and web_no_schedule: "ct_schedules (snd web_site) = []"
  by (simp_all add: web_site_def web_calls_def wiring_env create_security_policy_def compile_security_policy_def
      apply_security_policy_def bindM_run on_world_run nowM_def freshM_def keep_def announce_run fetch_def
      readS_def first_policy_id empty_catalogue_def empty_world_def sp_mark_compiled_def sp_mark_applied_def web_policy_cmd_def)

lemma web_applied:
  "\<exists>p. dget (ct_policies (snd web_site)) ''spol_'' = Some p \<and> sp_status p = SP_APPLIED"
  by (simp add: web_site_def web_calls_def wiring_env create_security_policy_def compile_security_policy_def
      apply_security_policy_def bindM_run on_world_run nowM_def freshM_def keep_def announce_run fetch_def
      readS_def first_policy_id empty_catalogue_def empty_world_def sp_mark_compiled_def sp_mark_applied_def web_policy_cmd_def)

definition group_site :: "unit site" where
  "group_site = after_site example_wiring
     [N1_Call (Create_Security_Group \<lparr>cgr_name = ''web'', cgr_description = [], cgr_project_id = None, cgr_labels = None\<rparr>),
      N1_Call (Add_Security_Group_Member ''sg_'' ''logical_port'' ''port_1'')] (empty_world (), empty_catalogue)"

lemma group_member:
  "\<exists>m. dget (ct_members (snd group_site)) (''sg_'', ''logical_port'', ''port_1'') = Some m \<and> sgm_value m = ''port_1''"
proof -
  have id: "factory_id SecurityGroupId (e_rnd example_env 0) = ''sg_''"
    by (simp add: factory_id_def new_id_def example_env_def)
  have "\<not> blank ''web''" by (simp add: blank_iff py_isspace_def)
  then show ?thesis
    by (simp add: group_site_def wiring_env create_security_group_def add_security_group_member_def bindM_run
        on_world_run nowM_def freshM_def keep_def announce_run fetch_def readS_def id empty_catalogue_def
        empty_world_def mk_security_group_def mk_sg_member_def name_check_def max_name_len_def max_desc_len_def
        member_types_def require_def)
qed

subsection \<open>What always holds\<close>

text \<open>
  C15. Whatever is called in whatever order, the stores of the catalogue agree: every member of a
  security group belongs to a stored group, every VPN peer to a stored tunnel; a project has one
  quota, a scope and project one retention policy, a pool one health monitor; no two snapshots of a
  project carry one version and no two peers of a tunnel one public key. Nothing of this is a
  constraint of the stores: the checks and cascades of the use cases keep it.
\<close>

theorem catalogue_consistent:
  assumes "site_reachable c s" "inj (e_rnd (wr_env c))"
  shows "(\<forall>k m. dget (ct_members (snd s)) k = Some m \<longrightarrow> dget (ct_groups (snd s)) (sgm_sg_id m) \<noteq> None) \<and>
    (\<forall>k p. dget (ct_peers (snd s)) k = Some p \<longrightarrow> dget (ct_tunnels (snd s)) (vp_tunnel_id p) \<noteq> None) \<and>
    unique_by pq_project_id (ct_quotas (snd s)) \<and>
    unique_by (\<lambda>p. (rp_scope p, rp_project_id p)) (ct_retention (snd s)) \<and>
    unique_by hm_pool_id (ct_monitors (snd s)) \<and>
    unique_by (\<lambda>x. (rs_project_id x, rs_version x)) (ct_snapshots (snd s)) \<and>
    unique_by (\<lambda>p. (vp_tunnel_id p, vp_public_key p)) (ct_peers (snd s))"
  using site_reachable_ok [OF assms] unfolding site_ok_def links_ok_def members_linked_def peers_linked_def
  by blast

theorem catalogue_consistent_witness:
  "\<exists>k m g. dget (ct_members (snd group_site)) k = Some m \<and> sgm_value m = ''port_1'' \<and>
     dget (ct_groups (snd group_site)) (sgm_sg_id m) = Some g"
proof -
  obtain m where m: "dget (ct_members (snd group_site)) (''sg_'', ''logical_port'', ''port_1'') = Some m" "sgm_value m = ''port_1''"
    using group_member by blast
  have "site_reachable example_wiring group_site" unfolding group_site_def by (rule site_reachable_calls [OF site_start])
  from catalogue_consistent [OF this example_inj, THEN conjunct1, rule_format, OF m(1)] m show ?thesis by blast
qed

text \<open>
  C16. Whatever is called, every entry of the 24 stores of the catalogue stands under its own id (a
  group member under its key), and what both its constructor and its updates check holds of it:
  names of ports, pools, services and QoS policies are not blank (their updates drop the length limit
  of the constructor, so it is not part of this), addresses, CIDRs, ports and rates are well formed,
  trunk ports list sorted VLANs of 1 to 4094 that contain the native one, routers have consistent VRRP
  settings and distinct routes, floating addresses are bound exactly when active, the rules of a policy
  are valid and in priority order, limits of a quota are not negative, schedules carry an accepted cron
  expression. Of VPN tunnels and peers only the id is stated: their updates check nothing. Snapshots and
  balancer pools have no checks at all.
\<close>

theorem catalogue_entries_valid:
  assumes "site_reachable c s" "inj (e_rnd (wr_env c))"
  shows "(\<forall>i x. dget (ct_ports (snd s)) i = Some x \<longrightarrow> lp_id x = i \<and> lp_valid x) \<and>
    (\<forall>i x. dget (ct_groups (snd s)) i = Some x \<longrightarrow> sg_id x = i \<and> sg_valid x) \<and>
    (\<forall>i x. dget (ct_pools (snd s)) i = Some x \<longrightarrow> ap_id x = i \<and> ap_valid x) \<and>
    (\<forall>i x. dget (ct_services (snd s)) i = Some x \<longrightarrow> so_id x = i \<and> so_valid x) \<and>
    (\<forall>i x. dget (ct_qos (snd s)) i = Some x \<longrightarrow> qp_id x = i \<and> qp_valid x) \<and>
    (\<forall>i x. dget (ct_policies (snd s)) i = Some x \<longrightarrow> sp_id x = i \<and> sp_valid x) \<and>
    (\<forall>i x. dget (ct_trunks (snd s)) i = Some x \<longrightarrow> tp_id x = i \<and> tp_valid x) \<and>
    (\<forall>i x. dget (ct_routers (snd s)) i = Some x \<longrightarrow> rt_id x = i \<and> rt_valid x) \<and>
    (\<forall>i x. dget (ct_fips (snd s)) i = Some x \<longrightarrow> fip_id x = i \<and> fip_valid x) \<and>
    (\<forall>i x. dget (ct_bgp (snd s)) i = Some x \<longrightarrow> bgp_id x = i \<and> bgp_valid x) \<and>
    (\<forall>i x. dget (ct_bonds (snd s)) i = Some x \<longrightarrow> gb_id x = i \<and> gb_valid x) \<and>
    (\<forall>i x. dget (ct_retention (snd s)) i = Some x \<longrightarrow> rp_id x = i \<and> rp_valid x) \<and>
    (\<forall>i x. dget (ct_lbs (snd s)) i = Some x \<longrightarrow> lb_id x = i \<and> lb_valid x) \<and>
    (\<forall>i x. dget (ct_listeners (snd s)) i = Some x \<longrightarrow> ll_id x = i \<and> ll_valid x) \<and>
    (\<forall>i x. dget (ct_lb_members (snd s)) i = Some x \<longrightarrow> lbm_id x = i \<and> lbm_valid x) \<and>
    (\<forall>i x. dget (ct_monitors (snd s)) i = Some x \<longrightarrow> hm_id x = i \<and> hm_valid x) \<and>
    (\<forall>i x. dget (ct_schedules (snd s)) i = Some x \<longrightarrow> sch_id x = i \<and> sch_valid x) \<and>
    (\<forall>i x. dget (ct_mirrors (snd s)) i = Some x \<longrightarrow> ms_id x = i \<and> ms_valid x) \<and>
    (\<forall>i x. dget (ct_members (snd s)) i = Some x \<longrightarrow> sgm_key x = i \<and> sgm_valid x) \<and>
    (\<forall>i x. dget (ct_quotas (snd s)) i = Some x \<longrightarrow> pq_id x = i \<and> pq_valid x) \<and>
    (\<forall>i x. dget (ct_snapshots (snd s)) i = Some x \<longrightarrow> rs_id x = i) \<and>
    (\<forall>i x. dget (ct_lb_pools (snd s)) i = Some x \<longrightarrow> lpl_id x = i) \<and>
    (\<forall>i x. dget (ct_tunnels (snd s)) i = Some x \<longrightarrow> vt_id x = i) \<and>
    (\<forall>i x. dget (ct_peers (snd s)) i = Some x \<longrightarrow> vp_id x = i)"
proof -
  have "entries_ok (wr_env c) (w_ids (fst s)) (snd s)"
    using site_reachable_ok [OF assms] by (simp add: site_ok_def)
  then show ?thesis by (simp add: entries_ok_def shelf_ok_def policy_ok_def members_ok_def del: split_paired_All)
qed

theorem catalogue_entries_valid_witness:
  "\<exists>p. dget (ct_policies (snd web_site)) ''spol_'' = Some p \<and> sp_valid p"
proof -
  obtain p where p: "dget (ct_policies (snd web_site)) ''spol_'' = Some p" using web_applied by blast
  then have "sp_valid p" using catalogue_entries_valid [OF web_reachable example_inj] by simp
  then show ?thesis using p by blast
qed

text \<open>
  C17. A rule set never outlives its rules: in every state the calls can lead to, a policy that is
  compiled or applied carries the text compiled from exactly the rules it holds now (for some table
  of service objects; only the name in the comment line may be an older one).
\<close>

theorem applied_policy_current:
  assumes "site_reachable c s" "inj (e_rnd (wr_env c))" "dget (ct_policies (snd s)) i = Some p"
    and "sp_status p = SP_COMPILED \<or> sp_status p = SP_APPLIED"
  shows "\<exists>name protos ports. sp_compiled_ruleset p = Some (compile_policy (p\<lparr>sp_name := name\<rparr>) [] protos ports)"
proof -
  have "entries_ok (wr_env c) (w_ids (fst s)) (snd s)"
    using site_reachable_ok [OF assms(1,2)] by (simp add: site_ok_def)
  then have "policy_ok p" using assms(3) by (simp add: entries_ok_def shelf_ok_def)
  then show ?thesis using assms(4) by (auto simp: policy_ok_def policy_current_def)
qed

theorem applied_policy_current_witness:
  "\<exists>p. dget (ct_policies (snd web_site)) ''spol_'' = Some p \<and>
     (\<exists>name protos ports. sp_compiled_ruleset p = Some (compile_policy (p\<lparr>sp_name := name\<rparr>) [] protos ports))"
  using applied_policy_current [OF web_reachable example_inj] web_applied by blast

subsection \<open>Refused and successful calls\<close>

lemma tidy_void:
  assumes "tidy n m"
  shows "tidy n (voidM m)"
  unfolding tidy_def
proof
  fix s
  have "case m s of (Inl e, s') \<Rightarrow> untouched s s' | (Inr x, s') \<Rightarrow> journal s' = journal s + n"
    using assms unfolding tidy_def by (rule spec)
  then show "case voidM m s of (Inl e, s') \<Rightarrow> untouched s s' | (Inr x, s') \<Rightarrow> journal s' = journal s + n"
    by (cases "m s"; cases "fst (m s)") (simp_all add: bindM_run)
qed

lemma delete_quota_tidy:
  "delete_project_quota env pid s = (r, s') \<Longrightarrow>
   r = Inr () \<and> journal s' = journal s + (if quota_by_project pid (snd s) = None then 0 else 1)"
  using announce_writes [of "''quota.deleted''" "''project_quota''"]
  by (auto simp: delete_project_quota_def bindM_run readS_def discard_def announce_run outbox_append_def Let_def
      split: option.splits)

text \<open>How many events a successful call publishes.\<close>

fun n1_events :: "n1_call \<Rightarrow> int" where
  "n1_events (Add_Security_Group_Member _ _ _) = 0"
| "n1_events (Remove_Security_Group_Member _ _ _) = 0"
| "n1_events _ = 1"

fun n2_events :: "n2_call \<Rightarrow> int" where
  "n2_events (Update_Rule_Counters _ _ _ _) = 0"
| "n2_events _ = 1"

fun n3_events :: "n3_call \<Rightarrow> int" where
  "n3_events (Update_Bgp_Peer_State _ _) = 0"
| "n3_events _ = 1"

fun n4_events :: "catalogue \<Rightarrow> n4_call \<Rightarrow> int" where
  "n4_events d (Delete_Project_Quota pid) = (if quota_by_project pid d = None then 0 else 1)"
| "n4_events d _ = 1"

fun n5_events :: "n5_call \<Rightarrow> int" where
  "n5_events (Update_Apply_Schedule _ _ _ _) = 0"
| "n5_events (Toggle_Apply_Schedule _ _) = 0"
| "n5_events (Update_Vpn_Tunnel _ _) = 0"
| "n5_events (Update_Vpn_Peer _ _ _ _) = 0"
| "n5_events _ = 1"

lemma run_n1_tidy: "tidy (n1_events call) (run_n1 env call)"
  by (cases call) (simp_all add: tidy_void n1_tidy)

lemma run_n2_tidy: "tidy (n2_events call) (run_n2 env call)"
  by (cases call) (simp_all add: tidy_void n2_tidy)

lemma run_n3_tidy: "tidy (n3_events call) (run_n3 env call)"
  by (cases call) (simp_all add: tidy_void n3_tidy)

lemma run_n4_tidy: "\<forall>pid. call \<noteq> Delete_Project_Quota pid \<Longrightarrow> tidy (n4_events d call) (run_n4 env call)"
  by (cases call) (simp_all add: tidy_void n4_tidy)

lemma run_n5_tidy: "tidy (n5_events call) (run_n5 env call)"
  by (cases call) (simp_all add: tidy_void n5_tidy)

fun site_events :: "catalogue \<Rightarrow> site_call \<Rightarrow> int" where
  "site_events d (N1_Call call) = n1_events call"
| "site_events d (N2_Call call) = n2_events call"
| "site_events d (N3_Call call) = n3_events call"
| "site_events d (N4_Call call) = n4_events d call"
| "site_events d (N5_Call call) = n5_events call"
| "site_events d _ = 0"

fun catalogue_call :: "site_call \<Rightarrow> bool" where
  "catalogue_call (Core _) = False"
| "catalogue_call Tick = False"
| "catalogue_call _ = True"

lemma tidyD: "tidy n m \<Longrightarrow> m s = (r, s') \<Longrightarrow>
    (case r of Inl e \<Rightarrow> untouched s s' | Inr x \<Rightarrow> journal s' = journal s + n)"
  unfolding tidy_def by (metis (no_types, lifting) case_prod_conv)

lemma catalogue_outcome:
  assumes "run_site c call s = (r, s')" "catalogue_call call"
  shows "case r of Inl e \<Rightarrow> untouched s s' | Inr x \<Rightarrow> journal s' = journal s + site_events (snd s) call"
proof (cases call)
  case (N4_Call n4)
  show ?thesis
  proof (cases "\<exists>pid. n4 = Delete_Project_Quota pid")
    case True
    then show ?thesis using assms(1) N4_Call delete_quota_tidy by fastforce
  next
    case False
    then have "tidy (n4_events (snd s) n4) (run_n4 (wr_env c) n4)" using run_n4_tidy by blast
    from tidyD [OF this, of s r s'] show ?thesis using assms(1) N4_Call by (cases r) auto
  qed
next
  case (N1_Call x)
  then have "run_n1 (wr_env c) x s = (r, s')" using assms(1) by simp
  from tidyD [OF run_n1_tidy this] show ?thesis using N1_Call by (cases r) auto
next
  case (N2_Call x)
  then have "run_n2 (wr_env c) x s = (r, s')" using assms(1) by simp
  from tidyD [OF run_n2_tidy this] show ?thesis using N2_Call by (cases r) auto
next
  case (N3_Call x)
  then have "run_n3 (wr_env c) x s = (r, s')" using assms(1) by simp
  from tidyD [OF run_n3_tidy this] show ?thesis using N3_Call by (cases r) auto
next
  case (N5_Call x)
  then have "run_n5 (wr_env c) x s = (r, s')" using assms(1) by simp
  from tidyD [OF run_n5_tidy this] show ?thesis using N5_Call by (cases r) auto
qed (use assms(2) in simp_all)

text \<open>
  C28. A refused catalogue call has no effect: when a call of any of the five modules raises, every
  store of the catalogue and of the shared world, the journal and the agents are exactly as before;
  only the clock and the id factory have moved.
\<close>

theorem refused_catalogue_call:
  assumes "run_site c call s = (Inl e, s')" "catalogue_call call"
  shows "snd s' = snd s \<and> fst s' = (fst s)\<lparr>w_clock := w_clock (fst s'), w_ids := w_ids (fst s')\<rparr>"
proof -
  have "untouched s s'" using catalogue_outcome [OF assms] by simp
  then show ?thesis by (cases "fst s", cases "fst s'") (simp add: untouched_def quiet_def)
qed

theorem refused_catalogue_call_witness:
  "\<exists>s'. run_site example_wiring (N3_Call (Delete_Router ''rtr'')) web_site = (Inl err_not_found, s') \<and>
     snd s' = snd web_site"
proof -
  have run: "run_site example_wiring (N3_Call (Delete_Router ''rtr'')) web_site = (Inl err_not_found, web_site)"
    by (simp add: delete_router_def bindM_run fetch_def web_no_router)
  show ?thesis using refused_catalogue_call [OF run] run by simp
qed

text \<open>
  A successful catalogue call publishes exactly one event, except the nine that publish none
  (members of security groups added or removed, rule counters, BGP peer state, schedule update and
  toggle, VPN tunnel and peer update, deleting a quota that does not exist), although the modules
  say that every mutating use case emits one.
\<close>

lemma catalogue_call_events:
  assumes "run_site c call s = (Inr u, s')" "catalogue_call call"
  shows "obx_seq (w_outbox (fst s')) = obx_seq (w_outbox (fst s)) + site_events (snd s) call"
  using catalogue_outcome [OF assms] by simp

lemma catalogue_call_events_witness:
  "\<exists>u s'. run_site example_wiring (N2_Call (Compile_Security_Policy ''spol_'')) web_site = (Inr u, s') \<and>
     obx_seq (w_outbox (fst s')) = obx_seq (w_outbox (fst web_site)) + 1"
proof -
  obtain p where p: "dget (ct_policies (snd web_site)) ''spol_'' = Some p" using web_applied by blast
  have "\<exists>u s'. run_site example_wiring (N2_Call (Compile_Security_Policy ''spol_'')) web_site = (Inr u, s')"
    by (simp add: compile_security_policy_def bindM_run fetch_def p readS_def on_world_run nowM_def keep_def
        announce_run)
  then obtain u s' where run: "run_site example_wiring (N2_Call (Compile_Security_Policy ''spol_'')) web_site = (Inr u, s')"
    by blast
  show ?thesis using catalogue_call_events [OF run] run by auto
qed

subsection \<open>The tick of the scheduler\<close>

definition fires_at :: "time \<Rightarrow> apply_schedule \<Rightarrow> bool" where
  "fires_at now x \<longleftrightarrow> is_due (sch_cron_expr x) now = Inr True"

text \<open>Callbacks may do anything but touch the schedules.\<close>

definition spares_schedules :: "'ag callbacks \<Rightarrow> bool" where
  "spares_schedules cbs \<longleftrightarrow>
     (\<forall>t f i s. cbs t = Some f \<longrightarrow> ct_schedules (snd (snd (f i s))) = ct_schedules (snd s))"

text \<open>
  One firing: the callback of the schedule's target runs once (there may be none), and the schedule is
  stored with a run at \<open>now\<close> that carries the outcome, an error exactly when the callback raised.
\<close>

definition callback_result :: "'ag callbacks \<Rightarrow> apply_schedule \<Rightarrow> 'ag site \<Rightarrow> exc option \<times> 'ag site" where
  "callback_result cbs x s = (case cbs (sch_target_type x) of
     None \<Rightarrow> (None, s)
   | Some f \<Rightarrow> (case f (sch_target_id x) s of (Inl e, s1) \<Rightarrow> (Some e, s1) | (Inr _, s1) \<Rightarrow> (None, s1)))"

definition run_record :: "(exc \<Rightarrow> string) \<Rightarrow> time \<Rightarrow> exc option \<Rightarrow> apply_schedule \<Rightarrow> apply_schedule" where
  "run_record msg now err x = record_run (err = None) (map_option msg err) now x"

definition fire :: "'ag callbacks \<Rightarrow> (exc \<Rightarrow> string) \<Rightarrow> time \<Rightarrow> apply_schedule \<Rightarrow> 'ag site \<Rightarrow> 'ag site" where
  "fire cbs msg now x s = (case callback_result cbs x s of (err, s1) \<Rightarrow>
     (fst s1, ct_schedules_update (dset (sch_id x) (run_record msg now err x)) (snd s1)))"

lemma run_callback_result: "run_callback cbs x s = (case callback_result cbs x s of (err, s1) \<Rightarrow> (Inr err, s1))"
  by (simp add: run_callback_def callback_result_def attempt_def returnM_def split: option.split prod.split sum.split)

lemma tick_loop_fires:
  "(\<And>x. x \<in> set xs \<Longrightarrow> sch_valid x) \<Longrightarrow>
   tick_loop cbs msg now xs k s =
     (Inr (k + length (filter (fires_at now) xs)), fold (fire cbs msg now) (filter (fires_at now) xs) s)"
proof (induction xs arbitrary: k s)
  case (Cons x xs)
  obtain due where due: "is_due (sch_cron_expr x) now = Inr due"
    using Cons.prems [of x] validated_schedule_decides [of "sch_cron_expr x" now] by (auto simp: sch_valid_def)
  then have fires: "fires_at now x = due" by (simp add: fires_at_def)
  have IH: "tick_loop cbs msg now xs k' s' =
      (Inr (k' + length (filter (fires_at now) xs)), fold (fire cbs msg now) (filter (fires_at now) xs) s')" for k' s'
    using Cons.IH Cons.prems by simp
  obtain err s1 where r: "callback_result cbs x s = (err, s1)" by (cases "callback_result cbs x s")
  have one: "fire cbs msg now x s =
      (fst s1, ct_schedules_update (dset (sch_id x) (record_run (err = None) (map_option msg err) now x)) (snd s1))"
    by (simp add: fire_def run_record_def r)
  show ?case
    by (simp add: bindM_run due fires run_callback_result keep_def r one IH)
qed (simp add: returnM_def)

lemma fire_schedules:
  assumes "spares_schedules cbs"
  shows "ct_schedules (snd (fire cbs msg now x s)) =
    dset (sch_id x) (run_record msg now (fst (callback_result cbs x s)) x) (ct_schedules (snd s))"
proof -
  have "ct_schedules (snd (snd (callback_result cbs x s))) = ct_schedules (snd s)"
    using assms [unfolded spares_schedules_def, rule_format, of "sch_target_type x" _ "sch_target_id x" s]
    by (auto simp: callback_result_def split: option.split prod.split sum.split)
  then show ?thesis by (cases "callback_result cbs x s") (simp add: fire_def)
qed

lemma fires_elsewhere:
  "spares_schedules cbs \<Longrightarrow> i \<notin> sch_id ` set xs \<Longrightarrow>
   dget (ct_schedules (snd (fold (fire cbs msg now) xs s))) i = dget (ct_schedules (snd s)) i"
  by (induction xs arbitrary: s) (simp_all add: fire_schedules)

lemma fires_recorded:
  assumes "spares_schedules cbs" "distinct (List.map sch_id xs)" "j < length xs"
  shows "dget (ct_schedules (snd (fold (fire cbs msg now) xs s))) (sch_id (xs ! j)) =
    Some (run_record msg now (fst (callback_result cbs (xs ! j) (fold (fire cbs msg now) (take j xs) s))) (xs ! j))"
proof -
  let ?x = "xs ! j"
  let ?s = "fold (fire cbs msg now) (take j xs) s"
  have split: "xs = take j xs @ ?x # drop (Suc j) xs" using assms(3) by (simp add: id_take_nth_drop [symmetric])
  have "distinct (List.map sch_id (take j xs @ ?x # drop (Suc j) xs))" using assms(2) split by metis
  then have "sch_id ?x \<notin> sch_id ` set (drop (Suc j) xs)" by simp
  then have "dget (ct_schedules (snd (fold (fire cbs msg now) (drop (Suc j) xs) (fire cbs msg now ?x ?s)))) (sch_id ?x) =
      dget (ct_schedules (snd (fire cbs msg now ?x ?s))) (sch_id ?x)"
    by (rule fires_elsewhere [OF assms(1)])
  also have "\<dots> = Some (run_record msg now (fst (callback_result cbs ?x ?s)) ?x)"
    by (simp add: fire_schedules [OF assms(1)])
  finally show ?thesis by (subst split) simp
qed

lemma schedules_in_order:
  assumes "site_ok c s"
  shows "dwf (ct_schedules (snd s))" "dget (ct_schedules (snd s)) i = Some x \<Longrightarrow> sch_id x = i \<and> sch_valid x"
  using assms by (auto simp: site_ok_def entries_ok_def shelf_ok_def)

lemma enabled_distinct:
  assumes "site_ok c s"
  shows "distinct (List.map sch_id (list_schedules True None (snd s)))"
    "x \<in> set (list_schedules True None (snd s)) \<longleftrightarrow> sch_enabled x \<and> dget (ct_schedules (snd s)) (sch_id x) = Some x"
proof -
  let ?d = "ct_schedules (snd s)"
  have "sch_id (snd p) = fst p" if "p \<in> set ?d" for p
  proof -
    have "dget ?d (fst p) = Some (snd p)"
      using that schedules_in_order(1) [OF assms] by (intro map_of_is_SomeI) simp_all
    then show ?thesis using schedules_in_order(2) [OF assms] by blast
  qed
  then have keys: "List.map sch_id (dvalues ?d) = dkeys ?d" by simp
  then have "distinct (List.map sch_id (dvalues ?d))"
    using schedules_in_order(1) [OF assms] by (simp only: keys)
  then show "distinct (List.map sch_id (list_schedules True None (snd s)))"
    unfolding list_schedules_def only_def by (simp only: if_True option.map option.case distinct_map_filter)
  show "x \<in> set (list_schedules True None (snd s)) \<longleftrightarrow> sch_enabled x \<and> dget ?d (sch_id x) = Some x"
  proof -
    have "x \<in> set (dvalues ?d) \<longleftrightarrow> dget ?d (sch_id x) = Some x"
      using dvalues_dget [OF schedules_in_order(1) [OF assms], of x] schedules_in_order(2) [OF assms] by blast
    then show ?thesis
      unfolding list_schedules_def only_def
      by (simp only: if_True option.map option.case set_filter mem_Collect_eq) blast
  qed
qed

text \<open>
  C18. The tick runs exactly the schedules that are due. In every state the calls can lead to, with any
  callbacks that leave the schedules alone (they may raise, write other stores, publish), the tick
  raises nothing and answers with the number of due schedules, those enabled ones whose expression
  matches the current time. It fires them one after the other in stored order, the callback of each
  once, on the state the ones before left; each is recorded as run at that time, with status ok when
  its own callback returned (or there is none) and with the error when it raised; every other schedule
  is as it was.
\<close>

theorem tick_runs_due:
  assumes "site_reachable c s" "inj (e_rnd (wr_env c))" "spares_schedules cbs"
    and now: "now = e_now (wr_env c) (w_clock (fst s))"
    and due: "due = filter (fires_at now) (list_schedules True None (snd s))"
    and start: "start = ((fst s)\<lparr>w_clock := w_clock (fst s) + 1\<rparr>, snd s)"
  shows "\<exists>s'. tick_scheduler (wr_env c) cbs msg s = (Inr (length due), s') \<and>
    s' = fold (fire cbs msg now) due start \<and>
    (\<forall>j < length due. dget (ct_schedules (snd s')) (sch_id (due ! j)) =
       Some (run_record msg now (fst (callback_result cbs (due ! j) (fold (fire cbs msg now) (take j due) start))) (due ! j))) \<and>
    (\<forall>i x. dget (ct_schedules (snd s)) i = Some x \<longrightarrow>
       (if sch_enabled x \<and> fires_at now x then x \<in> set due \<and> sch_id x = i
        else dget (ct_schedules (snd s')) i = Some x))"
proof -
  let ?xs = "list_schedules True None (snd s)"
  let ?s' = "fold (fire cbs msg now) due start"
  have ok: "site_ok c s" using site_reachable_ok [OF assms(1,2)] .
  have mem: "x \<in> set ?xs \<longleftrightarrow> sch_enabled x \<and> dget (ct_schedules (snd s)) (sch_id x) = Some x" for x
    using enabled_distinct(2) [OF ok] .
  have valid: "sch_valid x" if "x \<in> set ?xs" for x
    using that mem schedules_in_order(2) [OF ok] by blast
  have "tick_loop cbs msg now ?xs 0 start = (Inr (length due), ?s')"
    using tick_loop_fires [OF valid, where cbs = cbs and msg = msg and now = now and k = 0 and s = start] by (simp add: due)
  then have run: "tick_scheduler (wr_env c) cbs msg s = (Inr (length due), ?s')"
    by (simp add: tick_scheduler_def bindM_run on_world_run nowM_def readS_def now start)
  have "distinct (List.map sch_id due)"
    unfolding due using enabled_distinct(1) [OF ok] by (rule distinct_map_filter)
  then have recorded: "dget (ct_schedules (snd ?s')) (sch_id (due ! j)) =
      Some (run_record msg now (fst (callback_result cbs (due ! j) (fold (fire cbs msg now) (take j due) start))) (due ! j))"
    if "j < length due" for j
    using fires_recorded [OF assms(3) _ that] by blast
  have others: "if sch_enabled x \<and> fires_at now x then x \<in> set due \<and> sch_id x = i
      else dget (ct_schedules (snd ?s')) i = Some x"
    if x: "dget (ct_schedules (snd s)) i = Some x" for i x
  proof (cases "sch_enabled x \<and> fires_at now x")
    case True
    then show ?thesis using mem [of x] x schedules_in_order(2) [OF ok x] by (simp add: due)
  next
    case False
    have "sch_id y \<noteq> i" if "y \<in> set due" for y
      using that mem x False by (auto simp: due)
    then have "i \<notin> sch_id ` set due" by blast
    then have "dget (ct_schedules (snd ?s')) i = Some x"
      using fires_elsewhere [OF assms(3), of i due msg now start] x by (simp add: start)
    then show ?thesis using False by (simp only: if_False)
  qed
  show ?thesis using run recorded others by blast
qed

text \<open>A site with one schedule, due every minute, and callbacks that raise.\<close>

definition minutely_cmd :: create_schedule_cmd where
  "minutely_cmd = \<lparr>cas_name = ''lb'', cas_cron_expr = ''* * * * *'', cas_target_type = ''load_balancer'',
     cas_target_id = ''lb_1'', cas_project_id = None, cas_enabled = True, cas_labels = []\<rparr>"

definition minutely_site :: "unit site" where
  "minutely_site = after_site example_wiring [N5_Call (Create_Apply_Schedule minutely_cmd)] (empty_world (), empty_catalogue)"

definition raising_callbacks :: "unit callbacks" where
  "raising_callbacks = (\<lambda>_. Some (\<lambda>_. raiseM err_not_found))"

lemma every_minute:
  "words_of ''* * * * *'' = [''*'', ''*'', ''*'', ''*'', ''*'']"
  "is_due ''* * * * *'' now = Inr True" "cron_validate ''* * * * *'' = Inr ()"
proof -
  show "words_of ''* * * * *'' = [''*'', ''*'', ''*'', ''*'', ''*'']" by code_simp
  then show "is_due ''* * * * *'' now = Inr True" by (simp add: is_due_def cron_values_def cron_star)
  show "cron_validate ''* * * * *'' = Inr ()" by code_simp
qed

lemma minutely_stored:
  "\<exists>x. ct_schedules (snd minutely_site) = [(''sched_'', x)] \<and> sch_id x = ''sched_'' \<and> sch_enabled x \<and>
     sch_cron_expr x = ''* * * * *'' \<and> sch_target_id x = ''lb_1''"
proof -
  have id: "factory_id ApplyScheduleId (e_rnd example_env 0) = ''sched_''"
    by (simp add: factory_id_def new_id_def example_env_def)
  have target: "target_of ''load_balancer'' = Inr TARGET_LOAD_BALANCER" by code_simp
  show ?thesis
    by (simp add: minutely_site_def wiring_env create_apply_schedule_def bindM_run on_world_run nowM_def freshM_def
        keep_def announce_run id empty_catalogue_def empty_world_def minutely_cmd_def every_minute target
        mk_apply_schedule_def require_def)
qed

theorem tick_runs_due_witness:
  "\<exists>s' x. tick_scheduler example_env raising_callbacks (\<lambda>_. ''boom'') minutely_site = (Inr 1, s') \<and>
     dget (ct_schedules (snd s')) ''sched_'' = Some x \<and> sch_last_run_status x = Some ''error: boom'' \<and>
     sch_status x = SCHED_ERROR"
proof -
  obtain x where x: "ct_schedules (snd minutely_site) = [(''sched_'', x)]" "sch_id x = ''sched_''" "sch_enabled x"
      "sch_cron_expr x = ''* * * * *''" using minutely_stored by blast
  have reach: "site_reachable example_wiring minutely_site"
    unfolding minutely_site_def by (rule site_reachable_calls [OF site_start])
  have spares: "spares_schedules raising_callbacks"
    by (simp add: spares_schedules_def raising_callbacks_def raiseM_def)
  have due: "filter (fires_at now) (list_schedules True None (snd minutely_site)) = [x]" for now
    using x by (simp add: list_schedules_def only_def fires_at_def every_minute)
  have res: "fst (callback_result raising_callbacks x st) = Some err_not_found" for st :: "unit site"
    by (simp add: callback_result_def raising_callbacks_def raiseM_def)
  let ?now = "e_now (wr_env example_wiring) (w_clock (fst minutely_site))"
  let ?start = "((fst minutely_site)\<lparr>w_clock := w_clock (fst minutely_site) + 1\<rparr>, snd minutely_site)"
  obtain s' where s': "tick_scheduler (wr_env example_wiring) raising_callbacks (\<lambda>_. ''boom'') minutely_site = (Inr (length [x]), s')"
      "\<forall>j < length [x]. dget (ct_schedules (snd s')) (sch_id ([x] ! j)) = Some (run_record (\<lambda>_. ''boom'') ?now
         (fst (callback_result raising_callbacks ([x] ! j) (fold (fire raising_callbacks (\<lambda>_. ''boom'') ?now) (take j [x]) ?start))) ([x] ! j))"
    using tick_runs_due [OF reach example_inj spares refl due [symmetric] refl, of "\<lambda>_. ''boom''"] by blast
  from s'(2) have "dget (ct_schedules (snd s')) ''sched_'' = Some (run_record (\<lambda>_. ''boom'') ?now (Some err_not_found) x)"
    by (simp add: res x(2))
  then show ?thesis using s'(1) by (simp add: wiring_env run_record_def record_run_def)
qed

text \<open>A run without callbacks writes the schedules and nothing else.\<close>

lemma wired_tick_loop:
  "tick_loop wired_callbacks msg now xs k s = (r, s') \<Longrightarrow>
   fst s' = fst s \<and> snd s' = (snd s)\<lparr>ct_schedules := ct_schedules (snd s')\<rparr> \<and>
   (\<forall>i x. dget (ct_schedules (snd s')) i = Some x \<longrightarrow> dget (ct_schedules (snd s)) i = Some x \<or>
      sch_last_run_status x = Some ''ok'' \<and> sch_status x = SCHED_ACTIVE)"
proof (induction xs arbitrary: k s)
  case (Cons y xs)
  show ?case
  proof (cases "is_due (sch_cron_expr y) now")
    case (Inl e)
    then show ?thesis using Cons.prems by simp
  next
    case (Inr due)
    show ?thesis
    proof (cases due)
      case False
      then show ?thesis using Cons Inr by simp
    next
      case True
      define v where "v = record_run True None now y"
      let ?s1 = "(fst s, ct_schedules_update (dset (sch_id y) v) (snd s))"
      have v: "sch_last_run_status v = Some ''ok''" "sch_status v = SCHED_ACTIVE"
        by (simp_all add: v_def record_run_def)
      have "tick_loop wired_callbacks msg now xs (Suc k) ?s1 = (r, s')"
        using Cons.prems Inr True by (simp add: run_callback_def wired_callbacks_def keep_def v_def)
      note ih = Cons.IH [OF this]
      have "dget (ct_schedules (snd s)) i = Some x \<or> sch_last_run_status x = Some ''ok'' \<and> sch_status x = SCHED_ACTIVE"
        if "dget (ct_schedules (snd s')) i = Some x" for i x
      proof -
        have "dget (ct_schedules (snd ?s1)) i = Some x \<or> sch_last_run_status x = Some ''ok'' \<and> sch_status x = SCHED_ACTIVE"
          using ih that by blast
        then show ?thesis using v by (cases "i = sch_id y") auto
      qed
      then show ?thesis using ih by simp
    qed
  qed
qed simp

text \<open>
  C40. Wired as in the container, without callbacks, the tick applies nothing: it changes neither a
  network nor a router nor any other store, publishes no event and calls no agent; yet every
  schedule it writes is recorded as run, with status ok and in state active.
\<close>

theorem wired_tick_applies_nothing:
  assumes "tick_scheduler env wired_callbacks msg s = (r, s')"
  shows "fst s' = (fst s)\<lparr>w_clock := w_clock (fst s) + 1\<rparr> \<and>
    snd s' = (snd s)\<lparr>ct_schedules := ct_schedules (snd s')\<rparr> \<and>
    (\<forall>i x. dget (ct_schedules (snd s')) i = Some x \<longrightarrow> dget (ct_schedules (snd s)) i = Some x \<or>
      sch_last_run_status x = Some ''ok'' \<and> sch_status x = SCHED_ACTIVE)"
proof -
  have "tick_loop wired_callbacks msg (e_now env (w_clock (fst s))) (list_schedules True None (snd s)) 0
      ((fst s)\<lparr>w_clock := w_clock (fst s) + 1\<rparr>, snd s) = (r, s')"
    using assms by (simp add: tick_scheduler_def bindM_run on_world_run nowM_def readS_def)
  from wired_tick_loop [OF this] show ?thesis by simp
qed

definition minutely :: apply_schedule where
  "minutely = \<lparr>sch_id = ''sched'', sch_name = ''lb'', sch_cron_expr = ''* * * * *'', sch_target_type = TARGET_LOAD_BALANCER,
     sch_target_id = ''lb_1'', sch_enabled = True, sch_project_id = None, sch_last_run_at = None,
     sch_last_run_status = None, sch_status = SCHED_ACTIVE, sch_labels = [], sch_created_at = 0, sch_updated_at = 0\<rparr>"

lemma minutely_due: "is_due (sch_cron_expr minutely) now = Inr True"
  by (simp add: minutely_def every_minute)

theorem wired_tick_applies_nothing_witness:
  "\<exists>s' x. tick_scheduler example_env wired_callbacks (\<lambda>_. []) (empty_world (), empty_catalogue\<lparr>ct_schedules := [(''sched'', minutely)]\<rparr>) =
      (Inr 1, s') \<and> dget (ct_schedules (snd s')) ''sched'' = Some x \<and>
     sch_last_run_status x = Some ''ok'' \<and> w_operations (fst s') = []"
proof -
  let ?s = "(empty_world (), empty_catalogue\<lparr>ct_schedules := [(''sched'', minutely)]\<rparr>)"
  have fields: "sch_id minutely = ''sched''" "sch_enabled minutely" by (simp_all add: minutely_def)
  obtain s' where run: "tick_scheduler example_env wired_callbacks (\<lambda>_. []) ?s = (Inr 1, s')"
      "dget (ct_schedules (snd s')) ''sched'' = Some (record_run True None (e_now example_env 0) minutely)"
    using minutely_due
    by (simp add: tick_scheduler_def bindM_run on_world_run nowM_def readS_def list_schedules_def only_def
        fields run_callback_def wired_callbacks_def keep_def empty_world_def)
  show ?thesis
    using wired_tick_applies_nothing [OF run(1)] run by (auto simp: record_run_def empty_world_def)
qed

subsection \<open>Behaviours to know about\<close>

text \<open>
  A floating address can be allocated any number of times: allocating an address that a stored
  floating address already has succeeds and stores a second entry with the same address.
\<close>

lemma floating_ip_shared:
  assumes "site_reachable c s" "inj (e_rnd (wr_env c))" "dget (ct_fips (snd s)) i = Some g"
    and "afp_address cmd = fip_address g"
  shows "\<exists>f s'. allocate_floating_ip (wr_env c) cmd s = (Inr f, s') \<and> fip_id f \<noteq> i \<and>
    fip_address f = fip_address g \<and> dget (ct_fips (snd s')) i = Some g \<and>
    dget (ct_fips (snd s')) (fip_id f) = Some f"
proof -
  have ok: "entries_ok (wr_env c) (w_ids (fst s)) (snd s)"
    using site_reachable_ok [OF assms(1,2)] by (simp add: site_ok_def)
  then have g: "fip_valid g" "drawn (wr_env c) (w_ids (fst s)) FloatingIpId i"
    using assms(3) by (auto simp: entries_ok_def shelf_ok_def)
  let ?i = "factory_id FloatingIpId (e_rnd (wr_env c) (w_ids (fst s)))"
  have new: "?i \<noteq> i" using g(2) fresh_not_drawn [OF assms(2) order_refl] by metis
  let ?f = "\<lparr>fip_id = ?i, fip_external_network_id = afp_external_network_id cmd, fip_address = afp_address cmd,
        fip_project_id = afp_project_id cmd, fip_fixed_address = None, fip_logical_port_id = None,
        fip_router_id = None, fip_status = FIP_DOWN, fip_labels = or_default [] (afp_labels cmd),
        fip_created_at = e_now (wr_env c) (w_clock (fst s)), fip_updated_at = e_now (wr_env c) (w_clock (fst s))\<rparr>"
  have "ip_address (afp_address cmd) \<noteq> None" using g(1) assms(4) by (simp add: fip_valid_def)
  then have mk: "mk_floating_ip ?f = Inr ?f"
    by (simp add: mk_floating_ip_def ip_text_check_def)
  have "\<exists>s'. allocate_floating_ip (wr_env c) cmd s = (Inr ?f, s') \<and> ct_fips (snd s') = dset ?i ?f (ct_fips (snd s))"
    by (simp add: allocate_floating_ip_def bindM_run on_world_run nowM_def freshM_def mk keep_def announce_run)
  then obtain s' where "allocate_floating_ip (wr_env c) cmd s = (Inr ?f, s')"
      "ct_fips (snd s') = dset ?i ?f (ct_fips (snd s))"
    by blast
  then show ?thesis using new assms(3,4) by (intro exI [of _ ?f] exI [of _ s']) simp
qed

definition fip_cmd :: allocate_fip_cmd where
  "fip_cmd = \<lparr>afp_external_network_id = ''net'', afp_address = ''10.0.0.1'', afp_project_id = None, afp_labels = None\<rparr>"

definition fip_site :: "unit site" where
  "fip_site = after_site example_wiring [N3_Call (Allocate_Floating_Ip fip_cmd)] (empty_world (), empty_catalogue)"

lemma floating_ip_shared_witness:
  "\<exists>f s'. allocate_floating_ip example_env fip_cmd fip_site = (Inr f, s') \<and> fip_id f \<noteq> ''fip_'' \<and>
     fip_address f = ''10.0.0.1''"
proof -
  have id: "factory_id FloatingIpId (e_rnd example_env 0) = ''fip_''"
    by (simp add: factory_id_def new_id_def example_env_def)
  have "\<exists>g. dget (ct_fips (snd fip_site)) ''fip_'' = Some g \<and> fip_address g = ''10.0.0.1''"
    using example_node_addr
    by (simp add: fip_site_def wiring_env allocate_floating_ip_def bindM_run on_world_run nowM_def freshM_def
        keep_def announce_run id empty_catalogue_def empty_world_def fip_cmd_def mk_floating_ip_def ip_text_check_def
        bindE_def)
  then obtain g where g: "dget (ct_fips (snd fip_site)) ''fip_'' = Some g" "afp_address fip_cmd = fip_address g"
    by (auto simp: fip_cmd_def)
  have "site_reachable example_wiring fip_site"
    unfolding fip_site_def by (rule site_reachable_calls [OF site_start])
  from floating_ip_shared [OF this example_inj g] g show ?thesis by (auto simp: wiring_env fip_cmd_def)
qed

text \<open>
  With an empty table of resolved groups, which is what \<open>compile_security_policy\<close> passes, a rule on a
  security group or an address pool, a deny included, compiles to a comment line. (With the group in
  the table it compiles to a match.)
\<close>

lemma group_rules_skipped:
  assumes "pr_source_type r \<in> {''security_group'', ''address_pool''} \<or> pr_dest_type r \<in> {''security_group'', ''address_pool''}"
  shows "\<exists>t. compile_rule r [] protos ports = [''        # '' @ t]"
proof -
  have un: "unresolved ty (cidrs_for ty v [])" if "ty \<in> {''security_group'', ''address_pool''}" for ty v
    using that by (auto simp: unresolved_def cidrs_for_def)
  have line: "\<exists>t. [skipped_line r side ty v] = [''        # '' @ t]" for side ty v
    unfolding skipped_line_def by blast
  show ?thesis
  proof (cases "unresolved (pr_source_type r) (cidrs_for (pr_source_type r) (pr_source_value r) [])")
    case True
    then show ?thesis unfolding compile_rule_def Let_def using line by (simp only: if_True)
  next
    case False
    then have "unresolved (pr_dest_type r) (cidrs_for (pr_dest_type r) (pr_dest_value r) [])" using assms un by blast
    then show ?thesis unfolding compile_rule_def Let_def using line False by (simp only: if_True if_False)
  qed
qed

text \<open>A deny on a group, which a compiled policy does not enforce.\<close>

definition deny_group :: policy_rule where
  "deny_group = \<lparr>pr_id = ''r1'', pr_priority = 10, pr_direction = ''ingress'', pr_action = ''deny'',
     pr_source_type = ''security_group'', pr_source_value = ''sg_1'', pr_dest_type = ''any'', pr_dest_value = [],
     pr_service_id = None, pr_enabled = True, pr_comment = [], pr_packets = 0, pr_bytes = 0\<rparr>"

lemma group_rules_skipped_witness:
  "\<exists>t. compile_rule deny_group [] [] [] = [''        # '' @ t]"
  by (rule group_rules_skipped) (simp add: deny_group_def)

end
