(* ===== verification/Admin_Entities.thy ===== *)
theory Admin_Entities
  imports World Ip_Text
begin

text \<open>
  Who may do what: roles and permissions (\<open>core/value_objects/security.py\<close>), service accounts and
  their tokens (\<open>entities/service_account.py\<close>), projects and memberships (\<open>project.py\<close>,
  \<open>project_member.py\<close>), and the records of the administrative side: audit events (\<open>audit.py\<close>),
  node snapshots (\<open>node_snapshot.py\<close>) and webhook subscriptions (\<open>webhook.py\<close>).
\<close>

subsection \<open>Roles and permissions\<close>

datatype role = ADMIN | NETWORK_OPERATOR | AUTOMATION | VIEWER

fun role_value :: "role \<Rightarrow> string" where
  "role_value ADMIN = ''admin''"
| "role_value NETWORK_OPERATOR = ''network_operator''"
| "role_value AUTOMATION = ''automation''"
| "role_value VIEWER = ''viewer''"

definition roles :: "role list" where
  "roles = [ADMIN, NETWORK_OPERATOR, AUTOMATION, VIEWER]"

lemma roles_complete: "r \<in> set roles"
  by (cases r) (simp_all add: roles_def)

lemma role_value_inject [simp]: "role_value a = role_value b \<longleftrightarrow> a = b"
  by (cases a; cases b) simp_all

datatype permission =
    NETWORK_READ | NETWORK_WRITE | NETWORK_APPLY_P
  | NODE_READ | NODE_WRITE | NODE_ADMIN
  | IPAM_READ | IPAM_WRITE
  | OPERATION_READ
  | TOPOLOGY_READ | DRIFT_READ
  | SERVICE_ACCOUNT_READ | SERVICE_ACCOUNT_WRITE | SERVICE_TOKEN_READ | SERVICE_TOKEN_WRITE
  | AUDIT_READ
  | BACKUP_EXPORT | BACKUP_IMPORT | SNAPSHOT_READ | SNAPSHOT_WRITE
  | WEBHOOK_READ | WEBHOOK_WRITE
  | PROJECT_READ | PROJECT_WRITE | PROJECT_ADMIN

definition all_permissions :: "permission list" where
  "all_permissions =
     [NETWORK_READ, NETWORK_WRITE, NETWORK_APPLY_P, NODE_READ, NODE_WRITE, NODE_ADMIN, IPAM_READ,
      IPAM_WRITE, OPERATION_READ, TOPOLOGY_READ, DRIFT_READ, SERVICE_ACCOUNT_READ,
      SERVICE_ACCOUNT_WRITE, SERVICE_TOKEN_READ, SERVICE_TOKEN_WRITE, AUDIT_READ, BACKUP_EXPORT,
      BACKUP_IMPORT, SNAPSHOT_READ, SNAPSHOT_WRITE, WEBHOOK_READ, WEBHOOK_WRITE, PROJECT_READ,
      PROJECT_WRITE, PROJECT_ADMIN]"

definition network_operator_permissions :: "permission list" where
  "network_operator_permissions =
     [NETWORK_READ, NETWORK_WRITE, NETWORK_APPLY_P, NODE_READ, NODE_WRITE, IPAM_READ, IPAM_WRITE,
      OPERATION_READ, TOPOLOGY_READ, DRIFT_READ, PROJECT_READ, PROJECT_WRITE]"

definition automation_permissions :: "permission list" where
  "automation_permissions = network_operator_permissions"

definition viewer_permissions :: "permission list" where
  "viewer_permissions =
     [NETWORK_READ, NODE_READ, IPAM_READ, OPERATION_READ, TOPOLOGY_READ, DRIFT_READ, PROJECT_READ]"

fun role_permissions :: "role \<Rightarrow> permission list" where
  "role_permissions ADMIN = all_permissions"
| "role_permissions NETWORK_OPERATOR = network_operator_permissions"
| "role_permissions AUTOMATION = automation_permissions"
| "role_permissions VIEWER = viewer_permissions"

definition role_has_permission :: "role \<Rightarrow> permission \<Rightarrow> bool" where
  "role_has_permission r p \<longleftrightarrow> p \<in> set (role_permissions r)"

lemmas permission_sets = role_has_permission_def all_permissions_def network_operator_permissions_def
  automation_permissions_def viewer_permissions_def

lemma admin_has_all: "role_has_permission ADMIN p"
  by (cases p) (simp_all add: permission_sets)

text \<open>Permissions only grow from viewer over automation and operator to administrator.\<close>

lemma roles_ordered:
  "role_has_permission VIEWER p \<Longrightarrow> role_has_permission NETWORK_OPERATOR p"
  "role_has_permission NETWORK_OPERATOR p \<longleftrightarrow> role_has_permission AUTOMATION p"
  by (auto simp: permission_sets)

definition admin_only :: "permission list" where
  "admin_only =
     [NODE_ADMIN, SERVICE_ACCOUNT_READ, SERVICE_ACCOUNT_WRITE, SERVICE_TOKEN_READ,
      SERVICE_TOKEN_WRITE, AUDIT_READ, BACKUP_EXPORT, BACKUP_IMPORT, SNAPSHOT_READ, SNAPSHOT_WRITE,
      WEBHOOK_READ, WEBHOOK_WRITE, PROJECT_ADMIN]"

lemma admin_only_iff: "p \<in> set admin_only \<longleftrightarrow> (\<forall>r. role_has_permission r p \<longrightarrow> r = ADMIN)"
proof -
  have "(\<forall>r. role_has_permission r p \<longrightarrow> r = ADMIN) \<longleftrightarrow>
      \<not> role_has_permission NETWORK_OPERATOR p \<and> \<not> role_has_permission AUTOMATION p \<and>
      \<not> role_has_permission VIEWER p"
    by (metis role.distinct role.exhaust)
  then show ?thesis by (cases p) (simp_all add: permission_sets admin_only_def)
qed

subsection \<open>Service accounts\<close>

record service_account =
  sa_id :: string
  sa_name :: string
  sa_role :: role
  sa_created_at :: time
  sa_updated_at :: time
  sa_created_by :: "string option"
  sa_description :: "string option"
  sa_disabled_at :: "time option"
  sa_labels :: "(string, string) dict"

definition mk_service_account :: "service_account \<Rightarrow> exc + service_account" where
  "mk_service_account a =
     bindE (require (\<not> blank (sa_name a)) err_validation) (\<lambda>_.
     bindE (require (length (sa_name a) \<le> 128) err_validation) (\<lambda>_. Inr a))"

definition sa_is_active :: "service_account \<Rightarrow> bool" where
  "sa_is_active a \<longleftrightarrow> sa_disabled_at a = None"

definition sa_disable :: "time \<Rightarrow> service_account \<Rightarrow> service_account" where
  "sa_disable now a =
     (if sa_disabled_at a \<noteq> None then a else a\<lparr>sa_disabled_at := Some now, sa_updated_at := now\<rparr>)"

record service_token =
  stk_id :: string
  stk_account_id :: string
  stk_token_hash :: string
  stk_issued_at :: time
  stk_expires_at :: "time option"
  stk_last_used_at :: "time option"
  stk_revoked_at :: "time option"
  stk_issued_by :: "string option"
  stk_label :: "string option"

definition stk_is_valid :: "time \<Rightarrow> service_token \<Rightarrow> bool" where
  "stk_is_valid now t \<longleftrightarrow>
     (if stk_revoked_at t \<noteq> None then False
      else \<not> (case stk_expires_at t of None \<Rightarrow> False | Some e \<Rightarrow> now \<ge> e))"

definition stk_revoke :: "time \<Rightarrow> service_token \<Rightarrow> service_token" where
  "stk_revoke now t = (if stk_revoked_at t = None then t\<lparr>stk_revoked_at := Some now\<rparr> else t)"

definition stk_touch :: "time \<Rightarrow> service_token \<Rightarrow> service_token" where
  "stk_touch now t = t\<lparr>stk_last_used_at := Some now\<rparr>"

record principal =
  pri_account_id :: string
  pri_name :: string
  pri_role :: role

definition pri_is_admin :: "principal \<Rightarrow> bool" where
  "pri_is_admin p \<longleftrightarrow> pri_role p = ADMIN"

text \<open>A token is refused for good once revoked, and from its expiry on.\<close>

lemma revoked_invalid: "\<not> stk_is_valid t' (stk_revoke t k)"
  by (cases "stk_revoked_at k") (simp_all add: stk_is_valid_def stk_revoke_def)

lemma expiry_monotone: "\<not> stk_is_valid t k \<Longrightarrow> t \<le> t' \<Longrightarrow> \<not> stk_is_valid t' k"
  by (auto simp: stk_is_valid_def split: option.splits if_splits)

lemma touch_valid [simp]: "stk_is_valid t (stk_touch t' k) \<longleftrightarrow> stk_is_valid t k"
  by (simp add: stk_is_valid_def stk_touch_def)

subsection \<open>Projects\<close>

record project =
  prj_id :: string
  prj_name :: string
  prj_slug :: string
  prj_created_at :: time
  prj_updated_at :: time
  prj_description :: "string option"
  prj_labels :: "(string, string) dict"

text \<open>
  \<open>_SLUG_RE\<close>, both alternatives: one to 63 characters, letters and digits at both ends. Its \<open>$\<close>
  also matches before a final newline, so a slug may carry one newline at its end.
\<close>

definition slug_edge :: "char \<Rightarrow> bool" where
  "slug_edge c \<longleftrightarrow> c \<in> set ''abcdefghijklmnopqrstuvwxyz0123456789''"

definition slug_core :: "string \<Rightarrow> bool" where
  "slug_core s \<longleftrightarrow> 1 \<le> length s \<and> length s \<le> 63 \<and> slug_edge (hd s) \<and> slug_edge (last s) \<and>
     list_all (\<lambda>c. slug_edge c \<or> c = CHR ''-'') s"

definition slug_match :: "string \<Rightarrow> bool" where
  "slug_match s \<longleftrightarrow> slug_core s \<or> (s \<noteq> [] \<and> last s = CHR 0x0A \<and> slug_core (butlast s))"

definition prj_name_check :: "string \<Rightarrow> exc + unit" where
  "prj_name_check s =
     bindE (require (\<not> blank s) err_validation) (\<lambda>_. require (length s \<le> 128) err_validation)"

definition prj_desc_check :: "string option \<Rightarrow> exc + unit" where
  "prj_desc_check d = (case d of None \<Rightarrow> Inr () | Some s \<Rightarrow> require (length s \<le> 512) err_validation)"

definition mk_project :: "project \<Rightarrow> exc + project" where
  "mk_project p =
     bindE (prj_name_check (prj_name p)) (\<lambda>_.
     bindE (require (slug_match (prj_slug p)) err_validation) (\<lambda>_.
     bindE (prj_desc_check (prj_description p)) (\<lambda>_. Inr p)))"

definition prj_update ::
  "string option \<Rightarrow> string option \<Rightarrow> (string, string) dict option \<Rightarrow> time \<Rightarrow> project \<Rightarrow> exc + project" where
  "prj_update name desc labels now p =
     bindE (case name of None \<Rightarrow> Inr (prj_name p) | Some s \<Rightarrow> bindE (prj_name_check s) (\<lambda>_. Inr s)) (\<lambda>nm.
     bindE (case desc of None \<Rightarrow> Inr (prj_description p)
            | Some s \<Rightarrow> bindE (prj_desc_check (Some s)) (\<lambda>_. Inr (Some s))) (\<lambda>ds.
     Inr (p\<lparr>prj_name := nm, prj_description := ds,
            prj_labels := (case labels of None \<Rightarrow> prj_labels p | Some l \<Rightarrow> l), prj_updated_at := now\<rparr>)))"

lemma mk_project_same: "mk_project p = Inr q \<Longrightarrow> q = p \<and> mk_project q = Inr q"
  by (auto simp: mk_project_def bindE_Inr_iff)

lemma prj_update_keeps:
  assumes "mk_project p = Inr p" "prj_update nm ds ls now p = Inr q"
  shows "mk_project q = Inr q \<and> prj_id q = prj_id p \<and> prj_slug q = prj_slug p"
  using assms by (auto simp: prj_update_def mk_project_def bindE_Inr_iff split: option.splits)

record project_member =
  pm_project_id :: string
  pm_account_id :: string
  pm_role :: role
  pm_created_at :: time
  pm_created_by :: "string option"

subsection \<open>Audit events and node snapshots\<close>

record audit_event =
  aud_id :: string
  aud_at :: time
  aud_action :: string
  aud_resource_type :: string
  aud_resource_id :: "string option"
  aud_actor :: "string option"
  aud_http_status :: "int option"
  aud_request_id :: "string option"
  aud_payload :: payload

definition mk_audit_event :: "audit_event \<Rightarrow> exc + audit_event" where
  "mk_audit_event e =
     bindE (require (aud_action e \<noteq> [] \<and> CHR ''.'' \<in> set (aud_action e)) err_validation) (\<lambda>_.
     bindE (require (aud_resource_type e \<noteq> []) err_validation) (\<lambda>_. Inr e))"

record node_snapshot =
  ns_id :: string
  ns_node_id :: string
  ns_agent_snapshot_id :: string
  ns_state_hash :: string
  ns_created_at :: time
  ns_label :: "string option"

definition mk_node_snapshot :: "node_snapshot \<Rightarrow> exc + node_snapshot" where
  "mk_node_snapshot s =
     bindE (require (ns_agent_snapshot_id s \<noteq> []) err_validation) (\<lambda>_.
     bindE (require (ns_state_hash s \<noteq> []) err_validation) (\<lambda>_. Inr s))"

subsection \<open>Webhook subscriptions\<close>

datatype webhook_state = WH_ACTIVE | WH_DISABLED

record webhook =
  wh_id :: string
  wh_target_url :: string
  wh_secret_hash :: string
  wh_event_types :: "string list"
  wh_state :: webhook_state
  wh_created_at :: time
  wh_updated_at :: time
  wh_cursor :: int
  wh_last_delivery_at :: "time option"
  wh_last_delivery_status :: "string option"
  wh_failure_count :: int
  wh_description :: "string option"
  wh_labels :: "(string, string) dict"

definition starts_with :: "string \<Rightarrow> string \<Rightarrow> bool" where
  "starts_with p s \<longleftrightarrow> take (length p) s = p"

definition mk_webhook :: "webhook \<Rightarrow> exc + webhook" where
  "mk_webhook w =
     bindE (require (starts_with ''http://'' (wh_target_url w) \<or> starts_with ''https://'' (wh_target_url w))
              err_validation) (\<lambda>_.
     bindE (require (wh_event_types w \<noteq> []) err_validation) (\<lambda>_.
     bindE (each (\<lambda>et. require (et = ''*'' \<or> CHR ''.'' \<in> set et) err_validation) (wh_event_types w)) (\<lambda>_.
     bindE (require (0 \<le> wh_cursor w) err_validation) (\<lambda>_.
     bindE (require (0 \<le> wh_failure_count w) err_validation) (\<lambda>_. Inr w)))))"

definition wh_matches :: "string \<Rightarrow> webhook \<Rightarrow> bool" where
  "wh_matches et w \<longleftrightarrow> ''*'' \<in> set (wh_event_types w) \<or> et \<in> set (wh_event_types w)"

definition wh_mark_delivered :: "int \<Rightarrow> time \<Rightarrow> webhook \<Rightarrow> webhook" where
  "wh_mark_delivered eid at w =
     (if eid \<le> wh_cursor w then w
      else w\<lparr>wh_cursor := eid, wh_last_delivery_at := Some at, wh_last_delivery_status := Some ''ok'',
             wh_failure_count := 0, wh_updated_at := at\<rparr>)"

definition wh_mark_failed :: "time \<Rightarrow> string \<Rightarrow> webhook \<Rightarrow> webhook" where
  "wh_mark_failed at error w =
     w\<lparr>wh_failure_count := wh_failure_count w + 1, wh_last_delivery_at := Some at,
       wh_last_delivery_status := Some (take 255 (''error: '' @ error)), wh_updated_at := at\<rparr>"

definition wh_disable :: "time \<Rightarrow> string \<Rightarrow> webhook \<Rightarrow> webhook" where
  "wh_disable at reason w =
     w\<lparr>wh_state := WH_DISABLED, wh_last_delivery_status := Some (take 255 (''disabled: '' @ reason)),
       wh_updated_at := at\<rparr>"

lemma mk_webhook_valid:
  "mk_webhook w = Inr v \<Longrightarrow> v = w \<and> 0 \<le> wh_cursor w \<and> 0 \<le> wh_failure_count w \<and> wh_event_types w \<noteq> []"
  by (auto simp: mk_webhook_def bindE_Inr_iff)

text \<open>What delivery does to a subscription keeps it constructible.\<close>

lemma wh_ops_keep:
  assumes "mk_webhook w = Inr w"
  shows "mk_webhook (wh_mark_delivered i t w) = Inr (wh_mark_delivered i t w)"
    and "mk_webhook (wh_mark_failed t e w) = Inr (wh_mark_failed t e w)"
    and "mk_webhook (wh_disable t e w) = Inr (wh_disable t e w)"
  using assms
  by (auto simp: mk_webhook_def bindE_Inr_iff wh_mark_delivered_def wh_mark_failed_def wh_disable_def)

end
