(* ===== verification/Admin_Use_Cases.thy ===== *)
theory Admin_Use_Cases
  imports Admin_Entities System
begin

text \<open>
  The administrative use cases: service accounts, tokens and authentication
  (\<open>core/use_cases/service_accounts.py\<close>), projects and members (\<open>projects.py\<close>), the audit journal
  (\<open>audit.py\<close>) with the middleware that writes it, and the catalogue of node snapshots (\<open>node_snapshots.py\<close>), with the in-memory
  repositories behind them. An administrative action runs on the shared world of the controller and on
  the stores below; \<open>on_ctl\<close> lifts an action of the world. The hash of tokens is the parameter h and
  the freshly generated plaintext an argument of the call that issues it.
\<close>

subsection \<open>Stores\<close>

record admin =
  ad_accounts :: "(string, service_account) dict"
  ad_tokens :: "(string, service_token) dict"
  ad_projects :: "(string, project) dict"
  ad_members :: "(string \<times> string, project_member) dict"
  ad_audit :: "(string, audit_event) dict"
  ad_snapshots :: "(string, node_snapshot) dict"
  ad_webhooks :: "(string, webhook) dict"
  ad_secrets :: "(string, string) dict"

definition empty_admin :: admin where
  "empty_admin = \<lparr>ad_accounts = [], ad_tokens = [], ad_projects = [], ad_members = [], ad_audit = [],
     ad_snapshots = [], ad_webhooks = [], ad_secrets = []\<rparr>"

type_synonym ('ag, 'a) admin_act = "('ag world \<times> admin, exc, 'a) act"

definition on_ctl :: "('ag world, exc, 'a) act \<Rightarrow> ('ag, 'a) admin_act" where
  "on_ctl m = zoomM fst (\<lambda>w s. (w, snd s)) m"

abbreviation nowA :: "env \<Rightarrow> ('ag, time) admin_act" where
  "nowA env \<equiv> on_ctl (nowM env)"

abbreviation freshA :: "env \<Rightarrow> id_kind \<Rightarrow> ('ag, string) admin_act" where
  "freshA env k \<equiv> on_ctl (freshM env k)"

definition readA :: "(admin \<Rightarrow> 'a) \<Rightarrow> ('ag, 'a) admin_act" where
  "readA f = getM (\<lambda>s. f (snd s))"

definition writeA :: "(admin \<Rightarrow> admin) \<Rightarrow> ('ag, unit) admin_act" where
  "writeA f = modifyM (\<lambda>s. (fst s, f (snd s)))"

definition findA :: "(admin \<Rightarrow> ('k, 'v) dict) \<Rightarrow> 'k \<Rightarrow> ('ag, 'v) admin_act" where
  "findA sel k = bindM (readA (\<lambda>a. dget (sel a) k)) (\<lambda>r. liftM (of_option err_not_found r))"

lemma admin_runs [simp]:
  "bindM (nowA env) f s = f (e_now env (w_clock (fst s))) ((fst s)\<lparr>w_clock := w_clock (fst s) + 1\<rparr>, snd s)"
  "bindM (freshA env k) g s =
     g (factory_id k (e_rnd env (w_ids (fst s)))) ((fst s)\<lparr>w_ids := w_ids (fst s) + 1\<rparr>, snd s)"
  "bindM (readA h) i s = i (h (snd s)) s"
  "bindM (writeA u) j s = j () (fst s, u (snd s))"
  "bindM (findA sel key) l s = (case dget (sel (snd s)) key of None \<Rightarrow> (Inl err_not_found, s) | Some v \<Rightarrow> l v s)"
  by (simp_all add: on_ctl_def zoomM_def bindM_run nowM_def freshM_def readA_def writeA_def findA_def
      of_option_def split: option.split)

lemma admin_end [simp]: "readA f s = (Inr (f (snd s)), s)" "writeA u s = (Inr (), (fst s, u (snd s)))"
  "findA sel key s = (of_option err_not_found (dget (sel (snd s)) key), s)"
  by (simp_all add: readA_def writeA_def findA_def bindM_run)

subsection \<open>Repositories\<close>

definition account_by_name :: "string \<Rightarrow> admin \<Rightarrow> service_account option" where
  "account_by_name name a = find (\<lambda>x. sa_name x = name) (dvalues (ad_accounts a))"

definition account_save :: "service_account \<Rightarrow> admin \<Rightarrow> admin" where
  "account_save x a = a\<lparr>ad_accounts := dset (sa_id x) x (ad_accounts a)\<rparr>"

definition stoken_by_hash :: "string \<Rightarrow> admin \<Rightarrow> service_token option" where
  "stoken_by_hash h a = find (\<lambda>t. stk_token_hash t = h) (dvalues (ad_tokens a))"

definition stokens_for_account :: "string \<Rightarrow> admin \<Rightarrow> service_token list" where
  "stokens_for_account i a = filter (\<lambda>t. stk_account_id t = i) (dvalues (ad_tokens a))"

definition stoken_save :: "service_token \<Rightarrow> admin \<Rightarrow> admin" where
  "stoken_save t a = a\<lparr>ad_tokens := dset (stk_id t) t (ad_tokens a)\<rparr>"

definition project_by_slug :: "string \<Rightarrow> admin \<Rightarrow> project option" where
  "project_by_slug slug a = find (\<lambda>p. prj_slug p = slug) (dvalues (ad_projects a))"

definition list_projects :: "admin \<Rightarrow> project list" where
  "list_projects a = sort_key prj_created_at (dvalues (ad_projects a))"

definition project_save :: "project \<Rightarrow> admin \<Rightarrow> admin" where
  "project_save p a = a\<lparr>ad_projects := dset (prj_id p) p (ad_projects a)\<rparr>"

definition member_save :: "project_member \<Rightarrow> admin \<Rightarrow> admin" where
  "member_save m a = a\<lparr>ad_members := dset (pm_project_id m, pm_account_id m) m (ad_members a)\<rparr>"

definition members_of_project :: "string \<Rightarrow> admin \<Rightarrow> project_member list" where
  "members_of_project pid a =
     sort_key pm_created_at (List.map snd (filter (\<lambda>(k, m). fst k = pid) (ad_members a)))"

definition members_of_account :: "string \<Rightarrow> admin \<Rightarrow> project_member list" where
  "members_of_account sid a =
     sort_key pm_created_at (List.map snd (filter (\<lambda>(k, m). snd k = sid) (ad_members a)))"

definition has_role :: "string \<Rightarrow> string \<Rightarrow> role \<Rightarrow> admin \<Rightarrow> bool" where
  "has_role pid sid r a =
     (case dget (ad_members a) (pid, sid) of None \<Rightarrow> False
      | Some m \<Rightarrow> if pm_role m = ADMIN then True else pm_role m = r)"

definition snapshot_save :: "node_snapshot \<Rightarrow> admin \<Rightarrow> admin" where
  "snapshot_save x a = a\<lparr>ad_snapshots := dset (ns_id x) x (ad_snapshots a)\<rparr>"

definition snapshots_for_node :: "string \<Rightarrow> admin \<Rightarrow> node_snapshot list" where
  "snapshots_for_node nid a =
     sort_key (\<lambda>x. - ns_created_at x) (filter (\<lambda>x. ns_node_id x = nid) (dvalues (ad_snapshots a)))"

definition list_node_snapshots_repo :: "nat \<Rightarrow> admin \<Rightarrow> node_snapshot list" where
  "list_node_snapshots_repo limit a = take limit (sort_key (\<lambda>x. - ns_created_at x) (dvalues (ad_snapshots a)))"

definition audit_save :: "audit_event \<Rightarrow> admin \<Rightarrow> admin" where
  "audit_save e a = a\<lparr>ad_audit := dset (aud_id e) e (ad_audit a)\<rparr>"

record audit_filter =
  af_actor :: "string option"
  af_action :: "string option"
  af_resource_type :: "string option"
  af_resource_id :: "string option"
  af_since :: "time option"

definition audit_hit :: "audit_filter \<Rightarrow> audit_event \<Rightarrow> bool" where
  "audit_hit f e \<longleftrightarrow>
     \<not> (af_actor f \<noteq> None \<and> aud_actor e \<noteq> af_actor f) \<and>
     \<not> (af_action f \<noteq> None \<and> Some (aud_action e) \<noteq> af_action f) \<and>
     \<not> (af_resource_type f \<noteq> None \<and> Some (aud_resource_type e) \<noteq> af_resource_type f) \<and>
     \<not> (af_resource_id f \<noteq> None \<and> aud_resource_id e \<noteq> af_resource_id f) \<and>
     \<not> (case af_since f of None \<Rightarrow> False | Some t \<Rightarrow> aud_at e < t)"

text \<open>The loop stops once \<open>limit\<close> events are out, so a limit below one still lets one event through.\<close>

fun audit_take :: "audit_filter \<Rightarrow> int \<Rightarrow> audit_event list \<Rightarrow> audit_event list" where
  "audit_take f limit [] = []"
| "audit_take f limit (e # es) =
     (if \<not> audit_hit f e then audit_take f limit es
      else e # (if 1 \<ge> limit then [] else audit_take f (limit - 1) es))"

definition audit_list :: "audit_filter \<Rightarrow> int \<Rightarrow> admin \<Rightarrow> audit_event list" where
  "audit_list f limit a = audit_take f limit (sort_key (\<lambda>e. - aud_at e) (dvalues (ad_audit a)))"

definition audit_before :: "time \<Rightarrow> nat \<Rightarrow> (string, audit_event) dict \<Rightarrow> audit_event list" where
  "audit_before cutoff limit d =
     take limit (sort_key aud_at (filter (\<lambda>e. aud_at e < cutoff) (dvalues d)))"

definition audit_delete_before :: "time \<Rightarrow> (string, audit_event) dict \<Rightarrow> (string, audit_event) dict \<times> int" where
  "audit_delete_before cutoff d =
     (let victims = List.map fst (filter (\<lambda>(_, e). aud_at e < cutoff) d)
      in (fold dpop victims d, int (length victims)))"

fun audit_delete_many :: "string list \<Rightarrow> (string, audit_event) dict \<Rightarrow> (string, audit_event) dict \<times> int" where
  "audit_delete_many [] d = (d, 0)"
| "audit_delete_many (i # is) d =
     (let r = audit_delete_many is (dpop i d)
      in (fst r, snd r + (if dget d i \<noteq> None then 1 else 0)))"

subsection \<open>Service accounts and tokens\<close>

record create_account_cmd =
  cac_name :: string
  cac_role :: role
  cac_description :: "string option"
  cac_labels :: "(string, string) dict"
  cac_created_by :: "string option"

definition create_service_account :: "env \<Rightarrow> create_account_cmd \<Rightarrow> ('ag, service_account) admin_act" where
  "create_service_account env c =
     (let name = py_strip (cac_name c) in
      bindM (guardM (name \<noteq> []) err_validation) (\<lambda>_.
      bindM (readA (account_by_name name)) (\<lambda>ex.
      bindM (guardM (ex = None) err_conflict) (\<lambda>_.
      bindM (nowA env) (\<lambda>now.
      bindM (freshA env ServiceAccountId) (\<lambda>i.
      bindM (liftM (mk_service_account
        \<lparr>sa_id = i, sa_name = name, sa_role = cac_role c, sa_created_at = now, sa_updated_at = now,
         sa_created_by = cac_created_by c, sa_description = cac_description c, sa_disabled_at = None,
         sa_labels = cac_labels c\<rparr>)) (\<lambda>acc.
      bindM (writeA (account_save acc)) (\<lambda>_. returnM acc))))))))"

definition list_service_accounts :: "('ag, service_account list) admin_act" where
  "list_service_accounts = readA (\<lambda>a. dvalues (ad_accounts a))"

definition get_service_account :: "string \<Rightarrow> ('ag, service_account) admin_act" where
  "get_service_account i = findA ad_accounts i"

definition disable_service_account :: "env \<Rightarrow> string \<Rightarrow> ('ag, service_account) admin_act" where
  "disable_service_account env i =
     bindM (findA ad_accounts i) (\<lambda>acc.
     bindM (nowA env) (\<lambda>now.
     let acc' = sa_disable now acc in
     bindM (writeA (account_save acc')) (\<lambda>_. returnM acc')))"

record issue_service_token_cmd =
  istc_account_id :: string
  istc_ttl :: "int option"
  istc_label :: "string option"
  istc_issued_by :: "string option"

definition issue_service_token ::
  "env \<Rightarrow> (string \<Rightarrow> string) \<Rightarrow> string \<Rightarrow> issue_service_token_cmd \<Rightarrow> ('ag, service_token) admin_act" where
  "issue_service_token env h plaintext c =
     bindM (findA ad_accounts (istc_account_id c)) (\<lambda>acc.
     bindM (guardM (sa_is_active acc) err_conflict) (\<lambda>_.
     bindM (guardM (case istc_ttl c of None \<Rightarrow> True | Some n \<Rightarrow> \<not> n \<le> 0) err_validation) (\<lambda>_.
     bindM (nowA env) (\<lambda>now.
     bindM (freshA env ServiceTokenId) (\<lambda>i.
     let t = \<lparr>stk_id = i, stk_account_id = istc_account_id c, stk_token_hash = h plaintext,
              stk_issued_at = now, stk_expires_at = map_option (\<lambda>n. now + seconds n) (istc_ttl c),
              stk_last_used_at = None, stk_revoked_at = None, stk_issued_by = istc_issued_by c,
              stk_label = istc_label c\<rparr> in
     bindM (writeA (stoken_save t)) (\<lambda>_. returnM t))))))"

definition revoke_service_token :: "env \<Rightarrow> string \<Rightarrow> ('ag, service_token) admin_act" where
  "revoke_service_token env i =
     bindM (findA ad_tokens i) (\<lambda>t.
     bindM (nowA env) (\<lambda>now.
     let t' = stk_revoke now t in
     bindM (writeA (stoken_save t')) (\<lambda>_. returnM t')))"

definition list_service_tokens :: "string \<Rightarrow> ('ag, service_token list) admin_act" where
  "list_service_tokens i = bindM (findA ad_accounts i) (\<lambda>_. readA (stokens_for_account i))"

abbreviation err_unauthorized :: exc where
  "err_unauthorized \<equiv> mk_error UnauthorizedError"

definition authenticate_principal ::
  "env \<Rightarrow> (string \<Rightarrow> string) \<Rightarrow> string \<Rightarrow> ('ag, principal) admin_act" where
  "authenticate_principal env h plaintext =
     bindM (guardM (plaintext \<noteq> []) err_unauthorized) (\<lambda>_.
     bindM (readA (stoken_by_hash (h plaintext))) (\<lambda>found.
     bindM (liftM (of_option err_unauthorized found)) (\<lambda>t.
     bindM (nowA env) (\<lambda>now.
     bindM (guardM (stk_is_valid now t) err_unauthorized) (\<lambda>_.
     bindM (readA (\<lambda>a. dget (ad_accounts a) (stk_account_id t))) (\<lambda>owner.
     bindM (liftM (of_option err_unauthorized owner)) (\<lambda>acc.
     bindM (guardM (sa_is_active acc) err_unauthorized) (\<lambda>_.
     bindM (writeA (stoken_save (stk_touch now t))) (\<lambda>_.
     returnM \<lparr>pri_account_id = sa_id acc, pri_name = sa_name acc, pri_role = sa_role acc\<rparr>)))))))))"

subsection \<open>The HTTP side of authentication\<close>

text \<open>
  \<open>current_principal\<close> and \<open>require\<close> of \<open>adapters/http_api/auth.py\<close>, for the value of the
  \<open>Authorization\<close> header (empty when absent) and the \<open>auth_enabled\<close> setting.
\<close>

definition disabled_principal :: principal where
  "disabled_principal = \<lparr>pri_account_id = ''disabled-auth'', pri_name = ''auth-disabled'', pri_role = ADMIN\<rparr>"

definition current_principal ::
  "env \<Rightarrow> (string \<Rightarrow> string) \<Rightarrow> bool \<Rightarrow> string \<Rightarrow> ('ag, principal) admin_act" where
  "current_principal env h auth_enabled header =
     (if \<not> auth_enabled then returnM disabled_principal
      else bindM (guardM (starts_with ''bearer '' (py_lower header)) err_unauthorized) (\<lambda>_.
           authenticate_principal env h (py_strip (drop 7 header))))"

definition missing_permissions :: "permission list \<Rightarrow> principal \<Rightarrow> permission list" where
  "missing_permissions ps p = filter (\<lambda>x. \<not> role_has_permission (pri_role p) x) ps"

definition require_permissions :: "permission list \<Rightarrow> principal \<Rightarrow> exc + principal" where
  "require_permissions ps p =
     (if missing_permissions ps p \<noteq> [] then Inl (mk_error ForbiddenError) else Inr p)"

text \<open>An endpoint: the principal of the request, its permissions, then the handler.\<close>

definition guarded ::
  "env \<Rightarrow> (string \<Rightarrow> string) \<Rightarrow> bool \<Rightarrow> permission list \<Rightarrow> string
     \<Rightarrow> (principal \<Rightarrow> ('ag, 'a) admin_act) \<Rightarrow> ('ag, 'a) admin_act" where
  "guarded env h auth_enabled ps header handler =
     bindM (current_principal env h auth_enabled header) (\<lambda>p.
     bindM (liftM (require_permissions ps p)) handler)"


subsection \<open>Projects\<close>

definition err_slug_conflict :: exc where
  "err_slug_conflict = DomainError ConflictError ''project_slug_conflict''"

record create_project_cmd =
  cpc_name :: string
  cpc_slug :: string
  cpc_description :: "string option"
  cpc_labels :: "(string, string) dict"

definition create_project :: "env \<Rightarrow> create_project_cmd \<Rightarrow> ('ag, project) admin_act" where
  "create_project env c =
     bindM (readA (project_by_slug (cpc_slug c))) (\<lambda>ex.
     bindM (guardM (ex = None) err_slug_conflict) (\<lambda>_.
     bindM (nowA env) (\<lambda>now.
     bindM (freshA env ProjectId) (\<lambda>i.
     bindM (liftM (mk_project
       \<lparr>prj_id = i, prj_name = cpc_name c, prj_slug = cpc_slug c, prj_created_at = now,
        prj_updated_at = now, prj_description = cpc_description c, prj_labels = cpc_labels c\<rparr>)) (\<lambda>p.
     bindM (writeA (project_save p)) (\<lambda>_. returnM p))))))"

definition get_project :: "string \<Rightarrow> ('ag, project) admin_act" where
  "get_project i = findA ad_projects i"

definition get_project_by_slug :: "string \<Rightarrow> ('ag, project) admin_act" where
  "get_project_by_slug slug =
     bindM (readA (project_by_slug slug)) (\<lambda>r. liftM (of_option err_not_found r))"

definition list_projects_call :: "('ag, project list) admin_act" where
  "list_projects_call = readA list_projects"

record update_project_cmd =
  upc_project_id :: string
  upc_name :: "string option"
  upc_description :: "string option"
  upc_labels :: "(string, string) dict option"

definition update_project :: "env \<Rightarrow> update_project_cmd \<Rightarrow> ('ag, project) admin_act" where
  "update_project env c =
     bindM (findA ad_projects (upc_project_id c)) (\<lambda>p.
     bindM (nowA env) (\<lambda>now.
     bindM (liftM (prj_update (upc_name c) (upc_description c) (upc_labels c) now p)) (\<lambda>p'.
     bindM (writeA (project_save p')) (\<lambda>_. returnM p'))))"

definition delete_project :: "string \<Rightarrow> ('ag, unit) admin_act" where
  "delete_project i =
     bindM (findA ad_projects i) (\<lambda>_. writeA (\<lambda>a. a\<lparr>ad_projects := dpop i (ad_projects a)\<rparr>))"

record add_member_cmd =
  amc_project_id :: string
  amc_account_id :: string
  amc_role :: role
  amc_created_by :: "string option"

definition add_project_member :: "env \<Rightarrow> add_member_cmd \<Rightarrow> ('ag, project_member) admin_act" where
  "add_project_member env c =
     bindM (findA ad_projects (amc_project_id c)) (\<lambda>_.
     bindM (findA ad_accounts (amc_account_id c)) (\<lambda>_.
     bindM (nowA env) (\<lambda>now.
     let m = \<lparr>pm_project_id = amc_project_id c, pm_account_id = amc_account_id c,
              pm_role = amc_role c, pm_created_at = now, pm_created_by = amc_created_by c\<rparr> in
     bindM (writeA (member_save m)) (\<lambda>_. returnM m))))"

definition remove_project_member :: "string \<Rightarrow> string \<Rightarrow> ('ag, unit) admin_act" where
  "remove_project_member pid sid =
     bindM (findA ad_projects pid) (\<lambda>_.
     bindM (findA ad_members (pid, sid)) (\<lambda>_.
     writeA (\<lambda>a. a\<lparr>ad_members := dpop (pid, sid) (ad_members a)\<rparr>)))"

definition list_project_members :: "string \<Rightarrow> ('ag, project_member list) admin_act" where
  "list_project_members pid = bindM (findA ad_projects pid) (\<lambda>_. readA (members_of_project pid))"

subsection \<open>The audit journal\<close>

record record_audit_cmd =
  rac_action :: string
  rac_resource_type :: string
  rac_resource_id :: "string option"
  rac_actor :: "string option"
  rac_http_status :: "int option"
  rac_request_id :: "string option"
  rac_payload :: payload

definition record_audit :: "env \<Rightarrow> record_audit_cmd \<Rightarrow> ('ag, audit_event) admin_act" where
  "record_audit env c =
     bindM (freshA env AuditEventId) (\<lambda>i.
     bindM (nowA env) (\<lambda>now.
     bindM (liftM (mk_audit_event
       \<lparr>aud_id = i, aud_at = now, aud_action = rac_action c, aud_resource_type = rac_resource_type c,
        aud_resource_id = rac_resource_id c, aud_actor = rac_actor c,
        aud_http_status = rac_http_status c, aud_request_id = rac_request_id c,
        aud_payload = rac_payload c\<rparr>)) (\<lambda>e.
     bindM (writeA (audit_save e)) (\<lambda>_. returnM e))))"

definition max_list_limit :: int where
  "max_list_limit = 1000"

definition list_audit_events :: "audit_filter \<Rightarrow> int \<Rightarrow> ('ag, audit_event list) admin_act" where
  "list_audit_events f limit = readA (audit_list f (min (max 1 limit) max_list_limit))"

subsection \<open>The audit middleware\<close>

text \<open>
  \<open>adapters/http_api/audit_middleware.py\<close>: after the response one audit event for a request whose
  method and route template stand in the table. \<open>arq_route\<close> is empty for a request without a route.
  The look-ups and the recording may raise without consequence.
\<close>

record audit_request =
  arq_method :: string
  arq_route :: string
  arq_params :: "(string, string) dict"
  arq_principal :: "principal option"
  arq_source_task :: "string option"
  arq_operation_id :: "string option"
  arq_request_id :: "string option"

definition audit_rules :: "(string \<times> string \<times> string \<times> string \<times> string option) list" where
  "audit_rules =
     [(''POST'', ''/api/v1/networks'', ''network.create'', ''network'', None),
      (''PATCH'', ''/api/v1/networks/{network_id}'', ''network.update'', ''network'', Some ''network_id''),
      (''POST'', ''/api/v1/networks/{network_id}/nodes'', ''network.assign_nodes'', ''network'', Some ''network_id''),
      (''POST'', ''/api/v1/networks/{network_id}/apply'', ''network.apply'', ''network'', Some ''network_id''),
      (''POST'', ''/api/v1/networks/{network_id}/subnet'', ''subnet.upsert'', ''network'', Some ''network_id''),
      (''POST'', ''/api/v1/nodes'', ''node.register'', ''node'', None),
      (''DELETE'', ''/api/v1/nodes/{node_id}'', ''node.remove'', ''node'', Some ''node_id''),
      (''POST'', ''/api/v1/nodes/{node_id}/enroll-token'', ''enrollment_token.issue'', ''node'', Some ''node_id''),
      (''POST'', ''/api/v1/agent/enroll'', ''agent.enroll'', ''node'', None),
      (''POST'', ''/api/v1/agent/heartbeat'', ''agent.heartbeat'', ''node'', None),
      (''POST'', ''/api/v1/service-accounts'', ''service_account.create'', ''service_account'', None),
      (''POST'', ''/api/v1/service-accounts/{account_id}/disable'', ''service_account.disable'', ''service_account'', Some ''account_id''),
      (''POST'', ''/api/v1/service-accounts/{account_id}/tokens'', ''service_token.issue'', ''service_account'', Some ''account_id''),
      (''POST'', ''/api/v1/service-tokens/{token_id}/revoke'', ''service_token.revoke'', ''service_token'', Some ''token_id''),
      (''POST'', ''/api/v1/subnets/{subnet_id}/allocations'', ''ip_allocation.create'', ''subnet'', Some ''subnet_id''),
      (''DELETE'', ''/api/v1/allocations/{allocation_id}'', ''ip_allocation.release'', ''ip_allocation'', Some ''allocation_id''),
      (''POST'', ''/api/v1/backup/import'', ''backup.import'', ''controller'', None),
      (''POST'', ''/api/v1/nodes/{node_id}/snapshots'', ''node_snapshot.create'', ''node'', Some ''node_id''),
      (''POST'', ''/api/v1/node-snapshots/{snapshot_id}/restore'', ''node_snapshot.restore'', ''node_snapshot'', Some ''snapshot_id'')]"

definition match_rule :: "string \<Rightarrow> string \<Rightarrow> (string \<times> string \<times> string option) option" where
  "match_rule method route =
     map_option (\<lambda>(_, _, rest). rest) (find (\<lambda>(m, t, _). m = method \<and> t = route) audit_rules)"

definition audit_actor :: "audit_request \<Rightarrow> string option" where
  "audit_actor q = (case (arq_principal q, arq_source_task q) of
       (Some p, None) \<Rightarrow> Some (''sa:'' @ pri_name p)
     | (Some p, Some t) \<Rightarrow> Some (''sa:'' @ pri_name p @ ''+testum:'' @ t)
     | (None, Some t) \<Rightarrow> Some (''testum:'' @ t)
     | (None, None) \<Rightarrow> None)"

definition suppressM :: "('ag, 'a) admin_act \<Rightarrow> ('ag, unit) admin_act" where
  "suppressM m s = (Inr (), snd (m s))"

text \<open>The id of the resource: the path parameter, or else the resource of the operation.\<close>

definition audit_resource_id :: "string option \<Rightarrow> audit_request \<Rightarrow> 'ag world \<Rightarrow> string option" where
  "audit_resource_id id_param q w =
     (case Option.bind id_param (dget (arq_params q)) of
        Some i \<Rightarrow> Some i
      | None \<Rightarrow> map_option (\<lambda>op. ref_id (op_resource op)) (Option.bind (arq_operation_id q) (dget (w_operations w))))"

definition audit_payload :: "string \<Rightarrow> string option \<Rightarrow> audit_request \<Rightarrow> 'ag world \<Rightarrow> payload" where
  "audit_payload resource_type rid q w =
     (case arq_source_task q of Some t \<Rightarrow> if t = [] then [] else [(''source_task_id'', JStr t)] | None \<Rightarrow> [])
     @ (case arq_operation_id q of Some i \<Rightarrow> [(''operation_id'', JStr i)] | None \<Rightarrow> [])
     @ (case Option.bind (if resource_type = ''network'' then Option.bind rid (dget (w_networks w)) else None) net_project_id of
          Some p \<Rightarrow> [(''project_id'', JStr p)] | None \<Rightarrow> [])"

definition audit_dispatch :: "env \<Rightarrow> audit_request \<Rightarrow> int \<Rightarrow> ('ag, unit) admin_act" where
  "audit_dispatch env q status =
     (case match_rule (arq_method q) (arq_route q) of
        None \<Rightarrow> returnM ()
      | Some (action, resource_type, id_param) \<Rightarrow>
          bindM (getM (\<lambda>s. audit_resource_id id_param q (fst s))) (\<lambda>rid.
          bindM (getM (\<lambda>s. audit_payload resource_type rid q (fst s))) (\<lambda>payload.
          suppressM (record_audit env
            \<lparr>rac_action = action, rac_resource_type = resource_type, rac_resource_id = rid,
             rac_actor = audit_actor q, rac_http_status = Some status, rac_request_id = arq_request_id q,
             rac_payload = payload\<rparr>))))"

text \<open>Every action of the table passes the checks of an audit event, so no recording is refused.\<close>

lemma audit_rules_pass:
  assumes "match_rule m t = Some (action, rt, p)"
  shows "action \<noteq> []" "CHR ''.'' \<in> set action" "rt \<noteq> []"
proof -
  obtain x where x: "find (\<lambda>(m', t', _). m' = m \<and> t' = t) audit_rules = Some x" "(\<lambda>(_, _, rest). rest) x = (action, rt, p)"
    using assms unfolding match_rule_def by (rule map_option_eq_Some [THEN iffD1, THEN exE]) blast
  have "x \<in> set audit_rules" using x(1) unfolding find_Some_iff by (metis nth_mem)
  moreover have "list_all (\<lambda>(_, _, a, r, _). a \<noteq> [] \<and> CHR ''.'' \<in> set a \<and> r \<noteq> []) audit_rules" by code_simp
  ultimately have "(\<lambda>(_, _, a, r, _). a \<noteq> [] \<and> CHR ''.'' \<in> set a \<and> r \<noteq> []) x" by (simp only: list_all_iff)
  then show "action \<noteq> []" "CHR ''.'' \<in> set action" "rt \<noteq> []" using x(2) by (cases x; simp)+
qed

lemma audit_dispatch_records:
  assumes "match_rule (arq_method q) (arq_route q) = Some (action, rt, p)"
  shows "audit_dispatch env q status s = (Inr (), (fst s)\<lparr>w_ids := w_ids (fst s) + 1, w_clock := w_clock (fst s) + 1\<rparr>,
    audit_save \<lparr>aud_id = factory_id AuditEventId (e_rnd env (w_ids (fst s))), aud_at = e_now env (w_clock (fst s)),
      aud_action = action, aud_resource_type = rt, aud_resource_id = audit_resource_id p q (fst s),
      aud_actor = audit_actor q, aud_http_status = Some status, aud_request_id = arq_request_id q,
      aud_payload = audit_payload rt (audit_resource_id p q (fst s)) q (fst s)\<rparr> (snd s))"
  using audit_rules_pass [OF assms]
  by (cases s) (simp add: audit_dispatch_def assms suppressM_def record_audit_def bindM_run on_ctl_def zoomM_run
      nowM_def freshM_def mk_audit_event_def require_def writeA_def)

lemma audit_dispatch_ignores:
  "match_rule (arq_method q) (arq_route q) = None \<Longrightarrow> audit_dispatch env q status s = (Inr (), s)"
  by (simp add: audit_dispatch_def)

subsection \<open>Node snapshots\<close>

text \<open>
  What the use cases call on the agent port: \<open>snapshot\<close> returns the agent's id of the snapshot and the
  hash of the state in it, \<open>restore\<close> brings the node back to it.
\<close>

record 'ag snapshot_ops =
  sno_snapshot :: "string \<Rightarrow> string option \<Rightarrow> ('ag, exc, string \<times> string) act"
  sno_restore :: "string \<Rightarrow> string \<Rightarrow> ('ag, exc, unit) act"

definition on_agent :: "('ag, exc, 'a) act \<Rightarrow> ('ag, 'a) admin_act" where
  "on_agent m = on_ctl (zoomM w_agent (\<lambda>a w. w\<lparr>w_agent := a\<rparr>) m)"

definition require_node_known :: "string \<Rightarrow> ('ag, unit) admin_act" where
  "require_node_known nid =
     bindM (getM (\<lambda>s. dget (w_nodes (fst s)) nid)) (\<lambda>r. guardM (r \<noteq> None) err_not_found)"

definition take_node_snapshot ::
  "env \<Rightarrow> 'ag snapshot_ops \<Rightarrow> string \<Rightarrow> string option \<Rightarrow> ('ag, node_snapshot) admin_act" where
  "take_node_snapshot env ag nid label =
     bindM (require_node_known nid) (\<lambda>_.
     bindM (on_agent (sno_snapshot ag nid label)) (\<lambda>(sid, hash).
     bindM (freshA env NodeSnapshotId) (\<lambda>i.
     bindM (nowA env) (\<lambda>now.
     bindM (liftM (mk_node_snapshot
       \<lparr>ns_id = i, ns_node_id = nid, ns_agent_snapshot_id = sid, ns_state_hash = hash,
        ns_created_at = now, ns_label = label\<rparr>)) (\<lambda>snap.
     bindM (writeA (snapshot_save snap)) (\<lambda>_. returnM snap))))))"

definition list_node_snapshots :: "string \<Rightarrow> ('ag, node_snapshot list) admin_act" where
  "list_node_snapshots nid = bindM (require_node_known nid) (\<lambda>_. readA (snapshots_for_node nid))"

definition get_node_snapshot :: "string \<Rightarrow> ('ag, node_snapshot) admin_act" where
  "get_node_snapshot i = findA ad_snapshots i"

definition restore_node_snapshot :: "'ag snapshot_ops \<Rightarrow> string \<Rightarrow> ('ag, node_snapshot) admin_act" where
  "restore_node_snapshot ag i =
     bindM (findA ad_snapshots i) (\<lambda>snap.
     bindM (on_agent (sno_restore ag (ns_node_id snap) (ns_agent_snapshot_id snap))) (\<lambda>_.
     returnM snap))"

end
