(* ===== verification/Admin_Safety.thy ===== *)
theory Admin_Safety
  imports Admin_Use_Cases Catalogue_Invariants
begin

text \<open>
  The administrative calls as one type of requests, the states they lead to, and what stays true of
  the administrative stores: every record stands under its own id and passes its constructor, names
  of accounts and slugs of projects are unique, and every token and membership belongs to an account.
\<close>

datatype admin_call =
    Create_Account create_account_cmd
  | Disable_Account string
  | Issue_Service_Token string issue_service_token_cmd
  | Revoke_Service_Token string
  | Authenticate string
  | Create_Project create_project_cmd
  | Update_Project update_project_cmd
  | Delete_Project string
  | Add_Member add_member_cmd
  | Remove_Member string string
  | Record_Audit record_audit_cmd
  | Take_Snapshot string "string option"
  | Restore_Snapshot string

fun run_admin :: "'ag wiring \<Rightarrow> 'ag snapshot_ops \<Rightarrow> admin_call \<Rightarrow> ('ag, unit) admin_act" where
  "run_admin c sn (Create_Account cmd) = voidM (create_service_account (wr_env c) cmd)"
| "run_admin c sn (Disable_Account i) = voidM (disable_service_account (wr_env c) i)"
| "run_admin c sn (Issue_Service_Token p cmd) = voidM (issue_service_token (wr_env c) (wr_hash c) p cmd)"
| "run_admin c sn (Revoke_Service_Token i) = voidM (revoke_service_token (wr_env c) i)"
| "run_admin c sn (Authenticate p) = voidM (authenticate_principal (wr_env c) (wr_hash c) p)"
| "run_admin c sn (Create_Project cmd) = voidM (create_project (wr_env c) cmd)"
| "run_admin c sn (Update_Project cmd) = voidM (update_project (wr_env c) cmd)"
| "run_admin c sn (Delete_Project i) = delete_project i"
| "run_admin c sn (Add_Member cmd) = voidM (add_project_member (wr_env c) cmd)"
| "run_admin c sn (Remove_Member p i) = remove_project_member p i"
| "run_admin c sn (Record_Audit cmd) = voidM (record_audit (wr_env c) cmd)"
| "run_admin c sn (Take_Snapshot n l) = voidM (take_node_snapshot (wr_env c) sn n l)"
| "run_admin c sn (Restore_Snapshot i) = voidM (restore_node_snapshot sn i)"

text \<open>
  The states that follow a state: administrative calls allowed by P, with anything the rest of the
  controller does to the shared world in between, of which only is used that no id is drawn twice.
\<close>

inductive admin_later ::
  "'ag wiring \<Rightarrow> 'ag snapshot_ops \<Rightarrow> (admin_call \<Rightarrow> bool) \<Rightarrow> 'ag world \<times> admin \<Rightarrow> 'ag world \<times> admin \<Rightarrow> bool"
  for c sn P s where
  now: "admin_later c sn P s s"
| called: "admin_later c sn P s s1 \<Longrightarrow> P call \<Longrightarrow> run_admin c sn call s1 = (r, s2) \<Longrightarrow> admin_later c sn P s s2"
| elsewhere: "admin_later c sn P s (w, a) \<Longrightarrow> w_ids w \<le> w_ids w' \<Longrightarrow> admin_later c sn P s (w', a)"

abbreviation any_admin :: "admin_call \<Rightarrow> bool" where
  "any_admin \<equiv> \<lambda>_. True"

subsection \<open>The invariant\<close>

definition account_valid :: "service_account \<Rightarrow> bool" where
  "account_valid x \<longleftrightarrow> mk_service_account x = Inr x"

definition project_valid :: "project \<Rightarrow> bool" where
  "project_valid p \<longleftrightarrow> mk_project p = Inr p"

definition audit_valid :: "audit_event \<Rightarrow> bool" where
  "audit_valid e \<longleftrightarrow> mk_audit_event e = Inr e"

definition snapshot_valid :: "node_snapshot \<Rightarrow> bool" where
  "snapshot_valid x \<longleftrightarrow> mk_node_snapshot x = Inr x"

lemma mk_valid:
  "mk_service_account x = Inr y \<Longrightarrow> y = x \<and> account_valid x"
  "mk_project p = Inr q \<Longrightarrow> q = p \<and> project_valid p"
  "mk_audit_event e = Inr f \<Longrightarrow> f = e \<and> audit_valid e"
  "mk_node_snapshot m = Inr n \<Longrightarrow> n = m \<and> snapshot_valid m"
  by (auto simp: mk_service_account_def mk_project_def mk_audit_event_def mk_node_snapshot_def
      account_valid_def project_valid_def audit_valid_def snapshot_valid_def bindE_Inr_iff)

definition tokens_owned :: "(string, service_account) dict \<Rightarrow> (string, service_token) dict \<Rightarrow> bool" where
  "tokens_owned as ts \<longleftrightarrow> (\<forall>k t. dget ts k = Some t \<longrightarrow> dget as (stk_account_id t) \<noteq> None)"

definition memberships_ok ::
  "(string, service_account) dict \<Rightarrow> (string \<times> string, project_member) dict \<Rightarrow> bool" where
  "memberships_ok as ms \<longleftrightarrow> dwf ms \<and> (\<forall>k m. dget ms k = Some m \<longrightarrow>
     k = (pm_project_id m, pm_account_id m) \<and> dget as (pm_account_id m) \<noteq> None)"

definition admin_ok :: "env \<Rightarrow> nat \<Rightarrow> admin \<Rightarrow> bool" where
  "admin_ok env n a \<longleftrightarrow>
     shelf_ok env n ServiceAccountId sa_id account_valid (ad_accounts a) \<and>
     unique_by sa_name (ad_accounts a) \<and>
     shelf_ok env n ServiceTokenId stk_id anything (ad_tokens a) \<and>
     tokens_owned (ad_accounts a) (ad_tokens a) \<and>
     shelf_ok env n ProjectId prj_id project_valid (ad_projects a) \<and>
     unique_by prj_slug (ad_projects a) \<and>
     memberships_ok (ad_accounts a) (ad_members a) \<and>
     shelf_ok env n AuditEventId aud_id audit_valid (ad_audit a) \<and>
     shelf_ok env n NodeSnapshotId ns_id snapshot_valid (ad_snapshots a)"

lemma empty_admin_ok: "admin_ok env n empty_admin"
  by (simp add: admin_ok_def empty_admin_def shelf_ok_def unique_by_def tokens_owned_def memberships_ok_def)

lemma admin_ok_mono: "admin_ok env n a \<Longrightarrow> n \<le> n' \<Longrightarrow> admin_ok env n' a"
  unfolding admin_ok_def by (blast intro: shelf_ok_mono)

text \<open>A new entry with a key of its own, and one that keeps the key of the entry it replaces.\<close>

lemma find_dvalues_None:
  assumes "find P (dvalues d) = None" "dget d k = Some v"
  shows "\<not> P v"
proof -
  have "v \<in> set (dvalues d)" using map_of_SomeD [OF assms(2)] by force
  then show ?thesis using assms(1) by (auto simp: find_None_iff)
qed

lemma unique_by_new:
  assumes "unique_by f d" "find (\<lambda>x. f x = f v) (dvalues d) = None"
  shows "unique_by f (dset k v d)"
  using assms(1) find_dvalues_None [OF assms(2)]
  by (auto simp: unique_by_def split: if_splits) metis

lemma unique_by_kept:
  assumes "unique_by f d" "dget d k = Some u" "f v = f u"
  shows "unique_by f (dset k v d)"
  using assms by (auto simp: unique_by_def split: if_splits)

lemma unique_by_dpop: "unique_by f d \<Longrightarrow> unique_by f (dpop k d)"
  by (auto simp: unique_by_def split: if_splits)

lemma owned_account_save: "tokens_owned as ts \<Longrightarrow> tokens_owned (dset k v as) ts"
  by (auto simp: tokens_owned_def)

lemma memberships_account_save:
  assumes "memberships_ok as ms"
  shows "memberships_ok (dset k v as) ms"
proof -
  have "dget (dset k v as) i \<noteq> None" if "dget as i \<noteq> None" for i using that by simp
  then show ?thesis using assms unfolding memberships_ok_def by blast
qed

lemma memberships_save:
  assumes "memberships_ok as ms" "dget as (pm_account_id m) \<noteq> None"
  shows "memberships_ok as (dset (pm_project_id m, pm_account_id m) m ms)"
  unfolding memberships_ok_def
proof (intro conjI allI impI)
  show "dwf (dset (pm_project_id m, pm_account_id m) m ms)" using assms(1) by (simp add: memberships_ok_def)
next
  fix k x assume "dget (dset (pm_project_id m, pm_account_id m) m ms) k = Some x"
  then have "(k = (pm_project_id m, pm_account_id m) \<and> x = m) \<or> dget ms k = Some x"
    unfolding dget_dset by (metis fun_upd_apply option.inject)
  then show "k = (pm_project_id x, pm_account_id x)" "dget as (pm_account_id x) \<noteq> None"
    using assms unfolding memberships_ok_def by blast+
qed

lemma memberships_dpop: "memberships_ok as ms \<Longrightarrow> memberships_ok as (dpop k ms)"
  unfolding memberships_ok_def by (metis dget_dpop_apply dwf_dpop option.distinct(1))

lemma account_saved:
  assumes "admin_ok env n a" "drawn env n ServiceAccountId (sa_id x)" "account_valid x"
    and "unique_by sa_name (dset (sa_id x) x (ad_accounts a))"
  shows "admin_ok env n (account_save x a)"
  using assms by (simp add: admin_ok_def account_save_def shelf_ok_keep owned_account_save memberships_account_save)

lemma stoken_saved:
  assumes "admin_ok env n a" "drawn env n ServiceTokenId (stk_id t)" "dget (ad_accounts a) (stk_account_id t) \<noteq> None"
  shows "admin_ok env n (stoken_save t a)"
  using assms by (auto simp: admin_ok_def stoken_save_def tokens_owned_def intro: shelf_ok_keep)

lemma project_saved:
  assumes "admin_ok env n a" "drawn env n ProjectId (prj_id p)" "project_valid p"
    and "unique_by prj_slug (dset (prj_id p) p (ad_projects a))"
  shows "admin_ok env n (project_save p a)"
  using assms by (simp add: admin_ok_def project_save_def shelf_ok_keep)

lemma member_saved:
  assumes "admin_ok env n a" "dget (ad_accounts a) (pm_account_id m) \<noteq> None"
  shows "admin_ok env n (member_save m a)"
  using assms by (simp add: admin_ok_def member_save_def memberships_save)

lemma stored_drawn:
  assumes "shelf_ok env n kind ident valid d" "dget d k = Some v"
  shows "drawn env n kind (ident v)" "ident v = k" "valid v"
  using assms by (auto simp: shelf_ok_def)


subsection \<open>Every call keeps it\<close>

text \<open>An office is the shared world with the administrative stores.\<close>

definition office_ok :: "'ag wiring \<Rightarrow> 'ag world \<times> admin \<Rightarrow> bool" where
  "office_ok c s \<longleftrightarrow> admin_ok (wr_env c) (w_ids (fst s)) (snd s)"

lemma office_world:
  "office_ok c s \<Longrightarrow> w_ids (fst s) \<le> w_ids (fst s') \<Longrightarrow> snd s' = snd s \<Longrightarrow> office_ok c s'"
  by (auto simp: office_ok_def intro: admin_ok_mono)

lemma on_agent_run:
  "\<exists>r g. on_agent m s = (r, ((fst s)\<lparr>w_agent := g\<rparr>, snd s))"
  by (auto simp: on_agent_def on_ctl_def zoomM_def split_beta)

lemma keeps_office:
  assumes "m s = (r, s')" "office_ok c s"
    and "\<And>e. r = Inl e \<Longrightarrow> snd s' = snd s" "w_ids (fst s) \<le> w_ids (fst s')"
    and "\<And>x. r = Inr x \<Longrightarrow> admin_ok (wr_env c) (w_ids (fst s')) (snd s')"
  shows "office_ok c s'"
  using assms by (cases r) (auto simp: office_ok_def intro: admin_ok_mono)

lemma create_account_run:
  "create_service_account env cmd s =
     (let name = py_strip (cac_name cmd);
          s2 = ((fst s)\<lparr>w_clock := w_clock (fst s) + 1, w_ids := w_ids (fst s) + 1\<rparr>, snd s);
          x = \<lparr>sa_id = factory_id ServiceAccountId (e_rnd env (w_ids (fst s))), sa_name = name,
               sa_role = cac_role cmd, sa_created_at = e_now env (w_clock (fst s)),
               sa_updated_at = e_now env (w_clock (fst s)), sa_created_by = cac_created_by cmd,
               sa_description = cac_description cmd, sa_disabled_at = None, sa_labels = cac_labels cmd\<rparr>
      in if name = [] then (Inl err_validation, s)
         else if account_by_name name (snd s) \<noteq> None then (Inl err_conflict, s)
         else case mk_service_account x of
                Inl e \<Rightarrow> (Inl e, s2)
              | Inr y \<Rightarrow> (Inr y, (fst s2, account_save y (snd s))))"
  by (simp add: create_service_account_def Let_def bindM_guard bindM_lift split: sum.split)

lemma create_account_cases:
  assumes "create_service_account env cmd s = (r, s')"
  obtains e where "r = Inl e" "snd s' = snd s" "w_ids (fst s) \<le> w_ids (fst s')"
  | x where "r = Inr x" "account_by_name (sa_name x) (snd s) = None" "account_valid x"
      "sa_id x = factory_id ServiceAccountId (e_rnd env (w_ids (fst s)))" "sa_disabled_at x = None"
      "sa_role x = cac_role cmd" "snd s' = account_save x (snd s)" "w_ids (fst s') = w_ids (fst s) + 1"
proof -
  note run = assms [unfolded create_account_run Let_def]
  show ?thesis
  proof (cases r)
    case (Inl e)
    then show ?thesis using run by (intro that(1) [of e]) (auto split: if_splits sum.splits)
  next
    case (Inr x)
    then have "mk_service_account x = Inr x" "account_by_name (sa_name x) (snd s) = None"
        "sa_id x = factory_id ServiceAccountId (e_rnd env (w_ids (fst s)))" "sa_disabled_at x = None"
        "sa_role x = cac_role cmd" "snd s' = account_save x (snd s)" "w_ids (fst s') = w_ids (fst s) + 1"
      using run by (auto split: if_splits sum.splits dest!: mk_valid(1) simp: account_valid_def)
    then show ?thesis using Inr by (intro that(2)) (simp_all add: account_valid_def)
  qed
qed

lemma create_account_keeps:
  assumes "office_ok c s" "inj (e_rnd (wr_env c))" "create_service_account (wr_env c) cmd s = (r, s')"
  shows "office_ok c s'"
  using assms(3)
proof (cases rule: create_account_cases)
  case (1 e)
  then show ?thesis using assms(1) by (auto intro: office_world)
next
  case (2 x)
  have ok: "admin_ok (wr_env c) (w_ids (fst s')) (snd s)"
    using assms(1) 2 by (auto simp: office_ok_def intro: admin_ok_mono)
  have "drawn (wr_env c) (w_ids (fst s')) ServiceAccountId (sa_id x)" using 2 by (simp add: drawn_last)
  moreover have "unique_by sa_name (dset (sa_id x) x (ad_accounts (snd s)))"
    using ok 2 by (intro unique_by_new) (simp_all add: admin_ok_def account_by_name_def)
  ultimately show ?thesis using account_saved [OF ok] 2 by (simp add: office_ok_def)
qed

text \<open>A write of an entry that keeps the identity of the stored one.\<close>

lemma account_replaced:
  assumes "admin_ok env n a" "dget (ad_accounts a) i = Some x" "sa_id y = sa_id x" "sa_name y = sa_name x"
  shows "admin_ok env n (account_save y a)"
proof -
  have st: "drawn env n ServiceAccountId (sa_id x)" "sa_id x = i" "account_valid x"
    using assms(1,2) stored_drawn [of env n ServiceAccountId sa_id account_valid "ad_accounts a" i x]
    by (simp_all add: admin_ok_def)
  have "account_valid y" using st(3) assms(4) by (simp add: account_valid_def mk_service_account_def bindE_Inr_iff)
  moreover have "unique_by sa_name (dset (sa_id y) y (ad_accounts a))"
    using assms st(2) by (intro unique_by_kept) (simp_all add: admin_ok_def)
  ultimately show ?thesis using account_saved [OF assms(1)] st assms(3) by simp
qed

lemma stoken_replaced:
  assumes "admin_ok env n a" "dget (ad_tokens a) i = Some t" "stk_id u = stk_id t" "stk_account_id u = stk_account_id t"
  shows "admin_ok env n (stoken_save u a)"
proof -
  have "drawn env n ServiceTokenId (stk_id t)" "dget (ad_accounts a) (stk_account_id t) \<noteq> None"
    using assms(1,2) stored_drawn [of env n ServiceTokenId stk_id anything "ad_tokens a" i t]
    by (auto simp: admin_ok_def tokens_owned_def)
  then show ?thesis using stoken_saved [OF assms(1)] assms(3,4) by simp
qed

lemma disable_run:
  "disable_service_account env i s =
     (case dget (ad_accounts (snd s)) i of None \<Rightarrow> (Inl err_not_found, s)
      | Some x \<Rightarrow> let y = sa_disable (e_now env (w_clock (fst s))) x in
          (Inr y, (fst s)\<lparr>w_clock := w_clock (fst s) + 1\<rparr>, account_save y (snd s)))"
  by (simp add: disable_service_account_def Let_def split: option.split)

lemma revoke_run:
  "revoke_service_token env i s =
     (case dget (ad_tokens (snd s)) i of None \<Rightarrow> (Inl err_not_found, s)
      | Some t \<Rightarrow> let u = stk_revoke (e_now env (w_clock (fst s))) t in
          (Inr u, (fst s)\<lparr>w_clock := w_clock (fst s) + 1\<rparr>, stoken_save u (snd s)))"
  by (simp add: revoke_service_token_def Let_def split: option.split)

lemma sa_disable_same [simp]:
  "sa_id (sa_disable t x) = sa_id x" "sa_name (sa_disable t x) = sa_name x"
  "sa_role (sa_disable t x) = sa_role x" "sa_disabled_at (sa_disable t x) \<noteq> None"
  by (auto simp: sa_disable_def)

lemma stk_revoke_same [simp]:
  "stk_id (stk_revoke n t) = stk_id t" "stk_account_id (stk_revoke n t) = stk_account_id t"
  "stk_token_hash (stk_revoke n t) = stk_token_hash t" "stk_revoked_at (stk_revoke n t) \<noteq> None"
  by (auto simp: stk_revoke_def)

lemma stk_touch_same [simp]:
  "stk_id (stk_touch n t) = stk_id t" "stk_account_id (stk_touch n t) = stk_account_id t"
  "stk_token_hash (stk_touch n t) = stk_token_hash t" "stk_revoked_at (stk_touch n t) = stk_revoked_at t"
  by (simp_all add: stk_touch_def)

lemma disable_keeps:
  assumes "office_ok c s" "disable_service_account (wr_env c) i s = (r, s')"
  shows "office_ok c s'"
  using assms account_replaced [of "wr_env c" "w_ids (fst s)" "snd s" i]
  by (auto simp: disable_run Let_def office_ok_def split: option.splits)

lemma revoke_keeps:
  assumes "office_ok c s" "revoke_service_token (wr_env c) i s = (r, s')"
  shows "office_ok c s'"
  using assms stoken_replaced [of "wr_env c" "w_ids (fst s)" "snd s" i]
  by (auto simp: revoke_run Let_def office_ok_def split: option.splits)

lemma issue_cases:
  assumes "issue_service_token env h p cmd s = (r, s')"
  obtains e where "r = Inl e" "s' = s"
  | t acc where "r = Inr t" "dget (ad_accounts (snd s)) (istc_account_id cmd) = Some acc" "sa_is_active acc"
      "stk_id t = factory_id ServiceTokenId (e_rnd env (w_ids (fst s)))"
      "stk_account_id t = istc_account_id cmd" "stk_token_hash t = h p" "stk_revoked_at t = None"
      "stk_expires_at t = map_option (\<lambda>n. stk_issued_at t + seconds n) (istc_ttl cmd)"
      "snd s' = stoken_save t (snd s)" "w_ids (fst s') = w_ids (fst s) + 1"
proof (cases "dget (ad_accounts (snd s)) (istc_account_id cmd)")
  case None
  then show ?thesis using assms by (intro that(1)) (auto simp: issue_service_token_def)
next
  case (Some acc)
  show ?thesis
  proof (cases "sa_is_active acc \<and> (case istc_ttl cmd of None \<Rightarrow> True | Some n \<Rightarrow> \<not> n \<le> 0)")
    case False
    with assms Some have "\<exists>e. r = Inl e \<and> s' = s"
      by (auto simp: issue_service_token_def bindM_guard split: if_splits)
    then show ?thesis using that(1) by blast
  next
    case True
    with assms Some have "\<exists>t. r = Inr t \<and> stk_id t = factory_id ServiceTokenId (e_rnd env (w_ids (fst s))) \<and>
        stk_account_id t = istc_account_id cmd \<and> stk_token_hash t = h p \<and> stk_revoked_at t = None \<and>
        stk_expires_at t = map_option (\<lambda>n. stk_issued_at t + seconds n) (istc_ttl cmd) \<and>
        snd s' = stoken_save t (snd s) \<and> w_ids (fst s') = w_ids (fst s) + 1"
      by (auto simp: issue_service_token_def bindM_guard Let_def)
    then show ?thesis using that(2) Some True by blast
  qed
qed

lemma issue_keeps:
  assumes "office_ok c s" "issue_service_token (wr_env c) (wr_hash c) p cmd s = (r, s')"
  shows "office_ok c s'"
  using assms(2)
proof (cases rule: issue_cases)
  case (1 e)
  then show ?thesis using assms(1) by simp
next
  case (2 t acc)
  have "admin_ok (wr_env c) (w_ids (fst s')) (snd s)"
    using assms(1) 2 by (auto simp: office_ok_def intro: admin_ok_mono)
  moreover have "drawn (wr_env c) (w_ids (fst s')) ServiceTokenId (stk_id t)" using 2 by (simp add: drawn_last)
  ultimately show ?thesis using stoken_saved [of _ _ "snd s" t] 2 by (simp add: office_ok_def)
qed

text \<open>
  A successful authentication: a stored token with the hash of the text, valid now, of an existing
  and active account, whose id, name and role make the principal; only the token's last use is
  written. Every other outcome is the one error, and writes nothing.
\<close>

definition accepts :: "(string \<Rightarrow> string) \<Rightarrow> string \<Rightarrow> time \<Rightarrow> admin \<Rightarrow> service_token \<Rightarrow> service_account \<Rightarrow> bool" where
  "accepts h p now a t acc \<longleftrightarrow> p \<noteq> [] \<and> stoken_by_hash (h p) a = Some t \<and> stk_is_valid now t \<and>
     dget (ad_accounts a) (stk_account_id t) = Some acc \<and> sa_is_active acc"

lemma bindM_of_option:
  "bindM (liftM (of_option e v)) f s = (case v of None \<Rightarrow> (Inl e, s) | Some x \<Rightarrow> f x s)"
  by (simp split: option.split)

lemma authenticate_run:
  "authenticate_principal env h p s =
     (let now = e_now env (w_clock (fst s)); w1 = (fst s)\<lparr>w_clock := w_clock (fst s) + 1\<rparr>;
          refused = Inl err_unauthorized
      in if p = [] then (refused, s)
         else case stoken_by_hash (h p) (snd s) of
           None \<Rightarrow> (refused, s)
         | Some t \<Rightarrow>
             if \<not> stk_is_valid now t then (refused, w1, snd s)
             else case dget (ad_accounts (snd s)) (stk_account_id t) of
               None \<Rightarrow> (refused, w1, snd s)
             | Some acc \<Rightarrow>
                 if \<not> sa_is_active acc then (refused, w1, snd s)
                 else (Inr \<lparr>pri_account_id = sa_id acc, pri_name = sa_name acc, pri_role = sa_role acc\<rparr>,
                       w1, stoken_save (stk_touch now t) (snd s)))"
  by (simp add: authenticate_principal_def bindM_guard bindM_of_option Let_def split: option.split)

lemma authenticate_cases:
  assumes "authenticate_principal env h p s = (r, s')"
  obtains "r = Inl err_unauthorized" "snd s' = snd s" "w_ids (fst s') = w_ids (fst s)"
      "\<nexists>t acc. accepts h p (e_now env (w_clock (fst s))) (snd s) t acc"
  | t acc where "accepts h p (e_now env (w_clock (fst s))) (snd s) t acc"
      "r = Inr \<lparr>pri_account_id = sa_id acc, pri_name = sa_name acc, pri_role = sa_role acc\<rparr>"
      "snd s' = stoken_save (stk_touch (e_now env (w_clock (fst s))) t) (snd s)" "w_ids (fst s') = w_ids (fst s)"
proof -
  note run = assms [unfolded authenticate_run Let_def]
  show ?thesis
  proof (cases "\<exists>t acc. accepts h p (e_now env (w_clock (fst s))) (snd s) t acc")
    case False
    then have "r = Inl err_unauthorized \<and> snd s' = snd s \<and> w_ids (fst s') = w_ids (fst s)"
      using run by (auto simp: accepts_def split: if_splits option.splits)
    then show ?thesis using that(1) False by blast
  next
    case True
    then obtain t acc where acc: "accepts h p (e_now env (w_clock (fst s))) (snd s) t acc" by blast
    then show ?thesis using run by (intro that(2) [OF acc]) (auto simp: accepts_def)
  qed
qed

lemma stoken_by_hash_stored:
  assumes "admin_ok env n a" "stoken_by_hash hh a = Some t"
  shows "dget (ad_tokens a) (stk_id t) = Some t \<and> stk_token_hash t = hh"
proof -
  have "t \<in> set (dvalues (ad_tokens a))" "stk_token_hash t = hh"
    using assms(2) by (auto simp: stoken_by_hash_def find_Some_iff)
  moreover have "shelf_ok env n ServiceTokenId stk_id anything (ad_tokens a)" using assms(1) by (simp add: admin_ok_def)
  ultimately show ?thesis by (auto simp: shelf_ok_def dvalues_dget)
qed

lemma authenticate_keeps:
  assumes "office_ok c s" "authenticate_principal (wr_env c) (wr_hash c) p s = (r, s')"
  shows "office_ok c s'"
  using assms(2)
proof (cases rule: authenticate_cases)
  case 1
  then show ?thesis using assms(1) by (simp add: office_ok_def)
next
  case (2 t acc)
  have ok: "admin_ok (wr_env c) (w_ids (fst s)) (snd s)" using assms(1) by (simp add: office_ok_def)
  have "dget (ad_tokens (snd s)) (stk_id t) = Some t"
    using stoken_by_hash_stored [OF ok] 2(1) unfolding accepts_def by blast
  then show ?thesis using stoken_replaced [OF ok] 2(3,4) by (simp add: office_ok_def)
qed

lemma create_project_keeps:
  assumes "office_ok c s" "create_project (wr_env c) cmd s = (r, s')"
  shows "office_ok c s'"
proof (cases r)
  case (Inl e)
  then have "snd s' = snd s" "w_ids (fst s) \<le> w_ids (fst s')"
    using assms(2) by (auto simp: create_project_def bindM_guard bindM_lift split: if_splits sum.splits)
  then show ?thesis using office_world [OF assms(1)] by simp
next
  case (Inr p)
  then have p: "project_valid p" "project_by_slug (prj_slug p) (snd s) = None"
      "prj_id p = factory_id ProjectId (e_rnd (wr_env c) (w_ids (fst s)))"
      "snd s' = project_save p (snd s)" "w_ids (fst s') = w_ids (fst s) + 1"
    using assms(2)
    by (auto simp: create_project_def bindM_guard bindM_lift split: if_splits sum.splits dest!: mk_valid(2))
  have ok: "admin_ok (wr_env c) (w_ids (fst s')) (snd s)"
    using assms(1) p(5) by (auto simp: office_ok_def intro: admin_ok_mono)
  moreover have "unique_by prj_slug (dset (prj_id p) p (ad_projects (snd s)))"
    using ok p(2) by (intro unique_by_new) (simp_all add: admin_ok_def project_by_slug_def)
  ultimately show ?thesis using project_saved [OF ok _ p(1)] p by (simp add: office_ok_def drawn_last)
qed

lemma update_project_keeps:
  assumes "office_ok c s" "update_project (wr_env c) cmd s = (r, s')"
  shows "office_ok c s'"
proof (cases r)
  case (Inl e)
  then have "snd s' = snd s" "w_ids (fst s) \<le> w_ids (fst s')"
    using assms(2) by (auto simp: update_project_def bindM_lift split: option.splits sum.splits)
  then show ?thesis using office_world [OF assms(1)] by simp
next
  case (Inr q)
  then obtain p where p: "dget (ad_projects (snd s)) (upc_project_id cmd) = Some p"
      "prj_update (upc_name cmd) (upc_description cmd) (upc_labels cmd) (e_now (wr_env c) (w_clock (fst s))) p = Inr q"
      "snd s' = project_save q (snd s)" "w_ids (fst s') = w_ids (fst s)"
    using assms(2) by (auto simp: update_project_def bindM_lift split: option.splits sum.splits)
  have ok: "admin_ok (wr_env c) (w_ids (fst s)) (snd s)" using assms(1) by (simp add: office_ok_def)
  then have st: "drawn (wr_env c) (w_ids (fst s)) ProjectId (prj_id p)" "prj_id p = upc_project_id cmd" "project_valid p"
    using stored_drawn [OF _ p(1), of "wr_env c" "w_ids (fst s)" ProjectId prj_id project_valid]
    by (auto simp: admin_ok_def)
  have q: "project_valid q" "prj_id q = prj_id p" "prj_slug q = prj_slug p"
    using prj_update_keeps [OF st(3) [unfolded project_valid_def] p(2)] by (simp_all add: project_valid_def)
  have "unique_by prj_slug (dset (prj_id q) q (ad_projects (snd s)))"
    using ok p(1) q st(2) by (intro unique_by_kept) (simp_all add: admin_ok_def)
  then show ?thesis using project_saved [OF ok _ q(1)] st(1) q(2) p(3,4) by (simp add: office_ok_def)
qed

lemma delete_project_keeps:
  assumes "office_ok c s" "delete_project i s = (r, s')"
  shows "office_ok c s'"
  using assms
  by (auto simp: delete_project_def office_ok_def admin_ok_def split: option.splits
      intro: shelf_ok_discard unique_by_dpop)

lemma add_member_keeps:
  assumes "office_ok c s" "add_project_member (wr_env c) cmd s = (r, s')"
  shows "office_ok c s'"
  using assms member_saved [of "wr_env c" "w_ids (fst s)" "snd s"]
  by (auto simp: add_project_member_def office_ok_def Let_def split: option.splits)

lemma remove_member_keeps:
  assumes "office_ok c s" "remove_project_member p i s = (r, s')"
  shows "office_ok c s'"
  using assms
  by (auto simp: remove_project_member_def office_ok_def admin_ok_def memberships_dpop split: option.splits)

lemma record_audit_keeps:
  assumes "office_ok c s" "record_audit (wr_env c) cmd s = (r, s')"
  shows "office_ok c s'"
proof (cases r)
  case (Inl e)
  then have "snd s' = snd s" "w_ids (fst s) \<le> w_ids (fst s')"
    using assms(2) by (auto simp: record_audit_def bindM_lift split: sum.splits)
  then show ?thesis using office_world [OF assms(1)] by simp
next
  case (Inr e)
  then have e: "audit_valid e" "aud_id e = factory_id AuditEventId (e_rnd (wr_env c) (w_ids (fst s)))"
      "snd s' = audit_save e (snd s)" "w_ids (fst s') = w_ids (fst s) + 1"
    using assms(2) by (auto simp: record_audit_def bindM_lift split: sum.splits dest!: mk_valid(3))
  have "admin_ok (wr_env c) (w_ids (fst s')) (snd s)"
    using assms(1) e(4) by (auto simp: office_ok_def intro: admin_ok_mono)
  then show ?thesis
    using e by (simp add: office_ok_def admin_ok_def audit_save_def drawn_last shelf_ok_keep)
qed

lemma on_agent_ids:
  "on_agent m s = (r, s') \<Longrightarrow> snd s' = snd s \<and> w_ids (fst s') = w_ids (fst s)"
  by (auto simp: on_agent_def on_ctl_def zoomM_def split: prod.splits)

lemma require_node_run:
  "require_node_known nid s = ((if dget (w_nodes (fst s)) nid = None then Inl err_not_found else Inr ()), s)"
  by (simp add: require_node_known_def require_def)

lemma take_snapshot_keeps:
  assumes "office_ok c s" "take_node_snapshot (wr_env c) sn nid label s = (r, s')"
  shows "office_ok c s'"
proof (cases "dget (w_nodes (fst s)) nid = None")
  case True
  then show ?thesis using assms by (simp add: take_node_snapshot_def bindM_run require_node_run)
next
  case False
  obtain q s1 where q: "on_agent (sno_snapshot sn nid label) s = (q, s1)"
    by (cases "on_agent (sno_snapshot sn nid label) s")
  note same = on_agent_ids [OF q]
  show ?thesis
  proof (cases q)
    case (Inl e)
    then have "s' = s1" using assms(2) False q by (auto simp: take_node_snapshot_def bindM_run require_node_run)
    then show ?thesis using assms(1) same by (simp add: office_ok_def)
  next
    case (Inr p)
    let ?x = "\<lparr>ns_id = factory_id NodeSnapshotId (e_rnd (wr_env c) (w_ids (fst s1))), ns_node_id = nid,
        ns_agent_snapshot_id = fst p, ns_state_hash = snd p, ns_created_at = e_now (wr_env c) (w_clock (fst s1)),
        ns_label = label\<rparr>"
    have "(case mk_node_snapshot ?x of
          Inl e \<Rightarrow> snd s' = snd s1 | Inr y \<Rightarrow> snd s' = snapshot_save y (snd s1)) \<and>
        w_ids (fst s') = w_ids (fst s1) + 1"
      using assms(2) False q Inr
      by (auto simp: take_node_snapshot_def bindM_run [where m = "require_node_known nid"] require_node_run
          bindM_run [where m = "on_agent m" for m] bindM_lift split_beta split: sum.splits)
    then have fx: "(case mk_node_snapshot ?x of
          Inl e \<Rightarrow> snd s' = snd s1 | Inr y \<Rightarrow> snd s' = snapshot_save y (snd s1))"
      and ids: "w_ids (fst s') = w_ids (fst s1) + 1" by blast+
    have ok: "admin_ok (wr_env c) (w_ids (fst s')) (snd s)"
      using assms(1) ids same by (auto simp: office_ok_def intro: admin_ok_mono)
    show ?thesis
    proof (cases "mk_node_snapshot ?x")
      case (Inl e)
      then show ?thesis using fx ok same by (simp add: office_ok_def)
    next
      case (Inr y)
      then have "y = ?x" "snapshot_valid ?x" using mk_valid(4) by blast+
      then show ?thesis using fx Inr ok same ids
        by (simp add: office_ok_def admin_ok_def snapshot_save_def drawn_last shelf_ok_keep)
    qed
  qed
qed

lemma restore_snapshot_keeps:
  assumes "office_ok c s" "restore_node_snapshot sn i s = (r, s')"
  shows "office_ok c s'"
proof (cases "dget (ad_snapshots (snd s)) i")
  case None
  then show ?thesis using assms by (simp add: restore_node_snapshot_def)
next
  case (Some x)
  obtain q s1 where q: "on_agent (sno_restore sn (ns_node_id x) (ns_agent_snapshot_id x)) s = (q, s1)"
    by (cases "on_agent (sno_restore sn (ns_node_id x) (ns_agent_snapshot_id x)) s")
  have "s' = s1" using assms(2) Some q by (auto simp: restore_node_snapshot_def bindM_run split: sum.splits)
  then show ?thesis using assms(1) on_agent_ids [OF q] by (simp add: office_ok_def)
qed

text \<open>A call whose result is dropped ends where the call ends.\<close>

lemma void_end: "voidM m s = (r, s') \<Longrightarrow> \<exists>r0. m s = (r0, s')"
  by (auto simp: void_run split: prod.splits sum.splits)

lemma run_admin_keeps:
  assumes "office_ok c s" "inj (e_rnd (wr_env c))" "run_admin c sn call s = (r, s')"
  shows "office_ok c s'"
proof (cases call)
  case (Create_Account cmd)
  then show ?thesis using assms void_end create_account_keeps by (metis run_admin.simps(1))
next
  case (Disable_Account i)
  then show ?thesis using assms void_end disable_keeps by (metis run_admin.simps(2))
next
  case (Issue_Service_Token p cmd)
  then show ?thesis using assms void_end issue_keeps by (metis run_admin.simps(3))
next
  case (Revoke_Service_Token i)
  then show ?thesis using assms void_end revoke_keeps by (metis run_admin.simps(4))
next
  case (Authenticate p)
  then show ?thesis using assms void_end authenticate_keeps by (metis run_admin.simps(5))
next
  case (Create_Project cmd)
  then show ?thesis using assms void_end create_project_keeps by (metis run_admin.simps(6))
next
  case (Update_Project cmd)
  then show ?thesis using assms void_end update_project_keeps by (metis run_admin.simps(7))
next
  case (Delete_Project i)
  then show ?thesis using assms delete_project_keeps by simp
next
  case (Add_Member cmd)
  then show ?thesis using assms void_end add_member_keeps by (metis run_admin.simps(9))
next
  case (Remove_Member p i)
  then show ?thesis using assms remove_member_keeps by simp
next
  case (Record_Audit cmd)
  then show ?thesis using assms void_end record_audit_keeps by (metis run_admin.simps(11))
next
  case (Take_Snapshot n l)
  then show ?thesis using assms void_end take_snapshot_keeps by (metis run_admin.simps(12))
next
  case (Restore_Snapshot i)
  then show ?thesis using assms void_end restore_snapshot_keeps by (metis run_admin.simps(13))
qed

lemma later_ok:
  assumes "admin_later c sn P s s'" "office_ok c s" "inj (e_rnd (wr_env c))"
  shows "office_ok c s'"
  using assms
proof (induction rule: admin_later.induct)
  case (called s1 call r s2)
  then show ?case using run_admin_keeps by blast
next
  case (elsewhere w a w')
  then show ?case using office_world [of c "(w, a)" "(w', a)"] by simp
qed simp

end
