(* ===== verification/Admin_Properties.thy ===== *)
theory Admin_Properties
  imports Admin_Safety System_Properties
begin

text \<open>
  What the administrative side guarantees over every sequence of calls: a disabled account and a
  revoked token are locked out for good, a fresh token works until it runs out, and an endpoint that
  asks for a permission runs its handler for nobody without it.
\<close>

subsection \<open>Which calls touch accounts and tokens\<close>

fun touches_accounts :: "admin_call \<Rightarrow> bool" where
  "touches_accounts (Create_Account _) = True"
| "touches_accounts (Disable_Account _) = True"
| "touches_accounts _ = False"

fun touches_tokens :: "admin_call \<Rightarrow> bool" where
  "touches_tokens (Issue_Service_Token _ _) = True"
| "touches_tokens (Revoke_Service_Token _) = True"
| "touches_tokens (Authenticate _) = True"
| "touches_tokens _ = False"

lemma saves_frame [simp]:
  "ad_accounts (stoken_save t a) = ad_accounts a" "ad_accounts (project_save p a) = ad_accounts a"
  "ad_accounts (member_save m a) = ad_accounts a" "ad_accounts (audit_save e a) = ad_accounts a"
  "ad_accounts (snapshot_save x a) = ad_accounts a" "ad_tokens (account_save y a) = ad_tokens a"
  "ad_tokens (project_save p a) = ad_tokens a" "ad_tokens (member_save m a) = ad_tokens a"
  "ad_tokens (audit_save e a) = ad_tokens a" "ad_tokens (snapshot_save x a) = ad_tokens a"
  "ad_accounts (account_save y a) = dset (sa_id y) y (ad_accounts a)"
  "ad_tokens (stoken_save t a) = dset (stk_id t) t (ad_tokens a)"
  by (simp_all add: stoken_save_def project_save_def member_save_def audit_save_def snapshot_save_def account_save_def)

lemma token_calls_frame:
  "issue_service_token env h p cmd s = (r, s') \<Longrightarrow> ad_accounts (snd s') = ad_accounts (snd s)"
  "revoke_service_token env i s = (r, s') \<Longrightarrow> ad_accounts (snd s') = ad_accounts (snd s)"
  "authenticate_principal env h p s = (q, s') \<Longrightarrow> ad_accounts (snd s') = ad_accounts (snd s)"
  by (auto simp: revoke_run Let_def elim!: issue_cases authenticate_cases split: option.splits)

lemma account_calls_frame:
  "create_service_account env cmd s = (r, s') \<Longrightarrow> ad_tokens (snd s') = ad_tokens (snd s)"
  "disable_service_account env i s = (r, s') \<Longrightarrow> ad_tokens (snd s') = ad_tokens (snd s)"
  by (auto simp: disable_run Let_def elim!: create_account_cases split: option.splits)

abbreviation same_access :: "admin \<Rightarrow> admin \<Rightarrow> bool" where
  "same_access a b \<equiv> ad_accounts a = ad_accounts b \<and> ad_tokens a = ad_tokens b"

lemma project_calls_frame:
  "create_project env c1 s = (r1, s') \<Longrightarrow> same_access (snd s') (snd s)"
  "update_project env c2 s = (r2, s') \<Longrightarrow> same_access (snd s') (snd s)"
  "delete_project i s = (r3, s') \<Longrightarrow> same_access (snd s') (snd s)"
  "add_project_member env c4 s = (r4, s') \<Longrightarrow> same_access (snd s') (snd s)"
  "remove_project_member p i s = (r5, s') \<Longrightarrow> same_access (snd s') (snd s)"
  "record_audit env c6 s = (r6, s') \<Longrightarrow> same_access (snd s') (snd s)"
  by (auto simp: create_project_def update_project_def delete_project_def add_project_member_def
      remove_project_member_def record_audit_def bindM_guard bindM_lift Let_def
      split: if_splits sum.splits option.splits)

lemma snapshot_calls_frame:
  "take_node_snapshot env sn n l s = (r, s') \<Longrightarrow> same_access (snd s') (snd s)"
  "restore_node_snapshot sn i s = (q, s') \<Longrightarrow> same_access (snd s') (snd s)"
proof -
  assume "restore_node_snapshot sn i s = (q, s')"
  then show "same_access (snd s') (snd s)"
    by (auto simp: restore_node_snapshot_def bindM_run split: prod.splits sum.splits option.splits
        dest!: on_agent_ids)
next
  assume run: "take_node_snapshot env sn n l s = (r, s')"
  obtain q s1 where q: "on_agent (sno_snapshot sn n l) s = (q, s1)" by (cases "on_agent (sno_snapshot sn n l) s")
  show "same_access (snd s') (snd s)"
    using run q on_agent_ids [OF q]
    by (auto simp: take_node_snapshot_def bindM_run [where m = "require_node_known n"] require_node_run
        bindM_run [where m = "on_agent m" for m] bindM_lift split_beta split: sum.splits if_splits)
qed

lemma run_admin_accounts:
  assumes "run_admin c sn call s = (r, s')" "\<not> touches_accounts call"
  shows "ad_accounts (snd s') = ad_accounts (snd s)"
  using assms
  by (cases call) (auto dest!: void_end token_calls_frame project_calls_frame snapshot_calls_frame)

lemma run_admin_tokens:
  assumes "run_admin c sn call s = (r, s')" "\<not> touches_tokens call"
  shows "ad_tokens (snd s') = ad_tokens (snd s)"
  using assms
  by (cases call) (auto dest!: void_end account_calls_frame project_calls_frame snapshot_calls_frame)

subsection \<open>Disabled accounts\<close>

definition closed_account :: "string \<Rightarrow> admin \<Rightarrow> bool" where
  "closed_account i a \<longleftrightarrow> (\<exists>x. dget (ad_accounts a) i = Some x \<and> \<not> sa_is_active x)"

lemma closed_create:
  assumes "office_ok c s" "inj (e_rnd (wr_env c))" "create_service_account (wr_env c) cmd s = (r, s')"
    and "closed_account i (snd s)"
  shows "closed_account i (snd s')"
  using assms(3)
proof (cases rule: create_account_cases)
  case (1 e)
  then show ?thesis using assms(4) by simp
next
  case (2 x)
  obtain y where y: "dget (ad_accounts (snd s)) i = Some y" "\<not> sa_is_active y"
    using assms(4) by (auto simp: closed_account_def)
  have "drawn (wr_env c) (w_ids (fst s)) ServiceAccountId i"
    using assms(1) y(1) by (auto simp: office_ok_def admin_ok_def shelf_ok_def)
  then have "sa_id x \<noteq> i" using 2(4) fresh_not_drawn [OF assms(2) order_refl] by auto
  then show ?thesis using 2(7) y by (simp add: closed_account_def)
qed

lemma closed_step:
  assumes "office_ok c s" "inj (e_rnd (wr_env c))" "run_admin c sn call s = (r, s')" "closed_account i (snd s)"
  shows "closed_account i (snd s')"
proof (cases "touches_accounts call")
  case False
  then show ?thesis using run_admin_accounts [OF assms(3)] assms(4) by (simp add: closed_account_def)
next
  case True
  then consider cmd where "call = Create_Account cmd" | j where "call = Disable_Account j"
    by (cases call) simp_all
  then show ?thesis
  proof cases
    case 1
    then show ?thesis using void_end assms(3) closed_create [OF assms(1,2) _ assms(4)]
      by (metis run_admin.simps(1))
  next
    case 2
    then obtain r0 where "disable_service_account (wr_env c) j s = (r0, s')"
      using void_end assms(3) by (metis run_admin.simps(2))
    then show ?thesis using assms(4)
      by (auto simp: disable_run Let_def closed_account_def sa_is_active_def sa_disable_def split: option.splits)
  qed
qed

lemma closed_later:
  assumes "admin_later c sn P s s'" "office_ok c s" "inj (e_rnd (wr_env c))" "closed_account i (snd s)"
  shows "closed_account i (snd s')"
  using assms
proof (induction rule: admin_later.induct)
  case (called s1 call r s2)
  then show ?case using closed_step [OF later_ok [OF called.hyps(1) called.prems(1,2)] _ called.hyps(3)] by blast
qed simp_all

subsection \<open>Revoked tokens\<close>

text \<open>Every stored token with the hash is revoked.\<close>

definition revoked_hash :: "string \<Rightarrow> admin \<Rightarrow> bool" where
  "revoked_hash hh a \<longleftrightarrow> (\<forall>k t. dget (ad_tokens a) k = Some t \<longrightarrow> stk_token_hash t = hh \<longrightarrow> stk_revoked_at t \<noteq> None)"

fun issues_text :: "(string \<Rightarrow> string) \<Rightarrow> string \<Rightarrow> admin_call \<Rightarrow> bool" where
  "issues_text h hh (Issue_Service_Token p _) = (h p = hh)"
| "issues_text h hh _ = False"

lemma revoked_save:
  "revoked_hash hh a \<Longrightarrow> stk_token_hash t \<noteq> hh \<or> stk_revoked_at t \<noteq> None \<Longrightarrow> revoked_hash hh (stoken_save t a)"
  unfolding revoked_hash_def by (metis dget_dset_apply option.inject saves_frame(12))

lemma revoked_step:
  assumes "office_ok c s" "run_admin c sn call s = (r, s')" "revoked_hash hh (snd s)"
    and "\<not> issues_text (wr_hash c) hh call"
  shows "revoked_hash hh (snd s')"
proof (cases "touches_tokens call")
  case False
  then show ?thesis using run_admin_tokens [OF assms(2)] assms(3) by (simp add: revoked_hash_def)
next
  case True
  then consider p cmd where "call = Issue_Service_Token p cmd" | i where "call = Revoke_Service_Token i"
      | p where "call = Authenticate p"
    by (cases call) simp_all
  then show ?thesis
  proof cases
    case 1
    then obtain r0 where "issue_service_token (wr_env c) (wr_hash c) p cmd s = (r0, s')"
      using void_end assms(2) by (metis run_admin.simps(3))
    then show ?thesis
    proof (cases rule: issue_cases)
      case (2 t acc)
      then show ?thesis using revoked_save [OF assms(3), of t] assms(4) 1 by simp
    qed (use assms(3) in simp)
  next
    case 2
    then obtain r0 where "revoke_service_token (wr_env c) i s = (r0, s')"
      using void_end assms(2) by (metis run_admin.simps(4))
    then show ?thesis
      using assms(3) revoked_save [OF assms(3)] stk_revoke_same(4)
      by (auto simp: revoke_run Let_def simp del: not_None_eq split: option.splits)
  next
    case 3
    then obtain r0 where "authenticate_principal (wr_env c) (wr_hash c) p s = (r0, s')"
      using void_end assms(2) by (metis run_admin.simps(5))
    then show ?thesis
    proof (cases rule: authenticate_cases)
      case (2 t acc)
      have "dget (ad_tokens (snd s)) (stk_id t) = Some t"
        using stoken_by_hash_stored [OF assms(1) [unfolded office_ok_def]] 2(1) unfolding accepts_def by blast
      then have "stk_token_hash t \<noteq> hh \<or> stk_revoked_at t \<noteq> None"
        using assms(3) unfolding revoked_hash_def by blast
      then show ?thesis using revoked_save [OF assms(3)] 2(3) stk_touch_same(3,4) by metis
    qed (use assms(3) in simp)
  qed
qed

lemma revoked_later:
  assumes "admin_later c sn P s s'" "office_ok c s" "inj (e_rnd (wr_env c))" "revoked_hash hh (snd s)"
    and "\<And>call. P call \<Longrightarrow> \<not> issues_text (wr_hash c) hh call"
  shows "revoked_hash hh (snd s')"
  using assms
proof (induction rule: admin_later.induct)
  case (called s1 call r s2)
  then show ?case using revoked_step [OF later_ok [OF called.hyps(1) called.prems(1,2)] called.hyps(3)] by blast
qed simp_all

lemma revoked_refused:
  assumes "revoked_hash (h p) (snd s)" "admin_ok env n (snd s)" "authenticate_principal env h p s = (r, s')"
  shows "r = Inl err_unauthorized \<and> snd s' = snd s"
  using assms(3)
proof (cases rule: authenticate_cases)
  case (2 t acc)
  then have "dget (ad_tokens (snd s)) (stk_id t) = Some t" "stk_token_hash t = h p"
    using stoken_by_hash_stored [OF assms(2)] unfolding accepts_def by blast+
  then have "stk_revoked_at t \<noteq> None" using assms(1) unfolding revoked_hash_def by blast
  then show ?thesis using 2(1) by (simp add: accepts_def stk_is_valid_def)
qed simp

subsection \<open>Live tokens\<close>

text \<open>The account is active with the role, and the token is the one with its hash and not revoked.\<close>

definition active_account :: "string \<Rightarrow> role \<Rightarrow> admin \<Rightarrow> bool" where
  "active_account i rl a \<longleftrightarrow> (\<exists>x. dget (ad_accounts a) i = Some x \<and> sa_is_active x \<and> sa_role x = rl \<and> sa_id x = i)"

definition usable_token :: "string \<Rightarrow> string \<Rightarrow> string \<Rightarrow> time option \<Rightarrow> admin \<Rightarrow> bool" where
  "usable_token hh k i x a \<longleftrightarrow>
     (\<exists>t. dget (ad_tokens a) k = Some t \<and> stk_token_hash t = hh \<and> stk_account_id t = i \<and>
        stk_revoked_at t = None \<and> stk_expires_at t = x) \<and>
     (\<forall>j u. dget (ad_tokens a) j = Some u \<longrightarrow> stk_token_hash u = hh \<longrightarrow> j = k)"

fun spoils :: "(string \<Rightarrow> string) \<Rightarrow> string \<Rightarrow> string \<Rightarrow> string \<Rightarrow> admin_call \<Rightarrow> bool" where
  "spoils h hh k i (Disable_Account j) = (j = i)"
| "spoils h hh k i (Revoke_Service_Token j) = (j = k)"
| "spoils h hh k i (Issue_Service_Token p _) = (h p = hh)"
| "spoils h hh k i _ = False"

lemma active_step:
  assumes "office_ok c s" "inj (e_rnd (wr_env c))" "run_admin c sn call s = (r, s')" "active_account i rl (snd s)"
    and "\<not> spoils (wr_hash c) hh k i call"
  shows "active_account i rl (snd s')"
proof (cases "touches_accounts call")
  case False
  then show ?thesis using run_admin_accounts [OF assms(3)] assms(4) by (simp add: active_account_def)
next
  case True
  then consider cmd where "call = Create_Account cmd" | j where "call = Disable_Account j"
    by (cases call) simp_all
  then show ?thesis
  proof cases
    case 1
    then obtain r0 where "create_service_account (wr_env c) cmd s = (r0, s')"
      using void_end assms(3) by (metis run_admin.simps(1))
    then show ?thesis
    proof (cases rule: create_account_cases)
      case (2 x)
      obtain y where y: "dget (ad_accounts (snd s)) i = Some y" using assms(4) by (auto simp: active_account_def)
      have "drawn (wr_env c) (w_ids (fst s)) ServiceAccountId i"
        using assms(1) y by (auto simp: office_ok_def admin_ok_def shelf_ok_def)
      then have "sa_id x \<noteq> i" using 2(4) fresh_not_drawn [OF assms(2) order_refl] by auto
      then show ?thesis using 2(7) assms(4) by (simp add: active_account_def)
    qed (use assms(4) in simp)
  next
    case 2
    then obtain r0 where run: "disable_service_account (wr_env c) j s = (r0, s')"
      using void_end assms(3) by (metis run_admin.simps(2))
    have "sa_id x = j" if "dget (ad_accounts (snd s)) j = Some x" for x
      using assms(1) that by (auto simp: office_ok_def admin_ok_def shelf_ok_def)
    then show ?thesis using run assms(4,5) 2
      by (auto simp: disable_run Let_def active_account_def split: option.splits)
  qed
qed

lemma usable_save:
  assumes "usable_token hh k i x a"
    and "stk_id u = k \<Longrightarrow> stk_token_hash u = hh \<and> stk_account_id u = i \<and> stk_revoked_at u = None \<and> stk_expires_at u = x"
    and "stk_id u \<noteq> k \<Longrightarrow> stk_token_hash u \<noteq> hh"
  shows "usable_token hh k i x (stoken_save u a)"
proof (cases "stk_id u = k")
  case True
  have "\<forall>j v. dget (dset k u (ad_tokens a)) j = Some v \<longrightarrow> stk_token_hash v = hh \<longrightarrow> j = k"
    using assms(1) unfolding usable_token_def dget_dset_apply by metis
  moreover have "dget (dset k u (ad_tokens a)) k = Some u" unfolding dget_dset_apply by (simp only: simp_thms if_True)
  ultimately show ?thesis unfolding usable_token_def saves_frame True using assms(2) [OF True] by blast
next
  case False
  have "\<forall>j v. dget (dset (stk_id u) u (ad_tokens a)) j = Some v \<longrightarrow> stk_token_hash v = hh \<longrightarrow> j = k"
    using assms(1) assms(3) [OF False] unfolding usable_token_def dget_dset_apply by (metis option.inject)
  moreover have "dget (dset (stk_id u) u (ad_tokens a)) k = dget (ad_tokens a) k"
    using False unfolding dget_dset_apply by metis
  ultimately show ?thesis using assms(1) unfolding usable_token_def saves_frame by metis
qed

lemma stk_touch_expiry [simp]: "stk_expires_at (stk_touch n t) = stk_expires_at t"
  by (simp add: stk_touch_def)

lemma usable_step:
  assumes "office_ok c s" "inj (e_rnd (wr_env c))" "run_admin c sn call s = (r, s')" "usable_token hh k i x (snd s)"
    and "\<not> spoils (wr_hash c) hh k i call"
  shows "usable_token hh k i x (snd s')"
proof (cases "touches_tokens call")
  case False
  then show ?thesis using run_admin_tokens [OF assms(3)] assms(4) by (simp add: usable_token_def)
next
  case True
  obtain t0 where t0: "dget (ad_tokens (snd s)) k = Some t0" "stk_token_hash t0 = hh" "stk_account_id t0 = i"
      "stk_revoked_at t0 = None" "stk_expires_at t0 = x"
    and one: "\<And>j u. dget (ad_tokens (snd s)) j = Some u \<Longrightarrow> stk_token_hash u = hh \<Longrightarrow> j = k"
    using assms(4) unfolding usable_token_def by blast
  have drawn0: "drawn (wr_env c) (w_ids (fst s)) ServiceTokenId k"
    and own: "\<And>j u. dget (ad_tokens (snd s)) j = Some u \<Longrightarrow> stk_id u = j"
    using assms(1) t0(1) by (auto simp: office_ok_def admin_ok_def shelf_ok_def)
  from True consider p cmd where "call = Issue_Service_Token p cmd" | j where "call = Revoke_Service_Token j"
      | p where "call = Authenticate p"
    by (cases call) simp_all
  then show ?thesis
  proof cases
    case 1
    then obtain r0 where "issue_service_token (wr_env c) (wr_hash c) p cmd s = (r0, s')"
      using void_end assms(3) by (metis run_admin.simps(3))
    then show ?thesis
    proof (cases rule: issue_cases)
      case (2 t acc)
      then have "stk_id t \<noteq> k" using drawn0 fresh_not_drawn [OF assms(2) order_refl] by auto
      then show ?thesis using usable_save [OF assms(4), of t] 2 1 assms(5) by simp
    qed (use assms(4) in simp)
  next
    case 2
    then obtain r0 where "revoke_service_token (wr_env c) j s = (r0, s')"
      using void_end assms(3) by (metis run_admin.simps(4))
    then show ?thesis
    proof (cases "dget (ad_tokens (snd s)) j")
      case (Some u)
      let ?u = "stk_revoke (e_now (wr_env c) (w_clock (fst s))) u"
      have "stk_id ?u \<noteq> k" "stk_token_hash ?u \<noteq> hh" using own [OF Some] one [OF Some] 2 assms(5) by auto
      then show ?thesis using usable_save [OF assms(4), of ?u] Some \<open>revoke_service_token (wr_env c) j s = (r0, s')\<close>
        by (auto simp: revoke_run Let_def)
    qed (use assms(4) in \<open>auto simp: revoke_run\<close>)
  next
    case 3
    then obtain r0 where "authenticate_principal (wr_env c) (wr_hash c) p s = (r0, s')"
      using void_end assms(3) by (metis run_admin.simps(5))
    then show ?thesis
    proof (cases rule: authenticate_cases)
      case (2 t acc)
      have st: "dget (ad_tokens (snd s)) (stk_id t) = Some t"
        using stoken_by_hash_stored [OF assms(1) [unfolded office_ok_def]] 2(1) unfolding accepts_def by blast
      show ?thesis unfolding 2(3)
      proof (rule usable_save [OF assms(4)])
        assume "stk_id (stk_touch (e_now (wr_env c) (w_clock (fst s))) t) = k"
        then have "t = t0" using st t0(1) unfolding stk_touch_same by simp
        then show "stk_token_hash (stk_touch (e_now (wr_env c) (w_clock (fst s))) t) = hh \<and>
            stk_account_id (stk_touch (e_now (wr_env c) (w_clock (fst s))) t) = i \<and>
            stk_revoked_at (stk_touch (e_now (wr_env c) (w_clock (fst s))) t) = None \<and>
            stk_expires_at (stk_touch (e_now (wr_env c) (w_clock (fst s))) t) = x"
          using t0(2-5) by (simp only: stk_touch_same stk_touch_expiry simp_thms)
      next
        assume "stk_id (stk_touch (e_now (wr_env c) (w_clock (fst s))) t) \<noteq> k"
        then show "stk_token_hash (stk_touch (e_now (wr_env c) (w_clock (fst s))) t) \<noteq> hh"
          using one [OF st] unfolding stk_touch_same by blast
      qed
    qed (use assms(4) in simp)
  qed
qed

lemma live_later:
  assumes "admin_later c sn P s s'" "office_ok c s" "inj (e_rnd (wr_env c))"
    and "active_account i rl (snd s)" "usable_token hh k i x (snd s)"
    and "\<And>call. P call \<Longrightarrow> \<not> spoils (wr_hash c) hh k i call"
  shows "active_account i rl (snd s') \<and> usable_token hh k i x (snd s')"
  using assms
proof (induction rule: admin_later.induct)
  case (called s1 call r s2)
  have "office_ok c s1" using later_ok [OF called.hyps(1) called.prems(1,2)] .
  then show ?case
    using called.IH [OF called.prems] called.hyps(2,3) called.prems(2,5) active_step usable_step by metis
qed simp_all

lemma live_accepted:
  assumes "active_account i rl (snd s)" "usable_token (h p) k i x (snd s)" "p \<noteq> []" "admin_ok env n (snd s)"
    and "case x of None \<Rightarrow> True | Some y \<Rightarrow> e_now env (w_clock (fst s)) < y"
  shows "\<exists>who s'. authenticate_principal env h p s = (Inr who, s') \<and> pri_account_id who = i \<and> pri_role who = rl"
proof -
  obtain acc where acc: "dget (ad_accounts (snd s)) i = Some acc" "sa_is_active acc" "sa_role acc = rl" "sa_id acc = i"
    using assms(1) by (auto simp: active_account_def)
  obtain t where t: "dget (ad_tokens (snd s)) k = Some t" "stk_token_hash t = h p" "stk_account_id t = i"
      "stk_revoked_at t = None" "stk_expires_at t = x"
    and one: "\<And>j u. dget (ad_tokens (snd s)) j = Some u \<Longrightarrow> stk_token_hash u = h p \<Longrightarrow> j = k"
    using assms(2) unfolding usable_token_def by blast
  have "t \<in> set (dvalues (ad_tokens (snd s)))" using map_of_SomeD [OF t(1)] by force
  then obtain u where u: "stoken_by_hash (h p) (snd s) = Some u"
    using t(2) unfolding stoken_by_hash_def by (metis (mono_tags, lifting) find_None_iff not_None_eq)
  then have "u = t" using stoken_by_hash_stored [OF assms(4) u] one t(1) by force
  then show ?thesis
    using u t(3-5) acc assms(3,5) by (auto simp: authenticate_run Let_def stk_is_valid_def split: option.splits)
qed

subsection \<open>A small office\<close>

text \<open>One automation account with one token whose text is its own hash.\<close>

fun after_office :: "'ag wiring \<Rightarrow> 'ag snapshot_ops \<Rightarrow> admin_call list \<Rightarrow> 'ag world \<times> admin \<Rightarrow> 'ag world \<times> admin" where
  "after_office c sn [] s = s"
| "after_office c sn (call # calls) s = after_office c sn calls (snd (run_admin c sn call s))"

lemma after_office_later:
  "admin_later c sn P s0 s \<Longrightarrow> list_all P calls \<Longrightarrow> admin_later c sn P s0 (after_office c sn calls s)"
proof (induction calls arbitrary: s)
  case (Cons call calls)
  obtain r s' where "run_admin c sn call s = (r, s')" by (cases "run_admin c sn call s")
  then show ?case using Cons.IH [of s'] Cons.prems admin_later.called [of c sn P s0 s call r s'] by simp
qed simp

lemma void_snd: "snd (voidM m w) = snd (m w)"
  using void_run [of m w] by (cases "m w"; cases "fst (m w)") (auto simp: bindM_run)

definition no_snapshots :: "unit snapshot_ops" where
  "no_snapshots = \<lparr>sno_snapshot = (\<lambda>_ _. liftM (Inl err_not_found)), sno_restore = (\<lambda>_ _. liftM (Inl err_not_found))\<rparr>"

definition ci_account :: create_account_cmd where
  "ci_account = \<lparr>cac_name = ''ci'', cac_role = AUTOMATION, cac_description = None, cac_labels = [], cac_created_by = None\<rparr>"

definition ci_issue :: issue_service_token_cmd where
  "ci_issue = \<lparr>istc_account_id = ''sa_'', istc_ttl = Some 60, istc_label = None, istc_issued_by = None\<rparr>"

definition ci_start :: "unit world \<times> admin" where
  "ci_start = after_office example_wiring no_snapshots [Create_Account ci_account] (empty_world (), empty_admin)"

definition ci_office :: "unit world \<times> admin" where
  "ci_office = after_office example_wiring no_snapshots [Issue_Service_Token ''key'' ci_issue] ci_start"

lemma ci_wiring: "wr_env example_wiring = example_env" "wr_hash example_wiring = (\<lambda>s. s)"
  by (simp_all add: example_wiring_def)

lemma ci_start_later: "admin_later example_wiring no_snapshots any_admin (empty_world (), empty_admin) ci_start"
  unfolding ci_start_def by (rule after_office_later [OF admin_later.now]) simp

lemma ci_office_later: "admin_later example_wiring no_snapshots any_admin (empty_world (), empty_admin) ci_office"
  unfolding ci_office_def by (rule after_office_later [OF ci_start_later]) simp

lemma ci_start_end:
  "\<exists>w acc. ci_start = (w, empty_admin\<lparr>ad_accounts := [(''sa_'', acc)]\<rparr>) \<and> w_ids w = 1 \<and> w_clock w = 1 \<and>
     sa_id acc = ''sa_'' \<and> sa_is_active acc \<and> sa_role acc = AUTOMATION"
proof -
  have strip: "py_strip ''ci'' = ''ci''" by code_simp
  have nb: "\<not> blank ''ci''" by code_simp
  have "factory_id ServiceAccountId (e_rnd example_env 0) = ''sa_''"
    by (simp add: factory_id_def new_id_def example_env_def)
  then show ?thesis
    by (simp add: ci_start_def ci_wiring void_snd create_account_run Let_def ci_account_def strip nb empty_admin_def
        account_by_name_def mk_service_account_def bindE_def account_save_def sa_is_active_def empty_world_def)
qed

lemma ci_issued:
  "\<exists>t. issue_service_token example_env (\<lambda>s. s) ''key'' ci_issue ci_start = (Inr t, ci_office) \<and>
     ad_tokens (snd ci_office) = [(''tok_0'', t)] \<and> stk_id t = ''tok_0'' \<and> stk_token_hash t = ''key'' \<and>
     stk_account_id t = ''sa_'' \<and> stk_revoked_at t = None \<and> stk_issued_at t = 1 \<and>
     stk_expires_at t = Some (1 + seconds 60) \<and> w_clock (fst ci_office) = 2 \<and>
     (\<exists>acc. ad_accounts (snd ci_office) = [(''sa_'', acc)] \<and> sa_is_active acc \<and> sa_role acc = AUTOMATION \<and> sa_id acc = ''sa_'')"
proof -
  obtain w acc where w: "ci_start = (w, empty_admin\<lparr>ad_accounts := [(''sa_'', acc)]\<rparr>)" "w_ids w = 1" "w_clock w = 1"
      "sa_id acc = ''sa_''" "sa_is_active acc" "sa_role acc = AUTOMATION"
    using ci_start_end by blast
  have "factory_id ServiceTokenId (e_rnd example_env 1) = ''tok_0''" "e_now example_env 1 = 1"
    by (simp_all add: factory_id_def new_id_def example_env_def)
  then have run: "issue_service_token example_env (\<lambda>s. s) ''key'' ci_issue ci_start =
      (Inr \<lparr>stk_id = ''tok_0'', stk_account_id = ''sa_'', stk_token_hash = ''key'', stk_issued_at = 1,
         stk_expires_at = Some (1 + seconds 60), stk_last_used_at = None, stk_revoked_at = None,
         stk_issued_by = None, stk_label = None\<rparr>, w\<lparr>w_clock := 2, w_ids := 2\<rparr>,
       empty_admin\<lparr>ad_accounts := [(''sa_'', acc)], ad_tokens := [(''tok_0'', \<lparr>stk_id = ''tok_0'',
         stk_account_id = ''sa_'', stk_token_hash = ''key'', stk_issued_at = 1,
         stk_expires_at = Some (1 + seconds 60), stk_last_used_at = None, stk_revoked_at = None,
         stk_issued_by = None, stk_label = None\<rparr>)]\<rparr>)"
    by (simp add: w issue_service_token_def bindM_guard Let_def ci_issue_def empty_admin_def stoken_save_def)
  have "ci_office = snd (issue_service_token example_env (\<lambda>s. s) ''key'' ci_issue ci_start)"
    by (simp add: ci_office_def ci_wiring void_snd)
  then show ?thesis unfolding \<open>ci_office = snd (issue_service_token example_env (\<lambda>s. s) ''key'' ci_issue ci_start)\<close> run using w(4-6) by (simp add: empty_admin_def)
qed

lemma ci_authenticates:
  "\<exists>who s3. authenticate_principal example_env (\<lambda>s. s) ''key'' ci_office = (Inr who, s3) \<and> pri_account_id who = ''sa_''"
  using ci_issued
  by (auto simp: authenticate_run Let_def stoken_by_hash_def stk_is_valid_def example_env_def)

lemma ci_disabled: "\<exists>x s1. disable_service_account example_env ''sa_'' ci_office = (Inr x, s1)"
  using ci_issued by (auto simp: disable_run Let_def)

subsection \<open>Properties\<close>

text \<open>
  C8. Disabling a service account locks it out for good: from any state the administrative side can
  reach, once \<open>DisableServiceAccount\<close> returned, no text presented at any later time authenticates as
  that account, whatever calls happen in between, and the principal of every other authentication is
  an account that is active at that moment.
\<close>

theorem disabled_account_locked_out:
  assumes "admin_later c sn any_admin (w0, empty_admin) s" "inj (e_rnd (wr_env c))"
    and "disable_service_account (wr_env c) i s = (Inr x, s1)"
    and "admin_later c sn any_admin s1 s2"
    and "authenticate_principal (wr_env c) (wr_hash c) p s2 = (Inr who, s3)"
  shows "pri_account_id who \<noteq> i \<and>
    (\<exists>acc. dget (ad_accounts (snd s3)) (pri_account_id who) = Some acc \<and> sa_is_active acc \<and> pri_role who = sa_role acc)"
proof -
  have "office_ok c (w0, empty_admin)" by (simp add: office_ok_def empty_admin_ok)
  then have ok: "office_ok c s" using later_ok assms(1,2) by blast
  then have ok1: "office_ok c s1" using disable_keeps assms(3) by blast
  have "dget (ad_accounts (snd s1)) i = Some x \<and> \<not> sa_is_active x"
    using assms(3) ok stored_drawn(2) [of "wr_env c" "w_ids (fst s)" ServiceAccountId sa_id account_valid "ad_accounts (snd s)" i]
    by (auto simp: disable_run Let_def sa_is_active_def sa_disable_def office_ok_def admin_ok_def split: option.splits)
  then have "closed_account i (snd s1)" by (auto simp: closed_account_def)
  then have closed: "closed_account i (snd s2)" using closed_later [OF assms(4) ok1 assms(2)] by blast
  have ok2: "office_ok c s2" using later_ok [OF assms(4) ok1 assms(2)] .
  from assms(5) show ?thesis
  proof (cases rule: authenticate_cases)
    case (2 t acc)
    have acc: "dget (ad_accounts (snd s2)) (stk_account_id t) = Some acc" "sa_is_active acc"
      using 2(1) by (auto simp: accepts_def)
    then have "sa_id acc = stk_account_id t"
      using ok2 by (auto simp: office_ok_def admin_ok_def shelf_ok_def)
    then show ?thesis using acc closed 2(2,3) by (auto simp: closed_account_def)
  qed simp
qed

theorem disabled_account_locked_out_witness:
  "\<exists>x s1 who s3. disable_service_account example_env ''sa_'' ci_office = (Inr x, s1) \<and>
     authenticate_principal example_env (\<lambda>s. s) ''key'' ci_office = (Inr who, s3) \<and> pri_account_id who = ''sa_'' \<and>
     \<not> (\<exists>who s4. authenticate_principal example_env (\<lambda>s. s) ''key'' s1 = (Inr who, s4) \<and> pri_account_id who = ''sa_'')"
proof -
  obtain x s1 where x: "disable_service_account example_env ''sa_'' ci_office = (Inr x, s1)"
    using ci_disabled by blast
  have "\<not> (\<exists>who s4. authenticate_principal example_env (\<lambda>s. s) ''key'' s1 = (Inr who, s4) \<and> pri_account_id who = ''sa_'')"
    using disabled_account_locked_out [OF ci_office_later example_inj, of "''sa_''" x s1 s1 "''key''"] x admin_later.now
    unfolding ci_wiring by blast
  then show ?thesis using x ci_authenticates by blast
qed


text \<open>
  A revoked service token is dead: once \<open>RevokeServiceToken\<close> returned, its text is refused with
  the one unauthorized error at every later time and nothing is written, whatever calls happen in
  between, provided the token was the only one with its hash and no later token is issued with it.
\<close>

lemma revoked_token_dead:
  assumes "admin_later c sn any_admin (w0, empty_admin) s" "inj (e_rnd (wr_env c))"
    and "revoke_service_token (wr_env c) i s = (Inr t, s1)"
    and "\<forall>k u. dget (ad_tokens (snd s)) k = Some u \<longrightarrow> stk_token_hash u = stk_token_hash t \<longrightarrow> k = i"
    and "admin_later c sn (\<lambda>call. \<not> issues_text (wr_hash c) (stk_token_hash t) call) s1 s2"
    and "wr_hash c p = stk_token_hash t"
  shows "\<exists>s3. authenticate_principal (wr_env c) (wr_hash c) p s2 = (Inl err_unauthorized, s3) \<and> snd s3 = snd s2"
proof -
  have "office_ok c (w0, empty_admin)" by (simp add: office_ok_def empty_admin_ok)
  then have ok: "office_ok c s" using later_ok assms(1,2) by blast
  then have ok1: "office_ok c s1" using revoke_keeps assms(3) by blast
  obtain t0 where t0: "dget (ad_tokens (snd s)) i = Some t0" "t = stk_revoke (e_now (wr_env c) (w_clock (fst s))) t0"
      "snd s1 = stoken_save t (snd s)"
    using assms(3) by (auto simp: revoke_run Let_def split: option.splits)
  have id: "stk_id t0 = i" using ok t0(1) by (auto simp: office_ok_def admin_ok_def shelf_ok_def)
  have rev: "stk_revoked_at t \<noteq> None" "stk_id t = i" using t0(2) id by (simp_all only: stk_revoke_same simp_thms)
  have "revoked_hash (stk_token_hash t) (snd s1)"
    unfolding revoked_hash_def t0(3) saves_frame rev(2)
  proof (intro allI impI)
    fix k u assume u: "dget (dset i t (ad_tokens (snd s))) k = Some u" "stk_token_hash u = stk_token_hash t"
    then show "stk_revoked_at u \<noteq> None" using assms(4) rev(1) by (metis dget_dset_apply option.inject)
  qed
  then have "revoked_hash (wr_hash c p) (snd s2)"
    unfolding assms(6) by (rule revoked_later [OF assms(5) ok1 assms(2)])
  moreover have "admin_ok (wr_env c) (w_ids (fst s2)) (snd s2)"
    using later_ok [OF assms(5) ok1 assms(2)] by (simp add: office_ok_def)
  ultimately show ?thesis
    using revoked_refused by (metis surj_pair)
qed

lemma revoked_token_dead_witness:
  "\<exists>t s1 s3. revoke_service_token example_env ''tok_0'' ci_office = (Inr t, s1) \<and>
     authenticate_principal example_env (\<lambda>s. s) ''key'' s1 = (Inl err_unauthorized, s3)"
proof -
  obtain t s1 where t: "revoke_service_token example_env ''tok_0'' ci_office = (Inr t, s1)" "stk_token_hash t = ''key''"
    using ci_issued stk_revoke_same(3) by (auto simp: revoke_run Let_def)
  have "\<forall>k u. dget (ad_tokens (snd ci_office)) k = Some u \<longrightarrow> stk_token_hash u = stk_token_hash t \<longrightarrow> k = ''tok_0''"
    using ci_issued by (auto split: if_splits)
  from revoked_token_dead [OF ci_office_later example_inj t(1) [folded ci_wiring] this admin_later.now, of "''key''",
      unfolded ci_wiring] t
  show ?thesis by auto
qed


text \<open>
  C10. A service token works for as long as it should: a text handed out by \<open>IssueServiceToken\<close>
  authenticates as its account, with the role of the account, at every later time before it expires,
  whatever calls happen in between, unless the account is disabled, the token is revoked or the hash
  of another token collides with its own.
\<close>

theorem issued_token_authenticates:
  assumes "admin_later c sn any_admin (w0, empty_admin) s" "inj (e_rnd (wr_env c))" "p \<noteq> []"
    and "issue_service_token (wr_env c) (wr_hash c) p cmd s = (Inr t, s1)"
    and "\<forall>k u. dget (ad_tokens (snd s)) k = Some u \<longrightarrow> stk_token_hash u \<noteq> wr_hash c p"
    and "admin_later c sn (\<lambda>call. \<not> spoils (wr_hash c) (wr_hash c p) (stk_id t) (istc_account_id cmd) call) s1 s2"
    and "\<forall>n. istc_ttl cmd = Some n \<longrightarrow> e_now (wr_env c) (w_clock (fst s2)) < stk_issued_at t + seconds n"
  shows "\<exists>who s3 acc. authenticate_principal (wr_env c) (wr_hash c) p s2 = (Inr who, s3) \<and>
    dget (ad_accounts (snd s)) (istc_account_id cmd) = Some acc \<and>
    pri_account_id who = istc_account_id cmd \<and> pri_role who = sa_role acc"
proof -
  have "office_ok c (w0, empty_admin)" by (simp add: office_ok_def empty_admin_ok)
  then have ok: "office_ok c s" using later_ok assms(1,2) by blast
  have ok1: "office_ok c s1" using issue_keeps ok assms(4) by blast
  from assms(4) show ?thesis
  proof (cases rule: issue_cases)
    case (2 u acc)
    have own: "sa_id acc = istc_account_id cmd"
      using ok 2(2) by (auto simp: office_ok_def admin_ok_def shelf_ok_def)
    have "active_account (istc_account_id cmd) (sa_role acc) (snd s1)"
      using 2 own by (simp add: active_account_def)
    moreover have "usable_token (wr_hash c p) (stk_id u) (istc_account_id cmd) (stk_expires_at u) (snd s1)"
      unfolding usable_token_def 2(9) saves_frame using 2(5-7) assms(5) by simp
    moreover have "stk_id u = stk_id t" using 2(1) by simp
    ultimately have "active_account (istc_account_id cmd) (sa_role acc) (snd s2) \<and>
        usable_token (wr_hash c p) (stk_id u) (istc_account_id cmd) (stk_expires_at u) (snd s2)"
      using live_later [OF assms(6) ok1 assms(2)] by simp
    moreover have "admin_ok (wr_env c) (w_ids (fst s2)) (snd s2)"
      using later_ok [OF assms(6) ok1 assms(2)] by (simp add: office_ok_def)
    ultimately show ?thesis
      using live_accepted [of _ _ s2 "wr_hash c" p _ _ "wr_env c"] assms(3,7) 2(1,2,8) by (auto split: option.splits)
  qed simp
qed

theorem issued_token_authenticates_witness:
  "\<exists>who s3. authenticate_principal example_env (\<lambda>s. s) ''key'' ci_office = (Inr who, s3) \<and> pri_role who = AUTOMATION"
proof -
  obtain t where t: "issue_service_token example_env (\<lambda>s. s) ''key'' ci_issue ci_start = (Inr t, ci_office)"
      "stk_issued_at t = 1" "w_clock (fst ci_office) = 2"
    using ci_issued by blast
  obtain w acc where start: "ci_start = (w, empty_admin\<lparr>ad_accounts := [(''sa_'', acc)]\<rparr>)" "sa_role acc = AUTOMATION"
    using ci_start_end by blast
  have empty: "\<forall>k u. dget (ad_tokens (snd ci_start)) k = Some u \<longrightarrow> stk_token_hash u \<noteq> ''key''"
    and role: "\<forall>acc. dget (ad_accounts (snd ci_start)) (istc_account_id ci_issue) = Some acc \<longrightarrow> sa_role acc = AUTOMATION"
    unfolding start(1) using start(2) by (simp_all add: empty_admin_def ci_issue_def)
  have "\<forall>n. istc_ttl ci_issue = Some n \<longrightarrow> e_now example_env (w_clock (fst ci_office)) < stk_issued_at t + seconds n"
    using t by (simp add: ci_issue_def example_env_def)
  from issued_token_authenticates [OF ci_start_later example_inj _ t(1) [folded ci_wiring] _ admin_later.now,
      unfolded ci_wiring, OF _ empty this]
  show ?thesis using role by auto
qed





end
