(* ===== verification/Json_Text.thy ===== *)
theory Json_Text
  imports Json "HOL-Library.Char_ord" "HOL-Library.List_Lexorder"
begin

text \<open>
  \<open>json.dumps\<close> with its default escaping, as the code calls it on payloads and delivery bodies: the
  item and key separators are arguments, and \<open>sort_keys\<close> orders the keys of every object. Every
  character outside the printable ASCII range is written as \<open>\u00xx\<close>.
\<close>

definition backslash :: char where
  "backslash = char_of (92 :: nat)"

definition json_char :: "char \<Rightarrow> string" where
  "json_char c = (let n = of_char c :: nat in
     if n = 34 \<or> n = 92 then [backslash, c]
     else if n = 8 then [backslash, CHR ''b'']
     else if n = 9 then [backslash, CHR ''t'']
     else if n = 10 then [backslash, CHR ''n'']
     else if n = 12 then [backslash, CHR ''f'']
     else if n = 13 then [backslash, CHR ''r'']
     else if n < 32 \<or> 126 < n then [backslash, CHR ''u'', CHR ''0'', CHR ''0''] @ hex2 n
     else [c])"

definition json_string :: "string \<Rightarrow> string" where
  "json_string s = [CHR 0x22] @ concat (List.map json_char s) @ [CHR 0x22]"

definition json_key :: "bool \<Rightarrow> (string \<times> string) list \<Rightarrow> (string \<times> string) list" where
  "json_key so kvs = (if so then sort_key fst kvs else kvs)"

fun json_dumps :: "bool \<Rightarrow> string \<Rightarrow> string \<Rightarrow> json \<Rightarrow> string" where
  "json_dumps so comma colon JNull = ''null''"
| "json_dumps so comma colon (JBool b) = (if b then ''true'' else ''false'')"
| "json_dumps so comma colon (JInt i) = str_int i"
| "json_dumps so comma colon (JStr s) = json_string s"
| "json_dumps so comma colon (JList xs) =
     ''['' @ join comma (List.map (json_dumps so comma colon) xs) @ '']''"
| "json_dumps so comma colon (JObj kvs) =
     [CHR 0x7B] @ join comma (List.map (\<lambda>(k, t). json_string k @ colon @ t)
        (json_key so (List.map (\<lambda>(k, v). (k, json_dumps so comma colon v)) kvs))) @ [CHR 0x7D]"

text \<open>\<open>json.dumps(obj, sort_keys=True, separators=(",", ":"))\<close>, the canonical text, and \<open>json.dumps(obj)\<close>.\<close>

definition canonical_text :: "json \<Rightarrow> string" where
  "canonical_text = json_dumps True '','' '':''"

definition plain_text :: "json \<Rightarrow> string" where
  "plain_text = json_dumps False '', '' '': ''"

lemma canonical_example:
  "canonical_text (JObj [(''b'', JList [JInt 1, JNull]), (''a'', JStr [CHR 0x22, CHR 0x0A])]) =
     [CHR 0x7B, CHR 0x22, CHR ''a'', CHR 0x22, CHR '':'', CHR 0x22, backslash, CHR 0x22, backslash, CHR ''n'', CHR 0x22,
      CHR '','', CHR 0x22, CHR ''b'', CHR 0x22, CHR '':'', CHR ''['', CHR ''1'', CHR '','', CHR ''n'', CHR ''u'',
      CHR ''l'', CHR ''l'', CHR '']'', CHR 0x7D]"
  by code_simp

text \<open>The text is printable ASCII whatever the characters of the value, so one line holds it.\<close>

definition printable :: "string \<Rightarrow> bool" where
  "printable s \<longleftrightarrow> (\<forall>c \<in> set s. 32 \<le> (of_char c :: nat) \<and> (of_char c :: nat) \<le> 126)"

end
