(* ===== verification/Webhooks.thy ===== *)
theory Webhooks
  imports Admin_Use_Cases Json_Text Calendar
begin

text \<open>
  Webhook subscriptions at work (\<open>core/use_cases/webhooks.py\<close>): creation, reading and deletion with
  the secret kept in the in-process secret store (\<open>InMemorySecretStore\<close>), and the dispatcher that
  posts the events of the outbox to every active subscription. The generated secret, its hash, the
  HMAC and the random delivery ids are parameters; so is what the HTTP sender answers, which may depend
  on how often it was called. \<open>po_sent\<close> records every call of the sender with its answer.
\<close>

subsection \<open>Repository and secret store\<close>

definition webhook_save :: "webhook \<Rightarrow> admin \<Rightarrow> admin" where
  "webhook_save x a = a\<lparr>ad_webhooks := dset (wh_id x) x (ad_webhooks a)\<rparr>"

definition webhook_delete :: "string \<Rightarrow> admin \<Rightarrow> admin" where
  "webhook_delete i a = a\<lparr>ad_webhooks := dpop i (ad_webhooks a)\<rparr>"

definition list_webhooks_repo :: "admin \<Rightarrow> webhook list" where
  "list_webhooks_repo a = sort_key wh_created_at (dvalues (ad_webhooks a))"

definition list_active :: "admin \<Rightarrow> webhook list" where
  "list_active a = sort_key wh_created_at (filter (\<lambda>x. wh_state x = WH_ACTIVE) (dvalues (ad_webhooks a)))"

definition secret_remember :: "string \<Rightarrow> string \<Rightarrow> admin \<Rightarrow> admin" where
  "secret_remember k p a = a\<lparr>ad_secrets := dset k p (ad_secrets a)\<rparr>"

definition secret_get :: "string \<Rightarrow> admin \<Rightarrow> string option" where
  "secret_get k a = dget (ad_secrets a) k"

definition secret_forget :: "string \<Rightarrow> admin \<Rightarrow> admin" where
  "secret_forget k a = a\<lparr>ad_secrets := dpop k (ad_secrets a)\<rparr>"

subsection \<open>Subscriptions\<close>

record create_webhook_cmd =
  cwc_target_url :: string
  cwc_event_types :: "string list"
  cwc_description :: "string option"
  cwc_labels :: "(string, string) dict"

definition create_webhook ::
  "env \<Rightarrow> (string \<Rightarrow> string) \<Rightarrow> string \<Rightarrow> create_webhook_cmd \<Rightarrow> ('ag, webhook) admin_act" where
  "create_webhook env h plaintext c =
     bindM (nowA env) (\<lambda>now.
     bindM (freshA env WebhookSubscriptionId) (\<lambda>i.
     bindM (getM (\<lambda>s. head_event_id (w_outbox (fst s)))) (\<lambda>head.
     bindM (liftM (mk_webhook
       \<lparr>wh_id = i, wh_target_url = cwc_target_url c, wh_secret_hash = h plaintext,
        wh_event_types = cwc_event_types c, wh_state = WH_ACTIVE, wh_created_at = now, wh_updated_at = now,
        wh_cursor = head, wh_last_delivery_at = None, wh_last_delivery_status = None, wh_failure_count = 0,
        wh_description = cwc_description c, wh_labels = cwc_labels c\<rparr>)) (\<lambda>x.
     bindM (writeA (webhook_save x)) (\<lambda>_.
     bindM (writeA (secret_remember i plaintext)) (\<lambda>_. returnM x))))))"

definition list_webhooks :: "('ag, webhook list) admin_act" where
  "list_webhooks = readA list_webhooks_repo"

definition get_webhook :: "string \<Rightarrow> ('ag, webhook) admin_act" where
  "get_webhook i = findA ad_webhooks i"

definition delete_webhook :: "string \<Rightarrow> ('ag, unit) admin_act" where
  "delete_webhook i =
     bindM (findA ad_webhooks i) (\<lambda>_.
     bindM (writeA (webhook_delete i)) (\<lambda>_. writeA (secret_forget i)))"

subsection \<open>Deliveries\<close>

record delivery =
  dl_target_url :: string
  dl_event_id :: int
  dl_event_type :: string
  dl_resource_type :: string
  dl_resource_id :: "string option"
  dl_body :: string
  dl_signature :: string
  dl_delivery_id :: string

record send_result =
  ans_ok :: bool
  ans_http_status :: "int option"
  ans_error :: "string option"

definition hmac_signature :: "(string \<Rightarrow> string \<Rightarrow> string) \<Rightarrow> string \<Rightarrow> string \<Rightarrow> string" where
  "hmac_signature hm secret body = ''sha256='' @ hm secret body"

definition delivery_body :: "outbox_event \<Rightarrow> json" where
  "delivery_body e = JObj
     [(''event_id'', JInt (oev_event_id e)), (''id'', JStr (oev_id e)), (''event_type'', JStr (oev_event_type e)),
      (''resource_type'', JStr (oev_resource_type e)), (''resource_id'', jopt JStr (oev_resource_id e)),
      (''occurred_at'', JStr (isoformat (oev_occurred_at e))), (''payload'', JObj (oev_payload e))]"

definition build_delivery ::
  "(string \<Rightarrow> string \<Rightarrow> string) \<Rightarrow> string \<Rightarrow> outbox_event \<Rightarrow> string \<Rightarrow> string \<Rightarrow> delivery" where
  "build_delivery hm rnd e secret url =
     (let body = canonical_text (delivery_body e)
      in \<lparr>dl_target_url = url, dl_event_id = oev_event_id e, dl_event_type = oev_event_type e,
          dl_resource_type = oev_resource_type e, dl_resource_id = oev_resource_id e, dl_body = body,
          dl_signature = hmac_signature hm secret body, dl_delivery_id = rnd\<rparr>)"

text \<open>
  The answer of the real sender: any status from 200 to 299 is a success, a transport error is a
  failure with its text. The test sender fails for chosen targets.
\<close>

definition http_answer :: "string + int \<Rightarrow> send_result" where
  "http_answer r = (case r of
       Inl err \<Rightarrow> \<lparr>ans_ok = False, ans_http_status = None, ans_error = Some err\<rparr>
     | Inr st \<Rightarrow> let ok = (200 \<le> st \<and> st < 300)
         in \<lparr>ans_ok = ok, ans_http_status = Some st,
             ans_error = (if ok then None else Some (''http_'' @ str_int st))\<rparr>)"

definition memory_send :: "string list \<Rightarrow> int \<Rightarrow> nat \<Rightarrow> delivery \<Rightarrow> send_result" where
  "memory_send fails st n d =
     (if dl_target_url d \<in> set fails
      then \<lparr>ans_ok = False, ans_http_status = Some st, ans_error = Some (''http_'' @ str_int st)\<rparr>
      else \<lparr>ans_ok = True, ans_http_status = Some 200, ans_error = None\<rparr>)"

subsection \<open>The dispatcher\<close>

record dispatcher =
  dp_batch_size :: nat
  dp_max_failures :: int
  dp_send :: "nat \<Rightarrow> delivery \<Rightarrow> send_result"
  dp_hmac :: "string \<Rightarrow> string \<Rightarrow> string"
  dp_rnd :: "nat \<Rightarrow> string"

record tally =
  ty_dispatched :: int
  ty_failures :: int
  ty_disabled :: int

definition no_tally :: tally where
  "no_tally = \<lparr>ty_dispatched = 0, ty_failures = 0, ty_disabled = 0\<rparr>"

type_synonym sent = "(delivery \<times> send_result) list"

type_synonym ('ag, 'a) post_act = "(('ag world \<times> admin) \<times> sent, exc, 'a) act"

definition on_office :: "('ag, 'a) admin_act \<Rightarrow> ('ag, 'a) post_act" where
  "on_office m = zoomM fst (\<lambda>s p. (s, snd p)) m"

definition sendM :: "dispatcher \<Rightarrow> webhook \<Rightarrow> string \<Rightarrow> outbox_event \<Rightarrow> ('ag, send_result) post_act" where
  "sendM d x secret e = (\<lambda>p.
     let n = length (snd p); dl = build_delivery (dp_hmac d) (dp_rnd d n) e secret (wh_target_url x);
         r = dp_send d n dl
     in (Inr r, fst p, snd p @ [(dl, r)]))"

text \<open>The loop over the events of one subscription; a failure ends it.\<close>

fun deliver ::
  "env \<Rightarrow> dispatcher \<Rightarrow> string \<Rightarrow> outbox_event list \<Rightarrow> webhook \<Rightarrow> tally \<Rightarrow> ('ag, webhook \<times> tally) post_act" where
  "deliver env d secret [] x t = returnM (x, t)"
| "deliver env d secret (e # es) x t =
     (if \<not> wh_matches (oev_event_type e) x
      then bindM (on_office (nowA env)) (\<lambda>now.
           deliver env d secret es
             (x\<lparr>wh_cursor := max (wh_cursor x) (oev_event_id e), wh_updated_at := now\<rparr>) t)
      else bindM (sendM d x secret e) (\<lambda>r.
           bindM (on_office (nowA env)) (\<lambda>now.
           if ans_ok r
           then deliver env d secret es (wh_mark_delivered (oev_event_id e) now x)
                  (t\<lparr>ty_dispatched := ty_dispatched t + 1\<rparr>)
           else let err = (case ans_error r of None \<Rightarrow> ''unknown'' | Some m \<Rightarrow> if m = [] then ''unknown'' else m);
                    x1 = wh_mark_failed now err x; t1 = t\<lparr>ty_failures := ty_failures t + 1\<rparr>
                in if wh_failure_count x1 \<ge> dp_max_failures d
                   then bindM (on_office (nowA env)) (\<lambda>now'.
                        returnM (wh_disable now' (str_int (wh_failure_count x1) @ '' consecutive failures'') x1,
                                 t1\<lparr>ty_disabled := ty_disabled t1 + 1\<rparr>))
                   else returnM (x1, t1))))"

definition dispatch_one :: "env \<Rightarrow> dispatcher \<Rightarrow> webhook \<Rightarrow> tally \<Rightarrow> ('ag, tally) post_act" where
  "dispatch_one env d x t =
     bindM (on_office (readA (secret_get (wh_id x)))) (\<lambda>sec.
     case sec of
       None \<Rightarrow>
         bindM (on_office (nowA env)) (\<lambda>now.
         bindM (on_office (writeA (webhook_save (wh_disable now ''secret unavailable in process cache'' x)))) (\<lambda>_.
         returnM (t\<lparr>ty_disabled := ty_disabled t + 1\<rparr>)))
     | Some secret \<Rightarrow>
         bindM (getM (\<lambda>p. list_since (wh_cursor x) (dp_batch_size d) (w_outbox (fst (fst p))))) (\<lambda>events.
         bindM (deliver env d secret events x t) (\<lambda>(x', t').
         bindM (on_office (writeA (webhook_save x'))) (\<lambda>_. returnM t'))))"

fun dispatch_all :: "env \<Rightarrow> dispatcher \<Rightarrow> webhook list \<Rightarrow> tally \<Rightarrow> ('ag, tally) post_act" where
  "dispatch_all env d [] t = returnM t"
| "dispatch_all env d (x # xs) t = bindM (dispatch_one env d x t) (\<lambda>t'. dispatch_all env d xs t')"

text \<open>One pass; the first component of the result is the number of subscriptions looked at.\<close>

definition dispatch_webhooks :: "env \<Rightarrow> dispatcher \<Rightarrow> ('ag, nat \<times> tally) post_act" where
  "dispatch_webhooks env d =
     bindM (on_office (readA list_active)) (\<lambda>active.
     bindM (dispatch_all env d active no_tally) (\<lambda>t. returnM (length active, t)))"

end
