(* ===== verification/Webhook_Delivery.thy ===== *)
theory Webhook_Delivery
  imports Webhooks Reconcile System_Properties
begin

text \<open>
  What the dispatcher does to a subscription, and what that means over many passes: a loop over the
  events of a subscription posts the matching ones in order, stops at the first failure, and moves the
  cursor to the last event before it; so no matching event is ever left behind the cursor undelivered.
\<close>

subsection \<open>One subscription\<close>

definition subscribed :: "webhook \<Rightarrow> outbox_event \<Rightarrow> bool" where
  "subscribed x e \<longleftrightarrow> wh_matches (oev_event_type e) x"

definition posts :: "dispatcher \<Rightarrow> string \<Rightarrow> string \<Rightarrow> outbox_event \<Rightarrow> delivery \<times> send_result \<Rightarrow> bool" where
  "posts d secret url e q \<longleftrightarrow> (\<exists>rnd. fst q = build_delivery (dp_hmac d) rnd e secret url)"

text \<open>
  The abstract result of the loop: the events split into the handled ones and the rest, which is
  empty or starts with the event whose delivery failed.
\<close>

definition handled ::
  "dispatcher \<Rightarrow> string \<Rightarrow> outbox_event list \<Rightarrow> outbox_event list \<Rightarrow> outbox_event list \<Rightarrow> webhook \<Rightarrow> sent \<Rightarrow> webhook \<Rightarrow> bool" where
  "handled d secret es pre post x log x' \<longleftrightarrow>
     es = pre @ post \<and> wh_cursor x' = last (wh_cursor x # List.map oev_event_id pre) \<and>
     list_all2 (posts d secret (wh_target_url x)) (filter (subscribed x) pre @ take 1 post) log \<and>
     (\<forall>q \<in> set (take (length (filter (subscribed x) pre)) log). ans_ok (snd q)) \<and>
     (post \<noteq> [] \<longrightarrow> subscribed x (hd post) \<and> log \<noteq> [] \<and> \<not> ans_ok (snd (last log)))"

definition same_contract :: "webhook \<Rightarrow> webhook \<Rightarrow> bool" where
  "same_contract x y \<longleftrightarrow> wh_id y = wh_id x \<and> wh_target_url y = wh_target_url x \<and>
     wh_event_types y = wh_event_types x \<and> wh_secret_hash y = wh_secret_hash x \<and> wh_created_at y = wh_created_at x"

lemma same_contract_refl [simp]: "same_contract x x"
  by (simp add: same_contract_def)

lemma same_contract_trans: "same_contract x y \<Longrightarrow> same_contract y z \<Longrightarrow> same_contract x z"
  by (simp add: same_contract_def)

lemma same_contract_ops [simp]:
  "same_contract x (wh_mark_delivered i t x)" "same_contract x (wh_mark_failed t m x)"
  "same_contract x (wh_disable t m x)" "same_contract x (x\<lparr>wh_cursor := c, wh_updated_at := t\<rparr>)"
  by (simp_all add: same_contract_def wh_mark_delivered_def wh_mark_failed_def wh_disable_def)

lemma subscribed_same: "same_contract x y \<Longrightarrow> subscribed y = subscribed x"
  by (auto simp: same_contract_def subscribed_def wh_matches_def)

text \<open>A pass touches nothing of the shared world but the clock.\<close>

definition same_world :: "'ag world \<Rightarrow> 'ag world \<Rightarrow> bool" where
  "same_world w v \<longleftrightarrow> (\<exists>n. v = w\<lparr>w_clock := n\<rparr>)"

lemma same_world_refl [simp]: "same_world w w"
proof -
  have "w = w\<lparr>w_clock := w_clock w\<rparr>" by simp
  then show ?thesis unfolding same_world_def by blast
qed

lemma same_world_trans: "same_world u v \<Longrightarrow> same_world v w \<Longrightarrow> same_world u w"
  by (auto simp: same_world_def)

lemma same_world_tick: "same_world w (w\<lparr>w_clock := n\<rparr>)"
  by (auto simp: same_world_def)

lemma office_runs [simp]:
  "bindM (on_office (nowA env)) f p =
     f (e_now env (w_clock (fst (fst p)))) (((fst (fst p))\<lparr>w_clock := w_clock (fst (fst p)) + 1\<rparr>, snd (fst p)), snd p)"
  "bindM (on_office (readA h)) g p = g (h (snd (fst p))) p"
  "bindM (on_office (writeA u)) j p = j () ((fst (fst p), u (snd (fst p))), snd p)"
  by (simp_all add: on_office_def zoomM_def bindM_run on_ctl_def nowM_def readA_def writeA_def)

lemma handled_next:
  assumes "handled d secret es pre post y log x'" "same_contract x y"
    and "wh_cursor y = oev_event_id e" "\<not> subscribed x e"
  shows "handled d secret (e # es) (e # pre) post x log x'"
  using assms subscribed_same [OF assms(2)] by (auto simp: handled_def same_contract_def)

lemma handled_sent:
  assumes "handled d secret es pre post y log x'" "same_contract x y"
    and "wh_cursor y = oev_event_id e" "subscribed x e" "posts d secret (wh_target_url x) e q" "ans_ok (snd q)"
  shows "handled d secret (e # es) (e # pre) post x (q # log) x'"
  using assms subscribed_same [OF assms(2)] by (auto simp: handled_def same_contract_def)

lemma handled_stop:
  assumes "subscribed x e" "posts d secret (wh_target_url x) e q" "\<not> ans_ok (snd q)" "wh_cursor x' = wh_cursor x"
  shows "handled d secret (e # es) [] (e # es) x [q] x'"
  using assms by (simp add: handled_def)

lemma handled_end: "handled d secret [] [] [] x [] x"
  by (simp add: handled_def)

lemma deliver_run:
  assumes "deliver env d secret es x t p = (r, p')"
    and "sorted_wrt (<) (List.map oev_event_id es)" "\<forall>e \<in> set es. wh_cursor x < oev_event_id e"
  shows "\<exists>x' t' log pre post. r = Inr (x', t') \<and> snd p' = snd p @ log \<and> snd (fst p') = snd (fst p) \<and>
    same_world (fst (fst p)) (fst (fst p')) \<and> same_contract x x' \<and> handled d secret es pre post x log x'"
  using assms
proof (induction es arbitrary: x t p)
  case Nil
  then show ?case using handled_end by (intro exI [of _ x] exI [of _ t] exI [of _ "[]"]) simp
next
  case (Cons e es)
  define p1 where "p1 = (((fst (fst p))\<lparr>w_clock := w_clock (fst (fst p)) + 1\<rparr>, snd (fst p)), snd p)"
  have p1: "snd p1 = snd p" "snd (fst p1) = snd (fst p)" "same_world (fst (fst p)) (fst (fst p1))"
    by (simp_all add: p1_def same_world_tick)
  have sorted: "sorted_wrt (<) (List.map oev_event_id es)" and above: "\<forall>f \<in> set es. oev_event_id e < oev_event_id f"
    using Cons.prems(2) by simp_all
  have e: "wh_cursor x < oev_event_id e" using Cons.prems(3) by simp
  let ?now = "e_now env (w_clock (fst (fst p)))"
  show ?case
  proof (cases "subscribed x e")
    case False
    let ?y = "x\<lparr>wh_cursor := max (wh_cursor x) (oev_event_id e), wh_updated_at := ?now\<rparr>"
    have y: "wh_cursor ?y = oev_event_id e" "same_contract x ?y" using e by (simp_all add: max_def)
    have "deliver env d secret es ?y t p1 = (r, p')"
      using Cons.prems(1) False by (simp add: subscribed_def p1_def)
    moreover have "\<forall>f \<in> set es. wh_cursor ?y < oev_event_id f" using above unfolding y(1) .
    ultimately obtain x' t' log pre post where IH: "r = Inr (x', t')" "snd p' = snd p1 @ log"
        "snd (fst p') = snd (fst p1)" "same_world (fst (fst p1)) (fst (fst p'))" "same_contract ?y x'"
        "handled d secret es pre post ?y log x'"
      using Cons.IH sorted by blast
    show ?thesis
      using IH p1 handled_next [OF IH(6) y(2,1) False] same_contract_trans [OF y(2) IH(5)]
        same_world_trans [OF p1(3) IH(4)] by metis
  next
    case True
    define n where "n = length (snd p)"
    define dl where "dl = build_delivery (dp_hmac d) (dp_rnd d n) e secret (wh_target_url x)"
    define a where "a = dp_send d n dl"
    have post: "posts d secret (wh_target_url x) e (dl, a)" by (auto simp: posts_def dl_def)
    have send: "bindM (sendM d x secret e) f p = f a (fst p, snd p @ [(dl, a)])" for f :: "send_result \<Rightarrow> ('a, 'b) post_act"
      by (simp add: bindM_run sendM_def Let_def a_def dl_def n_def)
    show ?thesis
    proof (cases "ans_ok a")
      case ok: True
      let ?y = "wh_mark_delivered (oev_event_id e) ?now x"
      have y: "wh_cursor ?y = oev_event_id e" "same_contract x ?y" using e by (simp add: wh_mark_delivered_def, simp only: same_contract_ops)
      let ?p2 = "(fst p1, snd p @ [(dl, a)])"
      have "deliver env d secret es ?y (t\<lparr>ty_dispatched := ty_dispatched t + 1\<rparr>) ?p2 = (r, p')"
        using Cons.prems(1) True ok by (simp add: subscribed_def send p1_def)
      moreover have "\<forall>f \<in> set es. wh_cursor ?y < oev_event_id f" using above unfolding y(1) .
      ultimately obtain x' t' log pre post' where IH: "r = Inr (x', t')" "snd p' = snd ?p2 @ log"
          "snd (fst p') = snd (fst ?p2)" "same_world (fst (fst ?p2)) (fst (fst p'))" "same_contract ?y x'"
          "handled d secret es pre post' ?y log x'"
        using Cons.IH sorted by blast
      have "handled d secret (e # es) (e # pre) post' x ((dl, a) # log) x'"
        using handled_sent [OF IH(6) y(2,1) True post] ok by simp
      moreover have "snd p' = snd p @ (dl, a) # log" using IH(2) by simp
      ultimately show ?thesis
        using IH(1,3,4) p1 same_contract_trans [OF y(2) IH(5)] same_world_trans [OF p1(3)] by (metis fst_conv)
    next
      case fail: False
      define err where "err = (case ans_error a of None \<Rightarrow> ''unknown'' | Some m \<Rightarrow> if m = [] then ''unknown'' else m)"
      let ?y = "wh_mark_failed ?now err x"
      have run: "(if wh_failure_count ?y \<ge> dp_max_failures d
           then (Inr (wh_disable (e_now env (w_clock (fst (fst p)) + 1)) (str_int (wh_failure_count ?y) @ '' consecutive failures'') ?y,
                   t\<lparr>ty_failures := ty_failures t + 1, ty_disabled := ty_disabled t + 1\<rparr>),
                 (((fst (fst p))\<lparr>w_clock := w_clock (fst (fst p)) + 2\<rparr>, snd (fst p)), snd p @ [(dl, a)]))
           else (Inr (?y, t\<lparr>ty_failures := ty_failures t + 1\<rparr>), (fst p1, snd p @ [(dl, a)]))) = (r, p')"
        using Cons.prems(1) True fail
        by (cases "wh_failure_count ?y \<ge> dp_max_failures d")
          (simp_all add: subscribed_def send p1_def Let_def err_def [symmetric])
      have *: "handled d secret (e # es) [] (e # es) x [(dl, a)] x'" if "wh_cursor x' = wh_cursor x" for x'
        using handled_stop [OF True post] fail that by simp
      show ?thesis
      proof (cases "wh_failure_count ?y \<ge> dp_max_failures d")
        case True
        let ?z = "wh_disable (e_now env (w_clock (fst (fst p)) + 1)) (str_int (wh_failure_count ?y) @ '' consecutive failures'') ?y"
        have "wh_cursor ?z = wh_cursor x" "same_contract x ?z"
          using same_contract_trans [OF same_contract_ops(2,3)] by (simp_all add: wh_disable_def wh_mark_failed_def same_contract_def)
        then show ?thesis using run True * [of ?z] same_world_tick by fastforce
      next
        case False
        have "wh_cursor ?y = wh_cursor x" by (simp add: wh_mark_failed_def)
        then show ?thesis using run False * [of ?y] p1 by fastforce
      qed
    qed
  qed
qed

subsection \<open>The events a pass reads\<close>

lemma list_since_sorted:
  assumes "outbox_ok ob"
  shows "list_since c n ob = take n (filter (\<lambda>e. oev_event_id e > c) (dvalues (obx_items ob)))"
    and "sorted_wrt (<) (List.map oev_event_id (filter (\<lambda>e. oev_event_id e > c) (dvalues (obx_items ob))))"
proof -
  have "sorted_wrt (<) (List.map oev_event_id (dvalues (obx_items ob)))"
    using assms by (simp add: outbox_ok_def event_numbers_def)
  then show s: "sorted_wrt (<) (List.map oev_event_id (filter (\<lambda>e. oev_event_id e > c) (dvalues (obx_items ob))))"
    by (simp add: sorted_wrt_map sorted_wrt_filter)
  then have "sorted (List.map oev_event_id (filter (\<lambda>e. oev_event_id e > c) (dvalues (obx_items ob))))"
    by (rule strict_sorted_imp_sorted)
  then show "list_since c n ob = take n (filter (\<lambda>e. oev_event_id e > c) (dvalues (obx_items ob)))"
    by (simp add: list_since_def sort_key_id_if_sorted)
qed

text \<open>Every stored event between the old cursor and the end of a handled part is in that part.\<close>

lemma handled_complete:
  assumes "outbox_ok ob" "list_since c n ob = pre @ post" "e \<in> set (dvalues (obx_items ob))"
    and "c < oev_event_id e" "oev_event_id e \<le> last (c # List.map oev_event_id pre)"
  shows "e \<in> set pre"
proof -
  let ?all = "filter (\<lambda>e. oev_event_id e > c) (dvalues (obx_items ob))"
  have all: "?all = pre @ post @ drop n ?all"
    using assms(2) list_since_sorted(1) [OF assms(1), of c n] append_take_drop_id [of n ?all] by simp
  have "pre \<noteq> []" using assms(4,5) by auto
  then have last: "last (c # List.map oev_event_id pre) = oev_event_id (last pre)" "last pre \<in> set pre"
    by (simp_all add: last_map)
  have "sorted_wrt (<) (List.map oev_event_id (pre @ post @ drop n ?all))"
    using list_since_sorted(2) [OF assms(1), of c] all by simp
  then have "\<forall>f \<in> set (post @ drop n ?all). oev_event_id (last pre) < oev_event_id f"
    using last(2) by (auto simp: sorted_wrt_append)
  then have "e \<notin> set (post @ drop n ?all)" using assms(5) unfolding last(1) by (meson linorder_not_le)
  moreover have "e \<in> set ?all" using assms(3,4) by simp
  then have "e \<in> set (pre @ post @ drop n ?all)" using all by simp
  ultimately show ?thesis by simp
qed

subsection \<open>Many passes\<close>

definition reached :: "webhook \<Rightarrow> outbox_event \<Rightarrow> sent \<Rightarrow> bool" where
  "reached x e log \<longleftrightarrow> (\<exists>q \<in> set log. ans_ok (snd q) \<and> dl_target_url (fst q) = wh_target_url x \<and>
     dl_event_id (fst q) = oev_event_id e \<and> dl_body (fst q) = canonical_text (delivery_body e))"

lemma handled_reached:
  assumes "handled d secret es pre post x log x'" "e \<in> set pre" "subscribed x e"
  shows "reached x e log"
proof -
  let ?m = "filter (subscribed x) pre"
  have l2: "list_all2 (posts d secret (wh_target_url x)) (?m @ take 1 post) log"
    and ok: "\<forall>q \<in> set (take (length ?m) log). ans_ok (snd q)"
    using assms(1) by (auto simp: handled_def)
  have "e \<in> set ?m" using assms(2,3) by simp
  then obtain k where k: "k < length ?m" "?m ! k = e" unfolding in_set_conv_nth by blast
  have len: "length (?m @ take 1 post) = length log" using l2 by (rule list_all2_lengthD)
  then have k': "k < length log" using k(1) by simp
  have "posts d secret (wh_target_url x) ((?m @ take 1 post) ! k) (log ! k)"
    using l2 k k' by (meson list_all2_nthD2)
  then have "posts d secret (wh_target_url x) e (log ! k)" using k by (simp add: nth_append)
  moreover have "log ! k \<in> set (take (length ?m) log)"
    using k(1) k' by (metis in_set_conv_nth length_take min_less_iff_conj nth_take)
  then have "ans_ok (snd (log ! k))" using ok by blast
  moreover have "log ! k \<in> set log" using k' by simp
  ultimately show ?thesis unfolding reached_def posts_def by (force simp: build_delivery_def Let_def)
qed

definition keyed_webhooks :: "admin \<Rightarrow> bool" where
  "keyed_webhooks a \<longleftrightarrow> dwf (ad_webhooks a) \<and> (\<forall>k x. dget (ad_webhooks a) k = Some x \<longrightarrow> wh_id x = k)"

text \<open>
  The subscription i, started at c0: its cursor is between c0 and the head of the outbox, and every
  stored event up to the cursor that it subscribes to has been delivered.
\<close>

definition up_to_cursor :: "int \<Rightarrow> webhook \<Rightarrow> outbox \<Rightarrow> sent \<Rightarrow> bool" where
  "up_to_cursor c0 x ob log \<longleftrightarrow> c0 \<le> wh_cursor x \<and> wh_cursor x \<le> obx_seq ob \<and>
     (\<forall>e \<in> set (dvalues (obx_items ob)). c0 < oev_event_id e \<longrightarrow> oev_event_id e \<le> wh_cursor x \<longrightarrow>
        subscribed x e \<longrightarrow> reached x e log)"

definition tracks :: "string \<Rightarrow> int \<Rightarrow> ('ag world \<times> admin) \<times> sent \<Rightarrow> bool" where
  "tracks i c0 p \<longleftrightarrow> keyed_webhooks (snd (fst p)) \<and> outbox_ok (w_outbox (fst (fst p))) \<and>
     (\<forall>x. dget (ad_webhooks (snd (fst p))) i = Some x \<longrightarrow> up_to_cursor c0 x (w_outbox (fst (fst p))) (snd p))"

lemma reached_more: "reached x e log \<Longrightarrow> same_contract x y \<Longrightarrow> reached y e (log @ new)"
  by (auto simp: reached_def same_contract_def)

lemma up_to_cursor_handled:
  assumes "up_to_cursor c0 x ob log" "outbox_ok ob" "same_contract x x'"
    and "handled d secret (list_since (wh_cursor x) n ob) pre post x new x'"
  shows "up_to_cursor c0 x' ob (log @ new)"
proof -
  let ?c = "wh_cursor x"
  have c': "wh_cursor x' = last (?c # List.map oev_event_id pre)" and es: "list_since ?c n ob = pre @ post"
    using assms(4) by (auto simp: handled_def)
  have in_box: "f \<in> set (dvalues (obx_items ob)) \<and> ?c < oev_event_id f" if "f \<in> set pre" for f
  proof -
    have "f \<in> set (list_since ?c n ob)" using es that by simp
    then show ?thesis unfolding list_since_sorted(1) [OF assms(2)] by (auto dest!: in_set_takeD)
  qed
  have bound: "?c \<le> wh_cursor x' \<and> wh_cursor x' \<le> obx_seq ob"
  proof (cases "pre = []")
    case True
    then show ?thesis using c' assms(1) by (simp add: up_to_cursor_def)
  next
    case False
    then have "wh_cursor x' = oev_event_id (last pre)" "last pre \<in> set pre" using c' by (simp_all add: last_map)
    then show ?thesis using in_box assms(2) by (fastforce simp: outbox_ok_def event_numbers_def)
  qed
  have "reached x' e (log @ new)" if e: "e \<in> set (dvalues (obx_items ob))" "c0 < oev_event_id e"
      "oev_event_id e \<le> wh_cursor x'" "subscribed x' e" for e
  proof (cases "oev_event_id e \<le> ?c")
    case True
    then have "reached x e log"
      using assms(1) e unfolding subscribed_same [OF assms(3)] up_to_cursor_def by blast
    then show ?thesis using reached_more assms(3) by blast
  next
    case False
    then have "e \<in> set pre" using handled_complete [OF assms(2) es e(1)] e(3) c' by simp
    then have "reached x e new" using handled_reached [OF assms(4)] e(4) subscribed_same [OF assms(3)] by simp
    then show ?thesis using assms(3) by (auto simp: reached_def same_contract_def)
  qed
  then show ?thesis using bound assms(1) unfolding up_to_cursor_def by auto
qed

lemma up_to_cursor_more: "up_to_cursor c0 x ob log \<Longrightarrow> up_to_cursor c0 x ob (log @ new)"
  using reached_more [of x _ log x new] by (simp add: up_to_cursor_def)

lemma keyed_save: "keyed_webhooks a \<Longrightarrow> keyed_webhooks (webhook_save x a)"
  by (auto simp: keyed_webhooks_def webhook_save_def)

lemma same_world_outbox: "same_world w v \<Longrightarrow> w_outbox v = w_outbox w"
  by (auto simp: same_world_def)

lemma dispatch_one_keeps:
  assumes "dispatch_one env d x t p = (r, p')" "tracks i c0 p" "dget (ad_webhooks (snd (fst p))) (wh_id x) = Some x"
  shows "(\<exists>t'. r = Inr t') \<and> tracks i c0 p' \<and> same_world (fst (fst p)) (fst (fst p')) \<and>
    (\<forall>j. j \<noteq> wh_id x \<longrightarrow> dget (ad_webhooks (snd (fst p'))) j = dget (ad_webhooks (snd (fst p))) j)"
proof (cases "secret_get (wh_id x) (snd (fst p))")
  case None
  let ?y = "wh_disable (e_now env (w_clock (fst (fst p)))) ''secret unavailable in process cache'' x"
  have p': "r = Inr (t\<lparr>ty_disabled := ty_disabled t + 1\<rparr>)"
      "p' = (((fst (fst p))\<lparr>w_clock := w_clock (fst (fst p)) + 1\<rparr>, webhook_save ?y (snd (fst p))), snd p)"
    using assms(1) None by (auto simp: dispatch_one_def)
  have up: "up_to_cursor c0 ?y ob log = up_to_cursor c0 x ob log" for ob log
    by (simp add: up_to_cursor_def wh_disable_def subscribed_def wh_matches_def reached_def)
  have id: "wh_id ?y = wh_id x" by (simp add: wh_disable_def)
  have "tracks i c0 p'"
    using assms(2,3) keyed_save [of "snd (fst p)" ?y] unfolding tracks_def p'(2)
    by (auto simp: webhook_save_def id up split: if_splits)
  then show ?thesis unfolding p' using same_world_tick by (auto simp: webhook_save_def id)
next
  case (Some secret)
  let ?ob = "w_outbox (fst (fst p))" and ?es = "list_since (wh_cursor x) (dp_batch_size d) (w_outbox (fst (fst p)))"
  have ob: "outbox_ok ?ob" and keyed: "keyed_webhooks (snd (fst p))" using assms(2) by (simp_all add: tracks_def)
  obtain q p1 where q: "deliver env d secret ?es x t p = (q, p1)" by (cases "deliver env d secret ?es x t p")
  have sorted: "sorted_wrt (<) (List.map oev_event_id ?es)"
    unfolding list_since_sorted(1) [OF ob] take_map [symmetric]
    using list_since_sorted(2) [OF ob] by (rule sorted_wrt_take)
  have above: "\<forall>e \<in> set ?es. wh_cursor x < oev_event_id e"
    unfolding list_since_sorted(1) [OF ob] by (auto dest!: in_set_takeD)
  obtain x' t' log pre post where run: "q = Inr (x', t')" "snd p1 = snd p @ log" "snd (fst p1) = snd (fst p)"
      "same_world (fst (fst p)) (fst (fst p1))" "same_contract x x'" "handled d secret ?es pre post x log x'"
    using deliver_run [OF q sorted above] by blast
  have p': "r = Inr t'" "p' = ((fst (fst p1), webhook_save x' (snd (fst p))), snd p @ log)"
    using assms(1) Some q run(1-3) by (auto simp: dispatch_one_def bindM_run [of "deliver _ _ _ _ _ _"])
  have id: "wh_id x' = wh_id x" using run(5) by (simp add: same_contract_def)
  have box: "w_outbox (fst (fst p1)) = ?ob" by (rule same_world_outbox [OF run(4)])
  have "up_to_cursor c0 y ?ob (snd p @ log)" if "dget (ad_webhooks (webhook_save x' (snd (fst p)))) i = Some y" for y
  proof (cases "i = wh_id x")
    case True
    then have "y = x'" using that id by (simp add: webhook_save_def)
    moreover have "up_to_cursor c0 x ?ob (snd p)" using assms(2,3) True by (simp add: tracks_def)
    ultimately show ?thesis using up_to_cursor_handled [OF _ ob run(5,6)] by simp
  next
    case False
    then have "dget (ad_webhooks (snd (fst p))) i = Some y" using that id by (simp add: webhook_save_def)
    then show ?thesis using assms(2) up_to_cursor_more by (simp add: tracks_def)
  qed
  then have "tracks i c0 p'" using keyed_save [OF keyed] ob box by (simp add: tracks_def p'(2))
  then show ?thesis using p' run(4) id by (simp add: webhook_save_def)
qed

lemma dispatch_all_keeps:
  assumes "dispatch_all env d xs t p = (r, p')" "tracks i c0 p" "distinct (List.map wh_id xs)"
    and "\<forall>x \<in> set xs. dget (ad_webhooks (snd (fst p))) (wh_id x) = Some x"
  shows "(\<exists>t'. r = Inr t') \<and> tracks i c0 p' \<and> same_world (fst (fst p)) (fst (fst p'))"
  using assms
proof (induction xs arbitrary: t p)
  case (Cons x xs)
  obtain q p1 where q: "dispatch_one env d x t p = (q, p1)" by (cases "dispatch_one env d x t p")
  obtain t1 where one: "q = Inr t1" "tracks i c0 p1" "same_world (fst (fst p)) (fst (fst p1))"
      "\<forall>j. j \<noteq> wh_id x \<longrightarrow> dget (ad_webhooks (snd (fst p1))) j = dget (ad_webhooks (snd (fst p))) j"
    using dispatch_one_keeps [OF q Cons.prems(2)] Cons.prems(4) by auto
  have "dispatch_all env d xs t1 p1 = (r, p')" using Cons.prems(1) q one(1) by (simp add: bindM_run)
  moreover have "\<forall>y \<in> set xs. dget (ad_webhooks (snd (fst p1))) (wh_id y) = Some y"
    using one(4) Cons.prems(3,4) by (auto simp: image_iff)
  ultimately show ?case using Cons.IH [OF _ one(2)] Cons.prems(3) same_world_trans [OF one(3)] by auto
qed auto

lemma active_stored:
  assumes "keyed_webhooks a"
  shows "distinct (List.map wh_id (list_active a))" "\<forall>x \<in> set (list_active a). dget (ad_webhooks a) (wh_id x) = Some x"
proof -
  have stored: "dget (ad_webhooks a) (wh_id x) = Some x" if "x \<in> set (dvalues (ad_webhooks a))" for x
    using that assms by (fastforce simp: keyed_webhooks_def)
  then show "\<forall>x \<in> set (list_active a). dget (ad_webhooks a) (wh_id x) = Some x" by (auto simp: list_active_def)
  have "wh_id (snd q) = fst q" if "q \<in> set (ad_webhooks a)" for q
    using that assms map_of_is_SomeI [of "ad_webhooks a" "fst q" "snd q"] by (simp add: keyed_webhooks_def)
  then have keys: "List.map wh_id (dvalues (ad_webhooks a)) = dkeys (ad_webhooks a)" by simp
  have "distinct (List.map wh_id (dvalues (ad_webhooks a)))"
    unfolding keys using assms by (simp only: keyed_webhooks_def)
  then have "distinct (List.map wh_id (filter (\<lambda>x. wh_state x = WH_ACTIVE) (dvalues (ad_webhooks a))))"
    by (rule distinct_map_filter)
  then show "distinct (List.map wh_id (list_active a))"
    unfolding list_active_def by (simp add: distinct_map)
qed

lemma pass_keeps:
  assumes "dispatch_webhooks env d p = (r, p')" "tracks i c0 p"
  shows "(\<exists>x. r = Inr x) \<and> tracks i c0 p' \<and> same_world (fst (fst p)) (fst (fst p'))"
proof -
  obtain q p1 where q: "dispatch_all env d (list_active (snd (fst p))) no_tally p = (q, p1)"
    by (cases "dispatch_all env d (list_active (snd (fst p))) no_tally p")
  have "keyed_webhooks (snd (fst p))" using assms(2) by (simp add: tracks_def)
  from dispatch_all_keeps [OF q assms(2) active_stored [OF this]] show ?thesis
    using assms(1) q by (auto simp: dispatch_webhooks_def bindM_run [of "dispatch_all _ _ _ _"])
qed

text \<open>
  What the rest of the controller does to the outbox between passes: events are appended with numbers
  above the head, old ones may be marked or removed, none changes its number, type or content.
\<close>

definition outbox_grows :: "outbox \<Rightarrow> outbox \<Rightarrow> bool" where
  "outbox_grows ob ob' \<longleftrightarrow> outbox_ok ob' \<and> obx_seq ob \<le> obx_seq ob' \<and>
     (\<forall>e' \<in> set (dvalues (obx_items ob')). obx_seq ob < oev_event_id e' \<or>
        (\<exists>e \<in> set (dvalues (obx_items ob)). oev_event_id e = oev_event_id e' \<and>
           oev_event_type e = oev_event_type e' \<and> delivery_body e = delivery_body e'))"

lemma append_grows:
  assumes "outbox_ok ob" "oev_id e \<notin> set (dkeys (obx_items ob))"
  shows "outbox_grows ob (fst (outbox_append e ob))"
  using append_ok [OF assms] assms(2)
  by (auto simp: outbox_grows_def outbox_append_def Let_def dset_fresh)

lemma tracks_grows:
  assumes "tracks i c0 ((w, a), log)" "outbox_grows (w_outbox w) (w_outbox w')" "keyed_webhooks a'"
    and "dget (ad_webhooks a') i = dget (ad_webhooks a) i"
  shows "tracks i c0 ((w', a'), log)"
proof -
  have "up_to_cursor c0 x (w_outbox w') log" if "dget (ad_webhooks a') i = Some x" for x
  proof -
    have old: "up_to_cursor c0 x (w_outbox w) log" using assms(1,4) that by (simp add: tracks_def)
    have "reached x e' log" if e': "e' \<in> set (dvalues (obx_items (w_outbox w')))" "c0 < oev_event_id e'"
        "oev_event_id e' \<le> wh_cursor x" "subscribed x e'" for e'
    proof -
      have "\<not> obx_seq (w_outbox w) < oev_event_id e'" using old e'(3) by (simp add: up_to_cursor_def)
      then obtain e where e: "e \<in> set (dvalues (obx_items (w_outbox w)))" "oev_event_id e = oev_event_id e'"
          "oev_event_type e = oev_event_type e'" "delivery_body e = delivery_body e'"
        using assms(2) e'(1) unfolding outbox_grows_def by blast
      have "subscribed x e" using e'(4) e(3) by (simp add: subscribed_def)
      then have "reached x e log" using old e(1,2) e'(2,3) unfolding up_to_cursor_def by metis
      then show ?thesis using e by (simp add: reached_def)
    qed
    then show ?thesis using old assms(2) by (auto simp: up_to_cursor_def outbox_grows_def)
  qed
  then show ?thesis using assms(2,3) by (simp add: tracks_def outbox_grows_def)
qed

text \<open>Passes of any dispatcher, with anything in between that leaves the subscription i alone.\<close>

inductive post_later ::
  "env \<Rightarrow> string \<Rightarrow> ('ag world \<times> admin) \<times> sent \<Rightarrow> ('ag world \<times> admin) \<times> sent \<Rightarrow> bool"
  for env i p where
  here: "post_later env i p p"
| passed: "post_later env i p p1 \<Longrightarrow> dispatch_webhooks env d p1 = (r, p2) \<Longrightarrow> post_later env i p p2"
| between: "post_later env i p ((w, a), log) \<Longrightarrow> outbox_grows (w_outbox w) (w_outbox w') \<Longrightarrow>
    keyed_webhooks a' \<Longrightarrow> dget (ad_webhooks a') i = dget (ad_webhooks a) i \<Longrightarrow> post_later env i p ((w', a'), log)"

lemma later_tracks: "post_later env i p p' \<Longrightarrow> tracks i c0 p \<Longrightarrow> tracks i c0 p'"
proof (induction rule: post_later.induct)
  case (passed p1 d r p2)
  then show ?case using pass_keeps by blast
next
  case (between w a log w' a')
  then show ?case using tracks_grows by blast
qed simp

lemma create_webhook_tracks:
  assumes "create_webhook env h plaintext cmd s = (Inr x, s')" "outbox_ok (w_outbox (fst s))" "keyed_webhooks (snd s)"
  shows "tracks (wh_id x) (obx_seq (w_outbox (fst s))) (s', log) \<and> dget (ad_webhooks (snd s')) (wh_id x) = Some x"
proof -
  have x: "wh_cursor x = obx_seq (w_outbox (fst s))" "w_outbox (fst s') = w_outbox (fst s)"
      "snd s' = secret_remember (wh_id x) plaintext (webhook_save x (snd s))"
    using assms(1)
    by (auto simp: create_webhook_def bindM_lift head_event_id_def split: sum.splits dest!: mk_webhook_valid)
  have "keyed_webhooks (snd s')"
    using keyed_save [OF assms(3), of x] by (simp add: x(3) keyed_webhooks_def secret_remember_def)
  then show ?thesis
    using assms(2) x by (auto simp: tracks_def up_to_cursor_def secret_remember_def webhook_save_def)
qed

subsection \<open>Properties\<close>

text \<open>
  C11. Delivery at least once: a webhook subscription never leaves an event behind. After any number of
  dispatcher passes, with any sender and any answers, and whatever else is published, created or
  deleted in between, every stored event that was published after the subscription was created, that
  it subscribes to and that its cursor has passed was posted to its target with its canonical body and
  answered with success; and the cursor never runs past the head of the outbox.
\<close>

theorem webhook_at_least_once:
  assumes "create_webhook env h plaintext cmd s = (Inr x0, s1)"
    and "outbox_ok (w_outbox (fst s))" "keyed_webhooks (snd s)"
    and "post_later env (wh_id x0) (s1, []) ((w, a), log)"
    and "dget (ad_webhooks a) (wh_id x0) = Some x" "e \<in> set (dvalues (obx_items (w_outbox w)))"
    and "head_event_id (w_outbox (fst s)) < oev_event_id e" "oev_event_id e \<le> wh_cursor x"
    and "wh_matches (oev_event_type e) x"
  shows "wh_cursor x \<le> head_event_id (w_outbox w) \<and>
    (\<exists>(dl, answer) \<in> set log. ans_ok answer \<and> dl_target_url dl = wh_target_url x \<and>
       dl_event_id dl = oev_event_id e \<and> dl_body dl = canonical_text (delivery_body e))"
proof -
  have "tracks (wh_id x0) (obx_seq (w_outbox (fst s))) (s1, [])"
    using create_webhook_tracks [OF assms(1-3)] by blast
  then have "tracks (wh_id x0) (obx_seq (w_outbox (fst s))) ((w, a), log)" by (rule later_tracks [OF assms(4)])
  then have up: "up_to_cursor (obx_seq (w_outbox (fst s))) x (w_outbox w) log" using assms(5) by (simp add: tracks_def)
  then have "reached x e log" using assms(6-9) unfolding up_to_cursor_def head_event_id_def subscribed_def by blast
  then show ?thesis using up by (auto simp: reached_def up_to_cursor_def head_event_id_def)
qed

text \<open>One subscription to everything, one event after it, one pass to a target that answers.\<close>

definition all_events_cmd :: create_webhook_cmd where
  "all_events_cmd = \<lparr>cwc_target_url = ''http://h'', cwc_event_types = [''*''], cwc_description = None, cwc_labels = []\<rparr>"

definition first_event :: outbox_event where
  "first_event = \<lparr>oev_id = ''evt'', oev_event_id = 0, oev_occurred_at = 0, oev_event_type = ''network.created'',
     oev_resource_type = ''network'', oev_resource_id = None, oev_payload = [], oev_delivered_at = None,
     oev_schema_version = 2, oev_project_id = None\<rparr>"

definition ok_dispatcher :: dispatcher where
  "ok_dispatcher = \<lparr>dp_batch_size = 50, dp_max_failures = 10, dp_send = memory_send [] 502,
     dp_hmac = (\<lambda>_ _. ''00''), dp_rnd = (\<lambda>_. ''00'')\<rparr>"

definition hook_start :: "unit world \<times> admin" where
  "hook_start = (empty_world (), empty_admin)"

definition hook_made :: "unit world \<times> admin" where
  "hook_made = snd (create_webhook example_env (\<lambda>s. s) ''key'' all_events_cmd hook_start)"

definition hook_event :: "(unit world \<times> admin) \<times> sent" where
  "hook_event = (((fst hook_made)\<lparr>w_outbox := fst (outbox_append first_event (w_outbox (fst hook_made)))\<rparr>, snd hook_made), [])"

definition hook_end :: "(unit world \<times> admin) \<times> sent" where
  "hook_end = snd (dispatch_webhooks example_env ok_dispatcher hook_event)"

lemma hook_made_run:
  "\<exists>x. create_webhook example_env (\<lambda>s. s) ''key'' all_events_cmd hook_start = (Inr x, hook_made) \<and> wh_id x = ''whsub_'' \<and>
     wh_target_url x = ''http://h'' \<and> wh_event_types x = [''*''] \<and> wh_cursor x = 0 \<and> wh_state x = WH_ACTIVE \<and>
     ad_webhooks (snd hook_made) = [(''whsub_'', x)] \<and> ad_secrets (snd hook_made) = [(''whsub_'', ''key'')] \<and>
     w_outbox (fst hook_made) = empty_outbox"
proof -
  have id: "factory_id WebhookSubscriptionId (e_rnd example_env 0) = ''whsub_''"
    by (simp add: factory_id_def new_id_def example_env_def)
  have url: "starts_with ''http://'' ''http://h''" by code_simp
  show ?thesis
    by (simp add: hook_made_def create_webhook_def hook_start_def empty_world_def empty_admin_def id url all_events_cmd_def
        mk_webhook_def webhook_save_def secret_remember_def head_event_id_def empty_outbox_def)
qed

lemma hook_end_run:
  "\<exists>x. ad_webhooks (snd (fst hook_end)) = [(''whsub_'', x)] \<and> wh_cursor x = 1 \<and> wh_event_types x = [''*''] \<and>
     wh_target_url x = ''http://h'' \<and> dvalues (obx_items (w_outbox (fst (fst hook_end)))) = [first_event\<lparr>oev_event_id := 1\<rparr>]"
proof -
  obtain x where x: "wh_id x = ''whsub_''" "wh_target_url x = ''http://h''" "wh_event_types x = [''*'']" "wh_cursor x = 0"
      "wh_state x = WH_ACTIVE" "ad_webhooks (snd hook_made) = [(''whsub_'', x)]"
      "ad_secrets (snd hook_made) = [(''whsub_'', ''key'')]" "w_outbox (fst hook_made) = empty_outbox"
    using hook_made_run by blast
  show ?thesis
    by (simp add: hook_end_def dispatch_webhooks_def dispatch_one_def hook_event_def list_active_def secret_get_def x
        outbox_append_def empty_outbox_def Let_def list_since_def ok_dispatcher_def wh_matches_def sendM_def bindM_run
        memory_send_def wh_mark_delivered_def webhook_save_def build_delivery_def first_event_def on_office_def zoomM_def
        on_ctl_def nowM_def writeA_def)
qed

theorem webhook_at_least_once_witness:
  "\<exists>(dl, answer) \<in> set (snd hook_end). ans_ok answer \<and> dl_target_url dl = ''http://h'' \<and> dl_event_id dl = 1"
proof -
  obtain x0 where x0: "create_webhook example_env (\<lambda>s. s) ''key'' all_events_cmd hook_start = (Inr x0, hook_made)"
      "wh_id x0 = ''whsub_''" "ad_webhooks (snd hook_made) = [(''whsub_'', x0)]" "w_outbox (fst hook_made) = empty_outbox"
    using hook_made_run by blast
  obtain x where x: "ad_webhooks (snd (fst hook_end)) = [(''whsub_'', x)]" "wh_cursor x = 1" "wh_event_types x = [''*'']"
      "wh_target_url x = ''http://h''" "dvalues (obx_items (w_outbox (fst (fst hook_end)))) = [first_event\<lparr>oev_event_id := 1\<rparr>]"
    using hook_end_run by (elim exE conjE) (rule that)
  have keyed: "keyed_webhooks (snd hook_made)" using x0 by (simp add: keyed_webhooks_def)
  have "post_later example_env (wh_id x0) (hook_made, []) hook_event"
    unfolding hook_event_def
  proof (rule post_later.between [where w = "fst hook_made" and a = "snd hook_made"])
    show "post_later example_env (wh_id x0) (hook_made, []) ((fst hook_made, snd hook_made), [])"
      using post_later.here by (simp only: prod.collapse)
    have "oev_id first_event \<notin> set (dkeys (obx_items empty_outbox))" by (simp add: empty_outbox_def)
    from append_grows [OF empty_outbox_ok this]
    show "outbox_grows (w_outbox (fst hook_made))
        (w_outbox ((fst hook_made)\<lparr>w_outbox := fst (outbox_append first_event (w_outbox (fst hook_made)))\<rparr>))"
      unfolding x0(4) by simp
  qed (use keyed in simp_all)
  then have later: "post_later example_env (wh_id x0) (hook_made, []) hook_end"
    by (rule post_later.passed [where d = ok_dispatcher and r = "fst (dispatch_webhooks example_env ok_dispatcher hook_event)"])
      (simp add: hook_end_def)
  have empty: "w_outbox (fst hook_start) = empty_outbox" "ad_webhooks (snd hook_start) = []"
    by (simp_all add: hook_start_def empty_world_def empty_admin_def empty_outbox_def)
  have start: "outbox_ok (w_outbox (fst hook_start))" "keyed_webhooks (snd hook_start)"
      "head_event_id (w_outbox (fst hook_start)) = 0"
    unfolding empty(1) keyed_webhooks_def empty(2) using empty_outbox_ok
    by (simp_all add: head_event_id_def empty_outbox_def)
  obtain w a log where e: "hook_end = ((w, a), log)" by (metis surj_pair)
  let ?e = "first_event\<lparr>oev_event_id := 1\<rparr>"
  have "wh_cursor x \<le> head_event_id (w_outbox w) \<and> (\<exists>(dl, answer) \<in> set log. ans_ok answer \<and>
      dl_target_url dl = wh_target_url x \<and> dl_event_id dl = oev_event_id ?e \<and>
      dl_body dl = canonical_text (delivery_body ?e))"
  proof (rule webhook_at_least_once [OF x0(1) start(1,2) later [unfolded e]])
    show "dget (ad_webhooks a) (wh_id x0) = Some x" using x(1) [unfolded e] x0(2) by simp
    show "?e \<in> set (dvalues (obx_items (w_outbox w)))" using x(5) [unfolded e] by simp
    show "head_event_id (w_outbox (fst hook_start)) < oev_event_id ?e" unfolding start(3) by simp
    show "oev_event_id ?e \<le> wh_cursor x" unfolding x(2) by simp
    show "wh_matches (oev_event_type ?e) x" unfolding wh_matches_def x(3) by simp
  qed
  then have "\<exists>(dl, answer) \<in> set (snd hook_end). ans_ok answer \<and> dl_target_url dl = wh_target_url x \<and>
      dl_event_id dl = oev_event_id ?e"
    unfolding e snd_conv by blast
  then show ?thesis unfolding x(4) by simp
qed

end
