(* ===== verification/Drift.thy ===== *)
theory Drift
  imports Convergence
begin

text \<open>
  The read side over the saved observations (\<open>core/use_cases/topology.py\<close>, with
  \<open>core/entities/topology.py\<close> and \<open>drift.py\<close>): the topology graph and the drift report, which runs
  the diff engine on every member of every network against its last observed state. The human-readable
  description of a drift item is not modelled.
\<close>

subsection \<open>Topology\<close>

record topo_node =
  tn_id :: string
  tn_name :: string
  tn_mgmt_ip :: string
  tn_status :: node_status
  tn_roles :: "string list"
  tn_labels :: "(string, string) dict"
  tn_last_seen_at :: "time option"
  tn_state_hash :: "string option"
  tn_observed_at :: "time option"

definition topo_node_of :: "string option \<Rightarrow> time option \<Rightarrow> node \<Rightarrow> topo_node" where
  "topo_node_of h at nd =
     \<lparr>tn_id = nd_id nd, tn_name = nd_name nd, tn_mgmt_ip = nd_mgmt_ip nd, tn_status = nd_status nd,
      tn_roles = nd_roles nd, tn_labels = nd_labels nd, tn_last_seen_at = nd_last_seen_at nd,
      tn_state_hash = h, tn_observed_at = at\<rparr>"

record topo_network =
  tw_id :: string
  tw_name :: string
  tw_type :: network_type
  tw_mtu :: int
  tw_vlan_id :: "int option"
  tw_vni :: "int option"
  tw_subnet :: "subnet option"
  tw_node_ids :: "string list"
  tw_intent_version :: int
  tw_spec_hash :: string

definition topo_network_of :: "network \<Rightarrow> topo_network" where
  "topo_network_of n =
     \<lparr>tw_id = net_id n, tw_name = net_name n, tw_type = net_type n, tw_mtu = net_mtu n,
      tw_vlan_id = net_vlan_id n, tw_vni = net_vni n, tw_subnet = net_subnet n,
      tw_node_ids = net_node_ids n, tw_intent_version = net_intent_version n,
      tw_spec_hash = net_spec_hash n\<rparr>"

record topo_bridge =
  tb_node_id :: string
  tb_name :: string
  tb_datapath :: string
  tb_ids :: "(string, string) dict"
  tb_network_id :: "string option"

definition topo_bridge_of :: "string \<Rightarrow> obs_bridge \<Rightarrow> topo_bridge" where
  "topo_bridge_of nid b =
     \<lparr>tb_node_id = nid, tb_name = ob_name b, tb_datapath = ob_datapath b, tb_ids = ob_ids b,
      tb_network_id = (case dget (ob_ids b) ''network_id'' of
         None \<Rightarrow> None | Some i \<Rightarrow> if i = [] then None else Some i)\<rparr>"

datatype edge_kind = NODE_NETWORK | VXLAN_TUNNEL

record topo_edge =
  te_kind :: edge_kind
  te_source :: string
  te_target :: string
  te_network_id :: string

fun tunnel_pairs :: "string list \<Rightarrow> (string \<times> string) list" where
  "tunnel_pairs [] = []"
| "tunnel_pairs (a # bs) = List.map (Pair a) bs @ tunnel_pairs bs"

definition network_edges :: "network \<Rightarrow> topo_edge list" where
  "network_edges n =
     List.map (\<lambda>m. \<lparr>te_kind = NODE_NETWORK, te_source = m, te_target = net_id n, te_network_id = net_id n\<rparr>)
       (net_node_ids n) @
     (if net_type n = VXLAN \<and> length (net_node_ids n) \<ge> 2
      then List.map (\<lambda>(a, b). \<lparr>te_kind = VXLAN_TUNNEL, te_source = a, te_target = b, te_network_id = net_id n\<rparr>)
             (tunnel_pairs (net_node_ids n))
      else [])"

definition build_edges :: "network list \<Rightarrow> topo_edge list" where
  "build_edges ns = concat (List.map network_edges ns)"

record topology =
  tg_observed_at :: time
  tg_nodes :: "topo_node list"
  tg_networks :: "topo_network list"
  tg_bridges :: "topo_bridge list"
  tg_edges :: "topo_edge list"

text \<open>The observations looked up per node: \<open>observed_by_node\<close> keeps the order of the nodes.\<close>

definition observed_by_node :: "node list \<Rightarrow> (string, observed_state) dict \<Rightarrow> (string, observed_state) dict" where
  "observed_by_node nodes obs =
     fold (\<lambda>nd d. case dget obs (nd_id nd) of None \<Rightarrow> d | Some s \<Rightarrow> dset (nd_id nd) s d) nodes []"

definition get_topology :: "env \<Rightarrow> ('ag world, exc, topology) act" where
  "get_topology env =
     bindM (getM (\<lambda>w. (dvalues (w_nodes w), dvalues (w_networks w),
                       observed_by_node (dvalues (w_nodes w)) (w_observed w)))) (\<lambda>(nodes, nets, seen).
     bindM (nowM env) (\<lambda>now.
     returnM \<lparr>tg_observed_at = now,
       tg_nodes = List.map (\<lambda>nd. topo_node_of (map_option os_state_hash (dget seen (nd_id nd)))
                      (map_option os_observed_at (dget seen (nd_id nd))) nd) nodes,
       tg_networks = List.map topo_network_of nets,
       tg_bridges = concat (List.map (\<lambda>(nid, s). List.map (topo_bridge_of nid) (os_bridges s)) seen),
       tg_edges = build_edges nets\<rparr>))"

text \<open>Every unordered pair of members of a VXLAN network is one tunnel edge.\<close>

lemma tunnel_pairs_mem: "(a, b) \<in> set (tunnel_pairs xs) \<Longrightarrow> a \<in> set xs \<and> b \<in> set xs"
  by (induction xs) auto

lemma tunnel_pairs_once:
  assumes "distinct xs" "a \<in> set xs" "b \<in> set xs" "a \<noteq> b"
  shows "length (filter (\<lambda>p. p = (a, b) \<or> p = (b, a)) (tunnel_pairs xs)) = 1"
  using assms
proof (induction xs)
  case (Cons x xs)
  have none: "filter (\<lambda>p. p = (a, b) \<or> p = (b, a)) (tunnel_pairs xs) = []" if "x = a \<or> x = b"
    using that Cons.prems(1) tunnel_pairs_mem [of a b xs] tunnel_pairs_mem [of b a xs]
    by (auto simp: filter_empty_conv)
  have one: "length (filter (\<lambda>p. p = (a, b) \<or> p = (b, a)) (List.map (Pair x) ys)) =
      count_list ys (if x = a then b else a)" if "x = a \<or> x = b" for ys
    using that Cons.prems(4) by (induction ys) auto
  have other: "filter (\<lambda>p. p = (a, b) \<or> p = (b, a)) (List.map (Pair x) ys) = []" if "\<not> (x = a \<or> x = b)" for ys
    using that by (auto simp: filter_empty_conv)
  show ?case
  proof (cases "x = a \<or> x = b")
    case True
    then have "(if x = a then b else a) \<in> set xs" using Cons.prems by auto
    then have "count_list xs (if x = a then b else a) = 1"
      using Cons.prems(1) by (simp add: count_list_eq_length_filter distinct_length_filter)
    then show ?thesis using True none one by simp
  next
    case False
    then show ?thesis using Cons other by auto
  qed
qed simp

subsection \<open>Drift\<close>

datatype drift_kind =
    BRIDGE_MISSING_OR_CHANGED | BRIDGE_ORPHAN | VXLAN_PORT_MISSING_OR_CHANGED
  | PORT_MISSING_OR_CHANGED | PORT_ORPHAN

record drift_item =
  di_network_id :: string
  di_node_id :: string
  di_kind :: drift_kind
  di_payload :: payload

record drift_report =
  dr_scanned_at :: time
  dr_items :: "drift_item list"
  dr_stale :: "string list"

fun step_drift :: "plan_step \<Rightarrow> (drift_kind \<times> payload) option" where
  "step_drift (EnsureBridgeStep name _ ids) =
     Some (BRIDGE_MISSING_OR_CHANGED, [(''bridge'', JStr name), (''external_ids'', jsdict ids)])"
| "step_drift (DeleteBridgeStep name) = Some (BRIDGE_ORPHAN, [(''bridge'', JStr name)])"
| "step_drift (EnsureVxlanPortStep bridge name vni remote _ _ _ _) =
     Some (VXLAN_PORT_MISSING_OR_CHANGED,
       [(''bridge'', JStr bridge), (''port'', JStr name), (''vni'', JInt vni), (''remote_ip'', JStr remote)])"
| "step_drift (EnsurePortStep bridge name ty _ _ _ _) =
     Some (PORT_MISSING_OR_CHANGED, [(''bridge'', JStr bridge), (''port'', JStr name), (''type'', JStr ty)])"
| "step_drift (DeletePortStep bridge name) = Some (PORT_ORPHAN, [(''bridge'', JStr bridge), (''port'', JStr name)])"
| "step_drift _ = None"

definition step_to_drift_item :: "string \<Rightarrow> string \<Rightarrow> plan_step \<Rightarrow> drift_item option" where
  "step_to_drift_item net nid st =
     map_option (\<lambda>(k, p). \<lparr>di_network_id = net, di_node_id = nid, di_kind = k, di_payload = p\<rparr>) (step_drift st)"

definition peers_for_network :: "(string, node) dict \<Rightarrow> network \<Rightarrow> node_address list" where
  "peers_for_network nodes n =
     concat (List.map (\<lambda>m. case dget nodes m of None \<Rightarrow> []
        | Some nd \<Rightarrow> [\<lparr>na_node_id = nd_id nd, na_mgmt_ip = nd_mgmt_ip nd\<rparr>]) (net_node_ids n))"

definition scan_member ::
  "network \<Rightarrow> node_address list \<Rightarrow> (string, observed_state) dict \<Rightarrow> string \<Rightarrow> drift_item list \<times> string list" where
  "scan_member n peers obs m =
     (case dget obs m of
        None \<Rightarrow> ([], [m])
      | Some s \<Rightarrow> (List.map_filter (step_to_drift_item (net_id n) m) (diff_for_node n m peers (os_bridges s)), []))"

definition scan_network ::
  "(string, node) dict \<Rightarrow> (string, observed_state) dict \<Rightarrow> network \<Rightarrow> drift_item list \<times> string list" where
  "scan_network nodes obs n =
     (if net_node_ids n = [] then ([], [])
      else let rs = List.map (scan_member n (peers_for_network nodes n) obs) (net_node_ids n)
           in (concat (List.map fst rs), concat (List.map snd rs)))"

definition scan_drift :: "env \<Rightarrow> ('ag world, exc, drift_report) act" where
  "scan_drift env =
     bindM (getM (\<lambda>w. List.map (scan_network (w_nodes w) (w_observed w)) (dvalues (w_networks w)))) (\<lambda>rs.
     bindM (nowM env) (\<lambda>now.
     returnM \<lparr>dr_scanned_at = now, dr_items = concat (List.map fst rs),
              dr_stale = sort (remdups (concat (List.map snd rs)))\<rparr>))"

subsection \<open>What the report says\<close>

lemma step_drift_edge: "step_drift st = None \<longleftrightarrow>
    is_edge_step st \<or> (\<exists>i. st = DeleteDhcpScopeStep i \<or> st = DeleteDnsZoneStep i \<or> st = DeleteNatRuleStep i \<or>
      st = DeleteFirewallPolicyStep i)"
  by (cases st) simp_all

text \<open>The diff never asks to delete an edge service.\<close>

lemma no_edge_deletes:
  assumes "st \<in> set (diff_for_node n local peers bridges)"
  shows "st \<noteq> DeleteDhcpScopeStep i \<and> st \<noteq> DeleteDnsZoneStep i \<and> st \<noteq> DeleteNatRuleStep i \<and> st \<noteq> DeleteFirewallPolicyStep i"
  using assms
  by (auto simp: diff_for_node_def cleanup_for_network_def peer_steps_def edge_service_steps_def vxlan_step_def Let_def
      split: if_splits option.splits)

lemma drift_items_nil:
  "List.map_filter (step_to_drift_item net m) (diff_for_node n m peers bs) = [] \<longleftrightarrow> is_in_compliance n m peers bs"
proof -
  have "List.map_filter (step_to_drift_item net m) sts = [] \<longleftrightarrow> (\<forall>st \<in> set sts. step_drift st = None)" for sts
    by (induction sts) (auto simp: List.map_filter_simps step_to_drift_item_def split: option.splits)
  then show ?thesis
    unfolding is_in_compliance_def list_all_iff using no_edge_deletes step_drift_edge by metis
qed

lemma scan_member_ids: "it \<in> set (fst (scan_member n peers obs m)) \<Longrightarrow> di_network_id it = net_id n \<and> di_node_id it = m"
  by (auto simp: scan_member_def List.map_filter_def step_to_drift_item_def split: option.splits prod.splits)

lemma scan_network_items:
  "it \<in> set (fst (scan_network nodes obs n)) \<longleftrightarrow>
     (\<exists>m \<in> set (net_node_ids n). it \<in> set (fst (scan_member n (peers_for_network nodes n) obs m)))"
  by (auto simp: scan_network_def Let_def)

lemma scan_network_stale:
  "m \<in> set (snd (scan_network nodes obs n)) \<longleftrightarrow> m \<in> set (net_node_ids n) \<and> dget obs m = None"
  by (auto simp: scan_network_def scan_member_def Let_def split: option.splits)

lemma scan_run:
  "scan_drift env w = (Inr \<lparr>dr_scanned_at = e_now env (w_clock w),
     dr_items = concat (List.map fst (List.map (scan_network (w_nodes w) (w_observed w)) (dvalues (w_networks w)))),
     dr_stale = sort (remdups (concat (List.map snd (List.map (scan_network (w_nodes w) (w_observed w)) (dvalues (w_networks w))))))\<rparr>,
     w\<lparr>w_clock := w_clock w + 1\<rparr>)"
  by (simp add: scan_drift_def bindM_now)

definition keyed_nodes :: "(string, node) dict \<Rightarrow> bool" where
  "keyed_nodes d \<longleftrightarrow> (\<forall>i nd. dget d i = Some nd \<longrightarrow> nd_id nd = i)"

definition keyed_networks :: "(string, network) dict \<Rightarrow> bool" where
  "keyed_networks d \<longleftrightarrow> dwf d \<and> (\<forall>i n. dget d i = Some n \<longrightarrow> net_id n = i)"

lemma peers_agree:
  assumes "keyed_nodes nodes"
  shows "peers_for_network nodes n = network_peers n nodes"
proof -
  have "List.map (\<lambda>m. case dget nodes m of None \<Rightarrow> [] | Some nd \<Rightarrow> [\<lparr>na_node_id = nd_id nd, na_mgmt_ip = nd_mgmt_ip nd\<rparr>])
        (net_node_ids n) =
      List.map (\<lambda>m. case dget nodes m of None \<Rightarrow> [] | Some nd \<Rightarrow> [\<lparr>na_node_id = m, na_mgmt_ip = nd_mgmt_ip nd\<rparr>])
        (net_node_ids n)"
    using assms by (intro map_cong) (auto simp: keyed_nodes_def split: option.splits)
  then show ?thesis by (simp only: peers_for_network_def network_peers_def)
qed

text \<open>The items of one network on one node.\<close>

definition drift_on :: "drift_report \<Rightarrow> string \<Rightarrow> string \<Rightarrow> drift_item list" where
  "drift_on r net m = filter (\<lambda>it. di_network_id it = net \<and> di_node_id it = m) (dr_items r)"

lemma no_items_iff:
  assumes "scan_drift env w = (Inr r, w')" "keyed_networks (w_networks w)" "keyed_nodes (w_nodes w)"
    and "dget (w_networks w) nid = Some n"
  shows "drift_on r nid m = [] \<longleftrightarrow> (m \<in> set (net_node_ids n) \<longrightarrow> (case dget (w_observed w) m of None \<Rightarrow> True
    | Some s \<Rightarrow> is_in_compliance n m (network_peers n (w_nodes w)) (os_bridges s)))"
proof -
  let ?scan = "scan_network (w_nodes w) (w_observed w)" and ?peers = "network_peers n (w_nodes w)"
  have items: "dr_items r = concat (List.map fst (List.map ?scan (dvalues (w_networks w))))"
    using assms(1) by (auto simp: scan_run)
  have n: "n \<in> set (dvalues (w_networks w))" "net_id n = nid"
    using map_of_SomeD [OF assms(4)] assms(2,4) by (force simp: keyed_networks_def)+
  have only: "k = n" if "k \<in> set (dvalues (w_networks w))" "net_id k = nid" for k
  proof -
    from \<open>k \<in> set (dvalues (w_networks w))\<close> obtain q where "(q, k) \<in> set (w_networks w)" by auto
    then have "dget (w_networks w) q = Some k" using assms(2) by (simp add: keyed_networks_def)
    then show "k = n" using that(2) assms(2,4) unfolding keyed_networks_def by (metis option.inject)
  qed
  have "drift_on r nid m = [] \<longleftrightarrow>
      \<not> (\<exists>it k. k \<in> set (dvalues (w_networks w)) \<and> it \<in> set (fst (?scan k)) \<and> di_network_id it = nid \<and> di_node_id it = m)"
    by (auto simp: drift_on_def items filter_empty_conv)
  also have "\<dots> \<longleftrightarrow> \<not> (\<exists>it. it \<in> set (fst (?scan n)) \<and> di_node_id it = m)"
    using n only scan_member_ids unfolding scan_network_items by metis
  also have "\<dots> \<longleftrightarrow> \<not> (m \<in> set (net_node_ids n) \<and> fst (scan_member n ?peers (w_observed w) m) \<noteq> [])"
    unfolding scan_network_items peers_agree [OF assms(3)] using scan_member_ids
    by (metis list.set_intros(1) list.set_cases neq_Nil_conv set_empty equals0D)
  finally show ?thesis
    by (auto simp: scan_member_def drift_items_nil split: option.splits)
qed

lemma stale_iff:
  assumes "scan_drift env w = (Inr r, w')"
  shows "m \<in> set (dr_stale r) \<longleftrightarrow> (\<exists>n \<in> set (dvalues (w_networks w)). m \<in> set (net_node_ids n) \<and> dget (w_observed w) m = None)"
proof -
  have "dr_stale r = sort (remdups (concat (List.map snd (List.map (scan_network (w_nodes w) (w_observed w)) (dvalues (w_networks w))))))"
    using assms by (auto simp: scan_run)
  then show ?thesis by (auto simp: scan_network_stale)
qed

subsection \<open>Properties\<close>


lemma example_world_agent: "w_agent (example_world a) = a"
  by (simp add: example_world_def)


end
