(* ===== verification/Housekeeping.thy ===== *)
theory Housekeeping
  imports Drift Admin_Use_Cases Json_Text Calendar
begin

text \<open>
  The background tasks (\<open>core/use_cases/background.py\<close>): the sweep that scans for drift and applies
  drifting networks, the reaper that stores the derived status of nodes, and the retention sweep that
  drops old operations and moves old audit events to the archive in batches; the archive that appends
  JSON lines to one file per day (\<open>adapters/audit_archive.py\<close>); and the event pages of
  \<open>core/use_cases/events.py\<close>.
\<close>

subsection \<open>Reconciler sweep\<close>

record sweep_result =
  sw_networks_total :: nat
  sw_networks_drifting :: nat
  sw_stale_nodes :: nat
  sw_auto_applied :: nat

text \<open>
  The loop over the set of drifting networks visits them in some order, the argument \<open>ids\<close>. A domain
  error is logged and skipped; anything else ends the sweep.
\<close>

fun auto_apply ::
  "env \<Rightarrow> 'ag agent_ops \<Rightarrow> string list \<Rightarrow> nat \<Rightarrow> ('ag world, raised, nat) act" where
  "auto_apply env ag [] k = returnM k"
| "auto_apply env ag (i # ids) k = (\<lambda>w.
     case apply_network env ag i (Some ''reconciler:auto'') w of
       (Inr _, w') \<Rightarrow> auto_apply env ag ids (k + 1) w'
     | (Inl e, w') \<Rightarrow> if is_domain (ra_exc e) then auto_apply env ag ids k w' else (Inl e, w'))"

definition reconciler_sweep ::
  "env \<Rightarrow> 'ag agent_ops \<Rightarrow> (string list \<Rightarrow> string list) \<Rightarrow> bool \<Rightarrow> ('ag world, raised, sweep_result) act" where
  "reconciler_sweep env ag pick auto =
     bindM (mapErrM (\<lambda>e. raised_of e []) (scan_drift env)) (\<lambda>report.
     bindM (getM (\<lambda>w. length (dvalues (w_networks w)))) (\<lambda>total.
     let drifting = remdups (List.map di_network_id (dr_items report)) in
     bindM (if auto \<and> drifting \<noteq> [] then auto_apply env ag (pick drifting) 0 else returnM 0) (\<lambda>applied.
     returnM \<lparr>sw_networks_total = total, sw_networks_drifting = length drifting,
              sw_stale_nodes = length (dr_stale report), sw_auto_applied = applied\<rparr>)))"

subsection \<open>Heartbeat reaper\<close>

definition is_heartbeat_status :: "node_status \<Rightarrow> bool" where
  "is_heartbeat_status st \<longleftrightarrow> st \<in> {ONLINE, STALE, OFFLINE}"

definition persist_status :: "node_status \<Rightarrow> time \<Rightarrow> node \<Rightarrow> node" where
  "persist_status st now nd = nd\<lparr>nd_status := st, nd_updated_at := now\<rparr>"

record reaped =
  rp_online :: nat
  rp_stale :: nat
  rp_offline :: nat

definition count_status :: "node_status \<Rightarrow> reaped \<Rightarrow> reaped" where
  "count_status st c =
     (if st = ONLINE then c\<lparr>rp_online := rp_online c + 1\<rparr>
      else if st = STALE then c\<lparr>rp_stale := rp_stale c + 1\<rparr>
      else if st = OFFLINE then c\<lparr>rp_offline := rp_offline c + 1\<rparr>
      else c)"

fun reap_nodes ::
  "time \<Rightarrow> int \<Rightarrow> int \<Rightarrow> node list \<Rightarrow> (string, node) dict \<Rightarrow> reaped \<Rightarrow> (string, node) dict \<times> reaped" where
  "reap_nodes now stale offline [] d c = (d, c)"
| "reap_nodes now stale offline (nd # nds) d c =
     (let st = derived_status now stale offline nd;
          d' = (if st \<noteq> nd_status nd \<and> is_heartbeat_status st \<and> is_heartbeat_status (nd_status nd)
                then node_save (persist_status st now nd) d else d)
      in reap_nodes now stale offline nds d' (count_status st c))"

definition heartbeat_reaper :: "env \<Rightarrow> int \<Rightarrow> int \<Rightarrow> ('ag world, exc, reaped) act" where
  "heartbeat_reaper env stale offline =
     bindM (nowM env) (\<lambda>now. \<lambda>w.
       let r = reap_nodes now stale offline (dvalues (w_nodes w)) (w_nodes w) \<lparr>rp_online = 0, rp_stale = 0, rp_offline = 0\<rparr>
       in (Inr (snd r), w\<lparr>w_nodes := fst r\<rparr>))"

subsection \<open>Retention sweep\<close>

text \<open>
  The archive is a parameter: given how many batches it took so far and a batch it may fail. The loop
  reads a batch of the oldest events, archives it, then deletes it; it has no counter of its own, so it
  runs on fuel. \<open>ar\<close> collects the archived batches.
\<close>

record retention_result =
  rr_operations_deleted :: int
  rr_audit_deleted :: int
  rr_audit_archived :: int

fun sweep_audit ::
  "nat \<Rightarrow> (nat \<Rightarrow> audit_event list \<Rightarrow> exc option) \<Rightarrow> time \<Rightarrow> (string, audit_event) dict \<Rightarrow> audit_event list list
     \<Rightarrow> int \<Rightarrow> int \<Rightarrow> ((exc + int \<times> int) \<times> (string, audit_event) dict \<times> audit_event list list) option" where
  "sweep_audit 0 arch cutoff d ar archived deleted = None"
| "sweep_audit (Suc fuel) arch cutoff d ar archived deleted =
     (let batch = audit_before cutoff 1000 d
      in if batch = [] then Some (Inr (archived, deleted), d, ar)
         else case arch (length ar) batch of
           Some e \<Rightarrow> Some (Inl e, d, ar)
         | None \<Rightarrow>
             let r = audit_delete_many (List.map aud_id batch) d
             in sweep_audit fuel arch cutoff (fst r) (ar @ [batch]) (archived + int (length batch)) (deleted + snd r))"

definition days :: "int \<Rightarrow> time" where
  "days n = seconds (86400 * n)"

definition retention_sweep ::
  "nat \<Rightarrow> env \<Rightarrow> (nat \<Rightarrow> audit_event list \<Rightarrow> exc option) \<Rightarrow> int \<Rightarrow> int \<Rightarrow> 'ag world \<times> admin \<Rightarrow> audit_event list list
     \<Rightarrow> ((exc + retention_result) \<times> ('ag world \<times> admin) \<times> audit_event list list) option" where
  "retention_sweep fuel env arch op_days audit_days s ar =
     (let now = e_now env (w_clock (fst s)); w1 = (fst s)\<lparr>w_clock := w_clock (fst s) + 1\<rparr>;
          ops = delete_terminal_before (now - days op_days) (w_operations w1);
          w2 = w1\<lparr>w_operations := fst ops\<rparr>
      in case sweep_audit fuel arch (now - days audit_days) (ad_audit (snd s)) ar 0 0 of
           None \<Rightarrow> None
         | Some (r, d, ar') \<Rightarrow>
             Some (case r of Inl e \<Rightarrow> Inl e
                   | Inr (archived, deleted) \<Rightarrow>
                       Inr \<lparr>rr_operations_deleted = snd ops, rr_audit_deleted = deleted, rr_audit_archived = archived\<rparr>,
                   (w2, (snd s)\<lparr>ad_audit := d\<rparr>), ar'))"

subsection \<open>The archive file\<close>

definition bucket_of :: "time \<Rightarrow> string" where
  "bucket_of at = pad_int 4 (year_of at) @ ''-'' @ pad_int 2 (month_of at) @ ''-'' @ pad_int 2 (day_of at)"

definition audit_json :: "audit_event \<Rightarrow> json" where
  "audit_json e = JObj
     [(''id'', JStr (aud_id e)), (''at'', JStr (isoformat (aud_at e))), (''action'', JStr (aud_action e)),
      (''resource_type'', JStr (aud_resource_type e)), (''resource_id'', jopt JStr (aud_resource_id e)),
      (''actor'', jopt JStr (aud_actor e)), (''http_status'', jopt JInt (aud_http_status e)),
      (''request_id'', jopt JStr (aud_request_id e)), (''payload'', JObj (aud_payload e))]"

definition newline :: string where
  "newline = [CHR 0x0A]"

text \<open>The files of the archive directory as a dictionary from names to texts; opening for append creates a file.\<close>

definition append_file :: "string \<Rightarrow> string \<Rightarrow> (string, string) dict \<Rightarrow> (string, string) dict" where
  "append_file path text fs = dset path ((case dget fs path of None \<Rightarrow> [] | Some t \<Rightarrow> t) @ text) fs"

definition bucketed :: "audit_event list \<Rightarrow> (string, audit_event list) dict" where
  "bucketed es = fold (\<lambda>e d. dset (bucket_of (aud_at e))
     ((case dget d (bucket_of (aud_at e)) of None \<Rightarrow> [] | Some xs \<Rightarrow> xs) @ [e]) d) es []"

definition file_archive :: "audit_event list \<Rightarrow> (string, string) dict \<Rightarrow> (string, string) dict" where
  "file_archive es fs =
     fold (\<lambda>(bucket, items). append_file (''audit-'' @ bucket @ ''.jsonl'')
       (join newline (List.map (\<lambda>e. plain_text (audit_json e)) items) @ newline)) (bucketed es) fs"

subsection \<open>Event pages\<close>

record events_page =
  ep_head :: int
  ep_items :: "outbox_event list"

definition list_events :: "int \<Rightarrow> nat \<Rightarrow> ('ag world, exc, events_page) act" where
  "list_events since limit =
     bindM (getM (\<lambda>w. head_event_id (w_outbox w))) (\<lambda>head.
     bindM (getM (\<lambda>w. list_since since limit (w_outbox w))) (\<lambda>items.
     returnM \<lparr>ep_head = head, ep_items = items\<rparr>))"

record controller_snapshot =
  cs_event_id :: int
  cs_networks :: "network list"
  cs_nodes :: "node list"

definition export_snapshot :: "('ag world, exc, controller_snapshot) act" where
  "export_snapshot =
     bindM (getM (\<lambda>w. head_event_id (w_outbox w))) (\<lambda>watermark.
     bindM (getM (\<lambda>w. dvalues (w_networks w))) (\<lambda>networks.
     bindM (getM (\<lambda>w. dvalues (w_nodes w))) (\<lambda>nodes.
     returnM \<lparr>cs_event_id = watermark, cs_networks = networks, cs_nodes = nodes\<rparr>)))"

end
