(* ===== verification/Housekeeping_Properties.thy ===== *)
theory Housekeeping_Properties
  imports Housekeeping Admin_Safety System_Properties
begin

text \<open>
  What the background tasks guarantee: the audit loop ends, archives in order what it deletes and
  deletes nothing it did not archive, whatever the archive answers; the reaper stores exactly the status
  the readers derive and changes no answer of theirs.
\<close>

subsection \<open>The audit loop\<close>

definition keyed_audit :: "(string, audit_event) dict \<Rightarrow> bool" where
  "keyed_audit d \<longleftrightarrow> dwf d \<and> (\<forall>p \<in> set d. aud_id (snd p) = fst p)"

lemma delete_many_run:
  "distinct ks \<Longrightarrow> set ks \<subseteq> set (dkeys d) \<Longrightarrow>
   audit_delete_many ks d = (filter (\<lambda>p. fst p \<notin> set ks) d, int (length ks))"
proof (induction ks arbitrary: d)
  case (Cons k ks)
  have "set ks \<subseteq> set (dkeys (dpop k d))" using Cons.prems by auto
  then have "audit_delete_many ks (dpop k d) = (filter (\<lambda>p. fst p \<notin> set ks) (dpop k d), int (length ks))"
    using Cons by simp
  moreover have "dget d k \<noteq> None" using Cons.prems(2) by (auto simp: map_of_eq_None_iff)
  moreover have "filter (\<lambda>p. fst p \<notin> set ks) (dpop k d) = filter (\<lambda>p. fst p \<notin> set (k # ks)) d"
    by (simp add: dpop_def conj_commute)
  ultimately show ?case by (simp add: Let_def)
qed simp

lemma batch_facts:
  fixes cutoff n d
  defines "old \<equiv> sort_key aud_at (filter (\<lambda>e. aud_at e < cutoff) (dvalues d))"
  assumes "keyed_audit d"
  shows "audit_before cutoff n d = take n old" "sorted (List.map aud_at old)" "distinct (List.map aud_id old)"
    and "set old = {e \<in> set (dvalues d). aud_at e < cutoff}"
proof -
  show "audit_before cutoff n d = take n old" by (simp add: audit_before_def old_def)
  show "sorted (List.map aud_at old)" by (simp add: old_def)
  have keys: "List.map aud_id (dvalues d) = dkeys d" using assms(2) by (simp add: keyed_audit_def)
  have "distinct (List.map aud_id (dvalues d))" unfolding keys using assms(2) by (simp only: keyed_audit_def)
  then have "distinct (List.map aud_id (filter (\<lambda>e. aud_at e < cutoff) (dvalues d)))" by (rule distinct_map_filter)
  then show "distinct (List.map aud_id old)" by (simp add: old_def distinct_map)
  show "set old = {e \<in> set (dvalues d). aud_at e < cutoff}" by (auto simp: old_def)
qed

text \<open>Removing a batch by id removes exactly its events.\<close>

lemma keyed_drop:
  assumes "keyed_audit d" "set b \<subseteq> set (dvalues d)"
  shows "filter (\<lambda>p. fst p \<notin> aud_id ` set b) d = filter (\<lambda>p. snd p \<notin> set b) d"
proof (rule filter_cong [OF refl])
  fix p assume p: "p \<in> set d"
  have "snd p \<in> set b" if in_b: "fst p \<in> aud_id ` set b"
  proof -
    obtain e where e: "e \<in> set b" "aud_id e = fst p" using in_b by auto
    then obtain q where q: "q \<in> set d" "snd q = e" using assms(2) by auto
    then have "fst q = fst p" using assms(1) e by (auto simp: keyed_audit_def)
    then have "q = p" using assms(1) p q(1) by (metis keyed_audit_def eq_key_imp_eq_value prod.collapse)
    then show ?thesis using q e by simp
  qed
  moreover have "aud_id (snd p) = fst p" using assms(1) p by (simp add: keyed_audit_def)
  ultimately show "(fst p \<notin> aud_id ` set b) = (snd p \<notin> set b)" by (metis imageI)
qed

lemma keyed_filter: "keyed_audit d \<Longrightarrow> keyed_audit (filter P d)"
  by (auto simp: keyed_audit_def distinct_map_filter)

definition swept ::
  "(nat \<Rightarrow> audit_event list \<Rightarrow> exc option) \<Rightarrow> time \<Rightarrow> (string, audit_event) dict \<Rightarrow> int \<Rightarrow> int
     \<Rightarrow> exc + int \<times> int \<Rightarrow> (string, audit_event) dict \<Rightarrow> audit_event list list \<Rightarrow> bool" where
  "swept arch cutoff d a0 n0 r d' new \<longleftrightarrow>
     d' = filter (\<lambda>p. snd p \<notin> set (concat new)) d \<and>
     set (concat new) \<subseteq> {e \<in> set (dvalues d). aud_at e < cutoff} \<and>
     distinct (List.map aud_id (concat new)) \<and> sorted (List.map aud_at (concat new)) \<and>
     (\<forall>b \<in> set new. b \<noteq> [] \<and> length b \<le> 1000) \<and>
     (case r of
        Inr (archived, deleted) \<Rightarrow> archived = a0 + int (length (concat new)) \<and>
          deleted = n0 + int (length (concat new)) \<and> (\<forall>e \<in> set (dvalues d'). \<not> aud_at e < cutoff)
      | Inl e \<Rightarrow> \<exists>k b. arch k b = Some e)"

lemma sweep_audit_swept:
  assumes "keyed_audit d" "length d < fuel"
  shows "\<exists>r d' new. sweep_audit fuel arch cutoff d ar a0 n0 = Some (r, d', ar @ new) \<and> swept arch cutoff d a0 n0 r d' new"
  using assms
proof (induction fuel arbitrary: d ar a0 n0)
  case (Suc fuel)
  define old where "old = sort_key aud_at (filter (\<lambda>e. aud_at e < cutoff) (dvalues d))"
  note facts = batch_facts [OF Suc.prems(1), of cutoff, folded old_def]
  define b where "b = take 1000 old"
  have b: "audit_before cutoff 1000 d = b" by (simp add: b_def facts(1))
  show ?case
  proof (cases "b = []")
    case True
    then have "old = []" by (simp add: b_def)
    then have "\<forall>e \<in> set (dvalues d). \<not> aud_at e < cutoff" using facts(4) by auto
    then have "swept arch cutoff d a0 n0 (Inr (a0, n0)) d []" by (simp add: swept_def)
    then show ?thesis using b True by (intro exI [of _ "Inr (a0, n0)"] exI [of _ d] exI [of _ "[]"]) simp
  next
    case False
    show ?thesis
    proof (cases "arch (length ar) b")
      case (Some e)
      then have "swept arch cutoff d a0 n0 (Inl e) d []" by (auto simp: swept_def)
      then show ?thesis using b False Some by (intro exI [of _ "Inl e"] exI [of _ d] exI [of _ "[]"]) simp
    next
      case None
      have in_b: "set b \<subseteq> set old" by (auto simp: b_def dest: in_set_takeD)
      then have b_sub: "set b \<subseteq> {e \<in> set (dvalues d). aud_at e < cutoff}" using facts(4) by simp
      have ids: "distinct (List.map aud_id b)" using facts(3) by (simp add: b_def flip: take_map)
      have "aud_id ` set b \<subseteq> set (dkeys d)" using b_sub Suc.prems(1) by (force simp: keyed_audit_def)
      then have del: "audit_delete_many (List.map aud_id b) d =
          (filter (\<lambda>p. fst p \<notin> set (List.map aud_id b)) d, int (length b))"
        using delete_many_run [of "List.map aud_id b" d] ids by simp
      define d1 where "d1 = filter (\<lambda>p. snd p \<notin> set b) d"
      have d1: "filter (\<lambda>p. fst p \<notin> set (List.map aud_id b)) d = d1"
        using keyed_drop [OF Suc.prems(1), of b] b_sub by (auto simp: d1_def)
      have keyed: "keyed_audit d1" unfolding d1_def by (rule keyed_filter [OF Suc.prems(1)])
      obtain x where x: "x \<in> set b" using False by (meson list.set_sel(1))
      then have "x \<in> set (dvalues d)" using b_sub by blast
      then obtain p where "p \<in> set d" "\<not> (snd p \<notin> set b)" using x by auto
      then have "length d1 < length d" unfolding d1_def by (rule length_filter_less)
      then have "length d1 < fuel" using Suc.prems(2) by simp
      from Suc.IH [OF keyed this, of "ar @ [b]" "a0 + int (length b)" "n0 + int (length b)"]
      obtain r d' new where IH: "sweep_audit fuel arch cutoff d1 (ar @ [b]) (a0 + int (length b)) (n0 + int (length b)) =
          Some (r, d', (ar @ [b]) @ new)"
          "swept arch cutoff d1 (a0 + int (length b)) (n0 + int (length b)) r d' new"
        by blast
      have run: "sweep_audit (Suc fuel) arch cutoff d ar a0 n0 = Some (r, d', ar @ (b # new))"
        using IH(1) b False None del d1 by (simp add: Let_def)
      have new_sub: "set (concat new) \<subseteq> {e \<in> set (dvalues d1). aud_at e < cutoff}" using IH(2) by (simp add: swept_def)
      have rest: "e \<in> set (drop 1000 old)" if e: "e \<in> set (concat new)" for e
      proof -
        have "e \<in> set (dvalues d)" "e \<notin> set b" "aud_at e < cutoff" using new_sub e by (auto simp: d1_def)
        then have "e \<in> set old" using facts(4) by simp
        then have "e \<in> set (take 1000 old @ drop 1000 old)" by simp
        then show ?thesis using \<open>e \<notin> set b\<close> unfolding b_def by (metis UnE set_append)
      qed
      have "sorted (List.map aud_at (take 1000 old @ drop 1000 old))" using facts(2) by simp
      then have before: "aud_at x \<le> aud_at e" if "x \<in> set b" "e \<in> set (concat new)" for x e
        using that rest [OF that(2)] by (auto simp: sorted_append b_def simp del: append_take_drop_id)
      have sb: "sorted (List.map aud_at b)" using facts(2) by (simp add: b_def sorted_wrt_take flip: take_map)
      have "swept arch cutoff d a0 n0 r d' (b # new)"
        unfolding swept_def
      proof (intro conjI)
        show "d' = filter (\<lambda>p. snd p \<notin> set (concat (b # new))) d"
          using IH(2) by (simp add: swept_def d1_def conj_commute)
        show "set (concat (b # new)) \<subseteq> {e \<in> set (dvalues d). aud_at e < cutoff}"
          using b_sub new_sub by (auto simp: d1_def)
        have "aud_id ` set b \<inter> aud_id ` set (concat new) = {}"
        proof (rule ccontr)
          assume "aud_id ` set b \<inter> aud_id ` set (concat new) \<noteq> {}"
          then obtain x e where xe: "x \<in> set b" "e \<in> set (concat new)" "aud_id x = aud_id e" by blast
          have "x \<in> set old" by (rule subsetD [OF in_b xe(1)])
          moreover have "e \<in> set old" by (rule in_set_dropD [OF rest [OF xe(2)]])
          ultimately have "x = e" using xe(3) facts(3) unfolding distinct_map inj_on_def by blast
          moreover have "e \<in> set (dvalues d1)" using new_sub xe(2) by blast
          then have "e \<notin> set b" by (auto simp: d1_def)
          ultimately show False using xe(1) by blast
        qed
        then show "distinct (List.map aud_id (concat (b # new)))" using ids IH(2) by (simp add: swept_def image_Un image_UN)
        show "sorted (List.map aud_at (concat (b # new)))"
          using sb IH(2) before by (auto simp: swept_def sorted_append)
        show "\<forall>c \<in> set (b # new). c \<noteq> [] \<and> length c \<le> 1000"
          using IH(2) False by (simp add: swept_def b_def)
        show "case r of Inr (archived, deleted) \<Rightarrow> archived = a0 + int (length (concat (b # new))) \<and>
            deleted = n0 + int (length (concat (b # new))) \<and> (\<forall>e \<in> set (dvalues d'). \<not> aud_at e < cutoff)
          | Inl e \<Rightarrow> \<exists>k b. arch k b = Some e"
          using IH(2) by (auto simp: swept_def split: sum.splits)
      qed
      then show ?thesis using run by blast
    qed
  qed
qed simp

subsection \<open>The reaper\<close>

text \<open>One node as the reaper leaves it.\<close>

definition reap_node :: "time \<Rightarrow> int \<Rightarrow> int \<Rightarrow> node \<Rightarrow> node" where
  "reap_node now stale offline nd =
     (let st = derived_status now stale offline nd
      in if st \<noteq> nd_status nd \<and> is_heartbeat_status st \<and> is_heartbeat_status (nd_status nd)
         then persist_status st now nd else nd)"

lemma reap_nodes_run:
  assumes "distinct (List.map nd_id nds)" "\<forall>nd \<in> set nds. dget d (nd_id nd) = Some nd"
  shows "dget (fst (reap_nodes now stale offline nds d c)) i =
    (if i \<in> nd_id ` set nds then map_option (reap_node now stale offline) (dget d i) else dget d i)"
  using assms
proof (induction nds arbitrary: d c)
  case (Cons nd nds)
  define d' where "d' = (let st = derived_status now stale offline nd in
    if st \<noteq> nd_status nd \<and> is_heartbeat_status st \<and> is_heartbeat_status (nd_status nd)
    then node_save (persist_status st now nd) d else d)"
  have other: "dget d' j = dget d j" if "j \<noteq> nd_id nd" for j
    using that by (simp add: d'_def Let_def node_save_def persist_status_def)
  have own: "dget d' (nd_id nd) = Some (reap_node now stale offline nd)"
    using Cons.prems(2) by (simp add: d'_def Let_def node_save_def persist_status_def reap_node_def)
  have "\<forall>x \<in> set nds. dget d' (nd_id x) = Some x" using Cons.prems other by (auto simp: image_iff)
  then have "dget (fst (reap_nodes now stale offline nds d' c')) i =
      (if i \<in> nd_id ` set nds then map_option (reap_node now stale offline) (dget d' i) else dget d' i)" for c'
    using Cons.IH Cons.prems(1) by simp
  then have run: "dget (fst (reap_nodes now stale offline (nd # nds) d c)) i =
      (if i \<in> nd_id ` set nds then map_option (reap_node now stale offline) (dget d' i) else dget d' i)"
    by (simp add: d'_def Let_def)
  show ?case
  proof (cases "i = nd_id nd")
    case True
    then have "i \<notin> nd_id ` set nds" "dget d i = Some nd" using Cons.prems by simp_all
    then show ?thesis unfolding run using own True by simp
  next
    case False
    then have "i \<in> nd_id ` set (nd # nds) \<longleftrightarrow> i \<in> nd_id ` set nds" by simp
    then show ?thesis unfolding run other [OF False] by (simp only:)
  qed
qed simp

lemma reap_node_reads:
  "derived_status t stale offline (reap_node now stale offline nd) = derived_status t stale offline nd"
  "is_heartbeat_status (nd_status nd) \<Longrightarrow>
     nd_status (reap_node now stale offline nd) = derived_status now stale offline nd"
  by (auto simp: reap_node_def persist_status_def derived_status_def is_heartbeat_status_def Let_def
      split: option.splits if_splits)

subsection \<open>Properties\<close>

definition no_agent :: "unit snapshot_ops" where
  "no_agent = \<lparr>sno_snapshot = (\<lambda>_ _. liftM (Inl err_not_found)), sno_restore = (\<lambda>_ _. liftM (Inl err_not_found))\<rparr>"

text \<open>
  C13. The retention sweep ends and loses no audit event. From every reachable administrative state, with
  as much fuel as there are audit events plus one, it comes to an end, whatever the archive answers; the
  events it deleted are exactly those of the batches the archive took, oldest first, each once, none of
  them younger than the retention period; if the archive never failed, no older event is left and both
  counters are the number of deleted events.
\<close>

theorem retention_sweep_archives:
  assumes "admin_later c sn any_admin (w0, empty_admin) s" "inj (e_rnd (wr_env c))"
    and "length (ad_audit (snd s)) < fuel"
  shows "\<exists>r s' batches. retention_sweep fuel (wr_env c) arch op_days audit_days s [] = Some (r, s', batches) \<and>
    ad_audit (snd s') = filter (\<lambda>p. snd p \<notin> set (concat batches)) (ad_audit (snd s)) \<and>
    distinct (List.map aud_id (concat batches)) \<and> sorted (List.map aud_at (concat batches)) \<and>
    (\<forall>e \<in> set (concat batches). aud_at e < e_now (wr_env c) (w_clock (fst s)) - days audit_days) \<and>
    (case r of
       Inr x \<Rightarrow> rr_audit_archived x = int (length (concat batches)) \<and> rr_audit_deleted x = int (length (concat batches)) \<and>
         (\<forall>e \<in> set (dvalues (ad_audit (snd s'))). \<not> aud_at e < e_now (wr_env c) (w_clock (fst s)) - days audit_days)
     | Inl e \<Rightarrow> \<exists>k b. arch k b = Some e)"
proof -
  let ?cut = "e_now (wr_env c) (w_clock (fst s)) - days audit_days"
  have "office_ok c (w0, empty_admin)" by (simp add: office_ok_def empty_admin_ok)
  then have "office_ok c s" using later_ok assms(1,2) by blast
  then have "shelf_ok (wr_env c) (w_ids (fst s)) AuditEventId aud_id audit_valid (ad_audit (snd s))"
    by (simp add: office_ok_def admin_ok_def)
  then have "keyed_audit (ad_audit (snd s))" by (auto simp: keyed_audit_def shelf_ok_def)
  from sweep_audit_swept [OF this assms(3), of arch ?cut "[]" 0 0]
  obtain r d' new where sw: "sweep_audit fuel arch ?cut (ad_audit (snd s)) [] 0 0 = Some (r, d', new)"
      "swept arch ?cut (ad_audit (snd s)) 0 0 r d' new"
    by auto
  obtain r' s' where run: "retention_sweep fuel (wr_env c) arch op_days audit_days s [] = Some (r', s', new)"
      "ad_audit (snd s') = d'"
      "case r of Inl e \<Rightarrow> r' = Inl e | Inr (a, b) \<Rightarrow> \<exists>k. r' = Inr \<lparr>rr_operations_deleted = k, rr_audit_deleted = b, rr_audit_archived = a\<rparr>"
    using sw(1) by (cases r) (auto simp: retention_sweep_def Let_def)
  have "\<forall>e \<in> set (concat new). aud_at e < ?cut" using sw(2) by (auto simp: swept_def)
  moreover have "case r' of Inr x \<Rightarrow> rr_audit_archived x = int (length (concat new)) \<and>
        rr_audit_deleted x = int (length (concat new)) \<and> (\<forall>e \<in> set (dvalues (ad_audit (snd s'))). \<not> aud_at e < ?cut)
      | Inl e \<Rightarrow> \<exists>k b. arch k b = Some e"
    using sw(2) run(2,3) by (auto simp: swept_def split: sum.splits prod.splits)
  ultimately show ?thesis using run(1,2) sw(2) unfolding swept_def
    by (intro exI [of _ r'] exI [of _ s'] exI [of _ new]) blast
qed

definition old_audit :: record_audit_cmd where
  "old_audit = \<lparr>rac_action = ''user.login'', rac_resource_type = ''session'', rac_resource_id = None, rac_actor = None,
     rac_http_status = None, rac_request_id = None, rac_payload = []\<rparr>"

theorem retention_sweep_archives_witness:
  "\<exists>r s' batches. retention_sweep 2 example_env (\<lambda>_ _. None) 30 30
     (snd (record_audit example_env old_audit (empty_world (), empty_admin))) [] = Some (r, s', batches) \<and>
     distinct (List.map aud_id (concat batches))"
proof -
  have "\<exists>e s1. record_audit example_env old_audit (empty_world (), empty_admin) = (Inr e, s1) \<and> length (ad_audit (snd s1)) = 1"
    by (simp add: record_audit_def old_audit_def mk_audit_event_def bindE_def require_def audit_save_def empty_admin_def
        blank_iff py_isspace_def)
  then obtain e s1 where run: "record_audit example_env old_audit (empty_world (), empty_admin) = (Inr e, s1)"
      "length (ad_audit (snd s1)) = 1"
    by blast
  have env: "wr_env example_wiring = example_env" by (simp add: example_wiring_def)
  have "run_admin example_wiring no_agent (Record_Audit old_audit) (empty_world (), empty_admin) = (Inr (), s1)"
    using run(1) by (simp add: env bindM_run)
  then have later: "admin_later example_wiring no_agent any_admin (empty_world (), empty_admin) s1"
    using admin_later.called [OF admin_later.now TrueI] by metis
  have "length (ad_audit (snd s1)) < 2" using run(2) by simp
  from retention_sweep_archives [OF later example_inj this, of "\<lambda>_ _. None" 30 30]
  show ?thesis unfolding env run(1) snd_conv by (elim exE conjE) (intro exI conjI)
qed

text \<open>
  The reaper stores what the readers derive: after a pass every node with a heartbeat status has the
  status derived at the time of the pass, every other node is unchanged, and no reader can tell: the
  status derived from a stored node at any time is the one derived from it before the pass.
\<close>

lemma reaper_stores_derived:
  assumes "dwf (w_nodes w)" "keyed_nodes (w_nodes w)" "heartbeat_reaper env stale offline w = (r, w')"
  shows "(\<forall>i. (dget (w_nodes w') i = None) = (dget (w_nodes w) i = None)) \<and>
    (\<forall>i nd nd'. dget (w_nodes w) i = Some nd \<longrightarrow> dget (w_nodes w') i = Some nd' \<longrightarrow>
      (if is_heartbeat_status (nd_status nd) then nd_status nd' = derived_status (e_now env (w_clock w)) stale offline nd
       else nd' = nd) \<and>
      (\<forall>t. derived_status t stale offline nd' = derived_status t stale offline nd))"
proof -
  let ?now = "e_now env (w_clock w)"
  have stored: "dget (w_nodes w) (nd_id nd) = Some nd" if nd: "nd \<in> set (dvalues (w_nodes w))" for nd
  proof -
    obtain k where "dget (w_nodes w) k = Some nd" using nd assms(1) by force
    then show ?thesis using assms(2) unfolding keyed_nodes_def by metis
  qed
  have "nd_id (snd p) = fst p" if "p \<in> set (w_nodes w)" for p
    using that assms(1,2) map_of_is_SomeI [of "w_nodes w" "fst p" "snd p"] by (simp add: keyed_nodes_def)
  then have keys: "List.map nd_id (dvalues (w_nodes w)) = dkeys (w_nodes w)" by simp
  have dist: "distinct (List.map nd_id (dvalues (w_nodes w)))" unfolding keys using assms(1) .
  have "w_nodes w' = fst (reap_nodes ?now stale offline (dvalues (w_nodes w)) (w_nodes w)
      \<lparr>rp_online = 0, rp_stale = 0, rp_offline = 0\<rparr>)"
    using assms(3) by (auto simp: heartbeat_reaper_def bindM_now Let_def)
  moreover have "\<forall>nd \<in> set (dvalues (w_nodes w)). dget (w_nodes w) (nd_id nd) = Some nd" using stored by blast
  ultimately have all: "dget (w_nodes w') i = (if i \<in> nd_id ` set (dvalues (w_nodes w))
      then map_option (reap_node ?now stale offline) (dget (w_nodes w) i) else dget (w_nodes w) i)" for i
    using reap_nodes_run [OF dist] by metis
  have one: "dget (w_nodes w') i = map_option (reap_node ?now stale offline) (dget (w_nodes w) i)" for i
  proof (cases "dget (w_nodes w) i")
    case (Some nd)
    have "nd \<in> set (dvalues (w_nodes w))" using map_of_SomeD [OF Some] by force
    moreover have "nd_id nd = i" using assms(2) Some unfolding keyed_nodes_def by metis
    ultimately have "i \<in> nd_id ` set (dvalues (w_nodes w))" by blast
    then show ?thesis unfolding all by (simp only: if_True)
  qed (simp add: all)
  have same: "reap_node ?now stale offline nd = nd" if "\<not> is_heartbeat_status (nd_status nd)" for nd
    using that by (simp add: reap_node_def Let_def)
  show ?thesis
    unfolding one using reap_node_reads same
    by (auto split: if_splits)
qed

lemma reaper_stores_derived_witness:
  "\<exists>r w'. heartbeat_reaper example_env 60 120 (example_world ()) = (r, w') \<and> dget (w_nodes w') ''node_a00001'' \<noteq> None"
proof -
  obtain r w' where run: "heartbeat_reaper example_env 60 120 (example_world ()) = (r, w')"
    by (cases "heartbeat_reaper example_env 60 120 (example_world ())")
  have "dwf (w_nodes (example_world ()))" "keyed_nodes (w_nodes (example_world ()))"
    by (simp_all add: example_world_def keyed_nodes_def)
  from reaper_stores_derived [OF this run]
  have "(dget (w_nodes w') ''node_a00001'' = None) = (dget (w_nodes (example_world ())) ''node_a00001'' = None)"
    by blast
  moreover have "dget (w_nodes (example_world ())) ''node_a00001'' \<noteq> None" by (simp add: example_world_def)
  ultimately show ?thesis using run by metis
qed

end
