(* ===== verification/Sql_Values.thy ===== *)
theory Sql_Values
  imports N5_Use_Cases Admin_Entities Node_Use_Cases
begin

text \<open>
  What the SQL adapter (\<open>adapters/sql/\<close>) writes into text columns and reads back: the \<open>.value\<close> of
  every stored enumeration (\<open>core/value_objects/enums.py\<close>, \<open>ipam.py\<close>) with the lookup
  \<open>Enum(text)\<close>, and the reading of optional references (\<open>X(row.x) if row.x else None\<close>).
\<close>

named_theorems enum_simps "an enumeration reads back what it wrote"

subsection \<open>Enumerations\<close>

fun op_status_value :: "op_status \<Rightarrow> string" where
  "op_status_value ACCEPTED = ''accepted''"
| "op_status_value PLANNING = ''planning''"
| "op_status_value RUNNING = ''running''"
| "op_status_value VERIFYING = ''verifying''"
| "op_status_value SUCCEEDED = ''succeeded''"
| "op_status_value FAILED = ''failed''"
| "op_status_value CANCELLED = ''cancelled''"
| "op_status_value ROLLED_BACK = ''rolled_back''"

fun alloc_kind_value :: "alloc_kind \<Rightarrow> string" where
  "alloc_kind_value DYNAMIC = ''dynamic''"
| "alloc_kind_value RESERVATION = ''reservation''"

fun webhook_state_value :: "webhook_state \<Rightarrow> string" where
  "webhook_state_value WH_ACTIVE = ''active''"
| "webhook_state_value WH_DISABLED = ''disabled''"

fun lport_status_value :: "lport_status \<Rightarrow> string" where
  "lport_status_value LP_PENDING = ''pending''"
| "lport_status_value LP_ACTIVE = ''active''"
| "lport_status_value LP_DETACHED = ''detached''"

fun policy_status_value :: "policy_status \<Rightarrow> string" where
  "policy_status_value SP_DRAFT = ''draft''"
| "policy_status_value SP_COMPILED = ''compiled''"
| "policy_status_value SP_APPLIED = ''applied''"
| "policy_status_value SP_FAILED = ''failed''"

fun fip_status_value :: "fip_status \<Rightarrow> string" where
  "fip_status_value FIP_DOWN = ''down''"
| "fip_status_value FIP_ACTIVE = ''active''"
| "fip_status_value FIP_ERROR = ''error''"

fun lb_status_value :: "lb_status \<Rightarrow> string" where
  "lb_status_value LB_BUILD = ''build''"
| "lb_status_value LB_ACTIVE = ''active''"
| "lb_status_value LB_DOWN = ''down''"
| "lb_status_value LB_ERROR = ''error''"

fun schedule_status_value :: "schedule_status \<Rightarrow> string" where
  "schedule_status_value SCHED_ACTIVE = ''active''"
| "schedule_status_value SCHED_PAUSED = ''paused''"
| "schedule_status_value SCHED_ERROR = ''error''"

fun mirror_status_value :: "mirror_status \<Rightarrow> string" where
  "mirror_status_value MIRROR_ACTIVE = ''active''"
| "mirror_status_value MIRROR_INACTIVE = ''inactive''"
| "mirror_status_value MIRROR_ERROR = ''error''"

fun vpn_status_value :: "vpn_status \<Rightarrow> string" where
  "vpn_status_value VPN_BUILD = ''build''"
| "vpn_status_value VPN_ACTIVE = ''active''"
| "vpn_status_value VPN_DOWN = ''down''"
| "vpn_status_value VPN_ERROR = ''error''"

text \<open>\<open>Enum(text)\<close>; the ones missing here are beside their enumeration.\<close>

definition network_type_of :: "string \<Rightarrow> exc + network_type" where
  "network_type_of = enum_of network_type_value [FLAT, VLAN, VXLAN]"

definition node_status_of :: "string \<Rightarrow> exc + node_status" where
  "node_status_of = enum_of node_status_value [PENDING, ONLINE, STALE, OFFLINE, DRAINING]"

definition op_status_of :: "string \<Rightarrow> exc + op_status" where
  "op_status_of = enum_of op_status_value
     [ACCEPTED, PLANNING, RUNNING, VERIFYING, SUCCEEDED, FAILED, CANCELLED, ROLLED_BACK]"

definition op_kind_of :: "string \<Rightarrow> exc + op_kind" where
  "op_kind_of = enum_of op_kind_value
     [NETWORK_CREATE, NETWORK_UPDATE, NETWORK_DELETE, NETWORK_APPLY, NODE_ENROLL, NODE_REMOVE, DRIFT_SCAN]"

definition fw_action_read :: "string \<Rightarrow> exc + fw_action" where
  "fw_action_read = enum_of fw_action_value [FW_ACCEPT, FW_DROP]"

definition fw_proto_read :: "string \<Rightarrow> exc + fw_proto" where
  "fw_proto_read = enum_of fw_proto_value [PROTO_ANY, PROTO_TCP, PROTO_UDP, PROTO_ICMP]"

definition alloc_kind_of :: "string \<Rightarrow> exc + alloc_kind" where
  "alloc_kind_of = enum_of alloc_kind_value [DYNAMIC, RESERVATION]"

definition role_of :: "string \<Rightarrow> exc + role" where
  "role_of = enum_of role_value [ADMIN, NETWORK_OPERATOR, AUTOMATION, VIEWER]"

definition webhook_state_of :: "string \<Rightarrow> exc + webhook_state" where
  "webhook_state_of = enum_of webhook_state_value [WH_ACTIVE, WH_DISABLED]"

definition lport_status_of :: "string \<Rightarrow> exc + lport_status" where
  "lport_status_of = enum_of lport_status_value [LP_PENDING, LP_ACTIVE, LP_DETACHED]"

definition policy_status_of :: "string \<Rightarrow> exc + policy_status" where
  "policy_status_of = enum_of policy_status_value [SP_DRAFT, SP_COMPILED, SP_APPLIED, SP_FAILED]"

definition router_status_of :: "string \<Rightarrow> exc + router_status" where
  "router_status_of = enum_of router_status_value [RT_BUILD, RT_ACTIVE, RT_DOWN, RT_ERROR]"

definition fip_status_of :: "string \<Rightarrow> exc + fip_status" where
  "fip_status_of = enum_of fip_status_value [FIP_DOWN, FIP_ACTIVE, FIP_ERROR]"

definition lb_status_of :: "string \<Rightarrow> exc + lb_status" where
  "lb_status_of = enum_of lb_status_value [LB_BUILD, LB_ACTIVE, LB_DOWN, LB_ERROR]"

definition schedule_status_of :: "string \<Rightarrow> exc + schedule_status" where
  "schedule_status_of = enum_of schedule_status_value [SCHED_ACTIVE, SCHED_PAUSED, SCHED_ERROR]"

definition target_of :: "string \<Rightarrow> exc + schedule_target" where
  "target_of = enum_of target_value
     [TARGET_NETWORK, TARGET_ROUTER, TARGET_LOAD_BALANCER, TARGET_GATEWAY_BOND]"

definition mirror_direction_of :: "string \<Rightarrow> exc + mirror_direction" where
  "mirror_direction_of = enum_of mirror_value [MIRROR_INGRESS, MIRROR_EGRESS, MIRROR_BOTH]"

definition mirror_status_of :: "string \<Rightarrow> exc + mirror_status" where
  "mirror_status_of = enum_of mirror_status_value [MIRROR_ACTIVE, MIRROR_INACTIVE, MIRROR_ERROR]"

definition vpn_status_of :: "string \<Rightarrow> exc + vpn_status" where
  "vpn_status_of = enum_of vpn_status_value [VPN_BUILD, VPN_ACTIVE, VPN_DOWN, VPN_ERROR]"

text \<open>No two members of an enumeration share a text, so reading gives back the member written.\<close>

lemma network_type_of_value [enum_simps]: "network_type_of (network_type_value x) = Inr x"
  by (cases x) (simp_all add: network_type_of_def enum_of_def)

lemma node_status_of_value [enum_simps]: "node_status_of (node_status_value x) = Inr x"
  by (cases x) (simp_all add: node_status_of_def node_status_value_def enum_of_def)

lemma op_status_of_value [enum_simps]: "op_status_of (op_status_value x) = Inr x"
  by (cases x) (simp_all add: op_status_of_def enum_of_def)

lemma op_kind_of_value [enum_simps]: "op_kind_of (op_kind_value x) = Inr x"
  by (cases x) (simp_all add: op_kind_of_def enum_of_def)

lemma fw_action_read_value [enum_simps]: "fw_action_read (fw_action_value x) = Inr x"
  by (cases x) (simp_all add: fw_action_read_def enum_of_def)

lemma fw_proto_read_value [enum_simps]: "fw_proto_read (fw_proto_value x) = Inr x"
  by (cases x) (simp_all add: fw_proto_read_def enum_of_def)

lemma alloc_kind_of_value [enum_simps]: "alloc_kind_of (alloc_kind_value x) = Inr x"
  by (cases x) (simp_all add: alloc_kind_of_def enum_of_def)

lemma role_of_value [enum_simps]: "role_of (role_value x) = Inr x"
  by (cases x) (simp_all add: role_of_def enum_of_def)

lemma webhook_state_of_value [enum_simps]: "webhook_state_of (webhook_state_value x) = Inr x"
  by (cases x) (simp_all add: webhook_state_of_def enum_of_def)

lemma lport_status_of_value [enum_simps]: "lport_status_of (lport_status_value x) = Inr x"
  by (cases x) (simp_all add: lport_status_of_def enum_of_def)

lemma policy_status_of_value [enum_simps]: "policy_status_of (policy_status_value x) = Inr x"
  by (cases x) (simp_all add: policy_status_of_def enum_of_def)

lemma router_status_of_value [enum_simps]: "router_status_of (router_status_value x) = Inr x"
  by (cases x) (simp_all add: router_status_of_def enum_of_def)

lemma ha_mode_of_value [enum_simps]: "ha_mode_of (ha_mode_value x) = Inr x"
  by (cases x) (simp_all add: ha_mode_of_def enum_of_def)

lemma ipv6_mode_of_value [enum_simps]: "ipv6_mode_of (ipv6_mode_value x) = Inr x"
  by (cases x) (simp_all add: ipv6_mode_of_def enum_of_def)

lemma bgp_state_of_value [enum_simps]: "bgp_state_of (bgp_state_value x) = Inr x"
  by (cases x) (simp_all add: bgp_state_of_def enum_of_def)

lemma fip_status_of_value [enum_simps]: "fip_status_of (fip_status_value x) = Inr x"
  by (cases x) (simp_all add: fip_status_of_def enum_of_def)

lemma bond_mode_of_value [enum_simps]: "bond_mode_of (bond_mode_value x) = Inr x"
  by (cases x) (simp_all add: bond_mode_of_def enum_of_def)

lemma retention_of_value [enum_simps]: "retention_of (retention_value x) = Inr x"
  by (cases x) (simp_all add: retention_of_def enum_of_def)

lemma lb_algorithm_of_value [enum_simps]: "lb_algorithm_of (lb_algorithm_value x) = Inr x"
  by (cases x) (simp_all add: lb_algorithm_of_def enum_of_def)

lemma lb_protocol_of_value [enum_simps]: "lb_protocol_of (lb_protocol_value x) = Inr x"
  by (cases x) (simp_all add: lb_protocol_of_def enum_of_def)

lemma persistence_of_value [enum_simps]: "persistence_of (persistence_value x) = Inr x"
  by (cases x) (simp_all add: persistence_of_def enum_of_def)

lemma lb_status_of_value [enum_simps]: "lb_status_of (lb_status_value x) = Inr x"
  by (cases x) (simp_all add: lb_status_of_def enum_of_def)

lemma health_check_of_value [enum_simps]: "health_check_of (health_check_value x) = Inr x"
  by (cases x) (simp_all add: health_check_of_def enum_of_def)

lemma schedule_status_of_value [enum_simps]: "schedule_status_of (schedule_status_value x) = Inr x"
  by (cases x) (simp_all add: schedule_status_of_def enum_of_def)

lemma target_of_value [enum_simps]: "target_of (target_value x) = Inr x"
  by (cases x) (simp_all add: target_of_def enum_of_def)

lemma mirror_direction_of_value [enum_simps]: "mirror_direction_of (mirror_value x) = Inr x"
  by (cases x) (simp_all add: mirror_direction_of_def enum_of_def)

lemma mirror_status_of_value [enum_simps]: "mirror_status_of (mirror_status_value x) = Inr x"
  by (cases x) (simp_all add: mirror_status_of_def enum_of_def)

lemma vpn_of_value [enum_simps]: "vpn_of (vpn_value x) = Inr x"
  by (cases x) (simp_all add: vpn_of_def enum_of_def)

lemma vpn_status_of_value [enum_simps]: "vpn_status_of (vpn_status_value x) = Inr x"
  by (cases x) (simp_all add: vpn_status_of_def enum_of_def)

subsection \<open>Optional references\<close>

text \<open>\<open>X(v) if v else None\<close>: the empty text reads as no reference.\<close>

definition truthy :: "string option \<Rightarrow> string option" where
  "truthy v = (case v of None \<Rightarrow> None | Some s \<Rightarrow> if s = [] then None else Some s)"

lemma truthy_id [simp]: "v \<noteq> Some [] \<Longrightarrow> truthy v = v"
  by (cases v) (simp_all add: truthy_def)

lemma truthy_not_empty [simp]: "truthy v \<noteq> Some []"
  by (simp add: truthy_def split: option.splits)

lemma truthy_idem [simp]: "truthy (truthy v) = truthy v"
  by simp

end
