(* ===== verification/Sql_Rows.thy ===== *)
theory Sql_Rows
  imports Json
begin

text \<open>
  The ORM rows of the platform tables (\<open>adapters/sql/models.py\<close>): projects, nodes, networks,
  operations, tokens, observations, journals, allocations and subscriptions. A nullable column is an
  option; a JSON column is the value it holds, typed where the mapper copies it as it is and
  \<open>json\<close> where the mapper converts it; a relationship that the mapper follows is the list (or
  option) of child rows. Enumerations are columns of text.
\<close>

record project_row =
  prjr_id :: string
  prjr_name :: string
  prjr_slug :: string
  prjr_description :: "string option"
  prjr_labels :: "(string, string) dict"
  prjr_created_at :: time
  prjr_updated_at :: time

record project_member_row =
  pmr_project_id :: string
  pmr_service_account_id :: string
  pmr_role :: string
  pmr_created_at :: time
  pmr_created_by :: "string option"

record node_row =
  ndr_id :: string
  ndr_name :: string
  ndr_mgmt_ip :: string
  ndr_status :: string
  ndr_roles :: "string list"
  ndr_labels :: "(string, string) dict"
  ndr_agent_version :: "string option"
  ndr_last_seen_at :: "time option"
  ndr_capabilities :: "json option"
  ndr_tls_thumbprint :: "string option"
  ndr_project_id :: "string option"
  ndr_maintenance :: bool
  ndr_maintenance_at :: "time option"
  ndr_created_at :: time
  ndr_updated_at :: time

record subnet_row =
  subr_id :: string
  subr_network_id :: string
  subr_cidr :: string
  subr_gateway :: "string option"
  subr_dns_servers :: "string list"
  subr_allocation_pools :: "json list"
  subr_reserved_ranges :: "json list"
  subr_dhcp :: "json option"
  subr_dns_zone :: "string option"

record network_row =
  netr_id :: string
  netr_name :: string
  netr_type :: string
  netr_mtu :: int
  netr_vlan_id :: "int option"
  netr_vni :: "int option"
  netr_labels :: "(string, string) dict"
  netr_intent_version :: int
  netr_node_ids :: "string list"
  netr_spec_hash :: string
  netr_nat :: "json option"
  netr_firewall_policy :: "json option"
  netr_project_id :: "string option"
  netr_created_at :: time
  netr_updated_at :: time
  netr_subnet :: "subnet_row option"

record operation_event_row =
  evr_operation_id :: string
  evr_sequence :: int
  evr_at :: time
  evr_status :: string
  evr_message :: string
  evr_payload :: payload

record operation_row =
  opr_id :: string
  opr_kind :: string
  opr_status :: string
  opr_resource_type :: string
  opr_resource_id :: string
  opr_created_at :: time
  opr_updated_at :: time
  opr_created_by :: "string option"
  opr_error_code :: "string option"
  opr_error_message :: "string option"
  opr_error_details :: "payload option"
  opr_events :: "operation_event_row list"

record enrollment_token_row =
  etkr_id :: string
  etkr_node_id :: string
  etkr_token_hash :: string
  etkr_issued_at :: time
  etkr_expires_at :: time
  etkr_used_at :: "time option"
  etkr_issued_by :: "string option"

record observed_state_row =
  osr_node_id :: string
  osr_observed_at :: time
  osr_state_hash :: string
  osr_payload :: json

record node_snapshot_row =
  nsr_id :: string
  nsr_node_id :: string
  nsr_agent_snapshot_id :: string
  nsr_state_hash :: string
  nsr_created_at :: time
  nsr_label :: "string option"

record audit_event_row =
  audr_id :: string
  audr_at :: time
  audr_action :: string
  audr_resource_type :: string
  audr_resource_id :: "string option"
  audr_actor :: "string option"
  audr_http_status :: "int option"
  audr_request_id :: "string option"
  audr_payload :: payload

record service_account_row =
  sar_id :: string
  sar_name :: string
  sar_role :: string
  sar_description :: "string option"
  sar_labels :: "(string, string) dict"
  sar_created_at :: time
  sar_updated_at :: time
  sar_created_by :: "string option"
  sar_disabled_at :: "time option"

record service_token_row =
  stkr_id :: string
  stkr_service_account_id :: string
  stkr_token_hash :: string
  stkr_issued_at :: time
  stkr_expires_at :: "time option"
  stkr_last_used_at :: "time option"
  stkr_revoked_at :: "time option"
  stkr_issued_by :: "string option"
  stkr_label :: "string option"

record ip_allocation_row =
  ipar_id :: string
  ipar_subnet_id :: string
  ipar_ip_address :: string
  ipar_owner_type :: string
  ipar_owner_id :: string
  ipar_kind :: string
  ipar_allocated_at :: time
  ipar_label :: "string option"

record outbox_event_row =
  oevr_event_id :: int
  oevr_id :: string
  oevr_occurred_at :: time
  oevr_event_type :: string
  oevr_resource_type :: string
  oevr_resource_id :: "string option"
  oevr_payload :: payload
  oevr_delivered_at :: "time option"
  oevr_schema_version :: int
  oevr_project_id :: "string option"

record webhook_row =
  whr_id :: string
  whr_target_url :: string
  whr_secret_hash :: string
  whr_event_types :: "string list"
  whr_state :: string
  whr_created_at :: time
  whr_updated_at :: time
  whr_cursor :: int
  whr_last_delivery_at :: "time option"
  whr_last_delivery_status :: "string option"
  whr_failure_count :: int
  whr_description :: "string option"
  whr_labels :: "(string, string) dict"

text \<open>
  The ORM rows of the catalogue tables (\<open>adapters/sql/models.py\<close>, N1 to N5), as in
  \<open>Sql_Rows\<close>.
\<close>

record logical_port_row =
  lpr_id :: string
  lpr_name :: string
  lpr_node_id :: string
  lpr_network_id :: string
  lpr_vif_id :: "string option"
  lpr_mac_address :: "string option"
  lpr_ip_address :: "string option"
  lpr_status :: string
  lpr_project_id :: "string option"
  lpr_labels :: "(string, string) dict"
  lpr_created_at :: time
  lpr_updated_at :: time

record security_group_row =
  sgr_id :: string
  sgr_name :: string
  sgr_description :: string
  sgr_project_id :: "string option"
  sgr_labels :: "(string, string) dict"
  sgr_created_at :: time
  sgr_updated_at :: time

record sg_member_row =
  sgmr_sg_id :: string
  sgmr_member_type :: string
  sgmr_member_value :: string
  sgmr_created_at :: time

record address_pool_row =
  apr_id :: string
  apr_name :: string
  apr_description :: string
  apr_project_id :: "string option"
  apr_cidrs :: "string list"
  apr_labels :: "(string, string) dict"
  apr_created_at :: time
  apr_updated_at :: time

record service_object_row =
  sor_id :: string
  sor_name :: string
  sor_description :: string
  sor_project_id :: "string option"
  sor_protocol :: string
  sor_ports :: "string list"
  sor_labels :: "(string, string) dict"
  sor_created_at :: time
  sor_updated_at :: time

record qos_policy_row =
  qpr_id :: string
  qpr_name :: string
  qpr_description :: string
  qpr_project_id :: "string option"
  qpr_ingress_kbps :: "int option"
  qpr_egress_kbps :: "int option"
  qpr_burst_kb :: "int option"
  qpr_dscp :: "int option"
  qpr_labels :: "(string, string) dict"
  qpr_created_at :: time
  qpr_updated_at :: time

record policy_rule_row =
  prr_policy_id :: string
  prr_rule_id :: string
  prr_priority :: int
  prr_direction :: string
  prr_action :: string
  prr_source_type :: string
  prr_source_value :: string
  prr_destination_type :: string
  prr_destination_value :: string
  prr_service_object_id :: "string option"
  prr_enabled :: bool
  prr_comment :: string
  prr_packet_count :: int
  prr_byte_count :: int

record security_policy_row =
  spr_id :: string
  spr_name :: string
  spr_description :: string
  spr_project_id :: "string option"
  spr_labels :: "(string, string) dict"
  spr_status :: string
  spr_compiled_ruleset :: "string option"
  spr_compiled_at :: "time option"
  spr_applied_at :: "time option"
  spr_created_at :: time
  spr_updated_at :: time
  spr_rules :: "policy_rule_row list"

record trunk_port_row =
  tpr_id :: string
  tpr_name :: string
  tpr_node_id :: string
  tpr_logical_port_id :: "string option"
  tpr_vlan_ids :: "int list"
  tpr_native_vlan :: "int option"
  tpr_project_id :: "string option"
  tpr_labels :: "(string, string) dict"
  tpr_created_at :: time
  tpr_updated_at :: time

record router_row =
  rtr_id :: string
  rtr_name :: string
  rtr_description :: string
  rtr_project_id :: "string option"
  rtr_external_network_id :: "string option"
  rtr_internal_network_ids :: "string list"
  rtr_static_routes :: "json list"
  rtr_status :: string
  rtr_admin_state_up :: bool
  rtr_ha_mode :: string
  rtr_vrrp_priority :: "int option"
  rtr_vrrp_vrid :: "int option"
  rtr_ipv6_config :: "json option"
  rtr_applied_config :: "string option"
  rtr_applied_at :: "time option"
  rtr_labels :: "(string, string) dict"
  rtr_created_at :: time
  rtr_updated_at :: time

record floating_ip_row =
  fipr_id :: string
  fipr_external_network_id :: string
  fipr_floating_ip_address :: string
  fipr_project_id :: "string option"
  fipr_fixed_ip_address :: "string option"
  fipr_logical_port_id :: "string option"
  fipr_router_id :: "string option"
  fipr_status :: string
  fipr_labels :: "(string, string) dict"
  fipr_created_at :: time
  fipr_updated_at :: time

record bgp_peer_row =
  bgpr_id :: string
  bgpr_router_id :: string
  bgpr_peer_ip :: string
  bgpr_peer_asn :: int
  bgpr_local_asn :: int
  bgpr_password :: string
  bgpr_state :: string
  bgpr_project_id :: "string option"
  bgpr_labels :: "(string, string) dict"
  bgpr_created_at :: time
  bgpr_updated_at :: time

record project_quota_row =
  pqr_id :: string
  pqr_project_id :: string
  pqr_limits :: "(string, int option) dict"
  pqr_created_at :: time
  pqr_updated_at :: time

record resource_snapshot_row =
  rsr_id :: string
  rsr_project_id :: string
  rsr_version :: int
  rsr_label :: string
  rsr_resource_types :: "string list"
  rsr_payload :: payload
  rsr_created_at :: time

record retention_policy_row =
  rpr_id :: string
  rpr_scope :: string
  rpr_retention_days :: int
  rpr_project_id :: "string option"
  rpr_description :: string
  rpr_created_at :: time
  rpr_updated_at :: time

record gateway_bond_row =
  gbr_id :: string
  gbr_name :: string
  gbr_node_id :: string
  gbr_bond_name :: string
  gbr_mode :: string
  gbr_members :: "string list"
  gbr_mtu :: int
  gbr_project_id :: "string option"
  gbr_applied_config :: "string option"
  gbr_applied_at :: "time option"
  gbr_labels :: "(string, string) dict"
  gbr_created_at :: time
  gbr_updated_at :: time

record load_balancer_row =
  lbr_id :: string
  lbr_name :: string
  lbr_vip_address :: string
  lbr_vip_network_id :: string
  lbr_project_id :: "string option"
  lbr_router_id :: "string option"
  lbr_description :: string
  lbr_provider :: string
  lbr_status :: string
  lbr_admin_state_up :: bool
  lbr_applied_config :: "string option"
  lbr_applied_at :: "time option"
  lbr_labels :: "(string, string) dict"
  lbr_created_at :: time
  lbr_updated_at :: time

record lb_listener_row =
  llr_id :: string
  llr_name :: string
  llr_lb_id :: string
  llr_protocol :: string
  llr_protocol_port :: int
  llr_default_pool_id :: "string option"
  llr_description :: string
  llr_labels :: "(string, string) dict"
  llr_created_at :: time
  llr_updated_at :: time

record lb_pool_row =
  lplr_id :: string
  lplr_name :: string
  lplr_lb_id :: string
  lplr_protocol :: string
  lplr_lb_algorithm :: string
  lplr_session_persistence :: string
  lplr_description :: string
  lplr_labels :: "(string, string) dict"
  lplr_created_at :: time
  lplr_updated_at :: time

record lb_member_row =
  lbmr_id :: string
  lbmr_pool_id :: string
  lbmr_address :: string
  lbmr_protocol_port :: int
  lbmr_weight :: int
  lbmr_admin_state_up :: bool
  lbmr_created_at :: time
  lbmr_updated_at :: time

record health_monitor_row =
  hmr_id :: string
  hmr_pool_id :: string
  hmr_check_type :: string
  hmr_delay :: int
  hmr_timeout :: int
  hmr_max_retries :: int
  hmr_url_path :: string
  hmr_http_method :: string
  hmr_expected_codes :: string
  hmr_created_at :: time
  hmr_updated_at :: time

record apply_schedule_row =
  schr_id :: string
  schr_name :: string
  schr_cron_expr :: string
  schr_target_type :: string
  schr_target_id :: string
  schr_enabled :: bool
  schr_project_id :: "string option"
  schr_status :: string
  schr_last_run_at :: "time option"
  schr_last_run_status :: "string option"
  schr_labels :: "(string, string) dict"
  schr_created_at :: time
  schr_updated_at :: time

record mirror_session_row =
  msr_id :: string
  msr_name :: string
  msr_source_port_id :: string
  msr_direction :: string
  msr_destination_port_id :: "string option"
  msr_destination_ip :: "string option"
  msr_filter_vlan :: "int option"
  msr_project_id :: "string option"
  msr_status :: string
  msr_applied_config :: "string option"
  msr_applied_at :: "time option"
  msr_labels :: "(string, string) dict"
  msr_created_at :: time
  msr_updated_at :: time

record vpn_tunnel_row =
  vtr_id :: string
  vtr_name :: string
  vtr_protocol :: string
  vtr_local_endpoint :: string
  vtr_remote_endpoint :: string
  vtr_local_public_key :: string
  vtr_remote_public_key :: string
  vtr_listen_port :: int
  vtr_preshared_key :: "string option"
  vtr_project_id :: "string option"
  vtr_status :: string
  vtr_applied_config :: "string option"
  vtr_applied_at :: "time option"
  vtr_labels :: "(string, string) dict"
  vtr_created_at :: time
  vtr_updated_at :: time

record vpn_peer_row =
  vpr_id :: string
  vpr_tunnel_id :: string
  vpr_public_key :: string
  vpr_endpoint :: "string option"
  vpr_allowed_ips :: "string list"
  vpr_persistent_keepalive :: int
  vpr_created_at :: time
  vpr_updated_at :: time

end
