(* ===== verification/Sql_Mappers.thy ===== *)
theory Sql_Mappers
  imports Sql_Values Sql_Rows Agent_Port
begin

text \<open>
  The conversions between aggregates and rows of the platform tables (\<open>adapters/sql/mappers.py\<close>).
  \<open>X_from_row\<close> runs the constructor of the aggregate, so a row that no constructor accepts cannot
  be read. \<open>storable_X\<close> says what an aggregate must satisfy to be read back as it was written:
  its constructor accepts it unchanged and no optional reference is the empty text.
\<close>

named_theorems eta_simps "a record rebuilt from its own fields"

subsection \<open>JSON columns\<close>

text \<open>
  A JSON column holds what the writer put there. \<open>shape\<close> is the reading of a value whose shape
  the writer guarantees; content of another shape, which only an edit of the database outside the
  controller can produce, reads as an exception here. A missing required key is Python's
  \<open>KeyError\<close>.
\<close>

definition shape :: "'a option \<Rightarrow> exc + 'a" where
  "shape = of_option (PyError PyValueError)"

lemma shape_Some [simp]: "shape (Some x) = Inr x"
  by (simp add: shape_def)

definition text_key :: "string \<Rightarrow> json \<Rightarrow> exc + string" where
  "text_key k j = bindE (of_option (PyError PyKeyError) (jfield k j)) (\<lambda>v. shape (as_str v))"

definition opt_text :: "string \<Rightarrow> json \<Rightarrow> exc + string option" where
  "opt_text k j = (case jfield k j of
     None \<Rightarrow> Inr None | Some JNull \<Rightarrow> Inr None | Some v \<Rightarrow> shape (map_option Some (as_str v)))"

definition texts :: "string \<Rightarrow> json \<Rightarrow> exc + string list" where
  "texts k j = bindE (shape (list_or_empty k j)) (\<lambda>vs. shape (those (List.map as_str vs)))"

definition jtexts :: "string list \<Rightarrow> json" where
  "jtexts xs = JList (List.map JStr xs)"

lemma text_key_JStr [simp]: "jfield k j = Some (JStr s) \<Longrightarrow> text_key k j = Inr s"
  by (simp add: text_key_def)

lemma opt_text_jopt [simp]: "jfield k j = Some (jopt JStr v) \<Longrightarrow> opt_text k j = Inr v"
  by (cases v) (simp_all add: opt_text_def)

lemma those_as_str [simp]: "those (List.map (as_str \<circ> JStr) xs) = Some xs"
  by (induction xs) auto

lemma texts_jtexts [simp]: "jfield k j = Some (jtexts xs) \<Longrightarrow> texts k j = Inr xs"
  by (simp add: texts_def jtexts_def list_or_empty_def)

fun traverse :: "('a \<Rightarrow> 'e + 'b) \<Rightarrow> 'a list \<Rightarrow> 'e + 'b list" where
  "traverse f [] = Inr []"
| "traverse f (x # xs) = bindE (f x) (\<lambda>y. bindE (traverse f xs) (\<lambda>ys. Inr (y # ys)))"

lemma traverse_map: "(\<And>x. x \<in> set xs \<Longrightarrow> f (g x) = Inr (h x)) \<Longrightarrow> traverse f (List.map g xs) = Inr (List.map h xs)"
  by (induction xs) auto

lemma traverse_roundtrip: "(\<And>x. x \<in> set xs \<Longrightarrow> f (g x) = Inr x) \<Longrightarrow> traverse f (List.map g xs) = Inr xs"
  by (induction xs) auto

lemma traverse_Inr_iff: "traverse f xs = Inr ys \<longleftrightarrow> list_all2 (\<lambda>x y. f x = Inr y) xs ys"
  by (induction xs arbitrary: ys) (auto simp: bindE_Inr_iff list_all2_Cons1)

fun on_opt :: "('a \<Rightarrow> exc + 'b) \<Rightarrow> 'a option \<Rightarrow> exc + 'b option" where
  "on_opt f None = Inr None"
| "on_opt f (Some x) = bindE (f x) (\<lambda>y. Inr (Some y))"

lemma on_opt_roundtrip: "(\<And>x. v = Some x \<Longrightarrow> f (g x) = Inr x) \<Longrightarrow> on_opt f (map_option g v) = Inr v"
  by (cases v) auto

subsection \<open>Nodes\<close>

definition capabilities_to_json :: "node_capabilities option \<Rightarrow> json option" where
  "capabilities_to_json = map_option (\<lambda>c. JObj
     [(''ovs_version'', jopt JStr (cap_ovs_version c)), (''kernel'', jopt JStr (cap_kernel c)),
      (''interfaces'', jtexts (cap_interfaces c)), (''features'', jtexts (cap_features c))])"

definition capabilities_from_json :: "json option \<Rightarrow> exc + node_capabilities option" where
  "capabilities_from_json = on_opt (\<lambda>j.
     bindE (opt_text ''ovs_version'' j) (\<lambda>v.
     bindE (opt_text ''kernel'' j) (\<lambda>k.
     bindE (texts ''interfaces'' j) (\<lambda>ifs.
     bindE (texts ''features'' j) (\<lambda>fs.
     Inr \<lparr>cap_ovs_version = v, cap_kernel = k, cap_interfaces = ifs, cap_features = fs\<rparr>)))))"

lemma capabilities_roundtrip [simp]: "capabilities_from_json (capabilities_to_json c) = Inr c"
  unfolding capabilities_from_json_def capabilities_to_json_def by (rule on_opt_roundtrip) simp

definition node_to_row :: "node \<Rightarrow> node_row" where
  "node_to_row e =
     \<lparr>ndr_id = nd_id e, ndr_name = nd_name e, ndr_mgmt_ip = nd_mgmt_ip e,
      ndr_status = node_status_value (nd_status e), ndr_roles = nd_roles e, ndr_labels = nd_labels e,
      ndr_agent_version = nd_agent_version e, ndr_last_seen_at = nd_last_seen_at e,
      ndr_capabilities = capabilities_to_json (nd_capabilities e),
      ndr_tls_thumbprint = nd_tls_thumbprint e, ndr_project_id = nd_project_id e,
      ndr_maintenance = nd_maintenance e, ndr_maintenance_at = nd_maintenance_at e,
      ndr_created_at = nd_created_at e, ndr_updated_at = nd_updated_at e\<rparr>"

definition node_from_row :: "node_row \<Rightarrow> exc + node" where
  "node_from_row r =
     bindE (node_status_of (ndr_status r)) (\<lambda>st.
     bindE (capabilities_from_json (ndr_capabilities r)) (\<lambda>caps.
     mk_node \<lparr>nd_id = ndr_id r, nd_name = ndr_name r, nd_mgmt_ip = ndr_mgmt_ip r,
       nd_created_at = ndr_created_at r, nd_updated_at = ndr_updated_at r, nd_status = st,
       nd_roles = ndr_roles r, nd_labels = ndr_labels r, nd_agent_version = ndr_agent_version r,
       nd_last_seen_at = ndr_last_seen_at r, nd_capabilities = caps,
       nd_tls_thumbprint = ndr_tls_thumbprint r, nd_project_id = truthy (ndr_project_id r),
       nd_maintenance = ndr_maintenance r, nd_maintenance_at = ndr_maintenance_at r\<rparr>))"

definition storable_node :: "node \<Rightarrow> bool" where
  "storable_node e \<longleftrightarrow> mk_node e = Inr e \<and> nd_project_id e \<noteq> Some []"

lemma node_roundtrip:
  "storable_node e \<Longrightarrow> node_from_row (node_to_row e) = Inr e"
  by (cases e) (simp add: node_from_row_def node_to_row_def
      storable_node_def enum_simps eta_simps)

subsection \<open>Enrolment tokens\<close>

definition enrollment_token_to_row :: "enrollment_token \<Rightarrow> enrollment_token_row" where
  "enrollment_token_to_row e =
     \<lparr>etkr_id = etk_id e, etkr_node_id = etk_node_id e, etkr_token_hash = etk_token_hash e,
      etkr_issued_at = etk_issued_at e, etkr_expires_at = etk_expires_at e,
      etkr_used_at = etk_used_at e, etkr_issued_by = etk_issued_by e\<rparr>"

definition enrollment_token_from_row :: "enrollment_token_row \<Rightarrow> exc + enrollment_token" where
  "enrollment_token_from_row r =
     Inr \<lparr>etk_id = etkr_id r, etk_node_id = etkr_node_id r, etk_token_hash = etkr_token_hash r,
       etk_issued_at = etkr_issued_at r, etk_expires_at = etkr_expires_at r,
       etk_used_at = etkr_used_at r, etk_issued_by = etkr_issued_by r\<rparr>"

definition storable_enrollment_token :: "enrollment_token \<Rightarrow> bool" where
  "storable_enrollment_token e \<longleftrightarrow> True"

lemma enrollment_token_roundtrip:
  "storable_enrollment_token e \<Longrightarrow> enrollment_token_from_row (enrollment_token_to_row e) = Inr e"
  by (cases e) (simp add: enrollment_token_from_row_def enrollment_token_to_row_def
      storable_enrollment_token_def enum_simps eta_simps)

subsection \<open>Networks and subnets\<close>

definition range_to_json :: "ip_range \<Rightarrow> json" where
  "range_to_json r = JObj [(''start'', JStr (rng_start r)), (''end'', JStr (rng_end r))]"

definition range_from_json :: "json \<Rightarrow> exc + ip_range" where
  "range_from_json j =
     bindE (text_key ''start'' j) (\<lambda>s. bindE (text_key ''end'' j) (\<lambda>e. mk_ip_range s e))"

definition dhcp_to_json :: "dhcp_spec option \<Rightarrow> json option" where
  "dhcp_to_json = map_option (\<lambda>d. JObj
     [(''range_start'', JStr (dhcp_range_start d)), (''range_end'', JStr (dhcp_range_end d)),
      (''lease_time_seconds'', JInt (dhcp_lease_time d)),
      (''domain_name'', jopt JStr (dhcp_domain_name d))])"

definition dhcp_from_json :: "json option \<Rightarrow> exc + dhcp_spec option" where
  "dhcp_from_json = on_opt (\<lambda>j.
     bindE (text_key ''range_start'' j) (\<lambda>s.
     bindE (text_key ''range_end'' j) (\<lambda>e.
     bindE (case jfield ''lease_time_seconds'' j of None \<Rightarrow> Inr 3600 | Some v \<Rightarrow> shape (as_int v)) (\<lambda>l.
     bindE (opt_text ''domain_name'' j) (\<lambda>dn.
     let d = \<lparr>dhcp_range_start = s, dhcp_range_end = e, dhcp_lease_time = l, dhcp_domain_name = dn\<rparr>
     in bindE (dhcp_spec_check d) (\<lambda>_. Inr d))))))"

definition nat_to_json :: "nat_spec option \<Rightarrow> json option" where
  "nat_to_json = map_option (\<lambda>n. JObj [(''egress_interface'', JStr (nat_egress n))])"

definition nat_from_json :: "json option \<Rightarrow> exc + nat_spec option" where
  "nat_from_json = on_opt (\<lambda>j.
     bindE (text_key ''egress_interface'' j) (\<lambda>e.
     bindE (nat_spec_check \<lparr>nat_egress = e\<rparr>) (\<lambda>_. Inr \<lparr>nat_egress = e\<rparr>)))"

definition fw_rule_to_json :: "fw_rule \<Rightarrow> json" where
  "fw_rule_to_json r = JObj
     [(''action'', JStr (fw_action_value (fr_action r))), (''proto'', JStr (fw_proto_value (fr_proto r))),
      (''source_cidr'', jopt JStr (fr_source r)), (''destination_cidr'', jopt JStr (fr_destination r)),
      (''destination_port_start'', jopt JInt (fr_port_start r)),
      (''destination_port_end'', jopt JInt (fr_port_end r))]"

definition firewall_to_json :: "fw_policy option \<Rightarrow> json option" where
  "firewall_to_json = map_option (\<lambda>p. JObj
     [(''default_action'', JStr (fw_action_value (fp_default p))),
      (''rules'', JList (List.map fw_rule_to_json (fp_rules p)))])"

text \<open>\<open>blob.get(key, default)\<close> for a text.\<close>

definition text_default :: "string \<Rightarrow> string \<Rightarrow> json \<Rightarrow> exc + string" where
  "text_default k d j = (case jfield k j of None \<Rightarrow> Inr d | Some v \<Rightarrow> shape (as_str v))"

lemma text_default_JStr [simp]: "jfield k j = Some (JStr s) \<Longrightarrow> text_default k d j = Inr s"
  by (simp add: text_default_def)

definition fw_rule_from_json :: "json \<Rightarrow> exc + fw_rule" where
  "fw_rule_from_json j =
     bindE (bindE (text_default ''action'' ''accept'' j) fw_action_read) (\<lambda>a.
     bindE (bindE (text_default ''proto'' ''any'' j) fw_proto_read) (\<lambda>p.
     bindE (opt_text ''source_cidr'' j) (\<lambda>sc.
     bindE (opt_text ''destination_cidr'' j) (\<lambda>dc.
     bindE (shape (opt_int_field ''destination_port_start'' j)) (\<lambda>ps.
     bindE (shape (opt_int_field ''destination_port_end'' j)) (\<lambda>pe.
     let r = \<lparr>fr_action = a, fr_proto = p, fr_source = sc, fr_destination = dc,
              fr_port_start = ps, fr_port_end = pe\<rparr>
     in bindE (fw_rule_check r) (\<lambda>_. Inr r)))))))"

definition firewall_from_json :: "json option \<Rightarrow> exc + fw_policy option" where
  "firewall_from_json = on_opt (\<lambda>j.
     bindE (bindE (text_default ''default_action'' ''drop'' j) fw_action_read) (\<lambda>a.
     bindE (shape (list_or_empty ''rules'' j)) (\<lambda>js.
     bindE (traverse fw_rule_from_json js) (\<lambda>rs.
     Inr \<lparr>fp_default = a, fp_rules = rs\<rparr>))))"

definition subnet_to_row :: "string \<Rightarrow> subnet \<Rightarrow> subnet_row" where
  "subnet_to_row nid s =
     \<lparr>subr_id = sub_id s, subr_network_id = nid, subr_cidr = sub_cidr s, subr_gateway = sub_gateway s,
      subr_dns_servers = sub_dns_servers s,
      subr_allocation_pools = List.map range_to_json (sub_pools s),
      subr_reserved_ranges = List.map range_to_json (sub_reserved s),
      subr_dhcp = dhcp_to_json (sub_dhcp s), subr_dns_zone = sub_dns_zone s\<rparr>"

definition subnet_from_row :: "subnet_row \<Rightarrow> exc + subnet" where
  "subnet_from_row r =
     bindE (traverse range_from_json (subr_allocation_pools r)) (\<lambda>pools.
     bindE (traverse range_from_json (subr_reserved_ranges r)) (\<lambda>res.
     bindE (dhcp_from_json (subr_dhcp r)) (\<lambda>dh.
     mk_subnet \<lparr>sub_id = subr_id r, sub_cidr = subr_cidr r, sub_gateway = subr_gateway r,
       sub_dns_servers = subr_dns_servers r, sub_pools = pools, sub_reserved = res, sub_dhcp = dh,
       sub_dns_zone = subr_dns_zone r\<rparr>)))"

definition network_to_row :: "network \<Rightarrow> network_row" where
  "network_to_row n =
     \<lparr>netr_id = net_id n, netr_name = net_name n, netr_type = network_type_value (net_type n),
      netr_mtu = net_mtu n, netr_vlan_id = net_vlan_id n, netr_vni = net_vni n,
      netr_labels = net_labels n, netr_intent_version = net_intent_version n,
      netr_node_ids = net_node_ids n, netr_spec_hash = net_spec_hash n,
      netr_nat = nat_to_json (net_nat n), netr_firewall_policy = firewall_to_json (net_firewall n),
      netr_project_id = net_project_id n, netr_created_at = net_created_at n,
      netr_updated_at = net_updated_at n,
      netr_subnet = map_option (subnet_to_row (net_id n)) (net_subnet n)\<rparr>"

definition network_from_row :: "(json \<Rightarrow> string) \<Rightarrow> network_row \<Rightarrow> exc + network" where
  "network_from_row digest r =
     bindE (on_opt subnet_from_row (netr_subnet r)) (\<lambda>s.
     bindE (network_type_of (netr_type r)) (\<lambda>ty.
     bindE (nat_from_json (netr_nat r)) (\<lambda>nt.
     bindE (firewall_from_json (netr_firewall_policy r)) (\<lambda>fw.
     mk_network digest \<lparr>net_id = netr_id r, net_name = netr_name r, net_type = ty,
       net_created_at = netr_created_at r, net_updated_at = netr_updated_at r, net_mtu = netr_mtu r,
       net_vlan_id = netr_vlan_id r, net_vni = netr_vni r, net_subnet = s,
       net_intent_version = netr_intent_version r, net_labels = netr_labels r,
       net_node_ids = netr_node_ids r, net_nat = nt, net_firewall = fw,
       net_spec_hash = netr_spec_hash r, net_project_id = truthy (netr_project_id r)\<rparr>))))"

lemma ip_range_eta [eta_simps]:
  "\<lparr>rng_start = rng_start e, rng_end = rng_end e\<rparr> = e"
  by simp

lemma owner_ref_eta [eta_simps]:
  "\<lparr>own_type = own_type e, own_id = own_id e\<rparr> = e"
  by simp

lemma dhcp_spec_eta [eta_simps]:
  "\<lparr>dhcp_range_start = dhcp_range_start e, dhcp_range_end = dhcp_range_end e,
    dhcp_lease_time = dhcp_lease_time e, dhcp_domain_name = dhcp_domain_name e\<rparr> = e"
  by simp

lemma nat_spec_eta [eta_simps]:
  "\<lparr>nat_egress = nat_egress e\<rparr> = e"
  by simp

lemma fw_rule_eta [eta_simps]:
  "\<lparr>fr_action = fr_action e, fr_proto = fr_proto e, fr_source = fr_source e,
    fr_destination = fr_destination e, fr_port_start = fr_port_start e, fr_port_end = fr_port_end e\<rparr> = e"
  by simp

lemma subnet_eta [eta_simps]:
  "\<lparr>sub_id = sub_id e, sub_cidr = sub_cidr e, sub_gateway = sub_gateway e,
    sub_dns_servers = sub_dns_servers e, sub_pools = sub_pools e, sub_reserved = sub_reserved e,
    sub_dhcp = sub_dhcp e, sub_dns_zone = sub_dns_zone e\<rparr> = e"
  by simp

lemma network_eta [eta_simps]:
  "\<lparr>net_id = net_id e, net_name = net_name e, net_type = net_type e,
    net_created_at = net_created_at e, net_updated_at = net_updated_at e, net_mtu = net_mtu e,
    net_vlan_id = net_vlan_id e, net_vni = net_vni e, net_subnet = net_subnet e,
    net_intent_version = net_intent_version e, net_labels = net_labels e,
    net_node_ids = net_node_ids e, net_nat = net_nat e, net_firewall = net_firewall e,
    net_spec_hash = net_spec_hash e, net_project_id = net_project_id e\<rparr> = e"
  by simp

lemma outbox_event_eta [eta_simps]:
  "\<lparr>oev_id = oev_id e, oev_event_id = oev_event_id e, oev_occurred_at = oev_occurred_at e,
    oev_event_type = oev_event_type e, oev_resource_type = oev_resource_type e,
    oev_resource_id = oev_resource_id e, oev_payload = oev_payload e,
    oev_delivered_at = oev_delivered_at e, oev_schema_version = oev_schema_version e,
    oev_project_id = oev_project_id e\<rparr> = e"
  by simp

lemma range_roundtrip: "ip_range_check r = Inr () \<Longrightarrow> range_from_json (range_to_json r) = Inr r"
  by (simp add: range_from_json_def range_to_json_def mk_ip_range_def Let_def eta_simps)

lemma dhcp_roundtrip:
  "(\<And>d. v = Some d \<Longrightarrow> dhcp_spec_check d = Inr ()) \<Longrightarrow> dhcp_from_json (dhcp_to_json v) = Inr v"
  unfolding dhcp_from_json_def dhcp_to_json_def by (rule on_opt_roundtrip) (simp add: Let_def eta_simps)

lemma nat_roundtrip:
  "(\<And>d. v = Some d \<Longrightarrow> nat_spec_check d = Inr ()) \<Longrightarrow> nat_from_json (nat_to_json v) = Inr v"
  unfolding nat_from_json_def nat_to_json_def by (rule on_opt_roundtrip) (simp add: eta_simps)

lemma fw_rule_roundtrip: "fw_rule_check r = Inr () \<Longrightarrow> fw_rule_from_json (fw_rule_to_json r) = Inr r"
  by (simp add: fw_rule_from_json_def fw_rule_to_json_def Let_def enum_simps eta_simps)

lemma firewall_roundtrip:
  assumes "\<And>p. v = Some p \<Longrightarrow> \<forall>r \<in> set (fp_rules p). fw_rule_check r = Inr ()"
  shows "firewall_from_json (firewall_to_json v) = Inr v"
  unfolding firewall_from_json_def firewall_to_json_def
proof (rule on_opt_roundtrip)
  fix p assume v: "v = Some p"
  have "traverse fw_rule_from_json (List.map fw_rule_to_json (fp_rules p)) = Inr (fp_rules p)"
    using assms [OF v] by (intro traverse_roundtrip fw_rule_roundtrip) simp
  then show "bindE (bindE (text_default ''default_action'' ''drop''
       (JObj [(''default_action'', JStr (fw_action_value (fp_default p))),
              (''rules'', JList (List.map fw_rule_to_json (fp_rules p)))])) fw_action_read)
     (\<lambda>a. bindE (shape (list_or_empty ''rules''
       (JObj [(''default_action'', JStr (fw_action_value (fp_default p))),
              (''rules'', JList (List.map fw_rule_to_json (fp_rules p)))])))
       (\<lambda>js. bindE (traverse fw_rule_from_json js) (\<lambda>rs. Inr \<lparr>fp_default = a, fp_rules = rs\<rparr>))) = Inr p"
    by (simp add: list_or_empty_def enum_simps)
qed

text \<open>What the constructors of the parts of a network accept.\<close>

definition subnet_parts_ok :: "subnet \<Rightarrow> bool" where
  "subnet_parts_ok s \<longleftrightarrow>
     (\<forall>r \<in> set (sub_pools s @ sub_reserved s). ip_range_check r = Inr ()) \<and>
     (\<forall>d \<in> set_option (sub_dhcp s). dhcp_spec_check d = Inr ()) \<and> mk_subnet s = Inr s"

definition storable_network :: "(json \<Rightarrow> string) \<Rightarrow> network \<Rightarrow> bool" where
  "storable_network digest n \<longleftrightarrow>
     mk_network digest n = Inr n \<and> net_spec_hash n \<noteq> [] \<and> net_project_id n \<noteq> Some [] \<and>
     (\<forall>s \<in> set_option (net_subnet n). subnet_parts_ok s) \<and>
     (\<forall>t \<in> set_option (net_nat n). nat_spec_check t = Inr ()) \<and>
     (\<forall>p \<in> set_option (net_firewall n). \<forall>r \<in> set (fp_rules p). fw_rule_check r = Inr ())"

lemma subnet_roundtrip: "subnet_parts_ok s \<Longrightarrow> subnet_from_row (subnet_to_row nid s) = Inr s"
  by (simp add: subnet_from_row_def subnet_to_row_def subnet_parts_ok_def traverse_roundtrip
      range_roundtrip dhcp_roundtrip eta_simps)

lemma network_roundtrip:
  assumes "storable_network digest n"
  shows "network_from_row digest (network_to_row n) = Inr n"
proof -
  have s: "on_opt subnet_from_row (map_option (subnet_to_row (net_id n)) (net_subnet n)) = Inr (net_subnet n)"
    using assms by (intro on_opt_roundtrip subnet_roundtrip) (simp add: storable_network_def)
  show ?thesis
    using assms by (simp add: network_from_row_def network_to_row_def s enum_simps nat_roundtrip
        firewall_roundtrip storable_network_def eta_simps)
qed

subsection \<open>Observed state\<close>

definition observed_port_to_json :: "obs_port \<Rightarrow> json" where
  "observed_port_to_json p = JObj
     [(''name'', JStr (opt_name p)), (''tag'', jopt JInt (opt_tag p)),
      (''trunks'', JList (List.map JInt (opt_trunks p))), (''external_ids'', jsdict (opt_ids p)),
      (''interfaces'', JList (List.map (\<lambda>i. JObj
         [(''name'', JStr (oi_name i)), (''type'', JStr (oi_type i)), (''options'', jsdict (oi_options i))])
         (opt_interfaces p)))]"

definition observed_bridge_to_json :: "obs_bridge \<Rightarrow> json" where
  "observed_bridge_to_json b = JObj
     [(''name'', JStr (ob_name b)), (''datapath_type'', JStr (ob_datapath b)),
      (''external_ids'', jsdict (ob_ids b)),
      (''ports'', JList (List.map observed_port_to_json (ob_ports b)))]"

definition observed_iface_from_json :: "json \<Rightarrow> exc + obs_iface" where
  "observed_iface_from_json j =
     bindE (text_key ''name'' j) (\<lambda>n.
     bindE (shape (str_or ''internal'' ''type'' j)) (\<lambda>ty.
     bindE (shape (sdict_or_empty ''options'' j)) (\<lambda>os.
     Inr \<lparr>oi_name = n, oi_type = ty, oi_options = os\<rparr>)))"

definition observed_port_from_json :: "json \<Rightarrow> exc + obs_port" where
  "observed_port_from_json j =
     bindE (shape (list_or_empty ''interfaces'' j)) (\<lambda>ijs.
     bindE (traverse observed_iface_from_json ijs) (\<lambda>ifs.
     bindE (text_key ''name'' j) (\<lambda>n.
     bindE (shape (opt_int_field ''tag'' j)) (\<lambda>tg.
     bindE (bindE (shape (list_or_empty ''trunks'' j)) (\<lambda>vs. shape (those (List.map as_int vs)))) (\<lambda>tr.
     bindE (shape (sdict_or_empty ''external_ids'' j)) (\<lambda>ids.
     Inr \<lparr>opt_name = n, opt_interfaces = ifs, opt_tag = tg, opt_trunks = tr, opt_ids = ids\<rparr>))))))"

definition observed_bridge_from_json :: "json \<Rightarrow> exc + obs_bridge" where
  "observed_bridge_from_json j =
     bindE (text_key ''name'' j) (\<lambda>n.
     bindE (shape (str_or ''system'' ''datapath_type'' j)) (\<lambda>dp.
     bindE (shape (sdict_or_empty ''external_ids'' j)) (\<lambda>ids.
     bindE (shape (list_or_empty ''ports'' j)) (\<lambda>pjs.
     bindE (traverse observed_port_from_json pjs) (\<lambda>ps.
     Inr \<lparr>ob_name = n, ob_datapath = dp, ob_ports = ps, ob_ids = ids\<rparr>)))))"

definition observed_state_to_row :: "observed_state \<Rightarrow> observed_state_row" where
  "observed_state_to_row s =
     \<lparr>osr_node_id = os_node_id s, osr_observed_at = os_observed_at s, osr_state_hash = os_state_hash s,
      osr_payload = JObj [(''bridges'', JList (List.map observed_bridge_to_json (os_bridges s)))]\<rparr>"

definition observed_state_from_row :: "observed_state_row \<Rightarrow> exc + observed_state" where
  "observed_state_from_row r =
     bindE (shape (list_or_empty ''bridges'' (osr_payload r))) (\<lambda>bjs.
     bindE (traverse observed_bridge_from_json bjs) (\<lambda>bs.
     Inr \<lparr>os_node_id = osr_node_id r, os_observed_at = osr_observed_at r,
          os_state_hash = osr_state_hash r, os_bridges = bs\<rparr>))"

text \<open>An empty datapath or interface type reads back as the default.\<close>

definition named_types :: "observed_state \<Rightarrow> bool" where
  "named_types s \<longleftrightarrow> (\<forall>b \<in> set (os_bridges s). ob_datapath b \<noteq> [] \<and>
     (\<forall>p \<in> set (ob_ports b). \<forall>i \<in> set (opt_interfaces p). oi_type i \<noteq> []))"

lemma str_or_field [simp]: "jfield k d = Some (JStr s) \<Longrightarrow> s \<noteq> [] \<Longrightarrow> str_or dflt k d = Some s"
  by (simp add: str_or_def)

lemma list_field [simp]: "jfield k d = Some (JList vs) \<Longrightarrow> list_or_empty k d = Some vs"
  by (simp add: list_or_empty_def)

lemma observed_port_roundtrip:
  assumes "\<forall>i \<in> set (opt_interfaces p). oi_type i \<noteq> []"
  shows "observed_port_from_json (observed_port_to_json p) = Inr p"
proof -
  let ?enc = "\<lambda>i. JObj [(''name'', JStr (oi_name i)), (''type'', JStr (oi_type i)), (''options'', jsdict (oi_options i))]"
  have "traverse observed_iface_from_json (List.map ?enc (opt_interfaces p)) = Inr (opt_interfaces p)"
    using assms by (intro traverse_roundtrip) (simp add: observed_iface_from_json_def)
  then show ?thesis by (simp add: observed_port_from_json_def observed_port_to_json_def)
qed

lemma observed_bridge_roundtrip:
  assumes "ob_datapath b \<noteq> []" "\<forall>p \<in> set (ob_ports b). \<forall>i \<in> set (opt_interfaces p). oi_type i \<noteq> []"
  shows "observed_bridge_from_json (observed_bridge_to_json b) = Inr b"
proof -
  have "traverse observed_port_from_json (List.map observed_port_to_json (ob_ports b)) = Inr (ob_ports b)"
    using assms(2) by (intro traverse_roundtrip observed_port_roundtrip) simp
  then show ?thesis
    using assms(1) by (simp add: observed_bridge_from_json_def observed_bridge_to_json_def)
qed

lemma observed_state_roundtrip:
  assumes "named_types s"
  shows "observed_state_from_row (observed_state_to_row s) = Inr s"
proof -
  have "traverse observed_bridge_from_json (List.map observed_bridge_to_json (os_bridges s)) = Inr (os_bridges s)"
    using assms by (intro traverse_roundtrip observed_bridge_roundtrip) (auto simp: named_types_def)
  then show ?thesis by (simp add: observed_state_from_row_def observed_state_to_row_def)
qed

subsection \<open>Operations\<close>

definition operation_event_to_row :: "string \<Rightarrow> op_event \<Rightarrow> operation_event_row" where
  "operation_event_to_row oid e =
     \<lparr>evr_operation_id = oid, evr_sequence = int (ev_sequence e), evr_at = ev_at e,
      evr_status = op_status_value (ev_status e), evr_message = ev_message e, evr_payload = ev_payload e\<rparr>"

definition operation_event_from_row :: "operation_event_row \<Rightarrow> exc + op_event" where
  "operation_event_from_row r =
     bindE (op_status_of (evr_status r)) (\<lambda>st.
     Inr \<lparr>ev_sequence = nat (evr_sequence r), ev_at = evr_at r, ev_status = st,
          ev_message = evr_message r, ev_payload = evr_payload r\<rparr>)"

definition operation_to_row :: "operation \<Rightarrow> operation_row" where
  "operation_to_row o' =
     \<lparr>opr_id = op_id o', opr_kind = op_kind_value (op_kind o'), opr_status = op_status_value (op_status o'),
      opr_resource_type = ref_type (op_resource o'), opr_resource_id = ref_id (op_resource o'),
      opr_created_at = op_created_at o', opr_updated_at = op_updated_at o',
      opr_created_by = op_created_by o', opr_error_code = map_option oe_code (op_error o'),
      opr_error_message = map_option oe_message (op_error o'),
      opr_error_details = map_option oe_details (op_error o'),
      opr_events = List.map (operation_event_to_row (op_id o')) (op_events o')\<rparr>"

text \<open>The relationship loads the events \<open>ORDER BY sequence\<close>.\<close>

definition operation_from_row :: "operation_row \<Rightarrow> exc + operation" where
  "operation_from_row r =
     (let err = (case opr_error_code r of None \<Rightarrow> None
         | Some c \<Rightarrow> Some \<lparr>oe_code = c,
             oe_message = (case opr_error_message r of None \<Rightarrow> [] | Some m \<Rightarrow> m),
             oe_details = (case opr_error_details r of None \<Rightarrow> [] | Some d \<Rightarrow> d)\<rparr>)
      in bindE (op_kind_of (opr_kind r)) (\<lambda>kd.
         bindE (op_status_of (opr_status r)) (\<lambda>st.
         bindE (traverse operation_event_from_row (sort_key evr_sequence (opr_events r))) (\<lambda>evs.
         Inr \<lparr>op_id = opr_id r, op_kind = kd,
              op_resource = \<lparr>ref_type = opr_resource_type r, ref_id = opr_resource_id r\<rparr>,
              op_created_at = opr_created_at r, op_updated_at = opr_updated_at r, op_status = st,
              op_created_by = opr_created_by r, op_events = evs, op_error = err\<rparr>))))"

lemma operation_event_roundtrip [simp]:
  "operation_event_from_row (operation_event_to_row oid e) = Inr e"
  by (simp add: operation_event_from_row_def operation_event_to_row_def enum_simps)

lemma operation_roundtrip:
  assumes "sorted (List.map ev_sequence (op_events o'))"
  shows "operation_from_row (operation_to_row o') = Inr o'"
proof -
  have "sorted (List.map evr_sequence (List.map (operation_event_to_row (op_id o')) (op_events o')))"
    using assms unfolding sorted_map by (simp add: sorted_wrt_map operation_event_to_row_def)
  then have s: "sort_key evr_sequence (List.map (operation_event_to_row (op_id o')) (op_events o')) =
      List.map (operation_event_to_row (op_id o')) (op_events o')"
    by (rule sort_key_id_if_sorted)
  have e: "traverse operation_event_from_row (List.map (operation_event_to_row (op_id o')) (op_events o')) =
      Inr (op_events o')"
    by (rule traverse_roundtrip) simp
  show ?thesis
    by (cases "op_error o'") (simp_all add: operation_from_row_def operation_to_row_def s e enum_simps Let_def)
qed

subsection \<open>Journal of events\<close>

text \<open>
  \<open>outbox_event_to_row\<close> leaves the integer key out for an event that has none yet (\<open>event_id\<close> not
  positive); the database then assigns the next one. A row without a key is \<open>None\<close> here.
\<close>

definition outbox_event_to_row :: "outbox_event \<Rightarrow> int option \<times> outbox_event_row" where
  "outbox_event_to_row e =
     (if 0 < oev_event_id e then Some (oev_event_id e) else None,
      \<lparr>oevr_event_id = oev_event_id e, oevr_id = oev_id e, oevr_occurred_at = oev_occurred_at e,
       oevr_event_type = oev_event_type e, oevr_resource_type = oev_resource_type e,
       oevr_resource_id = oev_resource_id e, oevr_payload = oev_payload e,
       oevr_delivered_at = oev_delivered_at e, oevr_schema_version = oev_schema_version e,
       oevr_project_id = oev_project_id e\<rparr>)"

definition outbox_event_from_row :: "outbox_event_row \<Rightarrow> exc + outbox_event" where
  "outbox_event_from_row r =
     (let e = \<lparr>oev_id = oevr_id r, oev_event_id = oevr_event_id r, oev_occurred_at = oevr_occurred_at r,
       oev_event_type = oevr_event_type r, oev_resource_type = oevr_resource_type r,
       oev_resource_id = oevr_resource_id r, oev_payload = oevr_payload r,
       oev_delivered_at = oevr_delivered_at r, oev_schema_version = oevr_schema_version r,
       oev_project_id = oevr_project_id r\<rparr>
      in bindE (outbox_event_check e) (\<lambda>_. Inr e))"

lemma outbox_event_roundtrip:
  assumes "outbox_event_check e = Inr ()"
  shows "outbox_event_from_row (snd (outbox_event_to_row e)) = Inr e"
  using assms by (simp add: outbox_event_from_row_def outbox_event_to_row_def Let_def eta_simps)

subsection \<open>Address allocations\<close>

definition ip_allocation_to_row :: "ip_allocation \<Rightarrow> ip_allocation_row" where
  "ip_allocation_to_row e =
     \<lparr>ipar_id = ipa_id e, ipar_subnet_id = ipa_subnet_id e, ipar_ip_address = ipa_address e,
      ipar_owner_type = own_type (ipa_owner e), ipar_owner_id = own_id (ipa_owner e),
      ipar_kind = alloc_kind_value (ipa_kind e), ipar_allocated_at = ipa_allocated_at e,
      ipar_label = ipa_label e\<rparr>"

definition ip_allocation_from_row :: "ip_allocation_row \<Rightarrow> exc + ip_allocation" where
  "ip_allocation_from_row r =
     bindE (alloc_kind_of (ipar_kind r)) (\<lambda>kd.
     (let e = \<lparr>ipa_id = ipar_id r, ipa_subnet_id = ipar_subnet_id r,
       ipa_address = ipar_ip_address r,
       ipa_owner = \<lparr>own_type = ipar_owner_type r, own_id = ipar_owner_id r\<rparr>, ipa_kind = kd,
       ipa_allocated_at = ipar_allocated_at r, ipa_label = ipar_label r\<rparr>
     in bindE (ip_allocation_check e) (\<lambda>_. Inr e)))"

definition storable_ip_allocation :: "ip_allocation \<Rightarrow> bool" where
  "storable_ip_allocation e \<longleftrightarrow> ip_allocation_check e = Inr ()"

lemma ip_allocation_roundtrip:
  "storable_ip_allocation e \<Longrightarrow> ip_allocation_from_row (ip_allocation_to_row e) = Inr e"
  by (cases e) (simp add: ip_allocation_from_row_def ip_allocation_to_row_def
      storable_ip_allocation_def enum_simps eta_simps Let_def)

subsection \<open>Service accounts and their tokens\<close>

definition service_account_to_row :: "service_account \<Rightarrow> service_account_row" where
  "service_account_to_row e =
     \<lparr>sar_id = sa_id e, sar_name = sa_name e, sar_role = role_value (sa_role e),
      sar_description = sa_description e, sar_labels = sa_labels e, sar_created_at = sa_created_at e,
      sar_updated_at = sa_updated_at e, sar_created_by = sa_created_by e,
      sar_disabled_at = sa_disabled_at e\<rparr>"

definition service_account_from_row :: "service_account_row \<Rightarrow> exc + service_account" where
  "service_account_from_row r =
     bindE (role_of (sar_role r)) (\<lambda>ro.
     mk_service_account \<lparr>sa_id = sar_id r, sa_name = sar_name r, sa_role = ro,
       sa_created_at = sar_created_at r, sa_updated_at = sar_updated_at r,
       sa_created_by = sar_created_by r, sa_description = sar_description r,
       sa_disabled_at = sar_disabled_at r, sa_labels = sar_labels r\<rparr>)"

definition storable_service_account :: "service_account \<Rightarrow> bool" where
  "storable_service_account e \<longleftrightarrow> mk_service_account e = Inr e"

lemma service_account_roundtrip:
  "storable_service_account e \<Longrightarrow> service_account_from_row (service_account_to_row e) = Inr e"
  by (cases e) (simp add: service_account_from_row_def service_account_to_row_def
      storable_service_account_def enum_simps eta_simps)

definition service_token_to_row :: "service_token \<Rightarrow> service_token_row" where
  "service_token_to_row e =
     \<lparr>stkr_id = stk_id e, stkr_service_account_id = stk_account_id e,
      stkr_token_hash = stk_token_hash e, stkr_issued_at = stk_issued_at e,
      stkr_expires_at = stk_expires_at e, stkr_last_used_at = stk_last_used_at e,
      stkr_revoked_at = stk_revoked_at e, stkr_issued_by = stk_issued_by e, stkr_label = stk_label e\<rparr>"

definition service_token_from_row :: "service_token_row \<Rightarrow> exc + service_token" where
  "service_token_from_row r =
     Inr \<lparr>stk_id = stkr_id r, stk_account_id = stkr_service_account_id r,
       stk_token_hash = stkr_token_hash r, stk_issued_at = stkr_issued_at r,
       stk_expires_at = stkr_expires_at r, stk_last_used_at = stkr_last_used_at r,
       stk_revoked_at = stkr_revoked_at r, stk_issued_by = stkr_issued_by r, stk_label = stkr_label r\<rparr>"

definition storable_service_token :: "service_token \<Rightarrow> bool" where
  "storable_service_token e \<longleftrightarrow> True"

lemma service_token_roundtrip:
  "storable_service_token e \<Longrightarrow> service_token_from_row (service_token_to_row e) = Inr e"
  by (cases e) (simp add: service_token_from_row_def service_token_to_row_def
      storable_service_token_def enum_simps eta_simps)

subsection \<open>Audit journal\<close>

definition audit_event_to_row :: "audit_event \<Rightarrow> audit_event_row" where
  "audit_event_to_row e =
     \<lparr>audr_id = aud_id e, audr_at = aud_at e, audr_action = aud_action e,
      audr_resource_type = aud_resource_type e, audr_resource_id = aud_resource_id e,
      audr_actor = aud_actor e, audr_http_status = aud_http_status e,
      audr_request_id = aud_request_id e, audr_payload = aud_payload e\<rparr>"

definition audit_event_from_row :: "audit_event_row \<Rightarrow> exc + audit_event" where
  "audit_event_from_row r =
     mk_audit_event \<lparr>aud_id = audr_id r, aud_at = audr_at r, aud_action = audr_action r,
       aud_resource_type = audr_resource_type r, aud_resource_id = audr_resource_id r,
       aud_actor = audr_actor r, aud_http_status = audr_http_status r,
       aud_request_id = audr_request_id r, aud_payload = audr_payload r\<rparr>"

definition storable_audit_event :: "audit_event \<Rightarrow> bool" where
  "storable_audit_event e \<longleftrightarrow> mk_audit_event e = Inr e"

lemma audit_event_roundtrip:
  "storable_audit_event e \<Longrightarrow> audit_event_from_row (audit_event_to_row e) = Inr e"
  by (cases e) (simp add: audit_event_from_row_def audit_event_to_row_def
      storable_audit_event_def enum_simps eta_simps)

subsection \<open>Node snapshots\<close>

definition node_snapshot_to_row :: "node_snapshot \<Rightarrow> node_snapshot_row" where
  "node_snapshot_to_row e =
     \<lparr>nsr_id = ns_id e, nsr_node_id = ns_node_id e,
      nsr_agent_snapshot_id = ns_agent_snapshot_id e, nsr_state_hash = ns_state_hash e,
      nsr_created_at = ns_created_at e, nsr_label = ns_label e\<rparr>"

definition node_snapshot_from_row :: "node_snapshot_row \<Rightarrow> exc + node_snapshot" where
  "node_snapshot_from_row r =
     mk_node_snapshot \<lparr>ns_id = nsr_id r, ns_node_id = nsr_node_id r,
       ns_agent_snapshot_id = nsr_agent_snapshot_id r, ns_state_hash = nsr_state_hash r,
       ns_created_at = nsr_created_at r, ns_label = nsr_label r\<rparr>"

definition storable_node_snapshot :: "node_snapshot \<Rightarrow> bool" where
  "storable_node_snapshot e \<longleftrightarrow> mk_node_snapshot e = Inr e"

lemma node_snapshot_roundtrip:
  "storable_node_snapshot e \<Longrightarrow> node_snapshot_from_row (node_snapshot_to_row e) = Inr e"
  by (cases e) (simp add: node_snapshot_from_row_def node_snapshot_to_row_def
      storable_node_snapshot_def enum_simps eta_simps)

subsection \<open>Projects and members\<close>

definition project_to_row :: "project \<Rightarrow> project_row" where
  "project_to_row e =
     \<lparr>prjr_id = prj_id e, prjr_name = prj_name e, prjr_slug = prj_slug e,
      prjr_description = prj_description e, prjr_labels = prj_labels e,
      prjr_created_at = prj_created_at e, prjr_updated_at = prj_updated_at e\<rparr>"

definition project_from_row :: "project_row \<Rightarrow> exc + project" where
  "project_from_row r =
     mk_project \<lparr>prj_id = prjr_id r, prj_name = prjr_name r, prj_slug = prjr_slug r,
       prj_created_at = prjr_created_at r, prj_updated_at = prjr_updated_at r,
       prj_description = prjr_description r, prj_labels = prjr_labels r\<rparr>"

definition storable_project :: "project \<Rightarrow> bool" where
  "storable_project e \<longleftrightarrow> mk_project e = Inr e"

lemma project_roundtrip:
  "storable_project e \<Longrightarrow> project_from_row (project_to_row e) = Inr e"
  by (cases e) (simp add: project_from_row_def project_to_row_def
      storable_project_def enum_simps eta_simps)

definition project_member_to_row :: "project_member \<Rightarrow> project_member_row" where
  "project_member_to_row e =
     \<lparr>pmr_project_id = pm_project_id e, pmr_service_account_id = pm_account_id e,
      pmr_role = role_value (pm_role e), pmr_created_at = pm_created_at e,
      pmr_created_by = pm_created_by e\<rparr>"

definition project_member_from_row :: "project_member_row \<Rightarrow> exc + project_member" where
  "project_member_from_row r =
     bindE (role_of (pmr_role r)) (\<lambda>ro.
     Inr \<lparr>pm_project_id = pmr_project_id r, pm_account_id = pmr_service_account_id r,
       pm_role = ro, pm_created_at = pmr_created_at r, pm_created_by = pmr_created_by r\<rparr>)"

definition storable_project_member :: "project_member \<Rightarrow> bool" where
  "storable_project_member e \<longleftrightarrow> True"

lemma project_member_roundtrip:
  "storable_project_member e \<Longrightarrow> project_member_from_row (project_member_to_row e) = Inr e"
  by (cases e) (simp add: project_member_from_row_def project_member_to_row_def
      storable_project_member_def enum_simps eta_simps)

subsection \<open>Webhook subscriptions\<close>

definition webhook_to_row :: "webhook \<Rightarrow> webhook_row" where
  "webhook_to_row e =
     \<lparr>whr_id = wh_id e, whr_target_url = wh_target_url e, whr_secret_hash = wh_secret_hash e,
      whr_event_types = wh_event_types e, whr_state = webhook_state_value (wh_state e),
      whr_created_at = wh_created_at e, whr_updated_at = wh_updated_at e, whr_cursor = wh_cursor e,
      whr_last_delivery_at = wh_last_delivery_at e,
      whr_last_delivery_status = wh_last_delivery_status e, whr_failure_count = wh_failure_count e,
      whr_description = wh_description e, whr_labels = wh_labels e\<rparr>"

definition webhook_from_row :: "webhook_row \<Rightarrow> exc + webhook" where
  "webhook_from_row r =
     bindE (webhook_state_of (whr_state r)) (\<lambda>st.
     mk_webhook \<lparr>wh_id = whr_id r, wh_target_url = whr_target_url r,
       wh_secret_hash = whr_secret_hash r, wh_event_types = whr_event_types r, wh_state = st,
       wh_created_at = whr_created_at r, wh_updated_at = whr_updated_at r, wh_cursor = whr_cursor r,
       wh_last_delivery_at = whr_last_delivery_at r,
       wh_last_delivery_status = whr_last_delivery_status r, wh_failure_count = whr_failure_count r,
       wh_description = whr_description r, wh_labels = whr_labels r\<rparr>)"

definition storable_webhook :: "webhook \<Rightarrow> bool" where
  "storable_webhook e \<longleftrightarrow> mk_webhook e = Inr e"

lemma webhook_roundtrip:
  "storable_webhook e \<Longrightarrow> webhook_from_row (webhook_to_row e) = Inr e"
  by (cases e) (simp add: webhook_from_row_def webhook_to_row_def
      storable_webhook_def enum_simps eta_simps)

end
