(* ===== verification/Sql_Table.thy ===== *)
theory Sql_Table
  imports Sql_Mappers "HOL-Library.Multiset"
begin

text \<open>
  The database behind the SQL repositories. SQLAlchemy and the database are not part of the
  repository, so a table is a parameter: \<open>table_ops\<close> holds the four things the repositories ask of
  it, and \<open>lawful_table\<close> states the documented behaviour they rely on. An aggregate row carries the
  child rows of its relationships, which the ORM loads and writes with it.

  \<open>sql_find\<close>, \<open>sql_save\<close>, \<open>sql_one_or_none\<close>, \<open>sql_first\<close> and \<open>sql_all\<close> are the idioms the methods
  of \<open>adapters/sql/repositories.py\<close> are made of. The locale \<open>sql_repo\<close> is the contract of one
  repository: its mapper reads back what it wrote, and its in-place update of a row makes it the
  row of the new aggregate. Under that contract the repository behaves like the dictionary of the
  in-memory adapter.
\<close>

datatype sql_error = IntegrityError | MultipleResultsFound | SqlRaised exc

definition lift_sql :: "exc + 'a \<Rightarrow> sql_error + 'a" where
  "lift_sql r = (case r of Inl e \<Rightarrow> Inl (SqlRaised e) | Inr x \<Rightarrow> Inr x)"

lemma lift_sql_simps [simp]: "lift_sql (Inl e) = Inl (SqlRaised e)" "lift_sql (Inr x) = Inr x"
  by (simp_all add: lift_sql_def)

record ('t, 'r) table_ops =
  tb_rows :: "'t \<Rightarrow> 'r list"
  tb_insert :: "'r \<Rightarrow> 't \<Rightarrow> sql_error + 't"
  tb_replace :: "'r \<Rightarrow> 't \<Rightarrow> sql_error + 't"
  tb_delete :: "('r \<Rightarrow> bool) \<Rightarrow> 't \<Rightarrow> 't"

text \<open>
  \<open>tb_rows\<close> is a \<open>SELECT\<close> without \<open>ORDER BY\<close>, in whatever order the database gives. The primary key
  identifies a row. An \<open>INSERT\<close> or an \<open>UPDATE\<close> of the row with the same key either breaks a
  constraint (\<open>IntegrityError\<close>) or does what it says; a bulk \<open>DELETE\<close> removes the rows it selects.
\<close>

definition lawful_table :: "('r \<Rightarrow> 'k) \<Rightarrow> ('t, 'r) table_ops \<Rightarrow> bool" where
  "lawful_table key T \<longleftrightarrow>
     (\<forall>r t t'. tb_insert T r t = Inr t' \<longrightarrow> mset (tb_rows T t') = add_mset r (mset (tb_rows T t))) \<and>
     (\<forall>r t t'. tb_replace T r t = Inr t' \<longrightarrow>
        mset (tb_rows T t') = mset (List.map (\<lambda>x. if key x = key r then r else x) (tb_rows T t))) \<and>
     (\<forall>p t. mset (tb_rows T (tb_delete T p t)) = mset (filter (\<lambda>r. \<not> p r) (tb_rows T t)))"

subsection \<open>Idioms of a repository\<close>

text \<open>\<open>session.get(Row, key)\<close>\<close>

definition sql_find :: "('r \<Rightarrow> 'k) \<Rightarrow> ('t, 'r) table_ops \<Rightarrow> 'k \<Rightarrow> 't \<Rightarrow> 'r option" where
  "sql_find key T k t = find (\<lambda>r. key r = k) (tb_rows T t)"

text \<open>\<open>from_row(row) if row is not None else None\<close>\<close>

definition sql_get ::
  "('r \<Rightarrow> 'k) \<Rightarrow> ('r \<Rightarrow> exc + 'e) \<Rightarrow> ('t, 'r) table_ops \<Rightarrow> 'k \<Rightarrow> 't \<Rightarrow> sql_error + 'e option" where
  "sql_get key from T k t = lift_sql (on_opt from (sql_find key T k t))"

text \<open>The results of a \<open>SELECT\<close>: \<open>one_or_none()\<close>, \<open>first()\<close> and \<open>all()\<close>.\<close>

fun sql_one_or_none :: "('r \<Rightarrow> exc + 'e) \<Rightarrow> 'r list \<Rightarrow> sql_error + 'e option" where
  "sql_one_or_none from [] = Inr None"
| "sql_one_or_none from [r] = lift_sql (on_opt from (Some r))"
| "sql_one_or_none from (r # s # rs) = Inl MultipleResultsFound"

definition sql_first :: "('r \<Rightarrow> exc + 'e) \<Rightarrow> 'r list \<Rightarrow> sql_error + 'e option" where
  "sql_first from rs = lift_sql (on_opt from (case rs of [] \<Rightarrow> None | r # _ \<Rightarrow> Some r))"

definition sql_all :: "('r \<Rightarrow> exc + 'e) \<Rightarrow> 'r list \<Rightarrow> sql_error + 'e list" where
  "sql_all from rs = lift_sql (traverse from rs)"

text \<open>\<open>where(column == v)\<close> when a filter is given; a \<open>NULL\<close> column equals nothing.\<close>

definition where_eq :: "'a option \<Rightarrow> 'a \<Rightarrow> bool" where
  "where_eq v c \<longleftrightarrow> (case v of None \<Rightarrow> True | Some x \<Rightarrow> c = x)"

definition where_opt :: "'a option \<Rightarrow> 'a option \<Rightarrow> bool" where
  "where_opt v c \<longleftrightarrow> (case v of None \<Rightarrow> True | Some x \<Rightarrow> c = Some x)"

text \<open>\<open>ORDER BY column DESC\<close>\<close>

definition newest_first :: "('r \<Rightarrow> time) \<Rightarrow> 'r list \<Rightarrow> 'r list" where
  "newest_first f rs = sort_key (\<lambda>r. - f r) rs"

text \<open>\<open>save\<close>: insert the fresh row when the key is new, otherwise change the loaded row.\<close>

definition sql_save :: "('r \<Rightarrow> 'k) \<Rightarrow> ('t, 'r) table_ops \<Rightarrow> 'r \<Rightarrow> ('r \<Rightarrow> 'r) \<Rightarrow> 't \<Rightarrow> sql_error + 't" where
  "sql_save key T fresh upd t =
     (case sql_find key T (key fresh) t of
        None \<Rightarrow> tb_insert T fresh t
      | Some r \<Rightarrow> tb_replace T (upd r) t)"

text \<open>\<open>session.merge(row)\<close> copies every column of the fresh row.\<close>

abbreviation sql_merge :: "('r \<Rightarrow> 'k) \<Rightarrow> ('t, 'r) table_ops \<Rightarrow> 'r \<Rightarrow> 't \<Rightarrow> sql_error + 't" where
  "sql_merge key T fresh \<equiv> sql_save key T fresh (\<lambda>_. fresh)"

definition sql_remove :: "('r \<Rightarrow> 'k) \<Rightarrow> ('t, 'r) table_ops \<Rightarrow> 'k \<Rightarrow> 't \<Rightarrow> 't" where
  "sql_remove key T k t = tb_delete T (\<lambda>r. key r = k) t"

subsection \<open>A table that holds a dictionary\<close>

definition table_holds ::
  "('e \<Rightarrow> 'k) \<Rightarrow> ('e \<Rightarrow> 'r) \<Rightarrow> ('e \<Rightarrow> bool) \<Rightarrow> ('t, 'r) table_ops \<Rightarrow> 't \<Rightarrow> ('k, 'e) dict \<Rightarrow> bool" where
  "table_holds ekey to_row good T t d \<longleftrightarrow>
     dwf d \<and> (\<forall>(k, e) \<in> set d. k = ekey e \<and> good e) \<and>
     mset (tb_rows T t) = mset (List.map to_row (dvalues d))"

text \<open>What a repository with these operations promises relative to the in-memory dictionary.\<close>

definition like_dictionary ::
  "('r \<Rightarrow> 'k) \<Rightarrow> ('e \<Rightarrow> 'k) \<Rightarrow> ('e \<Rightarrow> 'r) \<Rightarrow> ('e \<Rightarrow> bool) \<Rightarrow> ('e \<Rightarrow> 'e \<Rightarrow> bool) \<Rightarrow>
   (('t, 'r) table_ops \<Rightarrow> 'k \<Rightarrow> 't \<Rightarrow> sql_error + 'e option) \<Rightarrow>
   (('t, 'r) table_ops \<Rightarrow> 'e \<Rightarrow> 't \<Rightarrow> sql_error + 't) \<Rightarrow>
   (('t, 'r) table_ops \<Rightarrow> 'k \<Rightarrow> 't \<Rightarrow> 't) \<Rightarrow> bool" where
  "like_dictionary key ekey to_row good same get save remove \<longleftrightarrow>
     (\<forall>T t d. lawful_table key T \<and> table_holds ekey to_row good T t d \<longrightarrow>
       (\<forall>k. get T k t = Inr (dget d k)) \<and>
       (\<forall>e t'. good e \<and> (\<forall>e0. dget d (ekey e) = Some e0 \<longrightarrow> same e0 e) \<and> save T e t = Inr t' \<longrightarrow>
          table_holds ekey to_row good T t' (dset (ekey e) e d)) \<and>
       (\<forall>k. table_holds ekey to_row good T (remove T k t) (dpop k d)))"

lemma find_key:
  "distinct (List.map key xs) \<Longrightarrow> find (\<lambda>r. key r = k) xs = Some r \<longleftrightarrow> r \<in> set xs \<and> key r = k"
  by (induction xs) auto

lemma find_key_None: "find (\<lambda>r. key r = k) xs = None \<longleftrightarrow> k \<notin> set (List.map key xs)"
  by (auto simp: find_None_iff)

lemma mset_map_split:
  "mset rs = mset (List.map f es) \<Longrightarrow> \<exists>xs. mset xs = mset es \<and> List.map f xs = rs"
proof (induction rs arbitrary: es)
  case (Cons r rs)
  have "r \<in> set (List.map f es)" using mset_eq_setD [OF Cons.prems] by auto
  then obtain e where e: "e \<in> set es" "f e = r" by auto
  have "mset es = add_mset e (mset (remove1 e es))" using e(1) by simp
  then have "mset (List.map f es) = add_mset r (mset (List.map f (remove1 e es)))"
    using e(2) by (metis mset_map image_mset_add_mset)
  then have "mset rs = mset (List.map f (remove1 e es))" using Cons.prems by simp
  then obtain xs where "mset xs = mset (remove1 e es)" "List.map f xs = rs" using Cons.IH by blast
  then show ?case using e by (intro exI [of _ "e # xs"]) simp
qed simp

lemma dset_new: "k \<notin> set (dkeys d) \<Longrightarrow> dset k v d = d @ [(k, v)]"
  by (induction k v d rule: dset.induct) auto

lemma dset_values:
  "dwf d \<Longrightarrow> (\<forall>(k, e) \<in> set d. k = key e) \<Longrightarrow> key v \<in> set (dkeys d) \<Longrightarrow>
   dvalues (dset (key v) v d) = List.map (\<lambda>e. if key e = key v then v else e) (dvalues d)"
proof (induction "key v" v d rule: dset.induct)
  case (2 v k' v' d)
  have keep: "List.map (\<lambda>e. if key e = key v then v else e) (dvalues d) = dvalues d" if "k' = key v"
  proof (rule map_idI)
    fix e assume "e \<in> set (dvalues d)"
    then obtain k where "(k, e) \<in> set d" by auto
    then have "k = key e" "k \<noteq> key v" using 2 that by force+
    then show "(if key e = key v then v else e) = e" by simp
  qed
  show ?case using 2 keep by (cases "k' = key v") (auto simp: image_iff)
qed simp

locale sql_repo =
  fixes key :: "'r \<Rightarrow> 'k"
    and ekey :: "'e \<Rightarrow> 'k"
    and to_row :: "'e \<Rightarrow> 'r"
    and from_row :: "'r \<Rightarrow> exc + 'e"
    and upd :: "'r \<Rightarrow> 'e \<Rightarrow> 'r"
    and good :: "'e \<Rightarrow> bool"
    and same :: "'e \<Rightarrow> 'e \<Rightarrow> bool"
  assumes key_row: "key (to_row e) = ekey e"
    and reads_back: "good e \<Longrightarrow> from_row (to_row e) = Inr e"
    and updates: "same e0 e \<Longrightarrow> ekey e0 = ekey e \<Longrightarrow> upd (to_row e0) e = to_row e"
begin

lemma holds_find:
  assumes "lawful_table key T" "table_holds ekey to_row good T t d"
  shows "sql_find key T k t = map_option to_row (dget d k)"
proof -
  have wf: "dwf d" and keys: "\<And>k e. (k, e) \<in> set d \<Longrightarrow> k = ekey e"
    and mrows: "mset (tb_rows T t) = mset (List.map to_row (dvalues d))"
    using assms(2) unfolding table_holds_def by auto
  have rows: "set (tb_rows T t) = to_row ` set (dvalues d)"
    using mset_eq_setD [OF mrows] by (simp add: image_image)
  have "mset (List.map key (tb_rows T t)) = mset (List.map (key \<circ> to_row) (dvalues d))"
    unfolding mset_map mrows by (simp add: multiset.map_comp comp_def)
  also have "List.map (key \<circ> to_row) (dvalues d) = dkeys d"
    using keys key_row by auto
  finally have dist: "distinct (List.map key (tb_rows T t))"
    using wf by (metis mset_eq_imp_distinct_iff)
  show ?thesis
  proof (cases "dget d k")
    case None
    then have "k \<notin> set (List.map key (tb_rows T t))"
      using keys rows key_row by (auto simp: map_of_eq_None_iff image_iff)
    then show ?thesis using None unfolding sql_find_def by (simp add: find_key_None)
  next
    case (Some e)
    then have "(k, e) \<in> set d" by (rule map_of_SomeD)
    then have "to_row e \<in> set (tb_rows T t) \<and> key (to_row e) = k"
      using keys rows key_row by force
    then show ?thesis using Some unfolding sql_find_def by (simp add: find_key [OF dist])
  qed
qed

lemma get_dictionary:
  assumes "lawful_table key T" "table_holds ekey to_row good T t d"
  shows "sql_get key from_row T k t = Inr (dget d k)"
proof (cases "dget d k")
  case (Some e)
  then have "good e" using assms(2) map_of_SomeD [OF Some] by (auto simp: table_holds_def)
  then show ?thesis using Some by (simp add: sql_get_def holds_find [OF assms] reads_back)
qed (simp add: sql_get_def holds_find [OF assms])

lemma save_dictionary:
  assumes "lawful_table key T" "table_holds ekey to_row good T t d" "good e"
    "\<And>e0. dget d (ekey e) = Some e0 \<Longrightarrow> same e0 e"
    "sql_save key T (to_row e) (\<lambda>r. upd r e) t = Inr t'"
  shows "table_holds ekey to_row good T t' (dset (ekey e) e d)"
proof -
  have wf: "dwf d" and keys: "\<forall>(k, e) \<in> set d. k = ekey e \<and> good e"
    and rows: "mset (tb_rows T t) = mset (List.map to_row (dvalues d))"
    using assms(2) by (auto simp: table_holds_def)
  have keys': "\<forall>(k, x) \<in> set (dset (ekey e) e d). k = ekey x \<and> good x"
    using keys assms(3) wf by (auto simp: in_set_dset)
  have "mset (tb_rows T t') = mset (List.map to_row (dvalues (dset (ekey e) e d)))"
  proof (cases "dget d (ekey e)")
    case None
    then have new: "ekey e \<notin> set (dkeys d)" by (simp add: map_of_eq_None_iff)
    have "tb_insert T (to_row e) t = Inr t'"
      using assms(5) None by (simp add: sql_save_def key_row holds_find [OF assms(1,2)])
    then have "mset (tb_rows T t') = add_mset (to_row e) (mset (tb_rows T t))"
      using assms(1) unfolding lawful_table_def by blast
    then show ?thesis using rows by (simp add: dset_new [OF new])
  next
    case (Some e0)
    have k0: "ekey e0 = ekey e" using keys map_of_SomeD [OF Some] by auto
    have in_d: "ekey e \<in> set (dkeys d)" using map_of_SomeD [OF Some] by force
    have "tb_replace T (to_row e) t = Inr t'"
      using assms(5) Some updates [OF assms(4) [OF Some] k0]
      by (simp add: sql_save_def key_row holds_find [OF assms(1,2)])
    then have "mset (tb_rows T t') =
        mset (List.map (\<lambda>x. if key x = key (to_row e) then to_row e else x) (tb_rows T t))"
      using assms(1) unfolding lawful_table_def by blast
    also have "\<dots> = image_mset (\<lambda>x. if key x = ekey e then to_row e else x) (mset (tb_rows T t))"
      by (simp add: key_row)
    also have "\<dots> = mset (List.map (\<lambda>x. if ekey x = ekey e then to_row e else to_row x) (dvalues d))"
      unfolding rows by (simp add: multiset.map_comp comp_def key_row)
    also have "\<dots> = mset (List.map to_row (List.map (\<lambda>x. if ekey x = ekey e then e else x) (dvalues d)))"
      by (simp add: comp_def if_distrib [of to_row] cong: if_cong)
    also have "List.map (\<lambda>x. if ekey x = ekey e then e else x) (dvalues d) = dvalues (dset (ekey e) e d)"
      using keys by (intro dset_values [symmetric] wf in_d) auto
    finally show ?thesis .
  qed
  then show ?thesis using wf keys' by (simp add: table_holds_def)
qed

lemma delete_where:
  assumes "lawful_table key T" "table_holds ekey to_row good T t d" "\<And>e. good e \<Longrightarrow> p (to_row e) \<longleftrightarrow> q e"
  shows "table_holds ekey to_row good T (tb_delete T p t) (filter (\<lambda>(k, e). \<not> q e) d)"
proof -
  have wf: "dwf d" and keys: "\<forall>(k, e) \<in> set d. k = ekey e \<and> good e"
    and rows: "mset (tb_rows T t) = mset (List.map to_row (dvalues d))"
    using assms(2) by (auto simp: table_holds_def)
  have "filter (\<lambda>r. \<not> p r) (List.map to_row (dvalues d)) =
      List.map to_row (dvalues (filter (\<lambda>(k, e). \<not> q e) d))"
    using keys assms(3) by (induction d) auto
  moreover have "mset (tb_rows T (tb_delete T p t)) = filter_mset (\<lambda>r. \<not> p r) (mset (tb_rows T t))"
    using assms(1) unfolding lawful_table_def by (simp add: mset_filter)
  ultimately have "mset (tb_rows T (tb_delete T p t)) =
      mset (List.map to_row (dvalues (filter (\<lambda>(k, e). \<not> q e) d)))"
    unfolding rows by (metis mset_filter)
  then show ?thesis using wf keys by (auto simp: table_holds_def distinct_map_filter)
qed

lemma remove_dictionary:
  assumes "lawful_table key T" "table_holds ekey to_row good T t d"
  shows "table_holds ekey to_row good T (sql_remove key T k t) (dpop k d)"
proof -
  have "filter (\<lambda>(k', e). \<not> ekey e = k) d = dpop k d"
    using assms(2) unfolding dpop_def by (intro filter_cong) (auto simp: table_holds_def)
  then show ?thesis
    using delete_where [OF assms, of "\<lambda>r. key r = k" "\<lambda>e. ekey e = k"]
    by (simp add: sql_remove_def key_row)
qed

text \<open>Every selection can be read and holds exactly the selected aggregates.\<close>

lemma read_rows:
  assumes "mset rs = mset (List.map to_row es)" "\<forall>e \<in> set es. good e"
  obtains xs where "sql_all from_row rs = Inr xs" "List.map to_row xs = rs" "mset xs = mset es"
proof -
  obtain xs where xs: "mset xs = mset es" "List.map to_row xs = rs"
    using mset_map_split [OF assms(1)] by blast
  have "\<forall>e \<in> set xs. good e" using xs(1) assms(2) by (metis mset_eq_setD)
  then have "traverse from_row (List.map to_row xs) = Inr xs"
    by (intro traverse_roundtrip reads_back) simp
  then show ?thesis using xs by (intro that [of xs]) (simp_all add: sql_all_def)
qed

theorem repository_like_dictionary:
  "like_dictionary key ekey to_row good same (sql_get key from_row)
     (\<lambda>T e. sql_save key T (to_row e) (\<lambda>r. upd r e)) (sql_remove key)"
  unfolding like_dictionary_def
proof (intro allI impI, elim conjE, intro conjI allI impI)
  fix T :: "('t, 'r) table_ops" and t d
  assume l: "lawful_table key T" and h: "table_holds ekey to_row good T t d"
  show "sql_get key from_row T k t = Inr (dget d k)" for k by (rule get_dictionary [OF l h])
  show "table_holds ekey to_row good T (sql_remove key T k t) (dpop k d)" for k
    by (rule remove_dictionary [OF l h])
  fix e t'
  assume "good e \<and> (\<forall>e0. dget d (ekey e) = Some e0 \<longrightarrow> same e0 e) \<and>
    sql_save key T (to_row e) (\<lambda>r. upd r e) t = Inr t'"
  then show "table_holds ekey to_row good T t' (dset (ekey e) e d)"
    using save_dictionary [OF l h] by blast
qed

end

subsection \<open>A concrete table\<close>

text \<open>A list of rows with a predicate for the other constraints of the table.\<close>

definition list_table :: "('r \<Rightarrow> 'k) \<Rightarrow> ('r list \<Rightarrow> bool) \<Rightarrow> ('r list, 'r) table_ops" where
  "list_table key ok =
     \<lparr>tb_rows = (\<lambda>t. t),
      tb_insert = (\<lambda>r t. if key r \<in> set (List.map key t) \<or> \<not> ok (t @ [r]) then Inl IntegrityError else Inr (t @ [r])),
      tb_replace = (\<lambda>r t. let t' = List.map (\<lambda>x. if key x = key r then r else x) t
                          in if ok t' then Inr t' else Inl IntegrityError),
      tb_delete = (\<lambda>p t. filter (\<lambda>r. \<not> p r) t)\<rparr>"

lemma list_table_lawful: "lawful_table key (list_table key ok)"
  by (auto simp: lawful_table_def list_table_def Let_def split: if_splits)

end
