(* ===== verification/Sql_Repositories.thy ===== *)
theory Sql_Repositories
  imports Sql_Table
begin

text \<open>
  The SQL repositories of the platform (\<open>adapters/sql/repositories.py\<close>): nodes, networks, operations,
  tokens, observations, allocations, accounts, the audit journal, snapshots, the outbox, webhook
  subscriptions, projects and members. \<open>X_row_update\<close> is what \<open>save\<close> writes into a row that exists;
  \<open>same_X\<close> says which fields it leaves alone and so must not have changed. Each repository whose
  aggregates can be changed is an interpretation of \<open>sql_repo\<close>.
\<close>

subsection \<open>Nodes\<close>

definition node_row_update :: "node_row \<Rightarrow> node \<Rightarrow> node_row" where
  "node_row_update r e =
     r\<lparr>ndr_name := nd_name e, ndr_mgmt_ip := nd_mgmt_ip e,
       ndr_status := node_status_value (nd_status e), ndr_roles := nd_roles e,
       ndr_labels := nd_labels e, ndr_agent_version := nd_agent_version e,
       ndr_last_seen_at := nd_last_seen_at e,
       ndr_capabilities := capabilities_to_json (nd_capabilities e),
       ndr_tls_thumbprint := nd_tls_thumbprint e, ndr_project_id := nd_project_id e,
       ndr_maintenance := nd_maintenance e, ndr_maintenance_at := nd_maintenance_at e,
       ndr_created_at := nd_created_at e, ndr_updated_at := nd_updated_at e\<rparr>"

definition same_node :: "node \<Rightarrow> node \<Rightarrow> bool" where
  "same_node e0 e \<longleftrightarrow> True"

definition sql_node_save :: "('t, node_row) table_ops \<Rightarrow> node \<Rightarrow> 't \<Rightarrow> sql_error + 't" where
  "sql_node_save = (\<lambda>T e. sql_save ndr_id T (node_to_row e) (\<lambda>r. node_row_update r e))"

definition sql_node_get :: "('t, node_row) table_ops \<Rightarrow> string \<Rightarrow> 't \<Rightarrow> sql_error + node option" where
  "sql_node_get = sql_get ndr_id node_from_row"

definition sql_node_delete :: "('t, node_row) table_ops \<Rightarrow> string \<Rightarrow> 't \<Rightarrow> 't" where
  "sql_node_delete = sql_remove ndr_id"

interpretation node_sql: sql_repo ndr_id nd_id node_to_row node_from_row
    node_row_update storable_node same_node
  by unfold_locales (simp_all add: node_roundtrip,
     simp_all add: node_to_row_def node_row_update_def same_node_def)

lemma sql_node_repository:
  "like_dictionary ndr_id nd_id node_to_row storable_node same_node
     sql_node_get sql_node_save sql_node_delete"
  unfolding sql_node_get_def sql_node_save_def sql_node_delete_def
  by (rule node_sql.repository_like_dictionary)

definition sql_node_by_name ::
  "('t, node_row) table_ops \<Rightarrow> string \<Rightarrow> 't \<Rightarrow> sql_error + node option" where
  "sql_node_by_name T name t =
     sql_one_or_none node_from_row (filter (\<lambda>r. ndr_name r = name) (tb_rows T t))"

definition sql_node_list :: "('t, node_row) table_ops \<Rightarrow> 't \<Rightarrow> sql_error + node list" where
  "sql_node_list T t = sql_all node_from_row (sort_key ndr_name (tb_rows T t))"

subsection \<open>Networks\<close>

text \<open>
  Unlike the other updates this one does not write every field the mapper writes: \<open>nat\<close> and
  \<open>firewall_policy\<close> of the row stay as they were. The subnet row is replaced.
\<close>

definition network_row_update :: "network_row \<Rightarrow> network \<Rightarrow> network_row" where
  "network_row_update r e =
     r\<lparr>netr_name := net_name e, netr_type := network_type_value (net_type e), netr_mtu := net_mtu e,
       netr_vlan_id := net_vlan_id e, netr_vni := net_vni e, netr_labels := net_labels e,
       netr_intent_version := net_intent_version e, netr_node_ids := net_node_ids e,
       netr_spec_hash := net_spec_hash e, netr_project_id := net_project_id e,
       netr_created_at := net_created_at e, netr_updated_at := net_updated_at e,
       netr_subnet := map_option (subnet_to_row (net_id e)) (net_subnet e)\<rparr>"

definition same_network :: "network \<Rightarrow> network \<Rightarrow> bool" where
  "same_network e0 e \<longleftrightarrow> net_nat e0 = net_nat e \<and> net_firewall e0 = net_firewall e"

definition sql_network_save :: "('t, network_row) table_ops \<Rightarrow> network \<Rightarrow> 't \<Rightarrow> sql_error + 't" where
  "sql_network_save = (\<lambda>T e. sql_save netr_id T (network_to_row e) (\<lambda>r. network_row_update r e))"

definition sql_network_get ::
  "(json \<Rightarrow> string) \<Rightarrow> ('t, network_row) table_ops \<Rightarrow> string \<Rightarrow> 't \<Rightarrow> sql_error + network option" where
  "sql_network_get digest = sql_get netr_id (network_from_row digest)"

definition sql_network_delete :: "('t, network_row) table_ops \<Rightarrow> string \<Rightarrow> 't \<Rightarrow> 't" where
  "sql_network_delete = sql_remove netr_id"

interpretation network_sql: sql_repo netr_id net_id network_to_row "network_from_row digest"
    network_row_update "storable_network digest" same_network for digest
  by unfold_locales (simp_all add: network_roundtrip,
     simp_all add: network_to_row_def network_row_update_def same_network_def)

lemma sql_network_repository:
  "like_dictionary netr_id net_id network_to_row (storable_network digest) same_network
     (sql_network_get digest) sql_network_save sql_network_delete"
  unfolding sql_network_get_def sql_network_save_def sql_network_delete_def
  by (rule network_sql.repository_like_dictionary)

definition sql_network_by_name ::
  "(json \<Rightarrow> string) \<Rightarrow> ('t, network_row) table_ops \<Rightarrow> string \<Rightarrow> 't \<Rightarrow> sql_error + network option" where
  "sql_network_by_name digest T name t =
     sql_one_or_none (network_from_row digest) (filter (\<lambda>r. netr_name r = name) (tb_rows T t))"

definition sql_network_by_subnet ::
  "(json \<Rightarrow> string) \<Rightarrow> ('t, network_row) table_ops \<Rightarrow> string \<Rightarrow> 't \<Rightarrow> sql_error + network option" where
  "sql_network_by_subnet digest T sid t =
     sql_one_or_none (network_from_row digest)
       (filter (\<lambda>r. \<exists>s \<in> set_option (netr_subnet r). subr_id s = sid) (tb_rows T t))"

definition sql_network_list ::
  "(json \<Rightarrow> string) \<Rightarrow> ('t, network_row) table_ops \<Rightarrow> 't \<Rightarrow> sql_error + network list" where
  "sql_network_list digest T t =
     sql_all (network_from_row digest) (sort_key netr_created_at (tb_rows T t))"

subsection \<open>Operations\<close>

text \<open>The header is updated in place; the event rows are deleted and written anew.\<close>

definition operation_row_update :: "operation_row \<Rightarrow> operation \<Rightarrow> operation_row" where
  "operation_row_update r e =
     r\<lparr>opr_kind := op_kind_value (op_kind e), opr_status := op_status_value (op_status e),
       opr_resource_type := ref_type (op_resource e), opr_resource_id := ref_id (op_resource e),
       opr_created_at := op_created_at e, opr_updated_at := op_updated_at e,
       opr_created_by := op_created_by e, opr_error_code := map_option oe_code (op_error e),
       opr_error_message := map_option oe_message (op_error e),
       opr_error_details := map_option oe_details (op_error e),
       opr_events := List.map (operation_event_to_row (op_id e)) (op_events e)\<rparr>"

definition same_operation :: "operation \<Rightarrow> operation \<Rightarrow> bool" where
  "same_operation e0 e \<longleftrightarrow> True"

definition storable_operation :: "operation \<Rightarrow> bool" where
  "storable_operation e \<longleftrightarrow> sorted (List.map ev_sequence (op_events e))"

definition sql_operation_save ::
  "('t, operation_row) table_ops \<Rightarrow> operation \<Rightarrow> 't \<Rightarrow> sql_error + 't" where
  "sql_operation_save = (\<lambda>T e. sql_save opr_id T (operation_to_row e) (\<lambda>r. operation_row_update r e))"

definition sql_operation_get ::
  "('t, operation_row) table_ops \<Rightarrow> string \<Rightarrow> 't \<Rightarrow> sql_error + operation option" where
  "sql_operation_get = sql_get opr_id operation_from_row"

interpretation operation_sql: sql_repo opr_id op_id operation_to_row operation_from_row
    operation_row_update storable_operation same_operation
  by unfold_locales (simp_all add: operation_roundtrip storable_operation_def,
     simp_all add: operation_to_row_def operation_row_update_def same_operation_def)

lemma sql_operation_repository:
  "like_dictionary opr_id op_id operation_to_row storable_operation same_operation
     sql_operation_get sql_operation_save (sql_remove opr_id)"
  unfolding sql_operation_get_def sql_operation_save_def
  by (rule operation_sql.repository_like_dictionary)

definition sql_operation_list ::
  "('t, operation_row) table_ops \<Rightarrow> nat \<Rightarrow> 't \<Rightarrow> sql_error + operation list" where
  "sql_operation_list T limit t =
     sql_all operation_from_row (take limit (newest_first opr_created_at (tb_rows T t)))"

definition sql_operation_update_status ::
  "('t, operation_row) table_ops \<Rightarrow> string \<Rightarrow> op_status \<Rightarrow> op_event \<Rightarrow> 't \<Rightarrow> sql_error + 't" where
  "sql_operation_update_status T oid st ev t =
     (case sql_find opr_id T oid t of
        None \<Rightarrow> Inl (SqlRaised err_not_found)
      | Some r \<Rightarrow> tb_replace T (r\<lparr>opr_status := op_status_value st, opr_updated_at := ev_at ev,
                    opr_events := opr_events r @ [operation_event_to_row oid ev]\<rparr>) t)"

definition terminal_values :: "string list" where
  "terminal_values = List.map op_status_value [SUCCEEDED, FAILED, CANCELLED, ROLLED_BACK]"

text \<open>A bulk \<open>DELETE\<close> and the number of rows it removed.\<close>

definition sql_delete_counted ::
  "('t, 'r) table_ops \<Rightarrow> ('r \<Rightarrow> bool) \<Rightarrow> 't \<Rightarrow> int \<times> 't" where
  "sql_delete_counted T p t = (int (length (filter p (tb_rows T t))), tb_delete T p t)"

definition sql_operation_delete_terminal_before ::
  "('t, operation_row) table_ops \<Rightarrow> time \<Rightarrow> 't \<Rightarrow> int \<times> 't" where
  "sql_operation_delete_terminal_before T cutoff =
     sql_delete_counted T (\<lambda>r. opr_status r \<in> set terminal_values \<and> opr_updated_at r < cutoff)"

subsection \<open>Enrolment tokens\<close>

definition enrollment_token_row_update ::
  "enrollment_token_row \<Rightarrow> enrollment_token \<Rightarrow> enrollment_token_row" where
  "enrollment_token_row_update r e =
     r\<lparr>etkr_node_id := etk_node_id e, etkr_token_hash := etk_token_hash e,
       etkr_issued_at := etk_issued_at e, etkr_expires_at := etk_expires_at e,
       etkr_used_at := etk_used_at e, etkr_issued_by := etk_issued_by e\<rparr>"

definition same_enrollment_token :: "enrollment_token \<Rightarrow> enrollment_token \<Rightarrow> bool" where
  "same_enrollment_token e0 e \<longleftrightarrow> True"

definition sql_enrollment_token_save ::
  "('t, enrollment_token_row) table_ops \<Rightarrow> enrollment_token \<Rightarrow> 't \<Rightarrow> sql_error + 't" where
  "sql_enrollment_token_save = (\<lambda>T e. sql_save etkr_id T (enrollment_token_to_row e)
      (\<lambda>r. enrollment_token_row_update r e))"

definition sql_enrollment_token_get ::
  "('t, enrollment_token_row) table_ops \<Rightarrow> string \<Rightarrow> 't \<Rightarrow> sql_error + enrollment_token option" where
  "sql_enrollment_token_get = sql_get etkr_id enrollment_token_from_row"

interpretation enrollment_token_sql: sql_repo etkr_id etk_id enrollment_token_to_row enrollment_token_from_row
    enrollment_token_row_update storable_enrollment_token same_enrollment_token
  by unfold_locales (simp_all add: enrollment_token_roundtrip,
     simp_all add: enrollment_token_to_row_def enrollment_token_row_update_def same_enrollment_token_def)

lemma sql_enrollment_token_repository:
  "like_dictionary etkr_id etk_id enrollment_token_to_row storable_enrollment_token same_enrollment_token
     sql_enrollment_token_get sql_enrollment_token_save (sql_remove etkr_id)"
  unfolding sql_enrollment_token_get_def sql_enrollment_token_save_def
  by (rule enrollment_token_sql.repository_like_dictionary)

definition sql_enrollment_token_by_hash ::
  "('t, enrollment_token_row) table_ops \<Rightarrow> string \<Rightarrow> 't \<Rightarrow> sql_error + enrollment_token option" where
  "sql_enrollment_token_by_hash T h t =
     sql_one_or_none enrollment_token_from_row (filter (\<lambda>r. etkr_token_hash r = h) (tb_rows T t))"

definition sql_enrollment_token_list_for_node ::
  "('t, enrollment_token_row) table_ops \<Rightarrow> string \<Rightarrow> 't \<Rightarrow> sql_error + enrollment_token list" where
  "sql_enrollment_token_list_for_node T nid t = sql_all enrollment_token_from_row
     (newest_first etkr_issued_at (filter (\<lambda>r. etkr_node_id r = nid) (tb_rows T t)))"

definition sql_enrollment_token_delete_for_node ::
  "('t, enrollment_token_row) table_ops \<Rightarrow> string \<Rightarrow> 't \<Rightarrow> 't" where
  "sql_enrollment_token_delete_for_node T nid = tb_delete T (\<lambda>r. etkr_node_id r = nid)"

subsection \<open>Observed state\<close>

definition observed_state_row_update ::
  "observed_state_row \<Rightarrow> observed_state \<Rightarrow> observed_state_row" where
  "observed_state_row_update r e =
     (let fresh = observed_state_to_row e
      in r\<lparr>osr_observed_at := osr_observed_at fresh, osr_state_hash := osr_state_hash fresh,
           osr_payload := osr_payload fresh\<rparr>)"

definition same_observed_state :: "observed_state \<Rightarrow> observed_state \<Rightarrow> bool" where
  "same_observed_state e0 e \<longleftrightarrow> True"

definition sql_observed_state_save ::
  "('t, observed_state_row) table_ops \<Rightarrow> observed_state \<Rightarrow> 't \<Rightarrow> sql_error + 't" where
  "sql_observed_state_save = (\<lambda>T e. sql_save osr_node_id T (observed_state_to_row e)
      (\<lambda>r. observed_state_row_update r e))"

definition sql_observed_state_get ::
  "('t, observed_state_row) table_ops \<Rightarrow> string \<Rightarrow> 't \<Rightarrow> sql_error + observed_state option" where
  "sql_observed_state_get = sql_get osr_node_id observed_state_from_row"

definition sql_observed_state_delete ::
  "('t, observed_state_row) table_ops \<Rightarrow> string \<Rightarrow> 't \<Rightarrow> 't" where
  "sql_observed_state_delete = sql_remove osr_node_id"

interpretation observed_state_sql: sql_repo osr_node_id os_node_id observed_state_to_row observed_state_from_row
    observed_state_row_update named_types same_observed_state
  by unfold_locales (simp_all add: observed_state_roundtrip,
     simp_all add: observed_state_to_row_def Let_def observed_state_row_update_def same_observed_state_def)

lemma sql_observed_state_repository:
  "like_dictionary osr_node_id os_node_id observed_state_to_row named_types same_observed_state
     sql_observed_state_get sql_observed_state_save sql_observed_state_delete"
  unfolding sql_observed_state_get_def sql_observed_state_save_def sql_observed_state_delete_def
  by (rule observed_state_sql.repository_like_dictionary)

subsection \<open>Address allocations\<close>

definition ip_allocation_row_update :: "ip_allocation_row \<Rightarrow> ip_allocation \<Rightarrow> ip_allocation_row" where
  "ip_allocation_row_update r e =
     r\<lparr>ipar_subnet_id := ipa_subnet_id e, ipar_ip_address := ipa_address e,
       ipar_owner_type := own_type (ipa_owner e), ipar_owner_id := own_id (ipa_owner e),
       ipar_kind := alloc_kind_value (ipa_kind e), ipar_allocated_at := ipa_allocated_at e,
       ipar_label := ipa_label e\<rparr>"

definition same_ip_allocation :: "ip_allocation \<Rightarrow> ip_allocation \<Rightarrow> bool" where
  "same_ip_allocation e0 e \<longleftrightarrow> True"

definition sql_ip_allocation_save ::
  "('t, ip_allocation_row) table_ops \<Rightarrow> ip_allocation \<Rightarrow> 't \<Rightarrow> sql_error + 't" where
  "sql_ip_allocation_save = (\<lambda>T e. sql_save ipar_id T (ip_allocation_to_row e)
      (\<lambda>r. ip_allocation_row_update r e))"

definition sql_ip_allocation_get ::
  "('t, ip_allocation_row) table_ops \<Rightarrow> string \<Rightarrow> 't \<Rightarrow> sql_error + ip_allocation option" where
  "sql_ip_allocation_get = sql_get ipar_id ip_allocation_from_row"

definition sql_ip_allocation_delete :: "('t, ip_allocation_row) table_ops \<Rightarrow> string \<Rightarrow> 't \<Rightarrow> 't" where
  "sql_ip_allocation_delete = sql_remove ipar_id"

interpretation ip_allocation_sql: sql_repo ipar_id ipa_id ip_allocation_to_row ip_allocation_from_row
    ip_allocation_row_update storable_ip_allocation same_ip_allocation
  by unfold_locales (simp_all add: ip_allocation_roundtrip,
     simp_all add: ip_allocation_to_row_def ip_allocation_row_update_def same_ip_allocation_def)

lemma sql_ip_allocation_repository:
  "like_dictionary ipar_id ipa_id ip_allocation_to_row storable_ip_allocation same_ip_allocation
     sql_ip_allocation_get sql_ip_allocation_save sql_ip_allocation_delete"
  unfolding sql_ip_allocation_get_def sql_ip_allocation_save_def sql_ip_allocation_delete_def
  by (rule ip_allocation_sql.repository_like_dictionary)

definition sql_ip_allocation_by_address ::
  "('t, ip_allocation_row) table_ops \<Rightarrow> string \<Rightarrow> string \<Rightarrow> 't \<Rightarrow> sql_error + ip_allocation option" where
  "sql_ip_allocation_by_address T sid addr t = sql_one_or_none ip_allocation_from_row
     (filter (\<lambda>r. ipar_subnet_id r = sid \<and> ipar_ip_address r = addr) (tb_rows T t))"

definition sql_ip_allocation_list_for_subnet ::
  "('t, ip_allocation_row) table_ops \<Rightarrow> string \<Rightarrow> 't \<Rightarrow> sql_error + ip_allocation list" where
  "sql_ip_allocation_list_for_subnet T sid t = sql_all ip_allocation_from_row
     (sort_key ipar_ip_address (filter (\<lambda>r. ipar_subnet_id r = sid) (tb_rows T t)))"

definition sql_ip_allocation_list_for_owner ::
  "('t, ip_allocation_row) table_ops \<Rightarrow> owner_ref \<Rightarrow> 't \<Rightarrow> sql_error + ip_allocation list" where
  "sql_ip_allocation_list_for_owner T ow t = sql_all ip_allocation_from_row
     (sort_key ipar_allocated_at
        (filter (\<lambda>r. ipar_owner_type r = own_type ow \<and> ipar_owner_id r = own_id ow) (tb_rows T t)))"

subsection \<open>Service accounts and their tokens\<close>

definition service_account_row_update ::
  "service_account_row \<Rightarrow> service_account \<Rightarrow> service_account_row" where
  "service_account_row_update r e =
     r\<lparr>sar_name := sa_name e, sar_role := role_value (sa_role e),
       sar_description := sa_description e, sar_labels := sa_labels e,
       sar_created_at := sa_created_at e, sar_updated_at := sa_updated_at e,
       sar_created_by := sa_created_by e, sar_disabled_at := sa_disabled_at e\<rparr>"

definition same_service_account :: "service_account \<Rightarrow> service_account \<Rightarrow> bool" where
  "same_service_account e0 e \<longleftrightarrow> True"

definition sql_service_account_save ::
  "('t, service_account_row) table_ops \<Rightarrow> service_account \<Rightarrow> 't \<Rightarrow> sql_error + 't" where
  "sql_service_account_save = (\<lambda>T e. sql_save sar_id T (service_account_to_row e)
      (\<lambda>r. service_account_row_update r e))"

definition sql_service_account_get ::
  "('t, service_account_row) table_ops \<Rightarrow> string \<Rightarrow> 't \<Rightarrow> sql_error + service_account option" where
  "sql_service_account_get = sql_get sar_id service_account_from_row"

interpretation service_account_sql: sql_repo sar_id sa_id service_account_to_row service_account_from_row
    service_account_row_update storable_service_account same_service_account
  by unfold_locales (simp_all add: service_account_roundtrip,
     simp_all add: service_account_to_row_def service_account_row_update_def same_service_account_def)

lemma sql_service_account_repository:
  "like_dictionary sar_id sa_id service_account_to_row storable_service_account same_service_account
     sql_service_account_get sql_service_account_save (sql_remove sar_id)"
  unfolding sql_service_account_get_def sql_service_account_save_def
  by (rule service_account_sql.repository_like_dictionary)

definition sql_service_account_by_name ::
  "('t, service_account_row) table_ops \<Rightarrow> string \<Rightarrow> 't \<Rightarrow> sql_error + service_account option" where
  "sql_service_account_by_name T name t =
     sql_one_or_none service_account_from_row (filter (\<lambda>r. sar_name r = name) (tb_rows T t))"

definition sql_service_account_list ::
  "('t, service_account_row) table_ops \<Rightarrow> 't \<Rightarrow> sql_error + service_account list" where
  "sql_service_account_list T t = sql_all service_account_from_row (sort_key sar_name (tb_rows T t))"

definition service_token_row_update :: "service_token_row \<Rightarrow> service_token \<Rightarrow> service_token_row" where
  "service_token_row_update r e =
     r\<lparr>stkr_service_account_id := stk_account_id e, stkr_token_hash := stk_token_hash e,
       stkr_issued_at := stk_issued_at e, stkr_expires_at := stk_expires_at e,
       stkr_last_used_at := stk_last_used_at e, stkr_revoked_at := stk_revoked_at e,
       stkr_issued_by := stk_issued_by e, stkr_label := stk_label e\<rparr>"

definition same_service_token :: "service_token \<Rightarrow> service_token \<Rightarrow> bool" where
  "same_service_token e0 e \<longleftrightarrow> True"

definition sql_service_token_save ::
  "('t, service_token_row) table_ops \<Rightarrow> service_token \<Rightarrow> 't \<Rightarrow> sql_error + 't" where
  "sql_service_token_save = (\<lambda>T e. sql_save stkr_id T (service_token_to_row e)
      (\<lambda>r. service_token_row_update r e))"

definition sql_service_token_get ::
  "('t, service_token_row) table_ops \<Rightarrow> string \<Rightarrow> 't \<Rightarrow> sql_error + service_token option" where
  "sql_service_token_get = sql_get stkr_id service_token_from_row"

interpretation service_token_sql: sql_repo stkr_id stk_id service_token_to_row service_token_from_row
    service_token_row_update storable_service_token same_service_token
  by unfold_locales (simp_all add: service_token_roundtrip,
     simp_all add: service_token_to_row_def service_token_row_update_def same_service_token_def)

lemma sql_service_token_repository:
  "like_dictionary stkr_id stk_id service_token_to_row storable_service_token same_service_token
     sql_service_token_get sql_service_token_save (sql_remove stkr_id)"
  unfolding sql_service_token_get_def sql_service_token_save_def
  by (rule service_token_sql.repository_like_dictionary)

definition sql_service_token_by_hash ::
  "('t, service_token_row) table_ops \<Rightarrow> string \<Rightarrow> 't \<Rightarrow> sql_error + service_token option" where
  "sql_service_token_by_hash T h t =
     sql_one_or_none service_token_from_row (filter (\<lambda>r. stkr_token_hash r = h) (tb_rows T t))"

definition sql_service_token_list_for_account ::
  "('t, service_token_row) table_ops \<Rightarrow> string \<Rightarrow> 't \<Rightarrow> sql_error + service_token list" where
  "sql_service_token_list_for_account T aid t = sql_all service_token_from_row
     (sort_key stkr_issued_at (filter (\<lambda>r. stkr_service_account_id r = aid) (tb_rows T t)))"

subsection \<open>Audit journal\<close>

text \<open>Events are only added, read and deleted.\<close>

definition sql_audit_save ::
  "('t, audit_event_row) table_ops \<Rightarrow> audit_event \<Rightarrow> 't \<Rightarrow> sql_error + 't" where
  "sql_audit_save T e = tb_insert T (audit_event_to_row e)"

definition sql_audit_get ::
  "('t, audit_event_row) table_ops \<Rightarrow> string \<Rightarrow> 't \<Rightarrow> sql_error + audit_event option" where
  "sql_audit_get = sql_get audr_id audit_event_from_row"

definition sql_audit_list ::
  "('t, audit_event_row) table_ops \<Rightarrow> string option \<Rightarrow> string option \<Rightarrow> string option \<Rightarrow> string option \<Rightarrow>
     time option \<Rightarrow> nat \<Rightarrow> 't \<Rightarrow> sql_error + audit_event list" where
  "sql_audit_list T actor action rtype rid since limit t = sql_all audit_event_from_row
     (take limit (newest_first audr_at (filter (\<lambda>r.
        where_opt actor (audr_actor r) \<and> where_eq action (audr_action r) \<and>
        where_eq rtype (audr_resource_type r) \<and> where_opt rid (audr_resource_id r) \<and>
        (case since of None \<Rightarrow> True | Some s \<Rightarrow> s \<le> audr_at r)) (tb_rows T t))))"

definition sql_audit_before ::
  "('t, audit_event_row) table_ops \<Rightarrow> time \<Rightarrow> nat \<Rightarrow> 't \<Rightarrow> sql_error + audit_event list" where
  "sql_audit_before T cutoff limit t = sql_all audit_event_from_row
     (take limit (sort_key audr_at (filter (\<lambda>r. audr_at r < cutoff) (tb_rows T t))))"

definition sql_audit_delete_before :: "('t, audit_event_row) table_ops \<Rightarrow> time \<Rightarrow> 't \<Rightarrow> int \<times> 't" where
  "sql_audit_delete_before T cutoff = sql_delete_counted T (\<lambda>r. audr_at r < cutoff)"

definition sql_audit_delete_many ::
  "('t, audit_event_row) table_ops \<Rightarrow> string list \<Rightarrow> 't \<Rightarrow> int \<times> 't" where
  "sql_audit_delete_many T ids t =
     (if ids = [] then (0, t) else sql_delete_counted T (\<lambda>r. audr_id r \<in> set ids) t)"

subsection \<open>Node snapshots\<close>

definition node_snapshot_row_update :: "node_snapshot_row \<Rightarrow> node_snapshot \<Rightarrow> node_snapshot_row" where
  "node_snapshot_row_update r e =
     r\<lparr>nsr_node_id := ns_node_id e, nsr_agent_snapshot_id := ns_agent_snapshot_id e,
       nsr_state_hash := ns_state_hash e, nsr_created_at := ns_created_at e, nsr_label := ns_label e\<rparr>"

definition same_node_snapshot :: "node_snapshot \<Rightarrow> node_snapshot \<Rightarrow> bool" where
  "same_node_snapshot e0 e \<longleftrightarrow> True"

definition sql_node_snapshot_save ::
  "('t, node_snapshot_row) table_ops \<Rightarrow> node_snapshot \<Rightarrow> 't \<Rightarrow> sql_error + 't" where
  "sql_node_snapshot_save = (\<lambda>T e. sql_save nsr_id T (node_snapshot_to_row e)
      (\<lambda>r. node_snapshot_row_update r e))"

definition sql_node_snapshot_get ::
  "('t, node_snapshot_row) table_ops \<Rightarrow> string \<Rightarrow> 't \<Rightarrow> sql_error + node_snapshot option" where
  "sql_node_snapshot_get = sql_get nsr_id node_snapshot_from_row"

definition sql_node_snapshot_delete :: "('t, node_snapshot_row) table_ops \<Rightarrow> string \<Rightarrow> 't \<Rightarrow> 't" where
  "sql_node_snapshot_delete = sql_remove nsr_id"

interpretation node_snapshot_sql: sql_repo nsr_id ns_id node_snapshot_to_row node_snapshot_from_row
    node_snapshot_row_update storable_node_snapshot same_node_snapshot
  by unfold_locales (simp_all add: node_snapshot_roundtrip,
     simp_all add: node_snapshot_to_row_def node_snapshot_row_update_def same_node_snapshot_def)

lemma sql_node_snapshot_repository:
  "like_dictionary nsr_id ns_id node_snapshot_to_row storable_node_snapshot same_node_snapshot
     sql_node_snapshot_get sql_node_snapshot_save sql_node_snapshot_delete"
  unfolding sql_node_snapshot_get_def sql_node_snapshot_save_def sql_node_snapshot_delete_def
  by (rule node_snapshot_sql.repository_like_dictionary)

definition sql_node_snapshot_list_for_node ::
  "('t, node_snapshot_row) table_ops \<Rightarrow> string \<Rightarrow> 't \<Rightarrow> sql_error + node_snapshot list" where
  "sql_node_snapshot_list_for_node T nid t = sql_all node_snapshot_from_row
     (newest_first nsr_created_at (filter (\<lambda>r. nsr_node_id r = nid) (tb_rows T t)))"

definition sql_node_snapshot_list ::
  "('t, node_snapshot_row) table_ops \<Rightarrow> nat \<Rightarrow> 't \<Rightarrow> sql_error + node_snapshot list" where
  "sql_node_snapshot_list T limit t = sql_all node_snapshot_from_row
     (take limit (newest_first nsr_created_at (tb_rows T t)))"

subsection \<open>Outbox\<close>

text \<open>
  The primary key is the integer \<open>event_id\<close>. \<open>append\<close> lets the database assign it when the event has
  none: \<open>next_id\<close>, the autoincrement of the table, is a parameter.
\<close>

definition sql_outbox_append ::
  "('t, outbox_event_row) table_ops \<Rightarrow> ('t \<Rightarrow> int) \<Rightarrow> outbox_event \<Rightarrow> 't \<Rightarrow> sql_error + outbox_event \<times> 't" where
  "sql_outbox_append T next_id e t =
     (let (k, r) = outbox_event_to_row e;
          row = r\<lparr>oevr_event_id := (case k of None \<Rightarrow> next_id t | Some i \<Rightarrow> i)\<rparr>
      in bindE (tb_insert T row t) (\<lambda>t'.
         bindE (lift_sql (outbox_event_from_row row)) (\<lambda>e'. Inr (e', t'))))"

definition sql_outbox_since ::
  "('t, outbox_event_row) table_ops \<Rightarrow> int \<Rightarrow> nat \<Rightarrow> 't \<Rightarrow> sql_error + outbox_event list" where
  "sql_outbox_since T since limit t = sql_all outbox_event_from_row
     (take limit (sort_key oevr_event_id (filter (\<lambda>r. since < oevr_event_id r) (tb_rows T t))))"

definition sql_outbox_undelivered ::
  "('t, outbox_event_row) table_ops \<Rightarrow> nat \<Rightarrow> 't \<Rightarrow> sql_error + outbox_event list" where
  "sql_outbox_undelivered T limit t = sql_all outbox_event_from_row
     (take limit (sort_key oevr_event_id (filter (\<lambda>r. oevr_delivered_at r = None) (tb_rows T t))))"

text \<open>A bulk \<open>UPDATE ... WHERE id IN ids AND delivered_at IS NULL\<close>, row by row.\<close>

definition sql_outbox_mark_delivered ::
  "('t, outbox_event_row) table_ops \<Rightarrow> string list \<Rightarrow> time \<Rightarrow> 't \<Rightarrow> sql_error + 't" where
  "sql_outbox_mark_delivered T ids at t =
     fold (\<lambda>r s. bindE s (tb_replace T (r\<lparr>oevr_delivered_at := Some at\<rparr>)))
       (filter (\<lambda>r. oevr_id r \<in> set ids \<and> oevr_delivered_at r = None) (tb_rows T t)) (Inr t)"

definition sql_outbox_head :: "('t, outbox_event_row) table_ops \<Rightarrow> 't \<Rightarrow> int" where
  "sql_outbox_head T t =
     (case List.map oevr_event_id (tb_rows T t) of [] \<Rightarrow> 0 | i # is \<Rightarrow> foldl max i is)"

definition sql_outbox_delete_delivered_before ::
  "('t, outbox_event_row) table_ops \<Rightarrow> time \<Rightarrow> 't \<Rightarrow> int \<times> 't" where
  "sql_outbox_delete_delivered_before T cutoff =
     sql_delete_counted T (\<lambda>r. \<exists>d \<in> set_option (oevr_delivered_at r). d < cutoff)"

subsection \<open>Webhook subscriptions\<close>

definition sql_webhook_save :: "('t, webhook_row) table_ops \<Rightarrow> webhook \<Rightarrow> 't \<Rightarrow> sql_error + 't" where
  "sql_webhook_save = (\<lambda>T e. sql_merge whr_id T (webhook_to_row e))"

definition sql_webhook_get ::
  "('t, webhook_row) table_ops \<Rightarrow> string \<Rightarrow> 't \<Rightarrow> sql_error + webhook option" where
  "sql_webhook_get = sql_get whr_id webhook_from_row"

definition sql_webhook_delete :: "('t, webhook_row) table_ops \<Rightarrow> string \<Rightarrow> 't \<Rightarrow> 't" where
  "sql_webhook_delete = sql_remove whr_id"

interpretation webhook_sql: sql_repo whr_id wh_id webhook_to_row webhook_from_row
    "\<lambda>_. webhook_to_row" storable_webhook "\<lambda>_ _. True"
  by unfold_locales (simp_all add: webhook_roundtrip, simp_all add: webhook_to_row_def)

lemma sql_webhook_repository:
  "like_dictionary whr_id wh_id webhook_to_row storable_webhook (\<lambda>_ _. True)
     sql_webhook_get sql_webhook_save sql_webhook_delete"
  unfolding sql_webhook_get_def sql_webhook_save_def sql_webhook_delete_def
  by (rule webhook_sql.repository_like_dictionary)

definition sql_webhook_list :: "('t, webhook_row) table_ops \<Rightarrow> 't \<Rightarrow> sql_error + webhook list" where
  "sql_webhook_list T t = sql_all webhook_from_row (sort_key whr_created_at (tb_rows T t))"

definition sql_webhook_list_active ::
  "('t, webhook_row) table_ops \<Rightarrow> 't \<Rightarrow> sql_error + webhook list" where
  "sql_webhook_list_active T t = sql_all webhook_from_row
     (sort_key whr_created_at
        (filter (\<lambda>r. whr_state r = webhook_state_value WH_ACTIVE) (tb_rows T t)))"

subsection \<open>Projects and members\<close>

definition project_row_update :: "project_row \<Rightarrow> project \<Rightarrow> project_row" where
  "project_row_update r e =
     r\<lparr>prjr_name := prj_name e, prjr_slug := prj_slug e, prjr_description := prj_description e,
       prjr_labels := prj_labels e, prjr_updated_at := prj_updated_at e\<rparr>"

definition same_project :: "project \<Rightarrow> project \<Rightarrow> bool" where
  "same_project e0 e \<longleftrightarrow> prj_created_at e0 = prj_created_at e"

definition sql_project_save :: "('t, project_row) table_ops \<Rightarrow> project \<Rightarrow> 't \<Rightarrow> sql_error + 't" where
  "sql_project_save = (\<lambda>T e. sql_save prjr_id T (project_to_row e) (\<lambda>r. project_row_update r e))"

definition sql_project_get ::
  "('t, project_row) table_ops \<Rightarrow> string \<Rightarrow> 't \<Rightarrow> sql_error + project option" where
  "sql_project_get = sql_get prjr_id project_from_row"

definition sql_project_delete :: "('t, project_row) table_ops \<Rightarrow> string \<Rightarrow> 't \<Rightarrow> 't" where
  "sql_project_delete = sql_remove prjr_id"

interpretation project_sql: sql_repo prjr_id prj_id project_to_row project_from_row
    project_row_update storable_project same_project
  by unfold_locales (simp_all add: project_roundtrip,
     simp_all add: project_to_row_def project_row_update_def same_project_def)

lemma sql_project_repository:
  "like_dictionary prjr_id prj_id project_to_row storable_project same_project
     sql_project_get sql_project_save sql_project_delete"
  unfolding sql_project_get_def sql_project_save_def sql_project_delete_def
  by (rule project_sql.repository_like_dictionary)

definition sql_project_by_slug ::
  "('t, project_row) table_ops \<Rightarrow> string \<Rightarrow> 't \<Rightarrow> sql_error + project option" where
  "sql_project_by_slug T slug t =
     sql_one_or_none project_from_row (filter (\<lambda>r. prjr_slug r = slug) (tb_rows T t))"

definition sql_project_list :: "('t, project_row) table_ops \<Rightarrow> 't \<Rightarrow> sql_error + project list" where
  "sql_project_list T t = sql_all project_from_row (sort_key prjr_created_at (tb_rows T t))"

definition pm_key :: "project_member_row \<Rightarrow> string \<times> string" where
  "pm_key r = (pmr_project_id r, pmr_service_account_id r)"

definition sql_project_member_save ::
  "('t, project_member_row) table_ops \<Rightarrow> project_member \<Rightarrow> 't \<Rightarrow> sql_error + 't" where
  "sql_project_member_save = (\<lambda>T e. sql_merge pm_key T (project_member_to_row e))"

definition sql_project_member_get ::
  "('t, project_member_row) table_ops \<Rightarrow> string \<times> string \<Rightarrow> 't \<Rightarrow> sql_error + project_member option" where
  "sql_project_member_get = sql_get pm_key project_member_from_row"

definition sql_project_member_delete ::
  "('t, project_member_row) table_ops \<Rightarrow> string \<times> string \<Rightarrow> 't \<Rightarrow> 't" where
  "sql_project_member_delete = sql_remove pm_key"

interpretation project_member_sql: sql_repo pm_key "\<lambda>e. (pm_project_id e, pm_account_id e)" project_member_to_row project_member_from_row "
   \<lambda>_. project_member_to_row" storable_project_member "\<lambda>_ _. True"
  by unfold_locales (simp_all add: project_member_roundtrip,
     simp_all add: pm_key_def project_member_to_row_def)

lemma sql_project_member_repository:
  "like_dictionary pm_key (\<lambda>e. (pm_project_id e, pm_account_id e)) project_member_to_row storable_project_member (\<lambda>_ _. True)
     sql_project_member_get sql_project_member_save sql_project_member_delete"
  unfolding sql_project_member_get_def sql_project_member_save_def sql_project_member_delete_def
  by (rule project_member_sql.repository_like_dictionary)

definition sql_project_member_list_for_project ::
  "('t, project_member_row) table_ops \<Rightarrow> string \<Rightarrow> 't \<Rightarrow> sql_error + project_member list" where
  "sql_project_member_list_for_project T pid t = sql_all project_member_from_row
     (sort_key pmr_created_at (filter (\<lambda>r. pmr_project_id r = pid) (tb_rows T t)))"

definition sql_project_member_list_for_account ::
  "('t, project_member_row) table_ops \<Rightarrow> string \<Rightarrow> 't \<Rightarrow> sql_error + project_member list" where
  "sql_project_member_list_for_account T aid t = sql_all project_member_from_row
     (sort_key pmr_created_at (filter (\<lambda>r. pmr_service_account_id r = aid) (tb_rows T t)))"

definition sql_project_member_has_role ::
  "('t, project_member_row) table_ops \<Rightarrow> string \<Rightarrow> string \<Rightarrow> role \<Rightarrow> 't \<Rightarrow> sql_error + bool" where
  "sql_project_member_has_role T pid aid ro t =
     bindE (sql_project_member_get T (pid, aid) t) (\<lambda>m.
     Inr (case m of None \<Rightarrow> False | Some m \<Rightarrow> pm_role m = ADMIN \<or> pm_role m = ro))"

end
