(* ===== verification/Sql_Catalogue_Mappers.thy ===== *)
theory Sql_Catalogue_Mappers
  imports Sql_Mappers Sql_Rows
begin

text \<open>
  The conversions between the aggregates of the catalogue (N1 to N5) and their rows
  (\<open>adapters/sql/mappers.py\<close>), with the round trip of each.
\<close>

subsection \<open>Logical ports\<close>

definition logical_port_to_row :: "logical_port \<Rightarrow> logical_port_row" where
  "logical_port_to_row e =
     \<lparr>lpr_id = lp_id e, lpr_name = lp_name e, lpr_node_id = lp_node_id e,
      lpr_network_id = lp_network_id e, lpr_vif_id = lp_vif_id e, lpr_mac_address = lp_mac_address e,
      lpr_ip_address = lp_ip_address e, lpr_status = lport_status_value (lp_status e),
      lpr_project_id = lp_project_id e, lpr_labels = lp_labels e, lpr_created_at = lp_created_at e,
      lpr_updated_at = lp_updated_at e\<rparr>"

definition logical_port_from_row :: "logical_port_row \<Rightarrow> exc + logical_port" where
  "logical_port_from_row r =
     bindE (lport_status_of (lpr_status r)) (\<lambda>st.
     mk_logical_port \<lparr>lp_id = lpr_id r, lp_name = lpr_name r, lp_node_id = lpr_node_id r,
       lp_network_id = lpr_network_id r, lp_created_at = lpr_created_at r,
       lp_updated_at = lpr_updated_at r, lp_vif_id = lpr_vif_id r, lp_mac_address = lpr_mac_address r,
       lp_ip_address = lpr_ip_address r, lp_status = st, lp_project_id = truthy (lpr_project_id r),
       lp_labels = lpr_labels r\<rparr>)"

definition storable_logical_port :: "logical_port \<Rightarrow> bool" where
  "storable_logical_port e \<longleftrightarrow> mk_logical_port e = Inr e \<and> lp_project_id e \<noteq> Some []"

lemma logical_port_roundtrip:
  "storable_logical_port e \<Longrightarrow> logical_port_from_row (logical_port_to_row e) = Inr e"
  by (cases e) (simp add: logical_port_from_row_def logical_port_to_row_def
      storable_logical_port_def enum_simps eta_simps)

subsection \<open>Security groups and members\<close>

definition security_group_to_row :: "security_group \<Rightarrow> security_group_row" where
  "security_group_to_row e =
     \<lparr>sgr_id = sg_id e, sgr_name = sg_name e, sgr_description = sg_description e,
      sgr_project_id = sg_project_id e, sgr_labels = sg_labels e, sgr_created_at = sg_created_at e,
      sgr_updated_at = sg_updated_at e\<rparr>"

definition security_group_from_row :: "security_group_row \<Rightarrow> exc + security_group" where
  "security_group_from_row r =
     mk_security_group \<lparr>sg_id = sgr_id r, sg_name = sgr_name r,
       sg_created_at = sgr_created_at r, sg_updated_at = sgr_updated_at r,
       sg_description = sgr_description r, sg_project_id = truthy (sgr_project_id r),
       sg_labels = sgr_labels r\<rparr>"

definition storable_security_group :: "security_group \<Rightarrow> bool" where
  "storable_security_group e \<longleftrightarrow> mk_security_group e = Inr e \<and> sg_project_id e \<noteq> Some []"

lemma security_group_roundtrip:
  "storable_security_group e \<Longrightarrow> security_group_from_row (security_group_to_row e) = Inr e"
  by (cases e) (simp add: security_group_from_row_def security_group_to_row_def
      storable_security_group_def enum_simps eta_simps)

definition sg_member_to_row :: "sg_member \<Rightarrow> sg_member_row" where
  "sg_member_to_row e =
     \<lparr>sgmr_sg_id = sgm_sg_id e, sgmr_member_type = sgm_type e, sgmr_member_value = sgm_value e,
      sgmr_created_at = sgm_created_at e\<rparr>"

definition sg_member_from_row :: "sg_member_row \<Rightarrow> exc + sg_member" where
  "sg_member_from_row r =
     mk_sg_member \<lparr>sgm_sg_id = sgmr_sg_id r, sgm_type = sgmr_member_type r,
       sgm_value = sgmr_member_value r, sgm_created_at = sgmr_created_at r\<rparr>"

definition storable_sg_member :: "sg_member \<Rightarrow> bool" where
  "storable_sg_member e \<longleftrightarrow> mk_sg_member e = Inr e"

lemma sg_member_roundtrip:
  "storable_sg_member e \<Longrightarrow> sg_member_from_row (sg_member_to_row e) = Inr e"
  by (cases e) (simp add: sg_member_from_row_def sg_member_to_row_def
      storable_sg_member_def enum_simps eta_simps)

subsection \<open>Address pools\<close>

definition address_pool_to_row :: "address_pool \<Rightarrow> address_pool_row" where
  "address_pool_to_row e =
     \<lparr>apr_id = ap_id e, apr_name = ap_name e, apr_description = ap_description e,
      apr_project_id = ap_project_id e, apr_cidrs = ap_cidrs e, apr_labels = ap_labels e,
      apr_created_at = ap_created_at e, apr_updated_at = ap_updated_at e\<rparr>"

definition address_pool_from_row :: "address_pool_row \<Rightarrow> exc + address_pool" where
  "address_pool_from_row r =
     mk_address_pool \<lparr>ap_id = apr_id r, ap_name = apr_name r, ap_created_at = apr_created_at r,
       ap_updated_at = apr_updated_at r, ap_description = apr_description r,
       ap_project_id = truthy (apr_project_id r), ap_cidrs = apr_cidrs r, ap_labels = apr_labels r\<rparr>"

definition storable_address_pool :: "address_pool \<Rightarrow> bool" where
  "storable_address_pool e \<longleftrightarrow> mk_address_pool e = Inr e \<and> ap_project_id e \<noteq> Some []"

lemma address_pool_roundtrip:
  "storable_address_pool e \<Longrightarrow> address_pool_from_row (address_pool_to_row e) = Inr e"
  by (cases e) (simp add: address_pool_from_row_def address_pool_to_row_def
      storable_address_pool_def enum_simps eta_simps)

subsection \<open>Service objects\<close>

definition service_object_to_row :: "service_object \<Rightarrow> service_object_row" where
  "service_object_to_row e =
     \<lparr>sor_id = so_id e, sor_name = so_name e, sor_description = so_description e,
      sor_project_id = so_project_id e, sor_protocol = so_protocol e, sor_ports = so_ports e,
      sor_labels = so_labels e, sor_created_at = so_created_at e, sor_updated_at = so_updated_at e\<rparr>"

definition service_object_from_row :: "service_object_row \<Rightarrow> exc + service_object" where
  "service_object_from_row r =
     mk_service_object \<lparr>so_id = sor_id r, so_name = sor_name r, so_protocol = sor_protocol r,
       so_created_at = sor_created_at r, so_updated_at = sor_updated_at r,
       so_description = sor_description r, so_project_id = truthy (sor_project_id r),
       so_ports = sor_ports r, so_labels = sor_labels r\<rparr>"

definition storable_service_object :: "service_object \<Rightarrow> bool" where
  "storable_service_object e \<longleftrightarrow> mk_service_object e = Inr e \<and> so_project_id e \<noteq> Some []"

lemma service_object_roundtrip:
  "storable_service_object e \<Longrightarrow> service_object_from_row (service_object_to_row e) = Inr e"
  by (cases e) (simp add: service_object_from_row_def service_object_to_row_def
      storable_service_object_def enum_simps eta_simps)

subsection \<open>QoS policies\<close>

definition qos_policy_to_row :: "qos_policy \<Rightarrow> qos_policy_row" where
  "qos_policy_to_row e =
     \<lparr>qpr_id = qp_id e, qpr_name = qp_name e, qpr_description = qp_description e,
      qpr_project_id = qp_project_id e, qpr_ingress_kbps = qp_ingress_kbps e,
      qpr_egress_kbps = qp_egress_kbps e, qpr_burst_kb = qp_burst_kb e, qpr_dscp = qp_dscp e,
      qpr_labels = qp_labels e, qpr_created_at = qp_created_at e, qpr_updated_at = qp_updated_at e\<rparr>"

definition qos_policy_from_row :: "qos_policy_row \<Rightarrow> exc + qos_policy" where
  "qos_policy_from_row r =
     mk_qos_policy \<lparr>qp_id = qpr_id r, qp_name = qpr_name r, qp_created_at = qpr_created_at r,
       qp_updated_at = qpr_updated_at r, qp_description = qpr_description r,
       qp_project_id = truthy (qpr_project_id r), qp_ingress_kbps = qpr_ingress_kbps r,
       qp_egress_kbps = qpr_egress_kbps r, qp_burst_kb = qpr_burst_kb r, qp_dscp = qpr_dscp r,
       qp_labels = qpr_labels r\<rparr>"

definition storable_qos_policy :: "qos_policy \<Rightarrow> bool" where
  "storable_qos_policy e \<longleftrightarrow> mk_qos_policy e = Inr e \<and> qp_project_id e \<noteq> Some []"

lemma qos_policy_roundtrip:
  "storable_qos_policy e \<Longrightarrow> qos_policy_from_row (qos_policy_to_row e) = Inr e"
  by (cases e) (simp add: qos_policy_from_row_def qos_policy_to_row_def
      storable_qos_policy_def enum_simps eta_simps)

subsection \<open>Security policies\<close>

definition policy_rule_to_row :: "string \<Rightarrow> policy_rule \<Rightarrow> policy_rule_row" where
  "policy_rule_to_row pid e =
     \<lparr>prr_policy_id = pid, prr_rule_id = pr_id e, prr_priority = pr_priority e,
      prr_direction = pr_direction e, prr_action = pr_action e, prr_source_type = pr_source_type e,
      prr_source_value = pr_source_value e, prr_destination_type = pr_dest_type e,
      prr_destination_value = pr_dest_value e, prr_service_object_id = truthy (pr_service_id e),
      prr_enabled = pr_enabled e, prr_comment = pr_comment e, prr_packet_count = pr_packets e,
      prr_byte_count = pr_bytes e\<rparr>"

definition policy_rule_from_row :: "policy_rule_row \<Rightarrow> exc + policy_rule" where
  "policy_rule_from_row r =
     (let e = \<lparr>pr_id = prr_rule_id r, pr_priority = prr_priority r,
       pr_direction = prr_direction r, pr_action = prr_action r,
       pr_source_type = (if prr_source_type r = [] then ''any'' else prr_source_type r),
       pr_source_value = prr_source_value r,
       pr_dest_type = (if prr_destination_type r = [] then ''any'' else prr_destination_type r),
       pr_dest_value = prr_destination_value r, pr_service_id = truthy (prr_service_object_id r),
       pr_enabled = prr_enabled r, pr_comment = prr_comment r, pr_packets = prr_packet_count r,
       pr_bytes = prr_byte_count r\<rparr>
      in bindE (rule_check e) (\<lambda>_. Inr e))"

lemma rule_types_named: "rule_check r = Inr () \<Longrightarrow> pr_source_type r \<noteq> [] \<and> pr_dest_type r \<noteq> []"
  by (auto simp: rule_check_def bindE_Inr_iff endpoint_types_def)

definition storable_policy_rule :: "policy_rule \<Rightarrow> bool" where
  "storable_policy_rule e \<longleftrightarrow> rule_check e = Inr () \<and> pr_service_id e \<noteq> Some []"

lemma policy_rule_eta [eta_simps]:
  "\<lparr>pr_id = pr_id e, pr_priority = pr_priority e, pr_direction = pr_direction e,
    pr_action = pr_action e, pr_source_type = pr_source_type e, pr_source_value = pr_source_value e,
    pr_dest_type = pr_dest_type e, pr_dest_value = pr_dest_value e, pr_service_id = pr_service_id e,
    pr_enabled = pr_enabled e, pr_comment = pr_comment e, pr_packets = pr_packets e,
    pr_bytes = pr_bytes e\<rparr> = e"
  by simp

lemma security_policy_eta [eta_simps]:
  "\<lparr>sp_id = sp_id e, sp_name = sp_name e, sp_description = sp_description e,
    sp_project_id = sp_project_id e, sp_labels = sp_labels e, sp_rules = sp_rules e,
    sp_status = sp_status e, sp_compiled_ruleset = sp_compiled_ruleset e,
    sp_compiled_at = sp_compiled_at e, sp_applied_at = sp_applied_at e,
    sp_created_at = sp_created_at e, sp_updated_at = sp_updated_at e\<rparr> = e"
  by simp

lemma policy_rule_roundtrip: "storable_policy_rule e \<Longrightarrow> policy_rule_from_row (policy_rule_to_row pid e) = Inr e"
  by (simp add: policy_rule_from_row_def policy_rule_to_row_def storable_policy_rule_def rule_types_named
      eta_simps Let_def)

definition security_policy_to_row :: "security_policy \<Rightarrow> security_policy_row" where
  "security_policy_to_row p =
     \<lparr>spr_id = sp_id p, spr_name = sp_name p, spr_description = sp_description p,
      spr_project_id = sp_project_id p, spr_labels = sp_labels p,
      spr_status = policy_status_value (sp_status p), spr_compiled_ruleset = sp_compiled_ruleset p,
      spr_compiled_at = sp_compiled_at p, spr_applied_at = sp_applied_at p,
      spr_created_at = sp_created_at p, spr_updated_at = sp_updated_at p,
      spr_rules = List.map (policy_rule_to_row (sp_id p)) (sp_rules p)\<rparr>"

text \<open>\<open>sorted(row.rules, key=lambda r: r.priority)\<close> is a stable sort.\<close>

definition security_policy_from_row :: "security_policy_row \<Rightarrow> exc + security_policy" where
  "security_policy_from_row r =
     bindE (traverse policy_rule_from_row (sort_key prr_priority (spr_rules r))) (\<lambda>rs.
     bindE (policy_status_of (spr_status r)) (\<lambda>st.
     Inr \<lparr>sp_id = spr_id r, sp_name = spr_name r, sp_description = spr_description r,
          sp_project_id = truthy (spr_project_id r), sp_labels = spr_labels r, sp_rules = rs,
          sp_status = st, sp_compiled_ruleset = spr_compiled_ruleset r,
          sp_compiled_at = spr_compiled_at r, sp_applied_at = spr_applied_at r,
          sp_created_at = spr_created_at r, sp_updated_at = spr_updated_at r\<rparr>))"

definition storable_security_policy :: "security_policy \<Rightarrow> bool" where
  "storable_security_policy p \<longleftrightarrow> (\<forall>r \<in> set (sp_rules p). storable_policy_rule r) \<and>
     sorted (List.map pr_priority (sp_rules p)) \<and> sp_project_id p \<noteq> Some []"

lemma security_policy_roundtrip:
  assumes "storable_security_policy p"
  shows "security_policy_from_row (security_policy_to_row p) = Inr p"
proof -
  have "List.map prr_priority (List.map (policy_rule_to_row (sp_id p)) (sp_rules p)) = List.map pr_priority (sp_rules p)"
    by (simp add: policy_rule_to_row_def)
  then have s: "sort_key prr_priority (List.map (policy_rule_to_row (sp_id p)) (sp_rules p)) =
      List.map (policy_rule_to_row (sp_id p)) (sp_rules p)"
    using assms by (intro sort_key_id_if_sorted) (simp only: storable_security_policy_def)
  have t: "traverse policy_rule_from_row (List.map (policy_rule_to_row (sp_id p)) (sp_rules p)) = Inr (sp_rules p)"
    using assms by (intro traverse_roundtrip policy_rule_roundtrip) (simp add: storable_security_policy_def)
  show ?thesis
    using assms by (simp add: security_policy_from_row_def security_policy_to_row_def s t enum_simps
        storable_security_policy_def eta_simps)
qed

subsection \<open>Trunk ports\<close>

definition trunk_port_to_row :: "trunk_port \<Rightarrow> trunk_port_row" where
  "trunk_port_to_row e =
     \<lparr>tpr_id = tp_id e, tpr_name = tp_name e, tpr_node_id = tp_node_id e,
      tpr_logical_port_id = truthy (tp_logical_port_id e), tpr_vlan_ids = tp_vlan_ids e,
      tpr_native_vlan = tp_native_vlan e, tpr_project_id = tp_project_id e, tpr_labels = tp_labels e,
      tpr_created_at = tp_created_at e, tpr_updated_at = tp_updated_at e\<rparr>"

definition trunk_port_from_row :: "trunk_port_row \<Rightarrow> exc + trunk_port" where
  "trunk_port_from_row r =
     mk_trunk_port \<lparr>tp_id = tpr_id r, tp_name = tpr_name r, tp_node_id = tpr_node_id r,
       tp_vlan_ids = sort (tpr_vlan_ids r), tp_logical_port_id = truthy (tpr_logical_port_id r),
       tp_native_vlan = tpr_native_vlan r, tp_project_id = truthy (tpr_project_id r),
       tp_labels = tpr_labels r, tp_created_at = tpr_created_at r, tp_updated_at = tpr_updated_at r\<rparr>"

definition storable_trunk_port :: "trunk_port \<Rightarrow> bool" where
  "storable_trunk_port e \<longleftrightarrow>
     mk_trunk_port e = Inr e \<and> tp_logical_port_id e \<noteq> Some [] \<and> tp_project_id e \<noteq> Some []"

lemma trunk_port_eta [eta_simps]:
  "\<lparr>tp_id = tp_id e, tp_name = tp_name e, tp_node_id = tp_node_id e,
    tp_vlan_ids = tp_vlan_ids e, tp_logical_port_id = tp_logical_port_id e,
    tp_native_vlan = tp_native_vlan e, tp_project_id = tp_project_id e, tp_labels = tp_labels e,
    tp_created_at = tp_created_at e, tp_updated_at = tp_updated_at e\<rparr> = e"
  by simp

lemma static_route_eta [eta_simps]:
  "\<lparr>srt_destination = srt_destination e, srt_nexthop = srt_nexthop e\<rparr> = e"
  by simp

lemma ipv6_config_eta [eta_simps]:
  "\<lparr>v6_mode = v6_mode e, v6_prefix = v6_prefix e, v6_stateful = v6_stateful e\<rparr> = e"
  by simp

lemma router_eta [eta_simps]:
  "\<lparr>rt_id = rt_id e, rt_name = rt_name e, rt_description = rt_description e,
    rt_project_id = rt_project_id e, rt_external_network_id = rt_external_network_id e,
    rt_internal_network_ids = rt_internal_network_ids e, rt_static_routes = rt_static_routes e,
    rt_status = rt_status e, rt_admin_state_up = rt_admin_state_up e, rt_ha_mode = rt_ha_mode e,
    rt_vrrp_priority = rt_vrrp_priority e, rt_vrrp_vrid = rt_vrrp_vrid e,
    rt_ipv6_config = rt_ipv6_config e, rt_applied_config = rt_applied_config e,
    rt_applied_at = rt_applied_at e, rt_labels = rt_labels e, rt_created_at = rt_created_at e,
    rt_updated_at = rt_updated_at e\<rparr> = e"
  by simp

lemma mk_trunk_port_sorted: "mk_trunk_port t = Inr t' \<Longrightarrow> sorted (tp_vlan_ids t')"
  by (auto simp: mk_trunk_port_def bindE_Inr_iff)

lemma trunk_port_roundtrip: "storable_trunk_port e \<Longrightarrow> trunk_port_from_row (trunk_port_to_row e) = Inr e"
  using mk_trunk_port_sorted [of e e]
  by (simp add: trunk_port_from_row_def trunk_port_to_row_def storable_trunk_port_def sorted_sort_id eta_simps)

subsection \<open>Routers\<close>

definition route_to_json :: "static_route \<Rightarrow> json" where
  "route_to_json r = JObj [(''destination'', JStr (srt_destination r)), (''nexthop'', JStr (srt_nexthop r))]"

definition route_from_json :: "json \<Rightarrow> exc + static_route" where
  "route_from_json j =
     bindE (text_key ''destination'' j) (\<lambda>d. bindE (text_key ''nexthop'' j) (\<lambda>h. mk_static_route d h))"

definition ipv6_config_to_dict :: "ipv6_config \<Rightarrow> json" where
  "ipv6_config_to_dict c = JObj
     [(''mode'', JStr (ipv6_mode_value (v6_mode c))), (''prefix'', JStr (v6_prefix c)),
      (''dhcpv6_stateful'', JBool (v6_stateful c))]"

fun as_bool :: "json \<Rightarrow> bool option" where
  "as_bool (JBool b) = Some b"
| "as_bool _ = None"

definition ipv6_config_from_dict :: "json \<Rightarrow> exc + ipv6_config" where
  "ipv6_config_from_dict j =
     bindE (bindE (text_default ''mode'' ''off'' j) ipv6_mode_of) (\<lambda>m.
     bindE (text_default ''prefix'' [] j) (\<lambda>p.
     bindE (case jfield ''dhcpv6_stateful'' j of None \<Rightarrow> Inr False | Some v \<Rightarrow> shape (as_bool v)) (\<lambda>s.
     mk_ipv6_config \<lparr>v6_mode = m, v6_prefix = p, v6_stateful = s\<rparr>)))"

text \<open>\<open>_ipv6_config_from_dict(v) if v else None\<close>; an empty object is false, too.\<close>

definition ipv6_column :: "json option \<Rightarrow> exc + ipv6_config option" where
  "ipv6_column v = (if v = Some (JObj []) then Inr None else on_opt ipv6_config_from_dict v)"

text \<open>The set of internal networks is stored as the sorted list of its members.\<close>

definition router_to_row :: "router \<Rightarrow> router_row" where
  "router_to_row e =
     \<lparr>rtr_id = rt_id e, rtr_name = rt_name e, rtr_description = rt_description e,
      rtr_project_id = rt_project_id e, rtr_external_network_id = rt_external_network_id e,
      rtr_internal_network_ids = sort (rt_internal_network_ids e),
      rtr_static_routes = List.map route_to_json (rt_static_routes e),
      rtr_status = router_status_value (rt_status e), rtr_admin_state_up = rt_admin_state_up e,
      rtr_ha_mode = ha_mode_value (rt_ha_mode e), rtr_vrrp_priority = rt_vrrp_priority e,
      rtr_vrrp_vrid = rt_vrrp_vrid e, rtr_ipv6_config = map_option ipv6_config_to_dict (rt_ipv6_config e),
      rtr_applied_config = rt_applied_config e, rtr_applied_at = rt_applied_at e,
      rtr_labels = rt_labels e, rtr_created_at = rt_created_at e, rtr_updated_at = rt_updated_at e\<rparr>"

definition router_from_row :: "router_row \<Rightarrow> exc + router" where
  "router_from_row r =
     bindE (traverse route_from_json (rtr_static_routes r)) (\<lambda>srs.
     bindE (router_status_of (rtr_status r)) (\<lambda>st.
     bindE (ha_mode_of (rtr_ha_mode r)) (\<lambda>ha.
     bindE (ipv6_column (rtr_ipv6_config r)) (\<lambda>v6.
     mk_router \<lparr>rt_id = rtr_id r, rt_name = rtr_name r, rt_description = rtr_description r,
       rt_project_id = truthy (rtr_project_id r),
       rt_external_network_id = truthy (rtr_external_network_id r),
       rt_internal_network_ids = rtr_internal_network_ids r, rt_static_routes = srs, rt_status = st,
       rt_admin_state_up = rtr_admin_state_up r, rt_ha_mode = ha,
       rt_vrrp_priority = rtr_vrrp_priority r, rt_vrrp_vrid = rtr_vrrp_vrid r, rt_ipv6_config = v6,
       rt_applied_config = rtr_applied_config r, rt_applied_at = rtr_applied_at r,
       rt_labels = rtr_labels r, rt_created_at = rtr_created_at r, rt_updated_at = rtr_updated_at r\<rparr>))))"

definition storable_router :: "router \<Rightarrow> bool" where
  "storable_router e \<longleftrightarrow> mk_router e = Inr e \<and> rt_project_id e \<noteq> Some [] \<and>
     rt_external_network_id e \<noteq> Some [] \<and> sorted (rt_internal_network_ids e) \<and>
     (\<forall>s \<in> set (rt_static_routes e). mk_static_route (srt_destination s) (srt_nexthop s) = Inr s) \<and>
     (\<forall>c \<in> set_option (rt_ipv6_config e). mk_ipv6_config c = Inr c)"

lemma ipv6_config_roundtrip:
  "mk_ipv6_config c = Inr c \<Longrightarrow> ipv6_config_from_dict (ipv6_config_to_dict c) = Inr c"
  by (simp add: ipv6_config_from_dict_def ipv6_config_to_dict_def enum_simps eta_simps)

lemma router_roundtrip:
  assumes "storable_router e"
  shows "router_from_row (router_to_row e) = Inr e"
proof -
  have s: "traverse route_from_json (List.map route_to_json (rt_static_routes e)) = Inr (rt_static_routes e)"
    using assms
    by (intro traverse_roundtrip) (simp add: route_from_json_def route_to_json_def storable_router_def eta_simps)
  have v: "ipv6_column (map_option ipv6_config_to_dict (rt_ipv6_config e)) = Inr (rt_ipv6_config e)"
    using assms ipv6_config_roundtrip
    by (cases "rt_ipv6_config e") (auto simp: storable_router_def ipv6_config_to_dict_def ipv6_column_def)
  show ?thesis
    using assms
    by (simp add: router_from_row_def router_to_row_def s v enum_simps storable_router_def
        sorted_sort_id eta_simps)
qed

subsection \<open>Floating addresses\<close>

definition floating_ip_to_row :: "floating_ip \<Rightarrow> floating_ip_row" where
  "floating_ip_to_row e =
     \<lparr>fipr_id = fip_id e, fipr_external_network_id = fip_external_network_id e,
      fipr_floating_ip_address = fip_address e, fipr_project_id = fip_project_id e,
      fipr_fixed_ip_address = fip_fixed_address e,
      fipr_logical_port_id = truthy (fip_logical_port_id e), fipr_router_id = truthy (fip_router_id e),
      fipr_status = fip_status_value (fip_status e), fipr_labels = fip_labels e,
      fipr_created_at = fip_created_at e, fipr_updated_at = fip_updated_at e\<rparr>"

definition floating_ip_from_row :: "floating_ip_row \<Rightarrow> exc + floating_ip" where
  "floating_ip_from_row r =
     bindE (fip_status_of (fipr_status r)) (\<lambda>st.
     mk_floating_ip \<lparr>fip_id = fipr_id r, fip_external_network_id = fipr_external_network_id r,
       fip_address = fipr_floating_ip_address r, fip_project_id = truthy (fipr_project_id r),
       fip_fixed_address = fipr_fixed_ip_address r,
       fip_logical_port_id = truthy (fipr_logical_port_id r),
       fip_router_id = truthy (fipr_router_id r), fip_status = st, fip_labels = fipr_labels r,
       fip_created_at = fipr_created_at r, fip_updated_at = fipr_updated_at r\<rparr>)"

definition storable_floating_ip :: "floating_ip \<Rightarrow> bool" where
  "storable_floating_ip e \<longleftrightarrow>
     mk_floating_ip e = Inr e \<and> fip_project_id e \<noteq> Some [] \<and> fip_logical_port_id e \<noteq> Some [] \<and>
     fip_router_id e \<noteq> Some []"

lemma floating_ip_roundtrip:
  "storable_floating_ip e \<Longrightarrow> floating_ip_from_row (floating_ip_to_row e) = Inr e"
  by (cases e) (simp add: floating_ip_from_row_def floating_ip_to_row_def
      storable_floating_ip_def enum_simps eta_simps)

subsection \<open>BGP peers\<close>

definition bgp_peer_to_row :: "bgp_peer \<Rightarrow> bgp_peer_row" where
  "bgp_peer_to_row e =
     \<lparr>bgpr_id = bgp_id e, bgpr_router_id = bgp_router_id e, bgpr_peer_ip = bgp_peer_ip e,
      bgpr_peer_asn = bgp_peer_asn e, bgpr_local_asn = bgp_local_asn e, bgpr_password = bgp_password e,
      bgpr_state = bgp_state_value (bgp_state e), bgpr_project_id = bgp_project_id e,
      bgpr_labels = bgp_labels e, bgpr_created_at = bgp_created_at e, bgpr_updated_at = bgp_updated_at e\<rparr>"

definition bgp_peer_from_row :: "bgp_peer_row \<Rightarrow> exc + bgp_peer" where
  "bgp_peer_from_row r =
     bindE (bgp_state_of (bgpr_state r)) (\<lambda>st.
     mk_bgp_peer \<lparr>bgp_id = bgpr_id r, bgp_router_id = bgpr_router_id r,
       bgp_peer_ip = bgpr_peer_ip r, bgp_peer_asn = bgpr_peer_asn r, bgp_local_asn = bgpr_local_asn r,
       bgp_password = bgpr_password r, bgp_state = st, bgp_project_id = truthy (bgpr_project_id r),
       bgp_labels = bgpr_labels r, bgp_created_at = bgpr_created_at r,
       bgp_updated_at = bgpr_updated_at r\<rparr>)"

definition storable_bgp_peer :: "bgp_peer \<Rightarrow> bool" where
  "storable_bgp_peer e \<longleftrightarrow> mk_bgp_peer e = Inr e \<and> bgp_project_id e \<noteq> Some []"

lemma bgp_peer_roundtrip:
  "storable_bgp_peer e \<Longrightarrow> bgp_peer_from_row (bgp_peer_to_row e) = Inr e"
  by (cases e) (simp add: bgp_peer_from_row_def bgp_peer_to_row_def
      storable_bgp_peer_def enum_simps eta_simps)

subsection \<open>Project quotas\<close>

definition project_quota_to_row :: "project_quota \<Rightarrow> project_quota_row" where
  "project_quota_to_row e =
     \<lparr>pqr_id = pq_id e, pqr_project_id = pq_project_id e, pqr_limits = pq_limits e,
      pqr_created_at = pq_created_at e, pqr_updated_at = pq_updated_at e\<rparr>"

definition project_quota_from_row :: "project_quota_row \<Rightarrow> exc + project_quota" where
  "project_quota_from_row r =
     Inr \<lparr>pq_id = pqr_id r, pq_project_id = pqr_project_id r, pq_limits = pqr_limits r,
       pq_created_at = pqr_created_at r, pq_updated_at = pqr_updated_at r\<rparr>"

definition storable_project_quota :: "project_quota \<Rightarrow> bool" where
  "storable_project_quota e \<longleftrightarrow> True"

lemma project_quota_roundtrip:
  "storable_project_quota e \<Longrightarrow> project_quota_from_row (project_quota_to_row e) = Inr e"
  by (cases e) (simp add: project_quota_from_row_def project_quota_to_row_def
      storable_project_quota_def enum_simps eta_simps)

subsection \<open>Resource snapshots\<close>

definition resource_snapshot_to_row :: "resource_snapshot \<Rightarrow> resource_snapshot_row" where
  "resource_snapshot_to_row e =
     \<lparr>rsr_id = rs_id e, rsr_project_id = rs_project_id e, rsr_version = rs_version e,
      rsr_label = rs_label e, rsr_resource_types = rs_resource_types e, rsr_payload = rs_payload e,
      rsr_created_at = rs_created_at e\<rparr>"

definition resource_snapshot_from_row :: "resource_snapshot_row \<Rightarrow> exc + resource_snapshot" where
  "resource_snapshot_from_row r =
     Inr \<lparr>rs_id = rsr_id r, rs_project_id = rsr_project_id r, rs_version = rsr_version r,
       rs_label = rsr_label r, rs_resource_types = rsr_resource_types r, rs_payload = rsr_payload r,
       rs_created_at = rsr_created_at r\<rparr>"

definition storable_resource_snapshot :: "resource_snapshot \<Rightarrow> bool" where
  "storable_resource_snapshot e \<longleftrightarrow> True"

lemma resource_snapshot_roundtrip:
  "storable_resource_snapshot e \<Longrightarrow> resource_snapshot_from_row (resource_snapshot_to_row e) = Inr e"
  by (cases e) (simp add: resource_snapshot_from_row_def resource_snapshot_to_row_def
      storable_resource_snapshot_def enum_simps eta_simps)

subsection \<open>Retention policies\<close>

definition retention_policy_to_row :: "retention_policy \<Rightarrow> retention_policy_row" where
  "retention_policy_to_row e =
     \<lparr>rpr_id = rp_id e, rpr_scope = retention_value (rp_scope e),
      rpr_retention_days = rp_days e, rpr_project_id = rp_project_id e,
      rpr_description = rp_description e, rpr_created_at = rp_created_at e,
      rpr_updated_at = rp_updated_at e\<rparr>"

definition retention_policy_from_row :: "retention_policy_row \<Rightarrow> exc + retention_policy" where
  "retention_policy_from_row r =
     bindE (retention_of (rpr_scope r)) (\<lambda>sc.
     mk_retention_policy \<lparr>rp_id = rpr_id r, rp_scope = sc, rp_days = rpr_retention_days r,
       rp_project_id = truthy (rpr_project_id r), rp_description = rpr_description r,
       rp_created_at = rpr_created_at r, rp_updated_at = rpr_updated_at r\<rparr>)"

definition storable_retention_policy :: "retention_policy \<Rightarrow> bool" where
  "storable_retention_policy e \<longleftrightarrow> mk_retention_policy e = Inr e \<and> rp_project_id e \<noteq> Some []"

lemma retention_policy_roundtrip:
  "storable_retention_policy e \<Longrightarrow> retention_policy_from_row (retention_policy_to_row e) = Inr e"
  by (cases e) (simp add: retention_policy_from_row_def retention_policy_to_row_def
      storable_retention_policy_def enum_simps eta_simps)

subsection \<open>Gateway bonds\<close>

definition gateway_bond_to_row :: "gateway_bond \<Rightarrow> gateway_bond_row" where
  "gateway_bond_to_row e =
     \<lparr>gbr_id = gb_id e, gbr_name = gb_name e, gbr_node_id = gb_node_id e,
      gbr_bond_name = gb_bond_name e, gbr_mode = bond_mode_value (gb_mode e),
      gbr_members = gb_members e, gbr_mtu = gb_mtu e, gbr_project_id = gb_project_id e,
      gbr_applied_config = gb_applied_config e, gbr_applied_at = gb_applied_at e,
      gbr_labels = gb_labels e, gbr_created_at = gb_created_at e, gbr_updated_at = gb_updated_at e\<rparr>"

definition gateway_bond_from_row :: "gateway_bond_row \<Rightarrow> exc + gateway_bond" where
  "gateway_bond_from_row r =
     bindE (bond_mode_of (gbr_mode r)) (\<lambda>md.
     mk_gateway_bond \<lparr>gb_id = gbr_id r, gb_name = gbr_name r, gb_node_id = gbr_node_id r,
       gb_bond_name = gbr_bond_name r, gb_mode = md, gb_members = gbr_members r, gb_mtu = gbr_mtu r,
       gb_project_id = truthy (gbr_project_id r), gb_applied_config = gbr_applied_config r,
       gb_applied_at = gbr_applied_at r, gb_labels = gbr_labels r, gb_created_at = gbr_created_at r,
       gb_updated_at = gbr_updated_at r\<rparr>)"

definition storable_gateway_bond :: "gateway_bond \<Rightarrow> bool" where
  "storable_gateway_bond e \<longleftrightarrow> mk_gateway_bond e = Inr e \<and> gb_project_id e \<noteq> Some []"

lemma gateway_bond_roundtrip:
  "storable_gateway_bond e \<Longrightarrow> gateway_bond_from_row (gateway_bond_to_row e) = Inr e"
  by (cases e) (simp add: gateway_bond_from_row_def gateway_bond_to_row_def
      storable_gateway_bond_def enum_simps eta_simps)

subsection \<open>Load balancers\<close>

definition load_balancer_to_row :: "load_balancer \<Rightarrow> load_balancer_row" where
  "load_balancer_to_row e =
     \<lparr>lbr_id = lb_id e, lbr_name = lb_name e, lbr_vip_address = lb_vip_address e,
      lbr_vip_network_id = lb_vip_network_id e, lbr_project_id = lb_project_id e,
      lbr_router_id = lb_router_id e, lbr_description = lb_description e, lbr_provider = lb_provider e,
      lbr_status = lb_status_value (lb_status e), lbr_admin_state_up = lb_admin_state_up e,
      lbr_applied_config = lb_applied_config e, lbr_applied_at = lb_applied_at e,
      lbr_labels = lb_labels e, lbr_created_at = lb_created_at e, lbr_updated_at = lb_updated_at e\<rparr>"

definition load_balancer_from_row :: "load_balancer_row \<Rightarrow> exc + load_balancer" where
  "load_balancer_from_row r =
     bindE (lb_status_of (lbr_status r)) (\<lambda>st.
     mk_load_balancer \<lparr>lb_id = lbr_id r, lb_name = lbr_name r,
       lb_vip_address = lbr_vip_address r, lb_vip_network_id = lbr_vip_network_id r,
       lb_project_id = truthy (lbr_project_id r), lb_router_id = truthy (lbr_router_id r),
       lb_description = lbr_description r, lb_provider = lbr_provider r, lb_status = st,
       lb_admin_state_up = lbr_admin_state_up r, lb_applied_config = lbr_applied_config r,
       lb_applied_at = lbr_applied_at r, lb_labels = lbr_labels r, lb_created_at = lbr_created_at r,
       lb_updated_at = lbr_updated_at r\<rparr>)"

definition storable_load_balancer :: "load_balancer \<Rightarrow> bool" where
  "storable_load_balancer e \<longleftrightarrow>
     mk_load_balancer e = Inr e \<and> lb_project_id e \<noteq> Some [] \<and> lb_router_id e \<noteq> Some []"

lemma load_balancer_roundtrip:
  "storable_load_balancer e \<Longrightarrow> load_balancer_from_row (load_balancer_to_row e) = Inr e"
  by (cases e) (simp add: load_balancer_from_row_def load_balancer_to_row_def
      storable_load_balancer_def enum_simps eta_simps)

definition lb_listener_to_row :: "lb_listener \<Rightarrow> lb_listener_row" where
  "lb_listener_to_row e =
     \<lparr>llr_id = ll_id e, llr_name = ll_name e, llr_lb_id = ll_lb_id e,
      llr_protocol = lb_protocol_value (ll_protocol e), llr_protocol_port = ll_port e,
      llr_default_pool_id = ll_default_pool_id e, llr_description = ll_description e,
      llr_labels = ll_labels e, llr_created_at = ll_created_at e, llr_updated_at = ll_updated_at e\<rparr>"

definition lb_listener_from_row :: "lb_listener_row \<Rightarrow> exc + lb_listener" where
  "lb_listener_from_row r =
     bindE (lb_protocol_of (llr_protocol r)) (\<lambda>pt.
     mk_lb_listener \<lparr>ll_id = llr_id r, ll_name = llr_name r, ll_lb_id = llr_lb_id r,
       ll_protocol = pt, ll_port = llr_protocol_port r,
       ll_default_pool_id = truthy (llr_default_pool_id r), ll_description = llr_description r,
       ll_labels = llr_labels r, ll_created_at = llr_created_at r, ll_updated_at = llr_updated_at r\<rparr>)"

definition storable_lb_listener :: "lb_listener \<Rightarrow> bool" where
  "storable_lb_listener e \<longleftrightarrow> mk_lb_listener e = Inr e \<and> ll_default_pool_id e \<noteq> Some []"

lemma lb_listener_roundtrip:
  "storable_lb_listener e \<Longrightarrow> lb_listener_from_row (lb_listener_to_row e) = Inr e"
  by (cases e) (simp add: lb_listener_from_row_def lb_listener_to_row_def
      storable_lb_listener_def enum_simps eta_simps)

definition lb_pool_to_row :: "lb_pool \<Rightarrow> lb_pool_row" where
  "lb_pool_to_row e =
     \<lparr>lplr_id = lpl_id e, lplr_name = lpl_name e, lplr_lb_id = lpl_lb_id e,
      lplr_protocol = lb_protocol_value (lpl_protocol e),
      lplr_lb_algorithm = lb_algorithm_value (lpl_algorithm e),
      lplr_session_persistence = persistence_value (lpl_persistence e),
      lplr_description = lpl_description e, lplr_labels = lpl_labels e,
      lplr_created_at = lpl_created_at e, lplr_updated_at = lpl_updated_at e\<rparr>"

definition lb_pool_from_row :: "lb_pool_row \<Rightarrow> exc + lb_pool" where
  "lb_pool_from_row r =
     bindE (lb_protocol_of (lplr_protocol r)) (\<lambda>pt.
     bindE (lb_algorithm_of (lplr_lb_algorithm r)) (\<lambda>al.
     bindE (persistence_of (lplr_session_persistence r)) (\<lambda>ps.
     Inr \<lparr>lpl_id = lplr_id r, lpl_name = lplr_name r, lpl_lb_id = lplr_lb_id r,
       lpl_protocol = pt, lpl_algorithm = al, lpl_persistence = ps,
       lpl_description = lplr_description r, lpl_labels = lplr_labels r,
       lpl_created_at = lplr_created_at r, lpl_updated_at = lplr_updated_at r\<rparr>)))"

definition storable_lb_pool :: "lb_pool \<Rightarrow> bool" where
  "storable_lb_pool e \<longleftrightarrow> True"

lemma lb_pool_roundtrip:
  "storable_lb_pool e \<Longrightarrow> lb_pool_from_row (lb_pool_to_row e) = Inr e"
  by (cases e) (simp add: lb_pool_from_row_def lb_pool_to_row_def
      storable_lb_pool_def enum_simps eta_simps)

definition lb_member_to_row :: "lb_member \<Rightarrow> lb_member_row" where
  "lb_member_to_row e =
     \<lparr>lbmr_id = lbm_id e, lbmr_pool_id = lbm_pool_id e, lbmr_address = lbm_address e,
      lbmr_protocol_port = lbm_port e, lbmr_weight = lbm_weight e,
      lbmr_admin_state_up = lbm_admin_state_up e, lbmr_created_at = lbm_created_at e,
      lbmr_updated_at = lbm_updated_at e\<rparr>"

definition lb_member_from_row :: "lb_member_row \<Rightarrow> exc + lb_member" where
  "lb_member_from_row r =
     mk_lb_member \<lparr>lbm_id = lbmr_id r, lbm_pool_id = lbmr_pool_id r,
       lbm_address = lbmr_address r, lbm_port = lbmr_protocol_port r, lbm_weight = lbmr_weight r,
       lbm_admin_state_up = lbmr_admin_state_up r, lbm_created_at = lbmr_created_at r,
       lbm_updated_at = lbmr_updated_at r\<rparr>"

definition storable_lb_member :: "lb_member \<Rightarrow> bool" where
  "storable_lb_member e \<longleftrightarrow> mk_lb_member e = Inr e"

lemma lb_member_roundtrip:
  "storable_lb_member e \<Longrightarrow> lb_member_from_row (lb_member_to_row e) = Inr e"
  by (cases e) (simp add: lb_member_from_row_def lb_member_to_row_def
      storable_lb_member_def enum_simps eta_simps)

subsection \<open>Health monitors\<close>

definition health_monitor_to_row :: "health_monitor \<Rightarrow> health_monitor_row" where
  "health_monitor_to_row e =
     \<lparr>hmr_id = hm_id e, hmr_pool_id = hm_pool_id e,
      hmr_check_type = health_check_value (hm_check_type e), hmr_delay = hm_delay e,
      hmr_timeout = hm_timeout e, hmr_max_retries = hm_max_retries e, hmr_url_path = hm_url_path e,
      hmr_http_method = hm_http_method e, hmr_expected_codes = hm_expected_codes e,
      hmr_created_at = hm_created_at e, hmr_updated_at = hm_updated_at e\<rparr>"

definition health_monitor_from_row :: "health_monitor_row \<Rightarrow> exc + health_monitor" where
  "health_monitor_from_row r =
     bindE (health_check_of (hmr_check_type r)) (\<lambda>ck.
     mk_health_monitor \<lparr>hm_id = hmr_id r, hm_pool_id = hmr_pool_id r, hm_check_type = ck,
       hm_delay = hmr_delay r, hm_timeout = hmr_timeout r, hm_max_retries = hmr_max_retries r,
       hm_url_path = hmr_url_path r, hm_http_method = hmr_http_method r,
       hm_expected_codes = hmr_expected_codes r, hm_created_at = hmr_created_at r,
       hm_updated_at = hmr_updated_at r\<rparr>)"

definition storable_health_monitor :: "health_monitor \<Rightarrow> bool" where
  "storable_health_monitor e \<longleftrightarrow> mk_health_monitor e = Inr e"

lemma health_monitor_roundtrip:
  "storable_health_monitor e \<Longrightarrow> health_monitor_from_row (health_monitor_to_row e) = Inr e"
  by (cases e) (simp add: health_monitor_from_row_def health_monitor_to_row_def
      storable_health_monitor_def enum_simps eta_simps)

subsection \<open>Apply schedules\<close>

definition apply_schedule_to_row :: "apply_schedule \<Rightarrow> apply_schedule_row" where
  "apply_schedule_to_row e =
     \<lparr>schr_id = sch_id e, schr_name = sch_name e, schr_cron_expr = sch_cron_expr e,
      schr_target_type = target_value (sch_target_type e), schr_target_id = sch_target_id e,
      schr_enabled = sch_enabled e, schr_project_id = sch_project_id e,
      schr_status = schedule_status_value (sch_status e), schr_last_run_at = sch_last_run_at e,
      schr_last_run_status = sch_last_run_status e, schr_labels = sch_labels e,
      schr_created_at = sch_created_at e, schr_updated_at = sch_updated_at e\<rparr>"

definition apply_schedule_from_row :: "apply_schedule_row \<Rightarrow> exc + apply_schedule" where
  "apply_schedule_from_row r =
     bindE (target_of (schr_target_type r)) (\<lambda>tg.
     bindE (schedule_status_of (schr_status r)) (\<lambda>st.
     mk_apply_schedule \<lparr>sch_id = schr_id r, sch_name = schr_name r,
       sch_cron_expr = schr_cron_expr r, sch_target_type = tg, sch_target_id = schr_target_id r,
       sch_enabled = schr_enabled r, sch_project_id = truthy (schr_project_id r),
       sch_last_run_at = schr_last_run_at r, sch_last_run_status = schr_last_run_status r,
       sch_status = st, sch_labels = schr_labels r, sch_created_at = schr_created_at r,
       sch_updated_at = schr_updated_at r\<rparr>))"

definition storable_apply_schedule :: "apply_schedule \<Rightarrow> bool" where
  "storable_apply_schedule e \<longleftrightarrow> mk_apply_schedule e = Inr e \<and> sch_project_id e \<noteq> Some []"

lemma apply_schedule_roundtrip:
  "storable_apply_schedule e \<Longrightarrow> apply_schedule_from_row (apply_schedule_to_row e) = Inr e"
  by (cases e) (simp add: apply_schedule_from_row_def apply_schedule_to_row_def
      storable_apply_schedule_def enum_simps eta_simps)

subsection \<open>Traffic mirrors\<close>

definition mirror_session_to_row :: "mirror_session \<Rightarrow> mirror_session_row" where
  "mirror_session_to_row e =
     \<lparr>msr_id = ms_id e, msr_name = ms_name e, msr_source_port_id = ms_source_port_id e,
      msr_direction = mirror_value (ms_direction e), msr_destination_port_id = ms_dest_port_id e,
      msr_destination_ip = ms_dest_ip e, msr_filter_vlan = ms_filter_vlan e,
      msr_project_id = ms_project_id e, msr_status = mirror_status_value (ms_status e),
      msr_applied_config = ms_applied_config e, msr_applied_at = ms_applied_at e,
      msr_labels = ms_labels e, msr_created_at = ms_created_at e, msr_updated_at = ms_updated_at e\<rparr>"

definition mirror_session_from_row :: "mirror_session_row \<Rightarrow> exc + mirror_session" where
  "mirror_session_from_row r =
     bindE (mirror_direction_of (msr_direction r)) (\<lambda>di.
     bindE (mirror_status_of (msr_status r)) (\<lambda>st.
     mk_mirror_session \<lparr>ms_id = msr_id r, ms_name = msr_name r,
       ms_source_port_id = msr_source_port_id r, ms_direction = di,
       ms_dest_port_id = truthy (msr_destination_port_id r), ms_dest_ip = msr_destination_ip r,
       ms_filter_vlan = msr_filter_vlan r, ms_project_id = truthy (msr_project_id r), ms_status = st,
       ms_applied_config = msr_applied_config r, ms_applied_at = msr_applied_at r,
       ms_labels = msr_labels r, ms_created_at = msr_created_at r, ms_updated_at = msr_updated_at r\<rparr>))"

definition storable_mirror_session :: "mirror_session \<Rightarrow> bool" where
  "storable_mirror_session e \<longleftrightarrow>
     mk_mirror_session e = Inr e \<and> ms_dest_port_id e \<noteq> Some [] \<and> ms_project_id e \<noteq> Some []"

lemma mirror_session_roundtrip:
  "storable_mirror_session e \<Longrightarrow> mirror_session_from_row (mirror_session_to_row e) = Inr e"
  by (cases e) (simp add: mirror_session_from_row_def mirror_session_to_row_def
      storable_mirror_session_def enum_simps eta_simps)

subsection \<open>VPN tunnels and peers\<close>

definition vpn_tunnel_to_row :: "vpn_tunnel \<Rightarrow> vpn_tunnel_row" where
  "vpn_tunnel_to_row e =
     \<lparr>vtr_id = vt_id e, vtr_name = vt_name e, vtr_protocol = vpn_value (vt_protocol e),
      vtr_local_endpoint = vt_local_endpoint e, vtr_remote_endpoint = vt_remote_endpoint e,
      vtr_local_public_key = vt_local_public_key e, vtr_remote_public_key = vt_remote_public_key e,
      vtr_listen_port = vt_listen_port e, vtr_preshared_key = vt_preshared_key e,
      vtr_project_id = vt_project_id e, vtr_status = vpn_status_value (vt_status e),
      vtr_applied_config = vt_applied_config e, vtr_applied_at = vt_applied_at e,
      vtr_labels = vt_labels e, vtr_created_at = vt_created_at e, vtr_updated_at = vt_updated_at e\<rparr>"

definition vpn_tunnel_from_row :: "vpn_tunnel_row \<Rightarrow> exc + vpn_tunnel" where
  "vpn_tunnel_from_row r =
     bindE (vpn_of (vtr_protocol r)) (\<lambda>pt.
     bindE (vpn_status_of (vtr_status r)) (\<lambda>st.
     mk_vpn_tunnel \<lparr>vt_id = vtr_id r, vt_name = vtr_name r, vt_protocol = pt,
       vt_local_endpoint = vtr_local_endpoint r, vt_remote_endpoint = vtr_remote_endpoint r,
       vt_local_public_key = vtr_local_public_key r, vt_remote_public_key = vtr_remote_public_key r,
       vt_listen_port = vtr_listen_port r, vt_preshared_key = vtr_preshared_key r,
       vt_project_id = truthy (vtr_project_id r), vt_status = st,
       vt_applied_config = vtr_applied_config r, vt_applied_at = vtr_applied_at r,
       vt_labels = vtr_labels r, vt_created_at = vtr_created_at r, vt_updated_at = vtr_updated_at r\<rparr>))"

definition storable_vpn_tunnel :: "vpn_tunnel \<Rightarrow> bool" where
  "storable_vpn_tunnel e \<longleftrightarrow> mk_vpn_tunnel e = Inr e \<and> vt_project_id e \<noteq> Some []"

lemma vpn_tunnel_roundtrip:
  "storable_vpn_tunnel e \<Longrightarrow> vpn_tunnel_from_row (vpn_tunnel_to_row e) = Inr e"
  by (cases e) (simp add: vpn_tunnel_from_row_def vpn_tunnel_to_row_def
      storable_vpn_tunnel_def enum_simps eta_simps)

definition vpn_peer_to_row :: "vpn_peer \<Rightarrow> vpn_peer_row" where
  "vpn_peer_to_row e =
     \<lparr>vpr_id = vp_id e, vpr_tunnel_id = vp_tunnel_id e, vpr_public_key = vp_public_key e,
      vpr_endpoint = vp_endpoint e, vpr_allowed_ips = vp_allowed_ips e,
      vpr_persistent_keepalive = vp_keepalive e, vpr_created_at = vp_created_at e,
      vpr_updated_at = vp_updated_at e\<rparr>"

definition vpn_peer_from_row :: "vpn_peer_row \<Rightarrow> exc + vpn_peer" where
  "vpn_peer_from_row r =
     mk_vpn_peer \<lparr>vp_id = vpr_id r, vp_tunnel_id = vpr_tunnel_id r,
       vp_public_key = vpr_public_key r, vp_allowed_ips = vpr_allowed_ips r,
       vp_endpoint = vpr_endpoint r, vp_keepalive = vpr_persistent_keepalive r,
       vp_created_at = vpr_created_at r, vp_updated_at = vpr_updated_at r\<rparr>"

definition storable_vpn_peer :: "vpn_peer \<Rightarrow> bool" where
  "storable_vpn_peer e \<longleftrightarrow> mk_vpn_peer e = Inr e"

lemma vpn_peer_roundtrip:
  "storable_vpn_peer e \<Longrightarrow> vpn_peer_from_row (vpn_peer_to_row e) = Inr e"
  by (cases e) (simp add: vpn_peer_from_row_def vpn_peer_to_row_def
      storable_vpn_peer_def enum_simps eta_simps)

end
