(* ===== verification/Sql_Catalogue_Repositories.thy ===== *)
theory Sql_Catalogue_Repositories
  imports Sql_Table Sql_Catalogue_Mappers
begin

text \<open>
  The SQL repositories of the catalogue (N1 to N5, \<open>adapters/sql/repositories.py\<close>). \<open>X_row_update\<close> is
  what \<open>save\<close> writes into a row that exists; \<open>same_X\<close> says which fields it leaves alone and so must
  not have changed. Each repository is an interpretation of \<open>sql_repo\<close>.
\<close>

subsection \<open>Logical ports\<close>

definition logical_port_row_update :: "logical_port_row \<Rightarrow> logical_port \<Rightarrow> logical_port_row" where
  "logical_port_row_update r e =
     r\<lparr>lpr_name := lp_name e, lpr_node_id := lp_node_id e, lpr_network_id := lp_network_id e,
       lpr_vif_id := lp_vif_id e, lpr_mac_address := lp_mac_address e,
       lpr_ip_address := lp_ip_address e, lpr_status := lport_status_value (lp_status e),
       lpr_project_id := lp_project_id e, lpr_labels := lp_labels e, lpr_updated_at := lp_updated_at e\<rparr>"

definition same_logical_port :: "logical_port \<Rightarrow> logical_port \<Rightarrow> bool" where
  "same_logical_port e0 e \<longleftrightarrow> lp_created_at e0 = lp_created_at e"

definition sql_logical_port_save ::
  "('t, logical_port_row) table_ops \<Rightarrow> logical_port \<Rightarrow> 't \<Rightarrow> sql_error + 't" where
  "sql_logical_port_save = (\<lambda>T e. sql_save lpr_id T (logical_port_to_row e)
      (\<lambda>r. logical_port_row_update r e))"

definition sql_logical_port_get ::
  "('t, logical_port_row) table_ops \<Rightarrow> string \<Rightarrow> 't \<Rightarrow> sql_error + logical_port option" where
  "sql_logical_port_get = sql_get lpr_id logical_port_from_row"

definition sql_logical_port_delete :: "('t, logical_port_row) table_ops \<Rightarrow> string \<Rightarrow> 't \<Rightarrow> 't" where
  "sql_logical_port_delete = sql_remove lpr_id"

interpretation logical_port_sql: sql_repo lpr_id lp_id logical_port_to_row logical_port_from_row
    logical_port_row_update storable_logical_port same_logical_port
  by unfold_locales (simp_all add: logical_port_roundtrip,
     simp_all add: logical_port_to_row_def logical_port_row_update_def same_logical_port_def)

lemma sql_logical_port_repository:
  "like_dictionary lpr_id lp_id logical_port_to_row storable_logical_port same_logical_port
     sql_logical_port_get sql_logical_port_save sql_logical_port_delete"
  unfolding sql_logical_port_get_def sql_logical_port_save_def sql_logical_port_delete_def
  by (rule logical_port_sql.repository_like_dictionary)

definition sql_logical_port_list ::
  "('t, logical_port_row) table_ops \<Rightarrow> string option \<Rightarrow> string option \<Rightarrow> string option \<Rightarrow>
     't \<Rightarrow> sql_error + logical_port list" where
  "sql_logical_port_list T nid net pid t = sql_all logical_port_from_row
     (sort_key lpr_created_at (filter
      (\<lambda>r. where_eq nid (lpr_node_id r) \<and> where_eq net (lpr_network_id r) \<and> where_opt pid (lpr_project_id r)) (tb_rows T t)))"

definition sql_logical_port_delete_for_node ::
  "('t, logical_port_row) table_ops \<Rightarrow> string \<Rightarrow> 't \<Rightarrow> 't" where
  "sql_logical_port_delete_for_node T nid = tb_delete T (\<lambda>r. lpr_node_id r = nid)"

subsection \<open>Security groups and members\<close>

definition security_group_row_update ::
  "security_group_row \<Rightarrow> security_group \<Rightarrow> security_group_row" where
  "security_group_row_update r e =
     r\<lparr>sgr_name := sg_name e, sgr_description := sg_description e,
       sgr_project_id := sg_project_id e, sgr_labels := sg_labels e, sgr_updated_at := sg_updated_at e\<rparr>"

definition same_security_group :: "security_group \<Rightarrow> security_group \<Rightarrow> bool" where
  "same_security_group e0 e \<longleftrightarrow> sg_created_at e0 = sg_created_at e"

definition sql_security_group_save ::
  "('t, security_group_row) table_ops \<Rightarrow> security_group \<Rightarrow> 't \<Rightarrow> sql_error + 't" where
  "sql_security_group_save = (\<lambda>T e. sql_save sgr_id T (security_group_to_row e)
      (\<lambda>r. security_group_row_update r e))"

definition sql_security_group_get ::
  "('t, security_group_row) table_ops \<Rightarrow> string \<Rightarrow> 't \<Rightarrow> sql_error + security_group option" where
  "sql_security_group_get = sql_get sgr_id security_group_from_row"

definition sql_security_group_delete ::
  "('t, security_group_row) table_ops \<Rightarrow> string \<Rightarrow> 't \<Rightarrow> 't" where
  "sql_security_group_delete = sql_remove sgr_id"

interpretation security_group_sql: sql_repo sgr_id sg_id security_group_to_row security_group_from_row
    security_group_row_update storable_security_group same_security_group
  by unfold_locales (simp_all add: security_group_roundtrip,
     simp_all add: security_group_to_row_def security_group_row_update_def same_security_group_def)

lemma sql_security_group_repository:
  "like_dictionary sgr_id sg_id security_group_to_row storable_security_group same_security_group
     sql_security_group_get sql_security_group_save sql_security_group_delete"
  unfolding sql_security_group_get_def sql_security_group_save_def sql_security_group_delete_def
  by (rule security_group_sql.repository_like_dictionary)

definition sql_security_group_list ::
  "('t, security_group_row) table_ops \<Rightarrow> string option \<Rightarrow> 't \<Rightarrow> sql_error + security_group list" where
  "sql_security_group_list T pid t = sql_all security_group_from_row
     (sort_key sgr_name (filter (\<lambda>r. where_opt pid (sgr_project_id r)) (tb_rows T t)))"

definition sgm_key :: "sg_member_row \<Rightarrow> string \<times> string \<times> string" where
  "sgm_key r = (sgmr_sg_id r, sgmr_member_type r, sgmr_member_value r)"

definition sql_sg_member_add ::
  "('t, sg_member_row) table_ops \<Rightarrow> sg_member \<Rightarrow> 't \<Rightarrow> sql_error + 't" where
  "sql_sg_member_add = (\<lambda>T e. sql_merge sgm_key T (sg_member_to_row e))"

definition sql_sg_member_remove ::
  "('t, sg_member_row) table_ops \<Rightarrow> string \<times> string \<times> string \<Rightarrow> 't \<Rightarrow> 't" where
  "sql_sg_member_remove = sql_remove sgm_key"

definition sql_sg_members_for_group ::
  "('t, sg_member_row) table_ops \<Rightarrow> string \<Rightarrow> 't \<Rightarrow> sql_error + sg_member list" where
  "sql_sg_members_for_group T gid t = sql_all sg_member_from_row
     (sort_key sgmr_member_type (sort_key sgmr_member_value
        (filter (\<lambda>r. sgmr_sg_id r = gid) (tb_rows T t))))"

definition sql_sg_member_delete_for_group ::
  "('t, sg_member_row) table_ops \<Rightarrow> string \<Rightarrow> 't \<Rightarrow> 't" where
  "sql_sg_member_delete_for_group T gid = tb_delete T (\<lambda>r. sgmr_sg_id r = gid)"

interpretation sg_member_sql: sql_repo sgm_key "\<lambda>e. (sgm_sg_id e, sgm_type e, sgm_value e)" sg_member_to_row
    sg_member_from_row "\<lambda>_. sg_member_to_row" storable_sg_member "\<lambda>_ _. True"
  by unfold_locales (simp_all add: sg_member_roundtrip,
     simp_all add: sgm_key_def sg_member_to_row_def)

subsection \<open>Address pools\<close>

definition address_pool_row_update :: "address_pool_row \<Rightarrow> address_pool \<Rightarrow> address_pool_row" where
  "address_pool_row_update r e =
     r\<lparr>apr_name := ap_name e, apr_description := ap_description e,
       apr_project_id := ap_project_id e, apr_cidrs := ap_cidrs e, apr_labels := ap_labels e,
       apr_updated_at := ap_updated_at e\<rparr>"

definition same_address_pool :: "address_pool \<Rightarrow> address_pool \<Rightarrow> bool" where
  "same_address_pool e0 e \<longleftrightarrow> ap_created_at e0 = ap_created_at e"

definition sql_address_pool_save ::
  "('t, address_pool_row) table_ops \<Rightarrow> address_pool \<Rightarrow> 't \<Rightarrow> sql_error + 't" where
  "sql_address_pool_save = (\<lambda>T e. sql_save apr_id T (address_pool_to_row e)
      (\<lambda>r. address_pool_row_update r e))"

definition sql_address_pool_get ::
  "('t, address_pool_row) table_ops \<Rightarrow> string \<Rightarrow> 't \<Rightarrow> sql_error + address_pool option" where
  "sql_address_pool_get = sql_get apr_id address_pool_from_row"

definition sql_address_pool_delete :: "('t, address_pool_row) table_ops \<Rightarrow> string \<Rightarrow> 't \<Rightarrow> 't" where
  "sql_address_pool_delete = sql_remove apr_id"

interpretation address_pool_sql: sql_repo apr_id ap_id address_pool_to_row address_pool_from_row
    address_pool_row_update storable_address_pool same_address_pool
  by unfold_locales (simp_all add: address_pool_roundtrip,
     simp_all add: address_pool_to_row_def address_pool_row_update_def same_address_pool_def)

lemma sql_address_pool_repository:
  "like_dictionary apr_id ap_id address_pool_to_row storable_address_pool same_address_pool
     sql_address_pool_get sql_address_pool_save sql_address_pool_delete"
  unfolding sql_address_pool_get_def sql_address_pool_save_def sql_address_pool_delete_def
  by (rule address_pool_sql.repository_like_dictionary)

definition sql_address_pool_list ::
  "('t, address_pool_row) table_ops \<Rightarrow> string option \<Rightarrow> 't \<Rightarrow> sql_error + address_pool list" where
  "sql_address_pool_list T pid t = sql_all address_pool_from_row
     (sort_key apr_name (filter (\<lambda>r. where_opt pid (apr_project_id r)) (tb_rows T t)))"

subsection \<open>Service objects\<close>

definition service_object_row_update ::
  "service_object_row \<Rightarrow> service_object \<Rightarrow> service_object_row" where
  "service_object_row_update r e =
     r\<lparr>sor_name := so_name e, sor_description := so_description e,
       sor_project_id := so_project_id e, sor_protocol := so_protocol e, sor_ports := so_ports e,
       sor_labels := so_labels e, sor_updated_at := so_updated_at e\<rparr>"

definition same_service_object :: "service_object \<Rightarrow> service_object \<Rightarrow> bool" where
  "same_service_object e0 e \<longleftrightarrow> so_created_at e0 = so_created_at e"

definition sql_service_object_save ::
  "('t, service_object_row) table_ops \<Rightarrow> service_object \<Rightarrow> 't \<Rightarrow> sql_error + 't" where
  "sql_service_object_save = (\<lambda>T e. sql_save sor_id T (service_object_to_row e)
      (\<lambda>r. service_object_row_update r e))"

definition sql_service_object_get ::
  "('t, service_object_row) table_ops \<Rightarrow> string \<Rightarrow> 't \<Rightarrow> sql_error + service_object option" where
  "sql_service_object_get = sql_get sor_id service_object_from_row"

definition sql_service_object_delete ::
  "('t, service_object_row) table_ops \<Rightarrow> string \<Rightarrow> 't \<Rightarrow> 't" where
  "sql_service_object_delete = sql_remove sor_id"

interpretation service_object_sql: sql_repo sor_id so_id service_object_to_row service_object_from_row
    service_object_row_update storable_service_object same_service_object
  by unfold_locales (simp_all add: service_object_roundtrip,
     simp_all add: service_object_to_row_def service_object_row_update_def same_service_object_def)

lemma sql_service_object_repository:
  "like_dictionary sor_id so_id service_object_to_row storable_service_object same_service_object
     sql_service_object_get sql_service_object_save sql_service_object_delete"
  unfolding sql_service_object_get_def sql_service_object_save_def sql_service_object_delete_def
  by (rule service_object_sql.repository_like_dictionary)

definition sql_service_object_list ::
  "('t, service_object_row) table_ops \<Rightarrow> string option \<Rightarrow> 't \<Rightarrow> sql_error + service_object list" where
  "sql_service_object_list T pid t = sql_all service_object_from_row
     (sort_key sor_name (filter (\<lambda>r. where_opt pid (sor_project_id r)) (tb_rows T t)))"

subsection \<open>QoS policies\<close>

definition qos_policy_row_update :: "qos_policy_row \<Rightarrow> qos_policy \<Rightarrow> qos_policy_row" where
  "qos_policy_row_update r e =
     r\<lparr>qpr_name := qp_name e, qpr_description := qp_description e,
       qpr_project_id := qp_project_id e, qpr_ingress_kbps := qp_ingress_kbps e,
       qpr_egress_kbps := qp_egress_kbps e, qpr_burst_kb := qp_burst_kb e, qpr_dscp := qp_dscp e,
       qpr_labels := qp_labels e, qpr_updated_at := qp_updated_at e\<rparr>"

definition same_qos_policy :: "qos_policy \<Rightarrow> qos_policy \<Rightarrow> bool" where
  "same_qos_policy e0 e \<longleftrightarrow> qp_created_at e0 = qp_created_at e"

definition sql_qos_policy_save ::
  "('t, qos_policy_row) table_ops \<Rightarrow> qos_policy \<Rightarrow> 't \<Rightarrow> sql_error + 't" where
  "sql_qos_policy_save = (\<lambda>T e. sql_save qpr_id T (qos_policy_to_row e) (\<lambda>r. qos_policy_row_update r e))"

definition sql_qos_policy_get ::
  "('t, qos_policy_row) table_ops \<Rightarrow> string \<Rightarrow> 't \<Rightarrow> sql_error + qos_policy option" where
  "sql_qos_policy_get = sql_get qpr_id qos_policy_from_row"

definition sql_qos_policy_delete :: "('t, qos_policy_row) table_ops \<Rightarrow> string \<Rightarrow> 't \<Rightarrow> 't" where
  "sql_qos_policy_delete = sql_remove qpr_id"

interpretation qos_policy_sql: sql_repo qpr_id qp_id qos_policy_to_row qos_policy_from_row
    qos_policy_row_update storable_qos_policy same_qos_policy
  by unfold_locales (simp_all add: qos_policy_roundtrip,
     simp_all add: qos_policy_to_row_def qos_policy_row_update_def same_qos_policy_def)

lemma sql_qos_policy_repository:
  "like_dictionary qpr_id qp_id qos_policy_to_row storable_qos_policy same_qos_policy
     sql_qos_policy_get sql_qos_policy_save sql_qos_policy_delete"
  unfolding sql_qos_policy_get_def sql_qos_policy_save_def sql_qos_policy_delete_def
  by (rule qos_policy_sql.repository_like_dictionary)

definition sql_qos_policy_list ::
  "('t, qos_policy_row) table_ops \<Rightarrow> string option \<Rightarrow> 't \<Rightarrow> sql_error + qos_policy list" where
  "sql_qos_policy_list T pid t = sql_all qos_policy_from_row
     (sort_key qpr_name (filter (\<lambda>r. where_opt pid (qpr_project_id r)) (tb_rows T t)))"

subsection \<open>Security policies\<close>

text \<open>The rules of an existing policy are deleted and written anew.\<close>

definition security_policy_row_update ::
  "security_policy_row \<Rightarrow> security_policy \<Rightarrow> security_policy_row" where
  "security_policy_row_update r e =
     r\<lparr>spr_name := sp_name e, spr_description := sp_description e, spr_project_id := sp_project_id e,
       spr_labels := sp_labels e, spr_status := policy_status_value (sp_status e),
       spr_compiled_ruleset := sp_compiled_ruleset e, spr_compiled_at := sp_compiled_at e,
       spr_applied_at := sp_applied_at e, spr_updated_at := sp_updated_at e,
       spr_rules := List.map (policy_rule_to_row (sp_id e)) (sp_rules e)\<rparr>"

definition same_security_policy :: "security_policy \<Rightarrow> security_policy \<Rightarrow> bool" where
  "same_security_policy e0 e \<longleftrightarrow> sp_created_at e0 = sp_created_at e"

definition sql_security_policy_save ::
  "('t, security_policy_row) table_ops \<Rightarrow> security_policy \<Rightarrow> 't \<Rightarrow> sql_error + 't" where
  "sql_security_policy_save = (\<lambda>T e. sql_save spr_id T (security_policy_to_row e)
      (\<lambda>r. security_policy_row_update r e))"

definition sql_security_policy_get ::
  "('t, security_policy_row) table_ops \<Rightarrow> string \<Rightarrow> 't \<Rightarrow> sql_error + security_policy option" where
  "sql_security_policy_get = sql_get spr_id security_policy_from_row"

definition sql_security_policy_delete ::
  "('t, security_policy_row) table_ops \<Rightarrow> string \<Rightarrow> 't \<Rightarrow> 't" where
  "sql_security_policy_delete = sql_remove spr_id"

interpretation security_policy_sql: sql_repo spr_id sp_id security_policy_to_row security_policy_from_row
    security_policy_row_update storable_security_policy same_security_policy
  by unfold_locales (simp_all add: security_policy_roundtrip,
     simp_all add: security_policy_to_row_def security_policy_row_update_def same_security_policy_def)

lemma sql_security_policy_repository:
  "like_dictionary spr_id sp_id security_policy_to_row storable_security_policy same_security_policy
     sql_security_policy_get sql_security_policy_save sql_security_policy_delete"
  unfolding sql_security_policy_get_def sql_security_policy_save_def sql_security_policy_delete_def
  by (rule security_policy_sql.repository_like_dictionary)

definition sql_security_policy_list ::
  "('t, security_policy_row) table_ops \<Rightarrow> string option \<Rightarrow> 't \<Rightarrow> sql_error + security_policy list" where
  "sql_security_policy_list T pid t = sql_all security_policy_from_row
     (sort_key spr_name (filter (\<lambda>r. where_opt pid (spr_project_id r)) (tb_rows T t)))"

subsection \<open>Trunk ports\<close>

definition trunk_port_row_update :: "trunk_port_row \<Rightarrow> trunk_port \<Rightarrow> trunk_port_row" where
  "trunk_port_row_update r e =
     r\<lparr>tpr_name := tp_name e, tpr_node_id := tp_node_id e,
       tpr_logical_port_id := truthy (tp_logical_port_id e), tpr_vlan_ids := tp_vlan_ids e,
       tpr_native_vlan := tp_native_vlan e, tpr_project_id := tp_project_id e,
       tpr_labels := tp_labels e, tpr_updated_at := tp_updated_at e\<rparr>"

definition same_trunk_port :: "trunk_port \<Rightarrow> trunk_port \<Rightarrow> bool" where
  "same_trunk_port e0 e \<longleftrightarrow> tp_created_at e0 = tp_created_at e"

definition sql_trunk_port_save ::
  "('t, trunk_port_row) table_ops \<Rightarrow> trunk_port \<Rightarrow> 't \<Rightarrow> sql_error + 't" where
  "sql_trunk_port_save = (\<lambda>T e. sql_save tpr_id T (trunk_port_to_row e) (\<lambda>r. trunk_port_row_update r e))"

definition sql_trunk_port_get ::
  "('t, trunk_port_row) table_ops \<Rightarrow> string \<Rightarrow> 't \<Rightarrow> sql_error + trunk_port option" where
  "sql_trunk_port_get = sql_get tpr_id trunk_port_from_row"

definition sql_trunk_port_delete :: "('t, trunk_port_row) table_ops \<Rightarrow> string \<Rightarrow> 't \<Rightarrow> 't" where
  "sql_trunk_port_delete = sql_remove tpr_id"

interpretation trunk_port_sql: sql_repo tpr_id tp_id trunk_port_to_row trunk_port_from_row
    trunk_port_row_update storable_trunk_port same_trunk_port
  by unfold_locales (simp_all add: trunk_port_roundtrip,
     simp_all add: trunk_port_to_row_def trunk_port_row_update_def same_trunk_port_def)

lemma sql_trunk_port_repository:
  "like_dictionary tpr_id tp_id trunk_port_to_row storable_trunk_port same_trunk_port
     sql_trunk_port_get sql_trunk_port_save sql_trunk_port_delete"
  unfolding sql_trunk_port_get_def sql_trunk_port_save_def sql_trunk_port_delete_def
  by (rule trunk_port_sql.repository_like_dictionary)

definition sql_trunk_port_list ::
  "('t, trunk_port_row) table_ops \<Rightarrow> string option \<Rightarrow> string option \<Rightarrow> 't \<Rightarrow> sql_error + trunk_port list" where
  "sql_trunk_port_list T nid pid t = sql_all trunk_port_from_row
     (sort_key tpr_name (filter
      (\<lambda>r. where_eq nid (tpr_node_id r) \<and> where_opt pid (tpr_project_id r)) (tb_rows T t)))"

subsection \<open>Routers\<close>

definition router_row_update :: "router_row \<Rightarrow> router \<Rightarrow> router_row" where
  "router_row_update r e =
     r\<lparr>rtr_name := rt_name e, rtr_description := rt_description e, rtr_project_id := rt_project_id e,
       rtr_external_network_id := rt_external_network_id e,
       rtr_internal_network_ids := sort (rt_internal_network_ids e),
       rtr_static_routes := List.map route_to_json (rt_static_routes e),
       rtr_status := router_status_value (rt_status e), rtr_admin_state_up := rt_admin_state_up e,
       rtr_ha_mode := ha_mode_value (rt_ha_mode e), rtr_vrrp_priority := rt_vrrp_priority e,
       rtr_vrrp_vrid := rt_vrrp_vrid e,
       rtr_ipv6_config := map_option ipv6_config_to_dict (rt_ipv6_config e),
       rtr_applied_config := rt_applied_config e, rtr_applied_at := rt_applied_at e,
       rtr_labels := rt_labels e, rtr_updated_at := rt_updated_at e\<rparr>"

definition same_router :: "router \<Rightarrow> router \<Rightarrow> bool" where
  "same_router e0 e \<longleftrightarrow> rt_created_at e0 = rt_created_at e"

definition sql_router_save :: "('t, router_row) table_ops \<Rightarrow> router \<Rightarrow> 't \<Rightarrow> sql_error + 't" where
  "sql_router_save = (\<lambda>T e. sql_save rtr_id T (router_to_row e) (\<lambda>r. router_row_update r e))"

definition sql_router_get ::
  "('t, router_row) table_ops \<Rightarrow> string \<Rightarrow> 't \<Rightarrow> sql_error + router option" where
  "sql_router_get = sql_get rtr_id router_from_row"

definition sql_router_delete :: "('t, router_row) table_ops \<Rightarrow> string \<Rightarrow> 't \<Rightarrow> 't" where
  "sql_router_delete = sql_remove rtr_id"

interpretation router_sql: sql_repo rtr_id rt_id router_to_row router_from_row
    router_row_update storable_router same_router
  by unfold_locales (simp_all add: router_roundtrip,
     simp_all add: router_to_row_def router_row_update_def same_router_def)

lemma sql_router_repository:
  "like_dictionary rtr_id rt_id router_to_row storable_router same_router
     sql_router_get sql_router_save sql_router_delete"
  unfolding sql_router_get_def sql_router_save_def sql_router_delete_def
  by (rule router_sql.repository_like_dictionary)

definition sql_router_list ::
  "('t, router_row) table_ops \<Rightarrow> string option \<Rightarrow> 't \<Rightarrow> sql_error + router list" where
  "sql_router_list T pid t = sql_all router_from_row
     (sort_key rtr_name (filter (\<lambda>r. where_opt pid (rtr_project_id r)) (tb_rows T t)))"

subsection \<open>Floating addresses\<close>

definition floating_ip_row_update :: "floating_ip_row \<Rightarrow> floating_ip \<Rightarrow> floating_ip_row" where
  "floating_ip_row_update r e =
     r\<lparr>fipr_fixed_ip_address := fip_fixed_address e,
       fipr_logical_port_id := truthy (fip_logical_port_id e),
       fipr_router_id := truthy (fip_router_id e), fipr_status := fip_status_value (fip_status e),
       fipr_labels := fip_labels e, fipr_updated_at := fip_updated_at e\<rparr>"

definition same_floating_ip :: "floating_ip \<Rightarrow> floating_ip \<Rightarrow> bool" where
  "same_floating_ip e0 e \<longleftrightarrow>
     fip_external_network_id e0 = fip_external_network_id e \<and> fip_address e0 = fip_address e \<and>
     fip_project_id e0 = fip_project_id e \<and> fip_created_at e0 = fip_created_at e"

definition sql_floating_ip_save ::
  "('t, floating_ip_row) table_ops \<Rightarrow> floating_ip \<Rightarrow> 't \<Rightarrow> sql_error + 't" where
  "sql_floating_ip_save = (\<lambda>T e. sql_save fipr_id T (floating_ip_to_row e)
      (\<lambda>r. floating_ip_row_update r e))"

definition sql_floating_ip_get ::
  "('t, floating_ip_row) table_ops \<Rightarrow> string \<Rightarrow> 't \<Rightarrow> sql_error + floating_ip option" where
  "sql_floating_ip_get = sql_get fipr_id floating_ip_from_row"

definition sql_floating_ip_delete :: "('t, floating_ip_row) table_ops \<Rightarrow> string \<Rightarrow> 't \<Rightarrow> 't" where
  "sql_floating_ip_delete = sql_remove fipr_id"

interpretation floating_ip_sql: sql_repo fipr_id fip_id floating_ip_to_row floating_ip_from_row
    floating_ip_row_update storable_floating_ip same_floating_ip
  by unfold_locales (simp_all add: floating_ip_roundtrip,
     simp_all add: floating_ip_to_row_def floating_ip_row_update_def same_floating_ip_def)

lemma sql_floating_ip_repository:
  "like_dictionary fipr_id fip_id floating_ip_to_row storable_floating_ip same_floating_ip
     sql_floating_ip_get sql_floating_ip_save sql_floating_ip_delete"
  unfolding sql_floating_ip_get_def sql_floating_ip_save_def sql_floating_ip_delete_def
  by (rule floating_ip_sql.repository_like_dictionary)

definition sql_floating_ip_list ::
  "('t, floating_ip_row) table_ops \<Rightarrow> string option \<Rightarrow> string option \<Rightarrow>
     't \<Rightarrow> sql_error + floating_ip list" where
  "sql_floating_ip_list T pid rid t = sql_all floating_ip_from_row
     (sort_key fipr_floating_ip_address (filter
      (\<lambda>r. where_opt pid (fipr_project_id r) \<and> where_opt rid (fipr_router_id r)) (tb_rows T t)))"

subsection \<open>BGP peers\<close>

definition bgp_peer_row_update :: "bgp_peer_row \<Rightarrow> bgp_peer \<Rightarrow> bgp_peer_row" where
  "bgp_peer_row_update r e =
     r\<lparr>bgpr_password := bgp_password e, bgpr_state := bgp_state_value (bgp_state e),
       bgpr_labels := bgp_labels e, bgpr_updated_at := bgp_updated_at e\<rparr>"

definition same_bgp_peer :: "bgp_peer \<Rightarrow> bgp_peer \<Rightarrow> bool" where
  "same_bgp_peer e0 e \<longleftrightarrow>
     bgp_router_id e0 = bgp_router_id e \<and> bgp_peer_ip e0 = bgp_peer_ip e \<and>
     bgp_peer_asn e0 = bgp_peer_asn e \<and> bgp_local_asn e0 = bgp_local_asn e \<and>
     bgp_project_id e0 = bgp_project_id e \<and> bgp_created_at e0 = bgp_created_at e"

definition sql_bgp_peer_save ::
  "('t, bgp_peer_row) table_ops \<Rightarrow> bgp_peer \<Rightarrow> 't \<Rightarrow> sql_error + 't" where
  "sql_bgp_peer_save = (\<lambda>T e. sql_save bgpr_id T (bgp_peer_to_row e) (\<lambda>r. bgp_peer_row_update r e))"

definition sql_bgp_peer_get ::
  "('t, bgp_peer_row) table_ops \<Rightarrow> string \<Rightarrow> 't \<Rightarrow> sql_error + bgp_peer option" where
  "sql_bgp_peer_get = sql_get bgpr_id bgp_peer_from_row"

definition sql_bgp_peer_delete :: "('t, bgp_peer_row) table_ops \<Rightarrow> string \<Rightarrow> 't \<Rightarrow> 't" where
  "sql_bgp_peer_delete = sql_remove bgpr_id"

interpretation bgp_peer_sql: sql_repo bgpr_id bgp_id bgp_peer_to_row bgp_peer_from_row
    bgp_peer_row_update storable_bgp_peer same_bgp_peer
  by unfold_locales (simp_all add: bgp_peer_roundtrip,
     simp_all add: bgp_peer_to_row_def bgp_peer_row_update_def same_bgp_peer_def)

lemma sql_bgp_peer_repository:
  "like_dictionary bgpr_id bgp_id bgp_peer_to_row storable_bgp_peer same_bgp_peer
     sql_bgp_peer_get sql_bgp_peer_save sql_bgp_peer_delete"
  unfolding sql_bgp_peer_get_def sql_bgp_peer_save_def sql_bgp_peer_delete_def
  by (rule bgp_peer_sql.repository_like_dictionary)

definition sql_bgp_peer_list ::
  "('t, bgp_peer_row) table_ops \<Rightarrow> string option \<Rightarrow> string option \<Rightarrow> 't \<Rightarrow> sql_error + bgp_peer list" where
  "sql_bgp_peer_list T rid pid t = sql_all bgp_peer_from_row
     (sort_key bgpr_peer_ip (filter
      (\<lambda>r. where_eq rid (bgpr_router_id r) \<and> where_opt pid (bgpr_project_id r)) (tb_rows T t)))"

subsection \<open>Project quotas\<close>

definition project_quota_row_update :: "project_quota_row \<Rightarrow> project_quota \<Rightarrow> project_quota_row" where
  "project_quota_row_update r e =
     r\<lparr>pqr_limits := pq_limits e, pqr_updated_at := pq_updated_at e\<rparr>"

definition same_project_quota :: "project_quota \<Rightarrow> project_quota \<Rightarrow> bool" where
  "same_project_quota e0 e \<longleftrightarrow> pq_project_id e0 = pq_project_id e \<and> pq_created_at e0 = pq_created_at e"

definition sql_project_quota_save ::
  "('t, project_quota_row) table_ops \<Rightarrow> project_quota \<Rightarrow> 't \<Rightarrow> sql_error + 't" where
  "sql_project_quota_save = (\<lambda>T e. sql_save pqr_id T (project_quota_to_row e)
      (\<lambda>r. project_quota_row_update r e))"

definition sql_project_quota_get ::
  "('t, project_quota_row) table_ops \<Rightarrow> string \<Rightarrow> 't \<Rightarrow> sql_error + project_quota option" where
  "sql_project_quota_get = sql_get pqr_id project_quota_from_row"

definition sql_project_quota_delete :: "('t, project_quota_row) table_ops \<Rightarrow> string \<Rightarrow> 't \<Rightarrow> 't" where
  "sql_project_quota_delete = sql_remove pqr_id"

interpretation project_quota_sql: sql_repo pqr_id pq_id project_quota_to_row project_quota_from_row
    project_quota_row_update storable_project_quota same_project_quota
  by unfold_locales (simp_all add: project_quota_roundtrip,
     simp_all add: project_quota_to_row_def project_quota_row_update_def same_project_quota_def)

lemma sql_project_quota_repository:
  "like_dictionary pqr_id pq_id project_quota_to_row storable_project_quota same_project_quota
     sql_project_quota_get sql_project_quota_save sql_project_quota_delete"
  unfolding sql_project_quota_get_def sql_project_quota_save_def sql_project_quota_delete_def
  by (rule project_quota_sql.repository_like_dictionary)

definition sql_project_quota_by_project ::
  "('t, project_quota_row) table_ops \<Rightarrow> string \<Rightarrow> 't \<Rightarrow> sql_error + project_quota option" where
  "sql_project_quota_by_project T pid t =
     sql_first project_quota_from_row (filter (\<lambda>r. pqr_project_id r = pid) (tb_rows T t))"

subsection \<open>Resource snapshots\<close>

text \<open>A snapshot is written once; saving it again changes nothing.\<close>

definition sql_resource_snapshot_save ::
  "('t, resource_snapshot_row) table_ops \<Rightarrow> resource_snapshot \<Rightarrow> 't \<Rightarrow> sql_error + 't" where
  "sql_resource_snapshot_save T e t =
     (case sql_find rsr_id T (rs_id e) t of
        None \<Rightarrow> tb_insert T (resource_snapshot_to_row e) t
      | Some _ \<Rightarrow> Inr t)"

definition sql_resource_snapshot_get ::
  "('t, resource_snapshot_row) table_ops \<Rightarrow> string \<Rightarrow> 't \<Rightarrow> sql_error + resource_snapshot option" where
  "sql_resource_snapshot_get = sql_get rsr_id resource_snapshot_from_row"

definition sql_resource_snapshot_delete ::
  "('t, resource_snapshot_row) table_ops \<Rightarrow> string \<Rightarrow> 't \<Rightarrow> 't" where
  "sql_resource_snapshot_delete = sql_remove rsr_id"

definition sql_resource_snapshot_list ::
  "('t, resource_snapshot_row) table_ops \<Rightarrow> string option \<Rightarrow> 't \<Rightarrow> sql_error + resource_snapshot list" where
  "sql_resource_snapshot_list T pid t = sql_all resource_snapshot_from_row
     (sort_key rsr_version (filter (\<lambda>r. where_eq pid (rsr_project_id r)) (tb_rows T t)))"

subsection \<open>Retention policies\<close>

definition retention_policy_row_update ::
  "retention_policy_row \<Rightarrow> retention_policy \<Rightarrow> retention_policy_row" where
  "retention_policy_row_update r e =
     r\<lparr>rpr_retention_days := rp_days e, rpr_description := rp_description e,
       rpr_updated_at := rp_updated_at e\<rparr>"

definition same_retention_policy :: "retention_policy \<Rightarrow> retention_policy \<Rightarrow> bool" where
  "same_retention_policy e0 e \<longleftrightarrow>
     rp_scope e0 = rp_scope e \<and> rp_project_id e0 = rp_project_id e \<and>
     rp_created_at e0 = rp_created_at e"

definition sql_retention_policy_save ::
  "('t, retention_policy_row) table_ops \<Rightarrow> retention_policy \<Rightarrow> 't \<Rightarrow> sql_error + 't" where
  "sql_retention_policy_save = (\<lambda>T e. sql_save rpr_id T (retention_policy_to_row e)
      (\<lambda>r. retention_policy_row_update r e))"

definition sql_retention_policy_get ::
  "('t, retention_policy_row) table_ops \<Rightarrow> string \<Rightarrow> 't \<Rightarrow> sql_error + retention_policy option" where
  "sql_retention_policy_get = sql_get rpr_id retention_policy_from_row"

definition sql_retention_policy_delete ::
  "('t, retention_policy_row) table_ops \<Rightarrow> string \<Rightarrow> 't \<Rightarrow> 't" where
  "sql_retention_policy_delete = sql_remove rpr_id"

interpretation retention_policy_sql: sql_repo rpr_id rp_id retention_policy_to_row retention_policy_from_row
    retention_policy_row_update storable_retention_policy same_retention_policy
  by unfold_locales (simp_all add: retention_policy_roundtrip,
     simp_all add: retention_policy_to_row_def retention_policy_row_update_def same_retention_policy_def)

lemma sql_retention_policy_repository:
  "like_dictionary rpr_id rp_id retention_policy_to_row storable_retention_policy same_retention_policy
     sql_retention_policy_get sql_retention_policy_save sql_retention_policy_delete"
  unfolding sql_retention_policy_get_def sql_retention_policy_save_def sql_retention_policy_delete_def
  by (rule retention_policy_sql.repository_like_dictionary)

definition sql_retention_policy_list ::
  "('t, retention_policy_row) table_ops \<Rightarrow> string option \<Rightarrow> 't \<Rightarrow> sql_error + retention_policy list" where
  "sql_retention_policy_list T pid t = sql_all retention_policy_from_row
     (sort_key rpr_scope (filter (\<lambda>r. where_opt pid (rpr_project_id r)) (tb_rows T t)))"

definition sql_retention_policy_by_scope ::
  "('t, retention_policy_row) table_ops \<Rightarrow> retention_scope \<Rightarrow> string option \<Rightarrow> 't \<Rightarrow>
     sql_error + retention_policy option" where
  "sql_retention_policy_by_scope T sc pid t =
     sql_first retention_policy_from_row
       (filter (\<lambda>r. rpr_scope r = retention_value sc \<and> rpr_project_id r = pid) (tb_rows T t))"

subsection \<open>Gateway bonds\<close>

definition gateway_bond_row_update :: "gateway_bond_row \<Rightarrow> gateway_bond \<Rightarrow> gateway_bond_row" where
  "gateway_bond_row_update r e =
     r\<lparr>gbr_name := gb_name e, gbr_mode := bond_mode_value (gb_mode e),
       gbr_members := gb_members e, gbr_mtu := gb_mtu e, gbr_applied_config := gb_applied_config e,
       gbr_applied_at := gb_applied_at e, gbr_labels := gb_labels e, gbr_updated_at := gb_updated_at e\<rparr>"

definition same_gateway_bond :: "gateway_bond \<Rightarrow> gateway_bond \<Rightarrow> bool" where
  "same_gateway_bond e0 e \<longleftrightarrow>
     gb_node_id e0 = gb_node_id e \<and> gb_bond_name e0 = gb_bond_name e \<and>
     gb_project_id e0 = gb_project_id e \<and> gb_created_at e0 = gb_created_at e"

definition sql_gateway_bond_save ::
  "('t, gateway_bond_row) table_ops \<Rightarrow> gateway_bond \<Rightarrow> 't \<Rightarrow> sql_error + 't" where
  "sql_gateway_bond_save = (\<lambda>T e. sql_save gbr_id T (gateway_bond_to_row e)
      (\<lambda>r. gateway_bond_row_update r e))"

definition sql_gateway_bond_get ::
  "('t, gateway_bond_row) table_ops \<Rightarrow> string \<Rightarrow> 't \<Rightarrow> sql_error + gateway_bond option" where
  "sql_gateway_bond_get = sql_get gbr_id gateway_bond_from_row"

definition sql_gateway_bond_delete :: "('t, gateway_bond_row) table_ops \<Rightarrow> string \<Rightarrow> 't \<Rightarrow> 't" where
  "sql_gateway_bond_delete = sql_remove gbr_id"

interpretation gateway_bond_sql: sql_repo gbr_id gb_id gateway_bond_to_row gateway_bond_from_row
    gateway_bond_row_update storable_gateway_bond same_gateway_bond
  by unfold_locales (simp_all add: gateway_bond_roundtrip,
     simp_all add: gateway_bond_to_row_def gateway_bond_row_update_def same_gateway_bond_def)

lemma sql_gateway_bond_repository:
  "like_dictionary gbr_id gb_id gateway_bond_to_row storable_gateway_bond same_gateway_bond
     sql_gateway_bond_get sql_gateway_bond_save sql_gateway_bond_delete"
  unfolding sql_gateway_bond_get_def sql_gateway_bond_save_def sql_gateway_bond_delete_def
  by (rule gateway_bond_sql.repository_like_dictionary)

definition sql_gateway_bond_list ::
  "('t, gateway_bond_row) table_ops \<Rightarrow> string option \<Rightarrow> string option \<Rightarrow>
     't \<Rightarrow> sql_error + gateway_bond list" where
  "sql_gateway_bond_list T nid pid t = sql_all gateway_bond_from_row
     (sort_key gbr_name (filter
      (\<lambda>r. where_eq nid (gbr_node_id r) \<and> where_opt pid (gbr_project_id r)) (tb_rows T t)))"

subsection \<open>Load balancers\<close>

definition load_balancer_row_update :: "load_balancer_row \<Rightarrow> load_balancer \<Rightarrow> load_balancer_row" where
  "load_balancer_row_update r e =
     r\<lparr>lbr_name := lb_name e, lbr_description := lb_description e,
       lbr_status := lb_status_value (lb_status e), lbr_admin_state_up := lb_admin_state_up e,
       lbr_applied_config := lb_applied_config e, lbr_applied_at := lb_applied_at e,
       lbr_labels := lb_labels e, lbr_updated_at := lb_updated_at e\<rparr>"

definition same_load_balancer :: "load_balancer \<Rightarrow> load_balancer \<Rightarrow> bool" where
  "same_load_balancer e0 e \<longleftrightarrow>
     lb_vip_address e0 = lb_vip_address e \<and> lb_vip_network_id e0 = lb_vip_network_id e \<and>
     lb_project_id e0 = lb_project_id e \<and> lb_router_id e0 = lb_router_id e \<and>
     lb_provider e0 = lb_provider e \<and> lb_created_at e0 = lb_created_at e"

definition sql_load_balancer_save ::
  "('t, load_balancer_row) table_ops \<Rightarrow> load_balancer \<Rightarrow> 't \<Rightarrow> sql_error + 't" where
  "sql_load_balancer_save = (\<lambda>T e. sql_save lbr_id T (load_balancer_to_row e)
      (\<lambda>r. load_balancer_row_update r e))"

definition sql_load_balancer_get ::
  "('t, load_balancer_row) table_ops \<Rightarrow> string \<Rightarrow> 't \<Rightarrow> sql_error + load_balancer option" where
  "sql_load_balancer_get = sql_get lbr_id load_balancer_from_row"

definition sql_load_balancer_delete :: "('t, load_balancer_row) table_ops \<Rightarrow> string \<Rightarrow> 't \<Rightarrow> 't" where
  "sql_load_balancer_delete = sql_remove lbr_id"

interpretation load_balancer_sql: sql_repo lbr_id lb_id load_balancer_to_row load_balancer_from_row
    load_balancer_row_update storable_load_balancer same_load_balancer
  by unfold_locales (simp_all add: load_balancer_roundtrip,
     simp_all add: load_balancer_to_row_def load_balancer_row_update_def same_load_balancer_def)

lemma sql_load_balancer_repository:
  "like_dictionary lbr_id lb_id load_balancer_to_row storable_load_balancer same_load_balancer
     sql_load_balancer_get sql_load_balancer_save sql_load_balancer_delete"
  unfolding sql_load_balancer_get_def sql_load_balancer_save_def sql_load_balancer_delete_def
  by (rule load_balancer_sql.repository_like_dictionary)

definition sql_load_balancer_list ::
  "('t, load_balancer_row) table_ops \<Rightarrow> string option \<Rightarrow> 't \<Rightarrow> sql_error + load_balancer list" where
  "sql_load_balancer_list T pid t = sql_all load_balancer_from_row
     (sort_key lbr_name (filter (\<lambda>r. where_opt pid (lbr_project_id r)) (tb_rows T t)))"

definition lb_listener_row_update :: "lb_listener_row \<Rightarrow> lb_listener \<Rightarrow> lb_listener_row" where
  "lb_listener_row_update r e =
     r\<lparr>llr_name := ll_name e, llr_default_pool_id := ll_default_pool_id e,
       llr_description := ll_description e, llr_labels := ll_labels e, llr_updated_at := ll_updated_at e\<rparr>"

definition same_lb_listener :: "lb_listener \<Rightarrow> lb_listener \<Rightarrow> bool" where
  "same_lb_listener e0 e \<longleftrightarrow>
     ll_lb_id e0 = ll_lb_id e \<and> ll_protocol e0 = ll_protocol e \<and> ll_port e0 = ll_port e \<and>
     ll_created_at e0 = ll_created_at e"

definition sql_lb_listener_save ::
  "('t, lb_listener_row) table_ops \<Rightarrow> lb_listener \<Rightarrow> 't \<Rightarrow> sql_error + 't" where
  "sql_lb_listener_save = (\<lambda>T e. sql_save llr_id T (lb_listener_to_row e)
      (\<lambda>r. lb_listener_row_update r e))"

definition sql_lb_listener_get ::
  "('t, lb_listener_row) table_ops \<Rightarrow> string \<Rightarrow> 't \<Rightarrow> sql_error + lb_listener option" where
  "sql_lb_listener_get = sql_get llr_id lb_listener_from_row"

definition sql_lb_listener_delete :: "('t, lb_listener_row) table_ops \<Rightarrow> string \<Rightarrow> 't \<Rightarrow> 't" where
  "sql_lb_listener_delete = sql_remove llr_id"

interpretation lb_listener_sql: sql_repo llr_id ll_id lb_listener_to_row lb_listener_from_row
    lb_listener_row_update storable_lb_listener same_lb_listener
  by unfold_locales (simp_all add: lb_listener_roundtrip,
     simp_all add: lb_listener_to_row_def lb_listener_row_update_def same_lb_listener_def)

lemma sql_lb_listener_repository:
  "like_dictionary llr_id ll_id lb_listener_to_row storable_lb_listener same_lb_listener
     sql_lb_listener_get sql_lb_listener_save sql_lb_listener_delete"
  unfolding sql_lb_listener_get_def sql_lb_listener_save_def sql_lb_listener_delete_def
  by (rule lb_listener_sql.repository_like_dictionary)

definition sql_lb_listener_list ::
  "('t, lb_listener_row) table_ops \<Rightarrow> string option \<Rightarrow> 't \<Rightarrow> sql_error + lb_listener list" where
  "sql_lb_listener_list T lid t = sql_all lb_listener_from_row
     (sort_key llr_protocol_port (filter (\<lambda>r. where_eq lid (llr_lb_id r)) (tb_rows T t)))"

definition lb_pool_row_update :: "lb_pool_row \<Rightarrow> lb_pool \<Rightarrow> lb_pool_row" where
  "lb_pool_row_update r e =
     r\<lparr>lplr_name := lpl_name e, lplr_lb_algorithm := lb_algorithm_value (lpl_algorithm e),
       lplr_session_persistence := persistence_value (lpl_persistence e),
       lplr_description := lpl_description e, lplr_labels := lpl_labels e,
       lplr_updated_at := lpl_updated_at e\<rparr>"

definition same_lb_pool :: "lb_pool \<Rightarrow> lb_pool \<Rightarrow> bool" where
  "same_lb_pool e0 e \<longleftrightarrow>
     lpl_lb_id e0 = lpl_lb_id e \<and> lpl_protocol e0 = lpl_protocol e \<and>
     lpl_created_at e0 = lpl_created_at e"

definition sql_lb_pool_save :: "('t, lb_pool_row) table_ops \<Rightarrow> lb_pool \<Rightarrow> 't \<Rightarrow> sql_error + 't" where
  "sql_lb_pool_save = (\<lambda>T e. sql_save lplr_id T (lb_pool_to_row e) (\<lambda>r. lb_pool_row_update r e))"

definition sql_lb_pool_get ::
  "('t, lb_pool_row) table_ops \<Rightarrow> string \<Rightarrow> 't \<Rightarrow> sql_error + lb_pool option" where
  "sql_lb_pool_get = sql_get lplr_id lb_pool_from_row"

definition sql_lb_pool_delete :: "('t, lb_pool_row) table_ops \<Rightarrow> string \<Rightarrow> 't \<Rightarrow> 't" where
  "sql_lb_pool_delete = sql_remove lplr_id"

interpretation lb_pool_sql: sql_repo lplr_id lpl_id lb_pool_to_row lb_pool_from_row
    lb_pool_row_update storable_lb_pool same_lb_pool
  by unfold_locales (simp_all add: lb_pool_roundtrip,
     simp_all add: lb_pool_to_row_def lb_pool_row_update_def same_lb_pool_def)

lemma sql_lb_pool_repository:
  "like_dictionary lplr_id lpl_id lb_pool_to_row storable_lb_pool same_lb_pool
     sql_lb_pool_get sql_lb_pool_save sql_lb_pool_delete"
  unfolding sql_lb_pool_get_def sql_lb_pool_save_def sql_lb_pool_delete_def
  by (rule lb_pool_sql.repository_like_dictionary)

definition sql_lb_pool_list ::
  "('t, lb_pool_row) table_ops \<Rightarrow> string option \<Rightarrow> 't \<Rightarrow> sql_error + lb_pool list" where
  "sql_lb_pool_list T lid t = sql_all lb_pool_from_row
     (sort_key lplr_name (filter (\<lambda>r. where_eq lid (lplr_lb_id r)) (tb_rows T t)))"

definition lb_member_row_update :: "lb_member_row \<Rightarrow> lb_member \<Rightarrow> lb_member_row" where
  "lb_member_row_update r e =
     r\<lparr>lbmr_weight := lbm_weight e, lbmr_admin_state_up := lbm_admin_state_up e,
       lbmr_updated_at := lbm_updated_at e\<rparr>"

definition same_lb_member :: "lb_member \<Rightarrow> lb_member \<Rightarrow> bool" where
  "same_lb_member e0 e \<longleftrightarrow>
     lbm_pool_id e0 = lbm_pool_id e \<and> lbm_address e0 = lbm_address e \<and> lbm_port e0 = lbm_port e \<and>
     lbm_created_at e0 = lbm_created_at e"

definition sql_lb_member_save ::
  "('t, lb_member_row) table_ops \<Rightarrow> lb_member \<Rightarrow> 't \<Rightarrow> sql_error + 't" where
  "sql_lb_member_save = (\<lambda>T e. sql_save lbmr_id T (lb_member_to_row e) (\<lambda>r. lb_member_row_update r e))"

definition sql_lb_member_get ::
  "('t, lb_member_row) table_ops \<Rightarrow> string \<Rightarrow> 't \<Rightarrow> sql_error + lb_member option" where
  "sql_lb_member_get = sql_get lbmr_id lb_member_from_row"

definition sql_lb_member_delete :: "('t, lb_member_row) table_ops \<Rightarrow> string \<Rightarrow> 't \<Rightarrow> 't" where
  "sql_lb_member_delete = sql_remove lbmr_id"

interpretation lb_member_sql: sql_repo lbmr_id lbm_id lb_member_to_row lb_member_from_row
    lb_member_row_update storable_lb_member same_lb_member
  by unfold_locales (simp_all add: lb_member_roundtrip,
     simp_all add: lb_member_to_row_def lb_member_row_update_def same_lb_member_def)

lemma sql_lb_member_repository:
  "like_dictionary lbmr_id lbm_id lb_member_to_row storable_lb_member same_lb_member
     sql_lb_member_get sql_lb_member_save sql_lb_member_delete"
  unfolding sql_lb_member_get_def sql_lb_member_save_def sql_lb_member_delete_def
  by (rule lb_member_sql.repository_like_dictionary)

definition sql_lb_member_list ::
  "('t, lb_member_row) table_ops \<Rightarrow> string option \<Rightarrow> 't \<Rightarrow> sql_error + lb_member list" where
  "sql_lb_member_list T pl t = sql_all lb_member_from_row
     (sort_key lbmr_address (filter (\<lambda>r. where_eq pl (lbmr_pool_id r)) (tb_rows T t)))"

subsection \<open>Health monitors\<close>

definition health_monitor_row_update ::
  "health_monitor_row \<Rightarrow> health_monitor \<Rightarrow> health_monitor_row" where
  "health_monitor_row_update r e =
     r\<lparr>hmr_delay := hm_delay e, hmr_timeout := hm_timeout e,
       hmr_max_retries := hm_max_retries e, hmr_url_path := hm_url_path e,
       hmr_http_method := hm_http_method e, hmr_expected_codes := hm_expected_codes e,
       hmr_updated_at := hm_updated_at e\<rparr>"

definition same_health_monitor :: "health_monitor \<Rightarrow> health_monitor \<Rightarrow> bool" where
  "same_health_monitor e0 e \<longleftrightarrow>
     hm_pool_id e0 = hm_pool_id e \<and> hm_check_type e0 = hm_check_type e \<and>
     hm_created_at e0 = hm_created_at e"

definition sql_health_monitor_save ::
  "('t, health_monitor_row) table_ops \<Rightarrow> health_monitor \<Rightarrow> 't \<Rightarrow> sql_error + 't" where
  "sql_health_monitor_save = (\<lambda>T e. sql_save hmr_id T (health_monitor_to_row e)
      (\<lambda>r. health_monitor_row_update r e))"

definition sql_health_monitor_get ::
  "('t, health_monitor_row) table_ops \<Rightarrow> string \<Rightarrow> 't \<Rightarrow> sql_error + health_monitor option" where
  "sql_health_monitor_get = sql_get hmr_id health_monitor_from_row"

definition sql_health_monitor_delete ::
  "('t, health_monitor_row) table_ops \<Rightarrow> string \<Rightarrow> 't \<Rightarrow> 't" where
  "sql_health_monitor_delete = sql_remove hmr_id"

interpretation health_monitor_sql: sql_repo hmr_id hm_id health_monitor_to_row health_monitor_from_row
    health_monitor_row_update storable_health_monitor same_health_monitor
  by unfold_locales (simp_all add: health_monitor_roundtrip,
     simp_all add: health_monitor_to_row_def health_monitor_row_update_def same_health_monitor_def)

lemma sql_health_monitor_repository:
  "like_dictionary hmr_id hm_id health_monitor_to_row storable_health_monitor same_health_monitor
     sql_health_monitor_get sql_health_monitor_save sql_health_monitor_delete"
  unfolding sql_health_monitor_get_def sql_health_monitor_save_def sql_health_monitor_delete_def
  by (rule health_monitor_sql.repository_like_dictionary)

definition sql_health_monitor_by_pool ::
  "('t, health_monitor_row) table_ops \<Rightarrow> string \<Rightarrow> 't \<Rightarrow> sql_error + health_monitor option" where
  "sql_health_monitor_by_pool T pl t =
     sql_first health_monitor_from_row (filter (\<lambda>r. hmr_pool_id r = pl) (tb_rows T t))"

subsection \<open>Apply schedules\<close>

definition apply_schedule_row_update ::
  "apply_schedule_row \<Rightarrow> apply_schedule \<Rightarrow> apply_schedule_row" where
  "apply_schedule_row_update r e =
     r\<lparr>schr_name := sch_name e, schr_cron_expr := sch_cron_expr e,
       schr_target_type := target_value (sch_target_type e), schr_target_id := sch_target_id e,
       schr_enabled := sch_enabled e, schr_project_id := sch_project_id e,
       schr_status := schedule_status_value (sch_status e), schr_last_run_at := sch_last_run_at e,
       schr_last_run_status := sch_last_run_status e, schr_labels := sch_labels e,
       schr_updated_at := sch_updated_at e\<rparr>"

definition same_apply_schedule :: "apply_schedule \<Rightarrow> apply_schedule \<Rightarrow> bool" where
  "same_apply_schedule e0 e \<longleftrightarrow> sch_created_at e0 = sch_created_at e"

definition sql_apply_schedule_save ::
  "('t, apply_schedule_row) table_ops \<Rightarrow> apply_schedule \<Rightarrow> 't \<Rightarrow> sql_error + 't" where
  "sql_apply_schedule_save = (\<lambda>T e. sql_save schr_id T (apply_schedule_to_row e)
      (\<lambda>r. apply_schedule_row_update r e))"

definition sql_apply_schedule_get ::
  "('t, apply_schedule_row) table_ops \<Rightarrow> string \<Rightarrow> 't \<Rightarrow> sql_error + apply_schedule option" where
  "sql_apply_schedule_get = sql_get schr_id apply_schedule_from_row"

definition sql_apply_schedule_delete ::
  "('t, apply_schedule_row) table_ops \<Rightarrow> string \<Rightarrow> 't \<Rightarrow> 't" where
  "sql_apply_schedule_delete = sql_remove schr_id"

interpretation apply_schedule_sql: sql_repo schr_id sch_id apply_schedule_to_row apply_schedule_from_row
    apply_schedule_row_update storable_apply_schedule same_apply_schedule
  by unfold_locales (simp_all add: apply_schedule_roundtrip,
     simp_all add: apply_schedule_to_row_def apply_schedule_row_update_def same_apply_schedule_def)

lemma sql_apply_schedule_repository:
  "like_dictionary schr_id sch_id apply_schedule_to_row storable_apply_schedule same_apply_schedule
     sql_apply_schedule_get sql_apply_schedule_save sql_apply_schedule_delete"
  unfolding sql_apply_schedule_get_def sql_apply_schedule_save_def sql_apply_schedule_delete_def
  by (rule apply_schedule_sql.repository_like_dictionary)

definition sql_apply_schedule_list ::
  "('t, apply_schedule_row) table_ops \<Rightarrow> bool \<Rightarrow> string option \<Rightarrow> 't \<Rightarrow> sql_error + apply_schedule list" where
  "sql_apply_schedule_list T enabled_only pid t = sql_all apply_schedule_from_row
     (filter (\<lambda>r. (enabled_only \<longrightarrow> schr_enabled r) \<and> where_opt pid (schr_project_id r)) (tb_rows T t))"

subsection \<open>Traffic mirrors\<close>

definition mirror_session_row_update ::
  "mirror_session_row \<Rightarrow> mirror_session \<Rightarrow> mirror_session_row" where
  "mirror_session_row_update r e =
     r\<lparr>msr_name := ms_name e, msr_source_port_id := ms_source_port_id e,
       msr_direction := mirror_value (ms_direction e), msr_destination_port_id := ms_dest_port_id e,
       msr_destination_ip := ms_dest_ip e, msr_filter_vlan := ms_filter_vlan e,
       msr_project_id := ms_project_id e, msr_status := mirror_status_value (ms_status e),
       msr_applied_config := ms_applied_config e, msr_applied_at := ms_applied_at e,
       msr_labels := ms_labels e, msr_updated_at := ms_updated_at e\<rparr>"

definition same_mirror_session :: "mirror_session \<Rightarrow> mirror_session \<Rightarrow> bool" where
  "same_mirror_session e0 e \<longleftrightarrow> ms_created_at e0 = ms_created_at e"

definition sql_mirror_session_save ::
  "('t, mirror_session_row) table_ops \<Rightarrow> mirror_session \<Rightarrow> 't \<Rightarrow> sql_error + 't" where
  "sql_mirror_session_save = (\<lambda>T e. sql_save msr_id T (mirror_session_to_row e)
      (\<lambda>r. mirror_session_row_update r e))"

definition sql_mirror_session_get ::
  "('t, mirror_session_row) table_ops \<Rightarrow> string \<Rightarrow> 't \<Rightarrow> sql_error + mirror_session option" where
  "sql_mirror_session_get = sql_get msr_id mirror_session_from_row"

definition sql_mirror_session_delete ::
  "('t, mirror_session_row) table_ops \<Rightarrow> string \<Rightarrow> 't \<Rightarrow> 't" where
  "sql_mirror_session_delete = sql_remove msr_id"

interpretation mirror_session_sql: sql_repo msr_id ms_id mirror_session_to_row mirror_session_from_row
    mirror_session_row_update storable_mirror_session same_mirror_session
  by unfold_locales (simp_all add: mirror_session_roundtrip,
     simp_all add: mirror_session_to_row_def mirror_session_row_update_def same_mirror_session_def)

lemma sql_mirror_session_repository:
  "like_dictionary msr_id ms_id mirror_session_to_row storable_mirror_session same_mirror_session
     sql_mirror_session_get sql_mirror_session_save sql_mirror_session_delete"
  unfolding sql_mirror_session_get_def sql_mirror_session_save_def sql_mirror_session_delete_def
  by (rule mirror_session_sql.repository_like_dictionary)

definition sql_mirror_session_list ::
  "('t, mirror_session_row) table_ops \<Rightarrow> string option \<Rightarrow> 't \<Rightarrow> sql_error + mirror_session list" where
  "sql_mirror_session_list T pid t = sql_all mirror_session_from_row
     (filter (\<lambda>r. where_opt pid (msr_project_id r)) (tb_rows T t))"

subsection \<open>VPN tunnels and peers\<close>

definition vpn_tunnel_row_update :: "vpn_tunnel_row \<Rightarrow> vpn_tunnel \<Rightarrow> vpn_tunnel_row" where
  "vpn_tunnel_row_update r e =
     r\<lparr>vtr_name := vt_name e, vtr_protocol := vpn_value (vt_protocol e),
       vtr_local_endpoint := vt_local_endpoint e, vtr_remote_endpoint := vt_remote_endpoint e,
       vtr_local_public_key := vt_local_public_key e, vtr_remote_public_key := vt_remote_public_key e,
       vtr_listen_port := vt_listen_port e, vtr_preshared_key := vt_preshared_key e,
       vtr_project_id := vt_project_id e, vtr_status := vpn_status_value (vt_status e),
       vtr_applied_config := vt_applied_config e, vtr_applied_at := vt_applied_at e,
       vtr_labels := vt_labels e, vtr_updated_at := vt_updated_at e\<rparr>"

definition same_vpn_tunnel :: "vpn_tunnel \<Rightarrow> vpn_tunnel \<Rightarrow> bool" where
  "same_vpn_tunnel e0 e \<longleftrightarrow> vt_created_at e0 = vt_created_at e"

definition sql_vpn_tunnel_save ::
  "('t, vpn_tunnel_row) table_ops \<Rightarrow> vpn_tunnel \<Rightarrow> 't \<Rightarrow> sql_error + 't" where
  "sql_vpn_tunnel_save = (\<lambda>T e. sql_save vtr_id T (vpn_tunnel_to_row e) (\<lambda>r. vpn_tunnel_row_update r e))"

definition sql_vpn_tunnel_get ::
  "('t, vpn_tunnel_row) table_ops \<Rightarrow> string \<Rightarrow> 't \<Rightarrow> sql_error + vpn_tunnel option" where
  "sql_vpn_tunnel_get = sql_get vtr_id vpn_tunnel_from_row"

definition sql_vpn_tunnel_delete :: "('t, vpn_tunnel_row) table_ops \<Rightarrow> string \<Rightarrow> 't \<Rightarrow> 't" where
  "sql_vpn_tunnel_delete = sql_remove vtr_id"

interpretation vpn_tunnel_sql: sql_repo vtr_id vt_id vpn_tunnel_to_row vpn_tunnel_from_row
    vpn_tunnel_row_update storable_vpn_tunnel same_vpn_tunnel
  by unfold_locales (simp_all add: vpn_tunnel_roundtrip,
     simp_all add: vpn_tunnel_to_row_def vpn_tunnel_row_update_def same_vpn_tunnel_def)

lemma sql_vpn_tunnel_repository:
  "like_dictionary vtr_id vt_id vpn_tunnel_to_row storable_vpn_tunnel same_vpn_tunnel
     sql_vpn_tunnel_get sql_vpn_tunnel_save sql_vpn_tunnel_delete"
  unfolding sql_vpn_tunnel_get_def sql_vpn_tunnel_save_def sql_vpn_tunnel_delete_def
  by (rule vpn_tunnel_sql.repository_like_dictionary)

definition sql_vpn_tunnel_list ::
  "('t, vpn_tunnel_row) table_ops \<Rightarrow> string option \<Rightarrow> 't \<Rightarrow> sql_error + vpn_tunnel list" where
  "sql_vpn_tunnel_list T pid t = sql_all vpn_tunnel_from_row
     (filter (\<lambda>r. where_opt pid (vtr_project_id r)) (tb_rows T t))"

definition vpn_peer_row_update :: "vpn_peer_row \<Rightarrow> vpn_peer \<Rightarrow> vpn_peer_row" where
  "vpn_peer_row_update r e =
     r\<lparr>vpr_public_key := vp_public_key e, vpr_endpoint := vp_endpoint e,
       vpr_allowed_ips := vp_allowed_ips e, vpr_persistent_keepalive := vp_keepalive e,
       vpr_updated_at := vp_updated_at e\<rparr>"

definition same_vpn_peer :: "vpn_peer \<Rightarrow> vpn_peer \<Rightarrow> bool" where
  "same_vpn_peer e0 e \<longleftrightarrow> vp_tunnel_id e0 = vp_tunnel_id e \<and> vp_created_at e0 = vp_created_at e"

definition sql_vpn_peer_save ::
  "('t, vpn_peer_row) table_ops \<Rightarrow> vpn_peer \<Rightarrow> 't \<Rightarrow> sql_error + 't" where
  "sql_vpn_peer_save = (\<lambda>T e. sql_save vpr_id T (vpn_peer_to_row e) (\<lambda>r. vpn_peer_row_update r e))"

definition sql_vpn_peer_get ::
  "('t, vpn_peer_row) table_ops \<Rightarrow> string \<Rightarrow> 't \<Rightarrow> sql_error + vpn_peer option" where
  "sql_vpn_peer_get = sql_get vpr_id vpn_peer_from_row"

definition sql_vpn_peer_delete :: "('t, vpn_peer_row) table_ops \<Rightarrow> string \<Rightarrow> 't \<Rightarrow> 't" where
  "sql_vpn_peer_delete = sql_remove vpr_id"

interpretation vpn_peer_sql: sql_repo vpr_id vp_id vpn_peer_to_row vpn_peer_from_row
    vpn_peer_row_update storable_vpn_peer same_vpn_peer
  by unfold_locales (simp_all add: vpn_peer_roundtrip,
     simp_all add: vpn_peer_to_row_def vpn_peer_row_update_def same_vpn_peer_def)

lemma sql_vpn_peer_repository:
  "like_dictionary vpr_id vp_id vpn_peer_to_row storable_vpn_peer same_vpn_peer
     sql_vpn_peer_get sql_vpn_peer_save sql_vpn_peer_delete"
  unfolding sql_vpn_peer_get_def sql_vpn_peer_save_def sql_vpn_peer_delete_def
  by (rule vpn_peer_sql.repository_like_dictionary)

definition sql_vpn_peer_list ::
  "('t, vpn_peer_row) table_ops \<Rightarrow> string option \<Rightarrow> 't \<Rightarrow> sql_error + vpn_peer list" where
  "sql_vpn_peer_list T tid t = sql_all vpn_peer_from_row
     (filter (\<lambda>r. where_eq tid (vpr_tunnel_id r)) (tb_rows T t))"

end
