(* ===== verification/Sql_Properties.thy ===== *)
theory Sql_Properties
  imports Sql_Repositories Sql_Catalogue_Repositories
begin

text \<open>
  The properties of the SQL adapter. For every lawful database a repository behaves like the
  dictionary of the in-memory adapter: what was saved is read back unchanged, a deleted key is
  gone, nothing else moves. The one exception is the update of a network.
\<close>



subsection \<open>The update of a network\<close>

definition with_old_edge :: "network \<Rightarrow> network \<Rightarrow> network" where
  "with_old_edge n0 n = n\<lparr>net_nat := net_nat n0, net_firewall := net_firewall n0\<rparr>"

lemma network_row_update_edge:
  "net_id n0 = net_id n \<Longrightarrow>
   network_row_update (network_to_row n0) n = network_to_row (with_old_edge n0 n)"
  by (simp add: network_row_update_def network_to_row_def with_old_edge_def)

lemma storable_old_edge:
  assumes "storable_network digest n0" "storable_network digest n"
  shows "storable_network digest (with_old_edge n0 n)"
proof -
  have "network_validate (with_old_edge n0 n) = network_validate n"
    by (simp add: network_validate_def with_old_edge_def cong: network_type.case_cong option.case_cong)
  then show ?thesis
    using assms by (auto simp: storable_network_def mk_network_def bindE_Inr_iff with_old_edge_def)
qed

text \<open>
  C20. Saving a network that is already stored does not write its NAT and firewall policy: reading
  it back gives every other field as saved (the spec hash over the new intent included) with the
  NAT and the policy of the old one. The in-memory adapter gives back what was saved.
\<close>

theorem sql_network_update_keeps_edge:
  assumes "lawful_table netr_id T"
    "table_holds net_id network_to_row (storable_network digest) T t d"
    "dget d (net_id n) = Some n0" "storable_network digest n"
    "sql_network_save T n t = Inr t'"
  shows "sql_network_get digest T (net_id n) t' =
      Inr (Some (n\<lparr>net_nat := net_nat n0, net_firewall := net_firewall n0\<rparr>))"
proof -
  let ?n = "with_old_edge n0 n"
  have n0: "(net_id n, n0) \<in> set d" by (rule map_of_SomeD [OF assms(3)])
  then have id: "net_id n0 = net_id n" "storable_network digest n0"
    using assms(2) by (auto simp: table_holds_def)
  have k: "net_id ?n = net_id n" by (simp add: with_old_edge_def)
  have f: "sql_find netr_id T (net_id n) t = Some (network_to_row n0)"
    using network_sql.holds_find [OF assms(1,2)] assms(3) by simp
  have key: "netr_id (network_to_row x) = net_id x" for x by (simp add: network_to_row_def)
  have "network_row_update (network_to_row n0) ?n = network_row_update (network_to_row n0) n"
    by (simp add: network_row_update_def with_old_edge_def)
  then have save: "sql_save netr_id T (network_to_row ?n) (\<lambda>r. network_row_update r ?n) t = Inr t'"
    using assms(5) by (simp add: sql_network_save_def sql_save_def key k f)
  have "table_holds net_id network_to_row (storable_network digest) T t' (dset (net_id ?n) ?n d)"
  proof (rule network_sql.save_dictionary [OF assms(1,2) storable_old_edge [OF id(2) assms(4)] _ save])
    fix e0 assume "dget d (net_id ?n) = Some e0"
    then show "same_network e0 ?n" using assms(3) by (simp add: k same_network_def with_old_edge_def)
  qed
  then have "sql_network_get digest T (net_id n) t' = Inr (dget (dset (net_id ?n) ?n d) (net_id n))"
    unfolding sql_network_get_def by (rule network_sql.get_dictionary [OF assms(1)])
  then show ?thesis by (simp add: k with_old_edge_def)
qed

definition edge_network :: network where
  "edge_network = \<lparr>net_id = ''net_1'', net_name = ''prod'', net_type = FLAT, net_created_at = 0,
     net_updated_at = 0, net_mtu = 1450, net_vlan_id = None, net_vni = None, net_subnet = None,
     net_intent_version = 1, net_labels = [], net_node_ids = [], net_nat = None,
     net_firewall = None, net_spec_hash = ''h'', net_project_id = None\<rparr>"

definition edge_network_with_nat :: network where
  "edge_network_with_nat = edge_network\<lparr>net_nat := Some \<lparr>nat_egress = ''eth0''\<rparr>, net_intent_version := 2\<rparr>"

lemma edge_networks_storable:
  "storable_network dg edge_network" "storable_network dg edge_network_with_nat"
  by (simp_all add: storable_network_def mk_network_def network_validate_def edge_network_def
      edge_network_with_nat_def blank_iff py_isspace_def nat_spec_check_def)

text \<open>A network that is given NAT after it was stored reads back without it.\<close>

theorem sql_network_update_keeps_edge_witness:
  "\<exists>t'. sql_network_save (list_table netr_id (\<lambda>_. True)) edge_network_with_nat [network_to_row edge_network] = Inr t' \<and>
     net_nat edge_network_with_nat \<noteq> None \<and>
     sql_network_get (\<lambda>_. ''h'') (list_table netr_id (\<lambda>_. True)) ''net_1'' t' =
       Inr (Some (edge_network\<lparr>net_intent_version := 2\<rparr>))"
proof -
  let ?T = "list_table netr_id (\<lambda>_. True)" and ?t = "[network_to_row edge_network]"
  have key: "netr_id (network_to_row x) = net_id x" for x by (simp add: network_to_row_def)
  have ids: "net_id edge_network = ''net_1''" "net_id edge_network_with_nat = ''net_1''"
    by (simp_all add: edge_network_def edge_network_with_nat_def)
  obtain t' where s: "sql_network_save ?T edge_network_with_nat ?t = Inr t'"
    by (simp add: sql_network_save_def sql_save_def sql_find_def list_table_def key ids Let_def)
  have h: "table_holds net_id network_to_row (storable_network (\<lambda>_. ''h'')) ?T ?t [(''net_1'', edge_network)]"
    by (simp add: table_holds_def list_table_def ids edge_networks_storable)
  have "sql_network_get (\<lambda>_. ''h'') ?T (net_id edge_network_with_nat) t' = Inr (Some (edge_network_with_nat
      \<lparr>net_nat := net_nat edge_network, net_firewall := net_firewall edge_network\<rparr>))"
    by (rule sql_network_update_keeps_edge [OF list_table_lawful h _ edge_networks_storable(2) s])
      (simp add: ids)
  then show ?thesis using s by (simp add: ids edge_network_def edge_network_with_nat_def)
qed

end
