(* ===== verification/Agent_Host.thy ===== *)
theory Agent_Host
  imports Fake_Ovsdb Use_Case
begin

text \<open>
  The machine the agent's real adapters work on: its files and the programs and processes they call
  (\<open>nft\<close>, \<open>dnsmasq\<close>, \<open>coredns\<close>, \<open>ovs-vsctl\<close>, which are not part of the repository). What a program
  answers is a parameter, \<open>programs\<close>: it may depend on its arguments, on the files and on everything
  that happened on the host before, which \<open>h_log\<close> records. The \<open>_run\<close> method of the four adapters is one
  text (\<open>netos_agent/adapters/*/adapter.py\<close>): a missing program, a timeout and a non-zero exit are an
  \<open>OvsdbError\<close>. Errors of the file system and the creation of directories are not modelled.
\<close>

type_synonym files = "(string, string) dict"

datatype outcome = ProgramMissing | TimedOut | Exited int string

datatype signal_outcome = Signalled | NoSuchProcess | NotPermitted

datatype host_event =
    Ran "string list" files outcome
  | Kill int string signal_outcome

record programs =
  pg_which :: "host_event list \<Rightarrow> string \<Rightarrow> bool"
  pg_run :: "host_event list \<Rightarrow> files \<Rightarrow> string list \<Rightarrow> outcome"
  pg_kill :: "host_event list \<Rightarrow> int \<Rightarrow> string \<Rightarrow> signal_outcome"
  pg_mkdtemp :: "host_event list \<Rightarrow> string \<Rightarrow> string"

record host =
  h_files :: files
  h_log :: "host_event list"

type_synonym 'a host_act = "(host, agent_error, 'a) act"

text \<open>\<open>asyncio.create_subprocess_exec\<close> and waiting for the process, which the log records.\<close>

definition spawn :: "programs \<Rightarrow> string list \<Rightarrow> outcome host_act" where
  "spawn pg args h = (let out = pg_run pg (h_log h) (h_files h) args
     in (Inr out, h\<lparr>h_log := h_log h @ [Ran args (h_files h) out]\<rparr>))"

definition run_command :: "programs \<Rightarrow> string list \<Rightarrow> string host_act" where
  "run_command pg args = bindM (spawn pg args) (\<lambda>out. case out of
       ProgramMissing \<Rightarrow> raiseM OvsdbError
     | TimedOut \<Rightarrow> raiseM OvsdbError
     | Exited rc stdout \<Rightarrow> if rc = 0 then returnM stdout else raiseM OvsdbError)"

text \<open>\<open>if shutil.which(program) is None: raise OvsdbError(...)\<close>\<close>

definition require_program :: "programs \<Rightarrow> string \<Rightarrow> unit host_act" where
  "require_program pg program h = (require (pg_which pg (h_log h) program) OvsdbError, h)"

definition write_text :: "string \<Rightarrow> string \<Rightarrow> unit host_act" where
  "write_text path text = modifyM (\<lambda>h. h\<lparr>h_files := dset path text (h_files h)\<rparr>)"

definition unlink_quiet :: "string \<Rightarrow> host \<Rightarrow> host" where
  "unlink_quiet path h = h\<lparr>h_files := dpop path (h_files h)\<rparr>"

text \<open>\<open>read_text\<close> turns every line ending into a line feed.\<close>

fun universal_newlines :: "string \<Rightarrow> string" where
  "universal_newlines [] = []"
| "universal_newlines [c] = [if c = CHR 0x0D then CHR 0x0A else c]"
| "universal_newlines (c # d # cs) =
     (if c = CHR 0x0D then CHR 0x0A # universal_newlines (if d = CHR 0x0A then cs else d # cs)
      else c # universal_newlines (d # cs))"

definition read_text :: "string \<Rightarrow> host \<Rightarrow> string option" where
  "read_text path h = map_option universal_newlines (dget (h_files h) path)"

definition safe_read :: "string \<Rightarrow> string option host_act" where
  "safe_read path = getM (read_text path)"

text \<open>\<open>_atomic_write\<close>: the text goes to a temporary file beside the target, which then replaces it.\<close>

definition atomic_write :: "string \<Rightarrow> string \<Rightarrow> unit host_act" where
  "atomic_write path text =
     bindM (write_text (path @ ''.tmp'') text) (\<lambda>_.
     modifyM (\<lambda>h. h\<lparr>h_files := dset path text (dpop (path @ ''.tmp'') (h_files h))\<rparr>))"

text \<open>\<open>shutil.rmtree(dir)\<close>: every file below the directory.\<close>

definition below :: "string \<Rightarrow> string \<Rightarrow> bool" where
  "below dir path \<longleftrightarrow> take (length dir + 1) path = dir @ ''/''"

definition rmtree :: "string \<Rightarrow> host \<Rightarrow> host" where
  "rmtree dir h = h\<lparr>h_files := filter (\<lambda>(p, _). \<not> below dir p) (h_files h)\<rparr>"

definition send_signal :: "programs \<Rightarrow> int \<Rightarrow> string \<Rightarrow> unit host_act" where
  "send_signal pg pid sig h = (let out = pg_kill pg (h_log h) pid sig
     in (case out of Signalled \<Rightarrow> Inr () | _ \<Rightarrow> Inl OvsdbError, h\<lparr>h_log := h_log h @ [Kill pid sig out]\<rparr>))"

definition lines_text :: "string list \<Rightarrow> string" where
  "lines_text ls = join [CHR 0x0A] ls @ [CHR 0x0A]"

text \<open>\<open>str.splitlines\<close> on code points below 256, for text without carriage returns.\<close>

definition line_break :: "char \<Rightarrow> bool" where
  "line_break c \<longleftrightarrow> (of_char c :: nat) \<in> {10, 11, 12, 13, 28, 29, 30, 133}"

fun lines_acc :: "string \<Rightarrow> string \<Rightarrow> string list" where
  "lines_acc acc [] = (if acc = [] then [] else [rev acc])"
| "lines_acc acc (c # cs) = (if line_break c then rev acc # lines_acc [] cs else lines_acc (c # acc) cs)"

definition split_lines :: "string \<Rightarrow> string list" where
  "split_lines text = lines_acc [] text"

text \<open>\<open>int(text)\<close>: white space around, a sign, digits in groups that an underscore separates.\<close>

definition int_text :: "string \<Rightarrow> int option" where
  "int_text s =
     (let t = py_strip s;
          neg = (t \<noteq> [] \<and> hd t = CHR ''-'');
          body = (if t \<noteq> [] \<and> hd t \<in> {CHR ''-'', CHR ''+''} then tl t else t);
          groups = split (CHR ''_'') body
      in if [] \<in> set groups \<or> 4300 < length (concat groups) then None
         else map_option (\<lambda>n. if neg then - int n else int n) (num_val dec_digit 10 0 (concat groups)))"

lemma universal_newlines_id: "CHR 0x0D \<notin> set s \<Longrightarrow> universal_newlines s = s"
  by (induction s rule: universal_newlines.induct) auto

lemma run_command_run:
  "run_command pg args h =
     (let out = pg_run pg (h_log h) (h_files h) args
      in (case out of Exited rc stdout \<Rightarrow> if rc = 0 then Inr stdout else Inl OvsdbError | _ \<Rightarrow> Inl OvsdbError,
          h\<lparr>h_log := h_log h @ [Ran args (h_files h) out]\<rparr>))"
  by (simp add: run_command_def spawn_def bindM_run Let_def split: outcome.split)

lemma host_runs [simp]:
  "write_text p t h = (Inr (), h\<lparr>h_files := dset p t (h_files h)\<rparr>)"
  "safe_read p h = (Inr (read_text p h), h)"
  "require_program pg x h = (require (pg_which pg (h_log h) x) OvsdbError, h)"
  by (simp_all add: write_text_def safe_read_def require_program_def)

text \<open>Programs that are installed, accept every call and find every process.\<close>

definition willing :: "programs \<Rightarrow> bool" where
  "willing pg \<longleftrightarrow> (\<forall>log program. pg_which pg log program) \<and>
     (\<forall>log fs args. \<exists>stdout. pg_run pg log fs args = Exited 0 stdout) \<and>
     (\<forall>log pid sig. pg_kill pg log pid sig = Signalled)"

lemma willingE:
  assumes "willing pg"
  obtains g where "\<And>log fs args. pg_run pg log fs args = Exited 0 (g log fs args)"
    "\<And>log program. pg_which pg log program" "\<And>log pid sig. pg_kill pg log pid sig = Signalled"
proof -
  have "\<forall>log fs args. \<exists>t. pg_run pg log fs args = Exited 0 t" using assms by (simp add: willing_def)
  then obtain g where "\<forall>log fs args. pg_run pg log fs args = Exited 0 (g log fs args)" by metis
  then show ?thesis using assms by (intro that [of g]) (simp_all add: willing_def)
qed

lemma bindM_const:
  "fst (bindM m (\<lambda>_. returnM y) s) = map_sum id (\<lambda>_. y) (fst (m s))"
  "snd (bindM m (\<lambda>_. returnM y) s) = snd (m s)"
  by (cases "m s"; cases "fst (m s)"; simp add: bindM_run)+

end
