(* ===== verification/Agent_Nftables.thy ===== *)
theory Agent_Nftables
  imports Agent_Host
begin

text \<open>
  The nftables adapter of the agent (\<open>netos_agent/adapters/firewall_nftables/adapter.py\<close>). It keeps
  the policies and NAT rules it was given, and every change renders the whole script, has \<open>nft\<close> check
  it and load it.
\<close>

record nft_config =
  nc_nft :: string
  nc_scratch_dir :: string

record nftables =
  nf_policies :: "(string, ag_fw_policy) dict"
  nf_nat :: "(string, nat_rule) dict"
  nf_host :: host

definition nft_host :: "'a host_act \<Rightarrow> (nftables, agent_error, 'a) act" where
  "nft_host m = zoomM nf_host (\<lambda>h s. s\<lparr>nf_host := h\<rparr>) m"

subsection \<open>The script\<close>

text \<open>\<open>str.isalnum\<close> on code points below 256.\<close>

definition py_isalnum :: "char \<Rightarrow> bool" where
  "py_isalnum c = (let n = of_char c :: nat in
     (48 \<le> n \<and> n \<le> 57) \<or> (65 \<le> n \<and> n \<le> 90) \<or> (97 \<le> n \<and> n \<le> 122) \<or>
     n \<in> {170, 178, 179, 181, 185, 186, 188, 189, 190} \<or> (192 \<le> n \<and> n \<noteq> 215 \<and> n \<noteq> 247))"

definition policy_chain_name :: "string \<Rightarrow> string" where
  "policy_chain_name policy_id =
     ''policy_'' @ List.map (\<lambda>c. if py_isalnum c then c else CHR ''_'') policy_id"

definition dport_match :: "fw_rule \<Rightarrow> string list" where
  "dport_match r = (case fr_port_start r of None \<Rightarrow> []
     | Some start \<Rightarrow>
         let finish = (case fr_port_end r of None \<Rightarrow> start | Some e \<Rightarrow> if e = 0 then start else e);
             proto = (if fr_proto r \<in> {PROTO_TCP, PROTO_UDP} then fw_proto_value (fr_proto r) else ''tcp'')
         in [proto @ '' dport { '' @ str_int start @ ''-'' @ str_int finish @ '' }''])"

definition render_rule :: "fw_rule \<Rightarrow> string" where
  "render_rule r = join '' ''
     ((case fr_source r of None \<Rightarrow> [] | Some c \<Rightarrow> [''ip saddr '' @ c])
      @ (case fr_destination r of None \<Rightarrow> [] | Some c \<Rightarrow> [''ip daddr '' @ c])
      @ (if fr_proto r \<noteq> PROTO_ANY then [''meta l4proto '' @ fw_proto_value (fr_proto r)] else [])
      @ dport_match r @ [''counter'', fw_action_value (fr_action r)])"

definition policy_chain :: "string \<times> ag_fw_policy \<Rightarrow> string list" where
  "policy_chain ip = (case ip of (policy_id, p) \<Rightarrow>
     [''    chain '' @ policy_chain_name policy_id @ '' {'', ''        counter'']
     @ List.map (\<lambda>r. ''        '' @ render_rule r) (afp_rules p)
     @ [''        '' @ fw_action_value (afp_default p), ''    }''])"

definition nat_line :: "nat_rule \<Rightarrow> string" where
  "nat_line r = ''        ip saddr '' @ nr_source_cidr r @ '' oifname '' @ [CHR 0x22] @ nr_egress r @ [CHR 0x22]
     @ '' counter masquerade comment '' @ [CHR 0x22] @ nr_rule_id r @ [CHR 0x22]"

definition nft_script :: "(string, ag_fw_policy) dict \<Rightarrow> (string, nat_rule) dict \<Rightarrow> string" where
  "nft_script policies rules = lines_text
     ([''#!/usr/sbin/nft -f'', ''# managed by sdn-controller'', ''flush table inet sdn_controller'',
       ''flush table ip sdn_controller_nat'', ''table inet sdn_controller {'']
      @ concat (List.map policy_chain policies)
      @ [''    chain dispatch {'', ''        type filter hook forward priority 0; policy accept;'']
      @ List.map (\<lambda>i. ''        jump '' @ policy_chain_name i) (dkeys policies)
      @ [''    }'', ''}'', ''table ip sdn_controller_nat {'', ''    chain postrouting {'',
         ''        type nat hook postrouting priority srcnat; policy accept;'']
      @ List.map nat_line (dvalues rules) @ [''    }'', ''}''])"

definition nft_render :: "ag_fw_policy option \<Rightarrow> nat_rule option \<Rightarrow> nftables \<Rightarrow> string" where
  "nft_render extra_policy extra_nat s = nft_script
     (case extra_policy of None \<Rightarrow> nf_policies s | Some p \<Rightarrow> dset (afp_policy_id p) p (nf_policies s))
     (case extra_nat of None \<Rightarrow> nf_nat s | Some r \<Rightarrow> dset (nr_rule_id r) r (nf_nat s))"

subsection \<open>Checking and loading\<close>

definition script_path :: "nft_config \<Rightarrow> string" where
  "script_path c = nc_scratch_dir c @ ''/sdn.nft''"

definition check_path :: "nft_config \<Rightarrow> string" where
  "check_path c = nc_scratch_dir c @ ''/sdn.check.nft''"

definition check_script :: "nft_config \<Rightarrow> programs \<Rightarrow> string \<Rightarrow> unit host_act" where
  "check_script c pg script =
     bindM (require_program pg (nc_nft c)) (\<lambda>_.
     bindM (write_text (check_path c) script) (\<lambda>_.
     finallyM (bindM (run_command pg [nc_nft c, ''--check'', ''-f'', check_path c]) (\<lambda>_. returnM ()))
       (unlink_quiet (check_path c))))"

definition apply_script :: "nft_config \<Rightarrow> programs \<Rightarrow> (nftables, agent_error, unit) act" where
  "apply_script c pg =
     bindM (getM (nft_render None None)) (\<lambda>script.
     bindM (nft_host (check_script c pg script)) (\<lambda>_.
     bindM (nft_host (write_text (script_path c) script)) (\<lambda>_.
     bindM (nft_host (run_command pg [nc_nft c, ''-f'', script_path c])) (\<lambda>_. returnM ()))))"

subsection \<open>The firewall port\<close>

definition nft_validate_policy :: "nft_config \<Rightarrow> programs \<Rightarrow> ag_fw_policy \<Rightarrow> (nftables, agent_error, unit) act" where
  "nft_validate_policy c pg p =
     bindM (getM (nft_render (Some p) None)) (\<lambda>script. nft_host (check_script c pg script))"

definition nft_apply_policy :: "nft_config \<Rightarrow> programs \<Rightarrow> ag_fw_policy \<Rightarrow> (nftables, agent_error, bool) act" where
  "nft_apply_policy c pg p =
     bindM (getM (\<lambda>s. dget (nf_policies s) (afp_policy_id p))) (\<lambda>existing.
     if existing = Some p then returnM False
     else bindM (modifyM (\<lambda>s. s\<lparr>nf_policies := dset (afp_policy_id p) p (nf_policies s)\<rparr>)) (\<lambda>_.
          bindM (apply_script c pg) (\<lambda>_. returnM True)))"

definition nft_delete_policy :: "nft_config \<Rightarrow> programs \<Rightarrow> string \<Rightarrow> (nftables, agent_error, bool) act" where
  "nft_delete_policy c pg policy_id =
     bindM (getM (\<lambda>s. dget (nf_policies s) policy_id)) (\<lambda>existing.
     if existing = None then returnM False
     else bindM (modifyM (\<lambda>s. s\<lparr>nf_policies := dpop policy_id (nf_policies s)\<rparr>)) (\<lambda>_.
          bindM (apply_script c pg) (\<lambda>_. returnM True)))"

definition nft_list_policies :: "nftables \<Rightarrow> ag_fw_policy list" where
  "nft_list_policies s = dvalues (nf_policies s)"

definition nft_validate_nat :: "nft_config \<Rightarrow> programs \<Rightarrow> nat_rule \<Rightarrow> (nftables, agent_error, unit) act" where
  "nft_validate_nat c pg r =
     bindM (getM (nft_render None (Some r))) (\<lambda>script. nft_host (check_script c pg script))"

definition nft_apply_nat :: "nft_config \<Rightarrow> programs \<Rightarrow> nat_rule \<Rightarrow> (nftables, agent_error, bool) act" where
  "nft_apply_nat c pg r =
     bindM (getM (\<lambda>s. dget (nf_nat s) (nr_rule_id r))) (\<lambda>existing.
     if existing = Some r then returnM False
     else bindM (modifyM (\<lambda>s. s\<lparr>nf_nat := dset (nr_rule_id r) r (nf_nat s)\<rparr>)) (\<lambda>_.
          bindM (apply_script c pg) (\<lambda>_. returnM True)))"

definition nft_delete_nat :: "nft_config \<Rightarrow> programs \<Rightarrow> string \<Rightarrow> (nftables, agent_error, bool) act" where
  "nft_delete_nat c pg rule_id =
     bindM (getM (\<lambda>s. dget (nf_nat s) rule_id)) (\<lambda>existing.
     if existing = None then returnM False
     else bindM (modifyM (\<lambda>s. s\<lparr>nf_nat := dpop rule_id (nf_nat s)\<rparr>)) (\<lambda>_.
          bindM (apply_script c pg) (\<lambda>_. returnM True)))"

definition nft_list_nat_rules :: "nftables \<Rightarrow> nat_rule list" where
  "nft_list_nat_rules s = dvalues (nf_nat s)"

subsection \<open>Counters\<close>

text \<open>
  \<open>get_counters\<close> reads the JSON listing of the table. \<open>loads\<close> is \<open>json.loads\<close>, without a value for a
  text that is not JSON; a document of a shape \<open>nft\<close> does not write (counters that are no integers
  among them) makes Python raise, which is \<open>None\<close> here.
\<close>

definition as_obj :: "json \<Rightarrow> (string \<times> json) list option" where
  "as_obj j = (case j of JObj kvs \<Rightarrow> Some kvs | _ \<Rightarrow> None)"

definition list_at :: "string \<Rightarrow> (string \<times> json) list \<Rightarrow> json list option" where
  "list_at k kvs = (case map_of kvs k of None \<Rightarrow> Some [] | Some v \<Rightarrow> as_list v)"

definition int_at :: "string \<Rightarrow> (string \<times> json) list \<Rightarrow> int option" where
  "int_at k kvs = (case map_of kvs k of None \<Rightarrow> Some 0 | Some v \<Rightarrow> as_int v)"

fun sum_counters :: "json list \<Rightarrow> int \<times> int \<Rightarrow> (int \<times> int) option" where
  "sum_counters [] acc = Some acc"
| "sum_counters (e # es) (packets, bytes) =
     (case Option.bind (as_obj e) (\<lambda>kvs. Option.bind (map_of kvs ''counter'') as_obj) of
        None \<Rightarrow> sum_counters es (packets, bytes)
      | Some counter \<Rightarrow> do {
          p \<leftarrow> int_at ''packets'' counter;
          b \<leftarrow> int_at ''bytes'' counter;
          sum_counters es (packets + p, bytes + b) })"

fun sum_items :: "string \<Rightarrow> json list \<Rightarrow> int \<times> int \<Rightarrow> (int \<times> int) option" where
  "sum_items chain [] acc = Some acc"
| "sum_items chain (item # items) acc = do {
     kvs \<leftarrow> as_obj item;
     case Option.bind (map_of kvs ''rule'') as_obj of
       None \<Rightarrow> sum_items chain items acc
     | Some rule \<Rightarrow>
         if map_of rule ''chain'' \<noteq> Some (JStr chain) then sum_items chain items acc
         else do { exprs \<leftarrow> list_at ''expr'' rule; acc' \<leftarrow> sum_counters exprs acc; sum_items chain items acc' } }"

definition nft_get_counters ::
  "(string \<Rightarrow> json option) \<Rightarrow> nft_config \<Rightarrow> programs \<Rightarrow> string \<Rightarrow> nftables \<Rightarrow> (int \<times> int) option \<times> nftables" where
  "nft_get_counters loads c pg policy_id s =
     (case nft_host (run_command pg [nc_nft c, ''-j'', ''list'', ''table'', ''inet'', ''sdn_controller'']) s of
        (Inl _, s') \<Rightarrow> (Some (0, 0), s')
      | (Inr raw, s') \<Rightarrow> (case loads raw of
            None \<Rightarrow> Some (0, 0)
          | Some doc \<Rightarrow> do {
              kvs \<leftarrow> as_obj doc;
              items \<leftarrow> list_at ''nftables'' kvs;
              sum_items (policy_chain_name policy_id) items (0, 0) }, s'))"

text \<open>
  What the nftables adapter guarantees. The rules in the kernel are taken to be those of the last script
  whose load \<open>nft -f\<close> reported as done, which the log of the host tells. While \<open>nft\<close> accepts, the adapter answers as the
  in-memory firewall does and the loaded script is the text of what it stores; a refused load leaves
  the change stored, and the retry of the same call reports that nothing is to be done.
\<close>

definition load_of :: "nft_config \<Rightarrow> host_event \<Rightarrow> string option" where
  "load_of c ev = (case ev of
       Ran args fs (Exited rc _) \<Rightarrow>
         if args = [nc_nft c, ''-f'', script_path c] \<and> rc = 0 then dget fs (script_path c) else None
     | _ \<Rightarrow> None)"

definition loaded :: "nft_config \<Rightarrow> host_event list \<Rightarrow> string option" where
  "loaded c log = fold (\<lambda>ev acc. case load_of c ev of None \<Rightarrow> acc | Some t \<Rightarrow> Some t) log None"

abbreviation loaded_script :: "nft_config \<Rightarrow> nftables \<Rightarrow> string option" where
  "loaded_script c s \<equiv> loaded c (h_log (nf_host s))"

lemma loaded_snoc:
  "loaded c (log @ [ev]) = (case load_of c ev of None \<Rightarrow> loaded c log | Some t \<Rightarrow> Some t)"
  unfolding loaded_def by simp

lemma load_of_simps [simp]:
  "load_of c (Kill pid sig killed) = None"
  "load_of c (Ran [a, b, d, e] fs out) = None"
  "load_of c (Ran args fs ProgramMissing) = None"
  "load_of c (Ran args fs TimedOut) = None"
  "load_of c (Ran [nc_nft c, ''-f'', script_path c] fs (Exited rc t)) =
     (if rc = 0 then dget fs (script_path c) else None)"
  by (simp_all add: load_of_def split: outcome.split)

lemma nft_host_run: "nft_host m s = (fst (m (nf_host s)), s\<lparr>nf_host := snd (m (nf_host s))\<rparr>)"
  by (simp add: nft_host_def zoomM_run)

lemma check_script_loaded: "loaded c (h_log (snd (check_script c pg t h))) = loaded c (h_log h)"
  by (simp add: check_script_def bindM_run finallyM_run run_command_run unlink_quiet_def Let_def
      loaded_snoc require_def split: outcome.split)

lemma check_script_error: "fst (check_script c pg t h) = Inl e \<Longrightarrow> e = OvsdbError"
  by (auto simp: check_script_def bindM_run finallyM_run run_command_run require_def Let_def
      split: outcome.splits if_splits)

lemma check_script_willing: "willing pg \<Longrightarrow> fst (check_script c pg t h) = Inr ()"
  by (erule willingE) (simp add: check_script_def bindM_run finallyM_run run_command_run require_def Let_def)

lemma apply_script_keeps:
  "nf_policies (snd (apply_script c pg s)) = nf_policies s"
  "nf_nat (snd (apply_script c pg s)) = nf_nat s"
  by (simp_all add: apply_script_def nft_host_run bindM_run split: sum.split)

lemma apply_script_cases:
  "(fst (apply_script c pg s) = Inr () \<and>
      loaded_script c (snd (apply_script c pg s)) = Some (nft_script (nf_policies s) (nf_nat s))) \<or>
   (fst (apply_script c pg s) = Inl OvsdbError \<and>
      loaded_script c (snd (apply_script c pg s)) = loaded_script c s)"
proof (cases "fst (check_script c pg (nft_render None None s) (nf_host s))")
  case (Inl e)
  then show ?thesis using check_script_error [OF Inl]
    by (simp add: apply_script_def nft_host_run bindM_run check_script_loaded)
next
  case (Inr u)
  then show ?thesis
    by (simp add: apply_script_def nft_host_run bindM_run run_command_run Let_def loaded_snoc
        check_script_loaded nft_render_def split: outcome.split)
qed

lemma apply_script_willing: "willing pg \<Longrightarrow> fst (apply_script c pg s) = Inr ()"
  by (erule willingE) (simp add: apply_script_def check_script_def nft_host_run bindM_run finallyM_run
      run_command_run require_def Let_def)

subsection \<open>Calls\<close>

datatype fw_call = FwApply ag_fw_policy | FwDelete string | FwApplyNat nat_rule | FwDeleteNat string

fun nft_call :: "nft_config \<Rightarrow> programs \<Rightarrow> fw_call \<Rightarrow> (nftables, agent_error, bool) act" where
  "nft_call c pg (FwApply p) = nft_apply_policy c pg p"
| "nft_call c pg (FwDelete k) = nft_delete_policy c pg k"
| "nft_call c pg (FwApplyNat r) = nft_apply_nat c pg r"
| "nft_call c pg (FwDeleteNat k) = nft_delete_nat c pg k"

type_synonym fw_intent = "(string, ag_fw_policy) dict \<times> (string, nat_rule) dict"

text \<open>The same call on the in-memory firewall.\<close>

fun fake_fw_call :: "fw_call \<Rightarrow> fw_intent \<Rightarrow> fw_intent \<times> bool" where
  "fake_fw_call (FwApply p) (ps, ns) = (let (ps', ch) = policy_apply p ps in ((ps', ns), ch))"
| "fake_fw_call (FwDelete k) (ps, ns) = (let (ps', ch) = idem_del k ps in ((ps', ns), ch))"
| "fake_fw_call (FwApplyNat r) (ps, ns) = (let (ns', ch) = nat_apply r ns in ((ps, ns'), ch))"
| "fake_fw_call (FwDeleteNat k) (ps, ns) = (let (ns', ch) = idem_del k ns in ((ps, ns'), ch))"

fun nft_calls ::
  "nft_config \<Rightarrow> programs \<Rightarrow> fw_call list \<Rightarrow> nftables \<Rightarrow> (agent_error + bool) list \<times> nftables" where
  "nft_calls c pg [] s = ([], s)"
| "nft_calls c pg (x # xs) s =
     (let (r, s1) = nft_call c pg x s; (rs, s2) = nft_calls c pg xs s1 in (r # rs, s2))"

fun fake_fw_calls :: "fw_call list \<Rightarrow> fw_intent \<Rightarrow> bool list \<times> fw_intent" where
  "fake_fw_calls [] i = ([], i)"
| "fake_fw_calls (x # xs) i =
     (let (i1, r) = fake_fw_call x i; (rs, i2) = fake_fw_calls xs i1 in (r # rs, i2))"

abbreviation intent :: "nftables \<Rightarrow> fw_intent" where
  "intent s \<equiv> (nf_policies s, nf_nat s)"

lemma dpop_absent: "dget d k = None \<Longrightarrow> dpop k d = d"
  by (auto simp: dpop_def map_of_eq_None_iff intro!: filter_True)

text \<open>
  One call: what is stored afterwards is what the in-memory firewall stores, whatever \<open>nft\<close> answers;
  a call that changes nothing runs nothing; the others load the script of the new intent or fail.
\<close>

lemma nft_call_step:
  assumes "fake_fw_call x (intent s) = (i, ch)"
  shows "intent (snd (nft_call c pg x s)) = i"
    and "\<not> ch \<Longrightarrow> nft_call c pg x s = (Inr False, s)"
    and "ch \<Longrightarrow> (fst (nft_call c pg x s) = Inr True \<and>
           loaded_script c (snd (nft_call c pg x s)) = Some (nft_script (fst i) (snd i))) \<or>
         (fst (nft_call c pg x s) = Inl OvsdbError \<and>
           loaded_script c (snd (nft_call c pg x s)) = loaded_script c s)"
    and "ch \<Longrightarrow> willing pg \<Longrightarrow> fst (nft_call c pg x s) = Inr True"
proof -
  define act where "act = bindM (apply_script c pg) (\<lambda>_. returnM True)"
  have run: "\<not> ch \<and> nft_call c pg x s = (Inr False, s) \<and> intent s = i \<or>
      ch \<and> nft_call c pg x s = act (s\<lparr>nf_policies := fst i, nf_nat := snd i\<rparr>)"
  proof (cases x)
    case (FwApply p)
    then show ?thesis using assms
      by (cases "dget (nf_policies s) (afp_policy_id p) = Some p")
        (auto simp: nft_apply_policy_def policy_apply_def idem_put_def act_def)
  next
    case (FwDelete k)
    then show ?thesis using assms dpop_absent [of "nf_policies s" k]
      by (cases "dget (nf_policies s) k = None") (auto simp: nft_delete_policy_def idem_del_def act_def)
  next
    case (FwApplyNat r)
    then show ?thesis using assms
      by (cases "dget (nf_nat s) (nr_rule_id r) = Some r")
        (auto simp: nft_apply_nat_def nat_apply_def idem_put_def act_def)
  next
    case (FwDeleteNat k)
    then show ?thesis using assms dpop_absent [of "nf_nat s" k]
      by (cases "dget (nf_nat s) k = None") (auto simp: nft_delete_nat_def idem_del_def act_def)
  qed
  note after = bindM_const [of "apply_script c pg" True, folded act_def]
  show "intent (snd (nft_call c pg x s)) = i"
    using run by (auto simp: after apply_script_keeps)
  show "\<not> ch \<Longrightarrow> nft_call c pg x s = (Inr False, s)"
    using run by simp
  show "(fst (nft_call c pg x s) = Inr True \<and>
           loaded_script c (snd (nft_call c pg x s)) = Some (nft_script (fst i) (snd i))) \<or>
         (fst (nft_call c pg x s) = Inl OvsdbError \<and>
           loaded_script c (snd (nft_call c pg x s)) = loaded_script c s)" if ch
    using run that apply_script_cases [of c pg "s\<lparr>nf_policies := fst i, nf_nat := snd i\<rparr>"]
    by (auto simp: after)
  show "fst (nft_call c pg x s) = Inr True" if ch "willing pg"
    using run that apply_script_willing [of pg c] by (auto simp: after)
qed

lemma fake_fw_call_twice:
  "fake_fw_call x i = (j, ch) \<Longrightarrow> fake_fw_call x j = (j, False)"
  by (cases i; cases x)
    (auto simp: policy_apply_def nat_apply_def idem_put_def idem_del_def dpop_absent split: if_splits)

definition example_nft :: nft_config where
  "example_nft = \<lparr>nc_nft = ''nft'', nc_scratch_dir = ''/run/sdn-controller/nft''\<rparr>"

definition answering :: "outcome \<Rightarrow> programs" where
  "answering out = \<lparr>pg_which = \<lambda>_ _. True, pg_run = \<lambda>_ _ _. out, pg_kill = \<lambda>_ _ _. Signalled,
     pg_mkdtemp = \<lambda>_ prefix. ''/tmp/'' @ prefix\<rparr>"

definition example_policy :: ag_fw_policy where
  "example_policy = \<lparr>afp_policy_id = ''policy-1'', afp_default = FW_DROP, afp_rules = []\<rparr>"

definition fresh_nftables :: nftables where
  "fresh_nftables = \<lparr>nf_policies = [], nf_nat = [], nf_host = \<lparr>h_files = [], h_log = []\<rparr>\<rparr>"

text \<open>
  While nft accepts what it is given, the nftables adapter is the in-memory firewall: over every
  sequence of calls it gives the same answers and stores the same policies and NAT rules, and when
  anything changed, the script loaded last is exactly the rendering of what it stores.
\<close>

lemma nftables_like_fake:
  assumes "willing pg"
  shows "fst (nft_calls c pg xs s) = List.map Inr (fst (fake_fw_calls xs (intent s))) \<and>
    intent (snd (nft_calls c pg xs s)) = snd (fake_fw_calls xs (intent s)) \<and>
    loaded_script c (snd (nft_calls c pg xs s)) =
      (if True \<in> set (fst (fake_fw_calls xs (intent s)))
       then Some (nft_script (fst (snd (fake_fw_calls xs (intent s)))) (snd (snd (fake_fw_calls xs (intent s)))))
       else loaded_script c s)"
proof (induction xs arbitrary: s)
  case (Cons x xs)
  obtain i ch where f: "fake_fw_call x (intent s) = (i, ch)" by (cases "fake_fw_call x (intent s)")
  obtain r s1 where n: "nft_call c pg x s = (r, s1)" by (cases "nft_call c pg x s")
  note step = nft_call_step [OF f, where c = c and pg = pg, unfolded n fst_conv snd_conv]
  have i: "intent s1 = i" by (rule step(1))
  have r: "r = Inr ch" using step(2,4) assms by (cases ch) auto
  have l: "loaded_script c s1 = (if ch then Some (nft_script (fst i) (snd i)) else loaded_script c s)"
    using step(2,3) r by (cases ch) auto
  have unchanged: "True \<notin> set (fst (fake_fw_calls ys j)) \<Longrightarrow> snd (fake_fw_calls ys j) = j" for ys j
  proof (induction ys arbitrary: j)
    case (Cons y ys)
    then show ?case
      by (cases j; cases y)
        (auto simp: Let_def split_beta policy_apply_def nat_apply_def idem_put_def idem_del_def dpop_absent
          split: if_splits)
  qed simp
  show ?case using Cons.IH [of s1] i r l f n unchanged [of xs i]
    by (simp add: Let_def split_beta)
qed simp

lemma willing_answering: "willing (answering (Exited 0 t))"
  by (simp add: willing_def answering_def)

lemma nftables_like_fake_witness:
  "fst (nft_calls example_nft (answering (Exited 0 [])) [FwApply example_policy, FwApply example_policy] fresh_nftables) =
     [Inr True, Inr False] \<and>
   loaded_script example_nft (snd (nft_calls example_nft (answering (Exited 0 []))
     [FwApply example_policy, FwApply example_policy] fresh_nftables)) =
     Some (nft_script [(''policy-1'', example_policy)] [])"
  using nftables_like_fake [OF willing_answering [of "[]"], of example_nft
      "[FwApply example_policy, FwApply example_policy]" fresh_nftables]
  by (simp add: fresh_nftables_def policy_apply_def idem_put_def example_policy_def)

text \<open>
  C26. What a call of the nftables adapter does, whatever nft answers. It stores what the in-memory
  firewall stores after the call. If that changes nothing, nothing is run. Otherwise either the call
  reports the change and the script nft loaded last is exactly the rendering of what is stored, or it
  fails (a script that does not pass the check, a load that is rejected or timed out) and the script
  whose load nft reported last is the old one; it does not fail when nft accepts. And in every case
  the same call again answers that nothing is to be done and runs nothing: a change that nft refused
  stays stored and is never retried, while the comment in the code calls the stored intent the one
  last applied successfully.
\<close>

theorem nftables_call_outcome:
  assumes "nft_call c pg x s = (r, s')" "fake_fw_call x (intent s) = (i, changed)"
  shows "intent s' = i \<and> nft_call c pg' x s' = (Inr False, s') \<and> (willing pg \<longrightarrow> r = Inr changed) \<and>
    (case r of
       Inr b \<Rightarrow> b = changed \<and>
         (if changed then loaded_script c s' = Some (nft_script (fst i) (snd i)) else s' = s)
     | Inl e \<Rightarrow> changed \<and> e = OvsdbError \<and> loaded_script c s' = loaded_script c s)"
proof -
  note step = nft_call_step [OF assms(2), where c = c and pg = pg, unfolded assms(1) fst_conv snd_conv]
  have again: "fake_fw_call x (intent s') = (i, False)"
    unfolding step(1) by (rule fake_fw_call_twice [OF assms(2)])
  show ?thesis using step nft_call_step(2) [OF again, where c = c and pg = pg'] by (cases changed) auto
qed

theorem nftables_call_outcome_witness:
  "loaded_script example_nft (snd (nft_call example_nft (answering (Exited 1 [])) (FwApply example_policy) fresh_nftables)) = None \<and>
   fst (nft_call example_nft (answering (Exited 0 [])) (FwApply example_policy)
     (snd (nft_call example_nft (answering (Exited 1 [])) (FwApply example_policy) fresh_nftables))) = Inr False"
proof -
  have run: "nft_call example_nft (answering (Exited 1 [])) (FwApply example_policy) fresh_nftables =
      (Inl OvsdbError, snd (nft_call example_nft (answering (Exited 1 [])) (FwApply example_policy) fresh_nftables))"
    by (simp add: prod_eq_iff nft_apply_policy_def fresh_nftables_def apply_script_def check_script_def
        nft_host_run bindM_run finallyM_run run_command_run require_def answering_def Let_def)
  have fake: "fake_fw_call (FwApply example_policy) (intent fresh_nftables) = (([(''policy-1'', example_policy)], []), True)"
    by (simp add: fresh_nftables_def policy_apply_def idem_put_def example_policy_def)
  show ?thesis
    using nftables_call_outcome [OF run fake, of "answering (Exited 0 [])"]
    by (simp add: fresh_nftables_def loaded_def)
qed

end
