(* ===== verification/Agent_Ovs.thy ===== *)
theory Agent_Ovs
  imports Agent_Host Cron Reconcile Json
begin

text \<open>
  The adapter that works on a real Open vSwitch (\<open>netos_agent/adapters/ovsdb_subprocess/adapter.py\<close>):
  \<open>ovs-vsctl\<close> commands for the writes, three JSON listings for the read. \<open>loads\<close> is \<open>json.loads\<close>. On a
  listing of another shape than \<open>ovs-vsctl\<close> writes Python raises; that is \<open>None\<close> here, and the answer of
  \<open>get_state\<close> then has no value.
\<close>

text \<open>\<open>row[i]\<close>, which raises past the end.\<close>

definition nth_opt :: "'a list \<Rightarrow> nat \<Rightarrow> 'a option" where
  "nth_opt xs i = (if i < length xs then Some (xs ! i) else None)"

text \<open>\<open>_is_tagged(value, tag)\<close>, with the payload.\<close>

fun tagged :: "string \<Rightarrow> json \<Rightarrow> json option" where
  "tagged tag (JList [JStr t, v]) = (if t = tag then Some v else None)"
| "tagged tag _ = None"

definition ovs_uuid :: "json \<Rightarrow> string" where
  "ovs_uuid v = (case tagged ''uuid'' v of Some u \<Rightarrow> json_str u | None \<Rightarrow> json_str v)"

definition ovs_set :: "json \<Rightarrow> json list option" where
  "ovs_set v = (case tagged ''set'' v of
     Some p \<Rightarrow> as_list p
   | None \<Rightarrow> Some (if v = JNull \<or> v = JStr [] then [] else [v]))"

fun ovs_pair :: "json \<Rightarrow> (string \<times> string) option" where
  "ovs_pair (JList [k, v]) = Some (json_str k, json_str v)"
| "ovs_pair _ = None"

definition ovs_map :: "json \<Rightarrow> sdict option" where
  "ovs_map v = (case tagged ''map'' v of
     Some p \<Rightarrow> do { ps \<leftarrow> as_list p; kvs \<leftarrow> those (List.map ovs_pair ps);
                   Some (fold (\<lambda>(k, x) d. dset k x d) kvs []) }
   | None \<Rightarrow> Some [])"

definition data_rows :: "json \<Rightarrow> json list list option" where
  "data_rows doc = (case doc of
     JObj kvs \<Rightarrow> (case map_of kvs ''data'' of None \<Rightarrow> Some []
       | Some d \<Rightarrow> Option.bind (as_list d) (\<lambda>rows. those (List.map as_list rows)))
   | _ \<Rightarrow> None)"

definition tag_of :: "json \<Rightarrow> int option" where
  "tag_of v = (case v of JInt i \<Rightarrow> Some i | JBool b \<Rightarrow> Some (if b then 1 else 0) | _ \<Rightarrow> None)"

subsection \<open>The listings\<close>

definition parse_iface :: "json list \<Rightarrow> (string \<times> iface_view) option" where
  "parse_iface row = do {
     u \<leftarrow> nth_opt row 0; name \<leftarrow> nth_opt row 1; ty \<leftarrow> nth_opt row 2; opts \<leftarrow> nth_opt row 3;
     options \<leftarrow> ovs_map opts;
     Some (ovs_uuid u, \<lparr>iv_name = json_str name, iv_type = str_or_default ty ''internal'',
                        iv_options = options, iv_admin_state = ''up''\<rparr>) }"

text \<open>\<open>tuple(table[u] for u in uuids if u in table)\<close>\<close>

definition looked_up :: "(string, 'a) dict \<Rightarrow> json list \<Rightarrow> 'a list" where
  "looked_up table uuids = List.map_filter (\<lambda>u. dget table (ovs_uuid u)) uuids"

definition parse_port :: "(string, iface_view) dict \<Rightarrow> json list \<Rightarrow> (string \<times> port_view) option" where
  "parse_port ifaces row = do {
     u \<leftarrow> nth_opt row 0; name \<leftarrow> nth_opt row 1; tag \<leftarrow> nth_opt row 2; trunks_raw \<leftarrow> nth_opt row 3;
     trunk_set \<leftarrow> ovs_set trunks_raw;
     trunks \<leftarrow> those (List.map as_int trunk_set);
     ifs \<leftarrow> nth_opt row 4;
     uuids \<leftarrow> ovs_set ifs;
     Some (ovs_uuid u, \<lparr>pv_name = json_str name, pv_interfaces = looked_up ifaces uuids,
                        pv_tag = tag_of tag, pv_trunks = trunks, pv_ids = []\<rparr>) }"

definition parse_bridge :: "(string, port_view) dict \<Rightarrow> json list \<Rightarrow> bridge_view option" where
  "parse_bridge ports row = do {
     name \<leftarrow> nth_opt row 0; dp \<leftarrow> nth_opt row 1; ps \<leftarrow> nth_opt row 2;
     uuids \<leftarrow> ovs_set ps;
     Some \<lparr>bv_name = json_str name, bv_datapath = str_or_default dp ''system'',
           bv_ports = looked_up ports uuids, bv_ids = []\<rparr> }"

definition by_uuid :: "(string \<times> 'a) list \<Rightarrow> (string, 'a) dict" where
  "by_uuid kvs = fold (\<lambda>(k, v) d. dset k v d) kvs []"

definition parse_bridges :: "json \<Rightarrow> json \<Rightarrow> json \<Rightarrow> bridge_view list option" where
  "parse_bridges bridges_doc ports_doc ifaces_doc = do {
     iface_rows \<leftarrow> data_rows ifaces_doc;
     ifaces \<leftarrow> those (List.map parse_iface iface_rows);
     port_rows \<leftarrow> data_rows ports_doc;
     ports \<leftarrow> those (List.map (parse_port (by_uuid ifaces)) port_rows);
     bridge_rows \<leftarrow> data_rows bridges_doc;
     those (List.map (parse_bridge (by_uuid ports)) bridge_rows) }"

text \<open>\<open>_parse_version\<close>: the last word of the first line, when the line has a space.\<close>

definition parse_version :: "string \<Rightarrow> string option" where
  "parse_version raw = (let head = takeWhile (\<lambda>c. \<not> line_break c) (py_strip raw)
     in if CHR '' '' \<in> set head then Some (rev (takeWhile (\<lambda>c. c \<noteq> CHR '' '') (rev head))) else None)"

subsection \<open>Reads\<close>

record ovs_state =
  ovs_version :: "string option"
  ovs_bridges :: "bridge_view list"

definition list_args :: "string \<Rightarrow> string \<Rightarrow> string \<Rightarrow> string list" where
  "list_args vsctl columns table = [vsctl, ''--format=json'', ''--columns='' @ columns, ''list'', table]"

definition sub_get_state ::
  "(string \<Rightarrow> json option) \<Rightarrow> programs \<Rightarrow> string \<Rightarrow> ovs_state option host_act" where
  "sub_get_state loads pg vsctl =
     bindM (require_program pg vsctl) (\<lambda>_.
     bindM (run_command pg [vsctl, ''--version'']) (\<lambda>version_raw.
     bindM (run_command pg (list_args vsctl ''name,datapath_type,ports'' ''Bridge'')) (\<lambda>bridges_raw.
     bindM (run_command pg (list_args vsctl ''_uuid,name,tag,trunks,interfaces'' ''Port'')) (\<lambda>ports_raw.
     bindM (run_command pg (list_args vsctl ''_uuid,name,type,options'' ''Interface'')) (\<lambda>ifaces_raw.
     returnM (do {
       bridges_doc \<leftarrow> loads bridges_raw; ports_doc \<leftarrow> loads ports_raw; ifaces_doc \<leftarrow> loads ifaces_raw;
       bridges \<leftarrow> parse_bridges bridges_doc ports_doc ifaces_doc;
       Some \<lparr>ovs_version = parse_version version_raw, ovs_bridges = bridges\<rparr> }))))))"

text \<open>\<open>try: out = await self._run(...) except OvsdbError: return False\<close>\<close>

definition listed_in :: "programs \<Rightarrow> string list \<Rightarrow> string \<Rightarrow> bool host_act" where
  "listed_in pg args name h = (case run_command pg args h of
       (Inl _, h') \<Rightarrow> (Inr False, h')
     | (Inr out, h') \<Rightarrow> (Inr (name \<in> set (words_of out)), h'))"

definition has_bridge :: "programs \<Rightarrow> string \<Rightarrow> string \<Rightarrow> bool host_act" where
  "has_bridge pg vsctl name = listed_in pg [vsctl, ''list-br''] name"

definition port_exists :: "programs \<Rightarrow> string \<Rightarrow> string \<Rightarrow> string \<Rightarrow> bool host_act" where
  "port_exists pg vsctl bridge name = listed_in pg [vsctl, ''list-ports'', bridge] name"

subsection \<open>Writes\<close>

definition set_columns :: "string \<Rightarrow> string \<Rightarrow> string \<Rightarrow> sdict \<Rightarrow> string list" where
  "set_columns table name column d =
     concat (List.map (\<lambda>(k, v). [''--'', ''set'', table, name, column @ '':'' @ k @ ''='' @ v]) d)"

definition sub_ensure_bridge :: "programs \<Rightarrow> string \<Rightarrow> string \<Rightarrow> string \<Rightarrow> sdict \<Rightarrow> bool host_act" where
  "sub_ensure_bridge pg vsctl name dp external_ids =
     bindM (has_bridge pg vsctl name) (\<lambda>before.
     bindM (run_command pg ([vsctl, ''--may-exist'', ''add-br'', name, ''--'', ''set'', ''Bridge'', name,
         ''datapath_type='' @ dp] @ set_columns ''Bridge'' name ''external_ids'' external_ids)) (\<lambda>_.
     returnM (\<not> before)))"

definition sub_delete_bridge :: "programs \<Rightarrow> string \<Rightarrow> string \<Rightarrow> bool host_act" where
  "sub_delete_bridge pg vsctl name =
     bindM (has_bridge pg vsctl name) (\<lambda>before.
     bindM (run_command pg [vsctl, ''--if-exists'', ''del-br'', name]) (\<lambda>_. returnM before))"

definition port_args ::
  "string \<Rightarrow> string \<Rightarrow> string \<Rightarrow> string \<Rightarrow> sdict \<Rightarrow> int option \<Rightarrow> int list \<Rightarrow> sdict \<Rightarrow> string list" where
  "port_args vsctl bridge name ty options tag trunks external_ids =
     [vsctl, ''--may-exist'', ''add-port'', bridge, name, ''--'', ''set'', ''Interface'', name, ''type='' @ ty]
     @ set_columns ''Interface'' name ''options'' options
     @ (case tag of None \<Rightarrow> [] | Some t \<Rightarrow> [''--'', ''set'', ''Port'', name, ''tag='' @ str_int t])
     @ (if trunks = [] then []
        else [''--'', ''set'', ''Port'', name,
              ''trunks=['' @ join '','' (List.map str_int (sort trunks)) @ '']''])
     @ set_columns ''Port'' name ''external_ids'' external_ids"

definition sub_ensure_port ::
  "programs \<Rightarrow> string \<Rightarrow> string \<Rightarrow> string \<Rightarrow> string \<Rightarrow> sdict \<Rightarrow> int option \<Rightarrow> int list \<Rightarrow> sdict \<Rightarrow> bool host_act" where
  "sub_ensure_port pg vsctl bridge name ty options tag trunks external_ids =
     bindM (run_command pg (port_args vsctl bridge name ty options tag trunks external_ids)) (\<lambda>_. returnM True)"

definition sub_delete_port :: "programs \<Rightarrow> string \<Rightarrow> string \<Rightarrow> string \<Rightarrow> bool host_act" where
  "sub_delete_port pg vsctl bridge name =
     bindM (port_exists pg vsctl bridge name) (\<lambda>before.
     bindM (run_command pg [vsctl, ''--if-exists'', ''del-port'', bridge, name]) (\<lambda>_. returnM before))"

definition sub_ensure_vxlan_port ::
  "programs \<Rightarrow> string \<Rightarrow> string \<Rightarrow> string \<Rightarrow> int \<Rightarrow> string \<Rightarrow> string option \<Rightarrow> int \<Rightarrow> int option \<Rightarrow> sdict
     \<Rightarrow> bool host_act" where
  "sub_ensure_vxlan_port pg vsctl bridge name vni remote_ip local_ip dst_port mtu external_ids =
     sub_ensure_port pg vsctl bridge name ''vxlan''
       ([(''key'', str_int vni), (''remote_ip'', remote_ip), (''dst_port'', str_int dst_port)]
        @ (case local_ip of None \<Rightarrow> [] | Some ip \<Rightarrow> [(''local_ip'', ip)])
        @ (case mtu of None \<Rightarrow> [] | Some m \<Rightarrow> [(''mtu_request'', str_int m)])) None [] external_ids"

definition sub_dump :: "json host_act" where
  "sub_dump = raiseM OvsdbError"

definition sub_restore :: "json \<Rightarrow> unit host_act" where
  "sub_restore payload = raiseM OvsdbError"

text \<open>
  What the controller can reach over the real Open vSwitch adapter. Its listing of bridges and ports
  leaves out the column \<open>external_ids\<close>, which carries the mark of the controller, so every bridge it
  reports is unmarked; and an unmarked bridge never complies.
\<close>

definition unmarked :: "obs_bridge list \<Rightarrow> bool" where
  "unmarked bs \<longleftrightarrow> (\<forall>b \<in> set bs. ob_ids b = [])"

lemma those_ex: "those (List.map f xs) = Some ys \<Longrightarrow> y \<in> set ys \<Longrightarrow> \<exists>x \<in> set xs. f x = Some y"
  by (induction xs arbitrary: ys) (auto split: option.splits)

lemma parse_bridges_unmarked:
  "parse_bridges d1 d2 d3 = Some bs \<Longrightarrow> b \<in> set bs \<Longrightarrow> bv_ids b = []"
  by (auto simp: parse_bridges_def bind_eq_Some_conv parse_bridge_def dest!: those_ex)

lemma sub_get_state_unmarked:
  "sub_get_state loads pg vsctl h = (Inr (Some st), h') \<Longrightarrow>
   unmarked (List.map bridge_view_to_observed (ovs_bridges st))"
  unfolding sub_get_state_def bindM_Inr_iff
  by (auto simp: unmarked_def bridge_view_to_observed_def bind_eq_Some_conv returnM_def
      dest: parse_bridges_unmarked)

lemma unmarked_not_compliant:
  assumes "unmarked bs" "local \<in> set (net_node_ids n)"
  shows "\<not> is_in_compliance n local peers bs"
proof (cases "find_bridge (bridge_name n) bs")
  case None
  then show ?thesis using assms(2) by (simp add: is_in_compliance_def diff_for_node_def Let_def)
next
  case (Some b)
  then have "b \<in> set bs" by (auto simp: find_bridge_def find_Some_iff)
  then have "ob_ids b = []" using assms(1) by (simp add: unmarked_def)
  then have "bridge_changed ''system'' (desired_ids n) b"
    by (simp add: bridge_changed_def dict_eq_def desired_ids_def)
  then show ?thesis using assms(2) Some by (simp add: is_in_compliance_def diff_for_node_def Let_def)
qed

subsection \<open>A controller over agents that report unmarked bridges\<close>

definition reports_unmarked :: "'ag agent_ops \<Rightarrow> bool" where
  "reports_unmarked ag \<longleftrightarrow> (\<forall>nid a v a'. ago_get_state ag nid a = (Inr v, a') \<longrightarrow>
     unmarked (List.map bridge_view_to_observed (sv_bridges v)))"

text \<open>The saved observations of the nodes of X are unmarked.\<close>

definition seen_unmarked :: "string set \<Rightarrow> 'ag run \<Rightarrow> bool" where
  "seen_unmarked X s \<longleftrightarrow> (\<forall>m \<in> X. \<exists>o'. dget (w_observed (fst s)) m = Some o' \<and> unmarked (os_bridges o'))"

abbreviation holds :: "('s \<Rightarrow> bool) \<Rightarrow> ('s, 'e, 'a) act \<Rightarrow> bool" where
  "holds I m \<equiv> spec I m (\<lambda>_. I) (\<lambda>_ _. True)"

lemma seen_move: "holds (seen_unmarked X) (move env st msg err)"
  by (auto simp: spec_def move_def onW_def zoomM_def bindM_run nowM_def seen_unmarked_def
      split: sum.splits prod.splits)

lemma seen_log: "holds (seen_unmarked X) (log_progress env msg pl)"
  by (auto simp: spec_def log_progress_def onW_def zoomM_def bindM_run nowM_def seen_unmarked_def)

lemma seen_agent: "holds (seen_unmarked X) (onAgent m)"
  by (auto simp: spec_def onAgent_def onW_def zoomM_def seen_unmarked_def split: sum.splits prod.splits)

lemma seen_require: "holds (seen_unmarked X) (require_member n nid)"
  by (auto simp: spec_def require_member_run split: option.splits)

lemma seen_planM: "holds (seen_unmarked X) (planM env n nodes obs)"
  by (auto simp: spec_def planM_def onW_def zoomM_def Let_def seen_unmarked_def)

lemma seen_observe:
  assumes "reports_unmarked ag"
  shows "spec (seen_unmarked X) (observe env ag nid) (\<lambda>_. seen_unmarked (insert nid X)) (\<lambda>_ _. True)"
proof (rule specI, simp)
  fix s x s' assume s: "seen_unmarked X s" and run: "observe env ag nid s = (Inr x, s')"
  obtain w op where wop: "s = (w, op)" by (cases s)
  obtain v a' where v: "ago_get_state ag nid (w_agent w) = (Inr v, a')"
    and s': "w_observed (fst s') = dset nid x (w_observed w)"
      "os_bridges x = List.map bridge_view_to_observed (sv_bridges v)"
    using run unfolding observe_def wop
    by (cases "ago_get_state ag nid (w_agent w)"; cases "fst (ago_get_state ag nid (w_agent w))")
      (auto simp: bindM_run onAgent_def onW_def zoomM_def nowM_def Let_def observed_save_def
        state_view_to_observed_def)
  have "unmarked (os_bridges x)" using assms v unfolding reports_unmarked_def s'(2) by blast
  then show "seen_unmarked (insert nid X) s'" using s by (auto simp: seen_unmarked_def s'(1) wop)
qed

lemma seen_observe_keeps:
  "reports_unmarked ag \<Longrightarrow> holds (seen_unmarked X) (observe env ag nid)"
  by (rule spec_conseq [OF seen_observe]) (auto simp: seen_unmarked_def)

lemma seen_members:
  assumes "reports_unmarked ag"
  shows "spec (seen_unmarked X) (observe_members env ag n nids nodes obs)
    (\<lambda>_. seen_unmarked (X \<union> set nids)) (\<lambda>_ _. True)"
proof (induction nids arbitrary: X nodes obs)
  case (Cons nid nids)
  show ?case unfolding observe_members.simps
    using Cons.IH [of "insert nid X"]
    by (intro spec_bind [OF seen_require] spec_bind [OF seen_observe [OF assms]]) simp
qed (simp add: spec_def)

lemma seen_verify_peers: "holds (seen_unmarked X) (verify_peers n nids)"
proof (induction nids)
  case (Cons i nids)
  show ?case unfolding verify_peers.simps
    by (rule spec_bind [OF seen_require], rule spec_bind [OF Cons.IH], rule spec_return)
qed (simp add: spec_def)

lemma seen_phases:
  assumes "reports_unmarked ag"
  shows "spec (\<lambda>_. True) (phases env ag n) (\<lambda>_. seen_unmarked (set (net_node_ids n))) (\<lambda>_ _. True)"
proof -
  let ?K = "seen_unmarked (set (net_node_ids n))"
  have start: "spec (\<lambda>_. True) m Q E" if "spec (seen_unmarked {}) m Q E" for m :: "('a run, raised, 'b) act" and Q E
    using that by (rule spec_conseq) (simp_all add: seen_unmarked_def)
  have plan: "spec (seen_unmarked {}) (plan_phase env ag n) (\<lambda>_. ?K) (\<lambda>_ _. True)"
    unfolding plan_phase_def split_beta
    by (rule spec_bind [OF seen_move], rule spec_if, rule spec_return, simp,
        rule spec_bind [OF seen_members [OF assms]], simp only: Un_empty_left,
        intro spec_bind [OF seen_planM] spec_bind [OF seen_log] spec_return)
  have node: "holds ?K (run_node env ag p)" for p
    unfolding run_node_def
    by (intro spec_bind [OF seen_agent] spec_bind [OF seen_log] spec_if spec_return spec_raise) simp_all
  have verify: "holds ?K (verify_node env ag n peers p)" for peers p
    unfolding verify_node_def
    by (intro spec_bind [OF seen_observe_keeps [OF assms]] spec_if spec_return spec_raise) simp_all
  show ?thesis
    unfolding phases_def run_phase_def verify_phase_def
    by (rule start, intro spec_bind [OF plan] spec_bind [OF spec_bind [OF seen_move for_spec [OF node]]]
        spec_bind [OF spec_bind [OF seen_move spec_bind [OF seen_verify_peers for_spec [OF verify]]]] spec_return)
qed

text \<open>A run of the locked part over such agents ends in a failed operation.\<close>

lemma apply_body_refused:
  assumes run: "apply_body env ag n (w0, start_operation n nid by oid now) = (r, (w, op))"
    and ag: "reports_unmarked ag" and members: "net_node_ids n \<noteq> []"
  shows "dget (w_operations w) oid = Some op \<and> op_status op = FAILED \<and> op_error op \<noteq> None"
proof -
  let ?s0 = "(w0, start_operation n nid by oid now)"
  have start: "running w0 oid ACCEPTED (\<lambda>_. True) ?s0"
    by (simp add: running_def start_operation_def) (simp add: accept_def)
  obtain pr wr opr where ph: "phases env ag n ?s0 = (pr, (wr, opr))" by (metis prod_cases3)
  then have body: "conclude env n pr (wr, opr) = (r, (w, op))" using run by (simp add: apply_body_def)
  have "\<not> (\<exists>plans. pr = Inr plans)"
  proof
    assume "\<exists>plans. pr = Inr plans"
    then obtain plans where plans: "phases env ag n ?s0 = (Inr plans, (wr, opr))" using ph by blast
    obtain m where m: "m \<in> set (net_node_ids n)" using members by (cases "net_node_ids n") auto
    have "saved_compliant n (network_peers n (w_nodes w0)) (w_observed wr) m"
      using spec_Inr [OF phases_spec start plans] m by (simp add: running_def)
    moreover have "\<exists>o'. dget (w_observed wr) m = Some o' \<and> unmarked (os_bridges o')"
      using spec_Inr [OF seen_phases [OF ag] TrueI plans] m by (simp add: seen_unmarked_def)
    ultimately show False using unmarked_not_compliant m by (auto simp: saved_compliant_def)
  qed
  then obtain e where pr: "pr = Inl e" by (cases pr) auto
  then have st: "stopped w0 oid (wr, opr)" using spec_Inl [OF phases_spec start] ph by simp
  then obtain op' where "conclude env n (Inl e) (wr, opr) =
      (if is_domain (ra_exc e) then Inr (n, op') else Inl e, (recorded env n False 0 op' wr, op'))"
      "op_status op' = FAILED" "op_id op' = op_id opr" "op_error op' = Some (failure_of e)"
    using conclude_fail [of opr env n e wr] by (auto simp: stopped_def)
  then show ?thesis using body st unfolding pr by (auto simp: stopped_def operation_save_def)
qed

lemma apply_network_refused:
  assumes "apply_network env ag nid by w = (r, w')" "dget (w_networks w) nid = Some n"
    and "snd (try_of env nid w)" "reports_unmarked ag" "net_node_ids n \<noteq> []"
  shows "\<exists>op. dget (w_operations w') (oid_of env w) = Some op \<and> op_status op = FAILED \<and> op_error op \<noteq> None"
proof -
  let ?w0 = "attempted env nid w" and ?oid = "oid_of env w"
  have "locked_apply env ag n nid by ?oid ?w0 = (r, w')" using assms by (simp add: apply_network_run)
  moreover obtain br w1 op where body: "apply_body env ag n (?w0\<lparr>w_clock := w_clock ?w0 + 1\<rparr>,
      start_operation n nid by ?oid (e_now env (w_clock ?w0))) = (br, (w1, op))"
    by (metis prod_cases3)
  ultimately have "w' = w1\<lparr>w_locks := mem_release (lock_key nid) ?oid (w_locks w1)\<rparr>"
    by (simp add: locked_apply_def bindM_run nowM_def finallyM_run)
  then show ?thesis using apply_body_refused [OF body assms(4,5)] by simp
qed

text \<open>
  The controller's client over agents that run the Open vSwitch adapter, one host per node. What a
  plan does there, and the error of a request that failed, are left open.
\<close>

definition ovs_ops ::
  "(string \<Rightarrow> json option) \<Rightarrow> programs \<Rightarrow> string \<Rightarrow> (ovs_state \<Rightarrow> string) \<Rightarrow> (string \<Rightarrow> raised)
     \<Rightarrow> (string \<Rightarrow> plan \<Rightarrow> (string \<Rightarrow> host, raised, plan_result) act) \<Rightarrow> (string \<Rightarrow> host) agent_ops" where
  "ovs_ops loads pg vsctl digest failed apply =
     \<lparr>ago_get_state = (\<lambda>nid hosts. case sub_get_state loads pg vsctl (hosts nid) of
        (Inr (Some st), h) \<Rightarrow> (Inr \<lparr>sv_ovs_version = ovs_version st, sv_bridges = ovs_bridges st,
                                   sv_state_hash = digest st\<rparr>, hosts(nid := h))
      | (_, h) \<Rightarrow> (Inl (failed nid), hosts(nid := h))),
      ago_apply_plan = apply\<rparr>"

lemma ovs_ops_unmarked: "reports_unmarked (ovs_ops loads pg vsctl digest failed apply)"
  unfolding reports_unmarked_def
  by (auto simp: ovs_ops_def split: prod.splits sum.splits option.splits dest: sub_get_state_unmarked)

text \<open>
  C22. Over the Open vSwitch adapter no apply ever succeeds. The adapter lists bridges and ports
  without their external ids, while compliance asks for the controller's mark there; so whatever
  ovs-vsctl answers and whatever the plans did on the nodes, every apply of a network with members
  that gets the lock ends in a failed operation.
\<close>

theorem ovs_adapter_never_converges:
  assumes "apply_network env (ovs_ops loads pg vsctl digest failed apply) nid by w = (r, w')"
    and "dget (w_networks w) nid = Some n" "snd (try_of env nid w)" "net_node_ids n \<noteq> []"
  shows "\<exists>op. dget (w_operations w') (oid_of env w) = Some op \<and> op_status op = FAILED \<and> op_error op \<noteq> None"
  using apply_network_refused [OF assms(1-3) ovs_ops_unmarked assms(4)] .

text \<open>Nodes whose switch has the bridge of the network.\<close>

definition example_ovs :: "(string \<Rightarrow> host) agent_ops" where
  "example_ovs = ovs_ops
     (\<lambda>_. Some (JObj [(''data'', JList [JList [JStr ''br-prod'', JStr ''system'', JList [JStr ''set'', JList []], JNull, JNull]])]))
     \<lparr>pg_which = \<lambda>_ _. True, pg_run = \<lambda>_ _ _. Exited 0 ''ovs-vsctl 3.2.0'', pg_kill = \<lambda>_ _ _. Signalled,
      pg_mkdtemp = \<lambda>_ p. p\<rparr> ''ovs-vsctl'' (\<lambda>_. ''hash'')
     (\<lambda>nid. raised_of (mk_error AgentTransportError) ''agent failed'')
     (\<lambda>nid p. returnM \<lparr>pr_plan_id = pl_id p, pr_ok = True, pr_steps = []\<rparr>)"

definition example_hosts :: "(string \<Rightarrow> host) world" where
  "example_hosts = example_world (\<lambda>_. \<lparr>h_files = [], h_log = []\<rparr>)"

theorem ovs_adapter_never_converges_witness:
  "\<exists>op. dget (w_operations (snd (apply_network example_env example_ovs ''net_1'' None example_hosts)))
      (oid_of example_env example_hosts) = Some op \<and> op_status op = FAILED"
proof -
  obtain r w' where run: "apply_network example_env example_ovs ''net_1'' None example_hosts = (r, w')" by fastforce
  have "net_node_ids example_network \<noteq> []" by (simp add: example_network_def)
  moreover have "dget (w_networks example_hosts) ''net_1'' = Some example_network"
      "snd (try_of example_env ''net_1'' example_hosts)"
    unfolding example_hosts_def by (rule example_stored, rule example_try)
  ultimately have "\<exists>op. dget (w_operations w') (oid_of example_env example_hosts) = Some op \<and>
      op_status op = FAILED \<and> op_error op \<noteq> None"
    by (intro ovs_adapter_never_converges [OF run [unfolded example_ovs_def]])
  then show ?thesis by (auto simp: run)
qed

end
