(* ===== verification/Agent_Dnsmasq.thy ===== *)
theory Agent_Dnsmasq
  imports Agent_Host Cron Agent_Plan
begin

text \<open>
  The dnsmasq adapter of the agent (\<open>netos_agent/adapters/dhcp_dnsmasq/adapter.py\<close>): one fragment of
  configuration per scope in a drop directory, checked by \<open>dnsmasq --test\<close>, replaced in one move and
  followed by a reload. The state is the host alone: scopes are read back from the fragments. Of the
  file system only files exist here; a directory that is missing is one without files.
\<close>

record dnsmasq_config =
  dc_dnsmasq :: string
  dc_config_dir :: string
  dc_lease_file :: string
  dc_pid_file :: string
  dc_reload_command :: "string list"

subsection \<open>The fragment\<close>

definition ascii_alnum :: "char \<Rightarrow> bool" where
  "ascii_alnum c = (let n = of_char c :: nat in
     (48 \<le> n \<and> n \<le> 57) \<or> (65 \<le> n \<and> n \<le> 90) \<or> (97 \<le> n \<and> n \<le> 122))"

definition scope_path :: "dnsmasq_config \<Rightarrow> string \<Rightarrow> string" where
  "scope_path c scope_id = dc_config_dir c @ ''/sdn-''
     @ List.map (\<lambda>x. if ascii_alnum x \<or> x \<in> {CHR ''_'', CHR ''-''} then x else CHR ''_'') scope_id @ ''.conf''"

definition tag_for :: "string \<Rightarrow> string" where
  "tag_for scope_id = ''tag:sdn-'' @ filter ascii_alnum scope_id"

definition dhcp_option :: "string \<Rightarrow> string \<Rightarrow> string \<Rightarrow> string" where
  "dhcp_option scope_id code v = ''dhcp-option='' @ tag_for scope_id @ '','' @ code @ '','' @ v"

definition render_scope :: "dhcp_scope \<Rightarrow> string" where
  "render_scope d = lines_text
     ([''# managed by sdn-controller; scope_id='' @ ds_scope_id d, ''# cidr='' @ ds_cidr d,
       ''dhcp-range='' @ ds_range_start d @ '','' @ ds_range_end d @ '','' @ str_int (ds_lease_time d) @ ''s'']
      @ (case ds_gateway d of None \<Rightarrow> [] | Some g \<Rightarrow> [dhcp_option (ds_scope_id d) ''3'' g])
      @ (if ds_dns_servers d = [] then []
         else [dhcp_option (ds_scope_id d) ''6'' (join '','' (ds_dns_servers d))])
      @ (case ds_domain_name d of None \<Rightarrow> [] | Some n \<Rightarrow> [dhcp_option (ds_scope_id d) ''15'' n]))"

subsection \<open>Writes\<close>

definition validate_text :: "dnsmasq_config \<Rightarrow> programs \<Rightarrow> string \<Rightarrow> unit host_act" where
  "validate_text c pg text =
     bindM (require_program pg (dc_dnsmasq c)) (\<lambda>_.
     bindM (getM (\<lambda>h. pg_mkdtemp pg (h_log h) ''sdn-dnsmasq-'')) (\<lambda>dir.
     finallyM
       (bindM (write_text (dir @ ''/scope.conf'') text) (\<lambda>_.
        bindM (run_command pg [dc_dnsmasq c, ''--test'', ''--conf-file='' @ dir @ ''/scope.conf'']) (\<lambda>_.
        returnM ())))
       (rmtree dir)))"

definition dnsmasq_reload :: "dnsmasq_config \<Rightarrow> programs \<Rightarrow> unit host_act" where
  "dnsmasq_reload c pg =
     (if dc_reload_command c \<noteq> [] then bindM (run_command pg (dc_reload_command c)) (\<lambda>_. returnM ())
      else bindM (getM (read_text (dc_pid_file c))) (\<lambda>text.
        case Option.bind text int_text of
          None \<Rightarrow> raiseM OvsdbError
        | Some pid \<Rightarrow> send_signal pg pid ''SIGHUP''))"

definition dnsmasq_validate :: "dnsmasq_config \<Rightarrow> programs \<Rightarrow> dhcp_scope \<Rightarrow> unit host_act" where
  "dnsmasq_validate c pg d = validate_text c pg (render_scope d)"

definition dnsmasq_apply :: "dnsmasq_config \<Rightarrow> programs \<Rightarrow> dhcp_scope \<Rightarrow> bool host_act" where
  "dnsmasq_apply c pg d =
     bindM (safe_read (scope_path c (ds_scope_id d))) (\<lambda>existing.
     if existing = Some (render_scope d) then returnM False
     else bindM (validate_text c pg (render_scope d)) (\<lambda>_.
          bindM (atomic_write (scope_path c (ds_scope_id d)) (render_scope d)) (\<lambda>_.
          bindM (dnsmasq_reload c pg) (\<lambda>_. returnM True))))"

definition dnsmasq_delete :: "dnsmasq_config \<Rightarrow> programs \<Rightarrow> string \<Rightarrow> bool host_act" where
  "dnsmasq_delete c pg scope_id =
     bindM (getM (\<lambda>h. dget (h_files h) (scope_path c scope_id))) (\<lambda>target.
     if target = None then returnM False
     else bindM (modifyM (unlink_quiet (scope_path c scope_id))) (\<lambda>_.
          bindM (dnsmasq_reload c pg) (\<lambda>_. returnM True)))"

subsection \<open>Reading the fragments back\<close>

definition first_some :: "('a \<Rightarrow> 'b option) \<Rightarrow> 'a list \<Rightarrow> 'b option" where
  "first_some f xs = (case List.map_filter f xs of [] \<Rightarrow> None | y # _ \<Rightarrow> Some y)"

text \<open>
  \<open>^prefix(P+)\s*$\<close> for a class \<open>P\<close> without white space: the match stays on one line.
\<close>

definition line_value :: "string \<Rightarrow> (char \<Rightarrow> bool) \<Rightarrow> string \<Rightarrow> string option" where
  "line_value prefix P line =
     (let v = takeWhile P (drop (length prefix) line); rest = dropWhile P (drop (length prefix) line)
      in if take (length prefix) line = prefix \<and> v \<noteq> [] \<and> list_all py_isspace rest then Some v else None)"

definition cidr_of_text :: "string \<Rightarrow> string option" where
  "cidr_of_text text = first_some (line_value ''# cidr='' (\<lambda>c. is_digit c \<or> c \<in> {CHR ''.'', CHR ''/''}))
     (split (CHR 0x0A) text)"

definition id_of_text :: "string \<Rightarrow> string option" where
  "id_of_text text = first_some
     (line_value ''# managed by sdn-controller; scope_id='' (\<lambda>c. \<not> py_isspace c)) (split (CHR 0x0A) text)"

text \<open>
  \<open>^dhcp-range\s*=\s*([^,]+),\s*([^,]+),\s*(\d+)\s*s?\s*$\<close>, tried at every beginning of a line: white
  space and the first two groups may run over line ends. The groups are taken with the white space
  around them, which the caller strips.
\<close>

function line_starts :: "string \<Rightarrow> string list" where
  "line_starts s = s # (case dropWhile (\<lambda>c. c \<noteq> CHR 0x0A) s of [] \<Rightarrow> [] | _ # r \<Rightarrow> line_starts r)"
  by auto

termination
proof (relation "measure length")
  fix s c r
  assume "dropWhile (\<lambda>c. c \<noteq> CHR 0x0A) s = c # r"
  then have "length (c # r) \<le> length s" by (metis length_dropWhile_le)
  then show "(r, s) \<in> measure length" by simp
qed simp

declare line_starts.simps [simp del]

text \<open>\<open>\s*([^,]+),\<close> and the rest of the text.\<close>

definition comma_field :: "string \<Rightarrow> (string \<times> string) option" where
  "comma_field s = (case dropWhile (\<lambda>c. c \<noteq> CHR '','') s of
     [] \<Rightarrow> None
   | _ # r \<Rightarrow> if takeWhile (\<lambda>c. c \<noteq> CHR '','') s = [] then None
              else Some (takeWhile (\<lambda>c. c \<noteq> CHR '','') s, r))"

text \<open>\<open>\s*$\<close>: some prefix of the white space ends the text or stands before a line feed.\<close>

definition blank_to_end :: "string \<Rightarrow> bool" where
  "blank_to_end s \<longleftrightarrow> dropWhile py_isspace s = [] \<or> CHR 0x0A \<in> set (takeWhile py_isspace s)"

definition unit_to_end :: "string \<Rightarrow> bool" where
  "unit_to_end s \<longleftrightarrow> blank_to_end s \<or>
     (case dropWhile py_isspace s of c # r \<Rightarrow> c = CHR ''s'' \<and> blank_to_end r | [] \<Rightarrow> False)"

definition range_at :: "string \<Rightarrow> (string \<times> string \<times> int) option" where
  "range_at s =
     (if take 10 s \<noteq> ''dhcp-range'' then None
      else case dropWhile py_isspace (drop 10 s) of
        [] \<Rightarrow> None
      | c # r1 \<Rightarrow>
          if c \<noteq> CHR ''='' then None
          else do {
            (a, r2) \<leftarrow> comma_field r1;
            (b, r3) \<leftarrow> comma_field r2;
            let t = dropWhile py_isspace r3;
            let ds = takeWhile is_digit t;
            n \<leftarrow> (if ds = [] then None else num_val dec_digit 10 0 ds);
            if unit_to_end (dropWhile is_digit t) then Some (py_strip a, py_strip b, int n) else None })"

definition parse_fragment :: "string \<Rightarrow> dhcp_scope option" where
  "parse_fragment text = do {
     (start, finish, lease) \<leftarrow> first_some range_at (line_starts text);
     cidr \<leftarrow> cidr_of_text text;
     scope_id \<leftarrow> id_of_text text;
     let d = \<lparr>ds_scope_id = scope_id, ds_cidr = cidr, ds_range_start = start, ds_range_end = finish,
              ds_gateway = None, ds_dns_servers = [], ds_lease_time = lease, ds_domain_name = None\<rparr>;
     if ag_dhcp_check d = Inr () then Some d else None }"

text \<open>\<open>sorted(dir.glob("sdn-*.conf"))\<close>\<close>

definition dir_names :: "string \<Rightarrow> host \<Rightarrow> string list" where
  "dir_names dir h = filter (\<lambda>n. CHR ''/'' \<notin> set n)
     (List.map (\<lambda>p. drop (length dir + 1) p) (filter (below dir) (dkeys (h_files h))))"

definition fragment_names :: "dnsmasq_config \<Rightarrow> host \<Rightarrow> string list" where
  "fragment_names c h = sort (filter (\<lambda>n. take 4 n = ''sdn-'' \<and> 9 \<le> length n \<and> ends_with n ''.conf'')
     (dir_names (dc_config_dir c) h))"

definition dnsmasq_list_scopes :: "dnsmasq_config \<Rightarrow> host \<Rightarrow> dhcp_scope list" where
  "dnsmasq_list_scopes c h = List.map_filter
     (\<lambda>n. Option.bind (read_text (dc_config_dir c @ ''/'' @ n) h) parse_fragment) (fragment_names c h)"

subsection \<open>Leases\<close>

record dhcp_lease =
  dl_ip_address :: string
  dl_mac_address :: string
  dl_hostname :: "string option"
  dl_expires_at :: int

definition parse_lease :: "string \<Rightarrow> dhcp_lease option" where
  "parse_lease raw =
     (let line = py_strip raw; parts = words_of line
      in if line = [] \<or> hd line = CHR ''#'' \<or> length parts < 4 then None
         else map_option (\<lambda>expiry. \<lparr>dl_ip_address = parts ! 2, dl_mac_address = parts ! 1,
             dl_hostname = (if parts ! 3 \<noteq> ''*'' then Some (parts ! 3) else None), dl_expires_at = expiry\<rparr>)
           (int_text (parts ! 0)))"

definition parse_leases :: "string \<Rightarrow> dhcp_lease list" where
  "parse_leases text = List.map_filter parse_lease (split_lines text)"

definition ip_in_cidr :: "string \<Rightarrow> string \<Rightarrow> bool" where
  "ip_in_cidr addr cidr = (case (ip_address addr, ip_network cidr False) of
     (Some a, Some n) \<Rightarrow> in_net a n | _ \<Rightarrow> False)"

definition dnsmasq_get_leases :: "dnsmasq_config \<Rightarrow> string \<Rightarrow> host \<Rightarrow> agent_error + dhcp_lease list" where
  "dnsmasq_get_leases c scope_id h =
     bindE (of_option AgentNotFoundError (read_text (dc_lease_file c) h)) (\<lambda>text.
     let hint = Option.bind (read_text (scope_path c scope_id) h) cidr_of_text
     in Inr (filter (\<lambda>l. case hint of None \<Rightarrow> True | Some cidr \<Rightarrow> ip_in_cidr (dl_ip_address l) cidr)
          (parse_leases text)))"

text \<open>
  What the dnsmasq adapter does when the programs accept and when they fail.
\<close>

subsection \<open>Failures\<close>

abbreviation carriage_return :: char where
  "carriage_return \<equiv> CHR 0x0D"

lemma reload_files: "h_files (snd (dnsmasq_reload c pg h)) = h_files h"
  by (simp add: dnsmasq_reload_def bindM_run run_command_run send_signal_def Let_def raiseM_def
      split: option.split sum.split outcome.split)

lemma reload_error: "fst (dnsmasq_reload c pg h) = Inl e \<Longrightarrow> e = OvsdbError"
  by (auto simp: dnsmasq_reload_def bindM_run run_command_run send_signal_def Let_def raiseM_def
      split: option.splits sum.splits outcome.splits if_splits signal_outcome.splits)

lemma read_text_run: "h_files h' = h_files h \<Longrightarrow> read_text p h' = read_text p h"
  by (simp add: read_text_def)

lemma apply_unchanged:
  "read_text (scope_path c (ds_scope_id d)) h = Some (render_scope d) \<Longrightarrow> dnsmasq_apply c pg d h = (Inr False, h)"
  by (simp add: dnsmasq_apply_def bindM_run)

text \<open>The host after the fragment was replaced.\<close>

definition installed :: "string \<Rightarrow> string \<Rightarrow> host \<Rightarrow> host" where
  "installed path text h = snd (atomic_write path text h)"

lemma installed_file [simp]: "dget (h_files (installed path text h)) path = Some text"
  by (simp add: installed_def atomic_write_def bindM_run)

lemma atomic_write_run: "atomic_write path text h = (Inr (), installed path text h)"
  by (simp add: installed_def atomic_write_def bindM_run modifyM_def)

lemma apply_run:
  assumes "read_text (scope_path c (ds_scope_id d)) h \<noteq> Some (render_scope d)"
    and "dnsmasq_validate c pg d h = (Inr u, h1)"
  shows "dnsmasq_apply c pg d h = bindM (dnsmasq_reload c pg) (\<lambda>_. returnM True)
      (installed (scope_path c (ds_scope_id d)) (render_scope d) h1)"
proof -
  have "validate_text c pg (render_scope d) h = (Inr (), h1)" using assms(2) by (simp add: dnsmasq_validate_def)
  then show ?thesis using assms(1)
    by (simp add: dnsmasq_apply_def bindM_run [where m = "safe_read _"] bindM_run [where m = "validate_text _ _ _"]
        bindM_run [where m = "atomic_write _ _"] atomic_write_run)
qed

lemma delete_run:
  "dnsmasq_delete c pg i h = (if dget (h_files h) (scope_path c i) = None then (Inr False, h)
     else bindM (dnsmasq_reload c pg) (\<lambda>_. returnM True) (unlink_quiet (scope_path c i) h))"
  by (simp add: dnsmasq_delete_def bindM_def getM_def modifyM_def returnM_def)

lemma failing_reload:
  assumes "bindM (dnsmasq_reload c pg) (\<lambda>_. returnM True) h = (Inl e, h')"
  shows "e = OvsdbError" "h_files h' = h_files h"
proof -
  have "fst (dnsmasq_reload c pg h) = Inl e" "h' = snd (dnsmasq_reload c pg h)"
    using assms bindM_const [of "dnsmasq_reload c pg" True h]
    by (cases "fst (dnsmasq_reload c pg h)"; simp)+
  then show "e = OvsdbError" "h_files h' = h_files h" using reload_error reload_files by simp_all
qed

text \<open>The scratch directory of a check made on a host, and what was checked between two hosts.\<close>

abbreviation scratch_dir :: "programs \<Rightarrow> host \<Rightarrow> string" where
  "scratch_dir pg h \<equiv> pg_mkdtemp pg (h_log h) ''sdn-dnsmasq-''"

definition accepted_by_dnsmasq :: "dnsmasq_config \<Rightarrow> string \<Rightarrow> host \<Rightarrow> host \<Rightarrow> bool" where
  "accepted_by_dnsmasq c text h h' \<longleftrightarrow>
     (\<exists>path fs out. Ran [dc_dnsmasq c, ''--test'', ''--conf-file='' @ path] fs (Exited 0 out)
          \<in> set (drop (length (h_log h)) (h_log h')) \<and> dget fs path = Some text)"

lemma dget_rmtree: "dget (h_files (rmtree dir h)) p = (if below dir p then None else dget (h_files h) p)"
proof -
  have "map_of (filter (\<lambda>(p, _). \<not> below dir p) fs) p = (if below dir p then None else map_of fs p)" for fs :: files
    by (induction fs) auto
  then show ?thesis by (simp add: rmtree_def)
qed

lemma below_scratch: "below dir (dir @ CHR ''/'' # rest)"
  by (simp add: below_def)

lemma validate_frame:
  "\<not> below (scratch_dir pg h) p \<Longrightarrow> dget (h_files (snd (validate_text c pg text h))) p = dget (h_files h) p"
  using below_scratch [of "scratch_dir pg h" "''scope.conf''"]
  by (auto simp: validate_text_def bindM_run finallyM_run run_command_run Let_def require_def getM_def
      dget_rmtree returnM_def split: outcome.split)

lemma validate_log:
  assumes "validate_text c pg text h = (Inr u, h')"
  shows "\<exists>path fs out. h_log h' = h_log h @ [Ran [dc_dnsmasq c, ''--test'', ''--conf-file='' @ path] fs (Exited 0 out)] \<and>
    dget fs path = Some text"
  using assms
  by (auto simp: validate_text_def bindM_run finallyM_run run_command_run Let_def require_def getM_def rmtree_def
      returnM_def split: outcome.splits if_splits)

lemma acceptedI:
  assumes "h_log h' = h_log h @ Ran [dc_dnsmasq c, ''--test'', ''--conf-file='' @ path] fs (Exited 0 out) # evs"
    and "dget fs path = Some text"
  shows "accepted_by_dnsmasq c text h h'"
  unfolding accepted_by_dnsmasq_def
  by (rule exI [of _ path], rule exI [of _ fs], rule exI [of _ out]) (simp add: assms)

lemma reload_log: "\<exists>evs. h_log (snd (dnsmasq_reload c pg h)) = h_log h @ evs"
  by (auto simp: dnsmasq_reload_def bindM_run run_command_run send_signal_def Let_def raiseM_def
      split: option.split sum.split outcome.split)

lemma installed_frame:
  "p \<noteq> path \<Longrightarrow> p \<noteq> path @ ''.tmp'' \<Longrightarrow> dget (h_files (installed path text h)) p = dget (h_files h) p"
  "h_log (installed path text h) = h_log h"
  by (simp_all add: installed_def atomic_write_def bindM_run modifyM_def)

lemma reload_run:
  assumes "bindM (dnsmasq_reload c pg) (\<lambda>_. returnM True) h = (r, h')"
  shows "h_files h' = h_files h" "\<exists>evs. h_log h' = h_log h @ evs" "r \<in> {Inr True, Inl OvsdbError}"
  using assms bindM_const [of "dnsmasq_reload c pg" True h] reload_files [of c pg h] reload_log [of c pg h]
    reload_error [of c pg h]
  by (cases "fst (dnsmasq_reload c pg h)"; auto)+

lemma apply_cases:
  assumes "dnsmasq_apply c pg d h = (r, h')" "dnsmasq_validate c pg d h = (v, h1)"
    and "target = scope_path c (ds_scope_id d)"
  obtains (same) "read_text target h = Some (render_scope d)" "r = Inr False" "h' = h"
    | (refused) e where "v = Inl e" "r = Inl e" "h' = h1"
    | (replaced) u where "v = Inr u"
        "bindM (dnsmasq_reload c pg) (\<lambda>_. returnM True) (installed target (render_scope d) h1) = (r, h')"
proof (cases "read_text target h = Some (render_scope d)")
  case True
  then show ?thesis using that(1) apply_unchanged [of c d h pg] assms by simp
next
  case False
  show ?thesis
  proof (cases v)
    case (Inl e)
    then have "dnsmasq_apply c pg d h = (Inl e, h1)" using assms(2,3) False
      by (simp add: dnsmasq_apply_def dnsmasq_validate_def bindM_run)
    then show ?thesis using that(2) Inl assms(1) by simp
  next
    case (Inr u)
    then show ?thesis using that(3) apply_run [of c d h pg u h1] False assms by simp
  qed
qed

lemma apply_frame:
  assumes "dnsmasq_apply c pg d h = (r, h')" "p \<noteq> scope_path c (ds_scope_id d)"
    and "p \<noteq> scope_path c (ds_scope_id d) @ ''.tmp''" "\<not> below (scratch_dir pg h) p"
  shows "dget (h_files h') p = dget (h_files h) p"
proof -
  obtain v h1 where v: "dnsmasq_validate c pg d h = (v, h1)" by (cases "dnsmasq_validate c pg d h")
  have kept: "dget (h_files h1) p = dget (h_files h) p"
    using validate_frame [OF assms(4), of c "render_scope d"] v by (simp add: dnsmasq_validate_def)
  from assms(1) v refl show ?thesis
  proof (cases rule: apply_cases)
    case replaced
    then show ?thesis using reload_run(1) [OF replaced(2)] installed_frame(1) [OF assms(2,3)] kept by simp
  qed (simp_all add: kept)
qed

lemma delete_sticks:
  assumes "dnsmasq_delete c pg i h = (Inl e, h')"
  shows "dget (h_files h') (scope_path c i) = None" "dnsmasq_delete c pg' i h' = (Inr False, h')"
proof -
  have run: "bindM (dnsmasq_reload c pg) (\<lambda>_. returnM True) (unlink_quiet (scope_path c i) h) = (Inl e, h')"
    using assms by (simp add: delete_run split: if_splits)
  show gone: "dget (h_files h') (scope_path c i) = None"
    using failing_reload(2) [OF run] by (simp add: unlink_quiet_def)
  show "dnsmasq_delete c pg' i h' = (Inr False, h')" by (simp add: delete_run gone)
qed

text \<open>
  C27. What an apply of the dnsmasq adapter does, whatever the programs answer. Either the check of the
  new fragment fails and nothing but that check happened; or the fragment of the scope is in place
  afterwards and the same call again answers "nothing to do" and runs nothing. In the second case the
  fragment was there before and nothing was run, or dnsmasq accepted exactly its text and the call
  reports the change or a failed reload: so a reload that failed is never retried, whatever the
  programs would now do. No other file changes but for the temporary ones. And a delete whose reload
  fails has removed the fragment, so that the same delete again finds nothing to remove. (The fragment
  has no carriage return, which reading would turn into a line feed.)
\<close>

theorem dnsmasq_apply_outcome:
  assumes "dnsmasq_apply c pg d h = (r, h')" "carriage_return \<notin> set (render_scope d)"
    and "target = scope_path c (ds_scope_id d)"
  shows "((\<exists>e. r = Inl e \<and> dnsmasq_validate c pg d h = (Inl e, h')) \<or>
      read_text target h' = Some (render_scope d) \<and> dnsmasq_apply c pg' d h' = (Inr False, h') \<and>
      (r = Inr False \<and> h' = h \<or>
       r \<in> {Inr True, Inl OvsdbError} \<and> accepted_by_dnsmasq c (render_scope d) h h')) \<and>
    (\<forall>p. p \<noteq> target \<and> p \<noteq> target @ ''.tmp'' \<and> \<not> below (scratch_dir pg h) p \<longrightarrow>
       dget (h_files h') p = dget (h_files h) p) \<and>
    (\<forall>e h''. dnsmasq_delete c pg i h = (Inl e, h'') \<longrightarrow>
       dget (h_files h'') (scope_path c i) = None \<and> dnsmasq_delete c pg' i h'' = (Inr False, h''))"
proof (intro conjI)
  obtain v h1 where v: "dnsmasq_validate c pg d h = (v, h1)" by (cases "dnsmasq_validate c pg d h")
  from assms(1) v assms(3)
  show "(\<exists>e. r = Inl e \<and> dnsmasq_validate c pg d h = (Inl e, h')) \<or>
      read_text target h' = Some (render_scope d) \<and> dnsmasq_apply c pg' d h' = (Inr False, h') \<and>
      (r = Inr False \<and> h' = h \<or>
       r \<in> {Inr True, Inl OvsdbError} \<and> accepted_by_dnsmasq c (render_scope d) h h')"
  proof (cases rule: apply_cases)
    case same
    then show ?thesis using apply_unchanged [of c d h pg'] assms(3) by simp
  next
    case refused
    then show ?thesis using v by simp
  next
    case replaced
    note reload = reload_run [OF replaced(2)]
    have there: "read_text target h' = Some (render_scope d)"
      using reload(1) assms(2) by (simp add: read_text_def universal_newlines_id)
    have check: "validate_text c pg (render_scope d) h = (Inr u, h1)"
      using v replaced(1) by (simp add: dnsmasq_validate_def)
    obtain evs where "h_log h' = h_log h1 @ evs" using reload(2) unfolding installed_frame(2) by blast
    then have "accepted_by_dnsmasq c (render_scope d) h h'"
      using validate_log [OF check] acceptedI by fastforce
    then show ?thesis using there reload(3) apply_unchanged [of c d h' pg'] assms(3) by simp
  qed
  show "\<forall>p. p \<noteq> target \<and> p \<noteq> target @ ''.tmp'' \<and> \<not> below (scratch_dir pg h) p \<longrightarrow>
       dget (h_files h') p = dget (h_files h) p"
    using apply_frame [OF assms(1)] assms(3) by simp
  show "\<forall>e h''. dnsmasq_delete c pg i h = (Inl e, h'') \<longrightarrow>
       dget (h_files h'') (scope_path c i) = None \<and> dnsmasq_delete c pg' i h'' = (Inr False, h'')"
    using delete_sticks by blast
qed

text \<open>A host whose dnsmasq accepts every configuration but is not running.\<close>

definition lan_dnsmasq :: dnsmasq_config where
  "lan_dnsmasq = \<lparr>dc_dnsmasq = ''dnsmasq'', dc_config_dir = ''/etc/dnsmasq.d'', dc_lease_file = ''/var/lib/leases'',
     dc_pid_file = ''/run/dnsmasq.pid'', dc_reload_command = []\<rparr>"

definition accepting :: programs where
  "accepting = \<lparr>pg_which = \<lambda>_ _. True, pg_run = \<lambda>_ _ _. Exited 0 [], pg_kill = \<lambda>_ _ _. NoSuchProcess,
     pg_mkdtemp = \<lambda>_ prefix. ''/tmp/'' @ prefix\<rparr>"

definition lan_scope :: dhcp_scope where
  "lan_scope = \<lparr>ds_scope_id = ''net_1'', ds_cidr = ''10.0.0.0/24'', ds_range_start = ''10.0.0.10'',
     ds_range_end = ''10.0.0.20'', ds_gateway = Some ''10.0.0.1'', ds_dns_servers = [], ds_lease_time = 3600,
     ds_domain_name = None\<rparr>"

definition bare_host :: host where
  "bare_host = \<lparr>h_files = [], h_log = []\<rparr>"

lemma lan_apply_fails: "\<exists>h'. dnsmasq_apply lan_dnsmasq accepting lan_scope bare_host = (Inl OvsdbError, h')"
proof -
  let ?t = "scope_path lan_dnsmasq (ds_scope_id lan_scope)"
  have fields: "dc_reload_command lan_dnsmasq = []" "h_files bare_host = []" by (simp_all add: lan_dnsmasq_def bare_host_def)
  have new: "read_text ?t bare_host \<noteq> Some (render_scope lan_scope)" by (simp add: read_text_def fields)
  obtain h1 where v: "dnsmasq_validate lan_dnsmasq accepting lan_scope bare_host = (Inr (), h1)" "h_files h1 = []"
    by (simp add: dnsmasq_validate_def validate_text_def bindM_run finallyM_run run_command_run accepting_def
        rmtree_def below_def bare_host_def require_def getM_def returnM_def)
  have "?t \<noteq> dc_pid_file lan_dnsmasq" by code_simp
  then have "read_text (dc_pid_file lan_dnsmasq) (installed ?t (render_scope lan_scope) h1) = None"
    by (simp add: read_text_def installed_def atomic_write_def bindM_run modifyM_def v(2))
  then have "dnsmasq_reload lan_dnsmasq accepting (installed ?t (render_scope lan_scope) h1) =
      (Inl OvsdbError, installed ?t (render_scope lan_scope) h1)"
    by (simp add: dnsmasq_reload_def fields bindM_run getM_def raiseM_def)
  then show ?thesis unfolding apply_run [OF new v(1)] by (simp add: bindM_run)
qed

theorem dnsmasq_apply_outcome_witness:
  "\<exists>h'. dnsmasq_apply lan_dnsmasq accepting lan_scope bare_host = (Inl OvsdbError, h') \<and>
     dnsmasq_apply lan_dnsmasq accepting lan_scope h' = (Inr False, h')"
proof -
  obtain h' where fail: "dnsmasq_apply lan_dnsmasq accepting lan_scope bare_host = (Inl OvsdbError, h')"
    using lan_apply_fails by blast
  have cr: "carriage_return \<notin> set (render_scope lan_scope)" by code_simp
  have ok: "\<not> (\<exists>e. dnsmasq_validate lan_dnsmasq accepting lan_scope bare_host = (Inl e, h'))"
    by (simp add: dnsmasq_validate_def validate_text_def bindM_run finallyM_run run_command_run accepting_def
        require_def getM_def returnM_def)
  then show ?thesis
    using dnsmasq_apply_outcome [OF fail cr refl, of accepting] fail by auto
qed

end
