(* ===== verification/Agent_Coredns.thy ===== *)
theory Agent_Coredns
  imports Agent_Dnsmasq
begin

text \<open>
  The CoreDNS adapter of the agent (\<open>netos_agent/adapters/dns_coredns/adapter.py\<close>): one zone file per
  zone, one Corefile that serves every zone file, a trial run of \<open>coredns\<close> before a zone is replaced
  and a signal afterwards. The state is the host. \<open>stops\<close> says whether a started \<open>coredns\<close> ends in
  time once it was told to. Zone files are read back by a regular expression, written out here.
\<close>

record coredns_config =
  cd_coredns :: string
  cd_zones_dir :: string
  cd_corefile :: string
  cd_pid_file :: string

text \<open>A program that is gone between the look-up and the start raises \<open>FileNotFoundError\<close>, which
  nobody catches.\<close>

datatype coredns_error = Raised agent_error | ProgramGone

type_synonym 'a coredns_act = "(host, coredns_error, 'a) act"

definition raisedM :: "'a host_act \<Rightarrow> 'a coredns_act" where
  "raisedM m h = (case m h of (Inl e, h') \<Rightarrow> (Inl (Raised e), h') | (Inr x, h') \<Rightarrow> (Inr x, h'))"

subsection \<open>Texts\<close>

definition rstrip_dots :: "string \<Rightarrow> string" where
  "rstrip_dots s = rev (dropWhile (\<lambda>c. c = CHR ''.'') (rev s))"

definition zone_filename :: "string \<Rightarrow> string" where
  "zone_filename zone = ''db.'' @ rstrip_dots zone"

definition zone_path :: "coredns_config \<Rightarrow> string \<Rightarrow> string" where
  "zone_path c zone = cd_zones_dir c @ ''/'' @ zone_filename zone"

definition zone_fqdn :: "string \<Rightarrow> string" where
  "zone_fqdn zone = (if ends_with zone ''.'' then zone else zone @ ''.'')"

definition record_line :: "dns_record \<Rightarrow> string" where
  "record_line r = dr_name r @ '' '' @ str_int (dr_ttl r) @ '' IN '' @ dr_type r @ '' '' @ dr_value r"

definition zone_head :: "dns_zone \<Rightarrow> string list" where
  "zone_head z =
     [''; managed by sdn-controller; zone='' @ dz_zone z, ''$ORIGIN '' @ zone_fqdn (dz_zone z), ''$TTL 300'',
      ''@ IN SOA ns1.'' @ zone_fqdn (dz_zone z) @ '' '' @ dz_soa_email z @ '' ( 1 ; serial'', '' 3600 ; refresh'',
      '' 600 ; retry'', '' 604800 ; expire'', '' 300 ; minimum'', '')'', ''@ IN NS ns1.'' @ zone_fqdn (dz_zone z)]"

definition render_zone :: "dns_zone \<Rightarrow> string" where
  "render_zone z = lines_text (zone_head z @ List.map record_line (dz_records z))"

definition corefile_block :: "string \<Rightarrow> string \<Rightarrow> string" where
  "corefile_block dir fname =
     (if take 3 fname = ''db.'' then drop 3 fname else fname) @ '':53 {'' @ [CHR 0x0A]
       @ ''    file '' @ dir @ ''/'' @ fname @ [CHR 0x0A] @ ''    log'' @ [CHR 0x0A] @ ''    errors'' @ [CHR 0x0A]
       @ ''}'' @ [CHR 0x0A]"

definition render_corefile :: "string \<Rightarrow> string list \<Rightarrow> string" where
  "render_corefile dir fnames = lines_text (''# managed by sdn-controller'' # List.map (corefile_block dir) fnames)"

definition render_check_corefile :: "dns_zone \<Rightarrow> string" where
  "render_check_corefile z = lines_text
     [rstrip_dots (dz_zone z) @ '':53 {'', ''    file db.'' @ rstrip_dots (dz_zone z), ''    errors'', ''}'']"

subsection \<open>Reading a zone file\<close>

definition not_space :: "char \<Rightarrow> bool" where
  "not_space c \<longleftrightarrow> \<not> py_isspace c"

text \<open>\<open>\s+\<close>, and the text after it.\<close>

definition spaces :: "string \<Rightarrow> string option" where
  "spaces s = (if s = [] \<or> not_space (hd s) then None else Some (dropWhile py_isspace s))"

text \<open>\<open>X+\<close> for a class \<open>X\<close>, and the text after it.\<close>

definition chars :: "(char \<Rightarrow> bool) \<Rightarrow> string \<Rightarrow> (string \<times> string) option" where
  "chars P s = (if s = [] \<or> \<not> P (hd s) then None else Some (takeWhile P s, dropWhile P s))"

text \<open>
  \<open>^(\S+)\s+(\d+)\s+IN\s+(A|AAAA|CNAME)\s+(\S+)$\<close> at the beginning of a line; white space may run over
  line ends. No group can give up a character, since what follows it begins with one of another class.
\<close>

definition record_at :: "string \<Rightarrow> ((string \<times> string \<times> string \<times> string) \<times> string) option" where
  "record_at s = do {
     (name, s1) \<leftarrow> chars not_space s;
     s2 \<leftarrow> spaces s1;
     (ttl, s3) \<leftarrow> chars is_digit s2;
     s4 \<leftarrow> spaces s3;
     (cls, s5) \<leftarrow> chars not_space s4;
     s6 \<leftarrow> (if cls = ''IN'' then spaces s5 else None);
     (ty, s7) \<leftarrow> chars not_space s6;
     s8 \<leftarrow> (if ty \<in> {''A'', ''AAAA'', ''CNAME''} then spaces s7 else None);
     (val, s9) \<leftarrow> chars not_space s8;
     if s9 = [] \<or> hd s9 = CHR 0x0A then Some ((name, ttl, ty, val), s9) else None }"

definition next_line :: "string \<Rightarrow> string option" where
  "next_line s = (case dropWhile (\<lambda>c. c \<noteq> CHR 0x0A) s of [] \<Rightarrow> None | _ # r \<Rightarrow> Some r)"

lemma next_line_length: "next_line s = Some r \<Longrightarrow> length r < length s"
proof -
  assume "next_line s = Some r"
  then obtain c where "dropWhile (\<lambda>c. c \<noteq> CHR 0x0A) s = c # r" by (auto simp: next_line_def split: list.splits)
  then show ?thesis using length_dropWhile_le [of "\<lambda>c. c \<noteq> CHR 0x0A" s] by simp
qed

lemma chars_length: "chars P s = Some (t, r) \<Longrightarrow> length r \<le> length s"
  using length_dropWhile_le [of P s] by (auto simp: chars_def split: if_splits)

lemma spaces_length: "spaces s = Some r \<Longrightarrow> length r \<le> length s"
  using length_dropWhile_le [of py_isspace s] by (auto simp: spaces_def split: if_splits)

lemma record_at_length: "record_at s = Some (m, r) \<Longrightarrow> length r \<le> length s"
  by (auto simp: record_at_def bind_eq_Some_conv split: if_splits
      dest!: chars_length spaces_length)

text \<open>\<open>finditer\<close>: every match, the search going on after it.\<close>

function zone_matches :: "string \<Rightarrow> (string \<times> string \<times> string \<times> string) list" where
  "zone_matches s = (case record_at s of
       None \<Rightarrow> (case next_line s of None \<Rightarrow> [] | Some r \<Rightarrow> zone_matches r)
     | Some (m, s') \<Rightarrow> m # (case next_line s' of None \<Rightarrow> [] | Some r \<Rightarrow> zone_matches r))"
  by auto

termination
proof (relation "measure length")
  fix s r assume "next_line s = Some r"
  then show "(r, s) \<in> measure length" by (simp add: next_line_length)
next
  fix s x m s' r
  assume "record_at s = Some x" "(m, s') = x" "next_line s' = Some r"
  then show "(r, s) \<in> measure length" using record_at_length [of s m s'] next_line_length [of s' r] by simp
qed simp

declare zone_matches.simps [simp del]

text \<open>A ttl of more than 4300 digits is a \<open>ValueError\<close>, which skips the record.\<close>

definition record_of_match :: "string \<times> string \<times> string \<times> string \<Rightarrow> dns_record option" where
  "record_of_match m = (case m of (name, ttl, ty, val) \<Rightarrow>
     if 4300 < length ttl then None
     else map_option (\<lambda>n. \<lparr>dr_name = name, dr_type = ty, dr_value = val, dr_ttl = int n\<rparr>)
       (num_val dec_digit 10 0 ttl))"

text \<open>
  \<open>_parse_zone\<close>. The checks of the constructors raise \<open>ValidationError\<close>, which is no \<open>ValueError\<close>: it
  is not caught here.
\<close>

definition parse_zone :: "string \<Rightarrow> agent_error + dns_zone option" where
  "parse_zone text =
     (case first_some (line_value ''; managed by sdn-controller; zone='' not_space) (split (CHR 0x0A) text) of
        None \<Rightarrow> Inr None
      | Some zone \<Rightarrow>
          bindE (mapE (\<lambda>r. bindE (ag_dns_record_check r) (\<lambda>_. Inr r))
                   (List.map_filter record_of_match (zone_matches text))) (\<lambda>records.
          let z = \<lparr>dz_zone = zone, dz_records = records, dz_soa_email = ''hostmaster.invalid.''\<rparr>
          in bindE (ag_dns_zone_check z) (\<lambda>_. Inr (Some z))))"

subsection \<open>Operations\<close>

text \<open>
  \<open>_coredns_parse_check\<close>: \<open>coredns\<close> fails at once on a malformed file; if it is still running after the
  time limit it is told to stop, and has accepted the file unless it does not stop.
\<close>

definition coredns_parse_check ::
  "coredns_config \<Rightarrow> programs \<Rightarrow> (host_event list \<Rightarrow> bool) \<Rightarrow> string \<Rightarrow> unit coredns_act" where
  "coredns_parse_check c pg stops corefile =
     bindM (raisedM (spawn pg [cd_coredns c, ''-conf'', corefile, ''-dns.port'', '':0''])) (\<lambda>out. case out of
       ProgramMissing \<Rightarrow> raiseM ProgramGone
     | TimedOut \<Rightarrow> bindM (getM (\<lambda>h. stops (h_log h))) (\<lambda>stopped.
         if stopped then returnM () else raiseM (Raised OvsdbError))
     | Exited rc _ \<Rightarrow> if rc \<noteq> 0 then raiseM (Raised OvsdbError) else returnM ())"

definition coredns_validate ::
  "coredns_config \<Rightarrow> programs \<Rightarrow> (host_event list \<Rightarrow> bool) \<Rightarrow> dns_zone \<Rightarrow> unit coredns_act" where
  "coredns_validate c pg stops z =
     bindM (raisedM (require_program pg (cd_coredns c))) (\<lambda>_.
     bindM (getM (\<lambda>h. pg_mkdtemp pg (h_log h) ''sdn-coredns-'')) (\<lambda>dir.
     finallyM
       (bindM (raisedM (write_text (dir @ ''/'' @ zone_filename (dz_zone z)) (render_zone z))) (\<lambda>_.
        bindM (raisedM (write_text (dir @ ''/Corefile'') (render_check_corefile z))) (\<lambda>_.
        coredns_parse_check c pg stops (dir @ ''/Corefile''))))
       (rmtree dir)))"

definition zone_files :: "coredns_config \<Rightarrow> host \<Rightarrow> string list" where
  "zone_files c h = sort (filter (\<lambda>n. take 3 n = ''db.'') (dir_names (cd_zones_dir c) h))"

definition update_corefile :: "coredns_config \<Rightarrow> unit coredns_act" where
  "update_corefile c =
     bindM (getM (\<lambda>h. render_corefile (cd_zones_dir c) (zone_files c h))) (\<lambda>body.
     bindM (raisedM (safe_read (cd_corefile c))) (\<lambda>existing.
     if existing = Some body then returnM () else raisedM (atomic_write (cd_corefile c) body)))"

definition coredns_reload :: "coredns_config \<Rightarrow> programs \<Rightarrow> unit coredns_act" where
  "coredns_reload c pg =
     bindM (getM (read_text (cd_pid_file c))) (\<lambda>text. case text of
       None \<Rightarrow> raiseM (Raised AgentNotFoundError)
     | Some t \<Rightarrow> (case int_text t of
         None \<Rightarrow> raiseM (Raised OvsdbError)
       | Some pid \<Rightarrow> raisedM (send_signal pg pid ''SIGUSR1'')))"

definition coredns_apply ::
  "coredns_config \<Rightarrow> programs \<Rightarrow> (host_event list \<Rightarrow> bool) \<Rightarrow> dns_zone \<Rightarrow> bool coredns_act" where
  "coredns_apply c pg stops z =
     bindM (raisedM (safe_read (zone_path c (dz_zone z)))) (\<lambda>existing.
     if existing = Some (render_zone z) then returnM False
     else bindM (coredns_validate c pg stops z) (\<lambda>_.
          bindM (raisedM (atomic_write (zone_path c (dz_zone z)) (render_zone z))) (\<lambda>_.
          bindM (update_corefile c) (\<lambda>_.
          bindM (coredns_reload c pg) (\<lambda>_. returnM True)))))"

definition coredns_delete :: "coredns_config \<Rightarrow> programs \<Rightarrow> string \<Rightarrow> bool coredns_act" where
  "coredns_delete c pg zone =
     bindM (getM (\<lambda>h. dget (h_files h) (zone_path c zone))) (\<lambda>target.
     if target = None then returnM False
     else bindM (modifyM (unlink_quiet (zone_path c zone))) (\<lambda>_.
          bindM (update_corefile c) (\<lambda>_.
          bindM (coredns_reload c pg) (\<lambda>_. returnM True))))"

definition parse_zone_file :: "string \<Rightarrow> host \<Rightarrow> agent_error + dns_zone option" where
  "parse_zone_file path h = (case read_text path h of None \<Rightarrow> Inr None | Some text \<Rightarrow> parse_zone text)"

definition coredns_list_zones :: "coredns_config \<Rightarrow> host \<Rightarrow> agent_error + dns_zone list" where
  "coredns_list_zones c h =
     bindE (mapE (\<lambda>n. parse_zone_file (cd_zones_dir c @ ''/'' @ n) h) (zone_files c h)) (\<lambda>zs.
     Inr (List.map_filter id zs))"

definition coredns_resolve_check :: "coredns_config \<Rightarrow> string \<Rightarrow> string \<Rightarrow> host \<Rightarrow> agent_error + string option" where
  "coredns_resolve_check c zone name h =
     bindE (parse_zone_file (zone_path c zone) h) (\<lambda>parsed.
     Inr (case parsed of None \<Rightarrow> None
          | Some z \<Rightarrow> map_option dr_value
              (find (\<lambda>r. dr_name r = name \<and> dr_type r \<in> {''A'', ''AAAA''}) (dz_records z))))"

subsection \<open>What it wrote is read back\<close>

text \<open>A token of a class, followed by the end or by a character outside the class.\<close>

lemma chars_token:
  assumes "t \<noteq> []" "list_all P t" "r = [] \<or> \<not> P (hd r)"
  shows "chars P (t @ r) = Some (t, r)"
proof -
  have "takeWhile P (t @ r) = t" "dropWhile P (t @ r) = r" using assms(2,3)
    by (induction t) (cases r; simp)+
  then show ?thesis using assms(1,2) by (cases t) (simp_all add: chars_def)
qed

lemma one_space: "r \<noteq> [] \<Longrightarrow> not_space (hd r) \<Longrightarrow> spaces (CHR '' '' # r) = Some r"
  by (cases r) (auto simp: spaces_def not_space_def py_isspace_def)

definition token :: "string \<Rightarrow> bool" where
  "token t \<longleftrightarrow> t \<noteq> [] \<and> list_all not_space t"

lemma token_chars: "token t \<Longrightarrow> chars not_space (t @ CHR '' '' # r) = Some (t, CHR '' '' # r)"
  by (rule chars_token) (auto simp: token_def not_space_def py_isspace_def)

lemma token_spaces: "token t \<Longrightarrow> spaces (CHR '' '' # t @ r) = Some (t @ r)"
  by (rule one_space) (cases t; auto simp: token_def)+

lemma digits_token: "token (str_nat n)"
proof -
  have "not_space ch" if "is_digit ch" for ch
    using that by (auto simp: not_space_def py_isspace_def dec_digit_def Let_def split: if_splits)
  then show ?thesis using str_nat_digits [of n] num_val_str_nat [of n]
    by (auto simp: token_def list_all_iff str_nat_def)
qed

text \<open>A record, and a zone, whose text is read back.\<close>

definition clean_record :: "dns_record \<Rightarrow> bool" where
  "clean_record r \<longleftrightarrow> token (dr_name r) \<and> token (dr_value r) \<and> 0 \<le> dr_ttl r \<and>
     length (str_int (dr_ttl r)) \<le> 4300 \<and> ag_dns_record_check r = Inr ()"

definition clean_zone :: "dns_zone \<Rightarrow> bool" where
  "clean_zone z \<longleftrightarrow> token (dz_zone z) \<and> ag_dns_zone_check z = Inr () \<and> list_all clean_record (dz_records z) \<and>
     CHR 0x0A \<notin> set (dz_soa_email z) \<and> carriage_return \<notin> set (dz_soa_email z)"

lemma clean_type: "clean_record r \<Longrightarrow> dr_type r \<in> {''A'', ''AAAA'', ''CNAME''}"
  by (auto simp: clean_record_def ag_dns_record_check_def bindE_Inr_iff require_def split: if_splits)

lemma clean_type_token: "clean_record r \<Longrightarrow> token (dr_type r)"
  using clean_type [of r] by (auto simp: token_def not_space_def py_isspace_def)

lemma digits_space: "chars is_digit (str_nat n @ CHR '' '' # r) = Some (str_nat n, CHR '' '' # r)"
  using digits_token [of n] str_nat_digits [of n] by (intro chars_token) (auto simp: token_def dec_digit_def)

lemma record_line_read:
  assumes "clean_record r" "rest = [] \<or> hd rest = CHR 0x0A"
  shows "record_at (record_line r @ rest) =
    Some ((dr_name r, str_nat (nat (dr_ttl r)), dr_type r, dr_value r), rest)"
proof -
  have ttl: "str_int (dr_ttl r) = str_nat (nat (dr_ttl r))" using assms(1) by (simp add: clean_record_def str_int_def)
  have tokens: "token (dr_name r)" "token (dr_value r)" "token (dr_type r)" "token ''IN''"
    using assms(1) clean_type_token by (simp_all add: clean_record_def token_def not_space_def py_isspace_def)
  have val: "chars not_space (dr_value r @ rest) = Some (dr_value r, rest)"
    using tokens(2) assms(2) by (intro chars_token) (auto simp: token_def not_space_def py_isspace_def)
  note steps = token_chars [OF tokens(1)] token_chars [OF tokens(3)] token_chars [OF tokens(4)]
    token_spaces [OF digits_token] token_spaces [OF tokens(2)] token_spaces [OF tokens(3)] token_spaces [OF tokens(4)]
    digits_space val
  have line: "record_line r @ rest = dr_name r @ CHR '' '' # str_nat (nat (dr_ttl r)) @ CHR '' '' # ''IN''
      @ CHR '' '' # dr_type r @ CHR '' '' # dr_value r @ rest"
    by (simp add: record_line_def ttl)
  have side: "(dr_type r \<in> {''A'', ''AAAA'', ''CNAME''}) = True" "(rest = [] \<or> hd rest = CHR 0x0A) = True"
    using clean_type [OF assms(1)] assms(2) by simp_all
  show ?thesis
    unfolding line record_at_def by (simp only: steps bind.bind_lunit prod.case if_True side simp_thms)
qed

text \<open>The lines of the head are no records.\<close>

lemma next_line_append: "CHR 0x0A \<notin> set l \<Longrightarrow> next_line (l @ CHR 0x0A # rest) = Some rest"
  by (induction l) (auto simp: next_line_def)

lemma skip_line:
  assumes "CHR 0x0A \<notin> set l" "record_at (l @ CHR 0x0A # rest) = None"
  shows "zone_matches (l @ CHR 0x0A # rest) = zone_matches rest"
  using assms by (subst zone_matches.simps) (simp add: next_line_append)

lemma read_line:
  assumes "clean_record r"
  shows "zone_matches (record_line r @ CHR 0x0A # rest) =
    (dr_name r, str_nat (nat (dr_ttl r)), dr_type r, dr_value r) # zone_matches rest"
  using record_line_read [OF assms, of "CHR 0x0A # rest"]
  by (subst zone_matches.simps) (simp add: next_line_def)

lemma no_digits: "chars not_space s = Some (t, r) \<Longrightarrow> spaces r = Some r' \<Longrightarrow> chars is_digit r' = None \<Longrightarrow> record_at s = None"
  by (simp add: record_at_def)

lemma blank_first: "record_at (CHR '' '' # s) = None"
  by (simp add: record_at_def chars_def not_space_def py_isspace_def)

lemma second_word:
  assumes "token t" "w \<noteq> []" "not_space (hd w)" "\<not> is_digit (hd w)"
  shows "record_at (t @ CHR '' '' # w) = None"
  by (rule no_digits [OF token_chars [OF assms(1)] one_space [OF assms(2,3)]]) (use assms(2,4) in \<open>simp add: chars_def\<close>)

lemma unfinished_digits:
  assumes "token t" "token q" "\<not> list_all is_digit q"
  shows "record_at (t @ CHR '' '' # q @ rest) = None"
proof -
  have "chars is_digit (q @ rest) = None \<or> (\<exists>ds r. chars is_digit (q @ rest) = Some (ds, r) \<and> spaces r = None)"
  proof -
    obtain x where x: "x \<in> set q" "\<not> is_digit x" using assms(3) by (auto simp: list_all_iff)
    then have "dropWhile is_digit (q @ rest) = dropWhile is_digit q @ rest" by (rule dropWhile_append1)
    moreover have some: "dropWhile is_digit q \<noteq> []" using x by (auto simp: dropWhile_eq_Nil_conv)
    moreover have "not_space (hd (dropWhile is_digit q))"
      using assms(2) set_dropWhileD [OF hd_in_set [OF some]] by (simp add: token_def list_all_iff)
    ultimately have "dropWhile is_digit (q @ rest) \<noteq> [] \<and> not_space (hd (dropWhile is_digit (q @ rest)))" by simp
    then show ?thesis by (auto simp: chars_def spaces_def)
  qed
  then show ?thesis
    by (auto simp: record_at_def token_chars [OF assms(1)] token_spaces [OF assms(2)])
qed

lemma fqdn_token: "token z \<Longrightarrow> token (zone_fqdn z)" "\<not> list_all is_digit (zone_fqdn z)"
proof -
  have dot: "\<not> is_digit CHR ''.''" "not_space CHR ''.''" by (simp_all add: dec_digit_def not_space_def py_isspace_def)
  show "token z \<Longrightarrow> token (zone_fqdn z)" using dot(2) by (auto simp: token_def zone_fqdn_def)
  have "CHR ''.'' \<in> set (zone_fqdn z)"
  proof (cases "ends_with z ''.''")
    case True
    then have "drop (length z - 1) z = ''.''" by (simp add: ends_with_def)
    then have "CHR ''.'' \<in> set z" by (metis in_set_dropD list.set_intros(1))
    then show ?thesis using True by (simp add: zone_fqdn_def)
  qed (simp add: zone_fqdn_def)
  then show "\<not> list_all is_digit (zone_fqdn z)" unfolding list_all_iff using dot(1) by blast
qed

lemma lines_text_concat: "xs \<noteq> [] \<Longrightarrow> lines_text xs = concat (List.map (\<lambda>l. l @ [CHR 0x0A]) xs)"
proof -
  have "xs \<noteq> [] \<Longrightarrow> join [CHR 0x0A] xs @ [CHR 0x0A] = concat (List.map (\<lambda>l. l @ [CHR 0x0A]) xs)"
    by (induction "[CHR 0x0A]" xs rule: join.induct) simp_all
  then show "xs \<noteq> [] \<Longrightarrow> lines_text xs = concat (List.map (\<lambda>l. l @ [CHR 0x0A]) xs)" by (simp add: lines_text_def)
qed

lemma token_no_break: "token t \<Longrightarrow> CHR 0x0A \<notin> set t"
  by (auto simp: token_def list_all_iff not_space_def py_isspace_def)

lemma ttl_line: "record_at (''$TTL 300'' @ CHR 0x0A # CHR ''@'' # CHR '' '' # rest) = None"
  by (simp add: record_at_def chars_def spaces_def not_space_def py_isspace_def dec_digit_def)

lemma paren_line: "record_at ('')'' @ CHR 0x0A # CHR ''@'' # rest) = None"
  by (simp add: record_at_def chars_def spaces_def not_space_def py_isspace_def dec_digit_def)

lemma head_skipped:
  assumes "clean_zone z"
  shows "zone_matches (concat (List.map (\<lambda>l. l @ [CHR 0x0A]) (zone_head z)) @ rest) = zone_matches rest"
proof -
  let ?q = "zone_fqdn (dz_zone z)"
  have z: "token (dz_zone z)" "CHR 0x0A \<notin> set (dz_soa_email z)" using assms by (simp_all add: clean_zone_def)
  note q = fqdn_token(1) [OF z(1)] fqdn_token(2) [of "dz_zone z"]
  note breaks = token_no_break [OF z(1)] token_no_break [OF q(1)]
  have small: "token '';''" "token ''$ORIGIN''" "token ''@''" by (simp_all add: token_def not_space_def py_isspace_def)
  have word: "not_space CHR ''m''" "not_space CHR ''I''" "\<not> is_digit CHR ''m''" "\<not> is_digit CHR ''I''"
    by (simp_all add: not_space_def py_isspace_def dec_digit_def)
  have skip: "zone_matches (l @ [CHR 0x0A] @ r) = zone_matches r"
    if "CHR 0x0A \<notin> set l" "record_at (l @ CHR 0x0A # r) = None" for l r
    using skip_line [OF that] by simp
  have 1: "zone_matches (''; managed by sdn-controller; zone='' @ dz_zone z @ [CHR 0x0A] @ r) = zone_matches r" for r
    using skip [of "''; managed by sdn-controller; zone='' @ dz_zone z" r] breaks(1) word
      second_word [OF small(1), of "''managed by sdn-controller; zone='' @ dz_zone z @ CHR 0x0A # r"] by simp
  have 2: "zone_matches (''$ORIGIN '' @ ?q @ [CHR 0x0A] @ r) = zone_matches r" for r
    using skip [of "''$ORIGIN '' @ ?q" r] breaks(2) unfinished_digits [OF small(2) q, of "CHR 0x0A # r"] by simp
  have 3: "zone_matches (''$TTL 300'' @ [CHR 0x0A] @ ''@ IN SOA ns1.'' @ r) = zone_matches (''@ IN SOA ns1.'' @ r)" for r
    using skip [of "''$TTL 300''" "''@ IN SOA ns1.'' @ r"] ttl_line [of "''IN SOA ns1.'' @ r"] by simp
  have 4: "zone_matches (''@ IN SOA ns1.'' @ ?q @ '' '' @ dz_soa_email z @ '' ( 1 ; serial'' @ [CHR 0x0A] @ r) = zone_matches r" for r
    using skip [of "''@ IN SOA ns1.'' @ ?q @ '' '' @ dz_soa_email z @ '' ( 1 ; serial''" r] breaks(2) z(2) word
      second_word [OF small(3), of "''IN SOA ns1.'' @ ?q @ '' '' @ dz_soa_email z @ '' ( 1 ; serial'' @ CHR 0x0A # r"] by simp
  have 5: "zone_matches ('' 3600 ; refresh'' @ [CHR 0x0A] @ r) = zone_matches r"
    "zone_matches ('' 600 ; retry'' @ [CHR 0x0A] @ r) = zone_matches r"
    "zone_matches ('' 604800 ; expire'' @ [CHR 0x0A] @ r) = zone_matches r"
    "zone_matches ('' 300 ; minimum'' @ [CHR 0x0A] @ r) = zone_matches r" for r
    by (rule skip; simp add: blank_first)+
  have 6: "zone_matches ('')'' @ [CHR 0x0A] @ ''@ IN NS ns1.'' @ r) = zone_matches (''@ IN NS ns1.'' @ r)" for r
    using skip [of "'')''" "''@ IN NS ns1.'' @ r"] paren_line [of "'' IN NS ns1.'' @ r"] by simp
  have 7: "zone_matches (''@ IN NS ns1.'' @ ?q @ [CHR 0x0A] @ r) = zone_matches r" for r
    using skip [of "''@ IN NS ns1.'' @ ?q" r] breaks(2) word
      second_word [OF small(3), of "''IN NS ns1.'' @ ?q @ CHR 0x0A # r"] by simp
  show ?thesis
    by (simp only: zone_head_def list.map concat.simps append_assoc append_Nil 1 2 3 4 5 6 7)
qed

lemma records_matched:
  "list_all clean_record rs \<Longrightarrow> zone_matches (concat (List.map (\<lambda>r. record_line r @ [CHR 0x0A]) rs)) =
     List.map (\<lambda>r. (dr_name r, str_nat (nat (dr_ttl r)), dr_type r, dr_value r)) rs"
proof (induction rs)
  case Nil
  show ?case by (subst zone_matches.simps) (simp add: record_at_def chars_def next_line_def)
next
  case (Cons r rs)
  then show ?case by (simp add: read_line)
qed

lemma zone_text: "render_zone z = concat (List.map (\<lambda>l. l @ [CHR 0x0A]) (zone_head z)) @
    concat (List.map (\<lambda>r. record_line r @ [CHR 0x0A]) (dz_records z))"
proof -
  have "zone_head z @ List.map record_line (dz_records z) \<noteq> []" by (simp add: zone_head_def)
  then show ?thesis by (simp add: render_zone_def lines_text_concat comp_def)
qed

lemma zone_records_read: "clean_zone z \<Longrightarrow> zone_matches (render_zone z) =
    List.map (\<lambda>r. (dr_name r, str_nat (nat (dr_ttl r)), dr_type r, dr_value r)) (dz_records z)"
  unfolding zone_text head_skipped by (rule records_matched) (simp add: clean_zone_def)

lemma records_rebuilt:
  "list_all clean_record rs \<Longrightarrow> List.map_filter record_of_match
     (List.map (\<lambda>r. (dr_name r, str_nat (nat (dr_ttl r)), dr_type r, dr_value r)) rs) = rs"
proof (induction rs)
  case (Cons r rs)
  then have "record_of_match (dr_name r, str_nat (nat (dr_ttl r)), dr_type r, dr_value r) = Some r"
    by (auto simp: record_of_match_def clean_record_def str_int_def num_val_str_nat split: if_splits)
  then show ?case using Cons by (simp add: List.map_filter_simps)
qed (simp add: List.map_filter_simps)

lemma records_checked: "list_all clean_record rs \<Longrightarrow> mapE (\<lambda>r. bindE (ag_dns_record_check r) (\<lambda>_. Inr r)) rs = Inr rs"
  by (induction rs) (simp_all add: clean_record_def)

lemma header_read:
  assumes "token zone"
  shows "line_value ''; managed by sdn-controller; zone='' not_space (''; managed by sdn-controller; zone='' @ zone) = Some zone"
proof -
  have t: "takeWhile not_space zone = zone" "dropWhile not_space zone = []" "zone \<noteq> []"
    using assms by (auto simp: token_def list_all_iff takeWhile_eq_all_conv)
  show ?thesis by (simp add: line_value_def t)
qed

text \<open>A clean zone is read back as it is, but for the mail address, which the reader does not look at.\<close>

lemma zone_roundtrip:
  assumes "clean_zone z"
  shows "parse_zone (render_zone z) = Inr (Some (z\<lparr>dz_soa_email := ''hostmaster.invalid.''\<rparr>))"
proof -
  let ?header = "''; managed by sdn-controller; zone='' @ dz_zone z"
  have zone: "token (dz_zone z)" "ag_dns_zone_check z = Inr ()" "list_all clean_record (dz_records z)"
    using assms by (simp_all add: clean_zone_def)
  have "CHR 0x0A \<notin> set ?header" using token_no_break [OF zone(1)] by simp
  moreover obtain rest where "render_zone z = ?header @ CHR 0x0A # rest"
    by (simp add: zone_text zone_head_def)
  ultimately obtain ls where lines: "split (CHR 0x0A) (render_zone z) = ?header # ls"
    by (simp add: split_def split_acc_append)
  have "first_some (line_value ''; managed by sdn-controller; zone='' not_space) (split (CHR 0x0A) (render_zone z)) =
      Some (dz_zone z)"
    unfolding lines using header_read [OF zone(1)] by (simp add: first_some_def List.map_filter_simps)
  moreover have "ag_dns_zone_check \<lparr>dz_zone = dz_zone z, dz_records = rs, dz_soa_email = m\<rparr> = Inr ()" for rs m
    using zone(2) by (simp add: ag_dns_zone_check_def)
  ultimately show ?thesis
    by (simp add: parse_zone_def zone_records_read [OF assms] records_rebuilt [OF zone(3)] records_checked [OF zone(3)])
qed

text \<open>
  After an apply that reports a change, names resolve as they do with the in-memory DNS adapter.
\<close>

lemma update_corefile_frame:
  "p \<noteq> cd_corefile c \<Longrightarrow> p \<noteq> cd_corefile c @ ''.tmp'' \<Longrightarrow>
   dget (h_files (snd (update_corefile c h))) p = dget (h_files h) p"
  by (simp add: update_corefile_def bindM_run getM_def raisedM_def atomic_write_run installed_frame returnM_def)

lemma reload_keeps_files: "h_files (snd (coredns_reload c pg h)) = h_files h"
  by (simp add: coredns_reload_def bindM_run getM_def raisedM_def send_signal_def Let_def raiseM_def
      split: option.split signal_outcome.split)

lemma token_no_return: "token t \<Longrightarrow> carriage_return \<notin> set t"
  by (auto simp: token_def list_all_iff not_space_def py_isspace_def)

lemma record_no_return:
  assumes "clean_record r"
  shows "carriage_return \<notin> set (record_line r)"
proof -
  have "token (dr_name r)" "token (dr_value r)" "token (dr_type r)" "str_int (dr_ttl r) = str_nat (nat (dr_ttl r))"
    using assms clean_type_token [OF assms] by (simp_all add: clean_record_def str_int_def)
  then show ?thesis using token_no_return token_no_return [OF digits_token]
    by (simp add: record_line_def)
qed

lemma clean_no_return:
  assumes "clean_zone z"
  shows "carriage_return \<notin> set (render_zone z)"
proof -
  have z: "token (dz_zone z)" "carriage_return \<notin> set (dz_soa_email z)" "\<forall>r \<in> set (dz_records z). clean_record r"
    using assms by (simp_all add: clean_zone_def list_all_iff)
  have "carriage_return \<notin> set l" if "l \<in> set (zone_head z)" for l
    using that z(2) token_no_return [OF z(1)] token_no_return [OF fqdn_token(1) [OF z(1)]]
    by (auto simp: zone_head_def)
  then show ?thesis using z(3) record_no_return by (auto simp: zone_text)
qed

lemma reload_answer: "bindM (coredns_reload c pg) (\<lambda>_. returnM True) h = (Inr b, h') \<Longrightarrow> h_files h' = h_files h"
  using bindM_const [of "coredns_reload c pg" True h] reload_keeps_files [of c pg h] by (metis snd_conv)

lemma coredns_in_place:
  assumes "coredns_apply c pg stops z h = (Inr b, h')" "clean_zone z"
    and "cd_corefile c \<noteq> zone_path c (dz_zone z)" "cd_corefile c @ ''.tmp'' \<noteq> zone_path c (dz_zone z)"
  shows "read_text (zone_path c (dz_zone z)) h' = Some (render_zone z)"
proof (cases "read_text (zone_path c (dz_zone z)) h = Some (render_zone z)")
  case True
  then show ?thesis using assms(1) by (auto simp: coredns_apply_def bindM_run raisedM_def returnM_def)
next
  case False
  let ?t = "zone_path c (dz_zone z)"
  obtain v h1 where v: "coredns_validate c pg stops z h = (v, h1)" by (cases "coredns_validate c pg stops z h")
  have run: "coredns_apply c pg stops z h = (case v of Inl e \<Rightarrow> (Inl e, h1)
      | Inr _ \<Rightarrow> bindM (update_corefile c) (\<lambda>_. bindM (coredns_reload c pg) (\<lambda>_. returnM True)) (installed ?t (render_zone z) h1))"
    using False v by (simp add: coredns_apply_def bindM_run [of "raisedM _"] bindM_run [of "coredns_validate _ _ _ _"]
        raisedM_def atomic_write_run split: sum.split)
  obtain u h2 where u: "update_corefile c (installed ?t (render_zone z) h1) = (u, h2)"
    by (cases "update_corefile c (installed ?t (render_zone z) h1)")
  have "bindM (coredns_reload c pg) (\<lambda>_. returnM True) h2 = (Inr b, h')"
    using assms(1) unfolding run by (cases v; cases u) (simp_all add: bindM_run [of "update_corefile c"] u)
  then have "h_files h' = h_files h2" by (rule reload_answer)
  moreover have "dget (h_files h2) ?t = Some (render_zone z)"
    using update_corefile_frame [of ?t c "installed ?t (render_zone z) h1"] assms(3,4) u by simp
  ultimately show ?thesis using clean_no_return [OF assms(2)] by (simp add: read_text_def universal_newlines_id)
qed

lemma coredns_resolves:
  assumes "coredns_apply c pg stops z h = (Inr b, h')" "clean_zone z"
    and "cd_corefile c \<noteq> zone_path c (dz_zone z)" "cd_corefile c @ ''.tmp'' \<noteq> zone_path c (dz_zone z)"
  shows "coredns_resolve_check c (dz_zone z) name h' =
    Inr (resolve_check (fst (dns_apply z zones)) (dz_zone z) name)"
proof -
  have "dget (fst (dns_apply z zones)) (dz_zone z) = Some z" by (simp add: dns_apply_def idem_put_def)
  then show ?thesis
    by (simp add: coredns_resolve_check_def parse_zone_file_def coredns_in_place [OF assms] zone_roundtrip [OF assms(2)]
        resolve_check_def)
qed

end
