(* ===== verification/Backup.thy ===== *)
theory Backup
  imports Sql_Mappers Json Admin_Use_Cases Calendar Reconcile
begin

text \<open>
  Export and import of a bundle (\<open>core/use_cases/backup.py\<close>): a snapshot of networks, nodes,
  accounts, allocations and audit events as one JSON document, and its import over a controller that
  knows none of them. \<open>fromiso\<close> is \<open>datetime.fromisoformat\<close>, without a value where it raises. A JSON
  value of another type than its field has makes Python raise somewhere, here \<open>ValueError\<close>.
\<close>

record manifest =
  mf_schema_version :: int
  mf_created_at :: time
  mf_controller_version :: string

record bundle_doc =
  bd_manifest :: manifest
  bd_networks :: "network list"
  bd_nodes :: "node list"
  bd_accounts :: "service_account list"
  bd_allocations :: "ip_allocation list"
  bd_audit :: "audit_event list"

definition bundle_schema_version :: int where
  "bundle_schema_version = 1"

subsection \<open>Export\<close>

definition no_filter :: audit_filter where
  "no_filter = \<lparr>af_actor = None, af_action = None, af_resource_type = None, af_resource_id = None,
     af_since = None\<rparr>"

definition bundle_allocations :: "'ag world \<Rightarrow> ip_allocation list" where
  "bundle_allocations w = concat (List.map (\<lambda>n. case net_subnet n of None \<Rightarrow> []
      | Some sb \<Rightarrow> allocs_for_subnet (sub_id sb) (w_allocations w)) (dvalues (w_networks w)))"

definition export_bundle :: "env \<Rightarrow> string \<Rightarrow> ('ag, bundle_doc) admin_act" where
  "export_bundle env version =
     bindM (getM (\<lambda>s. dvalues (w_networks (fst s)))) (\<lambda>networks.
     bindM (getM (\<lambda>s. dvalues (w_nodes (fst s)))) (\<lambda>nodes.
     bindM (getM (\<lambda>s. dvalues (ad_accounts (snd s)))) (\<lambda>accounts.
     bindM (getM (\<lambda>s. bundle_allocations (fst s))) (\<lambda>allocations.
     bindM (getM (\<lambda>s. audit_list no_filter 10000 (snd s))) (\<lambda>audit.
     bindM (nowA env) (\<lambda>now.
     returnM \<lparr>bd_manifest = \<lparr>mf_schema_version = bundle_schema_version, mf_created_at = now,
                            mf_controller_version = version\<rparr>,
              bd_networks = networks, bd_nodes = nodes, bd_accounts = accounts,
              bd_allocations = allocations, bd_audit = audit\<rparr>))))))"

subsection \<open>Import\<close>

record import_summary =
  ims_networks :: nat
  ims_nodes :: nat
  ims_accounts :: nat
  ims_allocations :: nat
  ims_audit :: nat

text \<open>\<open>if await repo.get(x.id) is not None: raise ConflictError\<close>, then \<open>save\<close>.\<close>

definition import_one ::
  "(('ag world \<times> admin) \<Rightarrow> 'x option) \<Rightarrow> ('ag world \<times> admin \<Rightarrow> 'ag world \<times> admin) \<Rightarrow> ('ag, unit) admin_act" where
  "import_one found save =
     bindM (getM found) (\<lambda>r. bindM (guardM (r = None) err_conflict) (\<lambda>_. modifyM save))"

definition import_account :: "service_account \<Rightarrow> ('ag, unit) admin_act" where
  "import_account x = import_one (\<lambda>s. dget (ad_accounts (snd s)) (sa_id x)) (\<lambda>s. (fst s, account_save x (snd s)))"

definition import_node :: "node \<Rightarrow> ('ag, unit) admin_act" where
  "import_node x = import_one (\<lambda>s. dget (w_nodes (fst s)) (nd_id x))
     (\<lambda>s. ((fst s)\<lparr>w_nodes := node_save x (w_nodes (fst s))\<rparr>, snd s))"

definition import_network :: "network \<Rightarrow> ('ag, unit) admin_act" where
  "import_network x = import_one (\<lambda>s. dget (w_networks (fst s)) (net_id x))
     (\<lambda>s. ((fst s)\<lparr>w_networks := network_save x (w_networks (fst s))\<rparr>, snd s))"

definition import_allocation :: "ip_allocation \<Rightarrow> ('ag, unit) admin_act" where
  "import_allocation x = import_one (\<lambda>s. dget (w_allocations (fst s)) (ipa_id x))
     (\<lambda>s. ((fst s)\<lparr>w_allocations := alloc_save x (w_allocations (fst s))\<rparr>, snd s))"

definition import_audit :: "audit_event \<Rightarrow> ('ag, unit) admin_act" where
  "import_audit e = modifyM (\<lambda>s. (fst s, audit_save e (snd s)))"

definition import_bundle :: "bundle_doc \<Rightarrow> ('ag, import_summary) admin_act" where
  "import_bundle b =
     bindM (guardM (mf_schema_version (bd_manifest b) = bundle_schema_version) err_validation) (\<lambda>_.
     bindM (forM (bd_accounts b) import_account) (\<lambda>_.
     bindM (forM (bd_nodes b) import_node) (\<lambda>_.
     bindM (forM (bd_networks b) import_network) (\<lambda>_.
     bindM (forM (bd_allocations b) import_allocation) (\<lambda>_.
     bindM (forM (bd_audit b) import_audit) (\<lambda>_.
     returnM \<lparr>ims_networks = length (bd_networks b), ims_nodes = length (bd_nodes b),
              ims_accounts = length (bd_accounts b), ims_allocations = length (bd_allocations b),
              ims_audit = length (bd_audit b)\<rparr>))))))"

subsection \<open>To JSON\<close>

definition json_or_null :: "json option \<Rightarrow> json" where
  "json_or_null v = (case v of None \<Rightarrow> JNull | Some j \<Rightarrow> j)"

definition jtime :: "time \<Rightarrow> json" where
  "jtime t = JStr (isoformat t)"

definition manifest_to_dict :: "manifest \<Rightarrow> json" where
  "manifest_to_dict m = JObj
     [(''schema_version'', JInt (mf_schema_version m)), (''created_at'', jtime (mf_created_at m)),
      (''controller_version'', JStr (mf_controller_version m))]"

definition account_to_dict :: "service_account \<Rightarrow> json" where
  "account_to_dict a = JObj
     [(''id'', JStr (sa_id a)), (''name'', JStr (sa_name a)), (''role'', JStr (role_value (sa_role a))),
      (''created_at'', jtime (sa_created_at a)), (''updated_at'', jtime (sa_updated_at a)),
      (''created_by'', jopt JStr (sa_created_by a)), (''description'', jopt JStr (sa_description a)),
      (''disabled_at'', jopt jtime (sa_disabled_at a)), (''labels'', jsdict (sa_labels a))]"

text \<open>\<open>_capabilities_to_dict\<close>, \<open>_dhcp_to_dict\<close>, \<open>_nat_to_dict\<close> and \<open>_firewall_to_dict\<close> build the objects the
  SQL mappers store; \<open>None\<close> is null here.\<close>

definition node_to_dict :: "node \<Rightarrow> json" where
  "node_to_dict n = JObj
     [(''id'', JStr (nd_id n)), (''name'', JStr (nd_name n)), (''mgmt_ip'', JStr (nd_mgmt_ip n)),
      (''status'', JStr (node_status_value (nd_status n))), (''roles'', jtexts (nd_roles n)),
      (''labels'', jsdict (nd_labels n)), (''agent_version'', jopt JStr (nd_agent_version n)),
      (''last_seen_at'', jopt jtime (nd_last_seen_at n)),
      (''capabilities'', json_or_null (capabilities_to_json (nd_capabilities n))),
      (''tls_thumbprint'', jopt JStr (nd_tls_thumbprint n)), (''created_at'', jtime (nd_created_at n)),
      (''updated_at'', jtime (nd_updated_at n))]"

definition subnet_to_dict :: "subnet \<Rightarrow> json" where
  "subnet_to_dict s = JObj
     [(''id'', JStr (sub_id s)), (''cidr'', JStr (sub_cidr s)), (''gateway'', jopt JStr (sub_gateway s)),
      (''dns_servers'', jtexts (sub_dns_servers s)),
      (''allocation_pools'', JList (List.map range_to_json (sub_pools s))),
      (''reserved_ranges'', JList (List.map range_to_json (sub_reserved s))),
      (''dhcp'', json_or_null (dhcp_to_json (sub_dhcp s))), (''dns_zone'', jopt JStr (sub_dns_zone s))]"

definition network_to_dict :: "network \<Rightarrow> json" where
  "network_to_dict n = JObj
     [(''id'', JStr (net_id n)), (''name'', JStr (net_name n)),
      (''type'', JStr (network_type_value (net_type n))), (''created_at'', jtime (net_created_at n)),
      (''updated_at'', jtime (net_updated_at n)), (''mtu'', JInt (net_mtu n)),
      (''vlan_id'', jopt JInt (net_vlan_id n)), (''vni'', jopt JInt (net_vni n)),
      (''subnet'', jopt subnet_to_dict (net_subnet n)), (''labels'', jsdict (net_labels n)),
      (''intent_version'', JInt (net_intent_version n)), (''node_ids'', jtexts (net_node_ids n)),
      (''nat'', json_or_null (nat_to_json (net_nat n))),
      (''firewall_policy'', json_or_null (firewall_to_json (net_firewall n))),
      (''spec_hash'', JStr (net_spec_hash n)), (''project_id'', jopt JStr (net_project_id n))]"

definition allocation_to_dict :: "ip_allocation \<Rightarrow> json" where
  "allocation_to_dict a = JObj
     [(''id'', JStr (ipa_id a)), (''subnet_id'', JStr (ipa_subnet_id a)),
      (''ip_address'', JStr (ipa_address a)),
      (''owner'', JObj [(''type'', JStr (own_type (ipa_owner a))), (''id'', JStr (own_id (ipa_owner a)))]),
      (''kind'', JStr (alloc_kind_value (ipa_kind a))), (''allocated_at'', jtime (ipa_allocated_at a)),
      (''label'', jopt JStr (ipa_label a))]"

definition audit_to_dict :: "audit_event \<Rightarrow> json" where
  "audit_to_dict e = JObj
     [(''id'', JStr (aud_id e)), (''at'', jtime (aud_at e)), (''action'', JStr (aud_action e)),
      (''resource_type'', JStr (aud_resource_type e)), (''resource_id'', jopt JStr (aud_resource_id e)),
      (''actor'', jopt JStr (aud_actor e)), (''http_status'', jopt JInt (aud_http_status e)),
      (''request_id'', jopt JStr (aud_request_id e)), (''payload'', JObj (aud_payload e))]"

definition bundle_to_dict :: "bundle_doc \<Rightarrow> json" where
  "bundle_to_dict b = JObj
     [(''manifest'', manifest_to_dict (bd_manifest b)),
      (''service_accounts'', JList (List.map account_to_dict (bd_accounts b))),
      (''nodes'', JList (List.map node_to_dict (bd_nodes b))),
      (''networks'', JList (List.map network_to_dict (bd_networks b))),
      (''ip_allocations'', JList (List.map allocation_to_dict (bd_allocations b))),
      (''audit_events'', JList (List.map audit_to_dict (bd_audit b)))]"

subsection \<open>From JSON\<close>

text \<open>\<open>str(d[key])\<close>, \<open>str(d.get(key, ""))\<close>, \<open>d.get(key)\<close> turned into an optional text or time, and \<open>int\<close>.\<close>

definition key_at :: "string \<Rightarrow> json \<Rightarrow> exc + json" where
  "key_at k j = of_option (PyError PyKeyError) (jfield k j)"

definition str_at :: "string \<Rightarrow> json \<Rightarrow> exc + string" where
  "str_at k j = bindE (key_at k j) (\<lambda>v. Inr (json_str v))"

definition str_get :: "string \<Rightarrow> json \<Rightarrow> string" where
  "str_get k j = (case jfield k j of None \<Rightarrow> [] | Some v \<Rightarrow> json_str v)"

definition int_get :: "string \<Rightarrow> int \<Rightarrow> json \<Rightarrow> exc + int" where
  "int_get k d j = (case jfield k j of None \<Rightarrow> Inr d | Some v \<Rightarrow> shape (as_int v))"

definition given :: "string \<Rightarrow> json \<Rightarrow> json option" where
  "given k j = (case jfield k j of None \<Rightarrow> None | Some v \<Rightarrow> if v = JNull then None else Some v)"

definition time_of :: "(string \<Rightarrow> time option) \<Rightarrow> json \<Rightarrow> exc + time" where
  "time_of fromiso v = of_option (PyError PyValueError) (fromiso (json_str v))"

definition time_at :: "(string \<Rightarrow> time option) \<Rightarrow> string \<Rightarrow> json \<Rightarrow> exc + time" where
  "time_at fromiso k j = bindE (key_at k j) (time_of fromiso)"

definition labels_get :: "string \<Rightarrow> json \<Rightarrow> exc + (string, string) dict" where
  "labels_get k j = shape (sdict_or_empty k j)"

text \<open>The readers that answer \<open>None\<close> for anything but an object.\<close>

definition object_at :: "string \<Rightarrow> json \<Rightarrow> json option" where
  "object_at k j = (case jfield k j of Some (JObj kvs) \<Rightarrow> Some (JObj kvs) | _ \<Rightarrow> None)"

text \<open>\<open>except (KeyError, ValueError, TypeError)\<close>: whatever reading a manifest raises.\<close>

definition manifest_from_dict :: "(string \<Rightarrow> time option) \<Rightarrow> json \<Rightarrow> exc + manifest" where
  "manifest_from_dict fromiso j =
     (case bindE (key_at ''schema_version'' j) (\<lambda>v. bindE (shape (as_int v)) (\<lambda>sv.
           bindE (time_at fromiso ''created_at'' j) (\<lambda>at.
           bindE (str_at ''controller_version'' j) (\<lambda>cv.
           Inr \<lparr>mf_schema_version = sv, mf_created_at = at, mf_controller_version = cv\<rparr>)))) of
        Inl _ \<Rightarrow> Inl err_validation
      | Inr m \<Rightarrow> Inr m)"

definition account_from_dict :: "(string \<Rightarrow> time option) \<Rightarrow> json \<Rightarrow> exc + service_account" where
  "account_from_dict fromiso d =
     bindE (str_at ''id'' d) (\<lambda>i.
     bindE (str_at ''name'' d) (\<lambda>name.
     bindE (bindE (text_key ''role'' d) role_of) (\<lambda>role.
     bindE (time_at fromiso ''created_at'' d) (\<lambda>created.
     bindE (time_at fromiso ''updated_at'' d) (\<lambda>updated.
     bindE (opt_text ''created_by'' d) (\<lambda>who.
     bindE (opt_text ''description'' d) (\<lambda>description.
     bindE (on_opt (time_of fromiso) (given ''disabled_at'' d)) (\<lambda>disabled.
     bindE (labels_get ''labels'' d) (\<lambda>labels.
     mk_service_account \<lparr>sa_id = i, sa_name = name, sa_role = role, sa_created_at = created,
       sa_updated_at = updated, sa_created_by = who, sa_description = description,
       sa_disabled_at = disabled, sa_labels = labels\<rparr>)))))))))"

definition node_from_dict :: "(string \<Rightarrow> time option) \<Rightarrow> json \<Rightarrow> exc + node" where
  "node_from_dict fromiso d =
     bindE (str_at ''id'' d) (\<lambda>i.
     bindE (str_at ''name'' d) (\<lambda>name.
     bindE (str_at ''mgmt_ip'' d) (\<lambda>ip.
     bindE (bindE (text_key ''status'' d) node_status_of) (\<lambda>status.
     bindE (texts ''roles'' d) (\<lambda>roles.
     bindE (labels_get ''labels'' d) (\<lambda>labels.
     bindE (opt_text ''agent_version'' d) (\<lambda>agent.
     bindE (on_opt (time_of fromiso) (given ''last_seen_at'' d)) (\<lambda>seen.
     bindE (capabilities_from_json (object_at ''capabilities'' d)) (\<lambda>caps.
     bindE (opt_text ''tls_thumbprint'' d) (\<lambda>tp.
     bindE (time_at fromiso ''created_at'' d) (\<lambda>created.
     bindE (time_at fromiso ''updated_at'' d) (\<lambda>updated.
     mk_node \<lparr>nd_id = i, nd_name = name, nd_mgmt_ip = ip, nd_created_at = created,
       nd_updated_at = updated, nd_status = status, nd_roles = roles, nd_labels = labels,
       nd_agent_version = agent, nd_last_seen_at = seen, nd_capabilities = caps,
       nd_tls_thumbprint = tp, nd_project_id = None, nd_maintenance = False,
       nd_maintenance_at = None\<rparr>))))))))))))"

definition range_from_dict :: "json \<Rightarrow> exc + ip_range" where
  "range_from_dict j = bindE (str_at ''start'' j) (\<lambda>s. bindE (str_at ''end'' j) (\<lambda>e. mk_ip_range s e))"

definition ranges_from_dict :: "string \<Rightarrow> json \<Rightarrow> exc + ip_range list" where
  "ranges_from_dict k d = bindE (shape (list_or_empty k d)) (traverse range_from_dict)"

definition dhcp_from_dict :: "json option \<Rightarrow> exc + dhcp_spec option" where
  "dhcp_from_dict = on_opt (\<lambda>j.
     bindE (str_at ''range_start'' j) (\<lambda>s.
     bindE (str_at ''range_end'' j) (\<lambda>e.
     bindE (int_get ''lease_time_seconds'' 3600 j) (\<lambda>l.
     bindE (opt_text ''domain_name'' j) (\<lambda>dn.
     let d = \<lparr>dhcp_range_start = s, dhcp_range_end = e, dhcp_lease_time = l, dhcp_domain_name = dn\<rparr>
     in bindE (dhcp_spec_check d) (\<lambda>_. Inr d))))))"

definition subnet_from_dict :: "json \<Rightarrow> exc + subnet" where
  "subnet_from_dict d =
     bindE (str_at ''id'' d) (\<lambda>i.
     bindE (str_at ''cidr'' d) (\<lambda>cidr.
     bindE (opt_text ''gateway'' d) (\<lambda>gw.
     bindE (texts ''dns_servers'' d) (\<lambda>dns.
     bindE (ranges_from_dict ''allocation_pools'' d) (\<lambda>pools.
     bindE (ranges_from_dict ''reserved_ranges'' d) (\<lambda>reserved.
     bindE (dhcp_from_dict (object_at ''dhcp'' d)) (\<lambda>dhcp.
     bindE (opt_text ''dns_zone'' d) (\<lambda>zone.
     mk_subnet \<lparr>sub_id = i, sub_cidr = cidr, sub_gateway = gw, sub_dns_servers = dns, sub_pools = pools,
       sub_reserved = reserved, sub_dhcp = dhcp, sub_dns_zone = zone\<rparr>))))))))"

definition nat_from_dict :: "json option \<Rightarrow> exc + nat_spec option" where
  "nat_from_dict = on_opt (\<lambda>j.
     bindE (str_at ''egress_interface'' j) (\<lambda>e.
     bindE (nat_spec_check \<lparr>nat_egress = e\<rparr>) (\<lambda>_. Inr \<lparr>nat_egress = e\<rparr>)))"

definition network_from_dict :: "(string \<Rightarrow> time option) \<Rightarrow> (json \<Rightarrow> string) \<Rightarrow> json \<Rightarrow> exc + network" where
  "network_from_dict fromiso digest d =
     bindE (str_at ''id'' d) (\<lambda>i.
     bindE (str_at ''name'' d) (\<lambda>name.
     bindE (bindE (text_key ''type'' d) network_type_of) (\<lambda>ty.
     bindE (time_at fromiso ''created_at'' d) (\<lambda>created.
     bindE (time_at fromiso ''updated_at'' d) (\<lambda>updated.
     bindE (int_get ''mtu'' 1500 d) (\<lambda>mtu.
     bindE (shape (opt_int_field ''vlan_id'' d)) (\<lambda>vlan.
     bindE (shape (opt_int_field ''vni'' d)) (\<lambda>vni.
     bindE (on_opt subnet_from_dict (given ''subnet'' d)) (\<lambda>subnet.
     bindE (int_get ''intent_version'' 1 d) (\<lambda>version.
     bindE (labels_get ''labels'' d) (\<lambda>labels.
     bindE (texts ''node_ids'' d) (\<lambda>members.
     bindE (nat_from_dict (object_at ''nat'' d)) (\<lambda>nt.
     bindE (firewall_from_json (object_at ''firewall_policy'' d)) (\<lambda>fw.
     mk_network digest \<lparr>net_id = i, net_name = name, net_type = ty, net_created_at = created,
       net_updated_at = updated, net_mtu = mtu, net_vlan_id = vlan, net_vni = vni, net_subnet = subnet,
       net_intent_version = version, net_labels = labels, net_node_ids = members, net_nat = nt,
       net_firewall = fw, net_spec_hash = str_get ''spec_hash'' d,
       net_project_id = map_option json_str (given ''project_id'' d)\<rparr>))))))))))))))"

definition allocation_from_dict :: "(string \<Rightarrow> time option) \<Rightarrow> json \<Rightarrow> exc + ip_allocation" where
  "allocation_from_dict fromiso d =
     (let owner = (case object_at ''owner'' d of None \<Rightarrow> JObj [] | Some o' \<Rightarrow> o') in
     bindE (str_at ''id'' d) (\<lambda>i.
     bindE (str_at ''subnet_id'' d) (\<lambda>sid.
     bindE (str_at ''ip_address'' d) (\<lambda>ip.
     bindE (str_at ''type'' owner) (\<lambda>oty.
     bindE (str_at ''id'' owner) (\<lambda>oid.
     bindE (bindE (text_default ''kind'' ''dynamic'' d) alloc_kind_of) (\<lambda>kind.
     bindE (time_at fromiso ''allocated_at'' d) (\<lambda>at.
     bindE (opt_text ''label'' d) (\<lambda>label.
     let a = \<lparr>ipa_id = i, ipa_subnet_id = sid, ipa_address = ip,
              ipa_owner = \<lparr>own_type = oty, own_id = oid\<rparr>, ipa_kind = kind, ipa_allocated_at = at,
              ipa_label = label\<rparr>
     in bindE (ip_allocation_check a) (\<lambda>_. Inr a))))))))))"

definition payload_get :: "string \<Rightarrow> json \<Rightarrow> exc + payload" where
  "payload_get k j = (case given k j of None \<Rightarrow> Inr [] | Some (JObj kvs) \<Rightarrow> Inr kvs
     | Some _ \<Rightarrow> Inl (PyError PyValueError))"

definition audit_from_dict :: "(string \<Rightarrow> time option) \<Rightarrow> json \<Rightarrow> exc + audit_event" where
  "audit_from_dict fromiso d =
     bindE (str_at ''id'' d) (\<lambda>i.
     bindE (time_at fromiso ''at'' d) (\<lambda>at.
     bindE (str_at ''action'' d) (\<lambda>action.
     bindE (str_at ''resource_type'' d) (\<lambda>rt.
     bindE (opt_text ''resource_id'' d) (\<lambda>rid.
     bindE (opt_text ''actor'' d) (\<lambda>actor.
     bindE (shape (opt_int_field ''http_status'' d)) (\<lambda>http.
     bindE (opt_text ''request_id'' d) (\<lambda>req.
     bindE (payload_get ''payload'' d) (\<lambda>payload.
     mk_audit_event \<lparr>aud_id = i, aud_at = at, aud_action = action, aud_resource_type = rt,
       aud_resource_id = rid, aud_actor = actor, aud_http_status = http, aud_request_id = req,
       aud_payload = payload\<rparr>)))))))))"

definition list_get :: "(json \<Rightarrow> exc + 'a) \<Rightarrow> string \<Rightarrow> json \<Rightarrow> exc + 'a list" where
  "list_get f k j = (case jfield k j of None \<Rightarrow> Inr [] | Some v \<Rightarrow> bindE (shape (as_list v)) (traverse f))"

definition bundle_from_dict :: "(string \<Rightarrow> time option) \<Rightarrow> (json \<Rightarrow> string) \<Rightarrow> json \<Rightarrow> exc + bundle_doc" where
  "bundle_from_dict fromiso digest raw =
     bindE (of_option err_validation (object_at ''manifest'' raw)) (\<lambda>manifest_raw.
     bindE (manifest_from_dict fromiso manifest_raw) (\<lambda>m.
     bindE (list_get (account_from_dict fromiso) ''service_accounts'' raw) (\<lambda>accounts.
     bindE (list_get (node_from_dict fromiso) ''nodes'' raw) (\<lambda>nodes.
     bindE (list_get (network_from_dict fromiso digest) ''networks'' raw) (\<lambda>networks.
     bindE (list_get (allocation_from_dict fromiso) ''ip_allocations'' raw) (\<lambda>allocations.
     bindE (list_get (audit_from_dict fromiso) ''audit_events'' raw) (\<lambda>audit.
     Inr \<lparr>bd_manifest = m, bd_networks = networks, bd_nodes = nodes, bd_accounts = accounts,
          bd_allocations = allocations, bd_audit = audit\<rparr>)))))))"

text \<open>
  A bundle is read back as it was written, but for the project and the maintenance state of a node,
  and an exported controller can be rebuilt from it in an empty one. The one thing asked of
  \<open>datetime.fromisoformat\<close> is that it reads the times of the bundle as \<open>isoformat\<close> wrote them.
\<close>

definition iso_ok :: "(string \<Rightarrow> time option) \<Rightarrow> time list \<Rightarrow> bool" where
  "iso_ok fromiso ts \<longleftrightarrow> (\<forall>t \<in> set ts. fromiso (isoformat t) = Some t)"

lemma json_str_JStr [simp]: "json_str (JStr s) = s"
  by (simp add: json_str_def)

lemma str_at_JStr [simp]: "jfield k j = Some (JStr s) \<Longrightarrow> str_at k j = Inr s"
  by (simp add: str_at_def key_at_def)

lemma time_at_jtime [simp]:
  "jfield k j = Some (jtime t) \<Longrightarrow> fromiso (isoformat t) = Some t \<Longrightarrow> time_at fromiso k j = Inr t"
  by (simp add: time_at_def key_at_def time_of_def jtime_def)

lemma int_get_JInt [simp]: "jfield k j = Some (JInt i) \<Longrightarrow> int_get k d j = Inr i"
  by (simp add: int_get_def)

lemma labels_get_jsdict [simp]: "jfield k j = Some (jsdict d) \<Longrightarrow> labels_get k j = Inr d"
  by (simp add: labels_get_def)

lemma opt_int_jopt [simp]: "jfield k j = Some (jopt JInt t) \<Longrightarrow> shape (opt_int_field k j) = Inr t"
  by simp

lemma given_time [simp]:
  assumes "jfield k j = Some (jopt jtime v)" "\<forall>t \<in> set_option v. fromiso (isoformat t) = Some t"
  shows "on_opt (time_of fromiso) (given k j) = Inr v"
  using assms by (cases v) (simp_all add: given_def jtime_def time_of_def)

lemma given_text [simp]: "jfield k j = Some (jopt JStr v) \<Longrightarrow> map_option json_str (given k j) = v"
  by (cases v) (simp_all add: given_def)

lemma object_at_null [simp]:
  "jfield k j = Some (json_or_null v) \<Longrightarrow> (\<And>x. v = Some x \<Longrightarrow> \<exists>kvs. x = JObj kvs) \<Longrightarrow> object_at k j = v"
  by (cases v) (auto simp: object_at_def json_or_null_def)

lemma objects [simp]:
  "capabilities_to_json c = Some x \<Longrightarrow> \<exists>kvs. x = JObj kvs"
  "dhcp_to_json d = Some x \<Longrightarrow> \<exists>kvs. x = JObj kvs"
  "nat_to_json n = Some x \<Longrightarrow> \<exists>kvs. x = JObj kvs"
  "firewall_to_json f = Some x \<Longrightarrow> \<exists>kvs. x = JObj kvs"
  by (auto simp: capabilities_to_json_def dhcp_to_json_def nat_to_json_def firewall_to_json_def)

lemma service_account_eta [eta_simps]:
  "\<lparr>sa_id = sa_id e, sa_name = sa_name e, sa_role = sa_role e, sa_created_at = sa_created_at e,
    sa_updated_at = sa_updated_at e, sa_created_by = sa_created_by e, sa_description = sa_description e,
    sa_disabled_at = sa_disabled_at e, sa_labels = sa_labels e\<rparr> = e"
  by simp

lemma ip_allocation_eta [eta_simps]:
  "\<lparr>ipa_id = ipa_id e, ipa_subnet_id = ipa_subnet_id e, ipa_address = ipa_address e,
    ipa_owner = ipa_owner e, ipa_kind = ipa_kind e, ipa_allocated_at = ipa_allocated_at e,
    ipa_label = ipa_label e\<rparr> = e"
  by simp

lemma audit_event_eta [eta_simps]:
  "\<lparr>aud_id = aud_id e, aud_at = aud_at e, aud_action = aud_action e,
    aud_resource_type = aud_resource_type e, aud_resource_id = aud_resource_id e,
    aud_actor = aud_actor e, aud_http_status = aud_http_status e, aud_request_id = aud_request_id e,
    aud_payload = aud_payload e\<rparr> = e"
  by simp

lemma manifest_eta [eta_simps]:
  "\<lparr>mf_schema_version = mf_schema_version m, mf_created_at = mf_created_at m,
    mf_controller_version = mf_controller_version m\<rparr> = m"
  by simp

subsection \<open>Each aggregate\<close>

lemma manifest_dict_roundtrip:
  "iso_ok fromiso [mf_created_at m] \<Longrightarrow> manifest_from_dict fromiso (manifest_to_dict m) = Inr m"
  by (simp add: manifest_from_dict_def manifest_to_dict_def key_at_def iso_ok_def eta_simps)

definition account_times :: "service_account \<Rightarrow> time list" where
  "account_times a = [sa_created_at a, sa_updated_at a] @ (case sa_disabled_at a of None \<Rightarrow> [] | Some t \<Rightarrow> [t])"

lemma account_dict_roundtrip:
  assumes "iso_ok fromiso (account_times a)" "mk_service_account a = Inr a"
  shows "account_from_dict fromiso (account_to_dict a) = Inr a"
proof -
  have "\<forall>t \<in> set_option (sa_disabled_at a). fromiso (isoformat t) = Some t"
    using assms(1) by (cases "sa_disabled_at a") (auto simp: iso_ok_def account_times_def)
  then show ?thesis using assms
    by (simp add: account_from_dict_def account_to_dict_def iso_ok_def account_times_def enum_simps eta_simps)
qed

definition node_times :: "node \<Rightarrow> time list" where
  "node_times n = [nd_created_at n, nd_updated_at n] @ (case nd_last_seen_at n of None \<Rightarrow> [] | Some t \<Rightarrow> [t])"

text \<open>What a bundle keeps of a node: everything but its project and its maintenance state.\<close>

definition bundled_node :: "node \<Rightarrow> node" where
  "bundled_node n = n\<lparr>nd_project_id := None, nd_maintenance := False, nd_maintenance_at := None\<rparr>"

lemma node_dict_roundtrip:
  assumes "iso_ok fromiso (node_times n)" "mk_node n = Inr n"
  shows "node_from_dict fromiso (node_to_dict n) = Inr (bundled_node n)"
proof -
  have "\<forall>t \<in> set_option (nd_last_seen_at n). fromiso (isoformat t) = Some t"
    using assms(1) by (cases "nd_last_seen_at n") (auto simp: iso_ok_def node_times_def)
  moreover have "mk_node (bundled_node n) = Inr (bundled_node n)"
    using assms(2) by (cases n) (auto simp: mk_node_def bundled_node_def bindE_Inr_iff)
  ultimately show ?thesis using assms
    by (cases n) (simp add: node_from_dict_def node_to_dict_def iso_ok_def node_times_def enum_simps
        bundled_node_def)
qed

lemma range_dict_roundtrip: "ip_range_check r = Inr () \<Longrightarrow> range_from_dict (range_to_json r) = Inr r"
  by (simp add: range_from_dict_def range_to_json_def mk_ip_range_def Let_def eta_simps)

lemma ranges_dict_roundtrip:
  "jfield k j = Some (JList (List.map range_to_json rs)) \<Longrightarrow> (\<forall>r \<in> set rs. ip_range_check r = Inr ()) \<Longrightarrow>
   ranges_from_dict k j = Inr rs"
  by (simp add: ranges_from_dict_def list_or_empty_def traverse_roundtrip range_dict_roundtrip)

lemma dhcp_dict_roundtrip:
  "(\<forall>d \<in> set_option v. dhcp_spec_check d = Inr ()) \<Longrightarrow> dhcp_from_dict (dhcp_to_json v) = Inr v"
  unfolding dhcp_from_dict_def dhcp_to_json_def by (rule on_opt_roundtrip) (simp add: Let_def eta_simps)

lemma nat_dict_roundtrip:
  "(\<forall>d \<in> set_option v. nat_spec_check d = Inr ()) \<Longrightarrow> nat_from_dict (nat_to_json v) = Inr v"
  unfolding nat_from_dict_def nat_to_json_def by (rule on_opt_roundtrip) (simp add: eta_simps)

lemma subnet_dict_roundtrip: "subnet_parts_ok s \<Longrightarrow> subnet_from_dict (subnet_to_dict s) = Inr s"
  by (simp add: subnet_from_dict_def subnet_to_dict_def subnet_parts_ok_def ranges_dict_roundtrip
      dhcp_dict_roundtrip eta_simps)

lemma given_subnet:
  assumes "jfield k j = Some (jopt subnet_to_dict v)" "\<forall>s \<in> set_option v. subnet_parts_ok s"
  shows "on_opt subnet_from_dict (given k j) = Inr v"
  using assms by (cases v) (simp_all add: given_def subnet_dict_roundtrip, simp add: subnet_to_dict_def)

lemma network_dict_roundtrip:
  assumes "iso_ok fromiso [net_created_at n, net_updated_at n]" "storable_network digest n"
  shows "network_from_dict fromiso digest (network_to_dict n) = Inr n"
proof -
  have fw: "firewall_from_json (firewall_to_json (net_firewall n)) = Inr (net_firewall n)"
    using assms(2) by (intro firewall_roundtrip) (simp add: storable_network_def)
  show ?thesis using assms
    by (simp add: network_from_dict_def network_to_dict_def iso_ok_def storable_network_def enum_simps
        eta_simps nat_dict_roundtrip fw given_subnet str_get_def)
qed

lemma allocation_dict_roundtrip:
  assumes "iso_ok fromiso [ipa_allocated_at a]" "ip_allocation_check a = Inr ()"
  shows "allocation_from_dict fromiso (allocation_to_dict a) = Inr a"
  using assms by (simp add: allocation_from_dict_def allocation_to_dict_def iso_ok_def enum_simps eta_simps
      object_at_def Let_def)

lemma audit_dict_roundtrip:
  assumes "iso_ok fromiso [aud_at e]" "mk_audit_event e = Inr e"
  shows "audit_from_dict fromiso (audit_to_dict e) = Inr e"
  using assms by (simp add: audit_from_dict_def audit_to_dict_def iso_ok_def eta_simps payload_get_def given_def)

subsection \<open>The bundle\<close>

definition bundle_times :: "bundle_doc \<Rightarrow> time list" where
  "bundle_times b = mf_created_at (bd_manifest b) # concat (List.map account_times (bd_accounts b))
     @ concat (List.map node_times (bd_nodes b))
     @ concat (List.map (\<lambda>n. [net_created_at n, net_updated_at n]) (bd_networks b))
     @ List.map ipa_allocated_at (bd_allocations b) @ List.map aud_at (bd_audit b)"

definition bundle_ok :: "(json \<Rightarrow> string) \<Rightarrow> bundle_doc \<Rightarrow> bool" where
  "bundle_ok digest b \<longleftrightarrow>
     (\<forall>a \<in> set (bd_accounts b). mk_service_account a = Inr a) \<and> (\<forall>n \<in> set (bd_nodes b). mk_node n = Inr n) \<and>
     (\<forall>n \<in> set (bd_networks b). storable_network digest n) \<and>
     (\<forall>a \<in> set (bd_allocations b). ip_allocation_check a = Inr ()) \<and>
     (\<forall>e \<in> set (bd_audit b). mk_audit_event e = Inr e)"

lemma bundle_roundtrip:
  assumes "iso_ok fromiso (bundle_times b)" "bundle_ok digest b"
  shows "bundle_from_dict fromiso digest (bundle_to_dict b) =
    Inr (b\<lparr>bd_nodes := List.map bundled_node (bd_nodes b)\<rparr>)"
proof -
  have m: "manifest_from_dict fromiso (manifest_to_dict (bd_manifest b)) = Inr (bd_manifest b)"
    using assms(1) by (intro manifest_dict_roundtrip) (simp add: iso_ok_def bundle_times_def)
  have a: "traverse (account_from_dict fromiso) (List.map account_to_dict (bd_accounts b)) = Inr (bd_accounts b)"
    using assms by (intro traverse_roundtrip account_dict_roundtrip)
      (auto simp: iso_ok_def bundle_times_def bundle_ok_def)
  have nd: "traverse (node_from_dict fromiso) (List.map node_to_dict (bd_nodes b)) =
      Inr (List.map bundled_node (bd_nodes b))"
    using assms by (intro traverse_map node_dict_roundtrip)
      (auto simp: iso_ok_def bundle_times_def bundle_ok_def)
  have nw: "traverse (network_from_dict fromiso digest) (List.map network_to_dict (bd_networks b)) =
      Inr (bd_networks b)"
    using assms by (intro traverse_roundtrip network_dict_roundtrip)
      (auto simp: iso_ok_def bundle_times_def bundle_ok_def)
  have al: "traverse (allocation_from_dict fromiso) (List.map allocation_to_dict (bd_allocations b)) =
      Inr (bd_allocations b)"
    using assms by (intro traverse_roundtrip allocation_dict_roundtrip)
      (auto simp: iso_ok_def bundle_times_def bundle_ok_def)
  have au: "traverse (audit_from_dict fromiso) (List.map audit_to_dict (bd_audit b)) = Inr (bd_audit b)"
    using assms by (intro traverse_roundtrip audit_dict_roundtrip)
      (auto simp: iso_ok_def bundle_times_def bundle_ok_def)
  have obj: "object_at ''manifest'' (bundle_to_dict b) = Some (manifest_to_dict (bd_manifest b))"
    by (simp add: object_at_def bundle_to_dict_def manifest_to_dict_def)
  show ?thesis unfolding bundle_from_dict_def obj
    by (simp add: m list_get_def) (simp add: bundle_to_dict_def a nd nw al au)
qed

subsection \<open>Restoring an exported controller\<close>

definition keyed :: "('v \<Rightarrow> string) \<Rightarrow> (string, 'v) dict \<Rightarrow> bool" where
  "keyed key d \<longleftrightarrow> dwf d \<and> (\<forall>(k, v) \<in> set d. key v = k)"

lemma keyed_list: "keyed key d \<Longrightarrow> List.map (\<lambda>v. (key v, v)) (dvalues d) = d"
  by (induction d) (auto simp: keyed_def)

lemma keyed_keys: "keyed key d \<Longrightarrow> List.map key (dvalues d) = dkeys d"
  by (induction d) (auto simp: keyed_def)

lemma import_one_run:
  "import_one found save s = (if found s = None then (Inr (), save s) else (Inl err_conflict, s))"
  by (simp add: import_one_def bindM_guard)

lemma import_accounts:
  "distinct (dkeys (ad_accounts (snd s)) @ List.map sa_id xs) \<Longrightarrow>
   forM xs import_account s =
     (Inr (), fst s, (snd s)\<lparr>ad_accounts := ad_accounts (snd s) @ List.map (\<lambda>x. (sa_id x, x)) xs\<rparr>)"
proof (induction xs arbitrary: s)
  case (Cons x xs)
  then have "sa_id x \<notin> set (dkeys (ad_accounts (snd s)))" by auto
  then have run: "import_account x s =
      (Inr (), fst s, (snd s)\<lparr>ad_accounts := ad_accounts (snd s) @ [(sa_id x, x)]\<rparr>)"
    by (simp add: import_account_def import_one_run map_of_eq_None_iff account_save_def dset_fresh)
  show ?case using Cons by (simp add: bindM_run run)
qed simp

lemma import_nodes:
  "distinct (dkeys (w_nodes (fst s)) @ List.map nd_id xs) \<Longrightarrow>
   forM xs import_node s =
     (Inr (), (fst s)\<lparr>w_nodes := w_nodes (fst s) @ List.map (\<lambda>x. (nd_id x, x)) xs\<rparr>, snd s)"
proof (induction xs arbitrary: s)
  case (Cons x xs)
  then have "nd_id x \<notin> set (dkeys (w_nodes (fst s)))" by auto
  then have run: "import_node x s =
      (Inr (), (fst s)\<lparr>w_nodes := w_nodes (fst s) @ [(nd_id x, x)]\<rparr>, snd s)"
    by (simp add: import_node_def import_one_run map_of_eq_None_iff node_save_def dset_fresh)
  show ?case using Cons by (simp add: bindM_run run)
qed simp

lemma import_networks:
  "distinct (dkeys (w_networks (fst s)) @ List.map net_id xs) \<Longrightarrow>
   forM xs import_network s =
     (Inr (), (fst s)\<lparr>w_networks := w_networks (fst s) @ List.map (\<lambda>x. (net_id x, x)) xs\<rparr>, snd s)"
proof (induction xs arbitrary: s)
  case (Cons x xs)
  then have "net_id x \<notin> set (dkeys (w_networks (fst s)))" by auto
  then have run: "import_network x s =
      (Inr (), (fst s)\<lparr>w_networks := w_networks (fst s) @ [(net_id x, x)]\<rparr>, snd s)"
    by (simp add: import_network_def import_one_run map_of_eq_None_iff network_save_def dset_fresh)
  show ?case using Cons by (simp add: bindM_run run)
qed simp

lemma import_allocations:
  "distinct (dkeys (w_allocations (fst s)) @ List.map ipa_id xs) \<Longrightarrow>
   forM xs import_allocation s =
     (Inr (), (fst s)\<lparr>w_allocations := w_allocations (fst s) @ List.map (\<lambda>x. (ipa_id x, x)) xs\<rparr>, snd s)"
proof (induction xs arbitrary: s)
  case (Cons x xs)
  then have "ipa_id x \<notin> set (dkeys (w_allocations (fst s)))" by auto
  then have run: "import_allocation x s =
      (Inr (), (fst s)\<lparr>w_allocations := w_allocations (fst s) @ [(ipa_id x, x)]\<rparr>, snd s)"
    by (simp add: import_allocation_def import_one_run map_of_eq_None_iff alloc_save_def dset_fresh)
  show ?case using Cons by (simp add: bindM_run run)
qed simp

lemma import_audits:
  "distinct (dkeys (ad_audit (snd s)) @ List.map aud_id xs) \<Longrightarrow>
   forM xs import_audit s =
     (Inr (), fst s, (snd s)\<lparr>ad_audit := ad_audit (snd s) @ List.map (\<lambda>x. (aud_id x, x)) xs\<rparr>)"
proof (induction xs arbitrary: s)
  case (Cons x xs)
  then have "aud_id x \<notin> set (dkeys (ad_audit (snd s)))" by auto
  then have run: "import_audit x s =
      (Inr (), fst s, (snd s)\<lparr>ad_audit := ad_audit (snd s) @ [(aud_id x, x)]\<rparr>)"
    by (simp add: import_audit_def audit_save_def dset_fresh)
  show ?case using Cons by (simp add: bindM_run run)
qed simp

lemma import_into_empty:
  assumes "mf_schema_version (bd_manifest b) = bundle_schema_version"
    and "distinct (List.map sa_id (bd_accounts b))" "distinct (List.map nd_id (bd_nodes b))"
    and "distinct (List.map net_id (bd_networks b))" "distinct (List.map ipa_id (bd_allocations b))"
    and "distinct (List.map aud_id (bd_audit b))"
    and "ad_accounts (snd t) = []" "w_nodes (fst t) = []" "w_networks (fst t) = []"
    and "w_allocations (fst t) = []" "ad_audit (snd t) = []"
  shows "\<exists>summary t'. import_bundle b t = (Inr summary, t') \<and>
    w_nodes (fst t') = List.map (\<lambda>x. (nd_id x, x)) (bd_nodes b) \<and>
    w_networks (fst t') = List.map (\<lambda>x. (net_id x, x)) (bd_networks b) \<and>
    w_allocations (fst t') = List.map (\<lambda>x. (ipa_id x, x)) (bd_allocations b) \<and>
    ad_accounts (snd t') = List.map (\<lambda>x. (sa_id x, x)) (bd_accounts b) \<and>
    ad_audit (snd t') = List.map (\<lambda>x. (aud_id x, x)) (bd_audit b)"
  using assms by (simp add: import_bundle_def bindM_guard bindM_run import_accounts import_nodes
      import_networks import_allocations import_audits)

text \<open>What an export finds: every store keyed by id, and no subnet in two networks.\<close>

definition subnet_ids :: "'ag world \<Rightarrow> string list" where
  "subnet_ids w = concat (List.map (\<lambda>n. case net_subnet n of None \<Rightarrow> [] | Some sb \<Rightarrow> [sub_id sb]) (dvalues (w_networks w)))"

definition exportable :: "(json \<Rightarrow> string) \<Rightarrow> 'ag world \<times> admin \<Rightarrow> bool" where
  "exportable digest s \<longleftrightarrow>
     keyed sa_id (ad_accounts (snd s)) \<and> keyed nd_id (w_nodes (fst s)) \<and> keyed net_id (w_networks (fst s)) \<and>
     keyed ipa_id (w_allocations (fst s)) \<and> keyed aud_id (ad_audit (snd s)) \<and>
     distinct (subnet_ids (fst s)) \<and> length (ad_audit (snd s)) \<le> 10000 \<and>
     (\<forall>a \<in> set (dvalues (ad_accounts (snd s))). mk_service_account a = Inr a) \<and>
     (\<forall>n \<in> set (dvalues (w_nodes (fst s))). mk_node n = Inr n) \<and>
     (\<forall>n \<in> set (dvalues (w_networks (fst s))). storable_network digest n) \<and>
     (\<forall>a \<in> set (dvalues (w_allocations (fst s))). ip_allocation_check a = Inr ()) \<and>
     (\<forall>e \<in> set (dvalues (ad_audit (snd s))). mk_audit_event e = Inr e)"

lemma audit_hit_any: "audit_hit no_filter e"
  by (simp add: audit_hit_def no_filter_def)

lemma audit_take_all: "int (length es) \<le> limit \<Longrightarrow> audit_take no_filter limit es = es"
proof (induction es arbitrary: limit)
  case (Cons e es)
  show ?case
  proof (cases "limit \<le> 1")
    case True
    moreover have "int (length es) + 1 \<le> limit" using Cons.prems by simp
    ultimately have "length es = 0" by linarith
    then show ?thesis by (simp add: audit_hit_any)
  next
    case False
    then show ?thesis using Cons.prems Cons.IH [of "limit - 1"] by (simp add: audit_hit_any)
  qed
qed simp

lemma keyed_distinct: "keyed key d \<Longrightarrow> distinct (List.map key (dvalues d))"
  unfolding keyed_keys by (simp add: keyed_def)

lemma bundle_allocations_by_subnet:
  "bundle_allocations w = concat (List.map (\<lambda>sid. allocs_for_subnet sid (w_allocations w)) (subnet_ids w))"
proof -
  have "concat (List.map (\<lambda>n. case net_subnet n of None \<Rightarrow> [] | Some sb \<Rightarrow> f (sub_id sb)) ns) =
      concat (List.map f (concat (List.map (\<lambda>n. case net_subnet n of None \<Rightarrow> [] | Some sb \<Rightarrow> [sub_id sb]) ns)))"
    for f :: "string \<Rightarrow> ip_allocation list" and ns
    by (induction ns) (auto split: option.split)
  then show ?thesis unfolding bundle_allocations_def subnet_ids_def .
qed

lemma distinct_by_subnet:
  assumes "distinct (List.map key xs)" "distinct sids"
  shows "distinct (List.map key (concat (List.map (\<lambda>sid. filter (\<lambda>x. g x = sid) xs) sids)))"
  using assms(2)
proof (induction sids)
  case (Cons sid sids)
  have inj: "inj_on key (set xs)" using assms(1) by (simp add: distinct_map)
  have "key ` set (filter (\<lambda>x. g x = sid) xs) \<inter> key ` (\<Union>s \<in> set sids. set (filter (\<lambda>x. g x = s) xs)) = {}"
    using Cons.prems inj by (auto dest!: inj_onD [OF inj])
  then show ?case using Cons assms(1) by (simp add: distinct_map_filter)
qed simp

lemma exported:
  assumes "export_bundle env version s = (Inr b, s1)"
  shows "bd_manifest b = \<lparr>mf_schema_version = bundle_schema_version, mf_created_at = e_now env (w_clock (fst s)),
      mf_controller_version = version\<rparr>"
    "bd_networks b = dvalues (w_networks (fst s))" "bd_nodes b = dvalues (w_nodes (fst s))"
    "bd_accounts b = dvalues (ad_accounts (snd s))" "bd_allocations b = bundle_allocations (fst s)"
    "bd_audit b = audit_list no_filter 10000 (snd s)"
  using assms by (auto simp: export_bundle_def)

lemma exported_audit:
  assumes "exportable digest s"
  shows "audit_list no_filter 10000 (snd s) = sort_key (\<lambda>e. - aud_at e) (dvalues (ad_audit (snd s)))"
  using assms by (simp add: audit_list_def audit_take_all exportable_def)

lemma exported_ok:
  assumes "exportable digest s" "export_bundle env version s = (Inr b, s1)"
  shows "bundle_ok digest b"
  using assms exported_audit [OF assms(1)]
  by (auto simp: bundle_ok_def exported [OF assms(2)] exportable_def bundle_allocations_by_subnet
      allocs_for_subnet_def)

lemma exported_distinct:
  assumes "exportable digest s" "export_bundle env version s = (Inr b, s1)"
  shows "distinct (List.map sa_id (bd_accounts b))" "distinct (List.map nd_id (bd_nodes b))"
    "distinct (List.map net_id (bd_networks b))" "distinct (List.map ipa_id (bd_allocations b))"
    "distinct (List.map aud_id (bd_audit b))"
proof -
  note k = assms(1) [unfolded exportable_def]
  show "distinct (List.map sa_id (bd_accounts b))" "distinct (List.map nd_id (bd_nodes b))"
      "distinct (List.map net_id (bd_networks b))"
    unfolding exported [OF assms(2)] using k by (blast intro: keyed_distinct)+
  have "distinct (List.map ipa_id (dvalues (w_allocations (fst s))))"
    using k by (blast intro: keyed_distinct)
  then show "distinct (List.map ipa_id (bd_allocations b))"
    unfolding exported(5) [OF assms(2)] bundle_allocations_by_subnet allocs_for_subnet_def
    by (rule distinct_by_subnet) (use k in blast)
  have "distinct (List.map aud_id (dvalues (ad_audit (snd s))))"
    using k by (blast intro: keyed_distinct)
  then show "distinct (List.map aud_id (bd_audit b))"
    unfolding exported(6) [OF assms(2)] exported_audit [OF assms(1)]
    by (simp only: distinct_map set_sort distinct_sort)
qed

lemma dget_keyed_list:
  "distinct (List.map key xs) \<Longrightarrow> keyed key d \<Longrightarrow>
   dget (List.map (\<lambda>x. (key x, x)) xs) k =
     (case dget d k of Some v \<Rightarrow> if v \<in> set xs then Some v else None | None \<Rightarrow> None)"
  if "set xs \<subseteq> set (dvalues d)"
proof -
  assume dist: "distinct (List.map key xs)" and d: "keyed key d"
  have wf: "distinct (List.map fst (List.map (\<lambda>x. (key x, x)) xs))" using dist by (simp add: comp_def)
  have of_d: "dget d (key x) = Some x" if "x \<in> set xs" for x
  proof -
    have "x \<in> set (dvalues d)" using that \<open>set xs \<subseteq> set (dvalues d)\<close> by blast
    then obtain j where j: "(j, x) \<in> set d" by auto
    then have "j = key x" using d by (auto simp: keyed_def)
    then show ?thesis using j d by (simp add: keyed_def)
  qed
  show ?thesis
  proof (cases "dget (List.map (\<lambda>x. (key x, x)) xs) k")
    case None
    then have "k \<notin> key ` set xs" by (auto simp: map_of_eq_None_iff image_image)
    moreover have "dget d k = Some v \<Longrightarrow> v \<in> set xs \<Longrightarrow> k = key v" for v
      using d by (auto simp: keyed_def dest!: map_of_SomeD)
    ultimately show ?thesis using None by (auto split: option.split)
  next
    case (Some x)
    then have "x \<in> set xs" "k = key x" by (auto dest!: map_of_SomeD)
    then show ?thesis using Some of_d by simp
  qed
qed

lemma exported_allocation:
  assumes "exportable digest s" "export_bundle env version s = (Inr b, s1)"
  shows "dget (List.map (\<lambda>x. (ipa_id x, x)) (bd_allocations b)) i =
      (case dget (w_allocations (fst s)) i of None \<Rightarrow> None
       | Some a \<Rightarrow> if ipa_subnet_id a \<in> set (subnet_ids (fst s)) then Some a else None)"
proof -
  note e = exported(5) [OF assms(2)]
  have "set (bd_allocations b) \<subseteq> set (dvalues (w_allocations (fst s)))"
    by (auto simp: e bundle_allocations_by_subnet allocs_for_subnet_def)
  moreover have "a \<in> set (bd_allocations b) \<longleftrightarrow> ipa_subnet_id a \<in> set (subnet_ids (fst s))"
    if "dget (w_allocations (fst s)) i = Some a" for a
    using map_of_SomeD [OF that] by (force simp: e bundle_allocations_by_subnet allocs_for_subnet_def)
  moreover have "keyed ipa_id (w_allocations (fst s))" using assms(1) by (simp add: exportable_def)
  ultimately show ?thesis
    using dget_keyed_list [OF _ exported_distinct(4) [OF assms], of "w_allocations (fst s)" i]
    by (auto split: option.split)
qed

lemma exported_audit_event:
  assumes "exportable digest s" "export_bundle env version s = (Inr b, s1)"
  shows "dget (List.map (\<lambda>x. (aud_id x, x)) (bd_audit b)) i = dget (ad_audit (snd s)) i"
proof -
  have all: "set (bd_audit b) = set (dvalues (ad_audit (snd s)))"
    by (simp add: exported(6) [OF assms(2)] exported_audit [OF assms(1)])
  then have "a \<in> set (bd_audit b)" if "dget (ad_audit (snd s)) i = Some a" for a
    using map_of_SomeD [OF that] by force
  moreover have "keyed aud_id (ad_audit (snd s))" using assms(1) by (simp add: exportable_def)
  ultimately show ?thesis
    using dget_keyed_list [OF _ exported_distinct(5) [OF assms], of "ad_audit (snd s)" i] all
    by (auto split: option.split)
qed

text \<open>
  C23. A bundle is enough to rebuild a controller. Take any controller whose entities stand
  under their ids and pass their constructors, where no subnet id occurs twice, no project id is empty
  and the audit journal has at most the 10000 events an export carries; export it, turn the bundle into
  JSON, read it back and import it into an empty controller: the import succeeds and the new controller
  has the same accounts and networks, the same nodes but for their project and maintenance state (which
  the bundle leaves out), every allocation of a subnet of a network, and the whole audit journal.
  (\<open>fromisoformat\<close> reads back what \<open>isoformat\<close> wrote for the times in the bundle.)
\<close>

theorem backup_restores:
  assumes "exportable digest s" "export_bundle env version s = (Inr b, s1)" "iso_ok fromiso (bundle_times b)"
    and "ad_accounts (snd t) = []" "w_nodes (fst t) = []" "w_networks (fst t) = []"
    and "w_allocations (fst t) = []" "ad_audit (snd t) = []"
  shows "\<exists>b' summary t'. bundle_from_dict fromiso digest (bundle_to_dict b) = Inr b' \<and>
    import_bundle b' t = (Inr summary, t') \<and> ad_accounts (snd t') = ad_accounts (snd s) \<and>
    w_networks (fst t') = w_networks (fst s) \<and>
    w_nodes (fst t') = List.map (\<lambda>(k, n). (k, bundled_node n)) (w_nodes (fst s)) \<and>
    (\<forall>k. dget (w_allocations (fst t')) k = (case dget (w_allocations (fst s)) k of None \<Rightarrow> None
       | Some a \<Rightarrow> if ipa_subnet_id a \<in> set (subnet_ids (fst s)) then Some a else None)) \<and>
    (\<forall>k. dget (ad_audit (snd t')) k = dget (ad_audit (snd s)) k)"
proof -
  let ?b = "b\<lparr>bd_nodes := List.map bundled_node (bd_nodes b)\<rparr>"
  note k = assms(1) [unfolded exportable_def]
  note e = exported [OF assms(2)]
  note dist = exported_distinct [OF assms(1,2)]
  have read: "bundle_from_dict fromiso digest (bundle_to_dict b) = Inr ?b"
    using assms(3) exported_ok [OF assms(1,2)] by (rule bundle_roundtrip)
  have "nd_id \<circ> bundled_node = nd_id" by (auto simp: bundled_node_def)
  then obtain summary t' where imp: "import_bundle ?b t = (Inr summary, t')"
      "w_nodes (fst t') = List.map (\<lambda>x. (nd_id x, x)) (List.map bundled_node (bd_nodes b))"
      "w_networks (fst t') = List.map (\<lambda>x. (net_id x, x)) (bd_networks b)"
      "w_allocations (fst t') = List.map (\<lambda>x. (ipa_id x, x)) (bd_allocations b)"
      "ad_accounts (snd t') = List.map (\<lambda>x. (sa_id x, x)) (bd_accounts b)"
      "ad_audit (snd t') = List.map (\<lambda>x. (aud_id x, x)) (bd_audit b)"
    using import_into_empty [of ?b t] dist assms(4-8) e(1) by auto
  have nodes: "List.map (\<lambda>x. (nd_id x, x)) (List.map bundled_node (dvalues d)) =
      List.map (\<lambda>(k, n). (k, bundled_node n)) d" if "keyed nd_id d" for d
    using that by (induction d) (auto simp: keyed_def bundled_node_def)
  have "List.map (\<lambda>x. (sa_id x, x)) (bd_accounts b) = ad_accounts (snd s)"
      "List.map (\<lambda>x. (net_id x, x)) (bd_networks b) = w_networks (fst s)"
      "List.map (\<lambda>x. (nd_id x, x)) (List.map bundled_node (bd_nodes b)) =
         List.map (\<lambda>(k, n). (k, bundled_node n)) (w_nodes (fst s))"
    unfolding e using k by (blast intro: keyed_list nodes)+
  then show ?thesis
    using read imp(1) unfolding imp(2-) exported_allocation [OF assms(1,2)] exported_audit_event [OF assms(1,2)]
    by (intro exI [of _ ?b] exI [of _ summary] exI [of _ t']) (simp only: imp(2-)
        exported_allocation [OF assms(1,2)] exported_audit_event [OF assms(1,2)], blast)
qed

definition backup_network :: network where
  "backup_network = example_network\<lparr>net_spec_hash := ''h''\<rparr>"

definition backup_allocation :: ip_allocation where
  "backup_allocation = \<lparr>ipa_id = ''ipa_1'', ipa_subnet_id = sub_id example_subnet, ipa_address = ''10.0.0.1'',
     ipa_owner = \<lparr>own_type = ''vm'', own_id = ''vm-1''\<rparr>, ipa_kind = RESERVATION, ipa_allocated_at = 0,
     ipa_label = None\<rparr>"

definition backup_event :: audit_event where
  "backup_event = \<lparr>aud_id = ''aud_1'', aud_at = 0, aud_action = ''network.create'', aud_resource_type = ''network'',
     aud_resource_id = Some ''net_1'', aud_actor = None, aud_http_status = Some 201, aud_request_id = None,
     aud_payload = []\<rparr>"

definition backup_state :: "unit world \<times> admin" where
  "backup_state = ((example_world ())\<lparr>w_networks := [(''net_1'', backup_network)],
     w_allocations := [(''ipa_1'', backup_allocation)]\<rparr>, empty_admin\<lparr>ad_audit := [(''aud_1'', backup_event)]\<rparr>)"

definition blank_state :: "unit world \<times> admin" where
  "blank_state = ((example_world ())\<lparr>w_nodes := [], w_networks := []\<rparr>, empty_admin)"

lemma backup_network_storable: "storable_network (\<lambda>_. ''h'') backup_network"
proof -
  have "subnet_parts_ok example_subnet"
    using example_subnet_wf by (simp add: subnet_parts_ok_def mk_subnet_def subnet_wf_def)
      (simp add: example_subnet_def ip_range_check_def example_addrs)
  moreover have "network_validate backup_network = Inr ()"
    by (simp add: backup_network_def example_network_def network_validate_def blank_iff py_isspace_def)
  ultimately show ?thesis
    by (simp add: storable_network_def mk_network_def) (simp add: backup_network_def example_network_def)
qed

lemma backup_exportable: "exportable (\<lambda>_. ''h'') backup_state"
proof -
  have "mk_node (example_node\<lparr>nd_id := i\<rparr>) = Inr (example_node\<lparr>nd_id := i\<rparr>)"
      "mk_node (example_node\<lparr>nd_id := i, nd_mgmt_ip := ''10.0.0.2''\<rparr>) = Inr (example_node\<lparr>nd_id := i, nd_mgmt_ip := ''10.0.0.2''\<rparr>)" for i
    by (simp_all add: mk_node_def example_node_def blank_iff py_isspace_def opt_thumbprint_def ip_evals)
  moreover have "mk_audit_event backup_event = Inr backup_event"
    by (simp add: mk_audit_event_def backup_event_def)
  moreover have "ip_allocation_check backup_allocation = Inr ()"
    by (simp add: ip_allocation_check_def backup_allocation_def ip_evals)
  moreover have "distinct (subnet_ids (fst backup_state))"
    by (simp add: subnet_ids_def backup_state_def split: option.split)
  ultimately show ?thesis using backup_network_storable
    by (simp add: exportable_def keyed_def backup_state_def example_world_def empty_admin_def)
      (simp add: backup_network_def example_network_def backup_allocation_def backup_event_def)
qed

theorem backup_restores_witness:
  "\<exists>b' summary t'. import_bundle b' blank_state = (Inr summary, t') \<and>
     w_networks (fst t') = [(''net_1'', backup_network)] \<and>
     dget (w_allocations (fst t')) ''ipa_1'' = Some backup_allocation \<and>
     dget (ad_audit (snd t')) ''aud_1'' = Some backup_event"
proof -
  let ?iso = "\<lambda>x. if x = isoformat 0 then Some (0 :: time) else None"
  obtain b s1 where e: "export_bundle example_env ''1.0'' backup_state = (Inr b, s1)"
    by (simp add: export_bundle_def)
  have "set (bundle_times b) \<subseteq> {0}"
    by (simp add: bundle_times_def exported [OF e] exported_audit [OF backup_exportable] bundle_allocations_by_subnet
        allocs_for_subnet_def subnet_ids_def split: option.split)
      (simp add: backup_state_def example_world_def example_env_def empty_admin_def backup_network_def
        example_network_def backup_allocation_def backup_event_def node_times_def example_node_def image_subset_iff)
  then have iso: "iso_ok ?iso (bundle_times b)" by (auto simp: iso_ok_def)
  have known: "ipa_subnet_id backup_allocation \<in> set (subnet_ids (fst backup_state))"
    by (simp add: subnet_ids_def backup_state_def backup_network_def example_network_def backup_allocation_def)
  show ?thesis
    using backup_restores [OF backup_exportable e iso, of blank_state] known
    by (simp add: blank_state_def example_world_def empty_admin_def) (force simp: backup_state_def)
qed

subsection \<open>What an import does to any controller\<close>

datatype bundle_item =
    AccountItem service_account | NodeItem node | NetworkItem network | AllocationItem ip_allocation

fun known_item :: "bundle_item \<Rightarrow> 'ag world \<times> admin \<Rightarrow> bool" where
  "known_item (AccountItem x) s \<longleftrightarrow> dget (ad_accounts (snd s)) (sa_id x) \<noteq> None"
| "known_item (NodeItem x) s \<longleftrightarrow> dget (w_nodes (fst s)) (nd_id x) \<noteq> None"
| "known_item (NetworkItem x) s \<longleftrightarrow> dget (w_networks (fst s)) (net_id x) \<noteq> None"
| "known_item (AllocationItem x) s \<longleftrightarrow> dget (w_allocations (fst s)) (ipa_id x) \<noteq> None"

fun put_item :: "bundle_item \<Rightarrow> 'ag world \<times> admin \<Rightarrow> 'ag world \<times> admin" where
  "put_item (AccountItem x) s = (fst s, (snd s)\<lparr>ad_accounts := dset (sa_id x) x (ad_accounts (snd s))\<rparr>)"
| "put_item (NodeItem x) s = ((fst s)\<lparr>w_nodes := dset (nd_id x) x (w_nodes (fst s))\<rparr>, snd s)"
| "put_item (NetworkItem x) s = ((fst s)\<lparr>w_networks := dset (net_id x) x (w_networks (fst s))\<rparr>, snd s)"
| "put_item (AllocationItem x) s = ((fst s)\<lparr>w_allocations := dset (ipa_id x) x (w_allocations (fst s))\<rparr>, snd s)"

definition put_audit :: "audit_event \<Rightarrow> 'ag world \<times> admin \<Rightarrow> 'ag world \<times> admin" where
  "put_audit e s = (fst s, (snd s)\<lparr>ad_audit := dset (aud_id e) e (ad_audit (snd s))\<rparr>)"

definition bundle_items :: "bundle_doc \<Rightarrow> bundle_item list" where
  "bundle_items b = List.map AccountItem (bd_accounts b) @ List.map NodeItem (bd_nodes b)
     @ List.map NetworkItem (bd_networks b) @ List.map AllocationItem (bd_allocations b)"

fun import_item :: "bundle_item \<Rightarrow> ('ag, unit) admin_act" where
  "import_item (AccountItem x) = import_account x"
| "import_item (NodeItem x) = import_node x"
| "import_item (NetworkItem x) = import_network x"
| "import_item (AllocationItem x) = import_allocation x"

lemma import_item_run:
  "import_item x s = (if known_item x s then (Inl err_conflict, s) else (Inr (), put_item x s))"
  by (cases x) (auto simp: import_account_def import_node_def import_network_def import_allocation_def
      import_one_run account_save_def node_save_def network_save_def alloc_save_def)

lemma forM_append: "forM (xs @ ys) f s = bindM (forM xs f) (\<lambda>_. forM ys f) s"
  by (induction xs arbitrary: s) (simp_all add: bindM_run split: sum.split prod.split)

lemma forM_map: "forM (List.map g xs) f = forM xs (\<lambda>x. f (g x))"
  by (induction xs) simp_all

lemma import_audit_run: "forM es import_audit s = (Inr (), fold put_audit es s)"
  by (induction es arbitrary: s) (simp_all add: bindM_run import_audit_def audit_save_def put_audit_def)

lemma import_bundle_items:
  assumes "mf_schema_version (bd_manifest b) = bundle_schema_version"
  shows "import_bundle b s = (case forM (bundle_items b) import_item s of
      (Inl e, s') \<Rightarrow> (Inl e, s')
    | (Inr _, s') \<Rightarrow> (Inr \<lparr>ims_networks = length (bd_networks b), ims_nodes = length (bd_nodes b),
         ims_accounts = length (bd_accounts b), ims_allocations = length (bd_allocations b),
         ims_audit = length (bd_audit b)\<rparr>, fold put_audit (bd_audit b) s'))"
  by (simp add: import_bundle_def assms bindM_guard bundle_items_def forM_append forM_map bindM_run import_audit_run
      split: sum.split prod.split)

lemma import_items:
  "\<exists>k \<le> length xs. (\<forall>j < k. \<not> known_item (xs ! j) (fold put_item (take j xs) s)) \<and>
     (if k = length xs then forM xs import_item s = (Inr (), fold put_item xs s)
      else known_item (xs ! k) (fold put_item (take k xs) s) \<and>
        forM xs import_item s = (Inl err_conflict, fold put_item (take k xs) s))"
proof (induction xs arbitrary: s)
  case (Cons x xs)
  show ?case
  proof (cases "known_item x s")
    case True
    then show ?thesis by (intro exI [of _ 0]) (simp add: bindM_run import_item_run)
  next
    case False
    obtain k where k: "k \<le> length xs" "\<forall>j < k. \<not> known_item (xs ! j) (fold put_item (take j xs) (put_item x s))"
        "if k = length xs then forM xs import_item (put_item x s) = (Inr (), fold put_item xs (put_item x s))
         else known_item (xs ! k) (fold put_item (take k xs) (put_item x s)) \<and>
           forM xs import_item (put_item x s) = (Inl err_conflict, fold put_item (take k xs) (put_item x s))"
      using Cons.IH [of "put_item x s"] by blast
    have "\<not> known_item ((x # xs) ! j) (fold put_item (take j (x # xs)) s)" if "j < Suc k" for j
      using that k(2) False by (cases j) simp_all
    then show ?thesis using k(1,3) False
      by (intro exI [of _ "Suc k"]) (simp add: bindM_run import_item_run split: if_splits)
  qed
qed simp

text \<open>
  C24. An import looks at nothing but ids, and a refused one is not undone. Over the in-memory
  repositories, an import of a bundle of the supported version stores the accounts, nodes, networks and
  allocations of the bundle one after the other in this order, until it meets one whose id is known:
  then it raises a conflict, and everything it stored before stays. If it meets none it succeeds and
  stores the audit events too. Names and addresses play no part; so an import can leave two nodes with
  one name and two allocations of one address, which no other call does. A bundle of another version is
  refused and changes nothing.
\<close>

theorem backup_import_unchecked:
  assumes "xs = bundle_items b"
  shows "if mf_schema_version (bd_manifest b) \<noteq> bundle_schema_version then import_bundle b s = (Inl err_validation, s)
    else \<exists>k \<le> length xs. (\<forall>j < k. \<not> known_item (xs ! j) (fold put_item (take j xs) s)) \<and>
      (if k < length xs
       then known_item (xs ! k) (fold put_item (take k xs) s) \<and>
         import_bundle b s = (Inl err_conflict, fold put_item (take k xs) s)
       else \<exists>summary. import_bundle b s = (Inr summary, fold put_audit (bd_audit b) (fold put_item xs s)))"
proof (cases "mf_schema_version (bd_manifest b) = bundle_schema_version")
  case True
  obtain k where "k \<le> length xs" "\<forall>j < k. \<not> known_item (xs ! j) (fold put_item (take j xs) s)"
      "if k = length xs then forM xs import_item s = (Inr (), fold put_item xs s)
       else known_item (xs ! k) (fold put_item (take k xs) s) \<and>
         forM xs import_item s = (Inl err_conflict, fold put_item (take k xs) s)"
    using import_items [of xs s] by blast
  then show ?thesis using True import_bundle_items [OF True, of s] assms
    by (cases "k = length xs") (auto intro!: exI [of _ k])
qed (simp add: import_bundle_def bindM_guard)

text \<open>A controller with one node and one allocation, and a bundle with both under new ids.\<close>

definition small_state :: "unit world \<times> admin" where
  "small_state = ((fst backup_state)\<lparr>w_nodes := [(''node_a'', example_node)]\<rparr>, snd backup_state)"

definition copy_manifest :: manifest where
  "copy_manifest = \<lparr>mf_schema_version = 1, mf_created_at = 0, mf_controller_version = []\<rparr>"

theorem backup_import_unchecked_witness:
  "\<exists>summary s'. import_bundle \<lparr>bd_manifest = copy_manifest, bd_networks = [],
       bd_nodes = [example_node\<lparr>nd_id := ''node_b''\<rparr>], bd_accounts = [],
       bd_allocations = [backup_allocation\<lparr>ipa_id := ''ipa_2''\<rparr>], bd_audit = []\<rparr> small_state = (Inr summary, s') \<and>
     List.map nd_name (dvalues (w_nodes (fst s'))) = [''edge'', ''edge''] \<and>
     List.map ipa_address (dvalues (w_allocations (fst s'))) = [''10.0.0.1'', ''10.0.0.1'']"
proof -
  let ?x = "example_node\<lparr>nd_id := ''node_b''\<rparr>"
  let ?a = "backup_allocation\<lparr>ipa_id := ''ipa_2''\<rparr>"
  define b where "b = \<lparr>bd_manifest = copy_manifest, bd_networks = [], bd_nodes = [?x], bd_accounts = [],
      bd_allocations = [?a], bd_audit = []\<rparr>"
  have nodes: "w_nodes (fst small_state) = [(''node_a'', example_node)]" "nd_name example_node = ''edge''"
    by (simp_all add: small_state_def example_node_def)
  have allocs: "w_allocations (fst small_state) = [(''ipa_1'', backup_allocation)]"
      "ipa_address backup_allocation = ''10.0.0.1''"
    by (simp_all add: small_state_def backup_state_def backup_allocation_def)
  have v: "mf_schema_version (bd_manifest b) = bundle_schema_version" "bd_audit b = []"
    by (simp_all add: b_def copy_manifest_def bundle_schema_version_def)
  have new: "\<not> known_item (NodeItem ?x) small_state" "\<not> known_item (AllocationItem ?a) (put_item (NodeItem ?x) small_state)"
    by (simp_all add: nodes allocs)
  define xs where "xs = bundle_items b"
  have xs: "xs = [NodeItem ?x, AllocationItem ?a]" by (simp add: xs_def b_def bundle_items_def)
  have "\<exists>k \<le> length xs. if k < length xs then known_item (xs ! k) (fold put_item (take k xs) small_state)
      else \<exists>summary. import_bundle b small_state = (Inr summary, fold put_item xs small_state)"
    using backup_import_unchecked [OF xs_def, of small_state] by (auto simp: v split: if_splits)
  then obtain k where k: "k \<le> length xs"
      "if k < length xs then known_item (xs ! k) (fold put_item (take k xs) small_state)
       else \<exists>summary. import_bundle b small_state = (Inr summary, fold put_item xs small_state)" by blast
  have "\<not> known_item (xs ! k) (fold put_item (take k xs) small_state)" if "k < length xs"
    using that new by (cases k) (simp_all add: xs)
  then obtain summary where "import_bundle b small_state = (Inr summary, fold put_item xs small_state)"
    using k(2) by metis
  then show ?thesis by (simp add: xs b_def nodes allocs)
qed

end
