(* ===== verification/Pg_Locks.thy ===== *)
theory Pg_Locks
  imports Configurators Use_Case "HOL-Library.Word"
begin

unbundle bit_operations_syntax

text \<open>
  The lock store over PostgreSQL advisory locks (\<open>adapters/sql/pg_advisory_locks.py\<close>). A text key is
  hashed to a 64-bit integer; a process keeps, per key it holds, the connection whose session has the
  lock. The server and the connection pool are a parameter, \<open>pg_server\<close>, whose calls may fail;
  \<open>lawful_server\<close> is what PostgreSQL documents of them. Lost connections are not modelled.
\<close>

subsection \<open>The key\<close>

definition fnv_prime :: int where
  "fnv_prime = 0x100000001B3"

definition fnv_offset :: int where
  "fnv_offset = 0xCBF29CE484222325"

definition fnv_step :: "int \<Rightarrow> int \<Rightarrow> int" where
  "fnv_step h byte = ((h XOR byte) * fnv_prime) AND 0xFFFFFFFFFFFFFFFF"

definition fnv1a :: "string \<Rightarrow> int" where
  "fnv1a key = fold (\<lambda>c h. fnv_step h (of_char c)) (utf8 key) fnv_offset"

text \<open>\<open>struct.unpack(">q", struct.pack(">Q", h))[0]\<close>\<close>

definition as_signed :: "int \<Rightarrow> int" where
  "as_signed h = (if h < 2 ^ 63 then h else h - 2 ^ 64)"

definition key_to_bigint :: "string \<Rightarrow> int" where
  "key_to_bigint key = as_signed (fnv1a key)"

text \<open>The hash is the wrapping computation on 64-bit words, read as a signed word.\<close>

definition fnv_word :: "string \<Rightarrow> 64 word" where
  "fnv_word bytes = fold (\<lambda>c h. (h XOR of_char c) * word_of_int fnv_prime) bytes (word_of_int fnv_offset)"

lemma byte_word: "uint (of_char c :: 64 word) = of_char c"
proof -
  have "(of_char c :: int) = of_char c mod 256" by simp
  then have "0 \<le> (of_char c :: int)" "(of_char c :: int) < 256" by presburger+
  then have "uint (word_of_int (of_char c) :: 64 word) = of_char c"
    by (simp only: uint_word_of_int) (simp add: mod_pos_pos_trivial)
  then show ?thesis by (metis of_int_of_char)
qed

lemma fnv_step_word: "fnv_step (uint h) (of_char c) = uint ((h XOR of_char c :: 64 word) * word_of_int fnv_prime)"
proof -
  have mask: "(0xFFFFFFFFFFFFFFFF :: int) = mask 64" by (simp add: mask_eq_exp_minus_1)
  show ?thesis
    unfolding fnv_step_def mask
    by (simp add: uint_word_ariths uint_xor byte_word fnv_prime_def take_bit_eq_mask [symmetric] take_bit_eq_mod)
qed

lemma fnv_fold_word:
  "fold (\<lambda>c h. fnv_step h (of_char c)) bytes (uint h) =
   uint (fold (\<lambda>c h. (h XOR of_char c) * word_of_int fnv_prime) bytes (h :: 64 word))"
  by (induction bytes arbitrary: h) (simp_all add: fnv_step_word)

lemma fnv1a_word: "fnv1a key = uint (fnv_word (utf8 key))"
  using fnv_fold_word [of "utf8 key" "word_of_int fnv_offset"]
  by (simp add: fnv1a_def fnv_word_def fnv_offset_def)

lemma as_signed_mod:
  assumes "- (2 ^ 63) \<le> x" "x < 2 ^ 63"
  shows "as_signed (x mod 2 ^ 64) = x"
proof (cases "0 \<le> x")
  case True
  then show ?thesis using assms by (simp add: as_signed_def mod_pos_pos_trivial)
next
  case False
  have "x mod 2 ^ 64 = (x + 2 ^ 64) mod 2 ^ 64" by (simp only: mod_add_self2)
  also have "\<dots> = x + 2 ^ 64" using False assms by (intro mod_pos_pos_trivial) simp_all
  finally show ?thesis using assms by (simp add: as_signed_def)
qed

lemma as_signed_word: "as_signed (uint (w :: 64 word)) = sint w"
  using as_signed_mod [of "sint w"] sint_greater_eq [of w] sint_lt [of w] uint_sint [of w]
  by (simp add: take_bit_eq_mod)

lemma key_to_bigint_word: "key_to_bigint key = sint (fnv_word (utf8 key))"
  by (simp add: key_to_bigint_def fnv1a_word as_signed_word)

lemma key_to_bigint_range: "- (2 ^ 63) \<le> key_to_bigint key" "key_to_bigint key < 2 ^ 63"
  using sint_greater_eq [of "fnv_word (utf8 key)"] sint_lt [of "fnv_word (utf8 key)"]
  by (simp_all add: key_to_bigint_word)

subsection \<open>The server\<close>

text \<open>
  \<open>sv_connect\<close> checks a connection out of the pool and \<open>sv_close\<close> gives it back. \<open>sv_locks\<close> is the
  granted advisory locks of \<open>pg_locks\<close>, each with the session of its connection; \<open>sv_out\<close> is the
  connections checked out.
\<close>

record ('s, 'x) pg_server =
  sv_connect :: "'s \<Rightarrow> ('x + nat) \<times> 's"
  sv_try_advisory_lock :: "nat \<Rightarrow> int \<Rightarrow> 's \<Rightarrow> ('x + bool) \<times> 's"
  sv_advisory_unlock :: "nat \<Rightarrow> int \<Rightarrow> 's \<Rightarrow> ('x + bool) \<times> 's"
  sv_close :: "nat \<Rightarrow> 's \<Rightarrow> 's"
  sv_locks :: "'s \<Rightarrow> (int \<times> nat) list"
  sv_out :: "'s \<Rightarrow> nat list"

text \<open>
  An attempt is granted only when no other session has the lock, and then it is recorded. No call on
  one connection, failed or not, takes a lock from another session, and a connection that is out is
  not handed out again.
\<close>

definition others_keep :: "('s, 'x) pg_server \<Rightarrow> nat \<Rightarrow> 's \<Rightarrow> 's \<Rightarrow> bool" where
  "others_keep S c s s' \<longleftrightarrow> (\<forall>k d. d \<noteq> c \<longrightarrow> (k, d) \<in> set (sv_locks S s') \<longleftrightarrow> (k, d) \<in> set (sv_locks S s))"

definition lawful_server :: "('s, 'x) pg_server \<Rightarrow> bool" where
  "lawful_server S \<longleftrightarrow>
     (\<forall>s r s'. sv_connect S s = (r, s') \<longrightarrow> set (sv_locks S s') = set (sv_locks S s) \<and>
        (case r of Inl e \<Rightarrow> set (sv_out S s') = set (sv_out S s)
         | Inr c \<Rightarrow> c \<notin> set (sv_out S s) \<and> set (sv_out S s') = insert c (set (sv_out S s)))) \<and>
     (\<forall>c k s r s'. sv_try_advisory_lock S c k s = (r, s') \<longrightarrow>
        set (sv_out S s') = set (sv_out S s) \<and> others_keep S c s s' \<and>
        (r = Inr True \<longrightarrow> (\<forall>d. (k, d) \<in> set (sv_locks S s) \<longrightarrow> d = c) \<and> (k, c) \<in> set (sv_locks S s'))) \<and>
     (\<forall>c k s r s'. sv_advisory_unlock S c k s = (r, s') \<longrightarrow>
        set (sv_out S s') = set (sv_out S s) \<and> others_keep S c s s') \<and>
     (\<forall>c s. set (sv_out S (sv_close S c s)) = set (sv_out S s) - {c} \<and> others_keep S c s (sv_close S c s))"

lemma lawful_connect:
  assumes "lawful_server S" "sv_connect S s = (r, s')"
  shows "set (sv_locks S s') = set (sv_locks S s)"
    "r = Inl e \<Longrightarrow> set (sv_out S s') = set (sv_out S s)"
    "r = Inr c \<Longrightarrow> c \<notin> set (sv_out S s) \<and> set (sv_out S s') = insert c (set (sv_out S s))"
  using assms(1) [unfolded lawful_server_def, THEN conjunct1, rule_format, OF assms(2)] by simp_all

lemma lawful_try:
  assumes "lawful_server S" "sv_try_advisory_lock S c k s = (r, s')"
  shows "set (sv_out S s') = set (sv_out S s)" "others_keep S c s s'"
    "r = Inr True \<Longrightarrow> (k, d) \<in> set (sv_locks S s) \<Longrightarrow> d = c"
    "r = Inr True \<Longrightarrow> (k, c) \<in> set (sv_locks S s')"
  using assms(1) [unfolded lawful_server_def, THEN conjunct2, THEN conjunct1, rule_format, OF assms(2)] by simp_all

lemma lawful_unlock:
  assumes "lawful_server S" "sv_advisory_unlock S c k s = (r, s')"
  shows "set (sv_out S s') = set (sv_out S s)" "others_keep S c s s'"
  using assms(1) [unfolded lawful_server_def, THEN conjunct2, THEN conjunct2, THEN conjunct1, rule_format, OF assms(2)]
  by simp_all

lemma lawful_close:
  assumes "lawful_server S"
  shows "set (sv_out S (sv_close S c s)) = set (sv_out S s) - {c}" "others_keep S c s (sv_close S c s)"
  using assms [unfolded lawful_server_def, THEN conjunct2, THEN conjunct2, THEN conjunct2, rule_format, of c s]
  by simp_all

subsection \<open>The store\<close>

type_synonym conn_map = "(string, nat \<times> string) dict"

type_synonym ('s, 'x, 'a) pg_act = "(conn_map \<times> 's, 'x, 'a) act"

definition pg_try_lock :: "('s, 'x) pg_server \<Rightarrow> string \<Rightarrow> string \<Rightarrow> int \<Rightarrow> ('s, 'x, bool) pg_act" where
  "pg_try_lock S key own ttl ms = (case ms of (m, s) \<Rightarrow>
     (case dget m key of
        Some (_, existing_owner) \<Rightarrow> (Inr (existing_owner = own), (m, s))
      | None \<Rightarrow> (case sv_connect S s of
          (Inl e, s1) \<Rightarrow> (Inl e, (m, s1))
        | (Inr conn, s1) \<Rightarrow> (case sv_try_advisory_lock S conn (key_to_bigint key) s1 of
            (Inl e, s2) \<Rightarrow> (Inl e, (m, sv_close S conn s2))
          | (Inr acquired, s2) \<Rightarrow>
              if acquired then (Inr True, (dset key (conn, own) m, s2))
              else (Inr False, (m, sv_close S conn s2))))))"

definition pg_release :: "('s, 'x) pg_server \<Rightarrow> string \<Rightarrow> string \<Rightarrow> ('s, 'x, unit) pg_act" where
  "pg_release S key own ms = (case ms of (m, s) \<Rightarrow>
     (case dget m key of
        None \<Rightarrow> (Inr (), (m, s))
      | Some (conn, existing_owner) \<Rightarrow>
          if existing_owner \<noteq> own then (Inr (), (m, s))
          else (case sv_advisory_unlock S conn (key_to_bigint key) s of
              (r, s1) \<Rightarrow> (map_sum id (\<lambda>_. ()) r, (dpop key m, sv_close S conn s1)))))"

definition pg_current_owner :: "string \<Rightarrow> conn_map \<Rightarrow> string option" where
  "pg_current_owner key m = map_option snd (dget m key)"

text \<open>\<open>objid\<close> of a lock on a 64-bit key is its low half; the high half, \<open>classid\<close>, is not asked for.\<close>

definition pg_objid :: "int \<Rightarrow> int" where
  "pg_objid k = k AND 0xFFFFFFFF"

definition pg_is_locked :: "('s, 'x) pg_server \<Rightarrow> string \<Rightarrow> ('s, 'x, bool) pg_act" where
  "pg_is_locked S key ms = (case ms of (m, s) \<Rightarrow>
     (case sv_connect S s of
        (Inl e, s1) \<Rightarrow> (Inl e, (m, s1))
      | (Inr conn, s1) \<Rightarrow>
          (Inr (list_ex (\<lambda>(k, _). pg_objid k = pg_objid (key_to_bigint key)) (sv_locks S s1)),
           (m, sv_close S conn s1))))"

subsection \<open>Several processes\<close>

text \<open>Each process has its own map; the server is shared. A call of one process is one step.\<close>

datatype pg_call = PgTry nat string string int | PgRelease nat string string | PgIsLocked nat string

definition on_process ::
  "nat \<Rightarrow> ('s, 'x, 'a) pg_act \<Rightarrow> (nat \<Rightarrow> conn_map) \<times> 's \<Rightarrow> ('x + 'a) \<times> (nat \<Rightarrow> conn_map) \<times> 's" where
  "on_process p act st = (case act (fst st p, snd st) of (r, (m, s)) \<Rightarrow> (r, ((fst st)(p := m), s)))"

fun pg_step :: "('s, 'x) pg_server \<Rightarrow> pg_call \<Rightarrow> (nat \<Rightarrow> conn_map) \<times> 's \<Rightarrow> (nat \<Rightarrow> conn_map) \<times> 's" where
  "pg_step S (PgTry p k own ttl) st = snd (on_process p (pg_try_lock S k own ttl) st)"
| "pg_step S (PgRelease p k own) st = snd (on_process p (pg_release S k own) st)"
| "pg_step S (PgIsLocked p k) st = snd (on_process p (pg_is_locked S k) st)"

definition conn_of :: "(nat \<Rightarrow> conn_map) \<Rightarrow> nat \<Rightarrow> string \<Rightarrow> nat option" where
  "conn_of ms p k = map_option fst (dget (ms p) k)"

lemma conn_of_simps [simp]:
  "conn_of (ms(p := dset k (c, own) (ms p))) p' k' = (if p' = p \<and> k' = k then Some c else conn_of ms p' k')"
  "conn_of (ms(p := dpop k (ms p))) p' k' = (if p' = p \<and> k' = k then None else conn_of ms p' k')"
  "conn_of (ms(p := ms p)) = conn_of ms"
  by (auto simp: conn_of_def fun_eq_iff)

text \<open>
  Every connection in a map is out and its session has the lock; no two entries share a connection or
  the hash of their keys.
\<close>

definition held_ok :: "('s, 'x) pg_server \<Rightarrow> (nat \<Rightarrow> conn_map) \<times> 's \<Rightarrow> bool" where
  "held_ok S st \<longleftrightarrow>
     (\<forall>p k c. conn_of (fst st) p k = Some c \<longrightarrow>
        (key_to_bigint k, c) \<in> set (sv_locks S (snd st)) \<and> c \<in> set (sv_out S (snd st))) \<and>
     (\<forall>p k c p' k' c'. conn_of (fst st) p k = Some c \<longrightarrow> conn_of (fst st) p' k' = Some c' \<longrightarrow>
        c = c' \<or> key_to_bigint k = key_to_bigint k' \<longrightarrow> p = p' \<and> k = k')"

lemma held_okD:
  assumes "held_ok S st" "conn_of (fst st) p k = Some c"
  shows "(key_to_bigint k, c) \<in> set (sv_locks S (snd st))" "c \<in> set (sv_out S (snd st))"
    and "conn_of (fst st) p' k' = Some c' \<Longrightarrow> c = c' \<or> key_to_bigint k = key_to_bigint k' \<Longrightarrow> p = p' \<and> k = k'"
  using assms unfolding held_ok_def by blast+

text \<open>A connection nobody holds a lock through may be used and closed.\<close>

definition unheld :: "(nat \<Rightarrow> conn_map) \<Rightarrow> nat \<Rightarrow> bool" where
  "unheld ms c \<longleftrightarrow> (\<forall>p k. conn_of ms p k \<noteq> Some c)"

lemma held_frame:
  assumes "held_ok S (ms, s)" "unheld ms c" "others_keep S c s s'" "set (sv_out S s) - {c} \<subseteq> set (sv_out S s')"
  shows "held_ok S (ms, s')"
proof -
  have "(key_to_bigint k, d) \<in> set (sv_locks S s') \<and> d \<in> set (sv_out S s')"
    if "conn_of ms p k = Some d" for p k d
  proof -
    have "d \<noteq> c" using that assms(2) by (auto simp: unheld_def)
    then show ?thesis using held_okD(1,2) [OF assms(1)] that assms(3,4) by (auto simp: others_keep_def)
  qed
  then show ?thesis using assms(1) by (simp add: held_ok_def)
qed

lemma held_drop: "held_ok S (ms, s) \<Longrightarrow> held_ok S (ms(p := dpop k (ms p)), s)"
  unfolding held_ok_def fst_conv snd_conv conn_of_simps by (metis option.distinct(1))

lemma drop_unheld: "held_ok S (ms, s) \<Longrightarrow> conn_of ms p k = Some c \<Longrightarrow> unheld (ms(p := dpop k (ms p))) c"
  unfolding unheld_def conn_of_simps by (metis fst_conv held_okD(3) option.distinct(1))

lemma held_add:
  assumes "held_ok S (ms, s)" "unheld ms c" "c \<in> set (sv_out S s)" "(key_to_bigint k, c) \<in> set (sv_locks S s)"
    and "\<And>p' k' d. conn_of ms p' k' = Some d \<Longrightarrow> key_to_bigint k' \<noteq> key_to_bigint k"
  shows "held_ok S (ms(p := dset k (c, own) (ms p)), s)"
  using assms(1-4) assms(5)
  unfolding held_ok_def unheld_def fst_conv snd_conv conn_of_simps
  by (metis option.inject)

lemma connect_lawful:
  assumes "lawful_server S" "held_ok S (ms, s)" "sv_connect S s = (r, s')"
  shows "held_ok S (ms, s')" "r = Inr c \<Longrightarrow> unheld ms c \<and> c \<in> set (sv_out S s')"
proof -
  note r = lawful_connect [OF assms(1,3)]
  have out: "set (sv_out S s) \<subseteq> set (sv_out S s')" using r(2,3) by (cases r) auto
  show "held_ok S (ms, s')" using assms(2) out unfolding held_ok_def fst_conv snd_conv r(1) by blast
  show "unheld ms c \<and> c \<in> set (sv_out S s')" if "r = Inr c"
    using r(3) [OF that] held_okD(2) [OF assms(2)] by (auto simp: unheld_def)
qed

lemma close_lawful:
  assumes "lawful_server S" "held_ok S (ms, s)" "unheld ms c"
  shows "held_ok S (ms, sv_close S c s)"
  using lawful_close [OF assms(1)] by (intro held_frame [OF assms(2,3)]) simp_all

lemma try_held:
  assumes "lawful_server S" "held_ok S (ms, s)"
  shows "held_ok S (snd (on_process p (pg_try_lock S k own ttl) (ms, s)))"
proof (cases "dget (ms p) k")
  case None
  obtain r s1 where con: "sv_connect S s = (r, s1)" by (cases "sv_connect S s")
  note c1 = connect_lawful [OF assms con]
  show ?thesis
  proof (cases r)
    case (Inl e)
    then show ?thesis using c1 con None by (simp add: on_process_def pg_try_lock_def)
  next
    case (Inr c)
    obtain a s2 where tr: "sv_try_advisory_lock S c (key_to_bigint k) s1 = (a, s2)"
      by (cases "sv_try_advisory_lock S c (key_to_bigint k) s1")
    note t = lawful_try [OF assms(1) tr]
    have un: "unheld ms c" "c \<in> set (sv_out S s1)" using c1(2) [OF Inr] by auto
    have ok2: "held_ok S (ms, s2)" using t(1) by (intro held_frame [OF c1(1) un(1) t(2)]) simp
    show ?thesis
    proof (cases "a = Inr True")
      case True
      have "(key_to_bigint k', d) \<in> set (sv_locks S s1)" "d \<noteq> c" if "conn_of ms q k' = Some d" for q k' d
        using held_okD(1) [OF c1(1)] that un(1) by (auto simp: unheld_def)
      then have "held_ok S (ms(p := dset k (c, own) (ms p)), s2)"
        using t(1,3,4) True un(2) by (intro held_add [OF ok2 un(1)]) (auto, metis)
      then show ?thesis using con Inr tr True None by (simp add: on_process_def pg_try_lock_def)
    next
      case False
      have "held_ok S (ms, sv_close S c s2)" by (rule close_lawful [OF assms(1) ok2 un(1)])
      then show ?thesis using con Inr tr False None
        by (cases a) (auto simp: on_process_def pg_try_lock_def)
    qed
  qed
qed (use assms in \<open>auto simp: on_process_def pg_try_lock_def\<close>)

lemma pg_release_held:
  assumes "lawful_server S" "held_ok S (ms, s)"
  shows "held_ok S (snd (on_process p (pg_release S k own) (ms, s)))"
proof (cases "dget (ms p) k")
  case (Some e)
  obtain c o' where e: "e = (c, o')" by (cases e)
  show ?thesis
  proof (cases "o' = own")
    case True
    obtain r s1 where u: "sv_advisory_unlock S c (key_to_bigint k) s = (r, s1)"
      by (cases "sv_advisory_unlock S c (key_to_bigint k) s")
    let ?ms = "ms(p := dpop k (ms p))"
    have un: "unheld ?ms c" using assms(2) Some e by (intro drop_unheld) (simp_all add: conn_of_def)
    have "held_ok S (?ms, s1)"
      using lawful_unlock [OF assms(1) u] by (intro held_frame [OF held_drop [OF assms(2)] un]) auto
    then have "held_ok S (?ms, sv_close S c s1)" by (rule close_lawful [OF assms(1) _ un])
    then show ?thesis using Some e u True by (simp add: on_process_def pg_release_def)
  qed (use assms Some e in \<open>auto simp: on_process_def pg_release_def\<close>)
qed (use assms in \<open>auto simp: on_process_def pg_release_def\<close>)

lemma is_locked_held:
  assumes "lawful_server S" "held_ok S (ms, s)"
  shows "held_ok S (snd (on_process p (pg_is_locked S k) (ms, s)))"
proof -
  obtain r s1 where con: "sv_connect S s = (r, s1)" by (cases "sv_connect S s")
  note c1 = connect_lawful [OF assms con]
  show ?thesis
  proof (cases r)
    case (Inr c)
    then show ?thesis using close_lawful [OF assms(1) c1(1)] c1(2) [OF Inr] con
      by (simp add: on_process_def pg_is_locked_def)
  qed (use c1 con in \<open>auto simp: on_process_def pg_is_locked_def\<close>)
qed

lemma step_held: "lawful_server S \<Longrightarrow> held_ok S st \<Longrightarrow> held_ok S (pg_step S call st)"
  by (cases st; cases call) (auto intro: try_held pg_release_held is_locked_held)

lemma steps_held: "lawful_server S \<Longrightarrow> held_ok S st \<Longrightarrow> held_ok S (fold (pg_step S) calls st)"
  by (induction calls arbitrary: st) (simp_all add: step_held)

lemma start_held: "held_ok S (\<lambda>_. [], s)"
  by (simp add: held_ok_def conn_of_def)

text \<open>An answer \<open>True\<close> records the caller; only its own release removes the record.\<close>

lemma granted_recorded:
  "on_process p (pg_try_lock S k own ttl) st = (Inr True, st') \<Longrightarrow> \<exists>c. dget (fst st' p) k = Some (c, own)"
  by (cases st) (auto simp: on_process_def pg_try_lock_def split: prod.splits option.splits sum.splits if_splits)

lemma step_keeps:
  assumes "dget (fst st p) k = Some (c, own)" "call \<noteq> PgRelease p k own"
  shows "dget (fst (pg_step S call st) p) k = Some (c, own)"
proof (cases call)
  case (PgTry q k' o' ttl)
  then show ?thesis using assms
    by (cases st) (auto simp: on_process_def pg_try_lock_def split: prod.splits option.splits sum.splits if_splits)
next
  case (PgRelease q k' o')
  then show ?thesis using assms
    by (cases st) (auto simp: on_process_def pg_release_def split: prod.splits option.splits sum.splits if_splits)
next
  case (PgIsLocked q k')
  then show ?thesis using assms
    by (cases st) (auto simp: on_process_def pg_is_locked_def split: prod.splits option.splits sum.splits if_splits)
qed

lemma steps_keep:
  "dget (fst st p) k = Some (c, own) \<Longrightarrow> PgRelease p k own \<notin> set calls \<Longrightarrow>
   dget (fst (fold (pg_step S) calls st) p) k = Some (c, own)"
proof (induction calls arbitrary: st)
  case (Cons call calls)
  have "dget (fst (pg_step S call st) p) k = Some (c, own)"
    using Cons.prems by (intro step_keeps) auto
  then show ?case using Cons.IH Cons.prems(2) by simp
qed simp

lemma recorded_excludes:
  assumes "lawful_server S" "held_ok S st" "dget (fst st p) k = Some (c, own)"
    and "key_to_bigint k' = key_to_bigint k" "(q, k', own') \<noteq> (p, k, own)"
  shows "fst (on_process q (pg_try_lock S k' own' ttl) st) \<noteq> Inr True"
proof
  assume got: "fst (on_process q (pg_try_lock S k' own' ttl) st) = Inr True"
  then have "held_ok S (snd (on_process q (pg_try_lock S k' own' ttl) st))"
    using step_held [OF assms(1,2), of "PgTry q k' own' ttl"] by simp
  moreover obtain c' where c': "dget (fst (snd (on_process q (pg_try_lock S k' own' ttl) st)) q) k' = Some (c', own')"
    using granted_recorded [where st = st] got by (metis prod.collapse)
  moreover have kept: "dget (fst (snd (on_process q (pg_try_lock S k' own' ttl) st)) p) k = Some (c, own)"
    using step_keeps [OF assms(3), of "PgTry q k' own' ttl"] by simp
  ultimately have "q = p \<and> k' = k" using assms(4) unfolding held_ok_def conn_of_def
    by (metis fst_conv option.simps(9))
  then show False using c' kept assms(5) by simp
qed

text \<open>
  C25. A PostgreSQL lock excludes everybody else, across processes and without a time limit. Whatever
  processes did before, and whatever they do after an attempt was granted (the database refusing any
  of the calls), until the holder itself releases the key no attempt of another process, of another
  owner in the same process, or on another key with the same hash is granted. The deadline that was
  asked for plays no part. (A connection that the server loses frees its locks; that is not modelled.)
\<close>

theorem pg_lock_exclusive:
  assumes "lawful_server S"
    and "on_process p (pg_try_lock S k own ttl) (fold (pg_step S) before (\<lambda>_. [], s)) = (Inr True, st)"
    and "PgRelease p k own \<notin> set since"
    and "key_to_bigint k' = key_to_bigint k" "(q, k', own') \<noteq> (p, k, own)"
  shows "fst (on_process q (pg_try_lock S k' own' ttl') (fold (pg_step S) since st)) \<noteq> Inr True"
proof -
  have "held_ok S (pg_step S (PgTry p k own ttl) (fold (pg_step S) before (\<lambda>_. [], s)))"
    by (intro step_held steps_held assms(1) start_held)
  then have "held_ok S (fold (pg_step S) since st)" using assms(2) by (intro steps_held assms(1)) simp
  moreover obtain c where "dget (fst (fold (pg_step S) since st) p) k = Some (c, own)"
    using granted_recorded [OF assms(2)] steps_keep [OF _ assms(3)] by blast
  ultimately show ?thesis by (rule recorded_excludes [OF assms(1) _ _ assms(4,5)])
qed

subsection \<open>A concrete server\<close>

record list_pg =
  lp_locks :: "(int \<times> nat) list"
  lp_out :: "nat list"

definition list_server :: "(list_pg, unit) pg_server" where
  "list_server = \<lparr>
     sv_connect = (\<lambda>s. let c = Suc (sum_list (lp_out s)) in (Inr c, s\<lparr>lp_out := c # lp_out s\<rparr>)),
     sv_try_advisory_lock = (\<lambda>c k s. if list_ex (\<lambda>(k', d). k' = k \<and> d \<noteq> c) (lp_locks s) then (Inr False, s)
        else (Inr True, s\<lparr>lp_locks := (k, c) # lp_locks s\<rparr>)),
     sv_advisory_unlock = (\<lambda>c k s. (Inr ((k, c) \<in> set (lp_locks s)), s\<lparr>lp_locks := removeAll (k, c) (lp_locks s)\<rparr>)),
     sv_close = (\<lambda>c s. s\<lparr>lp_out := removeAll c (lp_out s)\<rparr>),
     sv_locks = lp_locks, sv_out = lp_out\<rparr>"

lemma list_server_lawful: "lawful_server list_server"
proof -
  have "Suc (sum_list xs) \<notin> set xs" for xs :: "nat list"
    using member_le_sum_list [of "Suc (sum_list xs)" xs] by auto
  then show ?thesis
    unfolding lawful_server_def others_keep_def
    by (intro conjI allI) (auto simp: list_server_def Let_def list_ex_iff split: if_splits)
qed

theorem pg_lock_exclusive_witness:
  "fst (on_process 2 (pg_try_lock list_server ''network:net_1'' ''op_b'' 300)
     (fold (pg_step list_server) [PgRelease 2 ''network:net_1'' ''op_b'', PgIsLocked 2 ''network:net_1'']
       (snd (on_process 1 (pg_try_lock list_server ''network:net_1'' ''op_a'' 300)
         (\<lambda>_. [], \<lparr>lp_locks = [], lp_out = []\<rparr>))))) \<noteq> Inr True"
  by (rule pg_lock_exclusive [OF list_server_lawful, where p = 1 and k = "''network:net_1''" and own = "''op_a''"
        and ttl = 300 and before = "[]" and s = "\<lparr>lp_locks = [], lp_out = []\<rparr>"])
    (simp_all add: on_process_def pg_try_lock_def list_server_def)

end
