(* ===== verification/Spec2Isabelle.thy ===== *)
theory Spec2Isabelle
  imports Fake_Ovsdb Convergence Token_Safety Catalogue_Properties Admin_Properties Webhook_Delivery Housekeeping_Properties Sql_Properties
    Agent_Nftables Agent_Ovs Agent_Coredns Backup Pg_Locks
begin

text \<open>
  A model of the Nervum SDN controller and its node agent.

  \<^bold>\<open>The program.\<close> Nervum keeps the intended state of virtual networks (type, subnet, members,
  edge services), compares it with what Open vSwitch nodes report, and sends the difference to an
  agent on each node as a list of idempotent steps. Around that core stand IP address management,
  node enrolment, a catalogue of further resources (ports, security groups and policies, routers,
  load balancers, VPN tunnels, schedules), service accounts with roles, a journal of events with
  webhooks, drift detection, background sweeps and two sets of repositories, in memory and over SQL.
  The controller is \<open>src/src/sdn_controller\<close>, the agent \<open>src/src/netos_agent\<close>; paths below are
  relative to the first, and to the second where they begin with \<open>agent:\<close>.

  \<^bold>\<open>How the model is written.\<close> A dataclass is a record whose constructor (\<open>mk_...\<close>) runs the
  checks of \<open>__post_init__\<close>; an enumeration is a datatype; a dict is an insertion-ordered list of
  pairs (\<open>Prelude\<close>), so iteration order is the order the code sees. A function that may raise returns
  \<open>exc + 'a\<close>, with one constructor per exception class (\<open>Errors\<close>). A use case is an action on the
  state of the repositories (\<open>Use_Case\<close>): it may raise anywhere, and what it wrote before stays
  written. Clock readings and uuids are the environment of an action; times are microseconds.

  \<^bold>\<open>Values and entities.\<close>
  \<^item> \<open>Errors\<close>, \<open>Ids\<close>, \<open>Enums\<close>: \<open>core/value_objects/errors.py\<close>, \<open>ids.py\<close>, \<open>enums.py\<close>.
  \<^item> \<open>PyIp\<close>, \<open>Calendar\<close>, \<open>Json\<close>, \<open>Json_Text\<close>: the parts of Python's \<open>ipaddress\<close>, \<open>datetime\<close> and
    \<open>json\<close> the code calls. \<open>Ip_Text\<close>: an IPv4 address has one accepted text.
  \<^item> \<open>Ipam_Values\<close>, \<open>Edge_Services\<close>, \<open>Network\<close>, \<open>Node\<close>, \<open>Operation\<close>, \<open>Outbox\<close>, \<open>Admin_Entities\<close>: the
    entities of the platform; \<open>N1_Entities\<close> to \<open>N5_Entities\<close>: those of the catalogue.
  \<^item> \<open>Ip_Allocator\<close>, \<open>Diff_Engine\<close>, \<open>Planner\<close>, \<open>Cron\<close>, \<open>Configurators\<close>: the services of
    \<open>core/services/\<close>; the configurators generate nftables, FRR, keepalived, haproxy, WireGuard and
    other texts, as the bytes of their UTF-8 encoding.

  \<^bold>\<open>Southbound.\<close> \<open>Agent_Port\<close> is the port (\<open>ports/agent.py\<close>). \<open>Switch\<close> is the abstract switch, as
  finite maps, and the locale \<open>ovs_backend\<close>: an executor of steps that refines it inherits
  convergence and the frame of foreign objects. \<open>Fake_Agent\<close> (\<open>adapters/netos_agent/fake.py\<close>) and
  \<open>Fake_Ovsdb\<close> (\<open>agent: adapters/ovsdb_fake\<close>, the other in-memory adapters and
  \<open>core/use_cases/apply_plan.py\<close>) are its two interpretations; \<open>Agent_Plan\<close> is the plan on the wire, from
  \<open>adapters/netos_agent/client.py\<close> to the request models and value objects of the agent.

  \<^bold>\<open>The agent's machine.\<close> \<open>Agent_Host\<close> is the files and processes the real adapters of the agent work on.
  \<open>Agent_Nftables\<close>, \<open>Agent_Ovs\<close>, \<open>Agent_Dnsmasq\<close> and \<open>Agent_Coredns\<close> are \<open>agent: adapters/firewall_nftables\<close>,
  \<open>ovsdb_subprocess\<close>, \<open>dhcp_dnsmasq\<close> and \<open>dns_coredns\<close>: what they render, run, read back and remember, and what becomes of that
  when the programs accept and when they fail.

  \<^bold>\<open>Use cases.\<close> \<open>World\<close> holds the repositories of the platform, \<open>Locks\<close> the two lock stores and
  their contract. \<open>Network_Use_Cases\<close>, \<open>Ipam_Use_Cases\<close>, \<open>Node_Use_Cases\<close> and \<open>Reconcile\<close> are the
  modules of \<open>core/use_cases/\<close> of those names (enrolment stands with the nodes); \<open>Drift\<close> is
  \<open>topology.py\<close>, \<open>Webhooks\<close> and \<open>Webhook_Delivery\<close> are \<open>webhooks.py\<close>, \<open>Housekeeping\<close> is
  \<open>background.py\<close>, \<open>Admin_Use_Cases\<close> accounts, tokens, projects, audit and snapshots, with the request
  authentication of \<open>adapters/http_api/auth.py\<close> and the recording of \<open>audit_middleware.py\<close>. \<open>Catalogue\<close> holds the repositories of the catalogue,
  \<open>N1_Use_Cases\<close> to \<open>N5_Use_Cases\<close> its use cases, one definition each.

  \<^bold>\<open>SQL.\<close> \<open>Sql_Values\<close>, \<open>Sql_Rows\<close>, \<open>Sql_Mappers\<close>, \<open>Sql_Catalogue_Mappers\<close>,
  \<open>Sql_Table\<close>, \<open>Sql_Repositories\<close> and \<open>Sql_Catalogue_Repositories\<close> are \<open>adapters/sql/\<close>: the rows, both
  directions of every mapper with the round trip, and every method of every repository. The database
  is a parameter, \<open>table_ops\<close>; \<open>lawful_table\<close> says what a table promises, and \<open>list_table\<close> is one that
  keeps the promise. \<open>Pg_Locks\<close> is the lock store over PostgreSQL's advisory locks, for several
  processes. The locale \<open>sql_repo\<close> turns a round trip and an update that writes every column
  into the laws of a dictionary; every repository interprets it.

  \<^bold>\<open>Backup.\<close> \<open>Backup\<close> is \<open>core/use_cases/backup.py\<close>, export, import and both directions of the JSON
  form. The import writes the same stores as the calls
  below and checks ids only, so it is not one of them: what holds over every sequence of calls holds
  as long as no bundle is imported, and \<open>Backup\<close> shows too what an import can break.

  \<^bold>\<open>The whole controller.\<close> \<open>System\<close>, \<open>Catalogue_System\<close> and \<open>Admin_Safety\<close> collect the calls into one
  type of requests and run any sequence of them, refused ones and applies against misbehaving agents
  included. \<open>Store_Invariants\<close>, \<open>Catalogue_Invariants\<close> and \<open>Catalogue_Links\<close> say what each store keeps
  and how each kind of write keeps it; \<open>Catalogue_Events\<close> shows that a call that raises has written
  nothing. Of the id factory they assume only that it never returns one text twice.

  \<^bold>\<open>What is proved.\<close>
  \<^item> Applying a network: with agents that carry out their plans an apply ends compliant and
    leaves foreign objects alone (\<open>Convergence\<close>); whatever the agents do, success is reported only after
    every member was observed compliant, and the lock is released on every path (\<open>Reconcile\<close>); the plan
    the controller sends is the plan the agent reads (\<open>Agent_Plan\<close>), and running it reaches compliance
    (\<open>Fake_Ovsdb\<close>); the drift report is empty exactly for compliant members (\<open>Drift\<close>).
  \<^item> Over every sequence of the modelled calls (a bundle import is none of them): the stores stay consistent, no IPv4 address is given out
    twice, allocations stay inside their subnet, an enrolment token admits one agent, a disabled account
    and a revoked token stay locked out, a refused call writes nothing, the catalogue's stores agree and
    its entries stay valid, an applied policy carries the text of its current rules.
  \<^item> Background work: webhooks are delivered at least once and in order, the retention sweep
    ends and archives what it deletes, the reaper stores what readers derive, the scheduler reaches
    every due schedule.
  \<^item> SQL: over any lawful database the repositories behave like the dictionaries of the
    in-memory ones, but for the update of a network.
  \<^item> Backup: a bundle restores a controller, but for what it leaves out. Locks over PostgreSQL
    exclude every other process.
  \<^item> Behaviour the code's texts do not promise is stated as it is: the lost update of a network's
    edge services over SQL, port names that collide, rules on groups compiled to comments, the
    scheduler that applies nothing, DHCP intents the agent refuses, the import that checks ids only, a
    switch adapter that never shows compliance, firewall and DHCP changes that are not retried.

  \<^bold>\<open>Parameters.\<close> SHA-256, HMAC, random bytes and token texts; the answers of agents, of webhook
  targets and of the audit archive; the callbacks of the scheduler; the database (\<open>table_ops\<close>, \<open>pg_server\<close>); the programs on the agent's
  machine (\<open>programs\<close>); \<open>json.loads\<close> (\<open>loads\<close>) and \<open>datetime.fromisoformat\<close> (\<open>fromiso\<close>). A theorem that
  needs more of one than its type says so in a hypothesis, and its witness has a concrete instance.

  \<^bold>\<open>Bounds and fuel.\<close> Only the audit loop of the retention sweep runs on fuel; one more than
  the number of audit events is enough, which is part of its theorem. Every other loop is a
  recursion over the list it walks. Characters are those below 256; Python's integers are \<open>int\<close>.

  \<^bold>\<open>Not modelled.\<close> HTTP routing and Pydantic models of the controller's own API, the command line
  client, migrations, settings, tracing and logging (no state or decisions of the core); the
  snapshots on the disk of the agent (files around the dump and restore of the switch); the rate limit
  (floating-point buckets); message texts
  of errors; the transport to agents and webhook targets; concurrency inside one process (a call runs
  to its end before the next one starts; two controllers meet only in the lock stores).
\<close>

end
